(* ===== verification/Prelude.thy ===== *)
theory Prelude
  imports Main "HOL-Library.Sublist"
begin

text \<open>
  Shared vocabulary of the development: the exceptions the services raise, a result type
  with its bind, and the parts of Python's \<open>str\<close> and \<open>int\<close> and of SQL's \<open>LIKE\<close> that the
  modelled code calls. A Python string is a \<open>string\<close> whose characters are read as the code
  points 0 to 255; the predicates below follow Python on all of that range (so
  \<open>str.isdigit\<close> accepts the superscript digits that \<open>int()\<close> rejects).
\<close>

named_theorems res_simps \<open>inversion of the result monad\<close>

section \<open>Exceptions and results\<close>

text \<open>
  The classes of \<open>app/core/exceptions.py\<close> carry their machine-readable error code; the
  human-readable message is not modelled. \<open>IntegrityError\<close> is the database driver's,
  \<open>ConstraintViolation\<close> one that names the violated constraint, \<open>DataError\<close> a value a column does
  not hold and \<open>MultipleResultsFound\<close> the refusal of \<open>scalar_one_or_none\<close>; \<open>ToolRegistryError\<close> is the
  tool registry's, \<open>RedisError\<close> a reply of Redis; the other constructors are Python's own.
\<close>

datatype exn =
    NotFound string
  | Duplicate string
  | Authentication string
  | Authorization string
  | BusinessRule string
  | InvalidParameter string
  | Unprocessable string
  | InvalidManifest
  | RuntimeError
  | ValueError
  | TypeError
  | KeyError
  | AssertionError
  | TimeoutError
  | CancelledError
  | IntegrityError
  | ToolRegistryError
  | AttributeError
  | RedisError
  | ConstraintViolation string
  | DataError
  | MultipleResultsFound

type_synonym 'a res = "exn + 'a"

definition bindE :: "'a res \<Rightarrow> ('a \<Rightarrow> 'b res) \<Rightarrow> 'b res" where
  "bindE m f = (case m of Inl e \<Rightarrow> Inl e | Inr x \<Rightarrow> f x)"

definition guardE :: "bool \<Rightarrow> exn \<Rightarrow> unit res" where
  "guardE b e = (if b then Inr () else Inl e)"

fun mapE :: "('a \<Rightarrow> 'b res) \<Rightarrow> 'a list \<Rightarrow> 'b list res" where
  "mapE f [] = Inr []"
| "mapE f (x # xs) = bindE (f x) (\<lambda>y. bindE (mapE f xs) (\<lambda>ys. Inr (y # ys)))"

definition is_ok :: "'a res \<Rightarrow> bool" where
  "is_ok r = (case r of Inl _ \<Rightarrow> False | Inr _ \<Rightarrow> True)"

lemma bindE_simps [simp]:
  "bindE (Inl e) f = Inl e"
  "bindE (Inr x) f = f x"
  by (simp_all add: bindE_def)

lemma bindE_eq_Inr [res_simps]: "bindE m f = Inr y \<longleftrightarrow> (\<exists>x. m = Inr x \<and> f x = Inr y)"
  by (cases m) auto

lemma bindE_eq_Inl [res_simps]:
  "bindE m f = Inl e \<longleftrightarrow> m = Inl e \<or> (\<exists>x. m = Inr x \<and> f x = Inl e)"
  by (cases m) auto

lemma ex_unit: "(\<exists>u :: unit. P u) \<longleftrightarrow> P ()"
  by (metis (full_types) old.unit.exhaust)

lemma guardE_eq_Inr [simp, res_simps]: "guardE b e = Inr u \<longleftrightarrow> b"
  by (simp add: guardE_def)

lemma guardE_eq_Inl [simp, res_simps]: "guardE b e = Inl e' \<longleftrightarrow> \<not> b \<and> e' = e"
  by (auto simp: guardE_def)

lemma guardE_True [simp]: "guardE True e = Inr ()"
  by (simp add: guardE_def)

lemma guardE_False [simp]: "guardE False e = Inl e"
  by (simp add: guardE_def)

lemma is_ok_simps [simp]:
  "is_ok (Inl e) = False"
  "is_ok (Inr x) = True"
  by (simp_all add: is_ok_def)

lemma is_ok_iff: "is_ok r \<longleftrightarrow> (\<exists>x. r = Inr x)"
  by (cases r) auto

lemma mapE_eq_Inr:
  "mapE f xs = Inr ys \<longleftrightarrow> length xs = length ys \<and> (\<forall>i < length xs. f (xs ! i) = Inr (ys ! i))"
proof (induction xs arbitrary: ys)
  case Nil
  then show ?case by auto
next
  case (Cons x xs)
  show ?case
    by (cases ys) (auto simp: res_simps Cons.IH All_less_Suc2)
qed

lemma mapE_Inr_in: "mapE f xs = Inr ys \<Longrightarrow> x \<in> set xs \<Longrightarrow> \<exists>y \<in> set ys. f x = Inr y"
  by (metis in_set_conv_nth mapE_eq_Inr)

section \<open>Decimal text\<close>

definition digit_char :: "nat \<Rightarrow> char" where
  "digit_char n = char_of (48 + n)"

definition digit_val :: "char \<Rightarrow> nat" where
  "digit_val c = of_char c - 48"

definition is_dec :: "char \<Rightarrow> bool" where
  "is_dec c \<longleftrightarrow> 48 \<le> (of_char c :: nat) \<and> (of_char c :: nat) \<le> 57"

fun show_nat :: "nat \<Rightarrow> string" where
  "show_nat n = (if n < 10 then [digit_char n] else show_nat (n div 10) @ [digit_char (n mod 10)])"

declare show_nat.simps [simp del]

definition parse_dec :: "string \<Rightarrow> nat" where
  "parse_dec s = foldl (\<lambda>a c. 10 * a + digit_val c) 0 s"

definition show_int :: "int \<Rightarrow> string" where
  "show_int i = (if i < 0 then CHR ''-'' # show_nat (nat (- i)) else show_nat (nat i))"

lemma of_char_digit_char: "n < 10 \<Longrightarrow> (of_char (digit_char n) :: nat) = 48 + n"
  by (simp add: digit_char_def)

lemma digit_val_digit_char [simp]: "n < 10 \<Longrightarrow> digit_val (digit_char n) = n"
  by (simp add: digit_val_def of_char_digit_char)

lemma is_dec_digit_char [simp]: "n < 10 \<Longrightarrow> is_dec (digit_char n)"
  by (simp add: is_dec_def of_char_digit_char)

lemma parse_dec_snoc: "parse_dec (s @ [c]) = 10 * parse_dec s + digit_val c"
  by (simp add: parse_dec_def)

lemma parse_show_nat [simp]: "parse_dec (show_nat n) = n"
proof (induction n rule: show_nat.induct)
  case (1 n)
  show ?case
  proof (cases "n < 10")
    case True
    then show ?thesis by (simp add: show_nat.simps[of n] parse_dec_def)
  next
    case False
    with 1 show ?thesis
      by (simp add: show_nat.simps[of n] parse_dec_snoc)
  qed
qed

lemma show_nat_nonempty [simp]: "show_nat n \<noteq> []"
  by (subst show_nat.simps) simp

lemma show_nat_dec: "c \<in> set (show_nat n) \<Longrightarrow> is_dec c"
proof (induction n rule: show_nat.induct)
  case (1 n)
  then show ?case
    by (cases "n < 10") (auto simp: show_nat.simps[of n])
qed

lemma show_nat_inj [simp]: "show_nat m = show_nat n \<longleftrightarrow> m = n"
  by (metis parse_show_nat)

lemma not_dec_chars [simp]:
  "\<not> is_dec CHR '',''" "\<not> is_dec CHR ''-''" "\<not> is_dec CHR ''%''"
  "\<not> is_dec CHR ''_''" "\<not> is_dec CHR 0x5C" "\<not> is_dec CHR '':''"
  by (simp_all add: is_dec_def)

lemma show_int_nonempty [simp]: "show_int i \<noteq> []"
  by (simp add: show_int_def)

lemma show_int_chars: "c \<in> set (show_int i) \<Longrightarrow> is_dec c \<or> c = CHR ''-''"
  by (auto simp: show_int_def dest: show_nat_dec split: if_splits)

lemma show_nat_no_minus: "CHR ''-'' # s \<noteq> show_nat n"
  by (metis list.set_intros(1) not_dec_chars(2) show_nat_dec)

lemma show_int_inj [simp]: "show_int i = show_int j \<longleftrightarrow> i = j"
  using show_nat_no_minus by (auto simp: show_int_def split: if_splits) (metis nat_le_eq_zle)+

lemma show_int_no_special:
  "CHR '','' \<notin> set (show_int i)" "CHR ''%'' \<notin> set (show_int i)"
  "CHR ''_'' \<notin> set (show_int i)" "CHR 0x5C \<notin> set (show_int i)"
  "CHR '':'' \<notin> set (show_int i)"
  by (auto dest!: show_int_chars)

section \<open>Substrings, splitting, LIKE\<close>

text \<open>\<open>str_in w s\<close> is Python's \<open>w in s\<close>, \<open>split_on c s\<close> is \<open>s.split(c)\<close> for a one-character
  separator, and \<open>sql_like p s\<close> is PostgreSQL's \<open>s LIKE p\<close> with its default escape.\<close>

fun str_in :: "string \<Rightarrow> string \<Rightarrow> bool" where
  "str_in w [] = (w = [])"
| "str_in w (c # s) = (prefix w (c # s) \<or> str_in w s)"

fun split_on :: "char \<Rightarrow> string \<Rightarrow> string list" where
  "split_on c [] = [[]]"
| "split_on c (x # s) =
     (if x = c then [] # split_on c s
      else (case split_on c s of [] \<Rightarrow> [[x]] | p # ps \<Rightarrow> (x # p) # ps))"

fun sql_like :: "string \<Rightarrow> string \<Rightarrow> bool" where
  "sql_like [] s = (s = [])"
| "sql_like (p # ps) [] = (p = CHR ''%'' \<and> sql_like ps [])"
| "sql_like (p # ps) (x # s) =
     (if p = CHR ''%'' then sql_like ps (x # s) \<or> sql_like (p # ps) s
      else if p = CHR ''_'' then sql_like ps s
      else if p = CHR 0x5C then (case ps of [] \<Rightarrow> False | q # qs \<Rightarrow> x = q \<and> sql_like qs s)
      else x = p \<and> sql_like ps s)"

definition like_literal :: "string \<Rightarrow> bool" where
  "like_literal w \<longleftrightarrow> CHR ''%'' \<notin> set w \<and> CHR ''_'' \<notin> set w \<and> CHR 0x5C \<notin> set w"

lemma split_on_nonempty [simp]: "split_on c s \<noteq> []"
  by (cases s) (auto split: list.splits)

lemma split_on_parts: "w \<in> set (split_on c s) \<Longrightarrow> c \<notin> set w"
  by (induction s arbitrary: w) (auto split: if_splits list.splits)

lemma prefix_split_on:
  "c \<notin> set w \<Longrightarrow> prefix (w @ [c]) (s @ [c]) \<longleftrightarrow> hd (split_on c s) = w"
proof (induction s arbitrary: w)
  case Nil
  then show ?case by (cases w) auto
next
  case (Cons x s)
  show ?case
  proof (cases w)
    case Nil
    then show ?thesis by (auto split: list.splits)
  next
    case (Cons y ys)
    then show ?thesis
      using Cons.IH[of ys] Cons.prems by (auto split: list.splits)
  qed
qed

lemma str_in_split_on:
  "c \<notin> set w \<Longrightarrow> str_in (c # w @ [c]) (s @ [c]) \<longleftrightarrow> w \<in> set (tl (split_on c s))"
proof (induction s)
  case Nil
  then show ?case by (cases w) auto
next
  case (Cons x s)
  show ?case
  proof (cases "x = c")
    case True
    have "w \<in> set (split_on c s) \<longleftrightarrow> hd (split_on c s) = w \<or> w \<in> set (tl (split_on c s))"
      by (cases "split_on c s") (auto simp: split_on_nonempty)
    with True Cons show ?thesis by (auto simp: prefix_split_on simp del: prefix_snoc)
  next
    case False
    with Cons show ?thesis
      by (cases "split_on c s") (auto simp: split_on_nonempty)
  qed
qed

text \<open>\<open>join_on c xs\<close> is \<open>c.join(xs)\<close>.\<close>

fun join_on :: "char \<Rightarrow> string list \<Rightarrow> string" where
  "join_on c [] = []"
| "join_on c [p] = p"
| "join_on c (p # q # ps) = p @ c # join_on c (q # ps)"

lemma join_split: "join_on c (split_on c s) = s"
proof (induction s)
  case Nil
  then show ?case by simp
next
  case (Cons x s)
  then show ?case by (cases "split_on c s"; cases "tl (split_on c s)") (auto split: list.splits)
qed

lemma join_append: "xs \<noteq> [] \<Longrightarrow> ys \<noteq> [] \<Longrightarrow> join_on c (xs @ ys) = join_on c xs @ c # join_on c ys"
proof (induction c xs rule: join_on.induct)
  case (2 c p)
  then show ?case by (cases ys) auto
qed auto

lemma split_append: "split_on c (a @ c # b) = split_on c a @ split_on c b"
proof (induction a)
  case (Cons x a)
  then show ?case by (cases "split_on c a") auto
qed simp

lemma split_none: "c \<notin> set w \<Longrightarrow> split_on c w = [w]"
  by (induction w) auto

lemma split_join:
  "xs \<noteq> [] \<Longrightarrow> \<forall>x \<in> set xs. c \<notin> set x \<Longrightarrow> split_on c (join_on c xs) = xs"
  by (induction c xs rule: join_on.induct) (auto simp: split_none split_append)

text \<open>The anchoring trick of the code base: surround both sides with the separator.\<close>

lemma anchored_member:
  assumes "c \<notin> set w"
  shows "str_in (c # w @ [c]) (c # s @ [c]) \<longleftrightarrow> w \<in> set (split_on c s)"
  using str_in_split_on[OF assms, of "c # s"] by simp

lemma sql_like_any [simp]: "sql_like ''%'' s"
  by (induction s) auto

lemma sql_like_lit:
  "like_literal w \<Longrightarrow> sql_like (w @ ''%'') s \<longleftrightarrow> prefix w s"
proof (induction w arbitrary: s)
  case Nil
  then show ?case by simp
next
  case (Cons x w)
  then show ?case
    by (cases s) (auto simp: like_literal_def)
qed

lemma sql_like_contains:
  assumes "like_literal w"
  shows "sql_like (''%'' @ w @ ''%'') s \<longleftrightarrow> str_in w s"
proof (induction s)
  case Nil
  show ?case using sql_like_lit[OF assms, of "[]"] by simp
next
  case (Cons x s)
  then show ?case using sql_like_lit[OF assms, of "x # s"] by simp
qed

section \<open>Python's str.isdigit and int()\<close>

text \<open>\<open>str.isdigit\<close> also accepts the superscripts two, three and one (code points 178, 179 and
  185), which \<open>int()\<close> refuses with \<open>ValueError\<close>. \<open>py_int\<close> strips white space, takes one
  optional sign and digits that single underscores may separate.\<close>

definition py_isdigit :: "string \<Rightarrow> bool" where
  "py_isdigit s \<longleftrightarrow> s \<noteq> [] \<and>
     list_all (\<lambda>c. is_dec c \<or> of_char c \<in> {178, 179, 185 :: nat}) s"

definition py_space :: "char \<Rightarrow> bool" where
  "py_space c \<longleftrightarrow> (of_char c :: nat) \<in> {9, 10, 11, 12, 13, 28, 29, 30, 31, 32, 133, 160}"

definition py_strip :: "string \<Rightarrow> string" where
  "py_strip s = rev (dropWhile py_space (rev (dropWhile py_space s)))"

fun dec_groups :: "bool \<Rightarrow> string \<Rightarrow> string option" where
  "dec_groups seen [] = (if seen then Some [] else None)"
| "dec_groups seen (c # s) =
     (if is_dec c then map_option ((#) c) (dec_groups True s)
      else if c = CHR ''_'' \<and> seen then dec_groups False s
      else None)"

definition py_int :: "string \<Rightarrow> int res" where
  "py_int s =
     (let t = py_strip s;
          (neg, body) = (case t of
             [] \<Rightarrow> (False, [])
           | c # r \<Rightarrow> if c = CHR ''-'' then (True, r) else if c = CHR ''+'' then (False, r) else (False, t))
      in case dec_groups False body of
           None \<Rightarrow> Inl ValueError
         | Some ds \<Rightarrow> Inr (if neg then - int (parse_dec ds) else int (parse_dec ds)))"

lemma dec_groups_dec: "list_all is_dec s \<Longrightarrow> dec_groups True s = Some s"
  by (induction s) auto

lemma dec_groups_dec_nonempty: "list_all is_dec s \<Longrightarrow> s \<noteq> [] \<Longrightarrow> dec_groups False s = Some s"
  by (cases s) (auto simp: dec_groups_dec)

lemma dec_not_space: "is_dec c \<Longrightarrow> \<not> py_space c"
  by (auto simp: is_dec_def py_space_def)

lemma py_strip_dec: "list_all is_dec s \<Longrightarrow> py_strip s = s"
proof -
  have "dropWhile py_space xs = xs" if "list_all is_dec xs" for xs
    using that by (cases xs) (auto simp: dec_not_space)
  moreover assume "list_all is_dec s"
  moreover from this have "list_all is_dec (rev s)" by (simp add: list_all_iff)
  ultimately show ?thesis by (simp add: py_strip_def)
qed

lemma list_all_show_nat [simp]: "list_all is_dec (show_nat n)"
  by (simp add: list_all_iff show_nat_dec)

lemma py_isdigit_show_nat [simp]: "py_isdigit (show_nat n)"
  using list_all_show_nat[of n] by (auto simp: py_isdigit_def list_all_iff)

lemma py_int_dec:
  assumes "list_all is_dec s" "s \<noteq> []"
  shows "py_int s = Inr (int (parse_dec s))"
proof -
  obtain c r where s: "s = c # r" using assms(2) by (cases s) auto
  then have "c \<noteq> CHR ''-''" "c \<noteq> CHR ''+''"
    using assms(1) by (auto simp: is_dec_def)
  with assms s show ?thesis
    by (simp add: py_int_def py_strip_dec Let_def dec_groups_dec)
qed

lemma py_int_show_nat [simp]: "py_int (show_nat n) = Inr (int n)"
  by (simp add: py_int_dec)

lemma py_strip_minus_dec: "list_all is_dec s \<Longrightarrow> s \<noteq> [] \<Longrightarrow> py_strip (CHR ''-'' # s) = CHR ''-'' # s"
proof -
  assume s: "list_all is_dec s" "s \<noteq> []"
  have minus: "\<not> py_space CHR ''-''" by (simp add: py_space_def)
  have "dropWhile py_space (rev s @ [CHR ''-'']) = rev s @ [CHR ''-'']"
    using s by (cases s rule: rev_cases) (auto simp: dec_not_space)
  with minus show ?thesis by (simp add: py_strip_def)
qed

lemma py_int_show_int [simp]: "py_int (show_int i) = Inr i"
proof (cases "i < 0")
  case True
  have "py_strip (CHR ''-'' # show_nat (nat (- i))) = CHR ''-'' # show_nat (nat (- i))"
    by (simp add: py_strip_minus_dec)
  with True show ?thesis
    by (simp add: show_int_def py_int_def Let_def dec_groups_dec_nonempty)
next
  case False
  then show ?thesis by (simp add: show_int_def)
qed

lemma show_int_of_nat [simp]: "show_int (int n) = show_nat n"
  by (simp add: show_int_def)

end
