(* ===== verification/Entities.thy ===== *)
theory Entities
  imports Prelude
begin

text \<open>
  The rows the authorization services read, one record per ORM class or association table
  of \<open>app/modules/system/models\<close> and \<open>app/db/base.py\<close>, with the columns that the modelled
  code uses. A database is the list of rows of each table; a \<open>select\<close> is a comprehension over
  those lists, so tenant predicates stay visible in every query. A \<open>TenantContext\<close> enters
  these services only through its \<open>tenant_id\<close>, which is an \<open>int\<close> here.
\<close>

section \<open>Constants of app/constants/constants.py\<close>

definition SUPER_ADMIN_ROLE_CODE :: string where "SUPER_ADMIN_ROLE_CODE = ''R_SUPER''"
definition ADMIN_USERNAME :: string where "ADMIN_USERNAME = ''admin''"
definition STATUS_ENABLED :: string where "STATUS_ENABLED = ''1''"
definition STATUS_DISABLED :: string where "STATUS_DISABLED = ''2''"
definition DATA_SCOPE_ALL :: string where "DATA_SCOPE_ALL = ''1''"
definition DATA_SCOPE_CUSTOM :: string where "DATA_SCOPE_CUSTOM = ''2''"
definition DATA_SCOPE_DEPT :: string where "DATA_SCOPE_DEPT = ''3''"
definition DATA_SCOPE_DEPT_AND_SUB :: string where "DATA_SCOPE_DEPT_AND_SUB = ''4''"
definition DATA_SCOPE_SELF :: string where "DATA_SCOPE_SELF = ''5''"

lemmas scope_consts =
  DATA_SCOPE_ALL_def DATA_SCOPE_CUSTOM_def DATA_SCOPE_DEPT_def
  DATA_SCOPE_DEPT_AND_SUB_def DATA_SCOPE_SELF_def

lemma scope_consts_distinct [simp]:
  "DATA_SCOPE_ALL \<noteq> DATA_SCOPE_CUSTOM" "DATA_SCOPE_ALL \<noteq> DATA_SCOPE_DEPT"
  "DATA_SCOPE_ALL \<noteq> DATA_SCOPE_DEPT_AND_SUB" "DATA_SCOPE_ALL \<noteq> DATA_SCOPE_SELF"
  "DATA_SCOPE_CUSTOM \<noteq> DATA_SCOPE_DEPT" "DATA_SCOPE_CUSTOM \<noteq> DATA_SCOPE_DEPT_AND_SUB"
  "DATA_SCOPE_CUSTOM \<noteq> DATA_SCOPE_SELF" "DATA_SCOPE_DEPT \<noteq> DATA_SCOPE_DEPT_AND_SUB"
  "DATA_SCOPE_DEPT \<noteq> DATA_SCOPE_SELF" "DATA_SCOPE_DEPT_AND_SUB \<noteq> DATA_SCOPE_SELF"
  by (simp_all add: scope_consts)

lemmas scope_consts_distinct' [simp] = scope_consts_distinct [symmetric]

section \<open>Rows\<close>

record menu =
  menu_id :: int
  menu_permission :: "string option"

record dept =
  dept_id :: int
  dept_tenant :: int
  dept_status :: string
  dept_ancestors :: "string option"

record role =
  role_id :: int
  role_tenant :: int
  role_code :: string
  role_name :: string
  role_status :: string
  data_scope :: string
  role_menus :: "menu list"
  role_dept_links :: "dept list"

record user =
  user_id :: int
  user_tenant :: int
  user_name :: string
  user_status :: string
  user_roles :: "role list"
  user_depts :: "dept list"

text \<open>\<open>db_role_depts\<close> and \<open>db_user_depts\<close> hold \<open>(tenant_id, role_id, dept_id)\<close> and
  \<open>(tenant_id, user_id, dept_id)\<close>; \<open>db_users\<close> holds \<open>(tenant_id, user_id)\<close>.\<close>

record scope_db =
  db_depts :: "dept list"
  db_role_depts :: "(int \<times> int \<times> int) list"
  db_user_depts :: "(int \<times> int \<times> int) list"
  db_users :: "(int \<times> int) list"

section \<open>Super-administrator checks (app/core/rbac.py)\<close>

definition is_super_admin :: "user \<Rightarrow> bool" where
  "is_super_admin u \<longleftrightarrow>
     (\<exists>r \<in> set (user_roles u). role_code r = SUPER_ADMIN_ROLE_CODE \<and> role_status r = STATUS_ENABLED)"

definition DEFAULT_TENANT_ID :: int where "DEFAULT_TENANT_ID = 0"

definition is_system_admin :: "user \<Rightarrow> bool" where
  "is_system_admin u \<longleftrightarrow>
     user_tenant u = DEFAULT_TENANT_ID \<and> user_status u = STATUS_ENABLED \<and>
     (\<exists>r \<in> set (user_roles u).
        role_tenant r = DEFAULT_TENANT_ID \<and> role_code r = SUPER_ADMIN_ROLE_CODE \<and>
        role_status r = STATUS_ENABLED)"

lemma system_admin_is_super: "is_system_admin u \<Longrightarrow> is_super_admin u"
  by (auto simp: is_system_admin_def is_super_admin_def)

section \<open>Permission codes (app/modules/auth/permission_collect.py)\<close>

text \<open>\<open>if menu.permission\<close> skips both a missing and an empty code.\<close>

definition menu_codes :: "menu list \<Rightarrow> string set" where
  "menu_codes ms =
     set (concat (map (\<lambda>m. case menu_permission m of
        None \<Rightarrow> [] | Some p \<Rightarrow> if p = [] then [] else [p]) ms))"

definition collect_user_permission_codes :: "user \<Rightarrow> string set" where
  "collect_user_permission_codes u =
     fold (\<lambda>r acc. if role_status r \<noteq> STATUS_ENABLED then acc else acc \<union> menu_codes (role_menus r))
       (user_roles u) {}"

lemma fold_collect:
  "fold (\<lambda>r acc. if role_status r \<noteq> STATUS_ENABLED then acc else acc \<union> menu_codes (role_menus r)) rs acc
   = acc \<union> (\<Union>r \<in> {r \<in> set rs. role_status r = STATUS_ENABLED}. menu_codes (role_menus r))"
  by (induction rs arbitrary: acc) auto

lemma collect_user_permission_codes_eq:
  "collect_user_permission_codes u =
     (\<Union>r \<in> {r \<in> set (user_roles u). role_status r = STATUS_ENABLED}. menu_codes (role_menus r))"
  by (simp add: collect_user_permission_codes_def fold_collect)

end
