(* ===== verification/Data_Scope.thy ===== *)
theory Data_Scope
  imports Entities
begin

text \<open>
  \<open>app/utils/data_scope.py\<close>: the resolution of a principal's data scope as the union of its
  enabled roles' scopes, the legacy single-best-scope resolution it replaces, and the SQL
  filters built from a resolution. A \<open>Select\<close> of user ids is kept as a statement and given
  its meaning by \<open>eval_user_scope\<close>. Python sets returned through \<open>list(set(...))\<close> are sets.
\<close>

section \<open>Constants and results\<close>

definition KNOWN_DATA_SCOPES :: "string set" where
  "KNOWN_DATA_SCOPES =
     {DATA_SCOPE_ALL, DATA_SCOPE_CUSTOM, DATA_SCOPE_DEPT, DATA_SCOPE_DEPT_AND_SUB, DATA_SCOPE_SELF}"

datatype select_stmt =
    SelectUser int int
  | SelectDeptMembers int "int set"

datatype user_scope =
    Single select_stmt
  | Union "select_stmt list"

record resolution =
  res_tenant :: int
  scope_kinds :: "string set"
  accessible_dept_ids :: "int set option"
  accessible_user_scope :: "user_scope option"
  include_self :: bool
  unbounded :: bool

fun eval_stmt :: "scope_db \<Rightarrow> select_stmt \<Rightarrow> int set" where
  "eval_stmt db (SelectUser t u) =
     set (map snd (filter (\<lambda>(t', u'). t' = t \<and> u' = u) (db_users db)))"
| "eval_stmt db (SelectDeptMembers t ds) =
     set (map (\<lambda>(t', u, d). u) (filter (\<lambda>(t', u, d). t' = t \<and> d \<in> ds) (db_user_depts db)))"

fun eval_user_scope :: "scope_db \<Rightarrow> user_scope \<Rightarrow> int set" where
  "eval_user_scope db (Single s) = eval_stmt db s"
| "eval_user_scope db (Union ss) = (\<Union>s \<in> set ss. eval_stmt db s)"

section \<open>Department queries\<close>

definition enabled_roles :: "role list \<Rightarrow> role list" where
  "enabled_roles rs = filter (\<lambda>r. role_status r = STATUS_ENABLED) rs"

text \<open>The rows of \<open>role_depts\<close> joined with the enabled departments of the tenant;
  \<open>dept_id\<close> is the primary key of the department table, so the join keeps or drops a row.\<close>

definition enabled_dept :: "scope_db \<Rightarrow> int \<Rightarrow> int \<Rightarrow> bool" where
  "enabled_dept db t d \<longleftrightarrow>
     (\<exists>dp \<in> set (db_depts db). dept_id dp = d \<and> dept_tenant dp = t \<and> dept_status dp = STATUS_ENABLED)"

definition role_dept_rows :: "scope_db \<Rightarrow> int list \<Rightarrow> int \<Rightarrow> (int \<times> int) list" where
  "role_dept_rows db role_ids t =
     map snd (filter (\<lambda>(t', r, d). t' = t \<and> r \<in> set role_ids \<and> enabled_dept db t d) (db_role_depts db))"

definition custom_dept_ids_by_role :: "scope_db \<Rightarrow> int list \<Rightarrow> int \<Rightarrow> (int \<times> int set) list" where
  "custom_dept_ids_by_role db role_ids t =
     (if role_ids = [] then []
      else let rows = role_dept_rows db role_ids t
           in map (\<lambda>r. (r, set (map snd (filter (\<lambda>(r', d). r' = r) rows)))) role_ids)"

definition get_custom_dept_ids :: "scope_db \<Rightarrow> user \<Rightarrow> int \<Rightarrow> int set res" where
  "get_custom_dept_ids db u t =
     (let role_ids = map role_id (enabled_roles (user_roles u))
      in if user_tenant u \<noteq> t then Inl RuntimeError
         else if role_ids = [] then Inr {}
         else Inr (set (map snd (role_dept_rows db role_ids t))))"

text \<open>\<open>func.concat\<close> reads a NULL \<open>ancestors\<close> as the empty string.\<close>

definition anchored_ancestors :: "dept \<Rightarrow> string" where
  "anchored_ancestors d =
     '','' @ (case dept_ancestors d of None \<Rightarrow> [] | Some a \<Rightarrow> a) @ '',''"

definition get_dept_and_sub_ids :: "scope_db \<Rightarrow> int list \<Rightarrow> int \<Rightarrow> int set" where
  "get_dept_and_sub_ids db dept_ids t =
     (if dept_ids = [] then {}
      else set dept_ids \<union>
        set (map dept_id (filter (\<lambda>d. dept_tenant d = t \<and>
          (\<exists>i \<in> set dept_ids. sql_like (''%,'' @ show_int i @ '',%'') (anchored_ancestors d)))
          (db_depts db))))"

section \<open>Union resolution\<close>

definition build_user_scope :: "int \<Rightarrow> int \<Rightarrow> int set \<Rightarrow> bool \<Rightarrow> user_scope" where
  "build_user_scope uid t dept_ids incl =
     (let s1 = (if incl then [SelectUser t uid] else []);
          s2 = (if dept_ids \<noteq> {} then s1 @ [SelectDeptMembers t dept_ids] else s1);
          s3 = (if s2 = [] then [SelectUser t uid] else s2)
      in if length s3 = 1 then Single (hd s3) else Union s3)"

definition unbounded_resolution :: "int \<Rightarrow> string set \<Rightarrow> resolution" where
  "unbounded_resolution t kinds =
     \<lparr>res_tenant = t, scope_kinds = kinds, accessible_dept_ids = None,
      accessible_user_scope = None, include_self = True, unbounded = True\<rparr>"

definition bounded_resolution :: "int \<Rightarrow> string set \<Rightarrow> int \<Rightarrow> int set \<Rightarrow> bool \<Rightarrow> bool \<Rightarrow> resolution" where
  "bounded_resolution t kinds uid dept_ids scope_self incl =
     \<lparr>res_tenant = t, scope_kinds = kinds, accessible_dept_ids = Some dept_ids,
      accessible_user_scope = Some (build_user_scope uid t dept_ids scope_self),
      include_self = incl, unbounded = False\<rparr>"

definition known_scope_kinds :: "role list \<Rightarrow> string set" where
  "known_scope_kinds enabled =
     set (map data_scope (filter (\<lambda>r. data_scope r \<in> KNOWN_DATA_SCOPES) enabled))"

text \<open>The bounded part of \<open>resolve_data_scope_for_roles\<close>: the accumulated department ids and
  the \<open>include_self\<close> flag, in the order the code updates them.\<close>

definition accumulate_scopes ::
    "scope_db \<Rightarrow> role list \<Rightarrow> int list \<Rightarrow> string set \<Rightarrow> int \<Rightarrow> int set \<times> bool" where
  "accumulate_scopes db enabled own kinds t =
     (let st0 = ({}, DATA_SCOPE_SELF \<in> kinds);
          st1 = (if DATA_SCOPE_DEPT \<in> kinds
                 then (fst st0 \<union> set own, snd st0 \<or> own = []) else st0);
          st2 = (if DATA_SCOPE_DEPT_AND_SUB \<in> kinds
                 then (let subtree = get_dept_and_sub_ids db own t
                       in (fst st1 \<union> subtree, snd st1 \<or> subtree = {})) else st1);
          custom_ids = remdups (map role_id (filter (\<lambda>r. data_scope r = DATA_SCOPE_CUSTOM) enabled))
      in foldl (\<lambda>(ids, incl) (r, ds). (ids \<union> ds, incl \<or> ds = {})) st2
           (custom_dept_ids_by_role db custom_ids t))"

definition resolve_data_scope_for_roles ::
    "scope_db \<Rightarrow> user \<Rightarrow> role list \<Rightarrow> dept list option \<Rightarrow> int \<Rightarrow> resolution res" where
  "resolve_data_scope_for_roles db u roles depts t =
     (if user_tenant u \<noteq> t \<or> (\<exists>r \<in> set roles. role_tenant r \<noteq> t) \<or>
         (\<exists>d \<in> set (case depts of None \<Rightarrow> [] | Some ds \<Rightarrow> ds). dept_tenant d \<noteq> t)
      then Inl RuntimeError
      else let enabled = enabled_roles roles in
      if \<exists>r \<in> set enabled. role_code r = SUPER_ADMIN_ROLE_CODE
      then Inr (unbounded_resolution t {DATA_SCOPE_ALL})
      else let known = known_scope_kinds enabled;
               kinds = (if known = {} then {DATA_SCOPE_SELF} else known) in
      if DATA_SCOPE_ALL \<in> kinds then Inr (unbounded_resolution t kinds)
      else let own = remdups (map dept_id (case depts of Some ds \<Rightarrow> ds | None \<Rightarrow> user_depts u));
               (ids, incl) = accumulate_scopes db enabled own kinds t
           in Inr (bounded_resolution t kinds (user_id u) ids incl incl))"

definition resolve_data_scope :: "scope_db \<Rightarrow> user \<Rightarrow> int \<Rightarrow> resolution res" where
  "resolve_data_scope db u t = resolve_data_scope_for_roles db u (user_roles u) None t"

section \<open>Legacy resolution\<close>

definition scope_priority :: "string \<Rightarrow> nat" where
  "scope_priority s =
     (if s = DATA_SCOPE_ALL then 5 else if s = DATA_SCOPE_DEPT_AND_SUB then 4
      else if s = DATA_SCOPE_DEPT then 3 else if s = DATA_SCOPE_CUSTOM then 2
      else if s = DATA_SCOPE_SELF then 1 else 0)"

definition get_best_scope :: "user \<Rightarrow> string" where
  "get_best_scope u =
     foldl (\<lambda>best r. if role_status r \<noteq> ''1'' then best
                    else if scope_priority (data_scope r) > scope_priority best
                    then data_scope r else best)
       DATA_SCOPE_SELF (user_roles u)"

definition resolve_legacy_data_scope :: "scope_db \<Rightarrow> user \<Rightarrow> int \<Rightarrow> resolution res" where
  "resolve_legacy_data_scope db u t =
     (if user_tenant u \<noteq> t then Inl RuntimeError
      else if is_super_admin u then Inr (unbounded_resolution t {DATA_SCOPE_ALL})
      else let scope = get_best_scope u in
      if scope = DATA_SCOPE_ALL then Inr (unbounded_resolution t {scope})
      else let own = remdups (map dept_id (user_depts u)) in
      if scope = DATA_SCOPE_CUSTOM then
        bindE (get_custom_dept_ids db u t)
          (\<lambda>ids. Inr (bounded_resolution t {scope} (user_id u) ids (ids = {}) (ids = {})))
      else if scope = DATA_SCOPE_DEPT then
        Inr (bounded_resolution t {scope} (user_id u) (set own) (own = []) (own = []))
      else if scope = DATA_SCOPE_DEPT_AND_SUB then
        (let ids = get_dept_and_sub_ids db own t
         in Inr (bounded_resolution t {scope} (user_id u) ids (ids = {}) (ids = {})))
      else Inr (bounded_resolution t {scope} (user_id u) {} True True))"

definition resolve_legacy_ai_data_scope :: "scope_db \<Rightarrow> user \<Rightarrow> int \<Rightarrow> resolution res" where
  "resolve_legacy_ai_data_scope db u t =
     (if user_tenant u \<noteq> t then Inl RuntimeError
      else if is_super_admin u then Inr (unbounded_resolution t {DATA_SCOPE_ALL})
      else let scope = get_best_scope u in
      if scope = DATA_SCOPE_ALL then Inr (unbounded_resolution t {scope})
      else let own = remdups (map dept_id (user_depts u)) in
      bindE (if scope = DATA_SCOPE_CUSTOM then get_custom_dept_ids db u t
             else if scope = DATA_SCOPE_DEPT then Inr (set own)
             else if scope = DATA_SCOPE_DEPT_AND_SUB then Inr (get_dept_and_sub_ids db own t)
             else Inr (set own))
        (\<lambda>ids. Inr (bounded_resolution t {scope} (user_id u) ids True True)))"

section \<open>Filters\<close>

datatype user_filter = TenantIs int | UserIn user_scope

definition get_user_filters_from_resolution :: "resolution \<Rightarrow> user_filter list res" where
  "get_user_filters_from_resolution res =
     (if unbounded res then Inr [TenantIs (res_tenant res)]
      else case accessible_user_scope res of
        None \<Rightarrow> Inl AssertionError
      | Some sc \<Rightarrow> Inr [TenantIs (res_tenant res), UserIn sc])"

fun eval_user_filter :: "scope_db \<Rightarrow> user_filter \<Rightarrow> int \<times> int \<Rightarrow> bool" where
  "eval_user_filter db (TenantIs t) (t', u) = (t' = t)"
| "eval_user_filter db (UserIn sc) (t', u) = (u \<in> eval_user_scope db sc)"

definition get_user_data_scope_filters :: "scope_db \<Rightarrow> user \<Rightarrow> int \<Rightarrow> user_filter list res" where
  "get_user_data_scope_filters db u t =
     bindE (resolve_data_scope db u t) get_user_filters_from_resolution"

text \<open>Conditions on a business row, read as \<open>(dept_field, user_field)\<close>; a NULL column
  satisfies neither condition.\<close>

datatype row_cond = DeptIn "int set" | UserIs int | AnyOf "row_cond list"

fun eval_row_cond :: "row_cond \<Rightarrow> int option \<times> int option \<Rightarrow> bool" where
  "eval_row_cond (DeptIn ds) (d, u) = (case d of None \<Rightarrow> False | Some i \<Rightarrow> i \<in> ds)"
| "eval_row_cond (UserIs v) (d, u) = (u = Some v)"
| "eval_row_cond (AnyOf cs) row = (\<exists>c \<in> set cs. eval_row_cond c row)"

definition get_data_scope_filters :: "scope_db \<Rightarrow> user \<Rightarrow> int \<Rightarrow> row_cond list res" where
  "get_data_scope_filters db u t =
     bindE (resolve_data_scope db u t) (\<lambda>res.
       if unbounded res then Inr []
       else let c1 = (case accessible_dept_ids res of
                        None \<Rightarrow> [] | Some ds \<Rightarrow> if ds = {} then [] else [DeptIn ds]);
                c2 = (if include_self res then c1 @ [UserIs (user_id u)] else c1)
            in if c2 = [] then Inr [UserIs (user_id u)] else Inr [AnyOf c2])"

end
