(* ===== verification/Data_Scope_Facts.thy ===== *)
theory Data_Scope_Facts
  imports Data_Scope
begin

text \<open>
  Facts about \<open>Data_Scope\<close>: the department closure as an interface, the resolution as the
  union of per-role grants, and the properties that rest on it.
\<close>

section \<open>The department closure interface\<close>

text \<open>What the resolvers rely on when they expand departments to their subtrees.\<close>

locale dept_closure =
  fixes sub :: "int list \<Rightarrow> int set"
  assumes sub_Nil: "sub [] = {}"
    and sub_extensive: "set ds \<subseteq> sub ds"
    and sub_additive: "ds \<noteq> [] \<Longrightarrow> sub ds = (\<Union>d \<in> set ds. sub [d])"
begin

lemma sub_empty_iff: "sub ds = {} \<longleftrightarrow> ds = []"
  using sub_Nil sub_extensive[of ds] by (cases ds) auto

lemma sub_mono: "set ds \<subseteq> set es \<Longrightarrow> sub ds \<subseteq> sub es"
  using sub_additive[of ds] sub_additive[of es] by (cases "ds = []"; cases "es = []") (auto simp: sub_Nil)

lemma sub_set_cong: "set ds = set es \<Longrightarrow> sub ds = sub es"
  by (simp add: sub_mono subset_antisym)

end

interpretation dept_tree: dept_closure "\<lambda>ds. get_dept_and_sub_ids db ds t" for db t
  by unfold_locales (auto simp: get_dept_and_sub_ids_def)

lemma subtree_pattern:
  "sql_like (''%,'' @ show_int i @ '',%'') (anchored_ancestors d)
     \<longleftrightarrow> show_int i \<in> set (split_on CHR '','' (case dept_ancestors d of None \<Rightarrow> [] | Some a \<Rightarrow> a))"
proof -
  let ?w = "'','' @ show_int i @ '',''"
  have "like_literal ?w" by (simp add: like_literal_def show_int_no_special)
  then have "sql_like (''%'' @ ?w @ ''%'') (anchored_ancestors d) \<longleftrightarrow> str_in ?w (anchored_ancestors d)"
    by (rule sql_like_contains)
  then show ?thesis
    using anchored_member[of "CHR '',''" "show_int i"]
    by (simp add: anchored_ancestors_def show_int_no_special)
qed

section \<open>Per-role grants\<close>

text \<open>The specification: what one role grants, and which enabled roles count.\<close>

definition role_grant :: "scope_db \<Rightarrow> int list \<Rightarrow> int \<Rightarrow> role \<Rightarrow> int set" where
  "role_grant db own t r =
     (if data_scope r = DATA_SCOPE_DEPT then set own
      else if data_scope r = DATA_SCOPE_DEPT_AND_SUB then get_dept_and_sub_ids db own t
      else if data_scope r = DATA_SCOPE_CUSTOM then set (map snd (role_dept_rows db [role_id r] t))
      else {})"

definition granting_roles :: "role list \<Rightarrow> role set" where
  "granting_roles rs = {r \<in> set rs. role_status r = STATUS_ENABLED \<and> data_scope r \<in> KNOWN_DATA_SCOPES}"

definition grants_all :: "role list \<Rightarrow> bool" where
  "grants_all rs \<longleftrightarrow> (\<exists>r \<in> set rs. role_status r = STATUS_ENABLED \<and>
     (role_code r = SUPER_ADMIN_ROLE_CODE \<or> data_scope r = DATA_SCOPE_ALL))"

lemma role_dept_rows_iff:
  "(r, d) \<in> set (role_dept_rows db ids t)
     \<longleftrightarrow> r \<in> set ids \<and> (t, r, d) \<in> set (db_role_depts db) \<and> enabled_dept db t d"
  by (force simp: role_dept_rows_def)

lemma snd_role_dept_rows:
  "snd ` set (role_dept_rows db ids t)
     = {d. enabled_dept db t d \<and> (\<exists>r \<in> set ids. (t, r, d) \<in> set (db_role_depts db))}"
  by (force simp: role_dept_rows_def)

lemma role_dept_rows_restrict:
  assumes "r \<in> set ids"
  shows "set (map snd (filter (\<lambda>(r', d). r' = r) (role_dept_rows db ids t)))
     = set (map snd (role_dept_rows db [r] t))"
proof -
  have "set (map snd (filter (\<lambda>(r', d). r' = r) (role_dept_rows db ids t)))
      = {d. (r, d) \<in> set (role_dept_rows db ids t)}"
    by force
  with assms show ?thesis
    by (auto simp: snd_role_dept_rows role_dept_rows_iff)
qed

lemma custom_by_role_eq:
  "custom_dept_ids_by_role db ids t = map (\<lambda>r. (r, set (map snd (role_dept_rows db [r] t)))) ids"
  unfolding custom_dept_ids_by_role_def Let_def
  by (simp add: role_dept_rows_restrict del: set_map)

lemma fold_grants:
  "foldl (\<lambda>(ids, incl) (r, ds). (ids \<union> ds, incl \<or> ds = {})) (a, b) xs
     = (a \<union> (\<Union>x \<in> set xs. snd x), b \<or> (\<exists>x \<in> set xs. snd x = {}))"
  by (induction xs arbitrary: a b) auto

lemma accumulate_scopes_eq:
  "accumulate_scopes db en own kinds t =
     ((if DATA_SCOPE_DEPT \<in> kinds then set own else {}) \<union>
      (if DATA_SCOPE_DEPT_AND_SUB \<in> kinds then get_dept_and_sub_ids db own t else {}) \<union>
      (\<Union>r \<in> {r \<in> set en. data_scope r = DATA_SCOPE_CUSTOM}. set (map snd (role_dept_rows db [role_id r] t))),
      DATA_SCOPE_SELF \<in> kinds \<or>
      (own = [] \<and> (DATA_SCOPE_DEPT \<in> kinds \<or> DATA_SCOPE_DEPT_AND_SUB \<in> kinds)) \<or>
      (\<exists>r \<in> {r \<in> set en. data_scope r = DATA_SCOPE_CUSTOM}.
         set (map snd (role_dept_rows db [role_id r] t)) = {}))"
  by (auto simp: accumulate_scopes_def Let_def custom_by_role_eq fold_grants dept_tree.sub_empty_iff)

lemma known_kind_iff:
  "k \<in> known_scope_kinds (enabled_roles rs) \<longleftrightarrow> (\<exists>r \<in> granting_roles rs. data_scope r = k)"
  by (auto simp: known_scope_kinds_def enabled_roles_def granting_roles_def)

lemma custom_role_iff:
  "{r \<in> set (enabled_roles rs). data_scope r = DATA_SCOPE_CUSTOM}
     = {r \<in> granting_roles rs. data_scope r = DATA_SCOPE_CUSTOM}"
  by (auto simp: enabled_roles_def granting_roles_def KNOWN_DATA_SCOPES_def)

lemma role_grant_simps [simp]:
  "data_scope r = DATA_SCOPE_DEPT \<Longrightarrow> role_grant db own t r = set own"
  "data_scope r = DATA_SCOPE_DEPT_AND_SUB \<Longrightarrow> role_grant db own t r = get_dept_and_sub_ids db own t"
  "data_scope r = DATA_SCOPE_CUSTOM \<Longrightarrow>
     role_grant db own t r = set (map snd (role_dept_rows db [role_id r] t))"
  "data_scope r = DATA_SCOPE_SELF \<Longrightarrow> role_grant db own t r = {}"
  "data_scope r = DATA_SCOPE_ALL \<Longrightarrow> role_grant db own t r = {}"
  by (simp_all add: role_grant_def)

lemma granting_cases:
  assumes "r \<in> granting_roles rs"
  obtains "data_scope r = DATA_SCOPE_ALL" | "data_scope r = DATA_SCOPE_CUSTOM"
    | "data_scope r = DATA_SCOPE_DEPT" | "data_scope r = DATA_SCOPE_DEPT_AND_SUB"
    | "data_scope r = DATA_SCOPE_SELF"
  using assms by (auto simp: granting_roles_def KNOWN_DATA_SCOPES_def)

lemma accumulate_ids_union:
  "fst (accumulate_scopes db (enabled_roles rs) own (known_scope_kinds (enabled_roles rs)) t)
     = (\<Union>r \<in> granting_roles rs. role_grant db own t r)" (is "?L = ?R")
proof
  show "?L \<subseteq> ?R"
  proof
    fix x assume "x \<in> ?L"
    then obtain r where "r \<in> granting_roles rs" "x \<in> role_grant db own t r"
      unfolding accumulate_scopes_eq custom_role_iff known_kind_iff fst_conv
      by (fastforce split: if_split_asm)
    then show "x \<in> ?R" by blast
  qed
  show "?R \<subseteq> ?L"
  proof
    fix x assume "x \<in> ?R"
    then obtain r where r: "r \<in> granting_roles rs" and x: "x \<in> role_grant db own t r" by blast
    from r show "x \<in> ?L"
      by (cases rule: granting_cases)
        (use r x in \<open>auto simp: accumulate_scopes_eq custom_role_iff known_kind_iff\<close>)
  qed
qed

lemma accumulate_self_union:
  "snd (accumulate_scopes db (enabled_roles rs) own (known_scope_kinds (enabled_roles rs)) t)
     \<longleftrightarrow> (\<exists>r \<in> granting_roles rs. data_scope r \<noteq> DATA_SCOPE_ALL \<and> role_grant db own t r = {})"
    (is "?L \<longleftrightarrow> ?R")
proof
  assume ?L
  then consider
      (grantless) r where "r \<in> granting_roles rs" "data_scope r = DATA_SCOPE_SELF"
    | (own) r where "r \<in> granting_roles rs" "own = []"
        "data_scope r = DATA_SCOPE_DEPT \<or> data_scope r = DATA_SCOPE_DEPT_AND_SUB"
    | (custom) r where "r \<in> granting_roles rs" "data_scope r = DATA_SCOPE_CUSTOM"
        "set (map snd (role_dept_rows db [role_id r] t)) = {}"
    unfolding accumulate_scopes_eq custom_role_iff known_kind_iff snd_conv by blast
  then show ?R
  proof cases
    case own
    then show ?thesis by (intro bexI[of _ r]) (auto simp: dept_tree.sub_Nil)
  next
    case grantless
    then show ?thesis by (intro bexI[of _ r]) auto
  next
    case custom
    then show ?thesis by (intro bexI[of _ r]) auto
  qed
next
  assume ?R
  then obtain r where r: "r \<in> granting_roles rs" "data_scope r \<noteq> DATA_SCOPE_ALL"
    "role_grant db own t r = {}" by blast
  from r(1) show ?L
    by (cases rule: granting_cases)
      (use r in \<open>auto simp: accumulate_scopes_eq custom_role_iff known_kind_iff dept_tree.sub_empty_iff\<close>)
qed

section \<open>The resolution\<close>

definition own_dept_list :: "user \<Rightarrow> dept list option \<Rightarrow> int list" where
  "own_dept_list u depts = remdups (map dept_id (case depts of Some ds \<Rightarrow> ds | None \<Rightarrow> user_depts u))"

definition in_tenant :: "user \<Rightarrow> role list \<Rightarrow> dept list option \<Rightarrow> int \<Rightarrow> bool" where
  "in_tenant u rs depts t \<longleftrightarrow> user_tenant u = t \<and> (\<forall>r \<in> set rs. role_tenant r = t) \<and>
     (\<forall>d \<in> set (case depts of None \<Rightarrow> [] | Some ds \<Rightarrow> ds). dept_tenant d = t)"

text \<open>The specification of the resolved grant as a pair of a set of departments and a flag.\<close>

definition union_depts :: "scope_db \<Rightarrow> int list \<Rightarrow> int \<Rightarrow> role list \<Rightarrow> int set" where
  "union_depts db own t rs = (\<Union>r \<in> granting_roles rs. role_grant db own t r)"

definition union_self :: "scope_db \<Rightarrow> int list \<Rightarrow> int \<Rightarrow> role list \<Rightarrow> bool" where
  "union_self db own t rs \<longleftrightarrow>
     granting_roles rs = {} \<or> (\<exists>r \<in> granting_roles rs. role_grant db own t r = {})"

lemma known_empty_iff: "known_scope_kinds (enabled_roles rs) = {} \<longleftrightarrow> granting_roles rs = {}"
  by (auto simp: known_scope_kinds_def enabled_roles_def granting_roles_def)

lemma custom_granting: "r \<in> set (enabled_roles rs) \<Longrightarrow> data_scope r = DATA_SCOPE_CUSTOM \<Longrightarrow> r \<in> granting_roles rs"
  by (auto simp: enabled_roles_def granting_roles_def KNOWN_DATA_SCOPES_def)

lemma accumulate_no_grants:
  assumes "granting_roles rs = {}"
  shows "accumulate_scopes db (enabled_roles rs) own {DATA_SCOPE_SELF} t = ({}, True)"
  using custom_granting[of _ rs] assms by (auto simp: accumulate_scopes_eq)

lemma all_kind_iff:
  "DATA_SCOPE_ALL \<in> (if known_scope_kinds (enabled_roles rs) = {} then {DATA_SCOPE_SELF}
      else known_scope_kinds (enabled_roles rs))
   \<longleftrightarrow> (\<exists>r \<in> set rs. role_status r = STATUS_ENABLED \<and> data_scope r = DATA_SCOPE_ALL)"
  by (simp add: known_kind_iff known_empty_iff) (auto simp: granting_roles_def KNOWN_DATA_SCOPES_def)

definition effective_kinds :: "role list \<Rightarrow> string set" where
  "effective_kinds rs = (if known_scope_kinds (enabled_roles rs) = {} then {DATA_SCOPE_SELF}
     else known_scope_kinds (enabled_roles rs))"

lemma resolve_unfold:
  "resolve_data_scope_for_roles db u rs depts t =
     (if \<not> in_tenant u rs depts t then Inl RuntimeError
      else if \<exists>r \<in> set (enabled_roles rs). role_code r = SUPER_ADMIN_ROLE_CODE
      then Inr (unbounded_resolution t {DATA_SCOPE_ALL})
      else if DATA_SCOPE_ALL \<in> effective_kinds rs then Inr (unbounded_resolution t (effective_kinds rs))
      else let acc = accumulate_scopes db (enabled_roles rs) (own_dept_list u depts) (effective_kinds rs) t
           in Inr (bounded_resolution t (effective_kinds rs) (user_id u) (fst acc) (snd acc) (snd acc)))"
  by (simp add: resolve_data_scope_for_roles_def in_tenant_def effective_kinds_def own_dept_list_def
      Let_def case_prod_beta)

lemma grants_all_iff:
  "grants_all rs \<longleftrightarrow> (\<exists>r \<in> set (enabled_roles rs). role_code r = SUPER_ADMIN_ROLE_CODE) \<or>
     DATA_SCOPE_ALL \<in> effective_kinds rs"
  unfolding effective_kinds_def all_kind_iff by (auto simp: grants_all_def enabled_roles_def)

lemma resolve_bounded:
  assumes "in_tenant u rs depts t" and "\<not> grants_all rs"
  shows "resolve_data_scope_for_roles db u rs depts t =
    Inr (bounded_resolution t (effective_kinds rs) (user_id u)
      (union_depts db (own_dept_list u depts) t rs)
      (union_self db (own_dept_list u depts) t rs) (union_self db (own_dept_list u depts) t rs))"
proof -
  let ?own = "own_dept_list u depts"
  have not_all: "data_scope r \<noteq> DATA_SCOPE_ALL" if "r \<in> granting_roles rs" for r
    using that assms(2) by (auto simp: grants_all_def granting_roles_def)
  have "accumulate_scopes db (enabled_roles rs) ?own (effective_kinds rs) t
      = (union_depts db ?own t rs, union_self db ?own t rs)"
  proof (cases "granting_roles rs = {}")
    case True
    then show ?thesis
      by (simp add: effective_kinds_def known_empty_iff accumulate_no_grants union_depts_def union_self_def)
  next
    case False
    with not_all show ?thesis
      by (auto intro!: prod_eqI simp: effective_kinds_def known_empty_iff accumulate_ids_union
          accumulate_self_union union_depts_def union_self_def)
  qed
  then show ?thesis
    using assms by (simp add: resolve_unfold grants_all_iff)
qed

lemma resolve_unbounded:
  assumes "in_tenant u rs depts t" and "grants_all rs"
  shows "\<exists>ks. resolve_data_scope_for_roles db u rs depts t = Inr (unbounded_resolution t ks)"
  using assms by (auto simp: resolve_unfold grants_all_iff)

lemma resolve_cross_tenant:
  "\<not> in_tenant u rs depts t \<Longrightarrow> resolve_data_scope_for_roles db u rs depts t = Inl RuntimeError"
  by (simp add: resolve_unfold)

lemma resolution_fields [simp]:
  "unbounded (unbounded_resolution t ks)" "\<not> unbounded (bounded_resolution t ks u ds s i)"
  "res_tenant (unbounded_resolution t ks) = t" "res_tenant (bounded_resolution t ks u ds s i) = t"
  "accessible_dept_ids (bounded_resolution t ks u ds s i) = Some ds"
  "accessible_dept_ids (unbounded_resolution t ks) = None"
  "accessible_user_scope (unbounded_resolution t ks) = None"
  "accessible_user_scope (bounded_resolution t ks u ds s i) = Some (build_user_scope u t ds s)"
  "include_self (bounded_resolution t ks u ds s i) = i"
  "scope_kinds (bounded_resolution t ks u ds s i) = ks"
  "scope_kinds (unbounded_resolution t ks) = ks"
  by (simp_all add: unbounded_resolution_def bounded_resolution_def)

section \<open>The users a resolution admits\<close>

definition admitted_users :: "scope_db \<Rightarrow> resolution \<Rightarrow> (int \<times> int) set" where
  "admitted_users db res =
     {row \<in> set (db_users db). case get_user_filters_from_resolution res of
        Inl _ \<Rightarrow> False | Inr fs \<Rightarrow> (\<forall>f \<in> set fs. eval_user_filter db f row)}"

lemma eval_stmt_iff [simp]:
  "x \<in> eval_stmt db (SelectUser t u) \<longleftrightarrow> x = u \<and> (t, u) \<in> set (db_users db)"
  "x \<in> eval_stmt db (SelectDeptMembers t ds) \<longleftrightarrow> (\<exists>d \<in> ds. (t, x, d) \<in> set (db_user_depts db))"
  by force+

lemma eval_build_user_scope:
  "x \<in> eval_user_scope db (build_user_scope uid t ds incl) \<longleftrightarrow>
     ((incl \<or> ds = {}) \<and> x = uid \<and> (t, x) \<in> set (db_users db)) \<or>
     (\<exists>d \<in> ds. (t, x, d) \<in> set (db_user_depts db))"
  by (cases incl; cases "ds = {}") (auto simp: build_user_scope_def simp del: eval_stmt.simps)

lemma admitted_unbounded:
  "admitted_users db (unbounded_resolution t ks) = {row \<in> set (db_users db). fst row = t}"
  by (auto simp: admitted_users_def get_user_filters_from_resolution_def)

lemma admitted_bounded:
  "admitted_users db (bounded_resolution t ks uid ds s i) =
     {(t', u). t' = t \<and> (t, u) \<in> set (db_users db) \<and>
        ((s \<or> ds = {}) \<and> u = uid \<or> (\<exists>d \<in> ds. (t, u, d) \<in> set (db_user_depts db)))}"
  by (auto simp: admitted_users_def get_user_filters_from_resolution_def eval_build_user_scope split: if_splits)

end
