(* ===== verification/Data_Scope_Props.thy ===== *)
theory Data_Scope_Props
  imports Data_Scope_Facts
begin

text \<open>
  The properties of data-scope resolution: the resolution is the union of the enabled roles'
  grants, it never leaves the tenant, the subtree query is exact, granting a role never hides
  a user, and the resolution admits everyone the legacy single-scope resolution admitted.
\<close>

section \<open>Helper facts\<close>

lemma union_self_of_empty: "union_depts db own t rs = {} \<Longrightarrow> union_self db own t rs"
  by (auto simp: union_depts_def union_self_def)

lemma own_dept_list_None: "own_dept_list u None = remdups (map dept_id (user_depts u))"
  by (simp add: own_dept_list_def)

definition bounded_users :: "scope_db \<Rightarrow> user \<Rightarrow> int list \<Rightarrow> int \<Rightarrow> role list \<Rightarrow> (int \<times> int) set" where
  "bounded_users db u own t rs =
     {(t', x). t' = t \<and> (t, x) \<in> set (db_users db) \<and>
        (union_self db own t rs \<and> x = user_id u \<or>
         (\<exists>r \<in> granting_roles rs. \<exists>d \<in> role_grant db own t r. (t, x, d) \<in> set (db_user_depts db)))}"

lemma admitted_eq:
  assumes "in_tenant u rs depts t"
  obtains res where "resolve_data_scope_for_roles db u rs depts t = Inr res"
    and "admitted_users db res =
      (if grants_all rs then {row \<in> set (db_users db). fst row = t}
       else bounded_users db u (own_dept_list u depts) t rs)"
    and "unbounded res \<longleftrightarrow> grants_all rs"
proof (cases "grants_all rs")
  case True
  with resolve_unbounded[OF assms] obtain ks where
    "resolve_data_scope_for_roles db u rs depts t = Inr (unbounded_resolution t ks)" by blast
  then show ?thesis using that True by (simp add: admitted_unbounded)
next
  case False
  have "admitted_users db (bounded_resolution t (effective_kinds rs) (user_id u)
      (union_depts db (own_dept_list u depts) t rs)
      (union_self db (own_dept_list u depts) t rs) (union_self db (own_dept_list u depts) t rs))
    = bounded_users db u (own_dept_list u depts) t rs"
    unfolding admitted_bounded bounded_users_def
    using union_self_of_empty[of db "own_dept_list u depts" t rs]
    by (auto simp: union_depts_def)
  then show ?thesis
    using that[OF resolve_bounded[OF assms False]] False by simp
qed

lemma best_scope_fold:
  fixes s :: string
  defines "f \<equiv> (\<lambda>best r. if role_status r \<noteq> ''1'' then best
      else if scope_priority (data_scope r) > scope_priority best then data_scope r else best)"
  shows "(foldl f s rs = s \<or> (\<exists>r \<in> set (enabled_roles rs). data_scope r = foldl f s rs)) \<and>
    scope_priority s \<le> scope_priority (foldl f s rs) \<and>
    (\<forall>r \<in> set (enabled_roles rs). scope_priority (data_scope r) \<le> scope_priority (foldl f s rs))"
proof (induction rs arbitrary: s)
  case Nil
  then show ?case by (simp add: enabled_roles_def)
next
  case (Cons r rs)
  have "foldl f s (r # rs) = foldl f (f s r) rs" by simp
  moreover have "scope_priority s \<le> scope_priority (f s r)" by (simp add: f_def)
  moreover have "role_status r = STATUS_ENABLED \<Longrightarrow> scope_priority (data_scope r) \<le> scope_priority (f s r)"
    by (simp add: f_def STATUS_ENABLED_def)
  moreover have "f s r = s \<or> (role_status r = STATUS_ENABLED \<and> f s r = data_scope r)"
    by (simp add: f_def STATUS_ENABLED_def)
  ultimately show ?case
    using Cons.IH[of "f s r"] by (auto simp: enabled_roles_def)
qed

lemma best_scope_facts:
  "get_best_scope u = DATA_SCOPE_SELF \<or>
     (\<exists>r \<in> set (enabled_roles (user_roles u)). data_scope r = get_best_scope u)"
  "1 \<le> scope_priority (get_best_scope u)"
  "r \<in> set (enabled_roles (user_roles u)) \<Longrightarrow>
     scope_priority (data_scope r) \<le> scope_priority (get_best_scope u)"
  using best_scope_fold[of DATA_SCOPE_SELF "user_roles u"]
  unfolding get_best_scope_def by (auto simp: scope_priority_def)

lemma best_scope_known: "get_best_scope u \<in> KNOWN_DATA_SCOPES"
  using best_scope_facts(2)[of u] by (auto simp: scope_priority_def KNOWN_DATA_SCOPES_def split: if_splits)

lemma best_scope_granting:
  assumes "get_best_scope u \<noteq> DATA_SCOPE_SELF"
  shows "\<exists>r \<in> granting_roles (user_roles u). data_scope r = get_best_scope u"
  using assms best_scope_facts(1)[of u] best_scope_known[of u]
  by (auto simp: granting_roles_def enabled_roles_def)

lemma best_scope_self:
  assumes "get_best_scope u = DATA_SCOPE_SELF" and "r \<in> granting_roles (user_roles u)"
  shows "data_scope r = DATA_SCOPE_SELF"
proof -
  have "scope_priority (data_scope r) \<le> 1"
    using assms best_scope_facts(3)[of r u]
    by (auto simp: granting_roles_def enabled_roles_def scope_priority_def)
  with assms(2) show ?thesis
    by (auto elim!: granting_cases simp: scope_priority_def)
qed

text \<open>The departments of the legacy resolution.\<close>

definition legacy_ids :: "scope_db \<Rightarrow> user \<Rightarrow> int \<Rightarrow> int set" where
  "legacy_ids db u t =
     (let own = remdups (map dept_id (user_depts u)) in
      if get_best_scope u = DATA_SCOPE_CUSTOM
      then set (map snd (role_dept_rows db (map role_id (enabled_roles (user_roles u))) t))
      else if get_best_scope u = DATA_SCOPE_DEPT then set own
      else if get_best_scope u = DATA_SCOPE_DEPT_AND_SUB then get_dept_and_sub_ids db own t
      else {})"

lemma get_custom_eq:
  "user_tenant u = t \<Longrightarrow> get_custom_dept_ids db u t =
     Inr (set (map snd (role_dept_rows db (map role_id (enabled_roles (user_roles u))) t)))"
  by (simp add: get_custom_dept_ids_def Let_def snd_role_dept_rows)

lemma legacy_resolution:
  assumes "user_tenant u = t" "\<not> is_super_admin u" "get_best_scope u \<noteq> DATA_SCOPE_ALL"
  shows "resolve_legacy_data_scope db u t = Inr (bounded_resolution t {get_best_scope u} (user_id u)
     (legacy_ids db u t) (legacy_ids db u t = {}) (legacy_ids db u t = {}))"
proof -
  show ?thesis
    unfolding resolve_legacy_data_scope_def legacy_ids_def Let_def get_custom_eq[OF assms(1)]
    using assms by (cases "get_best_scope u = DATA_SCOPE_CUSTOM"; cases "get_best_scope u = DATA_SCOPE_DEPT";
        cases "get_best_scope u = DATA_SCOPE_DEPT_AND_SUB") simp_all
qed

lemma legacy_unbounded:
  assumes "resolve_legacy_data_scope db u t = Inr old" "is_super_admin u \<or> get_best_scope u = DATA_SCOPE_ALL"
  shows "\<exists>ks. old = unbounded_resolution t ks"
  using assms by (auto simp: resolve_legacy_data_scope_def Let_def split: if_splits)

lemma legacy_ids_union:
  assumes "\<forall>r \<in> set (enabled_roles (user_roles u)). \<forall>d.
      (t, role_id r, d) \<in> set (db_role_depts db) \<longrightarrow> data_scope r = DATA_SCOPE_CUSTOM"
  shows "legacy_ids db u t \<subseteq> union_depts db (own_dept_list u None) t (user_roles u)"
proof
  fix d assume d: "d \<in> legacy_ids db u t"
  show "d \<in> union_depts db (own_dept_list u None) t (user_roles u)"
  proof (cases "get_best_scope u = DATA_SCOPE_CUSTOM")
    case True
    with d obtain r where r: "r \<in> set (enabled_roles (user_roles u))"
      "(t, role_id r, d) \<in> set (db_role_depts db)" "enabled_dept db t d"
      by (auto simp: legacy_ids_def Let_def snd_role_dept_rows)
    with assms have "data_scope r = DATA_SCOPE_CUSTOM" by blast
    with r custom_granting[OF r(1)] show ?thesis
      unfolding union_depts_def
      by (intro UN_I[of r]) (auto simp: snd_role_dept_rows)
  next
    case False
    with d have "get_best_scope u \<noteq> DATA_SCOPE_SELF"
      by (auto simp: legacy_ids_def Let_def split: if_splits)
    then obtain r where "r \<in> granting_roles (user_roles u)" "data_scope r = get_best_scope u"
      using best_scope_granting by blast
    with False d show ?thesis
      unfolding union_depts_def
      by (intro UN_I[of r]) (auto simp: legacy_ids_def Let_def own_dept_list_None split: if_splits)
  qed
qed

lemma legacy_self_union:
  assumes "legacy_ids db u t = {}" "get_best_scope u \<noteq> DATA_SCOPE_ALL"
  shows "union_self db (own_dept_list u None) t (user_roles u)"
proof (cases "get_best_scope u = DATA_SCOPE_SELF")
  case True
  then show ?thesis
    using best_scope_self[OF True] by (auto simp: union_self_def intro: role_grant_simps)
next
  case False
  then obtain r where r: "r \<in> granting_roles (user_roles u)" "data_scope r = get_best_scope u"
    using best_scope_granting by blast
  then have "r \<in> set (enabled_roles (user_roles u))"
    by (simp add: granting_roles_def enabled_roles_def)
  with r assms False have "role_grant db (own_dept_list u None) t r = {}"
    by (cases rule: granting_cases[OF r(1)])
      (auto simp: legacy_ids_def Let_def own_dept_list_None snd_role_dept_rows)
  with r(1) show ?thesis by (auto simp: union_self_def)
qed

section \<open>Properties\<close>

text \<open>Property C1: a resolution that succeeds is unbounded exactly when an enabled role is the
  super-administrator or has the ALL scope, and then admits every user of the tenant; otherwise
  its departments are the union of what each enabled role with a known scope grants, the self
  flag is set exactly when no role counts or one role grants no department, and the user query
  admits exactly the members of those departments and, under the flag, the principal.\<close>

theorem resolution_is_union_of_grants:
  assumes "resolve_data_scope db u t = Inr res"
  shows "unbounded res = grants_all (user_roles u) \<and>
    (if grants_all (user_roles u)
     then admitted_users db res = {row \<in> set (db_users db). fst row = t}
     else let own = remdups (map dept_id (user_depts u)) in
       accessible_dept_ids res = Some (\<Union>r \<in> granting_roles (user_roles u). role_grant db own t r) \<and>
       include_self res = (granting_roles (user_roles u) = {} \<or>
          (\<exists>r \<in> granting_roles (user_roles u). role_grant db own t r = {})) \<and>
       admitted_users db res = bounded_users db u own t (user_roles u))"
proof -
  have ten: "in_tenant u (user_roles u) None t"
    using assms resolve_cross_tenant[of u "user_roles u" None t db]
    by (auto simp: resolve_data_scope_def)
  obtain res' where res': "resolve_data_scope db u t = Inr res'"
    "admitted_users db res' = (if grants_all (user_roles u) then {row \<in> set (db_users db). fst row = t}
       else bounded_users db u (own_dept_list u None) t (user_roles u))"
    "unbounded res' \<longleftrightarrow> grants_all (user_roles u)"
    unfolding resolve_data_scope_def by (rule admitted_eq[OF ten])
  show ?thesis
  proof (cases "grants_all (user_roles u)")
    case True
    with res' assms show ?thesis by simp
  next
    case False
    with res' assms resolve_bounded[OF ten False, of db]
    show ?thesis
      by (auto simp: resolve_data_scope_def Let_def own_dept_list_None union_depts_def union_self_def)
  qed
qed

text \<open>Resolution fails exactly when the principal, a role or a department belongs
  to another tenant, and a resolution never admits a user of another tenant.\<close>

theorem resolution_stays_in_tenant:
  "is_ok (resolve_data_scope_for_roles db u rs depts t) = in_tenant u rs depts t \<and>
   (\<forall>res row. resolve_data_scope_for_roles db u rs depts t = Inr res \<longrightarrow>
      row \<in> admitted_users db res \<longrightarrow> fst row = t)"
proof (cases "in_tenant u rs depts t")
  case True
  obtain res where "resolve_data_scope_for_roles db u rs depts t = Inr res"
    "admitted_users db res = (if grants_all rs then {row \<in> set (db_users db). fst row = t}
       else bounded_users db u (own_dept_list u depts) t rs)"
    by (rule admitted_eq[OF True])
  with True show ?thesis by (auto simp: bounded_users_def split: if_splits)
next
  case False
  then show ?thesis by (simp add: resolve_cross_tenant)
qed

text \<open>The subtree query returns the given departments and exactly the departments
  of the tenant one of whose comma-separated ancestors is a given id, so an id that is a mere
  substring of another (12 in "0,123") never matches.\<close>

theorem dept_subtree_exact:
  "get_dept_and_sub_ids db ids t =
     (if ids = [] then {} else set ids \<union>
        {dept_id d | d. d \<in> set (db_depts db) \<and> dept_tenant d = t \<and>
           (\<exists>i \<in> set ids. show_int i \<in> set (split_on CHR '',''
              (case dept_ancestors d of None \<Rightarrow> [] | Some a \<Rightarrow> a)))})"
  unfolding get_dept_and_sub_ids_def subtree_pattern by auto

text \<open>As long as the principal already has an enabled role with a known scope,
  giving it one more role of the tenant never removes a user from what it may see.\<close>

theorem granting_a_role_is_monotone:
  assumes "resolve_data_scope_for_roles db u rs depts t = Inr res"
    and "resolve_data_scope_for_roles db u (rs @ [r]) depts t = Inr res'"
    and "granting_roles rs \<noteq> {}"
  shows "admitted_users db res \<subseteq> admitted_users db res'"
proof -
  have ten: "in_tenant u rs depts t" "in_tenant u (rs @ [r]) depts t"
    using assms(1,2) resolve_cross_tenant by force+
  have sub: "granting_roles rs \<subseteq> granting_roles (rs @ [r])"
    and all: "grants_all rs \<Longrightarrow> grants_all (rs @ [r])"
    by (auto simp: granting_roles_def grants_all_def)
  obtain x where x: "resolve_data_scope_for_roles db u rs depts t = Inr x"
    "admitted_users db x = (if grants_all rs then {row \<in> set (db_users db). fst row = t}
       else bounded_users db u (own_dept_list u depts) t rs)" by (rule admitted_eq[OF ten(1)])
  obtain y where y: "resolve_data_scope_for_roles db u (rs @ [r]) depts t = Inr y"
    "admitted_users db y = (if grants_all (rs @ [r]) then {row \<in> set (db_users db). fst row = t}
       else bounded_users db u (own_dept_list u depts) t (rs @ [r]))" by (rule admitted_eq[OF ten(2)])
  have "union_self db own t (rs @ [r])" if "union_self db own t rs" for own
    using that sub assms(3) by (auto simp: union_self_def)
  with sub have "bounded_users db u (own_dept_list u depts) t rs
      \<subseteq> bounded_users db u (own_dept_list u depts) t (rs @ [r])"
    unfolding bounded_users_def by blast
  moreover have "bounded_users db u (own_dept_list u depts) t rs \<subseteq> {row \<in> set (db_users db). fst row = t}"
    by (auto simp: bounded_users_def)
  ultimately show ?thesis using assms(1,2) x y all by auto
qed

text \<open>Property C2: the union resolution admits every user the legacy resolution of the same
  principal admitted, provided custom departments are linked only to roles whose scope is
  CUSTOM (the legacy query also reads the links of the other enabled roles).\<close>

theorem union_extends_legacy:
  assumes "resolve_legacy_data_scope db u t = Inr old" and "resolve_data_scope db u t = Inr new"
    and "\<forall>r \<in> set (enabled_roles (user_roles u)). \<forall>d.
      (t, role_id r, d) \<in> set (db_role_depts db) \<longrightarrow> data_scope r = DATA_SCOPE_CUSTOM"
  shows "admitted_users db old \<subseteq> admitted_users db new"
proof -
  let ?rs = "user_roles u" and ?own = "own_dept_list u None" and ?best = "get_best_scope u"
  have ten: "in_tenant u ?rs None t"
    using assms(2) resolve_cross_tenant[of u ?rs None t db] by (auto simp: resolve_data_scope_def)
  obtain x where x: "resolve_data_scope db u t = Inr x"
    "admitted_users db x = (if grants_all ?rs then {row \<in> set (db_users db). fst row = t}
       else bounded_users db u ?own t ?rs)"
    unfolding resolve_data_scope_def by (rule admitted_eq[OF ten])
  then have new: "new = x" using assms(2) by simp
  have tenant: "user_tenant u = t" using ten by (simp add: in_tenant_def)
  show ?thesis
  proof (cases "is_super_admin u \<or> ?best = DATA_SCOPE_ALL")
    case True
    with legacy_unbounded[OF assms(1)] obtain ks where "old = unbounded_resolution t ks" by blast
    moreover have "grants_all ?rs"
      using True best_scope_granting[of u] by (auto simp: grants_all_def is_super_admin_def granting_roles_def)
    ultimately show ?thesis using x new by (simp add: admitted_unbounded)
  next
    case False
    then have old: "old = bounded_resolution t {?best} (user_id u) (legacy_ids db u t)
        (legacy_ids db u t = {}) (legacy_ids db u t = {})"
      using assms(1) legacy_resolution[OF tenant, of db] by simp
    have "admitted_users db old \<subseteq> bounded_users db u ?own t ?rs"
      using legacy_ids_union[OF assms(3)] legacy_self_union[of db u t] False
      unfolding old admitted_bounded bounded_users_def union_depts_def by blast
    moreover have "admitted_users db old \<subseteq> {row \<in> set (db_users db). fst row = t}"
      unfolding old admitted_bounded by auto
    ultimately show ?thesis using x new by simp
  qed
qed

section \<open>Witnesses\<close>

text \<open>A tenant with the department chain 10 > 12 > 123 and a department 1, a principal of
  department 12 with a DEPT_AND_SUB role and a CUSTOM role linked to department 1.\<close>

definition demo_depts :: "dept list" where
  "demo_depts =
     [\<lparr>dept_id = 10, dept_tenant = 7, dept_status = ''1'', dept_ancestors = Some ''0''\<rparr>,
      \<lparr>dept_id = 12, dept_tenant = 7, dept_status = ''1'', dept_ancestors = Some ''0,10''\<rparr>,
      \<lparr>dept_id = 123, dept_tenant = 7, dept_status = ''1'', dept_ancestors = Some ''0,10,12''\<rparr>,
      \<lparr>dept_id = 1, dept_tenant = 7, dept_status = ''1'', dept_ancestors = None\<rparr>]"

definition demo_role :: "int \<Rightarrow> string \<Rightarrow> role" where
  "demo_role i sc = \<lparr>role_id = i, role_tenant = 7, role_code = ''R_USER'', role_name = ''staff'', role_status = ''1'',
     data_scope = sc, role_menus = [], role_dept_links = []\<rparr>"

definition demo_user :: user where
  "demo_user = \<lparr>user_id = 50, user_tenant = 7, user_name = ''li'', user_status = ''1'',
     user_roles = [demo_role 1 ''4'', demo_role 2 ''2''], user_depts = [demo_depts ! 1]\<rparr>"

definition demo_db :: scope_db where
  "demo_db = \<lparr>db_depts = demo_depts, db_role_depts = [(7, 2, 1)],
     db_user_depts = [(7, 50, 12), (7, 51, 123), (7, 52, 10), (8, 53, 12)],
     db_users = [(7, 50), (7, 51), (7, 52), (8, 53)]\<rparr>"

lemma demo_resolves: "is_ok (resolve_data_scope demo_db demo_user 7)"
  by code_simp

lemma demo_legacy_resolves: "is_ok (resolve_legacy_data_scope demo_db demo_user 7)"
  by code_simp

theorem resolution_is_union_of_grants_witness:
  "\<exists>res. resolve_data_scope demo_db demo_user 7 = Inr res \<and> \<not> unbounded res"
proof -
  obtain res where res: "resolve_data_scope demo_db demo_user 7 = Inr res"
    using demo_resolves by (auto simp: is_ok_iff)
  have "\<not> grants_all (user_roles demo_user)" by code_simp
  with res resolution_is_union_of_grants[OF res] show ?thesis by simp
qed

theorem resolution_stays_in_tenant_witness:
  "\<exists>res. resolve_data_scope_for_roles demo_db demo_user (user_roles demo_user) None 7 = Inr res \<and>
     (8, 53) \<notin> admitted_users demo_db res"
proof -
  obtain res where res: "resolve_data_scope_for_roles demo_db demo_user (user_roles demo_user) None 7 = Inr res"
    using demo_resolves by (auto simp: is_ok_iff resolve_data_scope_def)
  have "fst ((8, 53) :: int \<times> int) \<noteq> 7" by simp
  with res resolution_stays_in_tenant[of demo_db demo_user "user_roles demo_user" None 7] show ?thesis by blast
qed

theorem granting_a_role_is_monotone_witness:
  "\<exists>a b. resolve_data_scope_for_roles demo_db demo_user [demo_role 2 ''2''] None 7 = Inr a \<and>
     resolve_data_scope_for_roles demo_db demo_user ([demo_role 2 ''2''] @ [demo_role 1 ''4'']) None 7 = Inr b \<and>
     admitted_users demo_db a \<subseteq> admitted_users demo_db b"
proof -
  have "is_ok (resolve_data_scope_for_roles demo_db demo_user [demo_role 2 ''2''] None 7)"
    "is_ok (resolve_data_scope_for_roles demo_db demo_user ([demo_role 2 ''2''] @ [demo_role 1 ''4'']) None 7)"
    by code_simp+
  moreover have "granting_roles [demo_role 2 ''2''] \<noteq> {}"
    by (auto simp: granting_roles_def demo_role_def STATUS_ENABLED_def KNOWN_DATA_SCOPES_def scope_consts)
  ultimately show ?thesis
    using granting_a_role_is_monotone[of demo_db demo_user "[demo_role 2 ''2'']" None 7 _ "demo_role 1 ''4''"]
    by (metis is_ok_iff)
qed

theorem union_extends_legacy_witness:
  "\<exists>a b. resolve_legacy_data_scope demo_db demo_user 7 = Inr a \<and>
     resolve_data_scope demo_db demo_user 7 = Inr b \<and> admitted_users demo_db a \<subseteq> admitted_users demo_db b"
proof -
  obtain a b where ab: "resolve_legacy_data_scope demo_db demo_user 7 = Inr a"
    "resolve_data_scope demo_db demo_user 7 = Inr b"
    using demo_resolves demo_legacy_resolves by (auto simp: is_ok_iff)
  have "\<forall>r \<in> set (enabled_roles (user_roles demo_user)). \<forall>d.
      (7, role_id r, d) \<in> set (db_role_depts demo_db) \<longrightarrow> data_scope r = DATA_SCOPE_CUSTOM"
    by (auto simp: enabled_roles_def demo_user_def demo_db_def demo_role_def scope_consts)
  from union_extends_legacy[OF ab this] ab show ?thesis by blast
qed

end
