(* ===== verification/Authorization_Lock.thy ===== *)
theory Authorization_Lock
  imports Entities
begin

text \<open>
  \<open>app/modules/system/service/authorization_lock.py\<close>: row locks taken in one global order,
  and the association rows shared by the authorization services. \<open>auth_db\<close> holds the tables;
  a lock reads the rows it locks, so the model of \<open>lock_targets\<close> returns the check of the rows it
  finds together with the row locks the transaction has requested by then, in their order.
\<close>

section \<open>The authorization tables\<close>

text \<open>\<open>rows_users\<close> holds the columns of the user table (its \<open>user_roles\<close> and \<open>user_depts\<close> fields
  are unused), \<open>rows_roles\<close> the roles with their menu and department links, \<open>links_roles\<close> the
  \<open>(tenant, user, role)\<close> rows of \<open>sys_user_role\<close>, \<open>primary_depts\<close> the \<open>(tenant, user, dept)\<close> rows
  of the department links whose \<open>is_primary\<close> is \<open>Y\<close>, and \<open>role_agents\<close> the
  \<open>(tenant, role, agent, enabled)\<close> rows of the role-agent bindings.\<close>

record auth_db =
  scope :: scope_db
  rows_users :: "user list"
  rows_roles :: "role list"
  links_roles :: "(int \<times> int \<times> int) list"
  primary_depts :: "(int \<times> int \<times> int) list"
  role_agents :: "(int \<times> int \<times> int \<times> bool) list"

section \<open>Locks\<close>

datatype lock_kind = LockRole | LockDept | LockUser

type_synonym row_lock = "lock_kind \<times> int"

fun kind_rank :: "lock_kind \<Rightarrow> nat" where
  "kind_rank LockRole = 0"
| "kind_rank LockDept = 1"
| "kind_rank LockUser = 2"

definition normalize_ids :: "int set \<Rightarrow> int list res" where
  "normalize_ids values =
     (if \<exists>v \<in> values. v \<le> 0 then Inl (BusinessRule ''AUTHORIZATION_SNAPSHOT_STALE'')
      else Inr (sorted_list_of_set values))"

fun tenant_ids :: "auth_db \<Rightarrow> lock_kind \<Rightarrow> int \<Rightarrow> int set" where
  "tenant_ids db LockRole t = set (map role_id (filter (\<lambda>r. role_tenant r = t) (rows_roles db)))"
| "tenant_ids db LockDept t =
     set (map dept_id (filter (\<lambda>d. dept_tenant d = t) (db_depts (scope db))))"
| "tenant_ids db LockUser t = set (map user_id (filter (\<lambda>u. user_tenant u = t) (rows_users db)))"

text \<open>\<open>_lock_ids\<close>: the rows found are locked in ascending order of their ids, and must be the ones
  asked for. \<open>held\<close> is the sequence of locks the transaction has requested so far.\<close>

definition lock_ids_run ::
    "auth_db \<Rightarrow> lock_kind \<Rightarrow> int list \<Rightarrow> int \<Rightarrow> row_lock list \<Rightarrow> int list res \<times> row_lock list" where
  "lock_ids_run db k ids t held =
     (if ids = [] then (Inr [], held)
      else let locked = sorted_list_of_set (tenant_ids db k t \<inter> set ids)
           in (if locked \<noteq> ids then Inl (BusinessRule ''AUTHORIZATION_SNAPSHOT_STALE'') else Inr locked,
               held @ map (Pair k) locked))"

definition lock_targets_run ::
    "auth_db \<Rightarrow> int set \<Rightarrow> int set \<Rightarrow> int set \<Rightarrow> int \<Rightarrow> (int list \<times> int list \<times> int list) res \<times> row_lock list" where
  "lock_targets_run db role_ids dept_ids user_ids t =
     (case bindE (normalize_ids role_ids) (\<lambda>rs. bindE (normalize_ids dept_ids) (\<lambda>ds.
        bindE (normalize_ids user_ids) (\<lambda>us. Inr (rs, ds, us)))) of
        Inl e \<Rightarrow> (Inl e, [])
      | Inr (rs, ds, us) \<Rightarrow>
          (case lock_ids_run db LockRole rs t [] of (Inl e, q1) \<Rightarrow> (Inl e, q1) | (Inr lr, q1) \<Rightarrow>
          (case lock_ids_run db LockDept ds t q1 of (Inl e, q2) \<Rightarrow> (Inl e, q2) | (Inr ld, q2) \<Rightarrow>
          (case lock_ids_run db LockUser us t q2 of (Inl e, q3) \<Rightarrow> (Inl e, q3) | (Inr lu, q3) \<Rightarrow>
             (Inr (lr, ld, lu), q3)))))"

text \<open>What a caller sees of them.\<close>

definition lock_ids :: "auth_db \<Rightarrow> lock_kind \<Rightarrow> int list \<Rightarrow> int \<Rightarrow> int list res" where
  "lock_ids db k ids t = fst (lock_ids_run db k ids t [])"

definition lock_targets ::
    "auth_db \<Rightarrow> int set \<Rightarrow> int set \<Rightarrow> int set \<Rightarrow> int \<Rightarrow> (int list \<times> int list \<times> int list) res" where
  "lock_targets db role_ids dept_ids user_ids t = fst (lock_targets_run db role_ids dept_ids user_ids t)"

lemma lock_ids_eq: "lock_ids db k ids t = (if ids = [] then Inr []
      else let locked = sorted_list_of_set (tenant_ids db k t \<inter> set ids)
           in if locked \<noteq> ids then Inl (BusinessRule ''AUTHORIZATION_SNAPSHOT_STALE'') else Inr locked)"
  by (simp add: lock_ids_def lock_ids_run_def Let_def)

lemma lock_ids_run_fst: "fst (lock_ids_run db k ids t held) = lock_ids db k ids t"
  by (simp add: lock_ids_def lock_ids_run_def Let_def)

lemma lock_targets_eq: "lock_targets db role_ids dept_ids user_ids t =
     bindE (normalize_ids role_ids) (\<lambda>rs.
     bindE (normalize_ids dept_ids) (\<lambda>ds.
     bindE (normalize_ids user_ids) (\<lambda>us.
     bindE (lock_ids db LockRole rs t) (\<lambda>lr.
     bindE (lock_ids db LockDept ds t) (\<lambda>ld.
     bindE (lock_ids db LockUser us t) (\<lambda>lu. Inr (lr, ld, lu)))))))"
proof -
  have step: "fst (case lock_ids_run db k ids t q of (Inl e, q') \<Rightarrow> (Inl e, q') | (Inr l, q') \<Rightarrow> F l q') =
      bindE (lock_ids db k ids t) G" if "\<And>l q'. fst (F l q') = G l" for k ids q F and G :: "int list \<Rightarrow> 'a res"
    using that lock_ids_run_fst[of db k ids t q]
    by (cases "lock_ids db k ids t"; cases "lock_ids_run db k ids t q") auto
  show ?thesis
    by (cases "normalize_ids role_ids"; cases "normalize_ids dept_ids"; cases "normalize_ids user_ids")
      (auto simp: lock_targets_def lock_targets_run_def intro!: step)
qed

definition lock_less :: "row_lock \<Rightarrow> row_lock \<Rightarrow> bool" where
  "lock_less a b \<longleftrightarrow> kind_rank (fst a) < kind_rank (fst b) \<or> (fst a = fst b \<and> snd a < snd b)"

lemma kind_rank_inj [simp]: "kind_rank a = kind_rank b \<longleftrightarrow> a = b"
  by (cases a; cases b) auto

lemma lock_less_trans: "lock_less a b \<Longrightarrow> lock_less b c \<Longrightarrow> lock_less a c"
  by (auto simp: lock_less_def)


lemma transp_lock_less: "transp lock_less"
  by (auto simp: transp_def intro: lock_less_trans)

lemma normalize_ids_ok:
  "finite values \<Longrightarrow> normalize_ids values = Inr ids \<Longrightarrow>
     set ids = values \<and> sorted ids \<and> distinct ids \<and> (\<forall>i \<in> values. 0 < i)"
  by (auto simp: normalize_ids_def not_le split: if_splits)

lemma lock_ids_ok:
  assumes "lock_ids db k ids t = Inr l" "distinct ids" "sorted ids"
  shows "l = ids \<and> set ids \<subseteq> tenant_ids db k t"
proof (cases "ids = []")
  case True
  with assms show ?thesis by (simp add: lock_ids_eq)
next
  case False
  with assms(1) have "sorted_list_of_set (tenant_ids db k t \<inter> set ids) = ids" "l = ids"
    by (auto simp: lock_ids_eq Let_def split: if_splits)
  moreover have "finite (tenant_ids db k t \<inter> set ids)" by simp
  ultimately show ?thesis by (metis Int_lower1 set_sorted_list_of_set)
qed

text \<open>A granted lock set covers exactly the requested rows, all of them rows of the tenant.\<close>

lemma lock_targets_ok:
  assumes ok: "lock_targets db R D U t = Inr (lr, ld, lu)" and fin: "finite R" "finite D" "finite U"
  shows "set lr = R \<and> set ld = D \<and> set lu = U \<and> sorted lr \<and> sorted ld \<and> sorted lu \<and>
    distinct lr \<and> distinct ld \<and> distinct lu \<and>
    R \<subseteq> tenant_ids db LockRole t \<and> D \<subseteq> tenant_ids db LockDept t \<and> U \<subseteq> tenant_ids db LockUser t"
proof -
  from ok obtain rs ds us where
    n: "normalize_ids R = Inr rs" "normalize_ids D = Inr ds" "normalize_ids U = Inr us" and
    l: "lock_ids db LockRole rs t = Inr lr" "lock_ids db LockDept ds t = Inr ld"
       "lock_ids db LockUser us t = Inr lu"
    by (auto simp: lock_targets_eq bindE_eq_Inr)
  note rs = normalize_ids_ok[OF fin(1) n(1)] and ds = normalize_ids_ok[OF fin(2) n(2)]
    and us = normalize_ids_ok[OF fin(3) n(3)]
  show ?thesis
    using rs ds us lock_ids_ok[OF l(1)] lock_ids_ok[OF l(2)] lock_ids_ok[OF l(3)] by blast
qed



section \<open>No deadlock\<close>








end
