(* ===== verification/Json.thy ===== *)
theory Json
  imports Prelude
begin

text \<open>
  JSON values as Python's \<open>json\<close> module hands them over. A Python \<open>dict\<close> is an association
  list in insertion order with distinct keys. A finite float is known by its \<open>repr\<close> only: the
  modelled code never computes with one.
\<close>

datatype pyfloat = FNonFinite | FFinite string

datatype json =
    JNull
  | JBool bool
  | JInt int
  | JFloat pyfloat
  | JStr string
  | JArr "json list"
  | JObj "(string \<times> json) list"

type_synonym jobj = "(string \<times> json) list"

text \<open>\<open>d.get(k)\<close>: a missing key and a stored \<open>null\<close> both read as \<open>None\<close>.\<close>

definition jget :: "jobj \<Rightarrow> string \<Rightarrow> json" where
  "jget d k = (case map_of d k of None \<Rightarrow> JNull | Some v \<Rightarrow> v)"

definition jhas :: "jobj \<Rightarrow> string \<Rightarrow> bool" where
  "jhas d k = (map_of d k \<noteq> None)"

text \<open>Python truthiness; \<open>0.0\<close> and \<open>-0.0\<close> are the false floats.\<close>

fun truthy :: "json \<Rightarrow> bool" where
  "truthy JNull = False"
| "truthy (JBool b) = b"
| "truthy (JInt i) = (i \<noteq> 0)"
| "truthy (JFloat FNonFinite) = True"
| "truthy (JFloat (FFinite r)) = (r \<noteq> ''0.0'' \<and> r \<noteq> ''-0.0'')"
| "truthy (JStr s) = (s \<noteq> [])"
| "truthy (JArr xs) = (xs \<noteq> [])"
| "truthy (JObj kvs) = (kvs \<noteq> [])"

definition is_str :: "json \<Rightarrow> bool" where
  "is_str v = (case v of JStr _ \<Rightarrow> True | _ \<Rightarrow> False)"

text \<open>Python's \<open>isinstance(v, int)\<close> holds of booleans too.\<close>

definition is_int_not_bool :: "json \<Rightarrow> bool" where
  "is_int_not_bool v = (case v of JInt _ \<Rightarrow> True | _ \<Rightarrow> False)"

lemma is_str_iff: "is_str v \<longleftrightarrow> (\<exists>s. v = JStr s)"
  by (cases v) (auto simp: is_str_def)

lemma is_int_not_bool_iff: "is_int_not_bool v \<longleftrightarrow> (\<exists>i. v = JInt i)"
  by (cases v) (auto simp: is_int_not_bool_def)

text \<open>Python's \<open>==\<close> on these values: dictionaries compare by key, whatever their insertion order,
  and \<open>True == 1\<close>. A float equals only a float of the same \<open>repr\<close> here.\<close>

fun json_eq :: "json \<Rightarrow> json \<Rightarrow> bool"
and jarr_eq :: "json list \<Rightarrow> json list \<Rightarrow> bool"
and jobj_sub :: "(string \<times> json) list \<Rightarrow> (string \<times> json) list \<Rightarrow> bool" where
  "json_eq (JObj a) v = (case v of JObj b \<Rightarrow> length a = length b \<and> jobj_sub a b | _ \<Rightarrow> False)"
| "json_eq (JArr a) v = (case v of JArr b \<Rightarrow> jarr_eq a b | _ \<Rightarrow> False)"
| "json_eq (JBool a) v = (case v of JBool b \<Rightarrow> a = b | JInt i \<Rightarrow> i = (if a then 1 else 0) | _ \<Rightarrow> False)"
| "json_eq (JInt a) v = (case v of JInt b \<Rightarrow> a = b | JBool b \<Rightarrow> a = (if b then 1 else 0) | _ \<Rightarrow> False)"
| "json_eq JNull v = (v = JNull)"
| "json_eq (JStr s) v = (v = JStr s)"
| "json_eq (JFloat f) v = (v = JFloat f \<and> f \<noteq> FNonFinite)"
| "jarr_eq [] ys = (ys = [])"
| "jarr_eq (x # xs) ys = (case ys of [] \<Rightarrow> False | y # ys' \<Rightarrow> json_eq x y \<and> jarr_eq xs ys')"
| "jobj_sub [] b = True"
| "jobj_sub ((k, x) # a) b =
     ((case map_of b k of None \<Rightarrow> False | Some y \<Rightarrow> json_eq x y) \<and> jobj_sub a b)"

text \<open>Values as a parser or a literal builds them: distinct keys and no NaN.\<close>

fun json_wf :: "json \<Rightarrow> bool"
and jarr_wf :: "json list \<Rightarrow> bool"
and jobj_wf :: "(string \<times> json) list \<Rightarrow> bool" where
  "json_wf (JObj a) = (distinct (map fst a) \<and> jobj_wf a)"
| "json_wf (JArr a) = jarr_wf a"
| "json_wf (JFloat f) = (f \<noteq> FNonFinite)"
| "json_wf JNull = True"
| "json_wf (JBool b) = True"
| "json_wf (JInt i) = True"
| "json_wf (JStr s) = True"
| "jarr_wf [] = True"
| "jarr_wf (x # xs) = (json_wf x \<and> jarr_wf xs)"
| "jobj_wf [] = True"
| "jobj_wf ((k, x) # a) = (json_wf x \<and> jobj_wf a)"

lemma json_refl_aux:
  "json_wf v \<Longrightarrow> json_eq v v"
  "jarr_wf xs \<Longrightarrow> jarr_eq xs xs"
  "jobj_wf kvs \<Longrightarrow> \<forall>b. (\<forall>(k, x) \<in> set kvs. map_of b k = Some x) \<longrightarrow> jobj_sub kvs b"
proof (induction v and xs and kvs rule: json_wf_jarr_wf_jobj_wf.induct)
  case (1 a)
  then show ?case by auto
qed auto

lemma json_eq_refl: "json_wf v \<Longrightarrow> json_eq v v"
  by (rule json_refl_aux)

lemma jarr_wf_iff: "jarr_wf xs \<longleftrightarrow> (\<forall>x \<in> set xs. json_wf x)"
  by (induction xs) auto

lemma jobj_wf_iff: "jobj_wf kvs \<longleftrightarrow> (\<forall>x \<in> snd ` set kvs. json_wf x)"
  by (induction kvs) auto

end
