(* ===== verification/Grant_Authority.thy ===== *)
theory Grant_Authority
  imports Data_Scope_Facts Authorization_Lock Json
    "HOL-Library.Char_ord" "HOL-Library.List_Lexorder"
begin

text \<open>
  \<open>app/modules/system/service/grant_authority.py\<close>: the materialized upper bound an actor may
  delegate, with the agent grants of \<open>app/modules/ai/service/agent_authorization_service.py\<close>
  it reads. The SHA-256 of a canonical JSON text is a parameter \<open>h\<close>, a function of the JSON
  value; the agents that pass the tool registry's availability check are the parameter \<open>vis\<close>.
\<close>

section \<open>Loading a principal\<close>

definition load_user :: "auth_db \<Rightarrow> int \<Rightarrow> int \<Rightarrow> user option" where
  "load_user db uid t =
     map_option (\<lambda>u. u\<lparr>
        user_roles := filter (\<lambda>r. role_tenant r = t \<and> (t, uid, role_id r) \<in> set (links_roles db))
          (rows_roles db),
        user_depts := filter (\<lambda>d. dept_tenant d = t \<and> (t, uid, dept_id d) \<in> set (db_user_depts (scope db)))
          (db_depts (scope db))\<rparr>)
     (find (\<lambda>u. user_tenant u = t \<and> user_id u = uid) (rows_users db))"

lemma find_SomeD: "find P xs = Some x \<Longrightarrow> P x \<and> x \<in> set xs"
  by (auto simp: find_Some_iff)

lemma load_user_row:
  assumes "load_user db uid t = Some u"
  obtains row where "row \<in> set (rows_users db)" "user_tenant row = t" "user_id row = uid"
    "u = row\<lparr>
        user_roles := filter (\<lambda>r. role_tenant r = t \<and> (t, uid, role_id r) \<in> set (links_roles db))
          (rows_roles db),
        user_depts := filter (\<lambda>d. dept_tenant d = t \<and> (t, uid, dept_id d) \<in> set (db_user_depts (scope db)))
          (db_depts (scope db))\<rparr>"
proof -
  from assms obtain row where
    row: "find (\<lambda>u. user_tenant u = t \<and> user_id u = uid) (rows_users db) = Some row" and
    u: "u = row\<lparr>
        user_roles := filter (\<lambda>r. role_tenant r = t \<and> (t, uid, role_id r) \<in> set (links_roles db))
          (rows_roles db),
        user_depts := filter (\<lambda>d. dept_tenant d = t \<and> (t, uid, dept_id d) \<in> set (db_user_depts (scope db)))
          (db_depts (scope db))\<rparr>"
    unfolding load_user_def map_option_eq_Some by blast
  from find_SomeD[OF row] u show ?thesis using that by blast
qed

lemma load_user_Some:
  assumes "load_user db uid t = Some u"
  shows "user_id u = uid" "user_tenant u = t" "\<forall>r \<in> set (user_roles u). role_tenant r = t"
    "\<forall>d \<in> set (user_depts u). dept_tenant d = t"
  by (rule load_user_row[OF assms], simp)+

lemma load_user_roles:
  assumes "load_user db uid t = Some u"
  shows "r \<in> set (user_roles u) \<longleftrightarrow>
    r \<in> set (rows_roles db) \<and> role_tenant r = t \<and> (t, uid, role_id r) \<in> set (links_roles db)"
  by (rule load_user_row[OF assms]) simp

lemma load_user_depts:
  assumes "load_user db uid t = Some u"
  shows "d \<in> set (user_depts u) \<longleftrightarrow>
    d \<in> set (db_depts (scope db)) \<and> dept_tenant d = t \<and> (t, uid, dept_id d) \<in> set (db_user_depts (scope db))"
  by (rule load_user_row[OF assms]) simp

lemma load_user_in_tenant:
  assumes "load_user db uid t = Some u"
  shows "in_tenant u (user_roles u) None t"
  using load_user_Some[OF assms] by (simp add: in_tenant_def)

section \<open>Agent grants\<close>

definition grantable_agent_ids_by_role_ids :: "auth_db \<Rightarrow> int list \<Rightarrow> int \<Rightarrow> (int \<times> int set) list" where
  "grantable_agent_ids_by_role_ids db role_ids t =
     (let normalized = remdups role_ids;
          rows = map (\<lambda>(t', r, a, e). (r, a))
                   (filter (\<lambda>(t', r, a, e). t' = t \<and> r \<in> set normalized \<and> e) (role_agents db))
      in if normalized = [] then []
         else map (\<lambda>r. (r, set (map snd (filter (\<lambda>(r', a). r' = r) rows)))) normalized)"

definition agents_of :: "(int \<times> int set) list \<Rightarrow> int \<Rightarrow> int set" where
  "agents_of by_role r = (case map_of by_role r of None \<Rightarrow> {} | Some s \<Rightarrow> s)"

definition grantable_agent_ids_for_role_ids :: "auth_db \<Rightarrow> int list \<Rightarrow> int \<Rightarrow> int set" where
  "grantable_agent_ids_for_role_ids db role_ids t =
     (\<Union>x \<in> set (grantable_agent_ids_by_role_ids db role_ids t). snd x)"

definition grantable_agent_ids :: "auth_db \<Rightarrow> user \<Rightarrow> int \<Rightarrow> int set" where
  "grantable_agent_ids db u t =
     (\<Union>x \<in> set (grantable_agent_ids_by_role_ids db (map role_id (enabled_roles (user_roles u))) t). snd x)"

section \<open>The authority\<close>

record grant_authority =
  actor_user_id :: int
  actor_status :: string
  ga_tenant_id :: int
  super_admin :: bool
  enabled_role_ids :: "int set"
  permission_codes :: "string set"
  menu_ids :: "int set"
  visible_agent_ids :: "int set"
  grantable_ids :: "int set"
  ga_scope_kinds :: "string set"
  ga_dept_ids :: "int set option"
  ga_user_ids :: "int set option"
  version_summary :: string

definition allows_permission_codes :: "grant_authority \<Rightarrow> string set \<Rightarrow> bool" where
  "allows_permission_codes a values \<longleftrightarrow> super_admin a \<or> values \<subseteq> permission_codes a"

definition allows_menu_ids :: "grant_authority \<Rightarrow> int set \<Rightarrow> bool" where
  "allows_menu_ids a values \<longleftrightarrow> super_admin a \<or> values \<subseteq> menu_ids a"

definition allows_agent_ids :: "grant_authority \<Rightarrow> int set \<Rightarrow> bool" where
  "allows_agent_ids a values \<longleftrightarrow> super_admin a \<or> values \<subseteq> grantable_ids a"

definition allows_scope_kind :: "grant_authority \<Rightarrow> string \<Rightarrow> int set \<Rightarrow> bool" where
  "allows_scope_kind a k custom \<longleftrightarrow>
     (if super_admin a \<or> DATA_SCOPE_ALL \<in> ga_scope_kinds a then True
      else if k = DATA_SCOPE_SELF then ga_scope_kinds a \<noteq> {}
      else if k = DATA_SCOPE_DEPT_AND_SUB then DATA_SCOPE_DEPT_AND_SUB \<in> ga_scope_kinds a
      else if k = DATA_SCOPE_DEPT then {DATA_SCOPE_DEPT, DATA_SCOPE_DEPT_AND_SUB} \<inter> ga_scope_kinds a \<noteq> {}
      else if k \<noteq> DATA_SCOPE_CUSTOM then False
      else if {DATA_SCOPE_CUSTOM, DATA_SCOPE_DEPT, DATA_SCOPE_DEPT_AND_SUB} \<inter> ga_scope_kinds a = {} then False
      else (case ga_dept_ids a of None \<Rightarrow> True | Some ds \<Rightarrow> custom \<subseteq> ds))"

definition allows_materialized_scope :: "grant_authority \<Rightarrow> int set \<Rightarrow> int set \<Rightarrow> bool" where
  "allows_materialized_scope a dept_ids user_ids \<longleftrightarrow>
     (case ga_dept_ids a of None \<Rightarrow> True | Some ds \<Rightarrow> dept_ids \<subseteq> ds) \<and>
     (case ga_user_ids a of None \<Rightarrow> True | Some us \<Rightarrow> user_ids \<subseteq> us)"

definition jints :: "int set \<Rightarrow> json" where
  "jints s = JArr (map JInt (sorted_list_of_set s))"

definition jstrs :: "string set \<Rightarrow> json" where
  "jstrs s = JArr (map JStr (sorted_list_of_set s))"

definition jscope :: "int set option \<Rightarrow> json" where
  "jscope values = (case values of
       None \<Rightarrow> JObj [(''unbounded'', JBool True), (''ids'', JArr [])]
     | Some s \<Rightarrow> JObj [(''unbounded'', JBool False), (''ids'', jints s)])"

definition canonical_payload :: "grant_authority \<Rightarrow> json" where
  "canonical_payload a = JObj
     [(''actorUserId'', JStr (show_int (actor_user_id a))),
      (''actorStatus'', JStr (actor_status a)),
      (''tenantId'', JStr (show_int (ga_tenant_id a))),
      (''superAdmin'', JBool (super_admin a)),
      (''enabledRoleIds'', jints (enabled_role_ids a)),
      (''permissionCodes'', jstrs (permission_codes a)),
      (''menuIds'', jints (menu_ids a)),
      (''visibleAgentIds'', jints (visible_agent_ids a)),
      (''grantableAgentIds'', jints (grantable_ids a)),
      (''scopeKinds'', jstrs (ga_scope_kinds a)),
      (''accessibleDepartments'', jscope (ga_dept_ids a)),
      (''accessibleUsers'', jscope (ga_user_ids a))]"

definition role_version :: "role \<Rightarrow> json" where
  "role_version r = JObj
     [(''roleId'', JStr (show_int (role_id r))), (''roleCode'', JStr (role_code r)),
      (''status'', JStr (role_status r)), (''dataScope'', JStr (data_scope r)),
      (''menuIds'', JArr (map JInt (sort (map menu_id (role_menus r))))),
      (''customDeptIds'', JArr (map JInt (sort (map dept_id (role_dept_links r)))))]"

text \<open>The role-agent rows of the roles, ordered by role and agent.\<close>

definition agent_bindings :: "auth_db \<Rightarrow> int list \<Rightarrow> int \<Rightarrow> json" where
  "agent_bindings db role_ids t = JArr (map (\<lambda>(t', r, a, e). JObj
       [(''roleId'', JStr (show_int r)), (''agentId'', JStr (show_int a)), (''enabled'', JBool e)])
     (sort_key (\<lambda>(t', r, a, e). [r, a])
       (filter (\<lambda>(t', r, a, e). t' = t \<and> r \<in> set role_ids) (role_agents db))))"

definition build_authority ::
    "(json \<Rightarrow> string) \<Rightarrow> (auth_db \<Rightarrow> user \<Rightarrow> int set) \<Rightarrow> auth_db \<Rightarrow> int \<Rightarrow> int \<Rightarrow> grant_authority res" where
  "build_authority h vis db actor_id t =
     (case load_user db actor_id t of
        None \<Rightarrow> Inl (NotFound [])
      | Some actor \<Rightarrow>
        if user_status actor \<noteq> STATUS_ENABLED then Inl (Authorization ''ACCOUNT_DISABLED'')
        else let roles = enabled_roles (user_roles actor) in
        bindE (resolve_data_scope (scope db) actor t) (\<lambda>res.
          let users = map_option (eval_user_scope (scope db)) (accessible_user_scope res);
              a = \<lparr>actor_user_id = user_id actor, actor_status = user_status actor,
                   ga_tenant_id = t, super_admin = is_super_admin actor,
                   enabled_role_ids = set (map role_id roles),
                   permission_codes = collect_user_permission_codes actor,
                   menu_ids = set (map menu_id (concat (map role_menus roles))),
                   visible_agent_ids = vis db actor,
                   grantable_ids = grantable_agent_ids db actor t,
                   ga_scope_kinds = scope_kinds res,
                   ga_dept_ids = accessible_dept_ids res, ga_user_ids = users,
                   version_summary = []\<rparr>;
              payload = JObj
                [(''authority'', canonical_payload a),
                 (''roleDefinitions'', JArr (map role_version (sort_key role_id roles))),
                 (''actorDeptIds'', JArr (map JInt (sort (map dept_id (user_depts actor))))),
                 (''agentBindings'', agent_bindings db (map role_id roles) t)]
          in Inr (a\<lparr>version_summary := h payload\<rparr>)))"

section \<open>Facts\<close>

lemma map_of_graph:
  "map_of (map (\<lambda>r. (r, f r)) xs) r = (if r \<in> set xs then Some (f r) else None)"
  by (induction xs) auto

lemma agent_rows_iff:
  "a \<in> set (map snd (filter (\<lambda>(r', a). r' = r) (map (\<lambda>(t', r, a, e). (r, a))
      (filter (\<lambda>(t', r, a, e). t' = t \<and> r \<in> set ids \<and> e) rows))))
   \<longleftrightarrow> r \<in> set ids \<and> (t, r, a, True) \<in> set rows"
  by force

lemma agents_by_role_graph:
  "grantable_agent_ids_by_role_ids db ids t =
     map (\<lambda>r. (r, {a. r \<in> set ids \<and> (t, r, a, True) \<in> set (role_agents db)})) (remdups ids)"
proof -
  have "set (map snd (filter (\<lambda>(r', a). r' = r) (map (\<lambda>(t', r, a, e). (r, a))
      (filter (\<lambda>(t', r, a, e). t' = t \<and> r \<in> set (remdups ids) \<and> e) (role_agents db)))))
    = {a. r \<in> set ids \<and> (t, r, a, True) \<in> set (role_agents db)}" for r
    unfolding set_eq_iff agent_rows_iff by simp
  then show ?thesis
    unfolding grantable_agent_ids_by_role_ids_def Let_def by (cases "ids = []") simp_all
qed

lemma agents_by_role_eq:
  "agents_of (grantable_agent_ids_by_role_ids db ids t) r =
     (if r \<in> set ids then {a. (t, r, a, True) \<in> set (role_agents db)} else {})"
  by (simp add: agents_of_def agents_by_role_graph map_of_graph)

lemma grantable_agents_iff:
  "a \<in> grantable_agent_ids_for_role_ids db ids t \<longleftrightarrow>
     (\<exists>r \<in> set ids. (t, r, a, True) \<in> set (role_agents db))"
  by (auto simp: grantable_agent_ids_for_role_ids_def agents_by_role_graph)

lemma build_authority_Inr:
  assumes "build_authority h vis db i t = Inr a"
  obtains actor res where "load_user db i t = Some actor" "user_status actor = STATUS_ENABLED"
    "resolve_data_scope (scope db) actor t = Inr res"
    "super_admin a = is_super_admin actor" "actor_user_id a = i"
    "permission_codes a = collect_user_permission_codes actor"
    "menu_ids a = (\<Union>r \<in> set (enabled_roles (user_roles actor)). menu_id ` set (role_menus r))"
    "grantable_ids a = grantable_agent_ids db actor t"
    "ga_scope_kinds a = scope_kinds res" "ga_dept_ids a = accessible_dept_ids res"
    "ga_user_ids a = map_option (eval_user_scope (scope db)) (accessible_user_scope res)"
  using assms load_user_Some(1)[of db i t]
  by (fastforce simp: build_authority_def res_simps Let_def split: option.splits if_splits)

end
