(* ===== verification/Role_Assignment.thy ===== *)
theory Role_Assignment
  imports Role_Authority
begin

text \<open>
  \<open>app/modules/system/service/user_role_assignment_service.py\<close> and \<open>replace_user_roles\<close> of
  \<open>tenant_association_writer.py\<close>: complete replacements of a user's role set. An operation that
  locks runs over two database states, \<open>db0\<close> for what it reads before the locks and \<open>db1\<close> for
  what it reads once it holds them, so that anything committed in between is a difference of the
  two. \<open>h\<close> and \<open>vis\<close> are the parameters of \<open>Grant_Authority\<close>; \<open>lower\<close> is the database's \<open>LOWER\<close>.
\<close>

section \<open>Constants and results\<close>

definition USER_ROLE_CODE :: string where "USER_ROLE_CODE = ''R_USER''"
definition USER_ADD_PERMISSION :: string where "USER_ADD_PERMISSION = ''system:user:add''"
definition USER_EDIT_PERMISSION :: string where "USER_EDIT_PERMISSION = ''system:user:edit''"
definition USER_IMPORT_PERMISSION :: string where "USER_IMPORT_PERMISSION = ''system:user:import''"
definition USER_ROLE_AUTH_PERMISSION :: string where
  "USER_ROLE_AUTH_PERMISSION = ''system:user:role-auth''"

record assignment_result =
  asg_user_id :: int
  asg_old_role_ids :: "int list"
  asg_new_role_ids :: "int list"

record assignment_preview =
  pv_user_id :: int
  pv_user_name :: string
  pv_old_role_ids :: "int list"
  pv_new_role_ids :: "int list"
  pv_old_display :: "string list"
  pv_new_display :: "string list"
  pv_snapshot :: json

record assignable_page =
  match_count :: nat
  matched_role_ids :: "int list"
  page_roles :: "role list"

definition role_ids_of :: "role list \<Rightarrow> int list" where
  "role_ids_of roles = sort (map role_id roles)"

definition dept_ids_of :: "user \<Rightarrow> role list \<Rightarrow> int set" where
  "dept_ids_of u roles =
     set (map dept_id (user_depts u)) \<union> set (map dept_id (concat (map role_dept_links roles)))"

definition user_dept_ids :: "user \<Rightarrow> int list" where
  "user_dept_ids u = sort (map dept_id (user_depts u))"

definition role_display :: "role list \<Rightarrow> string list" where
  "role_display roles = map role_name (sort_key role_id roles)"

section \<open>Snapshots\<close>

definition load_department_assignment_snapshot :: "auth_db \<Rightarrow> int \<Rightarrow> int \<Rightarrow> json" where
  "load_department_assignment_snapshot db uid t =
     JArr (map (\<lambda>(t', u, d). JObj [(''deptId'', JStr (show_int d)),
         (''isPrimary'', JBool ((t', u, d) \<in> set (primary_depts db)))])
       (sort_key (\<lambda>(t', u, d). d)
         (filter (\<lambda>(t', u, d). t' = t \<and> u = uid) (db_user_depts (scope db)))))"

text \<open>\<open>role_map\<close> keeps the last role of each id.\<close>

definition role_facts :: "role list \<Rightarrow> json" where
  "role_facts roles =
     JArr (map (\<lambda>i. case map_of (rev (map (\<lambda>r. (role_id r, r)) roles)) i of
         None \<Rightarrow> JNull
       | Some r \<Rightarrow> JObj [(''roleId'', JStr (show_int (role_id r))), (''roleCode'', JStr (role_code r)),
           (''roleName'', JStr (role_name r)), (''status'', JStr (role_status r)),
           (''dataScope'', JStr (data_scope r))])
       (sorted_list_of_set (set (map role_id roles))))"

definition jids :: "int list \<Rightarrow> json" where
  "jids ids = JArr (map (\<lambda>i. JStr (show_int i)) ids)"

definition build_replacement_snapshot ::
    "(json \<Rightarrow> string) \<Rightarrow> grant_authority \<Rightarrow> user \<Rightarrow> role list \<Rightarrow> role list \<Rightarrow>
     role_set_authority \<Rightarrow> role_set_authority \<Rightarrow> json \<Rightarrow> json" where
  "build_replacement_snapshot h auth target old_roles new_roles old_auth new_auth depts =
     JObj [(''actor'', JObj [
             (''userId'', JStr (show_int (actor_user_id auth))), (''status'', JStr (actor_status auth)),
             (''tenantId'', JStr (show_int (ga_tenant_id auth))), (''superAdmin'', JBool (super_admin auth)),
             (''authorityVersion'', JStr (version_summary auth))]),
           (''target'', JObj [
             (''userId'', JStr (show_int (user_id target))), (''userName'', JStr (user_name target)),
             (''status'', JStr (user_status target)), (''roleIds'', jids (role_ids_of old_roles)),
             (''departmentAssignments'', depts)]),
           (''oldRoleIds'', jids (role_ids_of old_roles)),
           (''newRoleIds'', jids (role_ids_of new_roles)),
           (''roleFacts'', role_facts (old_roles @ new_roles)),
           (''before'', materialized_role_set_snapshot h old_auth),
           (''after'', materialized_role_set_snapshot h new_auth)]"

section \<open>Entry permissions and loads\<close>

definition require_permissions :: "grant_authority \<Rightarrow> string set \<Rightarrow> unit res" where
  "require_permissions auth required =
     guardE (allows_permission_codes auth required) (Authorization ''MISSING_PERMISSION'')"

definition ensure_entry ::
    "(json \<Rightarrow> string) \<Rightarrow> (auth_db \<Rightarrow> user \<Rightarrow> int set) \<Rightarrow> auth_db \<Rightarrow> int \<Rightarrow> string set \<Rightarrow> int \<Rightarrow> grant_authority res" where
  "ensure_entry h vis db actor_id required t =
     bindE (build_authority h vis db actor_id t) (\<lambda>auth.
     bindE (require_permissions auth required) (\<lambda>_. Inr auth))"

definition create_permissions :: "bool \<Rightarrow> string set" where
  "create_permissions explicit =
     (if explicit then {USER_ADD_PERMISSION, USER_ROLE_AUTH_PERMISSION} else {USER_ADD_PERMISSION})"

definition import_permissions :: "bool \<Rightarrow> string set" where
  "import_permissions has_role_column =
     (if has_role_column then {USER_IMPORT_PERMISSION, USER_ROLE_AUTH_PERMISSION}
      else {USER_IMPORT_PERMISSION})"

definition ensure_create_permissions where
  "ensure_create_permissions h vis db actor_id explicit t =
     ensure_entry h vis db actor_id (create_permissions explicit) t"

definition ensure_import_permissions where
  "ensure_import_permissions h vis db actor_id has_role_column t =
     ensure_entry h vis db actor_id (import_permissions has_role_column) t"

definition require_user :: "auth_db \<Rightarrow> int \<Rightarrow> int \<Rightarrow> user res" where
  "require_user db uid t = (case load_user db uid t of None \<Rightarrow> Inl (NotFound []) | Some u \<Rightarrow> Inr u)"

datatype id_arg = IdInt int | IdStr string

fun id_to_int :: "id_arg \<Rightarrow> int res" where
  "id_to_int (IdInt i) = Inr i"
| "id_to_int (IdStr s) = py_int s"

definition roles_by_ids :: "auth_db \<Rightarrow> int set \<Rightarrow> int \<Rightarrow> role list" where
  "roles_by_ids db ids t =
     sort_key role_id (filter (\<lambda>r. role_tenant r = t \<and> role_id r \<in> ids) (rows_roles db))"

definition load_requested_roles :: "auth_db \<Rightarrow> id_arg list \<Rightarrow> int \<Rightarrow> role list res" where
  "load_requested_roles db ids t =
     bindE (mapE id_to_int ids) (\<lambda>norm.
       if norm = [] then Inl (BusinessRule ''USER_ROLE_SET_REQUIRED'')
       else if card (set norm) \<noteq> length norm then Inl (BusinessRule ''USER_ROLE_SET_DUPLICATE'')
       else if \<exists>i \<in> set norm. i \<le> 0 then Inl (BusinessRule ''USER_ROLE_NOT_AVAILABLE'')
       else let roles = roles_by_ids db (set norm) t in
         if length roles \<noteq> length norm \<or> (\<exists>r \<in> set roles. role_status r \<noteq> STATUS_ENABLED)
         then Inl (BusinessRule ''USER_ROLE_NOT_AVAILABLE'') else Inr roles)"

definition default_role :: "auth_db \<Rightarrow> int \<Rightarrow> role res" where
  "default_role db t =
     (case find (\<lambda>r. role_tenant r = t \<and> role_code r = USER_ROLE_CODE \<and> role_status r = STATUS_ENABLED)
        (rows_roles db) of
        None \<Rightarrow> Inl (BusinessRule ''USER_DEFAULT_ROLE_NOT_AVAILABLE'') | Some r \<Rightarrow> Inr r)"

definition load_prospective_depts :: "auth_db \<Rightarrow> int list \<Rightarrow> int \<Rightarrow> dept list res" where
  "load_prospective_depts db ids t =
     (if card (set ids) \<noteq> length ids \<or> (\<exists>i \<in> set ids. i \<le> 0) then Inl (BusinessRule ''USER_DEPT_NOT_AVAILABLE'')
      else if ids = [] then Inr []
      else let depts = sort_key dept_id
             (filter (\<lambda>d. dept_tenant d = t \<and> dept_id d \<in> set ids) (db_depts (scope db))) in
        if length depts \<noteq> length ids \<or> (\<exists>d \<in> set depts. dept_status d \<noteq> STATUS_ENABLED)
        then Inl (BusinessRule ''USER_DEPT_NOT_AVAILABLE'') else Inr depts)"

section \<open>Protection and visibility\<close>

definition ensure_target_protection ::
    "grant_authority \<Rightarrow> int \<Rightarrow> user \<Rightarrow> role list \<Rightarrow> role list \<Rightarrow> bool \<Rightarrow> unit res" where
  "ensure_target_protection actor actor_id target old_roles new_roles allow_empty =
     (if actor_id = user_id target then Inl (BusinessRule ''USER_ROLE_SELF_ASSIGNMENT_FORBIDDEN'')
      else let protected = user_name target = ADMIN_USERNAME \<or>
             (\<exists>r \<in> set (old_roles @ new_roles).
                role_status r = STATUS_ENABLED \<and> role_code r = SUPER_ADMIN_ROLE_CODE) in
      if protected \<and> \<not> super_admin actor then Inl (Authorization ''USER_ROLE_SUPER_ADMIN_REQUIRED'')
      else if \<not> allow_empty \<and> old_roles = [] then Inl (BusinessRule ''AUTHORIZATION_SNAPSHOT_STALE'')
      else Inr ())"

definition ensure_target_visible :: "grant_authority \<Rightarrow> int \<Rightarrow> unit res" where
  "ensure_target_visible actor target_id =
     (if super_admin actor \<or> ga_user_ids actor = None then Inr ()
      else if (case ga_user_ids actor of None \<Rightarrow> True | Some us \<Rightarrow> target_id \<in> us) then Inr ()
      else Inl (Authorization ''USER_ROLE_TARGET_OUT_OF_SCOPE''))"

definition ensure_created_target_visible :: "grant_authority \<Rightarrow> int set \<Rightarrow> unit res" where
  "ensure_created_target_visible actor dept_ids =
     (if super_admin actor \<or> ga_dept_ids actor = None then Inr ()
      else if dept_ids \<noteq> {} \<and> (case ga_dept_ids actor of None \<Rightarrow> True | Some ds \<Rightarrow> dept_ids \<subseteq> ds) then Inr ()
      else Inl (Authorization ''USER_ROLE_TARGET_OUT_OF_SCOPE''))"

definition authorize_role_set ::
    "auth_db \<Rightarrow> grant_authority \<Rightarrow> int \<Rightarrow> user \<Rightarrow> role list \<Rightarrow> dept list option \<Rightarrow> bool \<Rightarrow> bool \<Rightarrow> int set \<Rightarrow> int \<Rightarrow>
     (role_set_authority option \<times> role_set_authority) res" where
  "authorize_role_set db actor actor_id target requested prospective allow_empty created ignored t =
     (let old_roles = user_roles target;
          created_depts = set (map dept_id (case prospective of None \<Rightarrow> [] | Some ds \<Rightarrow> ds));
          ign = (if created then insert (user_id target) ignored else ignored)
      in bindE (ensure_target_protection actor actor_id target old_roles requested allow_empty) (\<lambda>_.
         bindE (if created then ensure_created_target_visible actor created_depts
                else ensure_target_visible actor (user_id target)) (\<lambda>_.
         bindE (if old_roles = [] then Inr None
                else bindE (materialize_role_set_authority db target old_roles (Some (user_depts target)) t) (\<lambda>old.
                     bindE (ensure_role_set_dominated actor old ign) (\<lambda>_. Inr (Some old)))) (\<lambda>old.
         bindE (materialize_role_set_authority db target requested prospective t) (\<lambda>new.
         bindE (ensure_role_set_dominated actor new ign) (\<lambda>_. Inr (old, new)))))))"

section \<open>Preview\<close>

definition preview_roles ::
    "(json \<Rightarrow> string) \<Rightarrow> (auth_db \<Rightarrow> user \<Rightarrow> int set) \<Rightarrow> auth_db \<Rightarrow> int \<Rightarrow> int \<Rightarrow> id_arg list \<Rightarrow> int \<Rightarrow>
     assignment_preview res" where
  "preview_roles h vis db actor_id target_id ids t =
     bindE (load_requested_roles db ids t) (\<lambda>requested.
     bindE (build_authority h vis db actor_id t) (\<lambda>auth.
     bindE (require_permissions auth {USER_EDIT_PERMISSION, USER_ROLE_AUTH_PERMISSION}) (\<lambda>_.
     bindE (require_user db target_id t) (\<lambda>target.
     bindE (authorize_role_set db auth actor_id target requested None False False {} t) (\<lambda>(old, new).
     case old of
       None \<Rightarrow> Inl (BusinessRule ''AUTHORIZATION_SNAPSHOT_STALE'')
     | Some old_auth \<Rightarrow> Inr
         \<lparr>pv_user_id = user_id target, pv_user_name = user_name target,
          pv_old_role_ids = role_ids_of (user_roles target), pv_new_role_ids = role_ids_of requested,
          pv_old_display = role_display (user_roles target), pv_new_display = role_display requested,
          pv_snapshot = build_replacement_snapshot h auth target (user_roles target) requested
            old_auth new (load_department_assignment_snapshot db target_id t)\<rparr>)))))"

section \<open>Replacement\<close>

text \<open>\<open>replace_user_roles\<close>: delete the user's links in the tenant, insert one per role.\<close>

definition replace_user_roles :: "auth_db \<Rightarrow> user \<Rightarrow> role list \<Rightarrow> int \<Rightarrow> auth_db res" where
  "replace_user_roles db u roles t =
     (if user_tenant u \<noteq> t \<or> (\<exists>r \<in> set roles. role_tenant r \<noteq> t) then Inl ValueError
      else Inr (db\<lparr>links_roles :=
        filter (\<lambda>(t', x, r). \<not> (t' = t \<and> x = user_id u)) (links_roles db) @
        map (\<lambda>r. (t, user_id u, role_id r)) roles\<rparr>))"

definition facts_changed :: "user \<Rightarrow> user \<Rightarrow> bool" where
  "facts_changed before after \<longleftrightarrow>
     role_ids_of (user_roles after) \<noteq> role_ids_of (user_roles before) \<or>
     user_dept_ids after \<noteq> user_dept_ids before"

definition check_expected ::
    "(json \<Rightarrow> string) \<Rightarrow> auth_db \<Rightarrow> grant_authority \<Rightarrow> user \<Rightarrow> role list \<Rightarrow>
     role_set_authority option \<times> role_set_authority \<Rightarrow> json option \<Rightarrow> int \<Rightarrow> unit res" where
  "check_expected h db auth target live pair expected t = (case expected of
       None \<Rightarrow> Inr ()
     | Some want \<Rightarrow> (case fst pair of
          None \<Rightarrow> Inl (BusinessRule ''AI_PREPARED_ACTION_SNAPSHOT_STALE'')
        | Some old_auth \<Rightarrow>
            guardE (json_eq (build_replacement_snapshot h auth target (user_roles target) live old_auth (snd pair)
                       (load_department_assignment_snapshot db (user_id target) t)) want)
              (BusinessRule ''AI_PREPARED_ACTION_SNAPSHOT_STALE'')))"

text \<open>The row locks \<open>_replace_roles\<close> takes.\<close>

definition replacement_locks ::
    "user \<Rightarrow> user \<Rightarrow> role list \<Rightarrow> dept list option \<Rightarrow> int set \<times> int set" where
  "replacement_locks actor target requested prospective =
     (let all_roles = user_roles actor @ user_roles target @ requested
      in (set (role_ids_of all_roles),
          dept_ids_of actor all_roles \<union> set (map dept_id (user_depts target)) \<union>
          set (map dept_id (case prospective of None \<Rightarrow> [] | Some ds \<Rightarrow> ds))))"

definition replace_roles_core ::
    "(json \<Rightarrow> string) \<Rightarrow> (auth_db \<Rightarrow> user \<Rightarrow> int set) \<Rightarrow> auth_db \<Rightarrow> auth_db \<Rightarrow> int \<Rightarrow> int \<Rightarrow> role list \<Rightarrow>
     string set \<Rightarrow> bool \<Rightarrow> int list option \<Rightarrow> int set \<Rightarrow> json option \<Rightarrow> int \<Rightarrow> (assignment_result \<times> auth_db) res" where
  "replace_roles_core h vis db0 db1 actor_id target_id requested required allow_empty prospective_ids
     ignored expected t =
     bindE (require_user db0 actor_id t) (\<lambda>actor0.
     bindE (require_user db0 target_id t) (\<lambda>target0.
     bindE (case prospective_ids of None \<Rightarrow> Inr None
            | Some ids \<Rightarrow> bindE (load_prospective_depts db0 ids t) (\<lambda>ds. Inr (Some ds))) (\<lambda>prospective.
     bindE (guardE (actor_id \<noteq> target_id) (BusinessRule ''USER_ROLE_SELF_ASSIGNMENT_FORBIDDEN'')) (\<lambda>_.
     bindE (case replacement_locks actor0 target0 requested prospective of (rs, ds) \<Rightarrow>
              lock_targets db1 rs ds {actor_id, target_id} t) (\<lambda>_.
     bindE (require_user db1 actor_id t) (\<lambda>actor1.
     bindE (require_user db1 target_id t) (\<lambda>target1.
     bindE (guardE (\<not> facts_changed actor0 actor1 \<and> \<not> facts_changed target0 target1)
              (BusinessRule ''AUTHORIZATION_SNAPSHOT_STALE'')) (\<lambda>_.
     bindE (if allow_empty \<and> requested = [] then Inr []
            else load_requested_roles db1 (map IdInt (role_ids_of requested)) t) (\<lambda>live.
     bindE (build_authority h vis db1 actor_id t) (\<lambda>auth.
     bindE (require_permissions auth required) (\<lambda>_.
     bindE (authorize_role_set db1 auth actor_id target1 live prospective allow_empty allow_empty ignored t)
       (\<lambda>pair.
     bindE (check_expected h db1 auth target1 live pair expected t) (\<lambda>_.
     bindE (replace_user_roles db1 target1 live t) (\<lambda>db2.
     Inr (\<lparr>asg_user_id = target_id, asg_old_role_ids = role_ids_of (user_roles target1),
           asg_new_role_ids = role_ids_of live\<rparr>, db2)))))))))))))))"

definition replace_roles where
  "replace_roles h vis db0 db1 actor_id target_id ids expected t =
     bindE (load_requested_roles db0 ids t) (\<lambda>requested.
       replace_roles_core h vis db0 db1 actor_id target_id requested
         {USER_EDIT_PERMISSION, USER_ROLE_AUTH_PERMISSION} False None {} expected t)"

definition assign_created_user_roles where
  "assign_created_user_roles h vis db0 db1 actor_id target_id ids dept_ids t =
     bindE (ensure_create_permissions h vis db0 actor_id (ids \<noteq> None) t) (\<lambda>_.
     bindE (case ids of
              None \<Rightarrow> bindE (default_role db0 t) (\<lambda>r. Inr [r])
            | Some [] \<Rightarrow> Inr []
            | Some xs \<Rightarrow> load_requested_roles db0 xs t) (\<lambda>requested.
       replace_roles_core h vis db0 db1 actor_id target_id requested
         (create_permissions (ids \<noteq> None)) True (Some dept_ids) {} None t))"

definition assign_imported_user_roles where
  "assign_imported_user_roles h vis db0 db1 actor_id target_id ids dept_ids has_role_column ignored t =
     bindE (case ids of
              None \<Rightarrow> bindE (default_role db0 t) (\<lambda>r. Inr [r])
            | Some xs \<Rightarrow> load_requested_roles db0 xs t) (\<lambda>requested.
       replace_roles_core h vis db0 db1 actor_id target_id requested
         (import_permissions has_role_column) True (Some dept_ids) ignored None t)"

section \<open>Imports\<close>

text \<open>\<open>prospective_user_id or next_id()\<close>: \<open>fresh\<close> is the generated id.\<close>

definition import_target :: "int option \<Rightarrow> int \<Rightarrow> string \<Rightarrow> string \<Rightarrow> int \<Rightarrow> user" where
  "import_target prospective_id fresh name st t =
     \<lparr>user_id = (case prospective_id of None \<Rightarrow> fresh | Some i \<Rightarrow> if i = 0 then fresh else i),
      user_tenant = t, user_name = name, user_status = st, user_roles = [], user_depts = []\<rparr>"

definition validate_import_role_assignment where
  "validate_import_role_assignment h vis db actor_id target_id name st ids dept_ids authority ignored
     prospective_id fresh t =
     bindE (load_requested_roles db (map IdInt ids) t) (\<lambda>requested.
     bindE (load_prospective_depts db dept_ids t) (\<lambda>prospective.
     bindE (case target_id of None \<Rightarrow> Inr (import_target prospective_id fresh name st t)
            | Some i \<Rightarrow> require_user db i t) (\<lambda>target.
     bindE (case authority of Some a \<Rightarrow> Inr a | None \<Rightarrow> build_authority h vis db actor_id t) (\<lambda>live.
     bindE (authorize_role_set db live actor_id target requested (Some prospective)
              (target_id = None) (target_id = None) ignored t) (\<lambda>_.
     Inr (role_ids_of requested))))))"

definition apply_locked_import_roles :: "auth_db \<Rightarrow> int \<Rightarrow> id_arg list \<Rightarrow> int \<Rightarrow> (assignment_result \<times> auth_db) res" where
  "apply_locked_import_roles db target_id ids t =
     bindE (load_requested_roles db ids t) (\<lambda>requested.
     bindE (require_user db target_id t) (\<lambda>target.
     bindE (replace_user_roles db target requested t) (\<lambda>db'.
     Inr (\<lparr>asg_user_id = target_id, asg_old_role_ids = role_ids_of (user_roles target),
           asg_new_role_ids = role_ids_of requested\<rparr>, db'))))"

definition lock_import_targets ::
    "auth_db \<Rightarrow> auth_db \<Rightarrow> int \<Rightarrow> int set \<Rightarrow> int set \<Rightarrow> int set \<Rightarrow> int \<Rightarrow> user res" where
  "lock_import_targets db0 db1 actor_id target_ids role_ids dept_ids t =
     bindE (require_user db0 actor_id t) (\<lambda>actor0.
     bindE (mapE (\<lambda>i. require_user db0 i t) (sorted_list_of_set target_ids)) (\<lambda>targets0.
     bindE (if role_ids = {} then Inr []
            else load_requested_roles db0 (map IdInt (sorted_list_of_set role_ids)) t) (\<lambda>requested.
       let all_roles = user_roles actor0 @ concat (map user_roles targets0) @ requested;
           base = dept_ids \<union> dept_ids_of actor0 all_roles \<union>
             set (map dept_id (concat (map user_depts targets0)));
           all_depts = (if base \<noteq> {} \<and> (\<exists>r \<in> set all_roles. role_status r = STATUS_ENABLED \<and>
                            data_scope r = DATA_SCOPE_DEPT_AND_SUB)
                        then base \<union> get_dept_and_sub_ids (scope db0) (sorted_list_of_set base) t
                        else base)
       in bindE (lock_targets db1 (set (role_ids_of all_roles)) all_depts (insert actor_id target_ids) t) (\<lambda>_.
          bindE (require_user db1 actor_id t) (\<lambda>actor1.
          bindE (guardE (\<not> facts_changed actor0 actor1) (BusinessRule ''AUTHORIZATION_SNAPSHOT_STALE'')) (\<lambda>_.
          bindE (mapE (\<lambda>before. bindE (require_user db1 (user_id before) t) (\<lambda>after.
                   guardE (\<not> facts_changed before after) (BusinessRule ''AUTHORIZATION_SNAPSHOT_STALE'')))
                 targets0) (\<lambda>_.
          Inr actor1)))))))"

section \<open>Assignable roles\<close>

definition assignable :: "auth_db \<Rightarrow> grant_authority \<Rightarrow> int \<Rightarrow> role list \<Rightarrow> role \<Rightarrow> bool" where
  "assignable db auth t roles r \<longleftrightarrow>
     role_status r = STATUS_ENABLED \<and>
     (role_code r = SUPER_ADMIN_ROLE_CODE \<longrightarrow> super_admin auth) \<and>
     allows_permission_codes auth (menu_codes (role_menus r)) \<and>
     allows_menu_ids auth (set (map menu_id (role_menus r))) \<and>
     allows_agent_ids auth (agents_of (grantable_agent_ids_by_role_ids db (map role_id roles) t) (role_id r)) \<and>
     allows_scope_kind auth (data_scope r) (set (map dept_id (role_dept_links r)))"

definition filter_assignable_roles :: "auth_db \<Rightarrow> grant_authority \<Rightarrow> role list \<Rightarrow> int \<Rightarrow> role list" where
  "filter_assignable_roles db auth roles t = filter (assignable db auth t roles) roles"

text \<open>A Python slice \<open>xs[:n]\<close>.\<close>

definition py_prefix :: "int \<Rightarrow> 'a list \<Rightarrow> 'a list" where
  "py_prefix n xs = take (if n < 0 then nat (int (length xs) + n) else nat n) xs"

definition lookup_assignable_roles where
  "lookup_assignable_roles h vis lower db actor_id query limit t =
     bindE (ensure_entry h vis db actor_id {USER_ROLE_AUTH_PERMISSION} t) (\<lambda>auth.
       let q = py_strip (case query of None \<Rightarrow> [] | Some s \<Rightarrow> s);
           rows = filter (\<lambda>r. role_tenant r = t \<and> role_status r = STATUS_ENABLED \<and>
               (q = [] \<or> str_in (lower q) (lower (role_code r)) \<or> str_in (lower q) (lower (role_name r))))
             (rows_roles db);
           found = filter_assignable_roles db auth (sort_key (\<lambda>r. (role_code r, role_id r)) rows) t
       in Inr \<lparr>match_count = length found, matched_role_ids = role_ids_of found,
            page_roles = py_prefix limit found\<rparr>)"

definition list_assignable_roles where
  "list_assignable_roles h vis lower db actor_id query limit t =
     bindE (lookup_assignable_roles h vis lower db actor_id query limit t) (\<lambda>page. Inr (page_roles page))"

definition roles_are_assignable where
  "roles_are_assignable h vis db actor_id ids t =
     bindE (load_requested_roles db ids t) (\<lambda>requested.
     bindE (ensure_entry h vis db actor_id {USER_ROLE_AUTH_PERMISSION} t) (\<lambda>auth.
     Inr (role_ids_of (filter_assignable_roles db auth requested t) = role_ids_of requested)))"

definition ensure_role_assignment_access where
  "ensure_role_assignment_access h vis db actor_id target_id t =
     bindE (ensure_entry h vis db actor_id {USER_ROLE_AUTH_PERMISSION} t) (\<lambda>auth.
     bindE (ensure_target_visible auth target_id) (\<lambda>_.
     bindE (require_user db target_id t) (\<lambda>_. Inr ())))"

text \<open>The only exception \<open>get_complete_assignable_roles\<close> turns into a refusal is the
  \<open>AuthorizationException\<close> of the domination check.\<close>

definition get_complete_assignable_roles where
  "get_complete_assignable_roles h vis db actor_id target_id t =
     bindE (ensure_entry h vis db actor_id {USER_ROLE_AUTH_PERMISSION} t) (\<lambda>auth.
     bindE (ensure_target_visible auth target_id) (\<lambda>_.
     bindE (require_user db target_id t) (\<lambda>target.
       let current = sort_key role_id (user_roles target) in
       if current = [] then Inr ([], False)
       else if role_ids_of (filter_assignable_roles db auth current t) \<noteq> role_ids_of current
       then Inr ([], False)
       else bindE (materialize_role_set_authority db target current (Some (user_depts target)) t) (\<lambda>a.
         case ensure_role_set_dominated auth a {} of
           Inl _ \<Rightarrow> Inr ([], False)
         | Inr _ \<Rightarrow> Inr (current, True)))))"

end
