(* ===== verification/Role_Authority_Facts.thy ===== *)
theory Role_Authority_Facts
  imports Role_Authority
begin

text \<open>
  The materialized authority of one role set in closed form, and the bulk routine reduced to it
  on well-formed tables.
\<close>

section \<open>One role set\<close>

definition members_of :: "scope_db \<Rightarrow> int \<Rightarrow> int set \<Rightarrow> int set" where
  "members_of db t ds = {x. \<exists>d \<in> ds. (t, x, d) \<in> set (db_user_depts db)}"

definition with_principal :: "int \<Rightarrow> bool \<Rightarrow> int set \<Rightarrow> int set" where
  "with_principal uid b found = (if b then insert uid (found - {uid}) else found - {uid})"

definition acc_scope :: "auth_db \<Rightarrow> user \<Rightarrow> role list \<Rightarrow> dept list option \<Rightarrow> int \<Rightarrow> int set option \<times> bool" where
  "acc_scope db u rs depts t =
     (if grants_all rs then (None, True)
      else (Some (union_depts (scope db) (own_dept_list u depts) t rs),
            union_self (scope db) (own_dept_list u depts) t rs))"

definition acc_users :: "auth_db \<Rightarrow> user \<Rightarrow> dept list option \<Rightarrow> int \<Rightarrow> int set option \<times> bool \<Rightarrow> int set option" where
  "acc_users db u depts t sc = (case fst sc of None \<Rightarrow> None | Some ds \<Rightarrow>
     Some (with_principal (user_id u) (snd sc \<or> set (own_dept_list u depts) \<inter> ds \<noteq> {})
       (members_of (scope db) t ds)))"

definition authority_of ::
    "(int \<Rightarrow> int set) \<Rightarrow> role list \<Rightarrow> int set option \<Rightarrow> int set option \<Rightarrow> role_set_authority" where
  "authority_of agents rs ds us =
     \<lparr>rsa_permission_codes = codes_of (enabled_roles rs), rsa_menu_ids = menu_ids_of (enabled_roles rs),
      rsa_agent_ids = agents_of_roles agents (enabled_roles rs), rsa_dept_ids = ds, rsa_user_ids = us,
      role_definition_signature = signature_of_roles agents rs\<rparr>"

lemma authority_of_cong:
  assumes "\<And>r. r \<in> set rs \<Longrightarrow> f (role_id r) = g (role_id r)"
  shows "authority_of f rs ds us = authority_of g rs ds us"
proof -
  have "agents_of_roles f (enabled_roles rs) = agents_of_roles g (enabled_roles rs)"
    using assms by (auto simp: agents_of_roles_def enabled_roles_def)
  moreover have "map (role_signature_of f) rs = map (role_signature_of g) rs"
    using assms by (auto simp: role_signature_of_def)
  ultimately show ?thesis by (simp only: authority_of_def signature_of_roles_def)
qed

lemma eval_scope_minus:
  "eval_user_scope db (build_user_scope uid t ds incl) - {uid} = members_of db t ds - {uid}"
  by (auto simp: eval_build_user_scope members_of_def)

lemma own_set: "set (map dept_id (case depts of Some ds \<Rightarrow> ds | None \<Rightarrow> user_depts u)) = set (own_dept_list u depts)"
  by (simp add: own_dept_list_def)

definition role_agents_of :: "auth_db \<Rightarrow> int \<Rightarrow> int \<Rightarrow> int set" where
  "role_agents_of db t r = {a. (t, r, a, True) \<in> set (role_agents db)}"

lemma materialize_closed:
  assumes "in_tenant u (enabled_roles rs) depts t"
  shows "materialize_role_set_authority db u rs depts t =
    Inr (authority_of (role_agents_of db t) rs (fst (acc_scope db u rs depts t))
      (acc_users db u depts t (acc_scope db u rs depts t)))"
proof -
  let ?agents = "agents_of (grantable_agent_ids_by_role_ids db (map role_id rs) t)"
  have ag: "authority_of ?agents rs ds us = authority_of (role_agents_of db t) rs ds us" for ds us
    by (rule authority_of_cong) (auto simp: agents_by_role_eq role_agents_of_def)
  show ?thesis
  proof (cases "grants_all rs")
    case True
    then obtain ks where
      "resolve_data_scope_for_roles (scope db) u (enabled_roles rs) depts t = Inr (unbounded_resolution t ks)"
      using resolve_unbounded[OF assms, of "scope db"] by auto
    with True show ?thesis
      unfolding ag[symmetric]
      by (simp add: materialize_role_set_authority_def Let_def acc_scope_def acc_users_def authority_of_def)
  next
    case False
    then have res: "resolve_data_scope_for_roles (scope db) u (enabled_roles rs) depts t =
      Inr (bounded_resolution t (effective_kinds (enabled_roles rs)) (user_id u)
        (union_depts (scope db) (own_dept_list u depts) t rs)
        (union_self (scope db) (own_dept_list u depts) t rs)
        (union_self (scope db) (own_dept_list u depts) t rs))"
      using resolve_bounded[OF assms, of "scope db"] by simp
    show ?thesis
      unfolding ag[symmetric] materialize_role_set_authority_def Let_def res
      using False
      by (simp add: acc_scope_def acc_users_def authority_of_def with_principal_def eval_scope_minus own_set
          del: set_map)
  qed
qed

lemma materialize_cross_tenant:
  "\<not> in_tenant u (enabled_roles rs) depts t \<Longrightarrow> materialize_role_set_authority db u rs depts t = Inl RuntimeError"
  by (simp add: materialize_role_set_authority_def Let_def resolve_cross_tenant)

lemma materialize_Inr:
  assumes "materialize_role_set_authority db u rs depts t = Inr a"
  shows "in_tenant u (enabled_roles rs) depts t"
    "a = authority_of (role_agents_of db t) rs (fst (acc_scope db u rs depts t))
      (acc_users db u depts t (acc_scope db u rs depts t))"
proof -
  show ten: "in_tenant u (enabled_roles rs) depts t"
    using assms materialize_cross_tenant[of u rs depts t db] by (metis sum.distinct(1))
  show "a = authority_of (role_agents_of db t) rs (fst (acc_scope db u rs depts t))
      (acc_users db u depts t (acc_scope db u rs depts t))"
    using assms materialize_closed[OF ten, of db] by simp
qed

section \<open>Bulk materialization\<close>

text \<open>Well-formed tables: every comma-separated part of an \<open>ancestors\<close> path of the tenant is
  empty or a canonical decimal numeral.\<close>

definition canonical_path :: "string option \<Rightarrow> bool" where
  "canonical_path anc \<longleftrightarrow>
     (\<forall>p \<in> set (split_on CHR '','' (case anc of None \<Rightarrow> [] | Some a \<Rightarrow> a)). p = [] \<or> (\<exists>n. p = show_nat n))"

definition canonical_paths :: "auth_db \<Rightarrow> int \<Rightarrow> bool" where
  "canonical_paths db t \<longleftrightarrow>
     (\<forall>d \<in> set (db_depts (scope db)). dept_tenant d = t \<longrightarrow> canonical_path (dept_ancestors d))"

lemma canonical_path_code [code]:
  "canonical_path anc \<longleftrightarrow>
     list_all (\<lambda>p. p = [] \<or> show_nat (parse_dec p) = p) (split_on CHR '','' (case anc of None \<Rightarrow> [] | Some a \<Rightarrow> a))"
proof -
  have "(\<exists>n. p = show_nat n) \<longleftrightarrow> show_nat (parse_dec p) = p" for p
    by (metis parse_show_nat)
  then show ?thesis by (simp add: canonical_path_def list_all_iff)
qed

text \<open>A candidate as the callers load it: all of the tenant, its departments rows of the tenant,
  and the department links of its enabled CUSTOM roles those of the association table.\<close>

definition candidate_ok :: "auth_db \<Rightarrow> int \<Rightarrow> candidate \<Rightarrow> bool" where
  "candidate_ok db t c \<longleftrightarrow> (case c of (u, rs, ds) \<Rightarrow>
     in_tenant u (enabled_roles rs) (Some ds) t \<and>
     (\<forall>d \<in> set ds. \<exists>row \<in> set (db_depts (scope db)). dept_tenant row = t \<and> dept_id row = dept_id d) \<and>
     (\<forall>r \<in> set (enabled_roles rs). data_scope r = DATA_SCOPE_CUSTOM \<longrightarrow>
        set (map dept_id (filter (\<lambda>d. dept_status d = STATUS_ENABLED) (role_dept_links r))) =
        set (map snd (role_dept_rows (scope db) [role_id r] t))))"

lemma set_filter_flag: "set (map snd (filter fst (map (\<lambda>x. (P x, f x)) xs))) = {f x | x. x \<in> set xs \<and> P x}"
  by (induction xs) auto

lemma mapE_Inr_all: "\<forall>x \<in> set xs. f x = Inr (g x) \<Longrightarrow> mapE f xs = Inr (map g xs)"
  by (induction xs) auto

lemma show_int_is_nat: "show_int i = show_nat n \<longleftrightarrow> i = int n"
  by (metis show_int_inj show_int_of_nat)

lemma row_in_subtree_canonical:
  assumes "canonical_path anc"
  shows "row_in_subtree own (d, anc) =
    Inr (d \<in> own \<or> (\<exists>i \<in> own. show_int i \<in> set (split_on CHR '','' (case anc of None \<Rightarrow> [] | Some a \<Rightarrow> a))))"
proof -
  let ?parts = "split_on CHR '','' (case anc of None \<Rightarrow> [] | Some a \<Rightarrow> a)"
  let ?digits = "filter py_isdigit ?parts"
  have parts: "p = [] \<or> (\<exists>n. p = show_nat n)" if "p \<in> set ?parts" for p
    using assms that unfolding canonical_path_def by blast
  have digits: "\<exists>n. p = show_nat n" if "p \<in> set ?digits" for p
    using parts[of p] that by (auto simp: py_isdigit_def)
  have ints: "mapE py_int ?digits = Inr (map (\<lambda>p. int (parse_dec p)) ?digits)"
  proof (intro mapE_Inr_all ballI)
    fix p assume "p \<in> set ?digits"
    from digits[OF this] obtain n where "p = show_nat n" ..
    then show "py_int p = Inr (int (parse_dec p))" by simp
  qed
  have iff: "own \<inter> set (map (\<lambda>p. int (parse_dec p)) ?digits) \<noteq> {} \<longleftrightarrow> (\<exists>i \<in> own. show_int i \<in> set ?parts)"
    (is "?L \<longleftrightarrow> ?R")
  proof
    assume ?L
    then obtain p where p: "p \<in> set ?digits" "int (parse_dec p) \<in> own" by (auto simp: disjoint_iff)
    from digits[OF p(1)] obtain n where n: "p = show_nat n" ..
    with p show ?R by (intro bexI[of _ "int n"]) auto
  next
    assume ?R
    then obtain i where i: "i \<in> own" "show_int i \<in> set ?parts" by blast
    from parts[OF i(2)] obtain n where n: "show_int i = show_nat n" by auto
    then have "i = int n" by (simp add: show_int_is_nat)
    moreover have "show_nat n \<in> set ?digits" using i(2) n by simp
    ultimately have "i \<in> own \<inter> set (map (\<lambda>p. int (parse_dec p)) ?digits)"
      using i(1) by (auto intro!: image_eqI[of _ _ "show_nat n"])
    then show ?L by blast
  qed
  show ?thesis
    unfolding row_in_subtree_def fst_conv snd_conv ints bindE_simps iff by simp
qed

lemma subtree_of_rows_eq:
  assumes "canonical_paths db t" "set own \<subseteq> all_own"
    and "\<forall>i \<in> set own. \<exists>row \<in> set (db_depts (scope db)). dept_tenant row = t \<and> dept_id row = i"
  shows "subtree_of_rows (set own) (descendant_rows db all_own t) = Inr (get_dept_and_sub_ids (scope db) own t)"
proof -
  let ?anc = "\<lambda>anc. split_on CHR '','' (case anc of None \<Rightarrow> [] | Some a \<Rightarrow> a)"
  let ?hit = "\<lambda>row :: int \<times> string option. fst row \<in> set own \<or> (\<exists>i \<in> set own. show_int i \<in> set (?anc (snd row)))"
  let ?rows = "descendant_rows db all_own t"
  have can: "canonical_path anc" if "(d, anc) \<in> set ?rows" for d anc
    using that assms(1) by (auto simp: descendant_rows_def canonical_paths_def split: if_splits)
  have "mapE (\<lambda>row. bindE (row_in_subtree (set own) row) (\<lambda>b. Inr (b, fst row))) ?rows
      = Inr (map (\<lambda>row. (?hit row, fst row)) ?rows)"
  proof (intro mapE_Inr_all ballI)
    fix row assume "row \<in> set ?rows"
    then have "canonical_path (snd row)" using can[of "fst row" "snd row"] by simp
    then show "bindE (row_in_subtree (set own) row) (\<lambda>b. Inr (b, fst row)) = Inr (?hit row, fst row)"
      using row_in_subtree_canonical[of "snd row" "set own" "fst row"] by simp
  qed
  then have "subtree_of_rows (set own) ?rows = Inr {fst row | row. row \<in> set ?rows \<and> ?hit row}"
    unfolding subtree_of_rows_def by (simp only: bindE_simps set_filter_flag)
  moreover have "{fst row | row. row \<in> set ?rows \<and> ?hit row} = get_dept_and_sub_ids (scope db) own t"
  proof (cases "own = []")
    case True
    then show ?thesis by (simp add: get_dept_and_sub_ids_def)
  next
    case False
    then have ne: "all_own \<noteq> {}" using assms(2) by auto
    have rows: "(d, anc) \<in> set ?rows \<longleftrightarrow> (\<exists>row \<in> set (db_depts (scope db)). dept_tenant row = t \<and>
        dept_id row = d \<and> dept_ancestors row = anc \<and>
        (d \<in> all_own \<or> (\<exists>i \<in> all_own. show_int i \<in> set (?anc anc))))" for d anc
      using ne unfolding descendant_rows_def subtree_pattern by (auto simp: image_iff)
    have sub: "get_dept_and_sub_ids (scope db) own t = set own \<union> {dept_id row | row.
        row \<in> set (db_depts (scope db)) \<and> dept_tenant row = t \<and>
        (\<exists>i \<in> set own. show_int i \<in> set (?anc (dept_ancestors row)))}"
      using False unfolding get_dept_and_sub_ids_def subtree_pattern by auto
    show ?thesis
    proof (intro set_eqI iffI)
      fix x assume "x \<in> {fst row | row. row \<in> set ?rows \<and> ?hit row}"
      then obtain anc where "(x, anc) \<in> set ?rows" "?hit (x, anc)" by auto
      then show "x \<in> get_dept_and_sub_ids (scope db) own t"
        unfolding sub rows by auto
    next
      fix x assume "x \<in> get_dept_and_sub_ids (scope db) own t"
      then obtain row where row: "row \<in> set (db_depts (scope db))" "dept_tenant row = t" "dept_id row = x"
        "x \<in> set own \<or> (\<exists>i \<in> set own. show_int i \<in> set (?anc (dept_ancestors row)))"
        unfolding sub using assms(3) by blast
      then have "(x, dept_ancestors row) \<in> set ?rows" unfolding rows using assms(2) by blast
      with row(4) show "x \<in> {fst row | row. row \<in> set ?rows \<and> ?hit row}" by force
    qed
  qed
  ultimately show ?thesis by simp
qed

lemma fold_custom:
  "foldl (\<lambda>(ids, incl) r. let c = g r in (ids \<union> c, incl \<or> c = {})) (a, b) rs =
     (a \<union> (\<Union>r \<in> set rs. g r), b \<or> (\<exists>r \<in> set rs. g r = {}))"
  by (induction rs arbitrary: a b) (auto simp: Let_def)

lemma grants_all_kinds:
  "grants_all rs \<longleftrightarrow> (\<exists>r \<in> set (enabled_roles rs). role_code r = SUPER_ADMIN_ROLE_CODE) \<or>
     DATA_SCOPE_ALL \<in> (if known_scope_kinds (enabled_roles rs) = {} then {DATA_SCOPE_SELF}
        else known_scope_kinds (enabled_roles rs))"
  using grants_all_iff[of rs] by (simp add: effective_kinds_def)

lemma effective_kinds_enabled [simp]: "effective_kinds (enabled_roles rs) = effective_kinds rs"
  by (simp add: effective_kinds_def)

lemma bulk_scope_eq:
  assumes "canonical_paths db t" "candidate_ok db t (u, rs, ds)" "set (map dept_id ds) \<subseteq> all_own"
    and that: "\<not> grants_all rs"
  shows "bulk_scope (descendant_rows db all_own t) (enabled_roles rs) ds = Inr (acc_scope db u rs (Some ds) t)"
proof -
  let ?en = "enabled_roles rs" and ?own = "own_dept_list u (Some ds)"
  let ?kinds = "effective_kinds rs"
  have own: "set (map dept_id ds) = set ?own" by (simp add: own_dept_list_def)
  have own_empty: "set ?own = {} \<longleftrightarrow> ?own = []" by simp
  have ok: "in_tenant u ?en (Some ds) t"
    "\<forall>i \<in> set ?own. \<exists>row \<in> set (db_depts (scope db)). dept_tenant row = t \<and> dept_id row = i"
    and custom: "\<forall>r \<in> set (filter (\<lambda>r. data_scope r = DATA_SCOPE_CUSTOM) ?en).
        set (map dept_id (filter (\<lambda>d. dept_status d = STATUS_ENABLED) (role_dept_links r))) =
        set (map snd (role_dept_rows (scope db) [role_id r] t))"
    using assms(2) by (simp_all add: candidate_ok_def own_dept_list_def)
  have sub: "subtree_of_rows (set ?own) (descendant_rows db all_own t) =
      Inr (get_dept_and_sub_ids (scope db) ?own t)"
    using subtree_of_rows_eq[OF assms(1) _ ok(2)] assms(3) own by simp
  have not_all: "\<not> (\<exists>r \<in> set ?en. role_code r = SUPER_ADMIN_ROLE_CODE)" "DATA_SCOPE_ALL \<notin> ?kinds"
    using that by (simp_all add: grants_all_iff)
  have acc: "acc_scope db u rs (Some ds) t =
      (let a = accumulate_scopes (scope db) ?en ?own ?kinds t in (Some (fst a), snd a))"
  proof -
    have ten: "in_tenant u ?en (Some ds) t" by (rule ok(1))
    have "resolve_data_scope_for_roles (scope db) u ?en (Some ds) t =
      Inr (bounded_resolution t ?kinds (user_id u) (union_depts (scope db) ?own t rs)
        (union_self (scope db) ?own t rs) (union_self (scope db) ?own t rs))"
      using resolve_bounded[OF ten, of "scope db"] that by simp
    moreover have "resolve_data_scope_for_roles (scope db) u ?en (Some ds) t =
      (let a = accumulate_scopes (scope db) ?en ?own ?kinds t
       in Inr (bounded_resolution t ?kinds (user_id u) (fst a) (snd a) (snd a)))"
      using ten not_all unfolding resolve_unfold by simp
    ultimately show ?thesis
      using that by (auto simp: acc_scope_def Let_def bounded_resolution_def)
  qed
  have fold: "foldl (\<lambda>(ids, incl) r. let custom = set (map dept_id
        (filter (\<lambda>d. dept_status d = STATUS_ENABLED) (role_dept_links r))) in (ids \<union> custom, incl \<or> custom = {}))
      st (filter (\<lambda>r. data_scope r = DATA_SCOPE_CUSTOM) ?en) =
    (fst st \<union> (\<Union>r \<in> {r \<in> set ?en. data_scope r = DATA_SCOPE_CUSTOM}. set (map snd (role_dept_rows (scope db) [role_id r] t))),
     snd st \<or> (\<exists>r \<in> {r \<in> set ?en. data_scope r = DATA_SCOPE_CUSTOM}. set (map snd (role_dept_rows (scope db) [role_id r] t)) = {}))"
    for st
    using custom by (cases st) (simp only: fold_custom fst_conv snd_conv set_filter, force)
  have kinds: "(if known_scope_kinds ?en = {} then {DATA_SCOPE_SELF} else known_scope_kinds ?en) = ?kinds"
    by (simp add: effective_kinds_def)
  show ?thesis
    unfolding bulk_scope_def Let_def own kinds acc accumulate_scopes_eq fold[unfolded Let_def] sub
    using not_all by (auto simp: own_empty dept_tree.sub_empty_iff simp del: set_map)
qed

lemma bulk_scope_all:
  assumes "grants_all rs"
  shows "bulk_scope rows (enabled_roles rs) ds = Inr (None, True)"
  using assms unfolding grants_all_kinds bulk_scope_def Let_def
  by (elim disjE) (simp_all only: if_True if_cancel)

lemma bulk_scope_acc:
  assumes "canonical_paths db t" "candidate_ok db t (u, rs, ds)" "set (map dept_id ds) \<subseteq> all_own"
  shows "bulk_scope (descendant_rows db all_own t) (enabled_roles rs) ds = Inr (acc_scope db u rs (Some ds) t)"
  using bulk_scope_eq[OF assms] bulk_scope_all[of rs] by (cases "grants_all rs") (simp_all add: acc_scope_def)

lemma bulk_users_eq:
  assumes "\<And>ds'. fst sc = Some ds' \<Longrightarrow> ds' \<subseteq> bounded"
  shows "bulk_user_ids (map (\<lambda>(t', x, d). (d, x)) (filter (\<lambda>(t', x, d). t' = t \<and> d \<in> bounded) (db_user_depts (scope db))))
      u ds sc = acc_users db u (Some ds) t sc"
proof (cases "fst sc")
  case None
  then show ?thesis by (simp add: bulk_user_ids_def acc_users_def)
next
  case (Some ds')
  have "set (map snd (filter (\<lambda>(d, x). d \<in> ds') (map (\<lambda>(t', x, d). (d, x))
      (filter (\<lambda>(t', x, d). t' = t \<and> d \<in> bounded) (db_user_depts (scope db)))))) = members_of (scope db) t ds'"
    using assms[OF Some] by (force simp: members_of_def)
  with Some show ?thesis
    by (simp add: bulk_user_ids_def acc_users_def with_principal_def own_dept_list_def Let_def del: set_map)
qed

text \<open>The agents of a role under the override of a proposed binding.\<close>

definition overridden :: "(int \<times> int set) list \<Rightarrow> (int \<Rightarrow> int set) \<Rightarrow> int \<Rightarrow> int set" where
  "overridden override f r = (case map_of override r of Some s \<Rightarrow> s | None \<Rightarrow> f r)"

lemma overridden_Nil [simp]: "overridden [] f = f"
  by (simp add: overridden_def fun_eq_iff)

lemma bulk_closed:
  assumes "canonical_paths db t" "\<forall>c \<in> set cands. candidate_ok db t c"
  shows "materialize_role_set_authorities db cands override t =
    Inr (map (\<lambda>(u, rs, ds). authority_of (overridden override (role_agents_of db t)) rs
      (fst (acc_scope db u rs (Some ds) t)) (acc_users db u (Some ds) t (acc_scope db u rs (Some ds) t))) cands)"
proof -
  let ?own = "set (concat (map (\<lambda>(u, rs, ds). map dept_id ds) cands))"
  let ?acc = "\<lambda>(u, rs, ds). acc_scope db u rs (Some ds) t"
  let ?single = "\<lambda>(u, rs, ds). authority_of (overridden override (role_agents_of db t)) rs
      (fst (acc_scope db u rs (Some ds) t)) (acc_users db u (Some ds) t (acc_scope db u rs (Some ds) t))"
  have scopes: "mapE (\<lambda>(u, rs, ds). bulk_scope (descendant_rows db ?own t) (enabled_roles rs) ds) cands
      = Inr (map ?acc cands)"
  proof (intro mapE_Inr_all ballI)
    fix c assume c: "c \<in> set cands"
    obtain u rs ds where [simp]: "c = (u, rs, ds)" by (cases c) auto
    have "set (map dept_id ds) \<subseteq> ?own" using c by force
    from bulk_scope_acc[OF assms(1) _ this, of u rs] assms(2) c
    show "(\<lambda>(u, rs, ds). bulk_scope (descendant_rows db ?own t) (enabled_roles rs) ds) c = Inr (?acc c)"
      by simp
  qed
  define bounded where "bounded = (\<Union>sc \<in> set (map ?acc cands). case fst sc of None \<Rightarrow> {} | Some ds \<Rightarrow> ds)"
  define agents where "agents = (\<lambda>r. case map_of override r of Some s \<Rightarrow> s
      | None \<Rightarrow> agents_of (grantable_agent_ids_by_role_ids db
          (concat (map (\<lambda>(u, rs, ds). map role_id rs) cands)) t) r)"
  have one: "\<lparr>rsa_permission_codes = codes_of (enabled_roles rs), rsa_menu_ids = menu_ids_of (enabled_roles rs),
       rsa_agent_ids = agents_of_roles agents (enabled_roles rs), rsa_dept_ids = fst sc,
       rsa_user_ids = bulk_user_ids (map (\<lambda>(t', x, d). (d, x))
         (filter (\<lambda>(t', x, d). t' = t \<and> d \<in> bounded) (db_user_depts (scope db)))) u ds sc,
       role_definition_signature = signature_of_roles agents rs\<rparr> = ?single (u, rs, ds)"
    if c: "(u, rs, ds) \<in> set cands" and sc: "sc = acc_scope db u rs (Some ds) t" for u rs ds sc
  proof -
    have "ds' \<subseteq> bounded" if "fst sc = Some ds'" for ds'
    proof -
      have "sc \<in> set (map ?acc cands)" using c sc by (auto intro!: image_eqI[of _ _ "(u, rs, ds)"])
      then show ?thesis
        unfolding bounded_def using that by (intro UN_upper[THEN subset_trans[rotated]] ) auto
    qed
    then have users: "bulk_user_ids (map (\<lambda>(t', x, d). (d, x))
         (filter (\<lambda>(t', x, d). t' = t \<and> d \<in> bounded) (db_user_depts (scope db)))) u ds sc
       = acc_users db u (Some ds) t sc" by (rule bulk_users_eq)
    have "authority_of agents rs x y = authority_of (overridden override (role_agents_of db t)) rs x y" for x y
    proof (rule authority_of_cong)
      fix r assume "r \<in> set rs"
      then have "role_id r \<in> set (concat (map (\<lambda>(u, rs, ds). map role_id rs) cands))"
        using c by force
      then show "agents (role_id r) = overridden override (role_agents_of db t) (role_id r)"
        unfolding agents_def overridden_def agents_by_role_eq role_agents_of_def by simp
    qed
    then show ?thesis
      unfolding users[unfolded sc] sc prod.case by (simp only: authority_of_def[symmetric])
  qed
  show ?thesis
    unfolding materialize_role_set_authorities_def Let_def scopes bindE_simps bounded_def[symmetric]
      agents_def[symmetric]
  proof (simp only: zip_map2 zip_same_conv_map map_map o_def split_beta' fst_conv snd_conv,
      intro arg_cong[of _ _ Inr] map_cong refl, goal_cases)
    case (1 c)
    then show ?case
      using one[of "fst c" "fst (snd c)" "snd (snd c)" "acc_scope db (fst c) (fst (snd c)) (Some (snd (snd c))) t"]
      by (simp add: split_beta')
  qed
qed

lemma bulk_eq_single:
  assumes "canonical_paths db t" "\<forall>c \<in> set cands. candidate_ok db t c"
  shows "materialize_role_set_authorities db cands [] t =
    mapE (\<lambda>(u, rs, ds). materialize_role_set_authority db u rs (Some ds) t) cands"
proof -
  have "mapE (\<lambda>(u, rs, ds). materialize_role_set_authority db u rs (Some ds) t) cands
      = Inr (map (\<lambda>(u, rs, ds). authority_of (role_agents_of db t) rs (fst (acc_scope db u rs (Some ds) t))
          (acc_users db u (Some ds) t (acc_scope db u rs (Some ds) t))) cands)"
    using assms(2) by (intro mapE_Inr_all) (auto simp: candidate_ok_def materialize_closed)
  then show ?thesis unfolding bulk_closed[OF assms] by simp
qed

end
