(* ===== verification/Role_Assignment_Facts.thy ===== *)
theory Role_Assignment_Facts
  imports Role_Assignment Role_Authority_Facts
begin

text \<open>
  Inversion lemmas for the role-assignment operations, the effect of a replacement on the users
  loaded afterwards, and the order in which one authority is dominated by another.
\<close>

section \<open>Loads\<close>

lemma require_user_Inr: "require_user db uid t = Inr u \<longleftrightarrow> load_user db uid t = Some u"
  by (auto simp: require_user_def split: option.splits)

lemma roles_by_ids_set: "set (roles_by_ids db ids t) = {r \<in> set (rows_roles db). role_tenant r = t \<and> role_id r \<in> ids}"
  by (auto simp: roles_by_ids_def)

lemma load_requested_Inr:
  assumes "load_requested_roles db ids t = Inr roles"
  obtains norm where "mapE id_to_int ids = Inr norm" "norm \<noteq> []" "distinct norm" "\<forall>i \<in> set norm. 0 < i"
    "roles = roles_by_ids db (set norm) t" "length roles = length norm"
    "\<forall>r \<in> set roles. role_status r = STATUS_ENABLED"
  using assms unfolding load_requested_roles_def Let_def bindE_eq_Inr
  by (auto split: if_splits simp: card_distinct not_le)

lemma load_requested_facts:
  assumes "load_requested_roles db ids t = Inr roles"
  shows "\<forall>r \<in> set roles. role_tenant r = t \<and> role_status r = STATUS_ENABLED \<and> r \<in> set (rows_roles db)"
    "roles \<noteq> []" "enabled_roles roles = roles"
    "\<lbrakk>r \<in> set (rows_roles db); role_tenant r = t; role_id r \<in> role_id ` set roles\<rbrakk> \<Longrightarrow> r \<in> set roles"
proof -
  obtain norm where n: "norm \<noteq> []" "roles = roles_by_ids db (set norm) t" "length roles = length norm"
    "\<forall>r \<in> set roles. role_status r = STATUS_ENABLED"
    by (rule load_requested_Inr[OF assms])
  show "\<forall>r \<in> set roles. role_tenant r = t \<and> role_status r = STATUS_ENABLED \<and> r \<in> set (rows_roles db)"
    using n(4) unfolding n(2) roles_by_ids_set by simp
  show "roles \<noteq> []" using n(1,3) by auto
  show "enabled_roles roles = roles" using n(4) by (simp add: enabled_roles_def)
  show "r \<in> set roles" if "r \<in> set (rows_roles db)" "role_tenant r = t" "role_id r \<in> role_id ` set roles"
    using that unfolding n(2) roles_by_ids_set by auto
qed

lemma build_authority_actor:
  assumes "build_authority h vis db i t = Inr a"
  shows "load_user db i t \<noteq> None"
  by (rule build_authority_Inr[OF assms]) simp

section \<open>Protection, visibility, authorization\<close>

lemma protection_Inr:
  "ensure_target_protection actor actor_id target old new allow_empty = Inr u \<longleftrightarrow>
     actor_id \<noteq> user_id target \<and>
     (user_name target = ADMIN_USERNAME \<or> (\<exists>r \<in> set (old @ new).
        role_status r = STATUS_ENABLED \<and> role_code r = SUPER_ADMIN_ROLE_CODE) \<longrightarrow> super_admin actor) \<and>
     (allow_empty \<or> old \<noteq> [])"
  unfolding ensure_target_protection_def Let_def by auto

lemma visible_Inr:
  "ensure_target_visible actor i = Inr u \<longleftrightarrow>
     super_admin actor \<or> (case ga_user_ids actor of None \<Rightarrow> True | Some us \<Rightarrow> i \<in> us)"
  unfolding ensure_target_visible_def by (auto split: option.splits)

lemma authorize_Inr:
  assumes "authorize_role_set db actor actor_id target requested prospective allow_empty created ignored t = Inr (old, new)"
  shows "ensure_target_protection actor actor_id target (user_roles target) requested allow_empty = Inr ()"
    "if created then ensure_created_target_visible actor
        (set (map dept_id (case prospective of None \<Rightarrow> [] | Some ds \<Rightarrow> ds))) = Inr ()
     else ensure_target_visible actor (user_id target) = Inr ()"
    "materialize_role_set_authority db target requested prospective t = Inr new"
    "ensure_role_set_dominated actor new (if created then insert (user_id target) ignored else ignored) = Inr ()"
    "if user_roles target = [] then old = None
     else \<exists>a. old = Some a \<and>
       materialize_role_set_authority db target (user_roles target) (Some (user_depts target)) t = Inr a \<and>
       ensure_role_set_dominated actor a (if created then insert (user_id target) ignored else ignored) = Inr ()"
  using assms unfolding authorize_role_set_def Let_def bindE_eq_Inr
  by (auto split: if_splits simp: bindE_eq_Inr)

text \<open>What a replacement went through when it succeeded.\<close>

lemma replace_core_Inr:
  assumes "replace_roles_core h vis db0 db1 actor_id target_id requested required allow_empty
      prospective_ids ignored expected t = Inr (result, db2)"
  obtains actor0 target0 actor1 target1 prospective live auth old new where
    "load_user db0 actor_id t = Some actor0" "load_user db0 target_id t = Some target0"
    "load_user db1 actor_id t = Some actor1" "load_user db1 target_id t = Some target1"
    "\<not> facts_changed actor0 actor1" "\<not> facts_changed target0 target1" "actor_id \<noteq> target_id"
    "case prospective_ids of None \<Rightarrow> prospective = None
     | Some ids \<Rightarrow> \<exists>ds. load_prospective_depts db0 ids t = Inr ds \<and> prospective = Some ds"
    "if allow_empty \<and> requested = [] then live = []
     else load_requested_roles db1 (map IdInt (role_ids_of requested)) t = Inr live"
    "build_authority h vis db1 actor_id t = Inr auth" "allows_permission_codes auth required"
    "authorize_role_set db1 auth actor_id target1 live prospective allow_empty allow_empty ignored t = Inr (old, new)"
    "check_expected h db1 auth target1 live (old, new) expected t = Inr ()"
    "replace_user_roles db1 target1 live t = Inr db2"
    "result = \<lparr>asg_user_id = target_id, asg_old_role_ids = role_ids_of (user_roles target1),
           asg_new_role_ids = role_ids_of live\<rparr>"
proof -
  from assms obtain actor0 target0 actor1 target1 prospective live auth pair where
    *: "require_user db0 actor_id t = Inr actor0" "require_user db0 target_id t = Inr target0"
    "require_user db1 actor_id t = Inr actor1" "require_user db1 target_id t = Inr target1"
    "\<not> facts_changed actor0 actor1" "actor_id \<noteq> target_id"
    "(case prospective_ids of None \<Rightarrow> Inr None
            | Some ids \<Rightarrow> bindE (load_prospective_depts db0 ids t) (\<lambda>ds. Inr (Some ds))) = Inr prospective"
    "(if allow_empty \<and> requested = [] then Inr []
            else load_requested_roles db1 (map IdInt (role_ids_of requested)) t) = Inr live"
    "build_authority h vis db1 actor_id t = Inr auth" "require_permissions auth required = Inr ()"
    "authorize_role_set db1 auth actor_id target1 live prospective allow_empty allow_empty ignored t = Inr pair"
    "check_expected h db1 auth target1 live pair expected t = Inr ()"
    "replace_user_roles db1 target1 live t = Inr db2"
    "result = \<lparr>asg_user_id = target_id, asg_old_role_ids = role_ids_of (user_roles target1),
           asg_new_role_ids = role_ids_of live\<rparr>"
    "\<not> facts_changed target0 target1"
    unfolding replace_roles_core_def bindE_eq_Inr guardE_eq_Inr sum.inject prod.inject
    by (elim exE conjE) (rule that, (assumption | (simp; fail))+)
  show ?thesis
  proof (rule that)
    show "case prospective_ids of None \<Rightarrow> prospective = None
     | Some ids \<Rightarrow> \<exists>ds. load_prospective_depts db0 ids t = Inr ds \<and> prospective = Some ds"
      using *(7) by (auto simp: bindE_eq_Inr split: option.splits)
    show "if allow_empty \<and> requested = [] then live = []
     else load_requested_roles db1 (map IdInt (role_ids_of requested)) t = Inr live"
      using *(8) by (auto split: if_splits)
    show "allows_permission_codes auth required" using *(10) by (simp add: require_permissions_def)
    show "authorize_role_set db1 auth actor_id target1 live prospective allow_empty allow_empty ignored t
        = Inr (fst pair, snd pair)" using *(11) by simp
    show "check_expected h db1 auth target1 live (fst pair, snd pair) expected t = Inr ()" using *(12) by simp
  qed (use * require_user_Inr in auto)
qed

section \<open>The tables after a replacement\<close>

lemma replace_links_Inr:
  assumes "replace_user_roles db u roles t = Inr db2"
  shows "db2 = db\<lparr>links_roles :=
        filter (\<lambda>(t', x, r). \<not> (t' = t \<and> x = user_id u)) (links_roles db) @
        map (\<lambda>r. (t, user_id u, role_id r)) roles\<rparr>"
    "user_tenant u = t" "\<forall>r \<in> set roles. role_tenant r = t"
  using assms by (auto simp: replace_user_roles_def split: if_splits)

lemma links_after:
  assumes "replace_user_roles db u roles t = Inr db2"
  shows "(t', x, r) \<in> set (links_roles db2) \<longleftrightarrow>
    (if t' = t \<and> x = user_id u then r \<in> role_id ` set roles else (t', x, r) \<in> set (links_roles db))"
  unfolding replace_links_Inr(1)[OF assms] by auto

lemma load_user_after:
  assumes "replace_user_roles db target roles t = Inr db2" and "load_user db target_id t = Some target"
  shows "load_user db2 target_id t = Some (target\<lparr>user_roles :=
      filter (\<lambda>r. role_tenant r = t \<and> role_id r \<in> role_id ` set roles) (rows_roles db)\<rparr>)"
proof -
  have uid: "user_id target = target_id" using load_user_Some(1)[OF assms(2)] .
  have links: "(t, target_id, i) \<in> set (links_roles db2) \<longleftrightarrow> i \<in> role_id ` set roles" for i
    using links_after[OF assms(1), of t target_id i] uid by simp
  have "rows_users db2 = rows_users db" "rows_roles db2 = rows_roles db" "scope db2 = scope db"
    unfolding replace_links_Inr(1)[OF assms(1)] by simp_all
  with assms(2) show ?thesis
    unfolding load_user_def links by (auto simp del: image_iff)
qed

lemma load_user_frame:
  assumes "replace_user_roles db target roles t = Inr db2" and "\<not> (t' = t \<and> x = user_id target)"
  shows "load_user db2 x t' = load_user db x t'"
proof -
  have links: "(t', x, i) \<in> set (links_roles db2) \<longleftrightarrow> (t', x, i) \<in> set (links_roles db)" for i
    using links_after[OF assms(1), of t' x i] assms(2) by auto
  have "rows_users db2 = rows_users db" "rows_roles db2 = rows_roles db" "scope db2 = scope db"
    unfolding replace_links_Inr(1)[OF assms(1)] by simp_all
  then show ?thesis unfolding load_user_def links by simp
qed

section \<open>The order of authorities\<close>

definition scope_le :: "int set option \<Rightarrow> int set option \<Rightarrow> bool" where
  "scope_le a b \<longleftrightarrow> (case b of None \<Rightarrow> True | Some y \<Rightarrow> (case a of None \<Rightarrow> False | Some x \<Rightarrow> x \<subseteq> y))"

definition authority_le :: "grant_authority \<Rightarrow> grant_authority \<Rightarrow> bool" where
  "authority_le a b \<longleftrightarrow>
     (super_admin a \<longrightarrow> super_admin b) \<and> permission_codes a \<subseteq> permission_codes b \<and>
     menu_ids a \<subseteq> menu_ids b \<and> grantable_ids a \<subseteq> grantable_ids b \<and>
     scope_le (ga_dept_ids a) (ga_dept_ids b) \<and> scope_le (ga_user_ids a) (ga_user_ids b)"

lemma scope_le_refl [simp]: "scope_le a a"
  by (simp add: scope_le_def split: option.splits)

lemma scope_le_trans: "scope_le a b \<Longrightarrow> scope_le b c \<Longrightarrow> scope_le a c"
  by (auto simp: scope_le_def split: option.splits)

lemma codes_of_enabled: "codes_of (enabled_roles rs) =
    (\<Union>r \<in> {r \<in> set rs. role_status r = STATUS_ENABLED}. menu_codes (role_menus r))"
  by (auto simp: codes_of_def enabled_roles_def)

lemma grants_all_cong: "set rs = set rs' \<Longrightarrow> grants_all rs = grants_all rs'"
  by (simp add: grants_all_def)

lemma granting_cong: "set rs = set rs' \<Longrightarrow> granting_roles rs = granting_roles rs'"
  by (simp add: granting_roles_def)

lemma acc_scope_cong:
  assumes "set rs = set rs'" "scope db = scope db'" "set (own_dept_list u ds) = set (own_dept_list u' ds')"
    and "own_dept_list u ds = own_dept_list u' ds'"
  shows "acc_scope db u rs ds t = acc_scope db' u' rs' ds' t"
  using assms by (simp add: acc_scope_def union_depts_def union_self_def grants_all_cong[OF assms(1)]
      granting_cong[OF assms(1)])

text \<open>The live authority of a principal, in the terms of its role set's materialization.\<close>

lemma build_authority_materialized:
  assumes "build_authority h vis db i t = Inr a" and "load_user db i t = Some u"
  shows "permission_codes a = codes_of (enabled_roles (user_roles u))"
    "menu_ids a = menu_ids_of (enabled_roles (user_roles u))"
    "grantable_ids a = agents_of_roles (role_agents_of db t) (enabled_roles (user_roles u))"
    "ga_dept_ids a = fst (acc_scope db u (user_roles u) None t)"
    "super_admin a = is_super_admin u" "actor_user_id a = i"
    "ga_user_ids a = (case fst (acc_scope db u (user_roles u) None t) of None \<Rightarrow> None
       | Some ds \<Rightarrow> Some (eval_user_scope (scope db)
           (build_user_scope i t ds (snd (acc_scope db u (user_roles u) None t)))))"
proof -
  have uid: "user_id u = i" and ten: "in_tenant u (user_roles u) None t"
    using load_user_Some(1)[OF assms(2)] load_user_in_tenant[OF assms(2)] by simp_all
  obtain actor res where b: "load_user db i t = Some actor"
    "resolve_data_scope (scope db) actor t = Inr res"
    "super_admin a = is_super_admin actor" "actor_user_id a = i"
    "permission_codes a = collect_user_permission_codes actor"
    "menu_ids a = (\<Union>r \<in> set (enabled_roles (user_roles actor)). menu_id ` set (role_menus r))"
    "grantable_ids a = grantable_agent_ids db actor t"
    "ga_dept_ids a = accessible_dept_ids res"
    "ga_user_ids a = map_option (eval_user_scope (scope db)) (accessible_user_scope res)"
    by (rule build_authority_Inr[OF assms(1)])
  have [simp]: "actor = u" using b(1) assms(2) by simp
  show "permission_codes a = codes_of (enabled_roles (user_roles u))"
    unfolding b(5) codes_of_enabled collect_user_permission_codes_eq by simp
  show "menu_ids a = menu_ids_of (enabled_roles (user_roles u))"
    unfolding b(6) by (auto simp: menu_ids_of_def)
  show "grantable_ids a = agents_of_roles (role_agents_of db t) (enabled_roles (user_roles u))"
    unfolding b(7)
    by (auto simp: grantable_agent_ids_def agents_by_role_graph agents_of_roles_def role_agents_of_def)
  show "super_admin a = is_super_admin u" "actor_user_id a = i" using b by simp_all
  have res: "if grants_all (user_roles u) then \<exists>ks. res = unbounded_resolution t ks
     else \<exists>ks. res = bounded_resolution t ks i (union_depts (scope db) (own_dept_list u None) t (user_roles u))
        (union_self (scope db) (own_dept_list u None) t (user_roles u))
        (union_self (scope db) (own_dept_list u None) t (user_roles u))"
    using b(2) resolve_unbounded[OF ten, of "scope db"] resolve_bounded[OF ten, of "scope db"] uid
    by (auto simp: resolve_data_scope_def)
  show "ga_dept_ids a = fst (acc_scope db u (user_roles u) None t)"
    using res b(8) by (auto simp: acc_scope_def split: if_splits)
  show "ga_user_ids a = (case fst (acc_scope db u (user_roles u) None t) of None \<Rightarrow> None
       | Some ds \<Rightarrow> Some (eval_user_scope (scope db)
           (build_user_scope i t ds (snd (acc_scope db u (user_roles u) None t)))))"
    using res b(9) by (auto simp: acc_scope_def split: if_splits)
qed

section \<open>Domination of the target's live authority\<close>

lemma role_set_cong:
  assumes "set rs = set rs'"
  shows "codes_of (enabled_roles rs) = codes_of (enabled_roles rs')"
    "menu_ids_of (enabled_roles rs) = menu_ids_of (enabled_roles rs')"
    "agents_of_roles f (enabled_roles rs) = agents_of_roles f (enabled_roles rs')"
  using assms by (auto simp: codes_of_def menu_ids_of_def agents_of_roles_def enabled_roles_def)

lemma members_mono_eval:
  assumes "acc_users db u depts t sc = Some us" "fst sc = Some ds" "user_id u = i"
    and "members_of (scope db') t ds \<subseteq> insert i (members_of (scope db) t ds \<union> M)"
  shows "eval_user_scope (scope db') (build_user_scope i t ds s') \<subseteq> insert i (us \<union> M)"
proof -
  have "members_of (scope db) t ds - {i} \<subseteq> us"
    using assms by (auto simp: acc_users_def with_principal_def split: if_splits)
  then show ?thesis using assms(4) eval_scope_minus[of "scope db'" i t ds s'] by blast
qed

text \<open>A principal loaded from \<open>db'\<close> is dominated by an actor that dominates the role set materialized
  on \<open>db\<close>, when the scope is the same and departments only gained users the actor may see.\<close>

lemma materialized_dominates_moved:
  assumes ta: "build_authority h vis db' i t = Inr ta" and u: "load_user db' i t = Some u"
    and rs: "set rs = set (user_roles u)"
    and sc: "sc = acc_scope db' u (user_roles u) None t"
    and agents: "role_agents db' = role_agents db"
    and dom: "ensure_role_set_dominated auth (authority_of (role_agents_of db t) rs (fst sc)
        (acc_users db u' depts t sc)) {} = Inr ()"
    and u': "user_id u' = i" and nosuper: "\<not> super_admin auth" "\<not> is_super_admin u"
    and members: "\<And>ds. members_of (scope db') t ds \<subseteq> insert i (members_of (scope db) t ds \<union> M)"
    and vis: "case ga_user_ids auth of None \<Rightarrow> True | Some us \<Rightarrow> insert i M \<subseteq> us"
  shows "authority_le ta auth"
proof -
  note b = build_authority_materialized[OF ta u]
  have agents_of: "role_agents_of db' t = role_agents_of db t" by (simp add: role_agents_of_def agents fun_eq_iff)
  from dom nosuper(1) have d:
    "codes_of (enabled_roles rs) \<subseteq> permission_codes auth" "menu_ids_of (enabled_roles rs) \<subseteq> menu_ids auth"
    "agents_of_roles (role_agents_of db t) (enabled_roles rs) \<subseteq> grantable_ids auth"
    "ga_dept_ids auth = None \<or> (\<exists>ds as. fst sc = Some ds \<and> ga_dept_ids auth = Some as \<and> ds \<subseteq> as)"
    "ga_user_ids auth = None \<or> (\<exists>us as. acc_users db u' depts t sc = Some us \<and> ga_user_ids auth = Some as \<and> us \<subseteq> as)"
    unfolding dominated_iff by (auto simp: authority_of_def)
  have "scope_le (ga_dept_ids ta) (ga_dept_ids auth)"
    using d(4) unfolding b(4) sc[symmetric] by (auto simp: scope_le_def)
  moreover have "scope_le (ga_user_ids ta) (ga_user_ids auth)"
  proof (cases "ga_user_ids auth")
    case None
    then show ?thesis by (simp add: scope_le_def)
  next
    case (Some as)
    with d(5) obtain us where us: "acc_users db u' depts t sc = Some us" "us \<subseteq> as" by auto
    then obtain ds where ds: "fst sc = Some ds" by (auto simp: acc_users_def split: option.splits)
    have "eval_user_scope (scope db') (build_user_scope i t ds (snd sc)) \<subseteq> insert i (us \<union> M)"
      by (rule members_mono_eval[OF us(1) ds u' members])
    moreover have "insert i M \<subseteq> as" using vis Some by simp
    ultimately show ?thesis
      using us(2) Some ds unfolding b(7) sc[symmetric] by (auto simp: scope_le_def)
  qed
  ultimately show ?thesis
    using d(1-3) nosuper(2) role_set_cong[OF rs] unfolding authority_le_def b(1-3,5) agents_of by simp
qed

lemma materialized_dominates:
  assumes ta: "build_authority h vis db i t = Inr ta" and u: "load_user db i t = Some u"
    and rs: "set rs = set (user_roles u)"
    and sc: "sc = acc_scope db u (user_roles u) None t"
    and dom: "ensure_role_set_dominated auth (authority_of (role_agents_of db t) rs (fst sc)
        (acc_users db u' depts t sc)) {} = Inr ()"
    and u': "user_id u' = i" and nosuper: "\<not> super_admin auth" "\<not> is_super_admin u"
    and vis: "case ga_user_ids auth of None \<Rightarrow> True | Some us \<Rightarrow> i \<in> us"
  shows "authority_le ta auth"
  by (rule materialized_dominates_moved[OF ta u rs sc refl dom u' nosuper, where M = "{}"])
    (use vis in \<open>auto split: option.splits\<close>)

lemma super_role_enabled:
  "is_super_admin u \<longleftrightarrow> (\<exists>r \<in> set (user_roles u). role_status r = STATUS_ENABLED \<and> role_code r = SUPER_ADMIN_ROLE_CODE)"
  by (auto simp: is_super_admin_def)

end
