(* ===== verification/Role_Assignment_Props.thy ===== *)
theory Role_Assignment_Props
  imports Role_Assignment_Facts
begin

text \<open>
  The properties of role assignment: the bulk materialization is the single one, a replacement
  never lets an actor give or touch more than its own live authority, it changes nothing but the
  target's links, and an approved preview executes as previewed or not at all.
\<close>

section \<open>Approval snapshots\<close>

lemma json_eq_jids [simp]: "json_eq (jids a) (jids b) \<longleftrightarrow> a = b"
proof
  have "jarr_eq (map (\<lambda>i. JStr (show_int i)) xs) (map (\<lambda>i. JStr (show_int i)) ys) \<Longrightarrow> xs = ys" for xs ys
  proof (induction xs arbitrary: ys)
    case Nil
    then show ?case by simp
  next
    case (Cons x xs)
    then show ?case by (cases ys) auto
  qed
  then show "json_eq (jids a) (jids b) \<Longrightarrow> a = b" by (auto simp: jids_def)
  show "a = b \<Longrightarrow> json_eq (jids a) (jids b)"
    using json_eq_refl[of "jids b"] by (auto simp: jids_def jarr_wf_iff)
qed

lemma snapshot_eq_ids:
  assumes "json_eq (build_replacement_snapshot h auth target olds news oa na ds)
      (build_replacement_snapshot h auth' target' olds' news' oa' na' ds')"
  shows "role_ids_of olds = role_ids_of olds'" "role_ids_of news = role_ids_of news'"
    "user_id target = user_id target'" "actor_user_id auth = actor_user_id auth'"
    "version_summary auth = version_summary auth'" "user_name target = user_name target'"
    "user_status target = user_status target'"
  using assms by (simp_all add: build_replacement_snapshot_def)

lemma json_wf_jints [simp]: "json_wf (jints s)"
  by (simp add: jints_def jarr_wf_iff)

lemma json_wf_jstrs [simp]: "json_wf (jstrs s)"
  by (simp add: jstrs_def jarr_wf_iff)

lemma json_wf_snapshot:
  "json_wf (build_replacement_snapshot h auth target olds news oa na (load_department_assignment_snapshot db i t))"
proof -
  have "json_wf (role_facts rs)" for rs
    by (auto simp: role_facts_def jarr_wf_iff split: option.split)
  moreover have "json_wf (load_department_assignment_snapshot db i t)"
    by (auto simp: load_department_assignment_snapshot_def jarr_wf_iff)
  moreover have "json_wf (jids ids)" for ids
    by (auto simp: jids_def jarr_wf_iff)
  moreover have "json_wf (materialized_role_set_snapshot h a)" for a
    by (simp add: materialized_role_set_snapshot_def Let_def)
  ultimately show ?thesis by (simp add: build_replacement_snapshot_def)
qed

lemma lock_ids_error: "lock_ids db k ids t = Inl e \<Longrightarrow> e = BusinessRule ''AUTHORIZATION_SNAPSHOT_STALE''"
  by (auto simp: lock_ids_eq Let_def split: if_splits)

lemma lock_targets_error: "lock_targets db R D U t = Inl e \<Longrightarrow> e = BusinessRule ''AUTHORIZATION_SNAPSHOT_STALE''"
  by (auto simp: lock_targets_eq bindE_eq_Inl bindE_eq_Inr normalize_ids_def dest!: lock_ids_error split: if_splits)

lemma id_args [simp]: "mapE id_to_int (map IdInt ids) = Inr ids"
  by (induction ids) simp_all

text \<open>With the role id a key of the tenant's roles, loading the ids of loaded roles returns them.\<close>

lemma reload_requested:
  assumes "load_requested_roles db ids t = Inr roles"
    and key: "distinct (map role_id (filter (\<lambda>r. role_tenant r = t) (rows_roles db)))"
  shows "load_requested_roles db (map IdInt (role_ids_of roles)) t = Inr roles"
proof -
  obtain norm where n: "norm \<noteq> []" "distinct norm" "\<forall>i \<in> set norm. 0 < i"
    "roles = roles_by_ids db (set norm) t" "length roles = length norm"
    "\<forall>r \<in> set roles. role_status r = STATUS_ENABLED"
    by (rule load_requested_Inr[OF assms(1)])
  have "distinct (map role_id (filter (\<lambda>r. role_tenant r = t \<and> role_id r \<in> set norm) (rows_roles db)))"
    using distinct_map_filter[OF key, of "\<lambda>r. role_id r \<in> set norm"] by (simp add: conj_commute)
  then have d: "distinct (map role_id roles)"
    unfolding n(4) roles_by_ids_def by (simp add: distinct_map)
  have sub: "role_id ` set roles \<subseteq> set norm" unfolding n(4) roles_by_ids_set by auto
  have "card (role_id ` set roles) = card (set norm)"
    using distinct_card[OF d] distinct_card[OF n(2)] n(5) by simp
  then have ids: "role_id ` set roles = set norm" using sub by (simp add: card_subset_eq)
  have "set (role_ids_of roles) = set norm" "length (role_ids_of roles) = length norm" "distinct (role_ids_of roles)"
    using ids n(5) d by (simp_all add: role_ids_of_def)
  then show ?thesis
    using n(1,3,5,6) unfolding load_requested_roles_def id_args bindE_simps Let_def
    by (auto simp: n(4)[symmetric] distinct_card[OF n(2)])
qed

section \<open>Assignable roles\<close>

lemma build_authority_kinds:
  assumes "build_authority h vis db i t = Inr a" "load_user db i t = Some u" "\<not> grants_all (user_roles u)"
  shows "ga_scope_kinds a = effective_kinds (user_roles u)"
proof -
  obtain actor res where b: "load_user db i t = Some actor"
    "resolve_data_scope (scope db) actor t = Inr res" "ga_scope_kinds a = scope_kinds res"
    by (rule build_authority_Inr[OF assms(1)])
  have "actor = u" using b(1) assms(2) by simp
  with b(2) have "res = bounded_resolution t (effective_kinds (user_roles u)) (user_id u)
      (union_depts (scope db) (own_dept_list u None) t (user_roles u))
      (union_self (scope db) (own_dept_list u None) t (user_roles u))
      (union_self (scope db) (own_dept_list u None) t (user_roles u))"
    using resolve_bounded[OF load_user_in_tenant[OF assms(2)] assms(3), of "scope db"]
    by (simp add: resolve_data_scope_def)
  then show ?thesis using b(3) by simp
qed

lemma effective_kind_grants:
  assumes "k \<in> effective_kinds rs" "k \<noteq> DATA_SCOPE_SELF"
  shows "\<exists>r \<in> granting_roles rs. data_scope r = k"
  using assms by (auto simp: effective_kinds_def known_kind_iff split: if_splits)

lemma granting_snoc: "granting_roles (rs @ [r]) = granting_roles rs \<union> granting_roles [r]"
  by (auto simp: granting_roles_def)

lemma allowed_grant_within:
  assumes auth: "build_authority h vis db i t = Inr a" "load_user db i t = Some u"
    and nall: "\<not> grants_all (user_roles u)"
    and allowed: "allows_scope_kind a (data_scope r) custom" "\<not> super_admin a"
    and custom: "data_scope r = DATA_SCOPE_CUSTOM \<Longrightarrow> set (map snd (role_dept_rows (scope db) [role_id r] t)) \<subseteq> custom"
  shows "data_scope r \<noteq> DATA_SCOPE_ALL \<and> role_grant (scope db) (own_dept_list u None) t r \<subseteq>
    union_depts (scope db) (own_dept_list u None) t (user_roles u)"
proof -
  let ?own = "own_dept_list u None" and ?rs = "user_roles u"
  have kinds: "ga_scope_kinds a = effective_kinds ?rs" using build_authority_kinds[OF auth nall] .
  have depts: "ga_dept_ids a = Some (union_depts (scope db) ?own t ?rs)"
    using build_authority_materialized(4)[OF auth] nall by (simp add: acc_scope_def)
  have all: "DATA_SCOPE_ALL \<notin> ga_scope_kinds a"
    using nall unfolding kinds by (simp add: grants_all_iff)
  have sub: "role_grant (scope db) ?own t r' \<subseteq> union_depts (scope db) ?own t ?rs" if "r' \<in> granting_roles ?rs" for r'
    using that by (auto simp: union_depts_def)
  have own: "set ?own \<subseteq> union_depts (scope db) ?own t ?rs"
    if k: "k \<in> ga_scope_kinds a" "k = DATA_SCOPE_DEPT \<or> k = DATA_SCOPE_DEPT_AND_SUB" for k
  proof -
    have "k \<noteq> DATA_SCOPE_SELF" using k(2) by auto
    from effective_kind_grants[OF k(1)[unfolded kinds] this] obtain r'
      where r': "r' \<in> granting_roles ?rs" "data_scope r' = k" by blast
    have "set ?own \<subseteq> role_grant (scope db) ?own t r'"
      using r'(2) k(2) dept_tree.sub_extensive[of ?own "scope db" t] by auto
    with sub[OF r'(1)] show ?thesis by blast
  qed
  have subtree: "get_dept_and_sub_ids (scope db) ?own t \<subseteq> union_depts (scope db) ?own t ?rs"
    if k: "DATA_SCOPE_DEPT_AND_SUB \<in> ga_scope_kinds a"
  proof -
    from effective_kind_grants[OF k[unfolded kinds]] obtain r'
      where r': "r' \<in> granting_roles ?rs" "data_scope r' = DATA_SCOPE_DEPT_AND_SUB" by auto
    from sub[OF r'(1)] r'(2) show ?thesis by simp
  qed
  show ?thesis
    using allowed all own subtree custom depts
    unfolding allows_scope_kind_def role_grant_def
    by (auto split: if_splits)
qed

section \<open>Properties\<close>

text \<open>Property C4: for candidates loaded from the tenant's tables with canonical \<open>ancestors\<close> paths,
  the bulk materialization with its two queries returns exactly the list of the role-set
  authorities that one materialization per candidate returns, errors included.\<close>

theorem bulk_materialization_equals_single:
  assumes "canonical_paths db t" and "\<forall>c \<in> set cands. candidate_ok db t c"
  shows "materialize_role_set_authorities db cands [] t =
    mapE (\<lambda>(u, rs, ds). materialize_role_set_authority db u rs (Some ds) t) cands"
  by (rule bulk_eq_single[OF assms])

text \<open>Property C5: when an actor replaces the roles of an existing user, the actor is another user
  holding the edit and role-authorization permissions at the time of the write, and unless it is
  a super-administrator the user's live authority, as the database gives it before the write and
  after it, is dominated by the actor's: permissions, menus, agents, departments and users, so no
  replacement escalates and none touches somebody who can do more than the actor.\<close>

theorem replace_roles_no_escalation:
  assumes ok: "replace_roles h vis db0 db1 actor_id target_id ids expected t = Inr (result, db2)"
  shows "\<exists>auth. build_authority h vis db1 actor_id t = Inr auth \<and> actor_id \<noteq> target_id \<and>
    allows_permission_codes auth {USER_EDIT_PERMISSION, USER_ROLE_AUTH_PERMISSION} \<and>
    (\<forall>before. build_authority h vis db1 target_id t = Inr before \<longrightarrow> super_admin auth \<or> authority_le before auth) \<and>
    (\<forall>after. build_authority h vis db2 target_id t = Inr after \<longrightarrow> super_admin auth \<or> authority_le after auth)"
proof -
  obtain requested where req: "load_requested_roles db0 ids t = Inr requested"
    and core: "replace_roles_core h vis db0 db1 actor_id target_id requested
         {USER_EDIT_PERMISSION, USER_ROLE_AUTH_PERMISSION} False None {} expected t = Inr (result, db2)"
    using ok unfolding replace_roles_def bindE_eq_Inr by blast
  obtain target1 prospective live auth old new where
    u: "load_user db1 target_id t = Some target1" and neq: "actor_id \<noteq> target_id" and
    prosp: "prospective = None" and
    live: "load_requested_roles db1 (map IdInt (role_ids_of requested)) t = Inr live" and
    auth: "build_authority h vis db1 actor_id t = Inr auth"
      "allows_permission_codes auth {USER_EDIT_PERMISSION, USER_ROLE_AUTH_PERMISSION}" and
    az: "authorize_role_set db1 auth actor_id target1 live prospective False False {} t = Inr (old, new)" and
    repl: "replace_user_roles db1 target1 live t = Inr db2"
    by (rule replace_core_Inr[OF core]) simp
  note az' = authorize_Inr[OF az]
  have uid: "user_id target1 = target_id" using load_user_Some(1)[OF u] .
  have prot: "user_roles target1 \<noteq> []" "is_super_admin target1 \<Longrightarrow> super_admin auth"
    "\<exists>r \<in> set live. role_status r = STATUS_ENABLED \<and> role_code r = SUPER_ADMIN_ROLE_CODE \<Longrightarrow> super_admin auth"
    using az'(1) unfolding protection_Inr super_role_enabled by auto
  have vis: "case ga_user_ids auth of None \<Rightarrow> True | Some us \<Rightarrow> target_id \<in> us" if "\<not> super_admin auth"
    using az'(2) that uid by (simp add: visible_Inr)
  obtain a where a: "materialize_role_set_authority db1 target1 (user_roles target1) (Some (user_depts target1)) t = Inr a"
    "ensure_role_set_dominated auth a {} = Inr ()"
    using az'(5) prot(1) by auto
  define u2 where "u2 = target1\<lparr>user_roles :=
      filter (\<lambda>r. role_tenant r = t \<and> role_id r \<in> role_id ` set live) (rows_roles db1)\<rparr>"
  have u2: "load_user db2 target_id t = Some u2"
    unfolding u2_def by (rule load_user_after[OF repl u])
  have live2: "set live = set (user_roles u2)"
    unfolding u2_def using load_requested_facts(1,4)[OF live] by auto
  have db2: "scope db2 = scope db1" "role_agents db2 = role_agents db1"
    unfolding replace_links_Inr(1)[OF repl] by simp_all
  have own: "own_dept_list target1 (Some (user_depts target1)) = own_dept_list target1 None"
    "own_dept_list u2 None = own_dept_list target1 None"
    by (simp_all add: own_dept_list_def u2_def)
  have before: "authority_le b auth" if b: "build_authority h vis db1 target_id t = Inr b" and ns: "\<not> super_admin auth" for b
  proof (rule materialized_dominates[OF b u refl refl _ uid ns])
    show "ensure_role_set_dominated auth (authority_of (role_agents_of db1 t) (user_roles target1)
        (fst (acc_scope db1 target1 (user_roles target1) None t))
        (acc_users db1 target1 (Some (user_depts target1)) t (acc_scope db1 target1 (user_roles target1) None t))) {} = Inr ()"
      using a(2) unfolding materialize_Inr(2)[OF a(1)] acc_scope_cong[OF refl refl _ own(1), unfolded own(1), OF refl] .
  qed (use prot ns vis in auto)
  have after: "authority_le b auth" if b: "build_authority h vis db2 target_id t = Inr b" and ns: "\<not> super_admin auth" for b
  proof (rule materialized_dominates[OF b u2 live2 refl _ uid ns])
    have sc: "acc_scope db1 target1 live None t = acc_scope db2 u2 (user_roles u2) None t"
      by (rule acc_scope_cong) (simp_all add: live2 db2 own)
    have "role_agents_of db2 t = role_agents_of db1 t" by (simp add: role_agents_of_def db2 fun_eq_iff)
    moreover have "acc_users db2 target1 None t = acc_users db1 target1 None t"
      by (intro ext) (simp only: acc_users_def db2)
    ultimately show "ensure_role_set_dominated auth (authority_of (role_agents_of db2 t) live
        (fst (acc_scope db2 u2 (user_roles u2) None t))
        (acc_users db2 target1 None t (acc_scope db2 u2 (user_roles u2) None t))) {} = Inr ()"
      using az'(4) materialize_Inr(2)[OF az'(3)[unfolded prosp]] unfolding sc by simp
    show "\<not> is_super_admin u2"
      using prot(3) ns unfolding super_role_enabled live2 by blast
  qed (use ns vis in auto)
  show ?thesis using auth neq before after by blast
qed

text \<open>A replacement, of whichever entry point, changes only the links of its target:
  every other user of every tenant is loaded as before, the target keeps its row and its
  departments, and its roles are exactly the enabled roles of the tenant the result names.\<close>

theorem replacement_frame:
  assumes ok: "replace_roles_core h vis db0 db1 actor_id target_id requested required allow_empty
      prospective_ids ignored expected t = Inr (result, db2)"
  shows "(\<forall>x t'. (t', x) \<noteq> (t, target_id) \<longrightarrow> load_user db2 x t' = load_user db1 x t') \<and>
    (\<exists>before after. load_user db1 target_id t = Some before \<and> load_user db2 target_id t = Some after \<and>
       user_name after = user_name before \<and> user_status after = user_status before \<and>
       user_depts after = user_depts before \<and>
       set (asg_new_role_ids result) = role_id ` set (user_roles after) \<and>
       asg_old_role_ids result = role_ids_of (user_roles before) \<and>
       (\<forall>r \<in> set (user_roles after). role_tenant r = t \<and> role_status r = STATUS_ENABLED))"
proof -
  obtain target1 live where
    u: "load_user db1 target_id t = Some target1" and
    live: "if allow_empty \<and> requested = [] then live = []
       else load_requested_roles db1 (map IdInt (role_ids_of requested)) t = Inr live" and
    repl: "replace_user_roles db1 target1 live t = Inr db2" and
    result: "result = \<lparr>asg_user_id = target_id, asg_old_role_ids = role_ids_of (user_roles target1),
           asg_new_role_ids = role_ids_of live\<rparr>"
    by (rule replace_core_Inr[OF ok])
  have uid: "user_id target1 = target_id" using load_user_Some(1)[OF u] .
  let ?roles = "filter (\<lambda>r. role_tenant r = t \<and> role_id r \<in> role_id ` set live) (rows_roles db1)"
  have "set ?roles = set live"
    using live load_requested_facts(1,4)[of db1 "map IdInt (role_ids_of requested)" t live]
    by (auto split: if_splits)
  moreover have "\<forall>r \<in> set live. role_tenant r = t \<and> role_status r = STATUS_ENABLED"
    using live load_requested_facts(1)[of db1 "map IdInt (role_ids_of requested)" t live]
    by (auto split: if_splits)
  moreover have "load_user db2 x t' = load_user db1 x t'" if "(t', x) \<noteq> (t, target_id)" for x t'
    using load_user_frame[OF repl] that uid by auto
  ultimately show ?thesis
    using u load_user_after[OF repl u] unfolding result
    by (auto simp: role_ids_of_def simp del: set_filter)
qed

text \<open>Property C6: executing with the snapshot of a preview, in whatever states the database is by
  then, either fails or replaces exactly the roles the preview displayed by exactly the roles it
  displayed, for the same actor and target and under the same version of the actor's authority: the
  target held the displayed old roles and holds the displayed new ones in the stored tables, its
  departments and every other user stay as they were, and the result names the same roles.\<close>

theorem approved_snapshot_binds_execution:
  assumes prev: "preview_roles h vis db actor_id target_id ids t = Inr p"
    and ok: "replace_roles h vis db0 db1 actor_id' target_id' ids' (Some (pv_snapshot p)) t = Inr (result, db2)"
  shows "actor_id' = actor_id \<and> target_id' = target_id \<and>
    result = \<lparr>asg_user_id = pv_user_id p, asg_old_role_ids = pv_old_role_ids p, asg_new_role_ids = pv_new_role_ids p\<rparr> \<and>
    (\<exists>auth auth'. build_authority h vis db actor_id t = Inr auth \<and> build_authority h vis db1 actor_id t = Inr auth' \<and>
       version_summary auth' = version_summary auth) \<and>
    (\<exists>before after. load_user db1 target_id t = Some before \<and> load_user db2 target_id t = Some after \<and>
       role_ids_of (user_roles before) = pv_old_role_ids p \<and>
       role_id ` set (user_roles after) = set (pv_new_role_ids p) \<and> user_depts after = user_depts before) \<and>
    (\<forall>x t'. (t', x) \<noteq> (t, target_id) \<longrightarrow> load_user db2 x t' = load_user db1 x t')"
proof -
  obtain requested where core: "replace_roles_core h vis db0 db1 actor_id' target_id' requested
         {USER_EDIT_PERMISSION, USER_ROLE_AUTH_PERMISSION} False None {} (Some (pv_snapshot p)) t = Inr (result, db2)"
    using ok unfolding replace_roles_def bindE_eq_Inr by blast
  obtain target1 live auth' old new where
    u: "load_user db1 target_id' t = Some target1" and
    auth': "build_authority h vis db1 actor_id' t = Inr auth'" and
    chk: "check_expected h db1 auth' target1 live (old, new) (Some (pv_snapshot p)) t = Inr ()" and
    result: "result = \<lparr>asg_user_id = target_id', asg_old_role_ids = role_ids_of (user_roles target1),
           asg_new_role_ids = role_ids_of live\<rparr>"
    by (rule replace_core_Inr[OF core])
  from prev obtain req auth target oa na where
    p: "build_authority h vis db actor_id t = Inr auth" "require_user db target_id t = Inr target"
    "p = \<lparr>pv_user_id = user_id target, pv_user_name = user_name target,
          pv_old_role_ids = role_ids_of (user_roles target), pv_new_role_ids = role_ids_of req,
          pv_old_display = role_display (user_roles target), pv_new_display = role_display req,
          pv_snapshot = build_replacement_snapshot h auth target (user_roles target) req
            oa na (load_department_assignment_snapshot db target_id t)\<rparr>"
    unfolding preview_roles_def bindE_eq_Inr by (auto split: option.splits)
  from chk obtain oa' where eq: "json_eq (build_replacement_snapshot h auth' target1 (user_roles target1) live oa' new
      (load_department_assignment_snapshot db1 (user_id target1) t)) (pv_snapshot p)"
    by (auto simp: check_expected_def split: option.splits)
  have eq': "json_eq (build_replacement_snapshot h auth' target1 (user_roles target1) live oa' new
      (load_department_assignment_snapshot db1 (user_id target1) t))
    (build_replacement_snapshot h auth target (user_roles target) req
            oa na (load_department_assignment_snapshot db target_id t))"
    using eq p(3) by simp
  note ids = snapshot_eq_ids[OF eq']
  have "user_id target1 = target_id'" "user_id target = target_id"
    using load_user_Some(1)[OF u] p(2) load_user_Some(1)[of db target_id t target]
    by (auto simp: require_user_Inr)
  moreover have "actor_user_id auth' = actor_id'" "actor_user_id auth = actor_id"
    using auth' p(1) by (auto elim: build_authority_Inr)
  ultimately have same: "actor_id' = actor_id" "target_id' = target_id"
    "result = \<lparr>asg_user_id = pv_user_id p, asg_old_role_ids = pv_old_role_ids p, asg_new_role_ids = pv_new_role_ids p\<rparr>"
    "version_summary auth' = version_summary auth"
    using ids p(3) result by simp_all
  have stored: "(\<exists>before after. load_user db1 target_id t = Some before \<and> load_user db2 target_id t = Some after \<and>
       role_ids_of (user_roles before) = pv_old_role_ids p \<and>
       role_id ` set (user_roles after) = set (pv_new_role_ids p) \<and> user_depts after = user_depts before) \<and>
    (\<forall>x t'. (t', x) \<noteq> (t, target_id) \<longrightarrow> load_user db2 x t' = load_user db1 x t')"
    using replacement_frame[OF core] unfolding same(2,3) by auto
  show ?thesis using same p(1) auth' stored by blast
qed

text \<open>When nothing is committed between a preview and its execution, the execution
  with the preview's snapshot replaces the roles as previewed; the only way to fail is that the
  rows to lock cannot be locked.\<close>

theorem fresh_preview_executes:
  assumes prev: "preview_roles h vis db actor_id target_id ids t = Inr p"
    and key: "distinct (map role_id (filter (\<lambda>r. role_tenant r = t) (rows_roles db)))"
  shows "replace_roles h vis db db actor_id target_id ids (Some (pv_snapshot p)) t
       = Inl (BusinessRule ''AUTHORIZATION_SNAPSHOT_STALE'') \<or>
    (\<exists>db2. replace_roles h vis db db actor_id target_id ids (Some (pv_snapshot p)) t
       = Inr (\<lparr>asg_user_id = target_id, asg_old_role_ids = pv_old_role_ids p, asg_new_role_ids = pv_new_role_ids p\<rparr>, db2))"
proof -
  from prev obtain req auth target oa na where
    req: "load_requested_roles db ids t = Inr req" and
    auth: "build_authority h vis db actor_id t = Inr auth"
      "require_permissions auth {USER_EDIT_PERMISSION, USER_ROLE_AUTH_PERMISSION} = Inr ()" and
    u: "require_user db target_id t = Inr target" and
    az: "authorize_role_set db auth actor_id target req None False False {} t = Inr (Some oa, na)" and
    p: "p = \<lparr>pv_user_id = user_id target, pv_user_name = user_name target,
          pv_old_role_ids = role_ids_of (user_roles target), pv_new_role_ids = role_ids_of req,
          pv_old_display = role_display (user_roles target), pv_new_display = role_display req,
          pv_snapshot = build_replacement_snapshot h auth target (user_roles target) req
            oa na (load_department_assignment_snapshot db target_id t)\<rparr>"
    unfolding preview_roles_def bindE_eq_Inr by (auto split: option.splits)
  have uid: "user_id target = target_id" using u load_user_Some(1) by (auto simp: require_user_Inr)
  have neq: "actor_id \<noteq> target_id" using authorize_Inr(1)[OF az] uid by (simp add: protection_Inr)
  obtain actor where actor: "require_user db actor_id t = Inr actor"
    using build_authority_actor[OF auth(1)] by (auto simp: require_user_Inr)
  have live: "load_requested_roles db (map IdInt (role_ids_of req)) t = Inr req"
    by (rule reload_requested[OF req key])
  have chk: "check_expected h db auth target req (Some oa, na) (Some (pv_snapshot p)) t = Inr ()"
    using json_eq_refl[OF json_wf_snapshot, of h auth target "user_roles target" req oa na db target_id t]
    unfolding p check_expected_def uid by simp
  have "user_tenant target = t" using u load_user_Some(2) by (auto simp: require_user_Inr)
  then obtain db2 where repl: "replace_user_roles db target req t = Inr db2"
    using load_requested_facts(1)[OF req] by (auto simp: replace_user_roles_def)
  obtain rs ds where locks: "replacement_locks actor target req None = (rs, ds)" by fastforce
  show ?thesis
  proof (cases "lock_targets db rs ds {actor_id, target_id} t")
    case (Inl e)
    then show ?thesis
      using lock_targets_error[OF Inl] req actor u neq locks
      by (simp add: replace_roles_def replace_roles_core_def)
  next
    case (Inr x)
    then show ?thesis
      using req actor u neq locks live auth az chk repl p
      by (simp add: replace_roles_def replace_roles_core_def facts_changed_def)
  qed
qed

text \<open>A role the lookup offers an actor that is not a super-administrator adds nothing
  to what the actor already has: with the role on top of its own, the actor would gain no
  permission, menu, agent or department, and no user but itself, and the role is never the
  super-administrator's. The links of the role are those the association table holds.\<close>

theorem assignable_role_adds_nothing:
  assumes auth: "build_authority h vis db i t = Inr auth" and u: "load_user db i t = Some u"
    and r: "r \<in> set (filter_assignable_roles db auth roles t)" and nsup: "\<not> super_admin auth"
    and links: "set (map snd (role_dept_rows (scope db) [role_id r] t)) \<subseteq> set (map dept_id (role_dept_links r))"
  shows "role_code r \<noteq> SUPER_ADMIN_ROLE_CODE \<and> menu_codes (role_menus r) \<subseteq> permission_codes auth \<and>
    set (map menu_id (role_menus r)) \<subseteq> menu_ids auth \<and> role_agents_of db t (role_id r) \<subseteq> grantable_ids auth \<and>
    (let more = acc_scope db u (user_roles u @ [r]) None t in
       scope_le (fst more) (ga_dept_ids auth) \<and>
       scope_le (map_option (\<lambda>ds. eval_user_scope (scope db) (build_user_scope i t ds (snd more))) (fst more))
         (map_option (insert i) (ga_user_ids auth)))"
proof -
  let ?own = "own_dept_list u None" and ?rs = "user_roles u"
  from r have a: "r \<in> set roles" "role_status r = STATUS_ENABLED" "role_code r \<noteq> SUPER_ADMIN_ROLE_CODE"
    "menu_codes (role_menus r) \<subseteq> permission_codes auth" "set (map menu_id (role_menus r)) \<subseteq> menu_ids auth"
    "role_agents_of db t (role_id r) \<subseteq> grantable_ids auth"
    "allows_scope_kind auth (data_scope r) (set (map dept_id (role_dept_links r)))"
    using nsup by (auto simp: filter_assignable_roles_def assignable_def allows_permission_codes_def
        allows_menu_ids_def allows_agent_ids_def agents_by_role_eq role_agents_of_def split: if_splits)
  note b = build_authority_materialized[OF auth u]
  show ?thesis
  proof (cases "grants_all ?rs")
    case True
    then have "ga_dept_ids auth = None" "ga_user_ids auth = None" using b(4,7) by (simp_all add: acc_scope_def)
    with a show ?thesis by (simp add: Let_def scope_le_def)
  next
    case False
    have w: "data_scope r \<noteq> DATA_SCOPE_ALL" "role_grant (scope db) ?own t r \<subseteq> union_depts (scope db) ?own t ?rs"
      using allowed_grant_within[OF auth u False a(7) nsup links] by blast+
    have "grants_all (?rs @ [r]) = False"
      using False w(1) a(3) by (auto simp: grants_all_def)
    moreover have "union_depts (scope db) ?own t (?rs @ [r]) = union_depts (scope db) ?own t ?rs"
      using w(2) unfolding union_depts_def granting_snoc by (auto simp: granting_roles_def)
    ultimately have more: "fst (acc_scope db u (?rs @ [r]) None t) = Some (union_depts (scope db) ?own t ?rs)"
      by (simp add: acc_scope_def)
    have ga: "ga_dept_ids auth = Some (union_depts (scope db) ?own t ?rs)"
      "ga_user_ids auth = Some (eval_user_scope (scope db)
         (build_user_scope i t (union_depts (scope db) ?own t ?rs) (snd (acc_scope db u ?rs None t))))"
      using b(4,7) False by (simp_all add: acc_scope_def)
    have "eval_user_scope (scope db) (build_user_scope i t ds s) \<subseteq> insert i (eval_user_scope (scope db) (build_user_scope i t ds s'))"
      for ds s s' by (auto simp: eval_build_user_scope)
    with a more ga show ?thesis by (simp add: Let_def scope_le_def)
  qed
qed

section \<open>Witnesses\<close>

text \<open>Tenant 7: a manager (50) with DEPT_AND_SUB scope over department 12 and its child 123, a
  member of 123 (51) holding the default role, and a DEPT-scoped role the manager may assign.\<close>

definition team_menu :: "int \<Rightarrow> string \<Rightarrow> menu" where
  "team_menu i p = \<lparr>menu_id = i, menu_permission = Some p\<rparr>"

definition team_role :: "int \<Rightarrow> string \<Rightarrow> string \<Rightarrow> menu list \<Rightarrow> role" where
  "team_role i code sc ms = \<lparr>role_id = i, role_tenant = 7, role_code = code, role_name = code,
     role_status = ''1'', data_scope = sc, role_menus = ms, role_dept_links = []\<rparr>"

definition team_user :: "int \<Rightarrow> user" where
  "team_user i = \<lparr>user_id = i, user_tenant = 7, user_name = ''user'', user_status = ''1'',
     user_roles = [], user_depts = []\<rparr>"

definition team_db :: auth_db where
  "team_db = \<lparr>
     scope = \<lparr>db_depts = [
         \<lparr>dept_id = 12, dept_tenant = 7, dept_status = ''1'', dept_ancestors = Some ''0''\<rparr>,
         \<lparr>dept_id = 123, dept_tenant = 7, dept_status = ''1'', dept_ancestors = Some ''0,12''\<rparr>],
       db_role_depts = [], db_user_depts = [(7, 50, 12), (7, 51, 123)], db_users = [(7, 50), (7, 51)]\<rparr>,
     rows_users = [team_user 50, team_user 51],
     rows_roles = [team_role 1 ''R_MGR'' ''4''
         [team_menu 90 ''system:user:edit'', team_menu 91 ''system:user:role-auth''],
       team_role 2 ''R_USER'' ''5'' [], team_role 3 ''R_LEAD'' ''3'' [team_menu 90 ''system:user:edit'']],
     links_roles = [(7, 50, 1), (7, 51, 2)], primary_depts = [(7, 50, 12)], role_agents = []\<rparr>"

definition demo_hash :: "json \<Rightarrow> string" where "demo_hash j = ''hash''"
definition no_agents :: "auth_db \<Rightarrow> user \<Rightarrow> int set" where "no_agents db u = {}"

lemma team_replace:
  "is_ok (replace_roles demo_hash no_agents team_db team_db 50 51 [IdInt 3] None 7)"
  "is_ok (preview_roles demo_hash no_agents team_db 50 51 [IdInt 3] 7)"
  by code_simp+

theorem bulk_materialization_equals_single_witness:
  "materialize_role_set_authorities team_db
     [(team_user 51, [team_role 2 ''R_USER'' ''5'' [], team_role 3 ''R_LEAD'' ''4'' []], db_depts (scope team_db))] [] 7 =
   mapE (\<lambda>(u, rs, ds). materialize_role_set_authority team_db u rs (Some ds) 7)
     [(team_user 51, [team_role 2 ''R_USER'' ''5'' [], team_role 3 ''R_LEAD'' ''4'' []], db_depts (scope team_db))]"
proof (rule bulk_materialization_equals_single)
  show "canonical_paths team_db 7" by code_simp
  show "\<forall>c \<in> set [(team_user 51, [team_role 2 ''R_USER'' ''5'' [], team_role 3 ''R_LEAD'' ''4'' []], db_depts (scope team_db))].
      candidate_ok team_db 7 c"
    by code_simp
qed

theorem replace_roles_no_escalation_witness:
  "\<exists>result db2. replace_roles demo_hash no_agents team_db team_db 50 51 [IdInt 3] None 7 = Inr (result, db2) \<and>
     (\<exists>auth. build_authority demo_hash no_agents team_db 50 7 = Inr auth \<and>
        allows_permission_codes auth {USER_EDIT_PERMISSION, USER_ROLE_AUTH_PERMISSION})"
proof -
  obtain result db2 where ok: "replace_roles demo_hash no_agents team_db team_db 50 51 [IdInt 3] None 7 = Inr (result, db2)"
    using team_replace(1) by (auto simp: is_ok_iff)
  with replace_roles_no_escalation[OF ok] show ?thesis by blast
qed

theorem replacement_frame_witness:
  "\<exists>result db2. replace_roles_core demo_hash no_agents team_db team_db 50 51 [team_role 2 ''R_USER'' ''5'' []]
       {} False None {} None 7 = Inr (result, db2) \<and> load_user db2 50 7 = load_user team_db 50 7"
proof -
  have "is_ok (replace_roles_core demo_hash no_agents team_db team_db 50 51 [team_role 2 ''R_USER'' ''5'' []]
       {} False None {} None 7)" by code_simp
  then obtain result db2 where ok: "replace_roles_core demo_hash no_agents team_db team_db 50 51
      [team_role 2 ''R_USER'' ''5'' []] {} False None {} None 7 = Inr (result, db2)"
    by (auto simp: is_ok_iff)
  have "((7 :: int), (50 :: int)) \<noteq> (7, 51)" by simp
  with ok replacement_frame[OF ok] show ?thesis by blast
qed

theorem approved_snapshot_binds_execution_witness:
  "\<exists>p result db2. preview_roles demo_hash no_agents team_db 50 51 [IdInt 3] 7 = Inr p \<and>
     replace_roles demo_hash no_agents team_db team_db 50 51 [IdStr ''3''] (Some (pv_snapshot p)) 7 = Inr (result, db2) \<and>
     asg_new_role_ids result = pv_new_role_ids p \<and> pv_new_role_ids p = [3] \<and>
     (\<exists>after. load_user db2 51 7 = Some after \<and> role_id ` set (user_roles after) = {3})"
proof -
  have "case preview_roles demo_hash no_agents team_db 50 51 [IdInt 3] 7 of Inl _ \<Rightarrow> False | Inr p \<Rightarrow>
      pv_new_role_ids p = [3] \<and>
      is_ok (replace_roles demo_hash no_agents team_db team_db 50 51 [IdStr ''3''] (Some (pv_snapshot p)) 7)"
    by code_simp
  then obtain p result db2 where p: "preview_roles demo_hash no_agents team_db 50 51 [IdInt 3] 7 = Inr p"
    "pv_new_role_ids p = [3]"
    and ok: "replace_roles demo_hash no_agents team_db team_db 50 51 [IdStr ''3''] (Some (pv_snapshot p)) 7 = Inr (result, db2)"
    by (auto simp: is_ok_iff split: sum.splits)
  from approved_snapshot_binds_execution[OF p(1) ok] p ok show ?thesis by auto
qed

theorem fresh_preview_executes_witness:
  "\<exists>p db2. preview_roles demo_hash no_agents team_db 50 51 [IdInt 3] 7 = Inr p \<and>
     replace_roles demo_hash no_agents team_db team_db 50 51 [IdInt 3] (Some (pv_snapshot p)) 7 =
       Inr (\<lparr>asg_user_id = 51, asg_old_role_ids = pv_old_role_ids p, asg_new_role_ids = pv_new_role_ids p\<rparr>, db2)"
proof -
  have "case preview_roles demo_hash no_agents team_db 50 51 [IdInt 3] 7 of Inl _ \<Rightarrow> False | Inr p \<Rightarrow>
      is_ok (replace_roles demo_hash no_agents team_db team_db 50 51 [IdInt 3] (Some (pv_snapshot p)) 7)"
    by code_simp
  then obtain p where p: "preview_roles demo_hash no_agents team_db 50 51 [IdInt 3] 7 = Inr p"
    and ok: "is_ok (replace_roles demo_hash no_agents team_db team_db 50 51 [IdInt 3] (Some (pv_snapshot p)) 7)"
    by (auto split: sum.splits)
  have "distinct (map role_id (filter (\<lambda>r. role_tenant r = 7) (rows_roles team_db)))"
    by (simp add: team_db_def team_role_def)
  from fresh_preview_executes[OF p this] p ok show ?thesis by auto
qed

theorem assignable_role_adds_nothing_witness:
  "\<exists>auth. build_authority demo_hash no_agents team_db 50 7 = Inr auth \<and>
     menu_codes (role_menus (team_role 3 ''R_LEAD'' ''3'' [team_menu 90 ''system:user:edit''])) \<subseteq> permission_codes auth"
proof -
  let ?r = "team_role 3 ''R_LEAD'' ''3'' [team_menu 90 ''system:user:edit'']"
  have "case build_authority demo_hash no_agents team_db 50 7 of Inl _ \<Rightarrow> False | Inr auth \<Rightarrow>
      \<not> super_admin auth \<and> map role_id (filter_assignable_roles team_db auth [?r] 7) = [3]"
    "load_user team_db 50 7 \<noteq> None" "role_dept_rows (scope team_db) [role_id ?r] 7 = []"
    by code_simp+
  then obtain auth u where a: "build_authority demo_hash no_agents team_db 50 7 = Inr auth" "\<not> super_admin auth"
    "map role_id (filter_assignable_roles team_db auth [?r] 7) = [3]" "load_user team_db 50 7 = Some u"
    "set (map snd (role_dept_rows (scope team_db) [role_id ?r] 7)) \<subseteq> set (map dept_id (role_dept_links ?r))"
    by (auto split: sum.splits)
  from a(3) have "?r \<in> set (filter_assignable_roles team_db auth [?r] 7)"
    by (auto simp: filter_assignable_roles_def split: if_splits)
  from assignable_role_adds_nothing[OF a(1,4) this a(2,5)] a(1) show ?thesis by blast
qed

end
