(* ===== verification/Role_Delegation.thy ===== *)
theory Role_Delegation
  imports Role_Assignment
begin

text \<open>
  \<open>app/modules/system/service/role_delegation_service.py\<close>: replacing the complete set of AI
  agents bound to a role. The replacement is evaluated in \<open>db0\<close>, the affected rows are locked,
  and it is evaluated again in \<open>db1\<close>; both evaluations must agree.
\<close>

section \<open>Constants and results\<close>

definition ROLE_AGENT_PERMISSION :: string where "ROLE_AGENT_PERMISSION = ''system:role:ai-agent-auth''"
definition PROTECTED_ROLE_CODES :: "string set" where "PROTECTED_ROLE_CODES = {SUPER_ADMIN_ROLE_CODE}"

record delegation_plan =
  plan_role_id :: int
  plan_old_agent_ids :: "int list"
  plan_new_agent_ids :: "int list"
  plan_member_ids :: "int list"

record agent_evaluation =
  ev_plan :: delegation_plan
  ev_role_ids :: "int list"
  ev_dept_ids :: "int list"
  ev_user_ids :: "int list"
  ev_snapshot :: json

section \<open>Loads\<close>

definition require_entry_permission :: "grant_authority \<Rightarrow> unit res" where
  "require_entry_permission auth =
     guardE (allows_permission_codes auth {ROLE_AGENT_PERMISSION}) (Authorization ''MISSING_PERMISSION'')"

definition load_role :: "auth_db \<Rightarrow> int \<Rightarrow> int \<Rightarrow> role res" where
  "load_role db i t = (case find (\<lambda>r. role_tenant r = t \<and> role_id r = i) (rows_roles db) of
      None \<Rightarrow> Inl (NotFound ''AI_ROLE_NOT_FOUND'') | Some r \<Rightarrow> Inr r)"

text \<open>The users of the tenant linked to the role, by ascending id.\<close>

definition load_members :: "auth_db \<Rightarrow> int \<Rightarrow> int \<Rightarrow> user list" where
  "load_members db rid t =
     List.map_filter (\<lambda>uid. load_user db uid t)
       (sorted_list_of_set (set (map (\<lambda>(t', u, r). u)
         (filter (\<lambda>(t', u, r). t' = t \<and> r = rid) (links_roles db)))))"

definition active_agent_ids :: "auth_db \<Rightarrow> int \<Rightarrow> int \<Rightarrow> int list" where
  "active_agent_ids db rid t =
     sort (map (\<lambda>(t', r, a, e). a)
       (filter (\<lambda>(t', r, a, e). t' = t \<and> r = rid \<and> e) (role_agents db)))"

definition lock_role_ids :: "user list \<Rightarrow> int \<Rightarrow> int list" where
  "lock_role_ids users target =
     sorted_list_of_set (insert target (set (map role_id (concat (map user_roles users)))))"

definition lock_dept_ids :: "role \<Rightarrow> user list \<Rightarrow> int set" where
  "lock_dept_ids r users =
     set (map dept_id (role_dept_links r)) \<union> set (map dept_id (concat (map user_depts users))) \<union>
     set (map dept_id (concat (map role_dept_links (concat (map user_roles users)))))"

section \<open>Checks\<close>

definition ensure_role_definition_dominated ::
    "grant_authority \<Rightarrow> role \<Rightarrow> int list \<Rightarrow> int list \<Rightarrow> unit res" where
  "ensure_role_definition_dominated auth r olds news =
     (if super_admin auth then Inr ()
      else guardE
        (allows_permission_codes auth (menu_codes (role_menus r)) \<and>
         allows_menu_ids auth (set (map menu_id (role_menus r))) \<and>
         allows_agent_ids auth (set (olds @ news)) \<and>
         allows_scope_kind auth (data_scope r) (set (map dept_id (role_dept_links r))))
        (Authorization ''AI_ROLE_AGENT_AUTHORITY_EXCEEDED''))"

definition protected_member :: "user \<Rightarrow> bool" where
  "protected_member u \<longleftrightarrow> user_name u = ADMIN_USERNAME \<or>
     (\<exists>r \<in> set (user_roles u). role_status r = STATUS_ENABLED \<and> role_code r \<in> PROTECTED_ROLE_CODES)"

definition ensure_member_protection :: "grant_authority \<Rightarrow> int \<Rightarrow> role \<Rightarrow> user list \<Rightarrow> unit res" where
  "ensure_member_protection auth actor_id r members =
     (let member_ids = set (map user_id members) in
      if super_admin auth then Inr ()
      else if role_code r \<in> PROTECTED_ROLE_CODES then Inl (Authorization ''AI_ROLE_PROTECTED'')
      else if actor_id \<in> member_ids then Inl (Authorization ''AI_ROLE_SELF_MUTATION_FORBIDDEN'')
      else if (case ga_user_ids auth of None \<Rightarrow> False | Some us \<Rightarrow> \<not> member_ids \<subseteq> us)
      then Inl (Authorization ''AI_ROLE_GLOBAL_IMPACT_OUT_OF_SCOPE'')
      else if \<exists>u \<in> set members. protected_member u
      then Inl (Authorization ''AI_ROLE_GLOBAL_IMPACT_OUT_OF_SCOPE'')
      else Inr ())"

definition ensure_member_authorities_dominated ::
    "grant_authority \<Rightarrow> role_set_authority list \<Rightarrow> role_set_authority list \<Rightarrow> unit res" where
  "ensure_member_authorities_dominated auth before after =
     (if super_admin auth then Inr ()
      else case mapE (\<lambda>a. ensure_role_set_dominated auth a {}) (before @ after) of
          Inl (Authorization _) \<Rightarrow> Inl (Authorization ''AI_ROLE_GLOBAL_IMPACT_OUT_OF_SCOPE'')
        | Inl e \<Rightarrow> Inl e
        | Inr _ \<Rightarrow> Inr ())"

section \<open>Evaluation\<close>

definition member_snapshot ::
    "(json \<Rightarrow> string) \<Rightarrow> user \<Rightarrow> role_set_authority \<Rightarrow> role_set_authority \<Rightarrow> json" where
  "member_snapshot h u before after = JObj
     [(''userId'', JStr (show_int (user_id u))), (''userName'', JStr (user_name u)),
      (''status'', JStr (user_status u)),
      (''roleIds'', JArr (map JInt (role_ids_of (user_roles u)))),
      (''deptIds'', JArr (map JInt (user_dept_ids u))),
      (''before'', materialized_role_set_snapshot h before),
      (''after'', materialized_role_set_snapshot h after)]"

definition build_evaluation ::
    "(json \<Rightarrow> string) \<Rightarrow> grant_authority \<Rightarrow> user \<Rightarrow> role \<Rightarrow> user list \<Rightarrow> int list \<Rightarrow> int list \<Rightarrow>
     role_set_authority list \<Rightarrow> role_set_authority list \<Rightarrow> agent_evaluation" where
  "build_evaluation h auth actor r members olds news before after =
     (let users = actor # members;
          dept_ids = lock_dept_ids r users \<union>
            (\<Union>m \<in> set (before @ after). case rsa_dept_ids m of None \<Rightarrow> {} | Some ds \<Rightarrow> ds);
          member_ids = sort (map user_id members)
      in \<lparr>ev_plan = \<lparr>plan_role_id = role_id r, plan_old_agent_ids = olds, plan_new_agent_ids = news,
              plan_member_ids = member_ids\<rparr>,
          ev_role_ids = lock_role_ids users (role_id r),
          ev_dept_ids = sorted_list_of_set dept_ids,
          ev_user_ids = sorted_list_of_set (insert (user_id actor) (set member_ids)),
          ev_snapshot = JObj
            [(''actorAuthorityVersion'', JStr (version_summary auth)),
             (''targetRole'', JObj
               [(''roleId'', JStr (show_int (role_id r))), (''roleCode'', JStr (role_code r)),
                (''status'', JStr (role_status r)), (''dataScope'', JStr (data_scope r)),
                (''menuIds'', JArr (map JInt (sort (map menu_id (role_menus r))))),
                (''customDeptIds'', JArr (map JInt (sort (map dept_id (role_dept_links r))))),
                (''oldAgentIds'', JArr (map JInt olds)), (''newAgentIds'', JArr (map JInt news))]),
             (''members'', JArr (map (\<lambda>(u, b, a). member_snapshot h u b a)
                (zip members (zip before after))))]\<rparr>)"

definition evaluate_agent_replacement ::
    "(json \<Rightarrow> string) \<Rightarrow> (auth_db \<Rightarrow> user \<Rightarrow> int set) \<Rightarrow> auth_db \<Rightarrow> int \<Rightarrow> int \<Rightarrow> int list \<Rightarrow> int \<Rightarrow>
     agent_evaluation res" where
  "evaluate_agent_replacement h vis db actor_id rid news t =
     bindE (require_user db actor_id t) (\<lambda>actor.
     bindE (build_authority h vis db actor_id t) (\<lambda>auth.
     bindE (require_entry_permission auth) (\<lambda>_.
     bindE (load_role db rid t) (\<lambda>r.
       let olds = active_agent_ids db rid t in
       if super_admin auth then Inr (build_evaluation h auth actor r [] olds news [] [])
       else let members = load_members db rid t;
                cands = map (\<lambda>u. (u, user_roles u, user_depts u)) members in
         bindE (ensure_member_protection auth actor_id r members) (\<lambda>_.
         bindE (ensure_role_definition_dominated auth r olds news) (\<lambda>_.
         bindE (materialize_role_set_authorities db cands [] t) (\<lambda>before.
         bindE (materialize_role_set_authorities db cands [(rid, set news)] t) (\<lambda>after.
         bindE (ensure_member_authorities_dominated auth before after) (\<lambda>_.
           Inr (build_evaluation h auth actor r members olds news before after))))))))))"

text \<open>\<open>BusinessException\<close> and its subclasses.\<close>

fun is_business :: "exn \<Rightarrow> bool" where
  "is_business (NotFound _) = True"
| "is_business (Duplicate _) = True"
| "is_business (Authentication _) = True"
| "is_business (Authorization _) = True"
| "is_business (BusinessRule _) = True"
| "is_business (InvalidParameter _) = True"
| "is_business (Unprocessable _) = True"
| "is_business _ = False"

definition authorize_and_lock_agent_replacement ::
    "(json \<Rightarrow> string) \<Rightarrow> (auth_db \<Rightarrow> user \<Rightarrow> int set) \<Rightarrow> auth_db \<Rightarrow> auth_db \<Rightarrow> int \<Rightarrow> int \<Rightarrow> int list \<Rightarrow>
     json option \<Rightarrow> int \<Rightarrow> delegation_plan res" where
  "authorize_and_lock_agent_replacement h vis db0 db1 actor_id rid news expected t =
     (let normalized = sort news in
      bindE (evaluate_agent_replacement h vis db0 actor_id rid normalized t) (\<lambda>initial.
      bindE (lock_targets db1 (set (ev_role_ids initial)) (set (ev_dept_ids initial))
               (set (ev_user_ids initial)) t) (\<lambda>_.
      bindE (case evaluate_agent_replacement h vis db1 actor_id rid normalized t of
               Inl e \<Rightarrow> Inl (if is_business e then BusinessRule ''AUTHORIZATION_SNAPSHOT_STALE'' else e)
             | Inr v \<Rightarrow> Inr v) (\<lambda>locked.
      bindE (guardE (ev_role_ids locked = ev_role_ids initial \<and> ev_dept_ids locked = ev_dept_ids initial \<and>
                     ev_user_ids locked = ev_user_ids initial \<and>
                     json_eq (ev_snapshot locked) (ev_snapshot initial))
               (BusinessRule ''AUTHORIZATION_SNAPSHOT_STALE'')) (\<lambda>_.
      bindE (case expected of None \<Rightarrow> Inr () | Some want \<Rightarrow>
               guardE (json_eq (ev_snapshot locked) want) (BusinessRule ''AI_PREPARED_ACTION_SNAPSHOT_STALE''))
        (\<lambda>_. Inr (ev_plan locked)))))))"

definition preview_agent_replacement where
  "preview_agent_replacement h vis db actor_id rid news t =
     bindE (evaluate_agent_replacement h vis db actor_id rid (sort news) t) (\<lambda>e. Inr (ev_snapshot e))"

end
