(* ===== verification/Role_Delegation_Props.thy ===== *)
theory Role_Delegation_Props
  imports Role_Delegation Role_Assignment_Props
begin

text \<open>
  The delegation boundary of role-agent bindings: whoever the changed role reaches was, and
  stays, within the authority of the actor that changed it.
\<close>

section \<open>Members\<close>

lemma map_filter_iff: "x \<in> set (List.map_filter f xs) \<longleftrightarrow> (\<exists>y \<in> set xs. f y = Some x)"
  by (induction xs) (auto simp: map_filter_simps split: option.split)

lemma linked_users_iff:
  "uid \<in> set (map (\<lambda>(t', u, r). u) (filter (\<lambda>(t', u, r). t' = t \<and> r = rid) links)) \<longleftrightarrow> (t, uid, rid) \<in> set links"
  by force

lemma load_members_iff:
  "u \<in> set (load_members db rid t) \<longleftrightarrow>
     (\<exists>uid. (t, uid, rid) \<in> set (links_roles db) \<and> load_user db uid t = Some u)"
  unfolding load_members_def map_filter_iff set_sorted_list_of_set[OF finite_set] Bex_def linked_users_iff ..

lemma mapE_unit_all:
  "mapE (f :: 'a \<Rightarrow> unit res) xs = Inr ys \<Longrightarrow> x \<in> set xs \<Longrightarrow> f x = Inr ()"
  using mapE_Inr_in[of f xs ys x] by auto

lemma member_authorities_ok:
  assumes "ensure_member_authorities_dominated auth before after = Inr ()" "\<not> super_admin auth"
    and "a \<in> set (before @ after)"
  shows "ensure_role_set_dominated auth a {} = Inr ()"
proof -
  obtain ys where "mapE (\<lambda>a. ensure_role_set_dominated auth a {}) (before @ after) = Inr ys"
    using assms(1,2) by (auto simp: ensure_member_authorities_dominated_def split: sum.splits exn.splits)
  from mapE_unit_all[OF this assms(3)] show ?thesis .
qed

text \<open>The table after the plan's bindings are written: the role's active agents are the new ones.\<close>

definition rebound :: "auth_db \<Rightarrow> int \<Rightarrow> int \<Rightarrow> int list \<Rightarrow> auth_db" where
  "rebound db t rid news = db\<lparr>role_agents :=
     filter (\<lambda>(t', r, a, e). \<not> (t' = t \<and> r = rid)) (role_agents db) @ map (\<lambda>a. (t, rid, a, True)) news\<rparr>"

lemma rebound_simps [simp]:
  "scope (rebound db t rid news) = scope db" "load_user (rebound db t rid news) = load_user db"
  by (simp_all add: rebound_def load_user_def fun_eq_iff)

lemma role_agents_rebound:
  "role_agents_of (rebound db t rid news) t = overridden [(rid, set news)] (role_agents_of db t)"
  by (auto simp: role_agents_of_def rebound_def overridden_def fun_eq_iff)

lemma acc_rebound [simp]:
  "acc_scope (rebound db t rid news) = acc_scope db" "acc_users (rebound db t rid news) = acc_users db"
  by (intro ext, simp only: acc_scope_def acc_users_def rebound_simps)+

lemma evaluate_Inr:
  assumes "evaluate_agent_replacement h vis db actor_id rid news t = Inr ev"
  obtains auth r where "build_authority h vis db actor_id t = Inr auth"
    "allows_permission_codes auth {ROLE_AGENT_PERMISSION}" "load_role db rid t = Inr r"
    "plan_new_agent_ids (ev_plan ev) = news" "plan_old_agent_ids (ev_plan ev) = active_agent_ids db rid t"
    "\<not> super_admin auth \<Longrightarrow> (\<exists>before after.
       ensure_member_protection auth actor_id r (load_members db rid t) = Inr () \<and>
       ensure_role_definition_dominated auth r (active_agent_ids db rid t) news = Inr () \<and>
       materialize_role_set_authorities db
         (map (\<lambda>u. (u, user_roles u, user_depts u)) (load_members db rid t)) [] t = Inr before \<and>
       materialize_role_set_authorities db
         (map (\<lambda>u. (u, user_roles u, user_depts u)) (load_members db rid t)) [(rid, set news)] t = Inr after \<and>
       ensure_member_authorities_dominated auth before after = Inr ())"
proof -
  from assms obtain actor auth r where
    *: "build_authority h vis db actor_id t = Inr auth" "require_entry_permission auth = Inr ()"
    "load_role db rid t = Inr r" and
    rest: "(if super_admin auth then Inr (build_evaluation h auth actor r [] (active_agent_ids db rid t) news [] [])
       else bindE (ensure_member_protection auth actor_id r (load_members db rid t)) (\<lambda>_.
         bindE (ensure_role_definition_dominated auth r (active_agent_ids db rid t) news) (\<lambda>_.
         bindE (materialize_role_set_authorities db
           (map (\<lambda>u. (u, user_roles u, user_depts u)) (load_members db rid t)) [] t) (\<lambda>before.
         bindE (materialize_role_set_authorities db
           (map (\<lambda>u. (u, user_roles u, user_depts u)) (load_members db rid t)) [(rid, set news)] t) (\<lambda>after.
         bindE (ensure_member_authorities_dominated auth before after) (\<lambda>_.
           Inr (build_evaluation h auth actor r (load_members db rid t) (active_agent_ids db rid t) news before after))))))) = Inr ev"
    unfolding evaluate_agent_replacement_def bindE_eq_Inr[where m = "require_user db actor_id t"]
      bindE_eq_Inr[where m = "build_authority h vis db actor_id t"] bindE_eq_Inr[where m = "load_role db rid t"]
      bindE_eq_Inr[where m = "require_entry_permission auth" for auth] Let_def
    by (elim exE conjE) (rule that, (assumption | (simp; fail))+)
  have perm: "allows_permission_codes auth {ROLE_AGENT_PERMISSION}"
    using *(2) by (simp add: require_entry_permission_def)
  have plan: "plan_new_agent_ids (ev_plan ev) = news \<and> plan_old_agent_ids (ev_plan ev) = active_agent_ids db rid t"
    using rest by (auto simp: bindE_eq_Inr build_evaluation_def Let_def split: if_splits)
  show ?thesis
    by (rule that[OF *(1) perm *(3)]) (use plan rest in \<open>auto simp: bindE_eq_Inr\<close>)
qed

lemma protection_member:
  assumes "ensure_member_protection auth actor_id r members = Inr ()" "\<not> super_admin auth" "u \<in> set members"
  shows "user_id u \<noteq> actor_id" "case ga_user_ids auth of None \<Rightarrow> True | Some us \<Rightarrow> user_id u \<in> us"
    "\<not> is_super_admin u" "role_code r \<noteq> SUPER_ADMIN_ROLE_CODE" "user_name u \<noteq> ADMIN_USERNAME"
  using assms
  by (auto simp: ensure_member_protection_def Let_def protected_member_def PROTECTED_ROLE_CODES_def
      is_super_admin_def split: if_splits option.splits)

section \<open>Property\<close>

text \<open>A role-agent plan that is authorized was authorized under the actor's live
  authority after the rows were locked; unless the actor is a super-administrator, the old and new
  agents are among those it may grant, the role is not the super-administrator's, the actor is no
  member of it, and every member's live authority is dominated by the actor's, both with the
  present bindings and with the planned ones. The tables are well formed as for the bulk
  materialization.\<close>

theorem agent_delegation_stays_within_authority:
  assumes ok: "authorize_and_lock_agent_replacement h vis db0 db1 actor_id rid news expected t = Inr plan"
    and wf: "canonical_paths db1 t"
      "\<forall>u \<in> set (load_members db1 rid t). candidate_ok db1 t (u, user_roles u, user_depts u)"
  shows "\<exists>auth r. build_authority h vis db1 actor_id t = Inr auth \<and> load_role db1 rid t = Inr r \<and>
    allows_permission_codes auth {ROLE_AGENT_PERMISSION} \<and>
    plan_new_agent_ids plan = sort news \<and> plan_old_agent_ids plan = active_agent_ids db1 rid t \<and>
    (super_admin auth \<or>
     set (plan_old_agent_ids plan) \<union> set news \<subseteq> grantable_ids auth \<and> role_code r \<noteq> SUPER_ADMIN_ROLE_CODE \<and>
     (\<forall>uid u a. (t, uid, rid) \<in> set (links_roles db1) \<longrightarrow> load_user db1 uid t = Some u \<longrightarrow> uid \<noteq> actor_id \<and>
        (build_authority h vis db1 uid t = Inr a \<longrightarrow> authority_le a auth) \<and>
        (build_authority h vis (rebound db1 t rid news) uid t = Inr a \<longrightarrow> authority_le a auth)) \<and>
     (\<forall>u \<in> set (load_members db1 rid t). user_name u \<noteq> ADMIN_USERNAME))"
proof -
  from ok obtain ev where ev: "evaluate_agent_replacement h vis db1 actor_id rid (sort news) t = Inr ev"
    and plan: "plan = ev_plan ev"
    unfolding authorize_and_lock_agent_replacement_def Let_def bindE_eq_Inr
    by (auto split: sum.splits)
  obtain auth r where a: "build_authority h vis db1 actor_id t = Inr auth"
    "allows_permission_codes auth {ROLE_AGENT_PERMISSION}" "load_role db1 rid t = Inr r"
    "plan_new_agent_ids (ev_plan ev) = sort news" "plan_old_agent_ids (ev_plan ev) = active_agent_ids db1 rid t" and
    rest: "\<not> super_admin auth \<Longrightarrow> (\<exists>before after.
       ensure_member_protection auth actor_id r (load_members db1 rid t) = Inr () \<and>
       ensure_role_definition_dominated auth r (active_agent_ids db1 rid t) (sort news) = Inr () \<and>
       materialize_role_set_authorities db1
         (map (\<lambda>u. (u, user_roles u, user_depts u)) (load_members db1 rid t)) [] t = Inr before \<and>
       materialize_role_set_authorities db1
         (map (\<lambda>u. (u, user_roles u, user_depts u)) (load_members db1 rid t)) [(rid, set (sort news))] t = Inr after \<and>
       ensure_member_authorities_dominated auth before after = Inr ())"
    by (rule evaluate_Inr[OF ev]) blast
  show ?thesis
  proof (cases "super_admin auth")
    case True
    then show ?thesis using a plan by blast
  next
    case False
    let ?cands = "map (\<lambda>u. (u, user_roles u, user_depts u)) (load_members db1 rid t)"
    from rest[OF False] obtain before after where
      prot: "ensure_member_protection auth actor_id r (load_members db1 rid t) = Inr ()" and
      def_ok: "ensure_role_definition_dominated auth r (active_agent_ids db1 rid t) (sort news) = Inr ()" and
      before: "materialize_role_set_authorities db1 ?cands [] t = Inr before" and
      after: "materialize_role_set_authorities db1 ?cands [(rid, set news)] t = Inr after" and
      dom: "ensure_member_authorities_dominated auth before after = Inr ()" by auto
    have agents: "set (plan_old_agent_ids plan) \<union> set news \<subseteq> grantable_ids auth"
      using def_ok False a(5) plan
      by (auto simp: ensure_role_definition_dominated_def allows_agent_ids_def split: if_splits)
    have wfc: "\<forall>c \<in> set ?cands. candidate_ok db1 t c" using wf(2) by auto
    have code: "role_code r \<noteq> SUPER_ADMIN_ROLE_CODE"
      using prot False by (auto simp: ensure_member_protection_def Let_def PROTECTED_ROLE_CODES_def split: if_splits)
    have member: "uid \<noteq> actor_id \<and>
        (build_authority h vis db1 uid t = Inr b \<longrightarrow> authority_le b auth) \<and>
        (build_authority h vis (rebound db1 t rid news) uid t = Inr b \<longrightarrow> authority_le b auth)"
      if link: "(t, uid, rid) \<in> set (links_roles db1)" and u: "load_user db1 uid t = Some u" for uid u b
    proof -
      have mem: "u \<in> set (load_members db1 rid t)" using link u load_members_iff by blast
      have uid: "user_id u = uid" using load_user_Some(1)[OF u] .
      note p = protection_member[OF prot False mem]
      have own: "acc_scope db1 u (user_roles u) (Some (user_depts u)) t = acc_scope db1 u (user_roles u) None t"
        by (simp add: acc_scope_def own_dept_list_def)
      have c: "(u, user_roles u, user_depts u) \<in> set ?cands" using mem by auto
      have b_in: "authority_of (role_agents_of db1 t) (user_roles u) (fst (acc_scope db1 u (user_roles u) None t))
          (acc_users db1 u (Some (user_depts u)) t (acc_scope db1 u (user_roles u) None t)) \<in> set before"
        using before c unfolding bulk_closed[OF wf(1) wfc] by (force simp: own)
      have a_in: "authority_of (overridden [(rid, set news)] (role_agents_of db1 t)) (user_roles u)
          (fst (acc_scope db1 u (user_roles u) None t))
          (acc_users db1 u (Some (user_depts u)) t (acc_scope db1 u (user_roles u) None t)) \<in> set after"
        using after c unfolding bulk_closed[OF wf(1) wfc] by (force simp: own)
      have "authority_le b auth" if "build_authority h vis db1 uid t = Inr b"
        by (rule materialized_dominates[OF that u refl refl member_authorities_ok[OF dom False] uid False])
          (use b_in p uid in auto)
      moreover have "authority_le b auth" if "build_authority h vis (rebound db1 t rid news) uid t = Inr b"
        by (rule materialized_dominates[OF that _ refl refl _ uid False p(3), unfolded rebound_simps acc_rebound
              role_agents_rebound, OF u member_authorities_ok[OF dom False]])
          (use a_in p uid in auto)
      ultimately show ?thesis using p(1) uid by blast
    qed
    have "\<forall>u \<in> set (load_members db1 rid t). user_name u \<noteq> ADMIN_USERNAME"
      using protection_member(5)[OF prot False] by blast
    then show ?thesis using a plan agents code member by blast
  qed
qed

section \<open>Witness\<close>

text \<open>The team of the role-assignment witnesses, where the manager holds agent 9 and gives it to the
  lead role of user 51.\<close>

definition agent_db :: auth_db where
  "agent_db = team_db\<lparr>
     rows_roles := [team_role 1 ''R_MGR'' ''4'' [team_menu 92 ''system:role:ai-agent-auth''],
       team_role 3 ''R_LEAD'' ''3'' []],
     links_roles := [(7, 50, 1), (7, 51, 3)], role_agents := [(7, 1, 9, True), (7, 3, 8, False)]\<rparr>"

theorem agent_delegation_stays_within_authority_witness:
  "\<exists>plan auth. authorize_and_lock_agent_replacement demo_hash no_agents agent_db agent_db 50 3 [9] None 7 = Inr plan \<and>
     build_authority demo_hash no_agents agent_db 50 7 = Inr auth \<and> plan_new_agent_ids plan = sort [9]"
proof -
  have "is_ok (authorize_and_lock_agent_replacement demo_hash no_agents agent_db agent_db 50 3 [9] None 7)"
    "canonical_paths agent_db 7"
    "\<forall>u \<in> set (load_members agent_db 3 7). candidate_ok agent_db 7 (u, user_roles u, user_depts u)"
    by code_simp+
  then obtain plan where plan:
    "authorize_and_lock_agent_replacement demo_hash no_agents agent_db agent_db 50 3 [9] None 7 = Inr plan"
    "canonical_paths agent_db 7"
    "\<forall>u \<in> set (load_members agent_db 3 7). candidate_ok agent_db 7 (u, user_roles u, user_depts u)"
    unfolding is_ok_iff by blast
  from agent_delegation_stays_within_authority[OF plan] plan(1) show ?thesis by blast
qed

end
