(* ===== verification/Json_Text.thy ===== *)
theory Json_Text
  imports Json
begin

text \<open>
  \<open>json.dumps(value, default=str)\<close> with its default separators and \<open>ensure_ascii\<close>, as the HITL
  manager writes its payloads, on the characters 0 to 255.
\<close>

definition hex_digit :: "nat \<Rightarrow> char" where
  "hex_digit n = (if n < 10 then char_of (48 + n) else char_of (87 + n))"

definition dump_char :: "char \<Rightarrow> string" where
  "dump_char c =
     (let n = of_char c in
      if c = CHR 0x22 then [CHR 0x5C, CHR 0x22]
      else if c = CHR 0x5C then [CHR 0x5C, CHR 0x5C]
      else if n = 10 then [CHR 0x5C, CHR ''n'']
      else if n = 13 then [CHR 0x5C, CHR ''r'']
      else if n = 9 then [CHR 0x5C, CHR ''t'']
      else if n = 12 then [CHR 0x5C, CHR ''f'']
      else if n = 8 then [CHR 0x5C, CHR ''b'']
      else if 32 \<le> n \<and> n \<le> (126 :: nat) then [c]
      else [CHR 0x5C, CHR ''u'', CHR ''0'', CHR ''0'', hex_digit (n div 16), hex_digit (n mod 16)])"

definition dump_str :: "string \<Rightarrow> string" where
  "dump_str s = CHR 0x22 # concat (map dump_char s) @ [CHR 0x22]"

fun json_dumps :: "json \<Rightarrow> string"
and dump_items :: "json list \<Rightarrow> string"
and dump_members :: "(string \<times> json) list \<Rightarrow> string" where
  "json_dumps JNull = ''null''"
| "json_dumps (JBool b) = (if b then ''true'' else ''false'')"
| "json_dumps (JInt i) = show_int i"
| "json_dumps (JFloat FNonFinite) = ''NaN''"
| "json_dumps (JFloat (FFinite r)) = r"
| "json_dumps (JStr s) = dump_str s"
| "json_dumps (JArr xs) = ''['' @ dump_items xs @ '']''"
| "json_dumps (JObj kvs) = ''{'' @ dump_members kvs @ ''}''"
| "dump_items [] = []"
| "dump_items (x # xs) = json_dumps x @ (if xs = [] then [] else '', '' @ dump_items xs)"
| "dump_members [] = []"
| "dump_members ((k, x) # kvs) =
     dump_str k @ '': '' @ json_dumps x @ (if kvs = [] then [] else '', '' @ dump_members kvs)"

end
