(* ===== verification/Hitl.thy ===== *)
theory Hitl
  imports Json_Text
begin

text \<open>
  \<open>app/modules/ai/agents/hitl/manager.py\<close> and \<open>constants.py\<close>: human-in-the-loop confirmations. A
  tool call hangs until a user approves or rejects it. Redis is a store of values with absolute
  expiry times in milliseconds; a command is evaluated at the time it runs, and an operation with
  several commands takes the store and the time of each. A stored payload is kept decoded
  (\<open>RPayload\<close>) and its text is \<open>json_dumps\<close> of its fields; other texts are \<open>RText\<close>. A malformed
  text is an \<open>RText\<close>, so decoding it fails.
\<close>

section \<open>Expiring keys\<close>

record pending_payload =
  pp_user_id :: int
  pp_tenant_id :: int
  pp_conversation_id :: int
  pp_tool_call_id :: string
  pp_trace_id :: string
  pp_tool_name :: string
  pp_args :: json
  pp_dry_run_result :: json
  pp_expires_at :: string
  pp_source_user_message_id :: "int option"
  pp_guard_owner_token :: "string option"
  pp_command_action :: string
  pp_agent_code :: "string option"
  pp_risk_level :: string
  pp_chip_target :: "string option"
  pp_action_id :: "int option"
  pp_wake_action :: "string option"

datatype rval = RPayload pending_payload | RText string

type_synonym store = "string \<Rightarrow> (rval \<times> int) option"

definition r_get :: "store \<Rightarrow> int \<Rightarrow> string \<Rightarrow> rval option" where
  "r_get st now k = (case st k of None \<Rightarrow> None | Some (v, e) \<Rightarrow> if now < e then Some v else None)"

definition r_set :: "store \<Rightarrow> string \<Rightarrow> rval \<Rightarrow> int \<Rightarrow> store" where
  "r_set st k v e = st(k \<mapsto> (v, e))"

definition r_del :: "store \<Rightarrow> string \<Rightarrow> store" where
  "r_del st k = st(k := None)"

text \<open>\<open>PTTL\<close> and \<open>TTL\<close>, which rounds to the nearest second; an absent key is \<open>-2\<close>.\<close>

definition r_pttl :: "store \<Rightarrow> int \<Rightarrow> string \<Rightarrow> int" where
  "r_pttl st now k = (case st k of None \<Rightarrow> -2 | Some (v, e) \<Rightarrow> if now < e then e - now else -2)"

definition r_ttl :: "store \<Rightarrow> int \<Rightarrow> string \<Rightarrow> int" where
  "r_ttl st now k = (let p = r_pttl st now k in if p < 0 then p else (p + 500) div 1000)"

text \<open>What the manager relies on, whatever the store is.\<close>

locale expiring_store =
  fixes get :: "'s \<Rightarrow> int \<Rightarrow> string \<Rightarrow> 'v option"
    and set_until :: "'s \<Rightarrow> string \<Rightarrow> 'v \<Rightarrow> int \<Rightarrow> 's"
    and del :: "'s \<Rightarrow> string \<Rightarrow> 's"
  assumes get_set: "get (set_until st k v e) now k' =
      (if k' = k then (if now < e then Some v else None) else get st now k')"
    and get_del: "get (del st k) now k' = (if k' = k then None else get st now k')"
    and get_antimono: "now \<le> later \<Longrightarrow> get st later k = Some v \<Longrightarrow> get st now k = Some v"
begin

lemma get_none_later: "now \<le> later \<Longrightarrow> get st now k = None \<Longrightarrow> get st later k = None"
  using get_antimono by (metis not_None_eq)

lemma get_stable: "now \<le> later \<Longrightarrow> get st now k = Some v \<Longrightarrow> get st later k \<noteq> None \<Longrightarrow> get st later k = Some v"
  using get_antimono by (metis not_None_eq option.inject)

end

interpretation redis: expiring_store r_get r_set r_del
  by unfold_locales (auto simp: r_get_def r_set_def r_del_def split: option.splits if_splits)

section \<open>Payloads and constants\<close>

datatype confirm_action = APPROVED | REJECTED

fun action_value :: "confirm_action \<Rightarrow> string" where
  "action_value APPROVED = ''approved''"
| "action_value REJECTED = ''rejected''"

definition parse_action :: "string \<Rightarrow> confirm_action option" where
  "parse_action s = (if s = ''approved'' then Some APPROVED else if s = ''rejected'' then Some REJECTED else None)"

definition jopt_str :: "string option \<Rightarrow> json" where
  "jopt_str x = (case x of None \<Rightarrow> JNull | Some s \<Rightarrow> JStr s)"

definition jopt_int :: "int option \<Rightarrow> json" where
  "jopt_int x = (case x of None \<Rightarrow> JNull | Some i \<Rightarrow> JInt i)"

definition payload_json :: "pending_payload \<Rightarrow> json" where
  "payload_json p = JObj
     [(''user_id'', JInt (pp_user_id p)), (''tenant_id'', JInt (pp_tenant_id p)),
      (''conversation_id'', JInt (pp_conversation_id p)), (''tool_call_id'', JStr (pp_tool_call_id p)),
      (''trace_id'', JStr (pp_trace_id p)), (''tool_name'', JStr (pp_tool_name p)),
      (''args'', pp_args p), (''dry_run_result'', pp_dry_run_result p),
      (''expires_at'', JStr (pp_expires_at p)),
      (''source_user_message_id'', jopt_int (pp_source_user_message_id p)),
      (''guard_owner_token'', jopt_str (pp_guard_owner_token p)),
      (''command_action'', JStr (pp_command_action p)), (''agent_code'', jopt_str (pp_agent_code p)),
      (''risk_level'', JStr (pp_risk_level p)), (''chip_target'', jopt_str (pp_chip_target p)),
      (''action_id'', jopt_int (pp_action_id p)), (''wake_action'', jopt_str (pp_wake_action p))]"

fun raw_text :: "rval \<Rightarrow> string" where
  "raw_text (RPayload p) = json_dumps (payload_json p)"
| "raw_text (RText s) = s"

record hitl_config =
  pubsub_mode :: bool
  pending_ttl_sec :: int
  args_max_bytes :: int

definition validate_args_size :: "hitl_config \<Rightarrow> json \<Rightarrow> unit res" where
  "validate_args_size cfg args =
     guardE (int (length (json_dumps args)) \<le> args_max_bytes cfg) (BusinessRule ''AI_HITL_ARGS_TOO_LARGE'')"

definition redis_key_for_id :: "int \<Rightarrow> string \<Rightarrow> string" where
  "redis_key_for_id t cid = ''ai:confirm:tenant:'' @ show_int t @ '':'' @ cid"

definition wake_state_key_for_id :: "int \<Rightarrow> string \<Rightarrow> string" where
  "wake_state_key_for_id t cid = ''ai:hitl:wake-state:v1:tenant:'' @ show_int t @ '':'' @ cid"

definition wake_channel :: "int \<Rightarrow> string \<Rightarrow> string" where
  "wake_channel t cid = ''ai:hitl:wake:tenant:'' @ show_int t @ '':'' @ cid"

section \<open>The Lua scripts\<close>

definition create_pending_lua :: "store \<Rightarrow> int \<Rightarrow> string \<Rightarrow> string \<Rightarrow> rval \<Rightarrow> int \<Rightarrow> bool \<times> store" where
  "create_pending_lua st now key wkey body ttl_sec =
     (if r_get st now key \<noteq> None then (False, st)
      else (True, r_set (r_del st wkey) key body (now + 1000 * ttl_sec)))"

definition lua_space :: "char \<Rightarrow> bool" where
  "lua_space c \<longleftrightarrow> (of_char c :: nat) \<in> {9, 10, 11, 12, 13, 32}"

text \<open>\<open>string.find(payload, '"wake_action"%s*:%s*"a"')\<close>.\<close>

fun lua_colon_value :: "string \<Rightarrow> string \<Rightarrow> bool" where
  "lua_colon_value val [] = False"
| "lua_colon_value val (c # s) =
     (if lua_space c then lua_colon_value val s
      else c = CHR '':'' \<and> prefix val (dropWhile lua_space s))"

fun lua_find :: "string \<Rightarrow> string \<Rightarrow> string \<Rightarrow> bool" where
  "lua_find key val [] = False"
| "lua_find key val (c # s) =
     ((if prefix key (c # s) then lua_colon_value val (drop (length key) (c # s)) else False)
      \<or> lua_find key val s)"

definition lua_find_wake :: "string \<Rightarrow> string \<Rightarrow> bool" where
  "lua_find_wake a text = lua_find (dump_str ''wake_action'') (dump_str a) text"

datatype claim = NoPending | AlreadyResolved | ClaimedReachable | ClaimedUnreachable

fun claim_code :: "claim \<Rightarrow> int" where
  "claim_code NoPending = 0"
| "claim_code AlreadyResolved = 2"
| "claim_code ClaimedReachable = 1"
| "claim_code ClaimedUnreachable = -1"

definition claim_and_publish_lua ::
    "store \<Rightarrow> int \<Rightarrow> string \<Rightarrow> string \<Rightarrow> string \<Rightarrow> nat \<Rightarrow> claim \<times> store" where
  "claim_and_publish_lua st now key wkey action subscribers =
     (case r_get st now key of
        None \<Rightarrow> (NoPending, st)
      | Some body \<Rightarrow>
        let ttl_ms = r_pttl st now key in
        if ttl_ms \<le> 0 then (NoPending, st)
        else if lua_find_wake ''approved'' (raw_text body) \<or> lua_find_wake ''rejected'' (raw_text body)
        then (AlreadyResolved, st)
        else if r_get st now wkey \<noteq> None then (AlreadyResolved, st)
        else (if 0 < subscribers then ClaimedReachable else ClaimedUnreachable,
              r_set st wkey (RText action) (now + ttl_ms)))"

section \<open>The manager\<close>

text \<open>\<open>_pending\<close> maps a key to a reference; \<open>heap\<close> holds the entries, because a hanging coroutine
  keeps its entry after the table forgot it.\<close>

record pending_entry =
  event_set :: bool
  entry_action :: "confirm_action option"
  waiters :: int

record hitl_state =
  redis_store :: store
  clock :: int
  pending_table :: "int \<times> string \<Rightarrow> nat option"
  heap :: "nat \<Rightarrow> pending_entry"
  next_ref :: nat

definition new_entry :: pending_entry where
  "new_entry = \<lparr>event_set = False, entry_action = None, waiters = 0\<rparr>"

definition create_pending ::
    "hitl_config \<Rightarrow> (int \<Rightarrow> string) \<Rightarrow> hitl_state \<Rightarrow> int \<Rightarrow> string \<Rightarrow> pending_payload \<Rightarrow>
     (pending_payload \<times> hitl_state) res" where
  "create_pending cfg format_utc s t cid draft =
     bindE (validate_args_size cfg (pp_args draft)) (\<lambda>_.
       let payload = draft\<lparr>pp_tenant_id := t,
             pp_expires_at := format_utc (clock s + 1000 * pending_ttl_sec cfg),
             pp_action_id := None, pp_wake_action := None\<rparr> in
       if \<not> pubsub_mode cfg \<and> pending_table s (t, cid) \<noteq> None
       then Inl (BusinessRule ''AI_HITL_CONFIRMATION_ID_COLLISION'')
       else case create_pending_lua (redis_store s) (clock s) (redis_key_for_id t cid)
                (wake_state_key_for_id t cid) (RPayload payload) (pending_ttl_sec cfg) of
          (created, st) \<Rightarrow>
            if \<not> created then Inl (BusinessRule ''AI_HITL_CONFIRMATION_ID_COLLISION'')
            else if pubsub_mode cfg then Inr (payload, s\<lparr>redis_store := st\<rparr>)
            else Inr (payload, s\<lparr>redis_store := st,
                   pending_table := (pending_table s)((t, cid) \<mapsto> next_ref s),
                   heap := (heap s)(next_ref s := new_entry), next_ref := Suc (next_ref s)\<rparr>))"

text \<open>Memory mode. \<open>hang_memory_start\<close> runs to the \<open>await\<close>; \<open>hang_memory_resume\<close> is what follows it,
  for each way the wait can end.\<close>

datatype wait_outcome = Woken | WaitCancelled | WaitTimedOut

definition hang_memory_start :: "hitl_state \<Rightarrow> int \<Rightarrow> string \<Rightarrow> (nat \<times> hitl_state) res" where
  "hang_memory_start s t cid = (case pending_table s (t, cid) of
       None \<Rightarrow> Inl (BusinessRule ''AI_HITL_PENDING_NOT_FOUND'')
     | Some i \<Rightarrow> Inr (i, s\<lparr>heap := (heap s)(i := (heap s i)\<lparr>waiters := waiters (heap s i) + 1\<rparr>)\<rparr>))"

definition forget :: "hitl_state \<Rightarrow> int \<Rightarrow> string \<Rightarrow> nat \<Rightarrow> hitl_state" where
  "forget s t cid i =
     (if pending_table s (t, cid) = Some i
      then s\<lparr>pending_table := (pending_table s)((t, cid) := None)\<rparr> else s)"

definition leave :: "hitl_state \<Rightarrow> nat \<Rightarrow> hitl_state" where
  "leave s i = s\<lparr>heap := (heap s)(i := (heap s i)\<lparr>waiters := waiters (heap s i) - 1\<rparr>)\<rparr>"

definition hang_memory_resume ::
    "hitl_state \<Rightarrow> int \<Rightarrow> string \<Rightarrow> nat \<Rightarrow> wait_outcome \<Rightarrow> confirm_action res \<times> hitl_state" where
  "hang_memory_resume s t cid i out = (case out of
       WaitCancelled \<Rightarrow>
         (Inl CancelledError, leave (if waiters (heap s i) = 1 then forget s t cid i else s) i)
     | WaitTimedOut \<Rightarrow> (Inl TimeoutError, leave (forget s t cid i) i)
     | Woken \<Rightarrow>
         (case entry_action (heap s i) of
            None \<Rightarrow> Inl (BusinessRule ''AI_HITL_WAKE_WITHOUT_ACTION'')
          | Some a \<Rightarrow> Inr a, forget (leave s i) t cid i))"

definition wake_memory :: "hitl_state \<Rightarrow> int \<Rightarrow> string \<Rightarrow> confirm_action \<Rightarrow> bool \<times> hitl_state" where
  "wake_memory s t cid a = (case pending_table s (t, cid) of
       None \<Rightarrow> (False, s)
     | Some i \<Rightarrow>
         if entry_action (heap s i) \<noteq> None then (False, s)
         else (True, s\<lparr>heap := (heap s)(i := (heap s i)\<lparr>entry_action := Some a, event_set := True\<rparr>)\<rparr>))"

text \<open>Publish/subscribe mode: the result of the claim, and whether the message was published.\<close>

definition wake_pubsub :: "store \<Rightarrow> int \<Rightarrow> int \<Rightarrow> string \<Rightarrow> confirm_action \<Rightarrow> nat \<Rightarrow> bool \<times> bool \<times> store" where
  "wake_pubsub st now t cid a subscribers =
     (case claim_and_publish_lua st now (redis_key_for_id t cid) (wake_state_key_for_id t cid)
             (action_value a) subscribers of
        (c, st') \<Rightarrow> (claim_code c \<in> {1, 2}, c \<in> {ClaimedReachable, ClaimedUnreachable}, st'))"

section \<open>Queries, binding, deletion\<close>

fun decode_payload :: "rval \<Rightarrow> pending_payload option" where
  "decode_payload (RPayload p) = Some p"
| "decode_payload (RText s) = None"

definition get_pending_for_platform :: "store \<Rightarrow> int \<Rightarrow> int \<Rightarrow> string \<Rightarrow> pending_payload option" where
  "get_pending_for_platform st now t cid =
     (case r_get st now (redis_key_for_id t cid) of
        None \<Rightarrow> None
      | Some body \<Rightarrow> (case decode_payload body of
            None \<Rightarrow> None
          | Some p \<Rightarrow> if pp_tenant_id p = t then Some p else None))"

text \<open>\<open>get_pending\<close> awaits two reads: the payload, and then the wake state. \<open>read_pending\<close> is what it
  does up to the second \<open>await\<close> and \<open>read_wake_action\<close> what follows it.\<close>

definition read_pending :: "store \<Rightarrow> int \<Rightarrow> int \<Rightarrow> string \<Rightarrow> pending_payload option" where
  "read_pending st now t cid =
     (case r_get st now (redis_key_for_id t cid) of
        None \<Rightarrow> None
      | Some body \<Rightarrow> (case decode_payload body of
            None \<Rightarrow> None
          | Some p \<Rightarrow> if pp_tenant_id p \<noteq> t then None else Some p))"

definition read_wake_action ::
    "store \<Rightarrow> int \<Rightarrow> int \<Rightarrow> string \<Rightarrow> pending_payload \<Rightarrow> pending_payload option" where
  "read_wake_action st now t cid p =
     (case r_get st now (wake_state_key_for_id t cid) of
        None \<Rightarrow> Some p
      | Some w \<Rightarrow> if parse_action (raw_text w) = None then None
                 else Some (p\<lparr>pp_wake_action := Some (raw_text w)\<rparr>))"

definition get_pending ::
    "hitl_config \<Rightarrow> store \<Rightarrow> int \<Rightarrow> store \<Rightarrow> int \<Rightarrow> int \<Rightarrow> string \<Rightarrow> pending_payload option" where
  "get_pending cfg st0 n0 st1 n1 t cid =
     (case read_pending st0 n0 t cid of
        None \<Rightarrow> None
      | Some p \<Rightarrow> if pubsub_mode cfg then read_wake_action st1 n1 t cid p else Some p)"

definition pending_ttl :: "store \<Rightarrow> int \<Rightarrow> int \<Rightarrow> string \<Rightarrow> int" where
  "pending_ttl st now t cid = r_ttl st now (redis_key_for_id t cid)"

text \<open>\<open>bind_durable_action\<close> awaits up to four commands; \<open>bind_phase\<close> is the command it awaits next,
  with what it has read, and one application runs that command on the store and at the time of the
  moment. \<open>SET ... XX\<close> writes only an existing key.\<close>

datatype bind_phase = BindPayload | BindWakeState pending_payload | BindTtl pending_payload
  | BindWrite pending_payload int | Bound pending_payload | BindFailed exn

definition bind_durable_action ::
    "hitl_config \<Rightarrow> store \<Rightarrow> int \<Rightarrow> int \<Rightarrow> string \<Rightarrow> int \<Rightarrow> bind_phase \<Rightarrow> bind_phase \<times> store" where
  "bind_durable_action cfg st now t cid action_id ph =
     (let invalid = BindFailed (BusinessRule ''AI_PREPARED_ACTION_BINDING_INVALID'') in
      case ph of
        BindPayload \<Rightarrow>
          (case read_pending st now t cid of
             None \<Rightarrow> invalid
           | Some p \<Rightarrow> if pubsub_mode cfg then BindWakeState p else BindTtl p, st)
      | BindWakeState p \<Rightarrow>
          (case read_wake_action st now t cid p of None \<Rightarrow> invalid | Some q \<Rightarrow> BindTtl q, st)
      | BindTtl p \<Rightarrow>
          (let ttl_sec = r_ttl st now (redis_key_for_id t cid) in
           if ttl_sec \<le> 0 then invalid else BindWrite p ttl_sec, st)
      | BindWrite p ttl_sec \<Rightarrow>
          if r_get st now (redis_key_for_id t cid) = None then (invalid, st)
          else let bound = p\<lparr>pp_action_id := Some action_id\<rparr> in
            (Bound bound, r_set st (redis_key_for_id t cid) (RPayload bound) (now + 1000 * ttl_sec))
      | Bound p \<Rightarrow> (ph, st)
      | BindFailed e \<Rightarrow> (ph, st))"

definition delete_pending :: "store \<Rightarrow> int \<Rightarrow> string \<Rightarrow> store" where
  "delete_pending st t cid = r_del (r_del st (redis_key_for_id t cid)) (wake_state_key_for_id t cid)"

section \<open>Startup cleanup\<close>

text \<open>\<open>key.rsplit(":", 1)[-1]\<close> and \<open>int(key.rsplit(":", 2)[-2])\<close>.\<close>

definition parse_pending_key :: "string \<Rightarrow> (int \<times> string) option" where
  "parse_pending_key key =
     (case rev (split_on CHR '':'' key) of
        cid # ten # _ \<Rightarrow> (case py_int ten of Inl _ \<Rightarrow> None | Inr t \<Rightarrow> if t < 0 then None else Some (t, cid))
      | _ \<Rightarrow> None)"

definition cleanup_commands :: "string \<Rightarrow> string list" where
  "cleanup_commands key =
     key # (case parse_pending_key key of None \<Rightarrow> [] | Some (t, cid) \<Rightarrow> [wake_state_key_for_id t cid])"

text \<open>\<open>keys\<close> are the keys the scan returns; with a fault, Redis fails at that command.\<close>

definition cleanup_pending_on_startup :: "store \<Rightarrow> string list \<Rightarrow> nat option \<Rightarrow> nat \<times> store" where
  "cleanup_pending_on_startup st keys fault =
     (let matched = filter (prefix ''ai:confirm:tenant:'') keys;
          commands = concat (map cleanup_commands matched)
      in case fault of
           None \<Rightarrow> (length matched, foldl r_del st commands)
         | Some n \<Rightarrow> if n < length commands then (0, foldl r_del st (take n commands))
                    else (length matched, foldl r_del st commands))"

definition has_pending :: "hitl_state \<Rightarrow> int \<Rightarrow> string \<Rightarrow> bool" where
  "has_pending s t cid = (pending_table s (t, cid) \<noteq> None)"

end
