(* ===== verification/Hitl_Protocol.thy ===== *)
theory Hitl_Protocol
  imports Hitl
begin

text \<open>
  The publish/subscribe mode of the HITL manager as a step relation: wakers on any worker, any
  number of hanging coroutines and binding tasks, the clock, creation and deletion interleave
  freely. A Lua script is one step, and so is every single Redis command: the two reads of
  \<open>get_pending\<close> are two steps of the coroutine that awaits them, and \<open>bind_durable_action\<close> takes
  four. Confirmation ids are generated afresh, and a confirmation is exposed to a user only when no
  task is binding it, so no waker knows the id before.
\<close>

section \<open>Hanging coroutines\<close>

text \<open>\<open>Checking p\<close> has read the payload and awaits the wake state. Two marks are history, which no
  code reads: \<open>Listening live deadline\<close> tells whether the payload was still in Redis at the second
  read, and \<open>h_late\<close> whether a decision had been claimed before the subscription.\<close>

datatype phase = Subscribed | Checking pending_payload | Listening bool int | Returned confirm_action | Raised exn

record hanger =
  h_tenant :: int
  h_cid :: string
  h_phase :: phase
  h_inbox :: "string list"
  h_late :: bool

fun subscribed :: "phase \<Rightarrow> bool" where
  "subscribed Subscribed = True"
| "subscribed (Checking _) = True"
| "subscribed (Listening _ _) = True"
| "subscribed _ = False"

definition conclude :: "string \<Rightarrow> phase" where
  "conclude text = (case parse_action text of Some a \<Rightarrow> Returned a | None \<Rightarrow> Raised ValueError)"

text \<open>The check that follows the subscription: what it does with the outcome of \<open>get_pending\<close>, and
  its two reads.\<close>

definition checked :: "bool \<Rightarrow> int \<Rightarrow> pending_payload option \<Rightarrow> phase" where
  "checked live deadline pending = (case pending of
       None \<Rightarrow> Listening live deadline
     | Some p \<Rightarrow> (case pp_wake_action p of Some w \<Rightarrow> conclude w | None \<Rightarrow> Listening live deadline))"

definition hang_pubsub_check :: "hitl_config \<Rightarrow> store \<Rightarrow> int \<Rightarrow> int \<Rightarrow> hanger \<Rightarrow> hanger" where
  "hang_pubsub_check cfg st now timeout_sec h =
     (case read_pending st now (h_tenant h) (h_cid h) of
        None \<Rightarrow> h\<lparr>h_phase := checked False (now + 1000 * timeout_sec) None\<rparr>
      | Some p \<Rightarrow> h\<lparr>h_phase := if pubsub_mode cfg then Checking p
          else checked True (now + 1000 * timeout_sec) (Some p)\<rparr>)"

definition hang_pubsub_check_wake :: "store \<Rightarrow> int \<Rightarrow> int \<Rightarrow> pending_payload \<Rightarrow> hanger \<Rightarrow> hanger" where
  "hang_pubsub_check_wake st now timeout_sec p h = h\<lparr>h_phase :=
     checked (r_get st now (redis_key_for_id (h_tenant h) (h_cid h)) \<noteq> None) (now + 1000 * timeout_sec)
       (read_wake_action st now (h_tenant h) (h_cid h) p)\<rparr>"

definition hang_pubsub_message :: "hanger \<Rightarrow> hanger" where
  "hang_pubsub_message h = (case h_inbox h of [] \<Rightarrow> h | m # ms \<Rightarrow> h\<lparr>h_phase := conclude m, h_inbox := ms\<rparr>)"

text \<open>Redis hands a published message to every subscriber of the channel.\<close>

definition hears :: "int \<Rightarrow> string \<Rightarrow> hanger \<Rightarrow> bool" where
  "hears t cid h \<longleftrightarrow> subscribed (h_phase h) \<and> wake_channel (h_tenant h) (h_cid h) = wake_channel t cid"

definition publish :: "int \<Rightarrow> string \<Rightarrow> confirm_action \<Rightarrow> hanger list \<Rightarrow> hanger list" where
  "publish t cid a hs =
     map (\<lambda>h. if hears t cid h then h\<lparr>h_inbox := h_inbox h @ [action_value a]\<rparr> else h) hs"

section \<open>Binding tasks\<close>

record bind_task =
  b_tenant :: int
  b_cid :: string
  b_action :: int
  b_phase :: bind_phase

fun binding :: "bind_phase \<Rightarrow> bool" where
  "binding (Bound _) = False"
| "binding (BindFailed _) = False"
| "binding _ = True"

definition advance_bind :: "hitl_config \<Rightarrow> store \<Rightarrow> int \<Rightarrow> bind_task \<Rightarrow> bind_task \<times> store" where
  "advance_bind cfg st now b =
     (case bind_durable_action cfg st now (b_tenant b) (b_cid b) (b_action b) (b_phase b) of
        (ph, st') \<Rightarrow> (b\<lparr>b_phase := ph\<rparr>, st'))"

section \<open>The system\<close>

text \<open>\<open>ps_created\<close>, \<open>ps_exposed\<close> and \<open>ps_claimed\<close> are history: the ids generated, those shown to a
  user, and the decision whose claim the Lua script accepted.\<close>

record psys =
  ps_store :: store
  ps_now :: int
  ps_hangers :: "hanger list"
  ps_binds :: "bind_task list"
  ps_created :: "(int \<times> string) set"
  ps_exposed :: "(int \<times> string) set"
  ps_claimed :: "int \<times> string \<Rightarrow> confirm_action option"

definition wake_step :: "psys \<Rightarrow> int \<Rightarrow> string \<Rightarrow> confirm_action \<Rightarrow> psys" where
  "wake_step s t cid a =
     (case wake_pubsub (ps_store s) (ps_now s) t cid a (length (filter (hears t cid) (ps_hangers s))) of
        (reachable, published, st) \<Rightarrow>
          if published
          then s\<lparr>ps_store := st, ps_hangers := publish t cid a (ps_hangers s),
                 ps_claimed := (ps_claimed s)((t, cid) \<mapsto> a)\<rparr>
          else s\<lparr>ps_store := st\<rparr>)"

inductive hitl_step :: "hitl_config \<Rightarrow> psys \<Rightarrow> psys \<Rightarrow> bool" for cfg where
  tick: "ps_now s \<le> n \<Longrightarrow> hitl_step cfg s (s\<lparr>ps_now := n\<rparr>)"
| create: "(t, cid) \<notin> ps_created s \<Longrightarrow> pp_tenant_id p = t \<Longrightarrow> pp_wake_action p = None \<Longrightarrow>
    create_pending_lua (ps_store s) (ps_now s) (redis_key_for_id t cid) (wake_state_key_for_id t cid)
      (RPayload p) (pending_ttl_sec cfg) = (True, st) \<Longrightarrow>
    hitl_step cfg s (s\<lparr>ps_store := st, ps_created := insert (t, cid) (ps_created s)\<rparr>)"
| bind_start: "(t, cid) \<in> ps_created s \<Longrightarrow> (t, cid) \<notin> ps_exposed s \<Longrightarrow>
    hitl_step cfg s (s\<lparr>ps_binds := ps_binds s @
      [\<lparr>b_tenant = t, b_cid = cid, b_action = action_id, b_phase = BindPayload\<rparr>]\<rparr>)"
| bind: "j < length (ps_binds s) \<Longrightarrow>
    advance_bind cfg (ps_store s) (ps_now s) (ps_binds s ! j) = (b, st) \<Longrightarrow>
    hitl_step cfg s (s\<lparr>ps_store := st, ps_binds := (ps_binds s)[j := b]\<rparr>)"
| expose: "(t, cid) \<in> ps_created s \<Longrightarrow>
    \<forall>b \<in> set (ps_binds s). (b_tenant b, b_cid b) = (t, cid) \<longrightarrow> \<not> binding (b_phase b) \<Longrightarrow>
    hitl_step cfg s (s\<lparr>ps_exposed := insert (t, cid) (ps_exposed s)\<rparr>)"
| wake: "(t, cid) \<in> ps_exposed s \<Longrightarrow> hitl_step cfg s (wake_step s t cid a)"
| subscribe: "hitl_step cfg s (s\<lparr>ps_hangers := ps_hangers s @
      [\<lparr>h_tenant = t, h_cid = cid, h_phase = Subscribed, h_inbox = [],
        h_late = (ps_claimed s (t, cid) \<noteq> None)\<rparr>]\<rparr>)"
| check: "i < length (ps_hangers s) \<Longrightarrow> h_phase (ps_hangers s ! i) = Subscribed \<Longrightarrow>
    hitl_step cfg s (s\<lparr>ps_hangers := (ps_hangers s)
      [i := hang_pubsub_check cfg (ps_store s) (ps_now s) timeout_sec (ps_hangers s ! i)]\<rparr>)"
| check_wake: "i < length (ps_hangers s) \<Longrightarrow> h_phase (ps_hangers s ! i) = Checking p \<Longrightarrow>
    hitl_step cfg s (s\<lparr>ps_hangers := (ps_hangers s)
      [i := hang_pubsub_check_wake (ps_store s) (ps_now s) timeout_sec p (ps_hangers s ! i)]\<rparr>)"
| receive: "i < length (ps_hangers s) \<Longrightarrow> h_phase (ps_hangers s ! i) = Listening live d \<Longrightarrow>
    hitl_step cfg s (s\<lparr>ps_hangers := (ps_hangers s)[i := hang_pubsub_message (ps_hangers s ! i)]\<rparr>)"
| timeout: "i < length (ps_hangers s) \<Longrightarrow> h_phase (ps_hangers s ! i) = Listening live d \<Longrightarrow> d \<le> ps_now s \<Longrightarrow>
    hitl_step cfg s (s\<lparr>ps_hangers := (ps_hangers s)[i := (ps_hangers s ! i)\<lparr>h_phase := Raised TimeoutError\<rparr>]\<rparr>)"
| cancel: "i < length (ps_hangers s) \<Longrightarrow> subscribed (h_phase (ps_hangers s ! i)) \<Longrightarrow>
    hitl_step cfg s (s\<lparr>ps_hangers := (ps_hangers s)[i := (ps_hangers s ! i)\<lparr>h_phase := Raised CancelledError\<rparr>]\<rparr>)"
| delete: "hitl_step cfg s (s\<lparr>ps_store := delete_pending (ps_store s) t cid\<rparr>)"

definition hitl_start :: psys where
  "hitl_start = \<lparr>ps_store = (\<lambda>_. None), ps_now = 0, ps_hangers = [], ps_binds = [], ps_created = {}, ps_exposed = {},
     ps_claimed = (\<lambda>_. None)\<rparr>"

inductive hitl_reach :: "hitl_config \<Rightarrow> psys \<Rightarrow> bool" for cfg where
  reach_start: "hitl_reach cfg hitl_start"
| reach_step: "hitl_reach cfg s \<Longrightarrow> hitl_step cfg s s' \<Longrightarrow> hitl_reach cfg s'"

section \<open>Keys\<close>

lemma suffix_after_colon:
  assumes "a @ CHR '':'' # b = a' @ CHR '':'' # b'" "CHR '':'' \<notin> set a" "CHR '':'' \<notin> set a'"
  shows "a = a' \<and> b = b'"
  using assms
proof (induction a arbitrary: a')
  case Nil
  then show ?case by (cases a') auto
next
  case (Cons x a)
  then show ?case by (cases a') auto
qed

lemma redis_key_inj [simp]: "redis_key_for_id t c = redis_key_for_id t' c' \<longleftrightarrow> t = t' \<and> c = c'"
  using suffix_after_colon[of "show_int t" c "show_int t'" c'] show_int_no_special(5)
  by (auto simp: redis_key_for_id_def)

lemma wake_key_inj [simp]: "wake_state_key_for_id t c = wake_state_key_for_id t' c' \<longleftrightarrow> t = t' \<and> c = c'"
  using suffix_after_colon[of "show_int t" c "show_int t'" c'] show_int_no_special(5)
  by (auto simp: wake_state_key_for_id_def)

lemma channel_inj [simp]: "wake_channel t c = wake_channel t' c' \<longleftrightarrow> t = t' \<and> c = c'"
  using suffix_after_colon[of "show_int t" c "show_int t'" c'] show_int_no_special(5)
  by (auto simp: wake_channel_def)

lemma keys_disjoint [simp]:
  "redis_key_for_id t c \<noteq> wake_state_key_for_id t' c'" "wake_state_key_for_id t' c' \<noteq> redis_key_for_id t c"
  by (simp_all add: redis_key_for_id_def wake_state_key_for_id_def)

lemma parse_action_value [simp]: "parse_action (action_value a) = Some a"
  by (cases a) (simp_all add: parse_action_def)

lemma action_value_inj [simp]: "action_value a = action_value b \<longleftrightarrow> a = b"
  by (cases a; cases b) simp_all

lemma conclude_action [simp]: "conclude (action_value a) = Returned a"
  by (simp add: conclude_def)

section \<open>The invariant\<close>

definition hanger_inv :: "psys \<Rightarrow> hanger \<Rightarrow> bool" where
  "hanger_inv s h \<longleftrightarrow>
     (\<forall>m \<in> set (h_inbox h). \<exists>a. m = action_value a \<and> ps_claimed s (h_tenant h, h_cid h) = Some a) \<and>
     (\<forall>a. h_phase h = Returned a \<longrightarrow> ps_claimed s (h_tenant h, h_cid h) = Some a) \<and>
     (\<forall>p. h_phase h = Checking p \<longrightarrow> pp_wake_action p = None) \<and>
     (\<forall>d a. h_phase h = Listening True d \<longrightarrow> ps_claimed s (h_tenant h, h_cid h) = Some a \<longrightarrow> h_inbox h \<noteq> []) \<and>
     (\<forall>a. subscribed (h_phase h) \<longrightarrow> \<not> h_late h \<longrightarrow> ps_claimed s (h_tenant h, h_cid h) = Some a \<longrightarrow> h_inbox h \<noteq> [])"

text \<open>The payload a binding task carries.\<close>

fun bind_carries :: "bind_phase \<Rightarrow> pending_payload set" where
  "bind_carries (BindWakeState p) = {p}"
| "bind_carries (BindTtl p) = {p}"
| "bind_carries (BindWrite p n) = {p}"
| "bind_carries _ = {}"

definition bind_inv :: "psys \<Rightarrow> bind_task \<Rightarrow> bool" where
  "bind_inv s b \<longleftrightarrow>
     (binding (b_phase b) \<longrightarrow> (b_tenant b, b_cid b) \<in> ps_created s \<and> (b_tenant b, b_cid b) \<notin> ps_exposed s) \<and>
     (\<forall>p \<in> bind_carries (b_phase b). pp_tenant_id p = b_tenant b \<and> pp_wake_action p = None)"

definition store_inv :: "psys \<Rightarrow> bool" where
  "store_inv s \<longleftrightarrow>
     (\<forall>t c v e. ps_store s (redis_key_for_id t c) = Some (v, e) \<longrightarrow>
        (t, c) \<in> ps_created s \<and> (\<exists>p. v = RPayload p \<and> pp_tenant_id p = t \<and> pp_wake_action p = None)) \<and>
     (\<forall>t c v e. ps_store s (wake_state_key_for_id t c) = Some (v, e) \<longrightarrow>
        (\<exists>a. v = RText (action_value a) \<and> ps_claimed s (t, c) = Some a)) \<and>
     (\<forall>t c a v e. ps_claimed s (t, c) = Some a \<longrightarrow> ps_store s (redis_key_for_id t c) = Some (v, e) \<longrightarrow>
        (\<exists>e'. e \<le> e' \<and> ps_store s (wake_state_key_for_id t c) = Some (RText (action_value a), e'))) \<and>
     (\<forall>k a. ps_claimed s k = Some a \<longrightarrow> k \<in> ps_created s \<and> k \<in> ps_exposed s)"

definition hitl_inv :: "psys \<Rightarrow> bool" where
  "hitl_inv s \<longleftrightarrow> store_inv s \<and> (\<forall>h \<in> set (ps_hangers s). hanger_inv s h) \<and>
     (\<forall>b \<in> set (ps_binds s). bind_inv s b)"

lemma store_invD:
  assumes "store_inv s"
  shows "ps_store s (redis_key_for_id t c) = Some (v, e) \<Longrightarrow>
      (t, c) \<in> ps_created s \<and> (\<exists>p. v = RPayload p \<and> pp_tenant_id p = t \<and> pp_wake_action p = None)"
    "ps_store s (wake_state_key_for_id t c) = Some (v, e) \<Longrightarrow>
      \<exists>a. v = RText (action_value a) \<and> ps_claimed s (t, c) = Some a"
    "ps_claimed s (t, c) = Some a \<Longrightarrow> ps_store s (redis_key_for_id t c) = Some (v, e) \<Longrightarrow>
      \<exists>e'. e \<le> e' \<and> ps_store s (wake_state_key_for_id t c) = Some (RText (action_value a), e')"
    "ps_claimed s k = Some a \<Longrightarrow> k \<in> ps_created s \<and> k \<in> ps_exposed s"
  using assms unfolding store_inv_def by blast+

lemma r_get_Some: "r_get st now k = Some v \<longleftrightarrow> (\<exists>e. st k = Some (v, e) \<and> now < e)"
  by (auto simp: r_get_def split: option.splits if_splits)

text \<open>What a live pending key means for a read.\<close>

lemma read_pending_inv:
  assumes "store_inv s" "read_pending (ps_store s) (ps_now s) t c = Some p"
  shows "pp_tenant_id p = t" "pp_wake_action p = None"
proof -
  from assms(2) obtain v e where "ps_store s (redis_key_for_id t c) = Some (v, e)" "decode_payload v = Some p"
    "pp_tenant_id p = t"
    by (auto simp: read_pending_def r_get_Some split: option.splits if_splits)
  with store_invD(1)[OF assms(1), of t c] show "pp_tenant_id p = t" "pp_wake_action p = None" by fastforce+
qed

lemma wake_state_inv:
  assumes "store_inv s" "r_get (ps_store s) (ps_now s) (wake_state_key_for_id t c) = Some w"
  shows "\<exists>a. w = RText (action_value a) \<and> ps_claimed s (t, c) = Some a"
  using assms store_invD(2)[OF assms(1), of t c] by (auto simp: r_get_Some)

text \<open>While the payload is in Redis, so is the wake state of a claimed decision.\<close>

lemma live_wake_state:
  assumes "store_inv s" "r_get (ps_store s) (ps_now s) (redis_key_for_id t c) \<noteq> None" "ps_claimed s (t, c) = Some a"
  shows "r_get (ps_store s) (ps_now s) (wake_state_key_for_id t c) = Some (RText (action_value a))"
proof -
  from assms(2) obtain v e where v: "ps_store s (redis_key_for_id t c) = Some (v, e)" "ps_now s < e"
    by (auto simp: r_get_Some)
  from store_invD(3)[OF assms(1,3) v(1)] v(2) show ?thesis by (auto simp: r_get_Some)
qed

lemma claim_cases:
  assumes "wake_pubsub st now t c a n = (r, True, st')"
  shows "st' = r_set st (wake_state_key_for_id t c) (RText (action_value a))
      (now + r_pttl st now (redis_key_for_id t c))"
    "r_get st now (redis_key_for_id t c) \<noteq> None" "r_get st now (wake_state_key_for_id t c) = None"
  using assms by (auto simp: wake_pubsub_def claim_and_publish_lua_def Let_def split: option.splits if_splits)

lemma unclaimed_same_store:
  assumes "wake_pubsub st now t c a n = (r, False, st')"
  shows "st' = st"
  using assms by (auto simp: wake_pubsub_def claim_and_publish_lua_def Let_def split: option.splits if_splits)

lemma claim_fresh:
  assumes "store_inv s" "wake_pubsub (ps_store s) (ps_now s) t c a n = (r, True, st')"
  shows "ps_claimed s (t, c) = None"
proof (rule ccontr)
  assume "ps_claimed s (t, c) \<noteq> None"
  then obtain b where b: "ps_claimed s (t, c) = Some b" by blast
  from claim_cases(2)[OF assms(2)] obtain v e where
    v: "ps_store s (redis_key_for_id t c) = Some (v, e)" "ps_now s < e" by (auto simp: r_get_Some)
  from store_invD(3)[OF assms(1) b v(1)] v(2) claim_cases(3)[OF assms(2)]
  show False by (auto simp: r_get_def)
qed

lemma hanger_inv_cong:
  assumes "ps_claimed s' (h_tenant h, h_cid h) = ps_claimed s (h_tenant h, h_cid h)"
  shows "hanger_inv s' h \<longleftrightarrow> hanger_inv s h"
  using assms by (simp add: hanger_inv_def)

lemma hangers_update:
  assumes "\<forall>h \<in> set (ps_hangers s). hanger_inv s h" "hanger_inv s h'"
    and "i < length (ps_hangers s)"
  shows "\<forall>h \<in> set ((ps_hangers s)[i := h']). hanger_inv s h"
  using assms set_update_subset_insert[of "ps_hangers s" i h'] by blast

section \<open>Every step keeps the invariant\<close>

lemma store_inv_cong:
  assumes "store_inv s" "ps_store s' = ps_store s" "ps_claimed s' = ps_claimed s" "ps_created s' = ps_created s"
    "ps_exposed s \<subseteq> ps_exposed s'"
  shows "store_inv s'"
  using assms unfolding store_inv_def by auto

lemma create_store_inv:
  assumes inv: "store_inv s" and fresh: "(t, cid) \<notin> ps_created s"
    and p: "pp_tenant_id p = t" "pp_wake_action p = None"
    and lua: "create_pending_lua (ps_store s) (ps_now s) (redis_key_for_id t cid) (wake_state_key_for_id t cid)
      (RPayload p) n = (True, st)"
  shows "store_inv (s\<lparr>ps_store := st, ps_created := insert (t, cid) (ps_created s)\<rparr>)"
proof -
  have st: "st = r_set (r_del (ps_store s) (wake_state_key_for_id t cid)) (redis_key_for_id t cid)
      (RPayload p) (ps_now s + 1000 * n)"
    using lua by (auto simp: create_pending_lua_def split: if_splits)
  have none: "ps_claimed s (t, cid) = None" using store_invD(4)[OF inv] fresh by (cases "ps_claimed s (t, cid)") auto
  show ?thesis
    unfolding store_inv_def st r_set_def r_del_def
    using store_invD[OF inv] p none by auto
qed

lemma bind_store_inv:
  assumes inv: "store_inv s" and b: "bind_inv s b"
    and step: "advance_bind cfg (ps_store s) (ps_now s) b = (b', st)"
  shows "store_inv (s\<lparr>ps_store := st\<rparr>)"
proof (cases "\<exists>p n. b_phase b = BindWrite p n")
  case True
  then obtain p n where ph: "b_phase b = BindWrite p n" by blast
  have k: "(b_tenant b, b_cid b) \<in> ps_created s" "(b_tenant b, b_cid b) \<notin> ps_exposed s"
    and p: "pp_tenant_id p = b_tenant b" "pp_wake_action p = None"
    using b by (auto simp: bind_inv_def ph)
  have none: "ps_claimed s (b_tenant b, b_cid b) = None"
    using store_invD(4)[OF inv] k(2) by (cases "ps_claimed s (b_tenant b, b_cid b)") auto
  from step have "st = ps_store s \<or> st = r_set (ps_store s) (redis_key_for_id (b_tenant b) (b_cid b))
      (RPayload (p\<lparr>pp_action_id := Some (b_action b)\<rparr>)) (ps_now s + 1000 * n)"
    by (auto simp: advance_bind_def bind_durable_action_def ph Let_def split: if_splits)
  then show ?thesis
  proof
    assume "st = ps_store s"
    then show ?thesis using inv by simp
  next
    assume st: "st = r_set (ps_store s) (redis_key_for_id (b_tenant b) (b_cid b))
      (RPayload (p\<lparr>pp_action_id := Some (b_action b)\<rparr>)) (ps_now s + 1000 * n)"
    show ?thesis unfolding store_inv_def st r_set_def using store_invD[OF inv] none k(1) p by auto
  qed
next
  case False
  with step have "st = ps_store s"
    by (cases "b_phase b") (auto simp: advance_bind_def bind_durable_action_def)
  then show ?thesis using inv by simp
qed

text \<open>The wake state read while a confirmation is bound is empty: nobody knows its id yet.\<close>

lemma advance_bind_inv:
  assumes inv: "store_inv s" and b: "bind_inv s b"
    and step: "advance_bind cfg (ps_store s) (ps_now s) b = (b', st)"
  shows "bind_inv s b'"
proof (cases "b_phase b")
  case BindPayload
  with b step read_pending_inv[OF inv] show ?thesis
    by (auto simp: bind_inv_def advance_bind_def bind_durable_action_def split: option.splits if_splits)
next
  case (BindWakeState p)
  have "ps_claimed s (b_tenant b, b_cid b) = None"
    using store_invD(4)[OF inv] b BindWakeState by (cases "ps_claimed s (b_tenant b, b_cid b)") (auto simp: bind_inv_def)
  with wake_state_inv[OF inv] have "r_get (ps_store s) (ps_now s) (wake_state_key_for_id (b_tenant b) (b_cid b)) = None"
    by (cases "r_get (ps_store s) (ps_now s) (wake_state_key_for_id (b_tenant b) (b_cid b))") fastforce+
  with BindWakeState b step show ?thesis
    by (auto simp: bind_inv_def advance_bind_def bind_durable_action_def read_wake_action_def)
qed (use b step in \<open>auto simp: bind_inv_def advance_bind_def bind_durable_action_def Let_def split: if_splits\<close>)

lemma bind_inv_cong:
  assumes "ps_created s \<subseteq> ps_created s'" "ps_exposed s' = ps_exposed s" "bind_inv s b"
  shows "bind_inv s' b"
  using assms by (auto simp: bind_inv_def)

lemma binds_update:
  assumes "\<forall>b \<in> set (ps_binds s). bind_inv s b" "bind_inv s b'" "j < length (ps_binds s)"
  shows "\<forall>b \<in> set ((ps_binds s)[j := b']). bind_inv s b"
  using assms set_update_subset_insert[of "ps_binds s" j b'] by blast

lemma wake_step_unpublished:
  assumes "wake_pubsub (ps_store s) (ps_now s) t cid a (length (filter (hears t cid) (ps_hangers s))) = (r, False, st)"
  shows "wake_step s t cid a = s"
  using assms unclaimed_same_store[OF assms] by (simp add: wake_step_def)

lemma wake_step_published:
  assumes "wake_pubsub (ps_store s) (ps_now s) t cid a (length (filter (hears t cid) (ps_hangers s))) = (r, True, st)"
  shows "wake_step s t cid a = s\<lparr>ps_store := st, ps_hangers := publish t cid a (ps_hangers s),
                 ps_claimed := (ps_claimed s)((t, cid) \<mapsto> a)\<rparr>"
  using assms by (simp add: wake_step_def)

lemma wake_store_inv:
  assumes inv: "store_inv s" and exposed: "(t, cid) \<in> ps_exposed s"
    and w: "wake_pubsub (ps_store s) (ps_now s) t cid a n = (r, True, st)"
  shows "store_inv (s\<lparr>ps_store := st, ps_hangers := hs, ps_claimed := (ps_claimed s)((t, cid) \<mapsto> a)\<rparr>)"
proof -
  note c = claim_cases[OF w]
  from c(2) obtain v e where v: "ps_store s (redis_key_for_id t cid) = Some (v, e)" "ps_now s < e"
    by (auto simp: r_get_Some)
  have ttl: "ps_now s + r_pttl (ps_store s) (ps_now s) (redis_key_for_id t cid) = e"
    using v by (simp add: r_pttl_def)
  have "(t, cid) \<in> ps_created s" using store_invD(1)[OF inv v(1)] by blast
  then show ?thesis
    unfolding store_inv_def c(1) ttl r_set_def
    using store_invD[OF inv] v exposed by (auto split: if_splits)
qed

lemma delete_store_inv: "store_inv s \<Longrightarrow> store_inv (s\<lparr>ps_store := delete_pending (ps_store s) t cid\<rparr>)"
  unfolding store_inv_def delete_pending_def r_del_def by (auto split: if_splits)

lemma hanger_inv_publish:
  assumes "hanger_inv s h" and "ps_claimed s (t, cid) = None"
  shows "hanger_inv (s\<lparr>ps_store := st, ps_hangers := hs, ps_claimed := (ps_claimed s)((t, cid) \<mapsto> a)\<rparr>)
    (if hears t cid h then h\<lparr>h_inbox := h_inbox h @ [action_value a]\<rparr> else h)"
proof (cases "(h_tenant h, h_cid h) = (t, cid)")
  case True
  with assms have "h_inbox h = []" "\<And>b. h_phase h \<noteq> Returned b" "\<And>p. h_phase h = Checking p \<Longrightarrow> pp_wake_action p = None"
    by (auto simp: hanger_inv_def)
  with True show ?thesis by (auto simp: hanger_inv_def hears_def)
next
  case False
  then have "\<not> hears t cid h" by (auto simp: hears_def)
  with False assms(1) show ?thesis by (auto simp: hanger_inv_def)
qed

lemma check_hanger_inv:
  assumes inv: "store_inv s" and h: "hanger_inv s h" "h_phase h = Subscribed" and mode: "pubsub_mode cfg"
  shows "hanger_inv s (hang_pubsub_check cfg (ps_store s) (ps_now s) timeout_sec h)"
  using h mode read_pending_inv(2)[OF inv]
  by (auto simp: hang_pubsub_check_def hanger_inv_def checked_def split: option.splits)

lemma check_wake_hanger_inv:
  assumes inv: "store_inv s" and h: "hanger_inv s h" "h_phase h = Checking p"
  shows "hanger_inv s (hang_pubsub_check_wake (ps_store s) (ps_now s) timeout_sec p h)"
proof (cases "r_get (ps_store s) (ps_now s) (wake_state_key_for_id (h_tenant h) (h_cid h))")
  case None
  have p: "pp_wake_action p = None" using h by (simp add: hanger_inv_def)
  have "ps_claimed s (h_tenant h, h_cid h) = None"
    if "r_get (ps_store s) (ps_now s) (redis_key_for_id (h_tenant h) (h_cid h)) \<noteq> None"
    using live_wake_state[OF inv that] None by (cases "ps_claimed s (h_tenant h, h_cid h)") auto
  with h None p show ?thesis
    by (auto simp: hanger_inv_def hang_pubsub_check_wake_def read_wake_action_def checked_def)
next
  case (Some w)
  with wake_state_inv[OF inv] obtain a where
    a: "w = RText (action_value a)" "ps_claimed s (h_tenant h, h_cid h) = Some a" by blast
  then have "h_phase (hang_pubsub_check_wake (ps_store s) (ps_now s) timeout_sec p h) = Returned a"
    using Some by (simp add: hang_pubsub_check_wake_def read_wake_action_def checked_def)
  with h(1) a(2) show ?thesis by (auto simp: hanger_inv_def hang_pubsub_check_wake_def)
qed

lemma message_hanger_inv:
  assumes "hanger_inv s h" "h_phase h = Listening live d"
  shows "hanger_inv s (hang_pubsub_message h)"
proof (cases "h_inbox h")
  case Nil
  then show ?thesis using assms by (simp add: hang_pubsub_message_def)
next
  case (Cons m ms)
  with assms obtain a where "m = action_value a" "ps_claimed s (h_tenant h, h_cid h) = Some a"
    by (auto simp: hanger_inv_def)
  with Cons assms show ?thesis by (auto simp: hang_pubsub_message_def hanger_inv_def)
qed

lemma stopped_hanger_inv:
  "hanger_inv s h \<Longrightarrow> hanger_inv s (h\<lparr>h_phase := Raised e\<rparr>)"
  by (simp add: hanger_inv_def)

lemma hitl_invD:
  assumes "hitl_inv s"
  shows "store_inv s" "h \<in> set (ps_hangers s) \<Longrightarrow> hanger_inv s h" "b \<in> set (ps_binds s) \<Longrightarrow> bind_inv s b"
  using assms by (auto simp: hitl_inv_def)

text \<open>A step that only replaces one coroutine.\<close>

lemma hitl_inv_hanger:
  assumes "hitl_inv s" "hanger_inv s h'" "i < length (ps_hangers s)"
  shows "hitl_inv (s\<lparr>ps_hangers := (ps_hangers s)[i := h']\<rparr>)"
proof -
  have "\<forall>h \<in> set ((ps_hangers s)[i := h']). hanger_inv s h"
    using assms hitl_invD(2)[OF assms(1)] by (intro hangers_update) auto
  moreover have "store_inv (s\<lparr>ps_hangers := (ps_hangers s)[i := h']\<rparr>)"
    by (rule store_inv_cong[OF hitl_invD(1)[OF assms(1)]]) simp_all
  ultimately show ?thesis
    using hitl_invD(3)[OF assms(1)] by (auto simp: hitl_inv_def hanger_inv_def bind_inv_def)
qed

lemma wake_step_inv:
  assumes "hitl_inv s" "(t, cid) \<in> ps_exposed s"
  shows "hitl_inv (wake_step s t cid a)"
proof -
  obtain r pub st where w: "wake_pubsub (ps_store s) (ps_now s) t cid a
      (length (filter (hears t cid) (ps_hangers s))) = (r, pub, st)" by (metis prod_cases3)
  show ?thesis
  proof (cases pub)
    case True
    have w': "wake_pubsub (ps_store s) (ps_now s) t cid a
      (length (filter (hears t cid) (ps_hangers s))) = (r, True, st)" using w True by simp
    note none = claim_fresh[OF hitl_invD(1)[OF assms(1)] w']
    let ?s' = "wake_step s t cid a"
    have "store_inv ?s'" unfolding wake_step_published[OF w']
      by (rule wake_store_inv[OF hitl_invD(1)[OF assms(1)] assms(2) w'])
    moreover have "hanger_inv ?s' h" if h: "h \<in> set (ps_hangers ?s')" for h
    proof -
      from h obtain h0 where h0: "h0 \<in> set (ps_hangers s)"
        "h = (if hears t cid h0 then h0\<lparr>h_inbox := h_inbox h0 @ [action_value a]\<rparr> else h0)"
        unfolding wake_step_published[OF w'] publish_def by auto
      show ?thesis
        unfolding h0(2) wake_step_published[OF w']
        by (rule hanger_inv_publish[OF hitl_invD(2)[OF assms(1) h0(1)] none])
    qed
    moreover have "\<forall>b \<in> set (ps_binds ?s'). bind_inv ?s' b"
      using hitl_invD(3)[OF assms(1)] unfolding wake_step_published[OF w'] by (auto simp: bind_inv_def)
    ultimately show ?thesis unfolding hitl_inv_def by blast
  next
    case False
    with w wake_step_unpublished show ?thesis using assms(1) by auto
  qed
qed

lemma bind_step_inv:
  assumes "hitl_inv s" "j < length (ps_binds s)"
    and step: "advance_bind cfg (ps_store s) (ps_now s) (ps_binds s ! j) = (b, st)"
  shows "hitl_inv (s\<lparr>ps_store := st, ps_binds := (ps_binds s)[j := b]\<rparr>)"
proof -
  have old: "bind_inv s (ps_binds s ! j)" using hitl_invD(3)[OF assms(1)] assms(2) by auto
  note inv = hitl_invD(1)[OF assms(1)]
  have "\<forall>b \<in> set ((ps_binds s)[j := b]). bind_inv s b"
    by (rule binds_update[OF _ advance_bind_inv[OF inv old step] assms(2)]) (use hitl_invD(3)[OF assms(1)] in blast)
  moreover have "store_inv (s\<lparr>ps_store := st, ps_binds := (ps_binds s)[j := b]\<rparr>)"
    by (rule store_inv_cong[OF bind_store_inv[OF inv old step]]) simp_all
  ultimately show ?thesis
    using hitl_invD(2)[OF assms(1)] by (auto simp: hitl_inv_def hanger_inv_def bind_inv_def)
qed

lemma hitl_step_inv:
  assumes "hitl_step cfg s s'" "hitl_inv s" and mode: "pubsub_mode cfg"
  shows "hitl_inv s'"
  using assms(1)
proof (cases rule: hitl_step.cases)
  case (create t cid p st)
  have "store_inv s'" unfolding create(1)
    by (rule create_store_inv[OF hitl_invD(1)[OF assms(2)]]) (use create in auto)
  then show ?thesis
    using hitl_invD(2,3)[OF assms(2)] create(1) by (auto simp: hitl_inv_def hanger_inv_def bind_inv_def)
next
  case (bind j b st)
  show ?thesis unfolding bind(1) by (rule bind_step_inv[OF assms(2) bind(2,3)])
next
  case (expose t cid)
  have "store_inv s'" by (rule store_inv_cong[OF hitl_invD(1)[OF assms(2)]]) (auto simp: expose(1))
  then show ?thesis
    using hitl_invD(2,3)[OF assms(2)] expose by (auto simp: hitl_inv_def hanger_inv_def bind_inv_def)
next
  case (wake t cid a)
  show ?thesis unfolding wake(1) by (rule wake_step_inv[OF assms(2) wake(2)])
next
  case (check i timeout_sec)
  show ?thesis unfolding check(1)
    by (rule hitl_inv_hanger[OF assms(2) check_hanger_inv[OF hitl_invD(1)[OF assms(2)]]])
      (use hitl_invD(2)[OF assms(2)] check mode in auto)
next
  case (check_wake i p timeout_sec)
  show ?thesis unfolding check_wake(1)
    by (rule hitl_inv_hanger[OF assms(2) check_wake_hanger_inv[OF hitl_invD(1)[OF assms(2)]]])
      (use hitl_invD(2)[OF assms(2)] check_wake in auto)
next
  case (receive i live d)
  show ?thesis unfolding receive(1)
    by (rule hitl_inv_hanger[OF assms(2) message_hanger_inv]) (use hitl_invD(2)[OF assms(2)] receive in auto)
next
  case (timeout i live d)
  show ?thesis unfolding timeout(1)
    by (rule hitl_inv_hanger[OF assms(2) stopped_hanger_inv]) (use hitl_invD(2)[OF assms(2)] timeout in auto)
next
  case (cancel i)
  show ?thesis unfolding cancel(1)
    by (rule hitl_inv_hanger[OF assms(2) stopped_hanger_inv]) (use hitl_invD(2)[OF assms(2)] cancel in auto)
next
  case (delete t cid)
  then show ?thesis using assms(2) delete_store_inv[of s t cid]
    by (auto simp: hitl_inv_def hanger_inv_def bind_inv_def)
qed (use assms(2) store_inv_cong[of s s'] in \<open>auto simp: hitl_inv_def hanger_inv_def bind_inv_def\<close>)

lemma hitl_reach_inv: "hitl_reach cfg s \<Longrightarrow> pubsub_mode cfg \<Longrightarrow> hitl_inv s"
proof (induction rule: hitl_reach.induct)
  case reach_start
  show ?case by (simp add: hitl_inv_def store_inv_def hitl_start_def)
next
  case (reach_step s s')
  then show ?case by (blast intro: hitl_step_inv)
qed

lemma claimed_once:
  assumes "hitl_step cfg s s'" "store_inv s" "ps_claimed s k = Some a"
  shows "ps_claimed s' k = Some a"
  using assms
proof (cases rule: hitl_step.cases)
  case (wake t cid b)
  obtain r pub st where w: "wake_pubsub (ps_store s) (ps_now s) t cid b
      (length (filter (hears t cid) (ps_hangers s))) = (r, pub, st)" by (metis prod_cases3)
  show ?thesis
  proof (cases pub)
    case True
    then have w': "wake_pubsub (ps_store s) (ps_now s) t cid b
      (length (filter (hears t cid) (ps_hangers s))) = (r, True, st)" using w by simp
    from claim_fresh[OF assms(2) w'] show ?thesis
      using assms(3) unfolding wake(1) wake_step_published[OF w'] by auto
  next
    case False
    then show ?thesis using assms(3) w wake(1) wake_step_unpublished by auto
  qed
qed auto

end
