(* ===== verification/Hitl_Props.thy ===== *)
theory Hitl_Props
  imports Hitl_Protocol
begin

text \<open>
  The properties of human-in-the-loop confirmations: one decision per confirmation, no decision
  lost in either mode, a complete startup cleanup, and a divergence of the claim script for
  payloads whose arguments have a member named \<open>wake_action\<close>.
\<close>

section \<open>Memory mode\<close>

definition run_wakes :: "hitl_state \<Rightarrow> ((int \<times> string) \<times> confirm_action) list \<Rightarrow> hitl_state" where
  "run_wakes s ws = foldl (\<lambda>s (k, a). snd (wake_memory s (fst k) (snd k) a)) s ws"

text \<open>Entries are allocated below \<open>next_ref\<close>; every operation keeps it so.\<close>

definition refs_ok :: "hitl_state \<Rightarrow> bool" where
  "refs_ok s \<longleftrightarrow> (\<forall>k i. pending_table s k = Some i \<longrightarrow> i < next_ref s)"

lemma refs_ok_wake: "refs_ok s \<Longrightarrow> refs_ok (snd (wake_memory s t cid a))"
  by (auto simp: refs_ok_def wake_memory_def split: option.splits)

lemma refs_ok_create:
  "refs_ok s \<Longrightarrow> create_pending cfg fmt s t cid d = Inr (p, s') \<Longrightarrow> refs_ok s'"
  by (auto simp: refs_ok_def create_pending_def Let_def bindE_eq_Inr less_Suc_eq split: if_splits prod.splits)

lemma refs_ok_hang: "refs_ok s \<Longrightarrow> hang_memory_start s t cid = Inr (i, s') \<Longrightarrow> refs_ok s'"
  by (auto simp: refs_ok_def hang_memory_start_def split: option.splits)

lemma refs_ok_resume: "refs_ok s \<Longrightarrow> refs_ok (snd (hang_memory_resume s t cid i out))"
  by (auto simp: refs_ok_def hang_memory_resume_def forget_def leave_def split: wait_outcome.splits)

lemma run_wakes_first:
  assumes "pending_table s (t, cid) = Some i"
    and "\<And>k j. pending_table s k = Some j \<Longrightarrow> k \<noteq> (t, cid) \<Longrightarrow> j \<noteq> i"
    and "event_set (heap s i) = (entry_action (heap s i) \<noteq> None)"
  shows "pending_table (run_wakes s ws) = pending_table s \<and>
    (let mine = map snd (filter (\<lambda>(k, a). k = (t, cid)) ws);
         e = heap (run_wakes s ws) i in
     entry_action e = (case entry_action (heap s i) of Some a \<Rightarrow> Some a
        | None \<Rightarrow> if mine = [] then None else Some (hd mine)) \<and>
     event_set e = (entry_action e \<noteq> None) \<and> waiters e = waiters (heap s i))"
  using assms
proof (induction ws arbitrary: s)
  case Nil
  then show ?case by (auto simp: run_wakes_def split: option.split)
next
  case (Cons w ws)
  obtain t' cid' a where w: "w = ((t', cid'), a)" by (metis prod.collapse)
  let ?s = "snd (wake_memory s t' cid' a)"
  have table: "pending_table ?s = pending_table s"
    by (simp add: wake_memory_def split: option.split)
  have heap: "heap ?s i = (if (t', cid') = (t, cid) \<and> entry_action (heap s i) = None
      then (heap s i)\<lparr>entry_action := Some a, event_set := True\<rparr> else heap s i)"
    using Cons.prems(2)[of "(t', cid')"] Cons.prems(1)
    by (auto simp: wake_memory_def split: option.split)
  have IH: "pending_table (run_wakes ?s ws) = pending_table ?s \<and>
    (let mine = map snd (filter (\<lambda>(k, a). k = (t, cid)) ws);
         e = heap (run_wakes ?s ws) i in
     entry_action e = (case entry_action (heap ?s i) of Some a \<Rightarrow> Some a
        | None \<Rightarrow> if mine = [] then None else Some (hd mine)) \<and>
     event_set e = (entry_action e \<noteq> None) \<and> waiters e = waiters (heap ?s i))"
    by (rule Cons.IH) (use Cons.prems in \<open>auto simp: table heap\<close>)
  have "run_wakes s (w # ws) = run_wakes ?s ws" by (simp add: run_wakes_def w)
  with IH show ?case
    by (cases "entry_action (heap s i)") (auto simp: Let_def table heap w)
qed

section \<open>Startup cleanup\<close>

lemma split_on_no: "c \<notin> set a \<Longrightarrow> split_on c a = [a]"
  by (induction a) auto

lemma split_on_app: "c \<notin> set a \<Longrightarrow> split_on c (a @ c # b) = a # split_on c b"
  by (induction a) auto

lemma parse_pending_key_roundtrip:
  assumes "0 \<le> t" "CHR '':'' \<notin> set cid"
  shows "parse_pending_key (redis_key_for_id t cid) = Some (t, cid)"
proof -
  have ten: "CHR '':'' \<notin> set (show_int t)" "py_int (show_int t) = Inr t"
    using assms(1) show_int_no_special(5)[of t] show_int_of_nat[of "nat t"] py_int_show_nat[of "nat t"] by auto
  have "split_on CHR '':'' (redis_key_for_id t cid) = [''ai'', ''confirm'', ''tenant'', show_int t, cid]"
    unfolding redis_key_for_id_def
    using split_on_app[of "CHR '':''" "''ai''"] split_on_app[of "CHR '':''" "''confirm''"]
      split_on_app[of "CHR '':''" "''tenant''"] split_on_app[OF ten(1), of cid] split_on_no[OF assms(2)]
    by simp
  then show ?thesis using ten(2) assms(1) by (simp add: parse_pending_key_def)
qed

lemma foldl_del: "foldl r_del st ks k = (if k \<in> set ks then None else st k)"
  by (induction ks arbitrary: st) (auto simp: r_del_def)

lemma cleanup_commands_prefix:
  "k \<in> set (cleanup_commands key) \<Longrightarrow> k = key \<or> prefix ''ai:hitl:wake-state:v1:tenant:'' k"
  by (auto simp: cleanup_commands_def wake_state_key_for_id_def prefix_def split: option.splits)

section \<open>The text search of the claim script\<close>

lemma lua_find_append: "lua_find key val s \<Longrightarrow> lua_find key val (pre @ s)"
  by (induction pre) auto

lemma dump_members_contains:
  "(k, v) \<in> set kvs \<Longrightarrow> \<exists>pre post. dump_members kvs = pre @ dump_str k @ '': '' @ json_dumps v @ post"
proof (induction kvs)
  case (Cons kv kvs)
  obtain k' v' where kv: "kv = (k', v')" by (cases kv)
  show ?case
  proof (cases "(k, v) = kv")
    case True
    then have "dump_members (kv # kvs) = [] @ dump_str k @ '': '' @ json_dumps v @
        (if kvs = [] then [] else '', '' @ dump_members kvs)" by (auto simp: kv)
    then show ?thesis by blast
  next
    case False
    with Cons obtain pre post where pp: "dump_members kvs = pre @ dump_str k @ '': '' @ json_dumps v @ post" by auto
    have ne: "kvs \<noteq> []" using Cons.prems False by auto
    have "dump_members (kv # kvs) = (dump_str k' @ '': '' @ json_dumps v' @ '', '' @ pre) @
        dump_str k @ '': '' @ json_dumps v @ post" using ne by (simp add: kv pp)
    then show ?thesis by blast
  qed
qed simp

lemma wake_match:
  "lua_find_wake a (dump_str ''wake_action'' @ '': '' @ dump_str a @ post)"
proof -
  have "lua_find (c # key) val ((c # key) @ '': '' @ val @ post)" if "\<not> lua_space (hd val)" "val \<noteq> []"
    for c key val
    using that by (cases val) (simp_all add: lua_space_def)
  from this[of "dump_str a" "CHR 0x22" "tl (dump_str ''wake_action'')"] show ?thesis
    by (simp add: lua_find_wake_def dump_str_def lua_space_def)
qed

lemma payload_args_found:
  assumes "pp_args p = JObj kvs" "(''wake_action'', JStr a) \<in> set kvs"
  shows "lua_find_wake a (raw_text (RPayload p))"
proof -
  obtain pre post where m: "dump_members kvs = pre @ dump_str ''wake_action'' @ '': '' @ dump_str a @ post"
    using dump_members_contains[OF assms(2)] by auto
  obtain fields where f: "payload_json p = JObj fields" "(''args'', JObj kvs) \<in> set fields"
    using assms(1) by (simp add: payload_json_def)
  obtain pre' post' where n: "dump_members fields = pre' @ dump_str ''args'' @ '': '' @ json_dumps (JObj kvs) @ post'"
    using dump_members_contains[OF f(2)] by auto
  have "raw_text (RPayload p) = (''{'' @ pre' @ dump_str ''args'' @ '': '' @ ''{'' @ pre) @
      dump_str ''wake_action'' @ '': '' @ dump_str a @ post @ ''}'' @ post' @ ''}''"
    by (simp add: f(1) n m)
  then show ?thesis using lua_find_append[OF wake_match[unfolded lua_find_wake_def]] by (metis lua_find_wake_def)
qed

section \<open>Properties\<close>

text \<open>Property C7: in publish/subscribe mode all coroutines that hang on a confirmation and return,
  on whichever worker, return the same action, and it is the first decision the claim script
  accepted, however wakes, subscriptions, timeouts, binding and deletion interleave.\<close>

theorem hitl_decision_agreement:
  assumes "hitl_reach cfg s" and "pubsub_mode cfg"
    and "g \<in> set (ps_hangers s)" "h_phase g = Returned a"
    and "h \<in> set (ps_hangers s)" "h_phase h = Returned b"
    and "h_tenant g = h_tenant h" "h_cid g = h_cid h"
  shows "a = b \<and> ps_claimed s (h_tenant g, h_cid g) = Some a"
proof -
  have "hanger_inv s g" "hanger_inv s h"
    using hitl_reach_inv[OF assms(1,2)] assms(3,5) by (auto simp: hitl_inv_def)
  with assms(4,6-8) show ?thesis by (auto simp: hanger_inv_def)
qed

text \<open>Property C8: no wake is lost: when a coroutine listens although a decision on its confirmation
  was claimed, and it had subscribed before the claim or its check still found the payload in Redis
  when it read the wake state, then the decision waits in its subscription and its next step
  returns it, whatever was claimed, deleted or expired between the two reads of its check. (A
  decision claimed before the subscription is lost only when the payload and the wake state
  disappear between these two reads.)\<close>

theorem hitl_no_lost_wake:
  assumes "hitl_reach cfg s" and "pubsub_mode cfg" and "i < length (ps_hangers s)"
    and "h_phase (ps_hangers s ! i) = Listening live d"
    and "ps_claimed s (h_tenant (ps_hangers s ! i), h_cid (ps_hangers s ! i)) = Some a"
    and "live \<or> \<not> h_late (ps_hangers s ! i)"
  shows "\<exists>s'. hitl_step cfg s s' \<and> h_phase (ps_hangers s' ! i) = Returned a"
proof -
  let ?h = "ps_hangers s ! i"
  have "hanger_inv s ?h"
    using hitl_reach_inv[OF assms(1,2)] assms(3) by (auto simp: hitl_inv_def)
  then obtain ms where inbox: "h_inbox ?h = action_value a # ms"
    using assms(4-6) unfolding hanger_inv_def by (cases "h_inbox ?h") auto
  have "h_phase (hang_pubsub_message ?h) = Returned a"
    by (simp add: hang_pubsub_message_def inbox)
  then show ?thesis
    using hitl_step.receive[OF assms(3,4), of cfg] assms(3) by (intro exI conjI) auto
qed

text \<open>The exception: \<open>get_pending\<close> returns a payload without a wake action although a decision had
  been claimed before its first read, when the confirmation is deleted between its two reads. The
  docstring of \<open>_hang_pubsub\<close> takes the check after the subscription to be free of such races.\<close>

theorem decision_lost_between_reads:
  assumes "r_get st n (redis_key_for_id t cid) = Some (RPayload p)" and "pp_tenant_id p = t"
    and "r_get st n (wake_state_key_for_id t cid) = Some (RText (action_value a))" and "pubsub_mode cfg"
  shows "get_pending cfg st n st n t cid = Some (p\<lparr>pp_wake_action := Some (action_value a)\<rparr>) \<and>
    get_pending cfg st n (delete_pending st t cid) n' t cid = Some p"
  using assms by (simp add: get_pending_def read_pending_def read_wake_action_def delete_pending_def redis.get_del)

text \<open>In memory mode a decision that arrives between the creation of a confirmation
  and its hang is not lost, and the first of several decisions wins: whatever wakes of this and of
  other confirmations come in between, the hang finds its entry, the event is set exactly when this
  confirmation was woken, and the coroutine returns the first action.\<close>

theorem memory_first_wake_wins:
  assumes "create_pending cfg fmt s0 t cid draft = Inr (p, s)" and "\<not> pubsub_mode cfg" and "refs_ok s0"
  shows "let mine = map snd (filter (\<lambda>(k, a). k = (t, cid)) ws) in
    \<exists>i s2. hang_memory_start (run_wakes s ws) t cid = Inr (i, s2) \<and>
      event_set (heap s2 i) = (mine \<noteq> []) \<and>
      (mine \<noteq> [] \<longrightarrow> fst (hang_memory_resume s2 t cid i Woken) = Inr (hd mine) \<and>
         \<not> has_pending (snd (hang_memory_resume s2 t cid i Woken)) t cid)"
proof -
  let ?i = "next_ref s0"
  have s: "pending_table s = (pending_table s0)((t, cid) \<mapsto> ?i)" "heap s ?i = new_entry"
    using assms(1,2) by (auto simp: create_pending_def Let_def bindE_eq_Inr split: if_splits prod.splits)
  have "pending_table (run_wakes s ws) = pending_table s \<and>
    (let mine = map snd (filter (\<lambda>(k, a). k = (t, cid)) ws); e = heap (run_wakes s ws) ?i in
     entry_action e = (case entry_action (heap s ?i) of Some a \<Rightarrow> Some a
        | None \<Rightarrow> if mine = [] then None else Some (hd mine)) \<and>
     event_set e = (entry_action e \<noteq> None) \<and> waiters e = waiters (heap s ?i))"
    by (rule run_wakes_first) (use s assms(3) in \<open>auto simp: new_entry_def refs_ok_def split: if_splits\<close>)
  then show ?thesis
    using s by (auto simp: Let_def new_entry_def hang_memory_start_def hang_memory_resume_def forget_def
        leave_def has_pending_def)
qed

text \<open>A startup cleanup that meets no Redis fault removes the payload and the wake state
  of every confirmation its scan returned, and touches no key outside those two families.\<close>

theorem startup_cleanup_complete:
  assumes "redis_key_for_id t cid \<in> set keys" and "0 \<le> t" and "CHR '':'' \<notin> set cid"
  shows "let st' = snd (cleanup_pending_on_startup st keys None) in
    st' (redis_key_for_id t cid) = None \<and> st' (wake_state_key_for_id t cid) = None \<and>
    (\<forall>k. \<not> prefix ''ai:confirm:tenant:'' k \<longrightarrow> \<not> prefix ''ai:hitl:wake-state:v1:tenant:'' k \<longrightarrow> st' k = st k)"
proof -
  let ?matched = "filter (prefix ''ai:confirm:tenant:'') keys"
  let ?cmds = "concat (map cleanup_commands ?matched)"
  have pre: "prefix ''ai:confirm:tenant:'' (redis_key_for_id t cid)"
    by (simp add: redis_key_for_id_def)
  have "set (cleanup_commands (redis_key_for_id t cid)) \<subseteq> set ?cmds" using assms(1) pre by auto
  moreover have "cleanup_commands (redis_key_for_id t cid) = [redis_key_for_id t cid, wake_state_key_for_id t cid]"
    using parse_pending_key_roundtrip[OF assms(2,3)] by (simp add: cleanup_commands_def)
  moreover have "k \<notin> set ?cmds" if "\<not> prefix ''ai:confirm:tenant:'' k" "\<not> prefix ''ai:hitl:wake-state:v1:tenant:'' k" for k
    using that cleanup_commands_prefix[of k] by fastforce
  ultimately show ?thesis
    by (auto simp: cleanup_pending_on_startup_def Let_def foldl_del simp del: set_concat)
qed

text \<open>Property C9: the claim script looks for a member \<open>wake_action\<close> anywhere in the payload's text,
  so when the arguments of the tool call have such a member with the value of an action, no
  decision of the user is ever recorded or published, and the waker is told that it succeeded.\<close>

theorem wake_swallowed_by_argument:
  assumes "r_get st now (redis_key_for_id t cid) = Some (RPayload p)" and "pp_args p = JObj kvs"
    and "(''wake_action'', JStr (action_value b)) \<in> set kvs"
  shows "wake_pubsub st now t cid a n = (True, False, st)"
proof -
  have "lua_find_wake (action_value b) (raw_text (RPayload p))"
    by (rule payload_args_found[OF assms(2,3)])
  then have "lua_find_wake ''approved'' (raw_text (RPayload p)) \<or> lua_find_wake ''rejected'' (raw_text (RPayload p))"
    by (cases b) auto
  moreover have "0 < r_pttl st now (redis_key_for_id t cid)"
    using assms(1) by (auto simp: r_get_Some r_pttl_def)
  ultimately show ?thesis
    using assms(1) by (simp add: wake_pubsub_def claim_and_publish_lua_def)
qed

section \<open>Witnesses\<close>

text \<open>One confirmation of tenant 7: a coroutine subscribes and checks before the approval, another
  subscribes before and checks after it.\<close>

definition demo_payload :: "json \<Rightarrow> pending_payload" where
  "demo_payload args = \<lparr>pp_user_id = 50, pp_tenant_id = 7, pp_conversation_id = 3, pp_tool_call_id = ''tc'',
     pp_trace_id = ''tr'', pp_tool_name = ''user.create'', pp_args = args, pp_dry_run_result = JNull,
     pp_expires_at = ''soon'', pp_source_user_message_id = None, pp_guard_owner_token = None,
     pp_command_action = ''send'', pp_agent_code = None, pp_risk_level = ''high'', pp_chip_target = None,
     pp_action_id = None, pp_wake_action = None\<rparr>"

definition demo_cfg :: "bool \<Rightarrow> hitl_config" where
  "demo_cfg pub = \<lparr>pubsub_mode = pub, pending_ttl_sec = 300, args_max_bytes = 4096\<rparr>"

definition demo_lua :: "bool \<times> store" where
  "demo_lua = create_pending_lua (ps_store hitl_start) (ps_now hitl_start) (redis_key_for_id 7 ''c'')
     (wake_state_key_for_id 7 ''c'') (RPayload (demo_payload JNull)) (pending_ttl_sec (demo_cfg True))"

definition demo1 :: psys where
  "demo1 = hitl_start\<lparr>ps_store := snd demo_lua, ps_created := insert (7, ''c'') (ps_created hitl_start)\<rparr>"
definition demo2 :: psys where "demo2 = demo1\<lparr>ps_exposed := insert (7, ''c'') (ps_exposed demo1)\<rparr>"
definition demo3 :: psys where "demo3 = demo2\<lparr>ps_hangers := ps_hangers demo2 @
  [\<lparr>h_tenant = 7, h_cid = ''c'', h_phase = Subscribed, h_inbox = [], h_late = False\<rparr>]\<rparr>"
definition demo4 :: psys where "demo4 = demo3\<lparr>ps_hangers := ps_hangers demo3 @
  [\<lparr>h_tenant = 7, h_cid = ''c'', h_phase = Subscribed, h_inbox = [], h_late = False\<rparr>]\<rparr>"
definition demo5a :: psys where "demo5a = demo4\<lparr>ps_hangers := (ps_hangers demo4)
  [0 := hang_pubsub_check (demo_cfg True) (ps_store demo4) (ps_now demo4) 300 (ps_hangers demo4 ! 0)]\<rparr>"
definition demo5 :: psys where "demo5 = demo5a\<lparr>ps_hangers := (ps_hangers demo5a)
  [0 := hang_pubsub_check_wake (ps_store demo5a) (ps_now demo5a) 300 (demo_payload JNull) (ps_hangers demo5a ! 0)]\<rparr>"
definition demo6 :: psys where "demo6 = wake_step demo5 7 ''c'' APPROVED"
definition demo7a :: psys where "demo7a = demo6\<lparr>ps_hangers := (ps_hangers demo6)
  [1 := hang_pubsub_check (demo_cfg True) (ps_store demo6) (ps_now demo6) 300 (ps_hangers demo6 ! 1)]\<rparr>"
definition demo7 :: psys where "demo7 = demo7a\<lparr>ps_hangers := (ps_hangers demo7a)
  [1 := hang_pubsub_check_wake (ps_store demo7a) (ps_now demo7a) 300 (demo_payload JNull) (ps_hangers demo7a ! 1)]\<rparr>"
definition demo8 :: psys where "demo8 = demo7\<lparr>ps_hangers := (ps_hangers demo7)
  [0 := hang_pubsub_message (ps_hangers demo7 ! 0)]\<rparr>"

lemma demo4_reach: "hitl_reach (demo_cfg True) demo4"
proof -
  have lua: "demo_lua = (True, snd demo_lua)" by (simp add: demo_lua_def create_pending_lua_def r_get_def hitl_start_def)
  have "hitl_step (demo_cfg True) hitl_start demo1"
    unfolding demo1_def
    by (rule hitl_step.create[where p = "demo_payload JNull"])
      (use lua in \<open>simp_all add: hitl_start_def demo_payload_def demo_lua_def\<close>)
  then have "hitl_reach (demo_cfg True) demo1" by (rule reach_step[OF reach_start])
  then have r2: "hitl_reach (demo_cfg True) demo2"
    unfolding demo2_def by (rule reach_step) (rule hitl_step.expose; simp add: demo1_def hitl_start_def)
  have unclaimed: "(ps_claimed demo2 (7, ''c'') \<noteq> None) = False" "(ps_claimed demo3 (7, ''c'') \<noteq> None) = False"
    by (simp_all add: demo3_def demo2_def demo1_def hitl_start_def)
  have "hitl_step (demo_cfg True) demo2 demo3"
    using hitl_step.subscribe[of "demo_cfg True" demo2 7 "''c''"] unfolding unclaimed demo3_def .
  then have "hitl_reach (demo_cfg True) demo3" by (rule reach_step[OF r2])
  moreover have "hitl_step (demo_cfg True) demo3 demo4"
    using hitl_step.subscribe[of "demo_cfg True" demo3 7 "''c''"] unfolding unclaimed demo4_def .
  ultimately show ?thesis by (rule reach_step)
qed

definition demo_hanger :: "phase \<Rightarrow> string list \<Rightarrow> hanger" where
  "demo_hanger ph inbox = \<lparr>h_tenant = 7, h_cid = ''c'', h_phase = ph, h_inbox = inbox, h_late = False\<rparr>"

lemma demo_store: "snd demo_lua = r_set (r_del (\<lambda>_. None) (wake_state_key_for_id 7 ''c'')) (redis_key_for_id 7 ''c'')
    (RPayload (demo_payload JNull)) 300000"
  by (simp add: demo_lua_def create_pending_lua_def hitl_start_def r_get_def demo_cfg_def)

lemma demo_reads [simp]:
  "r_get (snd demo_lua) 0 (redis_key_for_id 7 ''c'') = Some (RPayload (demo_payload JNull))"
  "r_get (snd demo_lua) 0 (wake_state_key_for_id 7 ''c'') = None"
  "r_pttl (snd demo_lua) 0 (redis_key_for_id 7 ''c'') = 300000"
  by (simp_all add: demo_store redis.get_set redis.get_del) (simp_all add: r_get_def r_pttl_def r_set_def)

lemma demo_text:
  "\<not> lua_find_wake ''approved'' (raw_text (RPayload (demo_payload JNull)))"
  "\<not> lua_find_wake ''rejected'' (raw_text (RPayload (demo_payload JNull)))"
  by code_simp+

lemma demo_payload_fields [simp]:
  "pp_tenant_id (demo_payload j) = 7" "pp_wake_action (demo_payload j) = None" "pp_args (demo_payload j) = j"
  by (simp_all add: demo_payload_def)

lemmas demo_checks = hang_pubsub_check_def hang_pubsub_check_wake_def read_pending_def read_wake_action_def
  checked_def redis.get_set redis.get_del conclude_def parse_action_def

lemma demo5a_fields:
  "ps_store demo5a = snd demo_lua" "ps_now demo5a = 0" "ps_exposed demo5a = {(7, ''c'')}"
  "ps_hangers demo5a = [demo_hanger (Checking (demo_payload JNull)) [], demo_hanger Subscribed []]"
  by (simp_all add: demo5a_def demo4_def demo3_def demo2_def demo1_def hitl_start_def demo_hanger_def
      demo_checks demo_cfg_def)

lemma demo5_fields:
  "ps_store demo5 = snd demo_lua" "ps_now demo5 = 0" "ps_exposed demo5 = {(7, ''c'')}"
  "ps_hangers demo5 = [demo_hanger (Listening True 300000) [], demo_hanger Subscribed []]"
  by (simp_all add: demo5_def demo5a_fields demo_hanger_def demo_checks)

lemma demo5a_reach: "hitl_reach (demo_cfg True) demo5a"
  unfolding demo5a_def
  by (rule reach_step[OF demo4_reach]) (rule hitl_step.check; simp add: demo4_def demo3_def demo2_def demo1_def hitl_start_def)

lemma demo5_reach: "hitl_reach (demo_cfg True) demo5"
  unfolding demo5_def
  by (rule reach_step[OF demo5a_reach]) (rule hitl_step.check_wake; simp add: demo5a_fields demo_hanger_def)

lemma demo6_reach: "hitl_reach (demo_cfg True) demo6"
  unfolding demo6_def by (rule reach_step[OF demo5_reach]) (rule hitl_step.wake, simp add: demo5_fields)

lemma demo6_fields:
  "ps_store demo6 = r_set (snd demo_lua) (wake_state_key_for_id 7 ''c'') (RText ''approved'') 300000"
  "ps_now demo6 = 0" "ps_claimed demo6 = (ps_claimed demo5)((7, ''c'') \<mapsto> APPROVED)"
  "ps_hangers demo6 = [demo_hanger (Listening True 300000) [''approved''], demo_hanger Subscribed [''approved'']]"
  using demo_text
  by (simp_all add: demo6_def wake_step_def wake_pubsub_def claim_and_publish_lua_def demo5_fields hears_def
      demo_hanger_def publish_def)

lemma demo7a_fields:
  "ps_hangers demo7a = [demo_hanger (Listening True 300000) [''approved''],
     demo_hanger (Checking (demo_payload JNull)) [''approved'']]"
  "ps_claimed demo7a = ps_claimed demo6" "ps_now demo7a = 0" "ps_store demo7a = ps_store demo6"
  by (simp_all add: demo7a_def demo6_fields demo_hanger_def demo_checks demo_cfg_def)

lemma demo7_fields:
  "ps_hangers demo7 = [demo_hanger (Listening True 300000) [''approved''], demo_hanger (Returned APPROVED) [''approved'']]"
  "ps_claimed demo7 = ps_claimed demo6"
  by (simp_all add: demo7_def demo7a_fields demo6_fields demo_hanger_def demo_checks)

lemma demo8_fields:
  "ps_hangers demo8 = [demo_hanger (Returned APPROVED) [], demo_hanger (Returned APPROVED) [''approved'']]"
  "ps_claimed demo8 = (ps_claimed demo5)((7, ''c'') \<mapsto> APPROVED)"
  by (simp_all add: demo8_def demo7_fields demo6_fields demo_hanger_def hang_pubsub_message_def
      conclude_def parse_action_def)

lemma demo8_reach: "hitl_reach (demo_cfg True) demo8"
proof -
  have "hitl_reach (demo_cfg True) demo7a"
    unfolding demo7a_def
    by (rule reach_step[OF demo6_reach]) (rule hitl_step.check; simp add: demo6_fields demo_hanger_def)
  then have "hitl_reach (demo_cfg True) demo7"
    unfolding demo7_def
    by (rule reach_step) (rule hitl_step.check_wake; simp add: demo7a_fields demo_hanger_def)
  then show ?thesis
    unfolding demo8_def
    by (rule reach_step) (rule hitl_step.receive[where live = True and d = 300000];
        simp add: demo7_fields demo_hanger_def)
qed

text \<open>The approval and the deletion of the confirmation fall between the two reads of the check.\<close>

definition race1 :: psys where "race1 = wake_step demo5a 7 ''c'' APPROVED"
definition race2 :: psys where "race2 = race1\<lparr>ps_store := delete_pending (ps_store race1) 7 ''c''\<rparr>"
definition race3 :: psys where "race3 = race2\<lparr>ps_hangers := (ps_hangers race2)
  [0 := hang_pubsub_check_wake (ps_store race2) (ps_now race2) 300 (demo_payload JNull) (ps_hangers race2 ! 0)]\<rparr>"

lemma race1_fields:
  "ps_store race1 = r_set (snd demo_lua) (wake_state_key_for_id 7 ''c'') (RText ''approved'') 300000"
  "ps_now race1 = 0" "ps_claimed race1 = (ps_claimed demo5a)((7, ''c'') \<mapsto> APPROVED)"
  "ps_hangers race1 = [demo_hanger (Checking (demo_payload JNull)) [''approved''], demo_hanger Subscribed [''approved'']]"
  using demo_text
  by (simp_all add: race1_def wake_step_def wake_pubsub_def claim_and_publish_lua_def demo5a_fields hears_def
      demo_hanger_def publish_def)

lemma race3_fields:
  "ps_claimed race3 = (ps_claimed demo5a)((7, ''c'') \<mapsto> APPROVED)"
  "ps_hangers race3 = [demo_hanger (Listening False 300000) [''approved''], demo_hanger Subscribed [''approved'']]"
  by (simp_all add: race3_def race2_def race1_fields demo_hanger_def demo_checks delete_pending_def)

lemma race3_reach: "hitl_reach (demo_cfg True) race3"
proof -
  have "hitl_reach (demo_cfg True) race1"
    unfolding race1_def by (rule reach_step[OF demo5a_reach]) (rule hitl_step.wake, simp add: demo5a_fields)
  then have "hitl_reach (demo_cfg True) race2"
    unfolding race2_def by (rule reach_step) (rule hitl_step.delete)
  then show ?thesis
    unfolding race3_def
    by (rule reach_step) (rule hitl_step.check_wake; simp add: race2_def race1_fields demo_hanger_def)
qed

theorem hitl_decision_agreement_witness:
  "h_phase (ps_hangers demo8 ! 0) = Returned APPROVED \<and> h_phase (ps_hangers demo8 ! 1) = Returned APPROVED \<and>
   ps_claimed demo8 (7, ''c'') = Some APPROVED"
proof -
  have f: "length (ps_hangers demo8) = 2" "h_phase (ps_hangers demo8 ! 0) = Returned APPROVED"
    "h_phase (ps_hangers demo8 ! 1) = Returned APPROVED" "h_tenant (ps_hangers demo8 ! 0) = 7"
    "h_cid (ps_hangers demo8 ! 0) = ''c''" "h_tenant (ps_hangers demo8 ! 1) = 7" "h_cid (ps_hangers demo8 ! 1) = ''c''"
    "pubsub_mode (demo_cfg True)"
    by (simp_all add: demo8_fields demo_hanger_def demo_cfg_def)
  then have "ps_hangers demo8 ! 0 \<in> set (ps_hangers demo8)" "ps_hangers demo8 ! 1 \<in> set (ps_hangers demo8)" by auto
  from hitl_decision_agreement[OF demo8_reach f(8) this(1) f(2) this(2) f(3)] f show ?thesis by simp
qed

theorem hitl_no_lost_wake_witness:
  "h_phase (ps_hangers race3 ! 0) = Listening False 300000 \<and>
   (\<exists>s'. hitl_step (demo_cfg True) race3 s' \<and> h_phase (ps_hangers s' ! 0) = Returned APPROVED)"
proof -
  have f: "0 < length (ps_hangers race3)" "h_phase (ps_hangers race3 ! 0) = Listening False 300000"
    "ps_claimed race3 (h_tenant (ps_hangers race3 ! 0), h_cid (ps_hangers race3 ! 0)) = Some APPROVED"
    "False \<or> \<not> h_late (ps_hangers race3 ! 0)" "pubsub_mode (demo_cfg True)"
    by (simp_all add: race3_fields demo_hanger_def demo_cfg_def)
  from hitl_no_lost_wake[OF race3_reach f(5,1-4)] f(2) show ?thesis by blast
qed

definition idle_manager :: hitl_state where
  "idle_manager = \<lparr>redis_store = (\<lambda>_. None), clock = 0, pending_table = (\<lambda>_. None),
     heap = (\<lambda>_. new_entry), next_ref = 0\<rparr>"

theorem memory_first_wake_wins_witness:
  "\<exists>p s i s2. create_pending (demo_cfg False) (\<lambda>_. ''soon'') idle_manager 7 ''c'' (demo_payload JNull) = Inr (p, s) \<and>
     hang_memory_start (run_wakes s [((7, ''d''), APPROVED), ((7, ''c''), REJECTED), ((7, ''c''), APPROVED)]) 7 ''c'' = Inr (i, s2) \<and>
     fst (hang_memory_resume s2 7 ''c'' i Woken) = Inr REJECTED"
proof -
  have "is_ok (create_pending (demo_cfg False) (\<lambda>_. ''soon'') idle_manager 7 ''c'' (demo_payload JNull))"
    by code_simp
  then obtain p s where c: "create_pending (demo_cfg False) (\<lambda>_. ''soon'') idle_manager 7 ''c'' (demo_payload JNull) = Inr (p, s)"
    by (auto simp: is_ok_iff)
  have "\<not> pubsub_mode (demo_cfg False)" "refs_ok idle_manager"
    by (simp_all add: demo_cfg_def refs_ok_def idle_manager_def)
  from memory_first_wake_wins[OF c this, of "[((7, ''d''), APPROVED), ((7, ''c''), REJECTED), ((7, ''c''), APPROVED)]"] c
  show ?thesis by (auto simp: Let_def)
qed

theorem startup_cleanup_complete_witness:
  "snd (cleanup_pending_on_startup (snd demo_lua) [redis_key_for_id 7 ''c''] None) (redis_key_for_id 7 ''c'') = None"
  using startup_cleanup_complete[of 7 "''c''" "[redis_key_for_id 7 ''c'']" "snd demo_lua"]
  by (simp add: Let_def)

theorem wake_swallowed_by_argument_witness:
  "wake_pubsub ((\<lambda>_. None)(redis_key_for_id 7 ''c'' \<mapsto>
      (RPayload (demo_payload (JObj [(''wake_action'', JStr ''approved'')])), 300000))) 0 7 ''c'' REJECTED 1
    = (True, False, (\<lambda>_. None)(redis_key_for_id 7 ''c'' \<mapsto>
      (RPayload (demo_payload (JObj [(''wake_action'', JStr ''approved'')])), 300000)))"
proof (rule wake_swallowed_by_argument[where b = APPROVED])
  show "pp_args (demo_payload (JObj [(''wake_action'', JStr ''approved'')])) = JObj [(''wake_action'', JStr ''approved'')]"
    by (rule demo_payload_fields)
qed (simp_all add: r_get_def)

end
