(* ===== verification/Prepared_Subjects.thy ===== *)
theory Prepared_Subjects
  imports Json
begin

text \<open>
  The authorization targets of a prepared action:
  \<open>_stable_positive_id\<close>, \<open>_stable_positive_id_list\<close> and \<open>PreparedActionService._build_subject_refs\<close> of
  \<open>app/modules/ai/service/prepared_action_service.py\<close>. Arguments and snapshots are JSON objects. A
  Python set of identifiers that is only sorted or tested is a list without duplicates.
\<close>

section \<open>Python's str() on JSON values\<close>

definition py_printable :: "char \<Rightarrow> bool" where
  "py_printable c \<longleftrightarrow> (let n = of_char c :: nat in 32 \<le> n \<and> n \<le> 126 \<or> 161 \<le> n \<and> n \<noteq> 173)"

definition repr_hex :: "nat \<Rightarrow> char" where
  "repr_hex n = (if n < 10 then char_of (48 + n) else char_of (87 + n))"

definition repr_char :: "char \<Rightarrow> char \<Rightarrow> string" where
  "repr_char q c =
     (let n = of_char c :: nat in
      if c = q then [CHR 0x5C, q] else if c = CHR 0x5C then [CHR 0x5C, CHR 0x5C]
      else if n = 10 then [CHR 0x5C, CHR ''n''] else if n = 13 then [CHR 0x5C, CHR ''r'']
      else if n = 9 then [CHR 0x5C, CHR ''t'']
      else if py_printable c then [c]
      else [CHR 0x5C, CHR ''x'', repr_hex (n div 16), repr_hex (n mod 16)])"

definition repr_str :: "string \<Rightarrow> string" where
  "repr_str s =
     (let q = (if CHR 0x27 \<in> set s \<and> CHR 0x22 \<notin> set s then CHR 0x22 else CHR 0x27)
      in q # concat (map (repr_char q) s) @ [q])"

fun py_repr :: "json \<Rightarrow> string"
and repr_items :: "json list \<Rightarrow> string"
and repr_members :: "(string \<times> json) list \<Rightarrow> string" where
  "py_repr JNull = ''None''"
| "py_repr (JBool b) = (if b then ''True'' else ''False'')"
| "py_repr (JInt i) = show_int i"
| "py_repr (JFloat FNonFinite) = ''nan''"
| "py_repr (JFloat (FFinite r)) = r"
| "py_repr (JStr s) = repr_str s"
| "py_repr (JArr xs) = ''['' @ repr_items xs @ '']''"
| "py_repr (JObj kvs) = ''{'' @ repr_members kvs @ ''}''"
| "repr_items [] = []"
| "repr_items (x # xs) = py_repr x @ (if xs = [] then [] else '', '' @ repr_items xs)"
| "repr_members [] = []"
| "repr_members ((k, x) # kvs) =
     repr_str k @ '': '' @ py_repr x @ (if kvs = [] then [] else '', '' @ repr_members kvs)"

definition py_str :: "json \<Rightarrow> string" where
  "py_str v = (case v of JStr s \<Rightarrow> s | _ \<Rightarrow> py_repr v)"

section \<open>Stable identifiers\<close>

definition binding_invalid :: exn where
  "binding_invalid = BusinessRule ''AI_PREPARED_ACTION_BINDING_INVALID''"

definition snapshot_stale :: exn where
  "snapshot_stale = BusinessRule ''AI_PREPARED_ACTION_SNAPSHOT_STALE''"

text \<open>Texts of digits. Unicode decides which code points are digits (\<open>dig\<close>, for \<open>str.isdigit\<close>) and which of
  them are decimal digits of what value (\<open>dec\<close>); a superscript or a circled digit is a digit and no
  decimal digit. \<open>int()\<close> refuses a text of digits with \<open>ValueError\<close> when one of them is no decimal digit,
  so \<open>str.isdigit\<close> does not protect it, and when there are more than 4300 of them; \<open>str()\<close> refuses an
  integer of more digits.\<close>

definition max_str_digits :: int where
  "max_str_digits = 4300"

definition code_points :: "string \<Rightarrow> nat list" where
  "code_points s = map of_char s"

definition uni_isdigit :: "(nat \<Rightarrow> bool) \<Rightarrow> nat list \<Rightarrow> bool" where
  "uni_isdigit dig s \<longleftrightarrow> s \<noteq> [] \<and> list_all dig s"

definition int_of_digits :: "(nat \<Rightarrow> nat option) \<Rightarrow> nat list \<Rightarrow> int res" where
  "int_of_digits dec s =
     (if max_str_digits < int (length s) \<or> \<not> list_all (\<lambda>c. dec c \<noteq> None) s then Inl ValueError
      else Inr (int (foldl (\<lambda>a c. 10 * a + (case dec c of None \<Rightarrow> 0 | Some d \<Rightarrow> d)) 0 s)))"

definition str_of_int :: "int \<Rightarrow> string res" where
  "str_of_int i = (let s = show_int i in if max_str_digits < int (length s) then Inl ValueError else Inr s)"

definition stable_positive_text ::
    "(nat \<Rightarrow> bool) \<Rightarrow> (nat \<Rightarrow> nat option) \<Rightarrow> nat list \<Rightarrow> nat list res" where
  "stable_positive_text dig dec s =
     (if uni_isdigit dig s
      then bindE (int_of_digits dec s)
             (\<lambda>i. if 0 < i \<and> code_points (show_int i) = s then Inr s else Inl binding_invalid)
      else Inl binding_invalid)"

text \<open>The tables on the code points 0 to 255, of which the texts of a \<open>json\<close> value consist.\<close>

definition latin_digit :: "nat \<Rightarrow> bool" where
  "latin_digit c \<longleftrightarrow> 48 \<le> c \<and> c \<le> 57 \<or> c \<in> {178, 179, 185}"

definition latin_decimal :: "nat \<Rightarrow> nat option" where
  "latin_decimal c = (if 48 \<le> c \<and> c \<le> 57 then Some (c - 48) else None)"

definition stable_positive_id :: "json \<Rightarrow> string res" where
  "stable_positive_id v = (case v of
       JInt i \<Rightarrow> if 0 < i then str_of_int i else Inl binding_invalid
     | JStr s \<Rightarrow> bindE (stable_positive_text latin_digit latin_decimal (code_points s)) (\<lambda>_. Inr s)
     | _ \<Rightarrow> Inl binding_invalid)"

definition stable_positive_id_list :: "json \<Rightarrow> string list res" where
  "stable_positive_id_list v = (case v of
       JArr xs \<Rightarrow> bindE (mapE stable_positive_id xs)
                  (\<lambda>ids. if distinct ids then Inr ids else Inl binding_invalid)
     | _ \<Rightarrow> Inl binding_invalid)"

section \<open>References\<close>

text \<open>\<open>{"type": kind, "id": value}\<close>.\<close>

definition subject :: "string \<Rightarrow> string \<Rightarrow> jobj" where
  "subject kind i = [(''type'', JStr kind), (''id'', JStr i)]"

text \<open>\<open>sorted(values, key=int)\<close>: every key is computed first.\<close>

definition sort_ids :: "string list \<Rightarrow> string list res" where
  "sort_ids ids =
     bindE (mapE py_int ids) (\<lambda>_. Inr (sort_key (\<lambda>s. case py_int s of Inr i \<Rightarrow> i | Inl _ \<Rightarrow> 0) ids))"

definition as_obj :: "json \<Rightarrow> jobj option" where
  "as_obj v = (case v of JObj d \<Rightarrow> Some d | _ \<Rightarrow> None)"

definition as_arr :: "json \<Rightarrow> json list option" where
  "as_arr v = (case v of JArr xs \<Rightarrow> Some xs | _ \<Rightarrow> None)"

definition obj_or_invalid :: "json \<Rightarrow> jobj res" where
  "obj_or_invalid v = (case v of JObj d \<Rightarrow> Inr d | _ \<Rightarrow> Inl binding_invalid)"

definition arr_or_invalid :: "json \<Rightarrow> json list res" where
  "arr_or_invalid v = (case v of JArr xs \<Rightarrow> Inr xs | _ \<Rightarrow> Inl binding_invalid)"

definition business_of :: "jobj \<Rightarrow> string \<Rightarrow> jobj option" where
  "business_of snapshot version = (case jget snapshot ''business'' of
       JObj b \<Rightarrow> if jget b ''version'' = JStr version then Some b else None
     | _ \<Rightarrow> None)"

definition direct_dept_fields :: "string \<Rightarrow> string list" where
  "direct_dept_fields tool =
     (if tool = ''dept.create'' then [''parent_id'']
      else if tool = ''dept.update'' then [''dept_id'']
      else [''dept_id'', ''new_parent_id''])"

definition dept_write_subjects :: "string \<Rightarrow> jobj \<Rightarrow> jobj \<Rightarrow> jobj list res" where
  "dept_write_subjects tool args snapshot =
     (case business_of snapshot ''phase3-dept-write/v1'' of
        None \<Rightarrow> Inl binding_invalid
      | Some business \<Rightarrow>
        bindE (obj_or_invalid (jget business ''facts'')) (\<lambda>facts.
        bindE (stable_positive_id_list (jget facts ''deptIds'')) (\<lambda>dept_ids.
        bindE (mapE (\<lambda>f. if jget args f = JNull then Inr ()
                 else bindE (stable_positive_id (jget args f))
                   (\<lambda>i. guardE (i \<in> set dept_ids) binding_invalid)) (direct_dept_fields tool)) (\<lambda>_.
        bindE (case (jget facts ''impact'', jget facts ''affectedRoles'') of
                 (JObj im, JArr ars) \<Rightarrow> Inr (im, ars) | _ \<Rightarrow> Inl binding_invalid) (\<lambda>(im, ars).
        bindE (mapE (\<lambda>k. stable_positive_id (JStr k)) (map fst im)) (\<lambda>users.
        bindE (case jget facts ''leader'' of
                 JNull \<Rightarrow> Inr []
               | JObj l \<Rightarrow> if jhas l ''userId''
                          then bindE (stable_positive_id (jget l ''userId'')) (\<lambda>i. Inr [i])
                          else Inl binding_invalid
               | _ \<Rightarrow> Inl binding_invalid) (\<lambda>leader.
        bindE (mapE (\<lambda>item. case item of
                 JObj r \<Rightarrow> if jhas r ''roleId'' then stable_positive_id (jget r ''roleId'') else Inl binding_invalid
               | _ \<Rightarrow> Inl binding_invalid) ars) (\<lambda>roles.
        bindE (sort_ids (remdups dept_ids)) (\<lambda>ds.
        bindE (sort_ids (remdups roles)) (\<lambda>rs.
        bindE (sort_ids (remdups (users @ leader))) (\<lambda>us.
          Inr (map (subject ''dept'') ds @ map (subject ''managed_role'') rs @ map (subject ''user'') us))))))))))))"

definition role_create_subjects :: "jobj \<Rightarrow> jobj \<Rightarrow> jobj list res" where
  "role_create_subjects args snapshot =
     (if business_of snapshot ''phase3-role-write/v1'' = None then Inl binding_invalid
      else bindE (if jget args ''dept_ids'' = JNull then Inr []
                  else stable_positive_id_list (jget args ''dept_ids'')) (\<lambda>ids.
           bindE (sort_ids ids) (\<lambda>ds. Inr (map (subject ''dept'') ds))))"

definition role_update_subjects :: "string \<Rightarrow> jobj \<Rightarrow> jobj \<Rightarrow> jobj list res" where
  "role_update_subjects tool args snapshot =
     bindE (stable_positive_id (jget args ''role_id'')) (\<lambda>role_id.
     bindE (if tool = ''role.update_agents''
            then (case as_obj (jget snapshot ''business'') of
                None \<Rightarrow> Inr False
              | Some b \<Rightarrow> (case as_obj (jget b ''targetRole'') of
                    None \<Rightarrow> Inr False
                  | Some tr \<Rightarrow> bindE (stable_positive_id (jget tr ''roleId''))
                      (\<lambda>i. Inr (i = role_id \<and> as_arr (jget b ''members'') \<noteq> None))))
            else Inr (business_of snapshot ''phase3-role-write/v1'' \<noteq> None)) (\<lambda>valid.
     if valid then Inr [subject ''managed_role'' role_id] else Inl binding_invalid))"

definition user_create_subjects :: "jobj \<Rightarrow> jobj list res" where
  "user_create_subjects args =
     Inr (if jget args ''primary_dept_id'' = JNull then []
          else [subject ''dept'' (py_str (jget args ''primary_dept_id''))])"

definition new_assignment_id :: "json \<Rightarrow> string res" where
  "new_assignment_id item = (case item of
       JObj d \<Rightarrow>
         if fst ` set d = {''dept_id'', ''is_primary''}
         then (case (jget d ''dept_id'', jget d ''is_primary'') of
                 (JInt i, JBool _) \<Rightarrow> Inr (show_int i) | _ \<Rightarrow> Inl binding_invalid)
         else Inl binding_invalid
     | _ \<Rightarrow> Inl binding_invalid)"

definition old_assignment_id :: "json \<Rightarrow> string res" where
  "old_assignment_id item = (case item of
       JObj d \<Rightarrow>
         if fst ` set d = {''deptId'', ''isPrimary''}
         then (case (jget d ''deptId'', jget d ''isPrimary'') of
                 (JStr s, JBool _) \<Rightarrow> if py_isdigit s then Inr s else Inl binding_invalid
               | _ \<Rightarrow> Inl binding_invalid)
         else Inl binding_invalid
     | _ \<Rightarrow> Inl binding_invalid)"

definition update_dept_subjects :: "jobj \<Rightarrow> jobj \<Rightarrow> jobj list res" where
  "update_dept_subjects args snapshot =
     (case (jget args ''user_id'', jget args ''dept_assignments'',
            (case as_obj (jget snapshot ''business'') of None \<Rightarrow> JNull | Some b \<Rightarrow> jget b ''oldAssignments'')) of
        (JInt uid, JArr news, JArr olds) \<Rightarrow>
          bindE (mapE new_assignment_id news) (\<lambda>new_ids.
          bindE (mapE old_assignment_id olds) (\<lambda>old_ids.
          bindE (sort_ids (remdups (new_ids @ old_ids))) (\<lambda>ds.
            Inr (subject ''user'' (show_int uid) # map (subject ''dept'') ds))))
      | _ \<Rightarrow> Inl binding_invalid)"

text \<open>The first failing disjunct of the guard decides; an \<open>int()\<close> in the last ones can raise.\<close>

definition old_role_id_ok :: "json \<Rightarrow> bool res" where
  "old_role_id_ok v = (case v of
       JStr s \<Rightarrow>
         if uni_isdigit latin_digit (code_points s)
         then bindE (int_of_digits latin_decimal (code_points s)) (\<lambda>i. Inr (0 < i \<and> show_int i = s))
         else Inr False
     | _ \<Rightarrow> Inr False)"

fun all_old_role_ids_ok :: "json list \<Rightarrow> bool res" where
  "all_old_role_ids_ok [] = Inr True"
| "all_old_role_ids_ok (v # vs) =
     bindE (old_role_id_ok v) (\<lambda>b. if b then all_old_role_ids_ok vs else Inr False)"

definition update_roles_subjects :: "jobj \<Rightarrow> jobj \<Rightarrow> jobj list res" where
  "update_roles_subjects args snapshot =
     (case (jget args ''user_id'', jget args ''role_ids'',
            (case as_obj (jget snapshot ''business'') of None \<Rightarrow> JNull | Some b \<Rightarrow> jget b ''oldRoleIds'')) of
        (JInt uid, JArr news, JArr olds) \<Rightarrow>
          if uid \<le> 0 \<or> news = [] \<or> \<not> list_all (\<lambda>v. case v of JInt i \<Rightarrow> 0 < i | _ \<Rightarrow> False) news \<or>
             \<not> distinct news \<or> olds = []
          then Inl binding_invalid
          else bindE (all_old_role_ids_ok olds) (\<lambda>ok.
            if \<not> ok \<or> \<not> distinct olds then Inl binding_invalid
            else bindE (sort_ids (remdups (map py_str news @ map py_str olds))) (\<lambda>rs.
              Inr (subject ''user'' (show_int uid) # subject ''complete_user_role_assignment'' (show_int uid) #
                   map (subject ''delegable_role'') rs)))
      | _ \<Rightarrow> Inl binding_invalid)"

definition scalar_fields :: "(string \<times> string \<times> string) list" where
  "scalar_fields = [(''user.reset_password'', ''user_id'', ''user''), (''user.update'', ''user_id'', ''user'')]"

definition build_subject_refs ::
    "string \<Rightarrow> jobj \<Rightarrow> jobj \<Rightarrow> jobj option \<Rightarrow> string option \<Rightarrow> jobj list res" where
  "build_subject_refs tool args snapshot subject_ref projection_kind =
     (case subject_ref of
        Some r \<Rightarrow> Inr [r]
      | None \<Rightarrow>
        if projection_kind \<in> {Some ''none'', Some ''scope_bound''} then Inr []
        else if tool \<in> {''dept.create'', ''dept.update'', ''dept.move''}
        then dept_write_subjects tool args snapshot
        else if tool = ''role.create'' then role_create_subjects args snapshot
        else if tool \<in> {''role.update'', ''role.update_menus'', ''role.update_agents''}
        then role_update_subjects tool args snapshot
        else if tool = ''user.create'' then user_create_subjects args
        else if tool = ''user.update_dept'' then update_dept_subjects args snapshot
        else if tool = ''user.update_roles'' then update_roles_subjects args snapshot
        else if tool = ''job.update_cron''
        then bindE (stable_positive_id (jget args ''job_id'')) (\<lambda>i. Inr [subject ''job'' i])
        else (case map_of scalar_fields tool of
            Some (field, kind) \<Rightarrow>
              if jget args field = JNull then Inl binding_invalid
              else Inr [subject kind (py_str (jget args field))]
          | None \<Rightarrow>
              if tool = ''user.batch_delete''
              then (case jget args ''user_ids'' of
                      JArr vs \<Rightarrow> if vs = [] then Inl binding_invalid
                                else Inr (map (\<lambda>v. subject ''user'' (py_str v)) vs)
                    | _ \<Rightarrow> Inl binding_invalid)
              else Inl binding_invalid))"

end
