(* ===== verification/Prepared_Subjects_Props.thy ===== *)
theory Prepared_Subjects_Props
  imports Prepared_Subjects
begin

text \<open>
  Properties of the stable identifiers and of the authorization targets of a prepared action.
\<close>

section \<open>Identifiers\<close>

lemma code_points_inj [simp]: "code_points s = code_points t \<longleftrightarrow> s = t"
  unfolding code_points_def by (rule inj_map_eq_map) (simp add: inj_def)

lemma length_code_points [simp]: "length (code_points s) = length s"
  by (simp add: code_points_def)

text \<open>What the checks rely on in the Unicode tables: a decimal digit is a digit, and the ASCII digits
  have their values.\<close>

definition unicode_tables :: "(nat \<Rightarrow> bool) \<Rightarrow> (nat \<Rightarrow> nat option) \<Rightarrow> bool" where
  "unicode_tables dig dec \<longleftrightarrow> (\<forall>c. dec c \<noteq> None \<longrightarrow> dig c) \<and> (\<forall>d < 10. dec (48 + d) = Some d)"

lemma latin_tables: "unicode_tables latin_digit latin_decimal"
  by (simp add: unicode_tables_def latin_digit_def latin_decimal_def)

lemma ascii_decimal:
  assumes "unicode_tables dig dec" "is_dec c"
  shows "dec (of_char c) = Some (digit_val c)" "dig (of_char c)"
proof -
  have c: "(of_char c :: nat) = 48 + digit_val c" "digit_val c < 10"
    using assms(2) by (auto simp: is_dec_def digit_val_def)
  with assms(1) show d: "dec (of_char c) = Some (digit_val c)" by (auto simp: unicode_tables_def)
  with assms(1) show "dig (of_char c)" by (auto simp: unicode_tables_def)
qed

lemma positive_digits: "0 < i \<Longrightarrow> \<forall>c \<in> set (show_int i). is_dec c"
  by (auto simp: show_int_def dest: show_nat_dec)

lemma foldl_decimal:
  assumes "unicode_tables dig dec" "\<forall>c \<in> set s. is_dec c"
  shows "foldl (\<lambda>a c. 10 * a + (case dec c of None \<Rightarrow> 0 | Some d \<Rightarrow> d)) a (code_points s) =
    foldl (\<lambda>a c. 10 * a + digit_val c) a s"
  using assms(2) by (induction s arbitrary: a) (simp_all add: code_points_def ascii_decimal[OF assms(1)])

text \<open>\<open>int()\<close> of the decimal text of a positive integer.\<close>

lemma int_of_canonical:
  assumes "unicode_tables dig dec" "0 < i"
  shows "uni_isdigit dig (code_points (show_int i))"
    "int_of_digits dec (code_points (show_int i)) =
      (if max_str_digits < int (length (show_int i)) then Inl ValueError else Inr i)"
proof -
  note d = positive_digits[OF assms(2)]
  show "uni_isdigit dig (code_points (show_int i))"
    using d ascii_decimal(2)[OF assms(1)] by (auto simp: uni_isdigit_def list_all_iff code_points_def)
  have "list_all (\<lambda>c. dec c \<noteq> None) (code_points (show_int i))"
    using d ascii_decimal(1)[OF assms(1)] by (auto simp: list_all_iff code_points_def)
  moreover have "int (parse_dec (show_int i)) = i" using assms(2) by (simp add: show_int_def)
  ultimately show "int_of_digits dec (code_points (show_int i)) =
      (if max_str_digits < int (length (show_int i)) then Inl ValueError else Inr i)"
    using foldl_decimal[OF assms(1) d, of 0] by (simp add: int_of_digits_def parse_dec_def)
qed

text \<open>The three ways the check of a text ends.\<close>

lemma stable_text_cases:
  assumes "unicode_tables dig dec"
  shows "stable_positive_text dig dec s =
    (if uni_isdigit dig s \<and> (max_str_digits < int (length s) \<or> (\<exists>c \<in> set s. dec c = None)) then Inl ValueError
     else if \<exists>i. 0 < i \<and> s = code_points (show_int i) then Inr s else Inl binding_invalid)"
proof (cases "\<exists>i. 0 < i \<and> s = code_points (show_int i)")
  case True
  then obtain i where i: "0 < i" "s = code_points (show_int i)" by blast
  have "\<not> (\<exists>c \<in> set s. dec c = None)"
    using positive_digits[OF i(1)] ascii_decimal(1)[OF assms] by (auto simp: i(2) code_points_def)
  with i int_of_canonical[OF assms i(1)] show ?thesis by (auto simp: stable_positive_text_def)
next
  case False
  have bad: "\<not> list_all (\<lambda>c. dec c \<noteq> None) s \<longleftrightarrow> (\<exists>c \<in> set s. dec c = None)" by (auto simp: list_all_iff)
  have "code_points (show_nat n) \<noteq> s" if "0 < n" for n
    using False that show_int_of_nat[of n] by (metis of_nat_0_less_iff)
  then show ?thesis
    unfolding stable_positive_text_def int_of_digits_def bad using False by auto
qed

lemma latin_text:
  "uni_isdigit latin_digit (code_points t) = py_isdigit t"
  "(\<exists>c \<in> set (code_points t). latin_decimal c = None) \<longleftrightarrow> \<not> list_all is_dec t"
  by (auto simp: uni_isdigit_def py_isdigit_def code_points_def latin_digit_def is_dec_def list_all_iff latin_decimal_def)

lemmas stable_id_cases = stable_text_cases[OF latin_tables]

text \<open>Property C14: stable identifiers are canonical positive decimals. An identifier is accepted exactly
  when it is a positive integer or the decimal text of one without sign, leading zero or space,
  of at most 4300 digits (the limit of Python's conversions), and the accepted text is that decimal
  text, which reads back as the integer.\<close>

theorem stable_id_canonical:
  "stable_positive_id v = Inr s \<longleftrightarrow>
     (\<exists>i. 0 < i \<and> s = show_int i \<and> py_int s = Inr i \<and> length s \<le> 4300 \<and> (v = JInt i \<or> v = JStr (show_int i)))"
proof (cases v)
  case (JStr t)
  have ok: "py_isdigit (show_int i)" "list_all is_dec (show_int i)" if "0 < i" for i
    using that by (simp_all add: show_int_def)
  show ?thesis
    unfolding JStr by (auto simp: stable_positive_id_def stable_id_cases latin_text max_str_digits_def ok res_simps split: if_splits)
qed (auto simp: stable_positive_id_def str_of_int_def Let_def max_str_digits_def split: if_splits)

text \<open>Property C15: the identifier check fails in two ways. Whatever the Unicode tables of digits are,
  a text is refused with the binding error unless it is a text of digits of which one is no decimal
  digit (a superscript or a circled digit) or which has more than 4300 digits: there \<open>str.isdigit\<close>
  passes and \<open>int\<close> raises \<open>ValueError\<close> out of the check. On the texts of the model and on the other
  values the failures are the same, and an integer of more than 4300 digits raises too.\<close>

theorem stable_id_failures:
  assumes "\<forall>c. dec c \<noteq> None \<longrightarrow> dig c" and "\<forall>d < 10. dec (48 + d) = Some d"
  shows "(stable_positive_text dig dec s = Inl e \<longleftrightarrow>
      (if s \<noteq> [] \<and> list_all dig s \<and> (4300 < length s \<or> (\<exists>c \<in> set s. dec c = None)) then e = ValueError
       else e = binding_invalid \<and> \<not> (\<exists>i. 0 < i \<and> s = map of_char (show_int i)))) \<and>
    (stable_positive_id v = Inl e \<longleftrightarrow>
      (if (\<exists>i. v = JInt i \<and> 0 < i \<and> 4300 < length (show_int i)) \<or>
          (\<exists>t. v = JStr t \<and> py_isdigit t \<and> (4300 < length t \<or> \<not> list_all is_dec t)) then e = ValueError
       else e = binding_invalid \<and> \<not> (\<exists>i. 0 < i \<and> (v = JInt i \<or> v = JStr (show_int i)))))"
proof
  have tables: "unicode_tables dig dec" using assms by (simp add: unicode_tables_def)
  show "stable_positive_text dig dec s = Inl e \<longleftrightarrow>
      (if s \<noteq> [] \<and> list_all dig s \<and> (4300 < length s \<or> (\<exists>c \<in> set s. dec c = None)) then e = ValueError
       else e = binding_invalid \<and> \<not> (\<exists>i. 0 < i \<and> s = map of_char (show_int i)))"
    by (auto simp: stable_text_cases[OF tables] uni_isdigit_def max_str_digits_def code_points_def)
  show "stable_positive_id v = Inl e \<longleftrightarrow>
      (if (\<exists>i. v = JInt i \<and> 0 < i \<and> 4300 < length (show_int i)) \<or>
          (\<exists>t. v = JStr t \<and> py_isdigit t \<and> (4300 < length t \<or> \<not> list_all is_dec t)) then e = ValueError
       else e = binding_invalid \<and> \<not> (\<exists>i. 0 < i \<and> (v = JInt i \<or> v = JStr (show_int i))))"
    by (cases v) (auto simp: stable_positive_id_def stable_id_cases latin_text max_str_digits_def str_of_int_def Let_def)
qed

text \<open>A table that knows the superscript four and the Arabic-Indic digits: a one with that superscript
  raises, a number in Arabic-Indic digits is refused.\<close>

definition demo_decimal :: "nat \<Rightarrow> nat option" where
  "demo_decimal c = (if 48 \<le> c \<and> c \<le> 57 then Some (c - 48)
     else if 0x660 \<le> c \<and> c \<le> 0x669 then Some (c - 0x660) else None)"

definition demo_digit :: "nat \<Rightarrow> bool" where
  "demo_digit c \<longleftrightarrow> demo_decimal c \<noteq> None \<or> c = 0x2074"

theorem stable_id_failures_witness:
  "stable_positive_text demo_digit demo_decimal [49, 0x2074] = Inl ValueError \<and>
   stable_positive_text demo_digit demo_decimal [0x661, 0x662] = Inl binding_invalid \<and>
   stable_positive_id (JStr ''07'') = Inl binding_invalid"
proof -
  have t: "\<forall>c. demo_decimal c \<noteq> None \<longrightarrow> demo_digit c" "\<forall>d < 10. demo_decimal (48 + d) = Some d"
    by (auto simp: demo_digit_def demo_decimal_def)
  have canon: "([0x661, 0x662] :: nat list) \<noteq> map of_char (show_int i)" if "0 < i" for i
    using positive_digits[OF that] by (auto simp: is_dec_def)
  have zero: "''07'' \<noteq> show_int i" if "0 < i" for i
  proof
    assume e: "''07'' = show_int i"
    then have "py_int ''07'' = Inr i" by simp
    moreover have "py_int ''07'' = Inr 7" by code_simp
    ultimately have "i = 7" by simp
    moreover have "show_int 7 = ''7''" by code_simp
    ultimately show False using e by simp
  qed
  note texts = conjunct1[OF stable_id_failures[OF t]] and ident = conjunct2[OF stable_id_failures[OF t]]
  have "stable_positive_text demo_digit demo_decimal [49, 0x2074] = Inl ValueError"
    unfolding texts by (simp add: demo_digit_def demo_decimal_def)
  moreover have "stable_positive_text demo_digit demo_decimal [0x661, 0x662] = Inl binding_invalid"
  proof -
    have "\<not> (\<exists>c \<in> set [0x661, 0x662]. demo_decimal c = None)" by (simp add: demo_decimal_def)
    with canon show ?thesis unfolding texts by auto
  qed
  moreover have "stable_positive_id (JStr ''07'') = Inl binding_invalid"
    unfolding ident using zero by (auto simp: is_dec_def)
  ultimately show ?thesis by blast
qed

section \<open>Role assignments\<close>

lemma insort_key_map_cong:
  "\<forall>y \<in> insert x (set xs). f (g y) = (y :: int) \<Longrightarrow> insort_key f (g x) (map g xs) = map g (insort x xs)"
  by (induction xs) auto

lemma sort_key_map_cong:
  "\<forall>y \<in> set xs. f (g y) = (y :: int) \<Longrightarrow> sort_key f (map g xs) = map g (sort xs)"
  by (induction xs) (simp_all add: insort_key_map_cong)

lemma mapE_py_int_show: "mapE py_int (map show_int xs) = Inr xs"
  by (induction xs) auto

lemma sort_ids_show:
  assumes "\<forall>i \<in> set xs. 0 < i"
  shows "sort_ids (remdups (map show_int xs)) = Inr (map show_int (sorted_list_of_set (set xs)))"
proof -
  have "remdups (map show_int xs) = map show_int (remdups xs)"
    by (induction xs) auto
  moreover have "\<forall>i \<in> set (remdups xs). 0 < i" using assms by simp
  moreover from this have "sort_key (\<lambda>s. case py_int s of Inr i \<Rightarrow> i | Inl _ \<Rightarrow> 0) (map show_int (remdups xs)) =
      map show_int (sort (remdups xs))"
    by (intro sort_key_map_cong) simp
  ultimately show ?thesis
    by (simp add: sort_ids_def mapE_py_int_show sorted_list_of_set_sort_remdups)
qed

lemma positive_ints:
  "list_all (\<lambda>v. case v of JInt i \<Rightarrow> 0 < i | _ \<Rightarrow> False) vs \<Longrightarrow> \<exists>is. vs = map JInt is \<and> (\<forall>i \<in> set is. 0 < i)"
proof (induction vs)
  case (Cons v vs)
  then obtain "is" where "vs = map JInt is" "\<forall>i \<in> set is. 0 < i" by auto
  moreover from Cons.prems obtain i where "v = JInt i" "0 < i" by (auto split: json.splits)
  ultimately show ?case by (intro exI[of _ "i # is"]) simp
qed simp

lemma old_role_id_okD: "old_role_id_ok v = Inr True \<Longrightarrow> \<exists>i. v = JStr (show_int i) \<and> 0 < i"
  by (cases v) (auto simp: old_role_id_ok_def res_simps split: if_splits)

lemma old_role_ids:
  "all_old_role_ids_ok vs = Inr True \<Longrightarrow> \<exists>is. vs = map (\<lambda>i. JStr (show_int i)) is \<and> (\<forall>i \<in> set is. 0 < i)"
proof (induction vs)
  case (Cons v vs)
  then obtain "is" where "vs = map (\<lambda>i. JStr (show_int i)) is" "\<forall>i \<in> set is. 0 < i"
    by (auto simp: res_simps split: if_splits)
  moreover from Cons.prems obtain i where "v = JStr (show_int i)" "0 < i"
    using old_role_id_okD by (auto simp: res_simps split: if_splits)
  ultimately show ?case by (intro exI[of _ "i # is"]) simp
qed simp

text \<open>A role change is authorized for every role it touches. The targets recorded for
  \<open>user.update_roles\<close> are the user, the completeness of that user's assignment, and one delegable
  role for exactly the new and the old role ids, each once and in ascending order.\<close>

theorem role_change_targets_complete:
  assumes "build_subject_refs ''user.update_roles'' args snapshot None kind = Inr refs"
    and "kind \<noteq> Some ''none''" "kind \<noteq> Some ''scope_bound''"
  shows "\<exists>uid new old. 0 < uid \<and> jget args ''user_id'' = JInt uid \<and> jget args ''role_ids'' = JArr (map JInt new) \<and>
    new \<noteq> [] \<and> old \<noteq> [] \<and> (\<forall>i \<in> set new \<union> set old. 0 < i) \<and>
    refs = subject ''user'' (show_int uid) # subject ''complete_user_role_assignment'' (show_int uid) #
      map (\<lambda>i. subject ''delegable_role'' (show_int i)) (sorted_list_of_set (set new \<union> set old)) \<and>
    (\<exists>b. jget snapshot ''business'' = JObj b \<and> jget b ''oldRoleIds'' = JArr (map (\<lambda>i. JStr (show_int i)) old))"
proof -
  have u: "update_roles_subjects args snapshot = Inr refs"
    using assms by (simp add: build_subject_refs_def)
  then obtain uid news olds b where v: "jget args ''user_id'' = JInt uid" "jget args ''role_ids'' = JArr news"
    "jget snapshot ''business'' = JObj b" "jget b ''oldRoleIds'' = JArr olds"
    by (auto simp: update_roles_subjects_def as_obj_def split: json.splits)
  from u v have g: "0 < uid" "news \<noteq> []" "olds \<noteq> []"
    "list_all (\<lambda>v. case v of JInt i \<Rightarrow> 0 < i | _ \<Rightarrow> False) news" "all_old_role_ids_ok olds = Inr True"
    by (auto simp: update_roles_subjects_def as_obj_def res_simps split: if_splits)
  from positive_ints[OF g(4)] old_role_ids[OF g(5)] obtain new old
    where n: "news = map JInt new" "\<forall>i \<in> set new. 0 < i"
      and o: "olds = map (\<lambda>i. JStr (show_int i)) old" "\<forall>i \<in> set old. 0 < i" by blast
  have strs: "map py_str news @ map py_str olds = map show_int (new @ old)"
    by (simp add: n o py_str_def comp_def)
  have "\<forall>i \<in> set (new @ old). 0 < i" using n(2) o(2) by auto
  from sort_ids_show[OF this] u v have "refs = subject ''user'' (show_int uid) #
      subject ''complete_user_role_assignment'' (show_int uid) #
      map (subject ''delegable_role'') (map show_int (sorted_list_of_set (set new \<union> set old)))"
    by (simp only: update_roles_subjects_def as_obj_def strs json.case option.case prod.case res_simps set_append)
      (auto simp: res_simps split: if_splits)
  then show ?thesis
    using v g(1-3) n o by (intro exI[of _ uid] exI[of _ new] exI[of _ old]) (auto simp: comp_def)
qed

theorem role_change_targets_complete_witness:
  "build_subject_refs ''user.update_roles'' [(''user_id'', JInt 7), (''role_ids'', JArr [JInt 12, JInt 3])]
     [(''business'', JObj [(''oldRoleIds'', JArr [JStr ''5'', JStr ''12''])])] None None =
   Inr [subject ''user'' ''7'', subject ''complete_user_role_assignment'' ''7'', subject ''delegable_role'' ''3'',
        subject ''delegable_role'' ''5'', subject ''delegable_role'' ''12''] \<and>
   (\<exists>old. map (\<lambda>i. JStr (show_int i)) old = [JStr ''5'', JStr ''12''])"
proof -
  have e: "build_subject_refs ''user.update_roles'' [(''user_id'', JInt 7), (''role_ids'', JArr [JInt 12, JInt 3])]
     [(''business'', JObj [(''oldRoleIds'', JArr [JStr ''5'', JStr ''12''])])] None None =
   Inr [subject ''user'' ''7'', subject ''complete_user_role_assignment'' ''7'', subject ''delegable_role'' ''3'',
        subject ''delegable_role'' ''5'', subject ''delegable_role'' ''12'']"
    by code_simp
  from role_change_targets_complete[OF this] obtain old b where
    "jget [(''business'', JObj [(''oldRoleIds'', JArr [JStr ''5'', JStr ''12''])])] ''business'' = JObj b"
    "jget b ''oldRoleIds'' = JArr (map (\<lambda>i. JStr (show_int i)) old)" by blast
  then have "map (\<lambda>i. JStr (show_int i)) old = [JStr ''5'', JStr ''12'']" by (auto simp: jget_def)
  with e show ?thesis by (intro conjI exI[of _ old])
qed

end
