(* ===== verification/Projection.thy ===== *)
theory Projection
  imports Prepared_Subjects Role_Assignment "HOL-Library.List_Lexorder" "HOL-Library.Char_ord"
    "HOL-Library.Product_Lexorder"
begin

text \<open>
  The lineage that \<open>app/modules/ai/service/result_projection_service.py\<close> freezes with every persisted
  AI result, in a canonical form: tool codes and dependencies sorted and distinct, subjects as
  sorted distinct pairs of type and id. \<open>h\<close> is the SHA-256 of canonical JSON (\<open>_canonical_hash\<close>,
  and \<open>canonical_payload_hash\<close> of the prepared actions).
\<close>

section \<open>Lineage\<close>

definition DATA_SCOPE_RESOLVER_VERSION :: string where
  "DATA_SCOPE_RESOLVER_VERSION = ''data-scope-union/v1''"

record lineage =
  ln_tenant_id :: int
  ln_agent_code :: string
  ln_tool_codes :: "string list"
  ln_subject_refs :: "(string \<times> string) list"
  ln_subject_refs_hash :: string
  ln_data_scope_hash :: "string option"
  ln_resolver_version :: string
  ln_dependency_ids :: "int list"

text \<open>A canonical subject is a pair of its type and id; \<open>ref_json\<close> is the dictionary.\<close>

definition ref_json :: "string \<times> string \<Rightarrow> json" where
  "ref_json r = JObj (subject (fst r) (snd r))"

text \<open>\<open>sorted(set(...))\<close>.\<close>

definition sorted_set :: "'a::linorder list \<Rightarrow> 'a list" where
  "sorted_set xs = sort (remdups xs)"

definition normalize_tool_codes :: "string list \<Rightarrow> string list" where
  "normalize_tool_codes codes = sorted_set (filter (\<lambda>s. s \<noteq> []) (map py_strip codes))"

definition normalize_subject_ref :: "json \<Rightarrow> (string \<times> string) res" where
  "normalize_subject_ref v = (case v of
       JObj d \<Rightarrow>
         if fst ` set d \<noteq> {''type'', ''id''} then Inl ValueError
         else let ty = py_strip (py_str (jget d ''type'')); i = py_strip (py_str (jget d ''id''))
              in if ty = [] \<or> i = [] then Inl ValueError else Inr (ty, i)
     | _ \<Rightarrow> Inl ValueError)"

definition normalize_subject_refs :: "json list \<Rightarrow> (string \<times> string) list res" where
  "normalize_subject_refs vs = bindE (mapE normalize_subject_ref vs) (\<lambda>refs. Inr (sorted_set refs))"

definition normalize_dependency_ids :: "id_arg list \<Rightarrow> int list res" where
  "normalize_dependency_ids vs =
     bindE (mapE id_to_int vs) (\<lambda>ids.
       if \<exists>i \<in> set ids. i \<le> 0 then Inl ValueError else Inr (sorted_set ids))"

definition subject_refs_hash :: "(json \<Rightarrow> string) \<Rightarrow> (string \<times> string) list \<Rightarrow> string" where
  "subject_refs_hash h refs = h (JObj [(''subjectRefs'', JArr (map ref_json refs))])"

definition freeze_lineage ::
    "(json \<Rightarrow> string) \<Rightarrow> int \<Rightarrow> string \<Rightarrow> string list \<Rightarrow> json list \<Rightarrow> string option \<Rightarrow> string \<Rightarrow> id_arg list \<Rightarrow>
     lineage res" where
  "freeze_lineage h t agent codes refs scope_hash version deps =
     bindE (normalize_subject_refs refs) (\<lambda>nrefs.
     bindE (normalize_dependency_ids deps) (\<lambda>ndeps.
     Inr \<lparr>ln_tenant_id = t, ln_agent_code = agent, ln_tool_codes = normalize_tool_codes codes,
          ln_subject_refs = nrefs, ln_subject_refs_hash = subject_refs_hash h nrefs,
          ln_data_scope_hash = scope_hash, ln_resolver_version = version, ln_dependency_ids = ndeps\<rparr>))"

section \<open>Lineage columns of a row\<close>

text \<open>The nullable columns in which a message or a prepared action stores its lineage; the tenant and
  the agent code are columns of their own.\<close>

record projection_columns =
  pc_tool_codes :: "string list option"
  pc_subject_refs :: "json list option"
  pc_subject_refs_hash :: "string option"
  pc_data_scope_hash :: "string option"
  pc_resolver_version :: "string option"
  pc_dependency_ids :: "id_arg list option"

definition lineage_from_record :: "int \<Rightarrow> string option \<Rightarrow> projection_columns \<Rightarrow> bool \<Rightarrow> lineage option" where
  "lineage_from_record t agent_code c include_deps =
     (case (agent_code, pc_tool_codes c, pc_subject_refs c, pc_subject_refs_hash c,
            pc_resolver_version c) of
        (Some agent, Some codes, Some refs, Some rh, Some ver) \<Rightarrow>
          (case normalize_subject_refs refs of
             Inl _ \<Rightarrow> None
           | Inr nrefs \<Rightarrow>
             (case (if include_deps
                    then (case pc_dependency_ids c of
                            None \<Rightarrow> None
                          | Some ds \<Rightarrow> (case normalize_dependency_ids ds of Inl _ \<Rightarrow> None | Inr i \<Rightarrow> Some i))
                    else Some []) of
                None \<Rightarrow> None
              | Some deps \<Rightarrow> Some
                  \<lparr>ln_tenant_id = t, ln_agent_code = agent, ln_tool_codes = normalize_tool_codes codes,
                   ln_subject_refs = nrefs, ln_subject_refs_hash = rh,
                   ln_data_scope_hash = pc_data_scope_hash c, ln_resolver_version = ver,
                   ln_dependency_ids = deps\<rparr>))
      | _ \<Rightarrow> None)"

text \<open>What a writer stores for a frozen lineage; dependencies are stored as decimal strings.\<close>

definition lineage_columns :: "lineage \<Rightarrow> projection_columns" where
  "lineage_columns l =
     \<lparr>pc_tool_codes = Some (ln_tool_codes l), pc_subject_refs = Some (map ref_json (ln_subject_refs l)),
      pc_subject_refs_hash = Some (ln_subject_refs_hash l),
      pc_data_scope_hash = ln_data_scope_hash l, pc_resolver_version = Some (ln_resolver_version l),
      pc_dependency_ids = Some (map (\<lambda>i. IdStr (show_int i)) (ln_dependency_ids l))\<rparr>"

definition projection_json :: "lineage \<Rightarrow> jobj" where
  "projection_json l =
     [(''agentCode'', JStr (ln_agent_code l)), (''toolCodes'', JArr (map JStr (ln_tool_codes l))),
      (''subjectRefs'', JArr (map ref_json (ln_subject_refs l))),
      (''subjectRefsHash'', JStr (ln_subject_refs_hash l)),
      (''dataScopeHash'', (case ln_data_scope_hash l of None \<Rightarrow> JNull | Some s \<Rightarrow> JStr s)),
      (''resolverVersion'', JStr (ln_resolver_version l)),
      (''projectionDependencyMessageIds'', JArr (map JInt (ln_dependency_ids l)))]"

definition projection_hash :: "(json \<Rightarrow> string) \<Rightarrow> lineage \<Rightarrow> string" where
  "projection_hash h l = h (JObj ((''tenantId'', JInt (ln_tenant_id l)) # projection_json l))"

text \<open>\<open>projection_dependency_message_ids\<close>: None for legacy rows.\<close>

definition dependency_message_ids :: "projection_columns \<Rightarrow> int list option" where
  "dependency_message_ids c =
     (case pc_dependency_ids c of
        None \<Rightarrow> None
      | Some ds \<Rightarrow> (case normalize_dependency_ids ds of Inl _ \<Rightarrow> None | Inr ids \<Rightarrow> Some ids))"

end
