(* ===== verification/Prepared_Action.thy ===== *)
theory Prepared_Action
  imports Projection Hitl Role_Delegation
begin

text \<open>
  The life of a prepared action in \<open>app/modules/ai/service/prepared_action_service.py\<close>: its legal
  transitions, the compare-and-set update that performs them, the lease of a running executor,
  the queries, the validation at confirmation time and the deletion of a conversation. Times are
  instants (\<open>int\<close>); \<open>now\<close> is the clock reading of the operation. A row's columns are grouped in the
  frozen ones (\<open>action_binding\<close>), the projection lineage and the ones a transition writes.
\<close>

section \<open>Rows\<close>

datatype pstatus =
    PREPARED | PENDING_CONFIRMATION | APPROVED_STATUS | RUNNING | SUCCEEDED | FAILED
  | REJECTED_STATUS | EXPIRED

fun is_terminal :: "pstatus \<Rightarrow> bool" where
  "is_terminal SUCCEEDED = True"
| "is_terminal FAILED = True"
| "is_terminal REJECTED_STATUS = True"
| "is_terminal EXPIRED = True"
| "is_terminal _ = False"

fun allowed_transitions :: "pstatus \<Rightarrow> pstatus set" where
  "allowed_transitions PREPARED = {PENDING_CONFIRMATION, EXPIRED}"
| "allowed_transitions PENDING_CONFIRMATION = {APPROVED_STATUS, REJECTED_STATUS, EXPIRED}"
| "allowed_transitions APPROVED_STATUS = {RUNNING, FAILED}"
| "allowed_transitions RUNNING = {SUCCEEDED, FAILED}"
| "allowed_transitions _ = {}"

record action_binding =
  ab_confirmation_id :: string
  ab_interaction_flow :: string
  ab_requested_outcome :: string
  ab_prepare_tool_call_id :: "string option"
  ab_execute_tool_call_id :: string
  ab_execute_tool_name :: string
  ab_frozen_args :: jobj
  ab_args_hash :: string
  ab_snapshot :: "jobj option"
  ab_snapshot_hash :: string
  ab_subject_ref :: "jobj option"
  ab_presentation :: json
  ab_user_id :: int
  ab_tenant_id :: int
  ab_conversation_id :: int
  ab_source_message_id :: int
  ab_trace_id :: string
  ab_agent_code :: string
  ab_model_id :: int
  ab_provider_id :: int
  ab_command_action :: string
  ab_risk_level :: string
  ab_chip_target :: "string option"
  ab_expires_at :: int

record prepared_action =
  action_id :: int
  created_at :: int
  frozen :: action_binding
  pa_projection :: projection_columns
  pa_status :: pstatus
  row_version :: int
  approved_by :: "int option"
  approved_at :: "int option"
  finished_at :: "int option"
  error_code :: "string option"
  result_data :: json
  result_ui :: "json option"
  duration_ms :: "int option"
  execution_owner :: "string option"
  execution_lease :: "int option"
  guard_owner_token :: "string option"

record op_log =
  log_id :: int
  log_tenant :: int
  log_user :: int
  log_conversation :: int
  log_tool_call_id :: string
  log_status :: string
  log_summary :: "string option"
  log_readonly_snapshot :: bool
  log_source_message :: "int option"
  log_error_code :: "string option"

record conversation =
  cv_id :: int
  cv_tenant :: int
  cv_user :: int
  cv_deleted_at :: "int option"

record message =
  ms_id :: int
  ms_tenant :: int
  ms_conversation :: int
  ms_role :: string
  ms_active :: bool
  ms_agent_code :: "string option"
  ms_projection :: projection_columns

record action_db =
  actions :: "prepared_action list"
  op_logs :: "op_log list"
  conversations :: "conversation list"
  messages :: "message list"

section \<open>Reads\<close>

definition RECONCILIATION_MARKER :: string where
  "RECONCILIATION_MARKER = ''__v0162_reconciliation_v1''"

definition summary_contains :: "string \<Rightarrow> op_log \<Rightarrow> bool" where
  "summary_contains w l = (case log_summary l of None \<Rightarrow> False | Some s \<Rightarrow> str_in w s)"

definition reconciling :: "action_db \<Rightarrow> prepared_action \<Rightarrow> bool" where
  "reconciling db a \<longleftrightarrow> (\<exists>l \<in> set (op_logs db). log_tenant l = ab_tenant_id (frozen a) \<and>
     log_tool_call_id l = ab_execute_tool_call_id (frozen a) \<and> summary_contains RECONCILIATION_MARKER l)"

definition get_by_confirmation_id :: "action_db \<Rightarrow> string \<Rightarrow> int \<Rightarrow> prepared_action option" where
  "get_by_confirmation_id db cid t =
     find (\<lambda>a. ab_tenant_id (frozen a) = t \<and> ab_confirmation_id (frozen a) = cid) (actions db)"

definition get_by_execute_tool_call_id :: "action_db \<Rightarrow> string \<Rightarrow> int \<Rightarrow> prepared_action option" where
  "get_by_execute_tool_call_id db tc t =
     find (\<lambda>a. ab_tenant_id (frozen a) = t \<and> ab_execute_tool_call_id (frozen a) = tc) (actions db)"

definition lock_source_binding :: "action_db \<Rightarrow> int \<Rightarrow> int \<Rightarrow> int \<Rightarrow> int \<Rightarrow> bool" where
  "lock_source_binding db conv src uid t \<longleftrightarrow>
     (\<exists>c \<in> set (conversations db). cv_tenant c = t \<and> cv_id c = conv \<and> cv_user c = uid \<and> cv_deleted_at c = None) \<and>
     (\<exists>m \<in> set (messages db). ms_tenant m = t \<and> ms_id m = src \<and> ms_conversation m = conv \<and>
        ms_role m = ''user'' \<and> ms_active m)"

text \<open>\<open>db0\<close> is read without locks, \<open>db1\<close> under the locks on conversation, source and action.\<close>

definition lock_confirmation_context ::
    "action_db \<Rightarrow> action_db \<Rightarrow> string \<Rightarrow> int \<Rightarrow> (prepared_action \<times> conversation \<times> message) option" where
  "lock_confirmation_context db0 db1 cid t =
     (case get_by_confirmation_id db0 cid t of
        None \<Rightarrow> None
      | Some ref \<Rightarrow>
        (case (find (\<lambda>c. cv_tenant c = t \<and> cv_id c = ab_conversation_id (frozen ref) \<and> cv_deleted_at c = None)
                 (conversations db1),
               find (\<lambda>m. ms_tenant m = t \<and> ms_id m = ab_source_message_id (frozen ref)) (messages db1),
               get_by_confirmation_id db1 cid t) of
           (Some c, Some m, Some a) \<Rightarrow> Some (a, c, m)
         | _ \<Rightarrow> None))"

definition list_pending_for_conversation :: "action_db \<Rightarrow> int \<Rightarrow> int \<Rightarrow> int \<Rightarrow> int \<Rightarrow> prepared_action list" where
  "list_pending_for_conversation db now conv uid t =
     sort_key created_at (sort_key action_id (filter (\<lambda>a.
        ab_conversation_id (frozen a) = conv \<and> ab_user_id (frozen a) = uid \<and> ab_tenant_id (frozen a) = t \<and>
        pa_status a = PENDING_CONFIRMATION \<and> now < ab_expires_at (frozen a) \<and>
        \<not> (\<exists>l \<in> set (op_logs db). log_tenant l = ab_tenant_id (frozen a) \<and>
            log_tool_call_id l = ab_execute_tool_call_id (frozen a) \<and>
            (log_status l \<noteq> ''pending_confirmation'' \<or> summary_contains RECONCILIATION_MARKER l)) \<and>
        (\<exists>c \<in> set (conversations db). cv_tenant c = ab_tenant_id (frozen a) \<and>
            cv_id c = ab_conversation_id (frozen a) \<and> cv_user c = uid \<and> cv_deleted_at c = None) \<and>
        (\<exists>m \<in> set (messages db). ms_tenant m = ab_tenant_id (frozen a) \<and>
            ms_id m = ab_source_message_id (frozen a) \<and> ms_conversation m = conv \<and>
            ms_role m = ''user'' \<and> ms_active m)) (actions db)))"

text \<open>\<open>unknown\<close> is the answer of the completion read-state service, asked only when no row matches.\<close>

definition has_in_progress_for_conversation :: "action_db \<Rightarrow> int \<Rightarrow> bool \<Rightarrow> int \<Rightarrow> int \<Rightarrow> int \<Rightarrow> bool" where
  "has_in_progress_for_conversation db now unknown conv uid t \<longleftrightarrow>
     (\<exists>a \<in> set (actions db). ab_conversation_id (frozen a) = conv \<and> ab_user_id (frozen a) = uid \<and>
        ab_tenant_id (frozen a) = t \<and>
        pa_status a \<in> {PREPARED, PENDING_CONFIRMATION, APPROVED_STATUS, RUNNING} \<and>
        (pa_status a \<noteq> PENDING_CONFIRMATION \<or> now < ab_expires_at (frozen a))) \<or> unknown"

definition pending_source_is_valid :: "action_db \<Rightarrow> prepared_action \<Rightarrow> int \<Rightarrow> bool" where
  "pending_source_is_valid db a t \<longleftrightarrow>
     (\<exists>m \<in> set (messages db). \<exists>c \<in> set (conversations db).
        cv_tenant c = ms_tenant m \<and> cv_id c = ms_conversation m \<and>
        ms_tenant m = t \<and> ms_tenant m = ab_tenant_id (frozen a) \<and> ms_id m = ab_source_message_id (frozen a) \<and>
        ms_conversation m = ab_conversation_id (frozen a) \<and> ms_role m = ''user'' \<and> ms_active m \<and>
        cv_user c = ab_user_id (frozen a) \<and> cv_deleted_at c = None)"

section \<open>Proposals\<close>

record proposal =
  pr_confirmation_id :: string
  pr_prepare_tool_call_id :: "string option"
  pr_prepare_tool_name :: "string option"
  pr_execute_tool_call_id :: string
  pr_execute_tool_name :: string
  pr_frozen_args :: jobj
  pr_snapshot :: jobj
  pr_snapshot_hash :: string
  pr_subject_ref :: "jobj option"
  pr_presentation :: jobj
  pr_interaction_flow :: string
  pr_requested_outcome :: string
  pr_user_id :: int
  pr_conversation_id :: int
  pr_source_message_id :: int
  pr_trace_id :: string
  pr_agent_code :: string
  pr_expires_at :: int
  pr_model_id :: "int option"
  pr_provider_id :: "int option"
  pr_data_scope_hash :: "string option"
  pr_projection_kind :: "string option"
  pr_guard_owner_token :: "string option"
  pr_command_action :: string
  pr_risk_level :: string
  pr_chip_target :: "string option"
  pr_dependency_ids :: "int list"
  pr_require_live_source :: bool

text \<open>\<open>{**d, k: v}\<close>.\<close>

definition jset :: "jobj \<Rightarrow> string \<Rightarrow> json \<Rightarrow> jobj" where
  "jset d k v = (if jhas d k then map (\<lambda>(k', x). if k' = k then (k', v) else (k', x)) d else d @ [(k, v)])"

definition outcome_ok :: "proposal \<Rightarrow> bool" where
  "outcome_ok p \<longleftrightarrow>
     pr_interaction_flow p = ''prepared'' \<and> pr_requested_outcome p = ''execute_if_approved'' \<or>
     pr_interaction_flow p = ''direct'' \<and> pr_requested_outcome p = ''direct''"

definition proposal_tools :: "proposal \<Rightarrow> string list res" where
  "proposal_tools p = (case (pr_prepare_tool_call_id p, pr_prepare_tool_name p) of
       (Some _, Some n) \<Rightarrow> if n = [] then Inl binding_invalid else Inr [pr_execute_tool_name p, n]
     | (Some _, None) \<Rightarrow> Inl binding_invalid
     | (None, Some _) \<Rightarrow> Inl binding_invalid
     | (None, None) \<Rightarrow> Inr [pr_execute_tool_name p])"

definition authorization_block :: "int \<Rightarrow> int \<Rightarrow> lineage \<Rightarrow> json" where
  "authorization_block model prov l = JObj
     [(''resolvedModelId'', JStr (show_int model)), (''resolvedProviderId'', JStr (show_int prov)),
      (''toolCodes'', JArr (map JStr (ln_tool_codes l))),
      (''subjectRefsHash'', JStr (ln_subject_refs_hash l)),
      (''dataScopeHash'', (case ln_data_scope_hash l of None \<Rightarrow> JNull | Some s \<Rightarrow> JStr s)),
      (''resolverVersion'', JStr (ln_resolver_version l)),
      (''projectionDependencyMessageIds'', JArr (map (\<lambda>i. JStr (show_int i)) (ln_dependency_ids l)))]"

definition pending_row ::
    "(json \<Rightarrow> string) \<Rightarrow> int \<Rightarrow> int \<Rightarrow> proposal \<Rightarrow> json \<Rightarrow> int \<Rightarrow> int \<Rightarrow> lineage \<Rightarrow> int \<Rightarrow> prepared_action" where
  "pending_row h now aid p shown model prov l t =
     (let snap = jset (pr_snapshot p) ''_authorization'' (authorization_block model prov l) in
      \<lparr>action_id = aid, created_at = now,
       frozen = \<lparr>ab_confirmation_id = pr_confirmation_id p, ab_interaction_flow = pr_interaction_flow p,
         ab_requested_outcome = pr_requested_outcome p, ab_prepare_tool_call_id = pr_prepare_tool_call_id p,
         ab_execute_tool_call_id = pr_execute_tool_call_id p, ab_execute_tool_name = pr_execute_tool_name p,
         ab_frozen_args = pr_frozen_args p, ab_args_hash = h (JObj (pr_frozen_args p)),
         ab_snapshot = Some snap, ab_snapshot_hash = h (JObj snap), ab_subject_ref = pr_subject_ref p,
         ab_presentation = shown, ab_user_id = pr_user_id p, ab_tenant_id = t,
         ab_conversation_id = pr_conversation_id p, ab_source_message_id = pr_source_message_id p,
         ab_trace_id = pr_trace_id p, ab_agent_code = pr_agent_code p, ab_model_id = model,
         ab_provider_id = prov, ab_command_action = pr_command_action p, ab_risk_level = pr_risk_level p,
         ab_chip_target = pr_chip_target p, ab_expires_at = pr_expires_at p\<rparr>,
       pa_projection = lineage_columns l, pa_status = PENDING_CONFIRMATION, row_version = 1,
       approved_by = None, approved_at = None, finished_at = None, error_code = None, result_data = JNull,
       result_ui = None, duration_ms = None, execution_owner = None, execution_lease = None,
       guard_owner_token = pr_guard_owner_token p\<rparr>)"

text \<open>\<open>INSERT\<close> under the primary key and the two unique constraints of the table.\<close>

definition insert_action :: "action_db \<Rightarrow> prepared_action \<Rightarrow> (prepared_action \<times> action_db) res" where
  "insert_action db a =
     (if \<exists>b \<in> set (actions db). action_id b = action_id a \<or>
           ab_tenant_id (frozen b) = ab_tenant_id (frozen a) \<and>
           (ab_confirmation_id (frozen b) = ab_confirmation_id (frozen a) \<or>
            ab_execute_tool_call_id (frozen b) = ab_execute_tool_call_id (frozen a))
      then Inl IntegrityError else Inr (a, db\<lparr>actions := actions db @ [a]\<rparr>))"

text \<open>\<open>present\<close> is the schema's validation of the presentation, \<open>aid\<close> the next generated id.\<close>

definition create_pending_action ::
    "(json \<Rightarrow> string) \<Rightarrow> (jobj \<Rightarrow> json res) \<Rightarrow> int \<Rightarrow> int \<Rightarrow> action_db \<Rightarrow> proposal \<Rightarrow> int \<Rightarrow>
     (prepared_action \<times> action_db) res" where
  "create_pending_action h present now aid db p t =
     (if pr_conversation_id p \<le> 0 \<or> pr_source_message_id p \<le> 0 \<or> pr_trace_id p = [] then Inl binding_invalid
      else (case (pr_model_id p, pr_provider_id p) of
        (Some model, Some prov) \<Rightarrow>
          if pr_snapshot p = [] \<or> pr_presentation p = [] \<or> \<not> outcome_ok p \<or>
             pr_require_live_source p \<and>
             \<not> lock_source_binding db (pr_conversation_id p) (pr_source_message_id p) (pr_user_id p) t
          then Inl binding_invalid
          else bindE (present (pr_presentation p)) (\<lambda>shown.
            if pr_snapshot_hash p \<noteq> [] \<and> pr_snapshot_hash p \<noteq> h (JObj (pr_snapshot p))
            then Inl binding_invalid
            else if pr_expires_at p \<le> now then Inl snapshot_stale
            else bindE (proposal_tools p) (\<lambda>tools.
                 bindE (build_subject_refs (pr_execute_tool_name p) (pr_frozen_args p) (pr_snapshot p)
                          (pr_subject_ref p) (pr_projection_kind p)) (\<lambda>refs.
                 bindE (guardE (\<not> (pr_projection_kind p = Some ''scope_bound'' \<and> pr_data_scope_hash p = None))
                          binding_invalid) (\<lambda>_.
                 bindE (freeze_lineage h t (pr_agent_code p) tools (map JObj refs) (pr_data_scope_hash p)
                          DATA_SCOPE_RESOLVER_VERSION (map IdInt (pr_dependency_ids p))) (\<lambda>l.
                 insert_action db (pending_row h now aid p shown model prov l t))))))
      | _ \<Rightarrow> Inl binding_invalid))"

section \<open>Transitions\<close>

record transition =
  tr_action_id :: int
  tr_expected_status :: pstatus
  tr_expected_version :: int
  tr_target :: pstatus
  tr_approved_by :: "int option"
  tr_error_code :: "string option"
  tr_result_data :: json
  tr_result_ui :: "json option"
  tr_duration_ms :: "int option"
  tr_execution_owner :: "string option"
  tr_expected_owner :: "string option"
  tr_retain_failed_owner :: bool
  tr_lease :: "int option"
  tr_lease_not_after :: "int option"
  tr_lineage :: "lineage option"
  tr_replace_lineage :: bool

definition is_hex_lower :: "char \<Rightarrow> bool" where
  "is_hex_lower c \<longleftrightarrow> is_dec c \<or> c \<in> {CHR ''a'', CHR ''b'', CHR ''c'', CHR ''d'', CHR ''e'', CHR ''f''}"

text \<open>\<open>str(UUID(s)) == s\<close>.\<close>

definition canonical_uuid :: "string \<Rightarrow> bool" where
  "canonical_uuid s \<longleftrightarrow> length s = 36 \<and>
     list_all (\<lambda>(i, c). if i \<in> {8, 13, 18, 23} then c = CHR ''-'' else is_hex_lower c) (enumerate 0 s)"

definition retained_owner_ok :: "transition \<Rightarrow> bool" where
  "retained_owner_ok tr \<longleftrightarrow>
     (case tr_expected_owner tr of None \<Rightarrow> False
      | Some ow \<Rightarrow> prefix ''v0162-db:'' ow \<and> canonical_uuid (drop (length ''v0162-db:'') ow)) \<and>
     tr_expected_status tr = RUNNING \<and> tr_target tr = FAILED"

definition owner_given :: "string option \<Rightarrow> bool" where
  "owner_given ow = (case ow of None \<Rightarrow> False | Some s \<Rightarrow> s \<noteq> [])"

definition check_transition :: "transition \<Rightarrow> int \<Rightarrow> unit res" where
  "check_transition tr t =
     (if tr_target tr \<notin> allowed_transitions (tr_expected_status tr)
      then Inl (BusinessRule ''AI_PREPARED_ACTION_STATE_INVALID'')
      else if (case tr_lineage tr of None \<Rightarrow> False | Some l \<Rightarrow> ln_tenant_id l \<noteq> t) then Inl binding_invalid
      else if tr_retain_failed_owner tr \<and> \<not> retained_owner_ok tr then Inl binding_invalid
      else if \<not> tr_retain_failed_owner tr \<and> tr_target tr = FAILED \<and>
              (case tr_expected_owner tr of None \<Rightarrow> False | Some ow \<Rightarrow> prefix ''v0162-'' ow)
      then Inl binding_invalid
      else if tr_target tr = RUNNING \<and> (\<not> owner_given (tr_execution_owner tr) \<or> tr_lease tr = None)
      then Inl (BusinessRule ''AI_PREPARED_ACTION_STATE_INVALID'')
      else Inr ())"

text \<open>The result's lineage replaces five columns; the dependencies of the proposal stay.\<close>

definition replace_lineage_columns :: "lineage option \<Rightarrow> projection_columns \<Rightarrow> projection_columns" where
  "replace_lineage_columns l c =
     c\<lparr>pc_tool_codes := map_option ln_tool_codes l,
       pc_subject_refs := map_option (\<lambda>x. map ref_json (ln_subject_refs x)) l,
       pc_subject_refs_hash := map_option ln_subject_refs_hash l,
       pc_data_scope_hash := Option.bind l ln_data_scope_hash,
       pc_resolver_version := map_option ln_resolver_version l\<rparr>"

definition transition_values :: "int \<Rightarrow> transition \<Rightarrow> prepared_action \<Rightarrow> prepared_action" where
  "transition_values now tr a =
     (let a1 = a\<lparr>pa_status := tr_target tr, row_version := tr_expected_version tr + 1\<rparr>;
          a2 = (if tr_target tr \<in> {APPROVED_STATUS, REJECTED_STATUS}
                then a1\<lparr>approved_by := tr_approved_by tr, approved_at := Some now\<rparr>
                else if tr_target tr = RUNNING
                then a1\<lparr>execution_owner := tr_execution_owner tr, execution_lease := tr_lease tr\<rparr>
                else a1);
          a3 = (if is_terminal (tr_target tr)
                then a2\<lparr>finished_at := Some now, error_code := tr_error_code tr, result_data := tr_result_data tr,
                  result_ui := tr_result_ui tr, duration_ms := tr_duration_ms tr,
                  execution_owner := (if tr_retain_failed_owner tr then tr_expected_owner tr else None),
                  execution_lease := None\<rparr>
                else a2)
      in if is_terminal (tr_target tr) \<and> tr_replace_lineage tr
         then a3\<lparr>pa_projection := replace_lineage_columns (tr_lineage tr) (pa_projection a3)\<rparr> else a3)"

definition transition_matches :: "action_db \<Rightarrow> transition \<Rightarrow> int \<Rightarrow> prepared_action \<Rightarrow> bool" where
  "transition_matches db tr t a \<longleftrightarrow>
     action_id a = tr_action_id tr \<and> \<not> reconciling db a \<and> ab_tenant_id (frozen a) = t \<and>
     pa_status a = tr_expected_status tr \<and> row_version a = tr_expected_version tr \<and>
     (case tr_expected_owner tr of
        Some ow \<Rightarrow> execution_owner a = Some ow
      | None \<Rightarrow> tr_expected_status tr = RUNNING \<longrightarrow>
          (case execution_owner a of None \<Rightarrow> True | Some ow \<Rightarrow> \<not> prefix ''v0162-'' ow)) \<and>
     (case tr_lease_not_after tr of
        None \<Rightarrow> True
      | Some cutoff \<Rightarrow> (case execution_lease a of None \<Rightarrow> True | Some e \<Rightarrow> e \<le> cutoff))"

text \<open>One \<open>UPDATE ... RETURNING\<close>: the rows that match are written, and returned.\<close>

definition transition_status :: "int \<Rightarrow> action_db \<Rightarrow> transition \<Rightarrow> int \<Rightarrow> (prepared_action option \<times> action_db) res" where
  "transition_status now db tr t =
     bindE (check_transition tr t) (\<lambda>_.
       let upd = (\<lambda>a. if transition_matches db tr t a then transition_values now tr a else a)
       in Inr (map_option (transition_values now tr) (find (transition_matches db tr t) (actions db)),
               db\<lparr>actions := map upd (actions db)\<rparr>))"

definition renew_execution_lease :: "action_db \<Rightarrow> int \<Rightarrow> string \<Rightarrow> int \<Rightarrow> int \<Rightarrow> bool \<times> action_db" where
  "renew_execution_lease db aid owner lease t =
     (let hit = (\<lambda>a. action_id a = aid \<and> ab_tenant_id (frozen a) = t \<and> pa_status a = RUNNING \<and>
                     execution_owner a = Some owner)
      in (\<exists>a \<in> set (actions db). hit a,
          db\<lparr>actions := map (\<lambda>a. if hit a then a\<lparr>execution_lease := Some lease\<rparr> else a) (actions db)\<rparr>))"

section \<open>Deleting a conversation\<close>

text \<open>The verifications other services perform on logs and terminal actions: a log is settled when it
  is a plain read-only snapshot or a verified preflight or preview; the two checks of a terminal
  action return whether \<open>atomic_completion_service\<close> accepts it.\<close>

record completion_checks =
  atomic_tools :: "string set"
  file_tools :: "string set"
  preflight_marker :: "op_log \<Rightarrow> bool"
  verified_preflight :: "op_log \<Rightarrow> bool"
  verified_preview :: "op_log \<Rightarrow> bool"
  terminal_valid :: "prepared_action \<Rightarrow> op_log \<Rightarrow> bool"
  unexecuted_valid :: "prepared_action \<Rightarrow> op_log option \<Rightarrow> bool"

text \<open>The dictionary of logs by tool call: the last log of a call stays.\<close>

definition logs_by_call :: "op_log list \<Rightarrow> op_log list" where
  "logs_by_call logs = List.map_filter (\<lambda>c. find (\<lambda>l. log_tool_call_id l = c) (rev logs))
     (rev (remdups (rev (map log_tool_call_id logs))))"

definition log_settled :: "completion_checks \<Rightarrow> string set \<Rightarrow> op_log \<Rightarrow> bool" where
  "log_settled ck bound l \<longleftrightarrow>
     (log_readonly_snapshot l \<and> \<not> preflight_marker ck l) \<or> log_tool_call_id l \<in> bound \<or>
     verified_preflight ck l \<or> verified_preview ck l"

definition action_settled :: "completion_checks \<Rightarrow> op_log list \<Rightarrow> prepared_action \<Rightarrow> bool" where
  "action_settled ck logs a =
     (let tool = ab_execute_tool_name (frozen a);
          guarded = tool \<in> atomic_tools ck \<union> file_tools ck;
          op = find (\<lambda>l. log_tool_call_id l = ab_execute_tool_call_id (frozen a)) logs in
      if pa_status a \<in> {RUNNING, APPROVED_STATUS} then False
      else if pa_status a \<in> {SUCCEEDED, FAILED} \<and> guarded
      then (case op of None \<Rightarrow> False
            | Some l \<Rightarrow> \<not> (pa_status a = FAILED \<and> tool \<in> file_tools ck) \<and> terminal_valid ck a l)
      else if pa_status a \<in> {REJECTED_STATUS, EXPIRED} \<and> guarded then unexecuted_valid ck a op
      else True)"

definition live_running :: "int \<Rightarrow> prepared_action \<Rightarrow> bool" where
  "live_running now a \<longleftrightarrow> pa_status a = RUNNING \<and>
     ((case execution_owner a of None \<Rightarrow> False | Some ow \<Rightarrow> prefix ''v0162-'' ow) \<or>
      (case execution_lease a of None \<Rightarrow> False | Some e \<Rightarrow> now < e))"

definition terminalize :: "int \<Rightarrow> prepared_action \<Rightarrow> prepared_action" where
  "terminalize now a =
     (let a1 = (if pa_status a = RUNNING
                then a\<lparr>pa_status := FAILED, error_code := Some ''AI_PREPARED_ACTION_EXECUTION_INTERRUPTED''\<rparr>
                else a\<lparr>pa_status := EXPIRED, error_code := Some ''AI_CONVERSATION_DELETED''\<rparr>)
      in a1\<lparr>row_version := row_version a + 1, finished_at := Some now, execution_owner := None,
           execution_lease := None, guard_owner_token := None\<rparr>)"

text \<open>The open logs of the ended actions follow them.\<close>

definition close_log :: "(string \<Rightarrow> prepared_action option) \<Rightarrow> int \<Rightarrow> int \<Rightarrow> int \<Rightarrow> op_log \<Rightarrow> op_log" where
  "close_log by_call conv uid t l =
     (if log_tenant l = t \<and> log_user l = uid \<and> log_conversation l = conv \<and>
         log_status l \<in> {''pending_confirmation'', ''running''}
      then (case by_call (log_tool_call_id l) of
              None \<Rightarrow> l
            | Some a \<Rightarrow> if pa_status a = FAILED
                then l\<lparr>log_status := ''failed'', log_error_code := Some ''AI_PREPARED_ACTION_EXECUTION_INTERRUPTED''\<rparr>
                else l\<lparr>log_status := ''expired'', log_error_code := Some ''AI_CONVERSATION_DELETED''\<rparr>)
      else l)"

definition expire_for_conversation_delete ::
    "completion_checks \<Rightarrow> int \<Rightarrow> action_db \<Rightarrow> int \<Rightarrow> int \<Rightarrow> int \<Rightarrow> (prepared_action list \<times> action_db) res" where
  "expire_for_conversation_delete ck now db conv uid t =
     (let mine = (\<lambda>a. ab_conversation_id (frozen a) = conv \<and> ab_user_id (frozen a) = uid \<and>
                      ab_tenant_id (frozen a) = t);
          acts = sort_key action_id (filter mine (actions db));
          logs = logs_by_call (sort_key log_id
            (filter (\<lambda>l. log_tenant l = t \<and> log_conversation l = conv) (op_logs db)));
          bound = set (map (\<lambda>a. ab_execute_tool_call_id (frozen a)) acts);
          open_acts = filter (\<lambda>a. \<not> is_terminal (pa_status a)) acts;
          ended = map (terminalize now) open_acts;
          by_call = map_of (rev (map (\<lambda>a. (ab_execute_tool_call_id (frozen a), a)) ended))
      in if \<not> list_all (log_settled ck bound) logs \<or> \<not> list_all (action_settled ck logs) acts
         then Inl (BusinessRule ''AI_ACTION_RUNNING'')
         else if \<exists>a \<in> set open_acts. live_running now a then Inl (BusinessRule ''AI_ACTION_RUNNING'')
         else Inr (ended, db\<lparr>
             actions := map (\<lambda>a. if mine a \<and> \<not> is_terminal (pa_status a) then terminalize now a else a) (actions db),
             op_logs := map (close_log by_call conv uid t) (op_logs db)\<rparr>))"

section \<open>Confirmation-time validation\<close>

text \<open>\<open>h\<close> is \<open>canonical_payload_hash\<close>, \<open>parse_iso\<close> reads the pending payload's expiry text.\<close>

definition validate_pending_binding ::
    "(json \<Rightarrow> string) \<Rightarrow> (string \<Rightarrow> int option) \<Rightarrow> int \<Rightarrow> prepared_action \<Rightarrow> pending_payload \<Rightarrow> unit res" where
  "validate_pending_binding h parse_iso now a p =
     (let b = frozen a in
      if pa_status a \<noteq> PENDING_CONFIRMATION then Inl binding_invalid
      else if ab_expires_at b \<le> now then Inl snapshot_stale
      else (case parse_iso (pp_expires_at p) of
         None \<Rightarrow> Inl binding_invalid
       | Some e \<Rightarrow>
         if e < ab_expires_at b then Inl binding_invalid
         else if ab_args_hash b \<noteq> h (JObj (ab_frozen_args b)) then Inl binding_invalid
         else if (case ab_snapshot b of None \<Rightarrow> True | Some s \<Rightarrow> ab_snapshot_hash b \<noteq> h (JObj s))
         then Inl binding_invalid
         else guardE (ab_user_id b = pp_user_id p \<and> ab_tenant_id b = pp_tenant_id p \<and>
             ab_conversation_id b = pp_conversation_id p \<and>
             pp_source_user_message_id p = Some (ab_source_message_id b) \<and>
             ab_execute_tool_call_id b = pp_tool_call_id p \<and> ab_execute_tool_name b = pp_tool_name p \<and>
             ab_trace_id b = pp_trace_id p \<and> pp_agent_code p = Some (ab_agent_code b) \<and>
             ab_args_hash b = h (pp_args p)) binding_invalid))"

definition validate_data_scope_snapshot :: "prepared_action \<Rightarrow> string option \<Rightarrow> unit res" where
  "validate_data_scope_snapshot a current =
     (case pc_data_scope_hash (pa_projection a) of
        None \<Rightarrow> Inr ()
      | Some hsh \<Rightarrow> guardE (current = Some hsh) snapshot_stale)"

text \<open>What the branches for other tools read is a parameter: the live department preview, the
  identity snapshot of the users to delete, the import batch of a reference and its stored file.\<close>

record import_batch =
  ib_batch_id :: string
  ib_preview_done :: bool
  ib_operator_id :: int
  ib_preview_token :: string
  ib_reason :: string
  ib_on_conflict :: string
  ib_storage_key :: "string option"
  ib_file_sha256 :: string
  ib_records_hash :: string
  ib_total_rows :: int
  ib_summary :: "int \<times> int \<times> int \<times> int"

record live_facts =
  preview_departments :: "int \<Rightarrow> int \<Rightarrow> (int \<times> bool) list \<Rightarrow> int \<Rightarrow> json res"
  delete_identity :: "int list \<Rightarrow> int \<Rightarrow> json res"
  find_batch :: "int \<Rightarrow> string \<Rightarrow> import_batch option"
  stored_file_sha256 :: "string \<Rightarrow> string option"

definition assignment_of :: "json \<Rightarrow> (int \<times> bool) option" where
  "assignment_of item = (case item of
       JObj d \<Rightarrow> if fst ` set d = {''dept_id'', ''is_primary''}
                 then (case (jget d ''dept_id'', jget d ''is_primary'') of
                    (JInt i, JBool p) \<Rightarrow> if 0 < i then Some (i, p) else None | _ \<Rightarrow> None)
                 else None
     | _ \<Rightarrow> None)"

definition int_of :: "json \<Rightarrow> int option" where
  "int_of v = (case v of JInt i \<Rightarrow> Some i | _ \<Rightarrow> None)"

text \<open>\<open>except BusinessException\<close> around a live preview.\<close>

definition stale_if_business :: "'a res \<Rightarrow> 'a res" where
  "stale_if_business r = (case r of Inl e \<Rightarrow> Inl (if is_business e then snapshot_stale else e) | Inr v \<Rightarrow> Inr v)"

definition validate_dept_snapshot :: "live_facts \<Rightarrow> prepared_action \<Rightarrow> jobj \<Rightarrow> int \<Rightarrow> unit res" where
  "validate_dept_snapshot lf a snapshot t =
     (let args = ab_frozen_args (frozen a) in
      (case (jget args ''user_id'', jget args ''dept_assignments'', jget snapshot ''business'') of
         (JInt uid, JArr items, JObj business) \<Rightarrow>
           if list_ex (\<lambda>i. assignment_of i = None) items \<or>
              jget snapshot ''argsHash'' \<noteq> JStr (ab_args_hash (frozen a))
           then Inl snapshot_stale
           else bindE (stale_if_business (preview_departments lf (ab_user_id (frozen a)) uid
                         (List.map_filter assignment_of items) t)) (\<lambda>live.
                guardE (json_eq live (JObj business)) snapshot_stale)
       | _ \<Rightarrow> Inl snapshot_stale))"

definition validate_role_snapshot ::
    "(json \<Rightarrow> string) \<Rightarrow> (json \<Rightarrow> string) \<Rightarrow> (auth_db \<Rightarrow> user \<Rightarrow> int set) \<Rightarrow> auth_db \<Rightarrow> prepared_action \<Rightarrow> jobj \<Rightarrow>
     int \<Rightarrow> unit res" where
  "validate_role_snapshot h ha vis adb a snapshot t =
     (let b = frozen a; args = ab_frozen_args b in
      (case (jget args ''user_id'', jget args ''role_ids'', jget snapshot ''business'') of
         (JInt uid, JArr rids, JObj business) \<Rightarrow>
           if uid \<le> 0 \<or> rids = [] \<or> list_ex (\<lambda>v. case int_of v of None \<Rightarrow> True | Some i \<Rightarrow> i \<le> 0) rids \<or>
              \<not> distinct rids \<or> jget snapshot ''argsHash'' \<noteq> JStr (ab_args_hash b) \<or>
              ab_args_hash b \<noteq> h (JObj args)
           then Inl snapshot_stale
           else bindE (stale_if_business (preview_roles ha vis adb (ab_user_id b) uid
                         (map IdInt (List.map_filter int_of rids)) t)) (\<lambda>live.
                guardE (json_eq (pv_snapshot live) (JObj business)) snapshot_stale)
       | _ \<Rightarrow> Inl snapshot_stale))"

definition validate_delete_snapshot :: "live_facts \<Rightarrow> prepared_action \<Rightarrow> jobj \<Rightarrow> int \<Rightarrow> unit res" where
  "validate_delete_snapshot lf a snapshot t =
     (let args = ab_frozen_args (frozen a) in
      (case (jget args ''user_ids'', jget snapshot ''business'') of
         (JArr ids, JObj business) \<Rightarrow>
           if ids = [] \<or> list_ex (\<lambda>v. int_of v = None) ids \<or> jget args ''user_names'' \<noteq> JNull \<or>
              jget args ''phones'' \<noteq> JNull \<or> jget snapshot ''argsHash'' \<noteq> JStr (ab_args_hash (frozen a))
           then Inl snapshot_stale
           else bindE (delete_identity lf (List.map_filter int_of ids) t) (\<lambda>live.
                guardE (json_eq live (JObj business)) snapshot_stale)
       | _ \<Rightarrow> Inl snapshot_stale))"

definition import_snapshot :: "import_batch \<Rightarrow> jobj \<Rightarrow> json" where
  "import_snapshot ib snapshot =
     (case ib_summary ib of (nw, ex, cf, os) \<Rightarrow> JObj
        [(''batch_id'', JStr (ib_batch_id ib)), (''file_sha256'', JStr (ib_file_sha256 ib)),
         (''records_hash'', JStr (ib_records_hash ib)), (''operator_id'', JInt (ib_operator_id ib)),
         (''total'', JInt (ib_total_rows ib)),
         (''summary'', JObj [(''new'', JInt nw), (''exists'', JInt ex), (''conflict'', JInt cf),
                             (''outOfScope'', JInt os)]),
         (''_authorization'', jget snapshot ''_authorization'')])"

definition validate_import_snapshot ::
    "(json \<Rightarrow> string) \<Rightarrow> live_facts \<Rightarrow> prepared_action \<Rightarrow> jobj \<Rightarrow> int \<Rightarrow> unit res" where
  "validate_import_snapshot h lf a snapshot t =
     (let b = frozen a; args = ab_frozen_args b; ref = (case ab_subject_ref b of None \<Rightarrow> [] | Some r \<Rightarrow> r) in
      if jget ref ''type'' \<noteq> JStr ''user_import_batch'' \<or> \<not> truthy (jget ref ''id'') then Inl snapshot_stale
      else (case find_batch lf t (py_str (jget ref ''id'')) of
         None \<Rightarrow> Inl snapshot_stale
       | Some ib \<Rightarrow>
         if \<not> ib_preview_done ib \<or> ib_operator_id ib \<noteq> ab_user_id b \<or>
            JStr (ib_preview_token ib) \<noteq> jget args ''preview_token'' \<or>
            JStr (ib_reason ib) \<noteq> jget args ''reason'' \<or>
            JStr (ib_on_conflict ib) \<noteq> jget args ''on_conflict''
         then Inl snapshot_stale
         else (case ib_storage_key ib of
            None \<Rightarrow> Inl snapshot_stale
          | Some key \<Rightarrow>
            if key = [] then Inl snapshot_stale
            else (case stored_file_sha256 lf key of
               None \<Rightarrow> Inl snapshot_stale
             | Some digest \<Rightarrow>
               if digest \<noteq> ib_file_sha256 ib then Inl snapshot_stale
               else guardE (h (import_snapshot ib snapshot) = ab_snapshot_hash b) snapshot_stale))))"

definition validate_snapshot ::
    "(json \<Rightarrow> string) \<Rightarrow> (json \<Rightarrow> string) \<Rightarrow> (auth_db \<Rightarrow> user \<Rightarrow> int set) \<Rightarrow> live_facts \<Rightarrow> auth_db \<Rightarrow>
     prepared_action \<Rightarrow> int \<Rightarrow> unit res" where
  "validate_snapshot h ha vis lf adb a t =
     (let b = frozen a in
      if ab_tenant_id b \<noteq> t then Inl snapshot_stale
      else (case ab_snapshot b of
         None \<Rightarrow> Inl snapshot_stale
       | Some snapshot \<Rightarrow>
         if ab_snapshot_hash b \<noteq> h (JObj snapshot) then Inl snapshot_stale
         else if ab_execute_tool_name b = ''user.update_dept'' then validate_dept_snapshot lf a snapshot t
         else if ab_execute_tool_name b = ''user.update_roles''
         then validate_role_snapshot h ha vis adb a snapshot t
         else if ab_execute_tool_name b = ''user.batch_delete'' then validate_delete_snapshot lf a snapshot t
         else if ab_execute_tool_name b = ''user.import_execute''
         then validate_import_snapshot h lf a snapshot t
         else Inr ()))"

end
