(* ===== verification/Prepared_Protocol.thy ===== *)
theory Prepared_Protocol
  imports Prepared_Action
begin

text \<open>
  The life of the prepared-action table as a whole: one step is an operation of
  \<open>PreparedActionService\<close> or a change of the other tables. The interface \<open>versioned_rows\<close> states what a
  compare-and-set client relies on (rows stay, versions never go back, ended rows are final);
  its interpretation shows that the service's operations provide it.
\<close>

section \<open>Interface of a table with optimistic versions\<close>

locale versioned_rows =
  fixes row_at :: "'s \<Rightarrow> int \<Rightarrow> 'r option"
    and next_state :: "'s \<Rightarrow> 's \<Rightarrow> bool"
    and version_of :: "'r \<Rightarrow> int"
    and facts :: "'r \<Rightarrow> 'f"
    and ended :: "'r \<Rightarrow> bool"
  assumes row_stays: "next_state s s' \<Longrightarrow> row_at s k = Some r \<Longrightarrow>
      \<exists>r'. row_at s' k = Some r' \<and> version_of r \<le> version_of r' \<and> facts r' = facts r"
    and ended_final: "next_state s s' \<Longrightarrow> row_at s k = Some r \<Longrightarrow> ended r \<Longrightarrow> row_at s' k = Some r"
begin

lemma reach_row:
  assumes "next_state\<^sup>*\<^sup>* s s'" "row_at s k = Some r"
  shows "\<exists>r'. row_at s' k = Some r' \<and> version_of r \<le> version_of r' \<and> facts r' = facts r"
  using assms
proof (induction rule: rtranclp_induct)
  case (step y z)
  then obtain r1 where r1: "row_at y k = Some r1" "version_of r \<le> version_of r1" "facts r1 = facts r"
    by blast
  from row_stays[OF step.hyps(2) r1(1)] r1 show ?case by force
qed simp

lemma reach_ended:
  assumes "next_state\<^sup>*\<^sup>* s s'" "row_at s k = Some r" "ended r"
  shows "row_at s' k = Some r"
  using assms by (induction rule: rtranclp_induct) (auto dest: ended_final)

text \<open>A version that has been passed never comes back.\<close>

lemma version_passed:
  assumes "next_state\<^sup>*\<^sup>* s s'" "row_at s k = Some r" "v < version_of r" "row_at s' k = Some r'"
  shows "version_of r' \<noteq> v"
  using reach_row[OF assms(1,2)] assms(3,4) by force

end

section \<open>Steps\<close>

inductive action_step :: "(json \<Rightarrow> string) \<Rightarrow> (jobj \<Rightarrow> json res) \<Rightarrow> completion_checks \<Rightarrow> action_db \<Rightarrow> action_db \<Rightarrow> bool"
  for h present ck where
  propose: "create_pending_action h present now aid db p t = Inr (a, db') \<Longrightarrow> action_step h present ck db db'"
| transition: "transition_status now db tr t = Inr (r, db') \<Longrightarrow> action_step h present ck db db'"
| renew: "renew_execution_lease db aid owner lease t = (ok, db') \<Longrightarrow> action_step h present ck db db'"
| delete: "expire_for_conversation_delete ck now db conv uid t = Inr (ended, db') \<Longrightarrow>
     action_step h present ck db db'"
| environment: "actions db' = actions db \<Longrightarrow> action_step h present ck db db'"

abbreviation action_reach where
  "action_reach h present ck \<equiv> (action_step h present ck)\<^sup>*\<^sup>*"

definition action_at :: "action_db \<Rightarrow> int \<Rightarrow> prepared_action option" where
  "action_at db i = find (\<lambda>a. action_id a = i) (actions db)"

text \<open>What may happen to one row: nothing, a legal transition that writes the next version, or the
  renewal of a running lease.\<close>

definition row_change :: "prepared_action \<Rightarrow> prepared_action \<Rightarrow> bool" where
  "row_change a b \<longleftrightarrow> b = a \<or>
     action_id b = action_id a \<and> created_at b = created_at a \<and> frozen b = frozen a \<and>
     (pa_status b \<in> allowed_transitions (pa_status a) \<and> row_version b = row_version a + 1 \<or>
      pa_status a = RUNNING \<and> (\<exists>e. b = a\<lparr>execution_lease := Some e\<rparr>))"

lemma terminal_no_transition [simp]: "is_terminal s \<Longrightarrow> allowed_transitions s = {}"
  by (cases s) auto

lemma row_change_refl [simp]: "row_change a a"
  by (simp add: row_change_def)

lemma row_change_id: "row_change a b \<Longrightarrow> action_id b = action_id a"
  by (auto simp: row_change_def)

lemma is_terminal_running [simp]: "\<not> is_terminal RUNNING" "\<not> is_terminal APPROVED_STATUS"
  "\<not> is_terminal PREPARED" "\<not> is_terminal PENDING_CONFIRMATION"
  by simp_all

lemma row_change_terminal: "row_change a b \<Longrightarrow> is_terminal (pa_status a) \<Longrightarrow> b = a"
  unfolding row_change_def by (elim disjE conjE) (simp_all only: terminal_no_transition empty_iff is_terminal_running)

lemma row_change_version: "row_change a b \<Longrightarrow> row_version a \<le> row_version b"
  by (auto simp: row_change_def)

lemma transition_values_simps [simp]:
  "action_id (transition_values now tr a) = action_id a"
  "created_at (transition_values now tr a) = created_at a"
  "frozen (transition_values now tr a) = frozen a"
  "pa_status (transition_values now tr a) = tr_target tr"
  "row_version (transition_values now tr a) = tr_expected_version tr + 1"
  by (simp_all add: transition_values_def Let_def)

lemma check_transition_legal:
  "check_transition tr t = Inr u \<Longrightarrow> tr_target tr \<in> allowed_transitions (tr_expected_status tr)"
  by (auto simp: check_transition_def split: if_splits)

lemma transition_row_change:
  assumes "check_transition tr t = Inr u" "transition_matches db tr t a"
  shows "row_change a (transition_values now tr a)"
  using assms check_transition_legal[OF assms(1)] by (auto simp: row_change_def transition_matches_def)

lemma delete_guard:
  assumes "expire_for_conversation_delete ck now db conv uid t = Inr r"
    "a \<in> set (actions db)" "ab_conversation_id (frozen a) = conv" "ab_user_id (frozen a) = uid"
    "ab_tenant_id (frozen a) = t"
  shows "pa_status a \<noteq> RUNNING" "pa_status a \<noteq> APPROVED_STATUS"
  using assms by (auto simp: expire_for_conversation_delete_def Let_def action_settled_def list_all_iff
      split: if_splits)

text \<open>Every row outside the deleted conversation keeps its value, every open row in it expires.\<close>

lemma delete_rows:
  assumes "expire_for_conversation_delete ck now db conv uid t = Inr (ended, db')"
  shows "actions db' = map (\<lambda>a. if (ab_conversation_id (frozen a) = conv \<and> ab_user_id (frozen a) = uid \<and>
      ab_tenant_id (frozen a) = t) \<and> \<not> is_terminal (pa_status a) then terminalize now a else a) (actions db)"
  using assms by (auto simp: expire_for_conversation_delete_def Let_def split: if_splits)

lemma delete_ended:
  assumes "expire_for_conversation_delete ck now db conv uid t = Inr (ended, db')"
  shows "ended = map (terminalize now) (filter (\<lambda>a. \<not> is_terminal (pa_status a))
    (sort_key action_id (filter (\<lambda>a. ab_conversation_id (frozen a) = conv \<and> ab_user_id (frozen a) = uid \<and>
      ab_tenant_id (frozen a) = t) (actions db))))"
  using assms by (auto simp: expire_for_conversation_delete_def Let_def split: if_splits)

lemma delete_logs:
  assumes "expire_for_conversation_delete ck now db conv uid t = Inr (ended, db')"
  shows "op_logs db' = map (close_log (map_of (rev (map (\<lambda>a. (ab_execute_tool_call_id (frozen a), a))
    (map (terminalize now) (filter (\<lambda>a. \<not> is_terminal (pa_status a))
    (sort_key action_id (filter (\<lambda>a. ab_conversation_id (frozen a) = conv \<and> ab_user_id (frozen a) = uid \<and>
      ab_tenant_id (frozen a) = t) (actions db)))))))) conv uid t) (op_logs db)"
  using assms by (auto simp: expire_for_conversation_delete_def Let_def split: if_splits)

lemma terminalize_open:
  assumes "pa_status a \<noteq> RUNNING" "pa_status a \<noteq> APPROVED_STATUS" "\<not> is_terminal (pa_status a)"
  shows "row_change a (terminalize now a)" "pa_status (terminalize now a) = EXPIRED"
proof -
  have "EXPIRED \<in> allowed_transitions (pa_status a)" using assms by (cases "pa_status a") auto
  then show "row_change a (terminalize now a)" "pa_status (terminalize now a) = EXPIRED"
    using assms(1) by (simp_all add: row_change_def terminalize_def Let_def)
qed

lemma renew_rows:
  "renew_execution_lease db aid owner lease t = (ok, db') \<Longrightarrow>
   actions db' = map (\<lambda>a. if action_id a = aid \<and> ab_tenant_id (frozen a) = t \<and> pa_status a = RUNNING \<and>
     execution_owner a = Some owner then a\<lparr>execution_lease := Some lease\<rparr> else a) (actions db)"
  by (auto simp: renew_execution_lease_def Let_def)

lemma transition_Inr:
  "transition_status now db tr t = Inr (r, db') \<longleftrightarrow>
   check_transition tr t = Inr () \<and>
   r = map_option (transition_values now tr) (find (transition_matches db tr t) (actions db)) \<and>
   db' = db\<lparr>actions := map (\<lambda>a. if transition_matches db tr t a then transition_values now tr a else a) (actions db)\<rparr>"
  by (cases "check_transition tr t") (auto simp: transition_status_def Let_def)

lemma create_Inr:
  assumes "create_pending_action h present now aid db p t = Inr (a, db')"
  obtains shown model prov l where "a = pending_row h now aid p shown model prov l t"
    "db' = db\<lparr>actions := actions db @ [a]\<rparr>" "insert_action db a = Inr (a, db')"
  using assms
  by (auto simp: create_pending_action_def insert_action_def res_simps split: if_splits option.splits)

lemma pending_row_id [simp]: "action_id (pending_row h now aid p shown model prov l t) = aid"
  by (simp add: pending_row_def Let_def)

lemma pending_row_facts:
  "action_id (pending_row h now aid p shown model prov l t) = aid"
  "pa_status (pending_row h now aid p shown model prov l t) = PENDING_CONFIRMATION"
  "row_version (pending_row h now aid p shown model prov l t) = 1"
  "ab_tenant_id (frozen (pending_row h now aid p shown model prov l t)) = t"
  by (simp_all add: pending_row_def Let_def)

text \<open>A step maps the rows one by one, or appends a new pending one.\<close>

lemma action_step_rows:
  assumes "action_step h present ck db db'"
  shows "(\<exists>f. actions db' = map f (actions db) \<and> (\<forall>a \<in> set (actions db). row_change a (f a))) \<or>
    (\<exists>a p now shown model prov l t. actions db' = actions db @ [a] \<and>
       a = pending_row h now (action_id a) p shown model prov l t \<and> insert_action db a = Inr (a, db'))"
  using assms
proof cases
  case (propose now aid p t a)
  from create_Inr[OF propose] show ?thesis
    by (metis (no_types, lifting) action_db.select_convs(1) action_db.surjective action_db.update_convs(1)
        pending_row_id)
next
  case (transition now tr t r)
  then show ?thesis
    by (intro disjI1 exI[of _ "\<lambda>a. if transition_matches db tr t a then transition_values now tr a else a"])
      (auto simp: transition_Inr transition_row_change)
next
  case (renew aid owner lease t ok)
  show ?thesis
    by (rule disjI1, rule exI, rule conjI[OF renew_rows[OF renew]]) (auto simp: row_change_def)
next
  case (delete now conv uid t ended)
  show ?thesis
    by (rule disjI1, rule exI, rule conjI[OF delete_rows[OF delete]])
      (auto simp: terminalize_open delete_guard[OF delete])
next
  case environment
  then show ?thesis by (intro disjI1 exI[of _ id]) simp
qed

section \<open>The interface holds\<close>

lemma find_map_id: "(\<And>a. a \<in> set xs \<Longrightarrow> action_id (f a) = action_id a) \<Longrightarrow>
   find (\<lambda>a. action_id a = k) (map f xs) = map_option f (find (\<lambda>a. action_id a = k) xs)"
  by (induction xs) auto

lemma action_at_Some: "action_at db k = Some a \<Longrightarrow> a \<in> set (actions db) \<and> action_id a = k"
  by (auto simp: action_at_def find_Some_iff)

lemma find_append_Some: "find P xs = Some a \<Longrightarrow> find P (xs @ ys) = Some a"
  by (induction xs) auto

lemma action_at_step:
  assumes "action_step h present ck db db'" "action_at db k = Some a"
  shows "\<exists>b. action_at db' k = Some b \<and> row_change a b"
  using action_step_rows[OF assms(1)]
proof (elim disjE exE conjE)
  fix f assume f: "actions db' = map f (actions db)" "\<forall>a \<in> set (actions db). row_change a (f a)"
  then have "action_at db' k = Some (f a)"
    using assms(2) find_map_id[of "actions db" f] by (simp add: action_at_def row_change_id)
  with f(2) action_at_Some[OF assms(2)] show ?thesis by blast
next
  fix c assume "actions db' = actions db @ [c]"
  then have "action_at db' k = Some a"
    using assms(2) by (simp add: action_at_def find_append_Some)
  then show ?thesis by simp
qed

interpretation prepared: versioned_rows action_at "action_step h present ck" row_version
  "\<lambda>a. (frozen a, created_at a)" "\<lambda>a. is_terminal (pa_status a)" for h present ck
proof unfold_locales
  fix s s' k r assume "action_step h present ck s s'" "action_at s k = Some r"
  then obtain b where b: "action_at s' k = Some b" "row_change r b" using action_at_step by blast
  then show "\<exists>r'. action_at s' k = Some r' \<and> row_version r \<le> row_version r' \<and>
      (frozen r', created_at r') = (frozen r, created_at r)"
    using row_change_version[OF b(2)] by (auto simp: row_change_def)
next
  fix s s' k r assume "action_step h present ck s s'" "action_at s k = Some r" "is_terminal (pa_status r)"
  then show "action_at s' k = Some r" using action_at_step row_change_terminal by blast
qed

section \<open>Invariant\<close>

definition action_ok :: "prepared_action \<Rightarrow> bool" where
  "action_ok a \<longleftrightarrow>
     (approved_at a = None \<longleftrightarrow> pa_status a \<in> {PREPARED, PENDING_CONFIRMATION, EXPIRED}) \<and>
     (finished_at a = None \<longleftrightarrow> \<not> is_terminal (pa_status a)) \<and>
     (execution_lease a = None \<longleftrightarrow> pa_status a \<noteq> RUNNING) \<and>
     (pa_status a = RUNNING \<longrightarrow> owner_given (execution_owner a)) \<and>
     (execution_owner a \<noteq> None \<longrightarrow> pa_status a = RUNNING \<or>
        pa_status a = FAILED \<and> prefix ''v0162-db:'' (the (execution_owner a))) \<and>
     1 \<le> row_version a"

definition call_key :: "prepared_action \<Rightarrow> int \<times> string" where
  "call_key a = (ab_tenant_id (frozen a), ab_execute_tool_call_id (frozen a))"

definition confirmation_key :: "prepared_action \<Rightarrow> int \<times> string" where
  "confirmation_key a = (ab_tenant_id (frozen a), ab_confirmation_id (frozen a))"

definition table_ok :: "action_db \<Rightarrow> bool" where
  "table_ok db \<longleftrightarrow> (\<forall>a \<in> set (actions db). action_ok a) \<and> distinct (map action_id (actions db)) \<and>
     distinct (map confirmation_key (actions db)) \<and> distinct (map call_key (actions db))"

lemma pending_row_ok [simp]: "action_ok (pending_row h now aid p shown model prov l t)"
  by (simp add: action_ok_def pending_row_def Let_def)

lemma retained_owner: "retained_owner_ok tr \<Longrightarrow> tr_target tr = FAILED \<and>
   (\<exists>ow. tr_expected_owner tr = Some ow \<and> prefix ''v0162-db:'' ow)"
  by (auto simp: retained_owner_ok_def split: option.splits)

lemma transition_ok:
  assumes "check_transition tr t = Inr u" "transition_matches db tr t a" "action_ok a"
  shows "action_ok (transition_values now tr a)"
proof -
  have legal: "tr_target tr \<in> allowed_transitions (pa_status a)" and ver: "row_version a = tr_expected_version tr"
    using assms check_transition_legal by (auto simp: transition_matches_def)
  have keep: "tr_retain_failed_owner tr \<Longrightarrow> retained_owner_ok tr"
    using assms(1) by (auto simp: check_transition_def split: if_splits)
  have run: "tr_target tr = RUNNING \<Longrightarrow> owner_given (tr_execution_owner tr) \<and> tr_lease tr \<noteq> None"
    using assms(1) by (auto simp: check_transition_def split: if_splits)
  show ?thesis
    using legal ver run assms(3) keep retained_owner[of tr]
    by (cases "pa_status a"; cases "tr_target tr")
      (auto simp: action_ok_def transition_values_def Let_def)
qed

lemma terminalize_ok:
  assumes "action_ok a" "\<not> is_terminal (pa_status a)" "pa_status a \<noteq> RUNNING" "pa_status a \<noteq> APPROVED_STATUS"
  shows "action_ok (terminalize now a)"
  using assms by (cases "pa_status a") (auto simp: action_ok_def terminalize_def Let_def)

lemma renewed_ok: "action_ok a \<Longrightarrow> pa_status a = RUNNING \<Longrightarrow> action_ok (a\<lparr>execution_lease := Some e\<rparr>)"
  by (simp add: action_ok_def)

lemma step_rows_ok:
  assumes "action_step h present ck db db'" "\<forall>a \<in> set (actions db). action_ok a"
  shows "\<forall>a \<in> set (actions db'). action_ok a"
  using assms(1)
proof cases
  case (propose now aid p t a)
  from create_Inr[OF propose] assms(2) show ?thesis by (metis pending_row_ok set_append Un_iff
      action_db.select_convs(1) action_db.surjective action_db.update_convs(1) list.set(2) insert_iff empty_iff list.set(1))
next
  case (transition now tr t r)
  then show ?thesis using assms(2) by (auto simp: transition_Inr transition_ok)
next
  case (renew aid owner lease t ok)
  show ?thesis using assms(2) by (auto simp: renew_rows[OF renew] renewed_ok)
next
  case (delete now conv uid t ended)
  show ?thesis using assms(2) by (auto simp: delete_rows[OF delete] terminalize_ok delete_guard[OF delete])
next
  case environment
  then show ?thesis using assms(2) by simp
qed

lemma row_change_keys: "row_change a b \<Longrightarrow> confirmation_key b = confirmation_key a \<and> call_key b = call_key a"
  by (auto simp: row_change_def confirmation_key_def call_key_def)

lemma step_table_ok:
  assumes "action_step h present ck db db'" "table_ok db"
  shows "table_ok db'"
proof -
  have ok: "\<forall>a \<in> set (actions db'). action_ok a"
    using step_rows_ok[OF assms(1)] assms(2) by (simp add: table_ok_def)
  from action_step_rows[OF assms(1)] show ?thesis
  proof (elim disjE exE conjE)
    fix f assume f: "actions db' = map f (actions db)" "\<forall>a \<in> set (actions db). row_change a (f a)"
    have "map action_id (actions db') = map action_id (actions db)"
      "map confirmation_key (actions db') = map confirmation_key (actions db)"
      "map call_key (actions db') = map call_key (actions db)"
      using f by (auto simp: row_change_id row_change_keys)
    with assms(2) ok show ?thesis by (simp only: table_ok_def) 
  next
    fix a assume "actions db' = actions db @ [a]" "insert_action db a = Inr (a, db')"
    with assms(2) ok show ?thesis
      by (auto simp: table_ok_def insert_action_def confirmation_key_def call_key_def split: if_splits)
  qed
qed

lemma reach_table_ok: "action_reach h present ck db db' \<Longrightarrow> table_ok db \<Longrightarrow> table_ok db'"
  by (induction rule: rtranclp_induct) (auto intro: step_table_ok)

lemma action_at_unique:
  assumes "distinct (map action_id (actions db))" "a \<in> set (actions db)"
  shows "action_at db (action_id a) = Some a"
proof -
  obtain b where b: "action_at db (action_id a) = Some b"
    using assms(2) by (cases "action_at db (action_id a)") (auto simp: action_at_def find_None_iff)
  then show ?thesis using action_at_Some[OF b] assms by (auto simp: distinct_map inj_on_def)
qed

end
