(* ===== verification/Prepared_Props.thy ===== *)
theory Prepared_Props
  imports Prepared_Protocol
begin

text \<open>
  Properties of the prepared-action table: one winner per version, immutable approved facts and
  final outcomes, no execution without an approval, an exclusive execution claim, provenance of
  failures of the database protocol, and the deletion of a conversation.
\<close>

section \<open>An example table\<close>

definition demo_binding :: action_binding where
  "demo_binding =
     \<lparr>ab_confirmation_id = ''conf-1'', ab_interaction_flow = ''prepared'',
      ab_requested_outcome = ''execute_if_approved'', ab_prepare_tool_call_id = None,
      ab_execute_tool_call_id = ''call-1'', ab_execute_tool_name = ''user.update_roles'',
      ab_frozen_args = [], ab_args_hash = ''h'', ab_snapshot = Some [], ab_snapshot_hash = ''h'',
      ab_subject_ref = None, ab_presentation = JNull, ab_user_id = 7, ab_tenant_id = 1,
      ab_conversation_id = 5, ab_source_message_id = 6, ab_trace_id = ''tr'', ab_agent_code = ''sys'',
      ab_model_id = 1, ab_provider_id = 1, ab_command_action = ''send'', ab_risk_level = ''high'',
      ab_chip_target = None, ab_expires_at = 100\<rparr>"

definition demo_action :: "int \<Rightarrow> pstatus \<Rightarrow> int \<Rightarrow> prepared_action" where
  "demo_action i st v =
     \<lparr>action_id = i, created_at = 0, frozen = demo_binding,
      pa_projection = \<lparr>pc_tool_codes = None, pc_subject_refs = None, pc_subject_refs_hash = None,
        pc_data_scope_hash = None, pc_resolver_version = None, pc_dependency_ids = None\<rparr>,
      pa_status = st, row_version = v, approved_by = None, approved_at = None, finished_at = None,
      error_code = None, result_data = JNull, result_ui = None, duration_ms = None,
      execution_owner = None, execution_lease = None, guard_owner_token = None\<rparr>"

definition demo_table :: "prepared_action list \<Rightarrow> action_db" where
  "demo_table as = \<lparr>actions = as, op_logs = [], conversations = [], messages = []\<rparr>"

definition demo_transition :: "int \<Rightarrow> pstatus \<Rightarrow> int \<Rightarrow> pstatus \<Rightarrow> transition" where
  "demo_transition i st v target =
     \<lparr>tr_action_id = i, tr_expected_status = st, tr_expected_version = v, tr_target = target,
      tr_approved_by = Some 7, tr_error_code = None, tr_result_data = JNull, tr_result_ui = None,
      tr_duration_ms = None, tr_execution_owner = Some ''o'', tr_expected_owner = None,
      tr_retain_failed_owner = False, tr_lease = Some 90, tr_lease_not_after = None, tr_lineage = None,
      tr_replace_lineage = False\<rparr>"

definition no_checks :: completion_checks where
  "no_checks = \<lparr>atomic_tools = {}, file_tools = {}, preflight_marker = (\<lambda>_. False),
     verified_preflight = (\<lambda>_. False), verified_preview = (\<lambda>_. False),
     terminal_valid = (\<lambda>_ _. False), unexecuted_valid = (\<lambda>_ _. False)\<rparr>"

lemmas demo_defs = demo_binding_def demo_action_def demo_table_def demo_transition_def no_checks_def

lemma reconciling_demo [simp]: "\<not> reconciling (demo_table as) a"
  by (simp add: reconciling_def demo_table_def)

section \<open>Compare and set\<close>

lemma transition_winner:
  assumes "transition_status now db tr t = Inr (Some a, db')" "distinct (map action_id (actions db))"
  shows "action_at db' (tr_action_id tr) = Some a" "row_version a = tr_expected_version tr + 1"
proof -
  from assms(1) obtain b where b: "find (transition_matches db tr t) (actions db) = Some b"
    "a = transition_values now tr b" and rows: "actions db' =
      map (\<lambda>a. if transition_matches db tr t a then transition_values now tr a else a) (actions db)"
    by (cases "find (transition_matches db tr t) (actions db)") (auto simp: transition_Inr)
  then have m: "transition_matches db tr t b" "b \<in> set (actions db)"
    by (auto simp: find_Some_iff)
  then have i: "action_id b = tr_action_id tr" by (simp add: transition_matches_def)
  have "action_at db' (tr_action_id tr) =
      map_option (\<lambda>a. if transition_matches db tr t a then transition_values now tr a else a)
        (action_at db (tr_action_id tr))"
    unfolding action_at_def rows by (rule find_map_id) simp
  moreover have "action_at db (tr_action_id tr) = Some b"
    using action_at_unique[OF assms(2) m(2)] i by simp
  ultimately show "action_at db' (tr_action_id tr) = Some a" "row_version a = tr_expected_version tr + 1"
    using b m by auto
qed

text \<open>Property C10: of all attempts to move one action from one version, at most one succeeds. After a
  successful transition, whatever other operations run in between, a second transition that
  expects the same version of the same action finds no row.\<close>

theorem prepared_single_winner:
  assumes "table_ok db"
    and "transition_status now db tr t = Inr (Some a, db1)"
    and "action_reach h present ck db1 db2"
    and "transition_status now' db2 tr' t' = Inr (r, db3)"
    and "tr_action_id tr' = tr_action_id tr" "tr_expected_version tr' = tr_expected_version tr"
  shows "r = None \<and> db3 = db2"
proof -
  have ok1: "table_ok db1"
    using step_table_ok[OF action_step.transition[OF assms(2)] assms(1)] .
  have w: "action_at db1 (tr_action_id tr) = Some a" "row_version a = tr_expected_version tr + 1"
    using transition_winner[OF assms(2)] assms(1) by (auto simp: table_ok_def)
  have u: "distinct (map action_id (actions db2))"
    using reach_table_ok[OF assms(3) ok1] by (simp add: table_ok_def)
  have "\<not> transition_matches db2 tr' t' b" if "b \<in> set (actions db2)" for b
  proof
    assume m: "transition_matches db2 tr' t' b"
    then have "action_at db2 (tr_action_id tr) = Some b"
      using action_at_unique[OF u that] assms(5) by (simp add: transition_matches_def)
    from prepared.version_passed[OF assms(3) w(1) _ this, of "tr_expected_version tr"] m w(2) assms(6)
    show False by (simp add: transition_matches_def)
  qed
  then show ?thesis
    using assms(4) by (auto simp: transition_Inr find_None_iff cong: map_cong)
qed

theorem prepared_single_winner_witness:
  "transition_status 11 (snd (the (case transition_status 10 (demo_table [demo_action 3 PENDING_CONFIRMATION 1])
       (demo_transition 3 PENDING_CONFIRMATION 1 APPROVED_STATUS) 1 of Inr x \<Rightarrow> Some x | _ \<Rightarrow> None)))
     (demo_transition 3 PENDING_CONFIRMATION 1 REJECTED_STATUS) 1 =
   Inr (None, demo_table [(demo_action 3 APPROVED_STATUS 2)\<lparr>approved_by := Some 7, approved_at := Some 10\<rparr>])"
proof -
  let ?db = "demo_table [demo_action 3 PENDING_CONFIRMATION 1]"
  let ?a = "(demo_action 3 APPROVED_STATUS 2)\<lparr>approved_by := Some 7, approved_at := Some 10\<rparr>"
  have 1: "transition_status 10 ?db (demo_transition 3 PENDING_CONFIRMATION 1 APPROVED_STATUS) 1 =
      Inr (Some ?a, demo_table [?a])"
    by (simp add: transition_Inr transition_matches_def check_transition_def transition_values_def demo_defs
        reconciling_def Let_def)
  obtain r db3 where 2: "transition_status 11 (demo_table [?a])
      (demo_transition 3 PENDING_CONFIRMATION 1 REJECTED_STATUS) 1 = Inr (r, db3)"
    by (simp add: transition_status_def check_transition_def demo_transition_def Let_def)
  have "table_ok ?db"
    by (simp add: table_ok_def action_ok_def demo_defs)
  from prepared_single_winner[OF this 1 rtranclp.rtrancl_refl 2] 1 2 show ?thesis
    by (simp add: demo_transition_def)
qed

section \<open>History\<close>

text \<open>Property C12: what the user approved is what is executed, and an outcome is final. Along any sequence of
  operations an action keeps its row, its frozen facts (arguments, snapshot, hashes, owner,
  conversation, tool, expiry) and its creation time, its version never goes back, and once it is
  succeeded, failed, rejected or expired the whole row stays as it is.\<close>

theorem prepared_facts_immutable:
  assumes "action_reach h present ck db db'" "action_at db k = Some a"
  shows "\<exists>b. action_at db' k = Some b \<and> frozen b = frozen a \<and> created_at b = created_at a \<and>
    row_version a \<le> row_version b \<and> (is_terminal (pa_status a) \<longrightarrow> b = a)"
  using prepared.reach_row[OF assms] prepared.reach_ended[OF assms] by auto

text \<open>Property C11: no execution without an approval. In every table that the operations build from an
  empty one, an action that runs, succeeded or failed carries the time of an approval, a proposal
  that is still open or expired carries none, an action holds a lease exactly while it runs, it has an
  owner while it runs, an owner is kept afterwards only by a failure of the database protocol, and an
  action has a finishing time exactly when it has ended.\<close>

theorem no_execution_without_approval:
  assumes "action_reach h present ck db db'" "actions db = []" "a \<in> set (actions db')"
  shows "(pa_status a \<in> {APPROVED_STATUS, RUNNING, SUCCEEDED, FAILED} \<longrightarrow> approved_at a \<noteq> None) \<and>
    (pa_status a \<in> {PREPARED, PENDING_CONFIRMATION, EXPIRED} \<longrightarrow> approved_at a = None) \<and>
    (execution_lease a \<noteq> None \<longleftrightarrow> pa_status a = RUNNING) \<and>
    (pa_status a = RUNNING \<longrightarrow> owner_given (execution_owner a)) \<and>
    (execution_owner a \<noteq> None \<longrightarrow> pa_status a = RUNNING \<or>
       pa_status a = FAILED \<and> prefix ''v0162-db:'' (the (execution_owner a))) \<and>
    (finished_at a \<noteq> None \<longleftrightarrow> is_terminal (pa_status a))"
proof -
  have "table_ok db" using assms(2) by (simp add: table_ok_def)
  from reach_table_ok[OF assms(1) this] assms(3) have "action_ok a" by (simp add: table_ok_def)
  then show ?thesis by (auto simp: action_ok_def)
qed

section \<open>The execution claim\<close>

lemma running_step:
  assumes "action_step h present ck db db'" "action_at db k = Some a" "pa_status a = RUNNING"
  shows "\<exists>b. action_at db' k = Some b \<and>
    (is_terminal (pa_status b) \<or> pa_status b = RUNNING \<and> (\<exists>e. b = a\<lparr>execution_lease := e\<rparr>))"
proof -
  obtain b where b: "action_at db' k = Some b" "row_change a b"
    using action_at_step[OF assms(1,2)] by blast
  from b(2) have "is_terminal (pa_status b) \<or> pa_status b = RUNNING \<and> (\<exists>e. b = a\<lparr>execution_lease := e\<rparr>)"
    unfolding row_change_def
  proof (elim disjE conjE exE)
    assume "b = a"
    then have "b = a\<lparr>execution_lease := execution_lease a\<rparr>" by simp
    with \<open>b = a\<close> assms(3) show ?thesis by metis
  next
    assume "pa_status b \<in> allowed_transitions (pa_status a)"
    then show ?thesis using assms(3) by auto
  next
    fix e assume "b = a\<lparr>execution_lease := Some e\<rparr>"
    moreover from this have "pa_status b = RUNNING" using assms(3) by simp
    ultimately show ?thesis by metis
  qed
  with b(1) show ?thesis by blast
qed

text \<open>An execution claim is exclusive. Once an action is running, every later state of it is
  either the same claim (same owner, same version, everything but the renewed lease) or an outcome:
  no second executor can take it over and it never becomes confirmable again.\<close>

theorem running_claim_exclusive:
  assumes "action_reach h present ck db db'" "action_at db k = Some a" "pa_status a = RUNNING"
  shows "\<exists>b. action_at db' k = Some b \<and>
    (is_terminal (pa_status b) \<or> pa_status b = RUNNING \<and> (\<exists>e. b = a\<lparr>execution_lease := e\<rparr>))"
  using assms
proof (induction rule: rtranclp_induct)
  case base
  then have "a = a\<lparr>execution_lease := execution_lease a\<rparr>" by simp
  with base show ?case by metis
next
  case (step y z)
  then obtain b where b: "action_at y k = Some b"
    "is_terminal (pa_status b) \<or> pa_status b = RUNNING \<and> (\<exists>e. b = a\<lparr>execution_lease := e\<rparr>)" by blast
  from b(2) show ?case
  proof (elim disjE conjE exE)
    assume "is_terminal (pa_status b)"
    then show ?thesis using prepared.ended_final[OF step.hyps(2) b(1)] by blast
  next
    fix e assume e: "pa_status b = RUNNING" "b = a\<lparr>execution_lease := e\<rparr>"
    from running_step[OF step.hyps(2) b(1) e(1)] e(2) show ?thesis by auto
  qed
qed

theorem running_claim_exclusive_witness:
  "\<exists>b. action_at (demo_table [(demo_action 3 RUNNING 3)\<lparr>execution_owner := Some ''o'', execution_lease := Some 95\<rparr>]) 3 = Some b \<and>
    (is_terminal (pa_status b) \<or> pa_status b = RUNNING \<and>
      (\<exists>e. b = (demo_action 3 RUNNING 3)\<lparr>execution_owner := Some ''o'', execution_lease := e\<rparr>))"
proof -
  let ?a = "\<lambda>e. (demo_action 3 RUNNING 3)\<lparr>execution_owner := Some ''o'', execution_lease := Some e\<rparr>"
  have "renew_execution_lease (demo_table [?a 90]) 3 ''o'' 95 1 = (True, demo_table [?a 95])"
    by (simp add: renew_execution_lease_def demo_defs)
  then have "action_reach (\<lambda>_. []) (\<lambda>_. Inr JNull) no_checks (demo_table [?a 90]) (demo_table [?a 95])"
    by (intro r_into_rtranclp action_step.renew)
  moreover have "action_at (demo_table [?a 90]) 3 = Some (?a 90)" by (simp add: action_at_def demo_defs)
  ultimately have "\<exists>b. action_at (demo_table [?a 95]) 3 = Some b \<and>
    (is_terminal (pa_status b) \<or> pa_status b = RUNNING \<and> (\<exists>e. b = (?a 90)\<lparr>execution_lease := e\<rparr>))"
    by (rule running_claim_exclusive) (simp add: demo_action_def)
  then show ?thesis by simp
qed

section \<open>Failures of the database protocol\<close>

lemma action_at_map:
  assumes "actions db' = map f (actions db)" "\<And>a. action_id (f a) = action_id a" "action_at db k = Some a"
  shows "action_at db' k = Some (f a)"
  using find_map_id[of "actions db" f k] assms by (simp add: action_at_def)

lemma protocol_transition:
  assumes "check_transition tr t = Inr u" "transition_matches db tr t a" "pa_status a = RUNNING"
    "execution_owner a = Some ow" "prefix ''v0162-'' ow"
  shows "tr_target tr = SUCCEEDED \<or> tr_target tr = FAILED \<and> tr_retain_failed_owner tr \<and>
    tr_expected_owner tr = Some ow \<and> prefix ''v0162-db:'' ow \<and> canonical_uuid (drop 9 ow)"
proof -
  have "tr_expected_status tr = RUNNING" "tr_expected_owner tr = Some ow"
    using assms by (auto simp: transition_matches_def split: option.splits)
  with assms(1,5) check_transition_legal[OF assms(1)] show ?thesis
    by (auto simp: check_transition_def retained_owner_ok_def numeral_eq_Suc split: if_splits)
qed

lemma retained_owner_kept:
  "tr_target tr = FAILED \<Longrightarrow> tr_retain_failed_owner tr \<Longrightarrow>
   execution_owner (transition_values now tr a) = tr_expected_owner tr"
  by (simp add: transition_values_def Let_def)

definition protocol_outcome :: "string \<Rightarrow> prepared_action \<Rightarrow> bool" where
  "protocol_outcome ow b \<longleftrightarrow> (pa_status b = RUNNING \<and> execution_owner b = Some ow) \<or> pa_status b = SUCCEEDED \<or>
     pa_status b = FAILED \<and> execution_owner b = Some ow \<and> prefix ''v0162-db:'' ow \<and> canonical_uuid (drop 9 ow)"

lemma protocol_step:
  assumes "action_step h present ck db db'" "action_at db k = Some a" "pa_status a = RUNNING"
    "execution_owner a = Some ow" "prefix ''v0162-'' ow" "action_at db' k = Some b"
  shows "protocol_outcome ow b"
  using assms(1)
proof cases
  case (propose now aid p t c)
  from create_Inr[OF propose] have "actions db' = actions db @ [c]" by (metis action_db.select_convs(1)
      action_db.surjective action_db.update_convs(1))
  then have "b = a" using assms(2,6) by (simp add: action_at_def find_append_Some)
  then show ?thesis using assms by (simp add: protocol_outcome_def)
next
  case (transition now tr t r)
  then have c: "check_transition tr t = Inr ()" and r: "actions db' =
      map (\<lambda>a. if transition_matches db tr t a then transition_values now tr a else a) (actions db)"
    by (auto simp: transition_Inr)
  from action_at_map[OF r _ assms(2)] assms(6)
  have "b = (if transition_matches db tr t a then transition_values now tr a else a)" by simp
  then show ?thesis using protocol_transition[OF c _ assms(3-5)] assms(3,4)
    by (cases "transition_matches db tr t a") (auto simp: protocol_outcome_def retained_owner_kept)
next
  case (renew aid owner lease t ok)
  from action_at_map[OF renew_rows[OF renew] _ assms(2)] assms(6)
  have "b = (if action_id a = aid \<and> ab_tenant_id (frozen a) = t \<and> pa_status a = RUNNING \<and>
     execution_owner a = Some owner then a\<lparr>execution_lease := Some lease\<rparr> else a)" by simp
  then show ?thesis using assms(3,4) by (simp add: protocol_outcome_def)
next
  case (delete now conv uid t ended)
  have "\<not> (ab_conversation_id (frozen a) = conv \<and> ab_user_id (frozen a) = uid \<and> ab_tenant_id (frozen a) = t)"
    using delete_guard(1)[OF delete _ _ _ _] action_at_Some[OF assms(2)] assms(3) by blast
  with action_at_map[OF delete_rows[OF delete] _ assms(2)] assms(6) have "b = a"
    by (auto simp: terminalize_def Let_def)
  then show ?thesis using assms by (simp add: protocol_outcome_def)
next
  case environment
  then have "b = a" using assms(2,6) by (simp add: action_at_def)
  then show ?thesis using assms by (simp add: protocol_outcome_def)
qed

text \<open>A failure of the database protocol keeps the proof of its origin. A running action whose
  owner belongs to the new protocol can only be ended by a caller that names that owner; if the
  outcome is a failure, the row still holds the owner, and the owner is \<open>v0162-db:\<close> with a UUID in
  canonical form. Timeouts, cleanups and conversation deletions cannot fail it.\<close>

theorem protocol_failure_keeps_owner:
  assumes "action_reach h present ck db db'" "action_at db k = Some a" "pa_status a = RUNNING"
    "execution_owner a = Some ow" "prefix ''v0162-'' ow" "action_at db' k = Some b" "pa_status b = FAILED"
  shows "execution_owner b = Some ow \<and> prefix ''v0162-db:'' ow \<and> canonical_uuid (drop 9 ow)"
proof -
  from assms(1) have "\<exists>b. action_at db' k = Some b \<and> protocol_outcome ow b"
  proof (induction rule: rtranclp_induct)
    case base
    then show ?case using assms by (simp add: protocol_outcome_def)
  next
    case (step y z)
    then obtain c where c: "action_at y k = Some c" "protocol_outcome ow c" by blast
    obtain d where d: "action_at z k = Some d" "row_change c d"
      using action_at_step[OF step.hyps(2) c(1)] by blast
    show ?case
    proof (cases "is_terminal (pa_status c)")
      case True
      then show ?thesis using d c(2) row_change_terminal by blast
    next
      case False
      with c(2) have "pa_status c = RUNNING" "execution_owner c = Some ow" by (auto simp: protocol_outcome_def)
      then show ?thesis using protocol_step[OF step.hyps(2) c(1) _ _ assms(5) d(1)] d(1) by blast
    qed
  qed
  with assms(6,7) show ?thesis by (auto simp: protocol_outcome_def)
qed

definition demo_owner :: string where
  "demo_owner = ''v0162-db:12345678-1234-1234-1234-123456789abc''"

theorem protocol_failure_keeps_owner_witness:
  "\<exists>(db' :: action_db) b. action_at db' 3 = Some b \<and> pa_status b = FAILED \<and> execution_owner b = Some demo_owner \<and>
     prefix ''v0162-db:'' demo_owner \<and> canonical_uuid (drop 9 demo_owner)"
proof -
  let ?a = "(demo_action 3 RUNNING 3)\<lparr>execution_owner := Some demo_owner, execution_lease := Some 90\<rparr>"
  let ?tr = "(demo_transition 3 RUNNING 3 FAILED)\<lparr>tr_expected_owner := Some demo_owner, tr_retain_failed_owner := True\<rparr>"
  have "check_transition ?tr 1 = Inr ()" by code_simp
  moreover have m: "transition_matches (demo_table [?a]) ?tr 1 ?a"
    by (simp add: transition_matches_def) (simp add: demo_defs)
  ultimately have "transition_status 20 (demo_table [?a]) ?tr 1 =
      Inr (Some (transition_values 20 ?tr ?a), demo_table [transition_values 20 ?tr ?a])"
    by (simp add: transition_Inr) (simp add: demo_table_def)
  then have r: "action_reach (\<lambda>_. []) (\<lambda>_. Inr JNull) no_checks (demo_table [?a])
      (demo_table [transition_values 20 ?tr ?a])"
    by (intro r_into_rtranclp action_step.transition)
  have a: "action_at (demo_table [?a]) 3 = Some ?a"
    by (simp add: action_at_def demo_table_def demo_action_def)
  have b: "action_at (demo_table [transition_values 20 ?tr ?a]) 3 = Some (transition_values 20 ?tr ?a)"
    by (simp add: action_at_def demo_table_def demo_action_def)
  have "execution_owner (transition_values 20 ?tr ?a) = Some demo_owner \<and>
      prefix ''v0162-db:'' demo_owner \<and> canonical_uuid (drop 9 demo_owner)"
    by (rule protocol_failure_keeps_owner[OF r a _ _ _ b])
      (simp_all add: demo_action_def demo_owner_def demo_transition_def)
  with b show ?thesis by (intro exI conjI) (auto simp: demo_transition_def)
qed

definition demo_proposal :: proposal where
  "demo_proposal =
     \<lparr>pr_confirmation_id = ''conf-1'', pr_prepare_tool_call_id = None, pr_prepare_tool_name = None,
      pr_execute_tool_call_id = ''call-1'', pr_execute_tool_name = ''job.update_cron'',
      pr_frozen_args = [(''job_id'', JInt 9)], pr_snapshot = [(''cron'', JStr ''* * * * *'')],
      pr_snapshot_hash = [], pr_subject_ref = None, pr_presentation = [(''title'', JStr ''t'')],
      pr_interaction_flow = ''direct'', pr_requested_outcome = ''direct'', pr_user_id = 7,
      pr_conversation_id = 5, pr_source_message_id = 6, pr_trace_id = ''tr'', pr_agent_code = ''job'',
      pr_expires_at = 100, pr_model_id = Some 1, pr_provider_id = Some 1, pr_data_scope_hash = None,
      pr_projection_kind = None, pr_guard_owner_token = None, pr_command_action = ''send'',
      pr_risk_level = ''high'', pr_chip_target = None, pr_dependency_ids = [], pr_require_live_source = False\<rparr>"

lemma demo_created:
  "\<exists>a. create_pending_action (\<lambda>_. ''h'') (\<lambda>d. Inr (JObj d)) 10 3 (demo_table []) demo_proposal 1 = Inr (a, demo_table [a]) \<and>
     action_id a = 3 \<and> pa_status a = PENDING_CONFIRMATION \<and> row_version a = 1 \<and> ab_tenant_id (frozen a) = 1"
proof -
  have "is_ok (create_pending_action (\<lambda>_. ''h'') (\<lambda>d. Inr (JObj d)) 10 3 (demo_table []) demo_proposal 1)"
    by code_simp
  then obtain a db where c: "create_pending_action (\<lambda>_. ''h'') (\<lambda>d. Inr (JObj d)) 10 3 (demo_table []) demo_proposal 1 =
      Inr (a, db)" by (auto simp: is_ok_iff)
  from create_Inr[OF c] c show ?thesis
    by (metis (no_types, lifting) demo_table_def pending_row_facts append_Nil
        action_db.select_convs(1) action_db.update_convs(1))
qed

text \<open>The demo action is proposed, approved by user 7 and claimed, and then fails.\<close>

abbreviation demo_step :: "action_db \<Rightarrow> action_db \<Rightarrow> bool" where
  "demo_step \<equiv> action_step (\<lambda>_. ''h'') (\<lambda>d. Inr (JObj d)) no_checks"

lemma demo_life:
  "\<exists>a0 a1 a2 a3. demo_step (demo_table []) (demo_table [a0]) \<and> demo_step (demo_table [a0]) (demo_table [a1]) \<and>
     demo_step (demo_table [a1]) (demo_table [a2]) \<and> demo_step (demo_table [a2]) (demo_table [a3]) \<and>
     map action_id [a0, a1, a2, a3] = [3, 3, 3, 3] \<and> map row_version [a0, a1, a2, a3] = [1, 2, 3, 4] \<and>
     map pa_status [a0, a1, a2, a3] = [PENDING_CONFIRMATION, APPROVED_STATUS, RUNNING, FAILED]"
proof -
  let ?t1 = "demo_transition 3 PENDING_CONFIRMATION 1 APPROVED_STATUS"
  let ?t2 = "demo_transition 3 APPROVED_STATUS 2 RUNNING"
  let ?t3 = "(demo_transition 3 RUNNING 3 FAILED)\<lparr>tr_error_code := Some ''E''\<rparr>"
  obtain a0 where a0: "create_pending_action (\<lambda>_. ''h'') (\<lambda>d. Inr (JObj d)) 10 3 (demo_table []) demo_proposal 1 =
      Inr (a0, demo_table [a0])" and f: "action_id a0 = 3" "pa_status a0 = PENDING_CONFIRMATION"
      "row_version a0 = 1" "ab_tenant_id (frozen a0) = 1"
    using demo_created by blast
  define a1 where "a1 = transition_values 11 ?t1 a0"
  define a2 where "a2 = transition_values 12 ?t2 a1"
  define a3 where "a3 = transition_values 13 ?t3 a2"
  have "execution_owner a2 = Some ''o''"
    by (simp add: a2_def transition_values_def Let_def) (simp add: demo_transition_def)
  then have m3: "transition_matches (demo_table [a2]) ?t3 1 a2"
    by (simp add: a1_def a2_def transition_matches_def f) (simp add: demo_transition_def)
  have "check_transition ?t1 1 = Inr ()" "check_transition ?t2 1 = Inr ()" "check_transition ?t3 1 = Inr ()"
    by code_simp+
  moreover have "transition_matches (demo_table [a0]) ?t1 1 a0" "transition_matches (demo_table [a1]) ?t2 1 a1"
    by (simp_all add: a1_def transition_matches_def f) (simp_all add: demo_transition_def)
  ultimately have "transition_status 11 (demo_table [a0]) ?t1 1 = Inr (Some a1, demo_table [a1])"
    "transition_status 12 (demo_table [a1]) ?t2 1 = Inr (Some a2, demo_table [a2])"
    "transition_status 13 (demo_table [a2]) ?t3 1 = Inr (Some a3, demo_table [a3])"
    using m3 by (auto simp: transition_Inr a1_def[symmetric] a2_def[symmetric] a3_def[symmetric] demo_table_def)
  then have "demo_step (demo_table []) (demo_table [a0])" "demo_step (demo_table [a0]) (demo_table [a1])"
    "demo_step (demo_table [a1]) (demo_table [a2])" "demo_step (demo_table [a2]) (demo_table [a3])"
    using action_step.propose[OF a0] action_step.transition by blast+
  moreover have "action_id a3 = 3 \<and> action_id a2 = 3 \<and> action_id a1 = 3"
    "row_version a1 = 2" "row_version a2 = 3" "row_version a3 = 4"
    "pa_status a1 = APPROVED_STATUS" "pa_status a2 = RUNNING" "pa_status a3 = FAILED"
    using f by (simp_all add: a1_def a2_def a3_def) (simp_all add: demo_transition_def)
  ultimately show ?thesis using f by (intro exI[of _ a0] exI[of _ a1] exI[of _ a2] exI[of _ a3]) simp
qed

lemma action_at_single: "action_id a = i \<Longrightarrow> action_at (demo_table [a]) i = Some a"
  by (simp add: action_at_def demo_table_def)

text \<open>From the proposal to the failure the facts are kept and the version has grown, and a change of
  other tables afterwards leaves the failure as it is.\<close>

theorem prepared_facts_immutable_witness:
  "\<exists>a b db. demo_step\<^sup>*\<^sup>* (demo_table [a]) (demo_table [b]) \<and> demo_step\<^sup>*\<^sup>* (demo_table [b]) db \<and> a \<noteq> b \<and>
     conversations db \<noteq> [] \<and> frozen b = frozen a \<and> created_at b = created_at a \<and> row_version a < row_version b \<and>
     pa_status b = FAILED \<and> action_at db 3 = Some b"
proof -
  obtain a0 a1 a2 a3 where s: "demo_step (demo_table [a0]) (demo_table [a1])"
      "demo_step (demo_table [a1]) (demo_table [a2])" "demo_step (demo_table [a2]) (demo_table [a3])"
    and f: "action_id a0 = 3" "action_id a3 = 3" "row_version a0 = 1" "row_version a3 = 4" "pa_status a3 = FAILED"
    using demo_life unfolding list.map list.inject by blast
  have r: "demo_step\<^sup>*\<^sup>* (demo_table [a0]) (demo_table [a3])"
    using s by (meson converse_rtranclp_into_rtranclp rtranclp.rtrancl_refl)
  let ?db = "(demo_table [a3])\<lparr>conversations := [\<lparr>cv_id = 3, cv_tenant = 7, cv_user = 50, cv_deleted_at = None\<rparr>]\<rparr>"
  have e: "demo_step\<^sup>*\<^sup>* (demo_table [a3]) ?db" by (rule r_into_rtranclp, rule action_step.environment) simp
  from prepared_facts_immutable[OF r action_at_single[OF f(1)]] action_at_single[OF f(2)] f
  have "frozen a3 = frozen a0 \<and> created_at a3 = created_at a0 \<and> row_version a0 < row_version a3" by auto
  moreover from prepared_facts_immutable[OF e action_at_single[OF f(2)]] f(5)
  have "action_at ?db 3 = Some a3" by auto
  ultimately show ?thesis using r e f by (intro exI[of _ a0] exI[of _ a3] exI[of _ ?db]) auto
qed

theorem no_execution_without_approval_witness:
  "\<exists>(db' :: action_db) a. a \<in> set (actions db') \<and> pa_status a = RUNNING \<and> approved_at a \<noteq> None \<and>
     execution_lease a \<noteq> None \<and> owner_given (execution_owner a) \<and> finished_at a = None"
proof -
  obtain a0 a1 a2 where s: "demo_step (demo_table []) (demo_table [a0])" "demo_step (demo_table [a0]) (demo_table [a1])"
      "demo_step (demo_table [a1]) (demo_table [a2])" and st: "pa_status a2 = RUNNING"
    using demo_life unfolding list.map list.inject by blast
  then have "demo_step\<^sup>*\<^sup>* (demo_table []) (demo_table [a2])"
    by (meson converse_rtranclp_into_rtranclp rtranclp.rtrancl_refl)
  from no_execution_without_approval[OF this, of a2] st
  have "approved_at a2 \<noteq> None \<and> execution_lease a2 \<noteq> None \<and> owner_given (execution_owner a2) \<and> finished_at a2 = None"
    by (simp add: demo_table_def)
  with st show ?thesis by - (rule exI[of _ "demo_table [a2]"], rule exI[of _ a2], simp add: demo_table_def)
qed

section \<open>Deleting a conversation\<close>

definition of_conversation :: "int \<Rightarrow> int \<Rightarrow> int \<Rightarrow> prepared_action \<Rightarrow> bool" where
  "of_conversation conv uid t a \<longleftrightarrow> ab_conversation_id (frozen a) = conv \<and> ab_user_id (frozen a) = uid \<and>
     ab_tenant_id (frozen a) = t"

definition open_log :: "int \<Rightarrow> int \<Rightarrow> int \<Rightarrow> op_log \<Rightarrow> bool" where
  "open_log conv uid t l \<longleftrightarrow> log_tenant l = t \<and> log_user l = uid \<and> log_conversation l = conv \<and>
     log_status l \<in> {''pending_confirmation'', ''running''}"

lemma terminalize_terminal [simp]: "is_terminal (pa_status (terminalize now a))"
  by (simp add: terminalize_def Let_def)

lemma terminalize_frozen [simp]: "frozen (terminalize now a) = frozen a"
  by (simp add: terminalize_def Let_def)

lemma map_of_call:
  "(\<exists>a \<in> set as. ab_execute_tool_call_id (frozen a) = c) \<Longrightarrow>
   \<exists>a. map_of (rev (map (\<lambda>a. (ab_execute_tool_call_id (frozen a), a)) as)) c = Some a"
  by (cases "map_of (rev (map (\<lambda>a. (ab_execute_tool_call_id (frozen a), a)) as)) c")
    (auto simp: map_of_eq_None_iff image_image)

lemma terminalize_expired:
  "of_conversation conv uid t a \<and> pa_status a \<in> {PREPARED, PENDING_CONFIRMATION} \<Longrightarrow>
   terminalize now a = a\<lparr>pa_status := EXPIRED, error_code := Some ''AI_CONVERSATION_DELETED'',
     row_version := row_version a + 1, finished_at := Some now, execution_owner := None,
     execution_lease := None, guard_owner_token := None\<rparr>"
  by (auto simp: terminalize_def Let_def)

lemma close_log_closes:
  assumes "by_call (log_tool_call_id l) = Some b" "l = close_log by_call conv uid t l0" "open_log conv uid t l"
  shows False
proof (cases "open_log conv uid t l0")
  case True
  have "log_tool_call_id l = log_tool_call_id l0"
    using assms(2) by (simp add: close_log_def split: option.splits)
  with True assms show False by (simp add: close_log_def open_log_def split: if_splits)
next
  case False
  then have "l = l0" using assms(2) by (auto simp: close_log_def open_log_def)
  with False assms(3) show False by simp
qed

text \<open>Property C13: deleting a conversation never interrupts an execution. The deletion goes through only
  when no action of the conversation is approved or running; then it expires exactly its prepared
  and pending actions, with one version step, a finishing time and no owner, lease or guard token,
  returns them, leaves every other action as it is, and leaves no pending or running log of an
  expired action.\<close>

theorem conversation_delete_safe:
  assumes "expire_for_conversation_delete ck now db conv uid t = Inr (ended, db')"
  shows "(\<forall>a \<in> set (actions db). of_conversation conv uid t a \<longrightarrow> pa_status a \<notin> {APPROVED_STATUS, RUNNING}) \<and>
    actions db' = map (\<lambda>a. if of_conversation conv uid t a \<and> pa_status a \<in> {PREPARED, PENDING_CONFIRMATION}
      then a\<lparr>pa_status := EXPIRED, error_code := Some ''AI_CONVERSATION_DELETED'',
             row_version := row_version a + 1, finished_at := Some now, execution_owner := None,
             execution_lease := None, guard_owner_token := None\<rparr>
      else a) (actions db) \<and>
    (\<forall>b \<in> set (actions db'). of_conversation conv uid t b \<longrightarrow> is_terminal (pa_status b)) \<and>
    set ended = terminalize now ` {a \<in> set (actions db). of_conversation conv uid t a \<and>
      pa_status a \<in> {PREPARED, PENDING_CONFIRMATION}} \<and>
    (\<forall>l \<in> set (op_logs db'). open_log conv uid t l \<longrightarrow>
       (\<forall>a \<in> set ended. ab_execute_tool_call_id (frozen a) \<noteq> log_tool_call_id l))"
proof -
  have g: "\<forall>a \<in> set (actions db). of_conversation conv uid t a \<longrightarrow> pa_status a \<notin> {APPROVED_STATUS, RUNNING}"
    using delete_guard[OF assms] by (auto simp: of_conversation_def)
  have open_iff: "of_conversation conv uid t a \<and> \<not> is_terminal (pa_status a) \<longleftrightarrow>
      of_conversation conv uid t a \<and> pa_status a \<in> {PREPARED, PENDING_CONFIRMATION}"
    if "a \<in> set (actions db)" for a
    using g that by (cases "pa_status a") auto
  have rows: "actions db' = map (\<lambda>a. if of_conversation conv uid t a \<and> \<not> is_terminal (pa_status a)
      then terminalize now a else a) (actions db)"
    using delete_rows[OF assms] by (simp add: of_conversation_def)
  have ended: "set ended = terminalize now ` {a \<in> set (actions db). of_conversation conv uid t a \<and> \<not> is_terminal (pa_status a)}"
    using assms by (auto simp: expire_for_conversation_delete_def Let_def of_conversation_def split: if_splits)
  define by_call where "by_call = map_of (rev (map (\<lambda>a. (ab_execute_tool_call_id (frozen a), a)) ended))"
  have logs': "op_logs db' = map (close_log by_call conv uid t) (op_logs db)"
    unfolding by_call_def delete_ended[OF assms] by (rule delete_logs[OF assms])
  have logs: "ab_execute_tool_call_id (frozen a) \<noteq> log_tool_call_id l"
    if "l \<in> set (op_logs db')" "open_log conv uid t l" "a \<in> set ended" for l a
  proof
    assume "ab_execute_tool_call_id (frozen a) = log_tool_call_id l"
    with that(3) obtain b where "by_call (log_tool_call_id l) = Some b"
      using map_of_call[of ended "log_tool_call_id l"] unfolding by_call_def by blast
    moreover from that(1) logs' obtain l0 where "l = close_log by_call conv uid t l0" by auto
    ultimately show False using that(2) by (rule close_log_closes)
  qed
  have rows': "actions db' = map (\<lambda>a. if of_conversation conv uid t a \<and> pa_status a \<in> {PREPARED, PENDING_CONFIRMATION}
      then a\<lparr>pa_status := EXPIRED, error_code := Some ''AI_CONVERSATION_DELETED'',
             row_version := row_version a + 1, finished_at := Some now, execution_owner := None,
             execution_lease := None, guard_owner_token := None\<rparr>
      else a) (actions db)"
    unfolding rows
    by (rule map_cong[OF refl], rule if_cong[OF open_iff], assumption, erule terminalize_expired, rule refl)
  have "set ended = terminalize now ` {a \<in> set (actions db). of_conversation conv uid t a \<and>
      pa_status a \<in> {PREPARED, PENDING_CONFIRMATION}}"
    unfolding ended using open_iff by blast
  moreover have "\<forall>b \<in> set (actions db'). of_conversation conv uid t b \<longrightarrow> is_terminal (pa_status b)"
    unfolding rows set_map by (rule ballI, erule imageE) (simp only: split: if_split, blast intro: terminalize_terminal)
  ultimately show ?thesis using g rows' logs by blast
qed

theorem conversation_delete_safe_witness:
  "\<exists>db' :: action_db. (\<forall>b \<in> set (actions db'). of_conversation 5 7 1 b \<longrightarrow> is_terminal (pa_status b)) \<and>
     (\<exists>b \<in> set (actions db'). of_conversation 5 7 1 b)"
proof -
  let ?db = "demo_table [demo_action 3 PENDING_CONFIRMATION 1]"
  obtain ended db' where d: "expire_for_conversation_delete no_checks 20 ?db 5 7 1 = Inr (ended, db')"
    by (simp add: expire_for_conversation_delete_def action_settled_def live_running_def logs_by_call_def
        List.map_filter_simps Let_def demo_defs)
  from conversation_delete_safe[OF this]
  have "\<forall>b \<in> set (actions db'). of_conversation 5 7 1 b \<longrightarrow> is_terminal (pa_status b)" by blast
  moreover have "\<exists>b \<in> set (actions db'). of_conversation 5 7 1 b"
    using delete_rows[OF d] by (simp add: demo_table_def of_conversation_def) (simp add: demo_defs)
  ultimately show ?thesis by blast
qed

end
