(* ===== verification/Projection_Props.thy ===== *)
theory Projection_Props
  imports Projection
begin

text \<open>
  Properties of the frozen lineage: it is canonical, and what is stored of it reads back as itself.
\<close>

section \<open>Canonical lists and texts\<close>

lemma sorted_set_idem [simp]: "sorted_set (sorted_set xs) = sorted_set xs"
  by (simp add: sorted_set_def sort_key_id_if_sorted)

lemma set_sorted_set [simp]: "set (sorted_set xs) = set xs"
  by (simp add: sorted_set_def)

lemma sorted_set_cong: "set xs = set ys \<Longrightarrow> sorted_set xs = sorted_set ys"
  by (simp add: sorted_set_def sorted_list_of_set_sort_remdups[symmetric])

lemma sorted_set_canonical: "sorted xs \<Longrightarrow> distinct xs \<Longrightarrow> sorted_set xs = xs"
  by (simp add: sorted_set_def sort_key_id_if_sorted distinct_remdups_id)

lemma dropWhile_idem: "dropWhile P (dropWhile P xs) = dropWhile P xs"
  by (induction xs) auto

lemma py_strip_idem [simp]: "py_strip (py_strip s) = py_strip s"
proof -
  let ?d = "dropWhile py_space"
  define t where "t = rev (?d (rev (?d s)))"
  obtain u where u: "?d s = t @ u"
    by (metis t_def takeWhile_dropWhile_id rev_append rev_rev_ident)
  have "?d t = t"
  proof (cases t)
    case (Cons c r)
    then have "\<not> py_space c" using u hd_dropWhile[of py_space s] by (cases "?d s") auto
    then show ?thesis using Cons by simp
  qed simp
  then show ?thesis by (simp add: py_strip_def t_def dropWhile_idem)
qed

lemma normalize_tool_codes_idem [simp]: "normalize_tool_codes (normalize_tool_codes codes) = normalize_tool_codes codes"
proof -
  have keep: "filter (\<lambda>s. s \<noteq> []) (map py_strip xs) = xs"
    if "set xs \<subseteq> {s. py_strip s = s \<and> s \<noteq> []}" for xs
    using that by (induction xs) auto
  have "set (normalize_tool_codes codes) \<subseteq> {s. py_strip s = s \<and> s \<noteq> []}"
    by (auto simp: normalize_tool_codes_def)
  note keep[OF this]
  then have "normalize_tool_codes (normalize_tool_codes codes) = sorted_set (normalize_tool_codes codes)"
    by (simp only: normalize_tool_codes_def)
  then show ?thesis by (simp add: normalize_tool_codes_def)
qed

section \<open>Subject references\<close>

definition canonical_ref :: "string \<times> string \<Rightarrow> bool" where
  "canonical_ref r \<longleftrightarrow> py_strip (fst r) = fst r \<and> py_strip (snd r) = snd r \<and> fst r \<noteq> [] \<and> snd r \<noteq> []"

lemma normalize_subject_ref_Inr: "normalize_subject_ref v = Inr r \<Longrightarrow> canonical_ref r"
  by (cases v) (force simp: normalize_subject_ref_def canonical_ref_def Let_def split: if_splits)+

lemma normalize_subject_ref_Inl: "normalize_subject_ref v = Inl e \<Longrightarrow> e = ValueError"
  by (auto simp: normalize_subject_ref_def Let_def split: json.splits if_splits)

lemma normalize_ref_json [simp]: "canonical_ref r \<Longrightarrow> normalize_subject_ref (ref_json r) = Inr r"
  by (auto simp: canonical_ref_def normalize_subject_ref_def ref_json_def subject_def jget_def py_str_def Let_def)

lemma mapE_map_Inr: "(\<And>x. x \<in> set xs \<Longrightarrow> f (g x) = Inr x) \<Longrightarrow> mapE f (map g xs) = Inr xs"
  by (induction xs) auto

lemma mapE_Inr_set: "mapE f xs = Inr ys \<Longrightarrow> set ys = {y. \<exists>x \<in> set xs. f x = Inr y}"
  by (induction xs arbitrary: ys) (auto simp: res_simps)

lemma normalize_subject_refs_Inr:
  "normalize_subject_refs vs = Inr refs \<Longrightarrow> (\<forall>r \<in> set refs. canonical_ref r) \<and> sorted refs \<and> distinct refs"
  by (auto simp: normalize_subject_refs_def res_simps sorted_set_def dest!: mapE_Inr_set
      intro: normalize_subject_ref_Inr)

lemma normalize_subject_refs_fixed:
  assumes "\<forall>r \<in> set refs. canonical_ref r" "sorted refs" "distinct refs"
  shows "normalize_subject_refs (map ref_json refs) = Inr refs"
  using assms by (simp add: normalize_subject_refs_def mapE_map_Inr sorted_set_canonical)

section \<open>Dependencies\<close>

lemma normalize_dependency_ids_Inr:
  "normalize_dependency_ids vs = Inr ids \<Longrightarrow> (\<forall>i \<in> set ids. 0 < i) \<and> sorted ids \<and> distinct ids"
  by (auto simp: normalize_dependency_ids_def res_simps sorted_set_def not_le split: if_splits)

lemma id_to_int_show: "0 < i \<Longrightarrow> id_to_int (IdStr (show_int i)) = Inr i"
  by (simp add: show_int_def)

lemma normalize_dependency_ids_fixed:
  assumes "\<forall>i \<in> set ids. 0 < i" "sorted ids" "distinct ids"
  shows "normalize_dependency_ids (map IdInt ids) = Inr ids"
    "normalize_dependency_ids (map (\<lambda>i. IdStr (show_int i)) ids) = Inr ids"
proof -
  have "\<not> (\<exists>i \<in> set ids. i \<le> 0)" using assms(1) by force
  then show "normalize_dependency_ids (map IdInt ids) = Inr ids"
    "normalize_dependency_ids (map (\<lambda>i. IdStr (show_int i)) ids) = Inr ids"
    using assms by (simp_all add: normalize_dependency_ids_def mapE_map_Inr id_to_int_show
        sorted_set_canonical del: id_to_int.simps(2))
qed

section \<open>Errors do not depend on the order\<close>

lemma mapE_uniform:
  assumes "\<And>x e. f x = Inl e \<Longrightarrow> e = ValueError"
  shows "mapE f xs = (if \<exists>x \<in> set xs. \<not> is_ok (f x) then Inl ValueError
    else Inr (map (\<lambda>x. case f x of Inr y \<Rightarrow> y | Inl _ \<Rightarrow> undefined) xs))"
  using assms by (induction xs) (auto split: sum.splits simp: is_ok_def bindE_def)

lemma py_int_Inl: "py_int s = Inl e \<Longrightarrow> e = ValueError"
  by (auto simp: py_int_def Let_def split: option.splits prod.splits)

lemma id_to_int_Inl: "id_to_int v = Inl e \<Longrightarrow> e = ValueError"
  by (cases v) (auto dest: py_int_Inl)

lemma normalize_subject_refs_cong: "set vs = set ws \<Longrightarrow> normalize_subject_refs vs = normalize_subject_refs ws"
  by (auto simp: normalize_subject_refs_def mapE_uniform[of normalize_subject_ref] normalize_subject_ref_Inl
      intro!: sorted_set_cong)

lemma normalize_dependency_ids_cong: "set vs = set ws \<Longrightarrow> normalize_dependency_ids vs = normalize_dependency_ids ws"
  by (auto simp: normalize_dependency_ids_def mapE_uniform[of id_to_int] id_to_int_Inl
      intro!: sorted_set_cong)

section \<open>Properties\<close>

text \<open>A frozen lineage reads back as itself. The columns a writer stores for a frozen lineage
  give the same lineage again, its subject hash verifies, and freezing its own components, as
  the reader of a download token does, changes nothing.\<close>

theorem lineage_roundtrip:
  assumes "freeze_lineage h t agent codes refs scope_hash version deps = Inr l"
  shows "lineage_from_record t (Some agent) (lineage_columns l) True = Some l \<and>
    subject_refs_hash h (ln_subject_refs l) = ln_subject_refs_hash l \<and>
    freeze_lineage h t agent (ln_tool_codes l) (map ref_json (ln_subject_refs l)) scope_hash version
      (map IdInt (ln_dependency_ids l)) = Inr l"
proof -
  from assms obtain nrefs ndeps where n: "normalize_subject_refs refs = Inr nrefs"
    "normalize_dependency_ids deps = Inr ndeps"
    and l: "l = \<lparr>ln_tenant_id = t, ln_agent_code = agent, ln_tool_codes = normalize_tool_codes codes,
      ln_subject_refs = nrefs, ln_subject_refs_hash = subject_refs_hash h nrefs,
      ln_data_scope_hash = scope_hash, ln_resolver_version = version, ln_dependency_ids = ndeps\<rparr>"
    by (auto simp: freeze_lineage_def res_simps)
  have r: "normalize_subject_refs (map ref_json nrefs) = Inr nrefs"
    using normalize_subject_refs_Inr[OF n(1)] by (simp add: normalize_subject_refs_fixed)
  have d: "normalize_dependency_ids (map IdInt ndeps) = Inr ndeps"
    "normalize_dependency_ids (map (\<lambda>i. IdStr (show_int i)) ndeps) = Inr ndeps"
    using normalize_dependency_ids_Inr[OF n(2)] by (simp_all add: normalize_dependency_ids_fixed)
  show ?thesis
    unfolding l by (simp add: lineage_from_record_def lineage_columns_def freeze_lineage_def r d)
qed

theorem lineage_roundtrip_witness:
  "lineage_from_record 1 (Some ''sys'') (lineage_columns
     \<lparr>ln_tenant_id = 1, ln_agent_code = ''sys'', ln_tool_codes = [''user.update''],
      ln_subject_refs = [(''user'', ''7'')], ln_subject_refs_hash = ''h'', ln_data_scope_hash = None,
      ln_resolver_version = DATA_SCOPE_RESOLVER_VERSION, ln_dependency_ids = [3, 5]\<rparr>) True \<noteq> None"
proof -
  have "freeze_lineage (\<lambda>_. ''h'') 1 ''sys'' ['' user.update''] [JObj [(''id'', JInt 7), (''type'', JStr ''user'')]]
      None DATA_SCOPE_RESOLVER_VERSION [IdInt 5, IdStr ''3'', IdInt 5] = Inr
     \<lparr>ln_tenant_id = 1, ln_agent_code = ''sys'', ln_tool_codes = [''user.update''],
      ln_subject_refs = [(''user'', ''7'')], ln_subject_refs_hash = ''h'', ln_data_scope_hash = None,
      ln_resolver_version = DATA_SCOPE_RESOLVER_VERSION, ln_dependency_ids = [3, 5]\<rparr>"
    by code_simp
  from lineage_roundtrip[OF this] show ?thesis by simp
qed

text \<open>A lineage is canonical. Freezing depends on the sets of tool codes, subjects and
  dependencies only, not on their order or repetitions, and so do its failures.\<close>

theorem lineage_canonical:
  assumes "set codes = set codes'" "set refs = set refs'" "set deps = set deps'"
  shows "freeze_lineage h t agent codes refs scope_hash version deps =
    freeze_lineage h t agent codes' refs' scope_hash version deps'"
proof -
  have "normalize_tool_codes codes = normalize_tool_codes codes'"
    using assms(1) by (auto simp: normalize_tool_codes_def intro!: sorted_set_cong)
  then show ?thesis
    using normalize_subject_refs_cong[OF assms(2)] normalize_dependency_ids_cong[OF assms(3)]
    by (simp add: freeze_lineage_def)
qed

theorem lineage_canonical_witness:
  "freeze_lineage (\<lambda>_. ''h'') 1 ''sys'' [''b'', ''a''] [] None [] [IdInt 2, IdInt 1, IdInt 2] =
   freeze_lineage (\<lambda>_. ''h'') 1 ''sys'' [''a'', ''b'', ''a''] [] None [] [IdInt 1, IdInt 2]"
  by (rule lineage_canonical) auto

end
