(* ===== verification/Tool_Registry.thy ===== *)
theory Tool_Registry
  imports Grant_Authority
begin

text \<open>
  The registry of AI tools (\<open>app/modules/ai/agents/tools/registry.py\<close>, \<open>meta.py\<close>) and the agent
  policy over it (\<open>app/modules/ai/service/agent_authorization_service.py\<close>). The registry is the
  dictionary of tools by name in insertion order. Which module defines a dry-run function is the
  parameter \<open>has_dry_run\<close>; the deployment's \<open>ai:enabled_tools\<close> list is the parameter \<open>extra\<close>.
\<close>

section \<open>Tools\<close>

record tool_meta =
  tm_name :: string
  tm_agent :: string
  tm_required_perms :: "string list"
  tm_hitl_always :: bool
  tm_dry_run_supported :: bool
  tm_interaction_flow :: string
  tm_prepared_execute_tool :: "string option"
  tm_llm_visible :: bool
  tm_default_enabled :: bool
  tm_result_view :: string
  tm_risk :: string
  tm_readonly :: bool
  tm_chip_target :: "string option"

record registered_tool =
  rt_meta :: tool_meta
  rt_dry_run :: bool

type_synonym registry = "(string \<times> registered_tool) list"

definition find_tool :: "registry \<Rightarrow> string \<Rightarrow> registered_tool option" where
  "find_tool reg name = map_of reg name"

definition all_tools :: "registry \<Rightarrow> registered_tool list" where
  "all_tools reg = map snd reg"

definition register_tool :: "registry \<Rightarrow> tool_meta \<Rightarrow> registry res" where
  "register_tool reg meta =
     (if map_of reg (tm_name meta) \<noteq> None then Inl ToolRegistryError
      else Inr (reg @ [(tm_name meta, \<lparr>rt_meta = meta, rt_dry_run = False\<rparr>)]))"

definition set_dry_run_fn :: "registry \<Rightarrow> string \<Rightarrow> registry res" where
  "set_dry_run_fn reg name =
     (if map_of reg name = None then Inl ToolRegistryError
      else Inr (map (\<lambda>(n, t). if n = name then (n, t\<lparr>rt_dry_run := True\<rparr>) else (n, t)) reg))"

definition by_agent :: "registry \<Rightarrow> string \<Rightarrow> registered_tool list" where
  "by_agent reg agent = filter (\<lambda>t. tm_agent (rt_meta t) = agent) (all_tools reg)"

definition prepared_source_for :: "registry \<Rightarrow> string \<Rightarrow> string option \<Rightarrow> registered_tool option" where
  "prepared_source_for reg execute_name prepare_name =
     find (\<lambda>t. tm_interaction_flow (rt_meta t) = ''prepared'' \<and>
               tm_prepared_execute_tool (rt_meta t) = Some execute_name \<and>
               (case prepare_name of None \<Rightarrow> True | Some n \<Rightarrow> tm_name (rt_meta t) = n)) (all_tools reg)"

section \<open>Startup validation\<close>

definition resolve_dry_run_fns :: "(string \<Rightarrow> bool) \<Rightarrow> registry \<Rightarrow> registry" where
  "resolve_dry_run_fns has_dry_run reg =
     map (\<lambda>(n, t). if tm_dry_run_supported (rt_meta t) \<and> \<not> rt_dry_run t \<and> has_dry_run n
                   then (n, t\<lparr>rt_dry_run := True\<rparr>) else (n, t)) reg"

definition STANDARD_VIEW_TYPES :: "string set" where
  "STANDARD_VIEW_TYPES = {''rows_affected'', ''data_list'', ''stats_chart'', ''detail_card'', ''plain_json''}"

definition check_prepared_binding :: "registry \<Rightarrow> registered_tool \<Rightarrow> unit res" where
  "check_prepared_binding reg t =
     (let meta = rt_meta t in
      if tm_interaction_flow meta = ''direct''
      then guardE (tm_prepared_execute_tool meta = None) ToolRegistryError
      else (case tm_prepared_execute_tool meta of
         None \<Rightarrow> Inl ToolRegistryError
       | Some ex \<Rightarrow>
         if ex = [] then Inl ToolRegistryError
         else (case find_tool reg ex of
            None \<Rightarrow> Inl ToolRegistryError
          | Some et \<Rightarrow>
            if tm_llm_visible (rt_meta et) then Inl ToolRegistryError
            else if \<not> tm_hitl_always (rt_meta et) then Inl ToolRegistryError
            else if tm_interaction_flow (rt_meta et) \<noteq> ''direct'' then Inl ToolRegistryError
            else guardE (tm_agent (rt_meta et) = tm_agent meta) ToolRegistryError)))"

definition validate_on_startup ::
    "(string \<Rightarrow> bool) \<Rightarrow> string set \<Rightarrow> string set \<Rightarrow> registry \<Rightarrow> registry res" where
  "validate_on_startup has_dry_run agent_codes menu_perms reg0 =
     (if reg0 = [] then Inr reg0
      else let reg = resolve_dry_run_fns has_dry_run reg0; tools = all_tools reg in
        if \<not> set (map (\<lambda>t. tm_agent (rt_meta t)) tools) \<subseteq> agent_codes then Inl ToolRegistryError
        else if \<not> set (concat (map (\<lambda>t. tm_required_perms (rt_meta t)) tools)) \<subseteq> menu_perms
        then Inl ToolRegistryError
        else if \<exists>t \<in> set tools. tm_dry_run_supported (rt_meta t) \<and> \<not> rt_dry_run t then Inl ToolRegistryError
        else if \<exists>t \<in> set tools. tm_result_view (rt_meta t) \<notin> STANDARD_VIEW_TYPES then Inl ToolRegistryError
        else bindE (mapE (check_prepared_binding reg) tools) (\<lambda>_. Inr reg))"

section \<open>Availability\<close>

definition compute_available_tools ::
    "registry \<Rightarrow> string set \<Rightarrow> string \<Rightarrow> string list option \<Rightarrow> registered_tool list" where
  "compute_available_tools reg perms agent extra =
     filter (\<lambda>t. tm_llm_visible (rt_meta t) \<and> set (tm_required_perms (rt_meta t)) \<subseteq> perms \<and>
        (case extra of None \<Rightarrow> True
         | Some names \<Rightarrow> tm_default_enabled (rt_meta t) \<or> tm_name (rt_meta t) \<in> set names))
       (by_agent reg agent)"

record ai_agent =
  ag_id :: int
  ag_code :: string
  ag_enabled :: bool
  ag_display_order :: int

definition bound_enabled_agents :: "ai_agent list \<Rightarrow> auth_db \<Rightarrow> user \<Rightarrow> int \<Rightarrow> ai_agent list" where
  "bound_enabled_agents agents db u t =
     (let role_ids = map role_id (enabled_roles (user_roles u)) in
      if role_ids = [] then []
      else filter (\<lambda>a. ag_enabled a \<and>
             (\<exists>(t', r, i, e) \<in> set (role_agents db). i = ag_id a \<and> t' = t \<and> e \<and> r \<in> set role_ids))
           (sort_key ag_display_order (sort_key ag_id agents)))"

definition list_agents ::
    "registry \<Rightarrow> string list \<Rightarrow> ai_agent list \<Rightarrow> auth_db \<Rightarrow> user \<Rightarrow> int \<Rightarrow> ai_agent list" where
  "list_agents reg extra agents db u t =
     filter (\<lambda>a. compute_available_tools reg (collect_user_permission_codes u) (ag_code a) (Some extra) \<noteq> [])
       (bound_enabled_agents agents db u t)"

definition authorize_agent_access ::
    "registry \<Rightarrow> string list \<Rightarrow> ai_agent list \<Rightarrow> auth_db \<Rightarrow> user \<Rightarrow> string \<Rightarrow> string \<Rightarrow> int \<Rightarrow> ai_agent res" where
  "authorize_agent_access reg extra agents db u code err t =
     (case find (\<lambda>a. ag_code a = code) (list_agents reg extra agents db u t) of
        None \<Rightarrow> Inl (Authorization err) | Some a \<Rightarrow> Inr a)"

text \<open>The agents visible to a user, as \<open>grant_authority_service\<close> collects them.\<close>

definition visible_agents :: "registry \<Rightarrow> string list \<Rightarrow> ai_agent list \<Rightarrow> int \<Rightarrow> auth_db \<Rightarrow> user \<Rightarrow> int set" where
  "visible_agents reg extra agents t db u = set (map ag_id (list_agents reg extra agents db u t))"

section \<open>Properties\<close>

lemma validated_binding:
  assumes "validate_on_startup dr codes perms reg0 = Inr reg" "t \<in> set (all_tools reg)"
  shows "check_prepared_binding reg t = Inr ()"
proof (cases "reg0 = []")
  case True
  then show ?thesis using assms by (simp add: validate_on_startup_def all_tools_def)
next
  case False
  then have "\<exists>us. mapE (check_prepared_binding reg) (all_tools reg) = Inr us"
    using assms(1) by (auto simp: validate_on_startup_def Let_def res_simps split: if_splits)
  then show ?thesis using mapE_Inr_in[OF _ assms(2)] by fastforce
qed

lemma find_tool_in: "find_tool reg n = Some t \<Longrightarrow> t \<in> set (all_tools reg)"
  by (force simp: find_tool_def all_tools_def dest: map_of_SomeD)

definition names_ok :: "registry \<Rightarrow> bool" where
  "names_ok reg \<longleftrightarrow> distinct (map fst reg) \<and> (\<forall>(n, t) \<in> set reg. tm_name (rt_meta t) = n)"

lemma register_names_ok: "register_tool reg meta = Inr reg' \<Longrightarrow> names_ok reg \<Longrightarrow> names_ok reg'"
  by (auto simp: register_tool_def names_ok_def map_of_eq_None_iff split: if_splits)

lemma resolve_names:
  "map fst (resolve_dry_run_fns dr reg) = map fst reg"
  by (induction reg) (auto simp: resolve_dry_run_fns_def)

lemma resolve_names_ok: "names_ok reg \<Longrightarrow> names_ok (resolve_dry_run_fns dr reg)"
  unfolding names_ok_def resolve_names by (auto simp: resolve_dry_run_fns_def split: if_splits)

lemma validated_names_ok:
  "validate_on_startup dr codes perms reg0 = Inr reg \<Longrightarrow> names_ok reg0 \<Longrightarrow> names_ok reg"
  by (auto simp: validate_on_startup_def Let_def res_simps resolve_names_ok split: if_splits)

lemma names_ok_find:
  assumes "names_ok reg" "t \<in> set (all_tools reg)"
  shows "find_tool reg (tm_name (rt_meta t)) = Some t"
  using assms by (force simp: names_ok_def all_tools_def find_tool_def)

text \<open>The model cannot reach an approval-only capability directly. In a registry that passed
  the startup validation, the execute tool a prepared tool is bound to exists, belongs to the same
  agent, always needs a human confirmation, and is offered to no model: whatever the agent, the
  permissions and the deployment list, it is never among the available tools.\<close>

theorem execute_tools_gateway_only:
  assumes "validate_on_startup has_dry_run codes menu_perms reg0 = Inr reg" "names_ok reg0"
    and "p \<in> set (all_tools reg)" "tm_interaction_flow (rt_meta p) \<noteq> ''direct''"
  shows "\<exists>ex e. tm_prepared_execute_tool (rt_meta p) = Some ex \<and> find_tool reg ex = Some e \<and>
    tm_agent (rt_meta e) = tm_agent (rt_meta p) \<and> tm_hitl_always (rt_meta e) \<and>
    (\<forall>perms agent extra. ex \<notin> (\<lambda>t. tm_name (rt_meta t)) ` set (compute_available_tools reg perms agent extra))"
proof -
  from validated_binding[OF assms(1,3)] assms(4) obtain ex e where
    e: "tm_prepared_execute_tool (rt_meta p) = Some ex" "find_tool reg ex = Some e"
      "\<not> tm_llm_visible (rt_meta e)" "tm_hitl_always (rt_meta e)" "tm_agent (rt_meta e) = tm_agent (rt_meta p)"
    by (auto simp: check_prepared_binding_def Let_def split: option.splits if_splits)
  have "\<not> tm_llm_visible (rt_meta t)" if "t \<in> set (all_tools reg)" "tm_name (rt_meta t) = ex" for t
    using names_ok_find[OF validated_names_ok[OF assms(1,2)] that(1)] that(2) e(2,3) by simp
  then have "ex \<notin> (\<lambda>t. tm_name (rt_meta t)) ` set (compute_available_tools reg perms agent extra)"
    for perms agent extra
    by (auto simp: compute_available_tools_def by_agent_def)
  with e show ?thesis by blast
qed

definition demo_meta :: "string \<Rightarrow> bool \<Rightarrow> string \<Rightarrow> string option \<Rightarrow> tool_meta" where
  "demo_meta name visible flow ex =
     \<lparr>tm_name = name, tm_agent = ''user_mgmt'', tm_required_perms = [''system:user:import''],
      tm_hitl_always = \<not> visible, tm_dry_run_supported = False, tm_interaction_flow = flow,
      tm_prepared_execute_tool = ex, tm_llm_visible = visible, tm_default_enabled = True,
      tm_result_view = ''plain_json'', tm_risk = ''low'', tm_readonly = False,
      tm_chip_target = None\<rparr>"

definition demo_registry :: registry where
  "demo_registry = map (\<lambda>m. (tm_name m, \<lparr>rt_meta = m, rt_dry_run = False\<rparr>))
     [demo_meta ''user.import_preview'' True ''prepared'' (Some ''user.import_execute''),
      demo_meta ''user.import_execute'' False ''direct'' None]"

theorem execute_tools_gateway_only_witness:
  "''user.import_execute'' \<notin> (\<lambda>t. tm_name (rt_meta t)) `
     set (compute_available_tools demo_registry {''system:user:import''} ''user_mgmt'' None)"
proof -
  have v: "validate_on_startup (\<lambda>_. False) {''user_mgmt''} {''system:user:import''} demo_registry = Inr demo_registry"
    by code_simp
  have n: "names_ok demo_registry" by (simp add: names_ok_def demo_registry_def demo_meta_def)
  let ?p = "\<lparr>rt_meta = demo_meta ''user.import_preview'' True ''prepared'' (Some ''user.import_execute''),
    rt_dry_run = False\<rparr>"
  have "?p \<in> set (all_tools demo_registry)" by (simp add: all_tools_def demo_registry_def)
  from execute_tools_gateway_only[OF v n this] show ?thesis by (simp add: demo_meta_def) blast
qed

text \<open>An agent is accessible only through a live grant. Authorization succeeds only for an
  enabled agent of that code that an active binding of the tenant links to an enabled role of the
  user and that offers at least one tool the user's permission codes cover.\<close>

theorem agent_access_needs_live_grant:
  assumes "authorize_agent_access reg extra agents db u code err t = Inr a"
  shows "a \<in> set agents \<and> ag_code a = code \<and> ag_enabled a \<and>
    (\<exists>r \<in> set (user_roles u). role_status r = STATUS_ENABLED \<and> (t, role_id r, ag_id a, True) \<in> set (role_agents db)) \<and>
    (\<exists>tool \<in> set (all_tools reg). tm_agent (rt_meta tool) = code \<and> tm_llm_visible (rt_meta tool) \<and>
       set (tm_required_perms (rt_meta tool)) \<subseteq> collect_user_permission_codes u)"
proof -
  have a: "a \<in> set (list_agents reg extra agents db u t)" "ag_code a = code"
    using assms by (auto simp: authorize_agent_access_def find_Some_iff split: option.splits)
  then have b: "a \<in> set (bound_enabled_agents agents db u t)"
    and "compute_available_tools reg (collect_user_permission_codes u) code (Some extra) \<noteq> []"
    by (auto simp: list_agents_def)
  then obtain tool where "tool \<in> set (compute_available_tools reg (collect_user_permission_codes u) code (Some extra))"
    by (cases "compute_available_tools reg (collect_user_permission_codes u) code (Some extra)") auto
  then show ?thesis using b a(2)
    by (auto simp: bound_enabled_agents_def compute_available_tools_def by_agent_def enabled_roles_def Let_def
        split: if_splits)
qed

definition demo_role :: role where
  "demo_role = \<lparr>role_id = 4, role_tenant = 1, role_code = ''R_HR'', role_name = ''hr'', role_status = ''1'',
     data_scope = ''1'', role_menus = [\<lparr>menu_id = 9, menu_permission = Some ''system:user:import''\<rparr>],
     role_dept_links = []\<rparr>"

definition demo_user :: user where
  "demo_user = \<lparr>user_id = 7, user_tenant = 1, user_name = ''ann'', user_status = ''1'',
     user_roles = [demo_role], user_depts = []\<rparr>"

definition demo_agent_db :: auth_db where
  "demo_agent_db = \<lparr>scope = \<lparr>db_depts = [], db_role_depts = [], db_user_depts = [], db_users = []\<rparr>,
     rows_users = [], rows_roles = [], links_roles = [], primary_depts = [], role_agents = [(1, 4, 2, True)]\<rparr>"

theorem agent_access_needs_live_grant_witness:
  "(1, 4, 2, True) \<in> set (role_agents demo_agent_db) \<and>
   authorize_agent_access demo_registry [] [\<lparr>ag_id = 2, ag_code = ''user_mgmt'', ag_enabled = True, ag_display_order = 0\<rparr>]
     demo_agent_db demo_user ''user_mgmt'' ''AI_AGENT_FORBIDDEN'' 1 =
   Inr \<lparr>ag_id = 2, ag_code = ''user_mgmt'', ag_enabled = True, ag_display_order = 0\<rparr>"
proof -
  let ?a = "\<lparr>ag_id = 2, ag_code = ''user_mgmt'', ag_enabled = True, ag_display_order = 0\<rparr>"
  have "authorize_agent_access demo_registry [] [?a] demo_agent_db demo_user ''user_mgmt'' ''AI_AGENT_FORBIDDEN'' 1 = Inr ?a"
    by code_simp
  from agent_access_needs_live_grant[OF this] this show ?thesis
    by (simp add: demo_user_def demo_role_def)
qed

end
