(* ===== verification/Projection_Access.thy ===== *)
theory Projection_Access
  imports Prepared_Action Tool_Registry
begin

text \<open>
  Re-authorization of persisted AI results (\<open>ResultProjectionService\<close> of
  \<open>app/modules/ai/service/result_projection_service.py\<close>): a stored result is shown again only after
  its frozen lineage passes the viewer's live agent, tool, data scope and subject checks, and so
  does every earlier message it was computed from. The look-ups of services that are not modelled
  are fields of \<open>other_services\<close>.
\<close>

section \<open>Environment\<close>

record other_services =
  authorize_role_projection :: "int \<Rightarrow> int \<Rightarrow> int \<Rightarrow> unit res"
  dept_by_id :: "int \<Rightarrow> int \<Rightarrow> unit res"
  role_detail :: "int \<Rightarrow> int \<Rightarrow> unit res"
  job_by_id :: "int \<Rightarrow> int \<Rightarrow> unit res"
  file_by_id :: "int \<Rightarrow> int \<Rightarrow> int \<Rightarrow> unit res"
  import_operator :: "string \<Rightarrow> int \<Rightarrow> int option res"
  export_task :: "string \<Rightarrow> int \<Rightarrow> int \<Rightarrow> bool res"

record access_env =
  env_hash :: "json \<Rightarrow> string"
  env_registry :: registry
  env_extra :: "string list"
  env_agents :: "ai_agent list"
  env_auth :: auth_db
  env_services :: other_services

definition AI_CHAT_USE_PERMISSION :: string where "AI_CHAT_USE_PERMISSION = ''ai:chat:use''"

definition has_explicit_permission :: "user \<Rightarrow> string \<Rightarrow> bool" where
  "has_explicit_permission u p \<longleftrightarrow> p \<in> collect_user_permission_codes u"

definition env_vis :: "access_env \<Rightarrow> int \<Rightarrow> auth_db \<Rightarrow> user \<Rightarrow> int set" where
  "env_vis env t = visible_agents (env_registry env) (env_extra env) (env_agents env) t"

text \<open>\<open>except (BusinessException, TypeError, ValueError): return False\<close>.\<close>

definition refuse_on_error :: "bool res \<Rightarrow> bool res" where
  "refuse_on_error r = (case r of
       Inl e \<Rightarrow> if is_business e \<or> e = TypeError \<or> e = ValueError then Inr False else Inl e
     | Inr b \<Rightarrow> Inr b)"

section \<open>Data scope\<close>

definition build_data_scope_context :: "auth_db \<Rightarrow> user \<Rightarrow> int \<Rightarrow> resolution res" where
  "build_data_scope_context db u t =
     bindE (resolve_data_scope (scope db) u t) (\<lambda>res.
     bindE (get_user_filters_from_resolution res) (\<lambda>_. Inr res))"

definition compute_data_scope_hash :: "(json \<Rightarrow> string) \<Rightarrow> auth_db \<Rightarrow> user \<Rightarrow> int \<Rightarrow> string res" where
  "compute_data_scope_hash h db u t =
     bindE (build_data_scope_context db u t) (\<lambda>res. Inr (h (JObj
       [(''resolverVersion'', JStr DATA_SCOPE_RESOLVER_VERSION),
        (''isSuperAdmin'', JBool (is_super_admin u)),
        (''enabledRoleScopes'', JArr (map (\<lambda>r. JObj
            [(''roleId'', JStr (show_int (role_id r))), (''dataScope'', JStr (data_scope r))])
          (sort_key role_id (enabled_roles (user_roles u))))),
        (''ownerUserId'', JStr (show_int (user_id u))),
        (''accessibleDeptIds'', (case accessible_dept_ids res of
            None \<Rightarrow> JStr ''all'' | Some ds \<Rightarrow> jstrs (show_int ` ds))),
        (''userScope'', JStr (if accessible_user_scope res = None then ''all'' else ''dept_or_self''))])))"

section \<open>Agent and tools\<close>

definition tool_allowed :: "access_env \<Rightarrow> user \<Rightarrow> string \<Rightarrow> string \<Rightarrow> bool" where
  "tool_allowed env u agent code =
     (let perms = collect_user_permission_codes u; extra = set (env_extra env) in
      case find_tool (env_registry env) code of
        None \<Rightarrow> False
      | Some t \<Rightarrow>
        tm_agent (rt_meta t) = agent \<and> set (tm_required_perms (rt_meta t)) \<subseteq> perms \<and>
        (tm_default_enabled (rt_meta t) \<or> tm_name (rt_meta t) \<in> extra) \<and>
        (tm_llm_visible (rt_meta t) \<or>
         (case prepared_source_for (env_registry env) (tm_name (rt_meta t)) None of
            None \<Rightarrow> False
          | Some s \<Rightarrow> set (tm_required_perms (rt_meta s)) \<subseteq> perms \<and>
              (tm_default_enabled (rt_meta s) \<or> tm_name (rt_meta s) \<in> extra))))"

definition authorize_agent_and_tools :: "access_env \<Rightarrow> user \<Rightarrow> lineage \<Rightarrow> bool" where
  "authorize_agent_and_tools env u l \<longleftrightarrow>
     is_ok (authorize_agent_access (env_registry env) (env_extra env) (env_agents env) (env_auth env) u
              (ln_agent_code l) ''AI_AGENT_FORBIDDEN'' (user_tenant u)) \<and>
     list_all (tool_allowed env u (ln_agent_code l)) (ln_tool_codes l)"

section \<open>Subjects\<close>

definition delegated_kinds :: "string list" where
  "delegated_kinds = [''delegable_role'', ''managed_role'', ''grantable_menu'', ''grantable_agent'',
     ''complete_user_role_assignment'', ''user_role_assignment_access'']"

definition ids_of_kind :: "string \<Rightarrow> (string \<times> string) list \<Rightarrow> int list" where
  "ids_of_kind k refs = List.map_filter (\<lambda>(ty, i). if ty = k
     then (case py_int i of Inr n \<Rightarrow> Some n | Inl _ \<Rightarrow> None) else None) refs"

fun all_complete ::
    "(json \<Rightarrow> string) \<Rightarrow> (auth_db \<Rightarrow> user \<Rightarrow> int set) \<Rightarrow> auth_db \<Rightarrow> int \<Rightarrow> int list \<Rightarrow> int \<Rightarrow> bool res" where
  "all_complete h vis db me [] t = Inr True"
| "all_complete h vis db me (v # vs) t =
     bindE (get_complete_assignable_roles h vis db me v t) (\<lambda>(roles, complete).
       if complete then all_complete h vis db me vs t else Inr False)"

definition authorize_delegated :: "access_env \<Rightarrow> user \<Rightarrow> lineage \<Rightarrow> bool res" where
  "authorize_delegated env u l =
     (let t = user_tenant u; refs = ln_subject_refs l; db = env_auth env; h = env_hash env;
          vis = env_vis env t; me = user_id u;
          menus = ids_of_kind ''grantable_menu'' refs; agents = ids_of_kind ''grantable_agent'' refs;
          roles = ids_of_kind ''delegable_role'' refs
      in bindE (mapE (\<lambda>(ty, i). if ty \<in> set delegated_kinds then bindE (py_int i) (\<lambda>_. Inr ()) else Inr ()) refs) (\<lambda>_.
         bindE (if menus = [] \<and> agents = [] then Inr True
                else bindE (build_authority h vis db me t) (\<lambda>auth.
                  Inr ((menus = [] \<or> allows_menu_ids auth (set menus)) \<and>
                       (agents = [] \<or> allows_agent_ids auth (set agents))))) (\<lambda>ok1.
         if \<not> ok1 then Inr False
         else bindE (if roles = [] then Inr True
                     else roles_are_assignable h vis db me (map IdInt roles) t) (\<lambda>ok2.
         if \<not> ok2 then Inr False
         else bindE (mapE (\<lambda>r. authorize_role_projection (env_services env) me r t)
                       (ids_of_kind ''managed_role'' refs)) (\<lambda>_.
              bindE (all_complete h vis db me (ids_of_kind ''complete_user_role_assignment'' refs) t) (\<lambda>ok3.
              if \<not> ok3 then Inr False
              else bindE (mapE (\<lambda>v. ensure_role_assignment_access h vis db me v t)
                            (ids_of_kind ''user_role_assignment_access'' refs)) (\<lambda>_. Inr True)))))))"

definition authorize_subject :: "access_env \<Rightarrow> user \<Rightarrow> resolution \<Rightarrow> int \<Rightarrow> string \<times> string \<Rightarrow> bool res" where
  "authorize_subject env u res tenant_id ref =
     (let t = user_tenant u; (ty, i) = ref; sv = env_services env in
      if t \<noteq> tenant_id then Inr False
      else refuse_on_error
        (if ty = ''user'' then bindE (py_int i) (\<lambda>n. Inr (case accessible_user_scope res of
             Some sc \<Rightarrow> n \<in> eval_user_scope (scope (env_auth env)) sc
           | None \<Rightarrow> (\<exists>x \<in> set (rows_users (env_auth env)). user_tenant x = t \<and> user_id x = n)))
         else if ty = ''dept'' then bindE (py_int i) (\<lambda>n. case accessible_dept_ids res of
             Some ds \<Rightarrow> Inr (n \<in> ds)
           | None \<Rightarrow> bindE (dept_by_id sv n t) (\<lambda>_. Inr True))
         else if ty = ''role'' then bindE (py_int i) (\<lambda>n. bindE (role_detail sv n t) (\<lambda>_. Inr True))
         else if ty = ''job'' then bindE (py_int i) (\<lambda>n. bindE (job_by_id sv n t) (\<lambda>_. Inr True))
         else if ty = ''file'' then bindE (py_int i) (\<lambda>n. bindE (file_by_id sv n (user_id u) t) (\<lambda>_. Inr True))
         else if ty = ''user_import_batch''
         then bindE (import_operator sv i t) (\<lambda>op. Inr (op = Some (user_id u)))
         else if ty = ''user_export_task'' then export_task sv i (user_id u) t
         else Inr False))"

fun all_authorized :: "((string \<times> string) \<Rightarrow> bool res) \<Rightarrow> (string \<times> string) list \<Rightarrow> bool res" where
  "all_authorized f [] = Inr True"
| "all_authorized f (r # rs) = bindE (f r) (\<lambda>ok. if ok then all_authorized f rs else Inr False)"

definition authorize_subjects :: "access_env \<Rightarrow> user \<Rightarrow> lineage \<Rightarrow> bool res" where
  "authorize_subjects env u l =
     (if ln_subject_refs l = [] then Inr True
      else if user_tenant u \<noteq> ln_tenant_id l then Inr False
      else bindE (refuse_on_error (authorize_delegated env u l)) (\<lambda>ok.
        if \<not> ok then Inr False
        else bindE (build_data_scope_context (env_auth env) u (user_tenant u)) (\<lambda>res.
          all_authorized (authorize_subject env u res (ln_tenant_id l))
            (filter (\<lambda>(ty, i). ty \<notin> set delegated_kinds) (ln_subject_refs l)))))"

section \<open>Dependencies\<close>

text \<open>One round over the rows of a batch: None when a row refuses, otherwise the dependencies the rows
  name. \<open>root\<close> is the message being read when dependencies on it are forbidden. The rows come in
  table order.\<close>

fun check_rows :: "(message \<Rightarrow> bool res) \<Rightarrow> int option \<Rightarrow> message list \<Rightarrow> int set option res" where
  "check_rows auth root [] = Inr (Some {})"
| "check_rows auth root (m # ms) =
     (if ms_role m = ''user'' then Inr None
      else (case dependency_message_ids (ms_projection m) of
         None \<Rightarrow> Inr None
       | Some nested \<Rightarrow>
         if (case root of None \<Rightarrow> False | Some r \<Rightarrow> r \<in> set nested) then Inr None
         else bindE (auth m) (\<lambda>ok. if ok
                then bindE (check_rows auth root ms) (\<lambda>r. Inr (map_option ((\<union>) (set nested)) r))
                else Inr None)))"

lemma batch_progress:
  assumes "pending - visited \<noteq> {}"
    and "ms_id ` set (filter (\<lambda>m. visible m \<and> ms_id m \<in> pending - visited) msgs) = pending - visited"
  shows "card (ms_id ` set msgs - (visited \<union> (pending - visited))) < card (ms_id ` set msgs - visited)"
proof (rule psubset_card_mono)
  from assms(1) obtain i where i: "i \<in> pending - visited" by blast
  then have "i \<in> ms_id ` set msgs" using assms(2) by (metis (no_types, lifting) filter_is_subset image_mono subset_iff)
  with i show "ms_id ` set msgs - (visited \<union> (pending - visited)) \<subset> ms_id ` set msgs - visited" by blast
qed simp

text \<open>The \<open>while pending\<close> loop. Each round marks at least one stored message as visited.\<close>

function walk_dependencies ::
    "(message \<Rightarrow> bool res) \<Rightarrow> (message \<Rightarrow> bool) \<Rightarrow> int option \<Rightarrow> message list \<Rightarrow> int set \<Rightarrow> int set \<Rightarrow> bool res" where
  "walk_dependencies auth visible root msgs visited pending =
     (if pending - visited = {} then Inr True
      else if ms_id ` set (filter (\<lambda>m. visible m \<and> ms_id m \<in> pending - visited) msgs) \<noteq> pending - visited
      then Inr False
      else (case check_rows auth root (filter (\<lambda>m. visible m \<and> ms_id m \<in> pending - visited) msgs) of
         Inl e \<Rightarrow> Inl e
       | Inr None \<Rightarrow> Inr False
       | Inr (Some nested) \<Rightarrow>
           walk_dependencies auth visible root msgs (visited \<union> (pending - visited)) (pending \<union> nested)))"
  by pat_completeness auto

termination walk_dependencies
proof (relation "measure (\<lambda>(auth, visible, root, msgs, visited, pending). card (ms_id ` set msgs - visited))",
    goal_cases)
  case (2 auth visible root msgs visited pending)
  from batch_progress[OF 2(1) 2(2)[unfolded not_not]] show ?case by simp
qed simp

declare walk_dependencies.simps [simp del]

section \<open>Results and messages\<close>

definition lineage_of_message :: "message \<Rightarrow> bool \<Rightarrow> lineage option" where
  "lineage_of_message m incl = lineage_from_record (ms_tenant m) (ms_agent_code m) (ms_projection m) incl"

text \<open>\<open>authorize_result_projection\<close> up to its dependencies.\<close>

definition authorize_lineage :: "access_env \<Rightarrow> user \<Rightarrow> int \<Rightarrow> lineage option \<Rightarrow> bool res" where
  "authorize_lineage env u owner lin =
     (case lin of
        None \<Rightarrow> Inr False
      | Some l \<Rightarrow>
        if owner \<noteq> user_id u \<or> ln_tenant_id l \<noteq> user_tenant u \<or>
           \<not> has_explicit_permission u AI_CHAT_USE_PERMISSION \<or>
           subject_refs_hash (env_hash env) (ln_subject_refs l) \<noteq> ln_subject_refs_hash l \<or>
           ln_resolver_version l \<noteq> DATA_SCOPE_RESOLVER_VERSION \<or> \<not> authorize_agent_and_tools env u l
        then Inr False
        else bindE (case ln_data_scope_hash l of
               None \<Rightarrow> Inr True
             | Some hsh \<Rightarrow> bindE (compute_data_scope_hash (env_hash env) (env_auth env) u (user_tenant u))
                 (\<lambda>cur. Inr (cur = hsh))) (\<lambda>ok.
             if ok then authorize_subjects env u l else Inr False))"

text \<open>A dependency is authorized without its own dependencies, which the loop follows.\<close>

definition authorize_dependency :: "access_env \<Rightarrow> user \<Rightarrow> int \<Rightarrow> message \<Rightarrow> bool res" where
  "authorize_dependency env u owner m = authorize_lineage env u owner (lineage_of_message m False)"

definition owned_message :: "action_db \<Rightarrow> int \<Rightarrow> int \<Rightarrow> message \<Rightarrow> bool" where
  "owned_message db t owner m \<longleftrightarrow> ms_tenant m = t \<and>
     (\<exists>c \<in> set (conversations db). cv_tenant c = ms_tenant m \<and> cv_id c = ms_conversation m \<and>
        cv_user c = owner \<and> cv_deleted_at c = None)"

definition authorize_projection_dependencies ::
    "access_env \<Rightarrow> action_db \<Rightarrow> user \<Rightarrow> int \<Rightarrow> int list \<Rightarrow> bool res" where
  "authorize_projection_dependencies env db u owner deps =
     walk_dependencies (authorize_dependency env u owner) (owned_message db (user_tenant u) owner) None
       (messages db) {} (set deps)"

definition authorize_result_projection ::
    "access_env \<Rightarrow> action_db \<Rightarrow> user \<Rightarrow> int \<Rightarrow> lineage option \<Rightarrow> bool res" where
  "authorize_result_projection env db u owner lin =
     bindE (authorize_lineage env u owner lin) (\<lambda>ok.
       case lin of
         Some l \<Rightarrow> if ok then authorize_projection_dependencies env db u owner (ln_dependency_ids l) else Inr False
       | None \<Rightarrow> Inr False)"

definition authorize_message_projection :: "access_env \<Rightarrow> action_db \<Rightarrow> user \<Rightarrow> int \<Rightarrow> message \<Rightarrow> bool res" where
  "authorize_message_projection env db u owner m =
     (case dependency_message_ids (ms_projection m) of
        None \<Rightarrow> Inr False
      | Some deps \<Rightarrow>
        bindE (authorize_result_projection env db u owner (lineage_of_message m False)) (\<lambda>ok.
          if \<not> ok \<or> ms_id m \<in> set deps then Inr False
          else walk_dependencies (authorize_dependency env u owner)
                 (\<lambda>x. ms_tenant x = user_tenant u \<and> ms_conversation x = ms_conversation m) (Some (ms_id m))
                 (messages db) {} (set deps)))"

definition collect_message_projection_dependencies :: "action_db \<Rightarrow> int \<Rightarrow> int \<Rightarrow> int list" where
  "collect_message_projection_dependencies db conv t =
     sorted_list_of_set (set (concat (map (\<lambda>m. ms_id m #
         (case dependency_message_ids (ms_projection m) of None \<Rightarrow> [] | Some ns \<Rightarrow> ns))
       (filter (\<lambda>m. ms_tenant m = t \<and> ms_conversation m = conv \<and> ms_role m \<noteq> ''user'' \<and> ms_active m)
         (messages db)))))"

text \<open>\<open>project_pending_out\<close> of the prepared-action service: the details of a pending action, or its
  status only.\<close>

datatype pending_out = PendingDetails prepared_action | PendingStatusOnly string pstatus "int option"

definition project_pending_out :: "access_env \<Rightarrow> action_db \<Rightarrow> user \<Rightarrow> prepared_action \<Rightarrow> pending_out res" where
  "project_pending_out env db u a =
     bindE (authorize_result_projection env db u (ab_user_id (frozen a))
              (lineage_from_record (ab_tenant_id (frozen a)) (Some (ab_agent_code (frozen a))) (pa_projection a) True))
       (\<lambda>ok. Inr (if ok then PendingDetails a
                  else PendingStatusOnly (ab_confirmation_id (frozen a)) (pa_status a) (finished_at a)))"

end
