(* ===== verification/Projection_Access_Props.thy ===== *)
theory Projection_Access_Props
  imports Projection_Access
begin

text \<open>
  What re-authorization guarantees: the loop over dependencies decides exactly reachability through
  authorized messages, and the details of a pending action are shown only under live authority.
\<close>

section \<open>The dependency loop\<close>

definition deps_of :: "message \<Rightarrow> int set" where
  "deps_of m = (case dependency_message_ids (ms_projection m) of None \<Rightarrow> {} | Some ns \<Rightarrow> set ns)"

definition good_row :: "(message \<Rightarrow> bool res) \<Rightarrow> int option \<Rightarrow> message \<Rightarrow> bool" where
  "good_row auth root m \<longleftrightarrow> ms_role m \<noteq> ''user'' \<and> dependency_message_ids (ms_projection m) \<noteq> None \<and>
     (case root of None \<Rightarrow> True | Some r \<Rightarrow> r \<notin> deps_of m) \<and> auth m = Inr True"

definition dep_rel :: "(message \<Rightarrow> bool) \<Rightarrow> message list \<Rightarrow> (int \<times> int) set" where
  "dep_rel visible msgs = {(i, j). \<exists>m \<in> set msgs. visible m \<and> ms_id m = i \<and> j \<in> deps_of m}"

text \<open>A message of that id is visible, and every visible row of it is good.\<close>

definition ok_id :: "(message \<Rightarrow> bool res) \<Rightarrow> (message \<Rightarrow> bool) \<Rightarrow> int option \<Rightarrow> message list \<Rightarrow> int \<Rightarrow> bool" where
  "ok_id auth visible root msgs i \<longleftrightarrow>
     (\<exists>m \<in> set msgs. visible m \<and> ms_id m = i) \<and>
     (\<forall>m \<in> set msgs. visible m \<and> ms_id m = i \<longrightarrow> good_row auth root m)"

lemma check_rows_good:
  "check_rows auth root ms = Inr (Some N) \<longleftrightarrow> (\<forall>m \<in> set ms. good_row auth root m) \<and> N = (\<Union>m \<in> set ms. deps_of m)"
proof (induction ms arbitrary: N)
  case (Cons m ms)
  show ?case
  proof (cases "good_row auth root m")
    case True
    then obtain ns where "dependency_message_ids (ms_projection m) = Some ns" by (auto simp: good_row_def)
    with True Cons show ?thesis
      by (cases "check_rows auth root ms"; cases root) (auto simp: good_row_def deps_of_def)
  next
    case False
    have "check_rows auth root (m # ms) \<noteq> Inr (Some N)"
      using False by (auto simp: good_row_def deps_of_def res_simps split: option.splits if_splits)
    with False show ?thesis by simp
  qed
qed auto

lemma batch_ok:
  assumes "ms_id ` set (filter (\<lambda>m. visible m \<and> ms_id m \<in> B) msgs) = B"
  shows "(\<forall>m \<in> set (filter (\<lambda>m. visible m \<and> ms_id m \<in> B) msgs). good_row auth root m) \<longleftrightarrow>
    (\<forall>i \<in> B. ok_id auth visible root msgs i)"
proof -
  have "\<exists>m \<in> set msgs. visible m \<and> ms_id m = i" if "i \<in> B" for i
  proof -
    from that have "i \<in> ms_id ` set (filter (\<lambda>m. visible m \<and> ms_id m \<in> B) msgs)" by (simp only: assms)
    then show ?thesis by auto
  qed
  then show ?thesis unfolding ok_id_def by auto
qed

lemma batch_deps:
  "(\<Union>m \<in> set (filter (\<lambda>m. visible m \<and> ms_id m \<in> B) msgs). deps_of m) = dep_rel visible msgs `` B"
  by (auto simp: dep_rel_def)

lemma walk_correct:
  assumes "visited \<subseteq> pending" "\<forall>i \<in> visited. ok_id auth visible root msgs i"
    "dep_rel visible msgs `` visited \<subseteq> pending"
  shows "walk_dependencies auth visible root msgs visited pending = Inr True \<longleftrightarrow>
    (\<forall>i \<in> (dep_rel visible msgs)\<^sup>* `` pending. ok_id auth visible root msgs i)"
  using assms
proof (induction auth visible root msgs visited pending rule: walk_dependencies.induct)
  case (1 auth visible root msgs visited pending)
  let ?B = "pending - visited"
  let ?rows = "filter (\<lambda>m. visible m \<and> ms_id m \<in> ?B) msgs"
  let ?R = "dep_rel visible msgs"
  have sub: "?B \<subseteq> ?R\<^sup>* `` pending" by blast
  show ?case
  proof (cases "?B = {}")
    case True
    with 1(2) have eq: "pending = visited" by blast
    have "?R\<^sup>* `` pending = pending" using 1(4) eq by (simp add: Image_closed_trancl)
    moreover have "walk_dependencies auth visible root msgs visited pending = Inr True"
      by (simp add: walk_dependencies.simps True)
    ultimately show ?thesis using 1(3) eq by simp
  next
    case ne: False
    show ?thesis
    proof (cases "ms_id ` set ?rows = ?B")
      case False
      then obtain i where "i \<in> ?B" "i \<notin> ms_id ` set ?rows" by auto
      then have "\<not> ok_id auth visible root msgs i" by (auto simp: ok_id_def)
      moreover have "walk_dependencies auth visible root msgs visited pending = Inr False"
        unfolding walk_dependencies.simps[of auth visible root msgs visited] using ne False by (simp only: if_False if_True not_False_eq_True simp_thms)
      ultimately show ?thesis using sub \<open>i \<in> ?B\<close> by auto
    next
      case ids: True
      have step: "walk_dependencies auth visible root msgs visited pending =
          (case check_rows auth root ?rows of Inl e \<Rightarrow> Inl e | Inr None \<Rightarrow> Inr False
           | Inr (Some nested) \<Rightarrow> walk_dependencies auth visible root msgs (visited \<union> ?B) (pending \<union> nested))"
        using ne ids by (subst walk_dependencies.simps) simp
      show ?thesis
      proof (cases "\<exists>N. check_rows auth root ?rows = Inr (Some N)")
        case True
        then obtain N where N: "check_rows auth root ?rows = Inr (Some N)" by blast
        then have good: "\<forall>m \<in> set ?rows. good_row auth root m" and N': "N = (\<Union>m \<in> set ?rows. deps_of m)"
          using check_rows_good[of auth root ?rows N] by blast+
        have ok: "\<forall>i \<in> ?B. ok_id auth visible root msgs i" using good batch_ok[OF ids] by blast
        have NR: "N = ?R `` ?B" unfolding N' by (rule batch_deps)
        have reach: "?R\<^sup>* `` (pending \<union> N) = ?R\<^sup>* `` pending"
          unfolding NR by (auto intro: converse_rtrancl_into_rtrancl)
        have "walk_dependencies auth visible root msgs (visited \<union> ?B) (pending \<union> N) = Inr True \<longleftrightarrow>
            (\<forall>i \<in> ?R\<^sup>* `` (pending \<union> N). ok_id auth visible root msgs i)"
        proof (rule 1(1)[OF ne _ N refl])
          show "\<not> ms_id ` set ?rows \<noteq> ?B" using ids by simp
          show "visited \<union> ?B \<subseteq> pending \<union> N" using 1(2) by blast
          show "\<forall>i \<in> visited \<union> ?B. ok_id auth visible root msgs i" using ok 1(3) by blast
          show "?R `` (visited \<union> ?B) \<subseteq> pending \<union> N" unfolding NR Image_Un using 1(4) by blast
        qed
        then show ?thesis unfolding step N reach by simp
      next
        case False
        then have "\<not> (\<forall>i \<in> ?B. ok_id auth visible root msgs i)"
          using batch_ok[OF ids, of auth root] check_rows_good by blast
        moreover have "walk_dependencies auth visible root msgs visited pending \<noteq> Inr True"
          unfolding step using False by (auto split: sum.splits option.splits)
        ultimately show ?thesis using sub by blast
      qed
    qed
  qed
qed

text \<open>Property C16: a result is shown exactly when its whole history is authorized. The viewer passes iff the
  result's own lineage passes the live checks and every message reachable through the recorded
  dependencies is a stored, non-user message of a live conversation of the owner whose own
  dependencies are recorded and whose lineage passes the same live checks; one missing, deleted,
  legacy or refused message anywhere in that history hides the result.\<close>

theorem result_shown_iff_history_authorized:
  "authorize_result_projection env db u owner (Some l) = Inr True \<longleftrightarrow>
     authorize_lineage env u owner (Some l) = Inr True \<and>
     (\<forall>i \<in> (dep_rel (owned_message db (user_tenant u) owner) (messages db))\<^sup>* `` set (ln_dependency_ids l).
        ok_id (authorize_dependency env u owner) (owned_message db (user_tenant u) owner) None (messages db) i)"
proof -
  have "authorize_projection_dependencies env db u owner (ln_dependency_ids l) = Inr True \<longleftrightarrow>
     (\<forall>i \<in> (dep_rel (owned_message db (user_tenant u) owner) (messages db))\<^sup>* `` set (ln_dependency_ids l).
        ok_id (authorize_dependency env u owner) (owned_message db (user_tenant u) owner) None (messages db) i)"
    unfolding authorize_projection_dependencies_def by (rule walk_correct) auto
  then show ?thesis
    by (auto simp: authorize_result_projection_def res_simps split: if_splits)
qed

section \<open>Who sees a pending action\<close>

lemma refuse_on_error_True [simp]: "refuse_on_error r = Inr True \<longleftrightarrow> r = Inr True"
  by (auto simp: refuse_on_error_def split: sum.splits)

lemma all_authorized_True: "all_authorized f rs = Inr True \<longleftrightarrow> (\<forall>r \<in> set rs. f r = Inr True)"
  by (induction rs) (auto simp: res_simps split: if_splits)

lemma authorize_subjects_True:
  assumes "authorize_subjects env u l = Inr True" "(ty, i) \<in> set (ln_subject_refs l)" "ty \<notin> set delegated_kinds"
  obtains res where "build_data_scope_context (env_auth env) u (user_tenant u) = Inr res"
    "authorize_subject env u res (ln_tenant_id l) (ty, i) = Inr True"
  using assms by (auto simp: authorize_subjects_def res_simps all_authorized_True split: if_splits)

lemma authorize_lineage_True:
  assumes "authorize_lineage env u owner (Some l) = Inr True"
  shows "owner = user_id u" "ln_tenant_id l = user_tenant u"
    "AI_CHAT_USE_PERMISSION \<in> collect_user_permission_codes u"
    "subject_refs_hash (env_hash env) (ln_subject_refs l) = ln_subject_refs_hash l"
    "authorize_agent_and_tools env u l" "authorize_subjects env u l = Inr True"
  using assms
  by (simp_all add: authorize_lineage_def has_explicit_permission_def res_simps split: if_splits)

lemma tool_allowed_tool:
  "tool_allowed env u agent code \<Longrightarrow> \<exists>tool. find_tool (env_registry env) code = Some tool \<and>
     tm_agent (rt_meta tool) = agent \<and> set (tm_required_perms (rt_meta tool)) \<subseteq> collect_user_permission_codes u"
  by (cases "find_tool (env_registry env) code") (simp_all add: tool_allowed_def Let_def)

lemma result_projection_True:
  assumes "authorize_result_projection env db u owner lin = Inr True"
  obtains l where "lin = Some l" "authorize_lineage env u owner (Some l) = Inr True"
proof (cases lin)
  case None
  then show ?thesis using assms by (simp add: authorize_result_projection_def authorize_lineage_def)
next
  case (Some l)
  then show ?thesis
    using assms that by (cases "authorize_lineage env u owner (Some l)")
      (auto simp: authorize_result_projection_def split: if_splits)
qed

text \<open>The details of a pending action are shown only under live authority. Whoever sees them
  owns the action in its tenant, has the explicit chat permission, can use the action's agent now,
  holds every permission of every recorded tool, which all belong to that agent, and every user
  and department the action is about lies in the viewer's present data scope.\<close>

theorem pending_details_need_live_authority:
  assumes "project_pending_out env db u a = Inr (PendingDetails b)"
  shows "b = a \<and> ab_user_id (frozen a) = user_id u \<and> ab_tenant_id (frozen a) = user_tenant u \<and>
    AI_CHAT_USE_PERMISSION \<in> collect_user_permission_codes u \<and>
    (\<exists>l. lineage_from_record (ab_tenant_id (frozen a)) (Some (ab_agent_code (frozen a))) (pa_projection a) True = Some l \<and>
      (\<exists>ag. authorize_agent_access (env_registry env) (env_extra env) (env_agents env) (env_auth env) u
         (ab_agent_code (frozen a)) ''AI_AGENT_FORBIDDEN'' (user_tenant u) = Inr ag) \<and>
      (\<forall>code \<in> set (ln_tool_codes l). \<exists>tool. find_tool (env_registry env) code = Some tool \<and>
         tm_agent (rt_meta tool) = ab_agent_code (frozen a) \<and>
         set (tm_required_perms (rt_meta tool)) \<subseteq> collect_user_permission_codes u) \<and>
      (\<forall>i. (''user'', i) \<in> set (ln_subject_refs l) \<longrightarrow>
         (\<exists>res n. resolve_data_scope (scope (env_auth env)) u (user_tenant u) = Inr res \<and> py_int i = Inr n \<and>
            (\<forall>sc. accessible_user_scope res = Some sc \<longrightarrow> n \<in> eval_user_scope (scope (env_auth env)) sc))) \<and>
      (\<forall>i. (''dept'', i) \<in> set (ln_subject_refs l) \<longrightarrow>
         (\<exists>res n. resolve_data_scope (scope (env_auth env)) u (user_tenant u) = Inr res \<and> py_int i = Inr n \<and>
            (\<forall>ds. accessible_dept_ids res = Some ds \<longrightarrow> n \<in> ds))))"
proof -
  obtain l where l: "lineage_from_record (ab_tenant_id (frozen a)) (Some (ab_agent_code (frozen a)))
      (pa_projection a) True = Some l" and b: "b = a"
    and ok: "authorize_lineage env u (ab_user_id (frozen a)) (Some l) = Inr True"
  proof -
    from assms have "b = a" and "authorize_result_projection env db u (ab_user_id (frozen a))
        (lineage_from_record (ab_tenant_id (frozen a)) (Some (ab_agent_code (frozen a))) (pa_projection a) True) = Inr True"
      by (auto simp: project_pending_out_def res_simps split: if_splits)
    then show ?thesis using result_projection_True that by blast
  qed
  have f: "ln_tenant_id l = ab_tenant_id (frozen a)" "ln_agent_code l = ab_agent_code (frozen a)"
    using l by (auto simp: lineage_from_record_def split: option.splits sum.splits)
  note live = authorize_lineage_True[OF ok]
  have tools: "\<forall>code \<in> set (ln_tool_codes l). \<exists>tool. find_tool (env_registry env) code = Some tool \<and>
         tm_agent (rt_meta tool) = ab_agent_code (frozen a) \<and>
         set (tm_required_perms (rt_meta tool)) \<subseteq> collect_user_permission_codes u"
    using live(5) f(2) tool_allowed_tool by (simp add: authorize_agent_and_tools_def list_all_iff)
  have agent: "\<exists>ag. authorize_agent_access (env_registry env) (env_extra env) (env_agents env) (env_auth env) u
         (ab_agent_code (frozen a)) ''AI_AGENT_FORBIDDEN'' (user_tenant u) = Inr ag"
    using live(5) f(2) by (auto simp: authorize_agent_and_tools_def is_ok_iff)
  have user: "\<exists>res n. resolve_data_scope (scope (env_auth env)) u (user_tenant u) = Inr res \<and> py_int i = Inr n \<and>
            (\<forall>sc. accessible_user_scope res = Some sc \<longrightarrow> n \<in> eval_user_scope (scope (env_auth env)) sc)"
    if s: "(''user'', i) \<in> set (ln_subject_refs l)" for i
    by (rule authorize_subjects_True[OF live(6) s])
      (auto simp: delegated_kinds_def authorize_subject_def build_data_scope_context_def res_simps Let_def
        split: if_splits option.splits)
  have dept: "\<exists>res n. resolve_data_scope (scope (env_auth env)) u (user_tenant u) = Inr res \<and> py_int i = Inr n \<and>
            (\<forall>ds. accessible_dept_ids res = Some ds \<longrightarrow> n \<in> ds)"
    if s: "(''dept'', i) \<in> set (ln_subject_refs l)" for i
    by (rule authorize_subjects_True[OF live(6) s])
      (auto simp: delegated_kinds_def authorize_subject_def build_data_scope_context_def res_simps Let_def
        split: if_splits option.splits)
  show ?thesis using b l f live(1-3) tools agent user dept by (intro conjI exI[of _ l]) auto
qed

definition demo_env :: access_env where
  "demo_env = \<lparr>env_hash = (\<lambda>_. ''h''), env_registry = demo_registry, env_extra = [],
     env_agents = [\<lparr>ag_id = 2, ag_code = ''user_mgmt'', ag_enabled = True, ag_display_order = 0\<rparr>],
     env_auth = demo_agent_db\<lparr>rows_users := [demo_user]\<rparr>,
     env_services = \<lparr>authorize_role_projection = (\<lambda>_ _ _. Inr ()), dept_by_id = (\<lambda>_ _. Inr ()),
       role_detail = (\<lambda>_ _. Inr ()), job_by_id = (\<lambda>_ _. Inr ()), file_by_id = (\<lambda>_ _ _. Inr ()),
       import_operator = (\<lambda>_ _. Inr None), export_task = (\<lambda>_ _ _. Inr False)\<rparr>\<rparr>"

definition demo_viewer :: user where
  "demo_viewer = demo_user\<lparr>user_roles := [demo_role\<lparr>role_menus :=
     [\<lparr>menu_id = 9, menu_permission = Some ''system:user:import''\<rparr>, \<lparr>menu_id = 8, menu_permission = Some ''ai:chat:use''\<rparr>]\<rparr>]\<rparr>"

definition demo_pending :: prepared_action where
  "demo_pending =
     pending_row (\<lambda>_. ''h'') 0 3
       \<lparr>pr_confirmation_id = ''conf-1'', pr_prepare_tool_call_id = None, pr_prepare_tool_name = None,
        pr_execute_tool_call_id = ''call-1'', pr_execute_tool_name = ''user.import_execute'',
        pr_frozen_args = [], pr_snapshot = [], pr_snapshot_hash = [], pr_subject_ref = None,
        pr_presentation = [], pr_interaction_flow = ''direct'', pr_requested_outcome = ''direct'',
        pr_user_id = 7, pr_conversation_id = 5, pr_source_message_id = 6, pr_trace_id = ''tr'',
        pr_agent_code = ''user_mgmt'', pr_expires_at = 100, pr_model_id = Some 1, pr_provider_id = Some 1,
        pr_data_scope_hash = None, pr_projection_kind = None, pr_guard_owner_token = None,
        pr_command_action = ''send'', pr_risk_level = ''high'', pr_chip_target = None,
        pr_dependency_ids = [], pr_require_live_source = False\<rparr>
       JNull 1 1
       \<lparr>ln_tenant_id = 1, ln_agent_code = ''user_mgmt'', ln_tool_codes = [''user.import_execute''],
        ln_subject_refs = [(''user'', ''7'')], ln_subject_refs_hash = ''h'', ln_data_scope_hash = None,
        ln_resolver_version = DATA_SCOPE_RESOLVER_VERSION, ln_dependency_ids = []\<rparr> 1"

theorem pending_details_need_live_authority_witness:
  "project_pending_out demo_env (\<lparr>actions = [], op_logs = [], conversations = [], messages = []\<rparr>) demo_viewer
     demo_pending = Inr (PendingDetails demo_pending) \<and>
   AI_CHAT_USE_PERMISSION \<in> collect_user_permission_codes demo_viewer"
proof -
  have shown: "project_pending_out demo_env (\<lparr>actions = [], op_logs = [], conversations = [], messages = []\<rparr>)
      demo_viewer demo_pending = Inr (PendingDetails demo_pending)"
    by code_simp
  from pending_details_need_live_authority[OF this] shown show ?thesis by blast
qed

text \<open>A result computed from the earlier answer 11, which itself used the answer 12.\<close>

definition demo_lineage :: lineage where
  "demo_lineage = \<lparr>ln_tenant_id = 1, ln_agent_code = ''user_mgmt'', ln_tool_codes = [''user.import_preview''],
     ln_subject_refs = [], ln_subject_refs_hash = ''h'', ln_data_scope_hash = None,
     ln_resolver_version = DATA_SCOPE_RESOLVER_VERSION, ln_dependency_ids = [11]\<rparr>"

definition demo_answer :: "int \<Rightarrow> int list \<Rightarrow> message" where
  "demo_answer i deps = \<lparr>ms_id = i, ms_tenant = 1, ms_conversation = 5, ms_role = ''assistant'', ms_active = True,
     ms_agent_code = Some ''user_mgmt'',
     ms_projection = lineage_columns (demo_lineage\<lparr>ln_dependency_ids := deps\<rparr>)\<rparr>"

definition demo_history :: action_db where
  "demo_history = \<lparr>actions = [], op_logs = [],
     conversations = [\<lparr>cv_id = 5, cv_tenant = 1, cv_user = 7, cv_deleted_at = None\<rparr>],
     messages = [demo_answer 11 [12], demo_answer 12 []]\<rparr>"

theorem result_shown_iff_history_authorized_witness:
  "authorize_result_projection demo_env demo_history demo_viewer 7 (Some demo_lineage) = Inr True \<and>
   ok_id (authorize_dependency demo_env demo_viewer 7) (owned_message demo_history (user_tenant demo_viewer) 7) None
     (messages demo_history) 11"
proof -
  have shown: "authorize_result_projection demo_env demo_history demo_viewer 7 (Some demo_lineage) = Inr True"
    by code_simp
  have "11 \<in> (dep_rel (owned_message demo_history (user_tenant demo_viewer) 7) (messages demo_history))\<^sup>* ``
      set (ln_dependency_ids demo_lineage)"
    by (rule ImageI[of 11]) (simp_all add: demo_lineage_def)
  with iffD1[OF result_shown_iff_history_authorized shown] shown show ?thesis by blast
qed

end
