(* ===== verification/Ai_Config.thy ===== *)
theory Ai_Config
  imports Prelude
begin

text \<open>
  \<open>app/modules/ai/agents/safety/ai_config.py\<close> and the query behind it in
  \<open>settings_service.py\<close>: integer settings with a cache of 60 seconds per process. Times are
  microseconds. The code keeps the values of all its accessors in one dictionary; a key is read
  through one accessor, so the model keeps the integers by themselves. The database read is a
  suspension point: a read takes the cache before it and the cache after it, which another
  coroutine may have changed or invalidated.
\<close>

section \<open>Settings rows\<close>

record setting_row =
  st_tenant :: int
  st_key :: string
  st_value :: string
  st_status :: string

text \<open>\<open>scalar_one_or_none\<close> raises when several rows match.\<close>

definition settings_get_value :: "setting_row list \<Rightarrow> string \<Rightarrow> int \<Rightarrow> string option res" where
  "settings_get_value rows key t =
     (case filter (\<lambda>r. st_tenant r = t \<and> st_key r = key \<and> st_status r = ''1'') rows of
        [] \<Rightarrow> Inr None
      | [r] \<Rightarrow> Inr (Some (st_value r))
      | _ \<Rightarrow> Inl RuntimeError)"

section \<open>The cache\<close>

definition cache_ttl :: int where "cache_ttl = 60 * 1000000"

record cfg_cache =
  entries :: "int \<times> string \<Rightarrow> (int \<times> int) option"
  generation :: nat

definition cache_lookup :: "cfg_cache \<Rightarrow> int \<Rightarrow> int \<times> string \<Rightarrow> int option" where
  "cache_lookup c now k =
     (case entries c k of
        None \<Rightarrow> None
      | Some (v, fetched) \<Rightarrow> if now - fetched < cache_ttl then Some v else None)"

definition cache_store :: "cfg_cache \<Rightarrow> nat \<Rightarrow> int \<times> string \<Rightarrow> int \<Rightarrow> int \<Rightarrow> cfg_cache" where
  "cache_store c gen k v now =
     (if gen = generation c then c\<lparr>entries := (entries c)(k \<mapsto> (v, now))\<rparr> else c)"

definition parse_setting :: "string option \<Rightarrow> int \<Rightarrow> int" where
  "parse_setting raw dflt =
     (case raw of
        None \<Rightarrow> dflt
      | Some s \<Rightarrow> if s = [] then dflt else (case py_int s of Inl _ \<Rightarrow> dflt | Inr v \<Rightarrow> v))"

text \<open>\<open>c0\<close> and \<open>t0\<close> are the cache and the time at the call, \<open>c1\<close> and \<open>t1\<close> those at its
  return from the database.\<close>

definition get_ai_config_int ::
    "setting_row list \<Rightarrow> cfg_cache \<Rightarrow> int \<Rightarrow> cfg_cache \<Rightarrow> int \<Rightarrow> string \<Rightarrow> int \<Rightarrow> int \<Rightarrow> bool \<Rightarrow>
     int res \<times> cfg_cache" where
  "get_ai_config_int rows c0 t0 c1 t1 key dflt t force =
     (case (if force then None else cache_lookup c0 t0 (t, key)) of
        Some v \<Rightarrow> (Inr v, c0)
      | None \<Rightarrow>
          (case settings_get_value rows key t of
             Inl e \<Rightarrow> (Inl e, c1)
           | Inr raw \<Rightarrow>
               (let v = parse_setting raw dflt
                in (Inr v, cache_store c1 (generation c0) (t, key) v t1))))"

definition invalidate_ai_config_cache :: "cfg_cache \<Rightarrow> string \<Rightarrow> cfg_cache" where
  "invalidate_ai_config_cache c pre =
     \<lparr>entries = (\<lambda>(t, k). if prefix pre k then None else entries c (t, k)),
      generation = Suc (generation c)\<rparr>"

text \<open>A read that was suspended across an invalidation leaves the cache alone, so what it read
  before the invalidation is not served after it.\<close>

lemma suspended_read_not_cached:
  "generation c0 \<noteq> generation c1 \<Longrightarrow> cache_lookup c0 t0 (t, key) = None \<or> force \<Longrightarrow>
     snd (get_ai_config_int rows c0 t0 c1 t1 key dflt t force) = c1"
  by (auto simp: get_ai_config_int_def cache_store_def Let_def split: sum.splits option.splits)

lemma invalidated_lookup:
  "prefix pre key \<Longrightarrow> cache_lookup (invalidate_ai_config_cache c pre) now (t, key) = None"
  by (simp add: cache_lookup_def invalidate_ai_config_cache_def)

text \<open>A quota or failure limit: any failure to read it gives the default
  (\<open>_resolve_*\<close> of \<open>gateway/quota.py\<close> and \<open>gateway/failures.py\<close>).\<close>

definition resolve_limit :: "int res \<Rightarrow> int \<Rightarrow> int" where
  "resolve_limit r dflt = (case r of Inl _ \<Rightarrow> dflt | Inr v \<Rightarrow> v)"

record quota_limits =
  lim_l1 :: int
  lim_global :: int
  lim_l2 :: int
  lim_l3 :: int
  lim_l4 :: int
  lim_failures :: int
  lim_failure_ttl :: int

text \<open>\<open>cfg key dflt\<close> is the read of one setting for the tenant.\<close>

definition resolve_limits :: "(string \<Rightarrow> int \<Rightarrow> int res) \<Rightarrow> quota_limits" where
  "resolve_limits cfg =
     \<lparr>lim_l1 = resolve_limit (cfg ''ai:rate_limit:user_write_per_min'' 20) 20,
      lim_global = resolve_limit (cfg ''ai:rate_limit:global_per_min'' 0) 0,
      lim_l2 = resolve_limit (cfg ''ai:quota:daily_per_user'' 2000) 2000,
      lim_l3 = resolve_limit (cfg ''ai:limit:tool_timeout_sec'' 10) 10,
      lim_l4 = resolve_limit (cfg ''ai:budget:conv_per_day'' 0) 0,
      lim_failures = resolve_limit (cfg ''ai:failures:threshold'' 2) 2,
      lim_failure_ttl = resolve_limit (cfg ''ai:failures:ttl_sec'' 600) 600\<rparr>"

end
