(* ===== verification/Gateway_Quota.thy ===== *)
theory Gateway_Quota
  imports Ai_Config "HOL-Library.AList"
begin

text \<open>
  \<open>app/modules/ai/agents/gateway/quota.py\<close> and \<open>failures.py\<close>, with the order in which
  \<open>gateway/executor.py\<close> calls them. Redis is a store of counters and of sorted sets; the keys are
  the code's strings, and the two kinds of key never coincide, so each kind has its own map. Times
  are microseconds, and the clock of the process and of Redis are taken as one. A counter's expiry
  is \<open>None\<close> when the key has no TTL.
\<close>

section \<open>Redis\<close>

definition usec :: int where "usec = 1000000"

record redis =
  counters :: "string \<Rightarrow> (int \<times> int option) option"
  zsets :: "string \<Rightarrow> ((string \<times> int) list \<times> int) option"

definition not_expired :: "int \<Rightarrow> int option \<Rightarrow> bool" where
  "not_expired now e = (case e of None \<Rightarrow> True | Some x \<Rightarrow> now < x)"

definition c_get :: "redis \<Rightarrow> int \<Rightarrow> string \<Rightarrow> (int \<times> int option) option" where
  "c_get r now k =
     (case counters r k of None \<Rightarrow> None | Some (v, e) \<Rightarrow> if not_expired now e then Some (v, e) else None)"

definition c_set :: "redis \<Rightarrow> string \<Rightarrow> (int \<times> int option) option \<Rightarrow> redis" where
  "c_set r k x = r\<lparr>counters := (counters r)(k := x)\<rparr>"

definition c_add :: "redis \<Rightarrow> int \<Rightarrow> string \<Rightarrow> int \<Rightarrow> int \<times> redis" where
  "c_add r now k d =
     (let (v, e) = (case c_get r now k of None \<Rightarrow> (0, None) | Some p \<Rightarrow> p)
      in (v + d, c_set r k (Some (v + d, e))))"

definition redis_incr :: "redis \<Rightarrow> int \<Rightarrow> string \<Rightarrow> int \<times> redis" where
  "redis_incr r now k = c_add r now k 1"

definition redis_decr :: "redis \<Rightarrow> int \<Rightarrow> string \<Rightarrow> redis" where
  "redis_decr r now k = snd (c_add r now k (- 1))"

text \<open>\<open>EXPIRE key seconds NX\<close>; a TTL that is not positive deletes the key.\<close>

definition redis_expire_nx :: "redis \<Rightarrow> int \<Rightarrow> string \<Rightarrow> int \<Rightarrow> redis" where
  "redis_expire_nx r now k secs =
     (case c_get r now k of
        Some (v, None) \<Rightarrow> c_set r k (if secs \<le> 0 then None else Some (v, Some (now + secs * usec)))
      | _ \<Rightarrow> r)"

definition z_get :: "redis \<Rightarrow> int \<Rightarrow> string \<Rightarrow> (string \<times> int) list" where
  "z_get r now k = (case zsets r k of None \<Rightarrow> [] | Some (ms, e) \<Rightarrow> if now < e then ms else [])"

definition redis_zrem :: "redis \<Rightarrow> string \<Rightarrow> string \<Rightarrow> redis" where
  "redis_zrem r k m =
     (case zsets r k of
        None \<Rightarrow> r
      | Some (ms, e) \<Rightarrow>
          (let ms' = filter (\<lambda>x. fst x \<noteq> m) ms
           in r\<lparr>zsets := (zsets r)(k := if ms' = [] then None else Some (ms', e))\<rparr>))"

text \<open>The script \<open>_L1_LUA\<close>, run atomically.\<close>

definition l1_lua :: "redis \<Rightarrow> int \<Rightarrow> string \<Rightarrow> int \<Rightarrow> int \<Rightarrow> string \<Rightarrow> int \<Rightarrow> int \<times> redis" where
  "l1_lua r now k window_start score m window_sec =
     (let kept = filter (\<lambda>x. window_start < snd x) (z_get r now k);
          ms = AList.update m score kept
      in (int (length ms), r\<lparr>zsets := (zsets r)(k \<mapsto> (ms, now + window_sec * usec))\<rparr>))"

section \<open>Keys, dates and members\<close>

definition key_l1 :: "int \<Rightarrow> int \<Rightarrow> string" where
  "key_l1 t u = ''ai:tenant:'' @ show_int t @ '':write:'' @ show_int u"

definition key_l1_global :: "int \<Rightarrow> string" where
  "key_l1_global t = ''ai:tenant:'' @ show_int t @ '':rate:global''"

definition key_l2 :: "int \<Rightarrow> int \<Rightarrow> string \<Rightarrow> string" where
  "key_l2 t u date = ''ai:tenant:'' @ show_int t @ '':quota:'' @ show_int u @ '':'' @ date"

definition key_l2_agent :: "int \<Rightarrow> int \<Rightarrow> string \<Rightarrow> string \<Rightarrow> string" where
  "key_l2_agent t u agent date =
     ''ai:tenant:'' @ show_int t @ '':quota:'' @ show_int u @ '':'' @ agent @ '':'' @ date"

definition key_l4_conv :: "int \<Rightarrow> int \<Rightarrow> string" where
  "key_l4_conv t c = ''ai:tenant:'' @ show_int t @ '':budget:conv:'' @ show_int c"

definition key_failures :: "int \<Rightarrow> int \<Rightarrow> string \<Rightarrow> string \<Rightarrow> string" where
  "key_failures t u tool h =
     ''ai:tenant:'' @ show_int t @ '':failures:'' @ show_int u @ '':'' @ tool @ '':'' @ h"

definition day_of :: "int \<Rightarrow> int" where
  "day_of now = now div (86400 * usec)"

text \<open>The Gregorian date of a day counted from 1970-01-01, as \<open>datetime.now(UTC)\<close> gives it.\<close>

definition civil_date :: "int \<Rightarrow> int \<times> int \<times> int" where
  "civil_date z =
     (let s = z + 719468; era = s div 146097; doe = s - era * 146097;
          yoe = (doe - doe div 1460 + doe div 36524 - doe div 146096) div 365;
          doy = doe - (365 * yoe + yoe div 4 - yoe div 100);
          mp = (5 * doy + 2) div 153;
          d = doy - (153 * mp + 2) div 5 + 1;
          m = (if mp < 10 then mp + 3 else mp - 9);
          y = yoe + era * 400
      in (if m \<le> 2 then y + 1 else y, m, d))"

definition pad2 :: "int \<Rightarrow> string" where
  "pad2 n = (if n < 10 then ''0'' @ show_int n else show_int n)"

definition date_str :: "int \<Rightarrow> string" where
  "date_str now = (case civil_date (day_of now) of (y, m, d) \<Rightarrow> show_int y @ pad2 m @ pad2 d)"

definition seconds_to_midnight :: "int \<Rightarrow> int" where
  "seconds_to_midnight now = 86400 - (now div usec) mod 86400"

text \<open>\<open>f"{now:.6f}:{uuid}"\<close> for a time that is not negative.\<close>

definition member_of :: "int \<Rightarrow> string \<Rightarrow> string" where
  "member_of now uuid =
     (let f = show_int (now mod usec)
      in show_int (now div usec) @ ''.'' @ replicate (6 - length f) (CHR ''0'') @ f @ '':'' @ uuid)"

section \<open>The layers\<close>

definition L1_WINDOW_SEC :: int where "L1_WINDOW_SEC = 60"
definition L4_CONV_TTL_SEC :: int where "L4_CONV_TTL_SEC = 86400"

definition is_write_tool :: "string \<Rightarrow> bool \<Rightarrow> bool" where
  "is_write_tool risk hitl_always \<longleftrightarrow> risk \<in> {''high'', ''destructive''} \<or> hitl_always"

text \<open>The sliding window of both L1 checks: a rejected call removes its own member again.\<close>

definition check_window ::
    "redis \<Rightarrow> int \<Rightarrow> string \<Rightarrow> string \<Rightarrow> int \<Rightarrow> string \<Rightarrow> (int \<times> string) res \<times> redis" where
  "check_window r now k m limit code =
     (let (count, r') = l1_lua r now k (now - L1_WINDOW_SEC * usec) now m L1_WINDOW_SEC
      in if limit < count then (Inl (BusinessRule code), redis_zrem r' k m)
         else (Inr (count, m), r'))"

definition check_l1_rate_limit ::
    "redis \<Rightarrow> int \<Rightarrow> int \<Rightarrow> int \<Rightarrow> string \<Rightarrow> int \<Rightarrow> (int \<times> string) res \<times> redis" where
  "check_l1_rate_limit r t u now uuid limit =
     check_window r now (key_l1 t u) (member_of now uuid) limit ''AI_RATE_LIMIT_USER_WRITE''"

definition check_l1_global_rate_limit ::
    "redis \<Rightarrow> int \<Rightarrow> int \<Rightarrow> string \<Rightarrow> int \<Rightarrow> (int \<times> string) option res \<times> redis" where
  "check_l1_global_rate_limit r t now uuid limit =
     (if limit \<le> 0 then (Inr None, r)
      else (case check_window r now (key_l1_global t) (member_of now uuid) limit ''AI_RATE_LIMIT_GLOBAL'' of
              (Inl e, r') \<Rightarrow> (Inl e, r')
            | (Inr x, r') \<Rightarrow> (Inr (Some x), r')))"

text \<open>The \<open>MULTI\<close> of \<open>INCR\<close> and \<open>EXPIRE NX\<close>, then the \<open>DECR\<close> of a rejected call at time
  \<open>undo\<close>.\<close>

definition counter_hit :: "string \<Rightarrow> (int \<Rightarrow> int) \<Rightarrow> redis \<Rightarrow> int \<Rightarrow> int \<times> redis" where
  "counter_hit k ttl r now =
     (let (v, r') = redis_incr r now k in (v, redis_expire_nx r' now k (ttl now)))"

definition counter_undo :: "string \<Rightarrow> redis \<Rightarrow> int \<Rightarrow> redis" where
  "counter_undo k r now = redis_decr r now k"

text \<open>A counted call is refused when the new count exceeds the limit.\<close>

definition counter_try ::
    "string \<Rightarrow> (int \<Rightarrow> int) \<Rightarrow> int \<Rightarrow> redis \<Rightarrow> int \<Rightarrow> int option \<times> redis" where
  "counter_try k ttl limit r now =
     (let (v, r') = counter_hit k ttl r now in (if limit < v then None else Some v, r'))"

definition check_counter ::
    "redis \<Rightarrow> int \<Rightarrow> int \<Rightarrow> string \<Rightarrow> (int \<Rightarrow> int) \<Rightarrow> int \<Rightarrow> string \<Rightarrow> int res \<times> redis" where
  "check_counter r now undo k ttl limit code =
     (case counter_try k ttl limit r now of
        (None, r') \<Rightarrow> (Inl (BusinessRule code), counter_undo k r' undo)
      | (Some v, r') \<Rightarrow> (Inr v, r'))"

definition check_l2_daily_quota :: "redis \<Rightarrow> int \<Rightarrow> int \<Rightarrow> int \<Rightarrow> int \<Rightarrow> int \<Rightarrow> int res \<times> redis" where
  "check_l2_daily_quota r t u now undo limit =
     check_counter r now undo (key_l2 t u (date_str now)) seconds_to_midnight limit
       ''AI_DAILY_QUOTA_EXHAUSTED''"

definition check_l2_agent_quota ::
    "redis \<Rightarrow> int \<Rightarrow> int \<Rightarrow> string \<Rightarrow> int \<Rightarrow> int \<Rightarrow> int option \<Rightarrow> int option res \<times> redis" where
  "check_l2_agent_quota r t u agent now undo limit =
     (case limit of
        None \<Rightarrow> (Inr None, r)
      | Some l \<Rightarrow>
          (case check_counter r now undo (key_l2_agent t u agent (date_str now)) seconds_to_midnight l
                  ''AI_DAILY_QUOTA_EXHAUSTED'' of
             (Inl e, r') \<Rightarrow> (Inl e, r')
           | (Inr v, r') \<Rightarrow> (Inr (Some v), r')))"

definition check_l4_conv_budget ::
    "redis \<Rightarrow> int \<Rightarrow> int \<Rightarrow> int \<Rightarrow> int \<Rightarrow> int \<Rightarrow> (int \<times> string) option res \<times> redis" where
  "check_l4_conv_budget r t conv now undo limit =
     (if conv = 0 \<or> limit \<le> 0 then (Inr None, r)
      else (case check_counter r now undo (key_l4_conv t conv) (\<lambda>_. L4_CONV_TTL_SEC) limit
                   ''AI_CONV_BUDGET_EXHAUSTED'' of
              (Inl e, r') \<Rightarrow> (Inl e, r')
            | (Inr v, r') \<Rightarrow> (Inr (Some (v, key_l4_conv t conv)), r')))"

section \<open>One call of the gateway\<close>

text \<open>What a call of a write tool reserved, as the executor keeps it for the rollback.\<close>

record reservation =
  rs_l1 :: "string option"
  rs_global :: "string option"
  rs_agent :: "string option"
  rs_conv :: "string option"

text \<open>The times at which the layers read the clock and the identifiers they draw; a rejected
  counter is undone at \<open>q_undo\<close>. \<open>q_agent_limit\<close> is the agent's \<open>daily_quota_per_user\<close>.\<close>

record quota_call =
  q_tenant :: int
  q_user :: int
  q_agent :: string
  q_agent_limit :: "int option"
  q_conv :: int
  q_t1 :: int
  q_uuid1 :: string
  q_t2 :: int
  q_uuid2 :: string
  q_t3 :: int
  q_t4 :: int
  q_t5 :: int
  q_undo :: int

definition then_redis :: "'a res \<times> redis \<Rightarrow> ('a \<Rightarrow> redis \<Rightarrow> 'b res \<times> redis) \<Rightarrow> 'b res \<times> redis" where
  "then_redis m f = (case m of (Inl e, r) \<Rightarrow> (Inl e, r) | (Inr x, r) \<Rightarrow> f x r)"

text \<open>A rejection by a later layer leaves what the earlier ones took.\<close>

definition reserve_quota :: "redis \<Rightarrow> quota_limits \<Rightarrow> quota_call \<Rightarrow> reservation res \<times> redis" where
  "reserve_quota r lims c =
     then_redis (check_l1_rate_limit r (q_tenant c) (q_user c) (q_t1 c) (q_uuid1 c) (lim_l1 lims)) (\<lambda>l1 r.
     then_redis (check_l1_global_rate_limit r (q_tenant c) (q_t2 c) (q_uuid2 c) (lim_global lims)) (\<lambda>gl r.
     then_redis (check_l2_daily_quota r (q_tenant c) (q_user c) (q_t3 c) (q_undo c) (lim_l2 lims)) (\<lambda>_ r.
     then_redis (check_l2_agent_quota r (q_tenant c) (q_user c) (q_agent c) (q_t4 c) (q_undo c)
                   (q_agent_limit c)) (\<lambda>_ r.
     then_redis (check_l4_conv_budget r (q_tenant c) (q_conv c) (q_t5 c) (q_undo c) (lim_l4 lims)) (\<lambda>cb r.
       (Inr \<lparr>rs_l1 = Some (snd l1), rs_global = map_option snd gl,
             rs_agent = (if q_agent_limit c = None then None else Some (q_agent c)),
             rs_conv = map_option snd cb\<rparr>, r))))))"

definition opt_do :: "'a option \<Rightarrow> ('a \<Rightarrow> 'r \<Rightarrow> 'r) \<Rightarrow> 'r \<Rightarrow> 'r" where
  "opt_do x f r = (case x of None \<Rightarrow> r | Some a \<Rightarrow> f a r)"

text \<open>The date of the daily keys is the one at the time of the rollback.\<close>

definition decr_quota :: "redis \<Rightarrow> int \<Rightarrow> int \<Rightarrow> int \<Rightarrow> reservation \<Rightarrow> redis" where
  "decr_quota r now t u rs =
     (let r1 = opt_do (rs_l1 rs) (\<lambda>m r. redis_zrem r (key_l1 t u) m) r;
          r2 = opt_do (rs_global rs) (\<lambda>m r. redis_zrem r (key_l1_global t) m) r1;
          r3 = redis_decr r2 now (key_l2 t u (date_str now));
          r4 = opt_do (rs_agent rs) (\<lambda>a r. redis_decr r now (key_l2_agent t u a (date_str now))) r3
      in opt_do (rs_conv rs) (\<lambda>k r. redis_decr r now k) r4)"

section \<open>Repeated failures\<close>

definition check_repeated_failure ::
    "redis \<Rightarrow> int \<Rightarrow> int \<Rightarrow> int \<Rightarrow> string \<Rightarrow> string \<Rightarrow> int \<Rightarrow> unit res" where
  "check_repeated_failure r now t u tool h threshold =
     (let failures = (case c_get r now (key_failures t u tool h) of None \<Rightarrow> 0 | Some (v, e) \<Rightarrow> v)
      in guardE (failures < threshold) (BusinessRule ''AI_REPEATED_FAILURE''))"

definition record_failure :: "redis \<Rightarrow> int \<Rightarrow> int \<Rightarrow> int \<Rightarrow> string \<Rightarrow> string \<Rightarrow> int \<Rightarrow> redis" where
  "record_failure r now t u tool h ttl = snd (counter_hit (key_failures t u tool h) (\<lambda>_. ttl) r now)"

definition clear_failures :: "redis \<Rightarrow> int \<Rightarrow> int \<Rightarrow> string \<Rightarrow> string \<Rightarrow> redis" where
  "clear_failures r t u tool h = c_set r (key_failures t u tool h) None"

section \<open>After the tool ran\<close>

text \<open>\<open>asyncio.wait_for\<close>: a tool that takes as long as the timeout is cancelled, and a timeout that
  the tool itself raises is reported the same way.\<close>

definition with_l3_timeout :: "'a res \<Rightarrow> int \<Rightarrow> int \<Rightarrow> 'a res" where
  "with_l3_timeout outcome took timeout_sec =
     (if timeout_sec * usec \<le> took \<or> outcome = Inl TimeoutError
      then Inl (BusinessRule ''AI_TOOL_TIMEOUT'') else outcome)"

definition or_code :: "string \<Rightarrow> string \<Rightarrow> string" where
  "or_code c dflt = (if c = [] then dflt else c)"

fun business_code :: "exn \<Rightarrow> string option" where
  "business_code (NotFound c) = Some c"
| "business_code (Duplicate c) = Some c"
| "business_code (Authentication c) = Some c"
| "business_code (BusinessRule c) = Some c"
| "business_code (InvalidParameter c) = Some c"
| "business_code (Unprocessable c) = Some c"
| "business_code _ = None"

text \<open>The handlers of \<open>_invoke_tool_fn\<close>, giving the error code of the tool result. A refusal of
  authorization gives the quota back and is no failure of the tool; a cancellation passes
  through.\<close>

definition handle_tool_error ::
    "redis \<Rightarrow> int \<Rightarrow> quota_call \<Rightarrow> reservation \<Rightarrow> bool \<Rightarrow> string \<Rightarrow> string \<Rightarrow> int \<Rightarrow> exn \<Rightarrow>
     string res \<times> redis" where
  "handle_tool_error r now c rs write tool h ttl e =
     (case e of
        Authorization code \<Rightarrow>
          (Inr (or_code code ''AI_DATA_SCOPE_VIOLATION''),
           if write then decr_quota r now (q_tenant c) (q_user c) rs else r)
      | CancelledError \<Rightarrow> (Inl CancelledError, r)
      | _ \<Rightarrow>
          (Inr (case business_code e of
                  Some code \<Rightarrow> or_code code ''AI_INTERNAL_ERROR''
                | None \<Rightarrow> ''AI_INTERNAL_ERROR''),
           record_failure r now (q_tenant c) (q_user c) tool h ttl))"

text \<open>\<open>outcome\<close> is what the tool function returned or raised within the timeout, \<open>authority\<close> the
  check of the actor's current write authority after the flush. A tool result is its value or the
  code of its failure.\<close>

datatype 'a tool_result = ToolOk 'a | ToolFailed string

definition invoke_tool_fn ::
    "redis \<Rightarrow> int \<Rightarrow> quota_call \<Rightarrow> reservation \<Rightarrow> bool \<Rightarrow> string \<Rightarrow> string \<Rightarrow> int \<Rightarrow> 'a res \<Rightarrow> unit res \<Rightarrow>
     'a tool_result res \<times> redis" where
  "invoke_tool_fn r now c rs write tool h ttl outcome authority =
     (case outcome of
        Inl e \<Rightarrow> then_redis (handle_tool_error r now c rs write tool h ttl e) (\<lambda>code r'. (Inr (ToolFailed code), r'))
      | Inr v \<Rightarrow>
          (let r1 = clear_failures r (q_tenant c) (q_user c) tool h
           in case (if write then authority else Inr ()) of
                Inl e \<Rightarrow> then_redis (handle_tool_error r1 now c rs write tool h ttl e)
                           (\<lambda>code r'. (Inr (ToolFailed code), r'))
              | Inr _ \<Rightarrow> (Inr (ToolOk v), r1)))"

end
