(* ===== verification/Gateway_Quota_Props.thy ===== *)
theory Gateway_Quota_Props
  imports Gateway_Quota
begin

text \<open>
  The guarantees of the gateway's quotas: a counter with an expiry admits at most its limit before
  it expires, whatever runs in between; the sliding window decides like a log of the accepted
  calls; and a rollback on the same day gives everything back.
\<close>

section \<open>Counters that expire\<close>

text \<open>What a counter with an expiry promises. \<open>key\<close> is what is stored, dead once its expiry has
  passed. A call counts on, keeps the expiry or starts it where there is none, and is accepted when
  the count is within the limit; an undo takes one off, and creates a key without an expiry where
  there is none; traffic on other keys does not show.\<close>

definition dead :: "(int \<times> int option) option \<Rightarrow> int \<Rightarrow> bool" where
  "dead x t \<longleftrightarrow> (case x of None \<Rightarrow> True | Some (v, e) \<Rightarrow> \<not> not_expired t e)"

locale expiring_counter =
  fixes call :: "'s \<Rightarrow> int \<Rightarrow> int option \<times> 's"
    and undo :: "'s \<Rightarrow> int \<Rightarrow> 's"
    and same :: "'s \<Rightarrow> 's \<Rightarrow> bool"
    and key :: "'s \<Rightarrow> (int \<times> int option) option"
    and limit :: int
    and until :: "int \<Rightarrow> int"
  assumes fresh: "dead (key s) t \<Longrightarrow> call s t = (x, s') \<Longrightarrow>
      x = (if 1 \<le> limit then Some 1 else None) \<and> key s' = Some (1, Some (until t))"
    and again: "key s = Some (c, e) \<Longrightarrow> \<not> dead (key s) t \<Longrightarrow> call s t = (x, s') \<Longrightarrow>
      x = (if c + 1 \<le> limit then Some (c + 1) else None) \<and>
      key s' = Some (c + 1, Some (case e of None \<Rightarrow> until t | Some d \<Rightarrow> d))"
    and undo_fresh: "dead (key s) t \<Longrightarrow> key (undo s t) = Some (- 1, None)"
    and undo_again: "key s = Some (c, e) \<Longrightarrow> \<not> dead (key s) t \<Longrightarrow> key (undo s t) = Some (c - 1, e)"
    and framed: "same s s' \<Longrightarrow> key s' = key s"

text \<open>Everything that can happen to one key from \<open>t0\<close> to the time \<open>h\<close>: \<open>held\<close> accepted calls keep
  their unit, \<open>pend\<close> refused ones have not undone theirs yet, and \<open>late\<close> rollbacks of calls that
  were accepted on another key (of the day before) have hit this one. Whether a call is accepted
  is what \<open>call\<close> answers.\<close>

inductive quota_run ::
    "('s \<Rightarrow> int \<Rightarrow> int option \<times> 's) \<Rightarrow> ('s \<Rightarrow> int \<Rightarrow> 's) \<Rightarrow> ('s \<Rightarrow> 's \<Rightarrow> bool) \<Rightarrow> 's \<Rightarrow> int \<Rightarrow> int \<Rightarrow>
     's \<Rightarrow> int \<Rightarrow> nat \<Rightarrow> nat \<Rightarrow> nat \<Rightarrow> bool"
  for call undo same s0 t0 h where
  start: "t0 < h \<Longrightarrow> quota_run call undo same s0 t0 h s0 t0 0 0 0"
| accepted: "quota_run call undo same s0 t0 h s t held pend late \<Longrightarrow> t \<le> t' \<Longrightarrow> t' < h \<Longrightarrow>
    call s t' = (Some v, s') \<Longrightarrow> quota_run call undo same s0 t0 h s' t' (Suc held) pend late"
| refused: "quota_run call undo same s0 t0 h s t held pend late \<Longrightarrow> t \<le> t' \<Longrightarrow> t' < h \<Longrightarrow>
    call s t' = (None, s') \<Longrightarrow> quota_run call undo same s0 t0 h s' t' held (Suc pend) late"
| refusal_undone: "quota_run call undo same s0 t0 h s t held (Suc pend) late \<Longrightarrow> t \<le> t' \<Longrightarrow> t' < h \<Longrightarrow>
    quota_run call undo same s0 t0 h (undo s t') t' held pend late"
| rolled_back: "quota_run call undo same s0 t0 h s t (Suc held) pend late \<Longrightarrow> t \<le> t' \<Longrightarrow> t' < h \<Longrightarrow>
    quota_run call undo same s0 t0 h (undo s t') t' held pend late"
| late_rollback: "quota_run call undo same s0 t0 h s t held pend late \<Longrightarrow> t \<le> t' \<Longrightarrow> t' < h \<Longrightarrow>
    quota_run call undo same s0 t0 h (undo s t') t' held pend (Suc late)"
| other_keys: "quota_run call undo same s0 t0 h s t held pend late \<Longrightarrow> same s s' \<Longrightarrow>
    quota_run call undo same s0 t0 h s' t held pend late"

text \<open>The key is dead and nothing has happened, or it counts exactly what has.\<close>

definition counts :: "(int \<times> int option) option \<Rightarrow> int \<Rightarrow> int \<Rightarrow> nat \<Rightarrow> nat \<Rightarrow> nat \<Rightarrow> bool" where
  "counts x t h held pend late \<longleftrightarrow>
     (if dead x t then held = 0 \<and> pend = 0 \<and> late = 0
      else \<exists>e. x = Some (int held + int pend - int late, e) \<and> (case e of None \<Rightarrow> True | Some d \<Rightarrow> h \<le> d))"

lemma dead_later: "t \<le> t' \<Longrightarrow> dead x t \<Longrightarrow> dead x t'"
  by (auto simp: dead_def not_expired_def split: option.splits)

text \<open>Until \<open>h\<close> a key that counts stays alive.\<close>

lemma counts_later:
  assumes "counts x t h held pend late" "t \<le> t'" "t' < h"
  shows "counts x t' h held pend late"
proof (cases "dead x t")
  case True
  with assms dead_later show ?thesis by (auto simp: counts_def)
next
  case False
  with assms(1) obtain e where e: "x = Some (int held + int pend - int late, e)"
    "case e of None \<Rightarrow> True | Some d \<Rightarrow> h \<le> d" by (auto simp: counts_def)
  with assms(3) have "\<not> dead x t'" by (cases e) (auto simp: dead_def not_expired_def)
  with e show ?thesis by (simp add: counts_def)
qed

context expiring_counter
begin

lemma call_counts:
  assumes "counts (key s) t h held pend late" "t < h" "h \<le> until t" "call s t = (x, s')"
  shows "x = (if int held + int pend - int late < limit then Some (int held + int pend - int late + 1) else None) \<and>
    (\<exists>e. key s' = Some (int held + int pend - int late + 1, Some e) \<and> h \<le> e)"
proof (cases "dead (key s) t")
  case True
  with fresh[OF True assms(4)] assms(1,3) show ?thesis by (auto simp: counts_def)
next
  case False
  with assms(1) obtain e where e: "key s = Some (int held + int pend - int late, e)"
    "case e of None \<Rightarrow> True | Some d \<Rightarrow> h \<le> d" by (auto simp: counts_def)
  from again[OF e(1) False assms(4)] e(2) assms(3) show ?thesis by (auto split: option.splits)
qed

lemma undo_counts:
  assumes "counts (key s) t h held pend late" "t < h"
  shows "\<exists>e. key (undo s t) = Some (int held + int pend - int late - 1, e) \<and> (case e of None \<Rightarrow> True | Some d \<Rightarrow> h \<le> d)"
proof (cases "dead (key s) t")
  case True
  with undo_fresh[OF True] assms(1) show ?thesis by (auto simp: counts_def)
next
  case False
  with assms(1) obtain e where e: "key s = Some (int held + int pend - int late, e)"
    "case e of None \<Rightarrow> True | Some d \<Rightarrow> h \<le> d" by (auto simp: counts_def)
  from undo_again[OF e(1) False] e(2) show ?thesis by auto
qed

lemma run_counts:
  assumes "quota_run call undo same s0 t0 h s t held pend late"
    and "dead (key s0) t0" "\<And>t. t0 \<le> t \<Longrightarrow> t < h \<Longrightarrow> h \<le> until t"
  shows "t0 \<le> t \<and> t < h \<and> counts (key s) t h held pend late \<and> (held = 0 \<or> int held \<le> limit + int late)"
  using assms
proof (induction rule: quota_run.induct)
  case start
  then show ?case by (simp add: counts_def)
next
  case (accepted s t held pend late t' v s')
  then have IH: "t0 \<le> t" "counts (key s) t' h held pend late" using counts_later by blast+
  from call_counts[OF IH(2) accepted.hyps(3) _ accepted.hyps(4)] accepted.prems(2)[of t'] accepted.hyps IH(1)
  show ?case by (auto simp: counts_def dead_def not_expired_def split: if_splits)
next
  case (refused s t held pend late t' s')
  then have IH: "t0 \<le> t" "counts (key s) t' h held pend late" "held = 0 \<or> int held \<le> limit + int late"
    using counts_later by blast+
  from call_counts[OF IH(2) refused.hyps(3) _ refused.hyps(4)] refused.prems(2)[of t'] refused.hyps IH(1,3)
  show ?case by (auto simp: counts_def dead_def not_expired_def split: if_splits)
next
  case (refusal_undone s t held pend late t')
  then have IH: "t0 \<le> t" "counts (key s) t' h held (Suc pend) late" "held = 0 \<or> int held \<le> limit + int late"
    using counts_later by blast+
  from undo_counts[OF IH(2) refusal_undone.hyps(3)] refusal_undone.hyps IH(1,3)
  show ?case by (auto simp: counts_def dead_def not_expired_def split: option.splits)
next
  case (rolled_back s t held pend late t')
  then have IH: "t0 \<le> t" "counts (key s) t' h (Suc held) pend late" "int (Suc held) \<le> limit + int late"
    using counts_later by blast+
  from undo_counts[OF IH(2) rolled_back.hyps(3)] rolled_back.hyps IH(1,3)
  show ?case by (auto simp: counts_def dead_def not_expired_def split: option.splits)
next
  case (late_rollback s t held pend late t')
  then have IH: "t0 \<le> t" "counts (key s) t' h held pend late" "held = 0 \<or> int held \<le> limit + int late"
    using counts_later by blast+
  from undo_counts[OF IH(2) late_rollback.hyps(3)] late_rollback.hyps IH(1,3)
  show ?case by (auto simp: counts_def dead_def not_expired_def split: option.splits)
next
  case (other_keys s t held pend late s')
  with framed show ?case by metis
qed

end

section \<open>The counters of the quotas\<close>

definition counter_key :: "string \<Rightarrow> redis \<Rightarrow> (int \<times> int option) option" where
  "counter_key k r = counters r k"

definition same_counter :: "string \<Rightarrow> redis \<Rightarrow> redis \<Rightarrow> bool" where
  "same_counter k r r' \<longleftrightarrow> counters r' k = counters r k"

lemmas counter_defs = counter_hit_def counter_undo_def redis_incr_def redis_decr_def c_add_def c_set_def
  redis_expire_nx_def

lemma c_get_dead: "c_get r t k = (if dead (counters r k) t then None else counters r k)"
  by (auto simp: c_get_def dead_def split: option.splits)

lemma hit_dead:
  "dead (counters r k) t \<Longrightarrow> 0 < ttl t \<Longrightarrow>
     counter_hit k ttl r t = (v, r') \<Longrightarrow> v = 1 \<and> counters r' k = Some (1, Some (t + ttl t * usec))"
  by (auto simp: counter_defs c_get_dead) (auto simp: dead_def not_expired_def)

lemma hit_alive:
  "counters r k = Some (c, e) \<Longrightarrow> \<not> dead (counters r k) t \<Longrightarrow> 0 < ttl t \<Longrightarrow>
     counter_hit k ttl r t = (v, r') \<Longrightarrow>
     v = c + 1 \<and> counters r' k = Some (c + 1, Some (case e of None \<Rightarrow> t + ttl t * usec | Some d \<Rightarrow> d))"
  by (auto simp: counter_defs c_get_def dead_def not_expired_def split: option.splits)

lemma seconds_to_midnight_pos: "0 < seconds_to_midnight t"
  by (simp add: seconds_to_midnight_def)

lemma counter_is_expiring:
  assumes "\<And>t. 0 < ttl t"
  shows "expiring_counter (counter_try k ttl limit) (counter_undo k) (same_counter k) (counter_key k) limit
    (\<lambda>t. t + ttl t * usec)"
proof
  show "x = (if 1 \<le> limit then Some 1 else None) \<and> counter_key k s' = Some (1, Some (t + ttl t * usec))"
    if "dead (counter_key k s) t" "counter_try k ttl limit s t = (x, s')" for s t x s'
  proof -
    obtain v r where h: "counter_hit k ttl s t = (v, r)" by force
    from hit_dead[OF that(1)[unfolded counter_key_def] assms h] that(2) show ?thesis
      by (auto simp: counter_try_def h counter_key_def)
  qed
  show "x = (if c + 1 \<le> limit then Some (c + 1) else None) \<and>
      counter_key k s' = Some (c + 1, Some (case e of None \<Rightarrow> t + ttl t * usec | Some d \<Rightarrow> d))"
    if "counter_key k s = Some (c, e)" "\<not> dead (counter_key k s) t" "counter_try k ttl limit s t = (x, s')" for s c e t x s'
  proof -
    obtain v r where h: "counter_hit k ttl s t = (v, r)" by force
    from hit_alive[OF that(1,2)[unfolded counter_key_def] assms h] that(3) show ?thesis
      by (auto simp: counter_try_def h counter_key_def)
  qed
qed (auto simp: counter_key_def same_counter_def counter_undo_def redis_decr_def c_add_def c_set_def c_get_dead)

interpretation daily: expiring_counter "counter_try k seconds_to_midnight limit" "counter_undo k"
    "same_counter k" "counter_key k" limit "\<lambda>t. t + seconds_to_midnight t * usec" for k limit
  by (rule counter_is_expiring) (rule seconds_to_midnight_pos)

interpretation conv: expiring_counter "counter_try k (\<lambda>_. L4_CONV_TTL_SEC) limit" "counter_undo k"
    "same_counter k" "counter_key k" limit "\<lambda>t. t + L4_CONV_TTL_SEC * usec" for k limit
  by (rule counter_is_expiring) (simp add: L4_CONV_TTL_SEC_def)

definition end_of_day :: "int \<Rightarrow> int" where
  "end_of_day t = (day_of t + 1) * (86400 * usec)"

lemma end_of_day_le: "end_of_day t \<le> t + seconds_to_midnight t * usec"
proof -
  have "t div (86400 * usec) = (t div usec) div 86400"
    by (simp add: usec_def zdiv_zmult2_eq)
  moreover have "(t div usec) mod 86400 = t div usec - (t div usec) div 86400 * 86400"
    by (simp add: minus_div_mult_eq_mod)
  moreover have "t div usec * usec \<le> t"
    by (simp add: usec_def)
  ultimately show ?thesis
    unfolding end_of_day_def day_of_def seconds_to_midnight_def by (simp add: usec_def)
qed

lemma same_day_key:
  "t0 \<le> t \<Longrightarrow> t < end_of_day t0 \<Longrightarrow> date_str t = date_str t0"
proof -
  assume a: "t0 \<le> t" "t < end_of_day t0"
  have "day_of t0 \<le> day_of t"
    using a(1) by (simp add: day_of_def usec_def zdiv_mono1)
  moreover have "day_of t < day_of t0 + 1"
    using a(2) by (simp add: end_of_day_def day_of_def usec_def div_less_iff_less_mult)
  ultimately show ?thesis by (simp add: date_str_def)
qed

section \<open>The daily quota\<close>

lemma end_of_day_same:
  assumes "t0 \<le> t" "t < end_of_day t0"
  shows "end_of_day t0 \<le> t + seconds_to_midnight t * usec"
proof -
  have "day_of t = day_of t0"
  proof (rule antisym)
    show "day_of t0 \<le> day_of t" using assms(1) by (simp add: day_of_def usec_def zdiv_mono1)
    have "day_of t < day_of t0 + 1"
      using assms(2) by (simp add: end_of_day_def day_of_def usec_def div_less_iff_less_mult)
    then show "day_of t \<le> day_of t0" by simp
  qed
  then show ?thesis using end_of_day_le[of t] by (simp add: end_of_day_def)
qed

text \<open>Property C17: whatever calls, undone refusals and rollbacks run on one user's daily counter from a
  moment at which it does not exist to the end of the UTC day, in any order and interleaved with
  the rest of Redis, the calls the check accepted and that kept their unit never exceed the limit
  by more than the number of rollbacks that arrived late, for calls accepted the day before (the
  defect of \<open>late_rollback_hits_next_day\<close>; without such a rollback they never exceed the limit). The
  counter counts exactly these calls and the refusals still to be undone, less the late
  rollbacks.\<close>

theorem daily_quota_bound:
  assumes "c_get r0 t0 k = None" "k = key_l2 t u (date_str t0)"
    and "quota_run (counter_try k seconds_to_midnight limit) (counter_undo k) (same_counter k) r0 t0
           (end_of_day t0) r now held pend late"
  shows "(held = 0 \<or> int held \<le> limit + int late) \<and> date_str now = date_str t0 \<and>
    (case c_get r now k of
       None \<Rightarrow> held = 0 \<and> pend = 0 \<and> late = 0
     | Some (v, e) \<Rightarrow> v = int held + int pend - int late)"
proof -
  have absent: "dead (counter_key k r0) t0"
    using assms(1) by (auto simp: c_get_def counter_key_def dead_def split: option.splits if_splits)
  have run: "t0 \<le> now \<and> now < end_of_day t0 \<and> counts (counter_key k r) now (end_of_day t0) held pend late \<and>
      (held = 0 \<or> int held \<le> limit + int late)"
    by (rule daily.run_counts[OF assms(3) absent end_of_day_same])
  then show ?thesis
    using same_day_key[of t0 now]
    by (auto simp: counts_def c_get_dead counter_key_def split: if_splits)
qed

text \<open>The check is one such call, with the undo of a refusal.\<close>

lemma check_l2_daily_quota_calls:
  "check_l2_daily_quota r t u now undo limit =
     (let k = key_l2 t u (date_str now) in
      case counter_try k seconds_to_midnight limit r now of
        (Some v, r') \<Rightarrow> (Inr v, r')
      | (None, r') \<Rightarrow> (Inl (BusinessRule ''AI_DAILY_QUOTA_EXHAUSTED''), counter_undo k r' undo))"
  by (simp add: check_l2_daily_quota_def check_counter_def Let_def split: option.split prod.split)

definition empty_redis :: redis where
  "empty_redis = \<lparr>counters = (\<lambda>_. None), zsets = (\<lambda>_. None)\<rparr>"

text \<open>A limit of one: the first call is accepted, the second refused and undone, and a late rollback
  then lets a third one in.\<close>

definition day_key :: string where "day_key = key_l2 1 5 (date_str 0)"

definition day_call :: "redis \<Rightarrow> int \<Rightarrow> int option \<times> redis" where
  "day_call = counter_try day_key seconds_to_midnight 1"

definition day1 :: redis where "day1 = snd (day_call empty_redis 0)"
definition day2 :: redis where "day2 = snd (day_call day1 9)"
definition day3 :: redis where "day3 = counter_undo day_key day2 9"
definition day4 :: redis where "day4 = counter_undo day_key day3 10"
definition day5 :: redis where "day5 = snd (day_call day4 11)"

lemmas day_evals = day_call_def counter_try_def counter_defs c_get_def empty_redis_def not_expired_def
  seconds_to_midnight_def usec_def

lemma day_counters:
  "counters day1 day_key = Some (1, Some 86400000000)" "counters day2 day_key = Some (2, Some 86400000000)"
  "counters day3 day_key = Some (1, Some 86400000000)" "counters day4 day_key = Some (0, Some 86400000000)"
proof -
  show d1: "counters day1 day_key = Some (1, Some 86400000000)" by (simp add: day1_def day_evals)
  show d2: "counters day2 day_key = Some (2, Some 86400000000)" using d1 by (simp add: day2_def day_evals)
  show d3: "counters day3 day_key = Some (1, Some 86400000000)" using d2 by (simp add: day3_def day_evals)
  show "counters day4 day_key = Some (0, Some 86400000000)" using d3 by (simp add: day4_def day_evals)
qed

lemma day_verdicts:
  "day_call empty_redis 0 = (Some 1, day1)" "day_call day1 9 = (None, day2)" "day_call day4 11 = (Some 1, day5)"
proof -
  have "fst (day_call empty_redis 0) = Some 1" by (simp add: day_evals)
  then show "day_call empty_redis 0 = (Some 1, day1)" by (simp add: day1_def prod_eq_iff)
  have "fst (day_call day1 9) = None" using day_counters(1) by (simp add: day_evals)
  then show "day_call day1 9 = (None, day2)" by (simp add: day2_def prod_eq_iff)
  have "fst (day_call day4 11) = Some 1" using day_counters(4) by (simp add: day_evals)
  then show "day_call day4 11 = (Some 1, day5)" by (simp add: day5_def prod_eq_iff)
qed

theorem daily_quota_bound_witness:
  "fst (day_call empty_redis 0) = Some 1 \<and> fst (day_call day1 9) = None \<and> fst (day_call day4 11) = Some 1 \<and>
   (case c_get day5 11 day_key of None \<Rightarrow> False | Some (v, e) \<Rightarrow> v = 1)"
proof -
  let ?run = "quota_run (counter_try day_key seconds_to_midnight 1) (counter_undo day_key) (same_counter day_key)
      empty_redis 0 (end_of_day 0)"
  have a: "c_get empty_redis 0 day_key = None" by (simp add: c_get_def empty_redis_def)
  have h: "0 < end_of_day 0" "9 < end_of_day 0" "10 < end_of_day 0" "11 < end_of_day 0"
    by (simp_all add: end_of_day_def day_of_def usec_def)
  note x = day_verdicts[unfolded day_call_def]
  have s0: "?run empty_redis 0 0 0 0" by (rule quota_run.start[OF h(1)])
  have s1: "?run day1 0 (Suc 0) 0 0" by (rule quota_run.accepted[OF s0 _ h(1) x(1)]) simp
  have s2: "?run day2 9 (Suc 0) (Suc 0) 0" by (rule quota_run.refused[OF s1 _ h(2) x(2)]) simp
  have s3: "?run day3 9 (Suc 0) 0 0" unfolding day3_def by (rule quota_run.refusal_undone[OF s2 _ h(2)]) simp
  have s4: "?run day4 10 (Suc 0) 0 (Suc 0)" unfolding day4_def by (rule quota_run.late_rollback[OF s3 _ h(3)]) simp
  have s5: "?run day5 11 (Suc (Suc 0)) 0 (Suc 0)" by (rule quota_run.accepted[OF s4 _ h(4) x(3)]) simp
  from daily_quota_bound[OF a day_key_def s5] day_verdicts show ?thesis
    by (auto split: option.splits)
qed

text \<open>The same contract bounds a conversation's budget over 24 hours from any call on a dead key.\<close>

lemma conversation_budget_bound:
  assumes "c_get r0 t0 (key_l4_conv t conv) = None"
    and "quota_run (counter_try (key_l4_conv t conv) (\<lambda>_. L4_CONV_TTL_SEC) limit) (counter_undo (key_l4_conv t conv))
           (same_counter (key_l4_conv t conv)) r0 t0 (t0 + 86400 * usec) r now held pend late"
  shows "held = 0 \<or> int held \<le> limit + int late"
proof -
  have "dead (counter_key (key_l4_conv t conv) r0) t0"
    using assms(1) by (auto simp: c_get_def counter_key_def dead_def split: option.splits if_splits)
  from conv.run_counts[OF assms(2) this] show ?thesis by (simp add: L4_CONV_TTL_SEC_def)
qed

section \<open>The sliding window\<close>

text \<open>The calls on one window in the order they reach Redis: a check by a call with its own
  member, or a member given back by \<open>decr_quota\<close>.\<close>

datatype window_event = WCall int string | WBack string

fun window_calls :: "window_event list \<Rightarrow> (string \<times> int) list" where
  "window_calls [] = []"
| "window_calls (WCall t m # es) = (m, t) # window_calls es"
| "window_calls (WBack m # es) = window_calls es"

fun run_window :: "string \<Rightarrow> int \<Rightarrow> string \<Rightarrow> redis \<Rightarrow> window_event list \<Rightarrow> bool list" where
  "run_window k limit code r [] = []"
| "run_window k limit code r (WCall now m # es) =
     (case check_window r now k m limit code of
        (x, r') \<Rightarrow> is_ok x # run_window k limit code r' es)"
| "run_window k limit code r (WBack m # es) = run_window k limit code (redis_zrem r k m) es"

text \<open>The reference: a log of the accepted calls that were not given back, counted over the last
  60 seconds.\<close>

fun window_log :: "int \<Rightarrow> (string \<times> int) list \<Rightarrow> window_event list \<Rightarrow> bool list" where
  "window_log limit acc [] = []"
| "window_log limit acc (WCall now m # es) =
     (let ok = (int (length (filter (\<lambda>x. now - 60 * usec < snd x) acc)) < limit)
      in ok # window_log limit (if ok then (m, now) # acc else acc) es)"
| "window_log limit acc (WBack m # es) = window_log limit (filter (\<lambda>x. fst x \<noteq> m) acc) es"

definition z_all :: "redis \<Rightarrow> string \<Rightarrow> (string \<times> int) list" where
  "z_all r k = (case zsets r k of None \<Rightarrow> [] | Some (ms, e) \<Rightarrow> ms)"

definition live_at :: "int \<Rightarrow> (string \<times> int) list \<Rightarrow> (string \<times> int) list" where
  "live_at now ms = filter (\<lambda>x. now - 60 * usec < snd x) ms"

text \<open>Scores lie in the past and the key outlives the window of each of its members.\<close>

definition zset_ok :: "redis \<Rightarrow> string \<Rightarrow> int \<Rightarrow> bool" where
  "zset_ok r k T \<longleftrightarrow> (case zsets r k of None \<Rightarrow> True
     | Some (ms, e) \<Rightarrow> distinct (map fst ms) \<and> (\<forall>x \<in> set ms. snd x \<le> T \<and> snd x + 60 * usec \<le> e))"

lemma live_at_z_get:
  "zset_ok r k T \<Longrightarrow> live_at now (z_get r now k) = live_at now (z_all r k)"
  by (auto simp: zset_ok_def live_at_def z_get_def z_all_def empty_filter_conv split: option.splits)

lemma zset_ok_mono: "zset_ok r k T \<Longrightarrow> T \<le> T' \<Longrightarrow> zset_ok r k T'"
  by (fastforce simp: zset_ok_def split: option.splits)

lemma zset_ok_distinct: "zset_ok r k T \<Longrightarrow> distinct (map fst (z_all r k))"
  by (auto simp: zset_ok_def z_all_def split: option.splits)

lemma distinct_live: "distinct (map fst ms) \<Longrightarrow> distinct (map fst (live_at now ms))"
  by (simp add: live_at_def distinct_map_filter)

lemma update_fresh: "m \<notin> fst ` set ms \<Longrightarrow> AList.update m s ms = ms @ [(m, s)]"
  by (induction ms) auto

lemma window_sec: "L1_WINDOW_SEC * usec = 60 * usec"
  by (simp add: L1_WINDOW_SEC_def)

text \<open>One check on a well-formed set, by a member that is not in it.\<close>

lemma check_window_step:
  assumes ok: "zset_ok r k T" "T \<le> now" and fresh: "m \<notin> fst ` set (z_all r k)"
    and res: "check_window r now k m limit code = (x, r')"
  shows "is_ok x \<longleftrightarrow> int (length (live_at now (z_all r k))) < limit"
    and "z_all r' k = live_at now (z_all r k) @ (if is_ok x then [(m, now)] else [])"
    and "zset_ok r' k now"
    and "k' \<noteq> k \<Longrightarrow> zsets r' k' = zsets r k'"
    and "counters r' = counters r"
    and "is_ok x \<Longrightarrow> \<exists>n. x = Inr (n, m)"
proof -
  define L where L: "L = live_at now (z_all r k)"
  have kept: "filter (\<lambda>x. now - 60 * usec < snd x) (z_get r now k) = L"
    using live_at_z_get[OF ok(1), of now] by (simp add: live_at_def L)
  have sub: "set L \<subseteq> set (z_all r k)" by (auto simp: live_at_def L)
  with fresh have m: "m \<notin> fst ` set L" by auto
  have lua: "l1_lua r now k (now - L1_WINDOW_SEC * usec) now m L1_WINDOW_SEC =
      (int (length L) + 1, r\<lparr>zsets := (zsets r)(k \<mapsto> (L @ [(m, now)], now + 60 * usec))\<rparr>)"
    by (simp add: l1_lua_def kept window_sec update_fresh[OF m])
  have times: "y \<in> set L \<Longrightarrow> snd y \<le> now" for y
    using sub ok by (fastforce simp: zset_ok_def z_all_def split: option.splits)
  have dist: "distinct (map fst L)"
    unfolding L using zset_ok_distinct[OF ok(1)] by (rule distinct_live)
  have drop_m: "filter (\<lambda>y. fst y \<noteq> m) L = L"
    using m by (auto simp: filter_id_conv)
  note eqs = res[unfolded check_window_def lua, simplified]
  show x: "is_ok x \<longleftrightarrow> int (length (live_at now (z_all r k))) < limit"
    unfolding L[symmetric] using eqs by (auto split: if_splits)
  show "z_all r' k = live_at now (z_all r k) @ (if is_ok x then [(m, now)] else [])"
    unfolding L[symmetric] using eqs by (auto simp: z_all_def redis_zrem_def drop_m Let_def split: if_splits)
  show "zset_ok r' k now"
    using eqs m times dist
    by (auto simp: zset_ok_def redis_zrem_def drop_m Let_def usec_def split: if_splits)
  show "k' \<noteq> k \<Longrightarrow> zsets r' k' = zsets r k'"
    using eqs by (auto simp: redis_zrem_def Let_def split: if_splits option.splits)
  show "counters r' = counters r"
    using eqs by (auto simp: redis_zrem_def Let_def split: if_splits option.splits)
  show "is_ok x \<Longrightarrow> \<exists>n. x = Inr (n, m)"
    using eqs by (auto split: if_splits)
qed

lemma z_all_zrem: "z_all (redis_zrem r k m) k = filter (\<lambda>x. fst x \<noteq> m) (z_all r k)"
  by (auto simp: z_all_def redis_zrem_def Let_def split: option.splits)

lemma zset_ok_zrem: "zset_ok r k T \<Longrightarrow> zset_ok (redis_zrem r k m) k T"
  by (auto simp: zset_ok_def redis_zrem_def Let_def distinct_map_filter split: option.splits)

lemma live_at_mono: "now \<le> now' \<Longrightarrow> live_at now' (live_at now ms) = live_at now' ms"
  by (auto simp: live_at_def intro!: filter_cong)

lemma live_at_drop: "live_at now (filter P ms) = filter P (live_at now ms)"
  by (simp add: live_at_def conj_commute)

lemma live_at_length:
  assumes "set (live_at now a) = set (live_at now b)" "distinct (map fst a)" "distinct (map fst b)"
  shows "length (live_at now a) = length (live_at now b)"
proof -
  have "distinct (live_at now a)" "distinct (live_at now b)"
    using assms(2,3) by (auto simp: live_at_def distinct_map intro: distinct_filter)
  with assms(1) show ?thesis by (metis distinct_card)
qed

lemma run_window_log:
  assumes "zset_ok r k T" "set (z_all r k) \<subseteq> set acc" "distinct (map fst acc)"
    and "\<And>now. T \<le> now \<Longrightarrow> set (live_at now (z_all r k)) = set (live_at now acc)"
    and "sorted (T # map snd (window_calls es))" "distinct (map fst (window_calls es))"
    and "fst ` set acc \<inter> fst ` set (window_calls es) = {}"
  shows "run_window k limit code r es = window_log limit acc es"
  using assms
proof (induction es arbitrary: r T acc rule: window_calls.induct)
  case 1
  then show ?case by simp
next
  case (2 now m es)
  obtain x r' where c: "check_window r now k m limit code = (x, r')" by fastforce
  have T: "T \<le> now" and m: "m \<notin> fst ` set acc" using "2.prems"(5,7) by auto
  then have "m \<notin> fst ` set (z_all r k)" using "2.prems"(2) by auto
  note step = check_window_step[OF "2.prems"(1) T this c]
  have len: "length (live_at now (z_all r k)) = length (live_at now acc)"
    using "2.prems"(4)[OF T] zset_ok_distinct[OF "2.prems"(1)] "2.prems"(3) by (rule live_at_length)
  let ?acc = "if is_ok x then (m, now) # acc else acc"
  have "run_window k limit code r' es = window_log limit ?acc es"
  proof (rule "2.IH"[where T = now])
    show "zset_ok r' k now" by (rule step(3))
    show "set (z_all r' k) \<subseteq> set ?acc"
      unfolding step(2) using "2.prems"(2) by (auto simp: live_at_def)
    show "distinct (map fst ?acc)" using "2.prems"(3) m by auto
    show "set (live_at now' (z_all r' k)) = set (live_at now' ?acc)" if "now \<le> now'" for now'
    proof -
      have eq: "set (live_at now' (z_all r k)) = set (live_at now' acc)"
        using "2.prems"(4)[of now'] T that by simp
      have "live_at now' (z_all r' k) =
          live_at now' (z_all r k) @ live_at now' (if is_ok x then [(m, now)] else [])"
        unfolding step(2) using live_at_mono[OF that] by (simp add: live_at_def)
      with eq show ?thesis by (auto simp: live_at_def)
    qed
    show "sorted (now # map snd (window_calls es))" using "2.prems"(5) by simp
    show "distinct (map fst (window_calls es))" using "2.prems"(6) by simp
    show "fst ` set ?acc \<inter> fst ` set (window_calls es) = {}"
      using "2.prems"(6,7) by auto
  qed
  then show ?case
    using step(1) len by (simp add: c Let_def live_at_def)
next
  case (3 m es)
  have "run_window k limit code (redis_zrem r k m) es = window_log limit (filter (\<lambda>x. fst x \<noteq> m) acc) es"
  proof (rule "3.IH"[where T = T])
    show "zset_ok (redis_zrem r k m) k T" using "3.prems"(1) by (rule zset_ok_zrem)
    show "set (z_all (redis_zrem r k m) k) \<subseteq> set (filter (\<lambda>x. fst x \<noteq> m) acc)"
      using "3.prems"(2) by (auto simp: z_all_zrem)
    show "distinct (map fst (filter (\<lambda>x. fst x \<noteq> m) acc))"
      using "3.prems"(3) by (rule distinct_map_filter)
    show "set (live_at now (z_all (redis_zrem r k m) k)) =
        set (live_at now (filter (\<lambda>x. fst x \<noteq> m) acc))" if "T \<le> now" for now
      using "3.prems"(4)[OF that] by (simp add: z_all_zrem live_at_drop)
  qed (use "3.prems" in auto)
  then show ?case by simp
qed

text \<open>The rate limit in Redis decides exactly like a log of the accepted calls: from an
  empty window, with a clock that does not go back and members that are drawn once, a call passes
  if and only if fewer than \<open>limit\<close> accepted calls of the last 60 seconds were not given back. So
  a rejected call costs nothing, and no 60 seconds ever hold more than \<open>limit\<close> accepted calls.\<close>

theorem sliding_window_equiv:
  assumes "zsets r k = None" "sorted (map snd (window_calls es))" "distinct (map fst (window_calls es))"
  shows "run_window k limit code r es = window_log limit [] es"
proof (cases "window_calls es")
  case Nil
  show ?thesis
    by (rule run_window_log[where T = 0])
      (use assms in \<open>auto simp: zset_ok_def z_all_def live_at_def Nil\<close>)
next
  case (Cons c cs)
  show ?thesis
    by (rule run_window_log[where T = "snd c"])
      (use assms in \<open>auto simp: zset_ok_def z_all_def live_at_def Cons\<close>)
qed

definition window_demo :: "window_event list" where
  "window_demo = [WCall 0 ''a'', WCall (10 * usec) ''b'', WCall (20 * usec) ''c'', WBack ''b'',
     WCall (30 * usec) ''d'', WCall (59 * usec) ''e'', WCall (60 * usec) ''f'']"

theorem sliding_window_equiv_witness:
  "run_window (key_l1 1 5) 2 ''AI_RATE_LIMIT_USER_WRITE'' empty_redis window_demo =
     [True, True, False, True, False, True]"
proof -
  have "window_log 2 [] window_demo = [True, True, False, True, False, True]" by code_simp
  moreover have "zsets empty_redis (key_l1 1 5) = None" by (simp add: empty_redis_def)
  moreover have "sorted (map snd (window_calls window_demo))" by code_simp
  moreover have "distinct (map fst (window_calls window_demo))" by code_simp
  ultimately show ?thesis by (simp add: sliding_window_equiv)
qed

section \<open>Giving a reservation back\<close>

definition counter_value :: "redis \<Rightarrow> int \<Rightarrow> string \<Rightarrow> int" where
  "counter_value r now k = (case c_get r now k of None \<Rightarrow> 0 | Some (v, e) \<Rightarrow> v)"

text \<open>No counter of \<open>r\<close> expires after \<open>a\<close> and up to \<open>b\<close>.\<close>

definition no_expiry_between :: "redis \<Rightarrow> int \<Rightarrow> int \<Rightarrow> bool" where
  "no_expiry_between r a b \<longleftrightarrow> (\<forall>k v e. counters r k = Some (v, Some e) \<longrightarrow> e \<le> a \<or> b < e)"

lemma hit_value:
  assumes q: "no_expiry_between r a b" and t: "a \<le> t" "t \<le> b" and ttl: "b < t + ttl t * usec"
    and hit: "counter_hit k ttl r t = (v, r')"
  shows "counter_value r' b k' = counter_value r b k' + (if k' = k then 1 else 0)"
    and "no_expiry_between r' a b" and "zsets r' = zsets r"
proof -
  have pos: "0 < ttl t"
    using ttl t by (simp add: usec_def)
  have r': "r' = snd (counter_hit k ttl r t)" by (simp add: hit)
  have cases: "(c_get r t k = None \<and> c_get r b k = None \<and> r' = c_set r k (Some (1, Some (t + ttl t * usec)))) \<or>
      (\<exists>n. counters r k = Some (n, None) \<and> r' = c_set r k (Some (n + 1, Some (t + ttl t * usec)))) \<or>
      (\<exists>n e. counters r k = Some (n, Some e) \<and> b < e \<and> r' = c_set r k (Some (n + 1, Some e)))"
  proof (cases "counters r k")
    case None
    with pos show ?thesis by (simp add: r' counter_defs c_get_def not_expired_def)
  next
    case (Some p)
    obtain n e where p: "p = (n, e)" by fastforce
    show ?thesis
    proof (cases e)
      case None
      with Some p pos show ?thesis by (simp add: r' counter_defs c_get_def not_expired_def)
    next
      case (Some x)
      with \<open>counters r k = Some p\<close> p have k: "counters r k = Some (n, Some x)" by simp
      with q consider "x \<le> a" | "b < x" by (auto simp: no_expiry_between_def)
      then show ?thesis
        using k pos t by cases (simp_all add: r' counter_defs c_get_def not_expired_def)
    qed
  qed
  from cases show "counter_value r' b k' = counter_value r b k' + (if k' = k then 1 else 0)"
    using ttl by (elim disjE exE conjE) (auto simp: counter_value_def c_get_def not_expired_def c_set_def)
  from cases show "no_expiry_between r' a b"
    using ttl q by (elim disjE exE conjE) (auto simp: no_expiry_between_def c_set_def)
  show "zsets r' = zsets r"
    by (auto simp: r' counter_defs Let_def split: option.splits)
qed

lemma decr_value:
  "counter_value (redis_decr r b k) b k' = counter_value r b k' - (if k' = k then 1 else 0)"
  by (auto simp: counter_value_def redis_decr_def c_add_def c_set_def c_get_def not_expired_def
        split: option.splits if_splits)

lemma decr_zsets [simp]: "zsets (redis_decr r b k) = zsets r"
  by (auto simp: redis_decr_def c_add_def c_set_def split: option.splits)

lemma zrem_counters [simp]: "counters (redis_zrem r k m) = counters r"
  by (auto simp: redis_zrem_def Let_def split: option.splits)

lemma zrem_other: "k' \<noteq> k \<Longrightarrow> z_all (redis_zrem r k m) k' = z_all r k'"
  by (auto simp: z_all_def redis_zrem_def Let_def split: option.splits)

lemma counter_value_cong: "counters r = counters r' \<Longrightarrow> counter_value r now k = counter_value r' now k"
  by (simp add: counter_value_def c_get_def)

lemma z_all_cong: "zsets r = zsets r' \<Longrightarrow> z_all r k = z_all r' k"
  by (simp add: z_all_def)

lemma check_counter_ok:
  assumes "check_counter r t undo k ttl limit code = (Inr v, r')"
  shows "counter_hit k ttl r t = (v, r')"
  using assms by (auto simp: check_counter_def counter_try_def split: prod.splits if_splits)

lemma then_redis_ok: "then_redis m f = (Inr y, r') \<longleftrightarrow> (\<exists>x r. m = (Inr x, r) \<and> f x r = (Inr y, r'))"
  by (auto simp: then_redis_def split: prod.splits sum.splits)

lemma key_l1_not_global: "key_l1 t u \<noteq> key_l1_global t"
  by (simp add: key_l1_def key_l1_global_def)

lemma same_day_before_end: "t \<le> now \<Longrightarrow> day_of now = day_of t \<Longrightarrow> now < end_of_day t"
  by (simp add: end_of_day_def day_of_def usec_def)

text \<open>Charges on counters: what a layer adds to the value of each key.\<close>

definition charges :: "redis \<Rightarrow> redis \<Rightarrow> int \<Rightarrow> string option \<Rightarrow> bool" where
  "charges r r' now key \<longleftrightarrow> zsets r' = zsets r \<and>
     (\<forall>k. counter_value r' now k = counter_value r now k + (if key = Some k then 1 else 0))"

lemma daily_charge:
  assumes "check_counter r t undo k seconds_to_midnight limit code = (Inr v, r')"
    and "no_expiry_between r a now" "a \<le> t" "t \<le> now" "day_of now = day_of t"
  shows "charges r r' now (Some k) \<and> no_expiry_between r' a now"
proof -
  have "now < t + seconds_to_midnight t * usec"
    using same_day_before_end[OF assms(4,5)] end_of_day_le[of t] by simp
  from hit_value[OF assms(2-4) this check_counter_ok[OF assms(1)]] show ?thesis
    by (simp add: charges_def)
qed

lemma conv_charge:
  assumes "check_l4_conv_budget r t conv now0 undo limit = (Inr x, r')"
    and "no_expiry_between r a now" "a \<le> now0" "now0 \<le> now" "now < now0 + L4_CONV_TTL_SEC * usec"
  shows "charges r r' now (map_option snd x)"
proof (cases "conv = 0 \<or> limit \<le> 0")
  case True
  with assms(1) show ?thesis by (simp add: check_l4_conv_budget_def charges_def)
next
  case False
  with assms(1) obtain v where
    c: "check_counter r now0 undo (key_l4_conv t conv) (\<lambda>_. L4_CONV_TTL_SEC) limit
      ''AI_CONV_BUDGET_EXHAUSTED'' = (Inr v, r')" and x: "x = Some (v, key_l4_conv t conv)"
    by (auto simp: check_l4_conv_budget_def split: prod.splits sum.splits)
  show ?thesis
    using hit_value[OF assms(2-5) check_counter_ok[OF c]] by (simp add: charges_def x)
qed

lemma agent_charge:
  assumes "check_l2_agent_quota r t u agent t4 undo limit = (Inr x, r')"
    and "no_expiry_between r a now" "a \<le> t4" "t4 \<le> now" "day_of now = day_of t4"
  shows "charges r r' now (map_option (\<lambda>_. key_l2_agent t u agent (date_str t4)) limit) \<and>
    no_expiry_between r' a now"
proof (cases limit)
  case None
  with assms show ?thesis by (simp add: check_l2_agent_quota_def charges_def)
next
  case (Some l)
  with assms(1) obtain v where
    "check_counter r t4 undo (key_l2_agent t u agent (date_str t4)) seconds_to_midnight l
      ''AI_DAILY_QUOTA_EXHAUSTED'' = (Inr v, r')"
    by (auto simp: check_l2_agent_quota_def split: prod.splits sum.splits)
  from daily_charge[OF this assms(2-5)] show ?thesis by (simp add: Some)
qed

lemma opt_decr_value:
  "counter_value (opt_do key (\<lambda>k r. redis_decr r now k) r) now k =
     counter_value r now k - (if key = Some k then 1 else 0)"
  by (auto simp: opt_do_def decr_value split: option.splits)

lemma opt_do_map: "opt_do x (\<lambda>a. f (g a)) r = opt_do (map_option g x) f r"
  by (simp add: opt_do_def split: option.splits)

lemma opt_decr_zsets [simp]: "zsets (opt_do key (\<lambda>k r. redis_decr r now k) r) = zsets r"
  by (simp add: opt_do_def split: option.splits)

text \<open>The windows: an accepted call adds its member and nothing else.\<close>

lemma window_added:
  assumes "zset_ok r k T" "T \<le> t" "m \<notin> fst ` set (z_all r k)"
    and "check_window r t k m limit code = (Inr x, r')"
  shows "snd x = m \<and> counters r' = counters r \<and> (\<forall>k'. k' \<noteq> k \<longrightarrow> zsets r' k' = zsets r k') \<and>
    filter (\<lambda>y. fst y \<noteq> m) (z_all r' k) = live_at t (z_all r k)"
proof -
  note step = check_window_step[OF assms]
  have "filter (\<lambda>y. fst y \<noteq> m) (live_at t (z_all r k)) = live_at t (z_all r k)"
    using assms(3) unfolding filter_id_conv by (force simp: live_at_def)
  with step show ?thesis by auto
qed

lemma window_restored:
  assumes "zset_ok r k T" "T \<le> t" "m \<notin> fst ` set (z_all r k)"
    and "check_window r t k m limit code = (Inr x, r')" "t \<le> now"
  shows "live_at now (z_all (redis_zrem r' k m) k) = live_at now (z_all r k)"
  using window_added[OF assms(1-4)] live_at_mono[OF assms(5)] by (simp add: z_all_zrem)

text \<open>The two window layers, and their part of the rollback.\<close>

lemma windows_restored:
  assumes l1: "check_l1_rate_limit r t u t1 uuid1 lim1 = (Inr x1, ra)"
    and gl: "check_l1_global_rate_limit ra t t2 uuid2 lim2 = (Inr x2, rb)"
    and times: "t1 \<le> t2" "t2 \<le> now"
    and ok: "zset_ok r (key_l1 t u) t1" "zset_ok r (key_l1_global t) t1"
    and fresh: "member_of t1 uuid1 \<notin> fst ` set (z_all r (key_l1 t u))"
      "member_of t2 uuid2 \<notin> fst ` set (z_all r (key_l1_global t))"
    and re: "zsets re = zsets rb"
    and r': "r' = opt_do (map_option snd x2) (\<lambda>m r. redis_zrem r (key_l1_global t) m)
       (redis_zrem re (key_l1 t u) (snd x1))"
  shows "counters rb = counters r \<and> counters r' = counters re \<and>
    live_at now (z_all r' k) = live_at now (z_all r k)"
proof -
  let ?k1 = "key_l1 t u" and ?kg = "key_l1_global t"
  note w1 = window_added[OF ok(1) order_refl fresh(1) l1[unfolded check_l1_rate_limit_def]]
    and r1 = window_restored[OF ok(1) order_refl fresh(1) l1[unfolded check_l1_rate_limit_def], of now]
  have kg: "zsets ra ?kg = zsets r ?kg" using w1 key_l1_not_global[of t u] by metis
  have zg: "z_all ra ?kg = z_all r ?kg" and okg: "zset_ok ra ?kg t1"
    using kg ok(2) by (simp_all add: z_all_def zset_ok_def)
  have c': "counters r' = counters re"
    by (simp add: r' opt_do_def split: option.splits)
  show ?thesis
  proof (cases "lim2 \<le> 0")
    case True
    with gl have "x2 = None" "rb = ra" by (simp_all add: check_l1_global_rate_limit_def)
    moreover from this have "z_all r' k = (if k = ?k1 then filter (\<lambda>y. fst y \<noteq> snd x1) (z_all ra k) else z_all ra k)"
      using z_all_cong[OF re] by (simp add: r' opt_do_def z_all_zrem zrem_other)
    moreover have "z_all ra k = z_all r k" if "k \<noteq> ?k1"
      using w1 that by (simp add: z_all_def)
    ultimately show ?thesis
      using w1 r1 c' times by (simp add: z_all_zrem)
  next
    case False
    with gl obtain y where y: "x2 = Some y"
      and g: "check_window ra t2 ?kg (member_of t2 uuid2) lim2 ''AI_RATE_LIMIT_GLOBAL'' = (Inr y, rb)"
      by (auto simp: check_l1_global_rate_limit_def split: prod.splits sum.splits)
    note wg = window_added[OF okg times(1) fresh(2)[folded zg] g]
      and rg = window_restored[OF okg times(1) fresh(2)[folded zg] g times(2)]
    consider "k = ?k1" | "k = ?kg" | "k \<noteq> ?k1" "k \<noteq> ?kg" by blast
    then have "live_at now (z_all r' k) = live_at now (z_all r k)"
    proof cases
      case 1
      then have "z_all rb k = z_all ra k"
        using wg key_l1_not_global[of t u] by (simp add: z_all_def)
      with 1 have "z_all r' k = filter (\<lambda>y. fst y \<noteq> snd x1) (z_all ra k)"
        using key_l1_not_global[of t u] z_all_cong[OF re]
        by (simp add: r' y opt_do_def zrem_other z_all_zrem)
      with r1 times w1 1 show ?thesis by (simp add: z_all_zrem)
    next
      case 2
      then have "z_all r' k = filter (\<lambda>z. fst z \<noteq> snd y) (z_all rb k)"
        using key_l1_not_global[of t u] z_all_cong[OF re]
        by (simp add: r' y opt_do_def zrem_other z_all_zrem)
      with rg wg 2 zg show ?thesis by (simp add: z_all_zrem)
    next
      case 3
      with wg w1 have "z_all rb k = z_all r k" by (simp add: z_all_def)
      with 3 show ?thesis
        using z_all_cong[OF re] by (simp add: r' y opt_do_def zrem_other)
    qed
    with wg w1 c' show ?thesis by simp
  qed
qed

text \<open>On the day of the reservation the rollback undoes it completely: when every layer
  admits a call and its tool is then refused for lack of authorization, every counter of Redis,
  whichever key it has, and the live members of every window read as if the call had not been
  made.\<close>

theorem rollback_restores:
  assumes res: "reserve_quota r lims c = (Inr rs, re)"
    and times: "sorted [q_t1 c, q_t2 c, q_t3 c, q_t4 c, q_t5 c, now]" "day_of now = day_of (q_t3 c)"
    and quiet: "no_expiry_between r (q_t1 c) now"
    and ok: "zset_ok r (key_l1 (q_tenant c) (q_user c)) (q_t1 c)"
      "zset_ok r (key_l1_global (q_tenant c)) (q_t1 c)"
    and fresh: "member_of (q_t1 c) (q_uuid1 c) \<notin> fst ` set (z_all r (key_l1 (q_tenant c) (q_user c)))"
      "member_of (q_t2 c) (q_uuid2 c) \<notin> fst ` set (z_all r (key_l1_global (q_tenant c)))"
  shows "counter_value (decr_quota re now (q_tenant c) (q_user c) rs) now k = counter_value r now k \<and>
    live_at now (z_all (decr_quota re now (q_tenant c) (q_user c) rs) k) = live_at now (z_all r k)"
proof -
  let ?t = "q_tenant c" and ?u = "q_user c"
  let ?k2 = "key_l2 ?t ?u (date_str (q_t3 c))"
  let ?ka = "map_option (\<lambda>_. key_l2_agent ?t ?u (q_agent c) (date_str (q_t4 c))) (q_agent_limit c)"
  from res obtain l1 ra gl rb v rc av rd cb where
    l1: "check_l1_rate_limit r ?t ?u (q_t1 c) (q_uuid1 c) (lim_l1 lims) = (Inr l1, ra)" and
    gl: "check_l1_global_rate_limit ra ?t (q_t2 c) (q_uuid2 c) (lim_global lims) = (Inr gl, rb)" and
    l2: "check_l2_daily_quota rb ?t ?u (q_t3 c) (q_undo c) (lim_l2 lims) = (Inr v, rc)" and
    ag: "check_l2_agent_quota rc ?t ?u (q_agent c) (q_t4 c) (q_undo c) (q_agent_limit c) = (Inr av, rd)" and
    cv: "check_l4_conv_budget rd ?t (q_conv c) (q_t5 c) (q_undo c) (lim_l4 lims) = (Inr cb, re)" and
    rs: "rs = \<lparr>rs_l1 = Some (snd l1), rs_global = map_option snd gl,
             rs_agent = (if q_agent_limit c = None then None else Some (q_agent c)),
             rs_conv = map_option snd cb\<rparr>"
    by (auto simp: reserve_quota_def then_redis_ok)
  have d4: "day_of now = day_of (q_t4 c)" and now5: "now < q_t5 c + L4_CONV_TTL_SEC * usec"
    using times by (auto simp: day_of_def usec_def L4_CONV_TTL_SEC_def)
  have date: "date_str now = date_str (q_t3 c)" "date_str now = date_str (q_t4 c)"
    using times(2) d4 by (simp_all add: date_str_def)
  define r0 where "r0 = opt_do (map_option snd gl) (\<lambda>m r. redis_zrem r (key_l1_global ?t) m)
      (redis_zrem re (key_l1 ?t ?u) (snd l1))"
  have final: "decr_quota re now ?t ?u rs =
      opt_do (map_option snd cb) (\<lambda>k r. redis_decr r now k)
        (opt_do ?ka (\<lambda>k r. redis_decr r now k) (redis_decr r0 now ?k2))"
    by (cases "q_agent_limit c")
      (simp_all add: decr_quota_def rs Let_def r0_def date[symmetric] opt_do_def[of "Some _"] opt_do_def[of None])
  have rb: "counters rb = counters r"
    using windows_restored[OF l1 gl _ _ ok fresh refl refl, of now] times by simp
  then have "no_expiry_between rb (q_t1 c) now"
    using quiet by (simp add: no_expiry_between_def)
  from daily_charge[OF l2[unfolded check_l2_daily_quota_def] this] times
  have c2: "charges rb rc now (Some ?k2)" and q2: "no_expiry_between rc (q_t1 c) now" by auto
  from agent_charge[OF ag q2] times d4
  have ca: "charges rc rd now ?ka" and qa: "no_expiry_between rd (q_t1 c) now" by auto
  from conv_charge[OF cv qa] times now5 have cc: "charges rd re now (map_option snd cb)" by auto
  have "zsets re = zsets rb" using c2 ca cc by (simp add: charges_def)
  from windows_restored[OF l1 gl _ _ ok fresh this r0_def, of now k] times
  have w: "counters r0 = counters re" "live_at now (z_all r0 k) = live_at now (z_all r k)" by auto
  have "counter_value (decr_quota re now ?t ?u rs) now k = counter_value r now k"
    using c2 ca cc counter_value_cong[OF w(1), of now k] counter_value_cong[OF rb, of now k]
    by (simp add: final opt_decr_value decr_value charges_def)
  moreover have "z_all (decr_quota re now ?t ?u rs) k = z_all r0 k"
    by (rule z_all_cong) (simp add: final)
  ultimately show ?thesis using w(2) by simp
qed

definition demo_limits :: quota_limits where
  "demo_limits = resolve_limits (\<lambda>key dflt. if key = ''ai:budget:conv_per_day'' then Inr 50 else Inl RuntimeError)"

text \<open>One call of user 5 at 2026-01-01 23:59:59 UTC.\<close>

definition demo_time :: int where "demo_time = (1767225600 + 86399) * usec"

definition demo_call :: quota_call where
  "demo_call = \<lparr>q_tenant = 1, q_user = 5, q_agent = ''system'', q_agent_limit = Some 10, q_conv = 3,
     q_t1 = demo_time, q_uuid1 = ''a'', q_t2 = demo_time, q_uuid2 = ''b'', q_t3 = demo_time + 1,
     q_t4 = demo_time + 2, q_t5 = demo_time + 3, q_undo = demo_time + 3\<rparr>"

definition demo_reservation :: reservation where
  "demo_reservation = \<lparr>rs_l1 = Some (member_of demo_time ''a''), rs_global = None,
     rs_agent = Some ''system'', rs_conv = Some (key_l4_conv 1 3)\<rparr>"

lemma demo_civil: "civil_date 20454 = (2026, 1, 1)" "civil_date 20455 = (2026, 1, 2)"
  by code_simp+

lemma demo_texts: "show_nat 2026 = ''2026''" "show_nat (Suc 0) = ''1''" "show_nat 2 = ''2''" "show_nat 3 = ''3''"
    "show_nat 5 = ''5''"
  by (simp_all add: show_nat.simps digit_char_def char_of_def bit_0)

lemma demo_dates:
  "date_str (demo_time + 1) = ''20260101''" "date_str (demo_time + 2) = ''20260101''"
  "date_str (demo_time + 11 * usec) = ''20260102''"
  by (simp_all add: date_str_def day_of_def usec_def demo_time_def demo_civil pad2_def show_int_def demo_texts)

lemmas quota_eval = reserve_quota_def then_redis_def check_l1_rate_limit_def check_window_def
  check_l1_global_rate_limit_def check_l2_daily_quota_def check_l2_agent_quota_def check_l4_conv_budget_def
  check_counter_def counter_try_def l1_lua_def z_get_def counter_defs c_get_def not_expired_def empty_redis_def
  demo_limits_def resolve_limits_def resolve_limit_def demo_call_def demo_reservation_def demo_dates
  key_l2_def key_l2_agent_def key_l4_conv_def Let_def L4_CONV_TTL_SEC_def L1_WINDOW_SEC_def

lemma demo_reserved: "fst (reserve_quota empty_redis demo_limits demo_call) = Inr demo_reservation"
  by (simp add: quota_eval)

theorem rollback_restores_witness:
  "let re = snd (reserve_quota empty_redis demo_limits demo_call);
       back = decr_quota re (demo_time + 9) 1 5 demo_reservation
   in counter_value re (demo_time + 9) (key_l2 1 5 ''20260101'') = 1 \<and>
      counter_value back (demo_time + 9) (key_l2 1 5 ''20260101'') = 0"
proof -
  let ?re = "snd (reserve_quota empty_redis demo_limits demo_call)"
  have res: "reserve_quota empty_redis demo_limits demo_call = (Inr demo_reservation, ?re)"
    using demo_reserved by (metis prod.collapse)
  have times: "sorted [q_t1 demo_call, q_t2 demo_call, q_t3 demo_call, q_t4 demo_call, q_t5 demo_call,
      demo_time + 9]" "day_of (demo_time + 9) = day_of (q_t3 demo_call)"
    by (simp_all add: demo_call_def day_of_def demo_time_def usec_def)
  have empty: "z_all empty_redis k = []" "zset_ok empty_redis k T" "no_expiry_between empty_redis a b"
    "counter_value empty_redis n k = 0" for k T a b n
    by (simp_all add: z_all_def zset_ok_def no_expiry_between_def empty_redis_def counter_value_def c_get_def)
  have t: "q_tenant demo_call = 1" "q_user demo_call = 5" by (simp_all add: demo_call_def)
  have "counter_value ?re (demo_time + 9) (key_l2 1 5 ''20260101'') = 1"
    by (simp add: quota_eval counter_value_def seconds_to_midnight_def)
      (simp add: demo_time_def usec_def)
  with rollback_restores[OF res times empty(3) empty(2) empty(2), of "key_l2 1 5 ''20260101''"]
  show ?thesis by (simp add: empty t Let_def)
qed

text \<open>Eleven seconds later the same rollback meets the next day: the unit of the first of January
  stays taken, and the counter of the second starts at \<open>-1\<close> without an expiry, so that day admits
  one call more than its limit.\<close>

lemma late_rollback_hits_next_day:
  "let re = snd (reserve_quota empty_redis demo_limits demo_call);
       late = demo_time + 11 * usec;
       back = decr_quota re late 1 5 demo_reservation
   in date_str late = ''20260102'' \<and>
      counters back (key_l2 1 5 ''20260101'') = Some (1, Some (1767225600 * usec + 86400 * usec + 1)) \<and>
      c_get back late (key_l2 1 5 ''20260102'') = Some (-1, None)"
  by (simp add: quota_eval decr_quota_def opt_do_def redis_zrem_def seconds_to_midnight_def)
    (simp add: demo_time_def usec_def)

end
