(* ===== verification/Dept_Tree.thy ===== *)
theory Dept_Tree
  imports Grant_Authority
begin

text \<open>
  The department tree of \<open>app/modules/system/service/dept_service.py\<close>: the rows of \<open>sys_dept\<close>, the
  text of their ancestor path (\<open>0,5,12\<close>: the sentinel and the ids from the root to the parent),
  the queries over it and the writes that keep it. \<open>auth_of\<close> is the view of the same database that
  the authorization services read: the links of a role to departments are joined from the rows.
\<close>

section \<open>Rows\<close>

record dept_row = dept +
  dr_parent :: "int option"
  dr_name :: string
  dr_order :: int
  dr_leader :: "string option"
  dr_phone :: "string option"
  dr_email :: "string option"

text \<open>\<open>dd_names\<close> holds \<open>(tenant, user_id, user_name, nickname)\<close> of the user rows.\<close>

record dept_db =
  dd_auth :: auth_db
  dd_depts :: "dept_row list"
  dd_names :: "(int \<times> int \<times> string \<times> string option) list"

definition linked_depts :: "dept list \<Rightarrow> (int \<times> int \<times> int) list \<Rightarrow> role \<Rightarrow> dept list" where
  "linked_depts ds links r =
     filter (\<lambda>d. dept_tenant d = role_tenant r \<and> (role_tenant r, role_id r, dept_id d) \<in> set links) ds"

definition auth_of :: "dept_db \<Rightarrow> auth_db" where
  "auth_of db =
     (let a = dd_auth db; ds = map dept.truncate (dd_depts db);
          links = db_role_depts (scope a)
      in a\<lparr>scope := (scope a)\<lparr>db_depts := ds\<rparr>,
           rows_roles := map (\<lambda>r. r\<lparr>role_dept_links := linked_depts ds links r\<rparr>) (rows_roles a)\<rparr>)"

definition DEPT_MAX_LEVEL :: int where "DEPT_MAX_LEVEL = 5"

section \<open>Queries\<close>

definition tenant_rows :: "dept_row list \<Rightarrow> int \<Rightarrow> dept_row list" where
  "tenant_rows rows t = filter (\<lambda>d. dept_tenant d = t) rows"

definition get_all :: "dept_row list \<Rightarrow> int \<Rightarrow> dept_row list" where
  "get_all rows t = sort_key dr_order (tenant_rows rows t)"

definition find_dept :: "dept_row list \<Rightarrow> int \<Rightarrow> int \<Rightarrow> dept_row option" where
  "find_dept rows i t = find (\<lambda>d. dept_tenant d = t \<and> dept_id d = i) rows"

definition load_department :: "dept_row list \<Rightarrow> int \<Rightarrow> int \<Rightarrow> dept_row res" where
  "load_department rows i t =
     (case find_dept rows i t of None \<Rightarrow> Inl (NotFound []) | Some d \<Rightarrow> Inr d)"

definition get_by_ids :: "dept_row list \<Rightarrow> int list \<Rightarrow> int \<Rightarrow> dept_row list" where
  "get_by_ids rows ids t = filter (\<lambda>d. dept_tenant d = t \<and> dept_id d \<in> set ids) rows"

text \<open>The text of a column in an f-string: a NULL reads as \<open>None\<close>.\<close>

definition py_opt_str :: "string option \<Rightarrow> string" where
  "py_opt_str x = (case x of None \<Rightarrow> ''None'' | Some s \<Rightarrow> s)"

definition path_below :: "string \<Rightarrow> int \<Rightarrow> string" where
  "path_below anc i = anc @ '','' @ show_int i"

definition child_path :: "dept_row \<Rightarrow> string" where
  "child_path d = path_below (py_opt_str (dept_ancestors d)) (dept_id d)"

definition ancestor_ids :: "dept_row option \<Rightarrow> int set res" where
  "ancestor_ids d =
     (case d of
        None \<Rightarrow> Inr {}
      | Some d \<Rightarrow>
          (case dept_ancestors d of
             None \<Rightarrow> Inr {}
           | Some s \<Rightarrow> bindE (mapE py_int (filter (\<lambda>v. v \<noteq> [] \<and> v \<noteq> ''0'') (split_on (CHR '','') s)))
                        (\<lambda>ids. Inr (set ids))))"

definition get_dept_level :: "string option \<Rightarrow> int" where
  "get_dept_level anc =
     (case anc of None \<Rightarrow> 1 | Some s \<Rightarrow> if s = [] then 1 else int (length (split_on (CHR '','') s)))"

text \<open>\<open>ancestors = pre OR ancestors LIKE pre,%\<close>\<close>

definition below :: "string \<Rightarrow> dept_row \<Rightarrow> bool" where
  "below pre d = (case dept_ancestors d of None \<Rightarrow> False | Some s \<Rightarrow> s = pre \<or> sql_like (pre @ '',%'') s)"

definition descendant_rows :: "dept_row list \<Rightarrow> string \<Rightarrow> int \<Rightarrow> dept_row list" where
  "descendant_rows rows pre t = filter (\<lambda>d. dept_tenant d = t \<and> below pre d) rows"

definition get_max_child_depth :: "dept_row list \<Rightarrow> int \<Rightarrow> int \<Rightarrow> int" where
  "get_max_child_depth rows i t =
     (case find_dept rows i t of
        None \<Rightarrow> 0
      | Some d \<Rightarrow>
          (let pre = child_path d;
               base = int (length (split_on (CHR '','') pre))
           in foldl (\<lambda>m r. let depth = int (length (split_on (CHR '','') (py_opt_str (dept_ancestors r)))) - base
                           in if m < depth then depth else m)
                0 (descendant_rows rows pre t)))"

definition check_duplicate_name ::
    "dept_row list \<Rightarrow> int option \<Rightarrow> string \<Rightarrow> int option \<Rightarrow> int \<Rightarrow> unit res" where
  "check_duplicate_name rows parent name exclude t =
     guardE (\<not> (\<exists>d \<in> set rows. dept_tenant d = t \<and> dr_name d = name \<and> dr_parent d = parent \<and>
       (case exclude of None \<Rightarrow> True | Some x \<Rightarrow> x = 0 \<or> dept_id d \<noteq> x))) (Duplicate [])"

section \<open>Writes\<close>

text \<open>\<open>str.replace(old, new, 1)\<close>\<close>

fun replace_first :: "string \<Rightarrow> string \<Rightarrow> string \<Rightarrow> string" where
  "replace_first old new [] = (if old = [] then new else [])"
| "replace_first old new (c # s) =
     (if prefix old (c # s) then new @ drop (length old) (c # s) else c # replace_first old new s)"

definition update_descendants_ancestors ::
    "dept_row list \<Rightarrow> int \<Rightarrow> string \<Rightarrow> string \<Rightarrow> int \<Rightarrow> dept_row list" where
  "update_descendants_ancestors rows i old new t =
     map (\<lambda>d. if dept_tenant d = t \<and> below (path_below old i) d
              then d\<lparr>dept_ancestors := map_option (replace_first old new) (dept_ancestors d)\<rparr> else d) rows"

definition path_under :: "dept_row option \<Rightarrow> string" where
  "path_under parent = (case parent of None \<Rightarrow> ''0'' | Some p \<Rightarrow> child_path p)"

text \<open>\<open>move\<close> after its authorization.\<close>

definition move_row :: "dept_row list \<Rightarrow> int \<Rightarrow> int option \<Rightarrow> int \<Rightarrow> dept_row list res" where
  "move_row rows i new_parent t =
     bindE (load_department rows i t) (\<lambda>d.
     bindE (case new_parent of None \<Rightarrow> Inr None
            | Some p \<Rightarrow> bindE (load_department rows p t) (\<lambda>r. Inr (Some r))) (\<lambda>parent.
       let old = py_opt_str (dept_ancestors d); new = path_under parent;
           moved = update_descendants_ancestors rows i old new t
       in Inr (map (\<lambda>r. if dept_tenant r = t \<and> dept_id r = i
                        then r\<lparr>dr_parent := new_parent, dept_ancestors := Some new\<rparr> else r) moved)))"

text \<open>\<open>create\<close> after its authorization: \<open>nid\<close> is the id the generator hands out, and the primary
  key refuses one that is taken.\<close>

record dept_create =
  dc_parent :: "int option"
  dc_name :: string
  dc_order :: int
  dc_leader :: "string option"
  dc_phone :: "string option"
  dc_email :: "string option"
  dc_status :: string

definition or_none :: "string option \<Rightarrow> string option" where
  "or_none x = (case x of None \<Rightarrow> None | Some s \<Rightarrow> if s = [] then None else Some s)"

definition dc_parent_id :: "dept_create \<Rightarrow> int option" where
  "dc_parent_id c = (case dc_parent c of None \<Rightarrow> None | Some p \<Rightarrow> if p = 0 then None else Some p)"

definition insert_dept :: "dept_row list \<Rightarrow> int \<Rightarrow> dept_create \<Rightarrow> int \<Rightarrow> dept_row list res" where
  "insert_dept rows nid c t =
     bindE (case dc_parent_id c of None \<Rightarrow> Inr None
            | Some p \<Rightarrow> bindE (load_department rows p t) (\<lambda>r. Inr (Some r))) (\<lambda>parent.
       if \<exists>d \<in> set rows. dept_id d = nid then Inl IntegrityError
       else Inr (rows @ [\<lparr>dept_id = nid, dept_tenant = t, dept_status = dc_status c,
              dept_ancestors = Some (path_under parent), dr_parent = dc_parent_id c, dr_name = dc_name c,
              dr_order = dc_order c, dr_leader = dc_leader c, dr_phone = dc_phone c,
              dr_email = or_none (dc_email c)\<rparr>]))"

text \<open>\<open>DeptUpdate\<close> with \<open>exclude_unset\<close>: \<open>None\<close> is a field the request leaves out.\<close>

record dept_update =
  du_name :: "string option"
  du_order :: "int option"
  du_leader :: "string option option"
  du_phone :: "string option option"
  du_email :: "string option option"
  du_status :: "string option"

definition set_opt :: "('a \<Rightarrow> 'b \<Rightarrow> 'b) \<Rightarrow> 'a option \<Rightarrow> 'b \<Rightarrow> 'b" where
  "set_opt f x d = (case x of None \<Rightarrow> d | Some v \<Rightarrow> f v d)"

definition apply_update :: "dept_update \<Rightarrow> dept_row \<Rightarrow> dept_row" where
  "apply_update u =
     set_opt (\<lambda>v d. d\<lparr>dept_status := v\<rparr>) (du_status u) \<circ> set_opt (\<lambda>v d. d\<lparr>dr_email := v\<rparr>) (du_email u) \<circ>
     set_opt (\<lambda>v d. d\<lparr>dr_phone := v\<rparr>) (du_phone u) \<circ> set_opt (\<lambda>v d. d\<lparr>dr_leader := v\<rparr>) (du_leader u) \<circ>
     set_opt (\<lambda>v d. d\<lparr>dr_order := v\<rparr>) (du_order u) \<circ> set_opt (\<lambda>v d. d\<lparr>dr_name := v\<rparr>) (du_name u)"

definition update_row :: "dept_row list \<Rightarrow> int \<Rightarrow> dept_update \<Rightarrow> int \<Rightarrow> dept_row list res" where
  "update_row rows i u t =
     bindE (load_department rows i t) (\<lambda>_.
       Inr (map (\<lambda>d. if dept_tenant d = t \<and> dept_id d = i then apply_update u d else d) rows))"

definition delete_rows :: "dept_row list \<Rightarrow> int set \<Rightarrow> int \<Rightarrow> dept_row list" where
  "delete_rows rows ids t = filter (\<lambda>d. \<not> (dept_tenant d = t \<and> dept_id d \<in> ids)) rows"

section \<open>The descendants of a set of departments\<close>

text \<open>One pass of the loop of \<open>_descendant_ids\<close> over the items of \<open>parent_by_id\<close>, and the loop,
  which ends with the first pass that adds nothing.\<close>

definition desc_pass :: "(int \<times> int option) list \<Rightarrow> int set \<Rightarrow> int set" where
  "desc_pass items res =
     foldl (\<lambda>acc (i, p). if i \<notin> acc \<and> p \<in> Some ` acc then insert i acc else acc) res items"

lemma desc_pass_Nil [simp]: "desc_pass [] res = res"
  by (simp add: desc_pass_def)

lemma desc_pass_Cons [simp]:
  "desc_pass ((i, p) # items) res =
     desc_pass items (if i \<notin> res \<and> p \<in> Some ` res then insert i res else res)"
  by (simp add: desc_pass_def)

lemma desc_pass_extends: "res \<subseteq> desc_pass items res"
proof (induction items arbitrary: res)
  case Nil
  then show ?case by simp
next
  case (Cons x items)
  obtain i p where x: "x = (i, p)" by fastforce
  have "res \<subseteq> (if i \<notin> res \<and> p \<in> Some ` res then insert i res else res)" by auto
  also have "\<dots> \<subseteq> desc_pass items \<dots>" by (rule Cons.IH)
  finally show ?case by (simp add: x)
qed

lemma desc_pass_bound: "desc_pass items res \<subseteq> res \<union> fst ` set items"
  by (induction items arbitrary: res) (fastforce split: if_splits)+

lemma desc_pass_progress:
  assumes "desc_pass items res \<noteq> res"
  shows "card (fst ` set items - desc_pass items res) < card (fst ` set items - res)"
proof (rule psubset_card_mono)
  show "finite (fst ` set items - res)" by simp
  show "fst ` set items - desc_pass items res \<subset> fst ` set items - res"
    using assms desc_pass_extends[of res items] desc_pass_bound[of items res] by auto
qed

function descendant_ids :: "int set \<Rightarrow> (int \<times> int option) list \<Rightarrow> int set" where
  "descendant_ids res items =
     (if desc_pass items res = res then res else descendant_ids (desc_pass items res) items)"
  by pat_completeness auto

termination descendant_ids
  by (relation "measure (\<lambda>(res, items). card (fst ` set items - res))")
    (auto intro: desc_pass_progress)

declare descendant_ids.simps [simp del]

text \<open>The same loop with a bound on the passes over the items, the last one included.\<close>

fun desc_passes :: "nat \<Rightarrow> (int \<times> int option) list \<Rightarrow> int set \<Rightarrow> int set option" where
  "desc_passes 0 items res = None"
| "desc_passes (Suc n) items res =
     (let next_res = desc_pass items res
      in if next_res = res then Some res else desc_passes n items next_res)"

end
