(* ===== verification/Dept_Service.thy ===== *)
theory Dept_Service
  imports Dept_Tree
begin

text \<open>
  The authorization of department writes in \<open>app/modules/system/service/dept_service.py\<close>: the
  preview that materializes what a change does to roles and users, the double preview around the
  row locks, and the operations built on it. As in \<open>Role_Assignment\<close>, an operation reads \<open>db0\<close>
  before its locks and \<open>db1\<close> under them. The environment holds what is not the service's: the
  SHA-256 of a canonical JSON value, the tool registry's part of agent visibility, Python's
  \<open>casefold\<close> and the database's \<open>LOWER\<close>.
\<close>

record dept_env =
  env_hash :: "json \<Rightarrow> string"
  env_vis :: "auth_db \<Rightarrow> user \<Rightarrow> int set"
  env_casefold :: "string \<Rightarrow> string"
  env_lower :: "string \<Rightarrow> string"

section \<open>Guards and lookups\<close>

definition require_dept_permissions :: "grant_authority \<Rightarrow> string set \<Rightarrow> unit res" where
  "require_dept_permissions a ps = guardE (allows_permission_codes a ps) (Authorization ''PERMISSION_DENIED'')"

definition ensure_dept_scope :: "grant_authority \<Rightarrow> int set \<Rightarrow> unit res" where
  "ensure_dept_scope a ids =
     guardE (super_admin a \<or> (case ga_dept_ids a of None \<Rightarrow> True | Some ds \<Rightarrow> ids \<subseteq> ds))
       (Authorization ''AI_DATA_SCOPE_VIOLATION'')"

definition load_users :: "dept_db \<Rightarrow> int set \<Rightarrow> int \<Rightarrow> user list" where
  "load_users db ids t = List.map_filter (\<lambda>i. load_user (auth_of db) i t) (sorted_list_of_set ids)"

definition affected_role_ids_for_status :: "dept_db \<Rightarrow> int \<Rightarrow> int \<Rightarrow> int set" where
  "affected_role_ids_for_status db i t =
     set (map role_id (filter (\<lambda>r. role_tenant r = t \<and> role_status r = STATUS_ENABLED \<and>
         data_scope r = DATA_SCOPE_CUSTOM \<and> (t, role_id r, i) \<in> set (db_role_depts (scope (dd_auth db))))
       (rows_roles (dd_auth db))))"

definition affected_role_ids_for_move :: "dept_db \<Rightarrow> int set \<Rightarrow> int \<Rightarrow> int set" where
  "affected_role_ids_for_move db anchors t =
     set (map role_id (filter (\<lambda>r. role_tenant r = t \<and> role_status r = STATUS_ENABLED \<and>
         data_scope r = DATA_SCOPE_DEPT_AND_SUB \<and>
         (\<exists>(t1, u, r') \<in> set (links_roles (dd_auth db)). t1 = t \<and> r' = role_id r \<and>
            (\<exists>(t2, u', d) \<in> set (db_user_depts (scope (dd_auth db))). t2 = t \<and> u' = u \<and> d \<in> anchors)))
       (rows_roles (dd_auth db))))"

definition member_ids_for_roles :: "dept_db \<Rightarrow> int set \<Rightarrow> int \<Rightarrow> int set" where
  "member_ids_for_roles db ids t =
     set (map (\<lambda>(t', u, r). u) (filter (\<lambda>(t', u, r). t' = t \<and> r \<in> ids) (links_roles (dd_auth db))))"

text \<open>The leader a label names: its user id and its display.\<close>

definition resolve_leader_reference ::
    "dept_env \<Rightarrow> dept_db \<Rightarrow> grant_authority \<Rightarrow> string option \<Rightarrow> (int \<times> string) option res" where
  "resolve_leader_reference env db a leader =
     (case leader of
        None \<Rightarrow> Inr None
      | Some l \<Rightarrow>
          if py_strip l = [] then Inr None
          else
            (let norm = env_casefold env (py_strip l);
                 hits = sort_key (\<lambda>(t, u, n, k). u) (filter (\<lambda>(t, u, n, k). t = ga_tenant_id a \<and>
                   (env_lower env n = norm \<or> map_option (env_lower env) k = Some norm) \<and>
                   (case ga_user_ids a of None \<Rightarrow> True | Some us \<Rightarrow> u \<in> us)) (dd_names db))
             in case hits of
                  [] \<Rightarrow> Inl (NotFound ''AI_DEPT_LEADER_NOT_FOUND'')
                | [(t, u, n, k)] \<Rightarrow>
                    Inr (Some (u, n @ '' ('' @ (case k of None \<Rightarrow> n | Some s \<Rightarrow> if s = [] then n else s) @ '')''))
                | _ \<Rightarrow> Inl (BusinessRule ''AI_LOOKUP_AMBIGUOUS'')))"

section \<open>The roles a status change affects\<close>

definition after_status :: "int \<Rightarrow> string \<Rightarrow> int set \<Rightarrow> int set \<Rightarrow> int set" where
  "after_status i st all_ids prior =
     (if i \<in> all_ids then (if st = STATUS_ENABLED then insert i prior else prior - {i}) else prior)"

definition role_fact :: "role \<Rightarrow> int set \<Rightarrow> int set \<Rightarrow> int set \<Rightarrow> json" where
  "role_fact r agents prior after = JObj
     [(''roleId'', JStr (show_int (role_id r))), (''status'', JStr (role_status r)),
      (''dataScope'', JStr (data_scope r)), (''menuIds'', jints (set (map menu_id (role_menus r)))),
      (''permissionCodes'', jstrs (menu_codes (role_menus r))), (''agentIds'', jints agents),
      (''beforeDeptIds'', jints prior), (''afterDeptIds'', jints after)]"

definition affected_role_facts_for_status ::
    "dept_db \<Rightarrow> grant_authority \<Rightarrow> int set \<Rightarrow> int \<Rightarrow> string \<Rightarrow> string \<Rightarrow> int \<Rightarrow> (json list \<times> int set) res" where
  "affected_role_facts_for_status db a ids i st code t =
     (let adb = auth_of db;
          roles = sort_key role_id (filter (\<lambda>r. role_tenant r = t \<and> role_id r \<in> ids) (rows_roles adb));
          by_role = grantable_agent_ids_by_role_ids adb (sorted_list_of_set ids) t
      in bindE (mapE (\<lambda>r.
           let all_ids = set (map dept_id (role_dept_links r));
               prior = set (map dept_id (filter (\<lambda>d. dept_status d = STATUS_ENABLED) (role_dept_links r)));
               after = after_status i st all_ids prior;
               agents = agents_of by_role (role_id r)
           in bindE (guardE (super_admin a \<or>
                       allows_permission_codes a (menu_codes (role_menus r)) \<and>
                       allows_menu_ids a (set (map menu_id (role_menus r))) \<and> allows_agent_ids a agents \<and>
                       allows_scope_kind a (data_scope r) prior \<and> allows_scope_kind a (data_scope r) after)
                     (Authorization code))
                (\<lambda>_. Inr (role_fact r agents prior after))) roles)
         (\<lambda>facts. Inr (facts, \<Union>r \<in> set roles. set (map dept_id (role_dept_links r)))))"

section \<open>Materialized scopes\<close>

type_synonym parents = "(int \<times> int option) list"

definition role_scope ::
    "int set \<Rightarrow> parents \<Rightarrow> (int \<times> string) list \<Rightarrow> role \<Rightarrow> int set \<times> bool \<Rightarrow> int set \<times> bool" where
  "role_scope own pars stats r acc =
     (case acc of (ids, self) \<Rightarrow>
        if data_scope r = DATA_SCOPE_SELF then (ids, True)
        else if data_scope r = DATA_SCOPE_DEPT then (ids \<union> own, self \<or> own = {})
        else if data_scope r = DATA_SCOPE_DEPT_AND_SUB then
          (let sub = descendant_ids own pars in (ids \<union> sub, self \<or> sub = {}))
        else if data_scope r = DATA_SCOPE_CUSTOM then
          (let custom = set (filter (\<lambda>i. map_of stats i = Some STATUS_ENABLED) (map dept_id (role_dept_links r)))
           in (ids \<union> custom, self \<or> custom = {}))
        else (ids, self))"

text \<open>\<open>None\<close> is the unbounded scope.\<close>

definition materialized_scope ::
    "user \<Rightarrow> parents \<Rightarrow> (int \<times> string) list \<Rightarrow> (int \<times> int) list \<Rightarrow> (int set \<times> int set) option" where
  "materialized_scope u pars stats members =
     (let roles = filter (\<lambda>r. role_status r = STATUS_ENABLED) (user_roles u);
          own = set (map dept_id (user_depts u))
      in if \<exists>r \<in> set roles. data_scope r = DATA_SCOPE_ALL then None
         else
           (let (ids, self) = fold (role_scope own pars stats) roles ({}, False);
                self' = (self \<or> roles = []);
                users = set (map snd (filter (\<lambda>(d, v). d \<in> ids) members))
            in Some (ids, if self' \<or> own \<inter> ids \<noteq> {} then insert (user_id u) users else users)))"

definition scope_allowed :: "grant_authority \<Rightarrow> (int set \<times> int set) option \<Rightarrow> bool" where
  "scope_allowed a sc =
     (case sc of
        None \<Rightarrow> ga_dept_ids a = None \<and> ga_user_ids a = None
      | Some (ds, us) \<Rightarrow> allows_materialized_scope a ds us)"

definition jscope_facts :: "(int set \<times> int set) option \<Rightarrow> json" where
  "jscope_facts sc = JObj
     [(''departments'', case sc of None \<Rightarrow> JNull | Some (ds, us) \<Rightarrow> jints ds),
      (''users'', case sc of None \<Rightarrow> JNull | Some (ds, us) \<Rightarrow> jints us)]"

definition scope_depts :: "(int set \<times> int set) option \<Rightarrow> int set" where
  "scope_depts sc = (case sc of None \<Rightarrow> {} | Some (ds, us) \<Rightarrow> ds)"

definition set_key :: "int \<Rightarrow> 'v \<Rightarrow> (int \<times> 'v) list \<Rightarrow> (int \<times> 'v) list" where
  "set_key k v kvs =
     (if k \<in> set (map fst kvs) then map (\<lambda>(i, x). if i = k then (i, v) else (i, x)) kvs else kvs @ [(k, v)])"

definition override :: "(int \<times> 'v) option \<Rightarrow> (int \<times> 'v) list \<Rightarrow> (int \<times> 'v) list" where
  "override x kvs = (case x of None \<Rightarrow> kvs | Some (k, v) \<Rightarrow> set_key k v kvs)"

definition impact_snapshot ::
    "dept_db \<Rightarrow> grant_authority \<Rightarrow> user list \<Rightarrow> (int \<times> string) option \<Rightarrow> (int \<times> int option) option \<Rightarrow>
     string \<Rightarrow> int \<Rightarrow> (jobj \<times> int set) res" where
  "impact_snapshot db a users status_o parent_o code t =
     (let ds = sort_key dept_id (tenant_rows (dd_depts db) t);
          pars = map (\<lambda>d. (dept_id d, dr_parent d)) ds; stats = map (\<lambda>d. (dept_id d, dept_status d)) ds;
          members = map (\<lambda>(t', u, d). (d, u)) (filter (\<lambda>(t', u, d). t' = t) (db_user_depts (scope (dd_auth db))))
      in bindE (mapE (\<lambda>u.
           let prior = materialized_scope u pars stats members;
               after = materialized_scope u (override parent_o pars) (override status_o stats) members
           in bindE (guardE (super_admin a \<or>
                       ((case ga_user_ids a of None \<Rightarrow> True | Some us \<Rightarrow> user_id u \<in> us) \<and>
                        scope_allowed a prior \<and> scope_allowed a after))
                     (Authorization code))
                (\<lambda>_. Inr ((show_int (user_id u), JObj
                       [(''roleIds'', JArr (map JInt (sort (map role_id (user_roles u))))),
                        (''deptIds'', JArr (map JInt (sort (map dept_id (user_depts u))))),
                        (''before'', jscope_facts prior), (''after'', jscope_facts after)]),
                     scope_depts prior \<union> scope_depts after))) users)
         (\<lambda>xs. Inr (map fst xs, \<Union>(set (map snd xs)))))"

section \<open>Previews\<close>

datatype dept_write = CreateDept dept_create | UpdateDept int dept_update | MoveDept int "int option"

fun write_action :: "dept_write \<Rightarrow> string" where
  "write_action (CreateDept c) = ''create''"
| "write_action (UpdateDept i u) = ''update''"
| "write_action (MoveDept i p) = ''move''"

fun write_target :: "dept_write \<Rightarrow> int option" where
  "write_target (CreateDept c) = None"
| "write_target (UpdateDept i u) = Some i"
| "write_target (MoveDept i p) = Some i"

fun write_permissions :: "dept_write \<Rightarrow> string set" where
  "write_permissions (CreateDept c) = {''system:dept:add'', ''system:dept:list''}"
| "write_permissions (UpdateDept i u) = {''system:dept:edit'', ''system:dept:list''}"
| "write_permissions (MoveDept i p) = {''system:dept:move'', ''system:dept:list''}"

record dept_plan =
  pl_role_ids :: "int set"
  pl_user_ids :: "int set"
  pl_deps :: "int set"
  pl_candidate :: json
  pl_target :: "dept_row option"
  pl_parent :: "dept_row option"
  pl_impact :: jobj
  pl_role_facts :: "json list"
  pl_leader :: "(int \<times> string) option"

definition jnull_str :: "string option \<Rightarrow> json" where
  "jnull_str x = (case x of None \<Rightarrow> JNull | Some s \<Rightarrow> JStr s)"

definition jnull_int :: "int option \<Rightarrow> json" where
  "jnull_int x = (case x of None \<Rightarrow> JNull | Some i \<Rightarrow> JInt i)"

definition dump_create :: "dept_create \<Rightarrow> json" where
  "dump_create c = JObj
     [(''parent_id'', jnull_int (dc_parent c)), (''dept_name'', JStr (dc_name c)),
      (''order_num'', JInt (dc_order c)), (''leader'', jnull_str (dc_leader c)),
      (''phone'', jnull_str (dc_phone c)), (''email'', jnull_str (dc_email c)),
      (''status'', JStr (dc_status c))]"

definition set_field :: "string \<Rightarrow> ('a \<Rightarrow> json) \<Rightarrow> 'a option \<Rightarrow> jobj" where
  "set_field k f x = (case x of None \<Rightarrow> [] | Some v \<Rightarrow> [(k, f v)])"

definition dump_update :: "dept_update \<Rightarrow> json" where
  "dump_update u = JObj
     (set_field ''dept_name'' JStr (du_name u) @ set_field ''order_num'' JInt (du_order u) @
      set_field ''leader'' jnull_str (du_leader u) @ set_field ''phone'' jnull_str (du_phone u) @
      set_field ''email'' jnull_str (du_email u) @ set_field ''status'' JStr (du_status u))"

definition plan_create ::
    "dept_env \<Rightarrow> dept_db \<Rightarrow> grant_authority \<Rightarrow> dept_create \<Rightarrow> int \<Rightarrow> dept_plan res" where
  "plan_create env db a c t =
     bindE (resolve_leader_reference env db a (dc_leader c)) (\<lambda>leader.
     bindE (guardE (dc_parent_id c \<noteq> None \<or> super_admin a) (Authorization ''AI_DEPT_ROOT_CREATE_FORBIDDEN'')) (\<lambda>_.
     bindE (case dc_parent_id c of
              None \<Rightarrow> Inr (None, {})
            | Some p \<Rightarrow>
                bindE (load_department (dd_depts db) p t) (\<lambda>parent.
                bindE (ensure_dept_scope a {p}) (\<lambda>_.
                bindE (guardE (dept_status parent = STATUS_ENABLED) (BusinessRule ''AI_DEPT_PARENT_DISABLED'')) (\<lambda>_.
                bindE (guardE (get_dept_level (dept_ancestors parent) + 1 \<le> DEPT_MAX_LEVEL) (BusinessRule [])) (\<lambda>_.
                bindE (ancestor_ids (Some parent)) (\<lambda>anc. Inr (Some parent, insert p anc))))))) (\<lambda>(parent, deps).
     bindE (check_duplicate_name (dd_depts db) (dc_parent_id c) (dc_name c) None t) (\<lambda>_.
       Inr \<lparr>pl_role_ids = {}, pl_user_ids = {}, pl_deps = deps, pl_candidate = dump_create c,
            pl_target = None, pl_parent = parent, pl_impact = [], pl_role_facts = [], pl_leader = leader\<rparr>))))"

text \<open>What a change of status affects: roles, their facts, members and the impact on them.\<close>

definition plan_status ::
    "dept_db \<Rightarrow> grant_authority \<Rightarrow> int \<Rightarrow> string \<Rightarrow> int \<Rightarrow>
     (int set \<times> json list \<times> int set \<times> jobj \<times> int set) res" where
  "plan_status db a i st t =
     (let code = ''AI_DEPT_STATUS_AUTHZ_IMPACT_OUT_OF_SCOPE''; ids = affected_role_ids_for_status db i t
      in bindE (affected_role_facts_for_status db a ids i st code t) (\<lambda>(facts, role_depts).
         let members = member_ids_for_roles db ids t
         in bindE (impact_snapshot db a (load_users db members t) (Some (i, st)) None code t)
              (\<lambda>(impact, impact_depts). Inr (ids, facts, members, impact, role_depts \<union> impact_depts))))"

definition plan_update ::
    "dept_env \<Rightarrow> dept_db \<Rightarrow> grant_authority \<Rightarrow> int \<Rightarrow> dept_update \<Rightarrow> int \<Rightarrow> dept_plan res" where
  "plan_update env db a i u t =
     bindE (load_department (dd_depts db) i t) (\<lambda>target.
     bindE (ensure_dept_scope a {i}) (\<lambda>_.
     bindE (ancestor_ids (Some target)) (\<lambda>anc.
     bindE (case du_leader u of None \<Rightarrow> Inr None | Some l \<Rightarrow> resolve_leader_reference env db a l) (\<lambda>leader.
     bindE (case du_name u of
              None \<Rightarrow> Inr ()
            | Some n \<Rightarrow> if n = [] \<or> n = dr_name target then Inr ()
                        else check_duplicate_name (dd_depts db) (dr_parent target) n (Some i) t) (\<lambda>_.
     bindE (case du_status u of
              None \<Rightarrow> Inr ({}, [], {}, [], {})
            | Some st \<Rightarrow> if st = dept_status target then Inr ({}, [], {}, [], {})
                         else plan_status db a i st t) (\<lambda>(ids, facts, members, impact, deps).
       Inr \<lparr>pl_role_ids = ids, pl_user_ids = members, pl_deps = insert i anc \<union> deps,
            pl_candidate = dump_update u, pl_target = Some target, pl_parent = None, pl_impact = impact,
            pl_role_facts = facts, pl_leader = leader\<rparr>))))))"

text \<open>The checks of the new parent of a move.\<close>

definition check_new_parent :: "dept_db \<Rightarrow> int \<Rightarrow> int \<Rightarrow> int \<Rightarrow> dept_row res" where
  "check_new_parent db i p t =
     bindE (load_department (dd_depts db) p t) (\<lambda>parent.
     bindE (guardE (dept_status parent = STATUS_ENABLED) (BusinessRule ''AI_DEPT_PARENT_DISABLED'')) (\<lambda>_.
     bindE (if p = i then Inl (BusinessRule ''AI_DEPT_MOVE_CYCLE'')
            else bindE (ancestor_ids (Some parent)) (\<lambda>anc. guardE (i \<notin> anc) (BusinessRule ''AI_DEPT_MOVE_CYCLE''))) (\<lambda>_.
     bindE (guardE (get_dept_level (dept_ancestors parent) + 1 + get_max_child_depth (dd_depts db) i t \<le> DEPT_MAX_LEVEL)
              (BusinessRule [])) (\<lambda>_. Inr parent))))"

definition opt_set :: "int option \<Rightarrow> int set" where
  "opt_set x = (case x of None \<Rightarrow> {} | Some i \<Rightarrow> {i})"

definition opt_load :: "dept_db \<Rightarrow> int option \<Rightarrow> int \<Rightarrow> dept_row option res" where
  "opt_load db i t =
     (case i of None \<Rightarrow> Inr None | Some p \<Rightarrow> bindE (load_department (dd_depts db) p t) (\<lambda>r. Inr (Some r)))"

definition plan_move ::
    "dept_db \<Rightarrow> grant_authority \<Rightarrow> int \<Rightarrow> int option \<Rightarrow> int \<Rightarrow> dept_plan res" where
  "plan_move db a i np t =
     bindE (load_department (dd_depts db) i t) (\<lambda>target.
     bindE (ensure_dept_scope a {i}) (\<lambda>_.
     bindE (ancestor_ids (Some target)) (\<lambda>anc.
     bindE (guardE (dr_parent target \<noteq> np) (BusinessRule ''AI_DEPT_MOVE_UNCHANGED'')) (\<lambda>_.
     bindE (guardE (super_admin a \<or> (case dr_parent target of None \<Rightarrow> False
                      | Some q \<Rightarrow> (case ga_dept_ids a of None \<Rightarrow> True | Some ds \<Rightarrow> q \<in> ds)))
              (Authorization ''AI_DEPT_SCOPE_ROOT_MOVE_FORBIDDEN'')) (\<lambda>_.
     bindE (guardE (np \<noteq> None \<or> super_admin a) (Authorization ''AI_DEPT_ROOT_MOVE_FORBIDDEN'')) (\<lambda>_.
     bindE (opt_load db (dr_parent target) t) (\<lambda>old_parent.
     bindE (case np of None \<Rightarrow> Inr None
            | Some p \<Rightarrow> bindE (check_new_parent db i p t) (\<lambda>r. Inr (Some r))) (\<lambda>parent.
     let direct = {i} \<union> opt_set (dr_parent target) \<union> opt_set np;
         subtree = insert i (set (map dept_id (descendant_rows (dd_depts db) (child_path target) t)))
     in
     bindE (ensure_dept_scope a (direct \<union> subtree)) (\<lambda>_.
     bindE (ancestor_ids old_parent) (\<lambda>old_anc.
     bindE (ancestor_ids parent) (\<lambda>new_anc.
     let anchors = old_anc \<union> new_anc \<union> opt_set (map_option dept_id old_parent) \<union> opt_set (map_option dept_id parent);
         ids = affected_role_ids_for_move db anchors t;
         members = member_ids_for_roles db ids t
     in
     bindE (impact_snapshot db a (load_users db members t) None (Some (i, np))
              ''AI_DEPT_MOVE_AUTHZ_IMPACT_OUT_OF_SCOPE'' t) (\<lambda>(impact, impact_depts).
       Inr \<lparr>pl_role_ids = ids, pl_user_ids = members,
            pl_deps = insert i anc \<union> direct \<union> subtree \<union> old_anc \<union> new_anc \<union> impact_depts,
            pl_candidate = JObj [(''newParentId'', jnull_int np)], pl_target = Some target,
            pl_parent = parent, pl_impact = impact, pl_role_facts = [], pl_leader = None\<rparr>))))))))))))"

fun plan_write :: "dept_env \<Rightarrow> dept_db \<Rightarrow> grant_authority \<Rightarrow> dept_write \<Rightarrow> int \<Rightarrow> dept_plan res" where
  "plan_write env db a (CreateDept c) t = plan_create env db a c t"
| "plan_write env db a (UpdateDept i u) t = plan_update env db a i u t"
| "plan_write env db a (MoveDept i p) t = plan_move db a i p t"

record dept_preview =
  pv_action :: string
  pv_dept_id :: "int option"
  pv_affected :: "int list"
  pv_snapshot :: json
  pv_target_name :: "string option"
  pv_parent_name :: "string option"

definition jleader :: "(int \<times> string) option \<Rightarrow> json" where
  "jleader l = (case l of None \<Rightarrow> JNull
     | Some (u, s) \<Rightarrow> JObj [(''userId'', JStr (show_int u)), (''display'', JStr s)])"

definition department_facts :: "dept_db \<Rightarrow> int \<Rightarrow> json" where
  "department_facts db t = JArr (map (\<lambda>d. JArr
       [JStr (show_int (dept_id d)), jnull_str (map_option show_int (dr_parent d)),
        jnull_str (dept_ancestors d), JStr (dept_status d)])
     (sort_key dept_id (tenant_rows (dd_depts db) t)))"

text \<open>The preview with the role, department and user ids to lock.\<close>

definition build_preview ::
    "dept_env \<Rightarrow> dept_db \<Rightarrow> dept_write \<Rightarrow> int \<Rightarrow> int \<Rightarrow>
     (dept_preview \<times> int set \<times> int set \<times> int set) res" where
  "build_preview env db w actor t =
     bindE (build_authority (env_hash env) (env_vis env) (auth_of db) actor t) (\<lambda>a.
     bindE (require_dept_permissions a (write_permissions w)) (\<lambda>_.
     bindE (plan_write env db a w t) (\<lambda>pl.
     let users = load_users db (pl_user_ids pl) t;
         role_ids = enabled_role_ids a \<union> pl_role_ids pl \<union>
           (\<Union>u \<in> set users. set (map role_id (user_roles u)));
         user_ids = insert actor (pl_user_ids pl) \<union> opt_set (map_option fst (pl_leader pl));
         payload = JObj
           [(''action'', JStr (write_action w)), (''actorAuthorityVersion'', JStr (version_summary a)),
            (''targetDeptId'', jnull_str (map_option show_int (write_target w))),
            (''candidate'', pl_candidate pl), (''roleIds'', jints role_ids), (''deptIds'', jints (pl_deps pl)),
            (''userIds'', jints user_ids), (''departmentFacts'', department_facts db t),
            (''impact'', JObj (pl_impact pl)), (''affectedRoles'', JArr (pl_role_facts pl)),
            (''leader'', jleader (pl_leader pl))]
     in Inr (\<lparr>pv_action = write_action w, pv_dept_id = write_target w,
              pv_affected = sorted_list_of_set (pl_user_ids pl),
              pv_snapshot = JObj [(''version'', JStr ''phase3-dept-write/v1''),
                (''digest'', JStr (env_hash env payload)), (''facts'', payload)],
              pv_target_name = map_option dr_name (pl_target pl),
              pv_parent_name = map_option dr_name (pl_parent pl)\<rparr>, role_ids, pl_deps pl, user_ids))))"

text \<open>The second preview's refusals of authorization and business rules read as a stale snapshot.\<close>

definition stale_if_refused :: "'a res \<Rightarrow> 'a res" where
  "stale_if_refused r =
     (case r of
        Inl (Authorization c) \<Rightarrow> Inl (BusinessRule ''AUTHORIZATION_SNAPSHOT_STALE'')
      | Inl (BusinessRule c) \<Rightarrow> Inl (BusinessRule ''AUTHORIZATION_SNAPSHOT_STALE'')
      | Inl (InvalidParameter c) \<Rightarrow> Inl (BusinessRule ''AUTHORIZATION_SNAPSHOT_STALE'')
      | Inl (Unprocessable c) \<Rightarrow> Inl (BusinessRule ''AUTHORIZATION_SNAPSHOT_STALE'')
      | _ \<Rightarrow> r)"

definition authorize_and_lock ::
    "dept_env \<Rightarrow> dept_db \<Rightarrow> dept_db \<Rightarrow> dept_write \<Rightarrow> int \<Rightarrow> json option \<Rightarrow> int \<Rightarrow> dept_preview res" where
  "authorize_and_lock env db0 db1 w actor expected t =
     bindE (build_preview env db0 w actor t) (\<lambda>(initial, rs, ds, us).
     bindE (lock_targets (auth_of db1) rs ds us t) (\<lambda>_.
     bindE (stale_if_refused (build_preview env db1 w actor t)) (\<lambda>(locked, rs1, ds1, us1).
     bindE (guardE (json_eq (pv_snapshot initial) (pv_snapshot locked) \<and> rs = rs1 \<and> ds = ds1 \<and> us = us1)
              (BusinessRule ''AUTHORIZATION_SNAPSHOT_STALE'')) (\<lambda>_.
     bindE (guardE (case expected of None \<Rightarrow> True | Some s \<Rightarrow> json_eq (pv_snapshot locked) s)
              (BusinessRule ''AI_PREPARED_ACTION_SNAPSHOT_STALE'')) (\<lambda>_. Inr locked)))))"

section \<open>Operations\<close>

definition preview_write :: "dept_env \<Rightarrow> dept_db \<Rightarrow> dept_write \<Rightarrow> int \<Rightarrow> int \<Rightarrow> dept_preview res" where
  "preview_write env db w actor t = bindE (build_preview env db w actor t) (\<lambda>(pv, _). Inr pv)"

definition with_rows :: "dept_db \<Rightarrow> dept_row list res \<Rightarrow> dept_db res" where
  "with_rows db r = bindE r (\<lambda>rows. Inr (db\<lparr>dd_depts := rows\<rparr>))"

definition create_department where
  "create_department env db0 db1 nid c actor expected t =
     bindE (authorize_and_lock env db0 db1 (CreateDept c) actor expected t) (\<lambda>_.
       with_rows db1 (insert_dept (dd_depts db1) nid c t))"

definition update_department where
  "update_department env db0 db1 i u actor expected t =
     bindE (authorize_and_lock env db0 db1 (UpdateDept i u) actor expected t) (\<lambda>_.
       with_rows db1 (update_row (dd_depts db1) i u t))"

definition move_department where
  "move_department env db0 db1 i np actor expected t =
     bindE (authorize_and_lock env db0 db1 (MoveDept i np) actor expected t) (\<lambda>_.
       with_rows db1 (move_row (dd_depts db1) i np t))"

section \<open>Deleting\<close>

definition PHASE3_DESTRUCTIVE_PERMISSIONS :: "string set" where
  "PHASE3_DESTRUCTIVE_PERMISSIONS =
     {''system:dept:batch-delete'', ''system:dept:delete'', ''system:role:batch-delete'', ''system:role:delete''}"

record delete_facts =
  df_targets :: "int list"
  df_children :: "int list"
  df_users :: "int list"
  df_roles :: "int list"
  df_members :: "int list"

definition dept_delete_facts :: "dept_db \<Rightarrow> int list \<Rightarrow> int \<Rightarrow> delete_facts res" where
  "dept_delete_facts db ids t =
     (let rows = tenant_rows (dd_depts db) t;
          existing = sort (map dept_id (filter (\<lambda>d. dept_id d \<in> set ids) rows));
          roles = sort (map (\<lambda>(t', r, d). r) (filter (\<lambda>(t', r, d). t' = t \<and> d \<in> set ids)
                    (db_role_depts (scope (dd_auth db)))))
      in if existing \<noteq> ids then Inl (NotFound [])
         else Inr \<lparr>df_targets = existing,
                df_children = sort (map dept_id (filter (\<lambda>d. \<exists>p \<in> set ids. dr_parent d = Some p) rows)),
                df_users = sort (map (\<lambda>(t', u, d). u) (filter (\<lambda>(t', u, d). t' = t \<and> d \<in> set ids)
                             (db_user_depts (scope (dd_auth db))))),
                df_roles = roles,
                df_members = (if roles = [] then [] else
                  sort (map (\<lambda>(t', u, r). u) (filter (\<lambda>(t', u, r). t' = t \<and> r \<in> set roles)
                    (links_roles (dd_auth db)))))\<rparr>)"

definition delete_departments ::
    "dept_env \<Rightarrow> dept_db \<Rightarrow> dept_db \<Rightarrow> int list \<Rightarrow> int \<Rightarrow> string \<Rightarrow> int \<Rightarrow> (int \<times> dept_db) res" where
  "delete_departments env db0 db1 ids actor perm t =
     bindE (guardE (perm \<in> PHASE3_DESTRUCTIVE_PERMISSIONS) RuntimeError) (\<lambda>_.
     bindE (guardE (ids \<noteq> []) (InvalidParameter [])) (\<lambda>_.
     let norm = sorted_list_of_set (set ids) in
     bindE (build_authority (env_hash env) (env_vis env) (auth_of db0) actor t) (\<lambda>a.
     bindE (guardE (super_admin a) (Authorization ''SUPER_ADMIN_REQUIRED'')) (\<lambda>_.
     bindE (guardE (perm \<in> permission_codes a) (Authorization ''MISSING_PERMISSION'')) (\<lambda>_.
     bindE (dept_delete_facts db0 norm t) (\<lambda>initial.
     bindE (lock_targets (auth_of db1) (enabled_role_ids a \<union> set (df_roles initial))
              (set norm \<union> set (df_children initial))
              ({actor} \<union> set (df_users initial) \<union> set (df_members initial)) t) (\<lambda>_.
     bindE (dept_delete_facts db1 norm t) (\<lambda>locked.
     bindE (guardE (locked = initial) (BusinessRule ''AUTHORIZATION_SNAPSHOT_STALE'')) (\<lambda>_.
     bindE (guardE (df_children locked = [] \<and> df_users locked = [] \<and> df_roles locked = [])
              (BusinessRule ''DEPT_DELETE_REFERENCED'')) (\<lambda>_.
     let rows = delete_rows (dd_depts db1) (set norm) t
     in Inr (int (length (dd_depts db1)) - int (length rows), db1\<lparr>dd_depts := rows\<rparr>)))))))))))"

definition delete_department where
  "delete_department env db0 db1 i actor t =
     delete_departments env db0 db1 [i] actor ''system:dept:delete'' t"

definition batch_delete_departments where
  "batch_delete_departments env db0 db1 ids actor t =
     delete_departments env db0 db1 ids actor ''system:dept:batch-delete'' t"

end
