(* ===== verification/Dept_Tree_Facts.thy ===== *)
theory Dept_Tree_Facts
  imports Dept_Tree
begin

text \<open>
  Why the path text of a department is right: \<open>dept_tree\<close> says that every row's path is its
  parent's path and the parent, and every write keeps it. The components of a path are compared as
  lists of texts; a prefix that ends at a separator is a prefix of the components.
\<close>

section \<open>Components\<close>

abbreviation comps :: "string \<Rightarrow> string list" where
  "comps \<equiv> split_on (CHR '','')"

lemma comps_below: "comps (path_below a i) = comps a @ [show_int i]"
  using split_none[OF show_int_no_special(1)[of i]] by (simp add: path_below_def split_append)

lemma comps_inj: "comps a = comps b \<longleftrightarrow> a = b"
  by (metis join_split)

lemma prefix_comps: "prefix (a @ [CHR '','']) s \<longleftrightarrow> (\<exists>zs. zs \<noteq> [] \<and> comps s = comps a @ zs)"
proof
  assume "prefix (a @ [CHR '','']) s"
  then obtain b where "s = a @ CHR '','' # b" by (auto elim: prefixE)
  then show "\<exists>zs. zs \<noteq> [] \<and> comps s = comps a @ zs" by (auto simp: split_append)
next
  assume "\<exists>zs. zs \<noteq> [] \<and> comps s = comps a @ zs"
  then obtain zs where zs: "zs \<noteq> []" "comps s = comps a @ zs" by blast
  then have "s = a @ CHR '','' # join_on (CHR '','') zs"
    using join_split[of "CHR '',''" s] join_split[of "CHR '',''" a] join_append[of "comps a" zs] by simp
  then show "prefix (a @ [CHR '','']) s" by simp
qed

section \<open>Well-formed trees\<close>

definition tree_row :: "dept_row list \<Rightarrow> int \<Rightarrow> dept_row \<Rightarrow> bool" where
  "tree_row rows t d \<longleftrightarrow> 0 < dept_id d \<and>
     (case dr_parent d of
        None \<Rightarrow> dept_ancestors d = Some ''0''
      | Some p \<Rightarrow> (\<exists>q \<in> set rows. dept_tenant q = t \<and> dept_id q = p \<and> dept_ancestors q \<noteq> None \<and>
                    dept_ancestors d = Some (child_path q)))"

definition dept_tree :: "dept_row list \<Rightarrow> int \<Rightarrow> bool" where
  "dept_tree rows t \<longleftrightarrow> distinct (map dept_id rows) \<and>
     (\<forall>d \<in> set rows. dept_tenant d = t \<longrightarrow> tree_row rows t d)"

definition path_of :: "dept_row \<Rightarrow> string" where
  "path_of d = py_opt_str (dept_ancestors d)"

lemma child_path_eq: "child_path d = path_below (path_of d) (dept_id d)"
  by (simp add: child_path_def path_of_def)

lemma tree_path_some: "tree_row rows t d \<Longrightarrow> dept_ancestors d = Some (path_of d)"
  by (auto simp: tree_row_def path_of_def py_opt_str_def split: option.splits)

lemma tree_ids: "dept_tree rows t \<Longrightarrow> d \<in> set rows \<Longrightarrow> e \<in> set rows \<Longrightarrow> dept_id d = dept_id e \<Longrightarrow> d = e"
  by (auto simp: dept_tree_def distinct_map inj_on_def)

lemma tree_rowI: "dept_tree rows t \<Longrightarrow> d \<in> set rows \<Longrightarrow> dept_tenant d = t \<Longrightarrow> tree_row rows t d"
  by (simp add: dept_tree_def)

text \<open>Following the parents shortens the path, so the tree has no cycle.\<close>

lemma tree_parent:
  assumes "dept_tree rows t" "d \<in> set rows" "dept_tenant d = t"
  obtains (root) "dr_parent d = None" "path_of d = ''0''"
    | (child) q where "q \<in> set rows" "dept_tenant q = t" "dr_parent d = Some (dept_id q)"
        "path_of d = child_path q" "length (path_of q) < length (path_of d)"
proof (cases "dr_parent d")
  case None
  with tree_rowI[OF assms] show ?thesis
    using root by (simp add: tree_row_def path_of_def py_opt_str_def)
next
  case (Some p)
  with tree_rowI[OF assms] obtain q where q: "q \<in> set rows" "dept_tenant q = t" "dept_id q = p"
    "dept_ancestors d = Some (child_path q)"
    by (auto simp: tree_row_def)
  then have p: "path_of d = child_path q" by (simp add: path_of_def py_opt_str_def)
  then have "length (path_of q) < length (path_of d)"
    by (simp add: child_path_eq path_below_def)
  with q p Some show ?thesis using child by blast
qed

lemma like_literal_below: "like_literal a \<Longrightarrow> like_literal (path_below a i)"
  using show_int_no_special[of i] by (simp add: like_literal_def path_below_def)

lemma tree_path_literal:
  "dept_tree rows t \<Longrightarrow> d \<in> set rows \<Longrightarrow> dept_tenant d = t \<Longrightarrow> like_literal (path_of d)"
proof (induction "length (path_of d)" arbitrary: d rule: less_induct)
  case less
  from less.prems show ?case
  proof (cases rule: tree_parent)
    case root
    then show ?thesis by (simp add: like_literal_def)
  next
    case (child q)
    with less.hyps[of q] less.prems(1) show ?thesis
      by (simp add: child_path_eq like_literal_below)
  qed
qed

lemma below_comps:
  assumes "like_literal pre" "dept_ancestors d = Some (path_of d)"
  shows "below pre d \<longleftrightarrow> (\<exists>zs. comps (path_of d) = comps pre @ zs)"
proof -
  have "like_literal (pre @ [CHR '',''])" using assms(1) by (simp add: like_literal_def)
  from sql_like_lit[OF this, of "path_of d"]
  have "below pre d \<longleftrightarrow> path_of d = pre \<or> prefix (pre @ [CHR '','']) (path_of d)"
    by (simp add: below_def assms(2))
  also have "\<dots> \<longleftrightarrow> (\<exists>zs. comps (path_of d) = comps pre @ zs)"
    unfolding prefix_comps by (metis append_Nil2 comps_inj)
  finally show ?thesis .
qed

lemma below_prefix: "below pre d \<Longrightarrow> like_literal pre \<Longrightarrow> dept_ancestors d = Some (path_of d) \<Longrightarrow> prefix pre (path_of d)"
  using sql_like_lit[of "pre @ [CHR '','']" "path_of d"]
  by (auto simp: below_def like_literal_def elim: prefixE)

lemma replace_first_prefix: "prefix old s \<Longrightarrow> replace_first old new s = new @ drop (length old) s"
  by (cases s) auto

section \<open>Finding rows\<close>

lemma load_department_ok:
  "load_department rows i t = Inr d \<Longrightarrow> d \<in> set rows \<and> dept_tenant d = t \<and> dept_id d = i"
  using find_SomeD[of _ rows d] by (auto simp: load_department_def find_dept_def split: option.splits)

lemma load_department_unique:
  assumes "distinct (map dept_id rows)" "d \<in> set rows" "dept_tenant d = t"
  shows "load_department rows (dept_id d) t = Inr d"
proof (cases "find_dept rows (dept_id d) t")
  case None
  with assms show ?thesis by (auto simp: find_dept_def find_None_iff)
next
  case (Some e)
  then have "e \<in> set rows" "dept_id e = dept_id d"
    using find_SomeD[of _ rows e] by (auto simp: find_dept_def)
  with assms have "e = d" by (auto simp: distinct_map inj_on_def)
  with Some show ?thesis by (simp add: load_department_def)
qed

section \<open>Moving a subtree\<close>

text \<open>What \<open>move_row\<close> does to each row: \<open>moved_row x A new np\<close> on the rows of the tenant.\<close>

definition moved_row :: "int \<Rightarrow> int \<Rightarrow> string \<Rightarrow> string \<Rightarrow> int option \<Rightarrow> dept_row \<Rightarrow> dept_row" where
  "moved_row t x A new np d =
     (let d' = (if dept_tenant d = t \<and> below (path_below A x) d
                then d\<lparr>dept_ancestors := map_option (replace_first A new) (dept_ancestors d)\<rparr> else d)
      in if dept_tenant d = t \<and> dept_id d = x
         then d'\<lparr>dr_parent := np, dept_ancestors := Some new\<rparr> else d')"

lemma moved_row_keys [simp]:
  "dept_id (moved_row t x A new np d) = dept_id d" "dept_tenant (moved_row t x A new np d) = dept_tenant d"
  by (simp_all add: moved_row_def Let_def)

lemma move_row_map:
  assumes "move_row rows x np t = Inr rows'"
  obtains d parent where "load_department rows x t = Inr d"
    "np = None \<and> parent = None \<or> (\<exists>p r. np = Some p \<and> load_department rows p t = Inr r \<and> parent = Some r)"
    "rows' = map (moved_row t x (path_of d) (path_under parent) np) rows"
proof -
  from assms obtain d parent where d: "load_department rows x t = Inr d"
    and p: "(case np of None \<Rightarrow> Inr None
            | Some p \<Rightarrow> bindE (load_department rows p t) (\<lambda>r. Inr (Some r))) = Inr parent"
    and r: "rows' = map (\<lambda>r. if dept_tenant r = t \<and> dept_id r = x
                        then r\<lparr>dr_parent := np, dept_ancestors := Some (path_under parent)\<rparr> else r)
              (update_descendants_ancestors rows x (py_opt_str (dept_ancestors d)) (path_under parent) t)"
    by (auto simp: move_row_def res_simps Let_def)
  have "rows' = map (moved_row t x (path_of d) (path_under parent) np) rows"
    unfolding r update_descendants_ancestors_def map_map path_of_def[symmetric]
    by (rule map_cong[OF refl]) (simp add: moved_row_def Let_def)
  with d p show ?thesis
    by (intro that[of d parent]) (auto simp: res_simps split: option.splits)
qed

text \<open>A row below the moved one is its child or the child of a row below it.\<close>

lemma below_child:
  assumes "like_literal pre" "pre = path_below A x"
    and q: "dept_ancestors q = Some (path_of q)"
    and d: "dept_ancestors d = Some (path_of d)" "path_of d = child_path q"
  shows "below pre d \<longleftrightarrow> below pre q \<or> path_of q = A \<and> dept_id q = x"
proof -
  have "below pre d \<longleftrightarrow> (\<exists>zs. comps (path_of q) @ [show_int (dept_id q)] = comps A @ [show_int x] @ zs)"
    using below_comps[OF assms(1) d(1)] by (simp add: d(2) child_path_eq comps_below assms(2))
  also have "\<dots> \<longleftrightarrow> (\<exists>zs. comps (path_of q) = comps A @ show_int x # zs) \<or>
      comps (path_of q) = comps A \<and> show_int (dept_id q) = show_int x"
    by (auto simp: append_eq_append_conv2 append_eq_Cons_conv Cons_eq_append_conv)
      (metis append_butlast_last_id butlast_append butlast_snoc list.distinct(1) append_Cons)+
  also have "\<dots> \<longleftrightarrow> below pre q \<or> path_of q = A \<and> dept_id q = x"
    using below_comps[OF assms(1) q] by (simp add: comps_below assms(2) comps_inj)
  finally show ?thesis .
qed

lemma moved_path:
  assumes "dept_tenant d = t" "dept_id d \<noteq> x" "dept_ancestors d = Some (path_of d)"
    and "like_literal (path_below A x)"
  shows "dept_ancestors (moved_row t x A new np d) = Some (path_of (moved_row t x A new np d))"
    and "path_of (moved_row t x A new np d) =
      (if below (path_below A x) d then new @ drop (length A) (path_of d) else path_of d)"
    and "dr_parent (moved_row t x A new np d) = dr_parent d"
proof -
  have pre: "prefix A (path_of d)" if "below (path_below A x) d"
    using below_prefix[OF that assms(4,3)] by (auto simp: path_below_def elim: prefixE)
  obtain w where w: "dept_ancestors d = Some w" "path_of d = w" using assms(3) by blast
  show "path_of (moved_row t x A new np d) =
      (if below (path_below A x) d then new @ drop (length A) (path_of d) else path_of d)"
    using assms(1,2) w pre by (simp add: moved_row_def path_of_def py_opt_str_def replace_first_prefix)
  show "dept_ancestors (moved_row t x A new np d) = Some (path_of (moved_row t x A new np d))"
    using assms(1,2) w by (simp add: moved_row_def path_of_def py_opt_str_def)
  show "dr_parent (moved_row t x A new np d) = dr_parent d"
    using assms(1,2) by (simp add: moved_row_def)
qed

lemma moved_target:
  "dept_tenant d = t \<Longrightarrow> dept_id d = x \<Longrightarrow>
     dept_ancestors (moved_row t x A new np d) = Some new \<and> path_of (moved_row t x A new np d) = new \<and>
     dr_parent (moved_row t x A new np d) = np"
  by (simp add: moved_row_def Let_def path_of_def py_opt_str_def)

lemma child_path_moved:
  assumes "path_of q' = new @ drop (length A) (path_of q)" "dept_id q' = dept_id q" "length A \<le> length (path_of q)"
  shows "child_path q' = new @ drop (length A) (child_path q)"
  using assms by (simp add: child_path_eq path_below_def)

text \<open>A child's path stays its parent's path and the parent.\<close>

lemma moved_child_path:
  assumes lit: "like_literal (path_below A x)"
    and d: "dept_tenant d = t" "dept_id d \<noteq> x" "dept_ancestors d = Some (path_of d)"
    and q: "dept_tenant q = t" "dept_ancestors q = Some (path_of q)"
    and dq: "path_of d = child_path q" and target: "dept_id q = x \<Longrightarrow> path_of q = A"
  shows "path_of (moved_row t x A new np d) = child_path (moved_row t x A new np q)"
proof -
  note md = moved_path(2)[OF d lit, of new np] and bc = below_child[OF lit refl q(2) d(3) dq]
  consider "dept_id q = x" | "dept_id q \<noteq> x" "below (path_below A x) q"
    | "dept_id q \<noteq> x" "\<not> below (path_below A x) q" by blast
  then show ?thesis
  proof cases
    case 1
    then have "below (path_below A x) d" "path_of d = path_below A x"
      using bc target dq by (simp_all add: child_path_eq)
    with md moved_target[OF q(1) 1, of A new np] 1 show ?thesis
      by (simp add: child_path_eq path_below_def)
  next
    case 2
    then have "length A \<le> length (path_of q)"
      using below_prefix[OF 2(2) lit q(2)] prefix_length_le by (fastforce simp: path_below_def)
    with moved_path(2)[OF q(1) 2(1) q(2) lit, of new np] 2
    have "child_path (moved_row t x A new np q) = new @ drop (length A) (child_path q)"
      by (intro child_path_moved) simp_all
    with md bc 2 dq show ?thesis by simp
  next
    case 3
    with bc have "\<not> below (path_below A x) d" by simp
    with 3 md moved_path(2)[OF q(1) 3(1) q(2) lit, of new np] dq show ?thesis by (simp add: child_path_eq)
  qed
qed

text \<open>The new parent neither is the moved department nor lies below it.\<close>

definition safe_parent :: "dept_row list \<Rightarrow> int \<Rightarrow> int \<Rightarrow> int option \<Rightarrow> bool" where
  "safe_parent rows t x np \<longleftrightarrow>
     (\<forall>p r d. np = Some p \<longrightarrow> load_department rows p t = Inr r \<longrightarrow> load_department rows x t = Inr d \<longrightarrow>
        p \<noteq> x \<and> \<not> below (child_path d) r)"

lemma move_row_tree:
  assumes tree: "dept_tree rows t" and mv: "move_row rows x np t = Inr rows'" and safe: "safe_parent rows t x np"
  shows "dept_tree rows' t"
proof -
  from move_row_map[OF mv] obtain dx parent where x: "load_department rows x t = Inr dx"
    and par: "np = None \<and> parent = None \<or> (\<exists>p r. np = Some p \<and> load_department rows p t = Inr r \<and> parent = Some r)"
    and rows': "rows' = map (moved_row t x (path_of dx) (path_under parent) np) rows" by blast
  define A where "A = path_of dx"
  define new where "new = path_under parent"
  let ?g = "moved_row t x A new np" and ?pre = "path_below A x"
  note dx = load_department_ok[OF x]
  have lit: "like_literal ?pre"
    using tree_path_literal[OF tree] dx by (simp add: A_def like_literal_below)
  have pre: "?pre = child_path dx" using dx by (simp add: A_def child_path_eq)
  have path: "dept_ancestors d = Some (path_of d)" if "d \<in> set rows" "dept_tenant d = t" for d
    using tree_path_some[OF tree_rowI[OF tree that]] .
  have same: "d = dx" if "d \<in> set rows" "dept_id d = x" for d
    using tree_ids[OF tree that(1)] dx that(2) by blast
  have "tree_row rows' t (?g d)" if d: "d \<in> set rows" "dept_tenant d = t" for d
  proof (cases "dept_id d = x")
    case True
    note tgt = moved_target[OF d(2) True, of A new np]
    from par show ?thesis
    proof (elim disjE exE conjE)
      assume "np = None" "parent = None"
      with tgt tree_rowI[OF tree d] show ?thesis by (simp add: tree_row_def new_def path_under_def)
    next
      fix p r assume p: "np = Some p" "load_department rows p t = Inr r" "parent = Some r"
      note r = load_department_ok[OF p(2)]
      have "p \<noteq> x" "\<not> below ?pre r" using safe p x by (auto simp: safe_parent_def pre)
      then have "?g r = r" using r by (auto simp: moved_row_def Let_def)
      then have "r \<in> set rows'" using r by (force simp: rows' A_def new_def)
      with r p(1,3) tgt tree_rowI[OF tree d] path[of r] show ?thesis
        by (auto simp: tree_row_def new_def path_under_def intro!: bexI[of _ r])
    qed
  next
    case False
    note mp = moved_path[OF d(2) False path[OF d] lit, of new np]
    have pos: "0 < dept_id d" using tree_rowI[OF tree d] by (simp add: tree_row_def)
    from tree d show ?thesis
    proof (cases rule: tree_parent)
      case root
      then have "\<not> below ?pre d" by (simp add: below_comps[OF lit path[OF d]] comps_below Cons_eq_append_conv)
      with root mp pos show ?thesis by (simp add: tree_row_def)
    next
      case (child q)
      have q': "?g q \<in> set rows'" using child(1) by (simp add: rows' A_def new_def)
      have "path_of (?g d) = child_path (?g q)"
        by (rule moved_child_path[OF lit d(2) False path[OF d] child(2) path[OF child(1,2)] child(4)])
          (use same child(1) A_def in auto)
      moreover have "dept_ancestors (?g q) \<noteq> None"
        using moved_target[OF child(2)] moved_path(1)[OF child(2) _ path[OF child(1,2)] lit]
        by (cases "dept_id q = x") auto
      ultimately show ?thesis
        using mp(1,3) pos child(2,3) q' by (auto simp: tree_row_def intro!: bexI[of _ "?g q"])
    qed
  qed
  moreover have "distinct (map dept_id rows')"
    using tree by (simp add: rows' comp_def dept_tree_def)
  ultimately show ?thesis
    by (auto simp: dept_tree_def rows' A_def new_def)
qed

section \<open>The other writes\<close>

lemma insert_dept_row:
  assumes "insert_dept rows nid c t = Inr rows'"
  obtains d where "rows' = rows @ [d]" "dept_id d = nid" "dept_tenant d = t" "dr_parent d = dc_parent_id c"
    "\<forall>e \<in> set rows. dept_id e \<noteq> nid"
    "dc_parent_id c = None \<and> dept_ancestors d = Some ''0'' \<or>
      (\<exists>p r. dc_parent_id c = Some p \<and> load_department rows p t = Inr r \<and> dept_ancestors d = Some (child_path r))"
proof -
  define new where "new parent = \<lparr>dept_id = nid, dept_tenant = t, dept_status = dc_status c,
      dept_ancestors = Some (path_under parent), dr_parent = dc_parent_id c, dr_name = dc_name c,
      dr_order = dc_order c, dr_leader = dc_leader c, dr_phone = dc_phone c, dr_email = or_none (dc_email c)\<rparr>"
    for parent
  from assms obtain parent where
    look: "(case dc_parent_id c of None \<Rightarrow> Inr None
      | Some p \<Rightarrow> bindE (load_department rows p t) (\<lambda>r. Inr (Some r))) = Inr parent"
    and rest: "(if \<exists>d \<in> set rows. dept_id d = nid then Inl IntegrityError
      else Inr (rows @ [new parent])) = Inr rows'"
    unfolding insert_dept_def new_def bindE_eq_Inr by blast
  have keys: "dept_id (new parent) = nid" "dept_tenant (new parent) = t" "dr_parent (new parent) = dc_parent_id c"
    "dept_ancestors (new parent) = Some (path_under parent)"
    by (simp_all add: new_def)
  from look have "dc_parent_id c = None \<and> parent = None \<or>
      (\<exists>p r. dc_parent_id c = Some p \<and> load_department rows p t = Inr r \<and> parent = Some r)"
    by (auto simp: bindE_eq_Inr split: option.splits)
  then have path: "dc_parent_id c = None \<and> dept_ancestors (new parent) = Some ''0'' \<or>
      (\<exists>p r. dc_parent_id c = Some p \<and> load_department rows p t = Inr r \<and>
             dept_ancestors (new parent) = Some (child_path r))"
    unfolding keys by (auto simp: path_under_def)
  from rest have "rows' = rows @ [new parent]" "\<forall>d \<in> set rows. dept_id d \<noteq> nid"
    by (auto split: if_splits)
  with keys(1-3) path show ?thesis by (intro that)
qed

lemma tree_row_more: "tree_row rows t d \<Longrightarrow> tree_row (rows @ new) t d"
  by (auto simp: tree_row_def split: option.splits)

lemma insert_dept_tree:
  assumes tree: "dept_tree rows t" and ins: "insert_dept rows nid c t = Inr rows'" and pos: "0 < nid"
  shows "dept_tree rows' t"
proof -
  from insert_dept_row[OF ins] obtain d where rows': "rows' = rows @ [d]"
    and d: "dept_id d = nid" "dept_tenant d = t" "dr_parent d = dc_parent_id c" "\<forall>e \<in> set rows. dept_id e \<noteq> nid"
    and path: "dc_parent_id c = None \<and> dept_ancestors d = Some ''0'' \<or>
      (\<exists>p r. dc_parent_id c = Some p \<and> load_department rows p t = Inr r \<and> dept_ancestors d = Some (child_path r))" .
  from path have "tree_row rows' t d"
  proof (elim disjE exE conjE)
    fix p r assume r: "dc_parent_id c = Some p" "load_department rows p t = Inr r"
      "dept_ancestors d = Some (child_path r)"
    note r' = load_department_ok[OF r(2)]
    then have "dept_ancestors r \<noteq> None" using tree_path_some[OF tree_rowI[OF tree]] by blast
    with r' r(3) have "\<exists>q \<in> set rows'. dept_tenant q = t \<and> dept_id q = p \<and> dept_ancestors q \<noteq> None \<and>
        dept_ancestors d = Some (child_path q)"
      by (auto simp only: rows' set_append)
    with r(1) pos d show ?thesis by (simp add: tree_row_def)
  qed (use pos d in \<open>simp add: tree_row_def\<close>)
  then show ?thesis
    using tree d by (auto simp: dept_tree_def rows' tree_row_more)
qed

lemma apply_update_frame [simp]:
  "dept_id (apply_update u d) = dept_id d" "dept_tenant (apply_update u d) = dept_tenant d"
  "dr_parent (apply_update u d) = dr_parent d" "dept_ancestors (apply_update u d) = dept_ancestors d"
  by (simp_all add: apply_update_def set_opt_def split: option.splits)

lemma child_path_cong: "dept_ancestors d = dept_ancestors e \<Longrightarrow> dept_id d = dept_id e \<Longrightarrow> child_path d = child_path e"
  by (simp add: child_path_def)

lemma tree_row_map:
  assumes keys: "\<And>d. dept_id (g d) = dept_id d" "\<And>d. dept_tenant (g d) = dept_tenant d"
    "\<And>d. dr_parent (g d) = dr_parent d" "\<And>d. dept_ancestors (g d) = dept_ancestors d"
    and row: "tree_row rows t d"
  shows "tree_row (map g rows) t (g d)"
proof (cases "dr_parent d")
  case None
  with row show ?thesis by (simp add: tree_row_def keys)
next
  case (Some p)
  with row obtain q where q: "q \<in> set rows" "dept_tenant q = t" "dept_id q = p" "dept_ancestors q \<noteq> None"
    "dept_ancestors d = Some (child_path q)" and pos: "0 < dept_id d"
    by (auto simp: tree_row_def)
  have "child_path (g q) = child_path q" by (rule child_path_cong) (simp_all add: keys)
  then have "dept_tenant (g q) = t \<and> dept_id (g q) = p \<and> dept_ancestors (g q) \<noteq> None \<and>
      dept_ancestors (g d) = Some (child_path (g q))"
    using q by (simp add: keys)
  then have "\<exists>q \<in> set (map g rows). dept_tenant q = t \<and> dept_id q = p \<and> dept_ancestors q \<noteq> None \<and>
      dept_ancestors (g d) = Some (child_path q)"
    using q(1) by (auto simp only: set_map intro: bexI[of _ "g q"])
  with pos Some show ?thesis by (simp add: tree_row_def keys)
qed

lemma dept_tree_map:
  assumes "\<And>d. dept_id (g d) = dept_id d" "\<And>d. dept_tenant (g d) = dept_tenant d"
    "\<And>d. dr_parent (g d) = dr_parent d" "\<And>d. dept_ancestors (g d) = dept_ancestors d"
    and "dept_tree rows t"
  shows "dept_tree (map g rows) t"
  using assms tree_row_map[of g rows t] by (auto simp: dept_tree_def comp_def)

lemma update_row_tree:
  assumes "dept_tree rows t" "update_row rows i u t = Inr rows'"
  shows "dept_tree rows' t"
proof -
  from assms(2) have "rows' = map (\<lambda>d. if dept_tenant d = t \<and> dept_id d = i then apply_update u d else d) rows"
    by (auto simp: update_row_def res_simps)
  then show ?thesis using assms(1) by (simp only:) (rule dept_tree_map, simp_all)
qed

lemma delete_rows_tree:
  assumes tree: "dept_tree rows t"
    and leaf: "\<forall>d \<in> set rows. dept_tenant d = t \<longrightarrow> (\<forall>p. dr_parent d = Some p \<longrightarrow> p \<notin> ids)"
  shows "dept_tree (delete_rows rows ids t) t"
proof -
  have "tree_row (delete_rows rows ids t) t d" if "d \<in> set rows" "dept_tenant d = t" for d
  proof (cases "dr_parent d")
    case None
    with tree_rowI[OF tree that] show ?thesis by (simp add: tree_row_def)
  next
    case (Some p)
    with tree_rowI[OF tree that] leaf that show ?thesis
      by (fastforce simp: tree_row_def delete_rows_def)
  qed
  then show ?thesis
    using tree by (auto simp: dept_tree_def delete_rows_def distinct_map_filter)
qed

section \<open>Levels\<close>

definition level_of :: "dept_row \<Rightarrow> int" where
  "level_of d = get_dept_level (dept_ancestors d)"

lemma level_comps:
  "dept_ancestors d = Some (path_of d) \<Longrightarrow> path_of d \<noteq> [] \<Longrightarrow> level_of d = int (length (comps (path_of d)))"
  by (cases "dept_ancestors d") (auto simp: level_of_def get_dept_level_def path_of_def py_opt_str_def)

lemma path_under_nonempty: "path_under p \<noteq> []"
  by (simp add: path_under_def child_path_def path_below_def split: option.splits)

lemma tree_path_nonempty: "dept_tree rows t \<Longrightarrow> d \<in> set rows \<Longrightarrow> dept_tenant d = t \<Longrightarrow> path_of d \<noteq> []"
  by (rule tree_parent[of rows t d]) (auto simp: child_path_def path_below_def)

lemma tree_level:
  "dept_tree rows t \<Longrightarrow> d \<in> set rows \<Longrightarrow> dept_tenant d = t \<Longrightarrow> level_of d = int (length (comps (path_of d)))"
  using level_comps tree_path_some[OF tree_rowI] tree_path_nonempty by blast

lemma level_pos: "1 \<le> level_of d"
  by (cases "dept_ancestors d") (auto simp: level_of_def get_dept_level_def Suc_le_eq)

lemma foldl_max_ge:
  fixes g :: "'a \<Rightarrow> int"
  shows "m \<le> foldl (\<lambda>m x. let y = g x in if m < y then y else m) m xs \<and>
    (\<forall>x \<in> set xs. g x \<le> foldl (\<lambda>m x. let y = g x in if m < y then y else m) m xs)"
proof (induction xs arbitrary: m)
  case (Cons x xs)
  show ?case using Cons.IH[of "if m < g x then g x else m"] by (auto simp: Let_def)
qed simp

lemma child_depth_ge:
  assumes "load_department rows x t = Inr dx" "d \<in> set rows" "dept_tenant d = t"
    and "below (child_path dx) d"
  shows "int (length (comps (path_of d))) - int (length (comps (child_path dx))) \<le> get_max_child_depth rows x t"
proof -
  have "find_dept rows x t = Some dx"
    using assms(1) by (simp add: load_department_def split: option.splits)
  moreover have "d \<in> set (descendant_rows rows (child_path dx) t)"
    using assms(2-4) by (simp add: descendant_rows_def)
  ultimately show ?thesis
    using foldl_max_ge[of 0 "\<lambda>r. int (length (comps (py_opt_str (dept_ancestors r)))) -
        int (length (comps (child_path dx)))" "descendant_rows rows (child_path dx) t"]
    by (auto simp: get_max_child_depth_def path_of_def Let_def)
qed

lemma child_depth_nonneg: "0 \<le> get_max_child_depth rows x t"
proof (cases "find_dept rows x t")
  case None
  then show ?thesis by (simp add: get_max_child_depth_def)
next
  case (Some dx)
  then show ?thesis
    using conjunct1[OF foldl_max_ge[of 0 "\<lambda>r. int (length (comps (py_opt_str (dept_ancestors r)))) -
      int (length (comps (child_path dx)))" "descendant_rows rows (child_path dx) t"]]
    by (simp add: get_max_child_depth_def Let_def)
qed

definition levels_le :: "int \<Rightarrow> dept_row list \<Rightarrow> int \<Rightarrow> bool" where
  "levels_le k rows t \<longleftrightarrow> (\<forall>d \<in> set rows. dept_tenant d = t \<longrightarrow> level_of d \<le> k)"

lemma moved_level:
  assumes lit: "like_literal (path_below A x)" and d: "dept_tenant d = t" "dept_id d \<noteq> x"
    "dept_ancestors d = Some (path_of d)" and below: "below (path_below A x) d"
  shows "int (length (comps (path_of (moved_row t x A new np d)))) =
    int (length (comps new)) + int (length (comps (path_of d))) - int (length (comps A))"
proof -
  from below_prefix[OF below lit d(3)] obtain w where "path_of d = path_below A x @ w" by (auto elim: prefixE)
  then have w: "path_of d = A @ CHR '','' # (show_int x @ w)" by (simp add: path_below_def)
  then show ?thesis
    using moved_path(2)[OF d lit, of new np] below by (simp add: split_append)
qed

text \<open>The check of \<open>move\<close> against a bound below \<open>k\<close> keeps every level within \<open>k\<close>: the depth it
  computes counts a direct child as 0, so the bound it enforces is one less than it means.\<close>

lemma move_row_levels:
  assumes tree: "dept_tree rows t" and mv: "move_row rows x np t = Inr rows'" and safe: "safe_parent rows t x np"
    and old: "levels_le k rows t"
    and depth: "\<And>p r. np = Some p \<Longrightarrow> load_department rows p t = Inr r \<Longrightarrow>
      level_of r + 1 + get_max_child_depth rows x t < k"
  shows "levels_le k rows' t"
  unfolding levels_le_def
proof (intro ballI impI)
  from move_row_map[OF mv] obtain dx parent where x: "load_department rows x t = Inr dx"
    and par: "np = None \<and> parent = None \<or> (\<exists>p r. np = Some p \<and> load_department rows p t = Inr r \<and> parent = Some r)"
    and rows': "rows' = map (moved_row t x (path_of dx) (path_under parent) np) rows" by blast
  note dx = load_department_ok[OF x] and tree' = move_row_tree[OF tree mv safe]
  fix d' assume d': "d' \<in> set rows'" "dept_tenant d' = t"
  then obtain d where g: "d \<in> set rows" "d' = moved_row t x (path_of dx) (path_under parent) np d"
    unfolding rows' set_map by blast
  with d'(2) have d: "d \<in> set rows" "dept_tenant d = t" "d' = moved_row t x (path_of dx) (path_under parent) np d"
    by simp_all
  have lit: "like_literal (path_below (path_of dx) x)"
    using tree_path_literal[OF tree] dx by (simp add: like_literal_below)
  have lev: "level_of e = int (length (comps (path_of e)))" "level_of e \<le> k"
    if "e \<in> set rows" "dept_tenant e = t" for e
    using tree_level[OF tree that] that old unfolding levels_le_def by (simp, blast)
  have new: "int (length (comps (path_under parent))) + get_max_child_depth rows x t < k" if "np \<noteq> None"
  proof -
    from that par obtain p r where p: "np = Some p" "load_department rows p t = Inr r" "parent = Some r"
      by blast
    with depth[OF p(1,2)] lev(1)[of r] load_department_ok[OF p(2)] show ?thesis
      by (simp add: path_under_def child_path_eq comps_below)
  qed
  have root: "comps (path_under parent) = [''0'']" if "np = None"
    using par that by (simp add: path_under_def)
  note nonneg = child_depth_nonneg[of rows x t]
  have "int (length (comps (path_of d'))) \<le> k"
  proof (cases "dept_id d = x \<or> \<not> below (path_below (path_of dx) x) d")
    case True
    then show ?thesis
      using moved_target[OF d(2)] moved_path(2)[OF d(2) _ tree_path_some[OF tree_rowI[OF tree d(1,2)]] lit]
        lev[OF d(1,2)] new root nonneg level_pos[of d] d(3)
      by (cases "dept_id d = x"; cases np) auto
  next
    case False
    have cp: "child_path dx = path_below (path_of dx) x" using dx by (simp add: child_path_eq)
    have len: "int (length (comps (path_of d'))) = int (length (comps (path_under parent))) +
        int (length (comps (path_of d))) - int (length (comps (path_of dx)))"
      using moved_level[OF lit d(2) _ tree_path_some[OF tree_rowI[OF tree d(1,2)]]] False d(3) by simp
    moreover have "int (length (comps (path_of d))) - int (length (comps (path_of dx))) - 1 \<le> get_max_child_depth rows x t"
      using child_depth_ge[OF x d(1,2)] False cp by (simp add: comps_below)
    moreover have "1 \<le> int (length (comps (path_of dx)))" by (simp add: Suc_le_eq)
    ultimately show ?thesis
      using new root lev[OF d(1,2)] by (cases np) auto
  qed
  then show "level_of d' \<le> k" using tree_level[OF tree' d'] by simp
qed

end
