(* ===== verification/Dept_Props.thy ===== *)
theory Dept_Props
  imports Dept_Service Dept_Tree_Facts
begin

text \<open>
  The department service as a state machine: every committed write, with any other change of the
  authorization tables between them. The tree and its paths stay consistent, levels stay bounded,
  the descendant loop computes reachability, and a delete leaves no dangling reference.
\<close>

section \<open>What an authorized write has passed\<close>

lemma stale_if_refused_ok: "stale_if_refused r = Inr x \<Longrightarrow> r = Inr x"
  by (simp add: stale_if_refused_def split: sum.splits exn.splits)

lemma build_preview_plan:
  "build_preview env db w actor t = Inr x \<Longrightarrow>
     \<exists>a pl. build_authority (env_hash env) (env_vis env) (auth_of db) actor t = Inr a \<and>
       plan_write env db a w t = Inr pl"
  unfolding build_preview_def bindE_eq_Inr by blast

lemma authorized_plan:
  assumes "authorize_and_lock env db0 db1 w actor expected t = Inr pv"
  shows "\<exists>a pl. plan_write env db1 a w t = Inr pl"
proof -
  have "\<exists>x. stale_if_refused (build_preview env db1 w actor t) = Inr (x :: dept_preview \<times> int set \<times> int set \<times> int set)"
  proof (cases "stale_if_refused (build_preview env db1 w actor t)")
    case (Inl e)
    with assms show ?thesis by (auto simp: authorize_and_lock_def bindE_eq_Inr split: prod.splits)
  qed auto
  then obtain x where "stale_if_refused (build_preview env db1 w actor t) = Inr x" by (elim exE)
  from build_preview_plan[OF stale_if_refused_ok[OF this]] show ?thesis by (elim exE conjE) (intro exI)
qed

lemma plan_create_level:
  assumes "plan_create env db a c t = Inr pl" "dc_parent_id c = Some p"
    and "load_department (dd_depts db) p t = Inr parent"
  shows "get_dept_level (dept_ancestors parent) + 1 \<le> DEPT_MAX_LEVEL"
  using assms(1) unfolding plan_create_def
  by (simp add: res_simps assms(2,3)) blast

lemma plan_move_parent:
  assumes "plan_move db a i (Some p) t = Inr pl"
  shows "\<exists>r. check_new_parent db i p t = Inr r"
  using assms unfolding plan_move_def by (simp add: bindE_eq_Inr Let_def) blast

lemma show_int_pos: "0 < i \<Longrightarrow> show_int i \<noteq> ''0''"
proof -
  assume "0 < i"
  moreover have "show_int 0 = ''0''" by code_simp
  ultimately show ?thesis by (metis less_irrefl show_int_inj)
qed

lemma ancestor_ids_member:
  assumes "ancestor_ids (Some r) = Inr ids" "dept_ancestors r = Some s" "show_int i \<in> set (split_on (CHR '','') s)"
    and "0 < i"
  shows "i \<in> ids"
proof -
  from assms(1,2) obtain vs where
    v: "mapE py_int (filter (\<lambda>v. v \<noteq> [] \<and> v \<noteq> ''0'') (split_on (CHR '','') s)) = Inr vs" "ids = set vs"
    by (auto simp: ancestor_ids_def res_simps)
  from show_int_pos[OF assms(4)] mapE_Inr_in[OF v(1), of "show_int i"] assms(3) v(2) show ?thesis
    by auto
qed

lemma check_new_parent_ok:
  assumes tree: "dept_tree (dd_depts db) t" and ok: "check_new_parent db i p t = Inr r"
  shows "safe_parent (dd_depts db) t i (Some p) \<and> load_department (dd_depts db) p t = Inr r \<and>
    level_of r + 1 + get_max_child_depth (dd_depts db) i t \<le> DEPT_MAX_LEVEL"
proof -
  from ok obtain anc where r: "load_department (dd_depts db) p t = Inr r" and neq: "p \<noteq> i"
    and anc: "ancestor_ids (Some r) = Inr anc" "i \<notin> anc"
    and lev: "get_dept_level (dept_ancestors r) + 1 + get_max_child_depth (dd_depts db) i t \<le> DEPT_MAX_LEVEL"
    by (auto simp: check_new_parent_def res_simps split: if_splits)
  note r' = load_department_ok[OF r]
  have path: "dept_ancestors r = Some (path_of r)"
    using tree_path_some[OF tree_rowI[OF tree]] r' by blast
  have "\<not> below (child_path d) r" if d: "load_department (dd_depts db) i t = Inr d" for d
  proof
    assume below: "below (child_path d) r"
    note d' = load_department_ok[OF d]
    have "like_literal (child_path d)"
      using tree_path_literal[OF tree] d' by (simp add: child_path_eq like_literal_below)
    from below_comps[OF this path] below d' obtain zs where
      "comps (path_of r) = comps (path_of d) @ show_int i # zs"
      by (auto simp: child_path_eq comps_below)
    moreover have "0 < i" using tree_rowI[OF tree] d' by (auto simp: tree_row_def)
    ultimately show False using ancestor_ids_member[OF anc(1) path] anc(2) by simp
  qed
  with neq r lev show ?thesis by (auto simp: safe_parent_def level_of_def)
qed

section \<open>The states of the department table\<close>

inductive dept_step :: "dept_env \<Rightarrow> int \<Rightarrow> dept_db \<Rightarrow> dept_db \<Rightarrow> bool" for env t where
  created: "create_department env db0 db nid c actor expected t = Inr db' \<Longrightarrow> 0 < nid \<Longrightarrow> dept_step env t db db'"
| updated: "update_department env db0 db i u actor expected t = Inr db' \<Longrightarrow> dept_step env t db db'"
| moved: "move_department env db0 db i np actor expected t = Inr db' \<Longrightarrow> dept_step env t db db'"
| deleted: "delete_departments env db0 db ids actor perm t = Inr (n, db') \<Longrightarrow> dept_step env t db db'"
| other_tables: "dept_step env t db (db\<lparr>dd_auth := a, dd_names := names\<rparr>)"

inductive dept_reach :: "dept_env \<Rightarrow> int \<Rightarrow> dept_db \<Rightarrow> bool" for env t where
  start: "dd_depts db = [] \<Longrightarrow> dept_reach env t db"
| step: "dept_reach env t db \<Longrightarrow> dept_step env t db db' \<Longrightarrow> dept_reach env t db'"

lemma with_rows_ok: "with_rows db r = Inr db' \<longleftrightarrow> (\<exists>rows. r = Inr rows \<and> db' = db\<lparr>dd_depts := rows\<rparr>)"
  by (auto simp: with_rows_def res_simps)

text \<open>The row changes that the steps make, with what their authorization guarantees.\<close>

lemma move_step_ok:
  assumes tree: "dept_tree (dd_depts db) t" and mv: "move_department env db0 db i np actor expected t = Inr db'"
  shows "\<exists>rows. db' = db\<lparr>dd_depts := rows\<rparr> \<and> move_row (dd_depts db) i np t = Inr rows \<and>
    safe_parent (dd_depts db) t i np \<and>
    (\<forall>p r. np = Some p \<longrightarrow> load_department (dd_depts db) p t = Inr r \<longrightarrow>
       level_of r + 1 + get_max_child_depth (dd_depts db) i t \<le> DEPT_MAX_LEVEL)"
proof -
  from mv obtain pv rows where auth: "authorize_and_lock env db0 db (MoveDept i np) actor expected t = Inr pv"
    and rows: "move_row (dd_depts db) i np t = Inr rows" "db' = db\<lparr>dd_depts := rows\<rparr>"
    unfolding move_department_def bindE_eq_Inr with_rows_ok by blast
  from authorized_plan[OF auth] obtain a pl where pl: "plan_move db a i np t = Inr pl" by auto
  show ?thesis
  proof (cases np)
    case None
    with rows show ?thesis by (simp add: safe_parent_def)
  next
    case (Some p)
    with plan_move_parent pl obtain r where "check_new_parent db i p t = Inr r" by blast
    from check_new_parent_ok[OF tree this] Some rows show ?thesis by auto
  qed
qed

lemma delete_step_ok:
  assumes "delete_departments env db0 db ids actor perm t = Inr (n, db')"
  shows "db' = db\<lparr>dd_depts := delete_rows (dd_depts db) (set ids) t\<rparr> \<and>
    n = int (length (dd_depts db)) - int (length (dd_depts db')) \<and>
    (\<exists>a facts. build_authority (env_hash env) (env_vis env) (auth_of db0) actor t = Inr a \<and> super_admin a \<and>
       perm \<in> permission_codes a \<and> dept_delete_facts db (sorted_list_of_set (set ids)) t = Inr facts \<and>
       df_children facts = [] \<and> df_users facts = [] \<and> df_roles facts = [])"
proof -
  from assms obtain a facts where
    "build_authority (env_hash env) (env_vis env) (auth_of db0) actor t = Inr a" "super_admin a"
    "perm \<in> permission_codes a" "dept_delete_facts db (sorted_list_of_set (set ids)) t = Inr facts"
    "df_children facts = []" "df_users facts = []" "df_roles facts = []"
    "(n, db') = (int (length (dd_depts db)) - int (length (delete_rows (dd_depts db) (set ids) t)),
       db\<lparr>dd_depts := delete_rows (dd_depts db) (set ids) t\<rparr>)"
    unfolding delete_departments_def Let_def bindE_eq_Inr guardE_eq_Inr by auto
  then show ?thesis by auto
qed

lemma no_references:
  assumes "dept_delete_facts db ids t = Inr facts"
  shows "set ids = set (map dept_id (filter (\<lambda>d. dept_id d \<in> set ids) (tenant_rows (dd_depts db) t)))"
    and "df_children facts = [] \<Longrightarrow> d \<in> set (dd_depts db) \<Longrightarrow> dept_tenant d = t \<Longrightarrow> dr_parent d = Some p \<Longrightarrow> p \<notin> set ids"
    and "df_users facts = [] \<Longrightarrow> (t, u, i) \<in> set (db_user_depts (scope (dd_auth db))) \<Longrightarrow> i \<notin> set ids"
    and "df_roles facts = [] \<Longrightarrow> (t, r, i) \<in> set (db_role_depts (scope (dd_auth db))) \<Longrightarrow> i \<notin> set ids"
proof -
  from assms have ids: "sort (map dept_id (filter (\<lambda>d. dept_id d \<in> set ids) (tenant_rows (dd_depts db) t))) = ids"
    by (simp add: dept_delete_facts_def Let_def split: if_splits)
  then show "set ids = set (map dept_id (filter (\<lambda>d. dept_id d \<in> set ids) (tenant_rows (dd_depts db) t)))"
    by (metis set_sort)
  have nil: "sort xs = [] \<longleftrightarrow> xs = []" for xs :: "int list"
    by (metis length_0_conv length_sort)
  from assms ids have f: "facts = \<lparr>df_targets = ids,
                df_children = sort (map dept_id (filter (\<lambda>d. \<exists>p \<in> set ids. dr_parent d = Some p) (tenant_rows (dd_depts db) t))),
                df_users = sort (map (\<lambda>(t', u, d). u) (filter (\<lambda>(t', u, d). t' = t \<and> d \<in> set ids)
                             (db_user_depts (scope (dd_auth db))))),
                df_roles = df_roles facts, df_members = df_members facts\<rparr>"
    and r: "df_roles facts = sort (map (\<lambda>(t', r, d). r) (filter (\<lambda>(t', r, d). t' = t \<and> d \<in> set ids)
                    (db_role_depts (scope (dd_auth db)))))"
    by (auto simp: dept_delete_facts_def Let_def split: if_splits)
  show "p \<notin> set ids" if "df_children facts = []" "d \<in> set (dd_depts db)" "dept_tenant d = t" "dr_parent d = Some p"
    using that arg_cong[OF f, of df_children] by (force simp: nil filter_empty_conv tenant_rows_def)
  show "i \<notin> set ids" if "df_users facts = []" "(t, u, i) \<in> set (db_user_depts (scope (dd_auth db)))"
    using that arg_cong[OF f, of df_users] by (force simp: nil filter_empty_conv)
  show "i \<notin> set ids" if "df_roles facts = []" "(t, r, i) \<in> set (db_role_depts (scope (dd_auth db)))"
    using that r by (force simp: nil filter_empty_conv)
qed

section \<open>The tree\<close>

lemma dept_step_tree:
  assumes "dept_step env t db db'" "dept_tree (dd_depts db) t"
  shows "dept_tree (dd_depts db') t"
  using assms
proof (cases rule: dept_step.cases)
  case (created db0 nid c actor expected)
  then obtain rows where "insert_dept (dd_depts db) nid c t = Inr rows" "db' = db\<lparr>dd_depts := rows\<rparr>"
    unfolding create_department_def bindE_eq_Inr with_rows_ok by blast
  with insert_dept_tree[OF assms(2)] created(2) show ?thesis by simp
next
  case (updated db0 i u actor expected)
  then obtain rows where "update_row (dd_depts db) i u t = Inr rows" "db' = db\<lparr>dd_depts := rows\<rparr>"
    unfolding update_department_def bindE_eq_Inr with_rows_ok by blast
  with update_row_tree[OF assms(2)] show ?thesis by simp
next
  case (moved db0 i np actor expected)
  from move_step_ok[OF assms(2) moved] move_row_tree[OF assms(2)] show ?thesis by auto
next
  case (deleted db0 ids actor perm n)
  from delete_step_ok[OF deleted] obtain facts where
    f: "dept_delete_facts db (sorted_list_of_set (set ids)) t = Inr facts" "df_children facts = []"
    and db': "db' = db\<lparr>dd_depts := delete_rows (dd_depts db) (set ids) t\<rparr>" by blast
  from no_references(2)[OF f] have "dept_tree (delete_rows (dd_depts db) (set ids) t) t"
    by (intro delete_rows_tree[OF assms(2)]) auto
  with db' show ?thesis by simp
next
  case (other_tables a names)
  with assms(2) show ?thesis by simp
qed

lemma dept_reach_tree: "dept_reach env t db \<Longrightarrow> dept_tree (dd_depts db) t"
proof (induction rule: dept_reach.induct)
  case (start db)
  then show ?case by (simp add: dept_tree_def)
next
  case (step db db')
  then show ?case by (rule_tac dept_step_tree)
qed

definition parent_rel :: "dept_row list \<Rightarrow> int \<Rightarrow> (int \<times> int) set" where
  "parent_rel rows t = {(dept_id d, p) | d p. d \<in> set rows \<and> dept_tenant d = t \<and> dr_parent d = Some p}"

lemma tree_acyclic:
  assumes tree: "dept_tree rows t"
  shows "acyclic (parent_rel rows t)"
proof (rule acyclicI_order[where f = "\<lambda>i. THE n. \<exists>d \<in> set rows. dept_id d = i \<and> n = int (length (path_of d))"])
  fix a b
  assume "(a, b) \<in> parent_rel rows t"
  then obtain d where d: "d \<in> set rows" "dept_tenant d = t" "dept_id d = a" "dr_parent d = Some b"
    by (auto simp: parent_rel_def)
  have the: "(THE n. \<exists>e \<in> set rows. dept_id e = dept_id x \<and> n = int (length (path_of e))) = int (length (path_of x))"
    if "x \<in> set rows" for x
    using that tree_ids[OF tree] by (intro the_equality) (blast, metis)
  from tree d(1,2) show "(THE n. \<exists>d \<in> set rows. dept_id d = b \<and> n = int (length (path_of d))) <
      (THE n. \<exists>d \<in> set rows. dept_id d = a \<and> n = int (length (path_of d)))"
  proof (cases rule: tree_parent)
    case root
    with d(4) show ?thesis by simp
  next
    case (child q)
    with d(4) have "b = dept_id q" by simp
    with the[OF child(1)] the[OF d(1)] d(3) child(5) show ?thesis by simp
  qed
qed

text \<open>Property C18: in every state that departments' creation, update, move and deletion can build,
  each in any interleaving with changes of the authorization tables, the tree of a tenant is
  consistent: a top-level department has the path \<open>0\<close>, every other one has an existing parent in
  its own tenant and that parent's path followed by the parent, ids are unique, and no department
  is its own ancestor.\<close>

theorem department_tree_invariant:
  assumes "dept_reach env t db"
  shows "distinct (map dept_id (dd_depts db)) \<and> acyclic (parent_rel (dd_depts db) t) \<and>
    (\<forall>d \<in> set (dd_depts db). dept_tenant d = t \<longrightarrow>
       (case dr_parent d of
          None \<Rightarrow> dept_ancestors d = Some ''0''
        | Some p \<Rightarrow> (\<exists>q \<in> set (dd_depts db). dept_tenant q = t \<and> dept_id q = p \<and>
                      dept_ancestors d = Some (child_path q))))"
  using dept_reach_tree[OF assms] tree_acyclic[OF dept_reach_tree[OF assms]]
  by (fastforce simp: dept_tree_def tree_row_def split: option.splits)

section \<open>Levels\<close>

lemma insert_level:
  assumes "plan_create env db a c t = Inr pl" "insert_dept (dd_depts db) nid c t = Inr rows"
    and "levels_le k (dd_depts db) t" "DEPT_MAX_LEVEL \<le> k" "dept_tree (dd_depts db) t"
  shows "levels_le k rows t"
proof -
  from insert_dept_row[OF assms(2)] obtain d where rows: "rows = dd_depts db @ [d]"
    and d: "dc_parent_id c = None \<and> dept_ancestors d = Some ''0'' \<or>
      (\<exists>p r. dc_parent_id c = Some p \<and> load_department (dd_depts db) p t = Inr r \<and>
             dept_ancestors d = Some (child_path r))" .
  have "level_of d \<le> k"
    using d
  proof (elim disjE exE conjE)
    fix p r assume r: "dc_parent_id c = Some p" "load_department (dd_depts db) p t = Inr r"
      "dept_ancestors d = Some (child_path r)"
    note r' = load_department_ok[OF r(2)]
    have "level_of r + 1 \<le> DEPT_MAX_LEVEL"
      using plan_create_level[OF assms(1) r(1,2)] by (simp add: level_of_def)
    moreover have "level_of d = level_of r + 1"
    proof -
      have "path_of d = child_path r" using r(3) by (simp add: path_of_def py_opt_str_def)
      moreover from this have "level_of d = int (length (comps (path_of d)))"
        using r(3) path_under_nonempty[of "Some r"] by (intro level_comps) (simp_all add: path_under_def)
      ultimately show ?thesis
        using tree_level[OF assms(5), of r] r' by (simp add: child_path_eq comps_below)
    qed
    ultimately show ?thesis using assms(4) by simp
  qed (use assms(4) in \<open>simp add: level_of_def get_dept_level_def DEPT_MAX_LEVEL_def\<close>)
  with assms(3) show ?thesis by (simp add: levels_le_def rows)
qed

lemma levels_le_map:
  assumes "\<And>d. level_of (g d) = level_of d" "\<And>d. dept_tenant (g d) = dept_tenant d" "levels_le k rows t"
  shows "levels_le k (map g rows) t"
  using assms by (simp add: levels_le_def)

lemma dept_step_levels:
  assumes "dept_step env t db db'" "dept_tree (dd_depts db) t" "levels_le (DEPT_MAX_LEVEL + 1) (dd_depts db) t"
  shows "levels_le (DEPT_MAX_LEVEL + 1) (dd_depts db') t"
  using assms(1)
proof (cases rule: dept_step.cases)
  case (created db0 nid c actor expected)
  then obtain pv rows where "authorize_and_lock env db0 db (CreateDept c) actor expected t = Inr pv"
    and rows: "insert_dept (dd_depts db) nid c t = Inr rows" "db' = db\<lparr>dd_depts := rows\<rparr>"
    unfolding create_department_def bindE_eq_Inr with_rows_ok by blast
  with authorized_plan obtain a pl where "plan_create env db a c t = Inr pl" by fastforce
  from insert_level[OF this rows(1) assms(3) _ assms(2)] rows(2) show ?thesis by simp
next
  case (updated db0 i u actor expected)
  then obtain rows where "update_row (dd_depts db) i u t = Inr rows" "db' = db\<lparr>dd_depts := rows\<rparr>"
    unfolding update_department_def bindE_eq_Inr with_rows_ok by blast
  then have "dd_depts db' = map (\<lambda>d. if dept_tenant d = t \<and> dept_id d = i then apply_update u d else d) (dd_depts db)"
    by (auto simp: update_row_def res_simps)
  then show ?thesis using assms(3) by (simp only:) (rule levels_le_map, simp_all add: level_of_def)
next
  case (moved db0 i np actor expected)
  from move_step_ok[OF assms(2) moved] obtain rows where
    m: "db' = db\<lparr>dd_depts := rows\<rparr>" "move_row (dd_depts db) i np t = Inr rows" "safe_parent (dd_depts db) t i np"
    "\<forall>p r. np = Some p \<longrightarrow> load_department (dd_depts db) p t = Inr r \<longrightarrow>
       level_of r + 1 + get_max_child_depth (dd_depts db) i t \<le> DEPT_MAX_LEVEL" by blast
  from move_row_levels[OF assms(2) m(2,3) assms(3)] m(1,4) show ?thesis by force
next
  case (deleted db0 ids actor perm n)
  with delete_step_ok[OF deleted] assms(3) show ?thesis
    by (auto simp: levels_le_def delete_rows_def)
next
  case (other_tables a names)
  with assms(3) show ?thesis by simp
qed

lemma reach_levels:
  assumes "dept_reach env t db"
  shows "levels_le (DEPT_MAX_LEVEL + 1) (dd_depts db) t"
  using assms
proof (induction rule: dept_reach.induct)
  case (start db)
  then show ?case by (simp add: levels_le_def)
next
  case (step db db')
  then show ?case using dept_step_levels dept_reach_tree by blast
qed

section \<open>The descendant loop\<close>

definition parent_edges :: "parents \<Rightarrow> (int \<times> int) set" where
  "parent_edges items = {(i, p). (i, Some p) \<in> set items}"

lemma desc_pass_sound:
  "j \<in> desc_pass items res \<Longrightarrow> \<exists>r \<in> res. (j, r) \<in> (parent_edges items)\<^sup>*"
proof (induction items arbitrary: res)
  case Nil
  then show ?case by auto
next
  case (Cons x items)
  obtain i p where x: "x = (i, p)" by fastforce
  let ?res = "if i \<notin> res \<and> p \<in> Some ` res then insert i res else res"
  from Cons.prems have "j \<in> desc_pass items ?res" by (simp add: x)
  from Cons.IH[OF this] obtain r where r: "r \<in> ?res" "(j, r) \<in> (parent_edges items)\<^sup>*" by blast
  have more: "parent_edges items \<subseteq> parent_edges (x # items)" by (auto simp: parent_edges_def)
  with r(2) have jr: "(j, r) \<in> (parent_edges (x # items))\<^sup>*" using rtrancl_mono by blast
  show ?case
  proof (cases "r \<in> res")
    case False
    with r(1) obtain q where "r = i" "q \<in> res" "p = Some q" by (auto split: if_splits)
    then have "(r, q) \<in> parent_edges (x # items)" by (simp add: parent_edges_def x)
    with jr \<open>q \<in> res\<close> show ?thesis by (blast intro: rtrancl_into_rtrancl)
  qed (use jr in blast)
qed

lemma desc_pass_closed:
  "desc_pass items res = res \<Longrightarrow> (i, Some p) \<in> set items \<Longrightarrow> p \<in> res \<Longrightarrow> i \<in> res"
proof (induction items)
  case (Cons x items)
  obtain k q where x: "x = (k, q)" by fastforce
  have grow: "desc_pass items (insert k res) \<noteq> res" if "k \<notin> res"
    using that desc_pass_extends[of "insert k res" items] by blast
  with Cons.prems(1) have fixed: "desc_pass items res = res" "k \<notin> res \<Longrightarrow> q \<notin> Some ` res"
    by (auto simp: x split: if_splits)
  with Cons show ?case by (auto simp: x)
qed simp

lemma descendant_ids_bound: "descendant_ids res items \<subseteq> {j. \<exists>r \<in> res. (j, r) \<in> (parent_edges items)\<^sup>*}"
proof (induction res items rule: descendant_ids.induct)
  case (1 res items)
  show ?case
  proof (cases "desc_pass items res = res")
    case True
    then show ?thesis by (subst descendant_ids.simps) auto
  next
    case False
    have "descendant_ids res items = descendant_ids (desc_pass items res) items"
      using False by (subst descendant_ids.simps) simp
    with "1.IH"[OF False] have "descendant_ids res items \<subseteq>
        {j. \<exists>r \<in> desc_pass items res. (j, r) \<in> (parent_edges items)\<^sup>*}" by simp
    also have "\<dots> \<subseteq> {j. \<exists>r \<in> res. (j, r) \<in> (parent_edges items)\<^sup>*}"
      using desc_pass_sound[of _ items res] by (blast intro: rtrancl_trans)
    finally show ?thesis .
  qed
qed

lemma descendant_ids_closed:
  "res \<subseteq> descendant_ids res items \<and> desc_pass items (descendant_ids res items) = descendant_ids res items"
proof (induction res items rule: descendant_ids.induct)
  case (1 res items)
  show ?case
  proof (cases "desc_pass items res = res")
    case True
    then show ?thesis using descendant_ids.simps[of res items] by simp
  next
    case False
    then have "descendant_ids res items = descendant_ids (desc_pass items res) items"
      using descendant_ids.simps[of res items] by simp
    with "1.IH"[OF False] desc_pass_extends[of res items] show ?thesis by auto
  qed
qed

lemma desc_passes_enough:
  "card (fst ` set items - res) < n \<Longrightarrow> desc_passes n items res = Some (descendant_ids res items)"
proof (induction n items res rule: desc_passes.induct)
  case (2 n items res)
  show ?case
  proof (cases "desc_pass items res = res")
    case True
    then show ?thesis using descendant_ids.simps[of res items] by simp
  next
    case False
    with desc_pass_progress[OF False] "2.prems" have "card (fst ` set items - desc_pass items res) < n" by simp
    with "2.IH"[OF refl False] False show ?thesis using descendant_ids.simps[of res items] by simp
  qed
qed simp

text \<open>Property C20: the loop of \<open>_descendant_ids\<close> ends on every parent map, also one with cycles or
  unknown parents: it needs no more passes over the map than there are departments in the map that
  are not in the given set, and one more to see that nothing changes. Its result is exactly the
  departments from which a chain of parents leads into the given set.\<close>

theorem descendant_loop_terminates:
  "desc_passes (card (fst ` set items - res) + 1 + k) items res = Some (descendant_ids res items) \<and>
   descendant_ids res items = {j. \<exists>r \<in> res. (j, r) \<in> (parent_edges items)\<^sup>*}"
proof
  show "desc_passes (card (fst ` set items - res) + 1 + k) items res = Some (descendant_ids res items)"
    by (rule desc_passes_enough) simp
  have "j \<in> descendant_ids res items" if "(j, r) \<in> (parent_edges items)\<^sup>*" "r \<in> res" for j r
    using that
  proof (induction rule: converse_rtrancl_induct)
    case base
    then show ?case using descendant_ids_closed[of res items] by blast
  next
    case (step y z)
    then show ?case
      using descendant_ids_closed[of res items] desc_pass_closed[of items "descendant_ids res items" y z]
      by (simp add: parent_edges_def)
  qed
  with descendant_ids_bound show "descendant_ids res items = {j. \<exists>r \<in> res. (j, r) \<in> (parent_edges items)\<^sup>*}"
    by blast
qed

text \<open>The bound is met: a chain listed from its end needs one pass for each department, and the last.\<close>

lemma descendant_passes_tight:
  "desc_passes 3 [(3, Some 2), (2, Some 1), (1, None)] {1} = Some {1, 2, 3} \<and>
   desc_passes 2 [(3, Some 2), (2, Some 1), (1, None)] {1} = None"
proof -
  have "(3 :: int) \<in> {3, 2, 1}" "(3 :: int) \<notin> {2, 1}" by simp_all
  then have "{3, 2, 1 :: int} \<noteq> {2, 1}" by metis
  then show ?thesis by (auto simp: numeral_2_eq_2 numeral_3_eq_3 Let_def)
qed

section \<open>Deletion\<close>

text \<open>Property C21: a successful delete was ordered by a super administrator who holds the exact
  destructive permission, removes exactly the departments it names, all of them departments of the
  tenant, and touches nothing else; at that moment none of them had a child, a user or a role link
  in the tenant, so nothing that remains refers to a removed department.\<close>

theorem department_delete_safe:
  assumes "delete_departments env db0 db ids actor perm t = Inr (n, db')"
  shows "(\<exists>a. build_authority (env_hash env) (env_vis env) (auth_of db0) actor t = Inr a \<and>
            super_admin a \<and> perm \<in> permission_codes a) \<and>
    dd_auth db' = dd_auth db \<and> dd_names db' = dd_names db \<and>
    dd_depts db' = filter (\<lambda>d. \<not> (dept_tenant d = t \<and> dept_id d \<in> set ids)) (dd_depts db) \<and>
    set ids \<subseteq> dept_id ` set (tenant_rows (dd_depts db) t) \<and>
    (\<forall>d \<in> set (dd_depts db'). \<forall>p. dept_tenant d = t \<longrightarrow> dr_parent d = Some p \<longrightarrow> p \<notin> set ids) \<and>
    (\<forall>u i. (t, u, i) \<in> set (db_user_depts (scope (dd_auth db'))) \<longrightarrow> i \<notin> set ids) \<and>
    (\<forall>r i. (t, r, i) \<in> set (db_role_depts (scope (dd_auth db'))) \<longrightarrow> i \<notin> set ids)"
proof -
  from delete_step_ok[OF assms] obtain a facts where
    a: "build_authority (env_hash env) (env_vis env) (auth_of db0) actor t = Inr a" "super_admin a"
      "perm \<in> permission_codes a"
    and f: "dept_delete_facts db (sorted_list_of_set (set ids)) t = Inr facts" "df_children facts = []"
      "df_users facts = []" "df_roles facts = []"
    and db': "db' = db\<lparr>dd_depts := delete_rows (dd_depts db) (set ids) t\<rparr>" by blast
  note refs = no_references[OF f(1)]
  have "set ids \<subseteq> dept_id ` set (tenant_rows (dd_depts db) t)"
    using refs(1) by auto
  moreover have "p \<notin> set ids" if "d \<in> set (dd_depts db')" "dept_tenant d = t" "dr_parent d = Some p" for d p
    using refs(2)[OF f(2), of d p] that by (simp add: db' delete_rows_def)
  moreover have "i \<notin> set ids" if "(t, u, i) \<in> set (db_user_depts (scope (dd_auth db')))" for u i
    using refs(3)[OF f(3), of u i] that by (simp add: db')
  moreover have "i \<notin> set ids" if "(t, r, i) \<in> set (db_role_depts (scope (dd_auth db')))" for r i
    using refs(4)[OF f(4), of r i] that by (simp add: db')
  moreover have "dd_auth db' = dd_auth db \<and> dd_names db' = dd_names db \<and>
       dd_depts db' = filter (\<lambda>d. \<not> (dept_tenant d = t \<and> dept_id d \<in> set ids)) (dd_depts db)"
    by (simp add: db' delete_rows_def)
  ultimately show ?thesis using a by blast
qed

section \<open>A tenant with one administrator\<close>

definition dept_demo_env :: dept_env where
  "dept_demo_env = \<lparr>env_hash = (\<lambda>_. ''h''), env_vis = (\<lambda>_ _. {}), env_casefold = (\<lambda>s. s), env_lower = (\<lambda>s. s)\<rparr>"

definition dept_demo_db :: "dept_row list \<Rightarrow> dept_db" where
  "dept_demo_db rows = \<lparr>dd_auth =
     \<lparr>scope = \<lparr>db_depts = [], db_role_depts = [], db_user_depts = [], db_users = [(7, 5)]\<rparr>,
      rows_users = [\<lparr>user_id = 5, user_tenant = 7, user_name = ''root'', user_status = ''1'',
        user_roles = [], user_depts = []\<rparr>],
      rows_roles = [\<lparr>role_id = 2, role_tenant = 7, role_code = ''R_SUPER'', role_name = ''super'',
        role_status = ''1'', data_scope = ''1'',
        role_menus = [\<lparr>menu_id = 1, menu_permission = Some ''system:dept:delete''\<rparr>], role_dept_links = []\<rparr>],
      links_roles = [(7, 5, 2)], primary_depts = [], role_agents = []\<rparr>,
     dd_depts = rows, dd_names = [(7, 5, ''root'', None)]\<rparr>"

definition demo_dept :: "int \<Rightarrow> int option \<Rightarrow> string \<Rightarrow> dept_row" where
  "demo_dept i p anc = \<lparr>dept_id = i, dept_tenant = 7, dept_status = ''1'', dept_ancestors = Some anc,
     dr_parent = p, dr_name = show_int i, dr_order = 0, dr_leader = None, dr_phone = None, dr_email = None\<rparr>"

definition demo_create :: "int \<Rightarrow> int option \<Rightarrow> dept_create" where
  "demo_create i p = \<lparr>dc_parent = p, dc_name = show_int i, dc_order = 0, dc_leader = None, dc_phone = None,
     dc_email = None, dc_status = ''1''\<rparr>"

lemma demo_create_root:
  "create_department dept_demo_env (dept_demo_db []) (dept_demo_db []) 1 (demo_create 1 None) 5 None 7 =
     Inr (dept_demo_db [demo_dept 1 None ''0''])"
  by code_simp

lemma demo_create_child:
  "create_department dept_demo_env (dept_demo_db [demo_dept 1 None ''0'']) (dept_demo_db [demo_dept 1 None ''0''])
     2 (demo_create 2 (Some 1)) 5 None 7 =
     Inr (dept_demo_db [demo_dept 1 None ''0'', demo_dept 2 (Some 1) ''0,1''])"
  by code_simp

lemma demo_delete_child:
  "delete_departments dept_demo_env (dept_demo_db [demo_dept 1 None ''0'', demo_dept 2 (Some 1) ''0,1''])
     (dept_demo_db [demo_dept 1 None ''0'', demo_dept 2 (Some 1) ''0,1'']) [2] 5 ''system:dept:delete'' 7 =
     Inr (1, dept_demo_db [demo_dept 1 None ''0''])"
  by code_simp

lemma demo_reach:
  "dept_reach dept_demo_env 7 (dept_demo_db [demo_dept 1 None ''0'', demo_dept 2 (Some 1) ''0,1''])"
  by (rule dept_reach.step[OF dept_reach.step[OF dept_reach.start
        dept_step.created[OF demo_create_root]] dept_step.created[OF demo_create_child]])
    (simp_all add: dept_demo_db_def)

theorem department_tree_invariant_witness:
  "acyclic (parent_rel [demo_dept 1 None ''0'', demo_dept 2 (Some 1) ''0,1''] 7)"
  using department_tree_invariant[OF demo_reach] by (simp add: dept_demo_db_def)

theorem department_delete_safe_witness:
  "dd_depts (dept_demo_db [demo_dept 1 None ''0'']) =
     filter (\<lambda>d. \<not> (dept_tenant d = 7 \<and> dept_id d \<in> {2}))
       (dd_depts (dept_demo_db [demo_dept 1 None ''0'', demo_dept 2 (Some 1) ''0,1'']))"
proof -
  from department_delete_safe[OF demo_delete_child] have "dd_depts (dept_demo_db [demo_dept 1 None ''0'']) =
     filter (\<lambda>d. \<not> (dept_tenant d = 7 \<and> dept_id d \<in> set [2]))
       (dd_depts (dept_demo_db [demo_dept 1 None ''0'', demo_dept 2 (Some 1) ''0,1'']))"
    by (elim conjE)
  then show ?thesis by (simp only: list.set)
qed

section \<open>The level bound is attained\<close>

text \<open>Six departments are created, on levels 1 to 4 and 1 to 2. Then the department 10, which has one
  child, moves below the department of level 4: the depth computed for its subtree is 0, the check
  passes, and the child ends on level 6.\<close>

definition deep_rows :: "dept_row list" where
  "deep_rows = [demo_dept 1 None ''0'', demo_dept 2 (Some 1) ''0,1'', demo_dept 3 (Some 2) ''0,1,2'',
     demo_dept 4 (Some 3) ''0,1,2,3'', demo_dept 10 None ''0'', demo_dept 11 (Some 10) ''0,10'']"

definition too_deep_rows :: "dept_row list" where
  "too_deep_rows = [demo_dept 1 None ''0'', demo_dept 2 (Some 1) ''0,1'', demo_dept 3 (Some 2) ''0,1,2'',
     demo_dept 4 (Some 3) ''0,1,2,3'', demo_dept 10 (Some 4) ''0,1,2,3,4'', demo_dept 11 (Some 10) ''0,1,2,3,4,10'']"

definition demo_creates :: "(int \<times> int option) list" where
  "demo_creates = [(1, None), (2, Some 1), (3, Some 2), (4, Some 3), (10, None), (11, Some 10)]"

text \<open>Creating one department after the other.\<close>

fun create_all :: "(int \<times> int option) list \<Rightarrow> dept_db \<Rightarrow> dept_db res" where
  "create_all [] db = Inr db"
| "create_all ((i, p) # cs) db =
     bindE (create_department dept_demo_env db db i (demo_create i p) 5 None 7) (create_all cs)"

lemma create_all_reach:
  "create_all cs db = Inr db' \<Longrightarrow> \<forall>(i, p) \<in> set cs. 0 < i \<Longrightarrow> dept_reach dept_demo_env 7 db \<Longrightarrow>
     dept_reach dept_demo_env 7 db'"
proof (induction cs arbitrary: db)
  case (Cons c cs)
  obtain i p where c: "c = (i, p)" by fastforce
  with Cons.prems(1) obtain db1 where
    "create_department dept_demo_env db db i (demo_create i p) 5 None 7 = Inr db1" "create_all cs db1 = Inr db'"
    by (auto simp: bindE_eq_Inr)
  with Cons dept_reach.step[OF Cons.prems(3) dept_step.created] c show ?case by auto
qed simp

lemma demo_deep: "create_all demo_creates (dept_demo_db []) = Inr (dept_demo_db deep_rows)"
  by code_simp

lemma demo_move:
  "move_department dept_demo_env (dept_demo_db deep_rows) (dept_demo_db deep_rows) 10 (Some 4) 5 None 7 =
     Inr (dept_demo_db too_deep_rows)"
  by code_simp

lemma reach_too_deep: "dept_reach dept_demo_env 7 (dept_demo_db too_deep_rows)"
proof -
  have "dept_reach dept_demo_env 7 (dept_demo_db [])" by (rule dept_reach.start) (simp add: dept_demo_db_def)
  from create_all_reach[OF demo_deep _ this] have "dept_reach dept_demo_env 7 (dept_demo_db deep_rows)"
    by (simp add: demo_creates_def)
  from dept_reach.step[OF this dept_step.moved[OF demo_move]] show ?thesis .
qed

text \<open>Property C19: departments never nest deeper than \<open>DEPT_MAX_LEVEL + 1\<close> levels, and this bound is
  attained: \<open>_get_max_child_depth\<close> counts a direct child as depth 0, so the check of a move enforces
  one level less than it means to, and the constant alone is no bound.\<close>

theorem department_level_bound:
  "(\<forall>env t db. \<forall>d \<in> set (dd_depts db). dept_reach env t db \<longrightarrow> dept_tenant d = t \<longrightarrow>
      1 \<le> level_of d \<and> level_of d \<le> DEPT_MAX_LEVEL + 1) \<and>
   (\<exists>env t db. \<exists>d \<in> set (dd_depts db). dept_reach env t db \<and> dept_tenant d = t \<and>
      level_of d = DEPT_MAX_LEVEL + 1)"
proof
  show "\<forall>env t db. \<forall>d \<in> set (dd_depts db). dept_reach env t db \<longrightarrow> dept_tenant d = t \<longrightarrow>
      1 \<le> level_of d \<and> level_of d \<le> DEPT_MAX_LEVEL + 1"
    using reach_levels level_pos by (auto simp: levels_le_def)
  let ?d = "demo_dept 11 (Some 10) ''0,1,2,3,4,10''"
  have "level_of ?d = DEPT_MAX_LEVEL + 1" by code_simp
  moreover have "?d \<in> set (dd_depts (dept_demo_db too_deep_rows))"
    by (simp add: dept_demo_db_def too_deep_rows_def)
  moreover have "dept_tenant ?d = 7" by (simp add: demo_dept_def)
  ultimately show "\<exists>env t db. \<exists>d \<in> set (dd_depts db). dept_reach env t db \<and> dept_tenant d = t \<and>
      level_of d = DEPT_MAX_LEVEL + 1"
    using reach_too_deep by blast
qed

theorem department_level_bound_witness:
  "level_of (demo_dept 2 (Some 1) ''0,1'') = 2 \<and> level_of (demo_dept 2 (Some 1) ''0,1'') \<le> DEPT_MAX_LEVEL + 1"
proof -
  have "level_of (demo_dept 2 (Some 1) ''0,1'') = 2" by code_simp
  moreover have "demo_dept 2 (Some 1) ''0,1'' \<in>
      set (dd_depts (dept_demo_db [demo_dept 1 None ''0'', demo_dept 2 (Some 1) ''0,1'']))"
    by (simp add: dept_demo_db_def)
  moreover have "dept_tenant (demo_dept 2 (Some 1) ''0,1'') = 7" by (simp add: demo_dept_def)
  ultimately show ?thesis using conjunct1[OF department_level_bound] demo_reach by blast
qed

end
