(* ===== verification/Settings.thy ===== *)
theory Settings
  imports Ai_Config Grant_Authority
begin

text \<open>
  The tenant settings of \<open>app/modules/system/settings_catalog.py\<close> and
  \<open>app/modules/system/service/settings_service.py\<close>, with the registration-role rule of
  \<open>account_service.py\<close> that a save of the account group runs. Values of a request are JSON values; the
  value column is text. The deployment's configuration is \<open>app_conf\<close>; the keyed hash of a
  revision is the parameter \<open>se_mac\<close> of the canonical payload.
\<close>

section \<open>Python's str.lower\<close>

text \<open>On code points 0 to 255: the Latin capitals and the accented ones but the multiplication sign.\<close>

definition char_lower :: "char \<Rightarrow> char" where
  "char_lower c =
     (let n = (of_char c :: nat)
      in if 65 \<le> n \<and> n \<le> 90 \<or> 192 \<le> n \<and> n \<le> 222 \<and> n \<noteq> 215 then char_of (n + 32) else c)"

definition py_lower :: "string \<Rightarrow> string" where
  "py_lower s = map char_lower s"

definition TRUE_WORDS :: "string list" where
  "TRUE_WORDS = [''true'', ''1'', ''yes'', ''on'']"

section \<open>The catalogue\<close>

datatype setting_kind = KText | KBoolean | KInteger | KSelect | KExtensions | KSecret

text \<open>A raw value is a stored text or a default of the catalogue.\<close>

datatype raw_value = RawText string | RawInt int

record setting =
  s_key :: string
  s_group :: string
  s_kind :: setting_kind
  s_default :: raw_value
  s_public :: bool
  s_minimum :: "int option"
  s_maximum :: "int option"
  s_options :: "string list"

record app_conf =
  cf_locale :: string
  cf_upload_hard_max :: int
  cf_prod :: bool
  cf_site_description :: string

definition UPLOAD_EXTENSION_UNIVERSE :: "string list" where
  "UPLOAD_EXTENSION_UNIVERSE =
     [''.jpg'', ''.jpeg'', ''.png'', ''.gif'', ''.webp'', ''.bmp'', ''.ico'', ''.pdf'', ''.doc'',
      ''.docx'', ''.ppt'', ''.pptx'', ''.md'', ''.xls'', ''.xlsx'', ''.txt'', ''.csv'', ''.json'',
      ''.xml'', ''.zip'', ''.rar'', ''.7z'', ''.tar'', ''.gz'', ''.mp3'', ''.wav'', ''.mp4'', ''.mov'']"

definition plain :: "string \<Rightarrow> string \<Rightarrow> setting_kind \<Rightarrow> raw_value \<Rightarrow> setting" where
  "plain k g kd dflt = \<lparr>s_key = k, s_group = g, s_kind = kd, s_default = dflt, s_public = False,
     s_minimum = None, s_maximum = None, s_options = []\<rparr>"

definition bounded_int :: "string \<Rightarrow> string \<Rightarrow> int \<Rightarrow> int \<Rightarrow> int \<Rightarrow> setting" where
  "bounded_int k g dflt lo hi =
     (plain k g KInteger (RawInt dflt))\<lparr>s_minimum := Some lo, s_maximum := Some hi\<rparr>"

definition ten_megabytes :: int where "ten_megabytes = 10 * 1024 * 1024"

definition SETTINGS :: "app_conf \<Rightarrow> setting list" where
  "SETTINGS cf =
     [plain ''ai:enabled_tools'' ''ai'' KText (RawText ''[]''),
      (plain ''site_name'' ''brand'' KText (RawText ''HoHu Admin''))\<lparr>s_public := True\<rparr>,
      (plain ''site_logo'' ''brand'' KText (RawText []))\<lparr>s_public := True\<rparr>,
      (plain ''site_description'' ''brand'' KText (RawText (cf_site_description cf)))\<lparr>s_public := True\<rparr>,
      (plain ''site_icp'' ''brand'' KText (RawText []))\<lparr>s_public := True\<rparr>,
      (plain ''site_copyright'' ''brand'' KText
         (RawText (''Copyright '' @ [CHR 0xA9] @ '' 2026 HoHu'')))\<lparr>s_public := True\<rparr>,
      (plain ''user_agreement'' ''agreements'' KText (RawText []))\<lparr>s_public := True\<rparr>,
      (plain ''privacy_policy'' ''agreements'' KText (RawText []))\<lparr>s_public := True\<rparr>,
      plain ''default_avatar'' ''account'' KText (RawText []),
      plain ''register_enabled'' ''account'' KBoolean (RawText ''false''),
      plain ''password_reset_enabled'' ''account'' KBoolean (RawText ''false''),
      bounded_int ''email_code_minutes'' ''account'' 5 5 30,
      plain ''registration_role_id'' ''account'' KText (RawText []),
      plain ''user_require_primary_dept'' ''account'' KBoolean (RawText ''false''),
      plain ''auth:default_password'' ''account'' KSecret (RawText []),
      (plain ''default_locale'' ''locale'' KSelect (RawText (cf_locale cf)))
        \<lparr>s_public := True, s_options := [''zh-CN'', ''en-US'']\<rparr>,
      bounded_int ''upload:max_bytes'' ''files'' ten_megabytes 1024 (cf_upload_hard_max cf),
      bounded_int ''upload:image_max_bytes'' ''files'' ten_megabytes 1024 (cf_upload_hard_max cf),
      bounded_int ''upload:import_max_bytes'' ''files'' ten_megabytes 1024 ten_megabytes,
      (plain ''upload:allowed_extensions'' ''files'' KExtensions
         (RawText (join_on CHR '','' UPLOAD_EXTENSION_UNIVERSE)))\<lparr>s_options := UPLOAD_EXTENSION_UNIVERSE\<rparr>,
      bounded_int ''security:login_per_minute'' ''security'' 5 1 100,
      bounded_int ''security:register_per_minute'' ''security'' 3 1 30,
      bounded_int ''security:api_per_minute'' ''security'' 100 10 10000]"

definition SETTING_GROUPS :: "string list" where
  "SETTING_GROUPS = [''brand'', ''account'', ''locale'', ''files'', ''agreements'', ''security'']"

definition is_builtin_key :: "app_conf \<Rightarrow> string \<Rightarrow> bool" where
  "is_builtin_key cf key \<longleftrightarrow>
     key \<in> set (map s_key (SETTINGS cf)) \<or> prefix ''ai:'' key \<or> prefix ''security:'' key \<or> prefix ''upload:'' key"

section \<open>One value\<close>

fun raw_text :: "raw_value \<Rightarrow> string" where
  "raw_text (RawText s) = s"
| "raw_text (RawInt i) = show_int i"

fun raw_json :: "raw_value \<Rightarrow> json" where
  "raw_json (RawText s) = JStr s"
| "raw_json (RawInt i) = JInt i"

definition decode_setting :: "setting \<Rightarrow> raw_value \<Rightarrow> json" where
  "decode_setting d raw =
     (case s_kind d of
        KBoolean \<Rightarrow> JBool (py_lower (raw_text raw) \<in> set TRUE_WORDS)
      | KInteger \<Rightarrow> (case py_int (raw_text raw) of Inl _ \<Rightarrow> raw_json (s_default d) | Inr i \<Rightarrow> JInt i)
      | _ \<Rightarrow> raw_json raw)"

text \<open>\<open>re.match(PWD_PATTERN, v)\<close> of \<open>app/utils/validators.py\<close>: the dot does not cross a line end,
  and the dollar also matches before a final one.\<close>

definition password_ok :: "string \<Rightarrow> bool" where
  "password_ok v \<longleftrightarrow>
     (let line = takeWhile (\<lambda>c. c \<noteq> CHR 0x0A) v
      in (v = line \<or> v = line @ [CHR 0x0A]) \<and> 6 \<le> length line \<and> length line \<le> 20 \<and>
         list_ex (\<lambda>c. 97 \<le> (of_char c :: nat) \<and> (of_char c :: nat) \<le> 122) line \<and>
         list_ex (\<lambda>c. 65 \<le> (of_char c :: nat) \<and> (of_char c :: nat) \<le> 90) line \<and> list_ex is_dec line)"

lemma password_trailing_newline: "password_ok (''Abcdefghijklmnopqrs1'' @ [CHR 0x0A])"
  by code_simp

definition url_ok :: "string \<Rightarrow> bool" where
  "url_ok v \<longleftrightarrow>
     (prefix ''https://'' v \<or> prefix ''http://'' v \<or> prefix ''/uploads/'' v) \<and>
     \<not> list_ex (\<lambda>c. c \<in> {CHR 0x0D, CHR 0x0A, CHR 0x5C}) v"

definition normalized_extensions :: "string \<Rightarrow> string list" where
  "normalized_extensions v =
     sorted_list_of_set (set (map (\<lambda>part. py_lower (py_strip part)) (split_on CHR '','' v)))"

definition invalid_setting :: "'a res" where
  "invalid_setting = Inl (BusinessRule ''SETTING_VALUE_INVALID'')"

definition validate_text :: "app_conf \<Rightarrow> setting \<Rightarrow> string \<Rightarrow> string res" where
  "validate_text cf d v =
     (if 100000 < length v then invalid_setting
      else if s_key d \<in> {''site_logo'', ''default_avatar''} \<and> v \<noteq> [] \<and> \<not> url_ok v then invalid_setting
      else if s_group d \<noteq> ''agreements'' \<and> 2048 < length v then invalid_setting
      else if s_kind d = KSelect \<and> s_options d \<noteq> [] \<and> v \<notin> set (s_options d) then invalid_setting
      else if s_kind d = KExtensions then
        (if set (normalized_extensions v) \<subseteq> set UPLOAD_EXTENSION_UNIVERSE \<and> normalized_extensions v \<noteq> []
         then Inr (join_on CHR '','' (normalized_extensions v)) else invalid_setting)
      else if s_kind d = KSecret \<and> v \<noteq> [] \<and> (\<not> password_ok v \<or> cf_prod cf \<and> v = ''Hohu123456'')
      then invalid_setting
      else Inr v)"

definition validate_setting :: "app_conf \<Rightarrow> setting \<Rightarrow> json \<Rightarrow> string res" where
  "validate_setting cf d value =
     (case s_kind d of
        KBoolean \<Rightarrow> (case value of JBool b \<Rightarrow> Inr (if b then ''true'' else ''false'') | _ \<Rightarrow> invalid_setting)
      | KInteger \<Rightarrow>
          (case value of
             JInt i \<Rightarrow>
               (if (case s_minimum d of None \<Rightarrow> False | Some lo \<Rightarrow> i < lo) then invalid_setting
                else if (case s_maximum d of None \<Rightarrow> False | Some hi \<Rightarrow> hi < i) then invalid_setting
                else Inr (show_int i))
           | _ \<Rightarrow> invalid_setting)
      | _ \<Rightarrow> (case value of JStr v \<Rightarrow> validate_text cf d v | _ \<Rightarrow> invalid_setting))"

section \<open>Reads\<close>

text \<open>\<open>get_bool_for_update\<close> takes one row whatever its status; a disabled one reads as the default.\<close>

definition settings_get_bool :: "setting_row list \<Rightarrow> string \<Rightarrow> bool \<Rightarrow> int \<Rightarrow> bool" where
  "settings_get_bool rows key dflt t =
     (case find (\<lambda>r. st_tenant r = t \<and> st_key r = key) rows of
        None \<Rightarrow> dflt
      | Some r \<Rightarrow> if st_status r \<noteq> ''1'' then dflt else py_lower (py_strip (st_value r)) \<in> set TRUE_WORDS)"

definition stored_values :: "app_conf \<Rightarrow> setting_row list \<Rightarrow> int \<Rightarrow> (string \<times> string) list" where
  "stored_values cf rows t =
     rev (map (\<lambda>r. (st_key r, st_value r))
       (filter (\<lambda>r. st_tenant r = t \<and> st_key r \<in> set (map s_key (SETTINGS cf)) \<and> st_status r = ''1'') rows))"

definition setting_values :: "app_conf \<Rightarrow> setting_row list \<Rightarrow> int \<Rightarrow> jobj" where
  "setting_values cf rows t =
     map (\<lambda>d. (s_key d, decode_setting d
         (case map_of (stored_values cf rows t) (s_key d) of None \<Rightarrow> s_default d | Some v \<Rightarrow> RawText v)))
       (SETTINGS cf)"

definition get_public_values :: "app_conf \<Rightarrow> setting_row list \<Rightarrow> int \<Rightarrow> jobj" where
  "get_public_values cf rows t =
     filter (\<lambda>(k, v). k \<in> set (map s_key (filter s_public (SETTINGS cf)))) (setting_values cf rows t)"

section \<open>The account group's extras\<close>

record mail_settings =
  ml_enabled :: bool
  ml_host :: string
  ml_username :: string
  ml_password :: string
  ml_from_email :: "string option"

definition mail_ready :: "mail_settings \<Rightarrow> bool" where
  "mail_ready c \<longleftrightarrow>
     ml_enabled c \<and> ml_host c \<noteq> [] \<and> (case ml_from_email c of None \<Rightarrow> False | Some e \<Rightarrow> e \<noteq> []) \<and>
     (ml_username c = [] \<or> ml_password c \<noteq> [])"

text \<open>\<open>se_route\<close> is the route name of a menu.\<close>

record settings_env =
  se_conf :: app_conf
  se_mail :: mail_settings
  se_route :: "int \<Rightarrow> string option"
  se_mac :: "json \<Rightarrow> string"

definition or_empty :: "string option \<Rightarrow> string" where
  "or_empty x = (case x of None \<Rightarrow> [] | Some s \<Rightarrow> s)"

definition management_menu :: "(int \<Rightarrow> string option) \<Rightarrow> menu \<Rightarrow> bool" where
  "management_menu route m \<longleftrightarrow>
     (let p = or_empty (menu_permission m); n = or_empty (route (menu_id m))
      in prefix ''system:'' p \<or> prefix ''platform:'' p \<or> p = ''*'' \<or>
         prefix ''system'' n \<or> prefix ''tenant'' n \<or> prefix ''ai_provider'' n \<or> prefix ''ai_agent'' n)"

definition registration_role :: "(int \<Rightarrow> string option) \<Rightarrow> auth_db \<Rightarrow> int \<Rightarrow> string \<Rightarrow> role option res" where
  "registration_role route db t rid =
     (if rid = [] then Inr None
      else if \<not> (list_all (\<lambda>c. (of_char c :: nat) < 128) rid \<and> py_isdigit rid)
      then Inl (BusinessRule ''REGISTRATION_ROLE_INVALID'')
      else bindE (py_int rid) (\<lambda>i.
        if \<not> (0 < i \<and> i < 2 ^ 63) then Inl (BusinessRule ''REGISTRATION_ROLE_INVALID'')
        else case find (\<lambda>r. role_tenant r = t \<and> role_id r = i) (rows_roles db) of
          None \<Rightarrow> Inl (BusinessRule ''REGISTRATION_ROLE_INVALID'')
        | Some r \<Rightarrow>
            if role_status r \<noteq> ''1'' \<or> role_code r = ''R_SUPER'' \<or> list_ex (management_menu route) (role_menus r)
            then Inl (BusinessRule ''REGISTRATION_ROLE_INVALID'') else Inr (Some r)))"

definition role_options :: "(int \<Rightarrow> string option) \<Rightarrow> auth_db \<Rightarrow> int \<Rightarrow> (string \<times> string) list" where
  "role_options route db t =
     map (\<lambda>r. (role_name r, show_int (role_id r)))
       (filter (\<lambda>r. is_ok (registration_role route db t (show_int (role_id r))))
         (filter (\<lambda>r. role_tenant r = t \<and> role_status r = ''1'') (rows_roles db)))"

section \<open>Groups\<close>

record group_view =
  gv_group :: string
  gv_values :: jobj
  gv_revision :: string
  gv_secret_keys :: "string list"
  gv_configured :: "string list"
  gv_fields :: "setting list"
  gv_mail_ready :: "bool option"
  gv_role_options :: "(string \<times> string) list option"

definition group_settings :: "app_conf \<Rightarrow> string \<Rightarrow> setting list" where
  "group_settings cf g = filter (\<lambda>d. s_group d = g) (SETTINGS cf)"

definition group_values :: "app_conf \<Rightarrow> setting_row list \<Rightarrow> string \<Rightarrow> int \<Rightarrow> jobj" where
  "group_values cf rows g t =
     map (\<lambda>d. (s_key d, jget (setting_values cf rows t) (s_key d))) (group_settings cf g)"

definition group_revision :: "settings_env \<Rightarrow> setting_row list \<Rightarrow> string \<Rightarrow> int \<Rightarrow> string" where
  "group_revision env rows g t =
     se_mac env (JArr [JInt t, JStr g, JObj (sort_key fst (group_values (se_conf env) rows g t))])"

definition get_group ::
    "settings_env \<Rightarrow> setting_row list \<Rightarrow> auth_db \<Rightarrow> string \<Rightarrow> int \<Rightarrow> group_view res" where
  "get_group env rows db g t =
     (if g \<notin> set SETTING_GROUPS then Inl (BusinessRule ''SETTING_GROUP_INVALID'')
      else let cf = se_conf env; vals = group_values cf rows g t;
               secrets = map s_key (filter (\<lambda>d. s_kind d = KSecret) (group_settings cf g))
           in Inr \<lparr>gv_group = g,
                   gv_values = map (\<lambda>(k, v). (k, if k \<in> set secrets then JStr [] else v)) vals,
                   gv_revision = group_revision env rows g t,
                   gv_secret_keys = secrets,
                   gv_configured = filter (\<lambda>k. truthy (jget vals k)) secrets,
                   gv_fields = group_settings cf g,
                   gv_mail_ready = (if g = ''account'' then Some (mail_ready (se_mail env)) else None),
                   gv_role_options =
                     (if g = ''account'' then Some (role_options (se_route env) db t) else None)\<rparr>)"

definition find_setting :: "setting list \<Rightarrow> string \<Rightarrow> setting option" where
  "find_setting ds k = find (\<lambda>d. s_key d = k) ds"

definition validate_entry :: "app_conf \<Rightarrow> setting list \<Rightarrow> string \<times> json \<Rightarrow> (setting \<times> string) res" where
  "validate_entry cf ds kv =
     (case find_setting ds (fst kv) of
        None \<Rightarrow> Inl KeyError
      | Some d \<Rightarrow> bindE (validate_setting cf d (snd kv)) (\<lambda>s. Inr (d, s)))"

text \<open>\<open>hmac.compare_digest\<close> refuses text with a character outside ASCII.\<close>

definition compare_digest :: "string \<Rightarrow> string \<Rightarrow> bool res" where
  "compare_digest a b =
     (if list_all (\<lambda>c. (of_char c :: nat) < 128) (a @ b) then Inr (a = b) else Inl TypeError)"

definition check_account ::
    "settings_env \<Rightarrow> auth_db \<Rightarrow> group_view \<Rightarrow> (setting \<times> string) list \<Rightarrow> int \<Rightarrow> unit res" where
  "check_account env db cur norm t =
     (let merged = rev (map (\<lambda>(d, s). (s_key d, decode_setting d (RawText s))) norm) @ gv_values cur
      in bindE (guardE (\<not> ((truthy (jget merged ''register_enabled'') \<or>
                            truthy (jget merged ''password_reset_enabled'')) \<and> gv_mail_ready cur \<noteq> Some True))
                 (BusinessRule ''MAIL_NOT_CONFIGURED'')) (\<lambda>_.
         case jget merged ''registration_role_id'' of
           JStr rid \<Rightarrow> bindE (registration_role (se_route env) db t rid) (\<lambda>_. Inr ())
         | _ \<Rightarrow> Inl TypeError))"

definition store_setting ::
    "string set \<Rightarrow> int \<Rightarrow> setting \<times> string \<Rightarrow> setting_row list \<Rightarrow> setting_row list" where
  "store_setting stored t ds rows =
     (if s_kind (fst ds) = KSecret \<and> snd ds = [] then rows
      else if s_key (fst ds) \<in> stored
      then map (\<lambda>r. if st_tenant r = t \<and> st_key r = s_key (fst ds)
                    then r\<lparr>st_value := snd ds, st_status := ''1''\<rparr> else r) rows
      else rows @ [\<lparr>st_tenant = t, st_key = s_key (fst ds), st_value = snd ds, st_status = ''1''\<rparr>])"

definition save_group ::
    "settings_env \<Rightarrow> setting_row list \<Rightarrow> auth_db \<Rightarrow> string \<Rightarrow> jobj \<Rightarrow> string \<Rightarrow> int \<Rightarrow>
     (group_view \<times> setting_row list) res" where
  "save_group env rows db g vals revision t =
     (let ds = group_settings (se_conf env) g
      in if vals = [] \<or> \<not> fst ` set vals \<subseteq> set (map s_key ds)
         then Inl (BusinessRule ''SETTING_VALUE_INVALID'')
         else bindE (mapE (validate_entry (se_conf env) ds) vals) (\<lambda>norm.
              bindE (get_group env rows db g t) (\<lambda>cur.
              bindE (compare_digest revision (gv_revision cur)) (\<lambda>same.
              bindE (guardE same (BusinessRule ''SETTINGS_CONFLICT'')) (\<lambda>_.
              bindE (if g = ''account'' then check_account env db cur norm t else Inr ()) (\<lambda>_.
                let stored = set (map st_key (filter (\<lambda>r. st_tenant r = t \<and>
                      st_key r \<in> set (map (\<lambda>x. s_key (fst x)) norm)) rows));
                    rows' = fold (store_setting stored t) norm rows
                in bindE (get_group env rows' db g t) (\<lambda>view. Inr (view, rows'))))))))"

end
