(* ===== verification/Settings_Props.thy ===== *)
theory Settings_Props
  imports Settings
begin

text \<open>
  What a save of a settings group stores is what the next read shows: the text written for a value
  decodes to the value, one row changes per submitted key, and a save that read another state of
  the group than the one its revision was made of is refused.
\<close>

section \<open>The catalogue\<close>

lemma distinct_settings: "distinct (map s_key (SETTINGS cf))"
  by (simp add: SETTINGS_def plain_def bounded_int_def)

lemma extensions_setting:
  assumes "d \<in> set (SETTINGS cf)" "s_kind d = KExtensions"
  shows "s_key d = ''upload:allowed_extensions''"
  using assms by (auto simp: SETTINGS_def plain_def bounded_int_def)

lemma find_setting_Some: "find_setting ds k = Some d \<Longrightarrow> d \<in> set ds \<and> s_key d = k"
  by (auto simp: find_setting_def dest: find_SomeD)

lemma find_setting_in: "distinct (map s_key ds) \<Longrightarrow> d \<in> set ds \<Longrightarrow> find_setting ds (s_key d) = Some d"
  unfolding find_setting_def by (induction ds) (auto simp: image_iff)

lemma find_group_setting:
  assumes "find_setting (group_settings cf g) k = Some d"
  shows "find_setting (SETTINGS cf) k = Some d"
  using find_setting_Some[OF assms] find_setting_in[OF distinct_settings, of d cf]
  by (auto simp: group_settings_def)

section \<open>One value\<close>

lemma lower_words: "py_lower ''true'' \<in> set TRUE_WORDS" "py_lower ''false'' \<notin> set TRUE_WORDS"
  by code_simp+

text \<open>The extensions a validated list names are sorted and of the universe.\<close>

lemma universe_plain:
  "x \<in> set UPLOAD_EXTENSION_UNIVERSE \<Longrightarrow> py_lower (py_strip x) = x \<and> CHR '','' \<notin> set x \<and> length x \<le> 5"
proof -
  have "list_all (\<lambda>x. py_lower (py_strip x) = x \<and> CHR '','' \<notin> set x \<and> length x \<le> 5) UPLOAD_EXTENSION_UNIVERSE"
    by code_simp
  then show "x \<in> set UPLOAD_EXTENSION_UNIVERSE \<Longrightarrow> ?thesis" by (simp add: list_all_iff)
qed

lemma length_join: "\<forall>x \<in> set xs. length x \<le> n \<Longrightarrow> length (join_on c xs) \<le> length xs * Suc n"
  by (induction c xs rule: join_on.induct) auto

lemma join_universe:
  assumes xs: "set xs \<subseteq> set UPLOAD_EXTENSION_UNIVERSE" "distinct xs" "sorted xs" "xs \<noteq> []"
  shows "normalized_extensions (join_on CHR '','' xs) = xs" "length (join_on CHR '','' xs) \<le> 2048"
proof -
  have u: "\<forall>x \<in> set xs. py_lower (py_strip x) = x \<and> CHR '','' \<notin> set x \<and> length x \<le> 5"
    using xs(1) universe_plain by blast
  then have "map (\<lambda>x. py_lower (py_strip x)) xs = xs" by (simp add: map_idI)
  moreover have "split_on CHR '','' (join_on CHR '','' xs) = xs"
    using xs(4) u by (intro split_join) auto
  ultimately show "normalized_extensions (join_on CHR '','' xs) = xs"
    using xs(2,3) by (simp add: normalized_extensions_def sorted_list_of_set.idem_if_sorted_distinct)
  have "length xs \<le> length UPLOAD_EXTENSION_UNIVERSE"
    using card_mono[OF _ xs(1)] distinct_card[OF xs(2)] card_length[of UPLOAD_EXTENSION_UNIVERSE] by simp
  then have "length xs \<le> 28" by (simp add: UPLOAD_EXTENSION_UNIVERSE_def)
  moreover have "length (join_on CHR '','' xs) \<le> length xs * Suc 5"
    using u by (intro length_join) blast
  ultimately show "length (join_on CHR '','' xs) \<le> 2048" by simp
qed

lemma normalized_sorted: "sorted (normalized_extensions v)" "distinct (normalized_extensions v)"
  by (simp_all add: normalized_extensions_def)

lemma decode_validated:
  assumes "validate_setting cf d v = Inr s" "s_kind d \<noteq> KExtensions"
  shows "decode_setting d (RawText s) = v"
  using assms lower_words
  by (cases "s_kind d"; cases v)
    (auto simp: validate_setting_def decode_setting_def validate_text_def invalid_setting_def split: if_splits)

lemma decode_extensions:
  assumes "validate_setting cf d v = Inr s" "s_kind d = KExtensions"
  shows "decode_setting d (RawText s) = JStr s"
  using assms(2) by (simp add: decode_setting_def)

lemma validate_extensions_again:
  assumes ok: "validate_setting cf d v = Inr s" and d: "d \<in> set (SETTINGS cf)" "s_kind d = KExtensions"
  shows "validate_setting cf d (JStr s) = Inr s"
proof -
  have k: "s_key d = ''upload:allowed_extensions''" by (rule extensions_setting[OF d])
  obtain x where x: "v = JStr x" "validate_text cf d x = Inr s"
    using ok d(2) by (cases v) (auto simp: validate_setting_def invalid_setting_def)
  define xs where "xs = normalized_extensions x"
  have *: "set xs \<subseteq> set UPLOAD_EXTENSION_UNIVERSE" "xs \<noteq> []" "s = join_on CHR '','' xs"
    using x(2) d(2) unfolding validate_text_def xs_def[symmetric] invalid_setting_def
    by (auto split: if_splits)
  have "sorted xs" "distinct xs" unfolding xs_def by (rule normalized_sorted)+
  from join_universe[OF *(1) this(2,1) *(2)] * k d(2) show ?thesis
    by (simp add: validate_setting_def validate_text_def)
qed

section \<open>Rows\<close>

definition row_at :: "setting_row list \<Rightarrow> int \<Rightarrow> string \<Rightarrow> setting_row option" where
  "row_at rows t k = find (\<lambda>r. st_tenant r = t \<and> st_key r = k) rows"

definition row_key :: "setting_row \<Rightarrow> int \<times> string" where
  "row_key r = (st_tenant r, st_key r)"

definition written :: "setting \<times> string \<Rightarrow> bool" where
  "written x \<longleftrightarrow> \<not> (s_kind (fst x) = KSecret \<and> snd x = [])"

abbreviation entry_key :: "setting \<times> string \<Rightarrow> string" where
  "entry_key x \<equiv> s_key (fst x)"

lemma row_at_None: "row_at rows t k = None \<longleftrightarrow> (t, k) \<notin> row_key ` set rows"
  by (auto simp: row_at_def find_None_iff row_key_def)

lemma row_at_Some: "row_at rows t k = Some r \<Longrightarrow> r \<in> set rows \<and> st_tenant r = t \<and> st_key r = k"
  unfolding row_at_def by (auto dest: find_SomeD)

lemma find_map_row:
  "find (\<lambda>r. st_tenant r = t' \<and> st_key r = k') (map (\<lambda>r. if st_tenant r = t \<and> st_key r = k
       then r\<lparr>st_value := v, st_status := s\<rparr> else r) rows) =
   map_option (\<lambda>r. if t' = t \<and> k' = k then r\<lparr>st_value := v, st_status := s\<rparr> else r)
     (find (\<lambda>r. st_tenant r = t' \<and> st_key r = k') rows)"
  by (induction rows) auto

lemma find_append: "find P (xs @ ys) = (case find P xs of None \<Rightarrow> find P ys | Some x \<Rightarrow> Some x)"
  by (induction xs) auto

lemma row_at_store:
  assumes "s_key (fst x) \<in> stored \<longleftrightarrow> row_at rows t (s_key (fst x)) \<noteq> None"
  shows "row_at (store_setting stored t x rows) t' k =
    (if t' = t \<and> k = s_key (fst x) \<and> written x
     then Some \<lparr>st_tenant = t, st_key = k, st_value = snd x, st_status = ''1''\<rparr> else row_at rows t' k)"
proof (cases "row_at rows t (s_key (fst x))")
  case None
  then show ?thesis
    using assms by (auto simp: store_setting_def written_def row_at_def find_append split: option.splits)
next
  case (Some r)
  have "r\<lparr>st_value := v, st_status := s\<rparr> =
      \<lparr>st_tenant = t, st_key = s_key (fst x), st_value = v, st_status = s\<rparr>" for v s
    using row_at_Some[OF Some] by (cases r) simp
  then show ?thesis
    using assms Some unfolding store_setting_def row_at_def written_def
    by (auto simp: find_map_row option.map_ident)
qed

lemma row_at_fold:
  assumes "distinct (map entry_key norm)"
    and "\<And>x. x \<in> set norm \<Longrightarrow> entry_key x \<in> stored \<longleftrightarrow> row_at rows t (entry_key x) \<noteq> None"
  shows "row_at (fold (store_setting stored t) norm rows) t' k =
    (case find (\<lambda>x. entry_key x = k \<and> written x) norm of
       None \<Rightarrow> row_at rows t' k
     | Some x \<Rightarrow> if t' = t then Some \<lparr>st_tenant = t, st_key = k, st_value = snd x, st_status = ''1''\<rparr>
               else row_at rows t' k)"
  using assms
proof (induction norm arbitrary: rows)
  case Nil
  then show ?case by simp
next
  case (Cons x norm)
  let ?rows = "store_setting stored t x rows"
  have step: "row_at ?rows t' k =
    (if t' = t \<and> k = entry_key x \<and> written x
     then Some \<lparr>st_tenant = t, st_key = k, st_value = snd x, st_status = ''1''\<rparr> else row_at rows t' k)" for t' k
    by (rule row_at_store) (use Cons.prems(2) in simp)
  have "row_at (fold (store_setting stored t) norm ?rows) t' k =
    (case find (\<lambda>x. entry_key x = k \<and> written x) norm of
       None \<Rightarrow> row_at ?rows t' k
     | Some x \<Rightarrow> if t' = t then Some \<lparr>st_tenant = t, st_key = k, st_value = snd x, st_status = ''1''\<rparr>
               else row_at ?rows t' k)"
  proof (rule Cons.IH)
    show "distinct (map entry_key norm)" using Cons.prems(1) by simp
    show "entry_key y \<in> stored \<longleftrightarrow> row_at ?rows t (entry_key y) \<noteq> None" if "y \<in> set norm" for y
    proof -
      have "entry_key y \<noteq> entry_key x" using Cons.prems(1) that by (auto simp: image_iff)
      then show ?thesis using Cons.prems(2)[of y] that unfolding step by simp
    qed
  qed
  moreover have "find (\<lambda>y. entry_key y = entry_key x \<and> written y) norm = None"
    using Cons.prems(1) by (fastforce simp: find_None_iff image_iff)
  ultimately show ?case by (auto simp: step split: option.splits)
qed

lemma map_of_rev_distinct: "distinct (map fst xs) \<Longrightarrow> map_of (rev xs) = map_of xs"
  by (subst map_of_inject_set) (simp_all flip: rev_map)

lemma stored_value:
  assumes "distinct (map row_key rows)"
  shows "map_of (stored_values cf rows t) k =
    (case row_at rows t k of
       None \<Rightarrow> None
     | Some r \<Rightarrow> if k \<in> s_key ` set (SETTINGS cf) \<and> st_status r = ''1'' then Some (st_value r) else None)"
    (is "?L = ?R")
proof -
  let ?sel = "filter (\<lambda>r. st_tenant r = t \<and> st_key r \<in> set (map s_key (SETTINGS cf)) \<and> st_status r = ''1'') rows"
  have "map_of (map (\<lambda>r. (st_key r, st_value r)) ?sel) k = ?R \<and> distinct (map st_key ?sel)"
    using assms
  proof (induction rows)
    case Nil
    then show ?case by (simp add: row_at_def)
  next
    case (Cons r rows)
    have "row_at rows t k = None" if "st_tenant r = t" "st_key r = k"
      using Cons.prems that by (auto simp: row_at_None row_key_def)
    then show ?case
      using Cons by (auto simp: row_at_def row_key_def image_iff)
  qed
  then have "distinct (map fst (map (\<lambda>r. (st_key r, st_value r)) ?sel))"
    "map_of (map (\<lambda>r. (st_key r, st_value r)) ?sel) k = ?R"
    by (simp_all add: comp_def)
  moreover from this(1) have "map_of (rev (map (\<lambda>r. (st_key r, st_value r)) ?sel)) =
      map_of (map (\<lambda>r. (st_key r, st_value r)) ?sel)"
    by (rule map_of_rev_distinct)
  ultimately show ?thesis unfolding stored_values_def by metis
qed

section \<open>What a save does\<close>

definition effective :: "setting_row list \<Rightarrow> int \<Rightarrow> setting \<Rightarrow> json" where
  "effective rows t d =
     decode_setting d (case row_at rows t (s_key d) of
       None \<Rightarrow> s_default d | Some r \<Rightarrow> if st_status r = ''1'' then RawText (st_value r) else s_default d)"

lemma settings_value:
  assumes "distinct (map row_key rows)" "d \<in> set (SETTINGS cf)"
  shows "jget (setting_values cf rows t) (s_key d) = effective rows t d"
proof -
  let ?f = "\<lambda>d. decode_setting d
         (case map_of (stored_values cf rows t) (s_key d) of None \<Rightarrow> s_default d | Some v \<Rightarrow> RawText v)"
  have "map_of (map (\<lambda>d. (s_key d, ?f d)) (SETTINGS cf)) (s_key d) = Some (?f d)"
    using assms(2) distinct_settings[of cf] by (intro map_of_is_SomeI) (auto simp: comp_def)
  moreover have "?f d = effective rows t d"
    using assms(2) unfolding effective_def stored_value[OF assms(1)] by (auto split: option.splits)
  ultimately show ?thesis by (simp add: jget_def setting_values_def)
qed

lemma validate_entry_Inr:
  "validate_entry cf ds kv = Inr (d, s) \<longleftrightarrow>
     find_setting ds (fst kv) = Some d \<and> validate_setting cf d (snd kv) = Inr s"
  by (auto simp: validate_entry_def bindE_eq_Inr split: option.splits)

lemma mapE_entries:
  assumes "mapE (validate_entry cf ds) vals = Inr norm"
  shows "map entry_key norm = map fst vals"
    "(d, s) \<in> set norm \<Longrightarrow> \<exists>v. (s_key d, v) \<in> set vals \<and> find_setting ds (s_key d) = Some d \<and> validate_setting cf d v = Inr s"
    "(k, v) \<in> set vals \<Longrightarrow> \<exists>d s. (d, s) \<in> set norm \<and> s_key d = k \<and> find_setting ds k = Some d \<and> validate_setting cf d v = Inr s"
proof -
  have n: "length vals = length norm" "\<And>i. i < length vals \<Longrightarrow> validate_entry cf ds (vals ! i) = Inr (norm ! i)"
    using assms by (simp_all add: mapE_eq_Inr)
  have e: "find_setting ds (fst (vals ! i)) = Some (fst (norm ! i)) \<and> s_key (fst (norm ! i)) = fst (vals ! i) \<and>
      validate_setting cf (fst (norm ! i)) (snd (vals ! i)) = Inr (snd (norm ! i))" if "i < length vals" for i
    using n(2)[OF that] validate_entry_Inr[of cf ds "vals ! i" "fst (norm ! i)" "snd (norm ! i)"]
    by (auto dest: find_setting_Some)
  show "map entry_key norm = map fst vals"
    using n(1) e by (auto intro: nth_equalityI)
  show "(d, s) \<in> set norm \<Longrightarrow> \<exists>v. (s_key d, v) \<in> set vals \<and> find_setting ds (s_key d) = Some d \<and> validate_setting cf d v = Inr s"
    using n(1) e by (metis fst_conv snd_conv in_set_conv_nth prod.collapse)
  show "(k, v) \<in> set vals \<Longrightarrow> \<exists>d s. (d, s) \<in> set norm \<and> s_key d = k \<and> find_setting ds k = Some d \<and> validate_setting cf d v = Inr s"
    using n(1) e by (metis fst_conv snd_conv in_set_conv_nth prod.collapse)
qed

lemma save_group_Inr:
  assumes "save_group env rows db g vals rv t = Inr (view, rows')"
  obtains norm cur stored where
    "mapE (validate_entry (se_conf env) (group_settings (se_conf env) g)) vals = Inr norm"
    "get_group env rows db g t = Inr cur" "rv = gv_revision cur"
    "g = ''account'' \<Longrightarrow> check_account env db cur norm t = Inr ()"
    "stored = set (map st_key (filter (\<lambda>r. st_tenant r = t \<and> st_key r \<in> set (map entry_key norm)) rows))"
    "rows' = fold (store_setting stored t) norm rows" "get_group env rows' db g t = Inr view"
proof -
  from assms obtain norm cur same where
    s: "mapE (validate_entry (se_conf env) (group_settings (se_conf env) g)) vals = Inr norm"
      "get_group env rows db g t = Inr cur" "compare_digest rv (gv_revision cur) = Inr same" "same"
      "(if g = ''account'' then check_account env db cur norm t else Inr ()) = Inr ()"
      "rows' = fold (store_setting (set (map st_key (filter (\<lambda>r. st_tenant r = t \<and>
         st_key r \<in> set (map entry_key norm)) rows))) t) norm rows"
      "get_group env rows' db g t = Inr view"
    unfolding save_group_def Let_def bindE_eq_Inr guardE_eq_Inr by (auto simp: bindE_eq_Inr split: if_splits)
  show ?thesis
  proof (rule that[OF s(1,2) _ _ refl s(6,7)])
    show "rv = gv_revision cur" using s(3,4) by (simp add: compare_digest_def split: if_splits)
    show "check_account env db cur norm t = Inr ()" if "g = ''account''" using s(5) that by simp
  qed
qed

lemma save_group_rows:
  assumes save: "save_group env rows db g vals rv t = Inr (view, rows')" and dict: "distinct (map fst vals)"
  obtains norm where
    "mapE (validate_entry (se_conf env) (group_settings (se_conf env) g)) vals = Inr norm"
    "\<And>t' k. row_at rows' t' k =
      (case find (\<lambda>x. entry_key x = k \<and> written x) norm of
         None \<Rightarrow> row_at rows t' k
       | Some x \<Rightarrow> if t' = t then Some \<lparr>st_tenant = t, st_key = k, st_value = snd x, st_status = ''1''\<rparr>
                 else row_at rows t' k)"
proof -
  obtain norm cur stored where
    s: "mapE (validate_entry (se_conf env) (group_settings (se_conf env) g)) vals = Inr norm"
      "stored = set (map st_key (filter (\<lambda>r. st_tenant r = t \<and> st_key r \<in> set (map entry_key norm)) rows))"
      "rows' = fold (store_setting stored t) norm rows"
    by (rule save_group_Inr[OF save])
  show ?thesis
  proof (rule that[OF s(1)])
    fix t' k
    show "row_at rows' t' k =
      (case find (\<lambda>x. entry_key x = k \<and> written x) norm of
         None \<Rightarrow> row_at rows t' k
       | Some x \<Rightarrow> if t' = t then Some \<lparr>st_tenant = t, st_key = k, st_value = snd x, st_status = ''1''\<rparr>
                 else row_at rows t' k)"
      unfolding s(3)
    proof (rule row_at_fold)
      show "distinct (map entry_key norm)" using dict mapE_entries(1)[OF s(1)] by simp
      show "entry_key x \<in> stored \<longleftrightarrow> row_at rows t (entry_key x) \<noteq> None" if "x \<in> set norm" for x
        using that unfolding s(2) row_at_None by (force simp: row_key_def)
    qed
  qed
qed

lemma distinct_store:
  assumes "distinct (map row_key rows)" "s_key (fst x) \<in> stored \<longleftrightarrow> row_at rows t (s_key (fst x)) \<noteq> None"
  shows "distinct (map row_key (store_setting stored t x rows))"
proof -
  have "map row_key (map (\<lambda>r. if st_tenant r = t \<and> st_key r = k then r\<lparr>st_value := v, st_status := s\<rparr> else r) rows)
      = map row_key rows" for k v s
    by (simp add: row_key_def comp_def)
  then show ?thesis
    using assms by (auto simp: store_setting_def row_at_None row_key_def simp del: map_map)
qed

lemma distinct_fold:
  assumes "distinct (map entry_key norm)" "distinct (map row_key rows)"
    and "\<And>x. x \<in> set norm \<Longrightarrow> entry_key x \<in> stored \<longleftrightarrow> row_at rows t (entry_key x) \<noteq> None"
  shows "distinct (map row_key (fold (store_setting stored t) norm rows))"
  using assms
proof (induction norm arbitrary: rows)
  case Nil
  then show ?case by simp
next
  case (Cons x norm)
  have x: "entry_key x \<in> stored \<longleftrightarrow> row_at rows t (entry_key x) \<noteq> None" using Cons.prems(3) by simp
  have "distinct (map row_key (fold (store_setting stored t) norm (store_setting stored t x rows)))"
  proof (rule Cons.IH)
    show "distinct (map entry_key norm)" using Cons.prems(1) by simp
    show "distinct (map row_key (store_setting stored t x rows))"
      by (rule distinct_store[OF Cons.prems(2) x])
    show "entry_key y \<in> stored \<longleftrightarrow> row_at (store_setting stored t x rows) t (entry_key y) \<noteq> None"
      if "y \<in> set norm" for y
    proof -
      have "entry_key y \<noteq> entry_key x" using Cons.prems(1) that by (auto simp: image_iff)
      then show ?thesis using Cons.prems(3)[of y] that unfolding row_at_store[OF x] by simp
    qed
  qed
  then show ?case by simp
qed

lemma save_group_distinct:
  assumes save: "save_group env rows db g vals rv t = Inr (view, rows')" and dict: "distinct (map fst vals)"
    and key: "distinct (map row_key rows)"
  shows "distinct (map row_key rows')"
proof -
  obtain norm cur stored where
    s: "mapE (validate_entry (se_conf env) (group_settings (se_conf env) g)) vals = Inr norm"
      "stored = set (map st_key (filter (\<lambda>r. st_tenant r = t \<and> st_key r \<in> set (map entry_key norm)) rows))"
      "rows' = fold (store_setting stored t) norm rows"
    by (rule save_group_Inr[OF save])
  show ?thesis unfolding s(3)
  proof (rule distinct_fold[OF _ key])
    show "distinct (map entry_key norm)" using dict mapE_entries(1)[OF s(1)] by simp
    show "entry_key x \<in> stored \<longleftrightarrow> row_at rows t (entry_key x) \<noteq> None" if "x \<in> set norm" for x
      using that unfolding s(2) row_at_None by (force simp: row_key_def)
  qed
qed

lemma settings_value_any:
  assumes "distinct (map row_key rows)"
  shows "jget (setting_values cf rows t) k =
    (case find_setting (SETTINGS cf) k of None \<Rightarrow> JNull | Some d \<Rightarrow> effective rows t d)"
proof (cases "find_setting (SETTINGS cf) k")
  case None
  then have "k \<notin> s_key ` set (SETTINGS cf)" by (auto simp: find_setting_def find_None_iff)
  then have "map_of (setting_values cf rows t) k = None"
    by (simp add: map_of_eq_None_iff setting_values_def image_image)
  with None show ?thesis by (simp add: jget_def)
next
  case (Some d)
  with settings_value[OF assms, of d cf t] find_setting_Some[OF Some] show ?thesis by simp
qed

lemma unique_entry:
  assumes "distinct (map entry_key norm)" "x \<in> set norm"
  shows "find (\<lambda>y. entry_key y = entry_key x \<and> written y) norm = (if written x then Some x else None)"
  using assms
proof (induction norm)
  case Nil
  then show ?case by simp
next
  case (Cons y norm)
  show ?case
  proof (cases "x = y")
    case True
    have "entry_key z \<noteq> entry_key y" if "z \<in> set norm" for z
    proof -
      have "entry_key z \<in> entry_key ` set norm" using that by (rule imageI)
      moreover have "entry_key y \<notin> entry_key ` set norm" using Cons.prems(1) by simp
      ultimately show ?thesis by metis
    qed
    then have "find (\<lambda>z. entry_key z = entry_key y \<and> written z) norm = None"
      unfolding find_None_iff by metis
    with True show ?thesis by simp
  next
    case False
    then have "x \<in> set norm" using Cons.prems(2) by simp
    moreover from this have "entry_key y \<noteq> entry_key x" using Cons.prems(1) by (force simp: image_iff)
    ultimately show ?thesis using Cons by simp
  qed
qed

text \<open>A save that succeeds is read back: each submitted setting then has the value
  that was submitted, for a list of extensions its normal form, which is accepted again as it is,
  and for an empty secret the value it had; every other setting, and every setting of another
  tenant, keeps its value, and a key still has one row. The database keeps one row per tenant and
  key, and the submitted dictionary has each key once.\<close>

theorem settings_save_reads_back:
  assumes save: "save_group env rows db g vals rv t = Inr (view, rows')"
    and dict: "distinct (map fst vals)" and key: "distinct (map (\<lambda>r. (st_tenant r, st_key r)) rows)"
  shows "distinct (map (\<lambda>r. (st_tenant r, st_key r)) rows') \<and>
    (\<forall>(k, v) \<in> set vals. \<exists>d s. d \<in> set (SETTINGS (se_conf env)) \<and> s_key d = k \<and> s_group d = g \<and>
       validate_setting (se_conf env) d v = Inr s \<and>
       (let now = jget (setting_values (se_conf env) rows' t) k
        in if s_kind d = KSecret \<and> v = JStr [] then now = jget (setting_values (se_conf env) rows t) k
           else validate_setting (se_conf env) d now = Inr s \<and> (s_kind d = KExtensions \<or> now = v))) \<and>
    (\<forall>t' k. t' \<noteq> t \<or> k \<notin> fst ` set vals \<longrightarrow>
       jget (setting_values (se_conf env) rows' t') k = jget (setting_values (se_conf env) rows t') k)"
proof -
  let ?cf = "se_conf env"
  have keys: "distinct (map row_key rows)" using key by (simp add: row_key_def[abs_def])
  note keys' = save_group_distinct[OF save dict keys]
  obtain norm where norm: "mapE (validate_entry ?cf (group_settings ?cf g)) vals = Inr norm"
    and rows': "\<And>t' k. row_at rows' t' k =
      (case find (\<lambda>x. entry_key x = k \<and> written x) norm of
         None \<Rightarrow> row_at rows t' k
       | Some x \<Rightarrow> if t' = t then Some \<lparr>st_tenant = t, st_key = k, st_value = snd x, st_status = ''1''\<rparr>
                 else row_at rows t' k)"
    using save_group_rows[OF save dict] by blast
  note entries = mapE_entries[OF norm]
  have dn: "distinct (map entry_key norm)" using dict entries(1) by simp
  have A: "\<exists>d s. d \<in> set (SETTINGS ?cf) \<and> s_key d = k \<and> s_group d = g \<and> validate_setting ?cf d v = Inr s \<and>
       (let now = jget (setting_values ?cf rows' t) k
        in if s_kind d = KSecret \<and> v = JStr [] then now = jget (setting_values ?cf rows t) k
           else validate_setting ?cf d now = Inr s \<and> (s_kind d = KExtensions \<or> now = v))" if kv: "(k, v) \<in> set vals" for k v
  proof -
    obtain d s where d: "(d, s) \<in> set norm" "s_key d = k" "find_setting (group_settings ?cf g) k = Some d"
      "validate_setting ?cf d v = Inr s" using entries(3)[OF kv] by blast
    have dg: "d \<in> set (SETTINGS ?cf)" "s_group d = g"
      using find_setting_Some[OF d(3)] by (simp_all add: group_settings_def)
    have now: "jget (setting_values ?cf rows' t) k = effective rows' t d"
      "jget (setting_values ?cf rows t) k = effective rows t d"
      using settings_value[OF keys' dg(1)] settings_value[OF keys dg(1)] d(2) by simp_all
    have at: "row_at rows' t k = (if written (d, s)
        then Some \<lparr>st_tenant = t, st_key = k, st_value = s, st_status = ''1''\<rparr> else row_at rows t k)"
      using unique_entry[OF dn d(1)] d(2) unfolding rows' by simp
    show ?thesis
    proof (cases "s_kind d = KSecret \<and> v = JStr []")
      case True
      then have "\<not> written (d, s)"
        using d(4) by (auto simp: written_def validate_setting_def validate_text_def invalid_setting_def split: if_splits)
      then have "effective rows' t d = effective rows t d" using at d(2) by (simp add: effective_def)
      with True now d dg show ?thesis by (auto simp: Let_def)
    next
      case False
      then have "written (d, s)"
        using d(4) decode_validated[OF d(4)] by (auto simp: written_def decode_setting_def)
      then have eff: "effective rows' t d = decode_setting d (RawText s)"
        using at d(2) by (simp add: effective_def)
      have "validate_setting ?cf d (effective rows' t d) = Inr s \<and> (s_kind d = KExtensions \<or> effective rows' t d = v)"
      proof (cases "s_kind d = KExtensions")
        case True
        then show ?thesis
          using validate_extensions_again[OF d(4) dg(1)] decode_extensions[OF d(4)] by (simp add: eff)
      next
        case False
        with decode_validated[OF d(4)] d(4) show ?thesis by (simp add: eff)
      qed
      with False now d dg show ?thesis by (auto simp: Let_def)
    qed
  qed
  have B: "jget (setting_values ?cf rows' t') k = jget (setting_values ?cf rows t') k"
    if "t' \<noteq> t \<or> k \<notin> fst ` set vals" for t' k
  proof -
    have "row_at rows' t' k = row_at rows t' k"
    proof (cases "t' = t")
      case True
      with that have "k \<notin> set (map entry_key norm)" using entries(1) by simp
      then have "find (\<lambda>x. entry_key x = k \<and> written x) norm = None" by (force simp: find_None_iff)
      then show ?thesis unfolding rows' by simp
    qed (simp add: rows' split: option.splits)
    then show ?thesis
      unfolding settings_value_any[OF keys'] settings_value_any[OF keys]
      by (auto simp: effective_def dest!: find_setting_Some split: option.splits)
  qed
  have D: "distinct (map (\<lambda>r. (st_tenant r, st_key r)) rows')"
    using keys' by (simp add: row_key_def[abs_def])
  show ?thesis
    by (intro conjI D ballI allI impI B) (use A in \<open>simp_all only: split_paired_all prod.case\<close>)
qed

section \<open>Concurrent saves\<close>

lemma group_values_keys: "map fst (group_values cf rows g t) = map s_key (group_settings cf g)"
  by (simp add: group_values_def comp_def)

lemma distinct_group: "distinct (map s_key (group_settings cf g))"
  using distinct_settings[of cf] by (simp add: group_settings_def distinct_map_filter)

lemma same_sorted_values:
  assumes "map fst xs = map fst ys" "distinct (map fst xs)" "sort_key fst xs = sort_key fst ys"
  shows "xs = ys"
proof -
  have "set xs = set ys" using assms(3) by (metis set_sort)
  have "map_of xs = map_of ys"
    using \<open>set xs = set ys\<close> assms(1,2) by (intro iffD2[OF map_of_inject_set]) simp_all
  then have "map (\<lambda>k. (k, the (map_of xs k))) (map fst xs) = map (\<lambda>k. (k, the (map_of ys k))) (map fst ys)"
    using assms(1) by simp
  moreover have "map (\<lambda>k. (k, the (map_of zs k))) (map fst zs) = zs" if "distinct (map fst zs)" for zs :: "('a \<times> 'b) list"
    using that by (auto simp: comp_def intro!: map_idI)
  ultimately show ?thesis using assms(1,2) by metis
qed

text \<open>No lost update. A save made with the revision another read of the group handed out
  goes through only if every setting of the group still has the value it had at that read, when
  the keyed hash does not confuse the two states; and it never goes through for a group outside
  the editable ones.\<close>

theorem settings_no_lost_update:
  assumes read: "get_group env rows0 db0 g t = Inr seen"
    and save: "save_group env rows1 db1 g vals (gv_revision seen) t = Inr (view, rows')"
    and mac: "inj_on (se_mac env)
      {JArr [JInt t, JStr g, JObj (sort_key fst (group_values (se_conf env) rows0 g t))],
       JArr [JInt t, JStr g, JObj (sort_key fst (group_values (se_conf env) rows1 g t))]}"
  shows "group_values (se_conf env) rows1 g t = group_values (se_conf env) rows0 g t \<and> g \<in> set SETTING_GROUPS"
proof -
  obtain cur where cur: "get_group env rows1 db1 g t = Inr cur" "gv_revision seen = gv_revision cur"
    by (rule save_group_Inr[OF save])
  have g: "g \<in> set SETTING_GROUPS" using read by (auto simp: get_group_def split: if_splits)
  have "gv_revision seen = group_revision env rows0 g t" "gv_revision cur = group_revision env rows1 g t"
    using read cur(1) g by (auto simp: get_group_def Let_def)
  with cur(2) have "group_revision env rows0 g t = group_revision env rows1 g t" by simp
  then have "JArr [JInt t, JStr g, JObj (sort_key fst (group_values (se_conf env) rows0 g t))] =
      JArr [JInt t, JStr g, JObj (sort_key fst (group_values (se_conf env) rows1 g t))]"
    unfolding group_revision_def by (rule inj_onD[OF mac]) simp_all
  then have "sort_key fst (group_values (se_conf env) rows0 g t) = sort_key fst (group_values (se_conf env) rows1 g t)"
    by (simp only: json.inject list.inject)
  from same_sorted_values[OF _ _ this] g show ?thesis
    by (simp add: group_values_keys distinct_group)
qed

section \<open>Witnesses\<close>

text \<open>Tenant 7 stores two settings; the hash writes the value of a JSON text out.\<close>

definition demo_conf :: app_conf where
  "demo_conf = \<lparr>cf_locale = ''zh-CN'', cf_upload_hard_max = 100 * 1024 * 1024, cf_prod = True,
     cf_site_description = ''admin''\<rparr>"

definition demo_mac :: "json \<Rightarrow> string" where
  "demo_mac j = (case j of
     JArr [_, _, JObj ((_, JStr v) # _)] \<Rightarrow> v | _ \<Rightarrow> ''other'')"

definition demo_env :: settings_env where
  "demo_env = \<lparr>se_conf = demo_conf,
     se_mail = \<lparr>ml_enabled = False, ml_host = [], ml_username = [], ml_password = [], ml_from_email = None\<rparr>,
     se_route = (\<lambda>_. None), se_mac = demo_mac\<rparr>"

definition demo_settings :: "setting_row list" where
  "demo_settings =
     [\<lparr>st_tenant = 7, st_key = ''default_locale'', st_value = ''zh-CN'', st_status = ''1''\<rparr>,
      \<lparr>st_tenant = 7, st_key = ''upload:max_bytes'', st_value = ''2048'', st_status = ''1''\<rparr>]"

definition no_rows :: auth_db where
  "no_rows = \<lparr>scope = \<lparr>db_depts = [], db_role_depts = [], db_user_depts = [], db_users = []\<rparr>,
     rows_users = [], rows_roles = [], links_roles = [], primary_depts = [], role_agents = []\<rparr>"

text \<open>The read of a default integer does not need its digits.\<close>

lemma decode_default_int [simp]: "s_kind d = KInteger \<Longrightarrow> decode_setting d (RawInt i) = JInt i"
  by (simp add: decode_setting_def)

lemma demo_group:
  "group_settings demo_conf ''locale'' =
     [(plain ''default_locale'' ''locale'' KSelect (RawText ''zh-CN''))\<lparr>s_public := True, s_options := [''zh-CN'', ''en-US'']\<rparr>]"
  by (simp add: group_settings_def SETTINGS_def plain_def bounded_int_def demo_conf_def)

lemma demo_values: "group_values demo_conf demo_settings ''locale'' 7 = [(''default_locale'', JStr ''zh-CN'')]"
  unfolding group_values_def demo_group
  by (simp add: setting_values_def stored_values_def SETTINGS_def plain_def bounded_int_def
      demo_settings_def jget_def decode_setting_def)

lemma demo_env_simps: "se_conf demo_env = demo_conf" "se_mac demo_env = demo_mac"
  by (simp_all add: demo_env_def)

lemma demo_read:
  "\<exists>seen. get_group demo_env demo_settings no_rows ''locale'' 7 = Inr seen \<and> gv_revision seen = ''zh-CN''"
  by (simp add: get_group_def Let_def SETTING_GROUPS_def group_revision_def demo_env_simps demo_values demo_mac_def)

lemma demo_save:
  "\<exists>x. save_group demo_env demo_settings no_rows ''locale'' [(''default_locale'', JStr ''en-US'')] ''zh-CN'' 7 = Inr x"
proof -
  have entry: "mapE (validate_entry demo_conf (group_settings demo_conf ''locale'')) [(''default_locale'', JStr ''en-US'')] =
      Inr [(hd (group_settings demo_conf ''locale''), ''en-US'')]"
    by (simp add: validate_entry_def find_setting_def demo_group plain_def validate_setting_def validate_text_def)
  have digest: "compare_digest ''zh-CN'' ''zh-CN'' = Inr True" by code_simp
  obtain seen where seen: "get_group demo_env demo_settings no_rows ''locale'' 7 = Inr seen" "gv_revision seen = ''zh-CN''"
    using demo_read by blast
  have again: "\<exists>v. get_group demo_env rows no_rows ''locale'' 7 = Inr v" for rows
    by (simp add: get_group_def Let_def SETTING_GROUPS_def)
  have "''default_locale'' \<in> set (map s_key (group_settings demo_conf ''locale''))"
    by (simp add: demo_group plain_def)
  with entry digest seen again show ?thesis
    by (simp add: save_group_def Let_def demo_env_simps bindE_eq_Inr)
qed

theorem settings_save_reads_back_witness:
  "\<exists>view rows'. save_group demo_env demo_settings no_rows ''locale'' [(''default_locale'', JStr ''en-US'')]
       ''zh-CN'' 7 = Inr (view, rows') \<and>
     jget (setting_values demo_conf rows' 7) ''default_locale'' = JStr ''en-US'' \<and>
     jget (setting_values demo_conf rows' 7) ''upload:max_bytes'' = jget (setting_values demo_conf demo_settings 7) ''upload:max_bytes''"
proof -
  obtain view rows' where ok: "save_group demo_env demo_settings no_rows ''locale''
      [(''default_locale'', JStr ''en-US'')] ''zh-CN'' 7 = Inr (view, rows')"
    using demo_save by auto
  have "distinct (map (\<lambda>r. (st_tenant r, st_key r)) demo_settings)" by (simp add: demo_settings_def)
  note rb = settings_save_reads_back[OF ok _ this]
  have cf: "se_conf demo_env = demo_conf" by (simp add: demo_env_def)
  have kind: "\<forall>d \<in> set (SETTINGS demo_conf). s_key d = ''default_locale'' \<longrightarrow> s_kind d = KSelect"
    by (simp add: SETTINGS_def plain_def bounded_int_def)
  have "jget (setting_values demo_conf rows' 7) ''default_locale'' = JStr ''en-US''"
    using rb kind by (auto simp: Let_def cf)
  moreover have "jget (setting_values demo_conf rows' 7) ''upload:max_bytes'' = jget (setting_values demo_conf demo_settings 7) ''upload:max_bytes''"
    using rb by (simp add: cf)
  ultimately show ?thesis using ok by blast
qed

theorem settings_no_lost_update_witness:
  "\<exists>seen view rows'. get_group demo_env demo_settings no_rows ''locale'' 7 = Inr seen \<and>
     save_group demo_env demo_settings no_rows ''locale'' [(''default_locale'', JStr ''en-US'')]
       (gv_revision seen) 7 = Inr (view, rows') \<and> ''locale'' \<in> set SETTING_GROUPS"
proof -
  obtain seen where s: "get_group demo_env demo_settings no_rows ''locale'' 7 = Inr seen" "gv_revision seen = ''zh-CN''"
    using demo_read by blast
  obtain view rows' where ok: "save_group demo_env demo_settings no_rows ''locale''
      [(''default_locale'', JStr ''en-US'')] (gv_revision seen) 7 = Inr (view, rows')"
    using demo_save s(2) by auto
  from settings_no_lost_update[OF s(1) ok] s(1) ok show ?thesis by auto
qed

end
