(* ===== verification/Dept_Assignment.thy ===== *)
theory Dept_Assignment
  imports Dept_Tree Role_Assignment Settings
begin

text \<open>
  \<open>app/modules/system/service/user_department_assignment_service.py\<close>: complete replacements of a
  user's department set, of an imported user's, and of a department's member set. The database is
  a \<open>dept_db\<close>; \<open>auth_of\<close> is its view for the authorization services. As in \<open>Role_Assignment\<close>, an
  operation reads \<open>db0\<close> before its locks and \<open>db1\<close> once it holds them; \<open>st\<close> are the settings rows it
  reads then. An assignment is a department id with its primary flag.
\<close>

section \<open>Constants and results\<close>

definition USER_LIST_PERMISSION :: string where "USER_LIST_PERMISSION = ''system:user:list''"
definition DEPT_LIST_PERMISSION :: string where "DEPT_LIST_PERMISSION = ''system:dept:list''"
definition DEPT_EDIT_PERMISSION :: string where "DEPT_EDIT_PERMISSION = ''system:dept:edit''"

type_synonym assignment = "int \<times> bool"

record dept_assignment_result =
  da_user_id :: int
  da_old :: "assignment list"
  da_new :: "assignment list"

text \<open>The display of an assignment is its primary flag, shown as a star, and the department name.\<close>

record dept_assignment_preview =
  dv_user_id :: int
  dv_user_name :: string
  dv_old :: "assignment list"
  dv_new :: "assignment list"
  dv_old_display :: "(bool \<times> string) list"
  dv_new_display :: "(bool \<times> string) list"
  dv_snapshot :: json

record member_record =
  mr_user_id :: int
  mr_user_name :: string
  mr_nickname :: "string option"
  mr_status :: string
  mr_is_member :: bool
  mr_is_primary :: bool

record member_page =
  mp_current :: int
  mp_size :: int
  mp_total :: int
  mp_records :: "member_record list"

record membership_result =
  ms_added :: nat
  ms_removed :: nat

definition role_custom_dept_ids :: "user list \<Rightarrow> int set" where
  "role_custom_dept_ids users =
     set (map dept_id (concat (map role_dept_links (concat (map user_roles users)))))"

definition opt_ids :: "int set option \<Rightarrow> int set" where
  "opt_ids x = (case x of None \<Rightarrow> {} | Some s \<Rightarrow> s)"

section \<open>Requests\<close>

text \<open>\<open>re.fullmatch(r"[1-9][0-9]*", s)\<close>\<close>

definition positive_text :: "string \<Rightarrow> bool" where
  "positive_text s = (case s of [] \<Rightarrow> False | c # r \<Rightarrow> is_dec c \<and> c \<noteq> CHR ''0'' \<and> list_all is_dec r)"

definition dept_not_available :: "'a res" where
  "dept_not_available = Inl (BusinessRule ''USER_DEPT_NOT_AVAILABLE'')"

definition normalize_assignment :: "json \<times> json \<Rightarrow> assignment res" where
  "normalize_assignment x =
     (case snd x of
        JBool primary \<Rightarrow>
          (case (case fst x of
                   JInt i \<Rightarrow> Inr i
                 | JStr s \<Rightarrow> if positive_text s then py_int s else Inl ValueError
                 | _ \<Rightarrow> Inl TypeError) of
             Inl _ \<Rightarrow> dept_not_available
           | Inr i \<Rightarrow> if i \<le> 0 then dept_not_available else Inr (i, primary))
      | _ \<Rightarrow> dept_not_available)"

definition normalize_assignments :: "(json \<times> json) list \<Rightarrow> assignment list res" where
  "normalize_assignments xs =
     bindE (mapE normalize_assignment xs) (\<lambda>norm.
       if card (set (map fst norm)) \<noteq> length norm then Inl (BusinessRule ''USER_DEPT_SET_DUPLICATE'')
       else Inr (sort_key fst norm))"

section \<open>Loads\<close>

definition load_assignments :: "auth_db \<Rightarrow> int \<Rightarrow> int \<Rightarrow> assignment list" where
  "load_assignments a uid t =
     map (\<lambda>(t', u, d). (d, (t', u, d) \<in> set (primary_depts a)))
       (sort_key (\<lambda>(t', u, d). d) (filter (\<lambda>(t', u, d). t' = t \<and> u = uid) (db_user_depts (scope a))))"

definition dept_rows_of :: "dept_db \<Rightarrow> int set \<Rightarrow> int \<Rightarrow> dept_row list" where
  "dept_rows_of db ids t = sort_key dept_id (filter (\<lambda>d. dept_tenant d = t \<and> dept_id d \<in> ids) (dd_depts db))"

definition load_requested_depts :: "dept_db \<Rightarrow> assignment list \<Rightarrow> int \<Rightarrow> dept_row list res" where
  "load_requested_depts db assigns t =
     (if assigns = [] then Inr []
      else let rows = dept_rows_of db (set (map fst assigns)) t
           in if length rows \<noteq> length assigns \<or> (\<exists>d \<in> set rows. dept_status d \<noteq> STATUS_ENABLED)
              then dept_not_available else Inr rows)"

definition load_requested_dept_map :: "dept_db \<Rightarrow> assignment list list \<Rightarrow> int \<Rightarrow> dept_row list res" where
  "load_requested_dept_map db sets t =
     (let ids = set (map fst (concat sets))
      in if ids = {} then Inr []
         else let rows = dept_rows_of db ids t
              in if length rows \<noteq> card ids \<or> (\<exists>d \<in> set rows. dept_status d \<noteq> STATUS_ENABLED)
                 then dept_not_available else Inr rows)"

definition depts_for_assignments :: "dept_row list \<Rightarrow> assignment list \<Rightarrow> dept_row list res" where
  "depts_for_assignments rows assigns =
     mapE (\<lambda>(i, p). case find (\<lambda>d. dept_id d = i) rows of None \<Rightarrow> Inl KeyError | Some d \<Rightarrow> Inr d) assigns"

definition load_import_roles :: "auth_db \<Rightarrow> int list \<Rightarrow> int \<Rightarrow> role list res" where
  "load_import_roles a ids t =
     (if card (set ids) \<noteq> length ids \<or> (\<exists>i \<in> set ids. i \<le> 0) then Inl (BusinessRule ''USER_ROLE_NOT_AVAILABLE'')
      else let roles = roles_by_ids a (set ids) t
           in if length roles \<noteq> length ids \<or> (\<exists>r \<in> set roles. role_status r \<noteq> STATUS_ENABLED)
              then Inl (BusinessRule ''USER_ROLE_NOT_AVAILABLE'') else Inr roles)"

section \<open>Writes\<close>

definition set_links :: "dept_db \<Rightarrow> (int \<times> int \<times> int) list \<Rightarrow> (int \<times> int \<times> int) list \<Rightarrow> dept_db" where
  "set_links db links prims =
     db\<lparr>dd_auth := (dd_auth db)\<lparr>scope := (scope (dd_auth db))\<lparr>db_user_depts := links\<rparr>, primary_depts := prims\<rparr>\<rparr>"

definition delete_links :: "(int \<times> int \<times> int \<Rightarrow> bool) \<Rightarrow> dept_db \<Rightarrow> dept_db" where
  "delete_links P db =
     set_links db (filter (\<lambda>x. \<not> P x) (db_user_depts (scope (dd_auth db))))
       (filter (\<lambda>x. \<not> P x) (primary_depts (dd_auth db)))"

text \<open>An insert into the association table fails on a row whose user or department the tenant does
  not have and on a key that is taken.\<close>

definition insert_links :: "dept_db \<Rightarrow> int \<Rightarrow> (int \<times> int \<times> bool) list \<Rightarrow> dept_db res" where
  "insert_links db t xs =
     (let keys = map (\<lambda>(u, d, p). (t, u, d)) xs; links = db_user_depts (scope (dd_auth db))
      in if (\<forall>(t', u, d) \<in> set keys. (\<exists>r \<in> set (rows_users (dd_auth db)). user_tenant r = t \<and> user_id r = u) \<and>
               (\<exists>r \<in> set (dd_depts db). dept_tenant r = t \<and> dept_id r = d) \<and> (t', u, d) \<notin> set links) \<and>
            distinct keys
         then Inr (set_links db (links @ keys)
                (primary_depts (dd_auth db) @ map (\<lambda>(u, d, p). (t, u, d)) (filter (\<lambda>(u, d, p). p) xs)))
         else Inl IntegrityError)"

definition write_assignments :: "dept_db \<Rightarrow> int \<Rightarrow> assignment list \<Rightarrow> int \<Rightarrow> dept_db res" where
  "write_assignments db uid assigns t =
     (let db' = delete_links (\<lambda>x. fst x = t \<and> fst (snd x) = uid) db
      in if assigns = [] then Inr db' else insert_links db' t (map (\<lambda>(d, p). (uid, d, p)) assigns))"

section \<open>Guards\<close>

definition ensure_primary_policy :: "assignment list \<Rightarrow> bool \<Rightarrow> unit res" where
  "ensure_primary_policy assigns required =
     (let n = length (filter snd assigns)
      in if 1 < n then Inl (BusinessRule ''USER_PRIMARY_DEPT_MULTIPLE'')
         else if required \<and> (assigns = [] \<or> n \<noteq> 1) then Inl (BusinessRule ''USER_PRIMARY_DEPT_REQUIRED'')
         else Inr ())"

definition ensure_account_protection :: "grant_authority \<Rightarrow> user \<Rightarrow> role list \<Rightarrow> unit res" where
  "ensure_account_protection auth target prospective =
     guardE (super_admin auth \<or> \<not> (user_name target = ADMIN_USERNAME \<or>
         (\<exists>r \<in> set (user_roles target @ prospective).
            role_status r = STATUS_ENABLED \<and> role_code r = SUPER_ADMIN_ROLE_CODE)))
       (Authorization ''AI_SUPER_ADMIN_REQUIRED'')"

definition ensure_direct_scope ::
    "grant_authority \<Rightarrow> int \<Rightarrow> assignment list \<Rightarrow> assignment list \<Rightarrow> bool \<Rightarrow> unit res" where
  "ensure_direct_scope auth target_id old new created =
     bindE (guardE (created \<or> super_admin auth \<or>
               (case ga_user_ids auth of None \<Rightarrow> True | Some us \<Rightarrow> target_id \<in> us))
             (Authorization ''AI_DATA_SCOPE_VIOLATION'')) (\<lambda>_.
       guardE (super_admin auth \<or>
           (case ga_dept_ids auth of None \<Rightarrow> True | Some ds \<Rightarrow> set (map fst (old @ new)) \<subseteq> ds))
         (Authorization ''AI_DATA_SCOPE_VIOLATION''))"

definition ensure_impact_dominated :: "grant_authority \<Rightarrow> role_set_authority \<Rightarrow> int set \<Rightarrow> unit res" where
  "ensure_impact_dominated auth cand ignored =
     (case ensure_role_set_dominated auth cand ignored of
        Inl (Authorization _) \<Rightarrow> Inl (Authorization ''AI_USER_DEPT_AUTHZ_IMPACT_OUT_OF_SCOPE'')
      | r \<Rightarrow> r)"

definition ensure_department_scope :: "grant_authority \<Rightarrow> int \<Rightarrow> unit res" where
  "ensure_department_scope auth d =
     guardE (super_admin auth \<or> (case ga_dept_ids auth of None \<Rightarrow> True | Some ds \<Rightarrow> d \<in> ds))
       (Authorization ''AI_DATA_SCOPE_VIOLATION'')"

definition ensure_member_scope :: "grant_authority \<Rightarrow> int set \<Rightarrow> unit res" where
  "ensure_member_scope auth users =
     guardE (super_admin auth \<or> (case ga_user_ids auth of None \<Rightarrow> True | Some us \<Rightarrow> users \<subseteq> us))
       (Authorization ''DEPT_MEMBERSHIP_GLOBAL_IMPACT_OUT_OF_SCOPE'')"

definition require_primary_setting :: "setting_row list \<Rightarrow> int \<Rightarrow> bool" where
  "require_primary_setting st t = settings_get_bool st ''user_require_primary_dept'' False t"

definition plain_depts :: "dept_row list \<Rightarrow> dept list" where
  "plain_depts rows = map dept.truncate rows"

text \<open>\<open>require\<close>, \<open>old\<close> and \<open>new\<close> authority are given or read here.\<close>

definition authorize_assignment_change ::
    "auth_db \<Rightarrow> setting_row list \<Rightarrow> grant_authority \<Rightarrow> user \<Rightarrow> assignment list \<Rightarrow> assignment list \<Rightarrow>
     dept list \<Rightarrow> role list option \<Rightarrow> bool \<Rightarrow> int set \<Rightarrow> bool option \<Rightarrow>
     (role_set_authority \<times> role_set_authority) option \<Rightarrow> int \<Rightarrow> (role_set_authority \<times> role_set_authority) res" where
  "authorize_assignment_change a st auth target old new depts prospective created ignored req pair t =
     (let final_roles = (case prospective of None \<Rightarrow> user_roles target | Some rs \<Rightarrow> rs);
          ign = (if created then insert (user_id target) ignored else ignored)
      in bindE (ensure_direct_scope auth (user_id target) old new created) (\<lambda>_.
         bindE (ensure_account_protection auth target final_roles) (\<lambda>_.
         bindE (ensure_primary_policy new
                  (case req of None \<Rightarrow> require_primary_setting st t | Some b \<Rightarrow> b)) (\<lambda>_.
         bindE (case pair of Some x \<Rightarrow> Inr (fst x)
                | None \<Rightarrow> materialize_role_set_authority a target (user_roles target) (Some (user_depts target)) t) (\<lambda>oa.
         bindE (case pair of Some x \<Rightarrow> Inr (snd x)
                | None \<Rightarrow> materialize_role_set_authority a target final_roles (Some depts) t) (\<lambda>na.
         bindE (if created then Inr () else ensure_impact_dominated auth oa ign) (\<lambda>_.
         bindE (ensure_impact_dominated auth na ign) (\<lambda>_. Inr (oa, na)))))))))"

section \<open>Dependencies\<close>

definition materialized_dept_dependencies :: "auth_db \<Rightarrow> user \<Rightarrow> dept list \<Rightarrow> int \<Rightarrow> int set res" where
  "materialized_dept_dependencies a u depts t =
     bindE (resolve_data_scope_for_roles (scope a) u (user_roles u) (Some depts) t) (\<lambda>res.
       Inr (opt_ids (accessible_dept_ids res)))"

definition lock_dependencies ::
    "auth_db \<Rightarrow> auth_db \<Rightarrow> user \<Rightarrow> user \<Rightarrow> dept list \<Rightarrow> grant_authority \<Rightarrow> int \<Rightarrow>
     (int list \<times> int list \<times> int list) res" where
  "lock_dependencies a0 a1 actor target depts auth t =
     bindE (materialized_dept_dependencies a0 target (user_depts target) t) (\<lambda>old_scope.
     bindE (materialized_dept_dependencies a0 target depts t) (\<lambda>new_scope.
       lock_targets a1
         (set (role_ids_of (user_roles actor)) \<union> set (role_ids_of (user_roles target)))
         (set (user_dept_ids actor) \<union> set (user_dept_ids target) \<union> set (map dept_id depts) \<union>
          role_custom_dept_ids [actor, target] \<union> opt_ids (ga_dept_ids auth) \<union> old_scope \<union> new_scope)
         {user_id actor, user_id target} t))"

definition live_dependency_ids ::
    "user \<Rightarrow> user \<Rightarrow> dept list \<Rightarrow> grant_authority \<Rightarrow> role_set_authority \<Rightarrow> role_set_authority \<Rightarrow> int set" where
  "live_dependency_ids actor target depts auth oa na =
     set (user_dept_ids actor) \<union> set (user_dept_ids target) \<union> set (map dept_id depts) \<union>
     role_custom_dept_ids [actor, target] \<union> opt_ids (ga_dept_ids auth) \<union> opt_ids (rsa_dept_ids oa) \<union>
     opt_ids (rsa_dept_ids na)"

definition snapshot_stale :: "'a res" where
  "snapshot_stale = Inl (BusinessRule ''AUTHORIZATION_SNAPSHOT_STALE'')"

section \<open>Preview\<close>

definition assignment_payload :: "assignment list \<Rightarrow> json" where
  "assignment_payload assigns =
     JArr (map (\<lambda>(d, p). JObj [(''deptId'', JStr (show_int d)), (''isPrimary'', JBool p)]) assigns)"

definition assignment_display :: "assignment list \<Rightarrow> dept_row list \<Rightarrow> (bool \<times> string) list res" where
  "assignment_display assigns rows =
     mapE (\<lambda>(i, p). case find (\<lambda>d. dept_id d = i) rows of
         None \<Rightarrow> Inl KeyError | Some d \<Rightarrow> Inr (p, dr_name d)) assigns"

definition jopt :: "string option \<Rightarrow> json" where
  "jopt x = (case x of None \<Rightarrow> JNull | Some s \<Rightarrow> JStr s)"

definition dept_fact :: "dept_row \<Rightarrow> json" where
  "dept_fact d = JObj
     [(''deptId'', JStr (show_int (dept_id d))), (''deptName'', JStr (dr_name d)),
      (''parentId'', case dr_parent d of None \<Rightarrow> JNull | Some p \<Rightarrow> if p = 0 then JNull else JStr (show_int p)),
      (''ancestors'', jopt (dept_ancestors d)), (''status'', JStr (dept_status d))]"

definition dept_replacement_snapshot ::
    "(json \<Rightarrow> string) \<Rightarrow> grant_authority \<Rightarrow> user \<Rightarrow> assignment list \<Rightarrow> assignment list \<Rightarrow>
     role_set_authority \<Rightarrow> role_set_authority \<Rightarrow> bool \<Rightarrow> dept_row list \<Rightarrow> json" where
  "dept_replacement_snapshot h auth target old new oa na req rows =
     JObj [(''actor'', JObj [
             (''userId'', JStr (show_int (actor_user_id auth))), (''status'', JStr (actor_status auth)),
             (''tenantId'', JStr (show_int (ga_tenant_id auth))), (''superAdmin'', JBool (super_admin auth)),
             (''authorityVersion'', JStr (version_summary auth))]),
           (''target'', JObj [
             (''userId'', JStr (show_int (user_id target))), (''userName'', JStr (user_name target)),
             (''status'', JStr (user_status target)), (''roleIds'', jids (role_ids_of (user_roles target)))]),
           (''oldAssignments'', assignment_payload old),
           (''newAssignments'', assignment_payload new),
           (''departmentFacts'', JArr (map dept_fact (sort_key dept_id rows))),
           (''requirePrimaryDepartment'', JBool req),
           (''before'', materialized_role_set_snapshot h oa),
           (''after'', materialized_role_set_snapshot h na)]"

text \<open>\<open>dept_map\<close>: the rows of the target's departments and of the requested ones.\<close>

definition known_dept_rows :: "dept_db \<Rightarrow> user \<Rightarrow> dept_row list \<Rightarrow> int \<Rightarrow> dept_row list" where
  "known_dept_rows db target requested t =
     dept_rows_of db (set (map dept_id (user_depts target)) \<union> set (map dept_id requested)) t"

definition preview_departments ::
    "(json \<Rightarrow> string) \<Rightarrow> (auth_db \<Rightarrow> user \<Rightarrow> int set) \<Rightarrow> dept_db \<Rightarrow> setting_row list \<Rightarrow> int \<Rightarrow> int \<Rightarrow>
     (json \<times> json) list \<Rightarrow> int \<Rightarrow> dept_assignment_preview res" where
  "preview_departments h vis db st actor_id target_id raw t =
     (let a = auth_of db
      in bindE (normalize_assignments raw) (\<lambda>norm.
         bindE (build_authority h vis a actor_id t) (\<lambda>auth.
         bindE (require_permissions auth {USER_EDIT_PERMISSION, DEPT_LIST_PERMISSION}) (\<lambda>_.
         bindE (require_user a target_id t) (\<lambda>target.
           let old = load_assignments a target_id t
           in bindE (load_requested_depts db norm t) (\<lambda>requested.
              let req = require_primary_setting st t
              in bindE (authorize_assignment_change a st auth target old norm (plain_depts requested) None False {}
                          (Some req) None t) (\<lambda>(oa, na).
                 let rows = known_dept_rows db target requested t
                 in bindE (assignment_display old rows) (\<lambda>old_display.
                    bindE (assignment_display norm rows) (\<lambda>new_display.
                    Inr \<lparr>dv_user_id = user_id target, dv_user_name = user_name target,
                         dv_old = old, dv_new = norm, dv_old_display = old_display, dv_new_display = new_display,
                         dv_snapshot = dept_replacement_snapshot h auth target old norm oa na req rows\<rparr>)))))))))"

section \<open>Replacement\<close>

definition assignment_facts_changed ::
    "user \<Rightarrow> user \<Rightarrow> user \<Rightarrow> user \<Rightarrow> assignment list \<Rightarrow> assignment list \<Rightarrow> bool" where
  "assignment_facts_changed actor0 actor1 target0 target1 assigns0 assigns1 \<longleftrightarrow>
     facts_changed actor0 actor1 \<or> role_ids_of (user_roles target1) \<noteq> role_ids_of (user_roles target0) \<or>
     assigns1 \<noteq> assigns0"

definition check_expected_depts ::
    "(json \<Rightarrow> string) \<Rightarrow> dept_db \<Rightarrow> grant_authority \<Rightarrow> user \<Rightarrow> assignment list \<Rightarrow> assignment list \<Rightarrow>
     role_set_authority \<times> role_set_authority \<Rightarrow> bool \<Rightarrow> dept_row list \<Rightarrow> json option \<Rightarrow> int \<Rightarrow> unit res" where
  "check_expected_depts h db auth target old new pair req requested expected t = (case expected of
       None \<Rightarrow> Inr ()
     | Some want \<Rightarrow>
         guardE (json_eq (dept_replacement_snapshot h auth target old new (fst pair) (snd pair) req
                    (known_dept_rows db target requested t)) want)
           (BusinessRule ''AI_PREPARED_ACTION_SNAPSHOT_STALE''))"

definition replace_departments_core ::
    "(json \<Rightarrow> string) \<Rightarrow> (auth_db \<Rightarrow> user \<Rightarrow> int set) \<Rightarrow> dept_db \<Rightarrow> dept_db \<Rightarrow> setting_row list \<Rightarrow>
     int \<Rightarrow> int \<Rightarrow> (json \<times> json) list \<Rightarrow> string set \<Rightarrow> bool \<Rightarrow> int set \<Rightarrow> json option \<Rightarrow> int \<Rightarrow>
     (dept_assignment_result \<times> dept_db) res" where
  "replace_departments_core h vis db0 db1 st actor_id target_id raw required created ignored expected t =
     (let a0 = auth_of db0; a1 = auth_of db1
      in bindE (normalize_assignments raw) (\<lambda>norm.
         bindE (require_user a0 actor_id t) (\<lambda>actor0.
         bindE (build_authority h vis a0 actor_id t) (\<lambda>auth0.
         bindE (require_permissions auth0 required) (\<lambda>_.
         bindE (require_user a0 target_id t) (\<lambda>target0.
           let assigns0 = load_assignments a0 target_id t
           in bindE (if created \<and> assigns0 \<noteq> [] then snapshot_stale else Inr ()) (\<lambda>_.
              bindE (ensure_direct_scope auth0 target_id assigns0 norm created) (\<lambda>_.
              bindE (ensure_account_protection auth0 target0 []) (\<lambda>_.
              bindE (load_requested_depts db0 norm t) (\<lambda>requested0.
              bindE (lock_dependencies a0 a1 actor0 target0 (plain_depts requested0) auth0 t) (\<lambda>locked.
              bindE (require_user a1 actor_id t) (\<lambda>actor1.
              bindE (require_user a1 target_id t) (\<lambda>target1.
                let assigns1 = load_assignments a1 target_id t
                in bindE (if assignment_facts_changed actor0 actor1 target0 target1 assigns0 assigns1
                          then snapshot_stale else Inr ()) (\<lambda>_.
                   bindE (build_authority h vis a1 actor_id t) (\<lambda>auth.
                   bindE (require_permissions auth required) (\<lambda>_.
                   bindE (load_requested_depts db1 norm t) (\<lambda>requested.
                   let req = require_primary_setting st t
                   in bindE (authorize_assignment_change a1 st auth target1 assigns1 norm (plain_depts requested)
                               None created ignored (Some req) None t) (\<lambda>pair.
                      bindE (if live_dependency_ids actor1 target1 (plain_depts requested) auth (fst pair) (snd pair)
                                  \<subseteq> set (fst (snd locked))
                             then Inr () else snapshot_stale) (\<lambda>_.
                      bindE (check_expected_depts h db1 auth target1 assigns1 norm pair req requested expected t) (\<lambda>_.
                      bindE (write_assignments db1 target_id norm t) (\<lambda>db2.
                      Inr (\<lparr>da_user_id = target_id, da_old = assigns1, da_new = norm\<rparr>, db2))))))))))))))))))))))"

definition replace_departments where
  "replace_departments h vis db0 db1 st actor_id target_id raw expected t =
     replace_departments_core h vis db0 db1 st actor_id target_id raw
       {USER_EDIT_PERMISSION, DEPT_LIST_PERMISSION} False {} expected t"

definition dept_create_permissions :: "bool \<Rightarrow> string set" where
  "dept_create_permissions has_departments =
     (if has_departments then {USER_ADD_PERMISSION, DEPT_LIST_PERMISSION} else {USER_ADD_PERMISSION})"

definition dept_import_permissions :: "string set" where
  "dept_import_permissions = {USER_IMPORT_PERMISSION, DEPT_LIST_PERMISSION}"

definition ensure_dept_create_permissions where
  "ensure_dept_create_permissions h vis a actor_id has_departments t =
     ensure_entry h vis a actor_id (dept_create_permissions has_departments) t"

definition ensure_dept_import_permissions where
  "ensure_dept_import_permissions h vis a actor_id t = ensure_entry h vis a actor_id dept_import_permissions t"

definition assign_created_user_departments where
  "assign_created_user_departments h vis db0 db1 st actor_id target_id raw t =
     replace_departments_core h vis db0 db1 st actor_id target_id raw
       (dept_create_permissions (raw \<noteq> [])) True {} None t"

definition replace_imported_user_departments where
  "replace_imported_user_departments h vis db0 db1 st actor_id target_id raw created ignored t =
     replace_departments_core h vis db0 db1 st actor_id target_id raw dept_import_permissions created ignored None t"

section \<open>Imports\<close>

definition validate_import_department_assignment where
  "validate_import_department_assignment h vis db st actor_id target_id name status role_ids raw authority
     prospective_id fresh ignored t =
     (let a = auth_of db; created = (target_id = None)
      in bindE (normalize_assignments raw) (\<lambda>norm.
         bindE (load_requested_depts db norm t) (\<lambda>requested.
         bindE (load_import_roles a role_ids t) (\<lambda>roles.
         bindE (case target_id of
                  None \<Rightarrow> Inr ((import_target prospective_id fresh name status t)\<lparr>user_roles := roles\<rparr>, [])
                | Some i \<Rightarrow> bindE (require_user a i t) (\<lambda>u. Inr (u, load_assignments a i t))) (\<lambda>(target, old).
         bindE (case authority of Some x \<Rightarrow> Inr x | None \<Rightarrow> build_authority h vis a actor_id t) (\<lambda>auth.
         bindE (authorize_assignment_change a st auth target old norm (plain_depts requested) (Some roles)
                  created ignored None None t) (\<lambda>_. Inr ())))))))"

definition apply_locked_import_departments ::
    "dept_db \<Rightarrow> int \<Rightarrow> (json \<times> json) list \<Rightarrow> int \<Rightarrow> (dept_assignment_result \<times> dept_db) res" where
  "apply_locked_import_departments db target_id raw t =
     bindE (normalize_assignments raw) (\<lambda>norm.
     bindE (write_assignments db target_id norm t) (\<lambda>db'.
     Inr (\<lparr>da_user_id = target_id, da_old = load_assignments (auth_of db) target_id t, da_new = norm\<rparr>, db')))"

section \<open>Department members\<close>

text \<open>The member map of a department, as the set of its items.\<close>

definition load_member_map :: "auth_db \<Rightarrow> int \<Rightarrow> int \<Rightarrow> assignment set" where
  "load_member_map a dept t =
     set (map (\<lambda>(t', u, d). (u, (t', u, d) \<in> set (primary_depts a)))
       (filter (\<lambda>(t', u, d). t' = t \<and> d = dept) (db_user_depts (scope a))))"

text \<open>Parent, path and status of every department, which must all be found.\<close>

definition load_department_snapshot ::
    "dept_db \<Rightarrow> int set \<Rightarrow> int \<Rightarrow> (int \<times> int option \<times> string option \<times> string) list res" where
  "load_department_snapshot db ids t =
     (if ids = {} then Inr []
      else let rows = dept_rows_of db ids t
           in if length rows \<noteq> card ids then snapshot_stale
              else Inr (map (\<lambda>d. (dept_id d, dr_parent d, dept_ancestors d, dept_status d)) rows))"

definition load_all_users :: "auth_db \<Rightarrow> int list \<Rightarrow> exn \<Rightarrow> int \<Rightarrow> user list res" where
  "load_all_users a ids e t =
     mapE (\<lambda>i. case load_user a i t of None \<Rightarrow> Inl e | Some u \<Rightarrow> Inr u) ids"

definition member_not_available :: exn where
  "member_not_available = BusinessRule ''USER_DEPT_MEMBER_NOT_AVAILABLE''"

definition normalize_member :: "json \<Rightarrow> int res" where
  "normalize_member v =
     (case v of
        JInt i \<Rightarrow> Inr i
      | JStr s \<Rightarrow> if positive_text s then py_int s else Inl member_not_available
      | _ \<Rightarrow> Inl member_not_available)"

definition normalize_members :: "json list \<Rightarrow> int list res" where
  "normalize_members raw =
     bindE (mapE normalize_member raw) (\<lambda>ids.
       if card (set ids) \<noteq> length ids \<or> (\<exists>i \<in> set ids. i \<le> 0) then Inl member_not_available else Inr ids)"

text \<open>\<open>nick\<close> is the nickname column; \<open>lower\<close> is the database's, under which \<open>ILIKE\<close> compares. Page
  number and size are at least 1.\<close>

definition nickname_of :: "dept_db \<Rightarrow> user \<Rightarrow> string option" where
  "nickname_of db u =
     (case find (\<lambda>(t, i, n, k). t = user_tenant u \<and> i = user_id u) (dd_names db) of
        None \<Rightarrow> None | Some (t, i, n, k) \<Rightarrow> k)"

definition ilike :: "(string \<Rightarrow> string) \<Rightarrow> string \<Rightarrow> string \<Rightarrow> bool" where
  "ilike lower pattern s = sql_like (lower pattern) (lower s)"

definition member_candidates ::
    "(string \<Rightarrow> string) \<Rightarrow> dept_db \<Rightarrow> grant_authority \<Rightarrow> int set \<Rightarrow> string \<Rightarrow> int \<Rightarrow> user list" where
  "member_candidates lower db auth members q t =
     sort_key user_id (filter (\<lambda>u. user_tenant u = t \<and>
         (user_status u = STATUS_ENABLED \<or> user_id u \<in> members) \<and>
         (case ga_user_ids auth of None \<Rightarrow> True | Some us \<Rightarrow> user_id u \<in> us) \<and>
         (q = [] \<or> ilike lower (''%'' @ q @ ''%'') (user_name u) \<or>
          (case nickname_of db u of None \<Rightarrow> False | Some k \<Rightarrow> ilike lower (''%'' @ q @ ''%'') k)))
       (rows_users (dd_auth db)))"

definition list_department_members ::
    "(json \<Rightarrow> string) \<Rightarrow> (auth_db \<Rightarrow> user \<Rightarrow> int set) \<Rightarrow> (string \<Rightarrow> string) \<Rightarrow> dept_db \<Rightarrow> int \<Rightarrow> int \<Rightarrow>
     string option \<Rightarrow> int \<Rightarrow> int \<Rightarrow> int \<Rightarrow> member_page res" where
  "list_department_members h vis lower db actor_id dept query current psize t =
     (let a = auth_of db
      in bindE (build_authority h vis a actor_id t) (\<lambda>auth.
         bindE (require_permissions auth {DEPT_LIST_PERMISSION, DEPT_EDIT_PERMISSION, USER_LIST_PERMISSION}) (\<lambda>_.
         bindE (load_department (dd_depts db) dept t) (\<lambda>_.
         bindE (ensure_department_scope auth dept) (\<lambda>_.
           let members = load_member_map a dept t; ids = fst ` members
           in bindE (ensure_member_scope auth ids) (\<lambda>_.
              let users = member_candidates lower db auth ids (py_strip (or_empty query)) t
              in Inr \<lparr>mp_current = current, mp_size = psize, mp_total = int (length users),
                   mp_records = map (\<lambda>u. \<lparr>mr_user_id = user_id u, mr_user_name = user_name u,
                        mr_nickname = nickname_of db u, mr_status = user_status u,
                        mr_is_member = user_id u \<in> ids, mr_is_primary = (user_id u, True) \<in> members\<rparr>)
                      (take (nat psize) (drop (nat ((current - 1) * psize)) users))\<rparr>))))))"

section \<open>Replacing the members of a department\<close>

definition prospective_assignments :: "int \<Rightarrow> int set \<Rightarrow> int \<Rightarrow> assignment list \<Rightarrow> assignment list" where
  "prospective_assignments dept to_add uid old =
     (if uid \<in> to_add then sort_key fst (old @ [(dept, False)]) else filter (\<lambda>x. fst x \<noteq> dept) old)"

text \<open>What one read of the database gives for the affected users: each with its assignments, its
  prospective assignments and the departments of those.\<close>

type_synonym member_change = "user \<times> assignment list \<times> assignment list \<times> dept list"

definition member_changes ::
    "dept_db \<Rightarrow> user list \<Rightarrow> assignment list list \<Rightarrow> assignment list list \<Rightarrow> int \<Rightarrow> member_change list res" where
  "member_changes db users olds news t =
     bindE (load_requested_dept_map db news t) (\<lambda>rows.
     bindE (mapE (depts_for_assignments rows) news) (\<lambda>depts.
     Inr (zip users (zip olds (zip news (map plain_depts depts))))))"

definition change_candidates :: "member_change list \<Rightarrow> candidate list" where
  "change_candidates cs =
     concat (map (\<lambda>(u, old, new, ds). [(u, user_roles u, user_depts u), (u, user_roles u, ds)]) cs)"

fun pair_up :: "'a list \<Rightarrow> ('a \<times> 'a) list" where
  "pair_up (x # y # xs) = (x, y) # pair_up xs"
| "pair_up _ = []"

definition member_dependencies ::
    "int \<Rightarrow> user \<Rightarrow> grant_authority \<Rightarrow> member_change list \<Rightarrow> (role_set_authority \<times> role_set_authority) list \<Rightarrow> int set" where
  "member_dependencies dept actor auth cs pairs =
     {dept} \<union> set (user_dept_ids actor) \<union> role_custom_dept_ids (actor # map fst cs) \<union> opt_ids (ga_dept_ids auth) \<union>
     (\<Union>p \<in> set pairs. opt_ids (rsa_dept_ids (fst p)) \<union> opt_ids (rsa_dept_ids (snd p))) \<union>
     (\<Union>c \<in> set cs. case c of (u, old, new, ds) \<Rightarrow> set (map fst (old @ new)))"

definition authorize_member_change ::
    "auth_db \<Rightarrow> setting_row list \<Rightarrow> grant_authority \<Rightarrow> user \<Rightarrow> bool \<Rightarrow> int set \<Rightarrow> int \<Rightarrow>
     member_change \<times> role_set_authority \<times> role_set_authority \<Rightarrow> unit res" where
  "authorize_member_change a st auth actor req locked t c =
     (case c of ((u, old, new, ds), pair) \<Rightarrow>
        bindE (authorize_assignment_change a st auth u old new ds None False {} (Some req) (Some pair) t) (\<lambda>(oa, na).
          if live_dependency_ids actor u ds auth oa na \<subseteq> locked then Inr () else snapshot_stale))"

definition write_members :: "dept_db \<Rightarrow> int \<Rightarrow> int set \<Rightarrow> int set \<Rightarrow> int \<Rightarrow> dept_db res" where
  "write_members db dept to_add to_remove t =
     (let db' = (if to_remove = {} then db
                 else delete_links (\<lambda>x. fst x = t \<and> snd (snd x) = dept \<and> fst (snd x) \<in> to_remove) db)
      in if to_add = {} then Inr db'
         else insert_links db' t (map (\<lambda>u. (u, dept, False)) (sorted_list_of_set to_add)))"

text \<open>The part before the locks: what is read, and the change of every affected user.\<close>

record member_plan =
  pl_actor :: user
  pl_authority :: grant_authority
  pl_dept :: dept_row
  pl_members :: "assignment set"
  pl_requested :: "int set"
  pl_changes :: "member_change list"
  pl_authorities :: "role_set_authority list"
  pl_dependencies :: "int set"
  pl_snapshot :: "(int \<times> int option \<times> string option \<times> string) list"

definition member_permissions :: "string set" where
  "member_permissions = {DEPT_LIST_PERMISSION, DEPT_EDIT_PERMISSION, USER_EDIT_PERMISSION}"

definition plan_members ::
    "(json \<Rightarrow> string) \<Rightarrow> (auth_db \<Rightarrow> user \<Rightarrow> int set) \<Rightarrow> dept_db \<Rightarrow> int \<Rightarrow> int \<Rightarrow> int list \<Rightarrow> int \<Rightarrow> member_plan res" where
  "plan_members h vis db actor_id dept ids t =
     (let a = auth_of db; requested = set ids
      in bindE (require_user a actor_id t) (\<lambda>actor.
         bindE (build_authority h vis a actor_id t) (\<lambda>auth.
         bindE (require_permissions auth member_permissions) (\<lambda>_.
         bindE (load_department (dd_depts db) dept t) (\<lambda>drow.
         bindE (ensure_department_scope auth dept) (\<lambda>_.
           let members = load_member_map a dept t; current = fst ` members;
               to_add = requested - current; to_remove = current - requested;
               affected = sorted_list_of_set (to_add \<union> to_remove)
           in bindE (ensure_member_scope auth (current \<union> requested)) (\<lambda>_.
              bindE (guardE (\<not> (\<exists>u \<in> to_remove. (u, True) \<in> members))
                       (BusinessRule ''USER_PRIMARY_DEPT_REASSIGN_REQUIRED'')) (\<lambda>_.
              bindE (load_all_users a affected member_not_available t) (\<lambda>users.
              bindE (guardE (\<forall>u \<in> set users. user_id u \<in> to_add \<longrightarrow> user_status u = STATUS_ENABLED)
                       member_not_available) (\<lambda>_.
              bindE (if to_add \<noteq> {} \<and> dept_status drow \<noteq> STATUS_ENABLED then dept_not_available else Inr ()) (\<lambda>_.
                let olds = map (\<lambda>u. load_assignments a (user_id u) t) users;
                    news = map (\<lambda>(u, old). prospective_assignments dept to_add (user_id u) old) (zip users olds)
                in bindE (member_changes db users olds news t) (\<lambda>cs.
                   bindE (materialize_role_set_authorities a (change_candidates cs) [] t) (\<lambda>ms.
                     let deps = member_dependencies dept actor auth cs (pair_up ms)
                     in bindE (load_department_snapshot db deps t) (\<lambda>snap.
                        Inr \<lparr>pl_actor = actor, pl_authority = auth, pl_dept = drow, pl_members = members,
                             pl_requested = requested, pl_changes = cs, pl_authorities = ms,
                             pl_dependencies = deps, pl_snapshot = snap\<rparr>))))))))))))))"

definition plan_to_add :: "member_plan \<Rightarrow> int set" where
  "plan_to_add p = pl_requested p - fst ` pl_members p"

definition plan_to_remove :: "member_plan \<Rightarrow> int set" where
  "plan_to_remove p = fst ` pl_members p - pl_requested p"

definition member_facts :: "user \<Rightarrow> assignment list \<Rightarrow> int list \<times> assignment list \<times> string" where
  "member_facts u old = (role_ids_of (user_roles u), old, user_status u)"

definition lock_members :: "auth_db \<Rightarrow> member_plan \<Rightarrow> int \<Rightarrow> int \<Rightarrow> (int list \<times> int list \<times> int list) res" where
  "lock_members a p actor_id t =
     lock_targets a
       (set (role_ids_of (user_roles (pl_actor p))) \<union>
        (\<Union>c \<in> set (pl_changes p). set (role_ids_of (user_roles (fst c)))))
       (pl_dependencies p) ({actor_id} \<union> fst ` pl_members p \<union> pl_requested p) t"

text \<open>The checks under the locks, against the plan.\<close>

definition recheck_members ::
    "(json \<Rightarrow> string) \<Rightarrow> (auth_db \<Rightarrow> user \<Rightarrow> int set) \<Rightarrow> dept_db \<Rightarrow> setting_row list \<Rightarrow> member_plan \<Rightarrow> int set \<Rightarrow>
     int \<Rightarrow> int \<Rightarrow> int \<Rightarrow> member_change list res" where
  "recheck_members h vis db st p locked actor_id dept t =
     (let a = auth_of db; users0 = fst ` pl_members p \<union> pl_requested p
      in bindE (require_user a actor_id t) (\<lambda>actor.
         bindE (build_authority h vis a actor_id t) (\<lambda>auth.
         bindE (load_department (dd_depts db) dept t) (\<lambda>drow.
           let members = load_member_map a dept t
           in bindE (if facts_changed (pl_actor p) actor \<or> version_summary auth \<noteq> version_summary (pl_authority p) \<or>
                        dept_status drow \<noteq> dept_status (pl_dept p) \<or> members \<noteq> pl_members p
                     then snapshot_stale else load_department_snapshot db (pl_dependencies p) t) (\<lambda>snap.
              bindE (if snap \<noteq> pl_snapshot p then snapshot_stale else Inr ()) (\<lambda>_.
              bindE (require_permissions auth member_permissions) (\<lambda>_.
              bindE (ensure_department_scope auth dept) (\<lambda>_.
              bindE (ensure_member_scope auth users0) (\<lambda>_.
              bindE (load_all_users a (map (\<lambda>c. user_id (fst c)) (pl_changes p)) KeyError t) (\<lambda>users.
                let olds = map (\<lambda>u. load_assignments a (user_id u) t) users
                in bindE (if list_all2 (\<lambda>(u, old) c. member_facts u old = member_facts (fst c) (fst (snd c)))
                               (zip users olds) (pl_changes p)
                          then Inr () else snapshot_stale) (\<lambda>_.
                   bindE (member_changes db users olds (map (\<lambda>c. fst (snd (snd c))) (pl_changes p)) t) (\<lambda>cs.
                   bindE (materialize_role_set_authorities a (change_candidates cs) [] t) (\<lambda>ms.
                   bindE (if ms \<noteq> pl_authorities p then snapshot_stale else Inr ()) (\<lambda>_.
                   bindE (mapE (authorize_member_change a st auth actor (require_primary_setting st t) locked t)
                            (zip cs (pair_up ms))) (\<lambda>_.
                   Inr cs)))))))))))))))"

definition replace_department_members ::
    "(json \<Rightarrow> string) \<Rightarrow> (auth_db \<Rightarrow> user \<Rightarrow> int set) \<Rightarrow> dept_db \<Rightarrow> dept_db \<Rightarrow> setting_row list \<Rightarrow> int \<Rightarrow> int \<Rightarrow>
     json list \<Rightarrow> int \<Rightarrow> (membership_result \<times> dept_db) res" where
  "replace_department_members h vis db0 db1 st actor_id dept raw t =
     bindE (normalize_members raw) (\<lambda>ids.
     bindE (plan_members h vis db0 actor_id dept ids t) (\<lambda>p.
     bindE (lock_members (auth_of db1) p actor_id t) (\<lambda>locked.
     bindE (recheck_members h vis db1 st p (set (fst (snd locked))) actor_id dept t) (\<lambda>_.
     bindE (write_members db1 dept (plan_to_add p) (plan_to_remove p) t) (\<lambda>db2.
     Inr (\<lparr>ms_added = card (plan_to_add p), ms_removed = card (plan_to_remove p)\<rparr>, db2))))))"

end
