(* ===== verification/Dept_Assignment_Facts.thy ===== *)
theory Dept_Assignment_Facts
  imports Dept_Assignment Role_Assignment_Facts
begin

text \<open>
  Lemmas on department assignments: the interface of a table that is written one key at a time, with
  the role links and the department links as its instances, the inversion of the operations, and
  the departments of the users loaded after a write.
\<close>

section \<open>Tables written by key\<close>

text \<open>\<open>shown w\<close> is what a reader sees of a written value \<open>w\<close>.\<close>

locale keyed_store =
  fixes get :: "'db \<Rightarrow> 'k \<Rightarrow> 'v" and put :: "'db \<Rightarrow> 'k \<Rightarrow> 'w \<Rightarrow> 'db res" and valid :: "'w \<Rightarrow> bool"
    and shown :: "'w \<Rightarrow> 'v"
  assumes get_put: "put db k w = Inr db' \<Longrightarrow> valid w \<Longrightarrow> get db' k = shown w"
    and get_other: "put db k w = Inr db' \<Longrightarrow> k' \<noteq> k \<Longrightarrow> get db' k' = get db k'"
begin

lemma get_after: "put db k w = Inr db' \<Longrightarrow> valid w \<Longrightarrow> get db' k' = (if k' = k then shown w else get db k')"
  using get_put get_other by auto

lemma keeps_all:
  assumes "put db k w = Inr db'" "valid w" "good k (shown w)" "\<forall>k. good k (get db k)"
  shows "\<forall>k. good k (get db' k)"
  using assms by (simp add: get_after)

text \<open>Of a sequence of writes the last one of a key counts, whatever lies between.\<close>

fun put_all :: "'db \<Rightarrow> ('k \<times> 'w) list \<Rightarrow> 'db res" where
  "put_all db [] = Inr db"
| "put_all db ((k, w) # ws) = bindE (put db k w) (\<lambda>db'. put_all db' ws)"

lemma last_put_wins:
  "put_all db ws = Inr db' \<Longrightarrow> \<forall>w \<in> set ws. valid (snd w) \<Longrightarrow>
     get db' k = (case map_of (rev ws) k of None \<Rightarrow> get db k | Some w \<Rightarrow> shown w)"
proof (induction db ws rule: put_all.induct)
  case (1 db)
  then show ?case by simp
next
  case (2 db k' v ws)
  from "2.prems"(1) obtain db1 where w: "put db k' v = Inr db1" "put_all db1 ws = Inr db'"
    by (auto simp: bindE_eq_Inr)
  have "get db1 k = (if k = k' then shown v else get db k)"
    using get_after[OF w(1)] "2.prems"(2) by simp
  with "2.IH"[OF w(2)] "2.prems"(2) show ?case
    by (auto simp: map_add_def split: option.splits)
qed

end

text \<open>The role links of a user: \<open>apply_locked_import_roles\<close> and every replacement write them this way.\<close>

definition put_roles :: "auth_db \<Rightarrow> int \<times> int \<Rightarrow> role list \<Rightarrow> auth_db res" where
  "put_roles db k roles = bindE (require_user db (snd k) (fst k)) (\<lambda>u. replace_user_roles db u roles (fst k))"

interpretation role_links: keyed_store
  "\<lambda>db k. {r. (fst k, snd k, r) \<in> set (links_roles db)}" put_roles "\<lambda>_. True" "\<lambda>roles. role_id ` set roles"
proof unfold_locales
  fix db k roles db'
  assume "put_roles db k roles = Inr db'"
  then obtain u where u: "load_user db (snd k) (fst k) = Some u" "replace_user_roles db u roles (fst k) = Inr db'"
    by (auto simp: put_roles_def bindE_eq_Inr require_user_Inr)
  have uid: "user_id u = snd k" using load_user_Some(1)[OF u(1)] .
  show "{r. (fst k, snd k, r) \<in> set (links_roles db')} = role_id ` set roles"
    using links_after[OF u(2)] uid by auto
  show "{r. (fst k', snd k', r) \<in> set (links_roles db')} = {r. (fst k', snd k', r) \<in> set (links_roles db)}"
    if "k' \<noteq> k" for k'
    using links_after[OF u(2)] uid that by (auto simp: prod_eq_iff)
qed

section \<open>Views\<close>

lemma auth_of_simps [simp]:
  "db_user_depts (scope (auth_of db)) = db_user_depts (scope (dd_auth db))"
  "db_role_depts (scope (auth_of db)) = db_role_depts (scope (dd_auth db))"
  "db_depts (scope (auth_of db)) = plain_depts (dd_depts db)"
  "primary_depts (auth_of db) = primary_depts (dd_auth db)"
  "rows_users (auth_of db) = rows_users (dd_auth db)" "links_roles (auth_of db) = links_roles (dd_auth db)"
  "role_agents (auth_of db) = role_agents (dd_auth db)"
  by (simp_all add: auth_of_def Let_def plain_depts_def)

lemma auth_of_set_links:
  "auth_of (set_links db l p) =
     (auth_of db)\<lparr>scope := (scope (auth_of db))\<lparr>db_user_depts := l\<rparr>, primary_depts := p\<rparr>"
  by (simp add: auth_of_def set_links_def Let_def)

lemma set_links_simps [simp]:
  "dd_depts (set_links db l p) = dd_depts db" "dd_names (set_links db l p) = dd_names db"
  "db_user_depts (scope (dd_auth (set_links db l p))) = l" "primary_depts (dd_auth (set_links db l p)) = p"
  "rows_users (dd_auth (set_links db l p)) = rows_users (dd_auth db)"
  "rows_roles (auth_of (set_links db l p)) = rows_roles (auth_of db)"
  "links_roles (dd_auth (set_links db l p)) = links_roles (dd_auth db)"
  by (simp_all add: set_links_def auth_of_def Let_def)

lemma dept_truncate_simps [simp]:
  "dept_id (dept.truncate d) = dept_id d" "dept_tenant (dept.truncate d) = dept_tenant d"
  "dept_status (dept.truncate d) = dept_status d"
  by (simp_all add: dept.truncate_def)

section \<open>Requests\<close>

lemma normalize_assignment_pos: "normalize_assignment x = Inr y \<Longrightarrow> 0 < fst y"
  by (auto simp: normalize_assignment_def dept_not_available_def split: json.splits sum.splits if_splits)

text \<open>What normalization promises of an assignment list.\<close>

definition assignment_list :: "assignment list \<Rightarrow> bool" where
  "assignment_list assigns \<longleftrightarrow> sorted (map fst assigns) \<and> distinct (map fst assigns)"

lemma normalize_assignments_Inr:
  assumes "normalize_assignments raw = Inr norm"
  shows "assignment_list norm" "\<forall>x \<in> set norm. 0 < fst x" "raw = [] \<longleftrightarrow> norm = []"
proof -
  obtain xs where xs: "mapE normalize_assignment raw = Inr xs" "card (set (map fst xs)) = length xs"
    "norm = sort_key fst xs"
    using assms by (auto simp: normalize_assignments_def bindE_eq_Inr split: if_splits)
  from xs(2) have "distinct (map fst xs)" by (intro card_distinct) simp
  then have "distinct (map fst norm)" unfolding xs(3) by (simp add: distinct_map)
  then show "assignment_list norm" unfolding assignment_list_def xs(3) by simp
  have "0 < fst y" if "y \<in> set xs" for y
  proof -
    obtain i where "i < length xs" "y = xs ! i" using \<open>y \<in> set xs\<close> by (metis in_set_conv_nth)
    then show ?thesis
      using xs(1) normalize_assignment_pos[of "raw ! i" y] by (simp add: mapE_eq_Inr)
  qed
  then show "\<forall>x \<in> set norm. 0 < fst x" unfolding xs(3) by simp
  have "length raw = length norm" using xs(1,3) by (simp add: mapE_eq_Inr)
  then show "raw = [] \<longleftrightarrow> norm = []" by auto
qed

section \<open>Writes\<close>

lemma delete_links_simps [simp]:
  "db_user_depts (scope (dd_auth (delete_links P db))) = filter (\<lambda>x. \<not> P x) (db_user_depts (scope (dd_auth db)))"
  "primary_depts (dd_auth (delete_links P db)) = filter (\<lambda>x. \<not> P x) (primary_depts (dd_auth db))"
  "dd_depts (delete_links P db) = dd_depts db" "rows_users (dd_auth (delete_links P db)) = rows_users (dd_auth db)"
  by (simp_all add: delete_links_def)

lemma insert_links_Inr:
  assumes "insert_links db t xs = Inr db'"
  shows "db' = set_links db (db_user_depts (scope (dd_auth db)) @ map (\<lambda>(u, d, p). (t, u, d)) xs)
      (primary_depts (dd_auth db) @ map (\<lambda>(u, d, p). (t, u, d)) (filter (\<lambda>(u, d, p). p) xs))"
    "(u, d, p) \<in> set xs \<Longrightarrow> (\<exists>r \<in> set (rows_users (dd_auth db)). user_tenant r = t \<and> user_id r = u) \<and>
       (\<exists>r \<in> set (dd_depts db). dept_tenant r = t \<and> dept_id r = d) \<and> (t, u, d) \<notin> set (db_user_depts (scope (dd_auth db)))"
    "distinct (map (\<lambda>(u, d, p). (t, u, d)) xs)"
  using assms by (auto simp: insert_links_def Let_def split: if_splits)

lemma write_assignments_Inr:
  assumes "write_assignments db uid assigns t = Inr db'"
  shows "db' = set_links db
      (filter (\<lambda>x. \<not> (fst x = t \<and> fst (snd x) = uid)) (db_user_depts (scope (dd_auth db))) @
       map (\<lambda>x. (t, uid, fst x)) assigns)
      (filter (\<lambda>x. \<not> (fst x = t \<and> fst (snd x) = uid)) (primary_depts (dd_auth db)) @
       map (\<lambda>x. (t, uid, fst x)) (filter snd assigns))"
    "d \<in> fst ` set assigns \<Longrightarrow> \<exists>r \<in> set (dd_depts db). dept_tenant r = t \<and> dept_id r = d"
proof -
  let ?P = "\<lambda>x. fst x = t \<and> fst (snd x) = uid"
  let ?rows = "map (\<lambda>(d, p). (uid, d, p)) assigns"
  have eq: "set_links (delete_links ?P db) l p = set_links db l p" for l p
    by (simp add: delete_links_def set_links_def)
  have keys: "map (\<lambda>(u, d, p). (t, u, d)) ?rows = map (\<lambda>x. (t, uid, fst x)) assigns"
    "map (\<lambda>(u, d, p). (t, u, d)) (filter (\<lambda>(u, d, p). p) ?rows) = map (\<lambda>x. (t, uid, fst x)) (filter snd assigns)"
    by (induction assigns) auto
  show "db' = set_links db
      (filter (\<lambda>x. \<not> (fst x = t \<and> fst (snd x) = uid)) (db_user_depts (scope (dd_auth db))) @
       map (\<lambda>x. (t, uid, fst x)) assigns)
      (filter (\<lambda>x. \<not> (fst x = t \<and> fst (snd x) = uid)) (primary_depts (dd_auth db)) @
       map (\<lambda>x. (t, uid, fst x)) (filter snd assigns))"
  proof (cases "assigns = []")
    case True
    with assms show ?thesis by (simp add: write_assignments_def delete_links_def)
  next
    case False
    then have "insert_links (delete_links ?P db) t ?rows = Inr db'"
      using assms by (simp add: write_assignments_def)
    from insert_links_Inr(1)[OF this] show ?thesis by (simp only: eq keys delete_links_simps)
  qed
  show "\<exists>r \<in> set (dd_depts db). dept_tenant r = t \<and> dept_id r = d" if "d \<in> fst ` set assigns"
  proof -
    from that have "assigns \<noteq> []" by auto
    then have i: "insert_links (delete_links ?P db) t ?rows = Inr db'"
      using assms by (simp add: write_assignments_def)
    from that obtain p where "(uid, d, p) \<in> set ?rows" by force
    from insert_links_Inr(2)[OF i this] show ?thesis by simp
  qed
qed

lemma links_written:
  assumes "write_assignments db uid assigns t = Inr db'"
  shows "(t', u, d) \<in> set (db_user_depts (scope (dd_auth db'))) \<longleftrightarrow>
      (if t' = t \<and> u = uid then d \<in> fst ` set assigns else (t', u, d) \<in> set (db_user_depts (scope (dd_auth db))))"
    "(t', u, d) \<in> set (primary_depts (dd_auth db')) \<longleftrightarrow>
      (if t' = t \<and> u = uid then (d, True) \<in> set assigns else (t', u, d) \<in> set (primary_depts (dd_auth db)))"
  unfolding write_assignments_Inr(1)[OF assms] by force+

lemma assignments_written:
  assumes w: "write_assignments db uid assigns t = Inr db'" and ok: "assignment_list assigns"
  shows "load_assignments (auth_of db') uid t = assigns"
proof -
  let ?links = "db_user_depts (scope (dd_auth db'))"
  have "filter (\<lambda>(t', u, d). t' = t \<and> u = uid) (filter (\<lambda>x. \<not> (fst x = t \<and> fst (snd x) = uid)) xs) = []"
    for xs :: "(int \<times> int \<times> int) list" by (auto simp: filter_empty_conv)
  then have sel: "filter (\<lambda>(t', u, d). t' = t \<and> u = uid) ?links = map (\<lambda>x. (t, uid, fst x)) assigns"
    unfolding write_assignments_Inr(1)[OF w] by (simp add: filter_map comp_def)
  have sorted: "sort_key (\<lambda>(t', u, d). d) (map (\<lambda>x. (t, uid, fst x)) assigns) = map (\<lambda>x. (t, uid, fst x)) assigns"
    using ok by (intro sort_key_id_if_sorted) (simp add: assignment_list_def comp_def)
  have "(t, uid, d) \<in> set (primary_depts (dd_auth db')) \<longleftrightarrow> p" if "(d, p) \<in> set assigns" for d p
    using ok that unfolding links_written(2)[OF w] assignment_list_def
    by (auto dest: eq_key_imp_eq_value)
  then show ?thesis
    unfolding load_assignments_def auth_of_simps sel sorted by (auto simp: comp_def intro!: map_idI)
qed

lemma assignments_frame:
  assumes w: "write_assignments db uid assigns t = Inr db'" and other: "\<not> (t' = t \<and> u = uid)"
  shows "load_assignments (auth_of db') u t' = load_assignments (auth_of db) u t'"
proof -
  have "filter (\<lambda>(t'', x, d). t'' = t' \<and> x = u) (db_user_depts (scope (dd_auth db'))) =
      filter (\<lambda>(t'', x, d). t'' = t' \<and> x = u) (db_user_depts (scope (dd_auth db)))"
    unfolding write_assignments_Inr(1)[OF w] using other
    by (auto simp: filter_map comp_def intro!: filter_cong)
  moreover have "(t', u, d) \<in> set (primary_depts (dd_auth db')) \<longleftrightarrow> (t', u, d) \<in> set (primary_depts (dd_auth db))" for d
    using links_written(2)[OF w, of t' u d] other by auto
  ultimately show ?thesis unfolding load_assignments_def auth_of_simps by auto
qed

interpretation dept_links: keyed_store
  "\<lambda>db (t, u). load_assignments (auth_of db) u t" "\<lambda>db (t, u) v. write_assignments db u v t" assignment_list "\<lambda>v. v"
proof unfold_locales
  fix db :: dept_db and k :: "int \<times> int" and v db'
  assume w: "(case k of (t, u) \<Rightarrow> \<lambda>v. write_assignments db u v t) v = Inr db'"
  obtain t u where k: "k = (t, u)" by (cases k)
  show "(case k of (t, u) \<Rightarrow> load_assignments (auth_of db') u t) = v" if "assignment_list v"
    using w that unfolding k by (simp add: assignments_written)
  show "(case k' of (t, u) \<Rightarrow> load_assignments (auth_of db') u t) =
      (case k' of (t, u) \<Rightarrow> load_assignments (auth_of db) u t)" if "k' \<noteq> k" for k'
  proof (cases k')
    case (Pair t' u')
    then have "\<not> (t' = t \<and> u' = u)" using that k by simp
    with w Pair show ?thesis unfolding k by (simp add: assignments_frame)
  qed
qed

section \<open>Users after a write\<close>

lemma load_user_moved:
  assumes "load_user a i t = Some u" "rows_users b = rows_users a" "rows_roles b = rows_roles a"
    "links_roles b = links_roles a"
  shows "load_user b i t = Some (u\<lparr>user_depts := filter (\<lambda>d. dept_tenant d = t \<and>
      (t, i, dept_id d) \<in> set (db_user_depts (scope b))) (db_depts (scope b))\<rparr>)"
  using assms(1) unfolding load_user_def assms(2-4) by auto

lemma load_user_written:
  assumes w: "write_assignments db uid assigns t = Inr db'" and u: "load_user (auth_of db) uid t = Some u"
  shows "load_user (auth_of db') uid t = Some (u\<lparr>user_depts :=
      filter (\<lambda>d. dept_tenant d = t \<and> dept_id d \<in> fst ` set assigns) (plain_depts (dd_depts db))\<rparr>)"
proof -
  have links: "(t, uid, d) \<in> set (db_user_depts (scope (dd_auth db'))) \<longleftrightarrow> d \<in> fst ` set assigns" for d
    using links_written(1)[OF w, of t uid d] by simp
  have same: "rows_users (dd_auth db') = rows_users (dd_auth db)" "rows_roles (auth_of db') = rows_roles (auth_of db)"
    "links_roles (dd_auth db') = links_roles (dd_auth db)" "dd_depts db' = dd_depts db"
    unfolding write_assignments_Inr(1)[OF w] by simp_all
  show ?thesis
    using u unfolding load_user_def auth_of_simps same links by (auto simp del: image_iff)
qed

lemma load_user_unwritten:
  assumes w: "write_assignments db uid assigns t = Inr db'" and other: "\<not> (t' = t \<and> x = uid)"
  shows "load_user (auth_of db') x t' = load_user (auth_of db) x t'"
proof -
  have links: "(t', x, d) \<in> set (db_user_depts (scope (dd_auth db'))) \<longleftrightarrow>
      (t', x, d) \<in> set (db_user_depts (scope (dd_auth db)))" for d
    using links_written(1)[OF w, of t' x d] other by auto
  have same: "rows_users (dd_auth db') = rows_users (dd_auth db)" "rows_roles (auth_of db') = rows_roles (auth_of db)"
    "links_roles (dd_auth db') = links_roles (dd_auth db)" "dd_depts db' = dd_depts db"
    unfolding write_assignments_Inr(1)[OF w] by simp_all
  show ?thesis unfolding load_user_def auth_of_simps same links ..
qed

lemma dept_rows_of_set: "set (dept_rows_of db ids t) = {d \<in> set (dd_depts db). dept_tenant d = t \<and> dept_id d \<in> ids}"
  by (auto simp: dept_rows_of_def)

lemma dept_rows_of_distinct: "distinct (map dept_id (dd_depts db)) \<Longrightarrow> distinct (map dept_id (dept_rows_of db ids t))"
  by (simp add: dept_rows_of_def distinct_map distinct_map_filter inj_on_def)

lemma dept_rows_complete:
  assumes "distinct (map dept_id (dd_depts db))" "finite ids" "length (dept_rows_of db ids t) = card ids"
  shows "dept_id ` set (dept_rows_of db ids t) = ids"
proof (rule card_subset_eq[OF assms(2)])
  show "dept_id ` set (dept_rows_of db ids t) \<subseteq> ids" by (auto simp: dept_rows_of_set)
  show "card (dept_id ` set (dept_rows_of db ids t)) = card ids"
    using distinct_card[OF dept_rows_of_distinct[OF assms(1), of ids t]] assms(3) by simp
qed

lemma requested_depts_Inr:
  assumes ok: "load_requested_depts db assigns t = Inr rows" and a: "distinct (map fst assigns)"
    and key: "distinct (map dept_id (dd_depts db))"
  shows "dept_id ` set rows = fst ` set assigns"
    "\<forall>d \<in> set rows. dept_tenant d = t \<and> dept_status d = STATUS_ENABLED \<and> d \<in> set (dd_depts db)"
proof -
  have card: "card (fst ` set assigns) = length assigns" using distinct_card[OF a] by simp
  show "dept_id ` set rows = fst ` set assigns"
  proof (cases "assigns = []")
    case True
    with ok show ?thesis by (simp add: load_requested_depts_def)
  next
    case False
    then have "rows = dept_rows_of db (set (map fst assigns)) t" "length rows = length assigns"
      using ok by (auto simp: load_requested_depts_def dept_not_available_def Let_def split: if_splits)
    with dept_rows_complete[OF key, of "fst ` set assigns" t] card show ?thesis by simp
  qed
  show "\<forall>d \<in> set rows. dept_tenant d = t \<and> dept_status d = STATUS_ENABLED \<and> d \<in> set (dd_depts db)"
    using ok by (auto simp: load_requested_depts_def dept_not_available_def Let_def dept_rows_of_set split: if_splits)
qed

section \<open>Scopes\<close>

lemma role_grant_cong:
  assumes "set own = set own'"
  shows "role_grant db own t r = role_grant db own' t r"
proof -
  have "own = [] \<longleftrightarrow> own' = []" using assms by (cases own; cases own') auto
  then show ?thesis using assms by (simp add: role_grant_def get_dept_and_sub_ids_def)
qed

lemma role_grant_links [simp]: "role_grant (db\<lparr>db_user_depts := l\<rparr>) own t r = role_grant db own t r"
  by (simp add: role_grant_def get_dept_and_sub_ids_def role_dept_rows_def enabled_dept_def)

lemma acc_scope_moved:
  assumes "set (own_dept_list u ds) = set (own_dept_list u' ds')" "set rs = set rs'"
    and "scope b = (scope a)\<lparr>db_user_depts := l\<rparr>"
  shows "acc_scope b u rs ds t = acc_scope a u' rs' ds' t"
  using role_grant_cong[OF assms(1)] grants_all_cong[OF assms(2)] granting_cong[OF assms(2)]
  by (simp add: acc_scope_def union_depts_def union_self_def assms(3))

lemma members_written:
  assumes "write_assignments db uid assigns t = Inr db'"
  shows "members_of (scope (auth_of db')) t ds \<subseteq> insert uid (members_of (scope (auth_of db)) t ds)"
  using links_written(1)[OF assms] by (auto simp: members_of_def)

text \<open>The present authority, from the present departments.\<close>

lemma dominated_before:
  assumes b: "build_authority h vis a i t = Inr b" and u: "load_user a i t = Some u"
    and m: "materialize_role_set_authority a u (user_roles u) (Some (user_depts u)) t = Inr oa"
      "ensure_role_set_dominated auth oa {} = Inr ()"
    and uid: "user_id u = i" and ns: "\<not> super_admin auth" "\<not> is_super_admin u"
    and vis: "case ga_user_ids auth of None \<Rightarrow> True | Some us \<Rightarrow> i \<in> us"
  shows "authority_le b auth"
proof (rule materialized_dominates[OF b u refl refl _ uid ns vis])
  have "acc_scope a u (user_roles u) (Some (user_depts u)) t = acc_scope a u (user_roles u) None t"
    by (simp add: acc_scope_def own_dept_list_def)
  with m(2) show "ensure_role_set_dominated auth (authority_of (role_agents_of a t) (user_roles u)
      (fst (acc_scope a u (user_roles u) None t))
      (acc_users a u (Some (user_depts u)) t (acc_scope a u (user_roles u) None t))) {} = Inr ()"
    unfolding materialize_Inr(2)[OF m(1)] by simp
qed

section \<open>Guards\<close>

lemma impact_dominated_Inr:
  "ensure_impact_dominated auth cand ign = Inr () \<longleftrightarrow> ensure_role_set_dominated auth cand ign = Inr ()"
  by (auto simp: ensure_impact_dominated_def split: sum.splits exn.splits)

lemma direct_scope_Inr:
  "ensure_direct_scope auth i old new created = Inr () \<longleftrightarrow>
     (created \<or> super_admin auth \<or> (case ga_user_ids auth of None \<Rightarrow> True | Some us \<Rightarrow> i \<in> us)) \<and>
     (super_admin auth \<or> (case ga_dept_ids auth of None \<Rightarrow> True | Some ds \<Rightarrow> set (map fst (old @ new)) \<subseteq> ds))"
  by (simp add: ensure_direct_scope_def bindE_eq_Inr)

lemma primary_policy_Inr:
  "ensure_primary_policy assigns req = Inr () \<longleftrightarrow>
     length (filter snd assigns) \<le> 1 \<and> (req \<longrightarrow> length (filter snd assigns) = 1)"
  by (auto simp: ensure_primary_policy_def Let_def)

lemma account_protection_Inr:
  "ensure_account_protection auth u rs = Inr () \<longleftrightarrow>
     super_admin auth \<or> (user_name u \<noteq> ADMIN_USERNAME \<and>
       \<not> (\<exists>r \<in> set (user_roles u @ rs). role_status r = STATUS_ENABLED \<and> role_code r = SUPER_ADMIN_ROLE_CODE))"
  by (auto simp: ensure_account_protection_def)

lemma assignment_change_Inr:
  assumes "authorize_assignment_change a st auth target old new depts prospective created ignored req pair t = Inr (oa, na)"
  obtains final ign where
    "final = (case prospective of None \<Rightarrow> user_roles target | Some rs \<Rightarrow> rs)"
    "ign = (if created then insert (user_id target) ignored else ignored)"
    "ensure_direct_scope auth (user_id target) old new created = Inr ()"
    "ensure_account_protection auth target final = Inr ()"
    "ensure_primary_policy new (case req of None \<Rightarrow> require_primary_setting st t | Some b \<Rightarrow> b) = Inr ()"
    "case pair of Some x \<Rightarrow> oa = fst x \<and> na = snd x
     | None \<Rightarrow> materialize_role_set_authority a target (user_roles target) (Some (user_depts target)) t = Inr oa \<and>
         materialize_role_set_authority a target final (Some depts) t = Inr na"
    "created \<or> ensure_role_set_dominated auth oa ign = Inr ()"
    "ensure_role_set_dominated auth na ign = Inr ()"
proof -
  from assms have
    "ensure_direct_scope auth (user_id target) old new created = Inr ()"
    "ensure_account_protection auth target (case prospective of None \<Rightarrow> user_roles target | Some rs \<Rightarrow> rs) = Inr ()"
    "ensure_primary_policy new (case req of None \<Rightarrow> require_primary_setting st t | Some b \<Rightarrow> b) = Inr ()"
    "(case pair of Some x \<Rightarrow> Inr (fst x)
        | None \<Rightarrow> materialize_role_set_authority a target (user_roles target) (Some (user_depts target)) t) = Inr oa"
    "(case pair of Some x \<Rightarrow> Inr (snd x)
        | None \<Rightarrow> materialize_role_set_authority a target
            (case prospective of None \<Rightarrow> user_roles target | Some rs \<Rightarrow> rs) (Some depts) t) = Inr na"
    "(if created then Inr () else ensure_impact_dominated auth oa
        (if created then insert (user_id target) ignored else ignored)) = Inr ()"
    "ensure_impact_dominated auth na (if created then insert (user_id target) ignored else ignored) = Inr ()"
    unfolding authorize_assignment_change_def Let_def bindE_eq_Inr ex_unit sum.inject prod.inject by blast+
  then show ?thesis
    by (intro that[OF refl refl]) (auto simp: impact_dominated_Inr split: option.splits if_splits)
qed

section \<open>Inversion of a replacement\<close>

lemma if_stale_Inr: "(if b then snapshot_stale else Inr ()) = Inr () \<longleftrightarrow> \<not> b"
  "(if b then Inr () else snapshot_stale) = Inr () \<longleftrightarrow> b"
  by (simp_all add: snapshot_stale_def)

lemma replace_departments_Inr:
  assumes "replace_departments_core h vis db0 db1 st actor_id target_id raw required created ignored expected t
      = Inr (result, db2)"
  obtains norm actor1 target1 auth requested oa na where
    "normalize_assignments raw = Inr norm"
    "load_user (auth_of db1) actor_id t = Some actor1" "load_user (auth_of db1) target_id t = Some target1"
    "created \<Longrightarrow> load_assignments (auth_of db1) target_id t = []"
    "build_authority h vis (auth_of db1) actor_id t = Inr auth" "allows_permission_codes auth required"
    "load_requested_depts db1 norm t = Inr requested"
    "authorize_assignment_change (auth_of db1) st auth target1 (load_assignments (auth_of db1) target_id t) norm
       (plain_depts requested) None created ignored (Some (require_primary_setting st t)) None t = Inr (oa, na)"
    "check_expected_depts h db1 auth target1 (load_assignments (auth_of db1) target_id t) norm (oa, na)
       (require_primary_setting st t) requested expected t = Inr ()"
    "write_assignments db1 target_id norm t = Inr db2"
    "result = \<lparr>da_user_id = target_id, da_old = load_assignments (auth_of db1) target_id t, da_new = norm\<rparr>"
proof -
  let ?a0 = "auth_of db0" and ?a1 = "auth_of db1"
  from assms obtain norm actor0 target0 actor1 target1 auth requested pair where
    *: "normalize_assignments raw = Inr norm"
      "\<not> (created \<and> load_assignments ?a0 target_id t \<noteq> [])"
      "require_user ?a1 actor_id t = Inr actor1" "require_user ?a1 target_id t = Inr target1"
      "\<not> assignment_facts_changed actor0 actor1 target0 target1 (load_assignments ?a0 target_id t)
         (load_assignments ?a1 target_id t)"
      "build_authority h vis ?a1 actor_id t = Inr auth" "require_permissions auth required = Inr ()"
      "load_requested_depts db1 norm t = Inr requested"
      "authorize_assignment_change ?a1 st auth target1 (load_assignments ?a1 target_id t) norm
         (plain_depts requested) None created ignored (Some (require_primary_setting st t)) None t = Inr pair"
      "check_expected_depts h db1 auth target1 (load_assignments ?a1 target_id t) norm pair
         (require_primary_setting st t) requested expected t = Inr ()"
      "write_assignments db1 target_id norm t = Inr db2"
      "result = \<lparr>da_user_id = target_id, da_old = load_assignments ?a1 target_id t, da_new = norm\<rparr>"
    unfolding replace_departments_core_def Let_def bindE_eq_Inr ex_unit if_stale_Inr sum.inject prod.inject
    by metis
  show ?thesis
  proof (rule that[OF *(1) _ _ _ *(6) _ *(8) _ _ *(11,12)])
    show "load_user ?a1 actor_id t = Some actor1" "load_user ?a1 target_id t = Some target1"
      using *(3,4) by (simp_all add: require_user_Inr)
    show "load_assignments ?a1 target_id t = []" if created
      using *(2,5) that by (simp add: assignment_facts_changed_def)
    show "allows_permission_codes auth required" using *(7) by (simp add: require_permissions_def)
    show "authorize_assignment_change ?a1 st auth target1 (load_assignments ?a1 target_id t) norm
       (plain_depts requested) None created ignored (Some (require_primary_setting st t)) None t = Inr (fst pair, snd pair)"
      using *(9) by simp
    show "check_expected_depts h db1 auth target1 (load_assignments ?a1 target_id t) norm (fst pair, snd pair)
       (require_primary_setting st t) requested expected t = Inr ()" using *(10) by simp
  qed
qed

end
