(* ===== verification/Dept_Member_Facts.thy ===== *)
theory Dept_Member_Facts
  imports Dept_Assignment_Facts Dept_Tree_Facts
begin

text \<open>
  Lemmas on the replacement of a department's members: what the plan and the check under the locks
  establish, the bulk materialization split into one pair per user, and the tables after the write.
\<close>

section \<open>Loads\<close>

lemma load_all_users_Inr:
  assumes "load_all_users a ids e t = Inr users"
  shows "map user_id users = ids" "u \<in> set users \<Longrightarrow> load_user a (user_id u) t = Some u"
proof -
  have l: "length ids = length users" "\<And>i. i < length ids \<Longrightarrow> load_user a (ids ! i) t = Some (users ! i)"
    using assms by (auto simp: load_all_users_def mapE_eq_Inr split: option.splits)
  have id: "user_id (users ! i) = ids ! i" if "i < length ids" for i
    using load_user_Some(1)[OF l(2)[OF that]] .
  show "map user_id users = ids" using l(1) id by (auto intro: nth_equalityI)
  show "load_user a (user_id u) t = Some u" if "u \<in> set users"
    using that l id by (metis in_set_conv_nth)
qed

lemma set_load_assignments:
  "set (load_assignments a u t) =
     {(d, p). (t, u, d) \<in> set (db_user_depts (scope a)) \<and> p = ((t, u, d) \<in> set (primary_depts a))}"
  by (force simp: load_assignments_def)

lemma member_map_iff:
  "(u, p) \<in> load_member_map a dept t \<longleftrightarrow>
     (t, u, dept) \<in> set (db_user_depts (scope a)) \<and> p = ((t, u, dept) \<in> set (primary_depts a))"
  by (force simp: load_member_map_def)

lemma member_map_ids: "fst ` load_member_map a dept t = {u. (t, u, dept) \<in> set (db_user_depts (scope a))}"
proof (rule set_eqI)
  fix u
  have "u \<in> fst ` load_member_map a dept t \<longleftrightarrow> (\<exists>p. (u, p) \<in> load_member_map a dept t)" by force
  then show "u \<in> fst ` load_member_map a dept t \<longleftrightarrow> u \<in> {u. (t, u, dept) \<in> set (db_user_depts (scope a))}"
    by (simp add: member_map_iff)
qed

lemma finite_member_map [simp]: "finite (load_member_map a dept t)"
  by (simp add: load_member_map_def)

lemma prospective_ids:
  "fst ` set (prospective_assignments dept add u old) =
     (if u \<in> add then insert dept (fst ` set old) else fst ` set old - {dept})"
  by (auto simp: prospective_assignments_def image_iff)

lemma requested_map_Inr:
  assumes "load_requested_dept_map db sets t = Inr rows"
  shows "\<forall>d \<in> set rows. dept_tenant d = t \<and> dept_status d = STATUS_ENABLED \<and> d \<in> set (dd_depts db)"
  using assms by (auto simp: load_requested_dept_map_def dept_not_available_def Let_def dept_rows_of_set split: if_splits)

lemma depts_for_Inr:
  assumes "depts_for_assignments rows assigns = Inr ds"
  shows "map dept_id ds = map fst assigns" "set ds \<subseteq> set rows"
proof -
  have l: "length assigns = length ds" "\<And>i. i < length assigns \<Longrightarrow>
      find (\<lambda>d. dept_id d = fst (assigns ! i)) rows = Some (ds ! i)"
    using assms unfolding depts_for_assignments_def case_prod_beta mapE_eq_Inr
    by (auto split: option.splits)
  show "map dept_id ds = map fst assigns"
    using l find_SomeD[OF l(2)] by (auto intro: nth_equalityI)
  show "set ds \<subseteq> set rows" using l find_SomeD[OF l(2)] by (metis in_set_conv_nth subsetI)
qed

text \<open>One change: a loaded user, its assignments and the enabled departments of the new ones.\<close>

definition change_ok :: "dept_db \<Rightarrow> int \<Rightarrow> member_change \<Rightarrow> bool" where
  "change_ok db t c \<longleftrightarrow> (case c of (u, old, new, ds) \<Rightarrow>
     load_user (auth_of db) (user_id u) t = Some u \<and>
     dept_id ` set ds = fst ` set new \<and>
     (\<forall>d \<in> set ds. dept_tenant d = t \<and> (\<exists>r \<in> set (dd_depts db). dept_tenant r = t \<and> dept_id r = dept_id d)))"

lemma member_changes_Inr:
  assumes ch: "member_changes db users olds news t = Inr cs" and len: "length users = length olds" "length users = length news"
    and users: "\<forall>u \<in> set users. load_user (auth_of db) (user_id u) t = Some u"
  shows "map fst cs = users" "map (\<lambda>c. fst (snd c)) cs = olds" "map (\<lambda>c. fst (snd (snd c))) cs = news"
    "\<forall>c \<in> set cs. change_ok db t c"
proof -
  obtain rows depts where r: "load_requested_dept_map db news t = Inr rows"
    "mapE (depts_for_assignments rows) news = Inr depts"
    "cs = zip users (zip olds (zip news (map plain_depts depts)))"
    using ch by (auto simp: member_changes_def bindE_eq_Inr)
  have d: "length news = length depts" "\<And>i. i < length news \<Longrightarrow> depts_for_assignments rows (news ! i) = Inr (depts ! i)"
    using r(2) by (simp_all add: mapE_eq_Inr)
  show "map fst cs = users" "map (\<lambda>c. fst (snd c)) cs = olds" "map (\<lambda>c. fst (snd (snd c))) cs = news"
    using len d(1) unfolding r(3) by (auto intro!: nth_equalityI)
  show "\<forall>c \<in> set cs. change_ok db t c"
  proof
    fix c assume "c \<in> set cs"
    then obtain i where i: "i < length users" "c = (users ! i, olds ! i, news ! i, plain_depts (depts ! i))"
      using len d(1) unfolding r(3) by (auto simp: in_set_zip)
    note f = depts_for_Inr[OF d(2)[of i]]
    have "dept_id ` set (plain_depts (depts ! i)) = dept_id ` set (depts ! i)"
      by (simp add: plain_depts_def image_image)
    also have "\<dots> = fst ` set (news ! i)" using f(1) i(1) len(2) by (metis list.set_map)
    finally have ids: "dept_id ` set (plain_depts (depts ! i)) = fst ` set (news ! i)" .
    have "\<forall>d \<in> set (plain_depts (depts ! i)). dept_tenant d = t \<and>
        (\<exists>r \<in> set (dd_depts db). dept_tenant r = t \<and> dept_id r = dept_id d)"
      using f(2) i(1) len(2) requested_map_Inr[OF r(1)] by (fastforce simp: plain_depts_def)
    with ids users i show "change_ok db t c" by (auto simp: change_ok_def)
  qed
qed

section \<open>The candidates, two per user\<close>

lemma mapE_candidates:
  "mapE f (change_candidates cs) = Inr ms \<Longrightarrow> length (pair_up ms) = length cs \<and>
     (\<forall>i < length cs. case cs ! i of (u, old, new, ds) \<Rightarrow>
        f (u, user_roles u, user_depts u) = Inr (fst (pair_up ms ! i)) \<and>
        f (u, user_roles u, ds) = Inr (snd (pair_up ms ! i)))"
proof (induction cs arbitrary: ms)
  case Nil
  then show ?case by (simp add: change_candidates_def)
next
  case (Cons c cs)
  obtain u old new ds where c: "c = (u, old, new, ds)" by (cases c) auto
  have "change_candidates (c # cs) = (u, user_roles u, user_depts u) # (u, user_roles u, ds) # change_candidates cs"
    by (simp add: change_candidates_def c)
  with Cons.prems obtain m1 m2 ms' where m: "f (u, user_roles u, user_depts u) = Inr m1"
    "f (u, user_roles u, ds) = Inr m2" "mapE f (change_candidates cs) = Inr ms'" "ms = m1 # m2 # ms'"
    by (auto simp: bindE_eq_Inr)
  show ?case
    using Cons.IH[OF m(3)] m c by (auto simp: nth_Cons split: nat.splits)
qed

text \<open>The roles loaded through \<open>auth_of\<close> carry the links the association table holds.\<close>

lemma linked_roles:
  assumes "r \<in> set (rows_roles (auth_of db))" "role_tenant r = t"
  shows "set (map dept_id (filter (\<lambda>d. dept_status d = STATUS_ENABLED) (role_dept_links r))) =
    set (map snd (role_dept_rows (scope (auth_of db)) [role_id r] t))"
proof -
  obtain r0 where r0: "r = r0\<lparr>role_dept_links := linked_depts (plain_depts (dd_depts db))
      (db_role_depts (scope (dd_auth db))) r0\<rparr>"
    using assms(1) by (auto simp: auth_of_def Let_def plain_depts_def)
  then show ?thesis
    using assms(2) by (force simp: linked_depts_def role_dept_rows_iff role_dept_rows_def enabled_dept_def)
qed

lemma loaded_candidate_ok:
  assumes u: "load_user (auth_of db) i t = Some u"
    and ds: "\<forall>d \<in> set ds. dept_tenant d = t \<and> (\<exists>r \<in> set (dd_depts db). dept_tenant r = t \<and> dept_id r = dept_id d)"
  shows "candidate_ok (auth_of db) t (u, user_roles u, ds)"
proof -
  have "in_tenant u (enabled_roles (user_roles u)) (Some ds) t"
    using load_user_Some(2,3)[OF u] ds by (auto simp: in_tenant_def enabled_roles_def)
  moreover have "\<forall>d \<in> set ds. \<exists>row \<in> set (db_depts (scope (auth_of db))). dept_tenant row = t \<and> dept_id row = dept_id d"
    using ds by (fastforce simp: plain_depts_def)
  moreover have "set (map dept_id (filter (\<lambda>d. dept_status d = STATUS_ENABLED) (role_dept_links r))) =
        set (map snd (role_dept_rows (scope (auth_of db)) [role_id r] t))" if "r \<in> set (enabled_roles (user_roles u))" for r
    using that load_user_roles[OF u, of r] by (intro linked_roles) (auto simp: enabled_roles_def)
  ultimately show ?thesis by (simp add: candidate_ok_def)
qed

lemma changes_candidates_ok:
  assumes "\<forall>c \<in> set cs. change_ok db t c"
  shows "\<forall>c \<in> set (change_candidates cs). candidate_ok (auth_of db) t c"
proof
  fix c assume "c \<in> set (change_candidates cs)"
  then obtain u old new ds where c: "(u, old, new, ds) \<in> set cs"
    "c = (u, user_roles u, user_depts u) \<or> c = (u, user_roles u, ds)"
    by (auto simp: change_candidates_def)
  have ok: "change_ok db t (u, old, new, ds)" using assms c(1) by blast
  then have u: "load_user (auth_of db) (user_id u) t = Some u" by (simp add: change_ok_def)
  have "\<forall>d \<in> set (user_depts u). dept_tenant d = t \<and> (\<exists>r \<in> set (dd_depts db). dept_tenant r = t \<and> dept_id r = dept_id d)"
    using load_user_depts[OF u] by (fastforce simp: plain_depts_def)
  with c(2) ok show "candidate_ok (auth_of db) t c"
    using loaded_candidate_ok[OF u] by (auto simp: change_ok_def)
qed

text \<open>In a department tree every path is a list of decimal numerals.\<close>

lemma zero_text: "show_nat 0 = ''0''"
  by code_simp

lemma tree_path_canonical:
  "dept_tree rows t \<Longrightarrow> d \<in> set rows \<Longrightarrow> dept_tenant d = t \<Longrightarrow> p \<in> set (comps (path_of d)) \<Longrightarrow> \<exists>n. p = show_nat n"
proof (induction "length (path_of d)" arbitrary: d rule: less_induct)
  case less
  from less.prems(1-3) show ?case
  proof (cases rule: tree_parent)
    case root
    with less.prems(4) have "p = show_nat 0" using zero_text by (simp add: split_none)
    then show ?thesis ..
  next
    case (child q)
    have "0 < dept_id q" using tree_rowI[OF less.prems(1) child(1,2)] by (simp add: tree_row_def)
    then have "show_int (dept_id q) = show_nat (nat (dept_id q))" by (simp add: show_int_def)
    with less.hyps[of q] less.prems child show ?thesis
      by (auto simp: child_path_eq comps_below)
  qed
qed

lemma tree_canonical_paths: "dept_tree (dd_depts db) t \<Longrightarrow> canonical_paths (auth_of db) t"
  unfolding canonical_paths_def canonical_path_def
proof (intro ballI impI)
  fix d p
  assume tree: "dept_tree (dd_depts db) t" and d: "d \<in> set (db_depts (scope (auth_of db)))" "dept_tenant d = t"
    and p: "p \<in> set (comps (case dept_ancestors d of None \<Rightarrow> [] | Some a \<Rightarrow> a))"
  obtain r where r: "r \<in> set (dd_depts db)" "d = dept.truncate r" using d(1) by (auto simp: plain_depts_def)
  have "dept_ancestors d = Some (path_of r)"
    using tree_path_some[OF tree_rowI[OF tree r(1)]] d(2) r(2) by (simp add: dept.truncate_def)
  with p tree_path_canonical[OF tree r(1)] d(2) r(2) show "p = [] \<or> (\<exists>n. p = show_nat n)" by simp
qed

section \<open>The plan and the check\<close>

lemma plan_members_Inr:
  assumes "plan_members h vis db actor_id dept ids t = Inr p"
  obtains users olds news where
    "pl_members p = load_member_map (auth_of db) dept t" "pl_requested p = set ids"
    "\<forall>u \<in> plan_to_remove p. (u, True) \<notin> pl_members p"
    "load_all_users (auth_of db) (sorted_list_of_set (plan_to_add p \<union> plan_to_remove p)) member_not_available t = Inr users"
    "\<forall>u \<in> set users. user_id u \<in> plan_to_add p \<longrightarrow> user_status u = STATUS_ENABLED"
    "plan_to_add p \<noteq> {} \<Longrightarrow> dept_status (pl_dept p) = STATUS_ENABLED"
    "olds = map (\<lambda>u. load_assignments (auth_of db) (user_id u) t) users"
    "news = map (\<lambda>(u, old). prospective_assignments dept (plan_to_add p) (user_id u) old) (zip users olds)"
    "member_changes db users olds news t = Inr (pl_changes p)"
proof -
  let ?a = "auth_of db"
  let ?ms = "load_member_map ?a dept t"
  let ?add = "set ids - fst ` ?ms" and ?rem = "fst ` ?ms - set ids"
  from assms obtain actor auth drow users cs ms deps snap where
    *: "guardE (\<not> (\<exists>u \<in> ?rem. (u, True) \<in> ?ms)) (BusinessRule ''USER_PRIMARY_DEPT_REASSIGN_REQUIRED'') = Inr ()"
      "load_all_users ?a (sorted_list_of_set (?add \<union> ?rem)) member_not_available t = Inr users"
      "guardE (\<forall>u \<in> set users. user_id u \<in> ?add \<longrightarrow> user_status u = STATUS_ENABLED) member_not_available = Inr ()"
      "(if ?add \<noteq> {} \<and> dept_status drow \<noteq> STATUS_ENABLED then dept_not_available else Inr ()) = Inr ()"
      "member_changes db users (map (\<lambda>u. load_assignments ?a (user_id u) t) users)
         (map (\<lambda>(u, old). prospective_assignments dept ?add (user_id u) old)
           (zip users (map (\<lambda>u. load_assignments ?a (user_id u) t) users))) t = Inr cs"
      "p = \<lparr>pl_actor = actor, pl_authority = auth, pl_dept = drow, pl_members = ?ms,
             pl_requested = set ids, pl_changes = cs, pl_authorities = ms,
             pl_dependencies = deps, pl_snapshot = snap\<rparr>"
    unfolding plan_members_def Let_def bindE_eq_Inr ex_unit sum.inject
    by (elim exE conjE) (rule that, assumption+, rule sym, assumption)
  have p: "plan_to_add p = ?add" "plan_to_remove p = ?rem" "pl_members p = ?ms" "pl_requested p = set ids"
    "pl_dept p = drow" "pl_changes p = cs"
    by (simp_all add: plan_to_add_def plan_to_remove_def *(6))
  have f1: "\<forall>u \<in> plan_to_remove p. (u, True) \<notin> pl_members p"
    using *(1) unfolding p guardE_eq_Inr by blast
  have f4: "dept_status (pl_dept p) = STATUS_ENABLED" if "plan_to_add p \<noteq> {}"
    using *(4) that unfolding p dept_not_available_def by (cases "dept_status drow = STATUS_ENABLED") simp_all
  show ?thesis
    by (rule that[OF p(3,4) f1 *(2)[folded p(1,2)] *(3)[folded p(1), unfolded guardE_eq_Inr] f4 refl refl
          *(5)[folded p(1,6)]])
qed

lemma recheck_members_Inr:
  assumes "recheck_members h vis db st p locked actor_id dept t = Inr cs"
  obtains actor auth drow users olds ms where
    "build_authority h vis (auth_of db) actor_id t = Inr auth"
    "allows_permission_codes auth member_permissions"
    "load_department (dd_depts db) dept t = Inr drow" "dept_status drow = dept_status (pl_dept p)"
    "load_member_map (auth_of db) dept t = pl_members p"
    "ensure_department_scope auth dept = Inr ()"
    "ensure_member_scope auth (fst ` pl_members p \<union> pl_requested p) = Inr ()"
    "load_all_users (auth_of db) (map (\<lambda>c. user_id (fst c)) (pl_changes p)) KeyError t = Inr users"
    "olds = map (\<lambda>u. load_assignments (auth_of db) (user_id u) t) users"
    "list_all2 (\<lambda>(u, old) c. member_facts u old = member_facts (fst c) (fst (snd c))) (zip users olds) (pl_changes p)"
    "member_changes db users olds (map (\<lambda>c. fst (snd (snd c))) (pl_changes p)) t = Inr cs"
    "materialize_role_set_authorities (auth_of db) (change_candidates cs) [] t = Inr ms"
    "\<exists>ys. mapE (authorize_member_change (auth_of db) st auth actor (require_primary_setting st t) locked t)
        (zip cs (pair_up ms)) = Inr ys"
proof -
  let ?a = "auth_of db"
  from assms obtain actor auth drow snap users ms ys where
    *: "build_authority h vis ?a actor_id t = Inr auth"
      "load_department (dd_depts db) dept t = Inr drow"
      "(if facts_changed (pl_actor p) actor \<or> version_summary auth \<noteq> version_summary (pl_authority p) \<or>
           dept_status drow \<noteq> dept_status (pl_dept p) \<or> load_member_map ?a dept t \<noteq> pl_members p
        then snapshot_stale else load_department_snapshot db (pl_dependencies p) t) = Inr snap"
      "require_permissions auth member_permissions = Inr ()"
      "ensure_department_scope auth dept = Inr ()"
      "ensure_member_scope auth (fst ` pl_members p \<union> pl_requested p) = Inr ()"
      "load_all_users ?a (map (\<lambda>c. user_id (fst c)) (pl_changes p)) KeyError t = Inr users"
      "list_all2 (\<lambda>(u, old) c. member_facts u old = member_facts (fst c) (fst (snd c)))
         (zip users (map (\<lambda>u. load_assignments ?a (user_id u) t) users)) (pl_changes p)"
      "member_changes db users (map (\<lambda>u. load_assignments ?a (user_id u) t) users)
         (map (\<lambda>c. fst (snd (snd c))) (pl_changes p)) t = Inr cs"
      "materialize_role_set_authorities ?a (change_candidates cs) [] t = Inr ms"
      "mapE (authorize_member_change ?a st auth actor (require_primary_setting st t) locked t) (zip cs (pair_up ms)) = Inr ys"
    unfolding recheck_members_def Let_def bindE_eq_Inr ex_unit if_stale_Inr sum.inject
    by (elim exE conjE) (rule that, (assumption | (erule subst, assumption))+)
  have same: "dept_status drow = dept_status (pl_dept p)" "load_member_map ?a dept t = pl_members p"
    using *(3) by (auto simp: snapshot_stale_def split: if_splits)
  have ex: "\<exists>ys. mapE (authorize_member_change ?a st auth actor (require_primary_setting st t) locked t)
      (zip cs (pair_up ms)) = Inr ys" using *(11) by blast
  show ?thesis
    by (rule that[OF *(1) *(4)[unfolded require_permissions_def guardE_eq_Inr] *(2) same(1,2) *(5,6,7) refl
          *(8,9,10) ex])
qed

lemma replace_members_Inr:
  assumes "replace_department_members h vis db0 db1 st actor_id dept raw t = Inr (result, db2)"
  obtains ids p locked cs where "normalize_members raw = Inr ids" "plan_members h vis db0 actor_id dept ids t = Inr p"
    "recheck_members h vis db1 st p locked actor_id dept t = Inr cs"
    "write_members db1 dept (plan_to_add p) (plan_to_remove p) t = Inr db2"
    "result = \<lparr>ms_added = card (plan_to_add p), ms_removed = card (plan_to_remove p)\<rparr>"
  using assms unfolding replace_department_members_def bindE_eq_Inr sum.inject prod.inject by metis

text \<open>The changes of the check are those of the plan.\<close>

lemma checked_changes:
  assumes p: "plan_members h vis db0 actor_id dept ids t = Inr p"
    and r: "recheck_members h vis db1 st p locked actor_id dept t = Inr cs"
  shows "map (\<lambda>c. user_id (fst c)) cs = sorted_list_of_set (plan_to_add p \<union> plan_to_remove p)"
    "\<forall>c \<in> set cs. change_ok db1 t c"
    "\<forall>(u, old, new, ds) \<in> set cs. old = load_assignments (auth_of db1) (user_id u) t \<and>
       new = prospective_assignments dept (plan_to_add p) (user_id u) old \<and>
       (user_id u \<in> plan_to_add p \<longrightarrow> user_status u = STATUS_ENABLED)"
proof -
  let ?ids = "sorted_list_of_set (plan_to_add p \<union> plan_to_remove p)"
  obtain users0 olds0 news where
    pl: "load_all_users (auth_of db0) ?ids member_not_available t = Inr users0"
      "\<forall>u \<in> set users0. user_id u \<in> plan_to_add p \<longrightarrow> user_status u = STATUS_ENABLED"
      "olds0 = map (\<lambda>u. load_assignments (auth_of db0) (user_id u) t) users0"
      "news = map (\<lambda>(u, old). prospective_assignments dept (plan_to_add p) (user_id u) old) (zip users0 olds0)"
      "member_changes db0 users0 olds0 news t = Inr (pl_changes p)"
    by (rule plan_members_Inr[OF p])
  obtain users olds where
    rc: "load_all_users (auth_of db1) (map (\<lambda>c. user_id (fst c)) (pl_changes p)) KeyError t = Inr users"
      "olds = map (\<lambda>u. load_assignments (auth_of db1) (user_id u) t) users"
      "list_all2 (\<lambda>(u, old) c. member_facts u old = member_facts (fst c) (fst (snd c))) (zip users olds) (pl_changes p)"
      "member_changes db1 users olds (map (\<lambda>c. fst (snd (snd c))) (pl_changes p)) t = Inr cs"
    by (rule recheck_members_Inr[OF r])
  note l0 = load_all_users_Inr[OF pl(1)] and l1 = load_all_users_Inr[OF rc(1)]
  have len0: "length users0 = length olds0" "length users0 = length news" by (simp_all add: pl(3,4))
  note c0 = member_changes_Inr[OF pl(5) len0]
  have c0s: "map fst (pl_changes p) = users0" "map (\<lambda>c. fst (snd c)) (pl_changes p) = olds0"
    "map (\<lambda>c. fst (snd (snd c))) (pl_changes p) = news"
    using c0(1-3) l0(2) by blast+
  have ids: "map user_id users = ?ids"
    using l1(1) c0s(1) l0(1) by (metis (no_types, lifting) comp_apply list.map_comp map_eq_conv)
  have "length users = length users0" using ids l0(1) by (metis length_map)
  then have len1: "length users = length olds" "length users = length news"
    using len0 by (simp_all add: rc(2))
  note c1 = member_changes_Inr[OF rc(4)[unfolded c0s(3)] len1]
  have c1s: "map fst cs = users" "map (\<lambda>c. fst (snd c)) cs = olds" "map (\<lambda>c. fst (snd (snd c))) cs = news"
    "\<forall>c \<in> set cs. change_ok db1 t c"
    using c1 l1(2) by blast+
  show "map (\<lambda>c. user_id (fst c)) cs = ?ids"
    using ids c1s(1) by (metis (no_types, lifting) comp_apply list.map_comp map_eq_conv)
  show "\<forall>c \<in> set cs. change_ok db1 t c" by (rule c1s(4))
  have "old = load_assignments (auth_of db1) (user_id u) t \<and>
       new = prospective_assignments dept (plan_to_add p) (user_id u) old \<and>
       (user_id u \<in> plan_to_add p \<longrightarrow> user_status u = STATUS_ENABLED)" if "(u, old, new, ds) \<in> set cs" for u old new ds
  proof -
    from that obtain i where i: "i < length cs" "cs ! i = (u, old, new, ds)" by (auto simp: in_set_conv_nth)
    have at: "users ! i = u" "olds ! i = old" "news ! i = new" "i < length users" "length (pl_changes p) = length users"
      using i(1) nth_map[OF i(1), of fst] nth_map[OF i(1), of "\<lambda>c. fst (snd c)"]
        nth_map[OF i(1), of "\<lambda>c. fst (snd (snd c))"] length_map[of fst cs] len1(2) c0s(3)
        length_map[of "\<lambda>c. fst (snd (snd c))" "pl_changes p"]
      unfolding c1s(1-3) i(2) by auto
    have c: "users0 ! i = fst (pl_changes p ! i)" "olds0 ! i = fst (snd (pl_changes p ! i))" "i < length users0"
      using nth_map[of i "pl_changes p" fst] nth_map[of i "pl_changes p" "\<lambda>c. fst (snd c)"] at(4,5)
        length_map[of fst "pl_changes p"]
      unfolding c0s(1,2) by auto
    have "member_facts u old = member_facts (users0 ! i) (olds0 ! i)"
      using rc(3) at len1(1) unfolding c(1,2) by (auto simp: list_all2_conv_all_nth)
    moreover have "user_id (users0 ! i) = user_id u"
      using ids l0(1) at(1,4) c(3) by (metis nth_map)
    moreover have "users0 ! i \<in> set users0" using c(3) by simp
    ultimately show ?thesis
      using at pl(2,4) c(3) len0(1) by (auto simp: member_facts_def rc(2))
  qed
  then show "\<forall>(u, old, new, ds) \<in> set cs. old = load_assignments (auth_of db1) (user_id u) t \<and>
       new = prospective_assignments dept (plan_to_add p) (user_id u) old \<and>
       (user_id u \<in> plan_to_add p \<longrightarrow> user_status u = STATUS_ENABLED)" by blast
qed

section \<open>Writes\<close>

abbreviation removed_row :: "int \<Rightarrow> int \<Rightarrow> int set \<Rightarrow> int \<times> int \<times> int \<Rightarrow> bool" where
  "removed_row t dept rem x \<equiv> fst x = t \<and> snd (snd x) = dept \<and> fst (snd x) \<in> rem"

lemma write_members_Inr:
  assumes w: "write_members db dept add rem t = Inr db'" and fin: "finite add"
  shows "db' = set_links db
      (filter (\<lambda>x. \<not> removed_row t dept rem x) (db_user_depts (scope (dd_auth db))) @
       map (\<lambda>u. (t, u, dept)) (sorted_list_of_set add))
      (filter (\<lambda>x. \<not> removed_row t dept rem x) (primary_depts (dd_auth db)))"
    "u \<in> add \<Longrightarrow> (t, u, dept) \<notin> set (filter (\<lambda>x. \<not> removed_row t dept rem x) (db_user_depts (scope (dd_auth db))))"
    "u \<in> add \<Longrightarrow> \<exists>r \<in> set (dd_depts db). dept_tenant r = t \<and> dept_id r = dept"
proof -
  let ?D = "if rem = {} then db else delete_links (removed_row t dept rem) db"
  let ?rows = "map (\<lambda>u. (u, dept, False)) (sorted_list_of_set add)"
  have D: "db_user_depts (scope (dd_auth ?D)) = filter (\<lambda>x. \<not> removed_row t dept rem x) (db_user_depts (scope (dd_auth db)))"
    "primary_depts (dd_auth ?D) = filter (\<lambda>x. \<not> removed_row t dept rem x) (primary_depts (dd_auth db))"
    "dd_depts ?D = dd_depts db" "\<And>l p. set_links ?D l p = set_links db l p"
    by (simp_all add: delete_links_def set_links_def)
  have ins: "insert_links ?D t ?rows = Inr db'" if "add \<noteq> {}"
    using w that by (simp add: write_members_def Let_def)
  have none: "filter (\<lambda>(u, d, p). p) ?rows = []" by (auto simp: filter_empty_conv)
  have self: "set_links db' (db_user_depts (scope (dd_auth db'))) (primary_depts (dd_auth db')) = db'" for db'
    by (simp add: set_links_def)
  show "db' = set_links db
      (filter (\<lambda>x. \<not> removed_row t dept rem x) (db_user_depts (scope (dd_auth db))) @
       map (\<lambda>u. (t, u, dept)) (sorted_list_of_set add))
      (filter (\<lambda>x. \<not> removed_row t dept rem x) (primary_depts (dd_auth db)))"
  proof (cases "add = {}")
    case True
    then have "db' = ?D" using w by (simp add: write_members_def)
    with True self[of ?D] show ?thesis by (simp only: D sorted_list_of_set.sorted_key_list_of_set_empty list.map append_Nil2)
  next
    case False
    note i = ins[OF this]
    show ?thesis
      using insert_links_Inr(1)[OF i] none by (simp add: D comp_def del: if_split)
  qed
  show "(t, u, dept) \<notin> set (filter (\<lambda>x. \<not> removed_row t dept rem x) (db_user_depts (scope (dd_auth db))))" if "u \<in> add"
  proof -
    have i: "insert_links ?D t ?rows = Inr db'" using ins that by blast
    show ?thesis using insert_links_Inr(2)[OF i, of u dept False] that fin unfolding D by simp
  qed
  show "\<exists>r \<in> set (dd_depts db). dept_tenant r = t \<and> dept_id r = dept" if "u \<in> add"
  proof -
    have i: "insert_links ?D t ?rows = Inr db'" using ins that by blast
    show ?thesis using insert_links_Inr(2)[OF i, of u dept False] that fin unfolding D by simp
  qed
qed

lemma members_links:
  assumes w: "write_members db dept add rem t = Inr db'" and fin: "finite add"
  shows "(t', u, d) \<in> set (db_user_depts (scope (dd_auth db'))) \<longleftrightarrow>
      (t', u, d) \<in> set (db_user_depts (scope (dd_auth db))) \<and> \<not> (t' = t \<and> d = dept \<and> u \<in> rem) \<or>
      t' = t \<and> d = dept \<and> u \<in> add"
    "(t', u, d) \<in> set (primary_depts (dd_auth db')) \<longleftrightarrow>
      (t', u, d) \<in> set (primary_depts (dd_auth db)) \<and> \<not> (t' = t \<and> d = dept \<and> u \<in> rem)"
  unfolding write_members_Inr(1)[OF w fin] using fin by auto

lemma plan_finite:
  assumes "plan_members h vis db actor_id dept ids t = Inr p"
  shows "finite (plan_to_add p)"
proof -
  have "pl_requested p = set ids" by (rule plan_members_Inr[OF assms])
  then show ?thesis by (simp add: plan_to_add_def)
qed

section \<open>The authorization of each change\<close>

lemma member_change_Inr:
  assumes "authorize_member_change a st auth actor req locked t ((u, old, new, ds), pair) = Inr y"
  shows "ensure_direct_scope auth (user_id u) old new False = Inr ()"
    "super_admin auth \<or> \<not> is_super_admin u" "ensure_primary_policy new req = Inr ()"
    "ensure_role_set_dominated auth (fst pair) {} = Inr ()" "ensure_role_set_dominated auth (snd pair) {} = Inr ()"
proof -
  obtain oa na where az: "authorize_assignment_change a st auth u old new ds None False {} (Some req) (Some pair) t = Inr (oa, na)"
    using assms by (auto simp: authorize_member_change_def bindE_eq_Inr)
  note c = assignment_change_Inr[OF az]
  show "ensure_direct_scope auth (user_id u) old new False = Inr ()" by (rule c)
  show "ensure_primary_policy new req = Inr ()" by (rule c) simp
  show "super_admin auth \<or> \<not> is_super_admin u" by (rule c) (auto simp: account_protection_Inr super_role_enabled)
  show "ensure_role_set_dominated auth (fst pair) {} = Inr ()" by (rule c) simp
  show "ensure_role_set_dominated auth (snd pair) {} = Inr ()" by (rule c) simp
qed

text \<open>For every change the materialized authorities before and after are those of the user alone, and
  both are dominated.\<close>

lemma checked_change:
  assumes cands: "\<forall>c \<in> set cs. change_ok db t c" and tree: "dept_tree (dd_depts db) t"
    and ms: "materialize_role_set_authorities (auth_of db) (change_candidates cs) [] t = Inr ms"
    and az: "mapE (authorize_member_change (auth_of db) st auth actor req locked t) (zip cs (pair_up ms)) = Inr ys"
    and c: "(u, old, new, ds) \<in> set cs"
  obtains oa na where
    "materialize_role_set_authority (auth_of db) u (user_roles u) (Some (user_depts u)) t = Inr oa"
    "materialize_role_set_authority (auth_of db) u (user_roles u) (Some ds) t = Inr na"
    "ensure_role_set_dominated auth oa {} = Inr ()" "ensure_role_set_dominated auth na {} = Inr ()"
    "ensure_direct_scope auth (user_id u) old new False = Inr ()" "super_admin auth \<or> \<not> is_super_admin u"
    "ensure_primary_policy new req = Inr ()"
proof -
  let ?f = "\<lambda>(u, rs, ds). materialize_role_set_authority (auth_of db) u rs (Some ds) t"
  have "mapE ?f (change_candidates cs) = Inr ms"
    using bulk_eq_single[OF tree_canonical_paths[OF tree] changes_candidates_ok[OF cands]] ms by simp
  note m = mapE_candidates[OF this]
  from c obtain i where i: "i < length cs" "cs ! i = (u, old, new, ds)" by (auto simp: in_set_conv_nth)
  have pair: "materialize_role_set_authority (auth_of db) u (user_roles u) (Some (user_depts u)) t = Inr (fst (pair_up ms ! i))"
    "materialize_role_set_authority (auth_of db) u (user_roles u) (Some ds) t = Inr (snd (pair_up ms ! i))"
    using m i by auto
  have "authorize_member_change (auth_of db) st auth actor req locked t ((u, old, new, ds), pair_up ms ! i) = Inr (ys ! i)"
    using az i m by (auto simp: mapE_eq_Inr)
  note ok = member_change_Inr[OF this]
  show ?thesis by (rule that[OF pair ok(4,5,1,2,3)])
qed

section \<open>A changed user after the write\<close>

lemma changed_link:
  assumes w: "write_members db dept add rem t = Inr db'" and fin: "finite add"
    and asg: "od = load_assignments (auth_of db) u t" "nw = prospective_assignments dept add u od"
    and chg: "u \<in> add \<union> rem" "add \<inter> rem = {}"
  shows "(t, u, d) \<in> set (db_user_depts (scope (dd_auth db'))) \<longleftrightarrow> d \<in> fst ` set nw"
proof -
  have "fst ` {(d, p). P d \<and> p = Q d} = {d. P d}" for P :: "int \<Rightarrow> bool" and Q :: "int \<Rightarrow> bool" by force
  then have od: "fst ` set od = {d. (t, u, d) \<in> set (db_user_depts (scope (dd_auth db)))}"
    unfolding asg(1) set_load_assignments auth_of_simps .
  show ?thesis
    using members_links(1)[OF w fin, of t u d] chg unfolding asg(2) prospective_ids od by (cases "u \<in> add") auto
qed

lemma changed_own_depts:
  assumes link: "\<And>d. (t, u, d) \<in> set links \<longleftrightarrow> d \<in> fst ` set nw"
    and x: "change_ok db t (x, od, nw, ds)"
  shows "set (own_dept_list (x\<lparr>user_depts := filter (\<lambda>d. dept_tenant d = t \<and> (t, u, dept_id d) \<in> set links)
      (plain_depts (dd_depts db))\<rparr>) None) = set (own_dept_list x (Some ds))"
proof -
  have "i \<in> dept_id ` {d \<in> set (plain_depts (dd_depts db)). dept_tenant d = t \<and> dept_id d \<in> fst ` set nw}"
    if i: "i \<in> fst ` set nw" for i
  proof -
    have "i \<in> dept_id ` set ds" using i x by (simp add: change_ok_def)
    then obtain d where "d \<in> set ds" "dept_id d = i" by auto
    then obtain r where "r \<in> set (dd_depts db)" "dept_tenant r = t" "dept_id r = i"
      using x by (auto simp: change_ok_def)
    then show ?thesis
      using i by (intro image_eqI[of _ _ "dept.truncate r"]) (auto simp: plain_depts_def)
  qed
  then have "dept_id ` {d \<in> set (plain_depts (dd_depts db)). dept_tenant d = t \<and> dept_id d \<in> fst ` set nw} = fst ` set nw"
    by auto
  then show ?thesis using x by (simp add: own_dept_list_def link change_ok_def)
qed

lemma dominated_member_after:
  assumes b: "build_authority h vis (auth_of db') u t = Inr b"
    and w: "write_members db dept add rem t = Inr db'" and fin: "finite add"
    and x: "change_ok db t (x, od, nw, ds)" "user_id x = u"
    and asg: "od = load_assignments (auth_of db) u t" "nw = prospective_assignments dept add u od"
    and chg: "u \<in> add \<union> rem" "add \<inter> rem = {}"
    and m: "materialize_role_set_authority (auth_of db) x (user_roles x) (Some ds) t = Inr na"
      "ensure_role_set_dominated auth na {} = Inr ()"
    and ns: "\<not> super_admin auth" "\<not> is_super_admin x"
    and vis: "case ga_user_ids auth of None \<Rightarrow> True | Some us \<Rightarrow> insert u add \<subseteq> us"
  shows "authority_le b auth"
proof -
  let ?a1 = "auth_of db" and ?a2 = "auth_of db'"
  define y where "y = x\<lparr>user_depts := filter (\<lambda>d. dept_tenant d = t \<and>
      (t, u, dept_id d) \<in> set (db_user_depts (scope (dd_auth db')))) (plain_depts (dd_depts db))\<rparr>"
  have same: "rows_users (dd_auth db') = rows_users (dd_auth db)" "rows_roles ?a2 = rows_roles ?a1"
    "links_roles (dd_auth db') = links_roles (dd_auth db)" "dd_depts db' = dd_depts db"
    "role_agents ?a2 = role_agents ?a1" "\<exists>l. scope ?a2 = (scope ?a1)\<lparr>db_user_depts := l\<rparr>"
    unfolding write_members_Inr(1)[OF w fin] auth_of_set_links by auto
  have y: "load_user ?a2 u t = Some y" "user_roles y = user_roles x"
    using load_user_moved[of ?a1 u t x ?a2] x same(1-4) unfolding y_def change_ok_def by simp_all
  have "set (own_dept_list y None) = set (own_dept_list x (Some ds))"
    unfolding y_def by (rule changed_own_depts[OF changed_link[OF w fin asg chg] x(1)])
  then have sc: "acc_scope ?a2 y (user_roles y) None t = acc_scope ?a1 x (user_roles x) (Some ds) t"
    using acc_scope_moved[of y None x "Some ds" "user_roles y" "user_roles x", where b = ?a2 and a = ?a1]
      same(6) y(2) by auto
  show ?thesis
  proof (rule materialized_dominates_moved[OF b y(1) refl refl same(5) _ x(2) ns(1), where M = add])
    show "ensure_role_set_dominated auth (authority_of (role_agents_of ?a1 t) (user_roles y)
        (fst (acc_scope ?a2 y (user_roles y) None t))
        (acc_users ?a1 x (Some ds) t (acc_scope ?a2 y (user_roles y) None t))) {} = Inr ()"
      using m(2) unfolding materialize_Inr(2)[OF m(1)] sc by (simp only: y(2))
    show "\<not> is_super_admin y" using ns(2) y(2) by (simp add: is_super_admin_def)
    show "members_of (scope ?a2) t D \<subseteq> insert u (members_of (scope ?a1) t D \<union> add)" for D
      unfolding members_of_def auth_of_simps using members_links(1)[OF w fin] by blast
  qed (rule vis)
qed

end
