(* ===== verification/Dept_Assignment_Props.thy ===== *)
theory Dept_Assignment_Props
  imports Dept_Member_Facts Role_Assignment_Props
begin

text \<open>
  The properties of department assignments: a replacement never lets an actor give or touch more
  than its own live authority, it writes exactly the accepted assignments of its target, no
  sequence of the writers gives a user two primary departments, and replacing the members of a
  department gives exactly the requested members and escalates none of them.
\<close>

section \<open>One user\<close>

lemma own_of_requested:
  assumes "load_requested_depts db assigns t = Inr rows" "distinct (map fst assigns)" "distinct (map dept_id (dd_depts db))"
  shows "set (own_dept_list u (Some (plain_depts rows))) = fst ` set assigns"
proof -
  have "dept_id ` set (plain_depts rows) = dept_id ` set rows" by (simp add: plain_depts_def image_image)
  then show ?thesis using requested_depts_Inr(1)[OF assms] by (simp add: own_dept_list_def)
qed

lemma own_after_write:
  assumes w: "write_assignments db uid assigns t = Inr db'"
  shows "set (own_dept_list (u\<lparr>user_depts :=
      filter (\<lambda>d. dept_tenant d = t \<and> dept_id d \<in> fst ` set assigns) (plain_depts (dd_depts db))\<rparr>) None) = fst ` set assigns"
proof -
  have "\<exists>d \<in> set (plain_depts (dd_depts db)). dept_tenant d = t \<and> dept_id d = i" if "i \<in> fst ` set assigns" for i
    using write_assignments_Inr(2)[OF w that] by (auto simp: plain_depts_def)
  then show ?thesis by (force simp: own_dept_list_def)
qed

text \<open>Property C22: when an actor replaces the departments of a user, the actor holds the edit and
  department-list permissions at the time of the write, and unless it is a super-administrator it
  can see the user and every department taken away or given, and the user's live authority, as
  the database gives it before the write and after it, is dominated by the actor's. A department
  id names one row of the table.\<close>

theorem department_replacement_no_escalation:
  assumes ok: "replace_departments h vis db0 db1 st actor_id target_id raw expected t = Inr (result, db2)"
    and key: "distinct (map dept_id (dd_depts db1))"
  shows "\<exists>auth. build_authority h vis (auth_of db1) actor_id t = Inr auth \<and>
    allows_permission_codes auth {USER_EDIT_PERMISSION, DEPT_LIST_PERMISSION} \<and>
    (super_admin auth \<or> scope_le (Some {target_id}) (ga_user_ids auth) \<and>
       scope_le (Some (fst ` set (da_old result) \<union> fst ` set (da_new result))) (ga_dept_ids auth)) \<and>
    (\<forall>before. build_authority h vis (auth_of db1) target_id t = Inr before \<longrightarrow> super_admin auth \<or> authority_le before auth) \<and>
    (\<forall>after. build_authority h vis (auth_of db2) target_id t = Inr after \<longrightarrow> super_admin auth \<or> authority_le after auth)"
proof -
  let ?a1 = "auth_of db1" and ?a2 = "auth_of db2"
  obtain norm target auth requested oa na where
    norm: "normalize_assignments raw = Inr norm" and u: "load_user ?a1 target_id t = Some target" and
    auth: "build_authority h vis ?a1 actor_id t = Inr auth"
      "allows_permission_codes auth {USER_EDIT_PERMISSION, DEPT_LIST_PERMISSION}" and
    req: "load_requested_depts db1 norm t = Inr requested" and
    az: "authorize_assignment_change ?a1 st auth target (load_assignments ?a1 target_id t) norm
       (plain_depts requested) None False {} (Some (require_primary_setting st t)) None t = Inr (oa, na)" and
    w: "write_assignments db1 target_id norm t = Inr db2" and
    result: "result = \<lparr>da_user_id = target_id, da_old = load_assignments ?a1 target_id t, da_new = norm\<rparr>"
    by (rule replace_departments_Inr[OF ok[unfolded replace_departments_def]])
  have uid: "user_id target = target_id" using load_user_Some(1)[OF u] .
  have dn: "distinct (map fst norm)" using normalize_assignments_Inr(1)[OF norm] by (simp add: assignment_list_def)
  note change = assignment_change_Inr[OF az]
  have mat: "materialize_role_set_authority ?a1 target (user_roles target) (Some (user_depts target)) t = Inr oa"
    "materialize_role_set_authority ?a1 target (user_roles target) (Some (plain_depts requested)) t = Inr na"
    and dom: "ensure_role_set_dominated auth oa {} = Inr ()" "ensure_role_set_dominated auth na {} = Inr ()"
    and direct: "ensure_direct_scope auth target_id (load_assignments ?a1 target_id t) norm False = Inr ()"
    and prot: "super_admin auth \<or> \<not> is_super_admin target"
    using change uid by (auto simp: account_protection_Inr super_role_enabled)
  have vis: "case ga_user_ids auth of None \<Rightarrow> True | Some us \<Rightarrow> target_id \<in> us" if "\<not> super_admin auth"
    using direct that by (simp add: direct_scope_Inr)
  have within: "super_admin auth \<or> scope_le (Some {target_id}) (ga_user_ids auth) \<and>
      scope_le (Some (fst ` set (da_old result) \<union> fst ` set (da_new result))) (ga_dept_ids auth)"
    using direct by (auto simp: direct_scope_Inr scope_le_def result split: option.splits)
  have before: "authority_le b auth" if b: "build_authority h vis ?a1 target_id t = Inr b" and ns: "\<not> super_admin auth" for b
    using dominated_before[OF b u mat(1) dom(1) uid ns _ vis[OF ns]] prot ns by blast
  define u2 where "u2 = target\<lparr>user_depts :=
      filter (\<lambda>d. dept_tenant d = t \<and> dept_id d \<in> fst ` set norm) (plain_depts (dd_depts db1))\<rparr>"
  have u2: "load_user ?a2 target_id t = Some u2" unfolding u2_def by (rule load_user_written[OF w u])
  have roles2: "user_roles u2 = user_roles target" by (simp add: u2_def)
  have after: "authority_le b auth" if b: "build_authority h vis ?a2 target_id t = Inr b" and ns: "\<not> super_admin auth" for b
  proof (rule materialized_dominates_moved[OF b u2 _ refl _ _ uid ns, where M = "{}"])
    have "set (own_dept_list u2 None) = set (own_dept_list target (Some (plain_depts requested)))"
      unfolding u2_def own_after_write[OF w] own_of_requested[OF req dn key] ..
    moreover have "\<exists>l. scope ?a2 = (scope ?a1)\<lparr>db_user_depts := l\<rparr>"
      unfolding write_assignments_Inr(1)[OF w] auth_of_set_links by auto
    ultimately have sc: "acc_scope ?a2 u2 (user_roles u2) None t =
        acc_scope ?a1 target (user_roles target) (Some (plain_depts requested)) t"
      using acc_scope_moved[of u2 None target "Some (plain_depts requested)" "user_roles u2" "user_roles target", where b = ?a2 and a = ?a1]
      unfolding roles2 by blast
    show "ensure_role_set_dominated auth (authority_of (role_agents_of ?a1 t) (user_roles u2)
        (fst (acc_scope ?a2 u2 (user_roles u2) None t))
        (acc_users ?a1 target (Some (plain_depts requested)) t (acc_scope ?a2 u2 (user_roles u2) None t))) {} = Inr ()"
      using dom(2) unfolding materialize_Inr(2)[OF mat(2)] sc by (simp only: roles2)
    show "\<not> is_super_admin u2" using prot ns roles2 by (simp add: is_super_admin_def)
    show "members_of (scope ?a2) t ds \<subseteq> insert target_id (members_of (scope ?a1) t ds \<union> {})" for ds
      using members_written[OF w] by simp
    show "role_agents ?a2 = role_agents ?a1"
      unfolding write_assignments_Inr(1)[OF w] auth_of_set_links by simp
  qed (use ns vis in \<open>auto split: option.splits\<close>)
  show ?thesis using auth within before after by blast
qed

text \<open>What a replacement writes, whichever entry point makes it. The target's assignments
  are then the normal form of the request: in the order of the department ids, each id positive, of
  an enabled department of the tenant and at most once, at most one of them primary, and exactly
  one when the tenant's settings require a primary department. Every other user of every tenant has
  the assignments it had and is loaded as before.\<close>

theorem department_replacement_effect:
  assumes ok: "replace_departments_core h vis db0 db1 st actor_id target_id raw required created ignored expected t
      = Inr (result, db2)"
    and key: "distinct (map dept_id (dd_depts db1))"
  shows "normalize_assignments raw = Inr (da_new result) \<and>
    load_assignments (auth_of db2) target_id t = da_new result \<and>
    sorted (map fst (da_new result)) \<and> distinct (map fst (da_new result)) \<and>
    (\<forall>i \<in> fst ` set (da_new result). 0 < i \<and>
       (\<exists>d \<in> set (dd_depts db1). dept_tenant d = t \<and> dept_id d = i \<and> dept_status d = STATUS_ENABLED)) \<and>
    length (filter snd (da_new result)) \<le> 1 \<and>
    (require_primary_setting st t \<longrightarrow> length (filter snd (da_new result)) = 1) \<and>
    (\<forall>t' u. (t', u) \<noteq> (t, target_id) \<longrightarrow>
       load_assignments (auth_of db2) u t' = load_assignments (auth_of db1) u t' \<and>
       load_user (auth_of db2) u t' = load_user (auth_of db1) u t')"
proof -
  obtain norm target1 auth requested oa na where
    norm: "normalize_assignments raw = Inr norm" and
    req: "load_requested_depts db1 norm t = Inr requested" and
    az: "authorize_assignment_change (auth_of db1) st auth target1 (load_assignments (auth_of db1) target_id t) norm
       (plain_depts requested) None created ignored (Some (require_primary_setting st t)) None t = Inr (oa, na)" and
    w: "write_assignments db1 target_id norm t = Inr db2" and
    result: "result = \<lparr>da_user_id = target_id, da_old = load_assignments (auth_of db1) target_id t, da_new = norm\<rparr>"
    by (rule replace_departments_Inr[OF ok])
  note n = normalize_assignments_Inr[OF norm]
  have dn: "distinct (map fst norm)" "sorted (map fst norm)" using n(1) by (simp_all add: assignment_list_def)
  have policy: "ensure_primary_policy norm (require_primary_setting st t) = Inr ()"
    by (rule assignment_change_Inr[OF az]) simp
  have enabled: "\<exists>d \<in> set (dd_depts db1). dept_tenant d = t \<and> dept_id d = i \<and> dept_status d = STATUS_ENABLED"
    if "i \<in> fst ` set norm" for i
    using that unfolding requested_depts_Inr(1)[OF req dn(1) key, symmetric]
    using requested_depts_Inr(2)[OF req dn(1) key] by auto
  have "load_assignments (auth_of db2) target_id t = norm"
    by (rule assignments_written[OF w n(1)])
  moreover have "load_assignments (auth_of db2) u t' = load_assignments (auth_of db1) u t' \<and>
      load_user (auth_of db2) u t' = load_user (auth_of db1) u t'" if "(t', u) \<noteq> (t, target_id)" for t' u
    using that assignments_frame[OF w] load_user_unwritten[OF w] by simp
  ultimately show ?thesis
    using norm n(2) dn policy enabled unfolding result primary_policy_Inr by auto
qed

section \<open>The members of a department\<close>

text \<open>Every primary row is a row of the table, which has no row twice.\<close>

definition links_ok :: "dept_db \<Rightarrow> bool" where
  "links_ok db \<longleftrightarrow> distinct (db_user_depts (scope (dd_auth db))) \<and>
     set (primary_depts (dd_auth db)) \<subseteq> set (db_user_depts (scope (dd_auth db)))"

text \<open>Replacing the members of a department gives it exactly the requested members. A
  member that stays keeps its primary flag, a new one is an enabled user of the tenant with the
  department enabled and not primary, no primary member is removed, the result counts what changed,
  and no link of another department or tenant changes.\<close>

theorem department_members_effect:
  assumes ok: "replace_department_members h vis db0 db1 st actor_id dept raw t = Inr (result, db2)"
    and links: "links_ok db1"
  shows "\<exists>ids. normalize_members raw = Inr ids \<and>
    (let old = load_member_map (auth_of db1) dept t; new = load_member_map (auth_of db2) dept t
     in fst ` new = set ids \<and> new = {x \<in> old. fst x \<in> set ids} \<union> (\<lambda>u. (u, False)) ` (set ids - fst ` old) \<and>
        (\<forall>x \<in> old. snd x \<longrightarrow> x \<in> new) \<and>
        ms_added result = card (set ids - fst ` old) \<and> ms_removed result = card (fst ` old - set ids) \<and>
        (\<forall>u \<in> set ids - fst ` old. \<exists>x d. load_user (auth_of db1) u t = Some x \<and> user_status x = STATUS_ENABLED \<and>
           load_department (dd_depts db1) dept t = Inr d \<and> dept_status d = STATUS_ENABLED)) \<and>
    (\<forall>t' u d. (t', d) \<noteq> (t, dept) \<longrightarrow>
       ((t', u, d) \<in> set (db_user_depts (scope (dd_auth db2))) \<longleftrightarrow> (t', u, d) \<in> set (db_user_depts (scope (dd_auth db1)))) \<and>
       ((t', u, d) \<in> set (primary_depts (dd_auth db2)) \<longleftrightarrow> (t', u, d) \<in> set (primary_depts (dd_auth db1))))"
proof -
  obtain ids p locked cs where norm: "normalize_members raw = Inr ids" and
    p: "plan_members h vis db0 actor_id dept ids t = Inr p" and
    r: "recheck_members h vis db1 st p locked actor_id dept t = Inr cs" and
    w: "write_members db1 dept (plan_to_add p) (plan_to_remove p) t = Inr db2" and
    result: "result = \<lparr>ms_added = card (plan_to_add p), ms_removed = card (plan_to_remove p)\<rparr>"
    by (rule replace_members_Inr[OF ok])
  define old where "old = load_member_map (auth_of db1) dept t"
  define new where "new = load_member_map (auth_of db2) dept t"
  have plan: "pl_requested p = set ids" "\<forall>u \<in> plan_to_remove p. (u, True) \<notin> pl_members p"
    "plan_to_add p \<noteq> {} \<Longrightarrow> dept_status (pl_dept p) = STATUS_ENABLED"
    by (rule plan_members_Inr[OF p], assumption)+
  obtain drow where chk: "load_department (dd_depts db1) dept t = Inr drow" "dept_status drow = dept_status (pl_dept p)"
    "old = pl_members p"
    by (rule recheck_members_Inr[OF r]) (simp add: old_def)
  have add: "plan_to_add p = set ids - fst ` old" and rem: "plan_to_remove p = fst ` old - set ids"
    by (simp_all add: plan_to_add_def plan_to_remove_def plan(1) chk(3))
  have fin: "finite (plan_to_add p)" by (rule plan_finite[OF p])
  note ml = members_links[OF w fin]
  have fresh: "(t, u, dept) \<notin> set (primary_depts (dd_auth db1))" if "u \<in> plan_to_add p" for u
    using that links unfolding add old_def member_map_ids links_ok_def by auto
  have new_iff: "(u, q) \<in> new \<longleftrightarrow> ((u, q) \<in> old \<and> u \<in> set ids) \<or> (q = False \<and> u \<in> plan_to_add p)" for u q
  proof -
    have o: "(u, q) \<in> old \<longleftrightarrow> (t, u, dept) \<in> set (db_user_depts (scope (dd_auth db1))) \<and>
        q = ((t, u, dept) \<in> set (primary_depts (dd_auth db1)))" for u q
      unfolding old_def member_map_iff by simp
    have oi: "u \<in> fst ` old \<longleftrightarrow> (t, u, dept) \<in> set (db_user_depts (scope (dd_auth db1)))" for u
      unfolding old_def member_map_ids by simp
    define was where "was \<longleftrightarrow> u \<in> fst ` old"
    show ?thesis
      using fresh[of u] ml[of t u dept] oi[of u]
      unfolding new_def member_map_iff auth_of_simps o add rem Diff_iff was_def[symmetric] by auto
  qed
  have new_eq: "new = {x \<in> old. fst x \<in> set ids} \<union> (\<lambda>u. (u, False)) ` (set ids - fst ` old)"
  proof (rule set_eqI)
    fix x :: assignment
    obtain u q where x: "x = (u, q)" by (cases x)
    have "(u, q) \<in> (\<lambda>u. (u, False)) ` plan_to_add p \<longleftrightarrow> q = False \<and> u \<in> plan_to_add p" by auto
    then show "x \<in> new \<longleftrightarrow> x \<in> {x \<in> old. fst x \<in> set ids} \<union> (\<lambda>u. (u, False)) ` (set ids - fst ` old)"
      using new_iff[of u q] unfolding x add[symmetric] by simp
  qed
  have ids_new: "fst ` new = set ids"
  proof -
    have "fst ` {x \<in> old. fst x \<in> set ids} = fst ` old \<inter> set ids" by auto
    moreover have "fst ` (\<lambda>u. (u, False)) ` A = A" for A :: "int set" by (simp add: image_image)
    ultimately show ?thesis unfolding new_eq image_Un by (simp only:) blast
  qed
  have prim: "\<forall>x \<in> old. snd x \<longrightarrow> x \<in> new"
  proof (intro ballI impI)
    fix x assume x: "x \<in> old" "snd x"
    then have "(fst x, True) \<in> old" by (cases x) simp
    with plan(2) have "fst x \<notin> plan_to_remove p" unfolding chk(3)[symmetric] by blast
    then have "fst x \<in> set ids" using imageI[OF x(1), of fst] unfolding rem by blast
    with x(1) show "x \<in> new" unfolding new_eq by blast
  qed
  have enabled: "\<exists>x d. load_user (auth_of db1) u t = Some x \<and> user_status x = STATUS_ENABLED \<and>
      load_department (dd_depts db1) dept t = Inr d \<and> dept_status d = STATUS_ENABLED" if "u \<in> plan_to_add p" for u
  proof -
    note c = checked_changes[OF p r]
    have finr: "finite (plan_to_add p \<union> plan_to_remove p)" using fin by (simp add: rem old_def)
    have "u \<in> set (map (\<lambda>c. user_id (fst c)) cs)" using that finr unfolding c(1) by simp
    then obtain x od nw ds where x: "(x, od, nw, ds) \<in> set cs" "user_id x = u" by auto
    then have "load_user (auth_of db1) u t = Some x" using c(2) by (auto simp: change_ok_def)
    moreover have "user_status x = STATUS_ENABLED" using c(3) x that by auto
    moreover have "dept_status drow = STATUS_ENABLED" using plan(3) that chk(2) by auto
    ultimately show ?thesis using chk(1) by blast
  qed
  show ?thesis
    unfolding Let_def old_def[symmetric] new_def[symmetric]
    using norm ids_new prim enabled ml
    by (intro exI[of _ ids] conjI new_eq) (auto simp: result simp flip: add rem)
qed

text \<open>Replacing the members of a department escalates nobody. The actor holds the
  department and user permissions at the time of the write, sees the department and every old and
  new member unless it is a super-administrator, and the live authority of every user that joins
  or leaves, before the write and after it, when all the other changes are in place too, is
  dominated by the actor's. The departments form a tree.\<close>

theorem department_members_no_escalation:
  assumes ok: "replace_department_members h vis db0 db1 st actor_id dept raw t = Inr (result, db2)"
    and tree: "dept_tree (dd_depts db1) t"
  shows "\<exists>auth. build_authority h vis (auth_of db1) actor_id t = Inr auth \<and>
    allows_permission_codes auth {DEPT_LIST_PERMISSION, DEPT_EDIT_PERMISSION, USER_EDIT_PERMISSION} \<and>
    (let old = fst ` load_member_map (auth_of db1) dept t; new = fst ` load_member_map (auth_of db2) dept t
     in (super_admin auth \<or> scope_le (Some {dept}) (ga_dept_ids auth) \<and> scope_le (Some (old \<union> new)) (ga_user_ids auth)) \<and>
        (\<forall>u \<in> (old - new) \<union> (new - old).
          (\<forall>before. build_authority h vis (auth_of db1) u t = Inr before \<longrightarrow> super_admin auth \<or> authority_le before auth) \<and>
          (\<forall>after. build_authority h vis (auth_of db2) u t = Inr after \<longrightarrow> super_admin auth \<or> authority_le after auth)))"
proof -
  let ?a1 = "auth_of db1" and ?a2 = "auth_of db2"
  obtain ids p locked cs where
    p: "plan_members h vis db0 actor_id dept ids t = Inr p" and
    r: "recheck_members h vis db1 st p locked actor_id dept t = Inr cs" and
    w: "write_members db1 dept (plan_to_add p) (plan_to_remove p) t = Inr db2"
    by (rule replace_members_Inr[OF ok])
  obtain actor auth ms ys where
    auth: "build_authority h vis ?a1 actor_id t = Inr auth" "allows_permission_codes auth member_permissions" and
    old: "load_member_map ?a1 dept t = pl_members p" and
    scopes: "ensure_department_scope auth dept = Inr ()"
      "ensure_member_scope auth (fst ` pl_members p \<union> pl_requested p) = Inr ()" and
    ms: "materialize_role_set_authorities ?a1 (change_candidates cs) [] t = Inr ms" and
    az: "mapE (authorize_member_change ?a1 st auth actor (require_primary_setting st t) locked t) (zip cs (pair_up ms)) = Inr ys"
    by (rule recheck_members_Inr[OF r]) blast
  have fin: "finite (plan_to_add p)" by (rule plan_finite[OF p])
  note ml = members_links[OF w fin] and cc = checked_changes[OF p r]
  define before where "before = fst ` load_member_map ?a1 dept t"
  define after where "after = fst ` load_member_map ?a2 dept t"
  have add: "plan_to_add p = pl_requested p - before" and rem: "plan_to_remove p = before - pl_requested p"
    by (simp_all add: plan_to_add_def plan_to_remove_def before_def old)
  have after: "after = (before - plan_to_remove p) \<union> plan_to_add p"
    unfolding after_def before_def member_map_ids auth_of_simps using ml(1)[of t _ dept] by blast
  have seen: "super_admin auth \<or> scope_le (Some {dept}) (ga_dept_ids auth) \<and> scope_le (Some (before \<union> after)) (ga_user_ids auth)"
    using scopes unfolding ensure_department_scope_def ensure_member_scope_def guardE_eq_Inr old[symmetric] before_def[symmetric]
    by (auto simp: scope_le_def after add split: option.splits)
  have user: "authority_le b auth" if aff: "u \<in> (before - after) \<union> (after - before)" and ns: "\<not> super_admin auth"
    and b: "build_authority h vis ?a1 u t = Inr b \<or> build_authority h vis ?a2 u t = Inr b" for u b
  proof -
    have chg: "u \<in> plan_to_add p \<union> plan_to_remove p" "plan_to_add p \<inter> plan_to_remove p = {}"
      using aff unfolding after by (auto simp: add rem)
    moreover have "finite (plan_to_add p \<union> plan_to_remove p)" using fin by (simp add: rem before_def)
    ultimately have "u \<in> set (map (\<lambda>c. user_id (fst c)) cs)" unfolding cc(1) by simp
    then obtain x od nw ds where c: "(x, od, nw, ds) \<in> set cs" "user_id x = u" by auto
    have x: "change_ok db1 t (x, od, nw, ds)" using cc(2) c(1) by blast
    have asg: "od = load_assignments ?a1 u t" "nw = prospective_assignments dept (plan_to_add p) u od"
      using cc(3) c by auto
    obtain oa na where ck: "materialize_role_set_authority ?a1 x (user_roles x) (Some (user_depts x)) t = Inr oa"
      "materialize_role_set_authority ?a1 x (user_roles x) (Some ds) t = Inr na"
      "ensure_role_set_dominated auth oa {} = Inr ()" "ensure_role_set_dominated auth na {} = Inr ()"
      "ensure_direct_scope auth (user_id x) od nw False = Inr ()" "super_admin auth \<or> \<not> is_super_admin x"
      by (rule checked_change[OF cc(2) tree ms az c(1)])
    have vis: "case ga_user_ids auth of None \<Rightarrow> True | Some us \<Rightarrow> insert u (plan_to_add p) \<subseteq> us"
      using seen ns ck(5) c(2) unfolding after by (auto simp: direct_scope_Inr scope_le_def split: option.splits)
    from b show ?thesis
    proof
      assume "build_authority h vis ?a1 u t = Inr b"
      from dominated_before[OF this _ ck(1,3) c(2) ns] ck(6) ns vis x c(2) show ?thesis
        by (auto simp: change_ok_def split: option.splits)
    next
      assume "build_authority h vis ?a2 u t = Inr b"
      from dominated_member_after[OF this w fin x c(2) asg chg ck(2,4) ns _ vis] ck(6) ns show ?thesis by blast
    qed
  qed
  show ?thesis
    using auth seen user unfolding Let_def before_def[symmetric] after_def[symmetric] member_permissions_def by blast
qed

section \<open>One primary department per user\<close>

definition single_primary :: "dept_db \<Rightarrow> bool" where
  "single_primary db \<longleftrightarrow>
     (\<forall>(t, u, d) \<in> set (primary_depts (dd_auth db)). \<forall>(t', u', d') \<in> set (primary_depts (dd_auth db)).
        t' = t \<and> u' = u \<longrightarrow> d' = d)"

text \<open>The transactions that write the association table, each with the reads it made before its
  locks (\<open>db0\<close>): a replacement of whichever entry point, an import row that was validated, a
  replacement of members, the deletion of rows of users or departments that go, and any
  transaction that leaves the table alone.\<close>

inductive assignment_step :: "(json \<Rightarrow> string) \<Rightarrow> (auth_db \<Rightarrow> user \<Rightarrow> int set) \<Rightarrow> dept_db \<Rightarrow> dept_db \<Rightarrow> bool"
  for h vis where
  step_replace: "replace_departments_core h vis db0 db st actor target raw required created ignored expected t
      = Inr (result, db') \<Longrightarrow> assignment_step h vis db db'"
| step_import: "validate_import_department_assignment h vis db0 st actor target name status role_ids raw auth
      prospective fresh ignored t = Inr () \<Longrightarrow>
    apply_locked_import_departments db i raw t = Inr (result, db') \<Longrightarrow> assignment_step h vis db db'"
| step_members: "replace_department_members h vis db0 db st actor dept members t = Inr (counts, db') \<Longrightarrow>
    assignment_step h vis db db'"
| step_delete: "db' = delete_links P db \<Longrightarrow> assignment_step h vis db db'"
| step_other: "db_user_depts (scope (dd_auth db')) = db_user_depts (scope (dd_auth db)) \<Longrightarrow>
    primary_depts (dd_auth db') = primary_depts (dd_auth db) \<Longrightarrow> assignment_step h vis db db'"

inductive assignment_reach :: "(json \<Rightarrow> string) \<Rightarrow> (auth_db \<Rightarrow> user \<Rightarrow> int set) \<Rightarrow> dept_db \<Rightarrow> bool"
  for h vis where
  reach_empty: "db_user_depts (scope (dd_auth db)) = [] \<Longrightarrow> primary_depts (dd_auth db) = [] \<Longrightarrow>
    assignment_reach h vis db"
| reach_step: "assignment_reach h vis db \<Longrightarrow> assignment_step h vis db db' \<Longrightarrow> assignment_reach h vis db'"

lemma one_true:
  assumes "length (filter snd xs) \<le> 1" "(d, True) \<in> set xs" "(d', True) \<in> set xs"
  shows "d' = d"
proof -
  have m: "(d, True) \<in> set (filter snd xs)" "(d', True) \<in> set (filter snd xs)" using assms(2,3) by simp_all
  show ?thesis using assms(1) m by (cases "filter snd xs") auto
qed

lemma links_ok_write:
  assumes w: "write_assignments db uid assigns t = Inr db'" and a: "assignment_list assigns" and ok: "links_ok db"
  shows "links_ok db'"
proof -
  have "distinct (map (\<lambda>x. (t, uid, fst x)) assigns)"
    using a by (simp add: assignment_list_def distinct_map inj_on_def)
  then show ?thesis using ok unfolding links_ok_def write_assignments_Inr(1)[OF w] by auto
qed

lemma single_primary_write:
  assumes w: "write_assignments db uid assigns t = Inr db'" and n: "length (filter snd assigns) \<le> 1" and ok: "single_primary db"
  shows "single_primary db'"
  unfolding single_primary_def
proof (clarify)
  fix t' u d d'
  assume "(t', u, d) \<in> set (primary_depts (dd_auth db'))" "(t', u, d') \<in> set (primary_depts (dd_auth db'))"
  then show "d' = d"
    using one_true[OF n] ok unfolding links_written(2)[OF w] single_primary_def by (auto split: if_splits)
qed

lemma write_members_keeps:
  assumes w: "write_members db dept add rem t = Inr db'" and fin: "finite add" and ok: "links_ok db" "single_primary db"
  shows "links_ok db'" "single_primary db'"
proof -
  note m = write_members_Inr[OF w fin]
  have new: "(t, u, dept) \<notin> set (filter (\<lambda>x. \<not> removed_row t dept rem x) (db_user_depts (scope (dd_auth db))))"
    if "u \<in> add" for u using m(2) that .
  have d: "distinct (map (\<lambda>u. (t, u, dept)) (sorted_list_of_set add))" by (simp add: distinct_map inj_on_def)
  show "links_ok db'"
    using ok(1) d new fin unfolding links_ok_def m(1) by auto
  show "single_primary db'"
    using ok(2) unfolding single_primary_def m(1) by auto
qed

lemma links_distinct:
  assumes "links_ok db"
  shows "distinct (map fst (load_assignments (auth_of db) u t))"
proof -
  let ?k = "\<lambda>(t' :: int, u :: int, d :: int). d"
  let ?xs = "filter (\<lambda>(t', x, d). t' = t \<and> x = u) (db_user_depts (scope (dd_auth db)))"
  have "map fst (load_assignments (auth_of db) u t) = map ?k (sort_key ?k ?xs)"
    by (simp add: load_assignments_def comp_def case_prod_beta)
  moreover have "distinct ?xs" "inj_on ?k (set ?xs)" using assms by (auto simp: links_ok_def inj_on_def)
  ultimately show ?thesis by (simp add: distinct_map)
qed

lemma validated_primary:
  assumes v: "validate_import_department_assignment h vis db st actor_id target_id name status role_ids raw authority
      prospective fresh ignored t = Inr ()"
    and norm: "normalize_assignments raw = Inr norm"
  shows "length (filter snd norm) \<le> 1"
proof -
  from v norm obtain a auth target old depts roles created oa na where
    "authorize_assignment_change a st auth target old norm depts roles created ignored None None t = Inr (oa, na)"
    unfolding validate_import_department_assignment_def Let_def bindE_eq_Inr sum.inject
    by (auto simp: bindE_eq_Inr split: prod.splits)
  then have "ensure_primary_policy norm (require_primary_setting st t) = Inr ()"
    by (rule assignment_change_Inr) simp
  then show ?thesis by (simp add: primary_policy_Inr)
qed

lemma assignment_step_keeps:
  "assignment_step h vis db db' \<Longrightarrow> links_ok db \<Longrightarrow> single_primary db \<Longrightarrow> links_ok db' \<and> single_primary db'"
proof (induction rule: assignment_step.induct)
  case (step_replace db0 db st actor target raw required created ignored expected t result db')
  obtain norm target1 auth requested oa na where norm: "normalize_assignments raw = Inr norm" and
    az: "authorize_assignment_change (auth_of db) st auth target1 (load_assignments (auth_of db) target t) norm
       (plain_depts requested) None created ignored (Some (require_primary_setting st t)) None t = Inr (oa, na)" and
    w: "write_assignments db target norm t = Inr db'"
    by (rule replace_departments_Inr[OF step_replace.hyps])
  have "ensure_primary_policy norm (require_primary_setting st t) = Inr ()"
    by (rule assignment_change_Inr[OF az]) simp
  with step_replace.prems w normalize_assignments_Inr(1)[OF norm] show ?case
    by (simp add: links_ok_write single_primary_write primary_policy_Inr)
next
  case (step_import db0 st actor target name status role_ids raw auth prospective fresh ignored t db i result db')
  from step_import.hyps(2) obtain norm where norm: "normalize_assignments raw = Inr norm"
    and w: "write_assignments db i norm t = Inr db'"
    by (auto simp: apply_locked_import_departments_def bindE_eq_Inr)
  have "length (filter snd norm) \<le> 1"
    by (rule validated_primary[OF step_import.hyps(1) norm])
  with step_import.prems w normalize_assignments_Inr(1)[OF norm] show ?case
    by (simp add: links_ok_write single_primary_write)
next
  case (step_members db0 db st actor dept members t counts db')
  obtain ids p locked cs where p: "plan_members h vis db0 actor dept ids t = Inr p" and
    w: "write_members db dept (plan_to_add p) (plan_to_remove p) t = Inr db'"
    by (rule replace_members_Inr[OF step_members.hyps])
  show ?case using write_members_keeps[OF w plan_finite[OF p]] step_members.prems by blast
next
  case (step_delete db' P db)
  then show ?case by (auto simp: links_ok_def single_primary_def)
next
  case (step_other db' db)
  then show ?case by (simp add: links_ok_def single_primary_def)
qed

text \<open>Property C23: no user ever has two primary departments and no assignment is stored twice. From an
  empty association table, along every sequence of replacements, created and imported users,
  replacements of department members and deletions, in whatever interleaving of their reads, the
  assignments of a user name each department once and flag at most one of them as primary.\<close>

theorem one_primary_department:
  assumes r: "assignment_reach h vis db"
  shows "length (filter snd (load_assignments (auth_of db) u t)) \<le> 1 \<and>
    distinct (map fst (load_assignments (auth_of db) u t))"
proof -
  from r have inv: "links_ok db \<and> single_primary db"
  proof (induction rule: assignment_reach.induct)
    case (reach_empty db)
    then show ?case by (simp add: links_ok_def single_primary_def)
  next
    case (reach_step db db')
    then show ?case using assignment_step_keeps by blast
  qed
  have d: "distinct (map fst (load_assignments (auth_of db) u t))" using inv by (simp add: links_distinct)
  have "length (filter snd xs) \<le> 1" if "distinct (map fst xs)" "\<forall>x \<in> set xs. \<forall>y \<in> set xs. snd x \<and> snd y \<longrightarrow> fst x = fst y"
    for xs :: "assignment list" using that by (induction xs) (auto simp: filter_empty_conv)
  moreover have "\<forall>x \<in> set (load_assignments (auth_of db) u t). \<forall>y \<in> set (load_assignments (auth_of db) u t).
      snd x \<and> snd y \<longrightarrow> fst x = fst y"
    using inv unfolding set_load_assignments single_primary_def by auto
  ultimately show ?thesis using d by blast
qed

section \<open>Witnesses\<close>

text \<open>Tenant 7 again: the manager (50) of department 12 and of its child 123, whose member 51 holds
  the default role; 60 is a super-administrator.\<close>

definition team_dept :: "int \<Rightarrow> int option \<Rightarrow> string \<Rightarrow> dept_row" where
  "team_dept i p anc = \<lparr>dept_id = i, dept_tenant = 7, dept_status = ''1'', dept_ancestors = Some anc,
     dr_parent = p, dr_name = show_int i, dr_order = 0, dr_leader = None, dr_phone = None, dr_email = None\<rparr>"

definition team_dept_db :: dept_db where
  "team_dept_db = \<lparr>dd_auth = \<lparr>
     scope = \<lparr>db_depts = [], db_role_depts = [], db_user_depts = [(7, 50, 12), (7, 51, 123)],
       db_users = [(7, 50), (7, 51), (7, 60)]\<rparr>,
     rows_users = [team_user 50, team_user 51, team_user 60],
     rows_roles = [team_role 1 ''R_MGR'' ''4''
         [team_menu 90 ''system:user:edit'', team_menu 91 ''system:dept:list'', team_menu 92 ''system:dept:edit''],
       team_role 2 ''R_USER'' ''5'' [], team_role 9 ''R_SUPER'' ''1'' []],
     links_roles = [(7, 50, 1), (7, 51, 2), (7, 60, 9)], primary_depts = [(7, 50, 12)], role_agents = []\<rparr>,
     dd_depts = [team_dept 12 None ''0'', team_dept 123 (Some 12) ''0,12''], dd_names = []\<rparr>"

definition team_request :: "(json \<times> json) list" where
  "team_request = [(JInt 123, JBool True), (JStr ''12'', JBool False)]"

lemma team_dept_replace:
  "is_ok (replace_departments demo_hash no_agents team_dept_db team_dept_db [] 50 51 team_request None 7)"
  by code_simp

lemma team_members_replace:
  "is_ok (replace_department_members demo_hash no_agents team_dept_db team_dept_db [] 50 123 [JInt 50] 7)"
  by code_simp

lemma team_dept_keys: "distinct (map dept_id (dd_depts team_dept_db))" "links_ok team_dept_db"
  by (simp_all add: team_dept_db_def team_dept_def links_ok_def)

lemma team_dept_tree: "dept_tree (dd_depts team_dept_db) 7"
  by code_simp

theorem department_replacement_no_escalation_witness:
  "\<exists>result db2 auth. replace_departments demo_hash no_agents team_dept_db team_dept_db [] 50 51 team_request None 7 =
       Inr (result, db2) \<and>
     build_authority demo_hash no_agents (auth_of team_dept_db) 50 7 = Inr auth \<and>
     allows_permission_codes auth {USER_EDIT_PERMISSION, DEPT_LIST_PERMISSION}"
proof -
  obtain result db2 where ok: "replace_departments demo_hash no_agents team_dept_db team_dept_db [] 50 51
      team_request None 7 = Inr (result, db2)"
    using team_dept_replace by (auto simp: is_ok_iff)
  from department_replacement_no_escalation[OF ok team_dept_keys(1)] ok show ?thesis by blast
qed

theorem department_replacement_effect_witness:
  "\<exists>result db2. replace_departments_core demo_hash no_agents team_dept_db team_dept_db [] 50 51 team_request
       {USER_EDIT_PERMISSION, DEPT_LIST_PERMISSION} False {} None 7 = Inr (result, db2) \<and>
     load_assignments (auth_of db2) 51 7 = [(12, False), (123, True)]"
proof -
  obtain result db2 where ok: "replace_departments_core demo_hash no_agents team_dept_db team_dept_db [] 50 51 team_request
       {USER_EDIT_PERMISSION, DEPT_LIST_PERMISSION} False {} None 7 = Inr (result, db2)"
    using team_dept_replace by (auto simp: is_ok_iff replace_departments_def)
  have norm: "normalize_assignments team_request = Inr [(12, False), (123, True)]" by code_simp
  note e = department_replacement_effect[OF ok team_dept_keys(1)]
  have "da_new result = [(12, False), (123, True)]" by (rule sum.inject(2)[THEN iffD1, OF trans[OF conjunct1[OF e, symmetric] norm]])
  with conjunct1[OF conjunct2[OF e]] have "load_assignments (auth_of db2) 51 7 = [(12, False), (123, True)]" by (rule trans)
  then show ?thesis by (intro exI conjI) (rule ok)
qed

theorem department_members_effect_witness:
  "\<exists>result db2. replace_department_members demo_hash no_agents team_dept_db team_dept_db [] 50 123 [JInt 50] 7 =
       Inr (result, db2) \<and> fst ` load_member_map (auth_of db2) 123 7 = {50}"
proof -
  obtain result db2 where ok: "replace_department_members demo_hash no_agents team_dept_db team_dept_db [] 50 123 [JInt 50] 7 =
       Inr (result, db2)"
    using team_members_replace by (auto simp: is_ok_iff)
  have norm: "normalize_members [JInt 50] = Inr [50]" by code_simp
  obtain ids where "normalize_members [JInt 50] = Inr ids" "fst ` load_member_map (auth_of db2) 123 7 = set ids"
    using department_members_effect[OF ok team_dept_keys(2)] unfolding Let_def
    by (elim exE conjE) (rule that, assumption+)
  with ok norm show ?thesis by (intro exI conjI) simp_all
qed

theorem department_members_no_escalation_witness:
  "\<exists>result db2 auth. replace_department_members demo_hash no_agents team_dept_db team_dept_db [] 50 123 [JInt 50] 7 =
       Inr (result, db2) \<and>
     build_authority demo_hash no_agents (auth_of team_dept_db) 50 7 = Inr auth \<and>
     allows_permission_codes auth {DEPT_LIST_PERMISSION, DEPT_EDIT_PERMISSION, USER_EDIT_PERMISSION}"
proof -
  obtain result db2 where ok: "replace_department_members demo_hash no_agents team_dept_db team_dept_db [] 50 123 [JInt 50] 7 =
       Inr (result, db2)"
    using team_members_replace by (auto simp: is_ok_iff)
  from department_members_no_escalation[OF ok team_dept_tree] ok show ?thesis by blast
qed


text \<open>From an empty table the super-administrator gives 50 and then 51 their departments.\<close>

definition empty_team_db :: dept_db where "empty_team_db = set_links team_dept_db [] []"

definition team_assign :: "dept_db \<Rightarrow> int \<Rightarrow> (json \<times> json) list \<Rightarrow> (dept_assignment_result \<times> dept_db) res" where
  "team_assign db i raw = replace_departments_core demo_hash no_agents db db [] 60 i raw
     {USER_EDIT_PERMISSION, DEPT_LIST_PERMISSION} False {} None 7"

lemma case_pair_Inr: "(case x of Inl _ \<Rightarrow> False | Inr (a, b) \<Rightarrow> P a b) \<longleftrightarrow> (\<exists>a b. x = Inr (a, b) \<and> P a b)"
  by (cases x) auto

lemma team_assigns:
  "\<exists>r1 db1 r2 db2. team_assign empty_team_db 50 [(JInt 12, JBool True)] = Inr (r1, db1) \<and>
     team_assign db1 51 team_request = Inr (r2, db2) \<and> load_assignments (auth_of db2) 51 7 = [(12, False), (123, True)]"
proof -
  have "case team_assign empty_team_db 50 [(JInt 12, JBool True)] of Inl _ \<Rightarrow> False | Inr (r1, db1) \<Rightarrow>
      (case team_assign db1 51 team_request of Inl _ \<Rightarrow> False | Inr (r2, db2) \<Rightarrow>
         load_assignments (auth_of db2) 51 7 = [(12, False), (123, True)])"
    by code_simp
  then show ?thesis unfolding case_pair_Inr by blast
qed

theorem one_primary_department_witness:
  "\<exists>db. assignment_reach demo_hash no_agents db \<and>
     load_assignments (auth_of db) 51 7 = [(12, False), (123, True)] \<and>
     length (filter snd (load_assignments (auth_of db) 51 7)) \<le> 1"
proof -
  obtain r1 db1 r2 db2 where s: "team_assign empty_team_db 50 [(JInt 12, JBool True)] = Inr (r1, db1)"
    "team_assign db1 51 team_request = Inr (r2, db2)" "load_assignments (auth_of db2) 51 7 = [(12, False), (123, True)]"
    using team_assigns by blast
  have "assignment_reach demo_hash no_agents empty_team_db" by (rule reach_empty) (simp_all add: empty_team_db_def)
  from reach_step[OF this step_replace[OF s(1)[unfolded team_assign_def]]]
  have "assignment_reach demo_hash no_agents db2" by (rule reach_step[OF _ step_replace[OF s(2)[unfolded team_assign_def]]])
  from this s(3) conjunct1[OF one_primary_department[OF this]] show ?thesis by blast
qed

end
