(* ===== verification/Chat_Guard.thy ===== *)
theory Chat_Guard
  imports Hitl
begin

text \<open>
  \<open>ChatRunGuard\<close> of \<open>app/modules/ai/service/chat_run_service.py\<close>: a lease in Redis that lets one run
  at a time work on a conversation. The store and its clock are those of \<open>Hitl\<close> (milliseconds); an
  owner is known by its token. Each operation is one command or one Lua script, so it is atomic.
\<close>

section \<open>Commands\<close>

record guard_config =
  gc_ttl_sec :: int
  gc_pending_grace_sec :: int

definition guard_key :: "int \<Rightarrow> int \<Rightarrow> string" where
  "guard_key conv t = ''ai:chat:run:tenant:'' @ show_int t @ CHR '':'' # show_int conv"

text \<open>\<open>ttl_sec or settings.AI_CHAT_RUN_GUARD_TTL_SEC\<close>.\<close>

definition guard_ttl :: "guard_config \<Rightarrow> int option \<Rightarrow> int" where
  "guard_ttl cfg ttl = (case ttl of None \<Rightarrow> gc_ttl_sec cfg | Some n \<Rightarrow> if n = 0 then gc_ttl_sec cfg else n)"

text \<open>\<open>SET key token NX EX ttl\<close>, which Redis refuses with an expiry that is not positive, and the two
  scripts. \<open>EXPIRE\<close> with such an expiry deletes the key.\<close>

definition guard_acquire ::
    "guard_config \<Rightarrow> store \<Rightarrow> int \<Rightarrow> int \<Rightarrow> string \<Rightarrow> int option \<Rightarrow> int \<Rightarrow> (bool \<times> store) res" where
  "guard_acquire cfg st now conv token ttl t =
     (let k = guard_key conv t; n = guard_ttl cfg ttl
      in if n \<le> 0 then Inl RedisError
         else if r_get st now k \<noteq> None then Inr (False, st)
         else Inr (True, r_set st k (RText token) (now + 1000 * n)))"

definition renew_guard_lua :: "store \<Rightarrow> int \<Rightarrow> string \<Rightarrow> string \<Rightarrow> int \<Rightarrow> bool \<times> store" where
  "renew_guard_lua st now k token ttl =
     (if r_get st now k = Some (RText token)
      then (True, if ttl \<le> 0 then r_del st k else r_set st k (RText token) (now + 1000 * ttl))
      else (False, st))"

definition release_guard_lua :: "store \<Rightarrow> int \<Rightarrow> string \<Rightarrow> string \<Rightarrow> bool \<times> store" where
  "release_guard_lua st now k token =
     (if r_get st now k = Some (RText token) then (True, r_del st k) else (False, st))"

definition guard_renew :: "guard_config \<Rightarrow> store \<Rightarrow> int \<Rightarrow> int \<Rightarrow> string \<Rightarrow> int option \<Rightarrow> int \<Rightarrow> bool \<times> store" where
  "guard_renew cfg st now conv token ttl t = renew_guard_lua st now (guard_key conv t) token (guard_ttl cfg ttl)"

definition handoff_pending :: "guard_config \<Rightarrow> store \<Rightarrow> int \<Rightarrow> int \<Rightarrow> string \<Rightarrow> int \<Rightarrow> int \<Rightarrow> bool \<times> store" where
  "handoff_pending cfg st now conv token confirmation_ttl_sec t =
     guard_renew cfg st now conv token (Some (confirmation_ttl_sec + gc_pending_grace_sec cfg)) t"

definition guard_release :: "store \<Rightarrow> int \<Rightarrow> int \<Rightarrow> string \<Rightarrow> int \<Rightarrow> bool \<times> store" where
  "guard_release st now conv token t = release_guard_lua st now (guard_key conv t) token"

section \<open>Keys\<close>

lemma guard_key_inj [simp]: "guard_key conv t = guard_key conv' t' \<longleftrightarrow> conv = conv' \<and> t = t'"
proof -
  have c: "CHR '':'' \<notin> set (show_int i)" for i using show_int_chars by fastforce
  have "conv = conv' \<and> t = t'" if "show_int t @ CHR '':'' # show_int conv = show_int t' @ CHR '':'' # show_int conv'"
  proof -
    have "split_on (CHR '':'') (show_int t @ CHR '':'' # show_int conv) =
        split_on (CHR '':'') (show_int t' @ CHR '':'' # show_int conv')" using that by simp
    then show ?thesis unfolding split_append split_none[OF c] by simp
  qed
  then show ?thesis by (auto simp: guard_key_def)
qed

section \<open>What a run may believe\<close>

text \<open>A run knows only the answers to its own calls: the lease it was granted at \<open>now\<close> for \<open>ttl\<close>
  seconds ends then, a refused renewal and a release end it at once. The history of a guard is the
  list of answered calls, newest first.\<close>

datatype guard_call = CallAcquire int | CallRenew int | CallRelease

type_synonym guard_event = "int \<times> int \<times> int \<times> string \<times> guard_call \<times> bool"

fun lease_after :: "guard_call \<Rightarrow> bool \<Rightarrow> int \<Rightarrow> int option \<Rightarrow> int option" where
  "lease_after (CallAcquire ttl) ok now l = (if ok then Some (now + 1000 * ttl) else l)"
| "lease_after (CallRenew ttl) ok now l = (if ok then Some (now + 1000 * ttl) else None)"
| "lease_after CallRelease ok now l = None"

fun lease_of :: "guard_event list \<Rightarrow> int \<Rightarrow> int \<Rightarrow> string \<Rightarrow> int option" where
  "lease_of [] t conv token = None"
| "lease_of ((now, t', conv', token', call, ok) # h) t conv token =
     (if t' = t \<and> conv' = conv \<and> token' = token then lease_after call ok now (lease_of h t conv token)
      else lease_of h t conv token)"

definition believes :: "guard_event list \<Rightarrow> int \<Rightarrow> int \<Rightarrow> int \<Rightarrow> string \<Rightarrow> bool" where
  "believes h now t conv token = (case lease_of h t conv token of None \<Rightarrow> False | Some e \<Rightarrow> now < e)"

lemma believes_iff: "believes h now t conv token \<longleftrightarrow> (\<exists>e. lease_of h t conv token = Some e \<and> now < e)"
  by (simp add: believes_def split: option.splits)

section \<open>Runs\<close>

record guard_sys =
  gs_now :: int
  gs_store :: store
  gs_history :: "guard_event list"

text \<open>Every worker's calls, the clock, and the other users of the same Redis, which write other keys.\<close>

inductive guard_step :: "guard_config \<Rightarrow> guard_sys \<Rightarrow> guard_sys \<Rightarrow> bool" for cfg where
  gs_acquire: "guard_acquire cfg (gs_store s) (gs_now s) conv token ttl t = Inr (ok, st') \<Longrightarrow>
    guard_step cfg s (s\<lparr>gs_store := st', gs_history :=
      (gs_now s, t, conv, token, CallAcquire (guard_ttl cfg ttl), ok) # gs_history s\<rparr>)"
| gs_renew: "guard_renew cfg (gs_store s) (gs_now s) conv token ttl t = (ok, st') \<Longrightarrow>
    guard_step cfg s (s\<lparr>gs_store := st', gs_history :=
      (gs_now s, t, conv, token, CallRenew (guard_ttl cfg ttl), ok) # gs_history s\<rparr>)"
| gs_release: "guard_release (gs_store s) (gs_now s) conv token t = (ok, st') \<Longrightarrow>
    guard_step cfg s (s\<lparr>gs_store := st', gs_history := (gs_now s, t, conv, token, CallRelease, ok) # gs_history s\<rparr>)"
| gs_tick: "0 \<le> d \<Longrightarrow> guard_step cfg s (s\<lparr>gs_now := gs_now s + d\<rparr>)"
| gs_other: "\<forall>conv t. st' (guard_key conv t) = gs_store s (guard_key conv t) \<Longrightarrow>
    guard_step cfg s (s\<lparr>gs_store := st'\<rparr>)"

inductive guard_reach :: "guard_config \<Rightarrow> guard_sys \<Rightarrow> bool" for cfg where
  guard_start: "\<forall>conv t. gs_store s (guard_key conv t) = None \<Longrightarrow> gs_history s = [] \<Longrightarrow> guard_reach cfg s"
| guard_more: "guard_reach cfg s \<Longrightarrow> guard_step cfg s s' \<Longrightarrow> guard_reach cfg s'"

text \<open>The store holds a lease exactly when its run believes in it, until the same moment.\<close>

definition lease_agrees :: "guard_sys \<Rightarrow> int \<Rightarrow> int \<Rightarrow> bool" where
  "lease_agrees s t conv \<longleftrightarrow> (\<forall>e. gs_now s < e \<longrightarrow>
     (\<forall>token. lease_of (gs_history s) t conv token = Some e \<longleftrightarrow>
        gs_store s (guard_key conv t) = Some (RText token, e)) \<and>
     (\<forall>v. gs_store s (guard_key conv t) = Some (v, e) \<longrightarrow> (\<exists>token. v = RText token)))"

lemma lease_agreesD:
  "lease_agrees s t conv \<Longrightarrow> lease_of (gs_history s) t conv token = Some e \<Longrightarrow> gs_now s < e \<Longrightarrow>
     gs_store s (guard_key conv t) = Some (RText token, e)"
  "lease_agrees s t conv \<Longrightarrow> gs_store s (guard_key conv t) = Some (v, e) \<Longrightarrow> gs_now s < e \<Longrightarrow>
     \<exists>token. v = RText token \<and> lease_of (gs_history s) t conv token = Some e"
  unfolding lease_agrees_def by metis+

lemma lease_agreesI:
  assumes "\<And>token e. lease_of (gs_history s) t conv token = Some e \<Longrightarrow> gs_now s < e \<Longrightarrow>
      gs_store s (guard_key conv t) = Some (RText token, e)"
    and "\<And>v e. gs_store s (guard_key conv t) = Some (v, e) \<Longrightarrow> gs_now s < e \<Longrightarrow>
      \<exists>token. v = RText token \<and> lease_of (gs_history s) t conv token = Some e"
  shows "lease_agrees s t conv"
  unfolding lease_agrees_def using assms by (metis option.inject prod.inject rval.inject(2))

lemma lease_agrees_get:
  assumes a: "lease_agrees s t conv"
  shows "r_get (gs_store s) (gs_now s) (guard_key conv t) = Some (RText token) \<longleftrightarrow>
      believes (gs_history s) (gs_now s) t conv token"
    "r_get (gs_store s) (gs_now s) (guard_key conv t) = Some v \<Longrightarrow> \<exists>token. v = RText token"
proof -
  have g: "r_get (gs_store s) (gs_now s) (guard_key conv t) = Some v \<longleftrightarrow>
      (\<exists>e. gs_store s (guard_key conv t) = Some (v, e) \<and> gs_now s < e)" for v
    by (auto simp: r_get_def split: option.splits)
  show "r_get (gs_store s) (gs_now s) (guard_key conv t) = Some (RText token) \<longleftrightarrow>
      believes (gs_history s) (gs_now s) t conv token"
    unfolding g believes_iff using lease_agreesD[OF a] by blast
  show "r_get (gs_store s) (gs_now s) (guard_key conv t) = Some v \<Longrightarrow> \<exists>token. v = RText token"
    unfolding g using lease_agreesD(2)[OF a] by blast
qed

text \<open>The four ways a call changes one lease.\<close>

lemma lease_agrees_frame:
  assumes a: "lease_agrees s t conv" and "gs_store s' (guard_key conv t) = gs_store s (guard_key conv t)"
    "\<And>token. lease_of (gs_history s') t conv token = lease_of (gs_history s) t conv token" "gs_now s \<le> gs_now s'"
  shows "lease_agrees s' t conv"
  using lease_agreesD[OF a] assms(2-4) by (intro lease_agreesI) auto

lemma lease_agrees_granted:
  assumes "gs_store s' (guard_key conv t) = Some (RText token, e)" "lease_of (gs_history s') t conv token = Some e"
    "\<And>other. other \<noteq> token \<Longrightarrow> \<not> believes (gs_history s') (gs_now s') t conv other"
  shows "lease_agrees s' t conv"
proof (rule lease_agreesI)
  fix tok e' assume l: "lease_of (gs_history s') t conv tok = Some e'" "gs_now s' < e'"
  then have "tok = token" using assms(3)[of tok] by (auto simp: believes_iff)
  then show "gs_store s' (guard_key conv t) = Some (RText tok, e')" using assms(1,2) l(1) by simp
qed (use assms in auto)

lemma lease_agrees_gone:
  assumes "gs_store s' (guard_key conv t) = None" "\<And>tok. \<not> believes (gs_history s') (gs_now s') t conv tok"
  shows "lease_agrees s' t conv"
  using assms by (intro lease_agreesI) (auto simp: believes_iff)

lemma lease_agrees_lost:
  assumes a: "lease_agrees s t conv" and "gs_store s' (guard_key conv t) = gs_store s (guard_key conv t)"
    "\<not> believes (gs_history s) (gs_now s) t conv token" "lease_of (gs_history s') t conv token = None"
    "\<And>other. other \<noteq> token \<Longrightarrow> lease_of (gs_history s') t conv other = lease_of (gs_history s) t conv other"
    "gs_now s' = gs_now s"
  shows "lease_agrees s' t conv"
proof (rule lease_agreesI)
  fix tok e assume l: "lease_of (gs_history s') t conv tok = Some e" "gs_now s' < e"
  then have "tok \<noteq> token" using assms(4) by auto
  then show "gs_store s' (guard_key conv t) = Some (RText tok, e)" using lease_agreesD(1)[OF a] l assms by simp
next
  fix v e assume v: "gs_store s' (guard_key conv t) = Some (v, e)" "gs_now s' < e"
  then obtain tok where t: "v = RText tok" "lease_of (gs_history s) t conv tok = Some e"
    using lease_agreesD(2)[OF a] assms(2,6) by auto
  then have "tok \<noteq> token" using assms(3,6) v(2) by (auto simp: believes_iff)
  with t assms(5) show "\<exists>token. v = RText token \<and> lease_of (gs_history s') t conv token = Some e" by auto
qed

lemma acquire_agrees:
  assumes a: "lease_agrees s t conv"
    and call: "guard_acquire cfg (gs_store s) (gs_now s) c token ttl t' = Inr (ok, st')"
  shows "lease_agrees (s\<lparr>gs_store := st', gs_history :=
      (gs_now s, t', c, token, CallAcquire (guard_ttl cfg ttl), ok) # gs_history s\<rparr>) t conv"
proof -
  let ?g = "r_get (gs_store s) (gs_now s) (guard_key c t')"
  show ?thesis
  proof (cases "t' = t \<and> c = conv \<and> ?g = None")
    case True
    then have st: "ok" "st' = r_set (gs_store s) (guard_key conv t) (RText token) (gs_now s + 1000 * guard_ttl cfg ttl)"
      using call by (auto simp: guard_acquire_def Let_def split: if_splits)
    have "\<not> believes (gs_history s) (gs_now s) t conv other" for other
      using True lease_agrees_get(1)[OF a, of other] by auto
    then show ?thesis
      using True st by (intro lease_agrees_granted[where token = token]) (auto simp: r_set_def believes_iff)
  next
    case False
    then show ?thesis
      using call by (intro lease_agrees_frame[OF a]) (auto simp: guard_acquire_def Let_def r_set_def split: if_splits)
  qed
qed

lemma renew_agrees:
  assumes a: "lease_agrees s t conv"
    and call: "guard_renew cfg (gs_store s) (gs_now s) c token ttl t' = (ok, st')"
  shows "lease_agrees (s\<lparr>gs_store := st', gs_history :=
      (gs_now s, t', c, token, CallRenew (guard_ttl cfg ttl), ok) # gs_history s\<rparr>) t conv"
proof -
  let ?k = "guard_key conv t" and ?e = "gs_now s + 1000 * guard_ttl cfg ttl"
  note get = lease_agrees_get(1)[OF a]
  have def_st: "renew_guard_lua (gs_store s) (gs_now s) (guard_key c t') token (guard_ttl cfg ttl) = (ok, st')"
    using call by (simp add: guard_renew_def)
  show ?thesis
  proof (cases "t' = t \<and> c = conv")
    case False
    then show ?thesis
      using def_st by (intro lease_agrees_frame[OF a]) (auto simp: renew_guard_lua_def r_set_def r_del_def split: if_splits)
  next
    case True
    show ?thesis
    proof (cases "r_get (gs_store s) (gs_now s) ?k = Some (RText token)")
      case held: True
      have other: "\<not> believes (gs_history s) (gs_now s) t conv tok" if "tok \<noteq> token" for tok
        using held get[of tok] that by simp
      show ?thesis
      proof (cases "guard_ttl cfg ttl \<le> 0")
        case neg: True
        then have "ok" "st' = r_del (gs_store s) ?k" using def_st True held by (simp_all add: renew_guard_lua_def)
        then show ?thesis  using True other other[OF not_sym] neg
          by (intro lease_agrees_gone) (auto simp: r_del_def believes_iff)
      next
        case False
        then have "ok" "st' = r_set (gs_store s) ?k (RText token) ?e"
          using def_st True held by (simp_all add: renew_guard_lua_def)
        then show ?thesis  using True other
          by (intro lease_agrees_granted[where token = token]) (auto simp: r_set_def believes_iff)
      qed
    next
      case False
      then have "\<not> ok" "st' = gs_store s" using def_st True by (simp_all add: renew_guard_lua_def)
      then show ?thesis  using True False get
        by (intro lease_agrees_lost[OF a, where token = token]) auto
    qed
  qed
qed

lemma release_agrees:
  assumes a: "lease_agrees s t conv"
    and call: "guard_release (gs_store s) (gs_now s) c token t' = (ok, st')"
  shows "lease_agrees (s\<lparr>gs_store := st', gs_history :=
      (gs_now s, t', c, token, CallRelease, ok) # gs_history s\<rparr>) t conv"
proof -
  let ?k = "guard_key conv t"
  note get = lease_agrees_get(1)[OF a]
  have def_st: "release_guard_lua (gs_store s) (gs_now s) (guard_key c t') token = (ok, st')"
    using call by (simp add: guard_release_def)
  show ?thesis
  proof (cases "t' = t \<and> c = conv")
    case False
    then show ?thesis
      using def_st by (intro lease_agrees_frame[OF a]) (auto simp: release_guard_lua_def r_del_def split: if_splits)
  next
    case True
    show ?thesis
    proof (cases "r_get (gs_store s) (gs_now s) ?k = Some (RText token)")
      case held: True
      then have "st' = r_del (gs_store s) ?k" using def_st True by (simp add: release_guard_lua_def)
      moreover have "\<not> believes (gs_history s) (gs_now s) t conv tok" if "token \<noteq> tok" for tok
        using held get[of tok] that by simp
      ultimately show ?thesis  using True
        by (intro lease_agrees_gone) (auto simp: r_del_def believes_iff)
    next
      case False
      then have "\<not> ok" "st' = gs_store s" using def_st True by (simp_all add: release_guard_lua_def)
      then show ?thesis  using True False get
        by (intro lease_agrees_lost[OF a, where token = token]) auto
    qed
  qed
qed

lemma guard_step_agrees: "guard_step cfg s s' \<Longrightarrow> \<forall>t conv. lease_agrees s t conv \<Longrightarrow> lease_agrees s' t conv"
proof (induction rule: guard_step.induct)
  case (gs_acquire s c token ttl t' ok st')
  then show ?case using acquire_agrees by blast
next
  case (gs_renew s c token ttl t' ok st')
  then show ?case using renew_agrees by blast
next
  case (gs_release s c token t' ok st')
  then show ?case using release_agrees by blast
next
  case (gs_tick d s)
  then have "lease_agrees s t conv" by blast
  then show ?case by (rule lease_agrees_frame) (use gs_tick in auto)
next
  case (gs_other st' s)
  then have "lease_agrees s t conv" by blast
  then show ?case by (rule lease_agrees_frame) (use gs_other in auto)
qed

lemma guard_reach_agrees: "guard_reach cfg s \<Longrightarrow> lease_agrees s t conv"
proof (induction arbitrary: t conv rule: guard_reach.induct)
  case (guard_start s)
  then show ?case by (simp add: lease_agrees_def)
next
  case (guard_more s s')
  then show ?case using guard_step_agrees by blast
qed

section \<open>Exclusive leases\<close>

text \<open>Property C24: one run at a time. However the workers' calls, the clock and other Redis traffic
  interleave, at every moment at most one token may conclude from the answers it was given that it
  holds the lease of a conversation; an attempt to take the lease, with a valid expiry, succeeds
  exactly when nobody holds it, and a renewal or a release exactly for the holder. So a late release of an
  earlier run never frees the lease of its successor.\<close>

theorem guard_lease_exclusive:
  assumes r: "guard_reach cfg s"
  shows "(\<forall>tok tok'. believes (gs_history s) (gs_now s) t conv tok \<and> believes (gs_history s) (gs_now s) t conv tok' \<longrightarrow>
      tok' = tok) \<and>
    (0 < guard_ttl cfg ttl \<longrightarrow>
      (\<exists>ok st'. guard_acquire cfg (gs_store s) (gs_now s) conv token ttl t = Inr (ok, st') \<and>
         ok = (\<nexists>tok. believes (gs_history s) (gs_now s) t conv tok))) \<and>
    fst (guard_renew cfg (gs_store s) (gs_now s) conv token ttl t) = believes (gs_history s) (gs_now s) t conv token \<and>
    fst (guard_release (gs_store s) (gs_now s) conv token t) = believes (gs_history s) (gs_now s) t conv token"
proof -
  note g = lease_agrees_get[OF guard_reach_agrees[OF r, of t conv]]
  have one: "tok' = tok" if "believes (gs_history s) (gs_now s) t conv tok" "believes (gs_history s) (gs_now s) t conv tok'"
    for tok tok'
    using that unfolding g(1)[symmetric] by simp
  have free: "r_get (gs_store s) (gs_now s) (guard_key conv t) = None \<longleftrightarrow>
      (\<nexists>tok. believes (gs_history s) (gs_now s) t conv tok)"
    using g by (metis not_None_eq option.distinct(1))
  show ?thesis
    using one free g(1)[of token]
    by (auto simp: guard_acquire_def Let_def guard_renew_def renew_guard_lua_def guard_release_def release_guard_lua_def)
qed

text \<open>The lease of run a ends after 60 seconds, run b takes it, and a's late release is refused.\<close>

definition demo_guard :: guard_config where
  "demo_guard = \<lparr>gc_ttl_sec = 60, gc_pending_grace_sec = 60\<rparr>"

definition late_release :: guard_sys where
  "late_release = \<lparr>gs_now = 61000, gs_store = [guard_key 5 7 \<mapsto> (RText ''b'', 121000)],
     gs_history = [(61000, 7, 5, ''a'', CallRelease, False), (61000, 7, 5, ''b'', CallAcquire 60, True),
       (0, 7, 5, ''a'', CallAcquire 60, True)]\<rparr>"

lemma late_release_reach: "guard_reach demo_guard late_release"
proof -
  let ?s0 = "\<lparr>gs_now = 0, gs_store = Map.empty, gs_history = []\<rparr>"
  let ?s1 = "\<lparr>gs_now = 0, gs_store = [guard_key 5 7 \<mapsto> (RText ''a'', 60000)],
      gs_history = [(0, 7, 5, ''a'', CallAcquire 60, True)]\<rparr>"
  let ?s2 = "\<lparr>gs_now = 61000, gs_store = [guard_key 5 7 \<mapsto> (RText ''b'', 121000)],
      gs_history = [(61000, 7, 5, ''b'', CallAcquire 60, True), (0, 7, 5, ''a'', CallAcquire 60, True)]\<rparr>"
  have "guard_reach demo_guard ?s0" by (rule guard_start) simp_all
  moreover have "guard_step demo_guard ?s0 ?s1"
    using gs_acquire[of demo_guard ?s0 5 "''a''" None 7 True "[guard_key 5 7 \<mapsto> (RText ''a'', 60000)]"]
    by (simp add: guard_acquire_def guard_ttl_def demo_guard_def r_get_def r_set_def)
  moreover have "guard_step demo_guard ?s1 (?s1\<lparr>gs_now := 61000\<rparr>)"
    using gs_tick[of 61000 demo_guard ?s1] by simp
  moreover have "guard_step demo_guard (?s1\<lparr>gs_now := 61000\<rparr>) ?s2"
    using gs_acquire[of demo_guard "?s1\<lparr>gs_now := 61000\<rparr>" 5 "''b''" None 7 True "[guard_key 5 7 \<mapsto> (RText ''b'', 121000)]"]
    by (simp add: guard_acquire_def guard_ttl_def demo_guard_def r_get_def r_set_def)
  moreover have "guard_step demo_guard ?s2 late_release"
    using gs_release[of ?s2 5 "''a''" 7 False "gs_store ?s2"]
    by (simp add: guard_release_def release_guard_lua_def r_get_def late_release_def)
  ultimately show ?thesis by (blast intro: guard_more)
qed

theorem guard_lease_exclusive_witness:
  "\<not> believes (gs_history late_release) (gs_now late_release) 7 5 ''a''"
proof -
  have "believes (gs_history late_release) (gs_now late_release) 7 5 ''b''"
    by (simp add: late_release_def believes_iff)
  moreover have "''b'' \<noteq> ''a''" by simp
  ultimately show ?thesis using conjunct1[OF guard_lease_exclusive[OF late_release_reach]] by blast
qed

end
