(* ===== verification/Chat_Cards.thy ===== *)
theory Chat_Cards
  imports Prepared_Action Tool_Registry Gateway_Quota
begin

text \<open>
  The tool-call cards of a chat turn (\<open>app/modules/ai/service/chat_run_service.py\<close>, with
  \<open>stringify_large_ints\<close> of \<open>agents/hitl/events.py\<close> and \<open>service/reconciliation_annotation.py\<close>): how
  the events of a run become cards, how cards are merged into a stored message and how cards of
  protected calls are replaced. A card is a JSON object whose \<open>tool_call_id\<close> is a text or absent.
  The texts shown to users are Chinese and are arguments; \<open>claims\<close> is the search for the pattern of
  an asserted write success.
\<close>

section \<open>Values\<close>

definition JS_MAX_SAFE_INT :: int where "JS_MAX_SAFE_INT = 9007199254740992"

primrec stringify_large_ints :: "json \<Rightarrow> json" where
  "stringify_large_ints JNull = JNull"
| "stringify_large_ints (JBool b) = JBool b"
| "stringify_large_ints (JInt i) = (if JS_MAX_SAFE_INT \<le> \<bar>i\<bar> then JStr (show_int i) else JInt i)"
| "stringify_large_ints (JFloat f) = JFloat f"
| "stringify_large_ints (JStr s) = JStr s"
| "stringify_large_ints (JArr xs) = JArr (map stringify_large_ints xs)"
| "stringify_large_ints (JObj d) = JObj (map (map_prod id stringify_large_ints) d)"

definition stringify_card :: "jobj \<Rightarrow> jobj" where
  "stringify_card d = map (map_prod id stringify_large_ints) d"

text \<open>\<open>{**a, **b}\<close> and \<open>a.update(b)\<close>.\<close>

definition jmerge :: "jobj \<Rightarrow> jobj \<Rightarrow> jobj" where
  "jmerge a b = fold (\<lambda>(k, v) d. jset d k v) b a"

definition jstr_opt :: "string option \<Rightarrow> json" where
  "jstr_opt x = (case x of None \<Rightarrow> JNull | Some s \<Rightarrow> JStr s)"

definition jint_opt :: "int option \<Rightarrow> json" where
  "jint_opt x = (case x of None \<Rightarrow> JNull | Some i \<Rightarrow> JInt i)"

definition card_id :: "jobj \<Rightarrow> string option" where
  "card_id c = (case jget c ''tool_call_id'' of JStr s \<Rightarrow> Some s | _ \<Rightarrow> None)"

definition str_join :: "string \<Rightarrow> string list \<Rightarrow> string" where
  "str_join sep xs = (case xs of [] \<Rightarrow> [] | x # r \<Rightarrow> x @ concat (map (\<lambda>y. sep @ y) r))"

definition NL :: string where "NL = [CHR 0x0A]"

section \<open>Events\<close>

record ui_result =
  ui_view_type :: string
  ui_view_data :: json
  ui_audit :: json
  ui_label_key :: string
  ui_label_params :: json

definition ui_to_dict :: "ui_result \<Rightarrow> json" where
  "ui_to_dict u = JObj [(''viewType'', JStr (ui_view_type u)), (''viewData'', ui_view_data u),
     (''audit'', ui_audit u), (''labelKey'', JStr (ui_label_key u)), (''labelParams'', ui_label_params u)]"

record result_projection =
  rp_subject_refs :: "json list"
  rp_scope_bound :: bool

record started_event =
  se_tool :: string
  se_call_id :: string
  se_summary :: string
  se_args :: json
  se_risk :: string
  se_trace_id :: string
  se_chip_target :: "string option"

record result_event =
  re_tool :: string
  re_call_id :: string
  re_ok :: bool
  re_duration_ms :: int
  re_result :: json
  re_affected_rows :: "int option"
  re_error_code :: "string option"
  re_error_msg :: "string option"
  re_ui :: "ui_result option"
  re_projection :: "result_projection option"

datatype stream_event = ToolStarted started_event | ToolResult result_event | OtherEvent

section \<open>The collector\<close>

record collector =
  co_items :: "jobj list"
  co_positions :: "string \<Rightarrow> nat option"
  co_projections :: "string \<Rightarrow> result_projection option option"

definition new_collector :: collector where
  "new_collector = \<lparr>co_items = [], co_positions = (\<lambda>_. None), co_projections = (\<lambda>_. None)\<rparr>"

definition started_card :: "started_event \<Rightarrow> jobj" where
  "started_card e =
     [(''tool'', JStr (se_tool e)), (''tool_call_id'', JStr (se_call_id e)), (''summary'', JStr (se_summary e)),
      (''args'', stringify_large_ints (se_args e)), (''risk'', JStr (se_risk e)),
      (''trace_id'', JStr (se_trace_id e)), (''chip_target'', jstr_opt (se_chip_target e))]"

definition result_fields :: "result_event \<Rightarrow> jobj" where
  "result_fields e =
     [(''ok'', JBool (re_ok e)), (''result'', stringify_large_ints (re_result e)),
      (''affected_rows'', jint_opt (re_affected_rows e)), (''error_code'', jstr_opt (re_error_code e)),
      (''error_msg'', jstr_opt (re_error_msg e)), (''duration_ms'', JInt (re_duration_ms e)),
      (''ui'', case re_ui e of None \<Rightarrow> JNull | Some u \<Rightarrow> ui_to_dict u)]"

definition record_started :: "collector \<Rightarrow> started_event \<Rightarrow> collector" where
  "record_started c e =
     (if co_positions c (se_call_id e) \<noteq> None then c
      else c\<lparr>co_positions := (co_positions c)(se_call_id e \<mapsto> length (co_items c)),
             co_items := co_items c @ [started_card e]\<rparr>)"

definition record_result :: "collector \<Rightarrow> result_event \<Rightarrow> collector" where
  "record_result c e =
     (let i = re_call_id e;
          c1 = c\<lparr>co_projections := (co_projections c)(i \<mapsto> re_projection e)\<rparr>;
          c2 = (if co_positions c1 i \<noteq> None then c1
                else c1\<lparr>co_positions := (co_positions c1)(i \<mapsto> length (co_items c1)),
                        co_items := co_items c1 @ [[(''tool'', JStr (re_tool e)), (''tool_call_id'', JStr i)]]\<rparr>)
      in (case co_positions c2 i of
            None \<Rightarrow> c2
          | Some p \<Rightarrow> c2\<lparr>co_items := (co_items c2)[p := jmerge (co_items c2 ! p) (result_fields e)]\<rparr>))"

fun record_event :: "stream_event \<Rightarrow> collector \<Rightarrow> collector" where
  "record_event (ToolStarted e) c = record_started c e"
| "record_event (ToolResult e) c = record_result c e"
| "record_event OtherEvent c = c"

definition collect :: "stream_event list \<Rightarrow> collector" where
  "collect es = fold record_event es new_collector"

definition snapshot :: "collector \<Rightarrow> jobj list" where
  "snapshot c = co_items c"

fun project_items ::
    "(string \<Rightarrow> result_projection option option) \<Rightarrow> jobj list \<Rightarrow> string list \<times> json list \<times> bool \<times> bool" where
  "project_items ps [] = ([], [], False, True)"
| "project_items ps (item # items) =
     (let (codes, refs, bound, complete) = project_items ps items;
          codes' = (case jget item ''tool'' of JStr s \<Rightarrow> s # codes | _ \<Rightarrow> codes)
      in (case ps (py_str (jget item ''tool_call_id'')) of
            Some (Some p) \<Rightarrow> (codes', rp_subject_refs p @ refs, rp_scope_bound p \<or> bound, complete)
          | _ \<Rightarrow> (codes', refs, bound, False)))"

text \<open>Tools, subjects, scope binding, completeness, in the order of the cards.\<close>

definition snapshot_projection :: "collector \<Rightarrow> string list \<times> json list \<times> bool \<times> bool" where
  "snapshot_projection c = project_items (co_projections c) (co_items c)"

section \<open>Assertions in the answer\<close>

definition MANAGEMENT_AGENT_CODES :: "string set" where
  "MANAGEMENT_AGENT_CODES = {''dept_mgmt'', ''role_mgmt'', ''user_mgmt''}"

definition grounded_call :: "registry \<Rightarrow> jobj \<Rightarrow> bool" where
  "grounded_call reg call \<longleftrightarrow> jget call ''ok'' = JBool True \<and>
     (case find_tool reg (if truthy (jget call ''tool'') then py_str (jget call ''tool'') else []) of
        None \<Rightarrow> False
      | Some r \<Rightarrow>
          if tm_interaction_flow (rt_meta r) = ''prepared''
          then (case jget call ''result'' of
                  JObj d \<Rightarrow> json_eq (jget d ''actionStatus'') (JStr ''executed'') | _ \<Rightarrow> False)
          else is_write_tool (tm_risk (rt_meta r)) (tm_hitl_always (rt_meta r)))"

definition enforce_grounded_management_write_claim ::
    "(string \<Rightarrow> bool) \<Rightarrow> string \<Rightarrow> registry \<Rightarrow> string \<Rightarrow> string option \<Rightarrow> jobj list option \<Rightarrow> string \<times> bool" where
  "enforce_grounded_management_write_claim claims safe reg content agent calls =
     (if (case agent of None \<Rightarrow> True | Some a \<Rightarrow> a \<notin> MANAGEMENT_AGENT_CODES) \<or> \<not> claims content then (content, False)
      else if \<exists>call \<in> set (case calls of None \<Rightarrow> [] | Some cs \<Rightarrow> cs). grounded_call reg call then (content, False)
      else (safe, True))"

definition field_error_call :: "jobj \<Rightarrow> bool" where
  "field_error_call call \<longleftrightarrow> jget call ''ok'' = JBool False \<and> jget call ''error_code'' = JStr ''AI_IMPORT_FIELD_ERRORS''"

definition enforce_import_error_output_redaction :: "string \<Rightarrow> string \<Rightarrow> jobj list option \<Rightarrow> string \<times> bool" where
  "enforce_import_error_output_redaction safe content calls =
     (let failures = filter field_error_call (case calls of None \<Rightarrow> [] | Some cs \<Rightarrow> cs)
      in if failures = [] then (content, False)
         else (safe @ NL @ NL @ str_join (NL @ NL) (map (\<lambda>call.
             take 6000 (if truthy (jget call ''error_msg'') then py_str (jget call ''error_msg'') else [])) failures), True))"

section \<open>Merging and replacing cards\<close>

definition cards_of :: "jobj list option \<Rightarrow> jobj list" where
  "cards_of x = (case x of None \<Rightarrow> [] | Some cs \<Rightarrow> cs)"

definition position_step :: "nat \<times> jobj \<Rightarrow> (string \<Rightarrow> nat option) \<Rightarrow> (string \<Rightarrow> nat option)" where
  "position_step nc pos = (case card_id (snd nc) of
       Some i \<Rightarrow> if i = [] then pos else pos(i \<mapsto> fst nc) | None \<Rightarrow> pos)"

definition positions_of :: "jobj list \<Rightarrow> string \<Rightarrow> nat option" where
  "positions_of cards = fold position_step (enumerate 0 cards) Map.empty"

definition merge_step :: "jobj \<Rightarrow> jobj list \<times> (string \<Rightarrow> nat option) \<Rightarrow> jobj list \<times> (string \<Rightarrow> nat option)" where
  "merge_step item s = (case s of (merged, pos) \<Rightarrow>
     (case card_id item of
        Some i \<Rightarrow>
          if i = [] then (merged @ [item], pos)
          else (case pos i of
                  Some p \<Rightarrow> (merged[p := jmerge (merged ! p) item], pos)
                | None \<Rightarrow> (merged @ [item], pos(i \<mapsto> length merged)))
      | None \<Rightarrow> (merged @ [item], pos)))"

definition merge_tool_calls :: "jobj list option \<Rightarrow> jobj list option \<Rightarrow> jobj list option" where
  "merge_tool_calls existing incoming =
     (if cards_of existing = [] \<and> cards_of incoming = [] then None
      else Some (fst (fold merge_step (cards_of incoming) (cards_of existing, positions_of (cards_of existing)))))"

text \<open>\<open>protected\<close> maps a call to its card, or to \<open>None\<close> when it must not be shown.\<close>

type_synonym protected_cards = "(string \<times> jobj option) list"

definition replace_card :: "protected_cards \<Rightarrow> jobj \<Rightarrow> jobj list" where
  "replace_card protected c =
     (case (case card_id c of None \<Rightarrow> None | Some i \<Rightarrow> map_of protected i) of
        None \<Rightarrow> [c] | Some None \<Rightarrow> [] | Some (Some r) \<Rightarrow> [r])"

definition replace_protected_cards :: "jobj list option \<Rightarrow> protected_cards \<Rightarrow> jobj list option" where
  "replace_protected_cards cards protected =
     (let r = concat (map (replace_card protected) (cards_of cards)) in if r = [] then None else Some r)"

section \<open>The reconciliation notice\<close>

definition has_annotation :: "string option \<Rightarrow> bool" where
  "has_annotation summary = (case summary of None \<Rightarrow> False | Some s \<Rightarrow> str_in RECONCILIATION_MARKER s)"

definition call_id_ok :: "string \<Rightarrow> bool" where
  "call_id_ok s \<longleftrightarrow> s \<noteq> [] \<and> length s \<le> 64 \<and>
     list_all (\<lambda>c. is_dec c \<or> CHR ''A'' \<le> c \<and> c \<le> CHR ''Z'' \<or> CHR ''a'' \<le> c \<and> c \<le> CHR ''z'' \<or>
       c = CHR ''_'' \<or> c = CHR ''-'') s"

definition notice_line :: "string \<Rightarrow> string" where
  "notice_line i = ''[AI_EXECUTION_OUTCOME_UNKNOWN] toolCallId='' @ i"

definition add_notice_line :: "string \<Rightarrow> string \<Rightarrow> string" where
  "add_notice_line i out =
     (if \<not> call_id_ok i \<or> str_in (notice_line i) out then out else out @ NL @ notice_line i)"

definition reconciliation_notice :: "string \<Rightarrow> string option \<Rightarrow> string list \<Rightarrow> string" where
  "reconciliation_notice notice content ids =
     (let out = (case content of None \<Rightarrow> [] | Some s \<Rightarrow> s);
          out' = (if str_in notice out then out else py_strip (out @ NL @ NL @ notice))
      in fold add_notice_line (sorted_list_of_set (set ids)) out')"

end
