(* ===== verification/Chat_Cards_Facts.thy ===== *)
theory Chat_Cards_Facts
  imports Chat_Cards
begin

text \<open>
  Cards in closed form: updates of a JSON object, the collector as one card per call in the order of
  the calls' first events, and a merge as an update of the matching cards followed by the new ones.
\<close>

section \<open>Updates of an object\<close>

lemma jset_Nil [simp]: "jset [] k v = [(k, v)]"
  by (simp add: jset_def jhas_def)

lemma jhas_iff: "jhas d k \<longleftrightarrow> k \<in> fst ` set d"
  unfolding jhas_def map_of_eq_None_iff by simp

lemma map_fst_replace [simp]: "map fst (map (\<lambda>(k', x). if k' = k then (k', v) else (k', x)) d) = map fst d"
  by (induction d) auto

lemma map_of_replace:
  "map_of (map (\<lambda>(k', x). if k' = k then (k', v) else (k', x)) d) i =
     (if i = k \<and> k \<in> fst ` set d then Some v else map_of d i)"
proof (induction d)
  case (Cons y d)
  obtain j x where "y = (j, x)" by (cases y)
  with Cons show ?case by (cases "j = k"; cases "i = j") simp_all
qed simp

lemma keys_jset: "map fst (jset d k v) = (if k \<in> fst ` set d then map fst d else map fst d @ [k])"
  by (simp only: jset_def jhas_iff if_distrib[of "map fst"] map_fst_replace) simp

lemma map_of_jset: "map_of (jset d k v) k' = (if k' = k then Some v else map_of d k')"
proof (cases "k \<in> fst ` set d")
  case True
  then show ?thesis by (simp add: jset_def jhas_iff map_of_replace)
next
  case False
  then have "map_of d k = None" by (simp only: map_of_eq_None_iff not_False_eq_True)
  with False show ?thesis by (auto simp: jset_def jhas_iff map_add_def split: option.splits)
qed

lemma distinct_jset: "distinct (map fst d) \<Longrightarrow> distinct (map fst (jset d k v))"
  by (simp add: keys_jset)

lemma jmerge_simps [simp]: "jmerge a [] = a" "jmerge a ((k, v) # b) = jmerge (jset a k v) b"
  by (simp_all add: jmerge_def)

lemma keys_jmerge:
  "distinct (map fst b) \<Longrightarrow> map fst (jmerge a b) = map fst a @ filter (\<lambda>k. k \<notin> fst ` set a) (map fst b)"
proof (induction b arbitrary: a)
  case (Cons x b)
  obtain k v where x: "x = (k, v)" by (cases x)
  have "fst ` set (jset a k v) = insert k (fst ` set a)"
    using arg_cong[OF keys_jset[of a k v], of set] by (auto split: if_splits)
  moreover have "filter (\<lambda>k'. k' \<noteq> k \<and> k' \<notin> fst ` set a) (map fst b) = filter (\<lambda>k. k \<notin> fst ` set a) (map fst b)"
    using Cons.prems by (intro filter_cong) (auto simp: x)
  ultimately show ?case using Cons by (simp add: x keys_jset)
qed simp

lemma map_of_jmerge:
  "distinct (map fst b) \<Longrightarrow> map_of (jmerge a b) k = (case map_of b k of None \<Rightarrow> map_of a k | Some v \<Rightarrow> Some v)"
proof (induction b arbitrary: a)
  case (Cons x b)
  obtain k' v where x: "x = (k', v)" by (cases x)
  with Cons have "map_of b k' = None" by (auto simp: map_of_eq_None_iff)
  with Cons show ?case by (auto simp: x map_of_jset split: option.splits)
qed simp

lemma distinct_jmerge: "distinct (map fst a) \<Longrightarrow> distinct (map fst (jmerge a b))"
proof (induction b arbitrary: a)
  case (Cons x b)
  obtain k v where x: "x = (k, v)" by (cases x)
  show ?case using Cons.IH[OF distinct_jset[OF Cons.prems]] by (simp add: x)
qed simp

lemma alist_eqI:
  "map fst a = map fst b \<Longrightarrow> distinct (map fst a) \<Longrightarrow> (\<And>k. map_of a k = map_of b k) \<Longrightarrow> a = b"
proof (induction a b rule: list_induct2')
  case (4 x a y b)
  have k: "fst x = fst y" using 4(2) by simp
  then have "snd x = snd y" using 4(4)[of "fst x"] by (cases x; cases y) simp
  moreover have "map_of a k = map_of b k" for k
  proof (cases "k = fst x")
    case True
    then have "k \<notin> fst ` set a" "k \<notin> fst ` set b" using 4(2,3) k by (auto simp del: set_map simp flip: set_map)
    then show ?thesis by (metis map_of_eq_None_iff)
  next
    case False
    then show ?thesis using 4(4)[of k] k by (cases x; cases y) auto
  qed
  ultimately show ?case using 4 k by (cases x; cases y) simp
qed auto

text \<open>Later values of the same keys win; values that are there already change nothing.\<close>

lemma jmerge_overwrite:
  assumes "map fst b = map fst c" "distinct (map fst b)" "distinct (map fst a)"
  shows "jmerge (jmerge a b) c = jmerge a c"
proof (rule alist_eqI)
  have keys: "fst ` set b = fst ` set c" using assms(1) by (metis list.set_map)
  have c: "distinct (map fst c)" using assms by simp
  have in_jm: "fst ` set (jmerge a b) = fst ` set a \<union> fst ` set b"
    using arg_cong[OF keys_jmerge[OF assms(2), of a], of set] by auto
  then have "filter (\<lambda>k. k \<notin> fst ` set (jmerge a b)) (map fst c) = []"
    using keys by (auto simp: filter_empty_conv)
  then show "map fst (jmerge (jmerge a b) c) = map fst (jmerge a c)"
    unfolding keys_jmerge[OF c, of "jmerge a b"] by (simp add: keys_jmerge c assms(1,2))
  show "distinct (map fst (jmerge (jmerge a b) c))" using assms(3) by (intro distinct_jmerge)
  fix k
  have "map_of c k = None \<longleftrightarrow> map_of b k = None" by (simp add: map_of_eq_None_iff keys)
  then show "map_of (jmerge (jmerge a b) c) k = map_of (jmerge a c) k"
    using assms(2) c by (auto simp: map_of_jmerge split: option.splits)
qed

lemma jset_same: "distinct (map fst d) \<Longrightarrow> map_of d k = Some v \<Longrightarrow> jset d k v = d"
proof (rule alist_eqI)
  assume "distinct (map fst d)" "map_of d k = Some v"
  moreover from this(2) have "k \<in> fst ` set d" by (metis jhas_def jhas_iff option.distinct(1))
  ultimately show "map fst (jset d k v) = map fst d" "distinct (map fst (jset d k v))"
    "\<And>k'. map_of (jset d k v) k' = map_of d k'"
    by (simp_all add: keys_jset map_of_jset)
qed

lemma jmerge_absorb:
  "distinct (map fst a) \<Longrightarrow> \<forall>(k, v) \<in> set b. map_of a k = Some v \<Longrightarrow> jmerge a b = a"
  by (induction b) (auto simp: jset_same)

lemma jmerge_self: "distinct (map fst a) \<Longrightarrow> jmerge a a = a"
  by (rule jmerge_absorb) auto

lemma jmerge_again:
  assumes "distinct (map fst a)" "distinct (map fst b)"
  shows "jmerge (jmerge a b) b = jmerge a b"
  using assms by (intro jmerge_absorb) (auto simp: distinct_jmerge map_of_jmerge)

section \<open>The collector\<close>

definition event_call :: "stream_event \<Rightarrow> string option" where
  "event_call e = (case e of ToolStarted s \<Rightarrow> Some (se_call_id s) | ToolResult r \<Rightarrow> Some (re_call_id r) | OtherEvent \<Rightarrow> None)"

fun opened_card :: "stream_event \<Rightarrow> jobj" where
  "opened_card (ToolStarted s) = started_card s"
| "opened_card (ToolResult r) = [(''tool'', JStr (re_tool r)), (''tool_call_id'', JStr (re_call_id r))]"
| "opened_card OtherEvent = []"

definition call_events :: "string \<Rightarrow> stream_event list \<Rightarrow> stream_event list" where
  "call_events i es = filter (\<lambda>e. event_call e = Some i) es"

definition call_results :: "string \<Rightarrow> stream_event list \<Rightarrow> result_event list" where
  "call_results i es = concat (map (\<lambda>e. case e of ToolResult r \<Rightarrow> [r] | _ \<Rightarrow> []) (call_events i es))"

text \<open>The card of a call: opened by its first event, with the fields of its last result.\<close>

definition card_of_call :: "stream_event list \<Rightarrow> string \<Rightarrow> jobj" where
  "card_of_call es i =
     (let base = opened_card (hd (call_events i es)); rs = call_results i es
      in if rs = [] then base else jmerge base (result_fields (last rs)))"

definition calls_in_order :: "stream_event list \<Rightarrow> string list" where
  "calls_in_order es = rev (remdups (rev (concat (map (\<lambda>e. case event_call e of None \<Rightarrow> [] | Some i \<Rightarrow> [i]) es))))"

lemma calls_snoc: "calls_in_order (es @ [e]) =
   (case event_call e of None \<Rightarrow> calls_in_order es
    | Some i \<Rightarrow> if i \<in> set (calls_in_order es) then calls_in_order es else calls_in_order es @ [i])"
  by (auto simp: calls_in_order_def split: option.splits)

lemma calls_distinct: "distinct (calls_in_order es)"
  by (simp add: calls_in_order_def)

lemma set_calls: "i \<in> set (calls_in_order es) \<longleftrightarrow> call_events i es \<noteq> []"
proof -
  have "set (concat (map (\<lambda>e. case event_call e of None \<Rightarrow> [] | Some i \<Rightarrow> [i]) es)) = {i. \<exists>e \<in> set es. event_call e = Some i}"
    by (induction es) (auto split: option.splits)
  then show ?thesis by (simp only: calls_in_order_def set_rev set_remdups) (auto simp: call_events_def filter_empty_conv)
qed

lemma call_events_snoc: "call_events i (es @ [e]) = call_events i es @ (if event_call e = Some i then [e] else [])"
  by (simp add: call_events_def)

lemma result_fields_keys [simp]:
  "map fst (result_fields r) = [''ok'', ''result'', ''affected_rows'', ''error_code'', ''error_msg'', ''duration_ms'', ''ui'']"
  by (simp add: result_fields_def)

lemma opened_card_keys: "distinct (map fst (opened_card e))"
  by (cases e) (auto simp: started_card_def)

lemma card_of_call_snoc:
  "event_call e \<noteq> Some i \<Longrightarrow> card_of_call (es @ [e]) i = card_of_call es i"
  "call_events i es = [] \<Longrightarrow> event_call e = Some i \<Longrightarrow> card_of_call (es @ [e]) i =
     (case e of ToolResult r \<Rightarrow> jmerge (opened_card e) (result_fields r) | _ \<Rightarrow> opened_card e)"
  "call_events i es \<noteq> [] \<Longrightarrow> event_call e = Some i \<Longrightarrow> card_of_call (es @ [e]) i =
     (case e of ToolResult r \<Rightarrow> jmerge (card_of_call es i) (result_fields r) | _ \<Rightarrow> card_of_call es i)"
proof -
  have ev: "call_results i (es @ [e]) = call_results i es @
      (if event_call e = Some i then (case e of ToolResult r \<Rightarrow> [r] | _ \<Rightarrow> []) else [])" for i
    by (simp add: call_results_def call_events_snoc)
  show "event_call e \<noteq> Some i \<Longrightarrow> card_of_call (es @ [e]) i = card_of_call es i"
    by (simp add: card_of_call_def call_events_snoc ev)
  show "call_events i es = [] \<Longrightarrow> event_call e = Some i \<Longrightarrow> card_of_call (es @ [e]) i =
     (case e of ToolResult r \<Rightarrow> jmerge (opened_card e) (result_fields r) | _ \<Rightarrow> opened_card e)"
    by (auto simp: card_of_call_def call_events_snoc ev call_results_def split: stream_event.splits)
  show "call_events i es \<noteq> [] \<Longrightarrow> event_call e = Some i \<Longrightarrow> card_of_call (es @ [e]) i =
     (case e of ToolResult r \<Rightarrow> jmerge (card_of_call es i) (result_fields r) | _ \<Rightarrow> card_of_call es i)"
    by (auto simp: card_of_call_def Let_def call_events_snoc ev opened_card_keys jmerge_overwrite split: stream_event.splits)
qed

text \<open>The state of the collector after a list of events.\<close>

definition collected :: "stream_event list \<Rightarrow> collector \<Rightarrow> bool" where
  "collected es c \<longleftrightarrow> co_items c = map (card_of_call es) (calls_in_order es) \<and>
     (\<forall>p < length (calls_in_order es). co_positions c (calls_in_order es ! p) = Some p) \<and>
     (\<forall>i. i \<notin> set (calls_in_order es) \<longrightarrow> co_positions c i = None) \<and>
     (\<forall>i. co_projections c i = (if call_results i es = [] then None else Some (re_projection (last (call_results i es)))))"


lemma new_results: "call_events i es = [] \<Longrightarrow> call_results i es = []"
  by (simp add: call_results_def)

lemma call_results_snoc: "call_results i (es @ [e]) = call_results i es @
    (case e of ToolResult r \<Rightarrow> if re_call_id r = i then [r] else [] | _ \<Rightarrow> [])"
  by (simp add: call_results_def call_events_snoc event_call_def split: stream_event.splits)

lemma collected_pos:
  assumes "collected es c" "i \<in> set (calls_in_order es)"
  obtains p where "p < length (calls_in_order es)" "calls_in_order es ! p = i" "co_positions c i = Some p"
    "co_items c ! p = card_of_call es i" "length (co_items c) = length (calls_in_order es)"
  using assms unfolding collected_def by (metis in_set_conv_nth length_map nth_map)

lemma collected_new:
  assumes c: "collected es c" and i: "event_call e = Some i" "call_events i es = []"
    and items: "co_items c' = co_items c @ [card_of_call (es @ [e]) i]"
    and pos: "co_positions c' = (co_positions c)(i \<mapsto> length (co_items c))"
    and proj: "co_projections c' = (case e of ToolResult r \<Rightarrow> (co_projections c)(i \<mapsto> re_projection r) | _ \<Rightarrow> co_projections c)"
  shows "collected (es @ [e]) c'"
proof -
  let ?o = "calls_in_order es"
  have o: "calls_in_order (es @ [e]) = ?o @ [i]" "i \<notin> set ?o" using i by (auto simp: calls_snoc set_calls)
  have same: "card_of_call (es @ [e]) j = card_of_call es j" if "j \<in> set ?o" for j
    using o(2) that i(1) by (intro card_of_call_snoc(1)) auto
  have len: "length (co_items c) = length ?o" using c by (simp add: collected_def)
  have "co_items c' = map (card_of_call (es @ [e])) (?o @ [i])"
    using c same by (simp add: items collected_def)
  moreover have "co_positions c' ((?o @ [i]) ! p) = Some p" if "p < length (?o @ [i])" for p
  proof (cases "p < length ?o")
    case True
    then have "?o ! p \<noteq> i" using o(2) nth_mem by blast
    with True c show ?thesis by (simp add: pos nth_append collected_def)
  next
    case False
    with that show ?thesis by (simp add: pos len nth_append)
  qed
  moreover have "co_projections c' j = (if call_results j (es @ [e]) = [] then None
      else Some (re_projection (last (call_results j (es @ [e])))))" for j
    using c i unfolding proj by (auto simp: collected_def call_results_snoc event_call_def split: stream_event.splits)
  ultimately show ?thesis
    using c unfolding collected_def o(1) by (simp add: pos)
qed

lemma collected_old:
  assumes c: "collected es c" and i: "event_call e = Some i" "call_events i es \<noteq> []"
    and items: "co_items c' = map (card_of_call (es @ [e])) (calls_in_order es)"
    and pos: "co_positions c' = co_positions c"
    and proj: "co_projections c' = (case e of ToolResult r \<Rightarrow> (co_projections c)(i \<mapsto> re_projection r) | _ \<Rightarrow> co_projections c)"
  shows "collected (es @ [e]) c'"
proof -
  have o: "calls_in_order (es @ [e]) = calls_in_order es" using i by (auto simp: calls_snoc set_calls)
  have "co_projections c' j = (if call_results j (es @ [e]) = [] then None
      else Some (re_projection (last (call_results j (es @ [e])))))" for j
    using c i unfolding proj by (auto simp: collected_def call_results_snoc event_call_def split: stream_event.splits)
  then show ?thesis using c unfolding collected_def o by (simp add: items pos)
qed

lemma collected_update:
  assumes c: "collected es c" and i: "i \<in> set (calls_in_order es)" "event_call e = Some i" and p: "co_positions c i = Some p"
  shows "(co_items c)[p := card_of_call (es @ [e]) i] = map (card_of_call (es @ [e])) (calls_in_order es)"
proof -
  obtain q where q: "q < length (calls_in_order es)" "calls_in_order es ! q = i" "co_positions c i = Some q"
    by (rule collected_pos[OF c i(1)])
  have "p = q" using p q(3) by simp
  show ?thesis
  proof (rule nth_equalityI)
    show "length ((co_items c)[p := card_of_call (es @ [e]) i]) = length (map (card_of_call (es @ [e])) (calls_in_order es))"
      using c by (simp add: collected_def)
    fix j assume j: "j < length ((co_items c)[p := card_of_call (es @ [e]) i])"
    then have j': "j < length (calls_in_order es)" using c by (simp add: collected_def)
    show "(co_items c)[p := card_of_call (es @ [e]) i] ! j = map (card_of_call (es @ [e])) (calls_in_order es) ! j"
    proof (cases "j = q")
      case True
      then show ?thesis using q j j' \<open>p = q\<close> by simp
    next
      case False
      then have "calls_in_order es ! j \<noteq> i"
        using q(1,2) j' calls_distinct[of es] by (metis nth_eq_iff_index_eq)
      then have "card_of_call (es @ [e]) (calls_in_order es ! j) = card_of_call es (calls_in_order es ! j)"
        using i(2) by (intro card_of_call_snoc(1)) auto
      then show ?thesis using False j' \<open>p = q\<close> c by (simp add: collected_def)
    qed
  qed
qed

lemma collected_started:
  assumes c: "collected es c" shows "collected (es @ [ToolStarted s]) (record_started c s)"
proof -
  let ?i = "se_call_id s" and ?e = "ToolStarted s"
  have e: "event_call ?e = Some ?i" by (simp add: event_call_def)
  show ?thesis
  proof (cases "call_events ?i es = []")
    case True
    then have "co_positions c ?i = None" using c by (simp add: collected_def set_calls)
    then show ?thesis using card_of_call_snoc(2)[OF True e]
      by (intro collected_new[OF c e True]) (simp_all add: record_started_def)
  next
    case False
    then have i: "?i \<in> set (calls_in_order es)" by (simp add: set_calls)
    obtain p where p: "co_positions c ?i = Some p" "co_items c ! p = card_of_call es ?i"
      by (rule collected_pos[OF c i])
    have "map (card_of_call (es @ [?e])) (calls_in_order es) = co_items c"
      using collected_update[OF c i e p(1)] card_of_call_snoc(3)[OF False e] by (simp flip: p(2))
    then show ?thesis using p by (intro collected_old[OF c e False]) (simp_all add: record_started_def)
  qed
qed

lemma collected_result:
  assumes c: "collected es c" shows "collected (es @ [ToolResult r]) (record_result c r)"
proof -
  let ?i = "re_call_id r" and ?e = "ToolResult r"
  have e: "event_call ?e = Some ?i" by (simp add: event_call_def)
  show ?thesis
  proof (cases "call_events ?i es = []")
    case True
    then have "co_positions c ?i = None" using c by (simp add: collected_def set_calls)
    then show ?thesis using card_of_call_snoc(2)[OF True e]
      by (intro collected_new[OF c e True]) (simp_all add: record_result_def Let_def)
  next
    case False
    then have i: "?i \<in> set (calls_in_order es)" by (simp add: set_calls)
    obtain p where p: "co_positions c ?i = Some p" "co_items c ! p = card_of_call es ?i"
      by (rule collected_pos[OF c i])
    show ?thesis using collected_update[OF c i e p(1)] card_of_call_snoc(3)[OF False e] p
      by (intro collected_old[OF c e False]) (simp_all add: record_result_def Let_def)
  qed
qed

lemma collected_collect: "collected es (collect es)"
proof (induction es rule: rev_induct)
  case Nil
  then show ?case by (simp add: collected_def collect_def new_collector_def calls_in_order_def call_results_def call_events_def)
next
  case (snoc e es)
  have rec: "collect (es @ [e]) = record_event e (collect es)" by (simp add: collect_def)
  show ?case
  proof (cases e)
    case OtherEvent
    then have "event_call e = None" by (simp add: event_call_def)
    moreover from this have "card_of_call (es @ [e]) = card_of_call es" using card_of_call_snoc(1) by fastforce
    ultimately show ?thesis using snoc OtherEvent unfolding rec
      by (simp add: collected_def calls_snoc call_results_snoc)
  qed (use snoc rec collected_started collected_result in simp_all)
qed


section \<open>Merging\<close>

definition named :: "jobj \<Rightarrow> string option" where
  "named c = (case card_id c of None \<Rightarrow> None | Some i \<Rightarrow> if i = [] then None else Some i)"

text \<open>Stored cards have distinct keys and no call twice; so do the cards of a turn, which all name
  their call.\<close>

definition cards_ok :: "jobj list \<Rightarrow> bool" where
  "cards_ok cs \<longleftrightarrow> (\<forall>c \<in> set cs. distinct (map fst c)) \<and> distinct (map named (filter (\<lambda>c. named c \<noteq> None) cs))"

definition turn_cards_ok :: "jobj list \<Rightarrow> bool" where
  "turn_cards_ok cs \<longleftrightarrow> cards_ok cs \<and> (\<forall>c \<in> set cs. named c \<noteq> None)"

definition update_card :: "jobj list \<Rightarrow> jobj \<Rightarrow> jobj" where
  "update_card inc c = (case find (\<lambda>x. named x = named c) inc of
     None \<Rightarrow> c | Some x \<Rightarrow> if named c = None then c else jmerge c x)"

definition merged_cards :: "jobj list \<Rightarrow> jobj list \<Rightarrow> jobj list" where
  "merged_cards ex inc = map (update_card inc) ex @ filter (\<lambda>c. named c = None \<or> named c \<notin> named ` set ex) inc"

lemma named_iff: "named c = Some i \<longleftrightarrow> map_of c ''tool_call_id'' = Some (JStr i) \<and> i \<noteq> []"
  by (auto simp: named_def card_id_def jget_def split: option.splits json.splits)

lemma named_jmerge: "named x = Some i \<Longrightarrow> distinct (map fst x) \<Longrightarrow> named (jmerge c x) = Some i"
  by (simp add: named_iff map_of_jmerge del: map_of_eq_Some_iff)

lemma positions_snoc: "positions_of (cs @ [c]) =
    (case named c of None \<Rightarrow> positions_of cs | Some i \<Rightarrow> (positions_of cs)(i \<mapsto> length cs))"
  by (simp add: positions_of_def enumerate_append_eq position_step_def named_def split: option.splits)

lemma positions_named: "positions_of cs = positions_of ds" if "map named cs = map named ds"
  using that
proof (induction cs arbitrary: ds rule: rev_induct)
  case (snoc c cs)
  then obtain d ds' where "ds = ds' @ [d]" "map named cs = map named ds'" "named c = named d"
    by (cases ds rule: rev_cases) auto
  then show ?case using snoc.IH[of ds'] map_eq_imp_length_eq[of named cs named ds']
    by (cases "named d") (simp_all add: positions_snoc)
qed simp

lemma positions_Some: "positions_of cs i = Some p \<Longrightarrow> p < length cs \<and> named (cs ! p) = Some i"
proof (induction cs arbitrary: p rule: rev_induct)
  case Nil
  then show ?case by (simp add: positions_of_def)
next
  case (snoc c cs)
  then show ?case by (fastforce simp: positions_snoc nth_append split: option.splits if_splits)
qed

lemma positions_None: "positions_of cs i = None \<longleftrightarrow> Some i \<notin> named ` set cs"
proof (induction cs rule: rev_induct)
  case Nil
  then show ?case by (simp add: positions_of_def)
next
  case (snoc c cs)
  then show ?case by (auto simp: positions_snoc split: option.splits)
qed

lemma cards_ok_Cons:
  "cards_ok (c # cs) \<longleftrightarrow> distinct (map fst c) \<and> (named c = None \<or> named c \<notin> named ` set cs) \<and> cards_ok cs"
proof -
  have "named c \<in> named ` {x \<in> set cs. named x \<noteq> None} \<longleftrightarrow> named c \<in> named ` set cs" if "named c \<noteq> None"
  proof
    assume "named c \<in> named ` set cs"
    then obtain x where "x \<in> set cs" "named c = named x" by blast
    with that show "named c \<in> named ` {x \<in> set cs. named x \<noteq> None}" by (intro image_eqI[of _ _ x]) simp_all
  qed blast
  then show ?thesis by (cases "named c = None") (auto simp: cards_ok_def)
qed

lemma turn_cards_Cons:
  "turn_cards_ok (c # cs) \<longleftrightarrow> distinct (map fst c) \<and> named c \<noteq> None \<and> named c \<notin> named ` set cs \<and> turn_cards_ok cs"
  by (auto simp: turn_cards_ok_def cards_ok_Cons)

lemma cards_ok_unique:
  assumes "cards_ok cs" "p < length cs" "q < length cs" "named (cs ! p) = Some i" "named (cs ! q) = Some i"
  shows "p = q"
  using assms
proof (induction cs arbitrary: p q)
  case (Cons c cs)
  have ok: "cards_ok cs" using Cons.prems(1) by (simp add: cards_ok_Cons)
  have c: "named c \<noteq> Some i" if "j < length cs" "named (cs ! j) = Some i" for j
    using Cons.prems(1) that imageI[OF nth_mem[OF that(1)], of named] by (auto simp: cards_ok_Cons)
  show ?case
  proof (cases p)
    case 0
    with Cons.prems c[of "q - 1"] show ?thesis by (cases q) auto
  next
    case (Suc p')
    with Cons.prems c[of p'] Cons.IH[OF ok, of p' "q - 1"] show ?thesis by (cases q) auto
  qed
qed simp

lemma update_card_other: "named c = None \<Longrightarrow> update_card inc c = c"
  by (simp add: update_card_def split: option.splits)

lemma update_card_new: "named c \<notin> named ` set inc \<Longrightarrow> update_card inc c = c"
proof -
  assume "named c \<notin> named ` set inc"
  then have "\<forall>x \<in> set inc. named x \<noteq> named c" by (metis imageI)
  then have "find (\<lambda>x. named x = named c) inc = None" by (simp add: find_None_iff)
  then show ?thesis by (simp add: update_card_def)
qed

lemma update_card_hit: "named c = Some i \<Longrightarrow> named x = Some i \<Longrightarrow> update_card (x # inc) c = jmerge c x"
  by (simp add: update_card_def)

lemma update_card_miss: "named x \<noteq> named c \<Longrightarrow> update_card (x # inc) c = update_card inc c"
  by (simp add: update_card_def)

lemma merge_hit:
  assumes ok: "cards_ok ex" and x: "named x = Some i" "distinct (map fst x)" and p: "positions_of ex i = Some p"
  shows "ex[p := jmerge (ex ! p) x] = map (update_card [x]) ex" "cards_ok (ex[p := jmerge (ex ! p) x])"
    "map named (ex[p := jmerge (ex ! p) x]) = map named ex"
proof -
  note pos = positions_Some[OF p]
  show "ex[p := jmerge (ex ! p) x] = map (update_card [x]) ex"
  proof (rule nth_equalityI)
    fix j assume "j < length (ex[p := jmerge (ex ! p) x])"
    then have j: "j < length ex" by simp
    show "ex[p := jmerge (ex ! p) x] ! j = map (update_card [x]) ex ! j"
    proof (cases "j = p")
      case True
      then show ?thesis using pos j x update_card_hit[OF _ x(1), of "ex ! p" "[]"] by simp
    next
      case False
      then have "named (ex ! j) \<noteq> Some i" using cards_ok_unique[OF ok j, of p i] pos by blast
      then show ?thesis using False j x by (simp add: update_card_new)
    qed
  qed simp
  show nm: "map named (ex[p := jmerge (ex ! p) x]) = map named ex"
    using pos named_jmerge[OF x] by (simp add: map_update) (metis length_map list_update_id nth_map)
  have "map named (filter (\<lambda>c. named c \<noteq> None) cs) = filter (\<lambda>n. n \<noteq> None) (map named cs)" for cs
    by (simp add: filter_map comp_def)
  moreover have "\<forall>c \<in> set (ex[p := jmerge (ex ! p) x]). distinct (map fst c)"
    using ok pos set_update_subset_insert[of ex p "jmerge (ex ! p) x"] by (auto simp: cards_ok_def distinct_jmerge)
  ultimately show "cards_ok (ex[p := jmerge (ex ! p) x])"
    using ok nm by (simp only: cards_ok_def)
qed

lemma merge_new:
  assumes ok: "cards_ok ex" and x: "named x = Some i" "distinct (map fst x)" and p: "positions_of ex i = None"
  shows "cards_ok (ex @ [x])" "merge_step x (ex, positions_of ex) = (ex @ [x], positions_of (ex @ [x]))"
    "Some i \<notin> named ` set ex"
proof -
  show new: "Some i \<notin> named ` set ex" using p by (simp add: positions_None)
  then show "cards_ok (ex @ [x])" using ok x by (auto simp: cards_ok_def image_iff)
  show "merge_step x (ex, positions_of ex) = (ex @ [x], positions_of (ex @ [x]))"
    using p x(1) by (simp add: merge_step_def positions_snoc) (auto simp: named_def split: option.splits if_splits)
qed

lemma merge_step_hit:
  assumes "cards_ok ex" and x: "named x = Some i" "distinct (map fst x)" and p: "positions_of ex i = Some p"
  shows "merge_step x (ex, positions_of ex) = (ex[p := jmerge (ex ! p) x], positions_of (ex[p := jmerge (ex ! p) x]))"
proof -
  have "card_id x = Some i" "i \<noteq> []" using x by (auto simp: named_def split: option.splits if_splits)
  then show ?thesis using p positions_named[OF merge_hit(3)[OF assms]] by (simp add: merge_step_def)
qed

lemma merge_eq:
  assumes "cards_ok ex" "turn_cards_ok inc"
  shows "fst (fold merge_step inc (ex, positions_of ex)) = merged_cards ex inc"
  using assms
proof (induction inc arbitrary: ex)
  case Nil
  have "update_card [] = (\<lambda>c. c)" by (rule ext) (simp add: update_card_def)
  then show ?case by (simp add: merged_cards_def)
next
  case (Cons x inc)
  obtain i where i: "named x = Some i" using Cons.prems(2) by (auto simp: turn_cards_Cons)
  have x: "distinct (map fst x)" "named x \<notin> named ` set inc" "turn_cards_ok inc"
    using Cons.prems(2) by (simp_all add: turn_cards_Cons)
  show ?case
  proof (cases "positions_of ex i")
    case None
    note new = merge_new[OF Cons.prems(1) i x(1) None]
    have "map (update_card inc) ex = map (update_card (x # inc)) ex"
      using new(3) i by (auto simp: image_iff update_card_miss)
    then have "merged_cards (ex @ [x]) inc = merged_cards ex (x # inc)"
      using new(3) i x(2,3) by (auto simp: merged_cards_def update_card_new image_iff turn_cards_ok_def intro!: filter_cong)
    then show ?thesis using Cons.IH[OF new(1) x(3)] new(2) by simp
  next
    case (Some p)
    note hit = merge_hit[OF Cons.prems(1) i x(1) Some]
    let ?ex = "ex[p := jmerge (ex ! p) x]"
    note step = merge_step_hit[OF Cons.prems(1) i x(1) Some]
    have names: "named ` set ?ex = named ` set ex" using arg_cong[OF hit(3), of set] by simp
    have "update_card inc (update_card [x] c) = update_card (x # inc) c" if "c \<in> set ex" for c
    proof (cases "named c = Some i")
      case True
      then show ?thesis using i x(2) named_jmerge[OF i x(1), of c] by (simp add: update_card_hit update_card_new)
    next
      case False
      then have "update_card [x] c = c" using i by (simp add: update_card_new)
      then show ?thesis using i False by (simp add: update_card_miss)
    qed
    moreover have "Some i \<in> named ` set ex" using Some positions_None[of ex i] by auto
    ultimately have "merged_cards ?ex inc = merged_cards ex (x # inc)"
      unfolding merged_cards_def names using i by (simp add: hit(1) comp_def)
    then show ?thesis using Cons.IH[OF hit(2) x(3)] step by simp
  qed
qed


lemma merged_ok:
  assumes "cards_ok ex" "turn_cards_ok inc"
  shows "cards_ok (merged_cards ex inc)"
  using assms
proof (induction inc arbitrary: ex)
  case Nil
  have "update_card [] = (\<lambda>c. c)" by (rule ext) (simp add: update_card_def)
  then show ?case using Nil by (simp add: merged_cards_def)
next
  case (Cons x inc)
  obtain i where i: "named x = Some i" using Cons.prems(2) by (auto simp: turn_cards_Cons)
  have x: "distinct (map fst x)" "turn_cards_ok inc" using Cons.prems(2) by (simp_all add: turn_cards_Cons)
  obtain ex' where ex': "cards_ok ex'" "merge_step x (ex, positions_of ex) = (ex', positions_of ex')"
    using merge_new(1,2)[OF Cons.prems(1) i x(1)] merge_hit(2)[OF Cons.prems(1) i x(1)]
      merge_step_hit[OF Cons.prems(1) i x(1)] by (cases "positions_of ex i") blast+
  have "merged_cards ex (x # inc) = fst (fold merge_step inc (ex', positions_of ex'))"
    using merge_eq[OF Cons.prems] ex'(2) by simp
  also have "\<dots> = merged_cards ex' inc" by (rule merge_eq[OF ex'(1) x(2)])
  finally show ?case using Cons.IH[OF ex'(1) x(2)] by simp
qed

lemma update_card_cases:
  obtains "update_card inc c = c" "named c \<notin> named ` set inc \<or> named c = None"
  | x i where "x \<in> set inc" "named x = Some i" "named c = Some i" "update_card inc c = jmerge c x"
proof (cases "find (\<lambda>x. named x = named c) inc")
  case None
  then have "named c \<notin> named ` set inc" by (auto simp: find_None_iff)
  with that(1) show ?thesis using update_card_new by blast
next
  case (Some x)
  then have x: "x \<in> set inc" "named x = named c" by (auto simp: find_Some_iff)
  show ?thesis
  proof (cases "named c")
    case None
    then show ?thesis using that(1) update_card_other by blast
  next
    case (Some i)
    then show ?thesis using that(2)[of x i] x \<open>find _ inc = Some x\<close> by (simp add: update_card_def)
  qed
qed

lemma turn_card_unique:
  "turn_cards_ok inc \<Longrightarrow> x \<in> set inc \<Longrightarrow> y \<in> set inc \<Longrightarrow> named x = named y \<Longrightarrow> x = y"
proof (induction inc)
  case (Cons z inc)
  have "named w \<noteq> named z" if "w \<in> set inc" for w
    using Cons.prems(1) imageI[OF that, of named] by (auto simp: turn_cards_Cons)
  with Cons show ?case by (auto simp: turn_cards_Cons)
qed simp

lemma merged_fixed:
  assumes ex: "cards_ok ex" and inc: "turn_cards_ok inc" and c: "c \<in> set (merged_cards ex inc)"
  shows "update_card inc c = c"
proof (cases rule: update_card_cases[of inc c])
  case (2 x i)
  have keys: "distinct (map fst x)" if "x \<in> set inc" for x using inc that by (simp add: turn_cards_ok_def cards_ok_def)
  from c consider c0 where "c0 \<in> set ex" "c = update_card inc c0" | "c \<in> set inc"
    by (auto simp: merged_cards_def)
  then show ?thesis
  proof cases
    case old: 1
    show ?thesis
    proof (cases rule: update_card_cases[of inc c0])
      case 1
      then have "named c0 = Some i" using 2(3) old(2) by simp
      then show ?thesis using 1(2) 2(1,2) imageI[OF 2(1), of named] by auto
    next
      case c0: (2 y j)
      have "named (jmerge c0 y) = named y" using named_jmerge[OF c0(2) keys[OF c0(1)]] c0(2) by simp
      then have "named x = named y" using c0(4) 2(2,3) old(2) by simp
      then have "x = y" by (rule turn_card_unique[OF inc 2(1) c0(1)])
      moreover have "distinct (map fst c0)" using ex old(1) by (simp add: cards_ok_def)
      ultimately show ?thesis using jmerge_again keys[OF c0(1)] 2(4) c0(4) old(2) by simp
    qed
  next
    case in_inc: 2
    then have "x = c" using turn_card_unique[OF inc 2(1) in_inc] 2(2,3) by simp
    then show ?thesis using 2(4) jmerge_self keys[OF in_inc] by simp
  qed
qed

lemma merged_names:
  assumes inc: "turn_cards_ok inc" and x: "x \<in> set inc"
  shows "named x \<in> named ` set (merged_cards ex inc)"
proof (cases "named x \<in> named ` set ex")
  case True
  then obtain c where c: "c \<in> set ex" "named c = named x" by auto
  have "named (update_card inc c) = named x"
  proof (cases rule: update_card_cases[of inc c])
    case (2 y i)
    then have "distinct (map fst y)" using inc by (simp add: turn_cards_ok_def cards_ok_def)
    then show ?thesis using named_jmerge[OF 2(2)] 2 c(2) by simp
  qed (use c in simp)
  moreover have "update_card inc c \<in> set (merged_cards ex inc)" using c(1) by (simp add: merged_cards_def)
  ultimately show ?thesis by (metis imageI)
next
  case False
  then show ?thesis using x by (intro imageI) (simp add: merged_cards_def)
qed

text \<open>Merging the same cards again changes nothing.\<close>

lemma merge_again:
  assumes ex: "cards_ok ex" and inc: "turn_cards_ok inc"
  shows "merged_cards (merged_cards ex inc) inc = merged_cards ex inc"
proof -
  let ?M = "merged_cards ex inc"
  have "map (update_card inc) ?M = ?M" using merged_fixed[OF ex inc] by (intro map_idI) blast
  moreover have "named x \<noteq> None" if "x \<in> set inc" for x using inc that by (simp add: turn_cards_ok_def)
  ultimately show ?thesis
    unfolding merged_cards_def[of ?M] using merged_names[OF inc] by (auto simp: filter_empty_conv)
qed

section \<open>Protected cards\<close>

definition protected_wf :: "protected_cards \<Rightarrow> bool" where
  "protected_wf prot \<longleftrightarrow> (\<forall>(i, r) \<in> set prot. case r of None \<Rightarrow> True | Some c \<Rightarrow> card_id c = Some i \<and> distinct (map fst c))"

text \<open>Every card of a protected call is the protected card; a hidden call has none.\<close>

definition shows_protected :: "protected_cards \<Rightarrow> jobj list \<Rightarrow> bool" where
  "shows_protected prot cs \<longleftrightarrow> (\<forall>c \<in> set cs. \<forall>i. card_id c = Some i \<longrightarrow> map_of prot i \<in> {None, Some (Some c)})"

lemma replaced_shows:
  assumes "protected_wf prot"
  shows "shows_protected prot (cards_of (replace_protected_cards cs prot))"
proof -
  have "map_of prot i \<in> {None, Some (Some c)}" if "c \<in> set (replace_card prot d)" "card_id c = Some i" for c d i
  proof (cases "case card_id d of None \<Rightarrow> None | Some i \<Rightarrow> map_of prot i")
    case None
    then show ?thesis using that by (auto simp: replace_card_def split: option.splits)
  next
    case (Some r)
    then obtain j where j: "card_id d = Some j" "map_of prot j = Some r" by (auto split: option.splits)
    then have r: "r = Some c" using that(1) by (auto simp: replace_card_def split: option.splits)
    have "(j, Some c) \<in> set prot" using map_of_SomeD[OF j(2)] r by simp
    then have "card_id c = Some j" using assms by (auto simp: protected_wf_def)
    then show ?thesis using that(2) j(2) r by simp
  qed
  then show ?thesis by (auto simp: shows_protected_def replace_protected_cards_def Let_def cards_of_def)
qed

lemma shows_replace:
  assumes "shows_protected prot cs"
  shows "cards_of (replace_protected_cards (Some cs) prot) = cs"
proof -
  have "replace_card prot c = [c]" if "c \<in> set cs" for c
    using assms that by (fastforce simp: shows_protected_def replace_card_def split: option.splits)
  then have "concat (map (replace_card prot) cs) = concat (map (\<lambda>c. [c]) cs)" by (intro arg_cong[where f = concat] map_cong) auto
  then have r: "concat (map (replace_card prot) cs) = cs" by simp
  then show ?thesis by (simp add: replace_protected_cards_def cards_of_def Let_def)
qed

lemma merged_shows:
  assumes wf: "protected_wf prot" and ex: "shows_protected prot ex" and inc: "shows_protected prot inc" "turn_cards_ok inc"
  shows "shows_protected prot (merged_cards ex inc)"
  unfolding shows_protected_def
proof (intro ballI allI impI)
  fix c i assume c: "c \<in> set (merged_cards ex inc)" and i: "card_id c = Some i"
  then consider c0 where "c0 \<in> set ex" "c = update_card inc c0" | "c \<in> set inc" by (auto simp: merged_cards_def)
  then show "map_of prot i \<in> {None, Some (Some c)}"
  proof cases
    case 1
    show ?thesis
    proof (cases rule: update_card_cases[of inc c0])
      case 1
      then show ?thesis using ex i \<open>c0 \<in> set ex\<close> \<open>c = update_card inc c0\<close> by (auto simp: shows_protected_def)
    next
      case (2 x j)
      have keys: "distinct (map fst x)" using inc(2) 2(1) by (simp add: turn_cards_ok_def cards_ok_def)
      have named_id: "named y = Some k \<Longrightarrow> card_id y = Some k" for y k
        by (auto simp: named_def split: option.splits if_splits)
      have "j = i" using named_id[OF named_jmerge[OF 2(2) keys, of c0]] i 2(4) \<open>c = update_card inc c0\<close> by simp
      then have "map_of prot i \<in> {None, Some (Some c0)}" "map_of prot i \<in> {None, Some (Some x)}"
        using ex inc(1) \<open>c0 \<in> set ex\<close> 2(1) named_id[OF 2(2)] named_id[OF 2(3)] by (auto simp: shows_protected_def)
      then show ?thesis using jmerge_self[OF keys] 2(4) \<open>c = update_card inc c0\<close> by auto
    qed
  next
    case 2
    then show ?thesis using inc(1) i by (auto simp: shows_protected_def)
  qed
qed

end
