(* ===== verification/Chat_Props.thy ===== *)
theory Chat_Props
  imports Chat_Cards_Facts
begin

text \<open>Properties of the cards of a chat turn.\<close>

definition projected_call :: "stream_event list \<Rightarrow> string \<Rightarrow> bool" where
  "projected_call es i \<longleftrightarrow> call_results i es \<noteq> [] \<and> re_projection (last (call_results i es)) \<noteq> None"

lemma card_call_id: "i \<in> set (calls_in_order es) \<Longrightarrow> jget (card_of_call es i) ''tool_call_id'' = JStr i"
proof -
  assume "i \<in> set (calls_in_order es)"
  then have ne: "call_events i es \<noteq> []" by (simp add: set_calls)
  then have "hd (call_events i es) \<in> set (call_events i es)" by simp
  then have "event_call (hd (call_events i es)) = Some i" by (simp add: call_events_def)
  then have base: "jget (opened_card (hd (call_events i es))) ''tool_call_id'' = JStr i"
    by (cases "hd (call_events i es)") (auto simp: event_call_def jget_def started_card_def)
  have "map_of (result_fields e) ''tool_call_id'' = None" for e by (simp add: result_fields_def)
  then have "jget (jmerge d (result_fields e)) ''tool_call_id'' = jget d ''tool_call_id''" for d e
    by (simp add: jget_def map_of_jmerge)
  then show ?thesis using base by (simp add: card_of_call_def Let_def)
qed

lemma project_items_complete:
  "snd (snd (snd (project_items ps items))) \<longleftrightarrow>
     list_all (\<lambda>item. \<exists>p. ps (py_str (jget item ''tool_call_id'')) = Some (Some p)) items"
  by (induction items) (auto simp: Let_def split: option.splits prod.splits)

text \<open>Property C25: the snapshot of a turn has one card per call, in the order in which the calls were
  first seen; the card of a call is made of that call's own first event and last result, whatever the
  other calls of the turn did in between; and the result projection of the turn is complete exactly
  when the last result of every call has one.
\<close>

theorem collector_isolates_calls:
  "snapshot (collect es) = map (card_of_call es) (calls_in_order es) \<and> distinct (calls_in_order es) \<and>
   map card_id (snapshot (collect es)) = map Some (calls_in_order es) \<and>
   (snd (snd (snd (snapshot_projection (collect es)))) \<longleftrightarrow> list_all (projected_call es) (calls_in_order es))"
proof -
  note c = collected_collect[of es, unfolded collected_def]
  have snap: "snapshot (collect es) = map (card_of_call es) (calls_in_order es)" using c by (simp add: snapshot_def)
  have ids: "map card_id (snapshot (collect es)) = map Some (calls_in_order es)"
    unfolding snap by (simp add: card_id_def card_call_id)
  have proj: "co_projections (collect es) i =
      (if call_results i es = [] then None else Some (re_projection (last (call_results i es))))" for i
    using c by blast
  have "snd (snd (snd (snapshot_projection (collect es)))) \<longleftrightarrow>
      list_all (\<lambda>i. \<exists>p. co_projections (collect es) i = Some (Some p)) (calls_in_order es)"
    unfolding snapshot_projection_def project_items_complete
    using snap by (auto simp: snapshot_def list_all_iff card_call_id py_str_def)
  also have "\<dots> \<longleftrightarrow> list_all (projected_call es) (calls_in_order es)"
    by (auto simp: proj projected_call_def list_all_iff)
  finally show ?thesis using snap ids calls_distinct by blast
qed

end
