(* ===== verification/Atomic_Completion.thy ===== *)
theory Atomic_Completion
  imports Chat_Cards Projection_Access
begin

text \<open>
  \<open>app/modules/ai/service/atomic_completion_service.py\<close>: the claim of an execution, the completion of
  its action and of its operation log in one transaction, and the checks that later accept a
  completion as fact. \<open>run_db\<close> holds the rows these services share with \<open>chat_run_service.py\<close>;
  \<open>action_view\<close> is the part of it that \<open>Prepared_Action\<close> knows. \<open>h\<close> is \<open>compute_args_hash\<close>. An
  exception leaves the transaction to the caller, which rolls it back. Approval and dispatch mode,
  \<open>hitl\<close> and \<open>inline\<close> in every row the code creates, are not columns of the model.
\<close>

section \<open>Rows\<close>

record audit_log = op_log +
  al_trace :: string
  al_agent_code :: "string option"
  al_target_summary :: "string option"
  al_tool_name :: string
  al_args_hash :: string
  al_execution_mode :: string
  al_confirmation_id :: "string option"
  al_approved_by :: "int option"
  al_queued_at :: int
  al_started_at :: "int option"
  al_finished_at :: "int option"
  al_duration_ms :: "int option"
  al_hitl_wait_ms :: "int option"

record run_message = message +
  rm_parent :: "int option"
  rm_content :: "string option"
  rm_tool_calls :: "jobj list option"
  rm_trace :: "string option"

record run_db =
  rd_actions :: "prepared_action list"
  rd_logs :: "audit_log list"
  rd_conversations :: "conversation list"
  rd_messages :: "run_message list"

definition action_view :: "run_db \<Rightarrow> action_db" where
  "action_view db = \<lparr>actions = rd_actions db, op_logs = map op_log.truncate (rd_logs db),
     conversations = rd_conversations db, messages = map message.truncate (rd_messages db)\<rparr>"

text \<open>A tenant context carries the version of the tenant row it was made from; \<open>tenant_row\<close> has the
  columns that \<open>load_live_user_authority\<close> compares.\<close>

record tenant_ctx =
  tc_tenant :: int
  tc_actor :: int
  tc_version :: int
  tc_code :: string
  tc_source :: string

record tenant_row =
  tn_id :: int
  tn_version :: int
  tn_status :: string

definition load_live_user_authority :: "auth_db \<Rightarrow> tenant_row list \<Rightarrow> tenant_ctx \<Rightarrow> user res" where
  "load_live_user_authority a tenants tc =
     (case (load_user a (tc_actor tc) (tc_tenant tc), find (\<lambda>r. tn_id r = tc_tenant tc) tenants) of
        (Some u, Some r) \<Rightarrow>
          if tn_version r = tc_version tc \<and> tn_status r = STATUS_ENABLED \<and> user_status u = STATUS_ENABLED
          then Inr u else Inl (Authorization ''AI_TOOL_PERM_DENIED'')
      | _ \<Rightarrow> Inl (Authorization ''AI_TOOL_PERM_DENIED''))"

section \<open>Protocol owners\<close>

definition DB_TOOLS :: "string set" where
  "DB_TOOLS = {''job.update_cron'', ''dept.create'', ''dept.update'', ''dept.move'', ''role.create'', ''role.update'',
     ''role.update_menus'', ''role.update_agents'', ''user.update_dept'', ''user.update_roles'', ''user.create'',
     ''user.reset_password'', ''user.batch_delete'', ''user.update''}"

definition FILE_TOOLS :: "string set" where
  "FILE_TOOLS = {''user.import_execute'', ''user.export'', ''user.import_preview''}"

definition owner_prefix :: "string \<Rightarrow> string option" where
  "owner_prefix tool = (if tool \<in> DB_TOOLS then Some ''v0162-db:''
     else if tool \<in> FILE_TOOLS then Some ''v0162-file:'' else None)"

definition is_protocol_owner :: "string option \<Rightarrow> string \<Rightarrow> bool" where
  "is_protocol_owner owner tool = (case (owner_prefix tool, owner) of
       (Some p, Some ow) \<Rightarrow> prefix p ow \<and> canonical_uuid (drop (length p) ow)
     | _ \<Rightarrow> False)"

definition has_protocol_marker :: "string option \<Rightarrow> bool" where
  "has_protocol_marker owner = (case owner of None \<Rightarrow> False | Some ow \<Rightarrow> prefix ''v0162-'' ow)"

definition is_registered_readonly_action :: "registry \<Rightarrow> prepared_action \<Rightarrow> bool" where
  "is_registered_readonly_action reg a =
     (let tool = ab_execute_tool_name (frozen a)
      in if tool \<in> DB_TOOLS \<union> FILE_TOOLS \<or> has_protocol_marker (execution_owner a) then False
         else (case find_tool reg tool of None \<Rightarrow> False | Some r \<Rightarrow> tm_readonly (rt_meta r)))"

definition new_execution_owner :: "string \<Rightarrow> string \<Rightarrow> string res" where
  "new_execution_owner tool uuid = (case owner_prefix tool of None \<Rightarrow> Inl binding_invalid | Some p \<Rightarrow> Inr (p @ uuid))"

definition hash_ok :: "string \<Rightarrow> bool" where
  "hash_ok s \<longleftrightarrow> length s = 64 \<and> list_all is_hex_lower s"

definition upper_or_digit :: "char \<Rightarrow> bool" where
  "upper_or_digit c \<longleftrightarrow> is_dec c \<or> CHR ''A'' \<le> c \<and> c \<le> CHR ''Z'' \<or> c = CHR ''_''"

definition error_ok :: "string \<Rightarrow> bool" where
  "error_ok s = (case s of [] \<Rightarrow> False
     | c # r \<Rightarrow> CHR ''A'' \<le> c \<and> c \<le> CHR ''Z'' \<and> length r \<le> 63 \<and> list_all upper_or_digit r)"

section \<open>Claims\<close>

record claim_binding =
  cb_tenant :: int
  cb_action_id :: int
  cb_confirmation_id :: string
  cb_execute_tool_call_id :: string
  cb_execute_tool_name :: string
  cb_actor :: int
  cb_conversation_id :: int
  cb_source_message_id :: int
  cb_trace_id :: string
  cb_agent_code :: string
  cb_args_hash :: string
  cb_snapshot_hash :: string
  cb_execution_owner :: string
  cb_row_version :: int
  cb_log_id :: int

definition claim_from_action :: "prepared_action \<Rightarrow> int \<Rightarrow> claim_binding res" where
  "claim_from_action a lid =
     (let b = frozen a in
      case execution_owner a of
        None \<Rightarrow> Inl binding_invalid
      | Some ow \<Rightarrow>
        if pa_status a \<noteq> RUNNING \<or> \<not> is_protocol_owner (Some ow) (ab_execute_tool_name b) then Inl binding_invalid
        else if \<not> list_all (\<lambda>i. 0 < i) [action_id a, ab_user_id b, ab_conversation_id b, ab_source_message_id b, row_version a, lid]
        then Inl binding_invalid
        else if [] \<in> {ab_confirmation_id b, ab_execute_tool_call_id b, ab_trace_id b, ab_agent_code b} then Inl binding_invalid
        else if \<not> (hash_ok (ab_args_hash b) \<and> hash_ok (ab_snapshot_hash b)) then Inl binding_invalid
        else Inr \<lparr>cb_tenant = ab_tenant_id b, cb_action_id = action_id a, cb_confirmation_id = ab_confirmation_id b,
               cb_execute_tool_call_id = ab_execute_tool_call_id b, cb_execute_tool_name = ab_execute_tool_name b,
               cb_actor = ab_user_id b, cb_conversation_id = ab_conversation_id b,
               cb_source_message_id = ab_source_message_id b, cb_trace_id = ab_trace_id b,
               cb_agent_code = ab_agent_code b, cb_args_hash = ab_args_hash b, cb_snapshot_hash = ab_snapshot_hash b,
               cb_execution_owner = ow, cb_row_version = row_version a, cb_log_id = lid\<rparr>)"

record locked_claim =
  lc_action :: prepared_action
  lc_log :: audit_log
  lc_claim :: claim_binding
  lc_authorized :: bool

section \<open>Checks\<close>

definition check_principal :: "prepared_action \<Rightarrow> tenant_ctx \<Rightarrow> unit res" where
  "check_principal a tc =
     guardE (ab_tenant_id (frozen a) = tc_tenant tc \<and> ab_user_id (frozen a) = tc_actor tc) binding_invalid"

definition claim_fields_match :: "action_binding \<Rightarrow> int \<Rightarrow> claim_binding \<Rightarrow> bool" where
  "claim_fields_match b aid c \<longleftrightarrow>
     ab_tenant_id b = cb_tenant c \<and> aid = cb_action_id c \<and> ab_confirmation_id b = cb_confirmation_id c \<and>
     ab_execute_tool_call_id b = cb_execute_tool_call_id c \<and> ab_execute_tool_name b = cb_execute_tool_name c \<and>
     ab_conversation_id b = cb_conversation_id c \<and> ab_source_message_id b = cb_source_message_id c \<and>
     ab_trace_id b = cb_trace_id c \<and> ab_agent_code b = cb_agent_code c \<and> ab_args_hash b = cb_args_hash c \<and>
     ab_snapshot_hash b = cb_snapshot_hash c"

definition frozen_hashes_ok :: "(json \<Rightarrow> string) \<Rightarrow> action_binding \<Rightarrow> string \<Rightarrow> string \<Rightarrow> bool" where
  "frozen_hashes_ok h b ah sh \<longleftrightarrow> h (JObj (ab_frozen_args b)) = ah \<and>
     (case ab_snapshot b of None \<Rightarrow> False | Some s \<Rightarrow> h (JObj s) = sh)"

definition status_facts_ok :: "prepared_action \<Rightarrow> claim_binding \<Rightarrow> bool \<Rightarrow> bool" where
  "status_facts_ok a c require_running =
     (if pa_status a = RUNNING
      then execution_owner a = Some (cb_execution_owner c) \<and> row_version a = cb_row_version c \<and> finished_at a = None
      else if \<not> require_running \<and> pa_status a \<in> {SUCCEEDED, FAILED}
      then row_version a = cb_row_version c + 1 \<and> finished_at a \<noteq> None \<and> execution_lease a = None \<and>
           execution_owner a = (if pa_status a = SUCCEEDED then None else Some (cb_execution_owner c)) \<and>
           (if pa_status a = FAILED then (case error_code a of None \<Rightarrow> False | Some e \<Rightarrow> error_ok e)
            else error_code a = None)
      else False)"

definition check_action :: "(json \<Rightarrow> string) \<Rightarrow> prepared_action \<Rightarrow> claim_binding \<Rightarrow> tenant_ctx \<Rightarrow> bool \<Rightarrow> unit res" where
  "check_action h a c tc require_running =
     bindE (check_principal a tc) (\<lambda>_.
       guardE (cb_tenant c = tc_tenant tc \<and> cb_actor c = tc_actor tc \<and> claim_fields_match (frozen a) (action_id a) c \<and>
           is_protocol_owner (Some (cb_execution_owner c)) (cb_execute_tool_name c) \<and>
           frozen_hashes_ok h (frozen a) (cb_args_hash c) (cb_snapshot_hash c) \<and>
           approved_by a = Some (cb_actor c) \<and> approved_at a \<noteq> None \<and> status_facts_ok a c require_running)
         binding_invalid)"

definition log_bound :: "prepared_action \<Rightarrow> audit_log \<Rightarrow> bool" where
  "log_bound a l \<longleftrightarrow>
     log_tenant l = ab_tenant_id (frozen a) \<and> log_user l = ab_user_id (frozen a) \<and>
     log_conversation l = ab_conversation_id (frozen a) \<and> log_source_message l = Some (ab_source_message_id (frozen a)) \<and>
     al_trace l = ab_trace_id (frozen a) \<and> al_agent_code l = Some (ab_agent_code (frozen a)) \<and>
     al_tool_name l = ab_execute_tool_name (frozen a) \<and> log_tool_call_id l = ab_execute_tool_call_id (frozen a) \<and>
     al_confirmation_id l = Some (ab_confirmation_id (frozen a)) \<and> al_args_hash l = ab_args_hash (frozen a) \<and>
     al_execution_mode l = ''hitl'' \<and> al_approved_by l = approved_by a"

definition UNKNOWN_CODE :: string where "UNKNOWN_CODE = ''AI_EXECUTION_OUTCOME_UNKNOWN''"

definition require_unannotated :: "string option \<Rightarrow> unit res" where
  "require_unannotated summary = guardE (\<not> has_annotation summary) (BusinessRule UNKNOWN_CODE)"

definition log_times_ok :: "audit_log \<Rightarrow> string \<Rightarrow> bool" where
  "log_times_ok l expected =
     (if expected = ''pending_confirmation'' then al_started_at l = None \<and> al_finished_at l = None
      else if expected = ''running'' then al_started_at l \<noteq> None \<and> al_finished_at l = None
      else al_started_at l \<noteq> None \<and> al_finished_at l \<noteq> None)"

definition check_log :: "prepared_action \<Rightarrow> audit_log \<Rightarrow> string \<Rightarrow> unit res" where
  "check_log a l expected =
     bindE (require_unannotated (log_summary l)) (\<lambda>_.
       guardE (log_bound a l \<and> log_status l = expected \<and> \<not> log_readonly_snapshot l \<and>
           log_times_ok l expected \<and> log_error_code l = error_code a) binding_invalid)"


section \<open>Locks\<close>

definition tenant_conversation :: "run_db \<Rightarrow> int \<Rightarrow> int \<Rightarrow> conversation option" where
  "tenant_conversation db conv t = find (\<lambda>c. cv_tenant c = t \<and> cv_id c = conv) (rd_conversations db)"

definition tenant_message :: "run_db \<Rightarrow> int \<Rightarrow> int \<Rightarrow> run_message option" where
  "tenant_message db i t = find (\<lambda>m. ms_tenant m = t \<and> ms_id m = i) (rd_messages db)"

definition tenant_action :: "run_db \<Rightarrow> int \<Rightarrow> int \<Rightarrow> prepared_action option" where
  "tenant_action db i t = find (\<lambda>a. ab_tenant_id (frozen a) = t \<and> action_id a = i) (rd_actions db)"

definition call_log :: "run_db \<Rightarrow> string \<Rightarrow> int \<Rightarrow> audit_log option" where
  "call_log db c t = find (\<lambda>l. log_tenant l = t \<and> log_tool_call_id l = c) (rd_logs db)"

fun status_text :: "pstatus \<Rightarrow> string" where
  "status_text PREPARED = ''prepared''"
| "status_text PENDING_CONFIRMATION = ''pending_confirmation''"
| "status_text APPROVED_STATUS = ''approved''"
| "status_text RUNNING = ''running''"
| "status_text SUCCEEDED = ''succeeded''"
| "status_text FAILED = ''failed''"
| "status_text REJECTED_STATUS = ''rejected''"
| "status_text EXPIRED = ''expired''"

definition expected_log_status :: "pstatus \<Rightarrow> string" where
  "expected_log_status s = (if s = SUCCEEDED then ''success'' else status_text s)"

definition lock_action_log :: "run_db \<Rightarrow> prepared_action \<Rightarrow> tenant_ctx \<Rightarrow> string \<Rightarrow> audit_log res" where
  "lock_action_log db a tc expected =
     bindE (check_principal a tc) (\<lambda>_.
       case call_log db (ab_execute_tool_call_id (frozen a)) (tc_tenant tc) of
         None \<Rightarrow> Inl binding_invalid
       | Some l \<Rightarrow> bindE (check_log a l expected) (\<lambda>_. Inr l))"

text \<open>\<open>now\<close> is the database's clock when the locks are held.\<close>

definition lock_claim ::
    "(json \<Rightarrow> string) \<Rightarrow> int \<Rightarrow> run_db \<Rightarrow> claim_binding \<Rightarrow> tenant_ctx \<Rightarrow> bool \<Rightarrow> bool \<Rightarrow> locked_claim res" where
  "lock_claim h now db c tc require_active require_running =
     (if cb_tenant c \<noteq> tc_tenant tc \<or> cb_actor c \<noteq> tc_actor tc then Inl binding_invalid
      else (case (tenant_conversation db (cb_conversation_id c) (tc_tenant tc),
                  tenant_message db (cb_source_message_id c) (tc_tenant tc),
                  tenant_action db (cb_action_id c) (tc_tenant tc)) of
        (Some cv, Some m, Some a) \<Rightarrow>
          if cv_user cv \<noteq> cb_actor c \<or> ms_conversation m \<noteq> cb_conversation_id c \<or> ms_role m \<noteq> ''user'' \<or>
             rm_trace m \<noteq> Some (cb_trace_id c) \<or> require_active \<and> (cv_deleted_at cv \<noteq> None \<or> \<not> ms_active m)
          then Inl binding_invalid
          else bindE (check_action h a c tc require_running) (\<lambda>_.
               bindE (lock_action_log db a tc (expected_log_status (pa_status a))) (\<lambda>l.
               if log_id l \<noteq> cb_log_id c then Inl binding_invalid
               else if require_running \<and> (case execution_lease a of None \<Rightarrow> True | Some e \<Rightarrow> e \<le> now) then Inl binding_invalid
               else Inr \<lparr>lc_action = a, lc_log = l, lc_claim = c, lc_authorized = require_running \<and> require_active\<rparr>))
      | _ \<Rightarrow> Inl binding_invalid))"

section \<open>Accepting a completion\<close>

definition context_bound :: "prepared_action \<Rightarrow> tenant_ctx \<Rightarrow> conversation option \<Rightarrow> run_message option \<Rightarrow> bool" where
  "context_bound a tc cv m = (case (cv, m) of
       (Some c, Some s) \<Rightarrow>
         cv_tenant c = tc_tenant tc \<and> ms_tenant s = tc_tenant tc \<and> cv_id c = ab_conversation_id (frozen a) \<and>
         cv_user c = tc_actor tc \<and> ms_id s = ab_source_message_id (frozen a) \<and>
         ms_conversation s = ab_conversation_id (frozen a) \<and> rm_trace s = Some (ab_trace_id (frozen a)) \<and>
         ms_role s = ''user''
     | _ \<Rightarrow> False)"

definition terminal_complete :: "(json \<Rightarrow> string) \<Rightarrow> prepared_action \<Rightarrow> tenant_ctx \<Rightarrow> bool" where
  "terminal_complete h a tc \<longleftrightarrow> pa_status a \<in> {SUCCEEDED, FAILED} \<and> finished_at a \<noteq> None \<and>
     execution_lease a = None \<and> approved_by a = Some (tc_actor tc) \<and> approved_at a \<noteq> None \<and>
     ab_execute_tool_call_id (frozen a) \<noteq> [] \<and> ab_agent_code (frozen a) \<noteq> [] \<and> ab_trace_id (frozen a) \<noteq> [] \<and>
     0 < row_version a \<and> frozen_hashes_ok h (frozen a) (ab_args_hash (frozen a)) (ab_snapshot_hash (frozen a))"

definition validate_locked_terminal ::
    "(json \<Rightarrow> string) \<Rightarrow> prepared_action \<Rightarrow> audit_log \<Rightarrow> tenant_ctx \<Rightarrow> conversation option \<Rightarrow> run_message option \<Rightarrow> unit res" where
  "validate_locked_terminal h a l tc cv m =
     bindE (guardE (context_bound a tc cv m) binding_invalid) (\<lambda>_.
     bindE (check_principal a tc) (\<lambda>_.
     bindE (guardE (terminal_complete h a tc) binding_invalid) (\<lambda>_.
     bindE (guardE (if pa_status a = SUCCEEDED then execution_owner a = None \<and> error_code a = None
                    else is_protocol_owner (execution_owner a) (ab_execute_tool_name (frozen a)) \<and>
                         (case error_code a of None \<Rightarrow> False | Some e \<Rightarrow> error_ok e)) binding_invalid) (\<lambda>_.
     check_log a l (if pa_status a = SUCCEEDED then ''success'' else ''failed'')))))"

definition zero_or_none :: "int option \<Rightarrow> bool" where
  "zero_or_none x \<longleftrightarrow> x = None \<or> x = Some 0"

definition unexecuted_complete :: "(json \<Rightarrow> string) \<Rightarrow> prepared_action \<Rightarrow> audit_log \<Rightarrow> tenant_ctx \<Rightarrow> bool" where
  "unexecuted_complete h a l tc \<longleftrightarrow>
     ab_tenant_id (frozen a) = tc_tenant tc \<and> ab_user_id (frozen a) = tc_actor tc \<and>
     pa_status a \<in> {REJECTED_STATUS, EXPIRED} \<and> row_version a = 2 \<and> finished_at a \<noteq> None \<and>
     execution_owner a = None \<and> execution_lease a = None \<and> zero_or_none (duration_ms a) \<and>
     result_data a = JNull \<and> result_ui a = None \<and> ab_confirmation_id (frozen a) \<noteq> [] \<and>
     ab_execute_tool_call_id (frozen a) \<noteq> [] \<and> ab_trace_id (frozen a) \<noteq> [] \<and> ab_agent_code (frozen a) \<noteq> [] \<and>
     frozen_hashes_ok h (frozen a) (ab_args_hash (frozen a)) (ab_snapshot_hash (frozen a)) \<and>
     \<not> has_annotation (log_summary l) \<and> al_started_at l = None \<and> al_finished_at l \<noteq> None \<and>
     zero_or_none (al_duration_ms l) \<and> zero_or_none (al_hitl_wait_ms l)"

definition refusal_facts_ok :: "prepared_action \<Rightarrow> audit_log \<Rightarrow> bool" where
  "refusal_facts_ok a l =
     (if pa_status a = REJECTED_STATUS
      then approved_by a = Some (ab_user_id (frozen a)) \<and> approved_at a \<noteq> None \<and> error_code a = Some ''USER_REJECTED'' \<and>
           (log_error_code l = None \<or> log_error_code l = Some ''USER_REJECTED'')
      else approved_by a = None \<and> approved_at a = None \<and>
           (case error_code a of None \<Rightarrow> False | Some e \<Rightarrow> e \<noteq> []) \<and> log_error_code l = error_code a)"

definition validate_locked_unexecuted_terminal ::
    "(json \<Rightarrow> string) \<Rightarrow> prepared_action \<Rightarrow> audit_log option \<Rightarrow> tenant_ctx \<Rightarrow> conversation option \<Rightarrow> run_message option \<Rightarrow>
     unit res" where
  "validate_locked_unexecuted_terminal h a lo tc cv m = (case lo of
       None \<Rightarrow> Inl binding_invalid
     | Some l \<Rightarrow>
         guardE (context_bound a tc cv m \<and> unexecuted_complete h a l tc \<and>
             log_bound a l \<and> log_status l = status_text (pa_status a) \<and> refusal_facts_ok a l) binding_invalid)"

text \<open>\<open>_lock_terminal_context\<close>: the reference is read without locks in \<open>db0\<close>.\<close>

definition lock_terminal_context ::
    "run_db \<Rightarrow> run_db \<Rightarrow> string \<Rightarrow> tenant_ctx \<Rightarrow> (prepared_action \<times> conversation \<times> run_message) res" where
  "lock_terminal_context db0 db1 cid tc =
     (let t = tc_tenant tc in
      case find (\<lambda>a. ab_tenant_id (frozen a) = t \<and> ab_confirmation_id (frozen a) = cid \<and> ab_user_id (frozen a) = tc_actor tc)
             (rd_actions db0) of
        None \<Rightarrow> Inl binding_invalid
      | Some ref \<Rightarrow>
        (case (tenant_conversation db1 (ab_conversation_id (frozen ref)) t,
               tenant_message db1 (ab_source_message_id (frozen ref)) t,
               find (\<lambda>a. ab_tenant_id (frozen a) = t \<and> action_id a = action_id ref \<and> ab_confirmation_id (frozen a) = cid)
                 (rd_actions db1)) of
           (Some cv, Some m, Some a) \<Rightarrow>
             if ab_conversation_id (frozen a) \<noteq> ab_conversation_id (frozen ref) \<or>
                ab_source_message_id (frozen a) \<noteq> ab_source_message_id (frozen ref) \<or> cv_user cv \<noteq> tc_actor tc \<or>
                ms_conversation m \<noteq> ab_conversation_id (frozen a) \<or> rm_trace m \<noteq> Some (ab_trace_id (frozen a)) \<or>
                ms_role m \<noteq> ''user''
             then Inl binding_invalid else Inr (a, cv, m)
         | _ \<Rightarrow> Inl binding_invalid))"

definition lock_terminal ::
    "(json \<Rightarrow> string) \<Rightarrow> run_db \<Rightarrow> run_db \<Rightarrow> string \<Rightarrow> tenant_ctx \<Rightarrow> (prepared_action \<times> audit_log) res" where
  "lock_terminal h db0 db1 cid tc =
     bindE (lock_terminal_context db0 db1 cid tc) (\<lambda>(a, cv, m).
     bindE (lock_action_log db1 a tc (expected_log_status (pa_status a))) (\<lambda>l.
     bindE (validate_locked_terminal h a l tc (Some cv) (Some m)) (\<lambda>_. Inr (a, l))))"

definition lock_unexecuted_terminal ::
    "(json \<Rightarrow> string) \<Rightarrow> run_db \<Rightarrow> run_db \<Rightarrow> string \<Rightarrow> tenant_ctx \<Rightarrow> (prepared_action \<times> audit_log) res" where
  "lock_unexecuted_terminal h db0 db1 cid tc =
     bindE (lock_terminal_context db0 db1 cid tc) (\<lambda>(a, cv, m).
       case call_log db1 (ab_execute_tool_call_id (frozen a)) (tc_tenant tc) of
         None \<Rightarrow> Inl binding_invalid
       | Some l \<Rightarrow> bindE (validate_locked_unexecuted_terminal h a (Some l) tc (Some cv) (Some m)) (\<lambda>_. Inr (a, l)))"

section \<open>Audit summary of the targets\<close>

text \<open>\<open>build_target_summary\<close> of \<open>operation_log_service.py\<close> over canonical subjects.\<close>

definition target_ref_ok :: "string \<times> string \<Rightarrow> bool" where
  "target_ref_ok r = (case r of (ty, i) \<Rightarrow>
     (case ty of [] \<Rightarrow> False
      | c # s \<Rightarrow> CHR ''a'' \<le> c \<and> c \<le> CHR ''z'' \<and> length s \<le> 63 \<and>
          list_all (\<lambda>x. is_dec x \<or> CHR ''a'' \<le> x \<and> x \<le> CHR ''z'' \<or> x = CHR ''_'') s) \<and>
     (if ty = ''user_import_batch''
      then length i = 32 \<and> list_all (\<lambda>x. is_dec x \<or> CHR ''a'' \<le> x \<and> x \<le> CHR ''z'' \<or> CHR ''A'' \<le> x \<and> x \<le> CHR ''Z'' \<or>
             x = CHR ''_'' \<or> x = CHR ''-'') i
      else (case i of [] \<Rightarrow> False | c # s \<Rightarrow> is_dec c \<and> c \<noteq> CHR ''0'' \<and> list_all is_dec s)))"

definition target_key :: "string \<times> string \<Rightarrow> nat \<times> nat \<times> string \<times> string" where
  "target_key r = (if fst r = ''user_import_batch'' then (1, 0, fst r, snd r) else (0, parse_dec (snd r), fst r, []))"

definition target_text :: "string \<times> string \<Rightarrow> string" where
  "target_text r = [CHR ''{''] @ dump_str ''id'' @ '':'' @ dump_str (snd r) @ '','' @ dump_str ''type'' @ '':'' @
     dump_str (fst r) @ [CHR ''}'']"

definition build_target_summary :: "(string \<times> string) list \<Rightarrow> string option" where
  "build_target_summary refs =
     (if refs = [] \<or> \<not> list_all target_ref_ok refs then None
      else Some (''['' @ str_join '','' (map target_text (sort_key target_key (remdups refs))) @ '']''))"

section \<open>Completion\<close>

record tool_value =
  tv_ok :: bool
  tv_has_proposal :: bool
  tv_data :: json
  tv_ui :: "ui_result option"
  tv_projection :: "result_projection option"

text \<open>\<open>ChatDeps\<close>: the tenant context, the user and the agent a tool ran with.\<close>

record chat_deps =
  cd_tenant :: tenant_ctx
  cd_user_id :: int
  cd_user_tenant :: int
  cd_agent :: "string option"

primrec json_finite :: "json \<Rightarrow> bool" where
  "json_finite JNull = True"
| "json_finite (JBool b) = True"
| "json_finite (JInt i) = True"
| "json_finite (JFloat f) = (f \<noteq> FNonFinite)"
| "json_finite (JStr s) = True"
| "json_finite (JArr xs) = list_all id (map json_finite xs)"
| "json_finite (JObj d) = list_all (\<lambda>x. snd x) (map (map_prod id json_finite) d)"

definition check_completion :: "(json \<Rightarrow> string) \<Rightarrow> locked_claim \<Rightarrow> tenant_ctx \<Rightarrow> unit res" where
  "check_completion h lc tc =
     bindE (check_action h (lc_action lc) (lc_claim lc) tc True) (\<lambda>_.
     bindE (check_log (lc_action lc) (lc_log lc) ''running'') (\<lambda>_.
       guardE (log_id (lc_log lc) = cb_log_id (lc_claim lc)) binding_invalid))"

definition finish_matches :: "claim_binding \<Rightarrow> audit_log \<Rightarrow> bool" where
  "finish_matches c l \<longleftrightarrow> log_id l = cb_log_id c \<and> log_tenant l = cb_tenant c \<and> log_user l = cb_actor c \<and>
     log_conversation l = cb_conversation_id c \<and> log_source_message l = Some (cb_source_message_id c) \<and>
     al_trace l = cb_trace_id c \<and> al_agent_code l = Some (cb_agent_code c) \<and>
     log_tool_call_id l = cb_execute_tool_call_id c \<and> al_tool_name l = cb_execute_tool_name c \<and>
     al_args_hash l = cb_args_hash c \<and> al_confirmation_id l = Some (cb_confirmation_id c) \<and>
     al_approved_by l = Some (cb_actor c) \<and> \<not> log_readonly_snapshot l \<and> al_execution_mode l = ''hitl'' \<and>
     log_status l = ''running'' \<and> al_started_at l \<noteq> None \<and> al_finished_at l = None"

text \<open>\<open>wall\<close> is the worker's clock.\<close>

definition finished_log ::
    "int \<Rightarrow> int \<Rightarrow> int \<Rightarrow> string \<Rightarrow> string option \<Rightarrow> int \<Rightarrow> string option \<Rightarrow> audit_log \<Rightarrow> audit_log" where
  "finished_log wall queued started st err dur target l =
     (let l1 = l\<lparr>log_status := st, log_error_code := err, al_duration_ms := Some dur,
            al_finished_at := Some (max wall (max queued started)),
            log_summary := Some (if st = ''success'' then ''prepared action succeeded'' else ''prepared action rolled back'')\<rparr>
      in case target of None \<Rightarrow> l1 | Some s \<Rightarrow> l1\<lparr>al_target_summary := Some s\<rparr>)"

definition finish_log ::
    "int \<Rightarrow> run_db \<Rightarrow> locked_claim \<Rightarrow> string \<Rightarrow> string option \<Rightarrow> int \<Rightarrow> string option \<Rightarrow> run_db res" where
  "finish_log wall db lc st err dur target =
     (case al_started_at (lc_log lc) of
        None \<Rightarrow> Inl TypeError
      | Some started \<Rightarrow>
        if \<exists>l \<in> set (rd_logs db). finish_matches (lc_claim lc) l
        then Inr (db\<lparr>rd_logs := map (\<lambda>l. if finish_matches (lc_claim lc) l
               then finished_log wall (al_queued_at (lc_log lc)) started st err dur target l else l) (rd_logs db)\<rparr>)
        else Inl binding_invalid)"

definition finish_transition :: "claim_binding \<Rightarrow> transition" where
  "finish_transition c =
     \<lparr>tr_action_id = cb_action_id c, tr_expected_status = RUNNING, tr_expected_version = cb_row_version c,
      tr_target = FAILED, tr_approved_by = None, tr_error_code = None, tr_result_data = JNull, tr_result_ui = None,
      tr_duration_ms = None, tr_execution_owner = None, tr_expected_owner = Some (cb_execution_owner c),
      tr_retain_failed_owner = False, tr_lease = None, tr_lease_not_after = None, tr_lineage = None,
      tr_replace_lineage = False\<rparr>"

definition apply_transition :: "int \<Rightarrow> run_db \<Rightarrow> transition \<Rightarrow> int \<Rightarrow> (prepared_action \<times> run_db) res" where
  "apply_transition now db tr t =
     bindE (transition_status now (action_view db) tr t) (\<lambda>(r, adb). case r of
         None \<Rightarrow> Inl binding_invalid
       | Some a \<Rightarrow> Inr (a, db\<lparr>rd_actions := actions adb\<rparr>))"

definition result_lineage ::
    "access_env \<Rightarrow> tenant_row list \<Rightarrow> locked_claim \<Rightarrow> tool_value \<Rightarrow> tenant_ctx \<Rightarrow> (lineage option \<times> string option) res" where
  "result_lineage env tenants lc v tc = (case tv_projection v of
       None \<Rightarrow> Inr (None, None)
     | Some p \<Rightarrow>
       bindE (if rp_scope_bound p
              then bindE (load_live_user_authority (env_auth env) tenants tc) (\<lambda>u.
                   bindE (compute_data_scope_hash (env_hash env) (env_auth env) u (tc_tenant tc)) (\<lambda>hsh. Inr (Some hsh)))
              else Inr None) (\<lambda>scope_hash.
         let c = pa_projection (lc_action lc)
         in bindE (freeze_lineage (env_hash env) (tc_tenant tc) (cb_agent_code (lc_claim lc))
                (case pc_tool_codes c of Some (x # xs) \<Rightarrow> x # xs | _ \<Rightarrow> [cb_execute_tool_name (lc_claim lc)])
                (rp_subject_refs p) scope_hash DATA_SCOPE_RESOLVER_VERSION
                (case pc_dependency_ids c of None \<Rightarrow> [] | Some ds \<Rightarrow> ds)) (\<lambda>l.
           let s = build_target_summary (ln_subject_refs l)
           in if ln_subject_refs l \<noteq> [] \<and> s = None then Inl binding_invalid else Inr (Some l, s))))"

definition complete_success ::
    "access_env \<Rightarrow> tenant_row list \<Rightarrow> int \<Rightarrow> int \<Rightarrow> run_db \<Rightarrow> locked_claim \<Rightarrow> tool_value \<Rightarrow> chat_deps \<Rightarrow> int \<Rightarrow>
     tenant_ctx \<Rightarrow> (prepared_action \<times> run_db) res" where
  "complete_success env tenants now wall db lc v deps dur tc =
     bindE (check_completion (env_hash env) lc tc) (\<lambda>_.
       if \<not> lc_authorized lc \<or> \<not> tv_ok v \<or> tv_has_proposal v \<or> cd_tenant deps \<noteq> tc \<or> cd_user_id deps \<noteq> tc_actor tc \<or>
          cd_user_tenant deps \<noteq> tc_tenant tc \<or> cd_agent deps \<noteq> Some (cb_agent_code (lc_claim lc)) \<or> dur < 0
       then Inl binding_invalid
       else let ui = map_option ui_to_dict (tv_ui v)
         in bindE (guardE (json_finite (tv_data v) \<and> (case ui of None \<Rightarrow> True | Some u \<Rightarrow> json_finite u)) ValueError) (\<lambda>_.
            bindE (result_lineage env tenants lc v tc) (\<lambda>(lin, target).
            bindE (apply_transition now db ((finish_transition (lc_claim lc))\<lparr>tr_target := SUCCEEDED,
                       tr_result_data := tv_data v, tr_result_ui := ui, tr_duration_ms := Some dur, tr_lineage := lin,
                       tr_replace_lineage := True\<rparr>) (tc_tenant tc)) (\<lambda>(a, db1).
            bindE (finish_log wall db1 lc ''success'' None dur target) (\<lambda>db2. Inr (a, db2))))))"

definition complete_failed ::
    "(json \<Rightarrow> string) \<Rightarrow> int \<Rightarrow> int \<Rightarrow> run_db \<Rightarrow> locked_claim \<Rightarrow> string \<Rightarrow> int \<Rightarrow> tenant_ctx \<Rightarrow>
     (prepared_action \<times> run_db) res" where
  "complete_failed h now wall db lc err dur tc =
     bindE (check_completion h lc tc) (\<lambda>_.
       if cb_execute_tool_name (lc_claim lc) \<notin> DB_TOOLS \<or> \<not> error_ok err \<or> dur < 0 then Inl binding_invalid
       else bindE (apply_transition now db ((finish_transition (lc_claim lc))\<lparr>tr_retain_failed_owner := True,
                     tr_error_code := Some err, tr_duration_ms := Some dur\<rparr>) (tc_tenant tc)) (\<lambda>(a, db1).
            bindE (finish_log wall db1 lc ''failed'' (Some err) dur None) (\<lambda>db2. Inr (a, db2))))"

end
