(* ===== verification/Atomic_Facts.thy ===== *)
theory Atomic_Facts
  imports Atomic_Completion Prepared_Props
begin

text \<open>
  What the locks and checks of an execution claim establish, and what a completion writes: exactly
  the claimed action and its log, which the restart checks then accept.
\<close>

section \<open>Keys of the tables\<close>

text \<open>The primary keys and the unique constraints of the two tables.\<close>

definition run_tables_ok :: "run_db \<Rightarrow> bool" where
  "run_tables_ok db \<longleftrightarrow> distinct (map action_id (rd_actions db)) \<and>
     distinct (map confirmation_key (rd_actions db)) \<and> distinct (map log_id (rd_logs db)) \<and>
     distinct (map (\<lambda>l. (log_tenant l, log_tool_call_id l)) (rd_logs db))"

lemma key_unique: "distinct (map f xs) \<Longrightarrow> x \<in> set xs \<Longrightarrow> y \<in> set xs \<Longrightarrow> f x = f y \<Longrightarrow> x = y"
  by (auto simp: distinct_map inj_on_def)

lemma find_only: "x \<in> set xs \<Longrightarrow> P x \<Longrightarrow> (\<And>y. y \<in> set xs \<Longrightarrow> P y \<Longrightarrow> y = x) \<Longrightarrow> find P xs = Some x"
proof (induction xs)
  case (Cons z xs)
  show ?case
  proof (cases "P z")
    case True
    then have "z = x" by (intro Cons.prems(3)) simp_all
    then show ?thesis using True by simp
  next
    case False
    then have "x \<in> set xs" using Cons.prems(1,2) by (metis set_ConsD)
    moreover have "y = x" if "y \<in> set xs" "P y" for y by (rule Cons.prems(3)) (simp_all add: that)
    ultimately have "find P xs = Some x" by (rule Cons.IH[OF _ Cons.prems(2)])
    then show ?thesis using False by simp
  qed
qed simp

lemma find_hit: "find P xs = Some x \<Longrightarrow> x \<in> set xs \<and> P x"
  by (auto simp: find_Some_iff)

section \<open>A locked claim\<close>

definition claim_context :: "run_db \<Rightarrow> claim_binding \<Rightarrow> conversation \<Rightarrow> run_message \<Rightarrow> bool \<Rightarrow> bool" where
  "claim_context db c cv m act \<longleftrightarrow>
     tenant_conversation db (cb_conversation_id c) (cb_tenant c) = Some cv \<and>
     tenant_message db (cb_source_message_id c) (cb_tenant c) = Some m \<and>
     cv_user cv = cb_actor c \<and> ms_conversation m = cb_conversation_id c \<and> ms_role m = ''user'' \<and>
     rm_trace m = Some (cb_trace_id c) \<and> (act \<longrightarrow> cv_deleted_at cv = None \<and> ms_active m)"

lemma lock_claimE:
  assumes "lock_claim h now db c tc act True = Inr lc"
  obtains cv m where "lc_claim lc = c" "cb_tenant c = tc_tenant tc" "cb_actor c = tc_actor tc" "claim_context db c cv m act"
    "tenant_action db (cb_action_id c) (cb_tenant c) = Some (lc_action lc)"
    "check_action h (lc_action lc) c tc True = Inr ()"
    "call_log db (ab_execute_tool_call_id (frozen (lc_action lc))) (cb_tenant c) = Some (lc_log lc)"
    "check_log (lc_action lc) (lc_log lc) ''running'' = Inr ()" "log_id (lc_log lc) = cb_log_id c"
    "\<exists>e. execution_lease (lc_action lc) = Some e \<and> now < e" "lc_authorized lc = act"
proof -
  have t: "cb_tenant c = tc_tenant tc" "cb_actor c = tc_actor tc"
    using assms by (auto simp: lock_claim_def split: if_splits)
  then obtain cv m a where o: "tenant_conversation db (cb_conversation_id c) (cb_tenant c) = Some cv"
      "tenant_message db (cb_source_message_id c) (cb_tenant c) = Some m"
      "tenant_action db (cb_action_id c) (cb_tenant c) = Some a"
    using assms by (auto simp: lock_claim_def split: option.splits)
  then have ctx: "claim_context db c cv m act"
    using assms t by (auto simp: lock_claim_def claim_context_def split: if_splits)
  obtain l where l: "check_action h a c tc True = Inr ()"
      "lock_action_log db a tc (expected_log_status (pa_status a)) = Inr l" "log_id l = cb_log_id c"
      "\<exists>e. execution_lease a = Some e \<and> now < e"
      "lc = \<lparr>lc_action = a, lc_log = l, lc_claim = c, lc_authorized = act\<rparr>"
    using assms t o by (auto simp: lock_claim_def bindE_eq_Inr split: if_splits option.splits)
  have st: "pa_status a = RUNNING"
    using l(1) by (auto simp: check_action_def status_facts_ok_def bindE_eq_Inr split: if_splits)
  have "call_log db (ab_execute_tool_call_id (frozen a)) (cb_tenant c) = Some l" "check_log a l ''running'' = Inr ()"
    using l(2) t(1) by (auto simp: lock_action_log_def bindE_eq_Inr expected_log_status_def st split: option.splits)
  then show ?thesis using that[of cv m] t ctx o(3) l by simp
qed

lemma check_actionD:
  assumes "check_action h a c tc True = Inr ()"
  shows "check_principal a tc = Inr ()" "claim_fields_match (frozen a) (action_id a) c"
    "is_protocol_owner (Some (cb_execution_owner c)) (cb_execute_tool_name c)"
    "frozen_hashes_ok h (frozen a) (cb_args_hash c) (cb_snapshot_hash c)"
    "approved_by a = Some (cb_actor c)" "approved_at a \<noteq> None" "pa_status a = RUNNING"
    "execution_owner a = Some (cb_execution_owner c)" "row_version a = cb_row_version c" "finished_at a = None"
    "ab_tenant_id (frozen a) = cb_tenant c" "cb_tenant c = tc_tenant tc" "cb_actor c = tc_actor tc"
    "ab_user_id (frozen a) = cb_actor c"
  using assms by (auto simp: check_action_def check_principal_def bindE_eq_Inr status_facts_ok_def
      claim_fields_match_def split: if_splits)

lemma check_logD:
  assumes "check_log a l expected = Inr ()"
  shows "\<not> has_annotation (log_summary l)" "log_bound a l" "log_status l = expected" "\<not> log_readonly_snapshot l"
    "log_times_ok l expected" "log_error_code l = error_code a"
  using assms by (auto simp: check_log_def require_unannotated_def bindE_eq_Inr)

lemma claim_issued:
  assumes "claim_from_action a0 lid = Inr c"
  shows "0 < cb_row_version c" "cb_execute_tool_call_id c \<noteq> []" "cb_trace_id c \<noteq> []" "cb_agent_code c \<noteq> []"
  using assms by (auto simp: claim_from_action_def Let_def split: option.splits if_splits)

section \<open>What a completion writes\<close>

lemma fresh_summary [simp]: "\<not> has_annotation (Some ''prepared action succeeded'')"
  "\<not> has_annotation (Some ''prepared action rolled back'')"
  by (simp_all add: has_annotation_def RECONCILIATION_MARKER_def)

lemma finished_log_frame [simp]:
  "log_id (finished_log w q s st err d tg l) = log_id l" "log_tenant (finished_log w q s st err d tg l) = log_tenant l"
  "log_tool_call_id (finished_log w q s st err d tg l) = log_tool_call_id l"
  "log_bound a (finished_log w q s st err d tg l) = log_bound a l"
  "log_readonly_snapshot (finished_log w q s st err d tg l) = log_readonly_snapshot l"
  "log_status (finished_log w q s st err d tg l) = st" "log_error_code (finished_log w q s st err d tg l) = err"
  "al_started_at (finished_log w q s st err d tg l) = al_started_at l"
  "al_duration_ms (finished_log w q s st err d tg l) = Some d"
  "al_finished_at (finished_log w q s st err d tg l) \<noteq> None"
  "\<not> has_annotation (log_summary (finished_log w q s st err d tg l))"
  by (auto simp: finished_log_def Let_def log_bound_def split: option.splits)

definition completed :: "run_db \<Rightarrow> locked_claim \<Rightarrow> prepared_action \<Rightarrow> audit_log \<Rightarrow> run_db" where
  "completed db lc a l =
     db\<lparr>rd_actions := map (\<lambda>x. if action_id x = action_id (lc_action lc) then a else x) (rd_actions db),
       rd_logs := map (\<lambda>x. if log_id x = log_id (lc_log lc) then l else x) (rd_logs db)\<rparr>"

text \<open>The rows a claim has locked.\<close>

definition claim_rows :: "run_db \<Rightarrow> locked_claim \<Rightarrow> bool" where
  "claim_rows db lc \<longleftrightarrow> lc_action lc \<in> set (rd_actions db) \<and> lc_log lc \<in> set (rd_logs db) \<and>
     action_id (lc_action lc) = cb_action_id (lc_claim lc) \<and> log_id (lc_log lc) = cb_log_id (lc_claim lc)"

lemma lock_claim_rows:
  assumes "lock_claim h now db c tc act True = Inr lc"
  shows "claim_rows db lc" "lc_claim lc = c"
proof -
  from assms obtain cv m where k: "lc_claim lc = c"
      "tenant_action db (cb_action_id c) (cb_tenant c) = Some (lc_action lc)"
      "call_log db (ab_execute_tool_call_id (frozen (lc_action lc))) (cb_tenant c) = Some (lc_log lc)"
      "log_id (lc_log lc) = cb_log_id c"
    by (rule lock_claimE)
  show "lc_claim lc = c" by (rule k(1))
  show "claim_rows db lc"
    using k(1,4) find_hit[OF k(2)[unfolded tenant_action_def]] find_hit[OF k(3)[unfolded call_log_def]]
    by (simp add: claim_rows_def)
qed

lemma finish_transition_simps [simp]:
  "tr_action_id (finish_transition c) = cb_action_id c" "tr_expected_status (finish_transition c) = RUNNING"
  "tr_expected_version (finish_transition c) = cb_row_version c"
  "tr_expected_owner (finish_transition c) = Some (cb_execution_owner c)" "tr_lease_not_after (finish_transition c) = None"
  "tr_target (finish_transition c) = FAILED" "tr_retain_failed_owner (finish_transition c) = False"
  "tr_error_code (finish_transition c) = None" "tr_execution_owner (finish_transition c) = None"
  "tr_lineage (finish_transition c) = None"
  by (simp_all add: finish_transition_def)

lemma apply_transition_hit:
  assumes ok: "run_tables_ok db" and rows: "claim_rows db lc" and id: "tr_action_id tr = cb_action_id (lc_claim lc)"
    and tr: "apply_transition now db tr t = Inr (a, db1)"
  shows "a = transition_values now tr (lc_action lc)"
    "db1 = db\<lparr>rd_actions := map (\<lambda>x. if action_id x = action_id (lc_action lc) then a else x) (rd_actions db)\<rparr>"
proof -
  let ?m = "transition_matches (action_view db) tr t"
  obtain b where b: "find ?m (rd_actions db) = Some b" "a = transition_values now tr b"
      "db1 = db\<lparr>rd_actions := map (\<lambda>a. if ?m a then transition_values now tr a else a) (rd_actions db)\<rparr>"
    using tr by (auto simp: apply_transition_def bindE_eq_Inr transition_Inr action_view_def split: option.splits)
  have only: "x = lc_action lc" if "x \<in> set (rd_actions db)" "action_id x = cb_action_id (lc_claim lc)" for x
    using ok rows that by (intro key_unique[where f = action_id]) (auto simp: run_tables_ok_def claim_rows_def)
  have hit: "x = lc_action lc" if "?m x" "x \<in> set (rd_actions db)" for x
    using that id by (intro only) (auto simp: transition_matches_def)
  have eq: "b = lc_action lc" "?m (lc_action lc)" using find_hit[OF b(1)] hit[of b] by auto
  then show a: "a = transition_values now tr (lc_action lc)" using b(2) by simp
  have "(if ?m x then transition_values now tr x else x) = (if action_id x = action_id (lc_action lc) then a else x)"
    if "x \<in> set (rd_actions db)" for x
  proof (cases "x = lc_action lc")
    case False
    then have "\<not> ?m x" "action_id x \<noteq> action_id (lc_action lc)"
      using hit[OF _ that] only[OF that] rows by (auto simp: claim_rows_def)
    then show ?thesis by simp
  qed (use eq a in simp)
  then show "db1 = db\<lparr>rd_actions := map (\<lambda>x. if action_id x = action_id (lc_action lc) then a else x) (rd_actions db)\<rparr>"
    unfolding b(3) by (intro arg_cong[where f = "\<lambda>r. db\<lparr>rd_actions := r\<rparr>"] map_cong) simp_all
qed

lemma finish_log_hit:
  assumes ok: "run_tables_ok db" and rows: "claim_rows db lc" and logs: "rd_logs db1 = rd_logs db"
    and fin: "finish_log wall db1 lc st err dur tg = Inr db2"
  obtains started where "al_started_at (lc_log lc) = Some started"
    "db2 = db1\<lparr>rd_logs := map (\<lambda>x. if log_id x = log_id (lc_log lc)
       then finished_log wall (al_queued_at (lc_log lc)) started st err dur tg (lc_log lc) else x) (rd_logs db)\<rparr>"
proof -
  let ?m = "finish_matches (lc_claim lc)"
  obtain started where s: "al_started_at (lc_log lc) = Some started" "\<exists>l \<in> set (rd_logs db). ?m l"
      "db2 = db1\<lparr>rd_logs := map (\<lambda>l. if ?m l then finished_log wall (al_queued_at (lc_log lc)) started st err dur tg l
         else l) (rd_logs db)\<rparr>"
    using fin logs by (auto simp: finish_log_def split: option.splits if_splits)
  have only: "x = lc_log lc" if "x \<in> set (rd_logs db)" "log_id x = cb_log_id (lc_claim lc)" for x
    using ok rows that by (intro key_unique[where f = log_id]) (auto simp: run_tables_ok_def claim_rows_def)
  have hit: "x = lc_log lc" if "?m x" "x \<in> set (rd_logs db)" for x
    using that by (intro only) (auto simp: finish_matches_def)
  have m: "?m (lc_log lc)" using s(2) hit by auto
  have "(if ?m x then finished_log wall (al_queued_at (lc_log lc)) started st err dur tg x else x) =
      (if log_id x = log_id (lc_log lc) then finished_log wall (al_queued_at (lc_log lc)) started st err dur tg (lc_log lc)
       else x)" if "x \<in> set (rd_logs db)" for x
  proof (cases "x = lc_log lc")
    case False
    then have "\<not> ?m x" "log_id x \<noteq> log_id (lc_log lc)"
      using hit[OF _ that] only[OF that] rows by (auto simp: claim_rows_def)
    then show ?thesis by simp
  qed (use m in simp)
  then have "db2 = db1\<lparr>rd_logs := map (\<lambda>x. if log_id x = log_id (lc_log lc)
       then finished_log wall (al_queued_at (lc_log lc)) started st err dur tg (lc_log lc) else x) (rd_logs db)\<rparr>"
    unfolding s(3) by (intro arg_cong[where f = "\<lambda>r. db1\<lparr>rd_logs := r\<rparr>"] map_cong) simp_all
  then show ?thesis by (rule that[OF s(1)])
qed

section \<open>Reading a completion back\<close>

lemma completed_action_found:
  assumes ok: "run_tables_ok db" and rows: "claim_rows db lc"
    and same: "frozen a = frozen (lc_action lc)" "action_id a = action_id (lc_action lc)"
    and P: "P a" "\<And>x. P x \<Longrightarrow> confirmation_key x = confirmation_key a"
  shows "find P (rd_actions (completed db lc a l)) = Some a"
proof (rule find_only)
  show "a \<in> set (rd_actions (completed db lc a l))" using rows by (force simp: completed_def claim_rows_def)
next
  fix y assume y: "y \<in> set (rd_actions (completed db lc a l))" "P y"
  have key: "confirmation_key a = confirmation_key (lc_action lc)" using same by (simp add: confirmation_key_def)
  from y(1) consider "y = a" | "y \<in> set (rd_actions db)" "action_id y \<noteq> action_id (lc_action lc)"
    by (auto simp: completed_def split: if_splits)
  then show "y = a"
  proof cases
    case 2
    have "y = lc_action lc"
      using ok rows P(2)[OF y(2)] key 2(1)
      by (intro key_unique[where f = confirmation_key]) (auto simp: run_tables_ok_def claim_rows_def)
    with 2(2) show ?thesis by simp
  qed
qed (rule P(1))

lemma completed_log_found:
  assumes ok: "run_tables_ok db" and rows: "claim_rows db lc"
    and same: "log_tenant l = log_tenant (lc_log lc)" "log_tool_call_id l = log_tool_call_id (lc_log lc)"
  shows "call_log (completed db lc a l) (log_tool_call_id l) (log_tenant l) = Some l"
  unfolding call_log_def
proof (rule find_only)
  show "l \<in> set (rd_logs (completed db lc a l))" using rows by (force simp: completed_def claim_rows_def)
next
  fix y assume y: "y \<in> set (rd_logs (completed db lc a l))" "log_tenant y = log_tenant l \<and> log_tool_call_id y = log_tool_call_id l"
  from y(1) consider "y = l" | "y \<in> set (rd_logs db)" "log_id y \<noteq> log_id (lc_log lc)"
    by (auto simp: completed_def split: if_splits)
  then show "y = l"
  proof cases
    case 2
    have "y = lc_log lc"
      using ok rows y(2) same 2(1)
      by (intro key_unique[where f = "\<lambda>l. (log_tenant l, log_tool_call_id l)"]) (auto simp: run_tables_ok_def claim_rows_def)
    with 2(2) show ?thesis by simp
  qed
qed simp

lemma completed_reads [simp]:
  "tenant_conversation (completed db lc a l) i t = tenant_conversation db i t"
  "tenant_message (completed db lc a l) i t = tenant_message db i t"
  by (simp_all add: completed_def tenant_conversation_def tenant_message_def)

text \<open>\<open>completes\<close>: what a completion keeps and sets in the two rows.\<close>

definition completes :: "locked_claim \<Rightarrow> prepared_action \<Rightarrow> audit_log \<Rightarrow> bool" where
  "completes lc a l \<longleftrightarrow>
     frozen a = frozen (lc_action lc) \<and> action_id a = action_id (lc_action lc) \<and>
     approved_by a = approved_by (lc_action lc) \<and> approved_at a = approved_at (lc_action lc) \<and>
     finished_at a \<noteq> None \<and> execution_lease a = None \<and> row_version a = cb_row_version (lc_claim lc) + 1 \<and>
     (pa_status a = SUCCEEDED \<and> execution_owner a = None \<and> error_code a = None \<or>
      pa_status a = FAILED \<and> execution_owner a = Some (cb_execution_owner (lc_claim lc)) \<and>
        (case error_code a of None \<Rightarrow> False | Some e \<Rightarrow> error_ok e)) \<and>
     log_id l = log_id (lc_log lc) \<and> log_tenant l = log_tenant (lc_log lc) \<and> log_tool_call_id l = log_tool_call_id (lc_log lc) \<and>
     log_bound a l \<and> \<not> log_readonly_snapshot l \<and> \<not> has_annotation (log_summary l) \<and>
     al_started_at l \<noteq> None \<and> al_finished_at l \<noteq> None \<and> log_error_code l = error_code a \<and>
     log_status l = expected_log_status (pa_status a)"

lemma completion_reads_back:
  assumes ok: "run_tables_ok db" and lock: "lock_claim h now db c tc act True = Inr lc"
    and issued: "claim_from_action a0 lid = Inr c" and fin: "completes lc a l"
  shows "lock_terminal h (completed db lc a l) (completed db lc a l) (cb_confirmation_id c) tc = Inr (a, l)"
proof -
  let ?db = "completed db lc a l"
  from lock obtain cv m where k: "lc_claim lc = c" "cb_tenant c = tc_tenant tc" "cb_actor c = tc_actor tc"
      "claim_context db c cv m act" "check_action h (lc_action lc) c tc True = Inr ()"
    by (rule lock_claimE)
  note chk = check_actionD[OF k(5)] and rows = lock_claim_rows(1)[OF lock] and new = claim_issued[OF issued]
  have fz: "frozen a = frozen (lc_action lc)" "action_id a = cb_action_id c"
    using fin rows k(1) by (simp_all add: completes_def claim_rows_def)
  have b: "ab_tenant_id (frozen a) = tc_tenant tc" "ab_user_id (frozen a) = tc_actor tc"
      "ab_confirmation_id (frozen a) = cb_confirmation_id c" "ab_conversation_id (frozen a) = cb_conversation_id c"
      "ab_source_message_id (frozen a) = cb_source_message_id c" "ab_trace_id (frozen a) = cb_trace_id c"
      "ab_execute_tool_call_id (frozen a) = cb_execute_tool_call_id c" "ab_agent_code (frozen a) = cb_agent_code c"
      "ab_execute_tool_name (frozen a) = cb_execute_tool_name c"
      "ab_args_hash (frozen a) = cb_args_hash c" "ab_snapshot_hash (frozen a) = cb_snapshot_hash c"
    using chk k(2,3) by (auto simp: fz claim_fields_match_def)
  have same: "frozen a = frozen (lc_action lc)" "action_id a = action_id (lc_action lc)"
    using fin by (simp_all add: completes_def)
  have found: "find P (rd_actions ?db) = Some a" if "P a" "\<And>x. P x \<Longrightarrow> confirmation_key x = confirmation_key a" for P
    using completed_action_found[OF ok rows same, where P = P] that by blast
  have refs: "find (\<lambda>a. ab_tenant_id (frozen a) = tc_tenant tc \<and> ab_confirmation_id (frozen a) = cb_confirmation_id c \<and>
         ab_user_id (frozen a) = tc_actor tc) (rd_actions ?db) = Some a"
      "find (\<lambda>x. ab_tenant_id (frozen x) = tc_tenant tc \<and> action_id x = action_id a \<and>
         ab_confirmation_id (frozen x) = cb_confirmation_id c) (rd_actions ?db) = Some a"
    by (rule found; simp add: confirmation_key_def b)+
  have ctx: "lock_terminal_context ?db ?db (cb_confirmation_id c) tc = Inr (a, cv, m)"
    using k(4) refs by (simp add: lock_terminal_context_def claim_context_def b k(2,3))
  have lg: "log_tool_call_id l = cb_execute_tool_call_id c" "log_tenant l = tc_tenant tc"
    using fin b by (auto simp: completes_def log_bound_def)
  have "call_log ?db (log_tool_call_id l) (log_tenant l) = Some l"
    using fin by (intro completed_log_found[OF ok rows]) (simp_all add: completes_def)
  then have clog: "call_log ?db (cb_execute_tool_call_id c) (tc_tenant tc) = Some l" by (simp add: lg)
  have chl: "check_log a l (expected_log_status (pa_status a)) = Inr ()"
    using fin by (auto simp: completes_def check_log_def require_unannotated_def bindE_eq_Inr log_times_ok_def
        expected_log_status_def)
  have cb: "context_bound a tc (Some cv) (Some m)"
    using k(4) find_hit[of _ "rd_conversations db" cv] find_hit[of _ "rd_messages db" m]
    by (auto simp: context_bound_def claim_context_def tenant_conversation_def tenant_message_def b k(2,3))
  have st: "approved_by a = approved_by (lc_action lc)" "approved_at a = approved_at (lc_action lc)" "finished_at a \<noteq> None"
      "execution_lease a = None" "row_version a = cb_row_version c + 1"
      "pa_status a = SUCCEEDED \<and> execution_owner a = None \<and> error_code a = None \<or>
       pa_status a = FAILED \<and> execution_owner a = Some (cb_execution_owner c) \<and>
         (case error_code a of None \<Rightarrow> False | Some e \<Rightarrow> error_ok e)"
    using fin k(1) unfolding completes_def by blast+
  have "frozen_hashes_ok h (frozen a) (cb_args_hash c) (cb_snapshot_hash c)" using chk(4) fz(1) by simp
  then have tcm: "terminal_complete h a tc"
    using st chk(5,6) new k(3) unfolding terminal_complete_def b by auto
  have "validate_locked_terminal h a l tc (Some cv) (Some m) = Inr ()"
    using st(6) chk(3) chl cb tcm
    by (auto simp: validate_locked_terminal_def check_principal_def b bindE_eq_Inr expected_log_status_def)
  then show ?thesis
    using ctx clog chl by (simp add: lock_terminal_def lock_action_log_def check_principal_def b)
qed

section \<open>The two completions\<close>

lemma check_completion_locked:
  assumes "lock_claim h now db c tc act True = Inr lc"
  shows "check_completion h lc tc = Inr ()"
proof -
  from assms have "lc_claim lc = c" "check_action h (lc_action lc) c tc True = Inr ()"
      "check_log (lc_action lc) (lc_log lc) ''running'' = Inr ()" "log_id (lc_log lc) = cb_log_id c"
    by (rule lock_claimE; blast)+
  then show ?thesis by (simp add: check_completion_def)
qed

lemma locked_log_bound:
  assumes "lock_claim h now db c tc act True = Inr lc"
  shows "log_bound (lc_action lc) (lc_log lc)" "\<not> log_readonly_snapshot (lc_log lc)" "log_status (lc_log lc) = ''running''"
    "al_started_at (lc_log lc) \<noteq> None" "al_finished_at (lc_log lc) = None"
proof -
  from assms have "check_log (lc_action lc) (lc_log lc) ''running'' = Inr ()" by (rule lock_claimE)
  from check_logD[OF this] show "log_bound (lc_action lc) (lc_log lc)" "\<not> log_readonly_snapshot (lc_log lc)"
      "log_status (lc_log lc) = ''running''" "al_started_at (lc_log lc) \<noteq> None" "al_finished_at (lc_log lc) = None"
    by (simp_all add: log_times_ok_def)
qed

lemma log_bound_cong: "frozen a = frozen b \<Longrightarrow> approved_by a = approved_by b \<Longrightarrow> log_bound a l = log_bound b l"
  by (simp add: log_bound_def)

lemma completes_finished:
  assumes lock: "lock_claim h now db c tc act True = Inr lc"
    and a: "frozen a = frozen (lc_action lc)" "action_id a = action_id (lc_action lc)"
      "approved_by a = approved_by (lc_action lc)" "approved_at a = approved_at (lc_action lc)"
      "finished_at a \<noteq> None" "execution_lease a = None" "row_version a = cb_row_version c + 1"
    and out: "pa_status a = SUCCEEDED \<and> execution_owner a = None \<and> error_code a = None \<or>
      pa_status a = FAILED \<and> execution_owner a = Some (cb_execution_owner c) \<and>
        (case error_code a of None \<Rightarrow> False | Some e \<Rightarrow> error_ok e)"
  shows "completes lc a (finished_log w q s (expected_log_status (pa_status a)) (error_code a) d tg (lc_log lc))"
  using a out locked_log_bound[OF lock] lock_claim_rows(2)[OF lock] log_bound_cong[OF a(1,3)]
  unfolding completes_def by simp

lemma completed_step:
  assumes ok: "run_tables_ok db" and lock: "lock_claim h now db c tc act True = Inr lc"
    and tr: "tr_action_id tr = cb_action_id c"
    and app: "apply_transition now' db tr t = Inr (a, db1)"
    and fin: "finish_log wall db1 lc st err dur tg = Inr db'"
  obtains s where "a = transition_values now' tr (lc_action lc)"
    "db' = completed db lc a (finished_log wall (al_queued_at (lc_log lc)) s st err dur tg (lc_log lc))"
proof -
  note rows = lock_claim_rows[OF lock]
  note hit = apply_transition_hit[OF ok rows(1) _ app, unfolded rows(2), OF tr]
  have "rd_logs db1 = rd_logs db" unfolding hit(2) by simp
  from finish_log_hit[OF ok rows(1) this fin] obtain s where
    "db' = db1\<lparr>rd_logs := map (\<lambda>x. if log_id x = log_id (lc_log lc)
       then finished_log wall (al_queued_at (lc_log lc)) s st err dur tg (lc_log lc) else x) (rd_logs db)\<rparr>" by blast
  then show ?thesis using that hit unfolding completed_def by simp
qed

lemma complete_successE:
  assumes ok: "run_tables_ok db" and lock: "lock_claim (env_hash env) now db c tc act True = Inr lc"
    and run: "complete_success env tenants now' wall db lc v deps dur tc = Inr (a, db')"
  obtains l where "db' = completed db lc a l" "completes lc a l" "pa_status a = SUCCEEDED" "result_data a = tv_data v"
    "result_ui a = map_option ui_to_dict (tv_ui v)" "act" "tv_ok v"
proof -
  let ?tr = "\<lambda>lin. (finish_transition c)\<lparr>tr_target := SUCCEEDED, tr_result_data := tv_data v,
      tr_result_ui := map_option ui_to_dict (tv_ui v), tr_duration_ms := Some dur, tr_lineage := lin,
      tr_replace_lineage := True\<rparr>"
  have auth: "lc_claim lc = c" "lc_authorized lc = act" using lock by (rule lock_claimE; blast)+
  from run obtain lin tg db1 where r: "lc_authorized lc" "tv_ok v" "apply_transition now' db (?tr lin) (tc_tenant tc) = Inr (a, db1)"
      "finish_log wall db1 lc ''success'' None dur tg = Inr db'"
    unfolding complete_success_def auth(1) Let_def
    by (auto simp: bindE_eq_Inr split: if_splits prod.splits)
  obtain s where s: "a = transition_values now' (?tr lin) (lc_action lc)"
      "db' = completed db lc a (finished_log wall (al_queued_at (lc_log lc)) s ''success'' None dur tg (lc_log lc))"
    by (rule completed_step[OF ok lock _ r(3,4)]) simp_all
  have f: "pa_status a = SUCCEEDED" "error_code a = None" "execution_owner a = None" "frozen a = frozen (lc_action lc)"
      "action_id a = action_id (lc_action lc)" "approved_by a = approved_by (lc_action lc)"
      "approved_at a = approved_at (lc_action lc)" "finished_at a \<noteq> None" "execution_lease a = None"
      "row_version a = cb_row_version c + 1" "result_data a = tv_data v" "result_ui a = map_option ui_to_dict (tv_ui v)"
    unfolding s(1) by (simp_all add: transition_values_def Let_def finish_transition_def)
  have "completes lc a (finished_log wall (al_queued_at (lc_log lc)) s ''success'' None dur tg (lc_log lc))"
    using completes_finished[OF lock f(4-10), of wall "al_queued_at (lc_log lc)" s dur tg] f(1-3) by (simp add: expected_log_status_def)
  then show ?thesis using that[OF s(2)] f r(1,2) auth(2) by simp
qed

lemma complete_failedE:
  assumes ok: "run_tables_ok db" and lock: "lock_claim h now db c tc act True = Inr lc"
    and run: "complete_failed h now' wall db lc err dur tc = Inr (a, db')"
  obtains l where "db' = completed db lc a l" "completes lc a l" "pa_status a = FAILED" "error_code a = Some err"
    "cb_execute_tool_name c \<in> DB_TOOLS"
proof -
  let ?tr = "(finish_transition c)\<lparr>tr_retain_failed_owner := True, tr_error_code := Some err, tr_duration_ms := Some dur\<rparr>"
  have k: "lc_claim lc = c" using lock by (rule lock_claimE)
  from run obtain db1 where r: "cb_execute_tool_name c \<in> DB_TOOLS" "error_ok err"
      "apply_transition now' db ?tr (tc_tenant tc) = Inr (a, db1)"
      "finish_log wall db1 lc ''failed'' (Some err) dur None = Inr db'"
    unfolding complete_failed_def k by (auto simp: bindE_eq_Inr split: if_splits prod.splits)
  obtain s where s: "a = transition_values now' ?tr (lc_action lc)"
      "db' = completed db lc a (finished_log wall (al_queued_at (lc_log lc)) s ''failed'' (Some err) dur None (lc_log lc))"
    by (rule completed_step[OF ok lock _ r(3,4)]) simp_all
  have f: "pa_status a = FAILED" "error_code a = Some err" "execution_owner a = Some (cb_execution_owner c)"
      "frozen a = frozen (lc_action lc)" "action_id a = action_id (lc_action lc)" "approved_by a = approved_by (lc_action lc)"
      "approved_at a = approved_at (lc_action lc)" "finished_at a \<noteq> None" "execution_lease a = None"
      "row_version a = cb_row_version c + 1"
    unfolding s(1) by (simp_all add: transition_values_def Let_def finish_transition_def)
  have "completes lc a (finished_log wall (al_queued_at (lc_log lc)) s ''failed'' (Some err) dur None (lc_log lc))"
    using completes_finished[OF lock f(4-10), of wall "al_queued_at (lc_log lc)" s dur None] f(1-3) r(2)
    by (simp add: expected_log_status_def)
  then show ?thesis using that[OF s(2)] f r(1) by simp
qed

text \<open>A locked claim of a database tool can always be completed as failed.\<close>

lemma summary_annotation: "summary_contains RECONCILIATION_MARKER (op_log.truncate l) \<longleftrightarrow> has_annotation (log_summary l)"
  by (simp add: summary_contains_def has_annotation_def op_log.defs split: option.splits)

lemma locked_not_reconciling:
  assumes ok: "run_tables_ok db" and lock: "lock_claim h now db c tc act True = Inr lc"
  shows "\<not> reconciling (action_view db) (lc_action lc)"
proof
  from lock have chk: "check_log (lc_action lc) (lc_log lc) ''running'' = Inr ()" by (rule lock_claimE)
  assume "reconciling (action_view db) (lc_action lc)"
  then obtain l where l: "l \<in> set (rd_logs db)" "log_tenant l = ab_tenant_id (frozen (lc_action lc))"
      "log_tool_call_id l = ab_execute_tool_call_id (frozen (lc_action lc))" "has_annotation (log_summary l)"
    by (auto simp: reconciling_def action_view_def summary_annotation) (auto simp: op_log.defs)
  have "lc_log lc \<in> set (rd_logs db)" using lock_claim_rows(1)[OF lock] by (simp add: claim_rows_def)
  then have "l = lc_log lc"
    using ok l(1-3) locked_log_bound(1)[OF lock]
    by (intro key_unique[where f = "\<lambda>l. (log_tenant l, log_tool_call_id l)"]) (auto simp: run_tables_ok_def log_bound_def)
  then show False using l(4) check_logD(1)[OF chk] by simp
qed

lemma complete_failed_total:
  assumes ok: "run_tables_ok db" and lock: "lock_claim h now db c tc act True = Inr lc"
    and tool: "cb_execute_tool_name c \<in> DB_TOOLS" and err: "error_ok err" "0 \<le> dur"
  shows "\<exists>a db'. complete_failed h now' wall db lc err dur tc = Inr (a, db')"
proof -
  let ?tr = "(finish_transition c)\<lparr>tr_retain_failed_owner := True, tr_error_code := Some err, tr_duration_ms := Some dur\<rparr>"
  from lock have k: "lc_claim lc = c" "cb_tenant c = tc_tenant tc" "check_action h (lc_action lc) c tc True = Inr ()"
      "log_id (lc_log lc) = cb_log_id c" by (rule lock_claimE; blast)+
  note chk = check_actionD[OF k(3)] and rows = lock_claim_rows(1)[OF lock]
  have "check_transition ?tr (tc_tenant tc) = Inr ()"
    using chk(3) tool by (auto simp: check_transition_def retained_owner_ok_def is_protocol_owner_def owner_prefix_def)
  moreover have "transition_matches (action_view db) ?tr (tc_tenant tc) (lc_action lc)"
    using chk k rows locked_not_reconciling[OF ok lock] by (simp add: transition_matches_def claim_rows_def)
  then have "find (transition_matches (action_view db) ?tr (tc_tenant tc)) (rd_actions db) \<noteq> None"
    using rows by (auto simp: find_None_iff claim_rows_def)
  ultimately obtain a db1 where app: "apply_transition now' db ?tr (tc_tenant tc) = Inr (a, db1)" "rd_logs db1 = rd_logs db"
    by (auto simp: apply_transition_def transition_status_def Let_def action_view_def)
  have "finish_matches c (lc_log lc)"
    using locked_log_bound[OF lock] chk k by (auto simp: finish_matches_def log_bound_def claim_fields_match_def)
  moreover have "lc_log lc \<in> set (rd_logs db1)" using rows app(2) by (simp add: claim_rows_def)
  ultimately have "\<exists>l \<in> set (rd_logs db1). finish_matches (lc_claim lc) l" using k(1) by blast
  then have "\<exists>db'. finish_log wall db1 lc ''failed'' (Some err) dur None = Inr db'"
    using locked_log_bound(4)[OF lock] by (auto simp: finish_log_def)
  then obtain db' where "finish_log wall db1 lc ''failed'' (Some err) dur None = Inr db'" by blast
  then show ?thesis
    using app(1) tool err check_completion_locked[OF lock] k(1) by (simp add: complete_failed_def)
qed

text \<open>A completed action is not claimed again.\<close>

lemma completed_not_claimed:
  assumes ok: "run_tables_ok db" and lock: "lock_claim h now db c tc act True = Inr lc" and fin: "completes lc a l"
    and again: "lock_claim h now' (completed db lc a l) c' tc' act' True = Inr lc'"
  shows "cb_action_id c' \<noteq> cb_action_id c"
proof
  assume same: "cb_action_id c' = cb_action_id c"
  from again have f: "tenant_action (completed db lc a l) (cb_action_id c') (cb_tenant c') = Some (lc_action lc')"
      "check_action h (lc_action lc') c' tc' True = Inr ()" by (rule lock_claimE; blast)+
  have x: "lc_action lc' \<in> set (rd_actions (completed db lc a l))" "action_id (lc_action lc') = cb_action_id c'"
    using find_hit[OF f(1)[unfolded tenant_action_def]] by simp_all
  have "action_id (lc_action lc) = cb_action_id c"
    using lock_claim_rows[OF lock] by (simp add: claim_rows_def)
  then have "lc_action lc' = a" using x same by (auto simp: completed_def split: if_splits)
  then show False using check_actionD(7)[OF f(2)] fin by (simp add: completes_def)
qed

end
