(* ===== verification/Atomic_Props.thy ===== *)
theory Atomic_Props
  imports Atomic_Facts Projection_Access_Props
begin

text \<open>Properties of the completion of a claimed execution.\<close>

section \<open>A claimed execution\<close>

definition demo_hash :: "json \<Rightarrow> string" where "demo_hash j = replicate 64 (CHR ''a'')"

definition demo_owner :: string where
  "demo_owner = ''v0162-db:00000000-0000-0000-0000-000000000001''"

definition demo_running :: prepared_action where
  "demo_running = (demo_action 3 RUNNING 3)\<lparr>
     frozen := demo_binding\<lparr>ab_args_hash := demo_hash JNull, ab_snapshot_hash := demo_hash JNull\<rparr>,
     approved_by := Some 7, approved_at := Some 10, execution_owner := Some demo_owner, execution_lease := Some 90\<rparr>"

definition demo_log :: audit_log where
  "demo_log = \<lparr>log_id = 11, log_tenant = 1, log_user = 7, log_conversation = 5, log_tool_call_id = ''call-1'',
     log_status = ''running'', log_summary = None, log_readonly_snapshot = False, log_source_message = Some 6,
     log_error_code = None, al_trace = ''tr'', al_agent_code = Some ''sys'', al_target_summary = None,
     al_tool_name = ''user.update_roles'', al_args_hash = demo_hash JNull, al_execution_mode = ''hitl'',
     al_confirmation_id = Some ''conf-1'', al_approved_by = Some 7, al_queued_at = 9, al_started_at = Some 20,
     al_finished_at = None, al_duration_ms = None, al_hitl_wait_ms = None\<rparr>"

definition demo_source :: run_message where
  "demo_source = \<lparr>ms_id = 6, ms_tenant = 1, ms_conversation = 5, ms_role = ''user'', ms_active = True,
     ms_agent_code = None, ms_projection = pa_projection demo_running, rm_parent = None, rm_content = None,
     rm_tool_calls = None, rm_trace = Some ''tr''\<rparr>"

definition demo_run_db :: run_db where
  "demo_run_db = \<lparr>rd_actions = [demo_running], rd_logs = [demo_log],
     rd_conversations = [\<lparr>cv_id = 5, cv_tenant = 1, cv_user = 7, cv_deleted_at = None\<rparr>], rd_messages = [demo_source]\<rparr>"

definition demo_tenant :: tenant_ctx where "demo_tenant = \<lparr>tc_tenant = 1, tc_actor = 7, tc_version = 1,
     tc_code = ''t1'', tc_source = ''access_token''\<rparr>"

definition demo_claim :: claim_binding where
  "demo_claim = \<lparr>cb_tenant = 1, cb_action_id = 3, cb_confirmation_id = ''conf-1'', cb_execute_tool_call_id = ''call-1'',
     cb_execute_tool_name = ''user.update_roles'', cb_actor = 7, cb_conversation_id = 5, cb_source_message_id = 6,
     cb_trace_id = ''tr'', cb_agent_code = ''sys'', cb_args_hash = demo_hash JNull, cb_snapshot_hash = demo_hash JNull,
     cb_execution_owner = demo_owner, cb_row_version = 3, cb_log_id = 11\<rparr>"

definition demo_locked :: locked_claim where
  "demo_locked = \<lparr>lc_action = demo_running, lc_log = demo_log, lc_claim = demo_claim, lc_authorized = True\<rparr>"

definition demo_value :: tool_value where
  "demo_value = \<lparr>tv_ok = True, tv_has_proposal = False, tv_data = JInt 1, tv_ui = None, tv_projection = None\<rparr>"

definition demo_deps :: chat_deps where
  "demo_deps = \<lparr>cd_tenant = demo_tenant, cd_user_id = 7, cd_user_tenant = 1, cd_agent = Some ''sys''\<rparr>"

definition demo_run_env :: access_env where "demo_run_env = demo_env\<lparr>env_hash := demo_hash\<rparr>"

lemmas demo_run_defs = demo_running_def demo_log_def demo_source_def demo_run_db_def demo_tenant_def demo_claim_def
  demo_locked_def demo_value_def demo_deps_def demo_binding_def demo_action_def

lemma demo_owner_ok [simp]: "is_protocol_owner (Some demo_owner) ''user.update_roles''"
  by (simp add: is_protocol_owner_def owner_prefix_def DB_TOOLS_def demo_owner_def canonical_uuid_def is_hex_lower_def is_dec_def)

lemma demo_hash_ok [simp]: "hash_ok (demo_hash j)" "env_hash demo_run_env = demo_hash" "demo_hash (JObj d) = demo_hash JNull"
  by (simp_all add: hash_ok_def demo_hash_def is_hex_lower_def demo_run_env_def list_all_iff)

lemma demo_claimed: "claim_from_action demo_running 11 = Inr demo_claim"
  by (simp add: claim_from_action_def Let_def demo_run_defs)

lemma demo_lock: "lock_claim demo_hash 50 demo_run_db demo_claim demo_tenant True True = Inr demo_locked"
  by (simp add: lock_claim_def tenant_conversation_def tenant_message_def tenant_action_def lock_action_log_def call_log_def
      check_action_def check_principal_def claim_fields_match_def frozen_hashes_ok_def status_facts_ok_def check_log_def
      require_unannotated_def has_annotation_def log_bound_def log_times_ok_def expected_log_status_def demo_run_defs)

lemma demo_tables_ok: "run_tables_ok demo_run_db"
  by (simp add: run_tables_ok_def demo_run_defs)

section \<open>Properties\<close>

text \<open>Property C26: a completion is a fact that survives a restart, and it happens once. When an execution
  claim issued for an action is locked and completed as succeeded, the claimed action and its log are
  the only rows that change; the action keeps its approval and its frozen binding, moves one version
  on, loses its owner and lease and stores the tool's result; reading the terminal state back by the
  confirmation id alone accepts exactly these two rows; and no claim on the action can be locked for
  execution again.
\<close>

theorem completion_survives_restart:
  assumes "run_tables_ok db" "claim_from_action a0 lid = Inr c"
    and "lock_claim (env_hash env) now db c tc act True = Inr lc"
    and "complete_success env tenants now' wall db lc v deps dur tc = Inr (a, db')"
  shows "(\<exists>l. lock_terminal (env_hash env) db' db' (cb_confirmation_id c) tc = Inr (a, l) \<and> db' = completed db lc a l \<and>
      log_status l = ''success'' \<and> log_id l = cb_log_id c) \<and>
    pa_status a = SUCCEEDED \<and> result_data a = tv_data v \<and> row_version a = cb_row_version c + 1 \<and>
    frozen a = frozen (lc_action lc) \<and> approved_by a = Some (tc_actor tc) \<and> execution_owner a = None \<and> execution_lease a = None \<and>
    (\<forall>now'' c' tc' act' lc'. lock_claim (env_hash env) now'' db' c' tc' act' True = Inr lc' \<longrightarrow> cb_action_id c' \<noteq> cb_action_id c)"
proof -
  obtain l where e: "db' = completed db lc a l" "completes lc a l" "pa_status a = SUCCEEDED" "result_data a = tv_data v"
    by (rule complete_successE[OF assms(1,3,4)])
  have k: "lc_claim lc = c" "approved_by (lc_action lc) = Some (tc_actor tc)"
    using lock_claim_rows(2)[OF assms(3)] check_actionD(5,13)[of "env_hash env" "lc_action lc" c tc]
      lock_claimE[OF assms(3), of "check_action (env_hash env) (lc_action lc) c tc True = Inr ()"] by auto
  have id: "log_id l = cb_log_id c"
    using e(2) lock_claim_rows[OF assms(3)] by (simp add: completes_def claim_rows_def)
  show ?thesis
    using completion_reads_back[OF assms(1,3,2) e(2), folded e(1)] completed_not_claimed[OF assms(1,3) e(2), folded e(1)]
      e(2-4) k id unfolding completes_def by (auto simp: expected_log_status_def e(1)[symmetric])
qed

theorem completion_survives_restart_witness:
  "\<exists>a db' l. complete_success demo_run_env [] 60 60 demo_run_db demo_locked demo_value demo_deps 12 demo_tenant = Inr (a, db') \<and>
     lock_terminal demo_hash db' db' ''conf-1'' demo_tenant = Inr (a, l) \<and> pa_status a = SUCCEEDED"
proof -
  have "is_ok (complete_success demo_run_env [] 60 60 demo_run_db demo_locked demo_value demo_deps 12 demo_tenant)"
    using check_completion_locked[OF demo_lock]
    by (simp add: complete_success_def demo_run_defs is_ok_def result_lineage_def apply_transition_def transition_status_def
        check_transition_def finish_transition_def transition_matches_def action_view_def reconciling_def
        summary_annotation has_annotation_def finish_log_def finish_matches_def Let_def)
  then obtain a db' where run:
    "complete_success demo_run_env [] 60 60 demo_run_db demo_locked demo_value demo_deps 12 demo_tenant = Inr (a, db')"
    by (auto simp: is_ok_def split: sum.splits)
  have "lock_claim (env_hash demo_run_env) 50 demo_run_db demo_claim demo_tenant True True = Inr demo_locked"
    using demo_lock by simp
  from completion_survives_restart[OF demo_tables_ok demo_claimed this run]
  show ?thesis using run by (auto simp: demo_claim_def)
qed

text \<open>A rollback can always be recorded, and only for tools whose effects are in the
  database. Whoever holds the lock of an execution claim on a database tool can complete it as failed
  with any well-formed error code; the result keeps the owner as evidence of the protocol, is accepted
  by the restart check, and ends the claim. A file tool is never completed as failed, because its
  effects outlive the rollback.
\<close>

theorem failed_completion_recorded:
  assumes "run_tables_ok db" "claim_from_action a0 lid = Inr c"
    and "lock_claim h now db c tc act True = Inr lc" "error_ok err" "0 \<le> dur"
  shows "(case complete_failed h now' wall db lc err dur tc of
      Inl e \<Rightarrow> cb_execute_tool_name c \<notin> DB_TOOLS \<and> e = binding_invalid
    | Inr (a, db') \<Rightarrow> cb_execute_tool_name c \<in> DB_TOOLS \<and>
        (\<exists>l. lock_terminal h db' db' (cb_confirmation_id c) tc = Inr (a, l) \<and> db' = completed db lc a l \<and>
           log_status l = ''failed'' \<and> log_error_code l = Some err) \<and>
        pa_status a = FAILED \<and> error_code a = Some err \<and> execution_owner a = Some (cb_execution_owner c) \<and>
        execution_lease a = None \<and> row_version a = cb_row_version c + 1 \<and>
        (\<forall>now'' c' tc' act' lc'. lock_claim h now'' db' c' tc' act' True = Inr lc' \<longrightarrow> cb_action_id c' \<noteq> cb_action_id c))"
proof (cases "cb_execute_tool_name c \<in> DB_TOOLS")
  case False
  have "lc_claim lc = c" by (rule lock_claim_rows(2)[OF assms(3)])
  then show ?thesis using False check_completion_locked[OF assms(3)] by (simp add: complete_failed_def)
next
  case True
  obtain a db' where run: "complete_failed h now' wall db lc err dur tc = Inr (a, db')"
    using complete_failed_total[OF assms(1,3) True assms(4,5)] by blast
  obtain l where e: "db' = completed db lc a l" "completes lc a l" "pa_status a = FAILED" "error_code a = Some err"
    by (rule complete_failedE[OF assms(1,3) run])
  show ?thesis
    using completion_reads_back[OF assms(1,3,2) e(2), folded e(1)] completed_not_claimed[OF assms(1,3) e(2), folded e(1)]
      e(2-4) True lock_claim_rows(2)[OF assms(3)]
    unfolding run sum.case prod.case completes_def by (auto simp: expected_log_status_def e(1)[symmetric])
qed

theorem failed_completion_recorded_witness:
  "\<exists>a db' l. complete_failed demo_hash 60 60 demo_run_db demo_locked ''X_ERR'' 12 demo_tenant = Inr (a, db') \<and>
     lock_terminal demo_hash db' db' ''conf-1'' demo_tenant = Inr (a, l) \<and> pa_status a = FAILED"
proof -
  have err: "error_ok ''X_ERR''" by (simp add: error_ok_def upper_or_digit_def is_dec_def)
  have "cb_execute_tool_name demo_claim \<in> DB_TOOLS" by (simp add: demo_claim_def DB_TOOLS_def)
  then show ?thesis
    using failed_completion_recorded[OF demo_tables_ok demo_claimed demo_lock err, of 12 60 60]
    by (auto simp: demo_claim_def split: sum.splits)
qed

end
