(* ===== verification/Chat_Finalizer.thy ===== *)
theory Chat_Finalizer
  imports Atomic_Completion Hitl "HOL-Library.AList"
begin

text \<open>
  \<open>ChatRunFinalizer\<close> of \<open>app/modules/ai/service/chat_run_service.py\<close>: the one assistant message of a
  conversation and trace, written by whichever worker ends a turn. It locks the turn's facts, takes
  the cards of protected calls from the facts alone, and creates the message or merges into it.
  \<open>checks\<close> holds the answers of \<open>preflight_completion_service.py\<close> and \<open>preview_completion_service.py\<close>,
  \<open>tx\<close> the texts shown to users.
\<close>

section \<open>Facts of a turn\<close>

record turn_texts =
  tx_notice :: string
  tx_unknown_suffix :: string
  tx_cancelled :: string
  tx_expired :: string
  tx_rolled_back :: string

text \<open>\<open>tk_preflight\<close> is \<open>is_verified_preflight\<close>, \<open>tk_preview\<close> the audit that \<open>verify_historical_preview\<close>
  returns, whose hash is a text or null, whose dependencies are integers and whose log has an agent.\<close>

record turn_checks =
  tk_preflight :: "run_db \<Rightarrow> audit_log \<Rightarrow> conversation \<Rightarrow> run_message \<Rightarrow> tenant_ctx \<Rightarrow> bool"
  tk_preview :: "run_db \<Rightarrow> audit_log \<Rightarrow> conversation \<Rightarrow> run_message \<Rightarrow> tenant_ctx \<Rightarrow> jobj res"

record turn_facts =
  tf_conversation :: "conversation option"
  tf_source :: "run_message option"
  tf_actions :: "prepared_action list"
  tf_logs :: "(string \<times> audit_log) list"

definition dict_of_logs :: "audit_log list \<Rightarrow> (string \<times> audit_log) list" where
  "dict_of_logs ls = fold (\<lambda>l d. AList.update (log_tool_call_id l) l d) ls []"

definition lock_projection_facts :: "run_db \<Rightarrow> int \<Rightarrow> int \<Rightarrow> string \<Rightarrow> tenant_ctx \<Rightarrow> turn_facts" where
  "lock_projection_facts db conv src trace tc =
     (let t = tc_tenant tc;
          acts = sort_key action_id (filter (\<lambda>a. ab_tenant_id (frozen a) = t \<and> ab_conversation_id (frozen a) = conv \<and>
            ab_source_message_id (frozen a) = src \<and> ab_trace_id (frozen a) = trace) (rd_actions db));
          calls = set (map (\<lambda>a. ab_execute_tool_call_id (frozen a)) acts)
      in \<lparr>tf_conversation = tenant_conversation db conv t, tf_source = tenant_message db src t, tf_actions = acts,
          tf_logs = dict_of_logs (sort_key log_id (filter (\<lambda>l. log_tenant l = t \<and>
            (log_tool_call_id l \<in> calls \<or> log_conversation l = conv \<and> al_trace l = trace \<and> log_user l = tc_actor tc))
            (rd_logs db)))\<rparr>)"

section \<open>Protected cards\<close>

definition factual_action :: "(string \<times> audit_log) list \<Rightarrow> prepared_action \<Rightarrow> bool" where
  "factual_action logs a \<longleftrightarrow>
     has_protocol_marker (execution_owner a) \<or>
     (case map_of logs (ab_execute_tool_call_id (frozen a)) of None \<Rightarrow> False | Some l \<Rightarrow> has_annotation (log_summary l)) \<or>
     pa_status a \<in> {APPROVED_STATUS, RUNNING, SUCCEEDED, FAILED, REJECTED_STATUS, EXPIRED} \<and>
       ab_execute_tool_name (frozen a) \<in> DB_TOOLS \<union> FILE_TOOLS"

definition bare_card :: "string \<Rightarrow> string \<Rightarrow> jobj" where
  "bare_card tool i = [(''tool'', JStr tool), (''tool_call_id'', JStr i)]"

definition action_verified ::
    "(json \<Rightarrow> string) \<Rightarrow> (string \<times> audit_log) list \<Rightarrow> conversation \<Rightarrow> run_message \<Rightarrow> tenant_ctx \<Rightarrow> prepared_action \<Rightarrow>
     unit res" where
  "action_verified h logs cv src tc a =
     (case map_of logs (ab_execute_tool_call_id (frozen a)) of
        None \<Rightarrow> Inl (BusinessRule [])
      | Some l \<Rightarrow>
        if ab_execute_tool_name (frozen a) \<in> FILE_TOOLS \<and> pa_status a \<in> {RUNNING, FAILED} then Inl (BusinessRule [])
        else if pa_status a \<in> {REJECTED_STATUS, EXPIRED}
        then validate_locked_unexecuted_terminal h a (Some l) tc (Some cv) (Some src)
        else validate_locked_terminal h a l tc (Some cv) (Some src))"

definition presentation_title :: "prepared_action \<Rightarrow> string res" where
  "presentation_title a = (case ab_presentation (frozen a) of
       JObj d \<Rightarrow> Inr (if truthy (jget d ''title'') then py_str (jget d ''title'') else ab_execute_tool_name (frozen a))
     | _ \<Rightarrow> Inl AttributeError)"

definition outcome_text :: "turn_texts \<Rightarrow> pstatus \<Rightarrow> string" where
  "outcome_text tx s = (if s = REJECTED_STATUS then tx_cancelled tx else if s = EXPIRED then tx_expired tx
     else tx_rolled_back tx)"

definition factual_fields :: "turn_texts \<Rightarrow> prepared_action \<Rightarrow> string \<Rightarrow> jobj" where
  "factual_fields tx a title =
     (let ok = (pa_status a = SUCCEEDED) in
      [(''ok'', JBool ok),
       (''result'', if ok then stringify_large_ints (result_data a) else JNull),
       (''ui'', if ok then (case result_ui a of None \<Rightarrow> JNull | Some u \<Rightarrow> stringify_large_ints u) else JNull),
       (''error_code'', if ok then JNull else jstr_opt (error_code a)),
       (''error_msg'', if ok then JNull else JStr (outcome_text tx (pa_status a))),
       (''duration_ms'', JInt (case duration_ms a of None \<Rightarrow> 0 | Some d \<Rightarrow> d)),
       (''summary'', JStr title),
       (''args'', stringify_large_ints (ab_presentation (frozen a))),
       (''trace_id'', JStr (ab_trace_id (frozen a))),
       (''risk'', JStr (ab_risk_level (frozen a))),
       (''chip_target'', jstr_opt (ab_chip_target (frozen a)))])"

definition action_lineage :: "prepared_action \<Rightarrow> lineage option" where
  "action_lineage a = lineage_from_record (ab_tenant_id (frozen a)) (Some (ab_agent_code (frozen a))) (pa_projection a) True"

record card_state =
  cs_protected :: protected_cards
  cs_unknown :: bool
  cs_lineages :: "lineage list"

definition put_card :: "string \<Rightarrow> jobj option \<Rightarrow> card_state \<Rightarrow> card_state" where
  "put_card i c s = s\<lparr>cs_protected := AList.update i c (cs_protected s)\<rparr>"

definition doubt :: "card_state \<Rightarrow> card_state" where
  "doubt s = s\<lparr>cs_unknown := True\<rparr>"

definition keep_lineage :: "lineage option \<Rightarrow> card_state \<Rightarrow> card_state" where
  "keep_lineage l s = (case l of None \<Rightarrow> s | Some x \<Rightarrow> s\<lparr>cs_lineages := cs_lineages s @ [x]\<rparr>)"

definition action_card ::
    "access_env \<Rightarrow> tenant_row list \<Rightarrow> turn_texts \<Rightarrow> run_db \<Rightarrow> turn_facts \<Rightarrow> conversation \<Rightarrow> run_message \<Rightarrow> tenant_ctx \<Rightarrow>
     prepared_action \<Rightarrow> card_state \<Rightarrow> card_state res" where
  "action_card env tenants tx db f cv src tc a s =
     (let b = frozen a; i = ab_execute_tool_call_id b; base = bare_card (ab_execute_tool_name b) i
      in if \<not> factual_action (tf_logs f) a then Inr s
         else (case action_verified (env_hash env) (tf_logs f) cv src tc a of
           Inl (BusinessRule _) \<Rightarrow> Inr (doubt (put_card i (Some base) s))
         | Inl e \<Rightarrow> Inl e
         | Inr _ \<Rightarrow>
           bindE (load_live_user_authority (env_auth env) tenants tc) (\<lambda>actor.
           bindE (authorize_result_projection env (action_view db) actor (ab_user_id b) (action_lineage a)) (\<lambda>shown.
             if \<not> shown then Inr (put_card i None s)
             else bindE (presentation_title a) (\<lambda>title.
                  Inr (keep_lineage (action_lineage a)
                    (put_card i (Some (jmerge base (factual_fields tx a title))) s)))))))"

definition PREFLIGHT_MARKER :: string where "PREFLIGHT_MARKER = ''__v0162_preflight_v1''"

definition has_preflight_marker :: "string option \<Rightarrow> bool" where
  "has_preflight_marker summary = (case summary of None \<Rightarrow> False | Some s \<Rightarrow> str_in PREFLIGHT_MARKER s)"

definition audit_value :: "jobj \<Rightarrow> string \<Rightarrow> json res" where
  "audit_value d k = (if jhas d k then Inr (stringify_large_ints (jget d k)) else Inl KeyError)"

definition preview_lineage :: "(json \<Rightarrow> string) \<Rightarrow> audit_log \<Rightarrow> jobj \<Rightarrow> tenant_ctx \<Rightarrow> lineage res" where
  "preview_lineage h l audit tc =
     (if \<not> jhas audit ''batch_id'' then Inl KeyError
      else freeze_lineage h (tc_tenant tc) (case al_agent_code l of None \<Rightarrow> [] | Some s \<Rightarrow> s) [al_tool_name l]
        [JObj [(''type'', JStr ''user_import_batch''), (''id'', jget audit ''batch_id'')]]
        (case jget audit ''data_scope_hash'' of JStr s \<Rightarrow> Some s | _ \<Rightarrow> None) DATA_SCOPE_RESOLVER_VERSION
        (case jget audit ''projection_dependency_message_ids'' of
           JArr xs \<Rightarrow> map (\<lambda>x. case x of JInt i \<Rightarrow> IdInt i | _ \<Rightarrow> IdInt 0) xs | _ \<Rightarrow> []))"

definition unproven :: "exn \<Rightarrow> bool" where
  "unproven e = (case e of BusinessRule _ \<Rightarrow> True | TypeError \<Rightarrow> True | ValueError \<Rightarrow> True | _ \<Rightarrow> False)"

definition log_card ::
    "access_env \<Rightarrow> tenant_row list \<Rightarrow> turn_checks \<Rightarrow> run_db \<Rightarrow> turn_facts \<Rightarrow> conversation \<Rightarrow> run_message \<Rightarrow> tenant_ctx \<Rightarrow>
     string \<times> audit_log \<Rightarrow> card_state \<Rightarrow> card_state res" where
  "log_card env tenants ck db f cv src tc il s =
     (case il of (i, l) \<Rightarrow>
      let base = bare_card (al_tool_name l) i; s1 = put_card i (Some base) s in
      if i \<in> set (map (\<lambda>a. ab_execute_tool_call_id (frozen a)) (tf_actions f)) \<or>
         log_readonly_snapshot l \<and> \<not> has_preflight_marker (log_summary l) then Inr s
      else if tk_preflight ck db l cv src tc
      then Inr (put_card i (Some (jmerge base [(''ok'', JBool False), (''error_code'', jstr_opt (log_error_code l)),
             (''duration_ms'', jint_opt (al_duration_ms l))])) s1)
      else (case tk_preview ck db l cv src tc of
          Inl e \<Rightarrow> if unproven e then Inr (doubt s1) else Inl e
        | Inr audit \<Rightarrow>
          bindE (load_live_user_authority (env_auth env) tenants tc) (\<lambda>actor.
          bindE (preview_lineage (env_hash env) l audit tc) (\<lambda>lin.
          bindE (authorize_result_projection env (action_view db) actor (log_user l) (Some lin)) (\<lambda>shown.
            if \<not> shown then Inr (put_card i None s1)
            else bindE (audit_value audit ''preview_data'') (\<lambda>data.
                 bindE (audit_value audit ''preview_ui'') (\<lambda>ui.
                 Inr (keep_lineage (Some lin) (put_card i (Some (jmerge base
                   [(''ok'', JBool True), (''error_code'', JNull), (''duration_ms'', jint_opt (al_duration_ms l)),
                    (''result'', data), (''ui'', ui)])) s1)))))))))"

definition protected_cards_of ::
    "access_env \<Rightarrow> tenant_row list \<Rightarrow> turn_texts \<Rightarrow> turn_checks \<Rightarrow> run_db \<Rightarrow> turn_facts \<Rightarrow> conversation \<Rightarrow> run_message \<Rightarrow>
     tenant_ctx \<Rightarrow> card_state res" where
  "protected_cards_of env tenants tx ck db f cv src tc =
     bindE (fold (\<lambda>a r. bindE r (action_card env tenants tx db f cv src tc a)) (tf_actions f)
              (Inr \<lparr>cs_protected = [], cs_unknown = False, cs_lineages = []\<rparr>)) (\<lambda>s.
       fold (\<lambda>il r. bindE r (log_card env tenants ck db f cv src tc il)) (tf_logs f) (Inr s))"

section \<open>The message\<close>

text \<open>\<open>s.replace(w, '')\<close>.\<close>

fun str_remove :: "string \<Rightarrow> string \<Rightarrow> string" where
  "str_remove w [] = []"
| "str_remove w (c # s) =
     (if w \<noteq> [] \<and> prefix w (c # s) then str_remove w (drop (length w - 1) s) else c # str_remove w s)"

definition unresolved_calls :: "protected_cards \<Rightarrow> string list" where
  "unresolved_calls prot = map fst (filter (\<lambda>(i, c). case c of None \<Rightarrow> False | Some d \<Rightarrow> \<not> jhas d ''ok'') prot)"

definition resolved_text :: "turn_texts \<Rightarrow> string \<Rightarrow> string" where
  "resolved_text tx s = py_strip (str_remove (tx_unknown_suffix tx) (str_remove (tx_notice tx) s))"

definition turn_content :: "turn_texts \<Rightarrow> card_state \<Rightarrow> string \<Rightarrow> string" where
  "turn_content tx s content =
     (if cs_unknown s then reconciliation_notice (tx_notice tx) (Some content) (unresolved_calls (cs_protected s))
      else if cs_protected s \<noteq> [] \<and> str_in (tx_notice tx) content then resolved_text tx content
      else content)"

text \<open>\<open>a or b\<close> on hashes: an empty hash counts as none.\<close>

definition hash_or :: "string option \<Rightarrow> string option \<Rightarrow> string option" where
  "hash_or a b = (case a of Some (c # s) \<Rightarrow> a | _ \<Rightarrow> b)"

definition join_lineages ::
    "(json \<Rightarrow> string) \<Rightarrow> tenant_ctx \<Rightarrow> string \<Rightarrow> lineage \<Rightarrow> lineage \<Rightarrow> lineage res" where
  "join_lineages h tc version a b =
     freeze_lineage h (tc_tenant tc) (ln_agent_code b) (ln_tool_codes a @ ln_tool_codes b)
       (map ref_json (ln_subject_refs a @ ln_subject_refs b)) (hash_or (ln_data_scope_hash a) (ln_data_scope_hash b))
       version (map IdInt (ln_dependency_ids a @ ln_dependency_ids b))"

definition add_factual :: "(json \<Rightarrow> string) \<Rightarrow> tenant_ctx \<Rightarrow> lineage \<Rightarrow> lineage option \<Rightarrow> lineage option res" where
  "add_factual h tc x lin = (case lin of
       None \<Rightarrow> Inr (Some x)
     | Some l \<Rightarrow>
       if ln_agent_code l = ln_agent_code x
       then bindE (join_lineages h tc DATA_SCOPE_RESOLVER_VERSION l x) (\<lambda>j. Inr (Some j))
       else Inr (Some l))"

definition turn_lineage :: "(json \<Rightarrow> string) \<Rightarrow> tenant_ctx \<Rightarrow> lineage list \<Rightarrow> lineage option \<Rightarrow> lineage option res" where
  "turn_lineage h tc ls lin = fold (\<lambda>x r. bindE r (add_factual h tc x)) ls (Inr lin)"

definition is_turn_message :: "int \<Rightarrow> int \<Rightarrow> string \<Rightarrow> run_message \<Rightarrow> bool" where
  "is_turn_message t conv trace m \<longleftrightarrow>
     ms_tenant m = t \<and> ms_conversation m = conv \<and> ms_role m = ''assistant'' \<and> rm_trace m = Some trace"

record turn_args =
  ta_conversation :: int
  ta_trace :: string
  ta_source :: int
  ta_content :: string
  ta_tool_calls :: "jobj list option"
  ta_agent_code :: "string option"
  ta_lineage :: "lineage option"
  ta_dependency_ids :: "int list"

definition dependency_column :: "int list \<Rightarrow> id_arg list option" where
  "dependency_column ids = Some (map (\<lambda>i. IdStr (show_int i)) ids)"

definition lineage_values :: "lineage option \<Rightarrow> id_arg list option \<Rightarrow> projection_columns" where
  "lineage_values lin deps =
     \<lparr>pc_tool_codes = map_option ln_tool_codes lin,
      pc_subject_refs = map_option (\<lambda>l. map ref_json (ln_subject_refs l)) lin,
      pc_subject_refs_hash = map_option ln_subject_refs_hash lin,
      pc_data_scope_hash = Option.bind lin ln_data_scope_hash,
      pc_resolver_version = map_option ln_resolver_version lin,
      pc_dependency_ids = deps\<rparr>"

definition new_turn_message ::
    "int \<Rightarrow> tenant_ctx \<Rightarrow> turn_args \<Rightarrow> string \<Rightarrow> jobj list option \<Rightarrow> lineage option \<Rightarrow> run_message" where
  "new_turn_message mid tc ta content cards lin =
     \<lparr>ms_id = mid, ms_tenant = tc_tenant tc, ms_conversation = ta_conversation ta, ms_role = ''assistant'',
      ms_active = True, ms_agent_code = ta_agent_code ta,
      ms_projection = lineage_values lin (dependency_column (ta_dependency_ids ta)),
      rm_parent = Some (ta_source ta), rm_content = Some content,
      rm_tool_calls = (if cards_of cards = [] then None else cards), rm_trace = Some (ta_trace ta)\<rparr>"

text \<open>The insert does nothing when the partial unique index already has the turn.\<close>

definition insert_turn_message :: "run_message list \<Rightarrow> run_message \<Rightarrow> run_message list" where
  "insert_turn_message ms m =
     (if \<exists>x \<in> set ms. ms_role x = ''assistant'' \<and> rm_trace x \<noteq> None \<and> ms_tenant x = ms_tenant m \<and>
           ms_conversation x = ms_conversation m \<and> rm_trace x = rm_trace m
      then ms else ms @ [m])"

definition stored_lineage ::
    "(json \<Rightarrow> string) \<Rightarrow> tenant_ctx \<Rightarrow> run_message \<Rightarrow> lineage option \<Rightarrow> lineage option res" where
  "stored_lineage h tc m lin =
     (case (lin, lineage_of_message (message.truncate m) True) of
        (Some l, Some e) \<Rightarrow>
          if ln_agent_code e \<noteq> ln_agent_code l \<or> ln_resolver_version e \<noteq> ln_resolver_version l \<or>
             (ln_data_scope_hash e \<noteq> None \<and> ln_data_scope_hash l \<noteq> None \<and> ln_data_scope_hash e \<noteq> ln_data_scope_hash l)
          then Inl RuntimeError
          else bindE (join_lineages h tc (ln_resolver_version l) e l) (\<lambda>j. Inr (Some j))
      | _ \<Rightarrow> Inr lin)"

definition merged_content :: "turn_texts \<Rightarrow> card_state \<Rightarrow> string \<Rightarrow> string option \<Rightarrow> string option" where
  "merged_content tx s content old =
     (let c1 = (if cs_protected s \<noteq> [] \<and> \<not> cs_unknown s \<and> (case old of None \<Rightarrow> False | Some x \<Rightarrow> str_in (tx_notice tx) x)
                then map_option (resolved_text tx) old else old)
      in if (c1 = None \<or> c1 = Some []) \<and> content \<noteq> [] then Some content
         else if cs_unknown s then Some (reconciliation_notice (tx_notice tx) c1 (unresolved_calls (cs_protected s)))
         else c1)"

text \<open>The assignments to the columns of the locked message.\<close>

definition merge_turn_message ::
    "turn_texts \<Rightarrow> turn_args \<Rightarrow> card_state \<Rightarrow> string \<Rightarrow> jobj list option \<Rightarrow> lineage option \<Rightarrow> run_message \<Rightarrow> run_message" where
  "merge_turn_message tx ta s content cards lin m =
     (let m1 = m\<lparr>rm_content := merged_content tx s content (rm_content m),
            rm_tool_calls := merge_tool_calls (replace_protected_cards (rm_tool_calls m) (cs_protected s)) cards,
            rm_parent := (case rm_parent m of None \<Rightarrow> Some (ta_source ta) | Some p \<Rightarrow> Some p),
            ms_agent_code := (case ms_agent_code m of None \<Rightarrow> ta_agent_code ta | Some a \<Rightarrow> Some a)\<rparr>;
          m2 = (case lin of None \<Rightarrow> m1
            | Some l \<Rightarrow> m1\<lparr>ms_tenant := ln_tenant_id l, ms_projection := lineage_columns l\<rparr>)
      in if pc_dependency_ids (ms_projection m2) = None
         then m2\<lparr>ms_projection := (ms_projection m2)\<lparr>pc_dependency_ids := dependency_column (ta_dependency_ids ta)\<rparr>\<rparr>
         else m2)"

section \<open>Ending a turn\<close>

definition turn_open :: "turn_facts \<Rightarrow> turn_args \<Rightarrow> tenant_ctx \<Rightarrow> (conversation \<times> run_message) option" where
  "turn_open f ta tc = (case (tf_conversation f, tf_source f) of
       (Some cv, Some src) \<Rightarrow>
         if cv_tenant cv \<noteq> tc_tenant tc \<or> cv_user cv \<noteq> tc_actor tc \<or> cv_deleted_at cv \<noteq> None \<or>
            ms_tenant src \<noteq> tc_tenant tc \<or> ms_conversation src \<noteq> ta_conversation ta \<or> ms_role src \<noteq> ''user'' \<or>
            rm_trace src \<noteq> Some (ta_trace ta) \<or> \<not> ms_active src
         then None else Some (cv, src)
     | _ \<Rightarrow> None)"

text \<open>The facts of a caller that has locked them itself. A completion is of the action it was locked for
  when it holds the same row.\<close>

definition prepared_facts ::
    "run_db \<Rightarrow> turn_args \<Rightarrow> prepared_action \<Rightarrow> (prepared_action \<times> audit_log) option \<Rightarrow> turn_facts res" where
  "prepared_facts db ta a completion =
     (let f = \<lparr>tf_conversation = find (\<lambda>c. cv_id c = ta_conversation ta) (rd_conversations db),
             tf_source = find (\<lambda>m. ms_id m = ta_source ta) (rd_messages db), tf_actions = [], tf_logs = []\<rparr>
      in case completion of
           Some (b, l) \<Rightarrow>
             if b \<noteq> a then Inl (BusinessRule [])
             else Inr (f\<lparr>tf_actions := [a], tf_logs := [(ab_execute_tool_call_id (frozen a), l)]\<rparr>)
         | None \<Rightarrow>
             if has_protocol_marker (execution_owner a) \<or>
                pa_status a \<in> {SUCCEEDED, FAILED} \<and> ab_execute_tool_name (frozen a) \<in> DB_TOOLS \<union> FILE_TOOLS
             then Inl (BusinessRule []) else Inr f)"

definition turn_facts_of ::
    "run_db \<Rightarrow> turn_args \<Rightarrow> tenant_ctx \<Rightarrow> (prepared_action \<times> (prepared_action \<times> audit_log) option) option \<Rightarrow> turn_facts res" where
  "turn_facts_of db ta tc prepared = (case prepared of
       None \<Rightarrow> Inr (lock_projection_facts db (ta_conversation ta) (ta_source ta) (ta_trace ta) tc)
     | Some (a, completion) \<Rightarrow> prepared_facts db ta a completion)"

text \<open>\<open>db\<close> is what the transaction reads and locks; the insert meets the messages of \<open>db1\<close>, where other
  transactions may have committed since.\<close>

definition write_turn ::
    "(json \<Rightarrow> string) \<Rightarrow> turn_texts \<Rightarrow> run_db \<Rightarrow> run_db \<Rightarrow> int \<Rightarrow> turn_args \<Rightarrow> tenant_ctx \<Rightarrow> card_state \<Rightarrow> string \<Rightarrow>
     jobj list option \<Rightarrow> lineage option \<Rightarrow> (run_message option \<times> run_db) res" where
  "write_turn h tx db db1 mid ta tc s content cards lin =
     (let mine = is_turn_message (tc_tenant tc) (ta_conversation ta) (ta_trace ta);
          merged = (\<lambda>d m. bindE (stored_lineage h tc m lin) (\<lambda>l.
            let m' = merge_turn_message tx ta s content cards l m
            in Inr (Some m', d\<lparr>rd_messages := map (\<lambda>x. if ms_id x = ms_id m then m' else x) (rd_messages d)\<rparr>)))
      in case find mine (rd_messages db) of
           Some m \<Rightarrow> merged db m
         | None \<Rightarrow>
           if content = [] \<and> cards_of cards = [] then Inr (None, db1)
           else let d = db1\<lparr>rd_messages := insert_turn_message (rd_messages db1) (new_turn_message mid tc ta content cards lin)\<rparr>
                in (case find mine (rd_messages d) of None \<Rightarrow> Inl RuntimeError | Some m \<Rightarrow> merged d m))"

definition finalize_assistant_turn ::
    "access_env \<Rightarrow> tenant_row list \<Rightarrow> turn_texts \<Rightarrow> turn_checks \<Rightarrow> run_db \<Rightarrow> run_db \<Rightarrow> int \<Rightarrow> turn_args \<Rightarrow> tenant_ctx \<Rightarrow>
     (prepared_action \<times> (prepared_action \<times> audit_log) option) option \<Rightarrow> (run_message option \<times> run_db) res" where
  "finalize_assistant_turn env tenants tx ck db db1 mid ta tc prepared =
     (if (case ta_lineage ta of None \<Rightarrow> False | Some l \<Rightarrow> ln_tenant_id l \<noteq> tc_tenant tc) then Inl RuntimeError
      else bindE (turn_facts_of db ta tc prepared) (\<lambda>f.
        case turn_open f ta tc of
          None \<Rightarrow> Inr (None, db)
        | Some (cv, src) \<Rightarrow>
          bindE (protected_cards_of env tenants tx ck db f cv src tc) (\<lambda>s.
          bindE (turn_lineage (env_hash env) tc (cs_lineages s) (ta_lineage ta)) (\<lambda>lin.
            write_turn (env_hash env) tx db db1 mid ta tc s (turn_content tx s (ta_content ta))
              (replace_protected_cards (map_option (map stringify_card) (ta_tool_calls ta)) (cs_protected s)) lin))))"

text \<open>A confirmation that ended while nobody was streaming.\<close>

definition finalize_pending_turn ::
    "access_env \<Rightarrow> tenant_row list \<Rightarrow> turn_texts \<Rightarrow> turn_checks \<Rightarrow> run_db \<Rightarrow> run_db \<Rightarrow> int \<Rightarrow> pending_payload \<Rightarrow> bool \<Rightarrow>
     int \<Rightarrow> json \<Rightarrow> string option \<Rightarrow> string option \<Rightarrow> tenant_ctx \<Rightarrow> (run_message option \<times> run_db) res" where
  "finalize_pending_turn env tenants tx ck db db1 mid p ok dur result err msg tc =
     (case pp_source_user_message_id p of
        None \<Rightarrow> Inr (None, db)
      | Some src \<Rightarrow>
        finalize_assistant_turn env tenants tx ck db db1 mid
          \<lparr>ta_conversation = pp_conversation_id p, ta_trace = pp_trace_id p, ta_source = src, ta_content = [],
           ta_tool_calls = Some [[(''tool'', JStr (pp_tool_name p)), (''tool_call_id'', JStr (pp_tool_call_id p)),
             (''summary'', JStr (''tool='' @ pp_tool_name p @ '', mode=hitl'')), (''args'', stringify_large_ints (pp_args p)),
             (''risk'', JStr (pp_risk_level p)), (''trace_id'', JStr (pp_trace_id p)),
             (''chip_target'', jstr_opt (pp_chip_target p)), (''ok'', JBool ok), (''result'', stringify_large_ints result),
             (''affected_rows'', JNull), (''error_code'', jstr_opt err), (''error_msg'', jstr_opt msg),
             (''duration_ms'', JInt dur), (''ui'', JNull)]],
           ta_agent_code = pp_agent_code p, ta_lineage = None, ta_dependency_ids = []\<rparr> tc None)"

definition prepared_card ::
    "string \<Rightarrow> string \<Rightarrow> string \<Rightarrow> json \<Rightarrow> string \<Rightarrow> string \<Rightarrow> string option \<Rightarrow> bool \<Rightarrow> json \<Rightarrow> string option \<Rightarrow>
     string option \<Rightarrow> int \<Rightarrow> json \<Rightarrow> jobj" where
  "prepared_card tool i title args risk trace chip ok result err msg dur ui =
     [(''tool'', JStr tool), (''tool_call_id'', JStr i), (''summary'', JStr title), (''args'', args), (''risk'', JStr risk),
      (''trace_id'', JStr trace), (''chip_target'', jstr_opt chip), (''ok'', JBool ok), (''result'', result),
      (''affected_rows'', JNull), (''error_code'', jstr_opt err), (''error_msg'', jstr_opt msg), (''duration_ms'', JInt dur),
      (''ui'', ui)]"

definition finalize_prepared_action ::
    "access_env \<Rightarrow> tenant_row list \<Rightarrow> turn_texts \<Rightarrow> turn_checks \<Rightarrow> run_db \<Rightarrow> run_db \<Rightarrow> int \<Rightarrow> prepared_action \<Rightarrow> bool \<Rightarrow>
     int \<Rightarrow> json \<Rightarrow> json option \<Rightarrow> string option \<Rightarrow> string option \<Rightarrow> tenant_ctx \<Rightarrow> (prepared_action \<times> audit_log) option \<Rightarrow>
     (run_message option \<times> run_db) res" where
  "finalize_prepared_action env tenants tx ck db db1 mid a ok dur result ui err msg tc completion =
     bindE (presentation_title a) (\<lambda>title.
       let b = frozen a; source = prepared_source_for (env_registry env) (ab_execute_tool_name b) None;
           shown = stringify_large_ints (ab_presentation b);
           preview = (case ab_prepare_tool_call_id b of
             Some (c # i) \<Rightarrow> [case source of
                 None \<Rightarrow> prepared_card ''prepared.preview'' (c # i) title (JObj []) ''low'' (ab_trace_id b) None True shown
                   None None 0 JNull
               | Some t \<Rightarrow> prepared_card (tm_name (rt_meta t)) (c # i) title (JObj []) (tm_risk (rt_meta t)) (ab_trace_id b)
                   (tm_chip_target (rt_meta t)) True shown None None 0 JNull]
           | _ \<Rightarrow> [])
       in finalize_assistant_turn env tenants tx ck db db1 mid
            \<lparr>ta_conversation = ab_conversation_id b, ta_trace = ab_trace_id b, ta_source = ab_source_message_id b,
             ta_content = [],
             ta_tool_calls = Some (preview @ [prepared_card (ab_execute_tool_name b) (ab_execute_tool_call_id b) title shown
               (ab_risk_level b) (ab_trace_id b) (ab_chip_target b) ok (stringify_large_ints result) err msg dur
               (case ui of None \<Rightarrow> JNull | Some u \<Rightarrow> stringify_large_ints u)]),
             ta_agent_code = Some (ab_agent_code b), ta_lineage = action_lineage a, ta_dependency_ids = []\<rparr>
            tc (Some (a, completion)))"

end
