(* ===== verification/Chat_Finalizer_Facts.thy ===== *)
theory Chat_Finalizer_Facts
  imports Chat_Finalizer Chat_Cards_Facts Atomic_Facts
begin

text \<open>What the cards of a turn's facts say, and what the finalizer writes.\<close>

section \<open>Folds of results\<close>

lemma foldE_Inl: "fold (\<lambda>x r. bindE r (f x)) xs (Inl e) = Inl e"
  by (induction xs) simp_all

lemma foldE_Cons: "fold (\<lambda>x r. bindE r (f x)) (x # xs) (Inr s) = Inr s' \<longleftrightarrow>
    (\<exists>s1. f x s = Inr s1 \<and> fold (\<lambda>x r. bindE r (f x)) xs (Inr s1) = Inr s')"
  by (cases "f x s") (simp_all add: foldE_Inl)

lemma foldE_inv:
  assumes "fold (\<lambda>x r. bindE r (f x)) xs (Inr s) = Inr s'" "P s"
    and "\<And>x s s'. x \<in> set xs \<Longrightarrow> f x s = Inr s' \<Longrightarrow> P s \<Longrightarrow> P s'"
  shows "P s'"
  using assms
proof (induction xs arbitrary: s)
  case (Cons x xs)
  from Cons.prems(1) obtain s1 where "f x s = Inr s1" "fold (\<lambda>x r. bindE r (f x)) xs (Inr s1) = Inr s'"
    unfolding foldE_Cons by blast
  with Cons show ?case by (meson list.set_intros)
qed simp

lemma foldE_hit:
  assumes "fold (\<lambda>x r. bindE r (f x)) xs (Inr s) = Inr s'" "x \<in> set xs"
    and "\<And>s s'. f x s = Inr s' \<Longrightarrow> Q s'" and "\<And>y s s'. y \<in> set xs \<Longrightarrow> f y s = Inr s' \<Longrightarrow> Q s \<Longrightarrow> Q s'"
  shows "Q s'"
  using assms
proof (induction xs arbitrary: s)
  case (Cons y ys)
  from Cons.prems(1) obtain s1 where s1: "f y s = Inr s1" "fold (\<lambda>x r. bindE r (f x)) ys (Inr s1) = Inr s'"
    unfolding foldE_Cons by blast
  show ?case
  proof (cases "x = y")
    case True
    then have "Q s1" using s1(1) Cons.prems(3) by blast
    then show ?thesis using foldE_inv[OF s1(2), of Q] Cons.prems(4) by (meson list.set_intros)
  next
    case False
    then show ?thesis using Cons.IH[OF s1(2)] Cons.prems by (meson list.set_intros set_ConsD)
  qed
qed simp

section \<open>Cards of facts\<close>

definition call_of :: "prepared_action \<Rightarrow> string" where
  "call_of a = ab_execute_tool_call_id (frozen a)"

definition card_ok :: "jobj \<Rightarrow> bool" where
  "card_ok c \<longleftrightarrow> jget c ''ok'' = JBool True"

text \<open>What an entry for a factual action may say.\<close>

definition shown_to :: "access_env \<Rightarrow> tenant_row list \<Rightarrow> run_db \<Rightarrow> tenant_ctx \<Rightarrow> prepared_action \<Rightarrow> bool" where
  "shown_to env tenants db tc a \<longleftrightarrow> (\<exists>actor. load_live_user_authority (env_auth env) tenants tc = Inr actor \<and>
     authorize_result_projection env (action_view db) actor (ab_user_id (frozen a)) (action_lineage a) = Inr True)"

definition verified_success ::
    "access_env \<Rightarrow> tenant_row list \<Rightarrow> run_db \<Rightarrow> turn_facts \<Rightarrow> conversation \<Rightarrow> run_message \<Rightarrow> tenant_ctx \<Rightarrow> prepared_action \<Rightarrow> bool" where
  "verified_success env tenants db f cv src tc a \<longleftrightarrow> pa_status a = SUCCEEDED \<and> shown_to env tenants db tc a \<and>
     (\<exists>l. map_of (tf_logs f) (call_of a) = Some l \<and>
        validate_locked_terminal (env_hash env) a l tc (Some cv) (Some src) = Inr ())"

definition card_fact ::
    "access_env \<Rightarrow> tenant_row list \<Rightarrow> run_db \<Rightarrow> turn_facts \<Rightarrow> conversation \<Rightarrow> run_message \<Rightarrow> tenant_ctx \<Rightarrow> prepared_action \<Rightarrow>
     jobj option \<Rightarrow> bool" where
  "card_fact env tenants db f cv src tc a r \<longleftrightarrow> (case r of None \<Rightarrow> True | Some c \<Rightarrow> card_ok c \<longrightarrow>
     verified_success env tenants db f cv src tc a \<and> jget c ''result'' = stringify_large_ints (result_data a))"

definition entry_wf :: "string \<Rightarrow> jobj option \<Rightarrow> bool" where
  "entry_wf i r \<longleftrightarrow> (case r of None \<Rightarrow> True | Some c \<Rightarrow> card_id c = Some i \<and> distinct (map fst c))"

lemma bare_card_wf: "entry_wf i (Some (bare_card tool i))"
  by (simp add: entry_wf_def bare_card_def card_id_def jget_def)

lemma bare_card_not_ok: "\<not> card_ok (bare_card tool i)"
  by (simp add: card_ok_def bare_card_def jget_def)

lemma jget_jmerge: "distinct (map fst b) \<Longrightarrow>
    jget (jmerge a b) k = (case map_of b k of None \<Rightarrow> jget a k | Some v \<Rightarrow> v)"
  by (simp add: jget_def map_of_jmerge split: option.splits)

lemma filled_card_wf:
  assumes "distinct (map fst d)" "''tool_call_id'' \<notin> fst ` set d"
  shows "entry_wf i (Some (jmerge (bare_card tool i) d))"
proof -
  have "map_of d ''tool_call_id'' = None" using assms(2) by (simp add: map_of_eq_None_iff)
  then show ?thesis using bare_card_wf[of i tool] assms(1)
    by (simp add: entry_wf_def card_id_def jget_jmerge distinct_jmerge)
qed

lemma factual_fields_keys: "map fst (factual_fields tx a t) =
    [''ok'', ''result'', ''ui'', ''error_code'', ''error_msg'', ''duration_ms'', ''summary'', ''args'', ''trace_id'', ''risk'', ''chip_target'']"
  by (simp add: factual_fields_def Let_def)

lemma factual_card:
  "entry_wf i (Some (jmerge (bare_card tool i) (factual_fields tx a t)))"
  "jget (jmerge (bare_card tool i) (factual_fields tx a t)) ''ok'' = JBool (pa_status a = SUCCEEDED)"
  "pa_status a = SUCCEEDED \<Longrightarrow>
     jget (jmerge (bare_card tool i) (factual_fields tx a t)) ''result'' = stringify_large_ints (result_data a)"
proof -
  have d: "distinct (map fst (factual_fields tx a t))" by (simp add: factual_fields_keys)
  have "fst ` set (factual_fields tx a t) = set (map fst (factual_fields tx a t))" by simp
  then have "''tool_call_id'' \<notin> fst ` set (factual_fields tx a t)" unfolding factual_fields_keys by simp
  with d show "entry_wf i (Some (jmerge (bare_card tool i) (factual_fields tx a t)))" by (rule filled_card_wf)
  show "jget (jmerge (bare_card tool i) (factual_fields tx a t)) ''ok'' = JBool (pa_status a = SUCCEEDED)"
    unfolding jget_jmerge[OF d] by (simp add: factual_fields_def Let_def)
  show "pa_status a = SUCCEEDED \<Longrightarrow>
     jget (jmerge (bare_card tool i) (factual_fields tx a t)) ''result'' = stringify_large_ints (result_data a)"
    unfolding jget_jmerge[OF d] by (simp add: factual_fields_def Let_def)
qed

lemma card_state_simps [simp]:
  "cs_protected (put_card i c s) = AList.update i c (cs_protected s)" "cs_protected (doubt s) = cs_protected s"
  "cs_protected (keep_lineage l s) = cs_protected s"
  by (simp_all add: put_card_def doubt_def keep_lineage_def split: option.splits)

text \<open>An action sets the entry of its own call.\<close>

lemma action_card_entry:
  assumes "action_card env tenants tx db f cv src tc a s = Inr s'"
  shows "(if factual_action (tf_logs f) a
     then \<exists>r. cs_protected s' = AList.update (call_of a) r (cs_protected s) \<and> entry_wf (call_of a) r \<and>
        card_fact env tenants db f cv src tc a r
     else s' = s)"
proof (cases "factual_action (tf_logs f) a")
  case True
  let ?i = "call_of a" and ?base = "bare_card (ab_execute_tool_name (frozen a)) (call_of a)"
  have "\<exists>r. cs_protected s' = AList.update ?i r (cs_protected s) \<and> entry_wf ?i r \<and> card_fact env tenants db f cv src tc a r"
  proof (cases "action_verified (env_hash env) (tf_logs f) cv src tc a")
    case (Inl e)
    then obtain m where "e = BusinessRule m" using assms True by (cases e) (auto simp: action_card_def Let_def)
    then have "s' = doubt (put_card ?i (Some ?base) s)" using assms True Inl by (simp add: action_card_def Let_def call_of_def)
    moreover have "card_fact env tenants db f cv src tc a (Some ?base)" using bare_card_not_ok by (simp add: card_fact_def)
    ultimately show ?thesis using bare_card_wf[of ?i] by (intro exI[of _ "Some ?base"]) simp
  next
    case (Inr u)
    then consider (hidden) "s' = put_card ?i None s"
      | (shown) title where "s' = keep_lineage (action_lineage a)
          (put_card ?i (Some (jmerge ?base (factual_fields tx a title))) s)" "shown_to env tenants db tc a"
      using assms True unfolding shown_to_def by (auto simp: action_card_def Let_def bindE_eq_Inr call_of_def split: if_splits)
    then show ?thesis
    proof cases
      case hidden
      then show ?thesis by (intro exI[of _ None]) (simp add: entry_wf_def card_fact_def)
    next
      case (shown title)
      have "\<exists>l. map_of (tf_logs f) ?i = Some l \<and>
          validate_locked_terminal (env_hash env) a l tc (Some cv) (Some src) = Inr ()" if "pa_status a = SUCCEEDED"
        using Inr that by (auto simp: action_verified_def call_of_def split: option.splits if_splits)
      then have "card_fact env tenants db f cv src tc a (Some (jmerge ?base (factual_fields tx a title)))"
        using factual_card(2,3) shown(2) by (auto simp: card_fact_def card_ok_def verified_success_def)
      then show ?thesis using shown factual_card(1) by (intro exI[of _ "Some (jmerge ?base (factual_fields tx a title))"]) simp
    qed
  qed
  then show ?thesis using True by simp
qed (use assms in \<open>simp add: action_card_def Let_def\<close>)

text \<open>A log without an action sets the entry of its call.\<close>

lemma log_card_entry:
  assumes "log_card env tenants ck db f cv src tc (i, l) s = Inr s'"
  shows "s' = s \<or> i \<notin> call_of ` set (tf_actions f) \<and>
     (\<exists>r. map_of (cs_protected s') = (map_of (cs_protected s))(i \<mapsto> r) \<and> entry_wf i r \<and>
        (distinct (map fst (cs_protected s)) \<longrightarrow> distinct (map fst (cs_protected s'))))"
proof (cases "i \<in> set (map (\<lambda>a. ab_execute_tool_call_id (frozen a)) (tf_actions f)) \<or>
    log_readonly_snapshot l \<and> \<not> has_preflight_marker (log_summary l)")
  case False
  let ?base = "bare_card (al_tool_name l) i"
  let ?s1 = "put_card i (Some ?base) s"
  have new: "i \<notin> call_of ` set (tf_actions f)" using False by (auto simp: call_of_def)
  have put: "\<exists>r. map_of (cs_protected s2) = (map_of (cs_protected s))(i \<mapsto> r) \<and> entry_wf i r \<and>
      (distinct (map fst (cs_protected s)) \<longrightarrow> distinct (map fst (cs_protected s2)))"
    if "cs_protected s2 = AList.update i r (cs_protected ?s1)" "entry_wf i r" for r s2
    using that by (intro exI[of _ r]) (simp add: AList.update_conv' AList.distinct_update)
  consider (refused) "s' = put_card i (Some (jmerge ?base [(''ok'', JBool False), (''error_code'', jstr_opt (log_error_code l)),
             (''duration_ms'', jint_opt (al_duration_ms l))])) ?s1"
    | (doubted) "s' = doubt ?s1" | (hidden) "s' = put_card i None ?s1"
    | (shown) lin data ui where "s' = keep_lineage (Some lin) (put_card i (Some (jmerge ?base
                   [(''ok'', JBool True), (''error_code'', JNull), (''duration_ms'', jint_opt (al_duration_ms l)),
                    (''result'', data), (''ui'', ui)])) ?s1)"
    using assms False by (auto simp: log_card_def Let_def bindE_eq_Inr split: if_splits sum.splits)
  then show ?thesis
  proof cases
    case refused
    have "entry_wf i (Some (jmerge ?base [(''ok'', JBool False), (''error_code'', jstr_opt (log_error_code l)),
          (''duration_ms'', jint_opt (al_duration_ms l))]))" by (rule filled_card_wf) simp_all
    then show ?thesis using new put[of s'] refused by (intro disjI2 conjI) simp_all
  next
    case doubted
    then show ?thesis using new bare_card_wf[of i "al_tool_name l"]
      by (intro disjI2 conjI exI[of _ "Some ?base"]) (auto simp: AList.update_conv' AList.distinct_update)
  next
    case hidden
    then show ?thesis using new put[of s' None] by (simp add: entry_wf_def)
  next
    case shown
    have "entry_wf i (Some (jmerge ?base [(''ok'', JBool True), (''error_code'', JNull), (''duration_ms'', jint_opt (al_duration_ms l)),
          (''result'', data), (''ui'', ui)]))" by (rule filled_card_wf) simp_all
    then show ?thesis using new put[of s'] shown by (intro disjI2 conjI) simp_all
  qed
qed (use assms in \<open>simp add: log_card_def Let_def\<close>)

definition entries_ok ::
    "access_env \<Rightarrow> tenant_row list \<Rightarrow> run_db \<Rightarrow> turn_facts \<Rightarrow> conversation \<Rightarrow> run_message \<Rightarrow> tenant_ctx \<Rightarrow> card_state \<Rightarrow> bool" where
  "entries_ok env tenants db f cv src tc s \<longleftrightarrow> distinct (map fst (cs_protected s)) \<and>
     (\<forall>i r. map_of (cs_protected s) i = Some r \<longrightarrow> entry_wf i r) \<and>
     (\<forall>a \<in> set (tf_actions f). factual_action (tf_logs f) a \<longrightarrow>
        (\<forall>r. map_of (cs_protected s) (call_of a) = Some r \<longrightarrow> card_fact env tenants db f cv src tc a r))"

lemma action_keeps_entries:
  assumes d: "distinct (map call_of (tf_actions f))" and a: "a \<in> set (tf_actions f)"
    and st: "action_card env tenants tx db f cv src tc a s = Inr s'" and e: "entries_ok env tenants db f cv src tc s"
  shows "entries_ok env tenants db f cv src tc s'"
proof (cases "factual_action (tf_logs f) a")
  case True
  then obtain r where r: "cs_protected s' = AList.update (call_of a) r (cs_protected s)" "entry_wf (call_of a) r"
      "card_fact env tenants db f cv src tc a r" using action_card_entry[OF st] by auto
  have "card_fact env tenants db f cv src tc b r'"
    if "b \<in> set (tf_actions f)" "factual_action (tf_logs f) b" "map_of (cs_protected s') (call_of b) = Some r'" for b r'
  proof (cases "call_of b = call_of a")
    case True
    then have "b = a" using key_unique[OF d that(1) a] by simp
    then show ?thesis using that(3) r by (simp add: AList.update_conv')
  next
    case False
    then show ?thesis using that r(1) e by (simp add: AList.update_conv' entries_ok_def)
  qed
  then show ?thesis using r(1,2) e unfolding entries_ok_def
    by (auto simp: AList.update_conv' AList.distinct_update split: if_splits)
qed (use action_card_entry[OF st] e in simp)

lemma log_keeps_entries:
  assumes st: "log_card env tenants ck db f cv src tc il s = Inr s'" and e: "entries_ok env tenants db f cv src tc s"
  shows "entries_ok env tenants db f cv src tc s' \<and>
    (\<forall>a \<in> set (tf_actions f). map_of (cs_protected s') (call_of a) = map_of (cs_protected s) (call_of a))"
proof -
  obtain i l where il: "il = (i, l)" by (cases il)
  from log_card_entry[OF st[unfolded il]] show ?thesis
  proof (elim disjE conjE exE)
    fix r assume r: "i \<notin> call_of ` set (tf_actions f)" "map_of (cs_protected s') = (map_of (cs_protected s))(i \<mapsto> r)"
        "entry_wf i r" "distinct (map fst (cs_protected s)) \<longrightarrow> distinct (map fst (cs_protected s'))"
    have same: "map_of (cs_protected s') (call_of a) = map_of (cs_protected s) (call_of a)" if "a \<in> set (tf_actions f)" for a
      using r(1,2) imageI[OF that, of call_of] by auto
    then have "entries_ok env tenants db f cv src tc s'"
      using e r(2-4) unfolding entries_ok_def by auto
    then show ?thesis using same by blast
  qed (use e in simp)
qed

lemma protected_cards_facts:
  assumes d: "distinct (map call_of (tf_actions f))"
    and run: "protected_cards_of env tenants tx ck db f cv src tc = Inr s"
  shows "entries_ok env tenants db f cv src tc s"
    "a \<in> set (tf_actions f) \<Longrightarrow> factual_action (tf_logs f) a \<Longrightarrow> map_of (cs_protected s) (call_of a) \<noteq> None"
proof -
  let ?s0 = "\<lparr>cs_protected = [], cs_unknown = False, cs_lineages = []\<rparr>"
  let ?E = "entries_ok env tenants db f cv src tc"
  obtain s1 where s1: "fold (\<lambda>a r. bindE r (action_card env tenants tx db f cv src tc a)) (tf_actions f) (Inr ?s0) = Inr s1"
      "fold (\<lambda>il r. bindE r (log_card env tenants ck db f cv src tc il)) (tf_logs f) (Inr s1) = Inr s"
    using run unfolding protected_cards_of_def bindE_eq_Inr by blast
  have "?E ?s0" by (simp add: entries_ok_def)
  then have e1: "?E s1" using foldE_inv[OF s1(1), of ?E] action_keeps_entries[OF d] by blast
  show "?E s" using foldE_inv[OF s1(2), of ?E] e1 log_keeps_entries by blast
  assume a: "a \<in> set (tf_actions f)" "factual_action (tf_logs f) a"
  let ?Q = "\<lambda>s. map_of (cs_protected s) (call_of a) \<noteq> None"
  have "?Q s1"
  proof (rule foldE_hit[OF s1(1) a(1)])
    show "?Q s'" if "action_card env tenants tx db f cv src tc a s = Inr s'" for s s'
      using action_card_entry[OF that] a(2) by (auto simp: AList.update_conv')
    show "?Q s'" if "action_card env tenants tx db f cv src tc y s = Inr s'" "?Q s" for y s s'
      using action_card_entry[OF that(1)] that(2) by (auto simp: AList.update_conv' split: if_splits)
  qed
  then have "?E s \<and> ?Q s" using foldE_inv[OF s1(2), of "\<lambda>s. ?E s \<and> ?Q s"] e1 log_keeps_entries a(1) by metis
  then show "?Q s" by blast
qed

lemma entries_protected_wf: "entries_ok env tenants db f cv src tc s \<Longrightarrow> protected_wf (cs_protected s)"
  unfolding protected_wf_def entries_ok_def
proof (intro ballI, clarify)
  fix i r assume e: "distinct (map fst (cs_protected s))" "\<forall>i r. map_of (cs_protected s) i = Some r \<longrightarrow> entry_wf i r"
    and "(i, r) \<in> set (cs_protected s)"
  then have "map_of (cs_protected s) i = Some r" by (simp add: map_of_eq_Some_iff)
  then show "case r of None \<Rightarrow> True | Some c \<Rightarrow> card_id c = Some i \<and> distinct (map fst c)" using e(2) by (simp add: entry_wf_def)
qed

section \<open>Cards that are merged\<close>

lemma replace_card_named:
  assumes "protected_wf prot" "d \<in> set (replace_card prot c)" "distinct (map fst c)"
  shows "card_id d = card_id c" "distinct (map fst d)"
proof -
  have "card_id d = card_id c \<and> distinct (map fst d)"
  proof (cases "case card_id c of None \<Rightarrow> None | Some i \<Rightarrow> map_of prot i")
    case None
    then show ?thesis using assms(2,3) by (simp add: replace_card_def)
  next
    case (Some r)
    then obtain i where i: "card_id c = Some i" "map_of prot i = Some r" by (auto split: option.splits)
    then have r: "r = Some d" using assms(2) Some by (auto simp: replace_card_def split: option.splits)
    have "(i, Some d) \<in> set prot" using map_of_SomeD[OF i(2)] r by simp
    then show ?thesis using assms(1) i(1) by (auto simp: protected_wf_def)
  qed
  then show "card_id d = card_id c" "distinct (map fst d)" by blast+
qed

lemma replaced_cards_ok:
  assumes wf: "protected_wf prot" and ok: "cards_ok cs"
  shows "cards_ok (concat (map (replace_card prot) cs)) \<and>
    named ` set (concat (map (replace_card prot) cs)) \<subseteq> named ` set cs"
  using ok
proof (induction cs)
  case (Cons c cs)
  have c: "distinct (map fst c)" and cs: "cards_ok cs" using Cons.prems by (auto simp: cards_ok_Cons)
  note IH = Cons.IH[OF cs]
  have "replace_card prot c = [] \<or> (\<exists>d. replace_card prot c = [d])"
    unfolding replace_card_def by (cases "case card_id c of None \<Rightarrow> None | Some i \<Rightarrow> map_of prot i") (simp_all split: option.splits)
  then consider "replace_card prot c = []" | d where "replace_card prot c = [d]" by blast
  then show ?case
  proof cases
    case (2 d)
    then have d: "named d = named c" "distinct (map fst d)" using replace_card_named[OF wf _ c, of d] by (simp_all add: named_def)
    then show ?thesis using 2 IH Cons.prems by (auto simp: cards_ok_Cons)
  qed (use IH in auto)
qed (simp add: cards_ok_def)

lemma cards_of_replaced: "cards_of (replace_protected_cards x prot) = concat (map (replace_card prot) (cards_of x))"
  by (simp add: replace_protected_cards_def cards_of_def Let_def)

lemma replaced_turn_ok:
  assumes wf: "protected_wf prot" and ok: "turn_cards_ok cs"
  shows "turn_cards_ok (concat (map (replace_card prot) cs))"
proof -
  have r: "cards_ok (concat (map (replace_card prot) cs))" "named ` set (concat (map (replace_card prot) cs)) \<subseteq> named ` set cs"
    using replaced_cards_ok[OF wf] ok by (simp_all add: turn_cards_ok_def)
  have "named d \<noteq> None" if "d \<in> set (concat (map (replace_card prot) cs))" for d
  proof -
    have "named d \<in> named ` set cs" using r(2) that by blast
    then show ?thesis using ok by (auto simp: turn_cards_ok_def)
  qed
  with r(1) show ?thesis by (simp add: turn_cards_ok_def)
qed

lemma map_of_stringify: "map_of (stringify_card c) k = map_option stringify_large_ints (map_of c k)"
  by (induction c) (auto simp: stringify_card_def)

lemma stringify_keys: "map fst (stringify_card c) = map fst c"
  by (simp add: stringify_card_def)

lemma stringify_named: "named c = Some i \<Longrightarrow> named (stringify_card c) = Some i"
  by (simp add: named_iff map_of_stringify del: map_of_eq_Some_iff)

lemma stringify_turn_ok: "turn_cards_ok cs \<Longrightarrow> turn_cards_ok (map stringify_card cs)"
proof (induction cs)
  case (Cons c cs)
  have eq: "named (stringify_card x) = named x" if "named x \<noteq> None" for x using that stringify_named by fastforce
  have named: "named x \<noteq> None" if "x \<in> set (c # cs)" for x using Cons.prems that unfolding turn_cards_ok_def by blast
  have im: "named ` set (map stringify_card cs) = named ` set cs"
    unfolding set_map image_image using eq named by (intro image_cong refl) simp
  have "named (stringify_card c) = named c" using eq named by simp
  then show ?case using Cons im unfolding list.map turn_cards_Cons by (simp add: stringify_keys)
qed (simp add: turn_cards_ok_def cards_ok_def)

lemma merged_tool_calls:
  assumes "cards_ok (cards_of x)" "turn_cards_ok (cards_of y)"
  shows "cards_of (merge_tool_calls x y) = merged_cards (cards_of x) (cards_of y)"
  using merge_eq[OF assms] by (auto simp: merge_tool_calls_def merged_cards_def cards_of_def)

lemma merged_shows_protected:
  assumes wf: "protected_wf prot" and old: "cards_ok (cards_of old)" and new: "turn_cards_ok (cards_of new)"
  shows "shows_protected prot (cards_of (merge_tool_calls (replace_protected_cards old prot) (replace_protected_cards new prot)))"
    "cards_ok (cards_of (merge_tool_calls (replace_protected_cards old prot) (replace_protected_cards new prot)))"
proof -
  have ok: "cards_ok (cards_of (replace_protected_cards old prot))" "turn_cards_ok (cards_of (replace_protected_cards new prot))"
    using replaced_cards_ok[OF wf old] replaced_turn_ok[OF wf new] by (simp_all add: cards_of_replaced)
  show "shows_protected prot (cards_of (merge_tool_calls (replace_protected_cards old prot) (replace_protected_cards new prot)))"
    unfolding merged_tool_calls[OF ok] by (rule merged_shows[OF wf replaced_shows[OF wf] replaced_shows[OF wf] ok(2)])
  show "cards_ok (cards_of (merge_tool_calls (replace_protected_cards old prot) (replace_protected_cards new prot)))"
    unfolding merged_tool_calls[OF ok] by (rule merged_ok[OF ok])
qed

section \<open>What is written\<close>

lemma write_turnE:
  assumes "write_turn h tx db db1 mid ta tc s content cards lin = Inr (Some m', db')"
  obtains d m l where "d = db \<and> m \<in> set (rd_messages db) \<or>
      d = db1\<lparr>rd_messages := insert_turn_message (rd_messages db1) (new_turn_message mid tc ta content cards lin)\<rparr> \<and>
      (m \<in> set (rd_messages db1) \<or> m = new_turn_message mid tc ta content cards lin)"
    "m \<in> set (rd_messages d)"
    "is_turn_message (tc_tenant tc) (ta_conversation ta) (ta_trace ta) m" "stored_lineage h tc m lin = Inr l"
    "m' = merge_turn_message tx ta s content cards l m"
    "db' = d\<lparr>rd_messages := map (\<lambda>x. if ms_id x = ms_id m then m' else x) (rd_messages d)\<rparr>"
proof -
  let ?mine = "is_turn_message (tc_tenant tc) (ta_conversation ta) (ta_trace ta)"
  let ?d = "db1\<lparr>rd_messages := insert_turn_message (rd_messages db1) (new_turn_message mid tc ta content cards lin)\<rparr>"
  show ?thesis
  proof (cases "find ?mine (rd_messages db)")
    case (Some m)
    then show ?thesis using assms find_hit[OF Some] that[of db m]
      by (auto simp: write_turn_def Let_def bindE_eq_Inr)
  next
    case None
    then obtain m where m: "find ?mine (rd_messages ?d) = Some m"
      using assms by (auto simp: write_turn_def Let_def split: if_splits option.splits)
    have "m \<in> set (rd_messages db1) \<or> m = new_turn_message mid tc ta content cards lin"
      using find_hit[OF m] by (auto simp: insert_turn_message_def split: if_splits)
    then show ?thesis using assms None m find_hit[OF m] that[of ?d m]
      by (auto simp: write_turn_def Let_def bindE_eq_Inr split: if_splits)
  qed
qed

lemma merged_fields [simp]:
  "ms_id (merge_turn_message tx ta s content cards l m) = ms_id m"
  "ms_conversation (merge_turn_message tx ta s content cards l m) = ms_conversation m"
  "ms_role (merge_turn_message tx ta s content cards l m) = ms_role m"
  "ms_active (merge_turn_message tx ta s content cards l m) = ms_active m"
  "rm_trace (merge_turn_message tx ta s content cards l m) = rm_trace m"
  "ms_tenant (merge_turn_message tx ta s content cards l m) = (case l of None \<Rightarrow> ms_tenant m | Some x \<Rightarrow> ln_tenant_id x)"
  "rm_tool_calls (merge_turn_message tx ta s content cards l m) =
     merge_tool_calls (replace_protected_cards (rm_tool_calls m) (cs_protected s)) cards"
  by (simp_all add: merge_turn_message_def Let_def split: option.splits)

end
