(* ===== verification/Chat_Finalizer_Props.thy ===== *)
theory Chat_Finalizer_Props
  imports Chat_Finalizer_Facts Projection_Access_Props Prepared_Protocol
begin

text \<open>Properties of the assistant message that ends a turn.\<close>

section \<open>Tenants of lineages\<close>

lemma freeze_tenant: "freeze_lineage h t agent codes refs sh v deps = Inr l \<Longrightarrow> ln_tenant_id l = t"
  by (auto simp: freeze_lineage_def bindE_eq_Inr)

lemma join_tenant: "join_lineages h tc v a b = Inr l \<Longrightarrow> ln_tenant_id l = tc_tenant tc"
  unfolding join_lineages_def by (rule freeze_tenant)

definition lineage_here :: "tenant_ctx \<Rightarrow> lineage option \<Rightarrow> bool" where
  "lineage_here tc l \<longleftrightarrow> (case l of None \<Rightarrow> True | Some x \<Rightarrow> ln_tenant_id x = tc_tenant tc)"

lemma keep_lineage_set: "set (cs_lineages (keep_lineage l s)) = set (cs_lineages s) \<union> set_option l"
  by (auto simp: keep_lineage_def split: option.splits)

lemma put_doubt_lineages [simp]: "cs_lineages (put_card i c s) = cs_lineages s" "cs_lineages (doubt s) = cs_lineages s"
  by (simp_all add: put_card_def doubt_def)

lemma action_lineage_tenant: "action_lineage a = Some l \<Longrightarrow> ln_tenant_id l = ab_tenant_id (frozen a)"
  by (auto simp: action_lineage_def lineage_from_record_def split: option.splits sum.splits if_splits)

lemma verified_tenant: "action_verified h logs cv src tc a = Inr u \<Longrightarrow> ab_tenant_id (frozen a) = tc_tenant tc"
  by (auto simp: action_verified_def validate_locked_terminal_def validate_locked_unexecuted_terminal_def check_principal_def
      unexecuted_complete_def bindE_eq_Inr split: option.splits if_splits)

definition lineages_here :: "tenant_ctx \<Rightarrow> card_state \<Rightarrow> bool" where
  "lineages_here tc s \<longleftrightarrow> (\<forall>l \<in> set (cs_lineages s). ln_tenant_id l = tc_tenant tc)"

lemma action_card_lineages:
  assumes "action_card env tenants tx db f cv src tc a s = Inr s'" "lineages_here tc s"
  shows "lineages_here tc s'"
proof (cases "factual_action (tf_logs f) a")
  case True
  show ?thesis
  proof (cases "action_verified (env_hash env) (tf_logs f) cv src tc a")
    case (Inl e)
    then show ?thesis using assms True by (cases e) (auto simp: action_card_def Let_def lineages_here_def)
  next
    case (Inr u)
    have "ln_tenant_id l = tc_tenant tc" if "action_lineage a = Some l" for l
      using action_lineage_tenant[OF that] verified_tenant[OF Inr] by simp
    then show ?thesis using assms True Inr
      by (auto simp: action_card_def Let_def lineages_here_def bindE_eq_Inr keep_lineage_set split: if_splits)
  qed
qed (use assms in \<open>simp add: action_card_def Let_def\<close>)

lemma preview_tenant: "preview_lineage h l audit tc = Inr x \<Longrightarrow> ln_tenant_id x = tc_tenant tc"
  by (auto simp: preview_lineage_def dest: freeze_tenant split: if_splits)

lemma log_card_lineages:
  assumes "log_card env tenants ck db f cv src tc il s = Inr s'" "lineages_here tc s"
  shows "lineages_here tc s'"
  using assms
  by (auto simp: log_card_def Let_def lineages_here_def bindE_eq_Inr keep_lineage_set preview_tenant
      split: if_splits prod.splits sum.splits)

lemma protected_lineages:
  assumes "protected_cards_of env tenants tx ck db f cv src tc = Inr s"
  shows "lineages_here tc s"
proof -
  obtain s1 where s1: "fold (\<lambda>a r. bindE r (action_card env tenants tx db f cv src tc a)) (tf_actions f)
        (Inr \<lparr>cs_protected = [], cs_unknown = False, cs_lineages = []\<rparr>) = Inr s1"
      "fold (\<lambda>il r. bindE r (log_card env tenants ck db f cv src tc il)) (tf_logs f) (Inr s1) = Inr s"
    using assms unfolding protected_cards_of_def bindE_eq_Inr by blast
  have "lineages_here tc \<lparr>cs_protected = [], cs_unknown = False, cs_lineages = []\<rparr>" by (simp add: lineages_here_def)
  then have "lineages_here tc s1" by (rule foldE_inv[OF s1(1)]) (rule action_card_lineages)
  then show ?thesis by (rule foldE_inv[OF s1(2)]) (rule log_card_lineages)
qed

lemma turn_lineage_tenant:
  assumes "turn_lineage h tc ls lin = Inr lin'" "\<forall>l \<in> set ls. ln_tenant_id l = tc_tenant tc" "lineage_here tc lin"
  shows "lineage_here tc lin'"
proof -
  have "lineage_here tc y'" if "x \<in> set ls" "add_factual h tc x y = Inr y'" "lineage_here tc y" for x y y'
    using that assms(2) by (auto simp: add_factual_def lineage_here_def bindE_eq_Inr dest: join_tenant split: option.splits if_splits)
  then show ?thesis using foldE_inv[OF assms(1)[unfolded turn_lineage_def], where P = "lineage_here tc"] assms(3) by blast
qed

lemma stored_lineage_tenant: "stored_lineage h tc m lin = Inr l \<Longrightarrow> lineage_here tc lin \<Longrightarrow> lineage_here tc l"
  by (auto simp: stored_lineage_def lineage_here_def bindE_eq_Inr dest: join_tenant split: option.splits if_splits)

section \<open>One answer per turn\<close>

definition answer_key :: "run_message \<Rightarrow> int \<times> int \<times> string option" where
  "answer_key m = (ms_tenant m, ms_conversation m, rm_trace m)"

definition is_answer :: "run_message \<Rightarrow> bool" where
  "is_answer m \<longleftrightarrow> ms_role m = ''assistant'' \<and> rm_trace m \<noteq> None"

text \<open>The primary key and the partial unique index of the messages.\<close>

definition messages_ok :: "run_message list \<Rightarrow> bool" where
  "messages_ok ms \<longleftrightarrow> distinct (map ms_id ms) \<and> distinct (map answer_key (filter is_answer ms))"

lemma messages_ok_insert:
  assumes "messages_ok ms" "ms_id m \<notin> ms_id ` set ms" "ms_role m = ''assistant''" "rm_trace m \<noteq> None"
  shows "messages_ok (insert_turn_message ms m)"
  using assms by (auto simp: insert_turn_message_def messages_ok_def is_answer_def answer_key_def)

lemma messages_ok_update:
  assumes ok: "messages_ok ms" and m: "m \<in> set ms"
    and same: "ms_id m' = ms_id m" "answer_key m' = answer_key m" "is_answer m' = is_answer m"
  shows "messages_ok (map (\<lambda>x. if ms_id x = ms_id m then m' else x) ms)"
proof -
  let ?f = "\<lambda>x. if ms_id x = ms_id m then m' else x"
  have only: "x = m" if "x \<in> set ms" "ms_id x = ms_id m" for x
    using ok that m by (intro key_unique[where f = ms_id]) (auto simp: messages_ok_def)
  have k: "ms_id (?f x) = ms_id x" "answer_key (?f x) = answer_key x" "is_answer (?f x) = is_answer x" if "x \<in> set ms" for x
    using only[OF that] same by auto
  have "map ms_id (map ?f ms) = map ms_id ms" unfolding map_map comp_def using k(1) by (intro map_cong refl)
  moreover have "filter is_answer (map ?f ms) = map ?f (filter is_answer ms)"
    using k(3) by (simp add: filter_map comp_def cong: filter_cong)
  then have "map answer_key (filter is_answer (map ?f ms)) = map answer_key (filter is_answer ms)"
    using k(2) by simp
  ultimately show ?thesis using ok unfolding messages_ok_def by argo
qed

lemma turn_message_answer: "is_turn_message t conv trace m \<Longrightarrow> is_answer m"
  by (simp add: is_turn_message_def is_answer_def)

lemma distinct_turn_calls:
  assumes "distinct (map call_key (rd_actions db))" "turn_facts_of db ta tc prepared = Inr f"
  shows "distinct (map call_of (tf_actions f))"
proof (cases prepared)
  case None
  let ?P = "\<lambda>a. ab_tenant_id (frozen a) = tc_tenant tc \<and> ab_conversation_id (frozen a) = ta_conversation ta \<and>
      ab_source_message_id (frozen a) = ta_source ta \<and> ab_trace_id (frozen a) = ta_trace ta"
  have f: "tf_actions f = sort_key action_id (filter ?P (rd_actions db))"
    using assms(2) None by (auto simp: turn_facts_of_def lock_projection_facts_def Let_def)
  have "distinct (filter ?P (rd_actions db))" "inj_on call_of (set (filter ?P (rd_actions db)))"
    using assms(1) by (auto simp: distinct_map inj_on_def call_key_def call_of_def)
  then show ?thesis unfolding f by (simp add: distinct_map)
next
  case (Some p)
  then show ?thesis using assms(2)
    by (cases p) (auto simp: turn_facts_of_def prepared_facts_def Let_def split: option.splits if_splits)
qed

lemma new_message_fields:
  "ms_id (new_turn_message mid tc ta content cards lin) = mid"
  "ms_role (new_turn_message mid tc ta content cards lin) = ''assistant''"
  "rm_trace (new_turn_message mid tc ta content cards lin) = Some (ta_trace ta)"
  "ms_tenant (new_turn_message mid tc ta content cards lin) = tc_tenant tc"
  "ms_conversation (new_turn_message mid tc ta content cards lin) = ta_conversation ta"
  "cards_of (rm_tool_calls (new_turn_message mid tc ta content cards lin)) = cards_of cards"
  by (simp_all add: new_turn_message_def cards_of_def split: option.splits)

lemma finalizeE:
  assumes "finalize_assistant_turn env tenants tx ck db db1 mid ta tc prepared = Inr (r, db')"
  obtains (closed) "r = None" "db' = db"
  | (written) f cv src s lin where "turn_facts_of db ta tc prepared = Inr f" "turn_open f ta tc = Some (cv, src)"
      "protected_cards_of env tenants tx ck db f cv src tc = Inr s" "lineage_here tc lin"
      "write_turn (env_hash env) tx db db1 mid ta tc s (turn_content tx s (ta_content ta))
        (replace_protected_cards (map_option (map stringify_card) (ta_tool_calls ta)) (cs_protected s)) lin = Inr (r, db')"
proof -
  have g: "lineage_here tc (ta_lineage ta)"
    using assms by (auto simp: finalize_assistant_turn_def lineage_here_def split: option.splits if_splits)
  then obtain f where f: "turn_facts_of db ta tc prepared = Inr f"
    using assms by (auto simp: finalize_assistant_turn_def bindE_eq_Inr split: if_splits)
  show ?thesis
  proof (cases "turn_open f ta tc")
    case None
    then show ?thesis using assms f closed by (auto simp: finalize_assistant_turn_def split: if_splits)
  next
    case (Some p)
    obtain cv src where p: "p = (cv, src)" by (cases p)
    obtain s lin where s: "protected_cards_of env tenants tx ck db f cv src tc = Inr s"
        "turn_lineage (env_hash env) tc (cs_lineages s) (ta_lineage ta) = Inr lin"
        "write_turn (env_hash env) tx db db1 mid ta tc s (turn_content tx s (ta_content ta))
          (replace_protected_cards (map_option (map stringify_card) (ta_tool_calls ta)) (cs_protected s)) lin = Inr (r, db')"
      using assms f Some p by (auto simp: finalize_assistant_turn_def bindE_eq_Inr split: if_splits)
    have "lineage_here tc lin"
      using turn_lineage_tenant[OF s(2) _ g] protected_lineages[OF s(1)] by (simp add: lineages_here_def)
    then show ?thesis using written f Some p s by blast
  qed
qed

text \<open>What a transaction on \<open>base\<close> leaves as it was.\<close>

definition answer_only :: "tenant_ctx \<Rightarrow> turn_args \<Rightarrow> run_db \<Rightarrow> run_db \<Rightarrow> bool" where
  "answer_only tc ta base db' \<longleftrightarrow> rd_actions db' = rd_actions base \<and> rd_logs db' = rd_logs base \<and>
     rd_conversations db' = rd_conversations base \<and>
     {x \<in> set (rd_messages db'). \<not> is_turn_message (tc_tenant tc) (ta_conversation ta) (ta_trace ta) x} =
     {x \<in> set (rd_messages base). \<not> is_turn_message (tc_tenant tc) (ta_conversation ta) (ta_trace ta) x}"

lemma answer_only_refl [simp]: "answer_only tc ta db db"
  by (simp add: answer_only_def)

lemma inserted_answer_only: "answer_only tc ta db
    (db\<lparr>rd_messages := insert_turn_message (rd_messages db) (new_turn_message mid tc ta content cards lin)\<rparr>)"
  by (auto simp: answer_only_def insert_turn_message_def is_turn_message_def new_message_fields)

lemma updated_answer_only:
  assumes "messages_ok (rd_messages d)" "m0 \<in> set (rd_messages d)"
    and "is_turn_message (tc_tenant tc) (ta_conversation ta) (ta_trace ta) m0" "is_turn_message (tc_tenant tc) (ta_conversation ta) (ta_trace ta) m"
    and "answer_only tc ta base d"
  shows "answer_only tc ta base (d\<lparr>rd_messages := map (\<lambda>x. if ms_id x = ms_id m0 then m else x) (rd_messages d)\<rparr>)"
    "m \<in> set (map (\<lambda>x. if ms_id x = ms_id m0 then m else x) (rd_messages d))"
proof -
  have only: "x = m0" if "x \<in> set (rd_messages d)" "ms_id x = ms_id m0" for x
    using assms(1,2) that by (intro key_unique[where f = ms_id]) (auto simp: messages_ok_def)
  have rows: "set (map (\<lambda>x. if ms_id x = ms_id m0 then m else x) (rd_messages d)) = insert m (set (rd_messages d) - {m0})"
    using only assms(2) by auto
  then show "m \<in> set (map (\<lambda>x. if ms_id x = ms_id m0 then m else x) (rd_messages d))" by simp
  let ?d = "d\<lparr>rd_messages := map (\<lambda>x. if ms_id x = ms_id m0 then m else x) (rd_messages d)\<rparr>"
    and ?T = "is_turn_message (tc_tenant tc) (ta_conversation ta) (ta_trace ta)"
  have set: "set (rd_messages ?d) = insert m (set (rd_messages d) - {m0})" using rows by simp
  have "{x \<in> set (rd_messages ?d). \<not> ?T x} = {x \<in> set (rd_messages d). \<not> ?T x}"
    unfolding set using assms(3,4) by auto
  then show "answer_only tc ta base ?d" using assms(5) by (simp add: answer_only_def)
qed

lemma write_turn_answer:
  assumes run: "write_turn h tx db db1 mid ta tc s content cards lin = Inr (Some m, db')" and lin: "lineage_here tc lin"
    and ok: "messages_ok (rd_messages db)" "messages_ok (rd_messages db1)" "mid \<notin> ms_id ` set (rd_messages db1)"
  shows "messages_ok (rd_messages db')" "\<exists>base \<in> {db, db1}. answer_only tc ta base db'" "m \<in> set (rd_messages db')"
    "is_turn_message (tc_tenant tc) (ta_conversation ta) (ta_trace ta) m"
proof -
  let ?new = "new_turn_message mid tc ta content cards lin"
  from run obtain d m0 l where d: "d = db \<or> d = db1\<lparr>rd_messages := insert_turn_message (rd_messages db1) ?new\<rparr>"
      "m0 \<in> set (rd_messages d)" "is_turn_message (tc_tenant tc) (ta_conversation ta) (ta_trace ta) m0"
      "stored_lineage h tc m0 lin = Inr l" "m = merge_turn_message tx ta s content cards l m0"
      "db' = d\<lparr>rd_messages := map (\<lambda>x. if ms_id x = ms_id m0 then m else x) (rd_messages d)\<rparr>"
    by (rule write_turnE) blast
  have "lineage_here tc l" by (rule stored_lineage_tenant[OF d(4) lin])
  then have "(case l of None \<Rightarrow> ms_tenant m0 | Some x \<Rightarrow> ln_tenant_id x) = ms_tenant m0"
    using d(3) by (simp add: is_turn_message_def lineage_here_def split: option.splits)
  then have m: "ms_id m = ms_id m0" "answer_key m = answer_key m0" "is_answer m = is_answer m0"
      "is_turn_message (tc_tenant tc) (ta_conversation ta) (ta_trace ta) m"
    using d(3) unfolding d(5) by (simp_all add: answer_key_def is_answer_def is_turn_message_def)
  have dok: "messages_ok (rd_messages d)"
    using d(1) ok(1) messages_ok_insert[OF ok(2), of ?new] ok(3) by (auto simp: new_message_fields)
  obtain base where base: "base \<in> {db, db1}" "answer_only tc ta base d"
    using d(1) inserted_answer_only by (metis answer_only_refl insert_iff)
  note upd = updated_answer_only[OF dok d(2,3) m(4) base(2), folded d(6)]
  show "\<exists>base \<in> {db, db1}. answer_only tc ta base db'" using base(1) upd(1) by blast
  show "m \<in> set (rd_messages db')" using upd(2) unfolding d(6) by simp
  show "messages_ok (rd_messages db')" using messages_ok_update[OF dok d(2) m(1-3)] unfolding d(6) by simp
  show "is_turn_message (tc_tenant tc) (ta_conversation ta) (ta_trace ta) m" by (fact m(4))
qed

section \<open>Properties\<close>

text \<open>Property C27: a stored answer never claims a success that did not happen. Whoever ends a turn and
  whatever cards the stream collected or an earlier writer stored, a card of the message for the
  call of a protected action of the turn says \<open>ok\<close> only when that action is stored as succeeded with a
  complete and unannotated log that the restart check accepts, and the actor is still authorized to
  see its result; the result shown is then the stored one.\<close>

theorem stored_success_is_verified:
  assumes "finalize_assistant_turn env tenants tx ck db db1 mid ta tc prepared = Inr (Some m, db')"
    and "distinct (map call_key (rd_actions db))"
    and "\<forall>x \<in> set (rd_messages db) \<union> set (rd_messages db1). cards_ok (cards_of (rm_tool_calls x))"
    and "turn_cards_ok (cards_of (ta_tool_calls ta))"
    and "turn_facts_of db ta tc prepared = Inr f" "a \<in> set (tf_actions f)" "factual_action (tf_logs f) a"
    and "c \<in> set (cards_of (rm_tool_calls m))" "card_id c = Some (call_of a)" "card_ok c"
  shows "(\<exists>cv src. turn_open f ta tc = Some (cv, src) \<and> verified_success env tenants db f cv src tc a) \<and>
    jget c ''result'' = stringify_large_ints (result_data a)"
proof -
  from assms(1) obtain f' cv src s lin where w: "turn_facts_of db ta tc prepared = Inr f'"
      "turn_open f' ta tc = Some (cv, src)" "protected_cards_of env tenants tx ck db f' cv src tc = Inr s"
      "write_turn (env_hash env) tx db db1 mid ta tc s (turn_content tx s (ta_content ta))
        (replace_protected_cards (map_option (map stringify_card) (ta_tool_calls ta)) (cs_protected s)) lin = Inr (Some m, db')"
    by (rule finalizeE) simp_all
  let ?new = "map_option (map stringify_card) (ta_tool_calls ta)" and ?prot = "cs_protected s"
  have f: "f' = f" using w(1) assms(5) by simp
  note d = distinct_turn_calls[OF assms(2,5)]
  note e = protected_cards_facts[OF d w(3)[unfolded f]]
  have wf: "protected_wf ?prot" by (rule entries_protected_wf[OF e(1)])
  have turn: "turn_cards_ok (cards_of ?new)"
    using stringify_turn_ok[OF assms(4)] by (cases "ta_tool_calls ta") (simp_all add: cards_of_def)
  from w(4) obtain d0 m0 l where m0: "m0 \<in> set (rd_messages db) \<or> m0 \<in> set (rd_messages db1) \<or>
        m0 = new_turn_message mid tc ta (turn_content tx s (ta_content ta)) (replace_protected_cards ?new ?prot) lin"
      "m = merge_turn_message tx ta s (turn_content tx s (ta_content ta)) (replace_protected_cards ?new ?prot) l m0"
    by (rule write_turnE) blast
  have "cards_ok (cards_of (rm_tool_calls m0))"
  proof (cases "m0 \<in> set (rd_messages db) \<union> set (rd_messages db1)")
    case False
    then have "cards_of (rm_tool_calls m0) = concat (map (replace_card ?prot) (cards_of ?new))"
      using m0(1) new_message_fields(6) cards_of_replaced by fastforce
    then show ?thesis using replaced_turn_ok[OF wf turn] by (simp add: turn_cards_ok_def)
  qed (use assms(3) in blast)
  then have "shows_protected ?prot (cards_of (rm_tool_calls m))"
    using merged_shows_protected(1)[OF wf _ turn] by (simp add: m0(2))
  then have "map_of ?prot (call_of a) \<in> {None, Some (Some c)}" using assms(8,9) by (auto simp: shows_protected_def)
  then have "map_of ?prot (call_of a) = Some (Some c)" using e(2)[OF assms(6,7)] by simp
  then have "card_fact env tenants db f cv src tc a (Some c)"
    using e(1) assms(6,7) unfolding entries_ok_def by blast
  then show ?thesis using assms(10) w(2) f by (auto simp: card_fact_def)
qed

text \<open>Property C28: ending a turn writes one row. When the message ids and the run index are unique, the
  finalizer keeps them so, changes no action, log or conversation and no message but the answer of
  its own conversation and trace, which it creates once or merges into; and it writes at all only
  for a live conversation of the actor whose active user message carries the trace.\<close>

theorem turn_has_one_answer:
  assumes "finalize_assistant_turn env tenants tx ck db db1 mid ta tc prepared = Inr (r, db')"
    and "messages_ok (rd_messages db)" "messages_ok (rd_messages db1)" "mid \<notin> ms_id ` set (rd_messages db1)"
  shows "messages_ok (rd_messages db') \<and> (\<exists>base \<in> {db, db1}. answer_only tc ta base db' \<and> (r = None \<longrightarrow> db' = base)) \<and>
    (case r of None \<Rightarrow> True | Some m \<Rightarrow> m \<in> set (rd_messages db') \<and>
       is_turn_message (tc_tenant tc) (ta_conversation ta) (ta_trace ta) m \<and>
       (\<exists>f cv src. turn_facts_of db ta tc prepared = Inr f \<and> turn_open f ta tc = Some (cv, src)))"
  using assms(1)
proof (cases rule: finalizeE)
  case closed
  then show ?thesis using assms(2) by auto
next
  case (written f cv src s lin)
  show ?thesis
  proof (cases r)
    case None
    then have "db' = db1" using written(5) by (auto simp: write_turn_def Let_def bindE_eq_Inr split: option.splits if_splits)
    then show ?thesis using None assms(3) by auto
  next
    case (Some m)
    note w = write_turn_answer[OF written(5)[unfolded Some] written(4) assms(2-4)]
    show ?thesis using w written(1,2) Some by auto
  qed
qed

section \<open>A finished import\<close>

definition turn_env :: access_env where
  "turn_env = demo_env\<lparr>env_auth := demo_agent_db\<lparr>rows_users := [demo_user], rows_roles := user_roles demo_viewer,
     links_roles := [(1, 7, 4)]\<rparr>\<rparr>"

definition turn_ctx :: tenant_ctx where
  "turn_ctx = \<lparr>tc_tenant = 1, tc_actor = 7, tc_version = 1, tc_code = ''t1'', tc_source = ''access_token''\<rparr>"

definition turn_action :: prepared_action where
  "turn_action = demo_pending\<lparr>
     frozen := (frozen demo_pending)\<lparr>ab_presentation := JObj [(''title'', JStr ''import'')], ab_snapshot := Some [],
       ab_args_hash := ''h'', ab_snapshot_hash := ''h''\<rparr>,
     pa_projection := lineage_columns (demo_lineage\<lparr>ln_dependency_ids := []\<rparr>), pa_status := SUCCEEDED, row_version := 4,
     approved_by := Some 7, approved_at := Some 10, finished_at := Some 60, result_data := JInt 3\<rparr>"

definition turn_log :: audit_log where
  "turn_log = \<lparr>log_id = 11, log_tenant = 1, log_user = 7, log_conversation = 5, log_tool_call_id = ''call-1'',
     log_status = ''success'', log_summary = None, log_readonly_snapshot = False, log_source_message = Some 6,
     log_error_code = None, al_trace = ''tr'', al_agent_code = Some ''user_mgmt'', al_target_summary = None,
     al_tool_name = ''user.import_execute'', al_args_hash = ''h'', al_execution_mode = ''hitl'',
     al_confirmation_id = Some ''conf-1'', al_approved_by = Some 7, al_queued_at = 9, al_started_at = Some 20,
     al_finished_at = Some 60, al_duration_ms = None, al_hitl_wait_ms = None\<rparr>"

definition turn_db :: run_db where
  "turn_db = \<lparr>rd_actions = [turn_action], rd_logs = [turn_log],
     rd_conversations = [\<lparr>cv_id = 5, cv_tenant = 1, cv_user = 7, cv_deleted_at = None\<rparr>],
     rd_messages = [\<lparr>ms_id = 6, ms_tenant = 1, ms_conversation = 5, ms_role = ''user'', ms_active = True,
       ms_agent_code = None, ms_projection = lineage_values None None, rm_parent = None, rm_content = None,
       rm_tool_calls = None, rm_trace = Some ''tr''\<rparr>]\<rparr>"

definition turn_demo :: turn_args where
  "turn_demo = \<lparr>ta_conversation = 5, ta_trace = ''tr'', ta_source = 6, ta_content = ''imported'',
     ta_tool_calls = Some [[(''tool'', JStr ''user.import_execute''), (''tool_call_id'', JStr ''call-1''),
       (''ok'', JBool True), (''result'', JInt 99)]],
     ta_agent_code = Some ''user_mgmt'', ta_lineage = None, ta_dependency_ids = []\<rparr>"

definition no_turn_checks :: turn_checks where
  "no_turn_checks = \<lparr>tk_preflight = (\<lambda>_ _ _ _ _. False), tk_preview = (\<lambda>_ _ _ _ _. Inl (BusinessRule []))\<rparr>"

definition turn_result :: "(run_message option \<times> run_db) res" where
  "turn_result = finalize_assistant_turn turn_env [\<lparr>tn_id = 1, tn_version = 1, tn_status = ''1''\<rparr>]
     \<lparr>tx_notice = ''wait'', tx_unknown_suffix = ''(u)'', tx_cancelled = ''c'', tx_expired = ''e'', tx_rolled_back = ''r''\<rparr>
     no_turn_checks turn_db turn_db 20 turn_demo turn_ctx None"

lemma turn_runs: "case turn_result of Inr (Some m, db') \<Rightarrow>
    list_ex (\<lambda>c. card_id c = Some ''call-1'' \<and> jget c ''ok'' = JBool True) (cards_of (rm_tool_calls m)) | _ \<Rightarrow> False"
  by code_simp

lemma turn_written:
  obtains m db' c where "turn_result = Inr (Some m, db')" "c \<in> set (cards_of (rm_tool_calls m))"
    "card_id c = Some ''call-1''" "card_ok c"
  using turn_runs by (auto simp: list_ex_iff card_ok_def split: sum.splits option.splits prod.splits)

lemma turn_demo_facts:
  "distinct (map call_key (rd_actions turn_db))" "messages_ok (rd_messages turn_db)"
  "\<forall>x \<in> set (rd_messages turn_db) \<union> set (rd_messages turn_db). cards_ok (cards_of (rm_tool_calls x))"
  "turn_cards_ok (cards_of (ta_tool_calls turn_demo))" "20 \<notin> ms_id ` set (rd_messages turn_db)"
  by (simp_all add: turn_db_def messages_ok_def cards_ok_def cards_of_def turn_cards_ok_def turn_demo_def named_def card_id_def
      jget_def is_answer_def)

lemma turn_demo_action:
  "turn_action \<in> set (tf_actions (lock_projection_facts turn_db 5 6 ''tr'' turn_ctx))"
  "factual_action logs turn_action" "call_of turn_action = ''call-1''"
  by (simp_all add: lock_projection_facts_def Let_def turn_db_def turn_ctx_def turn_action_def demo_pending_def pending_row_def
      factual_action_def FILE_TOOLS_def call_of_def)

theorem stored_success_is_verified_witness:
  "\<exists>m db' c. turn_result = Inr (Some m, db') \<and> c \<in> set (cards_of (rm_tool_calls m)) \<and> card_ok c \<and>
     jget c ''result'' = JInt 3"
proof -
  obtain m db' c where w: "turn_result = Inr (Some m, db')" "c \<in> set (cards_of (rm_tool_calls m))"
      "card_id c = Some ''call-1''" "card_ok c" by (rule turn_written)
  have f: "turn_facts_of turn_db turn_demo turn_ctx None = Inr (lock_projection_facts turn_db 5 6 ''tr'' turn_ctx)"
    by (simp add: turn_facts_of_def turn_demo_def)
  have "card_id c = Some (call_of turn_action)" using w(3) turn_demo_action(3) by simp
  from stored_success_is_verified[OF w(1)[unfolded turn_result_def] turn_demo_facts(1,3,4) f turn_demo_action(1,2) w(2) this w(4)]
  have "jget c ''result'' = JInt 3" by (simp add: turn_action_def JS_MAX_SAFE_INT_def)
  with w show ?thesis by blast
qed

theorem turn_has_one_answer_witness:
  "\<exists>m db'. turn_result = Inr (Some m, db') \<and> messages_ok (rd_messages db') \<and> m \<in> set (rd_messages db')"
proof -
  obtain m db' where w: "turn_result = Inr (Some m, db')" by (rule turn_written)
  from turn_has_one_answer[OF w[unfolded turn_result_def] turn_demo_facts(2,2,5)] w show ?thesis by auto
qed

text \<open>When the facts of a turn are verified at last, the notice leaves the stored text but the lines that
  name its calls stay.\<close>

lemma call_lines_stay:
  "str_in (notice_line ''call-1'') (resolved_text
     \<lparr>tx_notice = ''wait'', tx_unknown_suffix = ''(u)'', tx_cancelled = ''c'', tx_expired = ''e'', tx_rolled_back = ''r''\<rparr>
     (reconciliation_notice ''wait'' (Some ''done'') [''call-1'']))"
  by code_simp

end
