(* ===== verification/Role_Management.thy ===== *)
theory Role_Management
  imports Role_Delegation
begin

text \<open>
  \<open>app/modules/system/service/role_management_service.py\<close>: creating a role, changing its
  definition and replacing its menu set, with the checks that bound what an actor may define by what
  it may grant, and \<open>replace_role_depts\<close>, \<open>replace_role_menus\<close> of \<open>tenant_association_writer.py\<close>.
  As in \<open>Role_Assignment\<close> a write is evaluated in \<open>db0\<close>, the affected rows are locked, and it is
  evaluated again in \<open>db1\<close>, where it is then performed. \<open>camel\<close> is Pydantic's \<open>to_camel\<close>.
\<close>

section \<open>Tables, requests and results\<close>

text \<open>\<open>ri_desc\<close> and \<open>ri_keys\<close> are the columns \<open>role_desc\<close> and \<open>i18n_keys\<close> of a role row,
  \<open>menu_row\<close> the columns of a menu row that are read beside its id and permission.\<close>

record role_info =
  ri_desc :: "string option"
  ri_keys :: "(string \<times> string) list option"

record menu_row =
  mr_menu :: menu
  mr_tenant :: int
  mr_parent :: "int option"
  mr_name :: string
  mr_route_name :: "string option"
  mr_route_path :: "string option"
  mr_i18n_key :: "string option"
  mr_status :: string
  mr_order :: int

abbreviation mr_id :: "menu_row \<Rightarrow> int" where "mr_id m \<equiv> menu_id (mr_menu m)"

record role_db =
  rd_auth :: auth_db
  rd_info :: "int \<Rightarrow> role_info"
  rd_menus :: "menu_row list"

text \<open>\<open>RoleUpdate\<close>: \<open>None\<close> is a field that is not set; only \<open>role_desc\<close> and \<open>dept_ids\<close> may be
  set to null.\<close>

record role_create =
  rc_name :: string
  rc_code :: string
  rc_desc :: "string option"
  rc_scope :: string
  rc_status :: string
  rc_dept_ids :: "int list option"

record role_update =
  ru_name :: "string option"
  ru_desc :: "string option option"
  ru_scope :: "string option"
  ru_status :: "string option"
  ru_dept_ids :: "int list option option"

datatype role_request =
    CreateRole role_create
  | UpdateRole int role_update
  | UpdateMenus int "int list"

record role_preview =
  rp_action :: string
  rp_role_id :: "int option"
  rp_member_user_ids :: "int list"
  rp_snapshot :: json
  rp_target_role_name :: "string option"

record role_evaluation =
  re_preview :: role_preview
  re_role_ids :: "int list"
  re_dept_ids :: "int list"
  re_user_ids :: "int list"
  re_role :: "role option"
  re_menus :: "menu list"
  re_depts :: "dept list"

section \<open>Checks and loads\<close>

definition require_role_permission :: "grant_authority \<Rightarrow> string \<Rightarrow> unit res" where
  "require_role_permission auth permission =
     guardE (allows_permission_codes auth {permission}) (Authorization ''PERMISSION_DENIED'')"

definition reject_irrelevant_custom_depts :: "string \<Rightarrow> int list option \<Rightarrow> unit res" where
  "reject_irrelevant_custom_depts scope_kind ids =
     (if scope_kind = DATA_SCOPE_CUSTOM \<or> ids = None \<or> ids = Some [] then Inr ()
      else Inl (BusinessRule ''ROLE_DEPTS_REQUIRE_CUSTOM_SCOPE''))"

definition load_managed_role :: "auth_db \<Rightarrow> int \<Rightarrow> int \<Rightarrow> role res" where
  "load_managed_role db i t = (case find (\<lambda>r. role_tenant r = t \<and> role_id r = i) (rows_roles db) of
      None \<Rightarrow> Inl (NotFound []) | Some r \<Rightarrow> Inr r)"

definition active_agent_ids_by_role :: "auth_db \<Rightarrow> int \<Rightarrow> int \<Rightarrow> int set" where
  "active_agent_ids_by_role db rid t =
     set (map (\<lambda>(t', r, a, e). a) (filter (\<lambda>(t', r, a, e). t' = t \<and> r = rid \<and> e) (role_agents db)))"

definition definition_dominated ::
    "grant_authority \<Rightarrow> menu list \<Rightarrow> dept list \<Rightarrow> string \<Rightarrow> int set \<Rightarrow> bool" where
  "definition_dominated auth menus depts scope_kind agents \<longleftrightarrow>
     allows_permission_codes auth (menu_codes menus) \<and>
     allows_menu_ids auth (set (map menu_id menus)) \<and>
     allows_agent_ids auth agents \<and>
     allows_scope_kind auth scope_kind (set (map dept_id depts))"

definition require_definition_dominated ::
    "grant_authority \<Rightarrow> menu list \<Rightarrow> dept list \<Rightarrow> string \<Rightarrow> int set \<Rightarrow> unit res" where
  "require_definition_dominated auth menus depts scope_kind agents =
     guardE (definition_dominated auth menus depts scope_kind agents)
       (Authorization ''AI_ROLE_AUTHORITY_EXCEEDED'')"

definition ensure_materialized_dominated :: "grant_authority \<Rightarrow> role_set_authority list \<Rightarrow> unit res" where
  "ensure_materialized_dominated auth values =
     (if super_admin auth then Inr ()
      else case mapE (\<lambda>a. ensure_role_set_dominated auth a {}) values of
          Inl (Authorization _) \<Rightarrow> Inl (Authorization ''AI_ROLE_GLOBAL_IMPACT_OUT_OF_SCOPE'')
        | Inl e \<Rightarrow> Inl e
        | Inr _ \<Rightarrow> Inr ())"

definition load_role_depts :: "auth_db \<Rightarrow> int list option \<Rightarrow> int \<Rightarrow> dept list res" where
  "load_role_depts db ids t =
     (let normalized = sorted_list_of_set (set (case ids of None \<Rightarrow> [] | Some xs \<Rightarrow> xs)) in
      if normalized = [] then Inr []
      else let depts = sort_key dept_id
             (filter (\<lambda>d. dept_tenant d = t \<and> dept_id d \<in> set normalized) (db_depts (scope db)))
           in if map dept_id depts \<noteq> normalized then Inl (BusinessRule ''ROLE_DEPT_NOT_FOUND'')
              else Inr depts)"

section \<open>Menus and their ancestors\<close>

text \<open>\<open>by_id\<close>: the menu of an id among the loaded rows.\<close>

definition menu_by_id :: "menu_row list \<Rightarrow> int \<Rightarrow> menu_row option" where
  "menu_by_id ms i = map_of (rev (map (\<lambda>m. (mr_id m, m)) ms)) i"

lemma menu_by_id_Some: "menu_by_id ms i = Some m \<Longrightarrow> m \<in> set ms \<and> mr_id m = i"
  by (auto simp: menu_by_id_def dest!: map_of_SomeD)

text \<open>The walk to the root: the rows passed from a parent id upwards, up to a missing row or one of
  the ids already visited.\<close>

function parent_chain :: "menu_row list \<Rightarrow> int list \<Rightarrow> int option \<Rightarrow> menu_row list" where
  "parent_chain ms visited None = []"
| "parent_chain ms visited (Some p) =
     (if p \<in> set visited then []
      else case menu_by_id ms p of
          None \<Rightarrow> []
        | Some m \<Rightarrow> m # parent_chain ms (p # visited) (mr_parent m))"
  by pat_completeness auto

termination
proof (relation "measure (\<lambda>(ms, visited, p). card (mr_id ` set ms - set visited))", goal_cases)
  case (2 ms visited p m)
  from menu_by_id_Some[OF 2(2)] have "p \<in> mr_id ` set ms" by auto
  with 2(1) have "mr_id ` set ms - set (p # visited) \<subset> mr_id ` set ms - set visited" by auto
  from psubset_card_mono[OF _ this] show ?case by simp
qed simp

definition expand_menus :: "menu_row list \<Rightarrow> int list option \<Rightarrow> int \<Rightarrow> menu_row list res" where
  "expand_menus rows ids t =
     (let normalized = set (case ids of None \<Rightarrow> [] | Some xs \<Rightarrow> xs);
          ms = filter (\<lambda>m. mr_tenant m = t) rows in
      if normalized = {} then Inr []
      else if \<not> normalized \<subseteq> mr_id ` set ms then Inl (BusinessRule ''ROLE_MENU_NOT_FOUND'')
      else let expanded = normalized \<union> (\<Union>i \<in> normalized. case menu_by_id ms i of
                 None \<Rightarrow> {} | Some m \<Rightarrow> mr_id ` set (parent_chain ms [] (mr_parent m)))
           in Inr (List.map_filter (menu_by_id ms) (sorted_list_of_set expanded)))"

section \<open>Evaluation\<close>

text \<open>\<open>_candidate_role\<close>: the role as it would be, with its description.\<close>

definition candidate_role :: "role \<Rightarrow> role_update \<Rightarrow> menu list \<Rightarrow> dept list \<Rightarrow> role" where
  "candidate_role r u menus depts = r
     \<lparr>role_name := (case ru_name u of None \<Rightarrow> role_name r | Some n \<Rightarrow> n),
      role_status := (case ru_status u of None \<Rightarrow> role_status r | Some s \<Rightarrow> s),
      data_scope := (case ru_scope u of None \<Rightarrow> data_scope r | Some s \<Rightarrow> s),
      role_menus := menus, role_dept_links := depts\<rparr>"

definition candidate_desc :: "role_info \<Rightarrow> role_update \<Rightarrow> string option" where
  "candidate_desc info u = (case ru_desc u of None \<Rightarrow> ri_desc info | Some d \<Rightarrow> d)"

definition no_update :: role_update where
  "no_update = \<lparr>ru_name = None, ru_desc = None, ru_scope = None, ru_status = None, ru_dept_ids = None\<rparr>"

definition duplicate_role :: "auth_db \<Rightarrow> int \<Rightarrow> (role \<Rightarrow> bool) \<Rightarrow> bool" where
  "duplicate_role db t p \<longleftrightarrow> (\<exists>r \<in> set (rows_roles db). role_tenant r = t \<and> p r)"

definition request_permission :: "role_request \<Rightarrow> string" where
  "request_permission req = (case req of CreateRole _ \<Rightarrow> ''system:role:add''
     | UpdateRole _ _ \<Rightarrow> ''system:role:edit'' | UpdateMenus _ _ \<Rightarrow> ''system:role:menu-auth'')"

definition request_action :: "role_request \<Rightarrow> string" where
  "request_action req = (case req of CreateRole _ \<Rightarrow> ''create''
     | UpdateRole _ _ \<Rightarrow> ''update'' | UpdateMenus _ _ \<Rightarrow> ''update_menus'')"

definition request_role_id :: "role_request \<Rightarrow> int option" where
  "request_role_id req = (case req of CreateRole _ \<Rightarrow> None
     | UpdateRole i _ \<Rightarrow> Some i | UpdateMenus i _ \<Rightarrow> Some i)"

definition create_target :: "role_create \<Rightarrow> json" where
  "create_target c = JObj
     [(''role_name'', JStr (rc_name c)), (''role_code'', JStr (rc_code c)),
      (''role_desc'', case rc_desc c of None \<Rightarrow> JNull | Some d \<Rightarrow> JStr d),
      (''data_scope'', JStr (rc_scope c)), (''status'', JStr (rc_status c)),
      (''dept_ids'', case rc_dept_ids c of None \<Rightarrow> JNull | Some ds \<Rightarrow> JArr (map JInt ds))]"

definition definition_json :: "role \<Rightarrow> string option \<Rightarrow> int set \<Rightarrow> json" where
  "definition_json r desc agents = JObj
     [(''roleCode'', JStr (role_code r)), (''roleName'', JStr (role_name r)),
      (''roleDesc'', case desc of None \<Rightarrow> JNull | Some d \<Rightarrow> JStr d),
      (''status'', JStr (role_status r)), (''dataScope'', JStr (data_scope r)),
      (''menuIds'', JArr (map JInt (sort (map menu_id (role_menus r))))),
      (''deptIds'', JArr (map JInt (sort (map dept_id (role_dept_links r))))),
      (''agentIds'', jints agents)]"

definition create_candidate :: "auth_db \<Rightarrow> grant_authority \<Rightarrow> role_create \<Rightarrow> int \<Rightarrow> dept list res" where
  "create_candidate db auth c t =
     bindE (guardE (\<not> (rc_code c \<in> PROTECTED_ROLE_CODES \<and> \<not> super_admin auth))
       (Authorization ''AI_ROLE_PROTECTED'')) (\<lambda>_.
     bindE (guardE (\<not> duplicate_role db t (\<lambda>r. role_code r = rc_code c \<or> role_name r = rc_name c))
       (Duplicate [])) (\<lambda>_.
     bindE (reject_irrelevant_custom_depts (rc_scope c) (rc_dept_ids c)) (\<lambda>_.
     bindE (load_role_depts db (rc_dept_ids c) t) (\<lambda>depts.
     bindE (require_definition_dominated auth [] depts (rc_scope c) {}) (\<lambda>_. Inr depts)))))"

definition update_candidate :: "auth_db \<Rightarrow> role \<Rightarrow> role_update \<Rightarrow> int \<Rightarrow> role res" where
  "update_candidate db r u t =
     bindE (case ru_name u of None \<Rightarrow> Inr ()
       | Some n \<Rightarrow> guardE (\<not> duplicate_role db t (\<lambda>x. role_name x = n \<and> role_id x \<noteq> role_id r)) (Duplicate []))
       (\<lambda>_.
     let next_scope = (case ru_scope u of None \<Rightarrow> data_scope r | Some s \<Rightarrow> s);
         requested = (case ru_dept_ids u of None \<Rightarrow> None | Some ds \<Rightarrow> ds) in
     bindE (reject_irrelevant_custom_depts next_scope requested) (\<lambda>_.
     bindE (if next_scope \<noteq> DATA_SCOPE_CUSTOM then Inr []
            else if ru_dept_ids u \<noteq> None then load_role_depts db requested t
            else if next_scope = data_scope r then Inr (role_dept_links r)
            else Inr []) (\<lambda>depts.
     Inr (candidate_role r u (role_menus r) depts))))"

definition menus_candidate :: "menu_row list \<Rightarrow> role \<Rightarrow> int list \<Rightarrow> int \<Rightarrow> role res" where
  "menus_candidate rows r ids t =
     bindE (expand_menus rows (Some ids) t) (\<lambda>ms.
     Inr (candidate_role r no_update (map mr_menu ms) (role_dept_links r)))"

record change_facts =
  cf_role :: role
  cf_members :: "user list"
  cf_agents :: "int set"
  cf_candidate :: role
  cf_before :: "role_set_authority list"
  cf_after :: "role_set_authority list"

text \<open>The candidates of the second materialization: every member with the role replaced.\<close>

definition replace_role_in :: "int \<Rightarrow> role \<Rightarrow> role list \<Rightarrow> role list" where
  "replace_role_in rid cand roles = map (\<lambda>x. if role_id x = rid then cand else x) roles"

definition evaluate_change ::
    "auth_db \<Rightarrow> grant_authority \<Rightarrow> int \<Rightarrow> int \<Rightarrow> (role \<Rightarrow> role res) \<Rightarrow> int \<Rightarrow> change_facts res" where
  "evaluate_change db auth actor_id rid candidate_of t =
     bindE (load_managed_role db rid t) (\<lambda>r.
     let members = load_members db rid t in
     bindE (ensure_member_protection auth actor_id r members) (\<lambda>_.
     let agents = active_agent_ids_by_role db rid t in
     bindE (require_definition_dominated auth (role_menus r) (role_dept_links r) (data_scope r) agents) (\<lambda>_.
     bindE (candidate_of r) (\<lambda>cand.
     bindE (require_definition_dominated auth (role_menus cand) (role_dept_links cand) (data_scope cand) agents)
       (\<lambda>_.
     bindE (materialize_role_set_authorities db
              (map (\<lambda>u. (u, user_roles u, user_depts u)) members) [] t) (\<lambda>before.
     bindE (materialize_role_set_authorities db
              (map (\<lambda>u. (u, replace_role_in rid cand (user_roles u), user_depts u)) members)
              [(rid, agents)] t) (\<lambda>after.
     bindE (ensure_materialized_dominated auth (before @ after)) (\<lambda>_.
     Inr \<lparr>cf_role = r, cf_members = members, cf_agents = agents, cf_candidate = cand,
          cf_before = before, cf_after = after\<rparr>))))))))"

definition management_member_snapshot ::
    "(json \<Rightarrow> string) \<Rightarrow> user \<Rightarrow> role_set_authority \<Rightarrow> role_set_authority \<Rightarrow> json" where
  "management_member_snapshot h u before after = JObj
     [(''userId'', JStr (show_int (user_id u))),
      (''roleIds'', JArr (map JInt (role_ids_of (user_roles u)))),
      (''deptIds'', JArr (map JInt (user_dept_ids u))),
      (''before'', materialized_role_set_snapshot h before),
      (''after'', materialized_role_set_snapshot h after)]"

text \<open>The lock sets, the snapshot and the preview built from what was evaluated; \<open>change\<close> is
  \<open>None\<close> when a role is created.\<close>

definition build_role_evaluation ::
    "(json \<Rightarrow> string) \<Rightarrow> role_request \<Rightarrow> grant_authority \<Rightarrow> user \<Rightarrow> (int \<Rightarrow> role_info) \<Rightarrow> dept list \<Rightarrow>
     change_facts option \<Rightarrow> role_evaluation" where
  "build_role_evaluation h req auth actor infos depts change =
     (let members = (case change of None \<Rightarrow> [] | Some c \<Rightarrow> cf_members c);
          before = (case change of None \<Rightarrow> [] | Some c \<Rightarrow> cf_before c);
          after = (case change of None \<Rightarrow> [] | Some c \<Rightarrow> cf_after c);
          users = actor # members;
          role_ids = enabled_role_ids auth \<union> set (map role_id (concat (map user_roles users))) \<union>
            (case request_role_id req of None \<Rightarrow> {} | Some i \<Rightarrow> {i});
          dept_ids = set (map dept_id depts) \<union> set (map dept_id (concat (map user_depts users))) \<union>
            set (map dept_id (concat (map role_dept_links (concat (map user_roles users))))) \<union>
            (\<Union>m \<in> set (before @ after). case rsa_dept_ids m of None \<Rightarrow> {} | Some ds \<Rightarrow> ds);
          user_ids = insert (actor_user_id auth) (set (map user_id members));
          target = (case req of
              CreateRole c \<Rightarrow> create_target c
            | UpdateRole i u \<Rightarrow> (case change of None \<Rightarrow> JNull | Some c \<Rightarrow> JObj
                [(''roleId'', JStr (show_int i)),
                 (''current'', definition_json (cf_role c) (ri_desc (infos i)) (cf_agents c)),
                 (''candidate'', definition_json (cf_candidate c) (candidate_desc (infos i) u) (cf_agents c))])
            | UpdateMenus i ms \<Rightarrow> (case change of None \<Rightarrow> JNull | Some c \<Rightarrow> JObj
                [(''roleId'', JStr (show_int i)),
                 (''current'', definition_json (cf_role c) (ri_desc (infos i)) (cf_agents c)),
                 (''candidate'', definition_json (cf_candidate c) (ri_desc (infos i)) (cf_agents c))]));
          snapshot = JObj
            [(''version'', JStr ''phase3-role-write/v1''), (''action'', JStr (request_action req)),
             (''actorAuthorityVersion'', JStr (version_summary auth)), (''target'', target),
             (''roleIds'', jints role_ids), (''deptIds'', jints dept_ids), (''userIds'', jints user_ids),
             (''members'', JArr (map (\<lambda>(u, b, a). management_member_snapshot h u b a)
                (zip members (zip before after))))]
      in \<lparr>re_preview = \<lparr>rp_action = request_action req, rp_role_id = request_role_id req,
             rp_member_user_ids = sort (map user_id members), rp_snapshot = snapshot,
             rp_target_role_name = map_option (\<lambda>c. role_name (cf_role c)) change\<rparr>,
          re_role_ids = sorted_list_of_set role_ids, re_dept_ids = sorted_list_of_set dept_ids,
          re_user_ids = sorted_list_of_set user_ids, re_role = map_option cf_role change,
          re_menus = (case change of None \<Rightarrow> [] | Some c \<Rightarrow> role_menus (cf_candidate c)),
          re_depts = depts\<rparr>)"

definition evaluate_role_request ::
    "(json \<Rightarrow> string) \<Rightarrow> (auth_db \<Rightarrow> user \<Rightarrow> int set) \<Rightarrow> role_db \<Rightarrow> int \<Rightarrow> role_request \<Rightarrow> int \<Rightarrow>
     role_evaluation res" where
  "evaluate_role_request h vis rdb actor_id req t =
     (let db = rd_auth rdb in
      bindE (build_authority h vis db actor_id t) (\<lambda>auth.
      bindE (require_role_permission auth (request_permission req)) (\<lambda>_.
      bindE (require_user db actor_id t) (\<lambda>actor.
      case req of
        CreateRole c \<Rightarrow> bindE (create_candidate db auth c t) (\<lambda>depts.
          Inr (build_role_evaluation h req auth actor (rd_info rdb) depts None))
      | UpdateRole rid u \<Rightarrow>
          bindE (evaluate_change db auth actor_id rid (\<lambda>r. update_candidate db r u t) t) (\<lambda>c.
          Inr (build_role_evaluation h req auth actor (rd_info rdb)
            (role_dept_links (cf_candidate c)) (Some c)))
      | UpdateMenus rid ids \<Rightarrow>
          bindE (evaluate_change db auth actor_id rid (\<lambda>r. menus_candidate (rd_menus rdb) r ids t) t) (\<lambda>c.
          Inr (build_role_evaluation h req auth actor (rd_info rdb)
            (role_dept_links (cf_candidate c)) (Some c)))))))"

definition preview_role_request where
  "preview_role_request h vis rdb actor_id req t =
     bindE (evaluate_role_request h vis rdb actor_id req t) (\<lambda>e. Inr (re_preview e))"

definition authorize_and_lock_role ::
    "(json \<Rightarrow> string) \<Rightarrow> (auth_db \<Rightarrow> user \<Rightarrow> int set) \<Rightarrow> role_db \<Rightarrow> role_db \<Rightarrow> int \<Rightarrow> role_request \<Rightarrow>
     json option \<Rightarrow> int \<Rightarrow> role_evaluation res" where
  "authorize_and_lock_role h vis db0 db1 actor_id req expected t =
     bindE (evaluate_role_request h vis db0 actor_id req t) (\<lambda>initial.
     bindE (lock_targets (rd_auth db1) (set (re_role_ids initial)) (set (re_dept_ids initial))
              (set (re_user_ids initial)) t) (\<lambda>_.
     bindE (case evaluate_role_request h vis db1 actor_id req t of
              Inl e \<Rightarrow> Inl (if is_business e then BusinessRule ''AUTHORIZATION_SNAPSHOT_STALE'' else e)
            | Inr v \<Rightarrow> Inr v) (\<lambda>locked.
     bindE (guardE (json_eq (rp_snapshot (re_preview initial)) (rp_snapshot (re_preview locked)) \<and>
                    re_role_ids initial = re_role_ids locked \<and> re_dept_ids initial = re_dept_ids locked \<and>
                    re_user_ids initial = re_user_ids locked)
              (BusinessRule ''AUTHORIZATION_SNAPSHOT_STALE'')) (\<lambda>_.
     bindE (case expected of None \<Rightarrow> Inr () | Some want \<Rightarrow>
              guardE (json_eq (rp_snapshot (re_preview locked)) want)
                (BusinessRule ''AI_PREPARED_ACTION_SNAPSHOT_STALE'')) (\<lambda>_. Inr locked)))))"

section \<open>Writes\<close>

definition put_role :: "auth_db \<Rightarrow> role \<Rightarrow> auth_db" where
  "put_role db r = db\<lparr>rows_roles := map (\<lambda>x. if role_id x = role_id r then r else x) (rows_roles db)\<rparr>"

definition replace_role_depts :: "auth_db \<Rightarrow> role \<Rightarrow> dept list \<Rightarrow> int \<Rightarrow> (role \<times> auth_db) res" where
  "replace_role_depts db r depts t =
     (if role_tenant r \<noteq> t \<or> (\<exists>d \<in> set depts. dept_tenant d \<noteq> t) then Inl ValueError
      else let r' = r\<lparr>role_dept_links := depts\<rparr> in
        Inr (r', put_role (db\<lparr>scope := (scope db)\<lparr>db_role_depts :=
               filter (\<lambda>(t', x, d). \<not> (t' = t \<and> x = role_id r)) (db_role_depts (scope db)) @
               map (\<lambda>d. (t, role_id r, dept_id d)) depts\<rparr>\<rparr>) r'))"

text \<open>The menus carry no tenant here: \<open>_expand_menus\<close> loads them from the tenant's rows.\<close>

definition replace_role_menus :: "auth_db \<Rightarrow> role \<Rightarrow> menu list \<Rightarrow> int \<Rightarrow> (role \<times> auth_db) res" where
  "replace_role_menus db r menus t =
     (if role_tenant r \<noteq> t then Inl ValueError
      else let r' = r\<lparr>role_menus := menus\<rparr> in Inr (r', put_role db r'))"

text \<open>\<open>clear_changed_translations\<close> of \<open>core/builtin_i18n.py\<close>: a field written with another value
  loses its translation key; a row without keys gets an empty mapping.\<close>

definition role_field :: "role \<Rightarrow> role_info \<Rightarrow> string \<Rightarrow> string option" where
  "role_field r info f =
     (if f = ''role_name'' then Some (role_name r) else if f = ''role_desc'' then ri_desc info
      else if f = ''data_scope'' then Some (data_scope r) else Some (role_status r))"

definition clear_changed_translations ::
    "(string \<Rightarrow> string) \<Rightarrow> role \<Rightarrow> role_info \<Rightarrow> (string \<times> string option) list \<Rightarrow> role_info" where
  "clear_changed_translations camel r info changes =
     info\<lparr>ri_keys := Some (foldl (\<lambda>keys (f, v).
        if camel f \<in> fst ` set keys \<and> role_field r info f \<noteq> v
        then filter (\<lambda>(k, w). k \<noteq> camel f) keys else keys)
      (case ri_keys info of None \<Rightarrow> [] | Some ks \<Rightarrow> ks) changes)\<rparr>"

definition update_values :: "role_update \<Rightarrow> (string \<times> string option) list" where
  "update_values u =
     (case ru_name u of None \<Rightarrow> [] | Some n \<Rightarrow> [(''role_name'', Some n)]) @
     (case ru_desc u of None \<Rightarrow> [] | Some d \<Rightarrow> [(''role_desc'', d)]) @
     (case ru_scope u of None \<Rightarrow> [] | Some s \<Rightarrow> [(''data_scope'', Some s)]) @
     (case ru_status u of None \<Rightarrow> [] | Some s \<Rightarrow> [(''status'', Some s)])"

definition create_role ::
    "(json \<Rightarrow> string) \<Rightarrow> (auth_db \<Rightarrow> user \<Rightarrow> int set) \<Rightarrow> role_db \<Rightarrow> role_db \<Rightarrow> int \<Rightarrow> role_create \<Rightarrow> int \<Rightarrow>
     json option \<Rightarrow> int \<Rightarrow> (role \<times> role_db) res" where
  "create_role h vis db0 db1 actor_id c fresh expected t =
     bindE (authorize_and_lock_role h vis db0 db1 actor_id (CreateRole c) expected t) (\<lambda>ev.
     let r = \<lparr>role_id = fresh, role_tenant = t, role_code = rc_code c, role_name = rc_name c,
           role_status = rc_status c, data_scope = rc_scope c, role_menus = [], role_dept_links = []\<rparr>;
         db = rd_auth db1 in
     bindE (guardE (\<not> (\<exists>x \<in> set (rows_roles db). role_id x = fresh \<or>
              role_tenant x = t \<and> (role_code x = rc_code c \<or> role_name x = rc_name c))) IntegrityError) (\<lambda>_.
     bindE (replace_role_depts (db\<lparr>rows_roles := rows_roles db @ [r]\<rparr>) r (re_depts ev) t) (\<lambda>(r', db').
     Inr (r', db1\<lparr>rd_auth := db',
       rd_info := (rd_info db1)(fresh := \<lparr>ri_desc = rc_desc c, ri_keys = None\<rparr>)\<rparr>))))"

definition update_role ::
    "(json \<Rightarrow> string) \<Rightarrow> (auth_db \<Rightarrow> user \<Rightarrow> int set) \<Rightarrow> (string \<Rightarrow> string) \<Rightarrow> role_db \<Rightarrow> role_db \<Rightarrow> int \<Rightarrow> int \<Rightarrow>
     role_update \<Rightarrow> json option \<Rightarrow> int \<Rightarrow> (role \<times> role_db) res" where
  "update_role h vis camel db0 db1 actor_id rid u expected t =
     bindE (authorize_and_lock_role h vis db0 db1 actor_id (UpdateRole rid u) expected t) (\<lambda>ev.
     case re_role ev of
       None \<Rightarrow> Inl AssertionError
     | Some r \<Rightarrow>
        let info = clear_changed_translations camel r (rd_info db1 rid) (update_values u);
            r1 = candidate_role r u (role_menus r) (role_dept_links r);
            infos = (rd_info db1)(rid := info\<lparr>ri_desc := candidate_desc info u\<rparr>);
            db = put_role (rd_auth db1) r1 in
        if ru_dept_ids u \<noteq> None \<or> ru_scope u \<noteq> None
        then bindE (replace_role_depts db r1 (re_depts ev) t) (\<lambda>(r', db').
          Inr (r', db1\<lparr>rd_auth := db', rd_info := infos\<rparr>))
        else Inr (r1, db1\<lparr>rd_auth := db, rd_info := infos\<rparr>))"

definition update_role_menus ::
    "(json \<Rightarrow> string) \<Rightarrow> (auth_db \<Rightarrow> user \<Rightarrow> int set) \<Rightarrow> role_db \<Rightarrow> role_db \<Rightarrow> int \<Rightarrow> int \<Rightarrow> int list \<Rightarrow>
     json option \<Rightarrow> int \<Rightarrow> (role \<times> role_db) res" where
  "update_role_menus h vis db0 db1 actor_id rid ids expected t =
     bindE (authorize_and_lock_role h vis db0 db1 actor_id (UpdateMenus rid ids) expected t) (\<lambda>ev.
     case re_role ev of
       None \<Rightarrow> Inl AssertionError
     | Some r \<Rightarrow> bindE (replace_role_menus (rd_auth db1) r (re_menus ev) t) (\<lambda>(r', db').
         Inr (r', db1\<lparr>rd_auth := db'\<rparr>)))"

section \<open>Projection\<close>

definition authorize_role_projection ::
    "(json \<Rightarrow> string) \<Rightarrow> (auth_db \<Rightarrow> user \<Rightarrow> int set) \<Rightarrow> auth_db \<Rightarrow> int \<Rightarrow> int \<Rightarrow> int \<Rightarrow> role res" where
  "authorize_role_projection h vis db actor_id rid t =
     bindE (build_authority h vis db actor_id t) (\<lambda>auth.
     bindE (load_managed_role db rid t) (\<lambda>r.
     let members = load_members db rid t in
     bindE (ensure_member_protection auth actor_id r members) (\<lambda>_.
     bindE (require_definition_dominated auth (role_menus r) (role_dept_links r) (data_scope r)
              (active_agent_ids_by_role db rid t)) (\<lambda>_.
     bindE (materialize_role_set_authorities db
              (map (\<lambda>u. (u, user_roles u, user_depts u)) members) [] t) (\<lambda>current.
     bindE (ensure_materialized_dominated auth current) (\<lambda>_. Inr r))))))"

section \<open>Lookups\<close>

text \<open>\<open>str.casefold\<close> on the code points 0 to 255. The folding of the micro sign lies outside; it
  is kept, and no other character of the range folds to it.\<close>

definition fold_char :: "char \<Rightarrow> string" where
  "fold_char c = (let n = of_char c :: nat in
     if 65 \<le> n \<and> n \<le> 90 \<or> 192 \<le> n \<and> n \<le> 222 \<and> n \<noteq> 215 then [char_of (n + 32)]
     else if n = 223 then ''ss'' else [c])"

definition py_casefold :: "string \<Rightarrow> string" where
  "py_casefold s = concat (map fold_char s)"

record menu_match =
  mm_id :: int
  mm_name :: string
  mm_path :: string
  mm_status :: string
  mm_selected :: bool

record 'a role_lookup =
  rl_role_id :: int
  rl_role_name :: string
  rl_current_ids :: "int list"
  rl_matches :: "'a list"
  rl_match_count :: nat
  rl_contributor_ids :: "int list"

fun join_text :: "string \<Rightarrow> string list \<Rightarrow> string" where
  "join_text sep [] = []"
| "join_text sep [w] = w"
| "join_text sep (w # v # ws) = w @ sep @ join_text sep (v # ws)"

definition menu_path :: "menu_row list \<Rightarrow> menu_row \<Rightarrow> string" where
  "menu_path ms m = join_text '' / ''
     (rev (mr_name m # map mr_name (parent_chain ms [mr_id m] (mr_parent m))))"

text \<open>\<open>value for value in (...) if value\<close>.\<close>

definition present_texts :: "string option list \<Rightarrow> string list" where
  "present_texts xs = concat (map (\<lambda>x. case x of None \<Rightarrow> [] | Some s \<Rightarrow> if s = [] then [] else [s]) xs)"

definition menu_matches :: "menu_row list \<Rightarrow> int set \<Rightarrow> string \<Rightarrow> menu_match list" where
  "menu_matches grantable current query =
     sort_key (\<lambda>x. (py_casefold (mm_path x), mm_id x))
       (map (\<lambda>m. \<lparr>mm_id = mr_id m, mm_name = mr_name m, mm_path = menu_path grantable m,
                mm_status = mr_status m, mm_selected = mr_id m \<in> current\<rparr>)
         (filter (\<lambda>m. str_in (py_casefold query) (py_casefold (join_text '' ''
              (present_texts [Some (menu_path grantable m), mr_route_name m, mr_route_path m,
                 menu_permission (mr_menu m), mr_i18n_key m]))))
           grantable))"

definition lookup_menu_options ::
    "(json \<Rightarrow> string) \<Rightarrow> (auth_db \<Rightarrow> user \<Rightarrow> int set) \<Rightarrow> role_db \<Rightarrow> int \<Rightarrow> string \<Rightarrow> int \<Rightarrow> int \<Rightarrow> int \<Rightarrow>
     menu_match role_lookup res" where
  "lookup_menu_options h vis rdb rid query limit actor_id t =
     bindE (authorize_role_projection h vis (rd_auth rdb) actor_id rid t) (\<lambda>r.
     bindE (build_authority h vis (rd_auth rdb) actor_id t) (\<lambda>auth.
     bindE (require_role_permission auth ''system:role:menu-auth'') (\<lambda>_.
     let menus = sort_key (\<lambda>m. (mr_order m, mr_id m)) (filter (\<lambda>m. mr_tenant m = t) (rd_menus rdb));
         grantable = filter (\<lambda>m. super_admin auth \<or> mr_id m \<in> menu_ids auth) menus;
         current = sort (map menu_id (role_menus r));
         found = menu_matches grantable (set current) query
     in Inr \<lparr>rl_role_id = role_id r, rl_role_name = role_name r, rl_current_ids = current,
          rl_matches = py_prefix limit found, rl_match_count = length found,
          rl_contributor_ids = map mm_id found\<rparr>)))"

section \<open>Summaries\<close>

record role_summary =
  rs_role_id :: int
  rs_code :: string
  rs_name :: string
  rs_status :: string
  rs_scope :: string
  rs_delegable :: bool
  rs_blocked :: "string option"
  rs_keys :: "(string \<times> string) list option"

record role_query =
  rq_text :: "string option"
  rq_name :: "string option"
  rq_code :: "string option"
  rq_scope :: "string option"
  rq_status :: "string option"

text \<open>\<open>lower\<close> is the database's \<open>LOWER\<close>; \<open>contains(..., autoescape=True)\<close> is containment.\<close>

definition text_filter :: "(string \<Rightarrow> string) \<Rightarrow> string option \<Rightarrow> string list \<Rightarrow> bool" where
  "text_filter lower q columns = (case q of None \<Rightarrow> True
     | Some s \<Rightarrow> s = [] \<or> (\<exists>c \<in> set columns. str_in (py_casefold (py_strip s)) (lower c)))"

definition role_matches :: "(string \<Rightarrow> string) \<Rightarrow> role_query \<Rightarrow> role \<Rightarrow> bool" where
  "role_matches lower q r \<longleftrightarrow>
     text_filter lower (rq_text q) [role_code r, role_name r] \<and>
     text_filter lower (rq_name q) [role_name r] \<and> text_filter lower (rq_code q) [role_code r] \<and>
     (case rq_scope q of None \<Rightarrow> True | Some s \<Rightarrow> data_scope r = s) \<and>
     (case rq_status q of None \<Rightarrow> True | Some s \<Rightarrow> role_status r = s)"

text \<open>The first reason found without materializing anything.\<close>

definition static_block :: "auth_db \<Rightarrow> grant_authority \<Rightarrow> int \<Rightarrow> role \<Rightarrow> user list \<Rightarrow> int \<Rightarrow> string option" where
  "static_block db auth actor_id r members t =
     (let member_ids = set (map user_id members) in
      if \<not> super_admin auth \<and> role_code r \<in> PROTECTED_ROLE_CODES then Some ''AI_ROLE_PROTECTED''
      else if \<not> definition_dominated auth (role_menus r) (role_dept_links r) (data_scope r)
                 (active_agent_ids_by_role db (role_id r) t)
      then Some ''AI_ROLE_AUTHORITY_EXCEEDED''
      else if \<not> super_admin auth \<and> actor_id \<in> member_ids then Some ''AI_ROLE_SELF_MUTATION_FORBIDDEN''
      else if \<not> super_admin auth \<and> (\<exists>u \<in> set members. protected_member u)
      then Some ''AI_ROLE_GLOBAL_IMPACT_OUT_OF_SCOPE''
      else if \<not> super_admin auth \<and> (case ga_user_ids auth of None \<Rightarrow> False | Some us \<Rightarrow> \<not> member_ids \<subseteq> us)
      then Some ''AI_ROLE_GLOBAL_IMPACT_OUT_OF_SCOPE''
      else None)"

definition blocked_reason ::
    "auth_db \<Rightarrow> grant_authority \<Rightarrow> int \<Rightarrow> role \<Rightarrow> int \<Rightarrow> string option res" where
  "blocked_reason db auth actor_id r t =
     (let members = load_members db (role_id r) t in
      case static_block db auth actor_id r members t of
        Some reason \<Rightarrow> Inr (Some reason)
      | None \<Rightarrow> if members = [] then Inr None
          else bindE (materialize_role_set_authorities db
                   (map (\<lambda>u. (u, user_roles u, user_depts u)) members) [] t) (\<lambda>current.
            case ensure_materialized_dominated auth current of
              Inr _ \<Rightarrow> Inr None
            | Inl (Authorization _) \<Rightarrow> Inr (Some ''AI_ROLE_GLOBAL_IMPACT_OUT_OF_SCOPE'')
            | Inl e \<Rightarrow> Inl e))"

definition summarize_role ::
    "role_db \<Rightarrow> grant_authority \<Rightarrow> int \<Rightarrow> int \<Rightarrow> role \<Rightarrow> role_summary res" where
  "summarize_role rdb auth actor_id t r =
     bindE (blocked_reason (rd_auth rdb) auth actor_id r t) (\<lambda>reason.
     Inr \<lparr>rs_role_id = role_id r, rs_code = role_code r, rs_name = role_name r, rs_status = role_status r,
          rs_scope = data_scope r, rs_delegable = (reason = None), rs_blocked = reason,
          rs_keys = ri_keys (rd_info rdb (role_id r))\<rparr>)"

definition summarize_roles ::
    "(json \<Rightarrow> string) \<Rightarrow> (auth_db \<Rightarrow> user \<Rightarrow> int set) \<Rightarrow> (string \<Rightarrow> string) \<Rightarrow> role_db \<Rightarrow> int \<Rightarrow> role_query \<Rightarrow>
     nat \<Rightarrow> nat \<Rightarrow> int \<Rightarrow> (role_summary list \<times> nat \<times> int list) res" where
  "summarize_roles h vis lower rdb actor_id q limit offset t =
     bindE (build_authority h vis (rd_auth rdb) actor_id t) (\<lambda>auth.
     bindE (require_role_permission auth ''system:role:list'') (\<lambda>_.
     let rows = sort_key (\<lambda>r. (role_code r, role_id r))
           (filter (\<lambda>r. role_tenant r = t \<and> role_matches lower q r) (rows_roles (rd_auth rdb)));
         contributors = map role_id rows
     in bindE (mapE (summarize_role rdb auth actor_id t) (take limit (drop offset rows))) (\<lambda>summaries.
        Inr (summaries, length contributors, contributors))))"

end
