(* ===== verification/Role_Management_Facts.thy ===== *)
theory Role_Management_Facts
  imports Role_Management Role_Delegation_Props
begin

text \<open>
  Inversion of the role operations, the menu closure, well-formed role tables, and what a role write
  does to the users that hold the role.
\<close>

section \<open>The closure of a menu set\<close>

text \<open>An edge leads from a menu to its parent when both rows are loaded.\<close>

definition parent_edges :: "menu_row list \<Rightarrow> (int \<times> int) set" where
  "parent_edges ms = {(i, p). \<exists>m. menu_by_id ms i = Some m \<and> mr_parent m = Some p \<and> menu_by_id ms p \<noteq> None}"

lemma in_chain_iff: "m \<in> set (parent_chain ms vis (Some p)) \<longleftrightarrow> p \<notin> set vis \<and>
    (\<exists>row. menu_by_id ms p = Some row \<and> (m = row \<or> m \<in> set (parent_chain ms (p # vis) (mr_parent row))))"
  by (cases "menu_by_id ms p") auto

declare parent_chain.simps(2) [simp del]

lemma chain_rows: "m \<in> set (parent_chain ms vis p) \<Longrightarrow> menu_by_id ms (mr_id m) = Some m"
proof (induction ms vis p rule: parent_chain.induct)
  case (2 ms vis p)
  from 2(2) obtain row where row: "p \<notin> set vis" "menu_by_id ms p = Some row"
    "m = row \<or> m \<in> set (parent_chain ms (p # vis) (mr_parent row))"
    unfolding in_chain_iff by blast
  from row(3) 2(1)[OF row(1,2)] row(2) menu_by_id_Some[OF row(2)] show ?case by auto
qed simp

lemma chain_reachable:
  "m \<in> set (parent_chain ms vis p0) \<Longrightarrow> p0 = Some p \<Longrightarrow>
     menu_by_id ms p \<noteq> None \<and> (p, mr_id m) \<in> (parent_edges ms)\<^sup>*"
proof (induction ms vis p0 arbitrary: p rule: parent_chain.induct)
  case (2 ms vis p0)
  from 2(3) have [simp]: "p0 = p" by simp
  from 2(2) obtain row where row: "p \<notin> set vis" "menu_by_id ms p = Some row"
    "m = row \<or> m \<in> set (parent_chain ms (p # vis) (mr_parent row))"
    unfolding in_chain_iff by auto
  show ?case
  proof (cases "m = row")
    case True
    then show ?thesis using row(2) menu_by_id_Some[OF row(2)] by simp
  next
    case False
    then have m: "m \<in> set (parent_chain ms (p # vis) (mr_parent row))" using row(3) by simp
    then obtain q where q: "mr_parent row = Some q" by (cases "mr_parent row") auto
    from 2(1)[of row q] row m q have "(p, q) \<in> parent_edges ms" "(q, mr_id m) \<in> (parent_edges ms)\<^sup>*"
      by (auto simp: parent_edges_def)
    then show ?thesis using row(2) by (auto intro: converse_rtrancl_into_rtrancl)
  qed
qed simp

lemma chain_head: "menu_by_id ms q \<noteq> None \<Longrightarrow> q \<in> mr_id ` set (parent_chain ms vis (Some q)) \<union> set vis"
proof -
  assume "menu_by_id ms q \<noteq> None"
  then obtain row where row: "menu_by_id ms q = Some row" by auto
  then have "q \<notin> set vis \<Longrightarrow> row \<in> set (parent_chain ms vis (Some q))" by (simp add: in_chain_iff)
  then show ?thesis using menu_by_id_Some[OF row] by force
qed

lemma chain_closed:
  "m \<in> set (parent_chain ms vis p) \<Longrightarrow> mr_parent m = Some q \<Longrightarrow> menu_by_id ms q \<noteq> None \<Longrightarrow>
     q \<in> mr_id ` set (parent_chain ms vis p) \<union> set vis"
proof (induction ms vis p rule: parent_chain.induct)
  case (2 ms vis p)
  from 2(2) obtain row where row: "p \<notin> set vis" "menu_by_id ms p = Some row"
    "m = row \<or> m \<in> set (parent_chain ms (p # vis) (mr_parent row))"
    unfolding in_chain_iff by blast
  have sub: "insert p (mr_id ` set (parent_chain ms (p # vis) (mr_parent row)))
      \<subseteq> mr_id ` set (parent_chain ms vis (Some p))"
    using row(1,2) menu_by_id_Some[OF row(2)] by (force simp: in_chain_iff)
  from row(3) have "q \<in> mr_id ` set (parent_chain ms (p # vis) (mr_parent row)) \<union> set (p # vis)"
  proof
    assume "m = row"
    then show ?thesis using chain_head[OF 2(4), of "p # vis"] 2(3) by simp
  qed (rule 2(1)[OF row(1,2) _ 2(3,4)])
  then show ?case using sub by auto
qed simp

lemma closure_eq:
  assumes "S \<subseteq> T" "\<And>x. x \<in> T \<Longrightarrow> \<exists>s \<in> S. (s, x) \<in> E\<^sup>*" "\<And>x y. x \<in> T \<Longrightarrow> (x, y) \<in> E \<Longrightarrow> y \<in> T"
  shows "T = E\<^sup>* `` S"
proof
  show "T \<subseteq> E\<^sup>* `` S" using assms(2) by blast
  have "y \<in> T" if "(s, y) \<in> E\<^sup>*" "s \<in> S" for s y
    using that(1) by (induction rule: rtrancl_induct) (use that(2) assms(1,3) in blast)+
  then show "E\<^sup>* `` S \<subseteq> T" by blast
qed

lemma expanded_closure:
  assumes "S \<subseteq> mr_id ` set ms"
  shows "S \<union> (\<Union>i \<in> S. case menu_by_id ms i of None \<Rightarrow> {}
      | Some m \<Rightarrow> mr_id ` set (parent_chain ms [] (mr_parent m))) = (parent_edges ms)\<^sup>* `` S" (is "S \<union> ?up = _")
proof (rule closure_eq)
  fix x assume "x \<in> S \<union> ?up"
  then consider "x \<in> S" | i m m' where "i \<in> S" "menu_by_id ms i = Some m"
      "m' \<in> set (parent_chain ms [] (mr_parent m))" "x = mr_id m'"
    by (auto split: option.splits)
  then show "\<exists>s \<in> S. (s, x) \<in> (parent_edges ms)\<^sup>*"
  proof cases
    case 2
    then obtain q where q: "mr_parent m = Some q" by (cases "mr_parent m") auto
    from chain_reachable[OF 2(3)[unfolded q] refl] 2 q have "(i, q) \<in> parent_edges ms" "(q, x) \<in> (parent_edges ms)\<^sup>*"
      by (auto simp: parent_edges_def)
    then show ?thesis using 2(1) by (auto intro: converse_rtrancl_into_rtrancl)
  qed blast
next
  fix x y assume x: "x \<in> S \<union> ?up" and "(x, y) \<in> parent_edges ms"
  then obtain m where m: "menu_by_id ms x = Some m" "mr_parent m = Some y" "menu_by_id ms y \<noteq> None"
    by (auto simp: parent_edges_def)
  from x consider "x \<in> S" | i r m' where "i \<in> S" "menu_by_id ms i = Some r"
      "m' \<in> set (parent_chain ms [] (mr_parent r))" "x = mr_id m'"
    by (auto split: option.splits)
  then show "y \<in> S \<union> ?up"
  proof cases
    case 1
    have "y \<in> mr_id ` set (parent_chain ms [] (mr_parent m))" using chain_head[OF m(3), of "[]"] m(2) by simp
    then have "y \<in> ?up" using 1 m(1) by (intro UN_I[of x]) auto
    then show ?thesis by blast
  next
    case 2
    then have "m' = m" using chain_rows[OF 2(3)] m(1) by simp
    from chain_closed[OF 2(3)[unfolded this] m(2,3)] have "y \<in> ?up"
      using 2(1,2) by (intro UN_I[of i]) auto
    then show ?thesis by blast
  qed
qed simp

lemma menu_by_id_in: "i \<in> mr_id ` set ms \<Longrightarrow> \<exists>m. menu_by_id ms i = Some m"
  by (auto simp: menu_by_id_def map_of_eq_None_iff image_image simp flip: not_None_eq)

lemma edges_in: "(i, x) \<in> (parent_edges ms)\<^sup>* \<Longrightarrow> i \<in> mr_id ` set ms \<Longrightarrow> x \<in> mr_id ` set ms"
  by (induction rule: rtrancl_induct) (auto simp: parent_edges_def dest: menu_by_id_Some)

lemma map_filter_total:
  assumes "\<And>x. x \<in> set xs \<Longrightarrow> \<exists>y. f x = Some y \<and> g y = x"
  shows "map g (List.map_filter f xs) = xs"
  using assms by (induction xs) (fastforce simp: map_filter_simps)+


lemma expand_menus_Inr:
  assumes "expand_menus rows ids t = Inr found"
  shows "map mr_id found = sorted_list_of_set
      ((parent_edges (filter (\<lambda>m. mr_tenant m = t) rows))\<^sup>* `` set (case ids of None \<Rightarrow> [] | Some xs \<Rightarrow> xs))"
    "set found \<subseteq> set (filter (\<lambda>m. mr_tenant m = t) rows)"
proof -
  define ms where "ms = filter (\<lambda>m. mr_tenant m = t) rows"
  define S where "S = set (case ids of None \<Rightarrow> [] | Some xs \<Rightarrow> xs)"
  define T where "T = (parent_edges ms)\<^sup>* `` S"
  have "map mr_id found = sorted_list_of_set T \<and> set found \<subseteq> set ms"
  proof (cases "S = {}")
    case True
    then show ?thesis using assms by (auto simp: expand_menus_def Let_def S_def[symmetric] T_def)
  next
    case False
    then have sub: "S \<subseteq> mr_id ` set ms" and
      found: "found = List.map_filter (menu_by_id ms) (sorted_list_of_set T)"
      using assms
      unfolding expand_menus_def Let_def S_def[symmetric] ms_def[symmetric] T_def
      by (auto simp: expanded_closure split: if_splits)
    have fin: "finite T"
      by (rule finite_subset[of _ "mr_id ` set ms"]) (use sub edges_in in \<open>auto simp: T_def\<close>)
    have total: "\<exists>m. menu_by_id ms x = Some m \<and> mr_id m = x" if "x \<in> T" for x
      using that sub edges_in[of _ x ms] menu_by_id_in[of x ms] menu_by_id_Some[of ms x]
      by (fastforce simp: T_def)
    have "map mr_id found = sorted_list_of_set T"
      unfolding found by (rule map_filter_total) (use total fin in simp)
    moreover have "set found \<subseteq> set ms"
      unfolding found using menu_by_id_Some by (fastforce simp: map_filter_iff)
    ultimately show ?thesis by blast
  qed
  then show "map mr_id found = sorted_list_of_set
      ((parent_edges (filter (\<lambda>m. mr_tenant m = t) rows))\<^sup>* `` set (case ids of None \<Rightarrow> [] | Some xs \<Rightarrow> xs))"
    "set found \<subseteq> set (filter (\<lambda>m. mr_tenant m = t) rows)"
    by (simp_all add: T_def S_def ms_def)
qed

section \<open>Inversion\<close>

lemma load_managed_Inr: "load_managed_role db i t = Inr r \<Longrightarrow> r \<in> set (rows_roles db) \<and> role_tenant r = t \<and> role_id r = i"
  by (auto simp: load_managed_role_def dest!: find_SomeD split: option.splits)

lemma all_dominated:
  "ensure_materialized_dominated auth vs = Inr () \<longleftrightarrow>
     super_admin auth \<or> (\<forall>a \<in> set vs. ensure_role_set_dominated auth a {} = Inr ())"
proof (cases "super_admin auth")
  case False
  have "ensure_materialized_dominated auth vs = Inr () \<longleftrightarrow>
      (\<exists>ys. mapE (\<lambda>a. ensure_role_set_dominated auth a {}) vs = Inr ys)"
    using False by (auto simp: ensure_materialized_dominated_def split: sum.splits exn.splits)
  also have "\<dots> \<longleftrightarrow> (\<forall>a \<in> set vs. ensure_role_set_dominated auth a {} = Inr ())"
    by (induction vs) (auto simp: res_simps)
  finally show ?thesis using False by simp
qed (simp add: ensure_materialized_dominated_def)

lemma mapE_dominated_error:
  "mapE (\<lambda>a. ensure_role_set_dominated auth a {}) vs = Inl e \<Longrightarrow> e = Authorization ''USER_ROLE_AUTHORITY_EXCEEDED''"
  by (induction vs) (auto simp: bindE_eq_Inl dest: dominated_error)

lemma ensure_materialized_cases:
  obtains "ensure_materialized_dominated auth vs = Inr ()"
  | "ensure_materialized_dominated auth vs = Inl (Authorization ''AI_ROLE_GLOBAL_IMPACT_OUT_OF_SCOPE'')"
proof (cases "super_admin auth")
  case True
  then show ?thesis using that(1) by (simp add: ensure_materialized_dominated_def)
next
  case False
  show ?thesis
  proof (cases "mapE (\<lambda>a. ensure_role_set_dominated auth a {}) vs")
    case (Inl e)
    from False Inl[unfolded mapE_dominated_error[OF Inl]] show ?thesis
      using that(2) by (simp add: ensure_materialized_dominated_def)
  next
    case (Inr us)
    with False show ?thesis using that(1) by (simp add: ensure_materialized_dominated_def)
  qed
qed

lemma evaluate_change_Inr:
  assumes "evaluate_change db auth actor_id rid candidate_of t = Inr c"
  shows "load_managed_role db rid t = Inr (cf_role c)" "cf_members c = load_members db rid t"
    "cf_agents c = active_agent_ids_by_role db rid t"
    "ensure_member_protection auth actor_id (cf_role c) (cf_members c) = Inr ()"
    "definition_dominated auth (role_menus (cf_role c)) (role_dept_links (cf_role c)) (data_scope (cf_role c)) (cf_agents c)"
    "candidate_of (cf_role c) = Inr (cf_candidate c)"
    "definition_dominated auth (role_menus (cf_candidate c)) (role_dept_links (cf_candidate c))
       (data_scope (cf_candidate c)) (cf_agents c)"
    "materialize_role_set_authorities db
       (map (\<lambda>u. (u, user_roles u, user_depts u)) (cf_members c)) [] t = Inr (cf_before c)"
    "materialize_role_set_authorities db
       (map (\<lambda>u. (u, replace_role_in rid (cf_candidate c) (user_roles u), user_depts u)) (cf_members c))
       [(rid, cf_agents c)] t = Inr (cf_after c)"
    "ensure_materialized_dominated auth (cf_before c @ cf_after c) = Inr ()"
  using assms unfolding evaluate_change_def require_definition_dominated_def Let_def bindE_eq_Inr
  by auto

lemma bind3_Inr:
  assumes "bindE m (\<lambda>x. bindE (f x) (\<lambda>_ :: unit. bindE g (\<lambda>y. k x y))) = Inr v"
  obtains x y where "m = Inr x" "f x = Inr ()" "g = Inr y" "k x y = Inr v"
  using assms by (auto simp: bindE_eq_Inr)

lemma evaluate_request_Inr:
  assumes "evaluate_role_request h vis rdb actor_id req t = Inr ev"
  obtains auth actor where "build_authority h vis (rd_auth rdb) actor_id t = Inr auth"
    "allows_permission_codes auth {request_permission req}" "load_user (rd_auth rdb) actor_id t = Some actor"
    "case req of
       CreateRole c \<Rightarrow> \<exists>depts. create_candidate (rd_auth rdb) auth c t = Inr depts \<and>
         ev = build_role_evaluation h req auth actor (rd_info rdb) depts None
     | UpdateRole rid u \<Rightarrow> \<exists>c. evaluate_change (rd_auth rdb) auth actor_id rid
           (\<lambda>r. update_candidate (rd_auth rdb) r u t) t = Inr c \<and>
         ev = build_role_evaluation h req auth actor (rd_info rdb) (role_dept_links (cf_candidate c)) (Some c)
     | UpdateMenus rid ids \<Rightarrow> \<exists>c. evaluate_change (rd_auth rdb) auth actor_id rid
           (\<lambda>r. menus_candidate (rd_menus rdb) r ids t) t = Inr c \<and>
         ev = build_role_evaluation h req auth actor (rd_info rdb) (role_dept_links (cf_candidate c)) (Some c)"
proof -
  from assms obtain auth actor where a: "build_authority h vis (rd_auth rdb) actor_id t = Inr auth"
    "require_role_permission auth (request_permission req) = Inr ()"
    "require_user (rd_auth rdb) actor_id t = Inr actor" and
    b: "(case req of
        CreateRole c \<Rightarrow> bindE (create_candidate (rd_auth rdb) auth c t) (\<lambda>depts.
          Inr (build_role_evaluation h req auth actor (rd_info rdb) depts None))
      | UpdateRole rid u \<Rightarrow>
          bindE (evaluate_change (rd_auth rdb) auth actor_id rid (\<lambda>r. update_candidate (rd_auth rdb) r u t) t) (\<lambda>c.
          Inr (build_role_evaluation h req auth actor (rd_info rdb)
            (role_dept_links (cf_candidate c)) (Some c)))
      | UpdateMenus rid ids \<Rightarrow>
          bindE (evaluate_change (rd_auth rdb) auth actor_id rid (\<lambda>r. menus_candidate (rd_menus rdb) r ids t) t) (\<lambda>c.
          Inr (build_role_evaluation h req auth actor (rd_info rdb)
            (role_dept_links (cf_candidate c)) (Some c)))) = Inr ev"
    unfolding evaluate_role_request_def Let_def by (rule bind3_Inr)
  show ?thesis
    by (rule that[OF a(1)])
      (use a b in \<open>auto simp: require_role_permission_def require_user_Inr bindE_eq_Inr split: role_request.splits\<close>)
qed

lemma authorize_and_lock_Inr:
  assumes "authorize_and_lock_role h vis db0 db1 actor_id req expected t = Inr ev"
  shows "evaluate_role_request h vis db1 actor_id req t = Inr ev"
  using assms unfolding authorize_and_lock_role_def bindE_eq_Inr by (auto split: sum.splits)

section \<open>Well-formed role tables\<close>

text \<open>Primary keys are unique, the departments embedded in a role of the tenant are its rows of the
  association table, and only a CUSTOM role has any.\<close>

definition role_links :: "auth_db \<Rightarrow> int \<Rightarrow> int \<Rightarrow> int set" where
  "role_links db t rid = set (map (\<lambda>(t', x, d). d) (filter (\<lambda>(t', x, d). t' = t \<and> x = rid) (db_role_depts (scope db))))"

definition role_row_ok :: "auth_db \<Rightarrow> int \<Rightarrow> role \<Rightarrow> bool" where
  "role_row_ok db t r \<longleftrightarrow>
     set (role_dept_links r) \<subseteq> set (filter (\<lambda>d. dept_tenant d = t) (db_depts (scope db))) \<and>
     set (map dept_id (role_dept_links r)) = role_links db t (role_id r) \<and>
     (data_scope r \<noteq> DATA_SCOPE_CUSTOM \<longrightarrow> role_dept_links r = [])"

definition role_tables_ok :: "auth_db \<Rightarrow> int \<Rightarrow> bool" where
  "role_tables_ok db t \<longleftrightarrow>
     distinct (map role_id (rows_roles db)) \<and> distinct (map dept_id (db_depts (scope db))) \<and>
     (\<forall>r \<in> set (rows_roles db). role_tenant r = t \<longrightarrow> role_row_ok db t r)"

text \<open>Codes and names identify a role of the tenant.\<close>

definition role_keys_ok :: "auth_db \<Rightarrow> int \<Rightarrow> bool" where
  "role_keys_ok db t \<longleftrightarrow> (\<forall>x \<in> set (rows_roles db). \<forall>y \<in> set (rows_roles db).
     role_tenant x = t \<and> role_tenant y = t \<and> (role_code x = role_code y \<or> role_name x = role_name y) \<longrightarrow>
     role_id x = role_id y)"

lemma role_links_iff: "d \<in> role_links db t rid \<longleftrightarrow> (t, rid, d) \<in> set (db_role_depts (scope db))"
  by (force simp: role_links_def)

lemma key_inj: "distinct (map f xs) \<Longrightarrow> x \<in> set xs \<Longrightarrow> y \<in> set xs \<Longrightarrow> f x = f y \<Longrightarrow> x = y"
  by (auto simp: distinct_map inj_on_def)

lemma custom_links_rows:
  assumes ok: "role_tables_ok db t" and r: "r \<in> set (rows_roles db)" "role_tenant r = t"
  shows "set (map dept_id (filter (\<lambda>d. dept_status d = STATUS_ENABLED) (role_dept_links r))) =
    set (map snd (role_dept_rows (scope db) [role_id r] t))" (is "?L = ?R")
proof -
  have row: "set (role_dept_links r) \<subseteq> set (filter (\<lambda>d. dept_tenant d = t) (db_depts (scope db)))"
    "dept_id ` set (role_dept_links r) = role_links db t (role_id r)" and
    keys: "distinct (map dept_id (db_depts (scope db)))"
    using ok r by (auto simp: role_tables_ok_def role_row_ok_def)
  have R: "?R = {d. enabled_dept (scope db) t d \<and> d \<in> role_links db t (role_id r)}"
    by (auto simp: snd_role_dept_rows role_links_iff)
  have "x \<in> ?L \<longleftrightarrow> enabled_dept (scope db) t x \<and> x \<in> dept_id ` set (role_dept_links r)" for x
  proof
    assume "enabled_dept (scope db) t x \<and> x \<in> dept_id ` set (role_dept_links r)"
    then obtain d e where de: "d \<in> set (role_dept_links r)" "dept_id d = x" "e \<in> set (db_depts (scope db))"
      "dept_id e = x" "dept_status e = STATUS_ENABLED"
      by (auto simp: enabled_dept_def)
    then have "d = e" using row(1) key_inj[OF keys, of d e] by auto
    with de show "x \<in> ?L" by auto
  qed (use row(1) in \<open>auto simp: enabled_dept_def\<close>)
  then show ?thesis unfolding R row(2) by blast
qed

lemma member_candidate_ok:
  assumes ok: "role_tables_ok db t" and u: "load_user db uid t = Some u"
  shows "candidate_ok db t (u, user_roles u, user_depts u)"
proof -
  note ten = load_user_Some[OF u]
  have "in_tenant u (enabled_roles (user_roles u)) (Some (user_depts u)) t"
    using ten by (auto simp: in_tenant_def enabled_roles_def)
  moreover have "\<forall>d \<in> set (user_depts u). \<exists>row \<in> set (db_depts (scope db)). dept_tenant row = t \<and> dept_id row = dept_id d"
    using load_user_depts[OF u] by blast
  moreover have "set (map dept_id (filter (\<lambda>d. dept_status d = STATUS_ENABLED) (role_dept_links r))) =
        set (map snd (role_dept_rows (scope db) [role_id r] t))" if "r \<in> set (enabled_roles (user_roles u))" for r
    using custom_links_rows[OF ok, of r] that load_user_roles[OF u, of r] by (auto simp: enabled_roles_def)
  ultimately show ?thesis by (simp add: candidate_ok_def)
qed

lemma materialize_cong:
  assumes "db_depts (scope db') = db_depts (scope db)" "db_user_depts (scope db') = db_user_depts (scope db)"
    and "role_agents db' = role_agents db"
  shows "materialize_role_set_authorities db' cands ov t = materialize_role_set_authorities db cands ov t"
proof -
  have "grantable_agent_ids_by_role_ids db' x t = grantable_agent_ids_by_role_ids db x t" for x
    by (simp only: grantable_agent_ids_by_role_ids_def assms)
  moreover have "descendant_rows db' x t = descendant_rows db x t" for x
    by (simp only: descendant_rows_def assms)
  ultimately show ?thesis by (simp only: materialize_role_set_authorities_def assms)
qed

section \<open>A written role\<close>

text \<open>What a role write leaves: one row replaced, the links of that role its embedded departments,
  everything else as before.\<close>

definition role_written :: "auth_db \<Rightarrow> auth_db \<Rightarrow> role \<Rightarrow> int \<Rightarrow> bool" where
  "role_written db db2 r t \<longleftrightarrow>
     rows_roles db2 = map (\<lambda>x. if role_id x = role_id r then r else x) (rows_roles db) \<and>
     rows_users db2 = rows_users db \<and> links_roles db2 = links_roles db \<and>
     primary_depts db2 = primary_depts db \<and> role_agents db2 = role_agents db \<and>
     (\<exists>l. scope db2 = (scope db)\<lparr>db_role_depts := l\<rparr> \<and>
        (\<forall>t' x d. (t', x) \<noteq> (t, role_id r) \<longrightarrow> (t', x, d) \<in> set l \<longleftrightarrow> (t', x, d) \<in> set (db_role_depts (scope db))))"

lemma role_writtenD:
  assumes "role_written db db2 r t"
  shows "rows_roles db2 = map (\<lambda>x. if role_id x = role_id r then r else x) (rows_roles db)"
    "rows_users db2 = rows_users db" "links_roles db2 = links_roles db" "role_agents db2 = role_agents db"
    "db_depts (scope db2) = db_depts (scope db)" "db_user_depts (scope db2) = db_user_depts (scope db)"
    "db_users (scope db2) = db_users (scope db)"
    "x \<noteq> role_id r \<Longrightarrow> role_links db2 t x = role_links db t x"
proof -
  show "x \<noteq> role_id r \<Longrightarrow> role_links db2 t x = role_links db t x"
    using assms unfolding role_written_def set_eq_iff role_links_iff by auto
qed (use assms in \<open>auto simp: role_written_def\<close>)

lemma written_tables_ok:
  assumes ok: "role_tables_ok db t" and w: "role_written db db2 r t" and row: "role_row_ok db2 t r"
  shows "role_tables_ok db2 t"
proof -
  note d = role_writtenD[OF w]
  have "map role_id (rows_roles db2) = map role_id (rows_roles db)" unfolding d(1) by auto
  moreover have "role_row_ok db2 t x" if "x \<in> set (rows_roles db2)" "role_tenant x = t" for x
  proof (cases "x = r")
    case False
    then have "x \<in> set (rows_roles db)" "role_id x \<noteq> role_id r" using that(1) unfolding d(1) by (auto split: if_splits)
    then show ?thesis using ok that(2) d(5,8) by (auto simp: role_tables_ok_def role_row_ok_def)
  qed (use row in simp)
  ultimately show ?thesis using ok d(5) by (auto simp: role_tables_ok_def)
qed

lemma load_user_role_written:
  assumes w: "role_written db db2 r t" and r: "role_tenant r = t" "r0 \<in> set (rows_roles db)"
    "role_id r0 = role_id r" "role_tenant r0 = t" "distinct (map role_id (rows_roles db))"
  shows "load_user db2 uid t = map_option (\<lambda>u. u\<lparr>user_roles := replace_role_in (role_id r) r (user_roles u)\<rparr>)
    (load_user db uid t)"
proof -
  note d = role_writtenD[OF w]
  have same: "x = r0" if "x \<in> set (rows_roles db)" "role_id x = role_id r" for x
    using key_inj[OF r(5) that(1) r(2)] that(2) r(3) by simp
  have "filter (\<lambda>x. role_tenant x = t \<and> (t, uid, role_id x) \<in> L)
      (map (\<lambda>x. if role_id x = role_id r then r else x) xs) =
    map (\<lambda>x. if role_id x = role_id r then r else x)
      (filter (\<lambda>x. role_tenant x = t \<and> (t, uid, role_id x) \<in> L) xs)" if "set xs \<subseteq> set (rows_roles db)" for xs L
    using that by (induction xs) (auto dest!: same simp: r)
  then show ?thesis
    unfolding load_user_def d replace_role_in_def
    by (cases "find (\<lambda>u. user_tenant u = t \<and> user_id u = uid) (rows_users db)") simp_all
qed

section \<open>Candidates\<close>

lemma candidate_role_simps [simp]:
  "role_id (candidate_role r u ms ds) = role_id r" "role_tenant (candidate_role r u ms ds) = role_tenant r"
  "role_code (candidate_role r u ms ds) = role_code r" "role_menus (candidate_role r u ms ds) = ms"
  "role_dept_links (candidate_role r u ms ds) = ds"
  "data_scope (candidate_role r u ms ds) = (case ru_scope u of None \<Rightarrow> data_scope r | Some s \<Rightarrow> s)"
  "role_name (candidate_role r u ms ds) = (case ru_name u of None \<Rightarrow> role_name r | Some s \<Rightarrow> s)"
  "role_status (candidate_role r u ms ds) = (case ru_status u of None \<Rightarrow> role_status r | Some s \<Rightarrow> s)"
  "(candidate_role r u ms ds)\<lparr>role_dept_links := ds'\<rparr> = candidate_role r u ms ds'"
  "(candidate_role r u ms ds)\<lparr>role_menus := ms'\<rparr> = candidate_role r u ms' ds"
  by (simp_all add: candidate_role_def)

lemma candidate_no_update: "candidate_role r no_update ms ds = r\<lparr>role_menus := ms, role_dept_links := ds\<rparr>"
  by (cases r) (simp add: candidate_role_def no_update_def)

lemma load_role_depts_Inr:
  assumes "load_role_depts db ids t = Inr ds"
  shows "set ds \<subseteq> set (filter (\<lambda>d. dept_tenant d = t) (db_depts (scope db)))"
    "set (map dept_id ds) = set (case ids of None \<Rightarrow> [] | Some xs \<Rightarrow> xs)"
proof -
  define N where "N = set (case ids of None \<Rightarrow> [] | Some xs \<Rightarrow> xs)"
  have fin: "finite N" unfolding N_def by (rule finite_set)
  have "set ds \<subseteq> set (filter (\<lambda>d. dept_tenant d = t) (db_depts (scope db))) \<and> set (map dept_id ds) = N"
  proof (cases "N = {}")
    case True
    then show ?thesis using assms by (simp add: load_role_depts_def Let_def N_def[symmetric])
  next
    case False
    then have ds: "map dept_id ds = sorted_list_of_set N"
      "ds = sort_key dept_id (filter (\<lambda>d. dept_tenant d = t \<and> dept_id d \<in> N) (db_depts (scope db)))"
      using assms fin by (auto simp: load_role_depts_def Let_def N_def[symmetric] split: if_splits)
    have "set (map dept_id ds) = N" unfolding ds(1) using fin by simp
    moreover have "set ds \<subseteq> set (filter (\<lambda>d. dept_tenant d = t) (db_depts (scope db)))"
      unfolding ds(2) by auto
    ultimately show ?thesis by blast
  qed
  then show "set ds \<subseteq> set (filter (\<lambda>d. dept_tenant d = t) (db_depts (scope db)))"
    "set (map dept_id ds) = set (case ids of None \<Rightarrow> [] | Some xs \<Rightarrow> xs)"
    by (simp_all add: N_def)
qed

lemma update_candidate_Inr:
  assumes "update_candidate db r u t = Inr cand"
  obtains ds where "cand = candidate_role r u (role_menus r) ds"
    "data_scope cand \<noteq> DATA_SCOPE_CUSTOM \<longrightarrow> ds = []"
    "set ds \<subseteq> set (filter (\<lambda>d. dept_tenant d = t) (db_depts (scope db))) \<or> ds = role_dept_links r"
    "ru_dept_ids u = None \<and> ru_scope u = None \<and> data_scope r = DATA_SCOPE_CUSTOM \<longrightarrow> ds = role_dept_links r"
    "\<forall>n. ru_name u = Some n \<longrightarrow> \<not> duplicate_role db t (\<lambda>x. role_name x = n \<and> role_id x \<noteq> role_id r)"
proof -
  define k where "k = (case ru_scope u of None \<Rightarrow> data_scope r | Some s \<Rightarrow> s)"
  define q where "q = (case ru_dept_ids u of None \<Rightarrow> None | Some ds \<Rightarrow> ds)"
  from assms obtain ds where
    n: "(case ru_name u of None \<Rightarrow> Inr () | Some n \<Rightarrow>
         guardE (\<not> duplicate_role db t (\<lambda>x. role_name x = n \<and> role_id x \<noteq> role_id r)) (Duplicate [])) = Inr ()" and
    ds: "(if k \<noteq> DATA_SCOPE_CUSTOM then Inr [] else if ru_dept_ids u \<noteq> None then load_role_depts db q t
        else if k = data_scope r then Inr (role_dept_links r) else Inr []) = Inr ds" and
    c: "cand = candidate_role r u (role_menus r) ds"
    unfolding update_candidate_def Let_def bindE_eq_Inr k_def q_def by auto
  have k: "data_scope cand = k" by (simp add: c k_def)
  show ?thesis
  proof (rule that[OF c])
    show "data_scope cand \<noteq> DATA_SCOPE_CUSTOM \<longrightarrow> ds = []" using ds k by auto
    show "set ds \<subseteq> set (filter (\<lambda>d. dept_tenant d = t) (db_depts (scope db))) \<or> ds = role_dept_links r"
      using ds load_role_depts_Inr(1)[of db q t ds] by (auto split: if_splits)
    show "ru_dept_ids u = None \<and> ru_scope u = None \<and> data_scope r = DATA_SCOPE_CUSTOM \<longrightarrow> ds = role_dept_links r"
      using ds by (auto simp: k_def)
    show "\<forall>n. ru_name u = Some n \<longrightarrow> \<not> duplicate_role db t (\<lambda>x. role_name x = n \<and> role_id x \<noteq> role_id r)"
      using n by auto
  qed
qed

lemma menus_candidate_Inr:
  "menus_candidate rows r ids t = Inr cand \<longleftrightarrow>
     (\<exists>ms. expand_menus rows (Some ids) t = Inr ms \<and> cand = candidate_role r no_update (map mr_menu ms) (role_dept_links r))"
  by (auto simp: menus_candidate_def bindE_eq_Inr)

section \<open>Writes\<close>

lemma put_role_simps [simp]:
  "rows_roles (put_role db r) = map (\<lambda>x. if role_id x = role_id r then r else x) (rows_roles db)"
  "rows_users (put_role db r) = rows_users db" "links_roles (put_role db r) = links_roles db"
  "primary_depts (put_role db r) = primary_depts db" "role_agents (put_role db r) = role_agents db"
  "scope (put_role db r) = scope db"
  by (simp_all add: put_role_def)

lemma put_role_written: "role_written db (put_role db r) r t"
  by (auto simp: role_written_def intro!: exI[of _ "db_role_depts (scope db)"])

lemma replace_depts_Inr:
  assumes "replace_role_depts db r ds t = Inr (r', db')"
  shows "r' = r\<lparr>role_dept_links := ds\<rparr>" "role_tenant r = t" "\<forall>d \<in> set ds. dept_tenant d = t"
    "role_written db db' r' t" "role_links db' t (role_id r) = dept_id ` set ds"
proof -
  from assms have *: "role_tenant r = t" "\<forall>d \<in> set ds. dept_tenant d = t" "r' = r\<lparr>role_dept_links := ds\<rparr>"
    "db' = put_role (db\<lparr>scope := (scope db)\<lparr>db_role_depts :=
               filter (\<lambda>(t', x, d). \<not> (t' = t \<and> x = role_id r)) (db_role_depts (scope db)) @
               map (\<lambda>d. (t, role_id r, dept_id d)) ds\<rparr>\<rparr>) r'"
    by (auto simp: replace_role_depts_def Let_def split: if_splits)
  then show "r' = r\<lparr>role_dept_links := ds\<rparr>" "role_tenant r = t" "\<forall>d \<in> set ds. dept_tenant d = t" by simp_all
  show "role_written db db' r' t"
    unfolding role_written_def *(4) by (auto simp: *(3))
  show "role_links db' t (role_id r) = dept_id ` set ds"
    unfolding set_eq_iff role_links_iff *(4) by (auto simp: image_iff)
qed

lemma role_written_again:
  assumes "role_written (put_role db r) db' r' t" "role_id r' = role_id r"
  shows "role_written db db' r' t"
  using assms by (auto simp: role_written_def o_def)

text \<open>Both writes of an existing role: what was evaluated in \<open>db1\<close> and what the tables then hold.\<close>

definition changed_role :: "(json \<Rightarrow> string) \<Rightarrow> (auth_db \<Rightarrow> user \<Rightarrow> int set) \<Rightarrow> role_db \<Rightarrow> int \<Rightarrow> int \<Rightarrow> string \<Rightarrow> int \<Rightarrow>
    grant_authority \<Rightarrow> change_facts \<Rightarrow> auth_db \<Rightarrow> bool" where
  "changed_role h vis db1 actor_id rid permission t auth c db2 \<longleftrightarrow>
     build_authority h vis (rd_auth db1) actor_id t = Inr auth \<and> allows_permission_codes auth {permission} \<and>
     (\<exists>f. evaluate_change (rd_auth db1) auth actor_id rid f t = Inr c) \<and>
     role_id (cf_candidate c) = rid \<and> role_tenant (cf_candidate c) = t \<and>
     role_code (cf_candidate c) = role_code (cf_role c) \<and>
     role_written (rd_auth db1) db2 (cf_candidate c) t \<and> role_row_ok db2 t (cf_candidate c)"

lemma row_ok_written:
  assumes w: "role_written db db2 r t" and row: "role_row_ok db t r0"
    and ds: "set (role_dept_links r) \<subseteq> set (filter (\<lambda>d. dept_tenant d = t) (db_depts (scope db))) \<or>
      role_dept_links r = role_dept_links r0"
    and links: "dept_id ` set (role_dept_links r) = role_links db2 t (role_id r)"
    and custom: "data_scope r \<noteq> DATA_SCOPE_CUSTOM \<Longrightarrow> role_dept_links r = []"
  shows "role_row_ok db2 t r"
  using row ds links custom unfolding role_row_ok_def role_writtenD(5)[OF w] by auto

lemma update_role_Inr:
  assumes ok: "update_role h vis camel db0 db1 actor_id rid u expected t = Inr (r', db2)"
    and wf: "role_tables_ok (rd_auth db1) t"
  obtains auth c where "changed_role h vis db1 actor_id rid ''system:role:edit'' t auth c (rd_auth db2)"
    "r' = cf_candidate c" "update_candidate (rd_auth db1) (cf_role c) u t = Inr r'"
    "rd_menus db2 = rd_menus db1"
proof -
  let ?db = "rd_auth db1"
  from ok obtain ev r where ev: "authorize_and_lock_role h vis db0 db1 actor_id (UpdateRole rid u) expected t = Inr ev"
    "re_role ev = Some r" and
    rest: "(if ru_dept_ids u \<noteq> None \<or> ru_scope u \<noteq> None
        then bindE (replace_role_depts (put_role ?db (candidate_role r u (role_menus r) (role_dept_links r)))
            (candidate_role r u (role_menus r) (role_dept_links r)) (re_depts ev) t) (\<lambda>(r', db').
          Inr (r', db1\<lparr>rd_auth := db', rd_info := (rd_info db1)(rid :=
            (clear_changed_translations camel r (rd_info db1 rid) (update_values u))\<lparr>ri_desc :=
              candidate_desc (clear_changed_translations camel r (rd_info db1 rid) (update_values u)) u\<rparr>)\<rparr>))
        else Inr (candidate_role r u (role_menus r) (role_dept_links r),
          db1\<lparr>rd_auth := put_role ?db (candidate_role r u (role_menus r) (role_dept_links r)),
            rd_info := (rd_info db1)(rid :=
            (clear_changed_translations camel r (rd_info db1 rid) (update_values u))\<lparr>ri_desc :=
              candidate_desc (clear_changed_translations camel r (rd_info db1 rid) (update_values u)) u\<rparr>)\<rparr>))
      = Inr (r', db2)"
    unfolding update_role_def Let_def by (auto simp: bindE_eq_Inr split: option.splits)
  obtain auth actor c where a: "build_authority h vis ?db actor_id t = Inr auth"
    "allows_permission_codes auth {''system:role:edit''}"
    "evaluate_change ?db auth actor_id rid (\<lambda>r. update_candidate ?db r u t) t = Inr c"
    "ev = build_role_evaluation h (UpdateRole rid u) auth actor (rd_info db1) (role_dept_links (cf_candidate c)) (Some c)"
    by (rule evaluate_request_Inr[OF authorize_and_lock_Inr[OF ev(1)]]) (auto simp: request_permission_def)
  have r: "cf_role c = r" "re_depts ev = role_dept_links (cf_candidate c)"
    using ev(2) a(4) by (auto simp: build_role_evaluation_def Let_def)
  note e = evaluate_change_Inr[OF a(3)]
  from load_managed_Inr[OF e(1)] have row: "r \<in> set (rows_roles ?db)" "role_tenant r = t" "role_id r = rid"
    unfolding r by simp_all
  then have r_ok: "role_row_ok ?db t r" using wf by (auto simp: role_tables_ok_def)
  obtain ds where cand: "cf_candidate c = candidate_role r u (role_menus r) ds"
    "data_scope (cf_candidate c) \<noteq> DATA_SCOPE_CUSTOM \<longrightarrow> ds = []"
    "set ds \<subseteq> set (filter (\<lambda>d. dept_tenant d = t) (db_depts (scope ?db))) \<or> ds = role_dept_links r"
    "ru_dept_ids u = None \<and> ru_scope u = None \<and> data_scope r = DATA_SCOPE_CUSTOM \<longrightarrow> ds = role_dept_links r"
    by (rule update_candidate_Inr[OF e(6)[unfolded r]])
  have w: "r' = cf_candidate c \<and> role_written ?db (rd_auth db2) r' t \<and>
      dept_id ` set (role_dept_links r') = role_links (rd_auth db2) t rid \<and> rd_menus db2 = rd_menus db1"
  proof (cases "ru_dept_ids u \<noteq> None \<or> ru_scope u \<noteq> None")
    case True
    with rest obtain db' where d: "replace_role_depts (put_role ?db (candidate_role r u (role_menus r) (role_dept_links r)))
            (candidate_role r u (role_menus r) (role_dept_links r)) ds t = Inr (r', db')" "rd_auth db2 = db'"
      "rd_menus db2 = rd_menus db1"
      unfolding r cand(1) by (auto simp: bindE_eq_Inr)
    note f = replace_depts_Inr[OF d(1)]
    have r': "r' = cf_candidate c" using f(1) cand(1) by simp
    have "role_written ?db db' r' t" by (rule role_written_again[OF f(4)]) (simp add: r' cand(1))
    then show ?thesis using f(5) d(2,3) r' by (simp add: cand(1) row(3))
  next
    case False
    have "ds = role_dept_links r"
      using False cand(2,4) r_ok by (cases "data_scope r = DATA_SCOPE_CUSTOM") (auto simp: cand(1) role_row_ok_def)
    moreover have "r' = candidate_role r u (role_menus r) (role_dept_links r)"
      "rd_auth db2 = put_role ?db r'" "rd_menus db2 = rd_menus db1" using rest False by auto
    ultimately show ?thesis
      using r_ok row(3) put_role_written[of ?db r' t] unfolding role_row_ok_def cand(1)
      by (simp add: role_links_def)
  qed
  then have "role_row_ok (rd_auth db2) t r'"
    by (intro row_ok_written[OF _ r_ok, of "rd_auth db2" r']) (use cand row in auto)
  with a(1-3) w row r show ?thesis
    by (intro that[of auth c]) (auto simp: changed_role_def cand(1) e(6)[unfolded r])
qed

lemma update_menus_Inr:
  assumes ok: "update_role_menus h vis db0 db1 actor_id rid ids expected t = Inr (r', db2)"
    and wf: "role_tables_ok (rd_auth db1) t"
  obtains auth c ms where "changed_role h vis db1 actor_id rid ''system:role:menu-auth'' t auth c (rd_auth db2)"
    "r' = cf_candidate c" "expand_menus (rd_menus db1) (Some ids) t = Inr ms"
    "r' = (cf_role c)\<lparr>role_menus := map mr_menu ms\<rparr>" "rd_menus db2 = rd_menus db1"
proof -
  let ?db = "rd_auth db1"
  from ok obtain ev r db' where ev: "authorize_and_lock_role h vis db0 db1 actor_id (UpdateMenus rid ids) expected t = Inr ev"
    "re_role ev = Some r" and
    rep: "replace_role_menus ?db r (re_menus ev) t = Inr (r', db')" "db2 = db1\<lparr>rd_auth := db'\<rparr>"
    unfolding update_role_menus_def by (auto simp: bindE_eq_Inr split: option.splits)
  obtain auth actor c where a: "build_authority h vis ?db actor_id t = Inr auth"
    "allows_permission_codes auth {''system:role:menu-auth''}"
    "evaluate_change ?db auth actor_id rid (\<lambda>r. menus_candidate (rd_menus db1) r ids t) t = Inr c"
    "ev = build_role_evaluation h (UpdateMenus rid ids) auth actor (rd_info db1) (role_dept_links (cf_candidate c)) (Some c)"
    by (rule evaluate_request_Inr[OF authorize_and_lock_Inr[OF ev(1)]]) (auto simp: request_permission_def)
  have r: "cf_role c = r" "re_menus ev = role_menus (cf_candidate c)"
    using ev(2) a(4) by (auto simp: build_role_evaluation_def Let_def)
  note e = evaluate_change_Inr[OF a(3)]
  from load_managed_Inr[OF e(1)] have row: "r \<in> set (rows_roles ?db)" "role_tenant r = t" "role_id r = rid"
    unfolding r by simp_all
  then have r_ok: "role_row_ok ?db t r" using wf by (auto simp: role_tables_ok_def)
  obtain ms where ms: "expand_menus (rd_menus db1) (Some ids) t = Inr ms"
    "cf_candidate c = candidate_role r no_update (map mr_menu ms) (role_dept_links r)"
    using e(6) unfolding r menus_candidate_Inr by blast
  then have cand: "cf_candidate c = r\<lparr>role_menus := map mr_menu ms\<rparr>" by (simp add: candidate_no_update)
  have r': "r' = cf_candidate c" "db' = put_role ?db r'"
    using rep(1) r(2) by (auto simp: replace_role_menus_def Let_def cand split: if_splits)
  have w: "role_written ?db (rd_auth db2) r' t" using put_role_written rep(2) r'(2) by simp
  have "role_row_ok (rd_auth db2) t r'"
    using r_ok rep(2) r' cand by (simp add: role_row_ok_def role_links_def)
  with a(1-3) w row r r' ms(1) cand rep(2) show ?thesis
    by (intro that[of auth c ms]) (auto simp: changed_role_def)
qed

section \<open>Who is reached\<close>

lemma active_agents_role_agents: "active_agent_ids_by_role db rid t = role_agents_of db t rid"
  by (force simp: active_agent_ids_by_role_def role_agents_of_def)

lemma overridden_same: "overridden [(rid, role_agents_of db t rid)] (role_agents_of db t) = role_agents_of db t"
  by (auto simp: overridden_def fun_eq_iff)

lemma acc_own: "acc_scope db u rs (Some (user_depts u)) t = acc_scope db u rs None t"
  by (simp add: acc_scope_def own_dept_list_def)

lemma acc_scope_roles:
  "acc_scope db (u\<lparr>user_roles := rs'\<rparr>) rs None t = acc_scope db u rs None t"
  by (simp add: acc_scope_def own_dept_list_def)

text \<open>Every holder of a changed role was, and stays, dominated by the actor.\<close>

lemma changed_role_members:
  assumes ch: "changed_role h vis db1 actor_id rid permission t auth c db2"
    and wf: "role_tables_ok (rd_auth db1) t" "canonical_paths (rd_auth db1) t" and nosuper: "\<not> super_admin auth"
    and link: "(t, uid, rid) \<in> set (links_roles (rd_auth db1))" and u: "load_user (rd_auth db1) uid t = Some u"
  shows "uid \<noteq> actor_id" "build_authority h vis (rd_auth db1) uid t = Inr b \<Longrightarrow> authority_le b auth"
    "build_authority h vis db2 uid t = Inr b \<Longrightarrow> authority_le b auth"
proof -
  let ?db = "rd_auth db1" let ?cand = "cf_candidate c"
  let ?cands = "map (\<lambda>u. (u, user_roles u, user_depts u)) (cf_members c)"
  let ?cands' = "map (\<lambda>u. (u, replace_role_in rid ?cand (user_roles u), user_depts u)) (cf_members c)"
  from ch obtain f where "evaluate_change ?db auth actor_id rid f t = Inr c" and
    cand: "role_id ?cand = rid" "role_tenant ?cand = t" "role_code ?cand = role_code (cf_role c)" and
    w: "role_written ?db db2 ?cand t" and row: "role_row_ok db2 t ?cand"
    by (auto simp: changed_role_def)
  note e = evaluate_change_Inr[OF this(1)]
  note d = role_writtenD[OF w]
  note r = load_managed_Inr[OF e(1)]
  have wf2: "role_tables_ok db2 t" by (rule written_tables_ok[OF wf(1) w row])
  have load2: "load_user db2 x t = map_option (\<lambda>u. u\<lparr>user_roles := replace_role_in rid ?cand (user_roles u)\<rparr>)
      (load_user ?db x t)" for x
    using load_user_role_written[OF w cand(2), of "cf_role c" x] r cand(1) wf(1) by (simp add: role_tables_ok_def)
  have mem: "u \<in> set (cf_members c)" using link u load_members_iff unfolding e(2) by blast
  have uid: "user_id u = uid" using load_user_Some(1)[OF u] .
  note p = protection_member[OF e(4) nosuper mem]
  show "uid \<noteq> actor_id" using p(1) uid by simp
  have members: "\<exists>x. load_user ?db x t = Some v" if "v \<in> set (cf_members c)" for v
    using that load_members_iff unfolding e(2) by blast
  have dom: "ensure_role_set_dominated auth a {} = Inr ()" if "a \<in> set (cf_before c @ cf_after c)" for a
    using e(10) that nosuper unfolding all_dominated by blast
  have ok1: "\<forall>x \<in> set ?cands. candidate_ok ?db t x"
    using members member_candidate_ok[OF wf(1)] by auto
  have vis: "case ga_user_ids auth of None \<Rightarrow> True | Some us \<Rightarrow> uid \<in> us" using p(2) unfolding uid .
  have "cf_before c = map (\<lambda>u. authority_of (role_agents_of ?db t) (user_roles u) (fst (acc_scope ?db u (user_roles u) None t))
      (acc_users ?db u (Some (user_depts u)) t (acc_scope ?db u (user_roles u) None t))) (cf_members c)"
    using e(8)[unfolded bulk_closed[OF wf(2) ok1]] by (simp add: acc_own o_def)
  then have b_in: "authority_of (role_agents_of ?db t) (user_roles u) (fst (acc_scope ?db u (user_roles u) None t))
      (acc_users ?db u (Some (user_depts u)) t (acc_scope ?db u (user_roles u) None t)) \<in> set (cf_before c)"
    using mem by simp
  show "authority_le b auth" if "build_authority h vis ?db uid t = Inr b"
    by (rule materialized_dominates[where depts = "Some (user_depts u)", OF that u refl refl dom uid nosuper p(3) vis])
      (use b_in in simp)
  let ?u2 = "u\<lparr>user_roles := replace_role_in rid ?cand (user_roles u)\<rparr>"
  have u2: "load_user db2 uid t = Some ?u2" using load2[of uid] u by simp
  have ok2: "\<forall>x \<in> set ?cands'. candidate_ok db2 t x"
  proof
    fix x assume "x \<in> set ?cands'"
    then obtain v where v: "v \<in> set (cf_members c)" "x = (v, replace_role_in rid ?cand (user_roles v), user_depts v)" by auto
    from members[OF v(1)] obtain y where "load_user db2 y t = Some (v\<lparr>user_roles := replace_role_in rid ?cand (user_roles v)\<rparr>)"
      using load2 by auto
    from member_candidate_ok[OF wf2 this] show "candidate_ok db2 t x"
      by (simp add: v(2) candidate_ok_def in_tenant_def)
  qed
  have paths2: "canonical_paths db2 t" using wf(2) d(5) by (simp add: canonical_paths_def)
  have after: "materialize_role_set_authorities db2 ?cands' [(rid, role_agents_of db2 t rid)] t = Inr (cf_after c)"
    using e(9) materialize_cong[OF d(5,6,4)] d(4) unfolding e(3) active_agents_role_agents
    by (simp add: role_agents_of_def)
  have "cf_after c = map (\<lambda>u. authority_of (role_agents_of db2 t) (replace_role_in rid ?cand (user_roles u))
      (fst (acc_scope db2 u (replace_role_in rid ?cand (user_roles u)) None t))
      (acc_users db2 u (Some (user_depts u)) t (acc_scope db2 u (replace_role_in rid ?cand (user_roles u)) None t)))
      (cf_members c)"
    using after[unfolded bulk_closed[OF paths2 ok2] overridden_same] by (simp add: acc_own o_def)
  then have a_in: "authority_of (role_agents_of db2 t) (user_roles ?u2) (fst (acc_scope db2 ?u2 (user_roles ?u2) None t))
      (acc_users db2 u (Some (user_depts u)) t (acc_scope db2 ?u2 (user_roles ?u2) None t)) \<in> set (cf_after c)"
    using mem by (simp add: acc_scope_roles)
  have nosuper2: "\<not> is_super_admin ?u2"
    using p(3,4) cand(3) by (auto simp: is_super_admin_def replace_role_in_def)
  show "authority_le b auth" if "build_authority h vis db2 uid t = Inr b"
    by (rule materialized_dominates[where depts = "Some (user_depts u)", OF that u2 refl refl dom uid nosuper nosuper2 vis])
      (use a_in in simp)
qed

section \<open>Creation and keys\<close>

lemma create_candidate_Inr:
  assumes "create_candidate db auth c t = Inr ds"
  shows "set ds \<subseteq> set (filter (\<lambda>d. dept_tenant d = t) (db_depts (scope db)))"
    "rc_scope c \<noteq> DATA_SCOPE_CUSTOM \<longrightarrow> ds = []"
    "definition_dominated auth [] ds (rc_scope c) {}" "rc_code c \<in> PROTECTED_ROLE_CODES \<longrightarrow> super_admin auth"
    "\<not> duplicate_role db t (\<lambda>r. role_code r = rc_code c \<or> role_name r = rc_name c)"
proof -
  from assms have *: "\<not> (rc_code c \<in> PROTECTED_ROLE_CODES \<and> \<not> super_admin auth)"
    "\<not> duplicate_role db t (\<lambda>r. role_code r = rc_code c \<or> role_name r = rc_name c)"
    "reject_irrelevant_custom_depts (rc_scope c) (rc_dept_ids c) = Inr ()"
    "load_role_depts db (rc_dept_ids c) t = Inr ds"
    "definition_dominated auth [] ds (rc_scope c) {}"
    unfolding create_candidate_def require_definition_dominated_def by (auto simp: bindE_eq_Inr)
  then show "set ds \<subseteq> set (filter (\<lambda>d. dept_tenant d = t) (db_depts (scope db)))"
    "definition_dominated auth [] ds (rc_scope c) {}" "rc_code c \<in> PROTECTED_ROLE_CODES \<longrightarrow> super_admin auth"
    "\<not> duplicate_role db t (\<lambda>r. role_code r = rc_code c \<or> role_name r = rc_name c)"
    using load_role_depts_Inr(1) by auto
  have "ds = []" if "rc_scope c \<noteq> DATA_SCOPE_CUSTOM"
    using load_role_depts_Inr(2)[OF *(4)] *(3) that
    by (auto simp: reject_irrelevant_custom_depts_def split: if_splits)
  then show "rc_scope c \<noteq> DATA_SCOPE_CUSTOM \<longrightarrow> ds = []" by blast
qed

lemma create_role_Inr:
  assumes "create_role h vis db0 db1 actor_id c fresh expected t = Inr (r', db2)"
  obtains auth ds where "build_authority h vis (rd_auth db1) actor_id t = Inr auth"
    "allows_permission_codes auth {''system:role:add''}" "create_candidate (rd_auth db1) auth c t = Inr ds"
    "r' = \<lparr>role_id = fresh, role_tenant = t, role_code = rc_code c, role_name = rc_name c,
       role_status = rc_status c, data_scope = rc_scope c, role_menus = [], role_dept_links = ds\<rparr>"
    "rows_roles (rd_auth db2) = rows_roles (rd_auth db1) @ [r']"
    "fresh \<notin> role_id ` set (rows_roles (rd_auth db1))"
    "db_depts (scope (rd_auth db2)) = db_depts (scope (rd_auth db1))"
    "role_links (rd_auth db2) t fresh = dept_id ` set ds"
    "\<forall>x. x \<noteq> fresh \<longrightarrow> role_links (rd_auth db2) t x = role_links (rd_auth db1) t x"
proof -
  let ?db = "rd_auth db1"
  let ?r = "\<lparr>role_id = fresh, role_tenant = t, role_code = rc_code c, role_name = rc_name c,
       role_status = rc_status c, data_scope = rc_scope c, role_menus = [], role_dept_links = []\<rparr>"
  from assms obtain ev db' where ev: "authorize_and_lock_role h vis db0 db1 actor_id (CreateRole c) expected t = Inr ev"
    and new: "\<not> (\<exists>x \<in> set (rows_roles ?db). role_id x = fresh \<or>
              role_tenant x = t \<and> (role_code x = rc_code c \<or> role_name x = rc_name c))"
    and rep: "replace_role_depts (?db\<lparr>rows_roles := rows_roles ?db @ [?r]\<rparr>) ?r (re_depts ev) t = Inr (r', db')"
    "rd_auth db2 = db'"
    unfolding create_role_def Let_def by (auto simp: bindE_eq_Inr)
  obtain auth actor ds where a: "build_authority h vis ?db actor_id t = Inr auth"
    "allows_permission_codes auth {''system:role:add''}" "create_candidate ?db auth c t = Inr ds"
    "ev = build_role_evaluation h (CreateRole c) auth actor (rd_info db1) ds None"
    by (rule evaluate_request_Inr[OF authorize_and_lock_Inr[OF ev]]) (auto simp: request_permission_def)
  have ds: "re_depts ev = ds" by (simp add: a(4) build_role_evaluation_def Let_def)
  note f = replace_depts_Inr[OF rep(1)[unfolded ds]]
  note d = role_writtenD[OF f(4)]
  have id: "role_id r' = fresh" using f(1) by simp
  have rows: "rows_roles db' = rows_roles ?db @ [r']"
    using new unfolding d(1) id by (auto intro!: map_idI)
  have links: "role_links db' t x = role_links ?db t x" if "x \<noteq> fresh" for x
    using d(8)[of x] that id by (simp add: role_links_def)
  show ?thesis
    by (rule that[OF a(1-3)]) (use f(1,5) rows links new rep(2) d(5) in auto)
qed

lemma keys_ok_changed:
  assumes keys: "role_keys_ok db t" and w: "role_written db db2 r t" and r0: "r0 \<in> set (rows_roles db)"
    "role_tenant r0 = t" "role_id r0 = role_id r" "role_code r = role_code r0"
    and name: "role_name r = role_name r0 \<or> \<not> duplicate_role db t (\<lambda>x. role_name x = role_name r \<and> role_id x \<noteq> role_id r)"
  shows "role_keys_ok db2 t"
proof -
  have old: "role_id x = role_id y" if "x \<in> set (rows_roles db)" "y \<in> set (rows_roles db)" "role_tenant x = t"
      "role_tenant y = t" "role_code x = role_code y \<or> role_name x = role_name y" for x y
    using keys that unfolding role_keys_ok_def by blast
  have one: "role_id x = role_id r" if x: "x \<in> set (rows_roles db)" "role_tenant x = t"
    and eq: "role_code x = role_code r \<or> role_name x = role_name r" for x
  proof (cases "role_code x = role_code r0 \<or> role_name x = role_name r0")
    case True
    from old[OF x(1) r0(1) x(2) r0(2) True] r0(3) show ?thesis by simp
  next
    case False
    then have "role_name r \<noteq> role_name r0" "role_name x = role_name r" using eq r0(4) by auto
    then show ?thesis using name x unfolding duplicate_role_def by blast
  qed
  have rows: "z = r \<or> z \<in> set (rows_roles db)" if "z \<in> set (rows_roles db2)" for z
    using that unfolding role_writtenD(1)[OF w] by (auto split: if_splits)
  show ?thesis
    unfolding role_keys_ok_def
  proof (intro ballI impI, elim conjE)
    fix x y assume "x \<in> set (rows_roles db2)" "y \<in> set (rows_roles db2)" and
      t: "role_tenant x = t" "role_tenant y = t" "role_code x = role_code y \<or> role_name x = role_name y"
    then consider "x = r" "y = r" | "x = r" "y \<in> set (rows_roles db)" | "x \<in> set (rows_roles db)" "y = r"
      | "x \<in> set (rows_roles db)" "y \<in> set (rows_roles db)"
      using rows by blast
    then show "role_id x = role_id y"
    proof cases
      case 2
      have "role_code y = role_code r \<or> role_name y = role_name r" using t(3) 2(1) by (elim disjE) simp_all
      from one[OF 2(2) t(2) this] 2(1) show ?thesis by simp
    qed (use t one[of x] old[of x y] in simp_all)
  qed
qed

end
