(* ===== verification/Role_Agents.thy ===== *)
theory Role_Agents
  imports Role_Management Role_Delegation_Props Tool_Registry
begin

text \<open>
  \<open>app/modules/ai/service/role_agent.py\<close>: reading and replacing the complete set of AI agents bound
  to a role, and the operations of \<open>role_management_service.py\<close> that go through it. \<open>agents\<close> is the
  agent table, \<open>reg\<close> the tool registry and \<open>extra\<close> the tools the setting \<open>ai:enabled_tools\<close> adds.
  The write itself is \<open>rebound\<close>: delete the role's bindings, insert one enabled row per agent.
\<close>

section \<open>Agent rows\<close>

record agent_row = ai_agent +
  ar_name :: string
  ar_description :: string
  ar_builtin :: bool

record binding_tool =
  bt_name :: string
  bt_readonly :: bool
  bt_enabled :: bool
  bt_permissions :: "(string \<times> bool) list"

record binding_agent =
  ba_row :: agent_row
  ba_shared :: bool
  ba_tools :: "binding_tool list"

record role_agent_binding =
  rab_role_id :: int
  rab_all_agents :: "binding_agent list"
  rab_bound_ids :: "string list"
  rab_chat_granted :: bool

definition SHARED_AGENT_CODE :: string where "SHARED_AGENT_CODE = ''shared''"

section \<open>Replacing the bindings\<close>

text \<open>\<open>re.fullmatch(r"[1-9][0-9]*", agent_id)\<close>.\<close>

definition canonical_agent_id :: "string \<Rightarrow> bool" where
  "canonical_agent_id s = (case s of [] \<Rightarrow> False | c # r \<Rightarrow> is_dec c \<and> c \<noteq> CHR ''0'' \<and> list_all is_dec r)"

definition normalize_agent_ids :: "string list \<Rightarrow> int list res" where
  "normalize_agent_ids ids =
     (if \<exists>s \<in> set ids. \<not> canonical_agent_id s then Inl (BusinessRule ''AI_AGENT_ID_INVALID'')
      else bindE (mapE py_int ids) (\<lambda>normalized.
        if card (set normalized) \<noteq> length normalized
        then Inl (BusinessRule ''AI_ROLE_AGENT_SET_DUPLICATE'') else Inr (sort normalized)))"

definition ensure_agents_exist :: "agent_row list \<Rightarrow> int list \<Rightarrow> unit res" where
  "ensure_agents_exist agents ids =
     (if ids = [] then Inr ()
      else guardE (set (map ag_id (filter (\<lambda>a. ag_id a \<in> set ids) agents)) = set ids)
             (NotFound ''AI_AGENT_NOT_FOUND''))"

definition put_binding ::
    "(json \<Rightarrow> string) \<Rightarrow> (auth_db \<Rightarrow> user \<Rightarrow> int set) \<Rightarrow> agent_row list \<Rightarrow> auth_db \<Rightarrow> auth_db \<Rightarrow> int \<Rightarrow> int \<Rightarrow>
     string list \<Rightarrow> json option \<Rightarrow> int \<Rightarrow> auth_db res" where
  "put_binding h vis agents db0 db1 actor_id rid ids expected t =
     bindE (normalize_agent_ids ids) (\<lambda>unique.
     bindE (authorize_and_lock_agent_replacement h vis db0 db1 actor_id rid unique expected t) (\<lambda>_.
     bindE (ensure_agents_exist agents unique) (\<lambda>_.
     Inr (rebound db1 t rid unique))))"

definition update_agents where
  "update_agents h vis agents db0 db1 actor_id rid ids expected t =
     bindE (put_binding h vis agents db0 db1 actor_id rid (map show_int ids) expected t) (\<lambda>db2.
     bindE (load_managed_role db2 rid t) (\<lambda>r. Inr (r, db2)))"

section \<open>Preview\<close>

definition preview_binding where
  "preview_binding h vis db actor_id rid ids t = preview_agent_replacement h vis db actor_id rid ids t"

text \<open>\<open>int(value)\<close> of a JSON value; a float does not occur in a snapshot.\<close>

definition json_int :: "json \<Rightarrow> int res" where
  "json_int v = (case v of JStr s \<Rightarrow> py_int s | JInt i \<Rightarrow> Inr i | JBool b \<Rightarrow> Inr (if b then 1 else 0)
     | _ \<Rightarrow> Inl TypeError)"

definition snapshot_member_ids :: "json \<Rightarrow> int list res" where
  "snapshot_member_ids snapshot = (case snapshot of
       JObj kvs \<Rightarrow> (case map_of kvs ''members'' of
           None \<Rightarrow> Inr []
         | Some (JArr vs) \<Rightarrow> mapE json_int (concat (map (\<lambda>v. case v of
               JObj d \<Rightarrow> (case map_of d ''userId'' of None \<Rightarrow> [] | Some x \<Rightarrow> [x]) | _ \<Rightarrow> []) vs))
         | Some _ \<Rightarrow> Inl TypeError)
     | _ \<Rightarrow> Inl AttributeError)"

definition preview_update_agents where
  "preview_update_agents h vis db actor_id rid ids t =
     bindE (preview_binding h vis db actor_id rid ids t) (\<lambda>snapshot.
     bindE (snapshot_member_ids snapshot) (\<lambda>member_ids.
     bindE (load_managed_role db rid t) (\<lambda>r.
     Inr \<lparr>rp_action = ''update_agents'', rp_role_id = Some rid, rp_member_user_ids = member_ids,
          rp_snapshot = snapshot, rp_target_role_name = Some (role_name r)\<rparr>)))"

section \<open>Reading the bindings\<close>

definition binding_tools :: "registry \<Rightarrow> string set \<Rightarrow> string set \<Rightarrow> string \<Rightarrow> binding_tool list" where
  "binding_tools reg extra role_permissions code =
     map (\<lambda>tool. let m = rt_meta tool in
        \<lparr>bt_name = tm_name m, bt_readonly = tm_readonly m,
         bt_enabled = (tm_default_enabled m \<or> tm_name m \<in> extra),
         bt_permissions = map (\<lambda>p. (p, p \<in> role_permissions)) (tm_required_perms m)\<rparr>)
       (filter (\<lambda>tool. tm_llm_visible (rt_meta tool))
         (sort_key (\<lambda>tool. tm_name (rt_meta tool)) (by_agent reg code)))"

definition get_binding ::
    "(json \<Rightarrow> string) \<Rightarrow> (auth_db \<Rightarrow> user \<Rightarrow> int set) \<Rightarrow> registry \<Rightarrow> string list \<Rightarrow> agent_row list \<Rightarrow> auth_db \<Rightarrow>
     int \<Rightarrow> int \<Rightarrow> int \<Rightarrow> role_agent_binding res" where
  "get_binding h vis reg extra agents db rid actor_id t =
     bindE (build_authority h vis db actor_id t) (\<lambda>auth.
     bindE (guardE (allows_permission_codes auth {ROLE_AGENT_PERMISSION}) (Authorization ''MISSING_PERMISSION''))
       (\<lambda>_.
     bindE (load_role db rid t) (\<lambda>r.
     bindE (authorize_role_projection h vis db actor_id rid t) (\<lambda>_.
     let ordered = sort_key (\<lambda>a. (ag_display_order a, ag_id a)) agents;
         visible = filter (\<lambda>a. super_admin auth \<or> ag_id a \<in> grantable_ids auth) ordered;
         bound = map (\<lambda>(t', x, a, e). a) (filter (\<lambda>(t', x, a, e). t' = t \<and> x = rid \<and> e) (role_agents db));
         permissions = menu_codes (role_menus r)
     in Inr \<lparr>rab_role_id = rid,
          rab_all_agents = map (\<lambda>a. \<lparr>ba_row = a, ba_shared = (ag_code a = SHARED_AGENT_CODE),
             ba_tools = binding_tools reg (set extra) permissions (ag_code a)\<rparr>) visible,
          rab_bound_ids = map show_int bound,
          rab_chat_granted = (''ai:chat:use'' \<in> permissions)\<rparr>))))"

record agent_match =
  am_id :: int
  am_code :: string
  am_name :: string
  am_description :: string
  am_enabled :: bool
  am_selected :: bool

definition lookup_agent_options ::
    "(json \<Rightarrow> string) \<Rightarrow> (auth_db \<Rightarrow> user \<Rightarrow> int set) \<Rightarrow> registry \<Rightarrow> string list \<Rightarrow> agent_row list \<Rightarrow> auth_db \<Rightarrow>
     int \<Rightarrow> string \<Rightarrow> int \<Rightarrow> int \<Rightarrow> int \<Rightarrow> agent_match role_lookup res" where
  "lookup_agent_options h vis reg extra agents db rid query limit actor_id t =
     bindE (get_binding h vis reg extra agents db rid actor_id t) (\<lambda>binding.
     bindE (load_managed_role db rid t) (\<lambda>r.
     bindE (mapE py_int (rab_bound_ids binding)) (\<lambda>bound.
     let current = sort bound;
         found = sort_key (\<lambda>m. (py_casefold (am_name m), am_id m))
           (map (\<lambda>b. let a = ba_row b in
              \<lparr>am_id = ag_id a, am_code = ag_code a, am_name = ar_name a, am_description = ar_description a,
               am_enabled = ag_enabled a, am_selected = ag_id a \<in> set current\<rparr>)
             (filter (\<lambda>b. let a = ba_row b in str_in (py_casefold query)
                 (py_casefold (ar_name a @ '' '' @ ag_code a @ '' '' @ ar_description a)))
               (rab_all_agents binding)))
     in Inr \<lparr>rl_role_id = role_id r, rl_role_name = role_name r, rl_current_ids = current,
          rl_matches = py_prefix limit found, rl_match_count = length found,
          rl_contributor_ids = map am_id found\<rparr>)))"

end
