(* ===== verification/Role_Management_Props.thy ===== *)
theory Role_Management_Props
  imports Role_Management_Facts Role_Agents
begin

text \<open>
  What a role write can do: it escalates nobody, reaches the holders of the role only, keeps the role
  tables consistent and closes a menu set under parents; the list of roles tells truly which of them
  the reader may manage.
\<close>

section \<open>Facts about summaries\<close>

lemma static_block_None:
  "static_block db auth actor_id r members t = None \<longleftrightarrow>
     ensure_member_protection auth actor_id r members = Inr () \<and>
     definition_dominated auth (role_menus r) (role_dept_links r) (data_scope r)
       (active_agent_ids_by_role db (role_id r) t)"
  by (auto simp: static_block_def ensure_member_protection_def Let_def split: option.splits)

lemma find_own_row:
  assumes "distinct (map role_id rs)" "r \<in> set rs" "role_tenant r = t"
  shows "find (\<lambda>x. role_tenant x = t \<and> role_id x = role_id r) rs = Some r"
proof -
  have "\<exists>y. find (\<lambda>x. role_tenant x = t \<and> role_id x = role_id r) rs = Some y"
    using assms(2,3) by (auto simp: find_None_iff simp flip: not_None_eq)
  then obtain y where y: "find (\<lambda>x. role_tenant x = t \<and> role_id x = role_id r) rs = Some y" ..
  from find_SomeD[OF y] key_inj[OF assms(1) _ assms(2), of y] y show ?thesis by simp
qed

lemma blocked_iff_projection:
  assumes auth: "build_authority h vis db actor_id t = Inr auth" and r: "load_managed_role db (role_id r) t = Inr r"
    and b: "blocked_reason db auth actor_id r t = Inr reason"
  shows "reason = None \<longleftrightarrow> authorize_role_projection h vis db actor_id (role_id r) t = Inr r"
proof -
  let ?ms = "load_members db (role_id r) t"
  let ?mat = "materialize_role_set_authorities db (map (\<lambda>u. (u, user_roles u, user_depts u)) ?ms) [] t"
  have proj: "authorize_role_projection h vis db actor_id (role_id r) t = Inr r \<longleftrightarrow>
      static_block db auth actor_id r ?ms t = None \<and> (\<exists>cur. ?mat = Inr cur \<and> ensure_materialized_dominated auth cur = Inr ())"
    unfolding authorize_role_projection_def Let_def static_block_None require_definition_dominated_def bindE_eq_Inr auth r
    by auto
  have empty: "?ms = [] \<Longrightarrow> ?mat = Inr []" by (simp add: materialize_role_set_authorities_def)
  show ?thesis
  proof (cases "static_block db auth actor_id r ?ms t")
    case (Some s)
    then show ?thesis using b proj by (auto simp: blocked_reason_def Let_def)
  next
    case None
    show ?thesis
    proof (cases "?ms = []")
      case True
      then show ?thesis
        using b None proj empty by (auto simp: blocked_reason_def Let_def all_dominated)
    next
      case False
      with b None obtain cur where cur: "?mat = Inr cur" and
        res: "(case ensure_materialized_dominated auth cur of
              Inr _ \<Rightarrow> Inr None
            | Inl (Authorization _) \<Rightarrow> Inr (Some ''AI_ROLE_GLOBAL_IMPACT_OUT_OF_SCOPE'')
            | Inl e \<Rightarrow> Inl e) = Inr reason"
        by (auto simp: blocked_reason_def Let_def bindE_eq_Inr)
      show ?thesis
      proof (rule ensure_materialized_cases[of auth cur])
        assume "ensure_materialized_dominated auth cur = Inr ()"
        then show ?thesis using res proj None cur by auto
      next
        assume "ensure_materialized_dominated auth cur = Inl (Authorization ''AI_ROLE_GLOBAL_IMPACT_OUT_OF_SCOPE'')"
        then show ?thesis using res proj None cur by auto
      qed
    qed
  qed
qed

section \<open>Facts about other users\<close>

lemma unlinked_same:
  "rid \<notin> role_id ` set (user_roles user) \<Longrightarrow> user\<lparr>user_roles := replace_role_in rid r (user_roles user)\<rparr> = user"
proof -
  assume "rid \<notin> role_id ` set (user_roles user)"
  then have "replace_role_in rid r (user_roles user) = user_roles user"
    by (auto simp: replace_role_in_def intro!: map_idI)
  then show ?thesis by simp
qed

lemma custom_other:
  assumes w: "role_written db db2 r t" and "role_id r \<notin> set ids"
  shows "custom_dept_ids_by_role (scope db2) ids t = custom_dept_ids_by_role (scope db) ids t"
proof -
  note d = role_writtenD[OF w]
  have "set (map snd (filter (\<lambda>(r', d). r' = x) (role_dept_rows (scope db2) ids t))) =
      set (map snd (filter (\<lambda>(r', d). r' = x) (role_dept_rows (scope db) ids t)))" if "x \<in> set ids" for x
  proof -
    have "(x, y) \<in> set (role_dept_rows (scope db2) ids t) \<longleftrightarrow> (x, y) \<in> set (role_dept_rows (scope db) ids t)" for y
      using d(8)[of x] assms(2) that unfolding role_dept_rows_iff set_eq_iff role_links_iff
      by (auto simp: enabled_dept_def d(5))
    then show ?thesis by force
  qed
  then show ?thesis unfolding custom_dept_ids_by_role_def Let_def by simp
qed

lemma resolve_other:
  assumes w: "role_written db db2 r t" and no: "role_id r \<notin> role_id ` set (user_roles u)"
  shows "resolve_data_scope (scope db2) u t = resolve_data_scope (scope db) u t"
proof -
  have sub: "get_dept_and_sub_ids (scope db2) own t = get_dept_and_sub_ids (scope db) own t" for own
    by (simp only: get_dept_and_sub_ids_def role_writtenD(5)[OF w])
  have "custom_dept_ids_by_role (scope db2)
      (remdups (map role_id (filter (\<lambda>r. data_scope r = DATA_SCOPE_CUSTOM) (enabled_roles (user_roles u))))) t =
    custom_dept_ids_by_role (scope db)
      (remdups (map role_id (filter (\<lambda>r. data_scope r = DATA_SCOPE_CUSTOM) (enabled_roles (user_roles u))))) t"
    by (rule custom_other[OF w]) (use no in \<open>auto simp: enabled_roles_def\<close>)
  then have "accumulate_scopes (scope db2) (enabled_roles (user_roles u)) own kinds t =
      accumulate_scopes (scope db) (enabled_roles (user_roles u)) own kinds t" for own kinds
    by (simp only: accumulate_scopes_def sub Let_def)
  then show ?thesis by (simp only: resolve_data_scope_def resolve_data_scope_for_roles_def Let_def)
qed

section \<open>Consistent tables\<close>

lemma changed_role_stored:
  assumes "changed_role h vis db1 actor_id rid p t auth c db2"
  shows "cf_candidate c \<in> set (rows_roles db2)" "role_id (cf_candidate c) = rid"
proof -
  from assms obtain f where e: "evaluate_change (rd_auth db1) auth actor_id rid f t = Inr c" and
    id: "role_id (cf_candidate c) = rid" and w: "role_written (rd_auth db1) db2 (cf_candidate c) t"
    by (auto simp: changed_role_def)
  from load_managed_Inr[OF evaluate_change_Inr(1)[OF e]] id
  show "cf_candidate c \<in> set (rows_roles db2)" unfolding role_writtenD(1)[OF w] by force
  show "role_id (cf_candidate c) = rid" by (rule id)
qed

lemma changed_consistent:
  assumes c: "changed_role h vis db1 actor_id rid p t auth c db2"
    and wf: "role_tables_ok (rd_auth db1) t" "role_keys_ok (rd_auth db1) t"
    and name: "role_name (cf_candidate c) = role_name (cf_role c) \<or> \<not> duplicate_role (rd_auth db1) t
      (\<lambda>x. role_name x = role_name (cf_candidate c) \<and> role_id x \<noteq> role_id (cf_role c))"
  shows "role_tables_ok db2 t \<and> role_keys_ok db2 t"
proof -
  from c obtain f where e: "evaluate_change (rd_auth db1) auth actor_id rid f t = Inr c" and
    cand: "role_id (cf_candidate c) = rid" "role_code (cf_candidate c) = role_code (cf_role c)"
    "role_row_ok db2 t (cf_candidate c)" and w: "role_written (rd_auth db1) db2 (cf_candidate c) t"
    by (auto simp: changed_role_def)
  note r = load_managed_Inr[OF evaluate_change_Inr(1)[OF e]]
  have "role_keys_ok db2 t"
    by (rule keys_ok_changed[OF wf(2) w, of "cf_role c"]) (use r cand name in auto)
  with written_tables_ok[OF wf(1) w cand(3)] show ?thesis by blast
qed

lemma created_consistent:
  assumes ok: "create_role h vis db0 db1 actor_id rc fresh expected t = Inr (r', db2)"
    and wf: "role_tables_ok (rd_auth db1) t" "role_keys_ok (rd_auth db1) t"
  shows "role_tables_ok (rd_auth db2) t \<and> role_keys_ok (rd_auth db2) t"
proof -
  obtain auth ds where c: "create_candidate (rd_auth db1) auth rc t = Inr ds" and
    r': "r' = \<lparr>role_id = fresh, role_tenant = t, role_code = rc_code rc, role_name = rc_name rc,
       role_status = rc_status rc, data_scope = rc_scope rc, role_menus = [], role_dept_links = ds\<rparr>" and
    rows: "rows_roles (rd_auth db2) = rows_roles (rd_auth db1) @ [r']" and
    new: "fresh \<notin> role_id ` set (rows_roles (rd_auth db1))" and
    depts: "db_depts (scope (rd_auth db2)) = db_depts (scope (rd_auth db1))" and
    links: "role_links (rd_auth db2) t fresh = dept_id ` set ds"
    "\<forall>x. x \<noteq> fresh \<longrightarrow> role_links (rd_auth db2) t x = role_links (rd_auth db1) t x"
    by (rule create_role_Inr[OF ok])
  note cc = create_candidate_Inr[OF c]
  have sel: "role_code r' = rc_code rc" "role_name r' = rc_name rc" by (simp_all add: r')
  have fresh_keys: "role_code x \<noteq> rc_code rc \<and> role_name x \<noteq> rc_name rc"
    if "x \<in> set (rows_roles (rd_auth db1))" "role_tenant x = t" for x
    using cc(5) that unfolding duplicate_role_def by blast
  have "role_row_ok (rd_auth db2) t r'" using cc(1,2) links(1) by (simp add: role_row_ok_def depts r')
  moreover have "role_row_ok (rd_auth db2) t x" if "x \<in> set (rows_roles (rd_auth db1))" "role_tenant x = t" for x
    using that wf(1) links(2) new by (force simp: role_tables_ok_def role_row_ok_def depts)
  ultimately have "role_tables_ok (rd_auth db2) t"
    using wf(1) new by (auto simp: role_tables_ok_def rows depts r')
  moreover have "role_keys_ok (rd_auth db2) t"
    unfolding role_keys_ok_def rows
  proof (intro ballI impI, elim conjE)
    fix x y assume "x \<in> set (rows_roles (rd_auth db1) @ [r'])" "y \<in> set (rows_roles (rd_auth db1) @ [r'])" and
      t: "role_tenant x = t" "role_tenant y = t" "role_code x = role_code y \<or> role_name x = role_name y"
    then consider "x = r'" "y = r'" | "x = r'" "y \<in> set (rows_roles (rd_auth db1))"
      | "x \<in> set (rows_roles (rd_auth db1))" "y = r'"
      | "x \<in> set (rows_roles (rd_auth db1))" "y \<in> set (rows_roles (rd_auth db1))"
      unfolding set_append by (elim UnE) simp_all
    then show "role_id x = role_id y"
    proof cases
      case 2
      then show ?thesis using t fresh_keys[of y] sel by auto
    next
      case 3
      then show ?thesis using t fresh_keys[of x] sel by auto
    next
      case 4
      then show ?thesis using t wf(2) unfolding role_keys_ok_def by blast
    qed simp
  qed
  ultimately show ?thesis by blast
qed

section \<open>Canonical agent ids\<close>

lemma digit_char_val: "is_dec c \<Longrightarrow> digit_char (digit_val c) = c"
  by (simp add: is_dec_def digit_char_def digit_val_def)

lemma digit_val_less: "is_dec c \<Longrightarrow> digit_val c < 10"
  by (auto simp: is_dec_def digit_val_def)

lemma show_parse_snoc:
  "is_dec c \<Longrightarrow> 0 < parse_dec s \<Longrightarrow> show_nat (parse_dec s) = s \<Longrightarrow> show_nat (parse_dec (s @ [c])) = s @ [c]"
  using digit_val_less[of c]
  by (subst show_nat.simps) (simp add: parse_dec_snoc digit_char_val)

lemma canonical_show:
  "canonical_agent_id s \<Longrightarrow> 0 < parse_dec s \<and> show_nat (parse_dec s) = s"
proof (induction s rule: rev_induct)
  case (snoc c s)
  show ?case
  proof (cases "s = []")
    case True
    then have c: "is_dec c" "c \<noteq> CHR ''0''" using snoc.prems by (auto simp: canonical_agent_id_def)
    have "digit_char 0 = CHR ''0''" by code_simp
    then have "digit_val c \<noteq> 0" using digit_char_val[OF c(1)] c(2) by metis
    then show ?thesis using True c digit_val_less[OF c(1)]
      by (subst show_nat.simps) (simp add: parse_dec_def digit_char_val)
  next
    case False
    then obtain x xs where "s = x # xs" by (cases s) auto
    then have "canonical_agent_id s" "is_dec c" using snoc.prems by (simp_all add: canonical_agent_id_def)
    then show ?thesis using snoc.IH show_parse_snoc[of c s] by (simp add: parse_dec_snoc)
  qed
qed (simp add: canonical_agent_id_def)

lemma canonical_ids:
  assumes "mapE py_int ids = Inr ms" "\<forall>s \<in> set ids. canonical_agent_id s"
  shows "ids = map show_int ms"
proof (rule nth_equalityI)
  show "length ids = length (map show_int ms)" using assms(1) by (simp add: mapE_eq_Inr)
  fix i assume i: "i < length ids"
  then have p: "py_int (ids ! i) = Inr (ms ! i)" "i < length ms" using assms(1) by (simp_all add: mapE_eq_Inr)
  have c: "canonical_agent_id (ids ! i)" using assms(2) i by simp
  then have "list_all is_dec (ids ! i)" "ids ! i \<noteq> []"
    by (auto simp: canonical_agent_id_def split: list.splits)
  from py_int_dec[OF this] p(1) have "ms ! i = int (parse_dec (ids ! i))" by simp
  then show "ids ! i = map show_int ms ! i" using canonical_show[OF c] p(2) by (simp add: show_int_def)
qed

section \<open>Properties\<close>

text \<open>Property C29: a role write escalates nobody. When an update of a role's definition or of its
  menus succeeds, it was authorized under the actor's live authority after the locks; unless the actor is a
  super-administrator, the role is not the super-administrator's, the written definition stays within what
  the actor may grant, and whoever holds the role is another user whose live authority, before and after
  the write, is dominated by the actor's.\<close>

theorem role_write_escalates_nobody:
  assumes ok: "update_role h vis camel db0 db1 actor_id rid u expected t = Inr (r', db2) \<or>
      update_role_menus h vis db0 db1 actor_id rid ids expected t = Inr (r', db2)"
    and wf: "role_tables_ok (rd_auth db1) t" "canonical_paths (rd_auth db1) t"
  shows "\<exists>auth. build_authority h vis (rd_auth db1) actor_id t = Inr auth \<and>
    (super_admin auth \<or>
     role_code r' \<noteq> SUPER_ADMIN_ROLE_CODE \<and>
     definition_dominated auth (role_menus r') (role_dept_links r') (data_scope r')
       (active_agent_ids_by_role (rd_auth db1) rid t) \<and>
     (\<forall>uid user a. (t, uid, rid) \<in> set (links_roles (rd_auth db1)) \<longrightarrow>
        load_user (rd_auth db1) uid t = Some user \<longrightarrow> uid \<noteq> actor_id \<and>
        (build_authority h vis (rd_auth db1) uid t = Inr a \<longrightarrow> authority_le a auth) \<and>
        (build_authority h vis (rd_auth db2) uid t = Inr a \<longrightarrow> authority_le a auth)))"
proof -
  obtain p auth c where ch: "changed_role h vis db1 actor_id rid p t auth c (rd_auth db2)" and r': "r' = cf_candidate c"
    using ok update_role_Inr[OF _ wf(1)] update_menus_Inr[OF _ wf(1)] by metis
  then obtain f where e: "evaluate_change (rd_auth db1) auth actor_id rid f t = Inr c"
    by (auto simp: changed_role_def)
  note ev = evaluate_change_Inr[OF e]
  have auth: "build_authority h vis (rd_auth db1) actor_id t = Inr auth" using ch by (simp add: changed_role_def)
  show ?thesis
  proof (cases "super_admin auth")
    case True
    then show ?thesis using auth by blast
  next
    case False
    have "role_code r' \<noteq> SUPER_ADMIN_ROLE_CODE"
      using ev(4) False ch by (auto simp: ensure_member_protection_def Let_def PROTECTED_ROLE_CODES_def
        changed_role_def r' split: if_splits)
    moreover note ev(7)[unfolded ev(3), folded r'] changed_role_members[OF ch wf False]
    ultimately show ?thesis using auth by blast
  qed
qed

text \<open>A role write reaches the holders of the role only. Every user not linked to the
  role loads the same roles and departments after an update, resolves to the same data scope and
  keeps its agents; no link, user or other role row changes.\<close>

theorem role_write_reaches_only_holders:
  assumes ok: "update_role h vis camel db0 db1 actor_id rid u expected t = Inr (r', db2) \<or>
      update_role_menus h vis db0 db1 actor_id rid ids expected t = Inr (r', db2)"
    and wf: "role_tables_ok (rd_auth db1) t" and other: "(t, uid, rid) \<notin> set (links_roles (rd_auth db1))"
  shows "load_user (rd_auth db2) uid t = load_user (rd_auth db1) uid t \<and>
    (\<forall>user. load_user (rd_auth db1) uid t = Some user \<longrightarrow>
       resolve_data_scope (scope (rd_auth db2)) user t = resolve_data_scope (scope (rd_auth db1)) user t \<and>
       grantable_agent_ids (rd_auth db2) user t = grantable_agent_ids (rd_auth db1) user t) \<and>
    links_roles (rd_auth db2) = links_roles (rd_auth db1) \<and> rows_users (rd_auth db2) = rows_users (rd_auth db1) \<and>
    (\<forall>x \<in> set (rows_roles (rd_auth db1)). role_id x \<noteq> rid \<longrightarrow> x \<in> set (rows_roles (rd_auth db2)))"
proof -
  obtain p auth c where ch: "changed_role h vis db1 actor_id rid p t auth c (rd_auth db2)"
    using ok update_role_Inr[OF _ wf] update_menus_Inr[OF _ wf] by metis
  then obtain f where e: "evaluate_change (rd_auth db1) auth actor_id rid f t = Inr c" and
    cand: "role_id (cf_candidate c) = rid" "role_tenant (cf_candidate c) = t" and
    w: "role_written (rd_auth db1) (rd_auth db2) (cf_candidate c) t"
    by (auto simp: changed_role_def)
  note r = load_managed_Inr[OF evaluate_change_Inr(1)[OF e]]
  note d = role_writtenD[OF w]
  have other_roles: "rid \<notin> role_id ` set (user_roles user)" if "load_user (rd_auth db1) uid t = Some user" for user
    using other load_user_roles[OF that] by auto
  have "load_user (rd_auth db2) uid t = load_user (rd_auth db1) uid t"
    using load_user_role_written[OF w cand(2), of "cf_role c" uid] r cand(1) wf
      unlinked_same[OF other_roles] by (cases "load_user (rd_auth db1) uid t") (auto simp: role_tables_ok_def)
  moreover have "resolve_data_scope (scope (rd_auth db2)) user t = resolve_data_scope (scope (rd_auth db1)) user t"
    if "load_user (rd_auth db1) uid t = Some user" for user
    by (rule resolve_other[OF w]) (use other_roles[OF that] cand(1) in auto)
  moreover have "grantable_agent_ids (rd_auth db2) user t = grantable_agent_ids (rd_auth db1) user t" for user
    by (simp only: grantable_agent_ids_def grantable_agent_ids_by_role_ids_def d(4))
  ultimately show ?thesis using d(1-3) cand(1) by auto
qed

text \<open>Property C30: the role tables stay consistent. Creating a role, updating one and replacing its
  menus keep role ids unique, the embedded departments of every role of the tenant equal to its rows in
  the association table, departments on CUSTOM roles only, and codes and names identifying a role.\<close>

theorem role_writes_keep_tables_consistent:
  assumes ok: "create_role h vis db0 db1 actor_id rc fresh expected t = Inr (r', db2) \<or>
      update_role h vis camel db0 db1 actor_id rid u expected t = Inr (r', db2) \<or>
      update_role_menus h vis db0 db1 actor_id rid ids expected t = Inr (r', db2)"
    and wf: "role_tables_ok (rd_auth db1) t" "role_keys_ok (rd_auth db1) t"
  shows "role_tables_ok (rd_auth db2) t \<and> role_keys_ok (rd_auth db2) t"
  using ok
proof (elim disjE)
  assume "create_role h vis db0 db1 actor_id rc fresh expected t = Inr (r', db2)"
  then show ?thesis by (rule created_consistent[OF _ wf])
next
  assume "update_role h vis camel db0 db1 actor_id rid u expected t = Inr (r', db2)"
  then obtain auth c p where c: "changed_role h vis db1 actor_id rid p t auth c (rd_auth db2)" and
    u: "r' = cf_candidate c" "update_candidate (rd_auth db1) (cf_role c) u t = Inr r'"
    by (rule update_role_Inr[OF _ wf(1)])
  from u(2) obtain ds where ds: "r' = candidate_role (cf_role c) u (role_menus (cf_role c)) ds" and
    name: "\<forall>n. ru_name u = Some n \<longrightarrow>
      \<not> duplicate_role (rd_auth db1) t (\<lambda>x. role_name x = n \<and> role_id x \<noteq> role_id (cf_role c))"
    by (rule update_candidate_Inr)
  have "role_name (cf_candidate c) = (case ru_name u of None \<Rightarrow> role_name (cf_role c) | Some n \<Rightarrow> n)"
    by (simp add: ds flip: u(1))
  then show ?thesis
    by (intro changed_consistent[OF c wf]) (use name in \<open>cases "ru_name u"; simp\<close>)
next
  assume "update_role_menus h vis db0 db1 actor_id rid ids expected t = Inr (r', db2)"
  then obtain auth c ms where c: "changed_role h vis db1 actor_id rid ''system:role:menu-auth'' t auth c (rd_auth db2)"
    and r: "r' = cf_candidate c" and "expand_menus (rd_menus db1) (Some ids) t = Inr ms"
    and menus: "r' = (cf_role c)\<lparr>role_menus := map mr_menu ms\<rparr>"
    by (rule update_menus_Inr[OF _ wf(1)])
  have "role_name (cf_candidate c) = role_name (cf_role c)" unfolding r[symmetric] menus by simp
  then show ?thesis by (intro changed_consistent[OF c wf]) simp
qed

text \<open>Property C31: a menu set is closed under parents, and no larger than that. Replacing the menus of
  a role by \<open>ids\<close> leaves exactly the menus of the tenant reachable from \<open>ids\<close> along parent links, each
  once, in ascending order, whatever cycles the parent links have.\<close>

theorem role_menus_are_parent_closure:
  assumes ok: "update_role_menus h vis db0 db1 actor_id rid ids expected t = Inr (r', db2)"
    and wf: "role_tables_ok (rd_auth db1) t"
  shows "map menu_id (role_menus r') = sorted_list_of_set
      ((parent_edges (filter (\<lambda>m. mr_tenant m = t) (rd_menus db1)))\<^sup>* `` set ids) \<and>
    set (role_menus r') \<subseteq> mr_menu ` set (filter (\<lambda>m. mr_tenant m = t) (rd_menus db1)) \<and>
    r' \<in> set (rows_roles (rd_auth db2)) \<and> role_id r' = rid"
proof -
  obtain auth c ms where c: "changed_role h vis db1 actor_id rid ''system:role:menu-auth'' t auth c (rd_auth db2)" and
    r: "r' = cf_candidate c" and ms: "expand_menus (rd_menus db1) (Some ids) t = Inr ms" and
    menus: "r' = (cf_role c)\<lparr>role_menus := map mr_menu ms\<rparr>"
    by (rule update_menus_Inr[OF ok wf])
  have "map menu_id (role_menus r') = map mr_id ms" "set (role_menus r') = mr_menu ` set ms"
    by (simp_all add: menus)
  with expand_menus_Inr[OF ms] changed_role_stored[OF c, folded r] show ?thesis by (simp add: image_mono)
qed

text \<open>Property C32: the list of roles tells truly which roles the reader may manage. In every summary
  the delegable flag holds exactly if reauthorizing a projection of that role succeeds, and a blocked role
  carries a reason.\<close>

theorem delegable_iff_projectable:
  assumes ok: "summarize_roles h vis lower rdb actor_id q limit offset t = Inr (summaries, n, ids)"
    and keys: "distinct (map role_id (rows_roles (rd_auth rdb)))" and s: "s \<in> set summaries"
  shows "(rs_delegable s \<longleftrightarrow> is_ok (authorize_role_projection h vis (rd_auth rdb) actor_id (rs_role_id s) t)) \<and>
    (rs_delegable s \<longleftrightarrow> rs_blocked s = None) \<and> rs_role_id s \<in> set ids \<and> length summaries \<le> limit \<and> n = length ids"
proof -
  let ?db = "rd_auth rdb"
  define rows where "rows = sort_key (\<lambda>r. (role_code r, role_id r))
      (filter (\<lambda>r. role_tenant r = t \<and> role_matches lower q r) (rows_roles ?db))"
  from ok obtain auth where auth: "build_authority h vis ?db actor_id t = Inr auth" and
    m: "mapE (summarize_role rdb auth actor_id t) (take limit (drop offset rows)) = Inr summaries" and
    ids: "ids = map role_id rows" "n = length ids"
    unfolding summarize_roles_def Let_def rows_def by (auto simp: bindE_eq_Inr)
  obtain i where i: "i < length summaries" "summaries ! i = s" using s by (auto simp: in_set_conv_nth)
  define r where "r = take limit (drop offset rows) ! i"
  have len: "length (take limit (drop offset rows)) = length summaries" using m by (simp add: mapE_eq_Inr)
  have sr: "summarize_role rdb auth actor_id t r = Inr s"
    using m i len unfolding mapE_eq_Inr r_def by metis
  have "r \<in> set (take limit (drop offset rows))" unfolding r_def using i len by (metis nth_mem)
  then have in_rows: "r \<in> set rows" by (meson in_set_dropD in_set_takeD)
  then have row: "r \<in> set (rows_roles ?db)" "role_tenant r = t" unfolding rows_def by auto
  from sr obtain reason where b: "blocked_reason ?db auth actor_id r t = Inr reason" and
    f: "rs_role_id s = role_id r" "rs_delegable s = (reason = None)" "rs_blocked s = reason"
    unfolding summarize_role_def by (auto simp: bindE_eq_Inr)
  have load: "load_managed_role ?db (role_id r) t = Inr r"
    using find_own_row[OF keys row] by (simp add: load_managed_role_def)
  have "is_ok (authorize_role_projection h vis ?db actor_id (role_id r) t) \<longleftrightarrow>
      authorize_role_projection h vis ?db actor_id (role_id r) t = Inr r"
    unfolding authorize_role_projection_def Let_def load by (auto simp: is_ok_iff bindE_eq_Inr)
  then show ?thesis
    using blocked_iff_projection[OF auth load b] f in_rows ids len by auto
qed

text \<open>Replacing a role's agents replaces exactly them. Afterwards the active agents of the
  role are the requested ones, which exist and were named canonically and once each; the bindings of
  every other role and every role, user and department row are as before.\<close>

theorem role_agents_replaced_exactly:
  assumes ok: "put_binding h vis agents db0 db1 actor_id rid ids expected t = Inr db2"
  shows "(\<exists>ns. mapE py_int ids = Inr ns \<and> distinct ns \<and> active_agent_ids_by_role db2 rid t = set ns \<and>
      set ns \<subseteq> ag_id ` set agents \<and> ids = map show_int ns) \<and>
    (\<forall>t' r a e. (t', r) \<noteq> (t, rid) \<longrightarrow> (t', r, a, e) \<in> set (role_agents db2) \<longleftrightarrow> (t', r, a, e) \<in> set (role_agents db1)) \<and>
    scope db2 = scope db1 \<and> rows_users db2 = rows_users db1 \<and> rows_roles db2 = rows_roles db1 \<and>
    links_roles db2 = links_roles db1"
proof -
  from ok obtain ns plan where n: "normalize_agent_ids ids = Inr ns" and
    ex: "ensure_agents_exist agents ns = Inr ()" and db2: "db2 = rebound db1 t rid ns"
    unfolding put_binding_def by (auto simp: bindE_eq_Inr)
  from n obtain ms where ms: "mapE py_int ids = Inr ms" "ns = sort ms" "distinct ms"
    and canon: "\<forall>s \<in> set ids. canonical_agent_id s"
    unfolding normalize_agent_ids_def by (auto simp: bindE_eq_Inr distinct_card card_distinct split: if_splits)
  have "set ns \<subseteq> ag_id ` set agents"
    using ex by (cases "ns = []") (auto simp: ensure_agents_exist_def set_eq_iff image_iff)
  moreover have "active_agent_ids_by_role db2 rid t = set ns"
    unfolding active_agents_role_agents db2 role_agents_rebound by (simp add: overridden_def)
  moreover have "ids = map show_int ms" by (rule canonical_ids[OF ms(1) canon])
  ultimately show ?thesis using ms db2 by (auto simp: rebound_def)
qed

section \<open>Witnesses\<close>

text \<open>The team once more: the manager may manage roles and grant the menus 80 to 84, user 51 leads.\<close>

definition menu_entry :: "int \<Rightarrow> int option \<Rightarrow> menu_row" where
  "menu_entry i p = \<lparr>mr_menu = \<lparr>menu_id = i, menu_permission = None\<rparr>, mr_tenant = 7, mr_parent = p,
     mr_name = ''menu'', mr_route_name = None, mr_route_path = None, mr_i18n_key = None,
     mr_status = ''1'', mr_order = 0\<rparr>"

definition role_world :: role_db where
  "role_world = \<lparr>
     rd_auth = team_db\<lparr>
       rows_roles := [team_role 1 ''R_MGR'' ''4'' [\<lparr>menu_id = 80, menu_permission = None\<rparr>,
           team_menu 81 ''system:role:add'', team_menu 82 ''system:role:edit'',
           team_menu 83 ''system:role:menu-auth'', team_menu 84 ''system:role:list'',
           team_menu 85 ''system:role:ai-agent-auth''],
         team_role 3 ''R_LEAD'' ''3'' []],
       links_roles := [(7, 50, 1), (7, 51, 3)], role_agents := [(7, 1, 9, True), (7, 3, 8, False)]\<rparr>,
     rd_info = (\<lambda>_. \<lparr>ri_desc = None, ri_keys = None\<rparr>),
     rd_menus = [menu_entry 80 None, menu_entry 82 (Some 80), menu_entry 83 (Some 82), menu_entry 84 (Some 80)]\<rparr>"

definition custom_update :: role_update where
  "custom_update = no_update\<lparr>ru_scope := Some ''2'', ru_dept_ids := Some (Some [123])\<rparr>"

lemma role_world_ok: "role_tables_ok (rd_auth role_world) 7" "role_keys_ok (rd_auth role_world) 7"
  "canonical_paths (rd_auth role_world) 7"
  by code_simp+

lemma role_world_update:
  "is_ok (update_role demo_hash no_agents (\<lambda>f. f) role_world role_world 50 3 custom_update None 7)"
  by code_simp

lemma role_world_menus:
  "is_ok (update_role_menus demo_hash no_agents role_world role_world 50 3 [83] None 7)"
  by code_simp

theorem role_write_escalates_nobody_witness:
  "\<exists>r' db2 auth. update_role demo_hash no_agents (\<lambda>f. f) role_world role_world 50 3 custom_update None 7 = Inr (r', db2) \<and>
     build_authority demo_hash no_agents (rd_auth role_world) 50 7 = Inr auth \<and>
     (super_admin auth \<or> role_code r' \<noteq> SUPER_ADMIN_ROLE_CODE)"
proof -
  from role_world_update obtain r' db2 where
    u: "update_role demo_hash no_agents (\<lambda>f. f) role_world role_world 50 3 custom_update None 7 = Inr (r', db2)"
    unfolding is_ok_iff by auto
  from role_write_escalates_nobody[OF disjI1[OF u] role_world_ok(1,3)] u show ?thesis by blast
qed

theorem role_write_reaches_only_holders_witness:
  "\<exists>r' db2. update_role demo_hash no_agents (\<lambda>f. f) role_world role_world 50 3 custom_update None 7 = Inr (r', db2) \<and>
     load_user (rd_auth db2) 50 7 = load_user (rd_auth role_world) 50 7"
proof -
  from role_world_update obtain r' db2 where
    u: "update_role demo_hash no_agents (\<lambda>f. f) role_world role_world 50 3 custom_update None 7 = Inr (r', db2)"
    unfolding is_ok_iff by auto
  have "(7, 50, 3) \<notin> set (links_roles (rd_auth role_world))" by code_simp
  from role_write_reaches_only_holders[OF disjI1[OF u] role_world_ok(1) this] u show ?thesis by blast
qed

theorem role_writes_keep_tables_consistent_witness:
  "\<exists>r' db2. update_role_menus demo_hash no_agents role_world role_world 50 3 [83] None 7 = Inr (r', db2) \<and>
     role_tables_ok (rd_auth db2) 7 \<and> role_keys_ok (rd_auth db2) 7"
proof -
  from role_world_menus obtain r' db2 where
    u: "update_role_menus demo_hash no_agents role_world role_world 50 3 [83] None 7 = Inr (r', db2)"
    unfolding is_ok_iff by auto
  from role_writes_keep_tables_consistent[OF disjI2[OF disjI2[OF u]] role_world_ok(1,2)] u show ?thesis by blast
qed

theorem role_menus_are_parent_closure_witness:
  "\<exists>r' db2. update_role_menus demo_hash no_agents role_world role_world 50 3 [83] None 7 = Inr (r', db2) \<and>
     role_id r' = 3 \<and> map menu_id (role_menus r') = [80, 82, 83]"
proof -
  from role_world_menus obtain r' db2 where
    u: "update_role_menus demo_hash no_agents role_world role_world 50 3 [83] None 7 = Inr (r', db2)"
    unfolding is_ok_iff by auto
  have "case update_role_menus demo_hash no_agents role_world role_world 50 3 [83] None 7 of
      Inr (r, d) \<Rightarrow> map menu_id (role_menus r) = [80, 82, 83] | Inl _ \<Rightarrow> False"
    by code_simp
  with role_menus_are_parent_closure[OF u role_world_ok(1)] u show ?thesis by simp
qed

definition any_role :: role_query where
  "any_role = \<lparr>rq_text = None, rq_name = None, rq_code = None, rq_scope = None, rq_status = None\<rparr>"

theorem delegable_iff_projectable_witness:
  "\<exists>s1 s2 n ids. summarize_roles demo_hash no_agents (\<lambda>s. s) role_world 50 any_role 20 0 7 = Inr ([s1, s2], n, ids) \<and>
     \<not> rs_delegable s2 \<and> rs_delegable s1 \<and>
     is_ok (authorize_role_projection demo_hash no_agents (rd_auth role_world) 50 (rs_role_id s1) 7)"
proof -
  have "case summarize_roles demo_hash no_agents (\<lambda>s. s) role_world 50 any_role 20 0 7 of
      Inr (ss, n, ids) \<Rightarrow> map rs_delegable ss = [True, False] | Inl _ \<Rightarrow> False" by code_simp
  then obtain s1 s2 n ids where
    s: "summarize_roles demo_hash no_agents (\<lambda>s. s) role_world 50 any_role 20 0 7 = Inr ([s1, s2], n, ids)"
    "rs_delegable s1" "\<not> rs_delegable s2"
    by (auto split: sum.splits prod.splits)
  have "distinct (map role_id (rows_roles (rd_auth role_world)))" by code_simp
  from delegable_iff_projectable[OF s(1) this, of s1] s show ?thesis by auto
qed

theorem role_agents_replaced_exactly_witness:
  "\<exists>db2. put_binding demo_hash no_agents [\<lparr>ag_id = 9, ag_code = ''user_mgmt'', ag_enabled = True, ag_display_order = 0,
       ar_name = ''a'', ar_description = ''d'', ar_builtin = True\<rparr>] (rd_auth role_world) (rd_auth role_world) 50 3 [''9''] None 7
     = Inr db2 \<and> rows_roles db2 = rows_roles (rd_auth role_world)"
proof -
  let ?a = "\<lparr>ag_id = 9, ag_code = ''user_mgmt'', ag_enabled = True, ag_display_order = 0,
       ar_name = ''a'', ar_description = ''d'', ar_builtin = True\<rparr>"
  have "is_ok (put_binding demo_hash no_agents [?a] (rd_auth role_world) (rd_auth role_world) 50 3 [''9''] None 7)"
    by code_simp
  then obtain db2 where u: "put_binding demo_hash no_agents [?a] (rd_auth role_world) (rd_auth role_world) 50 3 [''9''] None 7
     = Inr db2" unfolding is_ok_iff by auto
  from role_agents_replaced_exactly[OF u] u show ?thesis by blast
qed

end
