(* ===== verification/User_Import.thy ===== *)
theory User_Import
  imports Dept_Assignment
begin

text \<open>
  User imports up to their classification: \<open>user_import_state.py\<close>, \<open>user_import_validator.py\<close> and the
  first half of \<open>user_import_service.py\<close>. The tables are an \<open>import_db\<close>. What the code takes from
  outside is an \<open>import_env\<close>; the answers of Redis and the ids drawn from \<open>secrets\<close> are arguments.
\<close>

section \<open>Constants\<close>

datatype import_status =
    ST_CREATED | ST_PREVIEW_DONE | ST_RUNNING | ST_SUCCESS | ST_PARTIAL_SUCCESS | ST_FAILED
  | ST_EXPIRED | ST_CANCELLED

datatype sync_mode = CREATE_ONLY | UPDATE_PROFILE | FULL_SYNC

fun import_status_text :: "import_status \<Rightarrow> string" where
  "import_status_text ST_CREATED = ''CREATED''"
| "import_status_text ST_PREVIEW_DONE = ''PREVIEW_DONE''"
| "import_status_text ST_RUNNING = ''RUNNING''"
| "import_status_text ST_SUCCESS = ''SUCCESS''"
| "import_status_text ST_PARTIAL_SUCCESS = ''PARTIAL_SUCCESS''"
| "import_status_text ST_FAILED = ''FAILED''"
| "import_status_text ST_EXPIRED = ''EXPIRED''"
| "import_status_text ST_CANCELLED = ''CANCELLED''"

fun sync_mode_text :: "sync_mode \<Rightarrow> string" where
  "sync_mode_text CREATE_ONLY = ''CREATE_ONLY''"
| "sync_mode_text UPDATE_PROFILE = ''UPDATE_PROFILE''"
| "sync_mode_text FULL_SYNC = ''FULL_SYNC''"

fun LEGAL_TRANSITIONS :: "import_status \<Rightarrow> import_status list" where
  "LEGAL_TRANSITIONS ST_CREATED = [ST_PREVIEW_DONE, ST_FAILED]"
| "LEGAL_TRANSITIONS ST_PREVIEW_DONE = [ST_RUNNING, ST_EXPIRED, ST_CANCELLED]"
| "LEGAL_TRANSITIONS ST_RUNNING = [ST_SUCCESS, ST_PARTIAL_SUCCESS, ST_FAILED]"
| "LEGAL_TRANSITIONS _ = []"

definition TERMINAL_STATUSES :: "import_status list" where
  "TERMINAL_STATUSES = [ST_SUCCESS, ST_PARTIAL_SUCCESS, ST_FAILED, ST_EXPIRED, ST_CANCELLED]"

definition MAX_PREVIEW_RECORDS :: nat where "MAX_PREVIEW_RECORDS = 2000"

definition OVERWRITE_ALLOWED :: "string list" where
  "OVERWRITE_ALLOWED = [''employee_no'', ''nickname'', ''user_email'', ''user_phone'', ''dept_id'',
     ''role_ids'', ''user_gender'', ''status'']"

section \<open>Rows\<close>

text \<open>\<open>user_info\<close> holds the columns of a user row beside those of \<open>user\<close> and the nickname, which
  is in \<open>dd_names\<close>.\<close>

record user_info =
  ui_employee_no :: "string option"
  ui_email :: "string option"
  ui_phone :: "string option"
  ui_gender :: "string option"
  ui_password :: string
  ui_auth_version :: int

record user_store =
  us_dept :: dept_db
  us_info :: "int \<Rightarrow> user_info"

record import_record =
  im_row_num :: int
  im_user_name :: string
  im_employee_no :: "string option"
  im_nickname :: "string option"
  im_email :: "string option"
  im_phone :: "string option"
  im_dept_input :: string
  im_role_input :: "string option"
  im_gender :: string
  im_status :: string

record failed_row =
  fr_row_num :: int
  fr_field :: string
  fr_value :: string
  fr_error_code :: string

record user_import_batch =
  ib_batch_id :: string
  ib_tenant :: int
  ib_operator :: int
  ib_filename :: string
  ib_file_sha256 :: string
  ib_records_hash :: string
  ib_total_rows :: nat
  ib_preview_token :: string
  ib_summary_new :: nat
  ib_summary_exists :: nat
  ib_summary_conflict :: nat
  ib_summary_out_of_scope :: nat
  ib_success_count :: nat
  ib_skipped_count :: nat
  ib_overwritten_count :: nat
  ib_failed_count :: nat
  ib_failed_rows_file :: "string option"
  ib_file_storage_key :: "string option"
  ib_on_conflict :: string
  ib_reason :: string
  ib_status :: import_status
  ib_created_at :: int
  ib_started_at :: "int option"
  ib_finished_at :: "int option"

record batch_log =
  bl_tenant :: int
  bl_log_id :: string
  bl_batch_id :: string
  bl_operator :: int
  bl_event :: string
  bl_from :: "import_status option"
  bl_to :: "import_status option"
  bl_detail :: json
  bl_created_at :: int

text \<open>An artifact's owner and the intention to delete a batch's files.\<close>

record artifact_owner =
  ao_tenant :: int
  ao_resource :: string
  ao_role :: string
  ao_operation :: string

record transfer_resource =
  tr_tenant :: int
  tr_operator :: int
  tr_kind :: string
  tr_resource :: string
  tr_operations :: "string list"

record cleanup_intent =
  ci_resource :: transfer_resource
  ci_files :: "(string \<times> artifact_owner) list"
  ci_preview_token :: "string option"

text \<open>\<open>idb_flags\<close> are the cancellation flags in Redis and \<open>idb_intents\<close> the deletions staged for the
  commit of the transaction.\<close>

record import_db =
  idb_store :: user_store
  idb_batches :: "user_import_batch list"
  idb_logs :: "batch_log list"
  idb_flags :: "string list"
  idb_intents :: "cleanup_intent list"

text \<open>Hashes, the password hash, whether the deployment is production, the setting rows, the ids the
  generator draws for a row and for a log entry, the storage of a failure file, the text of an
  exception, of a time and of the driver's diagnosis of a constraint, and the owner of an artifact.\<close>

record import_env =
  ie_hash :: "json \<Rightarrow> string"
  ie_visible :: "auth_db \<Rightarrow> user \<Rightarrow> int set"
  ie_file_sha :: "string \<Rightarrow> string"
  ie_records_sha :: "json \<Rightarrow> string"
  ie_password_hash :: "string \<Rightarrow> string"
  ie_prod :: bool
  ie_settings :: "setting_row list"
  ie_next_id :: "int \<Rightarrow> int"
  ie_log_id :: "nat \<Rightarrow> string"
  ie_save :: "failed_row list \<Rightarrow> string res"
  ie_message :: "exn \<Rightarrow> string"
  ie_iso :: "int \<Rightarrow> string"
  ie_diag_name :: "exn \<Rightarrow> string option"
  ie_owned :: "string \<Rightarrow> bool"
  ie_owner :: "string \<Rightarrow> artifact_owner option"
  ie_allowed :: "transfer_resource list \<Rightarrow> transfer_resource \<Rightarrow> bool"

definition import_auth :: "user_store \<Rightarrow> auth_db" where
  "import_auth s = auth_of (us_dept s)"

section \<open>Exceptions\<close>

text \<open>\<open>BusinessRuleException\<close> and its subclasses; \<open>IntegrityError\<close>; \<open>exc.error_code or the name of the
  class\<close>.\<close>

fun is_business_rule :: "exn \<Rightarrow> bool" where
  "is_business_rule (BusinessRule _) = True"
| "is_business_rule (InvalidParameter _) = True"
| "is_business_rule (Unprocessable _) = True"
| "is_business_rule _ = False"

fun is_business_exn :: "exn \<Rightarrow> bool" where
  "is_business_exn (NotFound _) = True"
| "is_business_exn (Duplicate _) = True"
| "is_business_exn (Authentication _) = True"
| "is_business_exn (Authorization _) = True"
| "is_business_exn e = is_business_rule e"

fun is_integrity :: "exn \<Rightarrow> bool" where
  "is_integrity IntegrityError = True"
| "is_integrity (ConstraintViolation _) = True"
| "is_integrity _ = False"

fun is_authorization :: "exn \<Rightarrow> bool" where
  "is_authorization (Authorization _) = True"
| "is_authorization _ = False"

fun is_not_found :: "exn \<Rightarrow> bool" where
  "is_not_found (NotFound _) = True"
| "is_not_found _ = False"

fun error_code_of :: "exn \<Rightarrow> string" where
  "error_code_of (NotFound c) = c"
| "error_code_of (Duplicate c) = c"
| "error_code_of (Authentication c) = c"
| "error_code_of (Authorization c) = c"
| "error_code_of (BusinessRule c) = c"
| "error_code_of (InvalidParameter c) = c"
| "error_code_of (Unprocessable c) = c"
| "error_code_of _ = []"

fun class_name :: "exn \<Rightarrow> string" where
  "class_name (NotFound _) = ''NotFoundException''"
| "class_name (Duplicate _) = ''DuplicateException''"
| "class_name (Authentication _) = ''AuthenticationException''"
| "class_name (Authorization _) = ''AuthorizationException''"
| "class_name (BusinessRule _) = ''BusinessRuleException''"
| "class_name (InvalidParameter _) = ''InvalidParameterException''"
| "class_name (Unprocessable _) = ''UnprocessableEntityException''"
| "class_name _ = ''Exception''"

definition scalar_one_or_none :: "'a list \<Rightarrow> 'a option res" where
  "scalar_one_or_none xs = (case xs of [] \<Rightarrow> Inr None | [x] \<Rightarrow> Inr (Some x) | _ \<Rightarrow> Inl MultipleResultsFound)"

section \<open>The state machine\<close>

definition validate_transition :: "import_status \<Rightarrow> import_status \<Rightarrow> unit res" where
  "validate_transition x y =
     guardE (y \<in> set (LEGAL_TRANSITIONS x)) (Unprocessable ''AI_IMPORT_ILLEGAL_TRANSITION'')"

definition batch_key :: "int \<Rightarrow> string \<Rightarrow> user_import_batch \<Rightarrow> bool" where
  "batch_key t i b \<longleftrightarrow> ib_tenant b = t \<and> ib_batch_id b = i"

text \<open>The \<open>UPDATE ... WHERE status = x\<close>, and whether one row matched; \<open>upd\<close> are the other columns set.\<close>

definition transition_batch_status ::
    "import_db \<Rightarrow> string \<Rightarrow> import_status \<Rightarrow> import_status \<Rightarrow> (user_import_batch \<Rightarrow> user_import_batch) \<Rightarrow> int \<Rightarrow>
     (bool \<times> import_db) res" where
  "transition_batch_status s i x y upd t =
     bindE (validate_transition x y) (\<lambda>_.
     let hit = (\<lambda>b. batch_key t i b \<and> ib_status b = x) in
     Inr (length (filter hit (idb_batches s)) = 1,
          s\<lparr>idb_batches := map (\<lambda>b. if hit b then (upd b)\<lparr>ib_status := y\<rparr> else b) (idb_batches s)\<rparr>))"

definition validate_reason_consistency :: "string \<Rightarrow> string \<Rightarrow> unit res" where
  "validate_reason_consistency preview_reason execute_reason =
     guardE (preview_reason = execute_reason) (BusinessRule ''AI_IMPORT_REASON_MISMATCH'')"

section \<open>References of a row\<close>

datatype sync_action =
    ACT_NEW | ACT_EXISTS_BY_USERNAME | ACT_REJECT_EMPLOYEE_NO_EXISTS | ACT_UPDATE_SAFE | ACT_UPDATE_FULL

definition enabled_depts_named :: "user_store \<Rightarrow> string \<Rightarrow> int \<Rightarrow> dept_row list" where
  "enabled_depts_named s name t =
     filter (\<lambda>d. dept_tenant d = t \<and> dr_name d = name \<and> dept_status d = ''1'') (dd_depts (us_dept s))"

definition resolve_dept_by_name :: "user_store \<Rightarrow> string \<Rightarrow> int \<Rightarrow> int res" where
  "resolve_dept_by_name s name t =
     (case enabled_depts_named s name t of
        [] \<Rightarrow> Inl (BusinessRule ''AI_IMPORT_DEPT_NOT_FOUND'')
      | [d] \<Rightarrow> Inr (dept_id d)
      | _ \<Rightarrow> Inl (BusinessRule ''AI_IMPORT_DEPT_DUPLICATE''))"

text \<open>The walk down the path; \<open>parent = None\<close> is the root level.\<close>

fun walk_dept_path :: "user_store \<Rightarrow> int \<Rightarrow> int option \<Rightarrow> string list \<Rightarrow> int option res" where
  "walk_dept_path s t parent [] = Inr parent"
| "walk_dept_path s t parent (n # ns) =
     bindE (scalar_one_or_none (filter (\<lambda>d. dr_parent d = parent) (enabled_depts_named s n t))) (\<lambda>r.
       case r of None \<Rightarrow> Inl (BusinessRule ''AI_IMPORT_DEPT_PATH_NOT_FOUND'')
       | Some d \<Rightarrow> walk_dept_path s t (Some (dept_id d)) ns)"

definition stripped_parts :: "char \<Rightarrow> string \<Rightarrow> string list" where
  "stripped_parts c s = filter (\<lambda>p. p \<noteq> []) (map py_strip (split_on c s))"

definition resolve_dept_by_path :: "user_store \<Rightarrow> string \<Rightarrow> int \<Rightarrow> int res" where
  "resolve_dept_by_path s path t =
     (let parts = stripped_parts (CHR ''/'') path in
      if parts = [] then Inl (BusinessRule ''AI_IMPORT_DEPT_PATH_NOT_FOUND'')
      else bindE (walk_dept_path s t None parts) (\<lambda>r.
        case r of None \<Rightarrow> Inl AssertionError | Some d \<Rightarrow> Inr d))"

definition resolve_dept :: "user_store \<Rightarrow> string \<Rightarrow> int \<Rightarrow> int res" where
  "resolve_dept s dept_input t =
     (let name = py_strip dept_input in
      if name = [] then Inl (BusinessRule ''AI_IMPORT_DEPT_NOT_FOUND'')
      else if CHR ''/'' \<in> set name then resolve_dept_by_path s name t
      else resolve_dept_by_name s name t)"

definition resolve_role_input :: "user_store \<Rightarrow> string \<Rightarrow> int \<Rightarrow> int set res" where
  "resolve_role_input s role_input t =
     (let parts = stripped_parts (CHR '','') role_input;
          enabled = filter (\<lambda>r. role_tenant r = t \<and> role_status r = ''1'') (rows_roles (import_auth s)) in
      if parts = [] then Inr {}
      else let by_code = filter (\<lambda>r. role_code r \<in> set parts) enabled;
               remaining = filter (\<lambda>p. p \<notin> set (map role_code by_code)) parts;
               by_name = (if remaining = [] then []
                          else filter (\<lambda>r. role_name r \<in> set remaining) enabled);
               missing = filter (\<lambda>p. p \<notin> set (map role_name by_name)) remaining
           in if missing \<noteq> [] then Inl (BusinessRule ''AI_IMPORT_ROLE_NOT_FOUND'')
              else Inr (set (map role_id (by_code @ by_name))))"

definition compute_accessible_dept_ids :: "user_store \<Rightarrow> user \<Rightarrow> int \<Rightarrow> int set option res" where
  "compute_accessible_dept_ids s u t =
     bindE (resolve_data_scope (scope (import_auth s)) u t) (\<lambda>r.
       if unbounded r then Inr None
       else Inr (Some (case accessible_dept_ids r of None \<Rightarrow> {} | Some ds \<Rightarrow> ds)))"

definition failed :: "import_record \<Rightarrow> string \<Rightarrow> string \<Rightarrow> string \<Rightarrow> failed_row" where
  "failed r field v code =
     \<lparr>fr_row_num = im_row_num r, fr_field = field, fr_value = v, fr_error_code = code\<rparr>"

definition check_dept_data_scope ::
    "user_store \<Rightarrow> import_record list \<Rightarrow> user \<Rightarrow> int \<Rightarrow> failed_row list res" where
  "check_dept_data_scope s records u t =
     bindE (compute_accessible_dept_ids s u t) (\<lambda>acc. case acc of
         None \<Rightarrow> Inr []
       | Some ds \<Rightarrow> bindE (mapE (\<lambda>r. case resolve_dept s (im_dept_input r) t of
             Inl e \<Rightarrow> if is_business_rule e then Inr [failed r ''dept_input'' (im_dept_input r) (error_code_of e)]
                      else Inl e
           | Inr d \<Rightarrow> Inr (if d \<in> ds then []
               else [failed r ''dept_input'' (im_dept_input r) ''AI_IMPORT_DEPT_OUT_OF_SCOPE''])) records)
           (\<lambda>rows. Inr (concat rows)))"

definition user_where :: "user_store \<Rightarrow> int \<Rightarrow> (user \<Rightarrow> bool) \<Rightarrow> user option res" where
  "user_where s t p =
     bindE (scalar_one_or_none (filter (\<lambda>u. user_tenant u = t \<and> p u) (rows_users (import_auth s)))) (\<lambda>r.
       case r of None \<Rightarrow> Inr None | Some u \<Rightarrow> Inr (load_user (import_auth s) (user_id u) t))"

definition resolve_existing_user :: "user_store \<Rightarrow> import_record \<Rightarrow> int \<Rightarrow> (user option \<times> bool) res" where
  "resolve_existing_user s r t =
     bindE (if or_empty (im_employee_no r) = [] then Inr None
            else user_where s t (\<lambda>u. ui_employee_no (us_info s (user_id u)) = im_employee_no r)) (\<lambda>by_no.
       case by_no of Some u \<Rightarrow> Inr (Some u, True)
       | None \<Rightarrow> bindE (user_where s t (\<lambda>u. user_name u = im_user_name r)) (\<lambda>by_name. Inr (by_name, False)))"

definition classify_sync_action :: "bool \<Rightarrow> sync_mode \<Rightarrow> sync_action" where
  "classify_sync_action matched_by_employee_no mode =
     (if \<not> matched_by_employee_no then ACT_EXISTS_BY_USERNAME
      else if mode = CREATE_ONLY then ACT_REJECT_EMPLOYEE_NO_EXISTS
      else if mode = UPDATE_PROFILE then ACT_UPDATE_SAFE else ACT_UPDATE_FULL)"

section \<open>Hashes, limits and the reason\<close>

text \<open>\<open>model_dump\<close> under \<open>sort_keys\<close>.\<close>

definition record_json :: "import_record \<Rightarrow> json" where
  "record_json r = JObj
     [(''dept_input'', JStr (im_dept_input r)), (''employee_no'', jopt (im_employee_no r)),
      (''nickname'', jopt (im_nickname r)), (''role_input'', jopt (im_role_input r)),
      (''row_num'', JInt (im_row_num r)), (''status'', JStr (im_status r)),
      (''user_email'', jopt (im_email r)), (''user_gender'', JStr (im_gender r)),
      (''user_name'', JStr (im_user_name r)), (''user_phone'', jopt (im_phone r))]"

definition records_payload :: "import_record list \<Rightarrow> json" where
  "records_payload records = JArr (map record_json (sort_key im_row_num records))"

definition compute_records_hash :: "import_env \<Rightarrow> import_record list \<Rightarrow> string" where
  "compute_records_hash p records = ie_records_sha p (records_payload records)"

definition truncate_list :: "'a list \<Rightarrow> 'a list \<times> bool" where
  "truncate_list xs =
     (if MAX_PREVIEW_RECORDS < length xs then (take MAX_PREVIEW_RECORDS xs, True) else (xs, False))"

definition validate_reason :: "string option \<Rightarrow> string res" where
  "validate_reason reason = (case reason of
       None \<Rightarrow> Inl (BusinessRule ''AI_IMPORT_REASON_REQUIRED'')
     | Some r \<Rightarrow> let s = py_strip r in
         if s = [] \<or> 256 < length s then Inl (BusinessRule ''AI_IMPORT_REASON_REQUIRED'') else Inr s)"

definition effective_role_column :: "bool option \<Rightarrow> import_record list \<Rightarrow> bool" where
  "effective_role_column flag records =
     (case flag of Some b \<Rightarrow> b | None \<Rightarrow> \<exists>r \<in> set records. im_role_input r \<noteq> None)"

section \<open>Resolution of a batch\<close>

record resolution_row =
  rs_row_num :: int
  rs_dept_id :: "int option"
  rs_dept_error :: "string option"
  rs_role_ids :: "int list option"
  rs_role_error :: "string option"
  rs_target :: "int option"
  rs_by_employee_no :: bool
  rs_target_role_ids :: "int list"
  rs_target_dept_ids :: "int list"
  rs_target_status :: string
  rs_prospective :: "int option"

definition default_role_id :: "user_store \<Rightarrow> int \<Rightarrow> int option" where
  "default_role_id s t = map_option role_id (find (\<lambda>r. role_tenant r = t \<and> role_code r = USER_ROLE_CODE \<and>
       role_status r = STATUS_ENABLED) (rows_roles (import_auth s)))"

text \<open>\<open>catch_rule\<close>: a business rule's error code, or the value.\<close>

definition catch_rule :: "'a res \<Rightarrow> (string + 'a) res" where
  "catch_rule m = (case m of
       Inr x \<Rightarrow> Inr (Inr x)
     | Inl e \<Rightarrow> if is_business_rule e then Inr (Inl (error_code_of e)) else Inl e)"

definition resolve_row_roles ::
    "user_store \<Rightarrow> import_record \<Rightarrow> user option \<Rightarrow> bool \<Rightarrow> int \<Rightarrow> (int list option \<times> string option) res" where
  "resolve_row_roles s r existing has_role_column t =
     (if or_empty (im_role_input r) \<noteq> []
      then bindE (catch_rule (resolve_role_input s (or_empty (im_role_input r)) t)) (\<lambda>x. case x of
          Inl code \<Rightarrow> Inr (None, Some code)
        | Inr ids \<Rightarrow> Inr (Some (sorted_list_of_set ids), None))
      else case existing of
          None \<Rightarrow> (case default_role_id s t of
              None \<Rightarrow> Inr (None, Some ''USER_DEFAULT_ROLE_NOT_AVAILABLE'')
            | Some i \<Rightarrow> Inr (Some [i], None))
        | Some u \<Rightarrow> Inr (if has_role_column then (Some (role_ids_of (user_roles u)), None) else (None, None)))"

definition resolve_record ::
    "import_env \<Rightarrow> user_store \<Rightarrow> bool \<Rightarrow> int \<Rightarrow> import_record \<Rightarrow> resolution_row res" where
  "resolve_record p s has_role_column t r =
     bindE (catch_rule (resolve_dept s (im_dept_input r) t)) (\<lambda>dept.
     bindE (resolve_existing_user s r t) (\<lambda>(existing, by_no).
     bindE (resolve_row_roles s r existing has_role_column t) (\<lambda>(roles, role_error).
     Inr \<lparr>rs_row_num = im_row_num r,
          rs_dept_id = (case dept of Inl _ \<Rightarrow> None | Inr d \<Rightarrow> Some d),
          rs_dept_error = (case dept of Inl c \<Rightarrow> Some c | Inr _ \<Rightarrow> None),
          rs_role_ids = roles, rs_role_error = role_error,
          rs_target = map_option user_id existing, rs_by_employee_no = by_no,
          rs_target_role_ids = (case existing of None \<Rightarrow> [] | Some u \<Rightarrow> role_ids_of (user_roles u)),
          rs_target_dept_ids = (case existing of None \<Rightarrow> [] | Some u \<Rightarrow> user_dept_ids u),
          rs_target_status = (case existing of None \<Rightarrow> im_status r | Some u \<Rightarrow> user_status u),
          rs_prospective = (case existing of None \<Rightarrow> Some (ie_next_id p (im_row_num r)) | Some _ \<Rightarrow> None)\<rparr>)))"

definition resolve_import_targets ::
    "import_env \<Rightarrow> user_store \<Rightarrow> import_record list \<Rightarrow> bool \<Rightarrow> int \<Rightarrow> resolution_row list res" where
  "resolve_import_targets p s records has_role_column t =
     mapE (resolve_record p s has_role_column t) records"

text \<open>\<open>{resolution.row_num: resolution}\<close>\<close>

definition by_row :: "resolution_row list \<Rightarrow> int \<Rightarrow> resolution_row option" where
  "by_row rs n = map_of (rev (map (\<lambda>x. (rs_row_num x, x)) rs)) n"

definition targets_of :: "resolution_row list \<Rightarrow> int list" where
  "targets_of rs = List.map_filter rs_target rs"

definition prospective_ids :: "resolution_row list \<Rightarrow> int set" where
  "prospective_ids rs = set (List.map_filter rs_prospective rs)"

section \<open>Classification\<close>

datatype row_class = RowNew | RowExists | RowConflict failed_row | RowOutOfScope failed_row

definition check_row_roles ::
    "import_env \<Rightarrow> user_store \<Rightarrow> int \<Rightarrow> grant_authority \<Rightarrow> int set \<Rightarrow> int \<Rightarrow> import_record \<Rightarrow> resolution_row \<Rightarrow> int \<Rightarrow>
     row_class option res" where
  "check_row_roles p s actor_id auth ignored t r x d =
     (case rs_role_ids x of None \<Rightarrow> Inr None | Some ids \<Rightarrow>
        (case validate_import_role_assignment (ie_hash p) (ie_visible p) (import_auth s) actor_id (rs_target x)
                (im_user_name r) (rs_target_status x) ids [d] (Some auth) ignored (rs_prospective x)
                (ie_next_id p (im_row_num r)) t of
           Inr _ \<Rightarrow> Inr None
         | Inl e \<Rightarrow>
             if is_authorization e \<or>
                is_business_rule e \<and> error_code_of e \<in> {''USER_ROLE_SELF_ASSIGNMENT_FORBIDDEN'',
                  ''AUTHORIZATION_SNAPSHOT_STALE''}
             then Inr (Some (RowOutOfScope
               (failed r ''role_input'' (or_empty (im_role_input r)) ''AI_IMPORT_ROLE_OUT_OF_SCOPE'')))
             else if is_business_rule e
             then Inr (Some (RowConflict (failed r ''role_input'' (or_empty (im_role_input r)) (error_code_of e))))
             else Inl e))"

definition check_row_depts ::
    "import_env \<Rightarrow> user_store \<Rightarrow> int \<Rightarrow> grant_authority \<Rightarrow> int set \<Rightarrow> int \<Rightarrow> import_record \<Rightarrow> resolution_row \<Rightarrow> int \<Rightarrow>
     row_class res" where
  "check_row_depts p s actor_id auth ignored t r x d =
     (let ids = (case rs_role_ids x of None \<Rightarrow> [] | Some xs \<Rightarrow> xs) in
      case validate_import_department_assignment (ie_hash p) (ie_visible p) (us_dept s) (ie_settings p) actor_id
             (rs_target x) (im_user_name r) (rs_target_status x) (if ids = [] then rs_target_role_ids x else ids)
             [(JInt d, JBool True)] (Some auth) (rs_prospective x) (ie_next_id p (im_row_num r)) ignored t of
        Inr _ \<Rightarrow> Inr (if rs_target x = None then RowNew else RowExists)
      | Inl e \<Rightarrow>
          if is_authorization e
          then Inr (RowOutOfScope (failed r ''dept_input'' (im_dept_input r) ''AI_IMPORT_DEPT_OUT_OF_SCOPE''))
          else if is_business_rule e
          then Inr (RowConflict (failed r ''dept_input'' (im_dept_input r) (error_code_of e)))
          else Inl e)"

definition classify_row ::
    "import_env \<Rightarrow> user_store \<Rightarrow> int \<Rightarrow> grant_authority \<Rightarrow> resolution_row list \<Rightarrow> int \<Rightarrow> import_record \<Rightarrow> row_class res" where
  "classify_row p s actor_id auth rs t r =
     (case by_row rs (im_row_num r) of None \<Rightarrow> Inl KeyError | Some x \<Rightarrow>
        if (case rs_target x of None \<Rightarrow> False | Some i \<Rightarrow> 1 < count_list (targets_of rs) i)
        then Inr (RowConflict (failed r ''_batch'' (im_user_name r) ''AI_IMPORT_DUPLICATE_TARGET''))
        else case rs_dept_error x of
          Some c \<Rightarrow> Inr (RowConflict (failed r ''dept_input'' (im_dept_input r) c))
        | None \<Rightarrow> (case rs_role_error x of
          Some c \<Rightarrow> Inr (RowConflict (failed r ''role_input'' (or_empty (im_role_input r)) c))
        | None \<Rightarrow> (case rs_dept_id x of None \<Rightarrow> Inl AssertionError | Some d \<Rightarrow>
            if (case ga_dept_ids auth of None \<Rightarrow> False | Some ds \<Rightarrow> d \<notin> ds)
            then Inr (RowOutOfScope (failed r ''dept_input'' (im_dept_input r) ''AI_IMPORT_DEPT_OUT_OF_SCOPE''))
            else bindE (check_row_roles p s actor_id auth (prospective_ids rs) t r x d) (\<lambda>c. case c of
                Some y \<Rightarrow> Inr y
              | None \<Rightarrow> check_row_depts p s actor_id auth (prospective_ids rs) t r x d))))"

record classified =
  cl_new :: "import_record list"
  cl_exists :: "import_record list"
  cl_conflict :: "failed_row list"
  cl_out_of_scope :: "failed_row list"

definition collect_classes :: "(import_record \<times> row_class) list \<Rightarrow> classified" where
  "collect_classes xs =
     \<lparr>cl_new = map fst (filter (\<lambda>x. snd x = RowNew) xs),
      cl_exists = map fst (filter (\<lambda>x. snd x = RowExists) xs),
      cl_conflict = List.map_filter (\<lambda>x. case snd x of RowConflict f \<Rightarrow> Some f | _ \<Rightarrow> None) xs,
      cl_out_of_scope = List.map_filter (\<lambda>x. case snd x of RowOutOfScope f \<Rightarrow> Some f | _ \<Rightarrow> None) xs\<rparr>"

definition classify_records ::
    "import_env \<Rightarrow> user_store \<Rightarrow> import_record list \<Rightarrow> int \<Rightarrow> bool \<Rightarrow> resolution_row list option \<Rightarrow> int \<Rightarrow>
     classified res" where
  "classify_records p s records actor_id has_role_column resolutions t =
     bindE (case resolutions of Some rs \<Rightarrow> Inr rs
            | None \<Rightarrow> resolve_import_targets p s records has_role_column t) (\<lambda>rs.
     bindE (build_authority (ie_hash p) (ie_visible p) (import_auth s) actor_id t) (\<lambda>auth.
     bindE (mapE (classify_row p s actor_id auth rs t) records) (\<lambda>classes.
     Inr (collect_classes (zip records classes)))))"

section \<open>Locking the batch's targets\<close>

text \<open>\<open>s0\<close> is read before the locks and \<open>s1\<close> once they are held.\<close>

definition resolved_role_ids :: "resolution_row list \<Rightarrow> int set" where
  "resolved_role_ids rs = set (concat (map (\<lambda>x. rs_target_role_ids x @
     (case rs_role_ids x of None \<Rightarrow> [] | Some ids \<Rightarrow> ids)) rs))"

definition resolved_dept_ids :: "resolution_row list \<Rightarrow> int set" where
  "resolved_dept_ids rs = set (concat (map (\<lambda>x. rs_target_dept_ids x @
     (case rs_dept_id x of None \<Rightarrow> [] | Some d \<Rightarrow> [d])) rs))"

definition lock_import_authorization_targets ::
    "import_env \<Rightarrow> user_store \<Rightarrow> user_store \<Rightarrow> import_record list \<Rightarrow> int \<Rightarrow> bool \<Rightarrow> int \<Rightarrow>
     (user \<times> resolution_row list) res" where
  "lock_import_authorization_targets p s0 s1 records actor_id has_role_column t =
     bindE (resolve_import_targets p s0 records has_role_column t) (\<lambda>prior.
     bindE (case lock_import_targets (import_auth s0) (import_auth s1) actor_id (set (targets_of prior))
              (resolved_role_ids prior) (resolved_dept_ids prior) t of
         Inr u \<Rightarrow> Inr u
       | Inl e \<Rightarrow> Inl (if is_business_rule e \<or> is_not_found e
                      then BusinessRule ''AUTHORIZATION_SNAPSHOT_STALE'' else e)) (\<lambda>actor.
     bindE (resolve_import_targets p s1 records has_role_column t) (\<lambda>after.
     bindE (guardE (after = prior) (BusinessRule ''AUTHORIZATION_SNAPSHOT_STALE'')) (\<lambda>_.
     bindE (ensure_import_permissions (ie_hash p) (ie_visible p) (import_auth s1) actor_id has_role_column t) (\<lambda>_.
     bindE (ensure_dept_import_permissions (ie_hash p) (ie_visible p) (import_auth s1) actor_id t) (\<lambda>_.
     Inr (actor, after)))))))"

section \<open>Preview\<close>

record dry_run_result =
  dr_total :: nat
  dr_new :: "import_record list"
  dr_exists :: "import_record list"
  dr_conflict :: "failed_row list"
  dr_out_of_scope :: "failed_row list"
  dr_truncated :: "bool \<times> bool \<times> bool \<times> bool"

text \<open>The insert of a batch row: its operator must exist, its id and its preview token must be new.\<close>

definition insert_batch :: "import_db \<Rightarrow> user_import_batch \<Rightarrow> import_db res" where
  "insert_batch s b =
     (if \<exists>x \<in> set (idb_batches s). ib_batch_id x = ib_batch_id b
      then Inl (ConstraintViolation ''uq_sys_user_import_batch_tenant_batch'')
      else if \<exists>x \<in> set (idb_batches s). ib_tenant x = ib_tenant b \<and> ib_preview_token x = ib_preview_token b
      then Inl (ConstraintViolation ''uq_sys_user_import_batch_tenant_preview_token'')
      else if \<not> (\<exists>u \<in> set (rows_users (import_auth (idb_store s))). user_tenant u = ib_tenant b \<and>
                  user_id u = ib_operator b)
      then Inl (ConstraintViolation ''fk_sys_user_import_batch_tenant_operator'')
      else Inr (s\<lparr>idb_batches := idb_batches s @ [b]\<rparr>))"

definition new_batch ::
    "import_env \<Rightarrow> import_record list \<Rightarrow> int \<Rightarrow> string \<Rightarrow> string \<Rightarrow> string \<Rightarrow> string \<Rightarrow> string \<Rightarrow> string \<Rightarrow> int \<Rightarrow> int \<Rightarrow>
     user_import_batch" where
  "new_batch p records operator file filename reason on_conflict bid token now t =
     \<lparr>ib_batch_id = bid, ib_tenant = t, ib_operator = operator, ib_filename = filename,
      ib_file_sha256 = ie_file_sha p file, ib_records_hash = compute_records_hash p records,
      ib_total_rows = length records, ib_preview_token = token,
      ib_summary_new = 0, ib_summary_exists = 0, ib_summary_conflict = 0, ib_summary_out_of_scope = 0,
      ib_success_count = 0, ib_skipped_count = 0, ib_overwritten_count = 0, ib_failed_count = 0,
      ib_failed_rows_file = None, ib_file_storage_key = None, ib_on_conflict = on_conflict,
      ib_reason = reason, ib_status = ST_CREATED, ib_created_at = now, ib_started_at = None,
      ib_finished_at = None\<rparr>"

definition set_summaries :: "classified \<Rightarrow> user_import_batch \<Rightarrow> user_import_batch" where
  "set_summaries c b = b\<lparr>ib_summary_new := length (cl_new c), ib_summary_exists := length (cl_exists c),
     ib_summary_conflict := length (cl_conflict c), ib_summary_out_of_scope := length (cl_out_of_scope c)\<rparr>"

definition dry_run_result_of :: "import_record list \<Rightarrow> classified \<Rightarrow> dry_run_result" where
  "dry_run_result_of records c =
     \<lparr>dr_total = length records,
      dr_new = fst (truncate_list (cl_new c)), dr_exists = fst (truncate_list (cl_exists c)),
      dr_conflict = fst (truncate_list (cl_conflict c)),
      dr_out_of_scope = fst (truncate_list (cl_out_of_scope c)),
      dr_truncated = (snd (truncate_list (cl_new c)), snd (truncate_list (cl_exists c)),
        snd (truncate_list (cl_conflict c)), snd (truncate_list (cl_out_of_scope c)))\<rparr>"

text \<open>The preview proper, inside its \<open>try\<close>: the state an exception leaves is kept. \<open>cached\<close> is Redis'
  answer to the \<open>setex\<close>.\<close>

definition preview_step ::
    "import_env \<Rightarrow> import_db \<Rightarrow> import_record list \<Rightarrow> int \<Rightarrow> string \<Rightarrow> bool \<Rightarrow> unit res \<Rightarrow> int \<Rightarrow>
     classified res \<times> import_db" where
  "preview_step p s records actor_id bid has_role_column cached t =
     (case classify_records p (idb_store s) records actor_id has_role_column None t of
        Inl e \<Rightarrow> (Inl e, s)
      | Inr c \<Rightarrow> (case validate_transition ST_CREATED ST_PREVIEW_DONE of
          Inl e \<Rightarrow> (Inl e, s)
        | Inr _ \<Rightarrow> let s' = s\<lparr>idb_batches := map (\<lambda>b. if batch_key t bid b
                     then (set_summaries c b)\<lparr>ib_status := ST_PREVIEW_DONE\<rparr> else b) (idb_batches s)\<rparr>
                  in (case cached of Inl e \<Rightarrow> (Inl e, s') | Inr _ \<Rightarrow> (Inr c, s'))))"

definition close_failed :: "import_db \<Rightarrow> string \<Rightarrow> int \<Rightarrow> import_db" where
  "close_failed s bid t =
     (case transition_batch_status s bid ST_CREATED ST_FAILED id t of Inl _ \<Rightarrow> s | Inr (_, s') \<Rightarrow> s')"

definition dry_run_import_users ::
    "import_env \<Rightarrow> import_db \<Rightarrow> import_record list \<Rightarrow> int \<Rightarrow> string \<Rightarrow> string \<Rightarrow> string option \<Rightarrow> string \<Rightarrow>
     bool option \<Rightarrow> string \<Rightarrow> string \<Rightarrow> unit res \<Rightarrow> int \<Rightarrow> int \<Rightarrow> dry_run_result res \<times> import_db" where
  "dry_run_import_users p s records actor_id file filename reason on_conflict role_column bid token cached now t =
     (case validate_reason reason of Inl e \<Rightarrow> (Inl e, s) | Inr reason_clean \<Rightarrow>
      (case insert_batch s (new_batch p records actor_id file filename reason_clean on_conflict bid token now t) of
         Inl e \<Rightarrow> (Inl e, s)
       | Inr s1 \<Rightarrow>
           if records = [] then (Inl (BusinessRule ''AI_IMPORT_EMPTY_FILE''), close_failed s1 bid t)
           else (case preview_step p s1 records actor_id bid (effective_role_column role_column records) cached t of
               (Inl e, s2) \<Rightarrow> (Inl e, close_failed s2 bid t)
             | (Inr c, s2) \<Rightarrow> (Inr (dry_run_result_of records c), s2))))"

text \<open>The preview tool stores the file once the dry run has succeeded, and writes the storage's key
  (\<open>saved\<close>) into the batch.\<close>

definition attach_preview_source :: "import_db \<Rightarrow> string \<Rightarrow> int \<Rightarrow> string \<Rightarrow> import_db" where
  "attach_preview_source s bid t key = s\<lparr>idb_batches :=
     map (\<lambda>b. if batch_key t bid b then b\<lparr>ib_file_storage_key := Some key\<rparr> else b) (idb_batches s)\<rparr>"

definition user_import_preview ::
    "import_env \<Rightarrow> import_db \<Rightarrow> import_record list \<Rightarrow> int \<Rightarrow> string \<Rightarrow> string \<Rightarrow> string option \<Rightarrow> string \<Rightarrow>
     bool option \<Rightarrow> string \<Rightarrow> string \<Rightarrow> unit res \<Rightarrow> string res \<Rightarrow> int \<Rightarrow> int \<Rightarrow> dry_run_result res \<times> import_db" where
  "user_import_preview p s records actor_id file filename reason on_conflict role_column bid token cached saved now t =
     (case dry_run_import_users p s records actor_id file filename reason on_conflict role_column bid token cached
             now t of
        (Inl e, s1) \<Rightarrow> (Inl e, s1)
      | (Inr d, s1) \<Rightarrow> (case saved of
            Inl e \<Rightarrow> (Inl e, s1) | Inr key \<Rightarrow> (Inr d, attach_preview_source s1 bid t key)))"

definition get_batch_by_preview_token ::
    "import_db \<Rightarrow> string \<Rightarrow> string option \<Rightarrow> int \<Rightarrow> user_import_batch option" where
  "get_batch_by_preview_token s token cached t =
     (let by_cache = (case cached of None \<Rightarrow> None | Some i \<Rightarrow>
            if i = [] then None else find (batch_key t i) (idb_batches s)) in
      case by_cache of Some b \<Rightarrow> Some b
      | None \<Rightarrow> find (\<lambda>b. ib_tenant b = t \<and> ib_preview_token b = token) (idb_batches s))"

end
