(* ===== verification/User_Import_Run.thy ===== *)
theory User_Import_Run
  imports User_Import
begin

text \<open>
  The execution of a previewed import, its replay, its cancellation, the listings and the clean-ups:
  the second half of \<open>user_import_service.py\<close> and the intentions of \<open>transfer_cleanup_service.py\<close>. A
  savepoint is the store it began with: rolling back returns to it, while the counters and the list of
  failed rows, which are Python variables, keep their values. An operation that raises leaves no
  state, since the request's transaction is then rolled back.
\<close>

section \<open>Constants\<close>

definition USER_IMPORT_CHUNK_SIZE :: nat where "USER_IMPORT_CHUNK_SIZE = 100"

definition FAILED_ROWS_PREVIEW_LIMIT :: nat where "FAILED_ROWS_PREVIEW_LIMIT = 20"

definition RECOVERABLE_ERROR_CODES :: "string list" where
  "RECOVERABLE_ERROR_CODES =
     [''AI_IMPORT_USERNAME_DUPLICATE'', ''AI_IMPORT_EMPLOYEE_NO_DUPLICATE'', ''AI_IMPORT_EMPLOYEE_NO_EXISTS'',
      ''AI_IMPORT_DEPT_NOT_FOUND'', ''AI_IMPORT_DEPT_PATH_NOT_FOUND'', ''AI_IMPORT_DEPT_DUPLICATE'',
      ''AI_IMPORT_ROLE_NOT_FOUND'', ''AI_IMPORT_DEPT_OUT_OF_SCOPE'', ''AI_IMPORT_ROLE_OUT_OF_SCOPE'',
      ''AI_IMPORT_USERNAME_INVALID'', ''AI_IMPORT_EMAIL_INVALID'', ''AI_IMPORT_PHONE_INVALID'',
      ''VALIDATION_ERROR'', ''BusinessRuleException'']"

section \<open>Error codes\<close>

definition extract_constraint_name :: "import_env \<Rightarrow> exn \<Rightarrow> string" where
  "extract_constraint_name p e = (case ie_diag_name p e of
      None \<Rightarrow> ie_message p e | Some n \<Rightarrow> if n = [] then ie_message p e else n)"

definition classify_integrity_error :: "import_env \<Rightarrow> exn \<Rightarrow> string" where
  "classify_integrity_error p e =
     (let name = extract_constraint_name p e in
      if str_in ''user_name'' name then ''AI_IMPORT_USERNAME_DUPLICATE''
      else if str_in ''employee_no'' name then ''AI_IMPORT_EMPLOYEE_NO_DUPLICATE''
      else ''AI_IMPORT_UNKNOWN_INTEGRITY_ERROR'')"

definition extract_error_code :: "import_env \<Rightarrow> exn \<Rightarrow> string" where
  "extract_error_code p e =
     (if is_integrity e then classify_integrity_error p e
      else let code = error_code_of e in if code = [] then class_name e else code)"

definition make_failed_row_from_exc :: "import_record \<Rightarrow> string \<Rightarrow> failed_row" where
  "make_failed_row_from_exc r code =
     (if code = ''AI_IMPORT_USERNAME_DUPLICATE'' then failed r ''user_name'' (im_user_name r) code
      else if code \<in> {''AI_IMPORT_EMPLOYEE_NO_DUPLICATE'', ''AI_IMPORT_EMPLOYEE_NO_EXISTS''}
      then failed r ''employee_no'' (or_empty (im_employee_no r)) code
      else if code \<in> {''AI_IMPORT_DEPT_NOT_FOUND'', ''AI_IMPORT_DEPT_PATH_NOT_FOUND'',
          ''AI_IMPORT_DEPT_DUPLICATE'', ''AI_IMPORT_DEPT_OUT_OF_SCOPE''}
      then failed r ''dept_input'' (im_dept_input r) code
      else if code \<in> {''AI_IMPORT_ROLE_NOT_FOUND'', ''AI_IMPORT_ROLE_OUT_OF_SCOPE''}
      then failed r ''role_input'' (or_empty (im_role_input r)) code
      else failed r ''_unknown'' [] code)"

section \<open>Logs\<close>

definition write_batch_log ::
    "import_env \<Rightarrow> import_db \<Rightarrow> user_import_batch \<Rightarrow> int \<Rightarrow> string \<Rightarrow> import_status option \<Rightarrow> import_status option \<Rightarrow>
     json \<Rightarrow> int \<Rightarrow> import_db" where
  "write_batch_log p s b operator event from to detail now =
     s\<lparr>idb_logs := idb_logs s @ [\<lparr>bl_tenant = ib_tenant b, bl_log_id = ie_log_id p (length (idb_logs s)),
        bl_batch_id = ib_batch_id b, bl_operator = operator, bl_event = event, bl_from = from, bl_to = to,
        bl_detail = detail, bl_created_at = now\<rparr>]\<rparr>"

definition determine_end_status :: "nat \<Rightarrow> nat \<Rightarrow> import_status" where
  "determine_end_status success_count failed_count =
     (if failed_count = 0 then ST_SUCCESS
      else if 0 < success_count then ST_PARTIAL_SUCCESS else ST_FAILED)"

section \<open>Writes to the user table\<close>

text \<open>The columns' widths, and the unique constraints of \<open>sys_user\<close>; \<open>uid\<close> is the row written.\<close>

definition too_long :: "nat \<Rightarrow> string option \<Rightarrow> bool" where
  "too_long n x = (case x of None \<Rightarrow> False | Some s \<Rightarrow> n < length s)"

definition check_user_columns ::
    "user_store \<Rightarrow> int \<Rightarrow> int \<Rightarrow> string option \<Rightarrow> user_info \<Rightarrow> unit res" where
  "check_user_columns s t uid name info =
     (let others = filter (\<lambda>u. user_tenant u = t \<and> user_id u \<noteq> uid) (rows_users (dd_auth (us_dept s))) in
      if too_long 100 (ui_email info) \<or> too_long 20 (ui_phone info) then Inl DataError
      else if name \<in> Some ` set (map user_name others)
      then Inl (ConstraintViolation ''uq_sys_user_tenant_user_name'')
      else if ui_employee_no info \<noteq> None \<and>
              ui_employee_no info \<in> set (map (\<lambda>u. ui_employee_no (us_info s (user_id u))) others)
      then Inl (ConstraintViolation ''uq_sys_user_tenant_employee_no'')
      else Inr ())"

definition put_users :: "user_store \<Rightarrow> user list \<Rightarrow> (int \<times> int) list \<Rightarrow>
     (int \<times> int \<times> string \<times> string option) list \<Rightarrow> int \<Rightarrow> user_info \<Rightarrow> user_store" where
  "put_users s users ids names uid info =
     (let d = us_dept s; a = dd_auth d in
      s\<lparr>us_dept := d\<lparr>dd_auth := a\<lparr>rows_users := users, scope := (scope a)\<lparr>db_users := ids\<rparr>\<rparr>, dd_names := names\<rparr>,
        us_info := (us_info s)(uid := info)\<rparr>)"

definition insert_user ::
    "user_store \<Rightarrow> int \<Rightarrow> int \<Rightarrow> string \<Rightarrow> string \<Rightarrow> string option \<Rightarrow> user_info \<Rightarrow> user_store res" where
  "insert_user s t uid name status nickname info =
     (let d = us_dept s; a = dd_auth d in
      if uid \<in> set (map user_id (rows_users a)) then Inl (ConstraintViolation ''sys_user_pkey'')
      else bindE (check_user_columns s t uid (Some name) info) (\<lambda>_.
        Inr (put_users s
          (rows_users a @ [\<lparr>user_id = uid, user_tenant = t, user_name = name, user_status = status,
             user_roles = [], user_depts = []\<rparr>])
          (db_users (scope a) @ [(t, uid)]) (dd_names d @ [(t, uid, name, nickname)]) uid info)))"

text \<open>An \<open>UPDATE\<close> sets a name or a nickname only when the service assigned one; one that finds no row is
  the mapper's \<open>StaleDataError\<close>, an exception of no class the loop names.\<close>

definition updated_name :: "string option \<Rightarrow> string option \<Rightarrow> int \<times> int \<times> string \<times> string option \<Rightarrow>
     int \<times> int \<times> string \<times> string option" where
  "updated_name name nickname x = (case x of (t, i, n, k) \<Rightarrow>
     (t, i, case name of None \<Rightarrow> n | Some n' \<Rightarrow> n', if nickname = None then k else nickname))"

definition update_user ::
    "user_store \<Rightarrow> int \<Rightarrow> int \<Rightarrow> string option \<Rightarrow> string \<Rightarrow> string option \<Rightarrow> user_info \<Rightarrow> user_store res" where
  "update_user s t uid name status nickname info =
     (let d = us_dept s; a = dd_auth d in
      if (t, uid) \<notin> set (map (\<lambda>u. (user_tenant u, user_id u)) (rows_users a)) then Inl RuntimeError
      else bindE (check_user_columns s t uid name info) (\<lambda>_.
        Inr (put_users s
          (map (\<lambda>u. if user_tenant u = t \<and> user_id u = uid
                    then u\<lparr>user_name := (case name of None \<Rightarrow> user_name u | Some n \<Rightarrow> n), user_status := status\<rparr>
                    else u) (rows_users a))
          (db_users (scope a))
          (map (\<lambda>x. if fst x = t \<and> fst (snd x) = uid then updated_name name nickname x else x) (dd_names d))
          uid info)))"

definition put_role_links :: "user_store \<Rightarrow> auth_db \<Rightarrow> user_store" where
  "put_role_links s a = s\<lparr>us_dept := (us_dept s)\<lparr>dd_auth := (dd_auth (us_dept s))\<lparr>links_roles := links_roles a\<rparr>\<rparr>\<rparr>"

section \<open>One row\<close>

definition get_default_password :: "import_env \<Rightarrow> int \<Rightarrow> string res" where
  "get_default_password p t =
     bindE (settings_get_value (ie_settings p) ''auth:default_password'' t) (\<lambda>v. case v of
       None \<Rightarrow> Inl (BusinessRule ''AI_IMPORT_DEFAULT_PASSWORD_NOT_SET'')
     | Some x \<Rightarrow>
         if py_strip x = [] then Inl (BusinessRule ''AI_IMPORT_DEFAULT_PASSWORD_NOT_SET'')
         else if ie_prod p \<and> x = ''Hohu123456'' then Inl (BusinessRule ''AI_IMPORT_DEFAULT_PASSWORD_INVALID'')
         else Inr x)"

definition process_create_row ::
    "import_env \<Rightarrow> user_store \<Rightarrow> import_record \<Rightarrow> string \<Rightarrow> int \<Rightarrow> resolution_row \<Rightarrow> bool \<Rightarrow> int set \<Rightarrow> int \<Rightarrow>
     user_store res" where
  "process_create_row p s r password actor_id x has_role_column ignored t =
     (case (rs_dept_id x, rs_role_ids x, rs_prospective x) of
        (Some d, Some roles, Some uid) \<Rightarrow>
          bindE (insert_user s t uid (im_user_name r) (im_status r) (or_none (im_nickname r))
             \<lparr>ui_employee_no = or_none (im_employee_no r), ui_email = or_none (im_email r),
              ui_phone = or_none (im_phone r), ui_gender = Some (im_gender r), ui_password = password,
              ui_auth_version = 1\<rparr>) (\<lambda>s1.
          bindE (assign_imported_user_roles (ie_hash p) (ie_visible p) (import_auth s1) (import_auth s1) actor_id uid
             (if has_role_column then Some (map IdInt roles) else None) [d] has_role_column ignored t) (\<lambda>(_, a).
          let s2 = put_role_links s1 a in
          bindE (replace_imported_user_departments (ie_hash p) (ie_visible p) (us_dept s2) (us_dept s2)
             (ie_settings p) actor_id uid [(JInt d, JBool True)] True ignored t) (\<lambda>(_, d2).
          Inr (s2\<lparr>us_dept := d2\<rparr>))))
      | _ \<Rightarrow> Inl AssertionError)"

definition name_renamed :: "import_record \<Rightarrow> user \<Rightarrow> resolution_row \<Rightarrow> sync_mode \<Rightarrow> bool" where
  "name_renamed r u x mode \<longleftrightarrow> rs_by_employee_no x \<and> mode = FULL_SYNC \<and> user_name u \<noteq> im_user_name r"

definition allowed_value :: "string \<Rightarrow> 'a option \<Rightarrow> 'a option \<Rightarrow> 'a option" where
  "allowed_value field new old = (if field \<in> set OVERWRITE_ALLOWED \<and> new \<noteq> None then new else old)"

definition overwritten_info :: "import_record \<Rightarrow> user \<Rightarrow> bool \<Rightarrow> user_info \<Rightarrow> user_info" where
  "overwritten_info r u renamed i = i
     \<lparr>ui_email := allowed_value ''user_email'' (im_email r) (ui_email i),
      ui_phone := allowed_value ''user_phone'' (im_phone r) (ui_phone i),
      ui_gender := allowed_value ''user_gender'' (Some (im_gender r)) (ui_gender i),
      ui_auth_version := (if ''status'' \<in> set OVERWRITE_ALLOWED \<and> user_status u \<noteq> im_status r \<or> renamed
                          then ui_auth_version i + 1 else ui_auth_version i),
      ui_employee_no := allowed_value ''employee_no'' (or_none (im_employee_no r)) (ui_employee_no i)\<rparr>"

definition process_overwrite_row ::
    "user_store \<Rightarrow> import_record \<Rightarrow> user \<Rightarrow> resolution_row \<Rightarrow> sync_mode \<Rightarrow> int \<Rightarrow> user_store res" where
  "process_overwrite_row s r u x mode t =
     (case rs_dept_id x of None \<Rightarrow> Inl AssertionError | Some d \<Rightarrow>
        let renamed = name_renamed r u x mode in
        if renamed \<and> ADMIN_USERNAME \<in> {user_name u, im_user_name r} then Inl (BusinessRule [])
        else bindE (update_user s t (user_id u) (if renamed then Some (im_user_name r) else None)
            (if ''status'' \<in> set OVERWRITE_ALLOWED then im_status r else user_status u)
            (allowed_value ''nickname'' (im_nickname r) None)
            (overwritten_info r u renamed (us_info s (user_id u)))) (\<lambda>s1.
        let roles = (case rs_role_ids x of None \<Rightarrow> [] | Some ids \<Rightarrow> ids) in
        bindE (if or_empty (im_role_input r) \<noteq> [] \<and> roles \<noteq> []
               then bindE (apply_locked_import_roles (import_auth s1) (user_id u) (map IdInt roles) t) (\<lambda>(_, a).
                      Inr (put_role_links s1 a))
               else Inr s1) (\<lambda>s2.
        bindE (apply_locked_import_departments (us_dept s2) (user_id u) [(JInt d, JBool True)] t) (\<lambda>(_, d2).
        Inr (s2\<lparr>us_dept := d2\<rparr>)))))"

section \<open>Replay\<close>

record import_result =
  ir_batch_id :: string
  ir_status :: string
  ir_success :: nat
  ir_skipped :: nat
  ir_overwritten :: nat
  ir_failed :: nat
  ir_file :: "string option"
  ir_preview :: "failed_row list"
  ir_replay :: bool

definition handle_idempotent_replay :: "import_db \<Rightarrow> string \<Rightarrow> int \<Rightarrow> import_result res" where
  "handle_idempotent_replay s bid t =
     (case find (batch_key t bid) (idb_batches s) of
        None \<Rightarrow> Inl (Unprocessable ''AI_IMPORT_PREVIEW_INVALID'')
      | Some b \<Rightarrow>
          if ib_status b \<in> {ST_SUCCESS, ST_PARTIAL_SUCCESS}
          then Inr \<lparr>ir_batch_id = ib_batch_id b, ir_status = import_status_text (ib_status b),
                ir_success = ib_success_count b, ir_skipped = ib_skipped_count b,
                ir_overwritten = ib_overwritten_count b, ir_failed = ib_failed_count b,
                ir_file = ib_failed_rows_file b, ir_preview = [], ir_replay = True\<rparr>
          else if ib_status b = ST_RUNNING then Inl (Unprocessable ''AI_IMPORT_BATCH_RUNNING'')
          else Inl (Unprocessable ''AI_IMPORT_ALREADY_EXECUTED''))"

section \<open>The rows to process\<close>

datatype job = CreateJob import_record | OverwriteJob import_record user

fun job_record :: "job \<Rightarrow> import_record" where
  "job_record (CreateJob r) = r"
| "job_record (OverwriteJob r u) = r"

datatype row_fate = Fails failed_row | Overwrites import_record user | Skips

definition route_existing ::
    "user_store \<Rightarrow> resolution_row list \<Rightarrow> sync_mode \<Rightarrow> string \<Rightarrow> int \<Rightarrow> import_record \<Rightarrow> row_fate res" where
  "route_existing s rs mode on_conflict t r =
     (case by_row rs (im_row_num r) of None \<Rightarrow> Inl KeyError | Some x \<Rightarrow>
      (case rs_target x of None \<Rightarrow> Inl AssertionError | Some i \<Rightarrow>
      (case load_user (import_auth s) i t of None \<Rightarrow> Inl (BusinessRule ''AUTHORIZATION_SNAPSHOT_STALE'') | Some u \<Rightarrow>
       Inr (case classify_sync_action (rs_by_employee_no x) mode of
          ACT_REJECT_EMPLOYEE_NO_EXISTS \<Rightarrow>
            Fails (failed r ''employee_no'' (or_empty (im_employee_no r)) ''AI_IMPORT_EMPLOYEE_NO_EXISTS'')
        | ACT_UPDATE_SAFE \<Rightarrow> Overwrites r u
        | ACT_UPDATE_FULL \<Rightarrow> Overwrites r u
        | _ \<Rightarrow> if on_conflict = ''skip'' then Skips
               else if on_conflict = ''fail_fast''
               then Fails (failed r ''user_name'' (im_user_name r) ''AI_IMPORT_USERNAME_DUPLICATE'')
               else Overwrites r u))))"

record job_plan =
  jp_failed :: "failed_row list"
  jp_create :: "import_record list"
  jp_overwrite :: "(import_record \<times> user) list"
  jp_skipped :: nat

definition aborted_row :: "import_record \<Rightarrow> failed_row" where
  "aborted_row r = failed r ''_batch'' [] ''AI_IMPORT_BATCH_ABORTED''"

definition fate_failed :: "row_fate list \<Rightarrow> failed_row list" where
  "fate_failed fates = List.map_filter (\<lambda>f. case f of Fails x \<Rightarrow> Some x | _ \<Rightarrow> None) fates"

definition fate_overwrites :: "row_fate list \<Rightarrow> (import_record \<times> user) list" where
  "fate_overwrites fates = List.map_filter (\<lambda>f. case f of Overwrites r u \<Rightarrow> Some (r, u) | _ \<Rightarrow> None) fates"

definition plan_of_fates ::
    "import_record list \<Rightarrow> classified \<Rightarrow> row_fate list \<Rightarrow> string \<Rightarrow> job_plan" where
  "plan_of_fates records c fates on_conflict =
     (let failed_rows = cl_conflict c @ cl_out_of_scope c @ fate_failed fates;
          skipped = length (filter ((=) Skips) fates)
      in if on_conflict = ''fail_fast'' \<and> failed_rows \<noteq> []
         then \<lparr>jp_failed = failed_rows @ map aborted_row
                 (filter (\<lambda>r. im_row_num r \<notin> set (map fr_row_num failed_rows)) records),
               jp_create = [], jp_overwrite = [], jp_skipped = 0\<rparr>
         else if cl_out_of_scope c \<noteq> []
         then \<lparr>jp_failed = failed_rows, jp_create = [], jp_overwrite = [], jp_skipped = skipped\<rparr>
         else \<lparr>jp_failed = failed_rows, jp_create = cl_new c, jp_overwrite = fate_overwrites fates,
               jp_skipped = skipped\<rparr>)"

definition plan_jobs ::
    "user_store \<Rightarrow> import_record list \<Rightarrow> resolution_row list \<Rightarrow> classified \<Rightarrow> sync_mode \<Rightarrow> string \<Rightarrow> int \<Rightarrow>
     job_plan res" where
  "plan_jobs s records rs c mode on_conflict t =
     bindE (mapE (route_existing s rs mode on_conflict t) (cl_exists c)) (\<lambda>fates.
     Inr (plan_of_fates records c fates on_conflict))"

definition plan_rows :: "job_plan \<Rightarrow> job list" where
  "plan_rows j = map CreateJob (jp_create j) @ map (\<lambda>(r, u). OverwriteJob r u) (jp_overwrite j)"

section \<open>The chunk loop\<close>

record loop_state =
  lp_db :: import_db
  lp_success :: nat
  lp_overwritten :: nat
  lp_failed :: "failed_row list"

fun count_job :: "job \<Rightarrow> loop_state \<Rightarrow> loop_state" where
  "count_job (CreateJob r) l = l\<lparr>lp_success := lp_success l + 1\<rparr>"
| "count_job (OverwriteJob r u) l = l\<lparr>lp_overwritten := lp_overwritten l + 1\<rparr>"

definition process_job ::
    "import_env \<Rightarrow> string \<Rightarrow> int \<Rightarrow> resolution_row list \<Rightarrow> bool \<Rightarrow> sync_mode \<Rightarrow> int \<Rightarrow> user_store \<Rightarrow> job \<Rightarrow> user_store res" where
  "process_job p password actor_id rs has_role_column mode t s j =
     (case by_row rs (im_row_num (job_record j)) of None \<Rightarrow> Inl KeyError | Some x \<Rightarrow>
        (case j of
           CreateJob r \<Rightarrow> process_create_row p s r password actor_id x has_role_column (prospective_ids rs) t
         | OverwriteJob r u \<Rightarrow> process_overwrite_row s r u x mode t))"

text \<open>The rows of a chunk: the exception that leaves the chunk, with the row it is blamed on, the state
  at that point, and the rows that succeeded and failed in the chunk.\<close>

fun run_rows ::
    "import_env \<Rightarrow> (user_store \<Rightarrow> job \<Rightarrow> user_store res) \<Rightarrow> bool \<Rightarrow> loop_state \<Rightarrow> nat \<Rightarrow> nat \<Rightarrow> job list \<Rightarrow>
     (exn \<times> int option) option \<times> loop_state \<times> nat \<times> nat" where
  "run_rows p f strict l n m [] = (None, l, n, m)"
| "run_rows p f strict l n m (j # js) =
     (case f (idb_store (lp_db l)) j of
        Inr s \<Rightarrow> run_rows p f strict (count_job j (l\<lparr>lp_db := (lp_db l)\<lparr>idb_store := s\<rparr>\<rparr>)) (n + 1) m js
      | Inl e \<Rightarrow>
          if is_business_exn e \<or> is_integrity e
          then let code = extract_error_code p e in
               if strict \<or> code \<notin> set RECOVERABLE_ERROR_CODES
               then (Some (e, Some (im_row_num (job_record j))), l, n, m)
               else run_rows p f strict
                      (l\<lparr>lp_failed := lp_failed l @ [make_failed_row_from_exc (job_record j) code]\<rparr>) n (m + 1) js
          else (Some (e, None), l, n, m))"

text \<open>The exceptions the chunk loop lets through.\<close>

definition escapes :: "exn \<Rightarrow> bool" where
  "escapes e \<longleftrightarrow> is_authorization e \<or> is_not_found e \<or> e = CancelledError \<or>
     is_business_rule e \<and> error_code_of e = ''AUTHORIZATION_SNAPSHOT_STALE''"

function run_chunks ::
    "import_env \<Rightarrow> (user_store \<Rightarrow> job \<Rightarrow> user_store res) \<Rightarrow> bool \<Rightarrow> (import_db \<Rightarrow> nat \<Rightarrow> nat \<Rightarrow> nat \<Rightarrow> import_db) \<Rightarrow>
     nat \<Rightarrow> loop_state \<Rightarrow> job list \<Rightarrow> ((exn \<times> int option) option \<times> loop_state) res" where
  "run_chunks p f strict logf k l js =
     (if js = [] then Inr (None, l)
      else case run_rows p f strict l 0 0 (take USER_IMPORT_CHUNK_SIZE js) of
          (None, l', n, m) \<Rightarrow>
            run_chunks p f strict logf (k + 1) (l'\<lparr>lp_db := logf (lp_db l') k n m\<rparr>) (drop USER_IMPORT_CHUNK_SIZE js)
        | (Some (e, blamed), l', n, m) \<Rightarrow>
            if escapes e then Inl e
            else Inr (Some (e, blamed), l'\<lparr>lp_db := lp_db l,
                   lp_failed := lp_failed l' @ map (\<lambda>j. aborted_row (job_record j)) js\<rparr>))"
  by pat_completeness auto

termination
  by (relation "measure (\<lambda>(p, f, strict, logf, k, l, js). length js)") (auto simp: USER_IMPORT_CHUNK_SIZE_def)

declare run_chunks.simps [simp del]

text \<open>The loop under the strict savepoint of \<open>fail_fast\<close>.\<close>

record loop_result =
  lr_db :: import_db
  lr_success :: nat
  lr_overwritten :: nat
  lr_skipped :: nat
  lr_failed :: "failed_row list"
  lr_aborted :: "exn option"

definition strict_rows :: "import_env \<Rightarrow> exn \<Rightarrow> int option \<Rightarrow> job list \<Rightarrow> failed_row list" where
  "strict_rows p e blamed js = map (\<lambda>j. let r = job_record j in
     if Some (im_row_num r) = blamed then make_failed_row_from_exc r (extract_error_code p e) else aborted_row r) js"

definition loop_outcome ::
    "import_env \<Rightarrow> bool \<Rightarrow> import_db \<Rightarrow> job_plan \<Rightarrow> (exn \<times> int option) option \<Rightarrow> loop_state \<Rightarrow> loop_result" where
  "loop_outcome p strict s j stop l =
     (case stop of
         None \<Rightarrow> \<lparr>lr_db = lp_db l, lr_success = lp_success l, lr_overwritten = lp_overwritten l,
            lr_skipped = jp_skipped j, lr_failed = lp_failed l, lr_aborted = None\<rparr>
       | Some (e, blamed) \<Rightarrow>
          if strict
          then \<lparr>lr_db = s, lr_success = 0, lr_overwritten = 0, lr_skipped = 0,
                lr_failed = strict_rows p e blamed (plan_rows j), lr_aborted = Some e\<rparr>
          else \<lparr>lr_db = lp_db l, lr_success = lp_success l, lr_overwritten = lp_overwritten l,
                lr_skipped = jp_skipped j, lr_failed = lp_failed l, lr_aborted = Some e\<rparr>)"

definition run_jobs ::
    "import_env \<Rightarrow> (user_store \<Rightarrow> job \<Rightarrow> user_store res) \<Rightarrow> bool \<Rightarrow> (import_db \<Rightarrow> nat \<Rightarrow> nat \<Rightarrow> nat \<Rightarrow> import_db) \<Rightarrow>
     import_db \<Rightarrow> job_plan \<Rightarrow> loop_result res" where
  "run_jobs p f strict logf s j =
     bindE (run_chunks p f strict logf 0
       \<lparr>lp_db = s, lp_success = 0, lp_overwritten = 0, lp_failed = jp_failed j\<rparr> (plan_rows j)) (\<lambda>(stop, l).
     Inr (loop_outcome p strict s j stop l))"

section \<open>Execution\<close>

definition chunk_progress :: "import_env \<Rightarrow> user_import_batch \<Rightarrow> int \<Rightarrow> nat \<Rightarrow> int \<Rightarrow> import_db \<Rightarrow> nat \<Rightarrow> nat \<Rightarrow> nat \<Rightarrow> import_db" where
  "chunk_progress p b operator jobs now s k n m =
     write_batch_log p s b operator ''CHUNK_PROGRESS'' None None (JObj
       [(''chunk_index'', JInt (int k)),
        (''total_chunks'', JInt (int (max 1 ((jobs + USER_IMPORT_CHUNK_SIZE - 1) div USER_IMPORT_CHUNK_SIZE)))),
        (''success_in_chunk'', JInt (int n)), (''failed_in_chunk'', JInt (int m))]) now"

definition start_detail :: "import_env \<Rightarrow> int \<Rightarrow> int \<Rightarrow> string \<Rightarrow> string \<Rightarrow> string \<Rightarrow> sync_mode \<Rightarrow> json" where
  "start_detail p operator started reason filename on_conflict mode = JObj
     [(''operator_id'', JInt operator), (''started_at'', JStr (ie_iso p started)), (''reason'', JStr reason),
      (''filename'', JStr filename), (''on_conflict'', JStr on_conflict), (''sync_mode'', JStr (sync_mode_text mode))]"

definition finish_detail :: "import_env \<Rightarrow> loop_result \<Rightarrow> int \<Rightarrow> int \<Rightarrow> json" where
  "finish_detail p l started finished = JObj
     ([(''success_count'', JInt (int (lr_success l))), (''skipped_count'', JInt (int (lr_skipped l))),
       (''overwritten_count'', JInt (int (lr_overwritten l))),
       (''failed_count'', JInt (int (length (lr_failed l)))),
       (''finished_at'', JStr (ie_iso p finished)), (''duration_ms'', JInt ((finished - started) div 1000))] @
      (case lr_aborted l of None \<Rightarrow> [] | Some e \<Rightarrow> [(''aborted'', JStr (ie_message p e))]))"

text \<open>\<open>artifact\<close> is the tenant of the artifact execution, when there is one.\<close>

definition save_failed_rows :: "import_env \<Rightarrow> failed_row list \<Rightarrow> int option \<Rightarrow> int \<Rightarrow> string option res" where
  "save_failed_rows p rows artifact t =
     (if rows = [] then Inr None
      else if artifact \<noteq> None \<and> artifact \<noteq> Some t then Inl (Authorization [])
      else bindE (ie_save p rows) (\<lambda>k. Inr (Some k)))"

definition set_counts :: "loop_result \<Rightarrow> string option \<Rightarrow> int \<Rightarrow> user_import_batch \<Rightarrow> user_import_batch" where
  "set_counts l file finished b = b\<lparr>ib_success_count := lr_success l, ib_skipped_count := lr_skipped l,
     ib_overwritten_count := lr_overwritten l, ib_failed_count := length (lr_failed l),
     ib_failed_rows_file := file, ib_finished_at := Some finished\<rparr>"

definition finish_import ::
    "import_env \<Rightarrow> user_import_batch \<Rightarrow> loop_result \<Rightarrow> int \<Rightarrow> int option \<Rightarrow> int \<Rightarrow> int \<Rightarrow> int \<Rightarrow>
     (import_result \<times> import_db) res" where
  "finish_import p b l operator artifact started finished t =
     bindE (save_failed_rows p (lr_failed l) artifact t) (\<lambda>file.
     let st = determine_end_status (lr_success l + lr_overwritten l) (length (lr_failed l)) in
     bindE (transition_batch_status (lr_db l) (ib_batch_id b) ST_RUNNING st (set_counts l file finished) t) (\<lambda>(_, s).
     Inr (\<lparr>ir_batch_id = ib_batch_id b, ir_status = import_status_text st, ir_success = lr_success l,
           ir_skipped = lr_skipped l, ir_overwritten = lr_overwritten l, ir_failed = length (lr_failed l),
           ir_file = file, ir_preview = take FAILED_ROWS_PREVIEW_LIMIT (lr_failed l), ir_replay = False\<rparr>,
          write_batch_log p s b operator ''EXECUTE_FINISH'' (Some ST_RUNNING) (Some st)
            (finish_detail p l started finished) finished)))"

text \<open>The part under the batch lock: \<open>other\<close> is what other transactions commit while it waits.\<close>

definition execute_locked ::
    "import_env \<Rightarrow> import_db \<Rightarrow> (user_store \<Rightarrow> user_store) \<Rightarrow> import_record list \<Rightarrow> user_import_batch \<Rightarrow> int \<Rightarrow> string \<Rightarrow>
     sync_mode \<Rightarrow> bool \<Rightarrow> int \<Rightarrow> int \<Rightarrow> loop_result res" where
  "execute_locked p s other records b operator on_conflict mode has_role_column started t =
     (let s1 = s\<lparr>idb_store := other (idb_store s)\<rparr> in
      bindE (lock_import_authorization_targets p (idb_store s) (idb_store s1) records operator has_role_column t)
        (\<lambda>(actor, rs).
      bindE (classify_records p (idb_store s1) records (user_id actor) has_role_column (Some rs) t) (\<lambda>c.
      bindE (plan_jobs (idb_store s1) records rs c mode on_conflict t) (\<lambda>j.
      bindE (if jp_create j = [] then Inr []
             else bindE (get_default_password p t) (\<lambda>w. Inr (ie_password_hash p w))) (\<lambda>password.
      run_jobs p (process_job p password (user_id actor) rs has_role_column mode t) (on_conflict = ''fail_fast'')
        (chunk_progress p b operator (length (plan_rows j)) started) s1 j)))))"

definition verify_preview ::
    "import_env \<Rightarrow> import_db \<Rightarrow> import_record list \<Rightarrow> string \<Rightarrow> string option \<Rightarrow> string \<Rightarrow> string option \<Rightarrow> int \<Rightarrow> int \<Rightarrow>
     (string \<times> user_import_batch) res" where
  "verify_preview p s records token cached file reason operator t =
     bindE (validate_reason reason) (\<lambda>reason_clean.
     (case get_batch_by_preview_token s token cached t of
        None \<Rightarrow> Inl (Unprocessable ''AI_IMPORT_PREVIEW_INVALID'')
      | Some b \<Rightarrow>
          bindE (validate_reason_consistency (ib_reason b) reason_clean) (\<lambda>_.
          bindE (guardE (ib_file_sha256 b = ie_file_sha p file \<and> ib_records_hash b = compute_records_hash p records \<and>
                    ib_operator b = operator) (BusinessRule ''AI_IMPORT_PREVIEW_INVALID'')) (\<lambda>_.
          Inr (reason_clean, b)))))"

definition batch_create_users_from_records ::
    "import_env \<Rightarrow> import_db \<Rightarrow> (user_store \<Rightarrow> user_store) \<Rightarrow> import_record list \<Rightarrow> string \<Rightarrow> string option \<Rightarrow>
     string \<Rightarrow> string \<Rightarrow> string option \<Rightarrow> int \<Rightarrow> string \<Rightarrow> sync_mode \<Rightarrow> int option \<Rightarrow> bool option \<Rightarrow> int \<Rightarrow> int \<Rightarrow> int \<Rightarrow>
     (import_result \<times> import_db) res" where
  "batch_create_users_from_records p s other records token cached file filename reason operator on_conflict mode
     artifact role_column started finished t =
     bindE (verify_preview p s records token cached file reason operator t) (\<lambda>(reason_clean, b).
     bindE (transition_batch_status s (ib_batch_id b) ST_PREVIEW_DONE ST_RUNNING
              (\<lambda>x. x\<lparr>ib_started_at := Some started\<rparr>) t) (\<lambda>(claimed, s1).
     if \<not> claimed
     then bindE (handle_idempotent_replay s1 (ib_batch_id b) t) (\<lambda>r. Inr (r, s1))
     else bindE (execute_locked p
              (write_batch_log p s1 b operator ''EXECUTE_START'' (Some ST_PREVIEW_DONE) (Some ST_RUNNING)
                 (start_detail p operator started reason_clean filename on_conflict mode) started)
              other records b operator on_conflict mode (effective_role_column role_column records) started t) (\<lambda>l.
          finish_import p b l operator artifact started finished t)))"

end
