(* ===== verification/User_Import_Admin.thy ===== *)
theory User_Import_Admin
  imports User_Import_Run
begin

text \<open>
  Cancelling, listing and cleaning up import batches, and the deletion intentions of
  \<open>transfer_cleanup_service.py\<close>. As elsewhere an operation that locks rows reads \<open>s0\<close> before and \<open>s1\<close>
  once it holds them. Times are microseconds.
\<close>

section \<open>Deletion intentions\<close>

definition cleanup_files :: "user_import_batch \<Rightarrow> (string \<times> string) list" where
  "cleanup_files b = List.map_filter (\<lambda>(key, role). case key of
       None \<Rightarrow> None | Some k \<Rightarrow> if k = [] then None else Some (k, role))
     [(ib_file_storage_key b, ''preview_source''), (ib_failed_rows_file b, ''import_errors'')]"

definition owned_artifact :: "import_env \<Rightarrow> user_import_batch \<Rightarrow> string \<times> string \<Rightarrow> (string \<times> artifact_owner) option" where
  "owned_artifact p b x = (case x of (key, role) \<Rightarrow>
     if \<not> ie_owned p key then None
     else case ie_owner p key of None \<Rightarrow> None
       | Some ow \<Rightarrow> if ao_tenant ow = ib_tenant b \<and> ao_resource ow = ib_batch_id b \<and> ao_role ow = role
                  then Some (key, ow) else None)"

definition cleanup_resource :: "import_env \<Rightarrow> user_import_batch \<Rightarrow> cleanup_intent option" where
  "cleanup_resource p b =
     (let files = map (owned_artifact p b) (cleanup_files b) in
      if None \<in> set files then None
      else let owned = List.map_filter id files in Some
        \<lparr>ci_resource = \<lparr>tr_tenant = ib_tenant b, tr_operator = ib_operator b, tr_kind = ''user_import_batch'',
           tr_resource = ib_batch_id b,
           tr_operations = sorted_list_of_set (set (map (\<lambda>x. ao_operation (snd x)) owned))\<rparr>,
         ci_files = owned, ci_preview_token = Some (ib_preview_token b)\<rparr>)"

definition guard_cleanup_rows :: "import_env \<Rightarrow> user_import_batch list \<Rightarrow> string \<Rightarrow> cleanup_intent option" where
  "guard_cleanup_rows p rows i =
     (let intents = List.map_filter (cleanup_resource p) rows;
          allowed = ie_allowed p (map ci_resource intents)
      in map_of (rev (map (\<lambda>x. (tr_resource (ci_resource x), x))
           (filter (\<lambda>x. allowed (ci_resource x)) intents))) i)"

definition lock_cleanup_row :: "import_env \<Rightarrow> import_db \<Rightarrow> cleanup_intent \<Rightarrow> user_import_batch option" where
  "lock_cleanup_row p s x =
     (case find (batch_key (tr_tenant (ci_resource x)) (tr_resource (ci_resource x))) (idb_batches s) of
        None \<Rightarrow> None
      | Some b \<Rightarrow> if cleanup_resource p b = Some x then Some b else None)"

definition stage_cleanup :: "import_db \<Rightarrow> cleanup_intent \<Rightarrow> import_db" where
  "stage_cleanup s x = s\<lparr>idb_intents := idb_intents s @ [x]\<rparr>"

section \<open>Cancelling\<close>

definition CANCEL_REDIS_PREFIX :: string where "CANCEL_REDIS_PREFIX = ''user_import:cancel:''"

definition outcome_unknown :: "'a res" where
  "outcome_unknown = Inl (BusinessRule ''AI_EXECUTION_OUTCOME_UNKNOWN'')"

definition not_cancellable :: "'a res" where
  "not_cancellable = Inl (Unprocessable ''AI_IMPORT_BATCH_NOT_CANCELLABLE'')"

definition cancel_preview ::
    "import_env \<Rightarrow> import_db \<Rightarrow> user_import_batch \<Rightarrow> cleanup_intent \<Rightarrow> int \<Rightarrow> string \<Rightarrow> int \<Rightarrow> int \<Rightarrow>
     (user_import_batch \<times> import_db) res" where
  "cancel_preview p s b x operator reason now t =
     bindE (transition_batch_status s (ib_batch_id b) ST_PREVIEW_DONE ST_CANCELLED
              (\<lambda>y. y\<lparr>ib_finished_at := Some now\<rparr>) t) (\<lambda>(claimed, s1).
     if \<not> claimed then not_cancellable
     else Inr (b\<lparr>ib_status := ST_CANCELLED, ib_finished_at := Some now\<rparr>,
       stage_cleanup (write_batch_log p s1 b operator ''CANCELLED'' (Some ST_PREVIEW_DONE) (Some ST_CANCELLED)
         (JObj [(''reason'', JStr reason), (''cancelled_by'', JInt operator),
                (''scenario'', JStr ''preview_done_direct_cancel'')]) now) x))"

definition cancel_batch ::
    "import_env \<Rightarrow> import_db \<Rightarrow> import_db \<Rightarrow> string \<Rightarrow> user \<Rightarrow> string option \<Rightarrow> int \<Rightarrow> int \<Rightarrow>
     (user_import_batch \<times> import_db) res" where
  "cancel_batch p s0 s1 bid operator reason now t =
     bindE (validate_reason reason) (\<lambda>why.
     (case find (batch_key t bid) (idb_batches s0) of
        None \<Rightarrow> Inl (NotFound ''AI_IMPORT_BATCH_NOT_FOUND'')
      | Some b0 \<Rightarrow>
          bindE (guardE (ib_operator b0 = user_id operator \<or> is_super_admin operator) (Authorization [])) (\<lambda>_.
          (case guard_cleanup_rows p [b0] bid of
             None \<Rightarrow> outcome_unknown
           | Some x \<Rightarrow>
               bindE (if ib_status b0 = ST_RUNNING then Inr b0
                      else case lock_cleanup_row p s1 x of None \<Rightarrow> outcome_unknown | Some b \<Rightarrow> Inr b) (\<lambda>b.
               if ib_status b = ST_PREVIEW_DONE then cancel_preview p s1 b x (user_id operator) why now t
               else if ib_status b = ST_RUNNING
               then Inr (b, s1\<lparr>idb_flags := (CANCEL_REDIS_PREFIX @ bid) # idb_flags s1\<rparr>)
               else not_cancellable)))))"

section \<open>Listings\<close>

definition operator_name :: "import_db \<Rightarrow> int \<Rightarrow> int \<Rightarrow> string option" where
  "operator_name s t i = map_option user_name
     (find (\<lambda>u. user_tenant u = t \<and> user_id u = i) (rows_users (import_auth (idb_store s))))"

definition get_batch_detail :: "import_db \<Rightarrow> string \<Rightarrow> int \<Rightarrow> user_import_batch option \<times> string option" where
  "get_batch_detail s bid t = (case find (batch_key t bid) (idb_batches s) of
       None \<Rightarrow> (None, None) | Some b \<Rightarrow> (Some b, operator_name s t (ib_operator b)))"

text \<open>\<open>OFFSET (current - 1) * size LIMIT size\<close>\<close>

definition page_of :: "nat \<Rightarrow> nat \<Rightarrow> 'a list \<Rightarrow> 'a list" where
  "page_of current sz xs = take sz (drop ((current - 1) * sz) xs)"

definition list_batch_logs ::
    "import_db \<Rightarrow> string \<Rightarrow> string option \<Rightarrow> nat \<Rightarrow> nat \<Rightarrow> int \<Rightarrow> (batch_log \<times> string option) list \<times> nat" where
  "list_batch_logs s bid event current sz t =
     (let rows = filter (\<lambda>l. bl_tenant l = t \<and> bl_batch_id l = bid \<and>
            (or_empty event = [] \<or> Some (bl_event l) = event)) (idb_logs s)
      in (map (\<lambda>l. (l, operator_name s t (bl_operator l)))
            (page_of current sz (sort_key (\<lambda>l. (bl_created_at l, bl_log_id l)) rows)), length rows))"

record batch_query =
  bq_current :: nat
  bq_size :: nat
  bq_operator :: "int option"
  bq_status :: "string option"
  bq_start :: "int option"
  bq_end :: "int option"

definition ALL_STATUSES :: "import_status list" where
  "ALL_STATUSES = [ST_CREATED, ST_PREVIEW_DONE, ST_RUNNING] @ TERMINAL_STATUSES"

definition status_of_text :: "string \<Rightarrow> import_status option" where
  "status_of_text x = find (\<lambda>st. import_status_text st = x) ALL_STATUSES"

definition query_status :: "batch_query \<Rightarrow> import_status option res" where
  "query_status q =
     (if or_empty (bq_status q) = [] then Inr None
      else case status_of_text (or_empty (bq_status q)) of
          None \<Rightarrow> Inl (BusinessRule ''AI_IMPORT_INVALID_STATUS'') | Some st \<Rightarrow> Inr (Some st))"

definition list_batches ::
    "import_db \<Rightarrow> batch_query \<Rightarrow> int \<Rightarrow> ((user_import_batch \<times> string option) list \<times> nat) res" where
  "list_batches s q t =
     bindE (query_status q) (\<lambda>st.
     let rows = filter (\<lambda>b. ib_tenant b = t \<and>
            (case bq_operator q of None \<Rightarrow> True | Some i \<Rightarrow> ib_operator b = i) \<and>
            (case st of None \<Rightarrow> True | Some x \<Rightarrow> ib_status b = x) \<and>
            (case bq_start q of None \<Rightarrow> True | Some x \<Rightarrow> x \<le> ib_created_at b) \<and>
            (case bq_end q of None \<Rightarrow> True | Some x \<Rightarrow> ib_created_at b \<le> x)) (idb_batches s)
     in Inr (map (\<lambda>b. (b, operator_name s t (ib_operator b)))
               (page_of (bq_current q) (bq_size q)
                 (rev (sort_key (\<lambda>b. (ib_created_at b, ib_batch_id b)) rows))), length rows))"

section \<open>Clean-up\<close>

definition MINUTE :: int where "MINUTE = 60 * 1000000"

definition delete_batch :: "import_db \<Rightarrow> user_import_batch \<Rightarrow> import_db" where
  "delete_batch s b = s
     \<lparr>idb_batches := filter (\<lambda>x. ib_batch_id x \<noteq> ib_batch_id b) (idb_batches s),
      idb_logs := filter (\<lambda>l. \<not> (bl_tenant l = ib_tenant b \<and> bl_batch_id l = ib_batch_id b)) (idb_logs s)\<rparr>"

text \<open>One candidate of either clean-up: its row under the lock, when it is still due.\<close>

definition still_due ::
    "import_env \<Rightarrow> (string \<Rightarrow> cleanup_intent option) \<Rightarrow> int \<Rightarrow> (import_status \<Rightarrow> bool) \<Rightarrow> import_db \<Rightarrow> user_import_batch \<Rightarrow>
     (user_import_batch \<times> cleanup_intent) option" where
  "still_due p intents cutoff due s candidate =
     (case intents (ib_batch_id candidate) of None \<Rightarrow> None
      | Some x \<Rightarrow> (case lock_cleanup_row p s x of None \<Rightarrow> None
         | Some b \<Rightarrow> if ib_created_at b \<ge> cutoff \<or> \<not> due (ib_status b) then None else Some (b, x)))"

definition cleanup_batch_step ::
    "import_env \<Rightarrow> (string \<Rightarrow> cleanup_intent option) \<Rightarrow> int \<Rightarrow> user_import_batch \<Rightarrow> nat \<times> import_db \<Rightarrow> nat \<times> import_db" where
  "cleanup_batch_step p intents cutoff candidate x = (case x of (n, s) \<Rightarrow>
     (case still_due p intents cutoff (\<lambda>st. st \<in> set TERMINAL_STATUSES) s candidate of
        None \<Rightarrow> (n, s)
      | Some (b, intent) \<Rightarrow> (n + 1, stage_cleanup (delete_batch s b) intent)))"

definition cleanup_candidates :: "import_db \<Rightarrow> int \<Rightarrow> (import_status \<Rightarrow> bool) \<Rightarrow> user_import_batch list" where
  "cleanup_candidates s cutoff due =
     sort_key ib_batch_id (filter (\<lambda>b. ib_created_at b < cutoff \<and> due (ib_status b)) (idb_batches s))"

definition cleanup_expired_batches ::
    "import_env \<Rightarrow> import_db \<Rightarrow> import_db \<Rightarrow> string \<Rightarrow> string \<Rightarrow> int \<Rightarrow> (nat \<times> import_db) res" where
  "cleanup_expired_batches p s0 s1 reason correlation now =
     bindE (guardE (reason \<noteq> [] \<and> correlation \<noteq> []) (Authorization [])) (\<lambda>_.
     let cutoff = now - 90 * 24 * 60 * MINUTE;
         batches = cleanup_candidates s0 cutoff (\<lambda>st. st \<in> set TERMINAL_STATUSES)
     in Inr (fold (cleanup_batch_step p (guard_cleanup_rows p batches) cutoff) batches (0, s1)))"

definition cleanup_preview_step ::
    "import_env \<Rightarrow> (string \<Rightarrow> cleanup_intent option) \<Rightarrow> int \<Rightarrow> int \<Rightarrow> user_import_batch \<Rightarrow> nat \<times> import_db \<Rightarrow>
     (nat \<times> import_db) res" where
  "cleanup_preview_step p intents cutoff now candidate x = (case x of (n, s) \<Rightarrow>
     (case still_due p intents cutoff (\<lambda>st. st = ST_PREVIEW_DONE) s candidate of
        None \<Rightarrow> Inr (n, s)
      | Some (b, intent) \<Rightarrow>
          bindE (transition_batch_status s (ib_batch_id b) ST_PREVIEW_DONE ST_EXPIRED
                   (\<lambda>y. y\<lparr>ib_finished_at := Some now\<rparr>) (ib_tenant b)) (\<lambda>(claimed, s').
          if \<not> claimed then Inr (n, s')
          else Inr (n + 1, write_batch_log p (stage_cleanup s' intent) b (ib_operator b) ''EXPIRED''
            (Some ST_PREVIEW_DONE) (Some ST_EXPIRED)
            (JObj [(''reason'', JStr ''preview TTL 10min expired (cleanup cron)'')]) now))))"

fun cleanup_previews ::
    "import_env \<Rightarrow> (string \<Rightarrow> cleanup_intent option) \<Rightarrow> int \<Rightarrow> int \<Rightarrow> user_import_batch list \<Rightarrow> nat \<times> import_db \<Rightarrow>
     (nat \<times> import_db) res" where
  "cleanup_previews p intents cutoff now [] x = Inr x"
| "cleanup_previews p intents cutoff now (c # cs) x =
     bindE (cleanup_preview_step p intents cutoff now c x) (cleanup_previews p intents cutoff now cs)"

definition cleanup_expired_previews ::
    "import_env \<Rightarrow> import_db \<Rightarrow> import_db \<Rightarrow> string \<Rightarrow> string \<Rightarrow> int \<Rightarrow> (nat \<times> import_db) res" where
  "cleanup_expired_previews p s0 s1 reason correlation now =
     bindE (guardE (reason \<noteq> [] \<and> correlation \<noteq> []) (Authorization [])) (\<lambda>_.
     let cutoff = now - 10 * MINUTE;
         batches = cleanup_candidates s0 cutoff (\<lambda>st. st = ST_PREVIEW_DONE)
     in cleanup_previews p (guard_cleanup_rows p batches) cutoff now batches (0, s1))"

end
