(* ===== verification/User_Import_Facts.thy ===== *)
theory User_Import_Facts
  imports User_Import_Admin Dept_Assignment_Facts
begin

text \<open>
  Lemmas on imports. A contract of one row (\<open>import_rows\<close>) carries over the chunk loop with its
  savepoints; it is interpreted on \<open>process_job\<close> for what a row may change in the user table.
\<close>

section \<open>The batch table\<close>

lemma guard_transition [simp]: "validate_transition x y = Inr u \<longleftrightarrow> y \<in> set (LEGAL_TRANSITIONS x)"
  by (simp add: validate_transition_def)

lemma status_transition_Inr:
  assumes "transition_batch_status s i x y upd t = Inr (ok, s')"
  shows "y \<in> set (LEGAL_TRANSITIONS x)"
    "s' = s\<lparr>idb_batches := map (\<lambda>b. if batch_key t i b \<and> ib_status b = x then (upd b)\<lparr>ib_status := y\<rparr> else b)
       (idb_batches s)\<rparr>"
    "ok \<longleftrightarrow> length (filter (\<lambda>b. batch_key t i b \<and> ib_status b = x) (idb_batches s)) = 1"
  using assms by (auto simp: transition_batch_status_def Let_def bindE_eq_Inr)

lemma write_batch_log_simps [simp]:
  "idb_store (write_batch_log p s b op ev fr to d now) = idb_store s"
  "idb_batches (write_batch_log p s b op ev fr to d now) = idb_batches s"
  "idb_flags (write_batch_log p s b op ev fr to d now) = idb_flags s"
  "idb_intents (write_batch_log p s b op ev fr to d now) = idb_intents s"
  by (simp_all add: write_batch_log_def)

lemma stage_cleanup_simps [simp]:
  "idb_store (stage_cleanup s x) = idb_store s" "idb_batches (stage_cleanup s x) = idb_batches s"
  "idb_flags (stage_cleanup s x) = idb_flags s"
  by (simp_all add: stage_cleanup_def)

lemma delete_batch_simps [simp]:
  "idb_store (delete_batch s b) = idb_store s" "idb_flags (delete_batch s b) = idb_flags s"
  "idb_batches (delete_batch s b) = filter (\<lambda>x. ib_batch_id x \<noteq> ib_batch_id b) (idb_batches s)"
  by (simp_all add: delete_batch_def)

section \<open>The chunk loop\<close>

lemma count_job_simps [simp]:
  "lp_db (count_job j l) = lp_db l" "lp_failed (count_job j l) = lp_failed l"
  "lp_success (count_job j l) + lp_overwritten (count_job j l) = lp_success l + lp_overwritten l + 1"
  by (cases j; simp)+

locale import_rows =
  fixes f :: "user_store \<Rightarrow> job \<Rightarrow> user_store res"
    and keeps :: "user_store \<Rightarrow> user_store \<Rightarrow> bool"
  assumes row_keeps: "f s j = Inr s' \<Longrightarrow> keeps s s'"
    and keeps_refl: "keeps s s"
    and keeps_trans: "keeps a b \<Longrightarrow> keeps b c \<Longrightarrow> keeps a c"
begin

text \<open>Within a chunk only the store of the database changes.\<close>

lemma run_rows_keeps:
  assumes "run_rows p f strict l n m js = (stop, l', n', m')"
  shows "keeps (idb_store (lp_db l)) (idb_store (lp_db l')) \<and>
    lp_db l' = (lp_db l)\<lparr>idb_store := idb_store (lp_db l')\<rparr>"
  using assms
proof (induction js arbitrary: l n m)
  case Nil
  then show ?case using keeps_refl by simp
next
  case (Cons j js)
  show ?case
  proof (cases "f (idb_store (lp_db l)) j")
    case (Inl e)
    show ?thesis
    proof (cases "(is_business_exn e \<or> is_integrity e) \<and> \<not> strict \<and>
        extract_error_code p e \<in> set RECOVERABLE_ERROR_CODES")
      case True
      with Inl Cons.prems have "run_rows p f strict
          (l\<lparr>lp_failed := lp_failed l @ [make_failed_row_from_exc (job_record j) (extract_error_code p e)]\<rparr>)
          n (m + 1) js = (stop, l', n', m')" by (simp add: Let_def)
      from Cons.IH[OF this] show ?thesis by simp
    next
      case False
      with Inl Cons.prems have "l' = l" by (auto simp: Let_def split: if_splits)
      then show ?thesis using keeps_refl by simp
    qed
  next
    case (Inr s)
    with Cons.prems have "run_rows p f strict (count_job j (l\<lparr>lp_db := (lp_db l)\<lparr>idb_store := s\<rparr>\<rparr>)) (n + 1) m js
        = (stop, l', n', m')" by simp
    from Cons.IH[OF this] have *: "keeps s (idb_store (lp_db l'))"
      "lp_db l' = (lp_db l)\<lparr>idb_store := idb_store (lp_db l')\<rparr>" by simp_all
    then show ?thesis using row_keeps[OF Inr] keeps_trans by blast
  qed
qed

lemma run_chunks_keeps:
  assumes "run_chunks p f strict logf k l js = Inr (stop, l')"
    and log: "\<And>s k n m. idb_store (logf s k n m) = idb_store s \<and> idb_batches (logf s k n m) = idb_batches s \<and>
      idb_flags (logf s k n m) = idb_flags s \<and> idb_intents (logf s k n m) = idb_intents s"
  shows "keeps (idb_store (lp_db l)) (idb_store (lp_db l')) \<and> idb_batches (lp_db l') = idb_batches (lp_db l) \<and>
    idb_flags (lp_db l') = idb_flags (lp_db l) \<and> idb_intents (lp_db l') = idb_intents (lp_db l)"
  using assms(1)
proof (induction "length js" arbitrary: k l js rule: less_induct)
  case less
  show ?case
  proof (cases "js = []")
    case True
    then show ?thesis using less.prems keeps_refl by (simp add: run_chunks.simps)
  next
    case False
    obtain st l1 n m where r: "run_rows p f strict l 0 0 (take USER_IMPORT_CHUNK_SIZE js) = (st, l1, n, m)"
      using prod_cases4 by blast
    note rows = run_rows_keeps[OF r]
    then have eqs: "idb_batches (lp_db l1) = idb_batches (lp_db l)" "idb_flags (lp_db l1) = idb_flags (lp_db l)"
      "idb_intents (lp_db l1) = idb_intents (lp_db l)"
      by (metis import_db.select_convs(2,4,5) import_db.surjective import_db.update_convs(1))+
    show ?thesis
    proof (cases st)
      case None
      have "run_chunks p f strict logf (k + 1) (l1\<lparr>lp_db := logf (lp_db l1) k n m\<rparr>) (drop USER_IMPORT_CHUNK_SIZE js)
          = Inr (stop, l')"
        using less.prems False r None by (subst (asm) run_chunks.simps) simp
      from less.hyps[OF _ this] False show ?thesis
        using rows keeps_trans by (auto simp: USER_IMPORT_CHUNK_SIZE_def log eqs)
    next
      case (Some x)
      then have "l' = l1\<lparr>lp_db := lp_db l, lp_failed := lp_failed l1 @ map (\<lambda>j. aborted_row (job_record j)) js\<rparr>"
        using less.prems False r by (subst (asm) run_chunks.simps) (auto split: if_splits prod.splits)
      then show ?thesis using keeps_refl by simp
    qed
  qed
qed

lemma run_jobs_keeps:
  assumes "run_jobs p f strict logf s j = Inr l"
    and log: "\<And>s k n m. idb_store (logf s k n m) = idb_store s \<and> idb_batches (logf s k n m) = idb_batches s \<and>
      idb_flags (logf s k n m) = idb_flags s \<and> idb_intents (logf s k n m) = idb_intents s"
  shows "keeps (idb_store s) (idb_store (lr_db l)) \<and> idb_batches (lr_db l) = idb_batches s \<and>
    idb_flags (lr_db l) = idb_flags s \<and> idb_intents (lr_db l) = idb_intents s"
proof -
  obtain stop l1 where c: "run_chunks p f strict logf 0
       \<lparr>lp_db = s, lp_success = 0, lp_overwritten = 0, lp_failed = jp_failed j\<rparr> (plan_rows j) = Inr (stop, l1)"
    and l: "l = loop_outcome p strict s j stop l1"
    using assms(1) by (auto simp: run_jobs_def bindE_eq_Inr)
  from run_chunks_keeps[OF c log] show ?thesis
    unfolding l loop_outcome_def using keeps_refl by (auto split: option.splits)
qed

end

section \<open>Inversion of the operations\<close>

lemma chunk_progress_simps [simp]:
  "idb_store (chunk_progress p b op js now s k n m) = idb_store s"
  "idb_batches (chunk_progress p b op js now s k n m) = idb_batches s"
  "idb_flags (chunk_progress p b op js now s k n m) = idb_flags s"
  "idb_intents (chunk_progress p b op js now s k n m) = idb_intents s"
  by (simp_all add: chunk_progress_def)

interpretation any_row: import_rows f "\<lambda>_ _. True" for f
  by unfold_locales simp_all

lemma execute_locked_Inr:
  assumes "execute_locked p s other recs b op oc mode hrc started t = Inr l"
  obtains actor rs c j password where
    "lock_import_authorization_targets p (idb_store s) (other (idb_store s)) recs op hrc t = Inr (actor, rs)"
    "classify_records p (other (idb_store s)) recs (user_id actor) hrc (Some rs) t = Inr c"
    "plan_jobs (other (idb_store s)) recs rs c mode oc t = Inr j"
    "run_jobs p (process_job p password (user_id actor) rs hrc mode t) (oc = ''fail_fast'')
        (chunk_progress p b op (length (plan_rows j)) started) (s\<lparr>idb_store := other (idb_store s)\<rparr>) j = Inr l"
  using assms unfolding execute_locked_def Let_def
  by (fastforce simp: bindE_eq_Inr)

lemma execute_locked_frame:
  assumes "execute_locked p s other recs b op oc mode hrc started t = Inr l"
  shows "idb_batches (lr_db l) = idb_batches s \<and> idb_flags (lr_db l) = idb_flags s"
proof (rule execute_locked_Inr[OF assms], goal_cases)
  case (1 actor rs c j password)
  from any_row.run_jobs_keeps[OF 1(4)] show ?case by simp
qed

definition end_status :: "loop_result \<Rightarrow> import_status" where
  "end_status l = determine_end_status (lr_success l + lr_overwritten l) (length (lr_failed l))"

lemma finish_import_Inr:
  assumes "finish_import p b l op artifact started finished t = Inr (r, s')"
  obtains fl where "save_failed_rows p (lr_failed l) artifact t = Inr fl"
    "r = \<lparr>ir_batch_id = ib_batch_id b, ir_status = import_status_text (end_status l), ir_success = lr_success l,
           ir_skipped = lr_skipped l, ir_overwritten = lr_overwritten l, ir_failed = length (lr_failed l),
           ir_file = fl, ir_preview = take FAILED_ROWS_PREVIEW_LIMIT (lr_failed l), ir_replay = False\<rparr>"
    "idb_batches s' = map (\<lambda>x. if batch_key t (ib_batch_id b) x \<and> ib_status x = ST_RUNNING
        then (set_counts l fl finished x)\<lparr>ib_status := end_status l\<rparr> else x) (idb_batches (lr_db l))"
    "idb_store s' = idb_store (lr_db l)" "idb_flags s' = idb_flags (lr_db l)"
proof -
  from assms obtain fl ok s1 where f: "save_failed_rows p (lr_failed l) artifact t = Inr fl"
    and tr: "transition_batch_status (lr_db l) (ib_batch_id b) ST_RUNNING (end_status l) (set_counts l fl finished) t
        = Inr (ok, s1)"
    and r: "r = \<lparr>ir_batch_id = ib_batch_id b, ir_status = import_status_text (end_status l), ir_success = lr_success l,
           ir_skipped = lr_skipped l, ir_overwritten = lr_overwritten l, ir_failed = length (lr_failed l),
           ir_file = fl, ir_preview = take FAILED_ROWS_PREVIEW_LIMIT (lr_failed l), ir_replay = False\<rparr>"
    and s': "s' = write_batch_log p s1 b op ''EXECUTE_FINISH'' (Some ST_RUNNING) (Some (end_status l))
            (finish_detail p l started finished) finished"
    unfolding finish_import_def Let_def bindE_eq_Inr end_status_def[symmetric] by auto
  show ?thesis
    by (rule that[OF f r]) (simp_all add: s' status_transition_Inr(2)[OF tr])
qed

text \<open>A call either replays a batch that is no longer waiting, changing nothing, or runs it.\<close>

lemma map_id_if: "\<forall>x \<in> set xs. \<not> P x \<Longrightarrow> map (\<lambda>x. if P x then f x else x) xs = xs"
  by (induction xs) auto

lemma execute_cases:
  assumes "batch_create_users_from_records p s other recs token cached fl name reason op oc mode artifact rc
      started finished t = Inr (r, s')"
  obtains (replay) why b where "verify_preview p s recs token cached fl reason op t = Inr (why, b)"
      "handle_idempotent_replay s' (ib_batch_id b) t = Inr r"
      "idb_store s' = idb_store s" "idb_flags s' = idb_flags s"
      "idb_batches s' = map (\<lambda>x. if batch_key t (ib_batch_id b) x \<and> ib_status x = ST_PREVIEW_DONE
         then x\<lparr>ib_started_at := Some started, ib_status := ST_RUNNING\<rparr> else x) (idb_batches s)"
      "length (filter (\<lambda>x. batch_key t (ib_batch_id b) x \<and> ib_status x = ST_PREVIEW_DONE) (idb_batches s)) \<noteq> 1"
    | (run) why b s1 l where "verify_preview p s recs token cached fl reason op t = Inr (why, b)"
      "length (filter (\<lambda>x. batch_key t (ib_batch_id b) x \<and> ib_status x = ST_PREVIEW_DONE) (idb_batches s)) = 1"
      "idb_store s1 = idb_store s" "idb_flags s1 = idb_flags s"
      "idb_batches s1 = map (\<lambda>x. if batch_key t (ib_batch_id b) x \<and> ib_status x = ST_PREVIEW_DONE
         then x\<lparr>ib_started_at := Some started, ib_status := ST_RUNNING\<rparr> else x) (idb_batches s)"
      "execute_locked p s1 other recs b op oc mode (effective_role_column rc recs) started t = Inr l"
      "finish_import p b l op artifact started finished t = Inr (r, s')"
proof -
  from assms obtain why b where v: "verify_preview p s recs token cached fl reason op t = Inr (why, b)"
    unfolding batch_create_users_from_records_def bindE_eq_Inr by auto
  obtain ok s1 where tr: "transition_batch_status s (ib_batch_id b) ST_PREVIEW_DONE ST_RUNNING
              (\<lambda>x. x\<lparr>ib_started_at := Some started\<rparr>) t = Inr (ok, s1)"
    by (auto simp: transition_batch_status_def Let_def validate_transition_def)
  note s1 = status_transition_Inr(2,3)[OF tr]
  let ?s2 = "write_batch_log p s1 b op ''EXECUTE_START'' (Some ST_PREVIEW_DONE) (Some ST_RUNNING)
    (start_detail p op started why name oc mode) started"
  show ?thesis
  proof (cases ok)
    case True
    then obtain l where "execute_locked p ?s2 other recs b op oc mode (effective_role_column rc recs) started t = Inr l"
      "finish_import p b l op artifact started finished t = Inr (r, s')"
      using assms v tr unfolding batch_create_users_from_records_def by (auto simp: bindE_eq_Inr)
    then show ?thesis by (intro run[OF v, of ?s2 l]) (use s1 True in simp_all)
  next
    case False
    then have "handle_idempotent_replay s1 (ib_batch_id b) t = Inr r" "s' = s1"
      using assms v tr unfolding batch_create_users_from_records_def by (auto simp: bindE_eq_Inr)
    then show ?thesis by (intro replay[OF v]) (use s1 False in simp_all)
  qed
qed

end
