(* ===== verification/User_Import_Batches.thy ===== *)
theory User_Import_Batches
  imports User_Import_Facts
begin

text \<open>
  Import batches across operations: the states that previews, executions, cancellations and clean-ups
  can commit, what they leave of a finished batch, and what repeating an execution returns.
\<close>

section \<open>Committed states\<close>

text \<open>One operation: \<open>s0\<close> is a state it read before its locks, \<open>s\<close> the one it works on.\<close>

inductive import_step :: "import_env \<Rightarrow> import_db \<Rightarrow> import_db \<Rightarrow> import_db \<Rightarrow> bool" for p where
  preview: "dry_run_import_users p s recs op content name reason oc rc bid token cached now t = (r, s') \<Longrightarrow>
     import_step p s0 s s'"
| preview_file: "user_import_preview p s recs op content name reason oc rc bid token cached saved now t = (r, s') \<Longrightarrow>
     import_step p s0 s s'"
| execute: "batch_create_users_from_records p s other recs token cached content name reason op oc mode artifact rc
     started finished t = Inr (r, s') \<Longrightarrow> import_step p s0 s s'"
| cancel: "cancel_batch p s0 s bid operator reason now t = Inr (b, s') \<Longrightarrow> import_step p s0 s s'"
| clean_batches: "cleanup_expired_batches p s0 s why corr now = Inr (n, s') \<Longrightarrow> import_step p s0 s s'"
| clean_previews: "cleanup_expired_previews p s0 s why corr now = Inr (n, s') \<Longrightarrow> import_step p s0 s s'"

inductive import_reach :: "import_env \<Rightarrow> import_db \<Rightarrow> bool" for p where
  start: "idb_batches s = [] \<Longrightarrow> idb_flags s = [] \<Longrightarrow> import_reach p s"
| step: "import_reach p s0 \<Longrightarrow> import_reach p s \<Longrightarrow> import_step p s0 s s' \<Longrightarrow> import_reach p s'"

text \<open>Any operations after \<open>s\<close>.\<close>

inductive import_run :: "import_env \<Rightarrow> import_db \<Rightarrow> import_db \<Rightarrow> bool" for p s where
  run_refl: "import_run p s s"
| run_step: "import_run p s s1 \<Longrightarrow> import_reach p s0 \<Longrightarrow> import_step p s0 s1 s2 \<Longrightarrow> import_run p s s2"

text \<open>A committed batch is neither being created nor running, and its status agrees with its counts.\<close>

definition batch_settled :: "user_import_batch \<Rightarrow> bool" where
  "batch_settled b \<longleftrightarrow> (let written = ib_success_count b + ib_overwritten_count b in
     case ib_status b of
       ST_CREATED \<Rightarrow> False
     | ST_RUNNING \<Rightarrow> False
     | ST_SUCCESS \<Rightarrow> ib_failed_count b = 0
     | ST_PARTIAL_SUCCESS \<Rightarrow> 0 < ib_failed_count b \<and> 0 < written
     | ST_FAILED \<Rightarrow> written = 0
     | _ \<Rightarrow> written = 0 \<and> ib_skipped_count b = 0 \<and> ib_failed_count b = 0)"

definition batch_keys_unique :: "user_import_batch list \<Rightarrow> bool" where
  "batch_keys_unique bs \<longleftrightarrow> distinct (map ib_batch_id bs) \<and>
     distinct (map (\<lambda>b. (ib_tenant b, ib_preview_token b)) bs)"

definition import_ok :: "import_db \<Rightarrow> bool" where
  "import_ok s \<longleftrightarrow> batch_keys_unique (idb_batches s) \<and> (\<forall>b \<in> set (idb_batches s). batch_settled b) \<and>
     idb_flags s = []"

text \<open>The evolution of one row.\<close>

definition same_batch :: "user_import_batch \<Rightarrow> user_import_batch \<Rightarrow> bool" where
  "same_batch a b \<longleftrightarrow> ib_batch_id a = ib_batch_id b \<and> ib_tenant a = ib_tenant b \<and>
     ib_preview_token a = ib_preview_token b \<and> ib_operator a = ib_operator b \<and> ib_reason a = ib_reason b \<and>
     ib_file_sha256 a = ib_file_sha256 b \<and> ib_records_hash a = ib_records_hash b"

definition row_step :: "user_import_batch \<Rightarrow> user_import_batch \<Rightarrow> bool" where
  "row_step a b \<longleftrightarrow> same_batch a b \<and> (b = a \<or> ib_status a = ST_PREVIEW_DONE \<and> batch_settled b)"

text \<open>\<open>made\<close> describes the rows that are added.\<close>

definition rows_step ::
    "(user_import_batch \<Rightarrow> bool) \<Rightarrow> user_import_batch list \<Rightarrow> user_import_batch list \<Rightarrow> bool" where
  "rows_step made xs ys \<longleftrightarrow> (\<exists>keep new g. ys = map g (filter keep xs) @ new \<and> (\<forall>x \<in> set xs. row_step x (g x)) \<and>
     (\<forall>b \<in> set new. batch_settled b \<and> made b) \<and> batch_keys_unique (xs @ new))"

lemma row_step_refl [simp]: "row_step x x"
  by (simp add: row_step_def same_batch_def)

lemma rows_step_map:
  assumes "batch_keys_unique xs" "\<forall>x \<in> set xs. row_step x (g x)"
  shows "rows_step made xs (map g xs)"
  unfolding rows_step_def
  by (rule exI[of _ "\<lambda>_. True"], rule exI[of _ "[]"], rule exI[of _ g]) (use assms in simp)

lemma rows_step_refl: "batch_keys_unique xs \<Longrightarrow> rows_step made xs xs"
  using rows_step_map[of xs id] by simp

lemma rows_step_add:
  assumes "batch_settled b" "made b" "batch_keys_unique (xs @ [b])"
  shows "rows_step made xs (xs @ [b])"
  unfolding rows_step_def
  by (rule exI[of _ "\<lambda>_. True"], rule exI[of _ "[b]"], rule exI[of _ id]) (use assms in simp)

lemma same_batch_keys:
  assumes "batch_keys_unique (xs @ new)" "\<forall>x \<in> set xs. same_batch x (g x)"
  shows "batch_keys_unique (map g (filter keep xs) @ new)"
proof -
  have "map ib_batch_id (map g (filter keep xs)) = map ib_batch_id (filter keep xs)"
    "map (\<lambda>b. (ib_tenant b, ib_preview_token b)) (map g (filter keep xs)) =
     map (\<lambda>b. (ib_tenant b, ib_preview_token b)) (filter keep xs)"
    using assms(2) by (simp_all add: same_batch_def)
  with assms(1) show ?thesis
    unfolding batch_keys_unique_def by (auto simp: distinct_map_filter simp del: map_map)
qed

lemma rows_step_ok:
  assumes "rows_step made (idb_batches s) (idb_batches s')" "idb_flags s' = idb_flags s" "import_ok s"
  shows "import_ok s'"
proof -
  obtain keep new g where *: "idb_batches s' = map g (filter keep (idb_batches s)) @ new"
    "\<forall>x \<in> set (idb_batches s). row_step x (g x)" "\<forall>b \<in> set new. batch_settled b \<and> made b"
    "batch_keys_unique (idb_batches s @ new)"
    using assms(1) unfolding rows_step_def by blast
  have "batch_settled (g x)" if "x \<in> set (idb_batches s)" for x
    using that *(2) assms(3) unfolding row_step_def import_ok_def by metis
  moreover have "\<forall>x \<in> set (idb_batches s). same_batch x (g x)" using *(2) by (simp add: row_step_def)
  ultimately show ?thesis
    using same_batch_keys[OF *(4)] *(1,3) assms(2,3) unfolding import_ok_def by auto
qed

text \<open>The preview that made a batch: its call, which took the state \<open>s\<close> to \<open>s'\<close>, had the operator, the
  business reason, the file and the records the batch remembers.\<close>

definition previews :: "import_env \<Rightarrow> import_db \<Rightarrow> import_record list \<Rightarrow> string \<Rightarrow> string option \<Rightarrow>
    user_import_batch \<Rightarrow> import_db \<Rightarrow> bool" where
  "previews p s recs content reason b s' \<longleftrightarrow>
     (\<exists>name oc rc cached now x. dry_run_import_users p s recs (ib_operator b) content name reason oc rc
        (ib_batch_id b) (ib_preview_token b) cached now (ib_tenant b) = (x, s')) \<or>
     (\<exists>name oc rc cached saved now x. user_import_preview p s recs (ib_operator b) content name reason oc rc
        (ib_batch_id b) (ib_preview_token b) cached saved now (ib_tenant b) = (x, s'))"

definition made_by_preview :: "import_env \<Rightarrow> import_db \<Rightarrow> import_db \<Rightarrow> user_import_batch \<Rightarrow> bool" where
  "made_by_preview p s s' b \<longleftrightarrow> b \<in> set (idb_batches s') \<and> ib_status b \<in> {ST_PREVIEW_DONE, ST_FAILED} \<and>
     (\<exists>recs content reason. previews p s recs content reason b s' \<and> validate_reason reason = Inr (ib_reason b) \<and>
        ib_file_sha256 b = ie_file_sha p content \<and> ib_records_hash b = compute_records_hash p recs)"

section \<open>The operations' rows\<close>

lemma insert_batch_Inr:
  assumes "insert_batch s b = Inr s1"
  shows "s1 = s\<lparr>idb_batches := idb_batches s @ [b]\<rparr>"
    "\<forall>x \<in> set (idb_batches s). ib_batch_id x \<noteq> ib_batch_id b"
    "\<forall>x \<in> set (idb_batches s). \<not> (ib_tenant x = ib_tenant b \<and> ib_preview_token x = ib_preview_token b)"
  using assms by (auto simp: insert_batch_def split: if_splits)

lemma map_last_row:
  assumes "\<forall>x \<in> set xs. \<not> P x" "P b"
  shows "map (\<lambda>x. if P x then f x else x) (xs @ [b]) = xs @ [f b]"
  using assms by (induction xs) auto

abbreviation previewed :: "classified \<Rightarrow> user_import_batch \<Rightarrow> user_import_batch" where
  "previewed c n \<equiv> (set_summaries c n)\<lparr>ib_status := ST_PREVIEW_DONE\<rparr>"

lemma new_batch_simps [simp]:
  "ib_batch_id (new_batch p recs op content name why oc bid token now t) = bid"
  "ib_tenant (new_batch p recs op content name why oc bid token now t) = t"
  "ib_preview_token (new_batch p recs op content name why oc bid token now t) = token"
  "ib_status (new_batch p recs op content name why oc bid token now t) = ST_CREATED"
  by (simp_all add: new_batch_def)

lemma close_failed_row:
  assumes "\<forall>x \<in> set xs. ib_batch_id x \<noteq> ib_batch_id b" "ib_tenant b = t"
  shows "close_failed (s\<lparr>idb_batches := xs @ [b]\<rparr>) (ib_batch_id b) t =
    s\<lparr>idb_batches := xs @ [if ib_status b = ST_CREATED then b\<lparr>ib_status := ST_FAILED\<rparr> else b]\<rparr>"
  using assms map_last_row[of xs "\<lambda>x. batch_key t (ib_batch_id b) x \<and> ib_status x = ST_CREATED" b
      "\<lambda>x. x\<lparr>ib_status := ST_FAILED\<rparr>"] map_id_if[of xs "\<lambda>x. batch_key t (ib_batch_id b) x \<and> ib_status x = ST_CREATED"]
  by (auto simp: close_failed_def transition_batch_status_def Let_def validate_transition_def batch_key_def)

lemma preview_step_rows:
  assumes "preview_step p (s\<lparr>idb_batches := xs @ [b]\<rparr>) recs op (ib_batch_id b) hrc cached (ib_tenant b) = (r, s2)"
    and "\<forall>x \<in> set xs. ib_batch_id x \<noteq> ib_batch_id b"
  shows "(\<exists>e. r = Inl e) \<and> s2 = s\<lparr>idb_batches := xs @ [b]\<rparr> \<or>
    (\<exists>c. s2 = s\<lparr>idb_batches := xs @ [previewed c b]\<rparr> \<and> (r = Inr c \<or> (\<exists>e. r = Inl e)))"
proof (cases "classify_records p (idb_store s) recs op hrc None (ib_tenant b)")
  case (Inl e)
  then have "r = Inl e \<and> s2 = s\<lparr>idb_batches := xs @ [b]\<rparr>" using assms(1) by (simp add: preview_step_def)
  then show ?thesis by blast
next
  case (Inr c)
  then have "s2 = s\<lparr>idb_batches := xs @ [previewed c b]\<rparr> \<and> (r = Inr c \<or> (\<exists>e. r = Inl e))"
    using assms map_last_row[of xs "batch_key (ib_tenant b) (ib_batch_id b)" b]
    by (auto simp: preview_step_def Let_def validate_transition_def batch_key_def split: sum.splits)
  then show ?thesis by blast
qed

lemma preview_rows:
  assumes "dry_run_import_users p s recs op content name reason oc rc bid token cached now t = (r, s')"
  obtains (same) e where "s' = s" "r = Inl e"
  | (added) why c n b where "validate_reason reason = Inr why"
      "n = new_batch p recs op content name why oc bid token now t"
      "\<forall>x \<in> set (idb_batches s). ib_batch_id x \<noteq> bid"
      "\<forall>x \<in> set (idb_batches s). \<not> (ib_tenant x = t \<and> ib_preview_token x = token)"
      "s' = s\<lparr>idb_batches := idb_batches s @ [b]\<rparr>"
      "b = previewed c n \<or> b = n\<lparr>ib_status := ST_FAILED\<rparr> \<and> \<not> is_ok r"
proof (cases "validate_reason reason")
  case (Inl e)
  then have "s' = s" "r = Inl e" using assms by (simp_all add: dry_run_import_users_def)
  then show ?thesis by (rule same)
next
  case (Inr why)
  define n where "n = new_batch p recs op content name why oc bid token now t"
  show ?thesis
  proof (cases "insert_batch s n")
    case (Inl e)
    then have "s' = s" "r = Inl e"
      using assms \<open>validate_reason reason = Inr why\<close> by (simp_all add: dry_run_import_users_def n_def)
    then show ?thesis by (rule same)
  next
    case ins: (Inr s1)
    note i = insert_batch_Inr[OF ins]
    have n: "ib_batch_id n = bid" "ib_tenant n = t" "ib_preview_token n = token" "ib_status n = ST_CREATED"
      by (simp_all add: n_def)
    note ad = added[OF Inr n_def] i(2,3)[unfolded n]
    have closed: "close_failed (s\<lparr>idb_batches := idb_batches s @ [x]\<rparr>) bid t =
        s\<lparr>idb_batches := idb_batches s @ [if ib_status x = ST_CREATED then x\<lparr>ib_status := ST_FAILED\<rparr> else x]\<rparr>"
      if "ib_batch_id x = bid" "ib_tenant x = t" for x
      using close_failed_row[of "idb_batches s" x t s] that i(2) n(1) by simp
    show ?thesis
    proof (cases "recs = []")
      case True
      then have "s' = s\<lparr>idb_batches := idb_batches s @ [n\<lparr>ib_status := ST_FAILED\<rparr>]\<rparr>" "\<not> is_ok r"
        using assms Inr ins closed[of n] n i(1) by (auto simp: dry_run_import_users_def n_def)
      then show ?thesis using ad(1)[OF ad(2,3)] by blast
    next
      case False
      obtain r2 s2 where st: "preview_step p s1 recs op bid (effective_role_column rc recs) cached t = (r2, s2)"
        by fastforce
      have res: "(r, s') = (case r2 of Inl e \<Rightarrow> (Inl e, close_failed s2 bid t)
          | Inr c \<Rightarrow> (Inr (dry_run_result_of recs c), s2))"
        using assms Inr ins st False by (auto simp: dry_run_import_users_def n_def split: sum.splits)
      have "preview_step p (s\<lparr>idb_batches := idb_batches s @ [n]\<rparr>) recs op (ib_batch_id n)
          (effective_role_column rc recs) cached (ib_tenant n) = (r2, s2)"
        using st i(1) n by simp
      from preview_step_rows[OF this i(2)] consider
          (a) e where "r2 = Inl e" "s2 = s\<lparr>idb_batches := idb_batches s @ [n]\<rparr>"
        | (b) c e where "s2 = s\<lparr>idb_batches := idb_batches s @ [previewed c n]\<rparr>" "r2 = Inl e"
        | (c) c where "s2 = s\<lparr>idb_batches := idb_batches s @ [previewed c n]\<rparr>" "r2 = Inr c" by blast
      then show ?thesis
      proof cases
        case a
        then have "s' = s\<lparr>idb_batches := idb_batches s @ [n\<lparr>ib_status := ST_FAILED\<rparr>]\<rparr>" "\<not> is_ok r"
          using res closed[of n] n by auto
        then show ?thesis using ad(1)[OF ad(2,3)] by blast
      next
        case b
        then have "s' = s\<lparr>idb_batches := idb_batches s @ [previewed c n]\<rparr>"
          using res closed[of "previewed c n"] n by (auto simp: set_summaries_def)
        then show ?thesis using ad(1)[OF ad(2,3)] by blast
      next
        case c
        then show ?thesis using res ad(1)[OF ad(2,3)] by auto
      qed
    qed
  qed
qed

lemma row_step_trans: "row_step a b \<Longrightarrow> row_step b c \<Longrightarrow> row_step a c"
  unfolding row_step_def same_batch_def by auto

lemma settled_row: "import_ok s \<Longrightarrow> b \<in> set (idb_batches s) \<Longrightarrow> batch_settled b"
  by (simp add: import_ok_def)

lemma settled_not_running: "batch_settled b \<Longrightarrow> ib_status b \<noteq> ST_RUNNING \<and> ib_status b \<noteq> ST_CREATED"
  by (cases "ib_status b") (auto simp: batch_settled_def)

lemma new_batch_settled:
  "batch_settled (previewed c (new_batch p recs op content name why oc bid token now t))"
  "batch_settled ((new_batch p recs op content name why oc bid token now t)\<lparr>ib_status := ST_FAILED\<rparr>)"
  by (simp_all add: batch_settled_def new_batch_def set_summaries_def)

lemma executed_settled: "batch_settled ((set_counts l fl finished x)\<lparr>ib_status := end_status l\<rparr>)"
  by (simp add: batch_settled_def set_counts_def end_status_def determine_end_status_def Let_def)

lemma closed_settled:
  assumes "batch_settled x" "ib_status x = ST_PREVIEW_DONE" "st \<in> {ST_CANCELLED, ST_EXPIRED}"
  shows "batch_settled (x\<lparr>ib_finished_at := f, ib_status := st\<rparr>)"
  using assms by (auto simp: batch_settled_def Let_def)

lemma dry_run_step_ok:
  assumes "dry_run_import_users p s recs op content name reason oc rc bid token cached now t = (r, s')" "import_ok s"
  shows "rows_step (made_by_preview p s s') (idb_batches s) (idb_batches s') \<and> idb_flags s' = idb_flags s"
  using assms(1)
proof (cases rule: preview_rows)
  case (same e)
  then show ?thesis using rows_step_refl assms(2) by (simp add: import_ok_def)
next
  case (added why c n b)
  then have keys: "ib_batch_id b = bid" "ib_tenant b = t" "ib_preview_token b = token"
    by (auto simp: set_summaries_def)
  with added have "batch_keys_unique (idb_batches s @ [b])"
    using assms(2) by (auto simp: import_ok_def batch_keys_unique_def)
  moreover have "batch_settled b" using added(6) new_batch_settled unfolding added(2) by metis
  moreover have "made_by_preview p s s' b"
  proof -
    have f: "ib_operator b = op" "ib_reason b = why" "ib_file_sha256 b = ie_file_sha p content"
      "ib_records_hash b = compute_records_hash p recs" "ib_status b \<in> {ST_PREVIEW_DONE, ST_FAILED}"
      using added(2,6) by (auto simp: set_summaries_def new_batch_def)
    have "previews p s recs content reason b s'" unfolding previews_def f(1) keys using assms(1) by blast
    with f(2-5) added(1,5) show ?thesis unfolding made_by_preview_def by auto
  qed
  ultimately show ?thesis using rows_step_add added(5) by simp
qed

lemma attach_last:
  assumes "\<forall>x \<in> set xs. ib_batch_id x \<noteq> ib_batch_id b"
  shows "attach_preview_source (s\<lparr>idb_batches := xs @ [b]\<rparr>) (ib_batch_id b) (ib_tenant b) key =
    s\<lparr>idb_batches := xs @ [b\<lparr>ib_file_storage_key := Some key\<rparr>]\<rparr>"
  using assms map_id_if[of xs "batch_key (ib_tenant b) (ib_batch_id b)"]
  by (auto simp: attach_preview_source_def batch_key_def)

lemma preview_file_step_ok:
  assumes step: "user_import_preview p s recs op content name reason oc rc bid token cached saved now t = (r, s')"
    and ok: "import_ok s"
  shows "rows_step (made_by_preview p s s') (idb_batches s) (idb_batches s') \<and> idb_flags s' = idb_flags s"
proof -
  obtain x s1 where d: "dry_run_import_users p s recs op content name reason oc rc bid token cached now t = (x, s1)"
    by fastforce
  show ?thesis
  proof (cases "\<exists>y key. x = Inr y \<and> saved = Inr key")
    case False
    then have "s' = s1" using step d by (auto simp: user_import_preview_def split: sum.splits)
    then show ?thesis using dry_run_step_ok[OF d ok] by simp
  next
    case True
    then obtain y key where xy: "x = Inr y" "saved = Inr key" by blast
    then have s': "s' = attach_preview_source s1 bid t key" using step d by (simp add: user_import_preview_def)
    show ?thesis
      using d
    proof (cases rule: preview_rows)
      case (same e)
      then show ?thesis using xy by simp
    next
      case (added why c n b)
      then have b: "b = previewed c n" using xy by auto
      have keys: "ib_batch_id b = bid" "ib_tenant b = t" "ib_preview_token b = token"
        using added(2) by (simp_all add: b set_summaries_def)
      let ?b = "b\<lparr>ib_file_storage_key := Some key\<rparr>"
      have new: "s' = s\<lparr>idb_batches := idb_batches s @ [?b]\<rparr>"
        using attach_last[of "idb_batches s" b s key] added(3) unfolding s' added(5) keys by simp
      have "batch_keys_unique (idb_batches s @ [?b])"
        using added keys ok by (auto simp: import_ok_def batch_keys_unique_def)
      moreover have "batch_settled ?b"
        by (simp add: b added(2) batch_settled_def new_batch_def set_summaries_def)
      moreover have "made_by_preview p s s' ?b"
      proof -
        have f: "ib_operator ?b = op" "ib_reason ?b = why" "ib_file_sha256 ?b = ie_file_sha p content"
          "ib_records_hash ?b = compute_records_hash p recs" "ib_status ?b = ST_PREVIEW_DONE"
          "ib_batch_id ?b = bid" "ib_tenant ?b = t" "ib_preview_token ?b = token"
          using added(2) keys by (simp_all add: b set_summaries_def new_batch_def)
        have "previews p s recs content reason ?b s'" unfolding previews_def f using step by blast
        with f(2-5) added(1) new show ?thesis unfolding made_by_preview_def by auto
      qed
      ultimately show ?thesis using rows_step_add new by simp
    qed
  qed
qed

lemma one_hit:
  assumes "batch_keys_unique bs"
  shows "length (filter (\<lambda>x. batch_key t i x \<and> P x) bs) \<le> 1"
proof -
  let ?zs = "map ib_batch_id (filter (\<lambda>x. batch_key t i x \<and> P x) bs)"
  have "length ?zs = card (set ?zs)"
    using assms by (simp add: batch_keys_unique_def distinct_map_filter distinct_card del: set_map length_map)
  also have "\<dots> \<le> card {i}" by (rule card_mono) (auto simp: batch_key_def)
  finally show ?thesis by simp
qed

lemma no_hit:
  assumes "batch_keys_unique bs" "length (filter (\<lambda>x. batch_key t i x \<and> P x) bs) \<noteq> 1"
  shows "\<forall>x \<in> set bs. \<not> (batch_key t i x \<and> P x)"
proof -
  have "length (filter (\<lambda>x. batch_key t i x \<and> P x) bs) = 0" using assms(2) one_hit[OF assms(1), of t i P] by linarith
  then show ?thesis by (simp add: filter_empty_conv)
qed

lemma execute_step_ok:
  assumes "batch_create_users_from_records p s other recs token cached content name reason op oc mode artifact rc
      started finished t = Inr (r, s')" "import_ok s"
  shows "rows_step made (idb_batches s) (idb_batches s') \<and> idb_flags s' = idb_flags s"
  using assms(1)
proof (cases rule: execute_cases)
  case (replay why b)
  have u: "batch_keys_unique (idb_batches s)" using assms(2) by (simp add: import_ok_def)
  from map_id_if[OF no_hit[OF u replay(6)]] replay(4,5) show ?thesis using rows_step_refl[OF u] by simp
next
  case (run why b s1 l)
  from run(7) obtain fl where f: "idb_batches s' = map (\<lambda>x. if batch_key t (ib_batch_id b) x \<and> ib_status x = ST_RUNNING
        then (set_counts l fl finished x)\<lparr>ib_status := end_status l\<rparr> else x) (idb_batches (lr_db l))"
    "idb_flags s' = idb_flags (lr_db l)" by (rule finish_import_Inr)
  let ?h1 = "\<lambda>x. if batch_key t (ib_batch_id b) x \<and> ib_status x = ST_PREVIEW_DONE
         then x\<lparr>ib_started_at := Some started, ib_status := ST_RUNNING\<rparr> else x"
  let ?h2 = "\<lambda>x. if batch_key t (ib_batch_id b) x \<and> ib_status x = ST_RUNNING
        then (set_counts l fl finished x)\<lparr>ib_status := end_status l\<rparr> else x"
  have eq: "idb_batches s' = map (\<lambda>x. ?h2 (?h1 x)) (idb_batches s)"
    unfolding f(1) execute_locked_frame[OF run(6), THEN conjunct1] run(5) by simp
  have st: "row_step x (?h2 (?h1 x))" if "x \<in> set (idb_batches s)" for x
  proof (cases "batch_key t (ib_batch_id b) x \<and> ib_status x = ST_PREVIEW_DONE")
    case True
    let ?y = "x\<lparr>ib_started_at := Some started, ib_status := ST_RUNNING\<rparr>"
    let ?z = "(set_counts l fl finished ?y)\<lparr>ib_status := end_status l\<rparr>"
    have z: "?h2 (?h1 x) = ?z" using True by (simp add: batch_key_def)
    have "same_batch x ?z" by (simp add: same_batch_def set_counts_def)
    then have "row_step x ?z" unfolding row_step_def using executed_settled[of l fl finished ?y] True by blast
    then show ?thesis unfolding z .
  next
    case False
    then have "?h2 (?h1 x) = x" using settled_not_running[OF settled_row[OF assms(2) that]] by auto
    then show ?thesis by simp
  qed
  have "rows_step made (idb_batches s) (map (\<lambda>x. ?h2 (?h1 x)) (idb_batches s))"
    by (rule rows_step_map) (use assms(2) st in \<open>simp_all add: import_ok_def\<close>)
  moreover have "idb_flags s' = idb_flags s"
    unfolding f(2) execute_locked_frame[OF run(6), THEN conjunct2] by (rule run(4))
  ultimately show ?thesis unfolding eq by blast
qed

lemma closing_rows:
  assumes "transition_batch_status s i ST_PREVIEW_DONE st (\<lambda>x. x\<lparr>ib_finished_at := f\<rparr>) t = Inr (ok, s1)"
    "st \<in> {ST_CANCELLED, ST_EXPIRED}" "import_ok s"
  shows "rows_step made (idb_batches s) (idb_batches s1)" "idb_flags s1 = idb_flags s" "import_ok s1"
proof -
  note tr = status_transition_Inr(2)[OF assms(1)]
  let ?g = "\<lambda>x. if batch_key t i x \<and> ib_status x = ST_PREVIEW_DONE then x\<lparr>ib_finished_at := f, ib_status := st\<rparr> else x"
  have "row_step x (?g x)" if "x \<in> set (idb_batches s)" for x
    using closed_settled[OF settled_row[OF assms(3) that] _ assms(2)]
    by (simp add: row_step_def same_batch_def)
  with rows_step_map[of "idb_batches s" ?g] show r: "rows_step made (idb_batches s) (idb_batches s1)"
    using assms(3) by (simp add: tr import_ok_def)
  show "idb_flags s1 = idb_flags s" by (simp add: tr)
  with rows_step_ok[OF r] show "import_ok s1" using assms(3) by blast
qed

lemma lock_cleanup_row_in: "lock_cleanup_row p s x = Some b \<Longrightarrow> b \<in> set (idb_batches s)"
  by (auto simp: lock_cleanup_row_def dest!: find_SomeD split: option.splits if_splits)

lemma cancel_preview_Inr:
  assumes "cancel_preview p s b x op why now t = Inr (r, s')"
  shows "\<exists>ok s1. transition_batch_status s (ib_batch_id b) ST_PREVIEW_DONE ST_CANCELLED
      (\<lambda>y. y\<lparr>ib_finished_at := Some now\<rparr>) t = Inr (ok, s1) \<and> idb_batches s' = idb_batches s1 \<and>
      idb_flags s' = idb_flags s1"
proof -
  from assms obtain y where y: "transition_batch_status s (ib_batch_id b) ST_PREVIEW_DONE ST_CANCELLED
      (\<lambda>y. y\<lparr>ib_finished_at := Some now\<rparr>) t = Inr y" unfolding cancel_preview_def bindE_eq_Inr by blast
  obtain ok s1 where "y = (ok, s1)" by fastforce
  with y assms show ?thesis by (auto simp: cancel_preview_def not_cancellable_def split: if_splits)
qed

lemma cancel_step_ok:
  assumes "cancel_batch p s0 s bid operator reason now t = Inr (b, s')" "import_ok s0" "import_ok s"
  shows "rows_step made (idb_batches s) (idb_batches s') \<and> idb_flags s' = idb_flags s"
proof -
  let ?lock = "\<lambda>b0 x. if ib_status b0 = ST_RUNNING then Inr b0
        else case lock_cleanup_row p s x of None \<Rightarrow> outcome_unknown | Some y \<Rightarrow> Inr y"
  let ?act = "\<lambda>why x b1. if ib_status b1 = ST_PREVIEW_DONE then cancel_preview p s b1 x (user_id operator) why now t
        else if ib_status b1 = ST_RUNNING
        then Inr (b1, s\<lparr>idb_flags := (CANCEL_REDIS_PREFIX @ bid) # idb_flags s\<rparr>)
        else not_cancellable"
  let ?guarded = "\<lambda>why b0. case guard_cleanup_rows p [b0] bid of None \<Rightarrow> outcome_unknown
        | Some x \<Rightarrow> bindE (?lock b0 x) (?act why x)"
  let ?found = "\<lambda>why. case find (batch_key t bid) (idb_batches s0) of
        None \<Rightarrow> Inl (NotFound ''AI_IMPORT_BATCH_NOT_FOUND'')
      | Some b0 \<Rightarrow> bindE (guardE (ib_operator b0 = user_id operator \<or> is_super_admin operator) (Authorization []))
          (\<lambda>_. ?guarded why b0)"
  from assms(1) obtain why where 1: "?found why = Inr (b, s')" unfolding cancel_batch_def bindE_eq_Inr by blast
  then obtain b0 where *: "find (batch_key t bid) (idb_batches s0) = Some b0"
    by (cases "find (batch_key t bid) (idb_batches s0)") simp_all
  with 1 have 2: "?guarded why b0 = Inr (b, s')" by (auto simp: bindE_eq_Inr)
  then obtain x where "guard_cleanup_rows p [b0] bid = Some x"
    by (cases "guard_cleanup_rows p [b0] bid") (simp_all add: outcome_unknown_def)
  with 2 have "bindE (?lock b0 x) (?act why x) = Inr (b, s')" by simp
  then obtain b1 where **: "?lock b0 x = Inr b1" "?act why x b1 = Inr (b, s')" unfolding bindE_eq_Inr by blast
  have "ib_status b0 \<noteq> ST_RUNNING"
    using settled_not_running settled_row[OF assms(2)] find_SomeD[OF *] by blast
  then have "b1 \<in> set (idb_batches s)"
    using **(1) by (auto simp: outcome_unknown_def split: option.splits dest: lock_cleanup_row_in)
  then have "ib_status b1 \<noteq> ST_RUNNING" using settled_not_running settled_row[OF assms(3)] by blast
  with **(2) have "cancel_preview p s b1 x (user_id operator) why now t = Inr (b, s')"
    by (simp add: not_cancellable_def split: if_splits)
  then obtain ok s1 where tr: "transition_batch_status s (ib_batch_id b1) ST_PREVIEW_DONE ST_CANCELLED
      (\<lambda>y. y\<lparr>ib_finished_at := Some now\<rparr>) t = Inr (ok, s1)" and "idb_batches s' = idb_batches s1" "idb_flags s' = idb_flags s1"
    using cancel_preview_Inr by blast
  with closing_rows[OF tr _ assms(3)] show ?thesis by simp
qed

lemma still_due_in: "still_due p intents cutoff due s c = Some (b, x) \<Longrightarrow> b \<in> set (idb_batches s) \<and> due (ib_status b)"
  by (auto simp: still_due_def dest: lock_cleanup_row_in split: option.splits if_splits)

lemma cleanup_batch_fold:
  "\<exists>keep. idb_batches (snd (fold (cleanup_batch_step p intents cutoff) cs x)) = filter keep (idb_batches (snd x)) \<and>
     idb_flags (snd (fold (cleanup_batch_step p intents cutoff) cs x)) = idb_flags (snd x)"
proof (induction cs arbitrary: x)
  case Nil
  show ?case by (rule exI[of _ "\<lambda>_. True"]) simp
next
  case (Cons c cs)
  obtain n0 s0 where x: "x = (n0, s0)" by fastforce
  let ?y = "cleanup_batch_step p intents cutoff c x"
  have "\<exists>k. idb_batches (snd ?y) = filter k (idb_batches (snd x)) \<and> idb_flags (snd ?y) = idb_flags (snd x)"
  proof (cases "still_due p intents cutoff (\<lambda>st. st \<in> set TERMINAL_STATUSES) (snd x) c")
    case None
    then show ?thesis by (intro exI[of _ "\<lambda>_. True"]) (simp add: cleanup_batch_step_def x)
  next
    case (Some z)
    then show ?thesis
      by (intro exI[of _ "\<lambda>y. ib_batch_id y \<noteq> ib_batch_id (fst z)"])
        (simp add: cleanup_batch_step_def x split: prod.split)
  qed
  then obtain k where k: "idb_batches (snd ?y) = filter k (idb_batches (snd x))" "idb_flags (snd ?y) = idb_flags (snd x)"
    by blast
  from Cons.IH[of ?y] obtain keep where
    "idb_batches (snd (fold (cleanup_batch_step p intents cutoff) cs ?y)) = filter keep (idb_batches (snd ?y))"
    "idb_flags (snd (fold (cleanup_batch_step p intents cutoff) cs ?y)) = idb_flags (snd ?y)" by blast
  with k show ?case by (intro exI[of _ "\<lambda>b. k b \<and> keep b"]) (simp add: conj_commute)
qed

lemma clean_batches_ok:
  assumes "cleanup_expired_batches p s0 s why corr now = Inr (n, s')" "import_ok s"
  shows "rows_step made (idb_batches s) (idb_batches s') \<and> idb_flags s' = idb_flags s"
proof -
  from assms(1) obtain intents cutoff cs where "fold (cleanup_batch_step p intents cutoff) cs (0, s) = (n, s')"
    unfolding cleanup_expired_batches_def Let_def bindE_eq_Inr by auto
  with cleanup_batch_fold[of p intents cutoff cs "(0, s)"] obtain keep where
    "idb_batches s' = filter keep (idb_batches s)" "idb_flags s' = idb_flags s" by (metis snd_conv)
  moreover have "rows_step made (idb_batches s) (filter keep (idb_batches s))"
    unfolding rows_step_def
    by (rule exI[of _ keep], rule exI[of _ "[]"], rule exI[of _ id]) (use assms(2) in \<open>simp add: import_ok_def\<close>)
  ultimately show ?thesis by simp
qed

text \<open>The preview clean-up maps rows, one after the other.\<close>

definition rows_mapped :: "import_db \<Rightarrow> import_db \<Rightarrow> bool" where
  "rows_mapped s s' \<longleftrightarrow> (\<exists>g. idb_batches s' = map g (idb_batches s) \<and> (\<forall>x \<in> set (idb_batches s). row_step x (g x))) \<and>
     idb_flags s' = idb_flags s \<and> import_ok s'"

lemma rows_mapped_trans: "rows_mapped a b \<Longrightarrow> rows_mapped b c \<Longrightarrow> rows_mapped a c"
  unfolding rows_mapped_def
proof (elim conjE exE, goal_cases)
  case (1 g h)
  have "\<forall>x \<in> set (idb_batches a). row_step x ((h \<circ> g) x)"
  proof
    fix x assume "x \<in> set (idb_batches a)"
    with 1 have "row_step x (g x)" "row_step (g x) (h (g x))" by simp_all
    then show "row_step x ((h \<circ> g) x)" using row_step_trans by simp
  qed
  with 1 show ?case by (intro conjI exI[of _ "h \<circ> g"]) simp_all
qed

lemma cleanup_preview_mapped:
  assumes "cleanup_preview_step p intents cutoff now c (n, s) = Inr (n', s')" "import_ok s"
  shows "rows_mapped s s'"
proof (cases "still_due p intents cutoff (\<lambda>st. st = ST_PREVIEW_DONE) s c")
  case None
  then show ?thesis using assms by (auto simp: cleanup_preview_step_def rows_mapped_def intro!: exI[of _ id])
next
  case (Some z)
  obtain b x where z: "z = (b, x)" by fastforce
  let ?tr = "transition_batch_status s (ib_batch_id b) ST_PREVIEW_DONE ST_EXPIRED
      (\<lambda>y. y\<lparr>ib_finished_at := Some now\<rparr>) (ib_tenant b)"
  obtain ok s1 where tr: "?tr = Inr (ok, s1)"
    by (auto simp: transition_batch_status_def Let_def validate_transition_def)
  have eq: "idb_batches s' = idb_batches s1" "idb_flags s' = idb_flags s1"
    using assms(1) Some z tr by (auto simp: cleanup_preview_step_def split: if_splits)
  let ?g = "\<lambda>x. if batch_key (ib_tenant b) (ib_batch_id b) x \<and> ib_status x = ST_PREVIEW_DONE
    then x\<lparr>ib_finished_at := Some now, ib_status := ST_EXPIRED\<rparr> else x"
  have "row_step y (?g y)" if "y \<in> set (idb_batches s)" for y
    using closed_settled[OF settled_row[OF assms(2) that], of ST_EXPIRED] by (simp add: row_step_def same_batch_def)
  moreover have "idb_batches s1 = map ?g (idb_batches s)" by (simp add: status_transition_Inr(2)[OF tr])
  moreover have "import_ok s'" using closing_rows(3)[OF tr _ assms(2)] eq by (simp add: import_ok_def)
  moreover have "idb_flags s' = idb_flags s" using closing_rows(2)[OF tr _ assms(2)] eq by simp
  ultimately show ?thesis unfolding rows_mapped_def eq(1) by blast
qed

lemma cleanup_previews_mapped:
  assumes "cleanup_previews p intents cutoff now cs (n, s) = Inr (n', s')" "import_ok s"
  shows "rows_mapped s s'"
  using assms
proof (induction cs arbitrary: n s)
  case Nil
  then show ?case by (auto simp: rows_mapped_def intro!: exI[of _ id])
next
  case (Cons c cs)
  then obtain n1 s1 where a: "cleanup_preview_step p intents cutoff now c (n, s) = Inr (n1, s1)"
    "cleanup_previews p intents cutoff now cs (n1, s1) = Inr (n', s')" by (auto simp: bindE_eq_Inr)
  from cleanup_preview_mapped[OF a(1) Cons.prems(2)] have b: "rows_mapped s s1" .
  then have "import_ok s1" by (simp add: rows_mapped_def)
  with Cons.IH[OF a(2)] b show ?case using rows_mapped_trans by blast
qed

lemma clean_previews_ok:
  assumes "cleanup_expired_previews p s0 s why corr now = Inr (n, s')" "import_ok s"
  shows "rows_step made (idb_batches s) (idb_batches s') \<and> idb_flags s' = idb_flags s"
proof -
  from assms(1) obtain intents cutoff cs where "cleanup_previews p intents cutoff now cs (0, s) = Inr (n, s')"
    unfolding cleanup_expired_previews_def Let_def bindE_eq_Inr by auto
  from cleanup_previews_mapped[OF this assms(2)] show ?thesis
    using rows_step_map assms(2) unfolding rows_mapped_def import_ok_def by metis
qed

lemma import_step_rows:
  assumes "import_step p s0 s s'" "import_ok s0" "import_ok s"
  shows "rows_step (made_by_preview p s s') (idb_batches s) (idb_batches s') \<and> idb_flags s' = idb_flags s"
  using assms(1)
  by cases (erule dry_run_step_ok[OF _ assms(3)], erule preview_file_step_ok[OF _ assms(3)],
    erule execute_step_ok[OF _ assms(3)], erule cancel_step_ok[OF _ assms(2,3)],
    erule clean_batches_ok[OF _ assms(3)], erule clean_previews_ok[OF _ assms(3)])

lemma import_reach_ok: "import_reach p s \<Longrightarrow> import_ok s"
proof (induction rule: import_reach.induct)
  case (start s)
  then show ?case by (simp add: import_ok_def batch_keys_unique_def)
next
  case (step s0 s s')
  then show ?case using import_step_rows rows_step_ok by blast
qed

section \<open>Where a batch comes from\<close>

text \<open>A preview made the batch, and only operations came after it; a batch that was closed by its preview
  stays failed.\<close>

definition previewed_before :: "import_env \<Rightarrow> import_db \<Rightarrow> user_import_batch \<Rightarrow> bool" where
  "previewed_before p s b \<longleftrightarrow> (\<exists>s0 s1 b0. import_reach p s0 \<and> made_by_preview p s0 s1 b0 \<and> import_run p s1 s \<and>
     same_batch b0 b \<and> (ib_status b0 = ST_FAILED \<longrightarrow> ib_status b = ST_FAILED))"

lemma same_batch_trans: "same_batch a b \<Longrightarrow> same_batch b c \<Longrightarrow> same_batch a c"
  by (simp add: same_batch_def)

lemma import_reach_previewed:
  assumes "import_reach p s"
  shows "\<forall>b \<in> set (idb_batches s). previewed_before p s b"
  using assms
proof (induction rule: import_reach.induct)
  case (start s)
  then show ?case by simp
next
  case (step s0 s s')
  from import_step_rows[OF step(3) import_reach_ok[OF step(1)] import_reach_ok[OF step(2)]]
  obtain keep new g where *: "idb_batches s' = map g (filter keep (idb_batches s)) @ new"
    "\<forall>x \<in> set (idb_batches s). row_step x (g x)" "\<forall>b \<in> set new. made_by_preview p s s' b"
    unfolding rows_step_def by blast
  show ?case
  proof
    fix b assume "b \<in> set (idb_batches s')"
    then consider (old) x where "x \<in> set (idb_batches s)" "b = g x" | (new) "b \<in> set new" using *(1) by auto
    then show "previewed_before p s' b"
    proof cases
      case old
      with step.IH(2) obtain sa sb b0 where h: "import_reach p sa" "made_by_preview p sa sb b0" "import_run p sb s"
        "same_batch b0 x" "ib_status b0 = ST_FAILED \<longrightarrow> ib_status x = ST_FAILED"
        unfolding previewed_before_def by blast
      from old *(2) have r: "same_batch x b" "b = x \<or> ib_status x = ST_PREVIEW_DONE" by (auto simp: row_step_def)
      with h(5) have "ib_status b0 = ST_FAILED \<longrightarrow> ib_status b = ST_FAILED" by auto
      with h r(1) run_step[OF h(3) step(1,3)] same_batch_trans show ?thesis unfolding previewed_before_def by blast
    next
      case new
      have "same_batch b b" by (simp add: same_batch_def)
      with new *(3) step(2) run_refl show ?thesis unfolding previewed_before_def by blast
    qed
  qed
qed

section \<open>An execution and its batch\<close>

definition finished_row :: "loop_result \<Rightarrow> string option \<Rightarrow> int \<Rightarrow> int \<Rightarrow> user_import_batch \<Rightarrow> user_import_batch" where
  "finished_row l fl started finished b =
     (set_counts l fl finished (b\<lparr>ib_started_at := Some started, ib_status := ST_RUNNING\<rparr>))\<lparr>ib_status := end_status l\<rparr>"

lemma finished_row_simps [simp]:
  "ib_batch_id (finished_row l fl started finished b) = ib_batch_id b"
  "ib_tenant (finished_row l fl started finished b) = ib_tenant b"
  "ib_preview_token (finished_row l fl started finished b) = ib_preview_token b"
  "ib_reason (finished_row l fl started finished b) = ib_reason b"
  "ib_file_sha256 (finished_row l fl started finished b) = ib_file_sha256 b"
  "ib_records_hash (finished_row l fl started finished b) = ib_records_hash b"
  "ib_operator (finished_row l fl started finished b) = ib_operator b"
  "ib_status (finished_row l fl started finished b) = end_status l"
  by (simp_all add: finished_row_def set_counts_def)

lemma verified_batch:
  assumes "verify_preview p s recs token cached content reason op t = Inr (why, b)"
  shows "b \<in> set (idb_batches s)" "ib_tenant b = t" "get_batch_by_preview_token s token cached t = Some b"
    "ib_records_hash b = compute_records_hash p recs" "ib_file_sha256 b = ie_file_sha p content" "ib_operator b = op"
    "validate_reason reason = Inr why" "ib_reason b = why"
proof -
  show *: "get_batch_by_preview_token s token cached t = Some b"
    "ib_records_hash b = compute_records_hash p recs" "ib_file_sha256 b = ie_file_sha p content" "ib_operator b = op"
    "validate_reason reason = Inr why" "ib_reason b = why"
    using assms by (auto simp: verify_preview_def validate_reason_consistency_def bindE_eq_Inr split: option.splits)
  from *(1) show "b \<in> set (idb_batches s)" "ib_tenant b = t"
    by (auto simp: get_batch_by_preview_token_def Let_def batch_key_def dest: find_SomeD split: option.splits if_splits)
qed

lemma same_id: "batch_keys_unique bs \<Longrightarrow> x \<in> set bs \<Longrightarrow> y \<in> set bs \<Longrightarrow> ib_batch_id x = ib_batch_id y \<Longrightarrow> x = y"
  unfolding batch_keys_unique_def distinct_map by (meson inj_onD)

lemma replay_result: "handle_idempotent_replay s i t = Inr r \<Longrightarrow> ir_replay r"
  by (auto simp: handle_idempotent_replay_def split: option.splits if_splits)

lemma executed:
  assumes "batch_create_users_from_records p s other recs token cached content name reason op oc mode artifact rc
      started finished t = Inr (r, s')" "import_ok s" "\<not> ir_replay r"
  obtains why b s1 l fl where
    "verify_preview p s recs token cached content reason op t = Inr (why, b)" "ib_status b = ST_PREVIEW_DONE"
    "idb_store s1 = idb_store s"
    "execute_locked p s1 other recs b op oc mode (effective_role_column rc recs) started t = Inr l"
    "r = \<lparr>ir_batch_id = ib_batch_id b, ir_status = import_status_text (end_status l), ir_success = lr_success l,
           ir_skipped = lr_skipped l, ir_overwritten = lr_overwritten l, ir_failed = length (lr_failed l),
           ir_file = fl, ir_preview = take FAILED_ROWS_PREVIEW_LIMIT (lr_failed l), ir_replay = False\<rparr>"
    "idb_batches s' = map (\<lambda>x. if x = b then finished_row l fl started finished b else x) (idb_batches s)"
    "idb_store s' = idb_store (lr_db l)"
  using assms(1)
proof (cases rule: execute_cases)
  case (replay why b)
  then show ?thesis using replay_result assms(3) by blast
next
  case (run why b s1 l)
  note v = verified_batch[OF run(1)]
  have u: "batch_keys_unique (idb_batches s)" using assms(2) by (simp add: import_ok_def)
  have key: "batch_key t (ib_batch_id b) x \<longleftrightarrow> x = b" if "x \<in> set (idb_batches s)" for x
    using same_id[OF u that v(1)] v(2) by (auto simp: batch_key_def)
  from run(2) have "filter (\<lambda>x. batch_key t (ib_batch_id b) x \<and> ib_status x = ST_PREVIEW_DONE) (idb_batches s) \<noteq> []"
    by auto
  then obtain x where "x \<in> set (idb_batches s)" "batch_key t (ib_batch_id b) x" "ib_status x = ST_PREVIEW_DONE"
    by (auto simp: filter_empty_conv)
  with key have st: "ib_status b = ST_PREVIEW_DONE" by blast
  obtain fl where f: "r = \<lparr>ir_batch_id = ib_batch_id b, ir_status = import_status_text (end_status l), ir_success = lr_success l,
           ir_skipped = lr_skipped l, ir_overwritten = lr_overwritten l, ir_failed = length (lr_failed l),
           ir_file = fl, ir_preview = take FAILED_ROWS_PREVIEW_LIMIT (lr_failed l), ir_replay = False\<rparr>"
    "idb_batches s' = map (\<lambda>x. if batch_key t (ib_batch_id b) x \<and> ib_status x = ST_RUNNING
        then (set_counts l fl finished x)\<lparr>ib_status := end_status l\<rparr> else x) (idb_batches (lr_db l))"
    "idb_store s' = idb_store (lr_db l)" by (rule finish_import_Inr[OF run(7)])
  have "idb_batches s' = map (\<lambda>x. if x = b then finished_row l fl started finished b else x) (idb_batches s)"
    unfolding f(2) execute_locked_frame[OF run(6), THEN conjunct1] run(5) map_map
  proof (rule map_cong[OF refl], goal_cases)
    case (1 x)
    show ?case
    proof (cases "x = b")
      case True
      then show ?thesis using st v(2) by (simp add: finished_row_def batch_key_def)
    next
      case False
      then show ?thesis using key[OF 1] settled_not_running[OF settled_row[OF assms(2) 1]] by simp
    qed
  qed
  then show ?thesis using that[OF run(1) st run(3,6) f(1) _ f(3)] by blast
qed

lemma find_map_key: "(\<And>x. P (g x) = P x) \<Longrightarrow> find P (map g xs) = map_option g (find P xs)"
  by (induction xs) auto

end
