(* ===== verification/User_Import_Rows.thy ===== *)
theory User_Import_Rows
  imports User_Import_Facts "HOL-Library.Multiset"
begin

text \<open>
  The rows of a batch: classification and planning send every row to exactly one place, and the loop
  counts every row it is given.
\<close>

section \<open>Classification\<close>

lemma failed_simps [simp]:
  "fr_row_num (failed r field v code) = im_row_num r" "fr_error_code (failed r field v code) = code"
  "fr_row_num (aborted_row r) = im_row_num r" "fr_row_num (make_failed_row_from_exc r code) = im_row_num r"
  by (simp_all add: failed_def aborted_row_def make_failed_row_from_exc_def)

definition class_of_row :: "import_record \<Rightarrow> row_class \<Rightarrow> bool" where
  "class_of_row r c \<longleftrightarrow> (case c of RowConflict f \<Rightarrow> fr_row_num f = im_row_num r
     | RowOutOfScope f \<Rightarrow> fr_row_num f = im_row_num r \<and>
         fr_error_code f \<in> {''AI_IMPORT_DEPT_OUT_OF_SCOPE'', ''AI_IMPORT_ROLE_OUT_OF_SCOPE''}
     | _ \<Rightarrow> True)"

lemma check_row_roles_class: "check_row_roles p s a auth ign t r x d = Inr (Some c) \<Longrightarrow> class_of_row r c"
  by (auto simp: check_row_roles_def class_of_row_def split: option.splits sum.splits if_splits)

lemma check_row_depts_class: "check_row_depts p s a auth ign t r x d = Inr c \<Longrightarrow> class_of_row r c"
  by (auto simp: check_row_depts_def class_of_row_def Let_def split: option.splits sum.splits if_splits)

lemma classify_row_class:
  assumes "classify_row p s a auth rs t r = Inr c"
  shows "class_of_row r c"
proof -
  have "(\<exists>f. c = RowConflict f \<and> fr_row_num f = im_row_num r) \<or>
    c = RowOutOfScope (failed r ''dept_input'' (im_dept_input r) ''AI_IMPORT_DEPT_OUT_OF_SCOPE'') \<or>
    (\<exists>x d. check_row_roles p s a auth (prospective_ids rs) t r x d = Inr (Some c)) \<or>
    (\<exists>x d. check_row_depts p s a auth (prospective_ids rs) t r x d = Inr c)"
    using assms unfolding classify_row_def by (auto simp: bindE_eq_Inr split: option.splits if_splits)
  then show ?thesis
    using check_row_roles_class check_row_depts_class by (elim disjE exE conjE) (auto simp: class_of_row_def)
qed

definition row_nums :: "classified \<Rightarrow> int multiset" where
  "row_nums c = mset (map im_row_num (cl_new c)) + mset (map im_row_num (cl_exists c)) +
     mset (map fr_row_num (cl_conflict c)) + mset (map fr_row_num (cl_out_of_scope c))"

lemma collect_partition:
  "\<forall>x \<in> set xs. class_of_row (fst x) (snd x) \<Longrightarrow>
     row_nums (collect_classes xs) = mset (map (\<lambda>x. im_row_num (fst x)) xs)"
proof (induction xs)
  case Nil
  then show ?case by (simp add: row_nums_def collect_classes_def map_filter_simps)
next
  case (Cons x xs)
  then show ?case
    by (cases "snd x") (auto simp: row_nums_def collect_classes_def map_filter_simps class_of_row_def)
qed

lemma classify_partition:
  assumes "classify_records p s recs a hrc rs t = Inr c"
  shows "row_nums c = mset (map im_row_num recs)"
    and "\<forall>f \<in> set (cl_out_of_scope c).
      fr_error_code f \<in> {''AI_IMPORT_DEPT_OUT_OF_SCOPE'', ''AI_IMPORT_ROLE_OUT_OF_SCOPE''}"
proof -
  from assms obtain rs' auth classes where m: "mapE (classify_row p s a auth rs' t) recs = Inr classes"
    and c: "c = collect_classes (zip recs classes)"
    unfolding classify_records_def bindE_eq_Inr by blast
  have len: "length recs = length classes" using m by (simp add: mapE_eq_Inr)
  have cls: "\<forall>x \<in> set (zip recs classes). class_of_row (fst x) (snd x)"
    using m classify_row_class by (auto simp: mapE_eq_Inr set_zip)
  have "map im_row_num (map fst (zip recs classes)) = map im_row_num recs" using len by simp
  with collect_partition[OF cls] show "row_nums c = mset (map im_row_num recs)"
    unfolding c by (simp add: comp_def flip: mset_map)
  show "\<forall>f \<in> set (cl_out_of_scope c).
      fr_error_code f \<in> {''AI_IMPORT_DEPT_OUT_OF_SCOPE'', ''AI_IMPORT_ROLE_OUT_OF_SCOPE''}"
    using cls unfolding c
    by (force simp: collect_classes_def map_filter_def class_of_row_def split: row_class.splits)
qed

section \<open>Planning\<close>

definition fate_of_row :: "import_record \<Rightarrow> row_fate \<Rightarrow> bool" where
  "fate_of_row r f \<longleftrightarrow> (case f of Fails x \<Rightarrow> fr_row_num x = im_row_num r | Overwrites r' u \<Rightarrow> r' = r | Skips \<Rightarrow> True)"

lemma route_fate: "route_existing s rs mode oc t r = Inr f \<Longrightarrow> fate_of_row r f"
  by (auto simp: route_existing_def fate_of_row_def split: option.splits sync_action.splits if_splits)

lemma route_fail_fast: "route_existing s rs mode ''fail_fast'' t r = Inr f \<Longrightarrow> f \<noteq> Skips"
  by (auto simp: route_existing_def split: option.splits sync_action.splits if_splits)

lemma fates_partition:
  assumes "list_all2 fate_of_row rs fates"
  shows "length (fate_failed fates) + length (fate_overwrites fates) + length (filter ((=) Skips) fates) = length rs \<and>
    mset (map fr_row_num (fate_failed fates)) \<subseteq># mset (map im_row_num rs)"
  using assms
proof (induction rule: list_all2_induct)
  case Nil
  then show ?case by (simp add: fate_failed_def fate_overwrites_def map_filter_simps)
next
  case (Cons r rs f fates)
  then show ?case
    by (cases f) (auto simp: fate_failed_def fate_overwrites_def map_filter_simps fate_of_row_def
        intro: subset_mset.order_trans[OF _ mset_subset_eq_add_right[of _ "{#im_row_num r#}"], simplified])
qed

lemma plan_jobs_Inr:
  assumes "plan_jobs s recs rs c mode oc t = Inr j"
  obtains fates where "list_all2 fate_of_row (cl_exists c) fates" "oc = ''fail_fast'' \<longrightarrow> Skips \<notin> set fates"
    "j = plan_of_fates recs c fates oc"
proof -
  from assms obtain fates where m: "mapE (route_existing s rs mode oc t) (cl_exists c) = Inr fates"
    and j: "j = plan_of_fates recs c fates oc"
    unfolding plan_jobs_def bindE_eq_Inr by blast
  have "list_all2 fate_of_row (cl_exists c) fates"
    using m route_fate by (auto simp: mapE_eq_Inr list_all2_conv_all_nth)
  moreover have "Skips \<notin> set fates" if "oc = ''fail_fast''"
  proof
    assume "Skips \<in> set fates"
    then obtain i where "i < length fates" "fates ! i = Skips" by (auto simp: in_set_conv_nth)
    then show False using m route_fail_fast unfolding that by (auto simp: mapE_eq_Inr)
  qed
  ultimately show ?thesis using that j by blast
qed

text \<open>The plan of a batch whose row numbers differ.\<close>

lemma distinct_submset:
  assumes "mset ys \<subseteq># mset xs" "distinct xs"
  shows "distinct ys"
proof -
  have "count (mset ys) a \<le> (if a \<in> set xs then 1 else 0)" for a
    using mset_subset_eq_count[OF assms(1), of a] assms(2) by (simp add: distinct_count_atmost_1)
  then have "count (mset ys) a \<le> 1" for a by (rule order_trans) simp
  moreover have "a \<in> set ys \<Longrightarrow> 1 \<le> count (mset ys) a" for a
    by (metis Suc_leI One_nat_def count_greater_zero_iff set_mset_mset)
  ultimately have "count (mset ys) a = (if a \<in> set ys then 1 else 0)" for a
    by (auto simp: le_antisym count_eq_zero_iff)
  then show ?thesis by (simp add: distinct_count_atmost_1)
qed

lemma failed_rest:
  assumes "mset F \<subseteq># mset (map im_row_num recs)" "distinct (map im_row_num recs)"
  shows "length F + length (filter (\<lambda>r. im_row_num r \<notin> set F) recs) = length recs"
proof -
  have F: "set F \<subseteq> set (map im_row_num recs)" using assms(1) by (metis set_mset_mono set_mset_mset)
  have "distinct F" using assms by (rule distinct_submset)
  have "length (filter (\<lambda>r. im_row_num r \<in> set F) recs) = length (filter (\<lambda>n. n \<in> set F) (map im_row_num recs))"
    by (simp add: filter_map comp_def)
  also have "\<dots> = card (set (filter (\<lambda>n. n \<in> set F) (map im_row_num recs)))"
    using assms(2) by (intro distinct_card[symmetric]) simp
  also have "set (filter (\<lambda>n. n \<in> set F) (map im_row_num recs)) = set F" using F by auto
  also have "card (set F) = length F" using \<open>distinct F\<close> by (rule distinct_card)
  finally show ?thesis using sum_length_filter_compl[of "\<lambda>r. im_row_num r \<in> set F" recs] by simp
qed

lemma plan_accounts:
  assumes "classify_records p s recs a hrc rs t = Inr c" "plan_jobs s' recs rs' c mode oc t = Inr j"
    and "distinct (map im_row_num recs)"
  shows "plan_rows j = [] \<and> length (jp_failed j) = length recs \<and> jp_skipped j = 0 \<and> oc = ''fail_fast'' \<or>
    plan_rows j = [] \<and> oc \<noteq> ''fail_fast'' \<and> cl_out_of_scope c \<noteq> [] \<and> set (cl_out_of_scope c) \<subseteq> set (jp_failed j) \<or>
    length (jp_failed j) + jp_skipped j + length (plan_rows j) = length recs \<and> cl_out_of_scope c = [] \<and>
      (oc = ''fail_fast'' \<longrightarrow> jp_failed j = [] \<and> jp_skipped j = 0)"
proof -
  obtain fates where f: "list_all2 fate_of_row (cl_exists c) fates" "oc = ''fail_fast'' \<longrightarrow> Skips \<notin> set fates"
    and j: "j = plan_of_fates recs c fates oc" using assms(2) by (rule plan_jobs_Inr)
  note part = classify_partition(1)[OF assms(1), unfolded row_nums_def]
  note parts = fates_partition[OF f(1)]
  let ?failed = "cl_conflict c @ cl_out_of_scope c @ fate_failed fates"
  have "mset (map fr_row_num (fate_failed fates)) \<subseteq># mset (map im_row_num (cl_new c)) + mset (map im_row_num (cl_exists c))"
    using parts by (metis mset_subset_eq_add_right subset_mset.order_trans)
  then have sub: "mset (map fr_row_num ?failed) \<subseteq># mset (map im_row_num recs)"
    unfolding part[symmetric] by (simp add: ac_simps)
  have len: "length (cl_new c) + length (cl_exists c) + length (cl_conflict c) + length (cl_out_of_scope c) = length recs"
    using arg_cong[OF part, of size] by simp
  show ?thesis
  proof (cases "oc = ''fail_fast'' \<and> ?failed \<noteq> []")
    case True
    then show ?thesis using failed_rest[OF sub assms(3)] by (simp add: j plan_of_fates_def plan_rows_def)
  next
    case False
    then show ?thesis
      using len parts f(2) by (auto simp: j plan_of_fates_def plan_rows_def Let_def filter_empty_conv)
  qed
qed

text \<open>One row out of scope stops all writes.\<close>

lemma plan_out_of_scope:
  assumes "plan_jobs s recs rs c mode oc t = Inr j" "cl_out_of_scope c \<noteq> []"
  shows "plan_rows j = [] \<and> set (cl_out_of_scope c) \<subseteq> set (jp_failed j)"
  using assms by (auto simp: plan_jobs_def bindE_eq_Inr plan_of_fates_def plan_rows_def Let_def)

text \<open>A plan without failed and skipped rows writes every record.\<close>

lemma collect_all:
  "cl_conflict (collect_classes xs) = [] \<Longrightarrow> cl_out_of_scope (collect_classes xs) = [] \<Longrightarrow>
     mset (cl_new (collect_classes xs)) + mset (cl_exists (collect_classes xs)) = mset (map fst xs)"
proof (induction xs)
  case Nil
  then show ?case by (simp add: collect_classes_def map_filter_simps)
next
  case (Cons x xs)
  then show ?case
    by (cases "snd x") (auto simp: collect_classes_def map_filter_simps)
qed

lemma classify_all:
  assumes "classify_records p s recs a hrc rs t = Inr c" "cl_conflict c = []" "cl_out_of_scope c = []"
  shows "mset (cl_new c) + mset (cl_exists c) = mset recs"
proof -
  from assms(1) obtain rs' auth classes where m: "mapE (classify_row p s a auth rs' t) recs = Inr classes"
    and c: "c = collect_classes (zip recs classes)"
    unfolding classify_records_def bindE_eq_Inr by blast
  have "length recs = length classes" using m by (simp add: mapE_eq_Inr)
  then show ?thesis using collect_all[of "zip recs classes"] assms(2,3) by (simp add: c)
qed

lemma all_overwritten:
  "list_all2 fate_of_row rs fates \<Longrightarrow> fate_failed fates = [] \<Longrightarrow> Skips \<notin> set fates \<Longrightarrow>
     map fst (fate_overwrites fates) = rs"
proof (induction rule: list_all2_induct)
  case Nil
  then show ?case by (simp add: fate_overwrites_def map_filter_simps)
next
  case (Cons r rs f fates)
  then show ?case
    by (cases f) (auto simp: fate_failed_def fate_overwrites_def map_filter_simps fate_of_row_def)
qed

lemma job_records: "map job_record (plan_rows j) = jp_create j @ map fst (jp_overwrite j)"
  by (simp add: plan_rows_def comp_def case_prod_unfold)

lemma plan_writes_all:
  assumes "classify_records p s recs a hrc rs t = Inr c" "plan_jobs s' recs rs' c mode ''fail_fast'' t = Inr j"
    and "jp_failed j = []"
  shows "mset (map job_record (plan_rows j)) = mset recs"
proof -
  obtain fates where f: "list_all2 fate_of_row (cl_exists c) fates" "Skips \<notin> set fates"
    and j: "j = plan_of_fates recs c fates ''fail_fast''" using plan_jobs_Inr[OF assms(2)] by blast
  have none: "cl_conflict c = []" "cl_out_of_scope c = []" "fate_failed fates = []"
    using assms(3) by (auto simp: j plan_of_fates_def Let_def split: if_splits)
  with j have "jp_create j = cl_new c" "jp_overwrite j = fate_overwrites fates" by (simp_all add: plan_of_fates_def)
  with all_overwritten[OF f(1) none(3) f(2)] classify_all[OF assms(1) none(1,2)] show ?thesis
    by (simp add: job_records)
qed

section \<open>The loop\<close>

definition rows_written :: "loop_state \<Rightarrow> nat" where
  "rows_written l = lp_success l + lp_overwritten l"

lemma count_job_rows_written [simp]: "rows_written (count_job j l) = rows_written l + 1"
  by (cases j) (simp_all add: rows_written_def)

lemma written_db [simp]: "rows_written (l\<lparr>lp_db := d\<rparr>) = rows_written l" "rows_written (l\<lparr>lp_failed := x\<rparr>) = rows_written l"
  by (simp_all add: rows_written_def)

lemma run_rows_counts:
  assumes "run_rows p f strict l n m js = (None, l', n', m')"
  shows "rows_written l' + length (lp_failed l') = rows_written l + length (lp_failed l) + length js \<and>
    (strict \<longrightarrow> lp_failed l' = lp_failed l)"
  using assms
proof (induction js arbitrary: l n m)
  case Nil
  then show ?case by simp
next
  case (Cons j js)
  then show ?case by (fastforce simp: Let_def split: sum.splits if_splits)
qed

lemma run_chunks_counts:
  assumes "run_chunks p f strict logf k l js = Inr (None, l')"
  shows "rows_written l' + length (lp_failed l') = rows_written l + length (lp_failed l) + length js \<and>
    (strict \<longrightarrow> lp_failed l' = lp_failed l)"
  using assms
proof (induction "length js" arbitrary: k l js rule: less_induct)
  case less
  show ?case
  proof (cases "js = []")
    case True
    then show ?thesis using less.prems by (simp add: run_chunks.simps)
  next
    case False
    obtain st l1 n m where r: "run_rows p f strict l 0 0 (take USER_IMPORT_CHUNK_SIZE js) = (st, l1, n, m)"
      using prod_cases4 by blast
    have st: "st = None"
      using less.prems False r by (subst (asm) run_chunks.simps) (auto split: option.splits if_splits prod.splits)
    have "run_chunks p f strict logf (k + 1) (l1\<lparr>lp_db := logf (lp_db l1) k n m\<rparr>) (drop USER_IMPORT_CHUNK_SIZE js)
        = Inr (None, l')"
      using less.prems False r st by (subst (asm) run_chunks.simps) simp
    from less.hyps[OF _ this] False run_rows_counts[OF r[unfolded st]] show ?thesis
      by (auto simp: USER_IMPORT_CHUNK_SIZE_def)
  qed
qed

lemma run_jobs_counts:
  assumes "run_jobs p f strict logf s j = Inr l"
  shows "lr_aborted l = None \<longrightarrow> lr_success l + lr_overwritten l + length (lr_failed l) =
      length (jp_failed j) + length (plan_rows j) \<and> lr_skipped l = jp_skipped j \<and>
      (strict \<longrightarrow> lr_failed l = jp_failed j)"
    and "strict \<and> lr_aborted l \<noteq> None \<longrightarrow> lr_success l = 0 \<and> lr_overwritten l = 0 \<and> lr_skipped l = 0 \<and>
      length (lr_failed l) = length (plan_rows j) \<and> lr_db l = s"
    and "plan_rows j = [] \<longrightarrow> lr_db l = s \<and> lr_aborted l = None"
proof -
  obtain stop l1 where c: "run_chunks p f strict logf 0
       \<lparr>lp_db = s, lp_success = 0, lp_overwritten = 0, lp_failed = jp_failed j\<rparr> (plan_rows j) = Inr (stop, l1)"
    and l: "l = loop_outcome p strict s j stop l1"
    using assms(1) by (auto simp: run_jobs_def bindE_eq_Inr)
  show "lr_aborted l = None \<longrightarrow> lr_success l + lr_overwritten l + length (lr_failed l) =
      length (jp_failed j) + length (plan_rows j) \<and> lr_skipped l = jp_skipped j \<and>
      (strict \<longrightarrow> lr_failed l = jp_failed j)"
  proof (cases stop)
    case None
    from run_chunks_counts[OF c[unfolded None]] show ?thesis by (simp add: l loop_outcome_def None rows_written_def)
  next
    case (Some x)
    then show ?thesis by (simp add: l loop_outcome_def split: prod.split)
  qed
  show "strict \<and> lr_aborted l \<noteq> None \<longrightarrow> lr_success l = 0 \<and> lr_overwritten l = 0 \<and> lr_skipped l = 0 \<and>
      length (lr_failed l) = length (plan_rows j) \<and> lr_db l = s"
    by (auto simp: l loop_outcome_def strict_rows_def Let_def split: option.splits)
  show "plan_rows j = [] \<longrightarrow> lr_db l = s \<and> lr_aborted l = None"
    using c by (auto simp: l loop_outcome_def run_chunks.simps)
qed

lemma run_jobs_none_failed:
  assumes "run_jobs p f strict logf s j = Inr l" "plan_rows j = []"
  shows "lr_failed l = jp_failed j \<and> lr_success l = 0 \<and> lr_overwritten l = 0 \<and> lr_skipped l = jp_skipped j"
  using assms by (auto simp: run_jobs_def bindE_eq_Inr run_chunks.simps loop_outcome_def)

section \<open>What a completed loop has written\<close>

text \<open>The store after rows that all succeed.\<close>

fun after_jobs :: "(user_store \<Rightarrow> job \<Rightarrow> user_store res) \<Rightarrow> user_store \<Rightarrow> job list \<Rightarrow> user_store res" where
  "after_jobs f s [] = Inr s"
| "after_jobs f s (j # js) = bindE (f s j) (\<lambda>s'. after_jobs f s' js)"

lemma after_jobs_append: "after_jobs f s (xs @ ys) = bindE (after_jobs f s xs) (\<lambda>s'. after_jobs f s' ys)"
  by (induction xs arbitrary: s) (auto simp: bindE_def split: sum.split)

lemma strict_rows_written:
  assumes "run_rows p f True l n m js = (None, l', n', m')"
  shows "after_jobs f (idb_store (lp_db l)) js = Inr (idb_store (lp_db l'))"
  using assms
proof (induction js arbitrary: l n m)
  case Nil
  then show ?case by simp
next
  case (Cons j js)
  then obtain s where s: "f (idb_store (lp_db l)) j = Inr s"
    "run_rows p f True (count_job j (l\<lparr>lp_db := (lp_db l)\<lparr>idb_store := s\<rparr>\<rparr>)) (n + 1) m js = (None, l', n', m')"
    by (auto simp: Let_def split: sum.splits if_splits)
  have "lp_db (count_job j x) = lp_db x" for x by (cases j) simp_all
  with Cons.IH[OF s(2)] s(1) show ?case by (simp add: bindE_def)
qed

lemma strict_chunks_written:
  assumes "run_chunks p f True logf k l js = Inr (None, l')"
    and log: "\<And>s k n m. idb_store (logf s k n m) = idb_store s"
  shows "after_jobs f (idb_store (lp_db l)) js = Inr (idb_store (lp_db l'))"
  using assms(1)
proof (induction "length js" arbitrary: k l js rule: less_induct)
  case less
  show ?case
  proof (cases "js = []")
    case True
    then show ?thesis using less.prems by (simp add: run_chunks.simps)
  next
    case False
    obtain st l1 n m where r: "run_rows p f True l 0 0 (take USER_IMPORT_CHUNK_SIZE js) = (st, l1, n, m)"
      using prod_cases4 by blast
    have st: "st = None"
      using less.prems False r by (subst (asm) run_chunks.simps) (auto split: option.splits if_splits prod.splits)
    have rest: "run_chunks p f True logf (k + 1) (l1\<lparr>lp_db := logf (lp_db l1) k n m\<rparr>) (drop USER_IMPORT_CHUNK_SIZE js)
        = Inr (None, l')"
      using less.prems False r st by (subst (asm) run_chunks.simps) simp
    have "length (drop USER_IMPORT_CHUNK_SIZE js) < length js" using False by (simp add: USER_IMPORT_CHUNK_SIZE_def)
    from less.hyps[OF this rest] strict_rows_written[OF r[unfolded st]]
    have "after_jobs f (idb_store (lp_db l)) (take USER_IMPORT_CHUNK_SIZE js @ drop USER_IMPORT_CHUNK_SIZE js)
        = Inr (idb_store (lp_db l'))"
      unfolding after_jobs_append by (simp add: log bindE_def)
    then show ?thesis by simp
  qed
qed

lemma strict_jobs_written:
  assumes "run_jobs p f True logf s j = Inr l" "lr_aborted l = None"
    and log: "\<And>s k n m. idb_store (logf s k n m) = idb_store s"
  shows "after_jobs f (idb_store s) (plan_rows j) = Inr (idb_store (lr_db l))"
proof -
  obtain stop l1 where c: "run_chunks p f True logf 0
       \<lparr>lp_db = s, lp_success = 0, lp_overwritten = 0, lp_failed = jp_failed j\<rparr> (plan_rows j) = Inr (stop, l1)"
    and l: "l = loop_outcome p True s j stop l1"
    using assms(1) by (auto simp: run_jobs_def bindE_eq_Inr)
  have "stop = None" using assms(2) by (auto simp: l loop_outcome_def split: option.splits)
  with strict_chunks_written[OF _ log] c l show ?thesis by (fastforce simp: loop_outcome_def)
qed

section \<open>The plan of an execution\<close>

text \<open>What the locked part of an execution fixes before its loop: the operator, the resolved rows, their
  classes, the rows to write and the password of new accounts.\<close>

definition planned_import ::
    "import_env \<Rightarrow> user_store \<Rightarrow> user_store \<Rightarrow> import_record list \<Rightarrow> int \<Rightarrow> string \<Rightarrow> sync_mode \<Rightarrow> bool \<Rightarrow> int \<Rightarrow>
     (user \<times> resolution_row list \<times> classified \<times> job_plan \<times> string) res" where
  "planned_import p s0 s1 records operator on_conflict mode has_role_column t =
     bindE (lock_import_authorization_targets p s0 s1 records operator has_role_column t) (\<lambda>(actor, rs).
     bindE (classify_records p s1 records (user_id actor) has_role_column (Some rs) t) (\<lambda>c.
     bindE (plan_jobs s1 records rs c mode on_conflict t) (\<lambda>j.
     bindE (if jp_create j = [] then Inr []
            else bindE (get_default_password p t) (\<lambda>w. Inr (ie_password_hash p w))) (\<lambda>password.
     Inr (actor, rs, c, j, password)))))"

lemma execute_locked_planned:
  assumes "execute_locked p s other recs b op oc mode hrc started t = Inr l"
  obtains actor rs c j password where
    "planned_import p (idb_store s) (other (idb_store s)) recs op oc mode hrc t = Inr (actor, rs, c, j, password)"
    "classify_records p (other (idb_store s)) recs (user_id actor) hrc (Some rs) t = Inr c"
    "plan_jobs (other (idb_store s)) recs rs c mode oc t = Inr j"
    "run_jobs p (process_job p password (user_id actor) rs hrc mode t) (oc = ''fail_fast'')
        (chunk_progress p b op (length (plan_rows j)) started) (s\<lparr>idb_store := other (idb_store s)\<rparr>) j = Inr l"
  using assms unfolding execute_locked_def planned_import_def Let_def
  by (fastforce simp: bindE_eq_Inr)

section \<open>An aborted chunk\<close>

text \<open>An error of a row that rolls back its chunk and does not leave the loop.\<close>

definition aborts_chunk :: "import_env \<Rightarrow> exn \<Rightarrow> bool" where
  "aborts_chunk p e \<longleftrightarrow> \<not> escapes e \<and>
     \<not> ((is_business_exn e \<or> is_integrity e) \<and> extract_error_code p e \<in> set RECOVERABLE_ERROR_CODES)"

lemma run_rows_abort:
  assumes "after_jobs f (idb_store (lp_db l)) A = Inr s1" "f s1 x = Inl e" "aborts_chunk p e"
  shows "\<exists>blamed l' n' m'. run_rows p f strict l n m (A @ x # B) = (Some (e, blamed), l', n', m') \<and>
    rows_written l' = rows_written l + length A \<and> lp_failed l' = lp_failed l"
  using assms(1)
proof (induction A arbitrary: l n m)
  case Nil
  then show ?case using assms(2,3) by (auto simp: aborts_chunk_def Let_def)
next
  case (Cons j A)
  then obtain s2 where s2: "f (idb_store (lp_db l)) j = Inr s2" "after_jobs f s2 A = Inr s1"
    by (auto simp: bindE_eq_Inr)
  from Cons.IH[of "count_job j (l\<lparr>lp_db := (lp_db l)\<lparr>idb_store := s2\<rparr>\<rparr>)" "n + 1" m] s2 show ?case by force
qed

lemma run_jobs_abort:
  assumes "plan_rows j = A @ x # B" "length (plan_rows j) \<le> USER_IMPORT_CHUNK_SIZE"
    and "after_jobs f (idb_store s) A = Inr s1" "f s1 x = Inl e" "aborts_chunk p e"
  shows "\<exists>l. run_jobs p f False logf s j = Inr l \<and> lr_db l = s \<and> lr_success l + lr_overwritten l = length A \<and>
    length (lr_failed l) = length (jp_failed j) + length (plan_rows j)"
proof -
  define l0 where "l0 = \<lparr>lp_db = s, lp_success = 0, lp_overwritten = 0, lp_failed = jp_failed j\<rparr>"
  obtain blamed l1 n m where r: "run_rows p f False l0 0 0 (plan_rows j) = (Some (e, blamed), l1, n, m)"
    "rows_written l1 = length A" "lp_failed l1 = jp_failed j"
    using run_rows_abort[of f l0 A s1 x e p False 0 0 B] assms by (auto simp: l0_def rows_written_def)
  have ne: "plan_rows j \<noteq> []" using assms(1) by simp
  have "run_chunks p f False logf 0 l0 (plan_rows j) = Inr (Some (e, blamed), l1\<lparr>lp_db := s,
      lp_failed := jp_failed j @ map (\<lambda>j. aborted_row (job_record j)) (plan_rows j)\<rparr>)"
    using r ne assms(2,5) by (subst run_chunks.simps) (simp add: aborts_chunk_def l0_def)
  then show ?thesis using r(2) by (simp add: run_jobs_def l0_def loop_outcome_def rows_written_def)
qed

end
