(* ===== verification/User_Import_Accounts.thy ===== *)
theory User_Import_Accounts
  imports User_Import_Rows
begin

text \<open>
  What a row of an import may change in the user table and in the association tables, and the
  interpretation of \<open>import_rows\<close> that carries it over a whole execution.
\<close>

abbreviation store_users :: "user_store \<Rightarrow> user list" where
  "store_users s \<equiv> rows_users (dd_auth (us_dept s))"

text \<open>The links of the tenants other than \<open>t\<close>.\<close>

definition foreign_links :: "int \<Rightarrow> user_store \<Rightarrow> (int \<times> int \<times> int) list \<times> (int \<times> int \<times> int) list \<times> (int \<times> int \<times> int) list" where
  "foreign_links t s = (let a = dd_auth (us_dept s) in
     (filter (\<lambda>x. fst x \<noteq> t) (links_roles a), filter (\<lambda>x. fst x \<noteq> t) (db_user_depts (scope a)),
      filter (\<lambda>x. fst x \<noteq> t) (primary_depts a)))"

text \<open>The account \<open>u\<close> still exists under its id with its password; another tenant's is unchanged, and
  unless renaming is on it has its name.\<close>

definition account_kept :: "int \<Rightarrow> bool \<Rightarrow> user_store \<Rightarrow> user_store \<Rightarrow> user \<Rightarrow> bool" where
  "account_kept t rename s s' u \<longleftrightarrow> (\<exists>u' \<in> set (store_users s'). user_id u' = user_id u \<and>
     user_tenant u' = user_tenant u \<and>
     ui_password (us_info s' (user_id u)) = ui_password (us_info s (user_id u)) \<and>
     (rename \<or> user_name u' = user_name u) \<and>
     (user_tenant u = t \<or> u' = u \<and> us_info s' (user_id u) = us_info s (user_id u)))"

definition accounts_kept :: "int \<Rightarrow> bool \<Rightarrow> user_store \<Rightarrow> user_store \<Rightarrow> bool" where
  "accounts_kept t rename s s' \<longleftrightarrow> (distinct (map user_id (store_users s)) \<longrightarrow>
     distinct (map user_id (store_users s')) \<and> (\<forall>u \<in> set (store_users s). account_kept t rename s s' u) \<and>
     foreign_links t s' = foreign_links t s)"

lemma accounts_kept_refl: "accounts_kept t ren s s"
  by (auto simp: accounts_kept_def account_kept_def)

lemma account_kept_trans:
  assumes "account_kept t ren a b u" "\<forall>v \<in> set (store_users b). account_kept t ren b c v"
  shows "account_kept t ren a c u"
proof -
  obtain v where v: "v \<in> set (store_users b)" "user_id v = user_id u" "user_tenant v = user_tenant u"
    "ui_password (us_info b (user_id u)) = ui_password (us_info a (user_id u))" "ren \<or> user_name v = user_name u"
    "user_tenant u = t \<or> v = u \<and> us_info b (user_id u) = us_info a (user_id u)"
    using assms(1) unfolding account_kept_def by blast
  with assms(2) obtain w where w: "w \<in> set (store_users c)" "user_id w = user_id v" "user_tenant w = user_tenant v"
    "ui_password (us_info c (user_id v)) = ui_password (us_info b (user_id v))" "ren \<or> user_name w = user_name v"
    "user_tenant v = t \<or> w = v \<and> us_info c (user_id v) = us_info b (user_id v)"
    unfolding account_kept_def by blast
  show ?thesis unfolding account_kept_def by (rule bexI[OF _ w(1)]) (use v w in auto)
qed

lemma accounts_kept_trans: "accounts_kept t ren a b \<Longrightarrow> accounts_kept t ren b c \<Longrightarrow> accounts_kept t ren a c"
  unfolding accounts_kept_def using account_kept_trans by metis

section \<open>The writes\<close>

lemma put_users_simps [simp]:
  "store_users (put_users s us ids names uid info) = us"
  "us_info (put_users s us ids names uid info) = (us_info s)(uid := info)"
  "foreign_links t (put_users s us ids names uid info) = foreign_links t s"
  by (simp_all add: put_users_def Let_def foreign_links_def)

lemma insert_user_kept:
  assumes "insert_user s t uid name st nick info = Inr s'"
  shows "accounts_kept t ren s s'"
proof -
  from assms have uid: "uid \<notin> user_id ` set (store_users s)"
    and s': "store_users s' = store_users s @ [\<lparr>user_id = uid, user_tenant = t, user_name = name, user_status = st,
             user_roles = [], user_depts = []\<rparr>]" "us_info s' = (us_info s)(uid := info)"
      "foreign_links t s' = foreign_links t s"
    by (auto simp: insert_user_def Let_def bindE_eq_Inr split: if_splits)
  have "account_kept t ren s s' u" if "u \<in> set (store_users s)" for u
    using that uid unfolding account_kept_def s' by (intro bexI[of _ u]) auto
  then show ?thesis using uid by (auto simp: accounts_kept_def s')
qed

lemma update_user_kept:
  assumes "update_user s t uid name st nick info = Inr s'" "name \<noteq> None \<longrightarrow> ren"
    "ui_password info = ui_password (us_info s uid)"
  shows "accounts_kept t ren s s'"
proof -
  let ?f = "\<lambda>u. if user_tenant u = t \<and> user_id u = uid
                    then u\<lparr>user_name := (case name of None \<Rightarrow> user_name u | Some n \<Rightarrow> n), user_status := st\<rparr> else u"
  from assms(1) obtain v where v: "v \<in> set (store_users s)" "user_tenant v = t" "user_id v = uid"
    and s': "store_users s' = map ?f (store_users s)" "us_info s' = (us_info s)(uid := info)"
      "foreign_links t s' = foreign_links t s"
    by (auto simp: update_user_def Let_def bindE_eq_Inr split: if_splits)
  have ids: "map user_id (store_users s') = map user_id (store_users s)" by (simp add: s')
  have "account_kept t ren s s' u" if "u \<in> set (store_users s)" "distinct (map user_id (store_users s))" for u
  proof -
    have "user_id u = uid \<Longrightarrow> u = v" using that v by (auto simp: distinct_map dest: inj_onD)
    then show ?thesis
      using that(1) v(2) assms(2,3) unfolding account_kept_def s'
      by (intro bexI[of _ "?f u"]) (auto split: option.splits)
  qed
  then show ?thesis unfolding accounts_kept_def ids using s'(3) by simp
qed

lemma same_users_kept:
  assumes "store_users s' = store_users s" "us_info s' = us_info s" "foreign_links t s' = foreign_links t s"
  shows "accounts_kept t ren s s'"
  using assms by (auto simp: accounts_kept_def account_kept_def)

lemma role_links_kept:
  assumes "replace_user_roles (import_auth s) u roles t = Inr a"
  shows "accounts_kept t ren s (put_role_links s a)"
proof (rule same_users_kept)
  show "foreign_links t (put_role_links s a) = foreign_links t s"
    unfolding replace_links_Inr(1)[OF assms]
    by (auto simp: foreign_links_def put_role_links_def import_auth_def Let_def filter_empty_conv intro!: filter_cong)
qed (simp_all add: put_role_links_def)

lemma dept_links_kept:
  assumes "write_assignments (us_dept s) uid assigns t = Inr d"
  shows "accounts_kept t ren s (s\<lparr>us_dept := d\<rparr>)"
proof (rule same_users_kept)
  show "foreign_links t (s\<lparr>us_dept := d\<rparr>) = foreign_links t s"
    unfolding write_assignments_Inr(1)[OF assms]
    by (auto simp: foreign_links_def set_links_def Let_def filter_empty_conv intro!: filter_cong)
qed (simp_all add: write_assignments_Inr(1)[OF assms])

section \<open>The rows\<close>

lemma create_row_kept:
  assumes "process_create_row p s r w actor x hrc ign t = Inr s'"
  shows "accounts_kept t ren s s'"
proof -
  from assms obtain d roles uid s1 info nick res a res2 d2 where
    1: "insert_user s t uid (im_user_name r) (im_status r) nick info = Inr s1" and
    2: "assign_imported_user_roles (ie_hash p) (ie_visible p) (import_auth s1) (import_auth s1) actor uid
         (if hrc then Some (map IdInt roles) else None) [d] hrc ign t = Inr (res, a)" and
    3: "replace_imported_user_departments (ie_hash p) (ie_visible p) (us_dept (put_role_links s1 a))
         (us_dept (put_role_links s1 a)) (ie_settings p) actor uid [(JInt d, JBool True)] True ign t = Inr (res2, d2)"
    and s': "s' = (put_role_links s1 a)\<lparr>us_dept := d2\<rparr>"
    by (auto simp: process_create_row_def Let_def bindE_eq_Inr split: option.splits)
  obtain requested where "replace_roles_core (ie_hash p) (ie_visible p) (import_auth s1) (import_auth s1) actor uid
      requested (import_permissions hrc) True (Some [d]) ign None t = Inr (res, a)"
    using 2 unfolding assign_imported_user_roles_def bindE_eq_Inr by blast
  then obtain target live where "replace_user_roles (import_auth s1) target live t = Inr a" by (rule replace_core_Inr)
  note roles = role_links_kept[OF this]
  obtain norm where "write_assignments (us_dept (put_role_links s1 a)) uid norm t = Inr d2"
    using 3 unfolding replace_imported_user_departments_def by (rule replace_departments_Inr)
  note depts = dept_links_kept[OF this]
  show ?thesis
    unfolding s' by (rule accounts_kept_trans[OF insert_user_kept[OF 1] accounts_kept_trans[OF roles depts]])
qed

lemma overwrite_row_kept:
  assumes "process_overwrite_row s r u x mode t = Inr s'"
  shows "accounts_kept t (mode = FULL_SYNC) s s'"
proof -
  let ?renamed = "name_renamed r u x mode"
  let ?name = "if ?renamed then Some (im_user_name r) else None"
  let ?st = "if ''status'' \<in> set OVERWRITE_ALLOWED then im_status r else user_status u"
  let ?nick = "allowed_value ''nickname'' (im_nickname r) None"
  let ?info = "overwritten_info r u ?renamed (us_info s (user_id u))"
  let ?ids = "case rs_role_ids x of None \<Rightarrow> [] | Some ids \<Rightarrow> ids"
  let ?roles = "\<lambda>s1. if or_empty (im_role_input r) \<noteq> [] \<and> ?ids \<noteq> []
               then bindE (apply_locked_import_roles (import_auth s1) (user_id u) (map IdInt ?ids) t) (\<lambda>(_, a).
                      Inr (put_role_links s1 a))
               else Inr s1"
  obtain d where "rs_dept_id x = Some d" using assms by (cases "rs_dept_id x") (simp_all add: process_overwrite_row_def)
  have no: "\<not> (?renamed \<and> ADMIN_USERNAME \<in> {user_name u, im_user_name r})"
  proof
    assume "?renamed \<and> ADMIN_USERNAME \<in> {user_name u, im_user_name r}"
    with assms \<open>rs_dept_id x = Some d\<close> show False
      unfolding process_overwrite_row_def Let_def by (simp only: option.case simp_thms if_True sum.distinct)
  qed
  have "bindE (update_user s t (user_id u) ?name ?st ?nick ?info) (\<lambda>s1. bindE (?roles s1) (\<lambda>s2.
      bindE (apply_locked_import_departments (us_dept s2) (user_id u) [(JInt d, JBool True)] t) (\<lambda>(_, d2).
        Inr (s2\<lparr>us_dept := d2\<rparr>)))) = Inr s'"
    using assms \<open>rs_dept_id x = Some d\<close> no
    unfolding process_overwrite_row_def Let_def by (simp only: option.case if_False)
  then obtain s1 s2 y where 1: "update_user s t (user_id u) ?name ?st ?nick ?info = Inr s1" and
    r: "?roles s1 = Inr s2" and
    y: "apply_locked_import_departments (us_dept s2) (user_id u) [(JInt d, JBool True)] t = Inr y"
      "(case y of (_, d2) \<Rightarrow> Inr (s2\<lparr>us_dept := d2\<rparr>)) = (Inr s' :: user_store res)"
    unfolding bindE_eq_Inr by (elim exE conjE) (rule that)
  obtain res d2 where "y = (res, d2)" by fastforce
  with y have 3: "apply_locked_import_departments (us_dept s2) (user_id u) [(JInt d, JBool True)] t = Inr (res, d2)"
    and s': "s' = s2\<lparr>us_dept := d2\<rparr>" by simp_all
  have 2: "s2 = s1 \<or> (\<exists>ids res a. apply_locked_import_roles (import_auth s1) (user_id u) ids t = Inr (res, a) \<and>
          s2 = put_role_links s1 a)"
  proof (cases "or_empty (im_role_input r) \<noteq> [] \<and> ?ids \<noteq> []")
    case True
    with r obtain z where "apply_locked_import_roles (import_auth s1) (user_id u) (map IdInt ?ids) t = Inr z"
      "(case z of (_, a) \<Rightarrow> Inr (put_role_links s1 a)) = (Inr s2 :: user_store res)" by (simp only: if_True bindE_eq_Inr simp_thms) blast
    then show ?thesis by (cases z) auto
  next
    case False
    then show ?thesis using r by (simp only: if_False sum.inject simp_thms)
  qed
  have a: "accounts_kept t (mode = FULL_SYNC) s s1"
    by (rule update_user_kept[OF 1]) (auto simp: name_renamed_def overwritten_info_def)
  have b: "accounts_kept t (mode = FULL_SYNC) s1 s2"
    using 2 by (auto simp: apply_locked_import_roles_def bindE_eq_Inr accounts_kept_refl intro: role_links_kept)
  obtain norm where "write_assignments (us_dept s2) (user_id u) norm t = Inr d2"
    using 3 unfolding apply_locked_import_departments_def by (auto simp: bindE_eq_Inr)
  note c = dept_links_kept[OF this]
  show ?thesis unfolding s' by (rule accounts_kept_trans[OF a accounts_kept_trans[OF b c]])
qed

interpretation import_job: import_rows "process_job p w actor rs hrc mode t" "accounts_kept t (mode = FULL_SYNC)"
  for p w actor rs hrc mode t
proof
  show "accounts_kept t (mode = FULL_SYNC) s s'" if "process_job p w actor rs hrc mode t s j = Inr s'" for s j s'
    using that create_row_kept overwrite_row_kept by (auto simp: process_job_def split: option.splits job.splits)
qed (rule accounts_kept_refl accounts_kept_trans; assumption)+

end
