(* ===== verification/User_Import_Example.thy ===== *)
theory User_Import_Example
  imports User_Import_Facts
begin

text \<open>
  An example tenant for the witnesses on user imports: two departments, the account \<open>zoe\<close> and the
  administrator who imports.
\<close>

definition hire_role :: "int \<Rightarrow> string \<Rightarrow> string \<Rightarrow> role" where
  "hire_role i code sc = \<lparr>role_id = i, role_tenant = 7, role_code = code, role_name = code,
     role_status = ''1'', data_scope = sc, role_menus = [], role_dept_links = []\<rparr>"

definition hire_dept :: "int \<Rightarrow> int option \<Rightarrow> string \<Rightarrow> string \<Rightarrow> dept_row" where
  "hire_dept i up anc name = \<lparr>dept_id = i, dept_tenant = 7, dept_status = ''1'', dept_ancestors = Some anc,
     dr_parent = up, dr_name = name, dr_order = 0, dr_leader = None, dr_phone = None, dr_email = None\<rparr>"

definition hire_user :: "int \<Rightarrow> string \<Rightarrow> user" where
  "hire_user i name = \<lparr>user_id = i, user_tenant = 7, user_name = name, user_status = ''1'',
     user_roles = [], user_depts = []\<rparr>"

definition hire_store :: user_store where
  "hire_store = \<lparr>us_dept = \<lparr>dd_auth = \<lparr>
       scope = \<lparr>db_depts = [], db_role_depts = [], db_user_depts = [(7, 51, 12)], db_users = [(7, 51), (7, 60)]\<rparr>,
       rows_users = [hire_user 51 ''zoe'', hire_user 60 ''root''],
       rows_roles = [hire_role 2 ''R_USER'' ''5'', hire_role 9 ''R_SUPER'' ''1''],
       links_roles = [(7, 51, 2), (7, 60, 9)], primary_depts = [(7, 51, 12)], role_agents = []\<rparr>,
     dd_depts = [hire_dept 12 None ''0'' ''Sales'', hire_dept 123 (Some 12) ''0,12'' ''East''],
     dd_names = [(7, 51, ''zoe'', None), (7, 60, ''root'', None)]\<rparr>,
   us_info = (\<lambda>i. \<lparr>ui_employee_no = None, ui_email = None, ui_phone = None, ui_gender = None,
     ui_password = ''secret'', ui_auth_version = 1\<rparr>)\<rparr>"

definition hire_db :: import_db where
  "hire_db = \<lparr>idb_store = hire_store, idb_batches = [], idb_logs = [], idb_flags = [], idb_intents = []\<rparr>"

definition hire_env :: import_env where
  "hire_env = \<lparr>ie_hash = (\<lambda>_. ''h''), ie_visible = (\<lambda>_ _. {}), ie_file_sha = id, ie_records_sha = (\<lambda>_. ''r''),
     ie_password_hash = (\<lambda>w. w), ie_prod = False,
     ie_settings = [\<lparr>st_tenant = 7, st_key = ''auth:default_password'', st_value = ''Start123'', st_status = ''1''\<rparr>],
     ie_next_id = (\<lambda>n. 1000 + n), ie_log_id = show_nat, ie_save = (\<lambda>_. Inr ''errors.xlsx''),
     ie_message = (\<lambda>_. ''error''), ie_iso = show_int,
     ie_diag_name = (\<lambda>e. case e of ConstraintViolation n \<Rightarrow> Some n | _ \<Rightarrow> None),
     ie_owned = (\<lambda>_. True), ie_owner = (\<lambda>_. None), ie_allowed = (\<lambda>_ _. True)\<rparr>"

definition hire :: "int \<Rightarrow> string \<Rightarrow> string option \<Rightarrow> string \<Rightarrow> import_record" where
  "hire n name mail dept = \<lparr>im_row_num = n, im_user_name = name, im_employee_no = None, im_nickname = None,
     im_email = mail, im_phone = None, im_dept_input = dept, im_role_input = None, im_gender = ''0'', im_status = ''1''\<rparr>"

definition hire_preview :: "import_record list \<Rightarrow> dry_run_result res \<times> import_db" where
  "hire_preview recs = dry_run_import_users hire_env hire_db recs 60 ''file'' ''a.xlsx'' (Some ''hr'') ''skip'' None
     ''b1'' ''t1'' (Inr ()) 0 7"

definition hire_run :: "import_record list \<Rightarrow> string \<Rightarrow> (import_result \<times> import_db) res" where
  "hire_run recs oc = (case hire_preview recs of (r, s) \<Rightarrow>
     batch_create_users_from_records hire_env s id recs ''t1'' None ''file'' ''a.xlsx'' (Some ''hr'') 60 oc CREATE_ONLY None
       None 5 9 7)"

text \<open>One new account and one that exists.\<close>

definition hire_rows :: "import_record list" where
  "hire_rows = [hire 2 ''amy'' None ''Sales/East'', hire 3 ''zoe'' None ''East'']"

text \<open>Two new accounts, the second with an e-mail address too long for its column.\<close>

definition hire_long :: "import_record list" where
  "hire_long = [hire 2 ''amy'' None ''Sales/East'', hire 3 ''bob'' (Some (replicate 101 CHR ''x'')) ''East'']"

text \<open>The result and the state, undefined fields excluded: a run that raises is an empty state.\<close>

definition hire_state :: "(import_result \<times> import_db) res \<Rightarrow> import_db" where
  "hire_state x = (case x of Inl _ \<Rightarrow> hire_db | Inr (r, s) \<Rightarrow> s)"

definition hire_result :: "(import_result \<times> import_db) res \<Rightarrow> import_result option" where
  "hire_result x = (case x of Inl _ \<Rightarrow> None | Inr (r, s) \<Rightarrow> Some r)"

definition hire_batch :: "import_record list \<Rightarrow> user_import_batch" where
  "hire_batch recs = new_batch hire_env recs 60 ''file'' ''a.xlsx'' ''hr'' ''skip'' ''b1'' ''t1'' 0 7"

definition hire_targets :: "import_record list \<Rightarrow> resolution_row list" where
  "hire_targets recs = (case lock_import_authorization_targets hire_env hire_store hire_store recs 60 False 7 of
     Inl _ \<Rightarrow> [] | Inr (a, rs) \<Rightarrow> rs)"

end
