(* ===== verification/User_Import_Props.thy ===== *)
theory User_Import_Props
  imports User_Import_Batches User_Import_Accounts User_Import_Example
begin

text \<open>
  The properties of user imports: committed batches are settled and finished ones final, an execution
  runs what was previewed and only once, \<open>fail_fast\<close> writes all rows or none, every row is accounted
  for, and an overwritten account keeps its password and its name.
\<close>

section \<open>Batches\<close>

text \<open>Property C36: in every state that previews, executions, cancellations and clean-ups can commit, batch ids
  and preview tokens are unique, no batch is being created or running, each batch's status agrees with
  its counts (a success has no failed row, a partial success both written and failed rows, a failure no
  written row), and no cancellation flag has been set.\<close>

theorem import_batches_consistent:
  assumes "import_reach p s"
  shows "import_ok s"
  by (rule import_reach_ok[OF assms])

text \<open>Property C38: no operation changes a finished batch: after it the batch is as it was or has been deleted.\<close>

theorem finished_batch_is_final:
  assumes "import_reach p s0" "import_reach p s" "import_step p s0 s s'"
    and "b \<in> set (idb_batches s)" "ib_status b \<in> set TERMINAL_STATUSES"
    and "b' \<in> set (idb_batches s')" "ib_batch_id b' = ib_batch_id b"
  shows "b' = b"
proof -
  have ok: "import_ok s" using import_reach_ok assms(2) by blast
  from import_step_rows[OF assms(3) import_reach_ok[OF assms(1)] ok] obtain keep new g where
    *: "idb_batches s' = map g (filter keep (idb_batches s)) @ new" "\<forall>x \<in> set (idb_batches s). row_step x (g x)"
    "batch_keys_unique (idb_batches s @ new)" unfolding rows_step_def by blast
  have "b' \<notin> set new" using same_id[OF *(3), of b b'] *(3) assms(4,7) by (auto simp: batch_keys_unique_def)
  then obtain x where x: "x \<in> set (idb_batches s)" "b' = g x" using assms(6) *(1) by auto
  with *(2) have r: "row_step x (g x)" by blast
  then have "ib_batch_id x = ib_batch_id b" using assms(7) x(2) by (simp add: row_step_def same_batch_def)
  then have "x = b" using same_id[of "idb_batches s"] ok x(1) assms(4) by (simp add: import_ok_def)
  with r x(2) assms(5) show ?thesis by (auto simp: row_step_def TERMINAL_STATUSES_def)
qed

text \<open>Property C37: repeating an execution that ran, with the same preview, file, records, reason and operator
  and whatever else may differ, changes nothing: it returns the stored counts of a batch that wrote
  something and refuses one that failed.\<close>

theorem replay_repeats_result:
  assumes "import_reach p s"
    and "batch_create_users_from_records p s other recs token cached content name reason op oc mode artifact rc
      started finished t = Inr (r, s')" "\<not> ir_replay r"
  shows "batch_create_users_from_records p s' other' recs token cached content name' reason op oc' mode' artifact' rc'
      started' finished' t =
    (if ir_status r = ''FAILED'' then Inl (Unprocessable ''AI_IMPORT_ALREADY_EXECUTED'')
     else Inr (r\<lparr>ir_preview := [], ir_replay := True\<rparr>, s'))"
proof -
  have ok: "import_ok s" using import_reach_ok assms(1) by blast
  obtain why b s1 l fl where
    e: "verify_preview p s recs token cached content reason op t = Inr (why, b)" "ib_status b = ST_PREVIEW_DONE"
    and r: "r = \<lparr>ir_batch_id = ib_batch_id b, ir_status = import_status_text (end_status l), ir_success = lr_success l,
           ir_skipped = lr_skipped l, ir_overwritten = lr_overwritten l, ir_failed = length (lr_failed l),
           ir_file = fl, ir_preview = take FAILED_ROWS_PREVIEW_LIMIT (lr_failed l), ir_replay = False\<rparr>"
    and bs: "idb_batches s' = map (\<lambda>x. if x = b then finished_row l fl started finished b else x) (idb_batches s)"
    by (rule executed[OF assms(2) ok assms(3)]) blast
  note v = verified_batch[OF e(1)]
  define g where "g = (\<lambda>x. if x = b then finished_row l fl started finished b else x)"
  have fk: "find (batch_key t i) (idb_batches s') = map_option g (find (batch_key t i) (idb_batches s))" for i
    unfolding bs g_def by (rule find_map_key) (simp add: batch_key_def)
  have ft: "find (\<lambda>x. ib_tenant x = t \<and> ib_preview_token x = token) (idb_batches s') =
      map_option g (find (\<lambda>x. ib_tenant x = t \<and> ib_preview_token x = token) (idb_batches s))"
    unfolding bs g_def by (rule find_map_key) simp
  have "get_batch_by_preview_token s' token cached t = map_option g (get_batch_by_preview_token s token cached t)"
    unfolding get_batch_by_preview_token_def Let_def fk ft by (cases cached) (simp_all split: option.split)
  then have ver: "verify_preview p s' recs token cached content reason op t = Inr (why, g b)"
    using v(3-8) by (simp add: g_def verify_preview_def validate_reason_consistency_def)
  have u: "batch_keys_unique (idb_batches s)" using ok by (simp add: import_ok_def)
  have "find (batch_key t (ib_batch_id b)) (idb_batches s) = Some b"
  proof (cases "find (batch_key t (ib_batch_id b)) (idb_batches s)")
    case None
    then show ?thesis using v(1,2) by (auto simp: find_None_iff batch_key_def)
  next
    case (Some c)
    then show ?thesis using find_SomeD[OF Some] same_id[OF u _ v(1)] by (simp add: batch_key_def)
  qed
  then have found: "find (batch_key t (ib_batch_id b)) (idb_batches s') = Some (g b)" using fk by simp
  have none: "\<forall>x \<in> set (idb_batches s'). \<not> (batch_key t (ib_batch_id b) x \<and> ib_status x = ST_PREVIEW_DONE)"
    using same_id[OF u _ v(1)] e(2) unfolding bs
    by (auto simp: batch_key_def end_status_def determine_end_status_def split: if_splits)
  then have "transition_batch_status s' (ib_batch_id b) ST_PREVIEW_DONE ST_RUNNING
      (\<lambda>x. x\<lparr>ib_started_at := Some started'\<rparr>) t = Inr (False, s')"
    using map_id_if[OF none] by (simp add: transition_batch_status_def Let_def validate_transition_def)
  then show ?thesis
    using ver found r
    by (simp add: g_def batch_create_users_from_records_def handle_idempotent_replay_def end_status_def
        determine_end_status_def finished_row_def set_counts_def)
qed

section \<open>What is executed\<close>

text \<open>\<open>h\<close> has no collision on the two inputs.\<close>

definition no_collision :: "('a \<Rightarrow> 'b) \<Rightarrow> 'a \<Rightarrow> 'a \<Rightarrow> bool" where
  "no_collision h x y \<longleftrightarrow> (h x = h y \<longrightarrow> x = y)"

lemma record_json_inj: "record_json a = record_json b \<Longrightarrow> a = b"
  by (cases a; cases b) (auto simp: record_json_def jopt_def split: option.splits)

lemma payload_inj: "records_payload xs = records_payload ys \<Longrightarrow> mset xs = mset ys"
proof -
  assume "records_payload xs = records_payload ys"
  then have "map record_json (sort_key im_row_num xs) = map record_json (sort_key im_row_num ys)"
    by (simp add: records_payload_def)
  then have "sort_key im_row_num xs = sort_key im_row_num ys"
    by (rule map_injective) (simp add: inj_def record_json_inj)
  then show ?thesis by (metis mset_sort)
qed

text \<open>A batch an execution is accepted for is no failed one.\<close>

lemma accepted_not_failed:
  assumes "batch_create_users_from_records p s other recs token cached content name reason op oc mode artifact rc
      started finished t = Inr (r, s')" "import_ok s"
    and "verify_preview p s recs token cached content reason op t = Inr (why, b)"
  shows "ib_status b \<noteq> ST_FAILED"
proof
  assume failed: "ib_status b = ST_FAILED"
  note v = verified_batch[OF assms(3)]
  have u: "batch_keys_unique (idb_batches s)" using assms(2) by (simp add: import_ok_def)
  have key: "batch_key t (ib_batch_id b) x \<longleftrightarrow> x = b" if "x \<in> set (idb_batches s)" for x
    using same_id[OF u that v(1)] v(2) by (auto simp: batch_key_def)
  have none: "\<forall>x \<in> set (idb_batches s). \<not> (batch_key t (ib_batch_id b) x \<and> ib_status x = ST_PREVIEW_DONE)"
    using key failed by auto
  then have tr: "transition_batch_status s (ib_batch_id b) ST_PREVIEW_DONE ST_RUNNING
      (\<lambda>x. x\<lparr>ib_started_at := Some started\<rparr>) t = Inr (False, s)"
    using map_id_if[OF none] by (simp add: transition_batch_status_def Let_def validate_transition_def)
  have "find (batch_key t (ib_batch_id b)) (idb_batches s) = Some b"
  proof (cases "find (batch_key t (ib_batch_id b)) (idb_batches s)")
    case None
    then show ?thesis using v(1,2) by (auto simp: find_None_iff batch_key_def)
  next
    case (Some c)
    then show ?thesis using find_SomeD[OF Some] key by blast
  qed
  with tr assms(1,3) failed show False
    by (simp add: batch_create_users_from_records_def handle_idempotent_replay_def)
qed

text \<open>Property C35: every accepted execution, whatever happened since, runs what was previewed: at some earlier
  moment a preview by the same operator, with the same business reason, made the batch the execution
  found by its token (or by the id the cache had for it), and only operations of this component came
  between the two. As long as the hashes have no collision on the inputs at hand, the preview had the
  same file and, up to their order, the same records.\<close>

theorem executed_import_was_previewed:
  assumes "import_reach p s"
    and "batch_create_users_from_records p s other recs token cached content name reason op oc mode artifact rc
      started finished t = Inr (r, s')"
  shows "\<exists>s0 s1 recs0 content0 reason0 b.
    import_reach p s0 \<and> previews p s0 recs0 content0 reason0 b s1 \<and> import_run p s1 s \<and>
    b \<in> set (idb_batches s1) \<and> ib_status b = ST_PREVIEW_DONE \<and> ib_tenant b = t \<and> ib_operator b = op \<and>
    (ib_preview_token b = token \<or> cached = Some (ib_batch_id b)) \<and>
    validate_reason reason0 = validate_reason reason \<and>
    (no_collision (ie_file_sha p) content content0 \<longrightarrow> content = content0) \<and>
    (no_collision (ie_records_sha p) (records_payload recs) (records_payload recs0) \<longrightarrow> mset recs = mset recs0)"
proof -
  obtain why b1 where v: "verify_preview p s recs token cached content reason op t = Inr (why, b1)"
    using assms(2) unfolding batch_create_users_from_records_def bindE_eq_Inr by auto
  note vb = verified_batch[OF v]
  have live: "ib_status b1 \<noteq> ST_FAILED"
    by (rule accepted_not_failed[OF assms(2) import_reach_ok[OF assms(1)] v])
  from import_reach_previewed[OF assms(1)] vb(1) obtain s0 s1 b where
    h: "import_reach p s0" "made_by_preview p s0 s1 b" "import_run p s1 s" "same_batch b b1"
      "ib_status b = ST_FAILED \<longrightarrow> ib_status b1 = ST_FAILED"
    unfolding previewed_before_def by blast
  from h(2) obtain recs0 content0 reason0 where m: "previews p s0 recs0 content0 reason0 b s1"
    "validate_reason reason0 = Inr (ib_reason b)" "ib_file_sha256 b = ie_file_sha p content0"
    "ib_records_hash b = compute_records_hash p recs0" "b \<in> set (idb_batches s1)"
    "ib_status b \<in> {ST_PREVIEW_DONE, ST_FAILED}"
    unfolding made_by_preview_def by blast
  have same: "ib_batch_id b = ib_batch_id b1" "ib_tenant b = t" "ib_preview_token b = ib_preview_token b1"
    "ib_operator b = op" "ib_reason b = why" "ie_file_sha p content0 = ie_file_sha p content"
    "ie_records_sha p (records_payload recs0) = ie_records_sha p (records_payload recs)"
    using h(4) vb(2,4-6,8) m(3,4) by (auto simp: same_batch_def compute_records_hash_def)
  have "ib_preview_token b1 = token \<or> cached = Some (ib_batch_id b1)"
    using vb(3) by (auto simp: get_batch_by_preview_token_def Let_def batch_key_def split: option.splits if_splits
        dest: find_SomeD)
  then have "ib_preview_token b = token \<or> cached = Some (ib_batch_id b)" by (simp add: same(1,3))
  moreover have "ib_status b = ST_PREVIEW_DONE" using h(5) live m(6) by blast
  moreover have "no_collision (ie_records_sha p) (records_payload recs) (records_payload recs0) \<longrightarrow> mset recs = mset recs0"
    using same(7) payload_inj unfolding no_collision_def by metis
  moreover have "no_collision (ie_file_sha p) content content0 \<longrightarrow> content = content0"
    using same(6) unfolding no_collision_def by metis
  ultimately show ?thesis using h(1,3) m(1,2,5) same(2,4,5) vb(7) by metis
qed

section \<open>Rows\<close>

text \<open>Property C33: a \<open>fail_fast\<close> import is all or nothing. Either no row fails, every row is counted as written,
  the rows to write are exactly the records, and the user and association tables are what writing
  all of them, one after the other and without an error, makes of the tables the locks saw; or every row
  is reported as failed, nothing is counted as written or skipped, and these tables are as they were
  when the locks were taken.\<close>

theorem fail_fast_all_or_nothing:
  assumes "import_reach p s"
    and "batch_create_users_from_records p s other recs token cached content name reason op ''fail_fast'' mode
      artifact rc started finished t = Inr (r, s')"
    and "\<not> ir_replay r" "distinct (map im_row_num recs)"
  shows "\<exists>actor rs c j password.
    planned_import p (idb_store s) (other (idb_store s)) recs op ''fail_fast'' mode (effective_role_column rc recs) t
      = Inr (actor, rs, c, j, password) \<and>
    (ir_failed r = 0 \<and> ir_skipped r = 0 \<and> ir_success r + ir_overwritten r = length recs \<and>
     mset (map job_record (plan_rows j)) = mset recs \<and>
     after_jobs (process_job p password (user_id actor) rs (effective_role_column rc recs) mode t)
       (other (idb_store s)) (plan_rows j) = Inr (idb_store s') \<or>
     ir_failed r = length recs \<and> ir_skipped r = 0 \<and> ir_success r = 0 \<and> ir_overwritten r = 0 \<and>
     idb_store s' = other (idb_store s))"
proof -
  obtain b s1 l fl where e: "idb_store s1 = idb_store s"
      "execute_locked p s1 other recs b op ''fail_fast'' mode (effective_role_column rc recs) started t = Inr l"
    and r: "r = \<lparr>ir_batch_id = ib_batch_id b, ir_status = import_status_text (end_status l), ir_success = lr_success l,
           ir_skipped = lr_skipped l, ir_overwritten = lr_overwritten l, ir_failed = length (lr_failed l),
           ir_file = fl, ir_preview = take FAILED_ROWS_PREVIEW_LIMIT (lr_failed l), ir_replay = False\<rparr>"
    and s': "idb_store s' = idb_store (lr_db l)"
    by (rule executed[OF assms(2) import_reach_ok[OF assms(1)] assms(3)]) blast
  show ?thesis
  proof (rule execute_locked_planned[OF e(2)], goal_cases)
    case (1 actor rs c j password)
    note run = 1(4)[simplified]
    note n = run_jobs_counts[OF run]
    consider (all) "jp_failed j = []" "jp_skipped j = 0" "length (plan_rows j) = length recs"
      | (none) "plan_rows j = []" "length (jp_failed j) = length recs" "jp_skipped j = 0"
      using plan_accounts[OF 1(2,3) assms(4)] by fastforce
    then have "ir_failed r = 0 \<and> ir_skipped r = 0 \<and> ir_success r + ir_overwritten r = length recs \<and>
         mset (map job_record (plan_rows j)) = mset recs \<and>
         after_jobs (process_job p password (user_id actor) rs (effective_role_column rc recs) mode t)
           (other (idb_store s)) (plan_rows j) = Inr (idb_store s') \<or>
       ir_failed r = length recs \<and> ir_skipped r = 0 \<and> ir_success r = 0 \<and> ir_overwritten r = 0 \<and>
         idb_store s' = other (idb_store s)"
    proof cases
      case all
      show ?thesis
      proof (cases "lr_aborted l = None")
        case True
        have "after_jobs (process_job p password (user_id actor) rs (effective_role_column rc recs) mode t)
            (other (idb_store s)) (plan_rows j) = Inr (idb_store s')"
          using strict_jobs_written[OF run True] by (simp add: e(1) s')
        moreover have "lr_failed l = []" "lr_skipped l = 0" "lr_success l + lr_overwritten l = length recs"
          using n(1)[THEN mp, OF True] all by auto
        ultimately show ?thesis using plan_writes_all[OF 1(2,3) all(1)] by (simp add: r)
      next
        case False
        with n(2) all e(1) show ?thesis by (simp add: r s')
      qed
    next
      case none
      with n(1,3) run_jobs_none_failed[OF run none(1)] e(1) show ?thesis by (simp add: r s')
    qed
    with 1(1) e(1) show ?case by (intro exI[of _ actor] exI[of _ rs] exI[of _ c] exI[of _ j] exI[of _ password]) simp
  qed
qed

text \<open>Property C39: an import whose loop is not aborted counts every row exactly once as created, overwritten,
  skipped or failed when no row is outside the operator's scope. As soon as one row is, it is reported
  as failed and nothing at all is written, also for the rows that are inside.\<close>

theorem import_rows_accounted:
  assumes "execute_locked p s other recs b op oc mode has_roles started t = Inr l" "lr_aborted l = None"
    and "distinct (map im_row_num recs)"
  shows "\<exists>actor rs c j password.
    planned_import p (idb_store s) (other (idb_store s)) recs op oc mode has_roles t = Inr (actor, rs, c, j, password) \<and>
    (if cl_out_of_scope c = []
     then lr_success l + lr_overwritten l + lr_skipped l + length (lr_failed l) = length recs
     else lr_success l = 0 \<and> lr_overwritten l = 0 \<and> idb_store (lr_db l) = other (idb_store s) \<and>
       set (cl_out_of_scope c) \<subseteq> set (lr_failed l))"
proof (rule execute_locked_planned[OF assms(1)], goal_cases)
  case (1 actor rs c j password)
  note n = run_jobs_counts(1)[OF 1(4), THEN mp, OF assms(2)] run_jobs_counts(3)[OF 1(4)]
  have "if cl_out_of_scope c = []
     then lr_success l + lr_overwritten l + lr_skipped l + length (lr_failed l) = length recs
     else lr_success l = 0 \<and> lr_overwritten l = 0 \<and> idb_store (lr_db l) = other (idb_store s) \<and>
       set (cl_out_of_scope c) \<subseteq> set (lr_failed l)"
  proof (cases "cl_out_of_scope c = []")
    case True
    with plan_accounts[OF 1(2,3) assms(3)] have "length (jp_failed j) + jp_skipped j + length (plan_rows j) = length recs"
      by auto
    with n(1) True show ?thesis by simp
  next
    case False
    from plan_out_of_scope[OF 1(3) False] run_jobs_none_failed[OF 1(4)] n(2) False show ?thesis by simp
  qed
  with 1(1) show ?case by blast
qed

text \<open>Property C40: the counts of an import that goes on after failures survive the rollback they describe: when a
  row of its only chunk fails for good after others have been written, the chunk is rolled back, all its
  rows are reported as failed, and the rows written before are still counted as written, so that the
  batch is a partial success although nothing was written.\<close>

theorem aborted_chunk_miscounts:
  assumes "plan_rows j = A @ x # B" "A \<noteq> []" "length (plan_rows j) \<le> USER_IMPORT_CHUNK_SIZE"
    and "after_jobs (process_job p password actor rs has_roles mode t) (idb_store s) A = Inr s1"
    and "process_job p password actor rs has_roles mode t s1 x = Inl e" "aborts_chunk p e"
  shows "\<exists>l. run_jobs p (process_job p password actor rs has_roles mode t) False logf s j = Inr l \<and> lr_db l = s \<and>
    lr_success l + lr_overwritten l = length A \<and>
    length (lr_failed l) = length (jp_failed j) + length (plan_rows j) \<and> end_status l = ST_PARTIAL_SUCCESS"
proof -
  obtain l where l: "run_jobs p (process_job p password actor rs has_roles mode t) False logf s j = Inr l" "lr_db l = s"
    "lr_success l + lr_overwritten l = length A" "length (lr_failed l) = length (jp_failed j) + length (plan_rows j)"
    using run_jobs_abort[OF assms(1,3,4,5,6)] by blast
  then have "end_status l = ST_PARTIAL_SUCCESS"
    using assms(1,2) by (simp add: end_status_def determine_end_status_def)
  with l show ?thesis by blast
qed

section \<open>Accounts\<close>

text \<open>Property C34: an execution keeps every account there was once its locks are taken, under its id and with its
  password, and with its name unless the mode is full synchronisation; other tenants' accounts and
  links it leaves as they were.\<close>

theorem import_keeps_accounts:
  assumes "import_reach p s"
    and "batch_create_users_from_records p s other recs token cached content name reason op oc mode artifact rc
      started finished t = Inr (r, s')" "\<not> ir_replay r"
    and "distinct (map user_id (store_users (other (idb_store s))))" "u \<in> set (store_users (other (idb_store s)))"
  shows "account_kept t (mode = FULL_SYNC) (other (idb_store s)) (idb_store s') u \<and>
    foreign_links t (idb_store s') = foreign_links t (other (idb_store s))"
proof -
  obtain b s1 l where e: "idb_store s1 = idb_store s"
      "execute_locked p s1 other recs b op oc mode (effective_role_column rc recs) started t = Inr l"
    and s': "idb_store s' = idb_store (lr_db l)"
    by (rule executed[OF assms(2) import_reach_ok[OF assms(1)] assms(3)]) blast
  have "accounts_kept t (mode = FULL_SYNC) (other (idb_store s)) (idb_store s')"
  proof (rule execute_locked_Inr[OF e(2)], goal_cases)
    case (1 actor rs c j password)
    from import_job.run_jobs_keeps[OF 1(4)] show ?case by (simp add: s' e(1))
  qed
  with assms(4,5) show ?thesis by (simp add: accounts_kept_def)
qed

section \<open>Witnesses\<close>

definition hired :: import_db where
  "hired = hire_state (hire_run hire_rows ''skip'')"

lemma hire_previewed: "import_reach hire_env (snd (hire_preview recs))"
proof -
  have start: "import_reach hire_env hire_db" by (rule import_reach.start) (simp_all add: hire_db_def)
  have "import_step hire_env hire_db hire_db (snd (hire_preview recs))"
    unfolding hire_preview_def by (rule import_step.preview) (rule surjective_pairing)
  from import_reach.step[OF start start this] show ?thesis .
qed

lemma hire_preview_store: "idb_store (snd (hire_preview recs)) = hire_store"
proof -
  obtain r s' where r: "hire_preview recs = (r, s')" by fastforce
  have "idb_store s' = idb_store hire_db"
    by (rule preview_rows[OF r[unfolded hire_preview_def]]) simp_all
  with r show ?thesis by (simp add: hire_db_def)
qed

lemma hire_run_def':
  "hire_run recs oc = batch_create_users_from_records hire_env (snd (hire_preview recs)) id recs ''t1'' None ''file''
     ''a.xlsx'' (Some ''hr'') 60 oc CREATE_ONLY None None 5 9 7"
  by (simp add: hire_run_def case_prod_unfold)

lemma hire_runs:
  assumes "hire_result (hire_run recs oc) = Some r"
  shows "hire_run recs oc = Inr (r, hire_state (hire_run recs oc))"
  using assms by (auto simp: hire_state_def hire_result_def split: sum.splits)

lemma hire_executes:
  assumes "hire_result (hire_run recs oc) = Some r"
  shows "batch_create_users_from_records hire_env (snd (hire_preview recs)) id recs ''t1'' None ''file''
     ''a.xlsx'' (Some ''hr'') 60 oc CREATE_ONLY None None 5 9 7 = Inr (r, hire_state (hire_run recs oc))"
  using hire_runs[OF assms] unfolding hire_run_def'[symmetric] .

lemma hire_executed: "hire_result (hire_run recs oc) = Some r \<Longrightarrow> import_reach hire_env (hire_state (hire_run recs oc))"
  by (rule import_reach.step[OF hire_previewed hire_previewed import_step.execute[OF hire_executes]])

definition hired_counts :: import_result where
  "hired_counts = \<lparr>ir_batch_id = ''b1'', ir_status = ''SUCCESS'',
    ir_success = 1, ir_skipped = 1, ir_overwritten = 0, ir_failed = 0, ir_file = None, ir_preview = [], ir_replay = False\<rparr>"

lemma hired_result: "hire_result (hire_run hire_rows ''skip'') = Some hired_counts"
  by code_simp

lemma hired_reach: "import_reach hire_env hired"
  unfolding hired_def by (rule hire_executed[OF hired_result])

lemma hired_batches: "map (\<lambda>b. (ib_batch_id b, ib_status b)) (idb_batches hired) = [(''b1'', ST_SUCCESS)]"
  by code_simp

theorem import_batches_consistent_witness:
  "import_ok hired \<and> map ib_status (idb_batches hired) = [ST_SUCCESS]"
proof
  show "import_ok hired" by (rule import_batches_consistent[OF hired_reach])
  show "map ib_status (idb_batches hired) = [ST_SUCCESS]" using hired_batches by auto
qed

text \<open>The same tenant previews another, empty file.\<close>

definition hired_again :: import_db where
  "hired_again = snd (dry_run_import_users hire_env hired [] 60 ''other'' ''b.xlsx'' (Some ''hr'') ''skip'' None
     ''b2'' ''t2'' (Inr ()) 20 7)"

lemma hired_again_batches: "map ib_batch_id (idb_batches hired_again) = [''b1'', ''b2'']"
  by code_simp

theorem finished_batch_is_final_witness:
  "\<exists>b c. idb_batches hired = [b] \<and> idb_batches hired_again = [b, c] \<and> ib_status b = ST_SUCCESS"
proof -
  obtain b where b: "idb_batches hired = [b]" "ib_batch_id b = ''b1''" "ib_status b = ST_SUCCESS"
    using hired_batches by auto
  obtain b' c where b': "idb_batches hired_again = [b', c]" "ib_batch_id b' = ''b1''"
    using hired_again_batches by (auto simp: map_eq_Cons_conv)
  have "import_step hire_env hired hired hired_again"
    unfolding hired_again_def by (rule import_step.preview) (rule surjective_pairing)
  from finished_batch_is_final[OF hired_reach hired_reach this, of b b'] b b'
  have "b' = b" by (simp add: TERMINAL_STATUSES_def)
  with b b' show ?thesis by simp
qed

theorem replay_repeats_result_witness:
  "hire_run hire_rows ''skip'' = Inr (hired_counts, hired) \<and>
    batch_create_users_from_records hire_env hired id hire_rows ''t1'' None ''file'' ''again.xlsx'' (Some ''hr'') 60
      ''overwrite'' FULL_SYNC None None 50 90 7 = Inr (hired_counts\<lparr>ir_preview := [], ir_replay := True\<rparr>, hired)"
proof
  show "hire_run hire_rows ''skip'' = Inr (hired_counts, hired)"
    using hire_runs[OF hired_result] by (simp only: hired_def)
  show "batch_create_users_from_records hire_env hired id hire_rows ''t1'' None ''file'' ''again.xlsx'' (Some ''hr'') 60
      ''overwrite'' FULL_SYNC None None 50 90 7 = Inr (hired_counts\<lparr>ir_preview := [], ir_replay := True\<rparr>, hired)"
    by (subst replay_repeats_result[OF hire_previewed hire_executes[OF hired_result], folded hired_def])
      (simp_all add: hired_counts_def)
qed

text \<open>Another file is previewed before the first preview is executed, with its rows in another order and
  spaces around the reason.\<close>

definition hire_busy :: import_db where
  "hire_busy = snd (user_import_preview hire_env (snd (hire_preview hire_rows)) [hire 2 ''eve'' None ''East''] 60
     ''other'' ''b.xlsx'' (Some ''hr'') ''skip'' None ''b2'' ''t2'' (Inr ()) (Inr ''source.xlsx'') 3 7)"

lemma hire_busy_reach: "import_reach hire_env hire_busy"
proof -
  have "import_step hire_env (snd (hire_preview hire_rows)) (snd (hire_preview hire_rows)) hire_busy"
    unfolding hire_busy_def by (rule import_step.preview_file) (rule surjective_pairing)
  from import_reach.step[OF hire_previewed hire_previewed this] show ?thesis .
qed

lemma hire_busy_batches: "map (\<lambda>b. (ib_batch_id b, ib_file_storage_key b)) (idb_batches hire_busy) =
    [(''b1'', None), (''b2'', Some ''source.xlsx'')]"
  by code_simp

definition hire_later :: "(import_result \<times> import_db) res" where
  "hire_later = batch_create_users_from_records hire_env hire_busy id (rev hire_rows) ''t1'' None ''file'' ''a.xlsx''
     (Some '' hr '') 60 ''skip'' CREATE_ONLY None None 5 9 7"

theorem executed_import_was_previewed_witness:
  "map_option ir_success (hire_result hire_later) = Some 1 \<and>
   (\<exists>s0 s1 recs0 reason0 b. previews hire_env s0 recs0 ''file'' reason0 b s1 \<and> import_run hire_env s1 hire_busy \<and>
     ib_preview_token b = ''t1'' \<and> ib_operator b = 60 \<and> validate_reason reason0 = validate_reason (Some '' hr ''))"
proof
  show written: "map_option ir_success (hire_result hire_later) = Some 1" by code_simp
  then obtain r s' where x: "hire_later = Inr (r, s')" by (auto simp: hire_result_def split: sum.splits)
  have "no_collision (ie_file_sha hire_env) ''file'' content" for content
    by (simp add: no_collision_def hire_env_def)
  with executed_import_was_previewed[OF hire_busy_reach x[unfolded hire_later_def]]
  show "\<exists>s0 s1 recs0 reason0 b. previews hire_env s0 recs0 ''file'' reason0 b s1 \<and> import_run hire_env s1 hire_busy \<and>
     ib_preview_token b = ''t1'' \<and> ib_operator b = 60 \<and> validate_reason reason0 = validate_reason (Some '' hr '')"
    by blast
qed

text \<open>A batch whose second row fails, and a batch of one good row.\<close>

theorem fail_fast_all_or_nothing_witness:
  "(\<exists>r s. hire_run hire_long ''fail_fast'' = Inr (r, s) \<and> ir_failed r = 2 \<and> idb_store s = hire_store) \<and>
   (\<exists>r s (actor :: user) rs j password. hire_run [hd hire_long] ''fail_fast'' = Inr (r, s) \<and> ir_success r = 1 \<and>
     mset (map job_record (plan_rows j)) = {#hd hire_long#} \<and>
     after_jobs (process_job hire_env password (user_id actor) rs False CREATE_ONLY 7) hire_store (plan_rows j)
       = Inr (idb_store s))"
proof
  have "map_option (\<lambda>r. (ir_failed r, ir_replay r)) (hire_result (hire_run hire_long ''fail_fast'')) = Some (2, False)"
    by code_simp
  then obtain r where r: "hire_result (hire_run hire_long ''fail_fast'') = Some r" "ir_failed r = 2" "\<not> ir_replay r"
    by auto
  have "distinct (map im_row_num hire_long)" by (simp add: hire_long_def hire_def)
  from fail_fast_all_or_nothing[OF hire_previewed hire_executes[OF r(1)] r(3) this] r(2)
  have "idb_store (hire_state (hire_run hire_long ''fail_fast'')) = hire_store" by (auto simp: hire_preview_store)
  with hire_runs[OF r(1)] r(2)
  show "\<exists>r s. hire_run hire_long ''fail_fast'' = Inr (r, s) \<and> ir_failed r = 2 \<and> idb_store s = hire_store" by blast
next
  let ?one = "[hd hire_long]"
  have "map_option (\<lambda>r. (ir_failed r, ir_success r, ir_replay r)) (hire_result (hire_run ?one ''fail_fast'')) =
      Some (0, 1, False)" by code_simp
  then obtain r where r: "hire_result (hire_run ?one ''fail_fast'') = Some r" "ir_failed r = 0" "ir_success r = 1"
    "\<not> ir_replay r" by auto
  have d: "distinct (map im_row_num ?one)" "effective_role_column None ?one = False"
    by (simp_all add: hire_long_def hire_def effective_role_column_def or_empty_def)
  obtain actor :: user and rs j password where
    "mset (map job_record (plan_rows j)) = mset ?one"
    "after_jobs (process_job hire_env password (user_id actor) rs False CREATE_ONLY 7) hire_store (plan_rows j)
       = Inr (idb_store (hire_state (hire_run ?one ''fail_fast'')))"
    using fail_fast_all_or_nothing[OF hire_previewed hire_executes[OF r(1)] r(4) d(1)] r(3)
    by (auto simp: hire_preview_store d(2))
  note written = this
  show "\<exists>r s (actor :: user) rs j password. hire_run ?one ''fail_fast'' = Inr (r, s) \<and> ir_success r = 1 \<and>
     mset (map job_record (plan_rows j)) = {#hd hire_long#} \<and>
     after_jobs (process_job hire_env password (user_id actor) rs False CREATE_ONLY 7) hire_store (plan_rows j)
       = Inr (idb_store s)"
    by (rule exI[of _ r], rule exI[of _ "hire_state (hire_run ?one ''fail_fast'')"], rule exI[of _ actor],
        rule exI[of _ rs], rule exI[of _ j], rule exI[of _ password])
      (use hire_runs[OF r(1)] r(3) written in simp)
qed

theorem import_rows_accounted_witness:
  "\<exists>l. execute_locked hire_env hire_db id hire_rows (hire_batch hire_rows) 60 ''skip'' CREATE_ONLY False 5 7 = Inr l \<and>
     lr_success l + lr_overwritten l + lr_skipped l + length (lr_failed l) = 2 \<and> lr_success l = 1"
proof -
  define x where "x = execute_locked hire_env hire_db id hire_rows (hire_batch hire_rows) 60 ''skip'' CREATE_ONLY False 5 7"
  have "case x of Inl _ \<Rightarrow> False | Inr l \<Rightarrow> lr_aborted l = None \<and> lr_success l = 1" unfolding x_def by code_simp
  then obtain l where l: "x = Inr l" "lr_aborted l = None" "lr_success l = 1" by (cases x) auto
  have "distinct (map im_row_num hire_rows)" "length hire_rows = 2" by (simp_all add: hire_rows_def hire_def)
  with import_rows_accounted[OF l(1)[unfolded x_def] l(2)] l show ?thesis by (auto simp: x_def split: if_splits)
qed

theorem aborted_chunk_miscounts_witness:
  "\<exists>l. run_jobs hire_env (process_job hire_env ''pw'' 60 (hire_targets hire_long) False CREATE_ONLY 7) False
      (\<lambda>s k n m. s) hire_db \<lparr>jp_failed = [], jp_create = hire_long, jp_overwrite = [], jp_skipped = 0\<rparr> = Inr l \<and>
    lr_db l = hire_db \<and> lr_success l + lr_overwritten l = 1 \<and> length (lr_failed l) = 2"
proof -
  let ?f = "process_job hire_env ''pw'' 60 (hire_targets hire_long) False CREATE_ONLY 7"
  have "case ?f hire_store (CreateJob (hd hire_long)) of Inl e \<Rightarrow> False | Inr s \<Rightarrow>
      (case ?f s (CreateJob (last hire_long)) of Inl e \<Rightarrow> e = DataError | Inr _ \<Rightarrow> False)" by code_simp
  then obtain s1 where *: "?f hire_store (CreateJob (hd hire_long)) = Inr s1"
    "?f s1 (CreateJob (last hire_long)) = Inl DataError" by (auto split: sum.splits)
  have e: "aborts_chunk hire_env DataError" by code_simp
  let ?j = "\<lparr>jp_failed = [], jp_create = hire_long, jp_overwrite = [], jp_skipped = 0\<rparr>"
  have j: "plan_rows ?j = [CreateJob (hd hire_long)] @ CreateJob (last hire_long) # []"
    "length (plan_rows ?j) \<le> USER_IMPORT_CHUNK_SIZE" "length (plan_rows ?j) = 2"
    by (simp_all add: plan_rows_def hire_long_def USER_IMPORT_CHUNK_SIZE_def)
  have "after_jobs ?f (idb_store hire_db) [CreateJob (hd hire_long)] = Inr s1"
    using *(1) by (simp add: hire_db_def)
  from aborted_chunk_miscounts[OF j(1) _ j(2) this *(2) e, of "\<lambda>s k n m. s"] show ?thesis using j(3) by auto
qed

theorem import_keeps_accounts_witness:
  "account_kept 7 False hire_store (idb_store hired) (hire_user 51 ''zoe'') \<and>
    foreign_links 7 (idb_store hired) = foreign_links 7 hire_store"
proof -
  have "distinct (map user_id (store_users hire_store))" "hire_user 51 ''zoe'' \<in> set (store_users hire_store)"
    by (simp_all add: hire_store_def hire_user_def)
  then show ?thesis
    using import_keeps_accounts[OF hire_previewed hire_executes[OF hired_result], of "hire_user 51 ''zoe''"]
    by (simp add: hired_def hired_counts_def hire_preview_store)
qed

end
