(* ===== verification/Spec2Isabelle.thy ===== *)
theory Spec2Isabelle
  imports Data_Scope_Props Role_Assignment_Props Role_Delegation_Props Hitl_Props
    Prepared_Subjects_Props Prepared_Props Projection_Props Projection_Access_Props
    Gateway_Quota_Props Dept_Props Settings_Props Dept_Assignment_Props Chat_Guard Chat_Props
    Atomic_Props Chat_Finalizer_Props Role_Management_Props User_Import_Props
begin

text \<open>
  HoHu Admin, backend: a verification of the services that decide who may do what. Paths below are
  relative to \<open>src/app\<close> unless they start with \<open>src/\<close>.

  \<^bold>\<open>The program.\<close> A multi-tenant administration backend (FastAPI, SQLAlchemy on PostgreSQL, Redis)
  with an AI assistant that calls administration functions as tools. A request acts for a user of one
  tenant. What the user may see is its data scope (\<open>utils/data_scope.py\<close>): a set of departments and
  users that the enabled roles grant. What it may hand on is its grant authority
  (\<open>modules/system/service/grant_authority.py\<close>). Writes on users, roles and departments materialize
  their consequences, compare them with that authority, take row locks in one global order and
  check everything again under the locks. The assistant reaches the same services through a gateway:
  a tool must be offered by the user's agent (\<open>modules/ai/service/agent_authorization_service.py\<close>),
  pay from quotas (\<open>modules/ai/agents/gateway/quota.py\<close>), and, when it changes something dangerous,
  wait for a confirmation (\<open>modules/ai/agents/hitl/manager.py\<close>) or go through a prepared action
  (\<open>modules/ai/service/prepared_action_service.py\<close>); its results stay bound to the data scope under
  which they were produced (\<open>modules/ai/service/result_projection_service.py\<close>).

  \<^bold>\<open>Theories.\<close> They follow the calls of the code, callee first. \<open>X\<close> holds definitions, \<open>X_Facts\<close> the
  component's lemmas and interfaces, \<open>X_Props\<close> its properties and their witnesses.
  \<^item> \<open>Prelude\<close>: the exceptions of \<open>core/exceptions.py\<close> with their error codes, results
    \<open>exn + 'a\<close> with \<open>bindE\<close>, \<open>guardE\<close>, \<open>mapE\<close>, and the parts of \<open>str\<close>, \<open>int()\<close>, \<open>split\<close> and SQL's
    \<open>LIKE\<close> that the code uses. The collection \<open>res_simps\<close> inverts results.
  \<^item> \<open>Entities\<close>: the ORM rows (\<open>modules/system/models\<close>, \<open>db/base.py\<close>), \<open>core/rbac.py\<close>,
    \<open>modules/auth/permission_collect.py\<close>. \<open>Json\<close>, \<open>Json_Text\<close>: JSON values, Python's equality on them,
    \<open>json.dumps\<close>.
  \<^item> \<open>Data_Scope\<close>, \<open>Data_Scope_Facts\<close>, \<open>Data_Scope_Props\<close>: \<open>utils/data_scope.py\<close>, with the legacy
    single-scope resolution it replaces. The locale \<open>dept_closure\<close> states what resolvers need of the
    subtree query; the code's query interprets it. The properties: the resolution is the union of the roles'
    grants, stays in the tenant, the subtree query is exact, grants are monotone, nothing of the legacy
    resolution is lost.
  \<^item> \<open>Authorization_Lock\<close> (\<open>service/authorization_lock.py\<close>): the run of \<open>lock_targets\<close>
    gives its result and the row locks it requested, in order; transactions that hold such a sequence
    cannot deadlock. \<open>Grant_Authority\<close> (\<open>service/grant_authority.py\<close>), \<open>Role_Authority\<close> and
    \<open>Role_Authority_Facts\<close> (role sets in \<open>service/user_role_assignment_service.py\<close>), \<open>Role_Assignment\<close>,
    \<open>Role_Assignment_Facts\<close>, \<open>Role_Assignment_Props\<close> (the operations of that service) and
    \<open>Role_Delegation\<close>, \<open>Role_Delegation_Props\<close> (\<open>service/role_delegation_service.py\<close>). The properties: no
    escalation by assignment or delegation, bulk authorization agrees with the single one, frames.
  \<^item> \<open>Role_Management\<close>, \<open>Role_Agents\<close>, \<open>Role_Management_Facts\<close>, \<open>Role_Management_Props\<close>:
    \<open>service/role_management_service.py\<close>, \<open>modules/ai/service/role_agent.py\<close> and the writers of
    \<open>service/tenant_association_writer.py\<close>. A role write escalates none of the role's holders and
    reaches nobody else, keeps the role tables consistent (\<open>role_tables_ok\<close>, \<open>role_keys_ok\<close>) and stores a
    menu set closed under parents; the delegable flag of a listed role is the answer of the projection.
  \<^item> \<open>Hitl\<close>, \<open>Hitl_Protocol\<close>, \<open>Hitl_Props\<close>: confirmations in Redis, as a step relation of wakers, hanging
    coroutines, binding tasks and the clock, over the locale \<open>expiring_store\<close>; every Redis command is a
    step of its own, so the two reads of \<open>get_pending\<close> (\<open>read_pending\<close>, \<open>read_wake_action\<close>) and the four
    commands of \<open>bind_durable_action\<close> interleave with everything else. All coroutines of a
    confirmation see one decision, and no wake is lost to a coroutine that had subscribed or still found
    the payload; \<open>decision_lost_between_reads\<close> is the case that remains.
  \<^item> \<open>Prepared_Subjects\<close>, \<open>Prepared_Action\<close>, \<open>Prepared_Protocol\<close>, \<open>Prepared_Props\<close> and
    \<open>Prepared_Subjects_Props\<close>: prepared actions as rows with a version, every operation a step of
    \<open>action_step\<close>; the locale \<open>versioned_rows\<close> is the compare-and-set contract. One
    winner per version, no execution without an approval, facts and outcomes that never change. The
    check of an identifier's text is defined over code points, with the Unicode digit tables as
    parameters and the limit of 4300 digits on Python's conversions.
  \<^item> \<open>Projection\<close>, \<open>Projection_Access\<close> and their \<open>_Props\<close>: lineage of tool results and the
    re-authorization of a stored result, whose walk over dependencies ends.
  \<^item> \<open>Tool_Registry\<close> (\<open>modules/ai/agents/tools/registry.py\<close>, \<open>meta.py\<close> and the agent policy).
  \<^item> \<open>Ai_Config\<close>, \<open>Gateway_Quota\<close>, \<open>Gateway_Quota_Props\<close>: the settings cache, the quota layers and the
    failure counters of the gateway over a model of Redis counters and sorted sets. The locale
    \<open>expiring_counter\<close> is the contract of a counter with an expiry; the daily and the conversation
    counters interpret it. \<open>counter_try\<close> is the check that accepts or refuses a counted
    call, and the step relation \<open>quota_run\<close> takes its answers. The daily bound under every interleaving,
    late rollbacks included, equivalence of the
    sliding window with a log of the accepted calls, and the rollback as an exact inverse on the same
    day. \<open>late_rollback_hits_next_day\<close> shows what the rollback does after midnight.
  \<^item> \<open>Dept_Tree\<close>, \<open>Dept_Tree_Facts\<close>, \<open>Dept_Service\<close>, \<open>Dept_Props\<close>: departments
    (\<open>modules/system/service/dept_service.py\<close>). A row's \<open>ancestors\<close> text is the path \<open>0,a,b\<close> of its
    ancestors; the lemmas compare paths by their components. Every reachable tree is
    consistent and acyclic, levels are bounded, the descendant loop ends within a tight bound on its passes
    (\<open>desc_passes\<close>) and computes reachability, and
    a delete leaves no reference. The level bound is one more than the constant and attained.
  \<^item> \<open>Settings\<close>, \<open>Settings_Props\<close>: the tenant settings (\<open>modules/system/settings_catalog.py\<close>,
    \<open>service/settings_service.py\<close> and the rules of \<open>service/account_service.py\<close> and
    \<open>service/mail_service.py\<close> they call): a save is read back, and a save with the revision of
    another state is refused.
  \<^item> \<open>Dept_Assignment\<close>, \<open>Dept_Assignment_Facts\<close>, \<open>Dept_Member_Facts\<close>, \<open>Dept_Assignment_Props\<close>:
    \<open>service/user_department_assignment_service.py\<close>. The locale \<open>keyed_store\<close> is the contract of a
    complete replacement under a key, which the role links and the department links of a user
    interpret. The properties: replacements of a user's departments or a department's members
    write exactly the request and escalate nobody, and no sequence of the writers (the step relation
    \<open>assignment_step\<close>) gives a user two primary departments.
  \<^item> \<open>Chat_Guard\<close>, \<open>Chat_Cards\<close>, \<open>Chat_Cards_Facts\<close>, \<open>Chat_Props\<close>: the run lease of a conversation over the
    store of \<open>Hitl\<close>, as a step relation with the history of answered calls, and the tool-call cards of
    a turn (\<open>modules/ai/service/chat_run_service.py\<close>). One run at a time believes it holds the lease;
    the collector keeps the calls of a turn apart; merging cards again changes nothing and never
    brings back a protected card.
  \<^item> \<open>Atomic_Completion\<close>, \<open>Atomic_Facts\<close>, \<open>Atomic_Props\<close>:
    \<open>modules/ai/service/atomic_completion_service.py\<close> on the rows of \<open>run_db\<close>; \<open>action_view\<close> is what
    \<open>Prepared_Action\<close> knows of them. A completion is accepted when it is read back, a rollback can
    always be recorded, and no completed action is claimed again.
  \<^item> \<open>Chat_Finalizer\<close>, \<open>Chat_Finalizer_Facts\<close>, \<open>Chat_Finalizer_Props\<close>: the finalizer that ends a turn, in
    \<open>modules/ai/service/chat_run_service.py\<close>. It writes the one answer of its turn and nothing else,
    and a stored card of a protected call claims success only for a verified fact.
  \<^item> \<open>User_Import\<close>, \<open>User_Import_Run\<close>, \<open>User_Import_Admin\<close>: \<open>modules/system/service/user_import_service.py\<close>,
    \<open>user_import_state.py\<close>, \<open>user_import_validator.py\<close> and the intentions of \<open>transfer_cleanup_service.py\<close>
    beside them, on the tables of \<open>import_db\<close>: preview and classification, the execution in chunks with
    its savepoints, cancelling and cleaning up. \<open>User_Import_Facts\<close> has the locale \<open>import_rows\<close>, a contract of
    one row that holds of a whole execution; \<open>User_Import_Accounts\<close> interprets it for what a row may
    change in accounts. \<open>User_Import_Batches\<close> has the operations as a step relation and the invariant of
    committed batches, \<open>User_Import_Rows\<close> the counts. The properties in \<open>User_Import_Props\<close>, with the
    tenant of \<open>User_Import_Example\<close>: every execution was previewed (\<open>previewed_before\<close> traces a batch back to
    the preview that made it), once; finished batches are final; \<open>fail_fast\<close>
    writes what writing all rows makes of the tables (\<open>after_jobs\<close>), or nothing; rows are accounted for,
    and one out of scope stops all writes. \<open>aborted_chunk_miscounts\<close> shows where the counts are wrong.

  \<^bold>\<open>Conventions.\<close> Records are the code's rows and data classes; a table is the list of its rows, so
  every tenant predicate is visible. An operation returns a result; one that changes state returns
  the new state too, and an exception before the commit leaves the state the caller had. An operation
  that takes row locks has two databases, \<open>db0\<close> for what it reads before the locks and \<open>db1\<close> for what
  it reads under them. In an import the function \<open>other\<close> is what other transactions commit to the user and
  association tables while it waits for its locks. The services do not commit; the request does when it
  ends, and rolls back when it raises (\<open>db/session.py\<close>), so an operation is one transaction. A savepoint is
  the state it began with. A coroutine that suspends takes the shared state once per stretch between two
  awaits. Times are integers (milliseconds in \<open>Hitl\<close>, microseconds in \<open>Gateway_Quota\<close>), ids are
  unbounded integers as in Python, strings hold the characters 0 to 255; the limit on the digits of
  \<open>int()\<close> and \<open>str()\<close> is modelled where an identifier's text is checked and left out elsewhere.

  \<^bold>\<open>Parameters.\<close> What is not code under \<open>src\<close> is an argument: the SHA-256 of a canonical JSON value
  (\<open>h\<close>, \<open>env_hash\<close>), Pydantic's \<open>to_camel\<close>, in \<open>Dept_Service\<close> Python's
  \<open>casefold\<close>, the database's \<open>LOWER\<close>, \<open>datetime.fromisoformat\<close> and the
  formatting of a time. So are the parts of the program that a component only asks for an answer: the
  completion checks and live facts of other services in \<open>Prepared_Action\<close>, the verified preflights and
  previews in \<open>Chat_Finalizer\<close>, the presence of a dry-run
  function in a module. For imports \<open>import_env\<close> collects them: hashes, ids, the storage of the failure file and
  the owner of an artifact; Redis' answers and the random batch ids are arguments. The text of a failed
  row's reason is left out, its error code is not.

  \<^bold>\<open>Termination and fuel.\<close> No definition uses fuel. The loops that are not structural carry measures:
  the descendant loop the departments not yet reached, the walk over result dependencies the results
  not yet seen, the walk from a menu to its root the menus not yet visited, the chunk loop of an
  import the rows left (a chunk has 100), decimal output the number. The loop of a hanging confirmation is a step relation.

  \<^bold>\<open>Not modelled.\<close> The HTTP layer (\<open>modules/*/api\<close>, \<open>middleware\<close>, \<open>main.py\<close>), the pydantic and ORM
  declarations beyond the columns used, logging and metrics, the SSE streams, the model calls, file
  storage, mail, migrations and the operational scripts: they are I/O or declarations. Still to be
  modelled, in the order of the plan: user export, the parser and the templates of import files,
  authentication, and the low-code marketplace.
\<close>

end
